(* ===== verification/Prelude.thy ===== *)
theory Prelude
  imports Main "HOL-Library.AList"
begin

text \<open>
  Shared vocabulary of the development: Go strings and byte slices, Go maps, clock values,
  results of fallible functions, and the lemmas and collections the component theories use.

  A Go \<open>string\<close> and a Go \<open>[]byte\<close> are both sequences of bytes; Isabelle's
  \<open>string\<close> is a list of 8-bit characters, so both are \<open>string\<close> here, and
  \<open>len\<close> counts bytes as it does in Go. A Go map is an association list read with
  \<open>map_of\<close>, written with \<open>AList.update\<close> and \<open>AList.delete\<close>; its length is
  the number of keys as long as the keys are distinct, which the components state in their
  invariants. Nothing depends on the order of the list, as nothing in Go may depend on the
  iteration order of a map. Clock readings (\<open>time.Time\<close>) and durations are integers
  (nanoseconds).
\<close>

type_synonym bytes = string
type_synonym time = int
type_synonym duration = int

type_synonym ('k, 'v) gomap = "('k \<times> 'v) list"

abbreviation second :: duration where "second \<equiv> 1000000000"
abbreviation minute :: duration where "minute \<equiv> 60 * second"
abbreviation hour :: duration where "hour \<equiv> 60 * minute"

section \<open>Go maps as association lists\<close>

abbreviation map_get :: "('k, 'v) gomap \<Rightarrow> 'k \<Rightarrow> 'v option" where
  "map_get m k \<equiv> map_of m k"

abbreviation map_put :: "'k \<Rightarrow> 'v \<Rightarrow> ('k, 'v) gomap \<Rightarrow> ('k, 'v) gomap" where
  "map_put k v m \<equiv> AList.update k v m"

abbreviation map_del :: "'k \<Rightarrow> ('k, 'v) gomap \<Rightarrow> ('k, 'v) gomap" where
  "map_del k m \<equiv> AList.delete k m"

definition map_wf :: "('k, 'v) gomap \<Rightarrow> bool" where
  "map_wf m \<longleftrightarrow> distinct (map fst m)"

named_theorems gomap_simps \<open>reading a Go map after a write\<close>

lemma map_wf_Nil [simp]: "map_wf []"
  by (simp add: map_wf_def)

lemma map_wf_put [simp]: "map_wf m \<Longrightarrow> map_wf (map_put k v m)"
  by (simp add: map_wf_def distinct_update)

lemma map_wf_del [simp]: "map_wf m \<Longrightarrow> map_wf (map_del k m)"
  by (simp add: map_wf_def distinct_delete)

lemma map_wf_filter [simp]: "map_wf m \<Longrightarrow> map_wf (filter p m)"
  by (induction m) (auto simp: map_wf_def)

lemma map_of_put [simp, gomap_simps]:
  "map_of (map_put k v m) k' = (if k' = k then Some v else map_of m k')"
  by (simp add: update_conv')

lemma map_of_del [simp, gomap_simps]:
  "map_of (map_del k m) k' = (if k' = k then None else map_of m k')"
  by (simp add: delete_conv')

lemma map_of_filter_wf:
  "map_wf m \<Longrightarrow>
   map_of (filter (\<lambda>(k, v). p k v) m) k =
     (case map_of m k of None \<Rightarrow> None | Some v \<Rightarrow> if p k v then Some v else None)"
proof (induction m)
  case Nil
  then show ?case by simp
next
  case (Cons x m)
  obtain k' v' where x: "x = (k', v')" by (cases x)
  from Cons.prems x have wf: "map_wf m" and fresh: "k' \<notin> fst ` set m"
    by (auto simp: map_wf_def)
  show ?case
  proof (cases "k = k'")
    case True
    with fresh have "map_of m k = None" by (simp add: map_of_eq_None_iff)
    with Cons.IH [OF wf] True x show ?thesis by simp
  next
    case False
    with Cons.IH [OF wf] x show ?thesis by simp
  qed
qed

lemma map_of_in_set: "map_of m k = Some v \<Longrightarrow> (k, v) \<in> set m"
  by (rule map_of_SomeD)

lemma map_wf_in_set: "map_wf m \<Longrightarrow> (k, v) \<in> set m \<Longrightarrow> map_of m k = Some v"
  by (simp add: map_wf_def)

text \<open>\<open>delete_expired\<close> of the stores counts the entries it drops: entries and keys agree.\<close>

lemma length_filter_split:
  "length (filter p xs) + length (filter (\<lambda>x. \<not> p x) xs) = length xs"
  by (induction xs) auto

section \<open>Results\<close>

text \<open>
  A Go function returning \<open>(T, error)\<close> is a sum: \<open>Inl\<close> the error, \<open>Inr\<close> the
  value. \<open>on_ok\<close> is the \<open>if err != nil { return ..., err }\<close> idiom.
\<close>

definition on_ok :: "'e + 'a \<Rightarrow> ('a \<Rightarrow> 'e + 'b) \<Rightarrow> 'e + 'b" where
  "on_ok r f = (case r of Inl e \<Rightarrow> Inl e | Inr x \<Rightarrow> f x)"

lemma on_ok_simps [simp]:
  "on_ok (Inl e) f = Inl e"
  "on_ok (Inr x) f = f x"
  by (simp_all add: on_ok_def)

lemma on_ok_eq_Inr: "on_ok r f = Inr y \<longleftrightarrow> (\<exists>x. r = Inr x \<and> f x = Inr y)"
  by (cases r) simp_all

lemma on_ok_eq_Inl: "on_ok r f = Inl e \<longleftrightarrow> r = Inl e \<or> (\<exists>x. r = Inr x \<and> f x = Inl e)"
  by (cases r) simp_all

text \<open>The errors of a step are rewrapped by the caller in many places.\<close>

definition map_err :: "('e \<Rightarrow> 'f) \<Rightarrow> 'e + 'a \<Rightarrow> 'f + 'a" where
  "map_err w r = (case r of Inl e \<Rightarrow> Inl (w e) | Inr x \<Rightarrow> Inr x)"

lemma map_err_simps [simp]:
  "map_err w (Inl e) = Inl (w e)"
  "map_err w (Inr x) = Inr x"
  by (simp_all add: map_err_def)

lemma map_err_eq_Inr [simp]: "map_err w r = Inr x \<longleftrightarrow> r = Inr x"
  by (cases r) simp_all

text \<open>The first element of a list on which a partial function is defined.\<close>

fun first_some :: "('a \<Rightarrow> 'b option) \<Rightarrow> 'a list \<Rightarrow> 'b option" where
  "first_some f [] = None"
| "first_some f (x # xs) = (case f x of Some y \<Rightarrow> Some y | None \<Rightarrow> first_some f xs)"

lemma first_some_append:
  "first_some f (xs @ ys) = (case first_some f xs of Some y \<Rightarrow> Some y | None \<Rightarrow> first_some f ys)"
  by (induction xs) (auto split: option.splits)

lemma first_some_None: "first_some f xs = None \<longleftrightarrow> (\<forall>x\<in>set xs. f x = None)"
  by (induction xs) (auto split: option.splits)

section \<open>Strings\<close>

definition has_prefix :: "string \<Rightarrow> string \<Rightarrow> bool" where
  "has_prefix s p \<longleftrightarrow> take (length p) s = p"

definition trim_prefix :: "string \<Rightarrow> string \<Rightarrow> string" where
  "trim_prefix s p = (if has_prefix s p then drop (length p) s else s)"

lemma has_prefix_append [simp]: "has_prefix (p @ s) p"
  by (simp add: has_prefix_def)

lemma trim_prefix_append [simp]: "trim_prefix (p @ s) p = s"
  by (simp add: trim_prefix_def)

lemma trim_prefix_not [simp]: "\<not> has_prefix s p \<Longrightarrow> trim_prefix s p = s"
  by (simp add: trim_prefix_def)

text \<open>The decimal text of a natural number (\<open>strconv.Itoa\<close>).\<close>

function show_nat :: "nat \<Rightarrow> string" where
  "show_nat n =
     (if n < 10 then [char_of (48 + n)] else show_nat (n div 10) @ [char_of (48 + n mod 10)])"
  by pat_completeness auto
termination
  by (relation "measure id") auto

declare show_nat.simps [simp del]

text \<open>\<open>strings.Contains\<close>.\<close>

fun contains_sub :: "string \<Rightarrow> string \<Rightarrow> bool" where
  "contains_sub [] p = (p = [])"
| "contains_sub (c # s) p = (has_prefix (c # s) p \<or> contains_sub s p)"

text \<open>\<open>strings.Cut(s, ":")\<close> when the separator is found: the part after it.\<close>

fun after_colon :: "string \<Rightarrow> string option" where
  "after_colon [] = None"
| "after_colon (c # s) = (if c = CHR '':'' then Some s else after_colon s)"

lemma after_colon_None: "after_colon s = None \<longleftrightarrow> CHR '':'' \<notin> set s"
  by (induction s) auto

text \<open>
  \<open>strings.TrimSpace\<close> drops leading and trailing Unicode white space. The strings are
  UTF-8, so each white-space rune is one of these byte sequences: the six ASCII ones and
  U+0085, U+00A0, U+1680, U+2000 to U+200A, U+2028, U+2029, U+202F, U+205F, U+3000.
\<close>

definition byte :: "nat \<Rightarrow> char" where
  "byte n = char_of n"

definition space_runes :: "string list" where
  "space_runes =
     map (\<lambda>n. [byte n]) [9, 10, 11, 12, 13, 32]
     @ map (\<lambda>n. [byte 0xC2, byte n]) [0x85, 0xA0]
     @ [[byte 0xE1, byte 0x9A, byte 0x80]]
     @ map (\<lambda>n. [byte 0xE2, byte 0x80, byte n]) [0x80..<0x8B]
     @ map (\<lambda>n. [byte 0xE2, byte 0x80, byte n]) [0xA8, 0xA9, 0xAF]
     @ [[byte 0xE2, byte 0x81, byte 0x9F], [byte 0xE3, byte 0x80, byte 0x80]]"

lemma space_runes_nonempty: "r \<in> set space_runes \<Longrightarrow> r \<noteq> []"
  by (auto simp: space_runes_def)

definition lead_space :: "string list \<Rightarrow> string \<Rightarrow> nat option" where
  "lead_space rs s = first_some (\<lambda>r. if r \<noteq> [] \<and> has_prefix s r then Some (length r) else None) rs"

lemma has_prefix_length: "has_prefix s p \<Longrightarrow> length p \<le> length s"
  by (metis append_take_drop_id has_prefix_def le_add1 length_append)

lemma first_some_SomeD: "first_some f xs = Some y \<Longrightarrow> \<exists>x\<in>set xs. f x = Some y"
  by (induction xs) (auto split: option.splits)

lemma lead_space_pos: "lead_space rs s = Some n \<Longrightarrow> 0 < n \<and> n \<le> length s"
  by (auto simp: lead_space_def dest!: first_some_SomeD has_prefix_length split: if_splits)

lemma lead_space_Nil [simp]: "lead_space rs [] = None"
  by (auto simp: lead_space_def first_some_None has_prefix_def)

function trim_left :: "string list \<Rightarrow> string \<Rightarrow> string" where
  "trim_left rs s = (case lead_space rs s of None \<Rightarrow> s | Some n \<Rightarrow> trim_left rs (drop n s))"
  by pat_completeness auto
termination
  by (relation "measure (\<lambda>(rs, s). length s)") (auto dest: lead_space_pos)

declare trim_left.simps [simp del]

definition trim_space :: "string \<Rightarrow> string" where
  "trim_space s = rev (trim_left (map rev space_runes) (rev (trim_left space_runes s)))"

lemma trim_left_idem: "lead_space rs (trim_left rs s) = None"
  by (induction rs s rule: trim_left.induct)
     (subst trim_left.simps, auto split: option.splits)

lemma trim_left_fixed: "lead_space rs s = None \<Longrightarrow> trim_left rs s = s"
  by (simp add: trim_left.simps [of rs s])

lemma trim_space_Nil [simp]: "trim_space [] = []"
  by (simp add: trim_space_def trim_left_fixed)

section \<open>Lists\<close>

text \<open>\<open>slices.Contains\<close> is membership; \<open>slices.Clone\<close> and \<open>append([]T(nil), s...)\<close>
  copy a slice, which on values is the identity. Dropping the elements with a given key:\<close>

lemma distinct_map_filter: "distinct (map f xs) \<Longrightarrow> distinct (map f (filter p xs))"
  by (induction xs) auto

lemma distinct_map_snoc:
  "distinct (map f (xs @ [x])) \<longleftrightarrow> distinct (map f xs) \<and> f x \<notin> f ` set xs"
  by auto

text \<open>Updating the first element that satisfies a predicate, as a \<open>for\<close> loop with a
  \<open>return\<close> or \<open>break\<close> in its body does; \<open>None\<close> when there is none.\<close>

fun update_first :: "('a \<Rightarrow> bool) \<Rightarrow> ('a \<Rightarrow> 'a) \<Rightarrow> 'a list \<Rightarrow> 'a list option" where
  "update_first p f [] = None"
| "update_first p f (x # xs) =
     (if p x then Some (f x # xs) else map_option ((#) x) (update_first p f xs))"

lemma update_first_None: "update_first p f xs = None \<longleftrightarrow> (\<forall>x\<in>set xs. \<not> p x)"
  by (induction xs) auto

lemma update_first_map:
  assumes "update_first p f xs = Some ys" and "\<And>x. g (f x) = g x"
  shows "map g ys = map g xs"
  using assms by (induction xs arbitrary: ys) (auto split: if_splits)

lemma update_first_set:
  "update_first p f xs = Some ys \<Longrightarrow> y \<in> set ys \<Longrightarrow> y \<in> set xs \<or> (\<exists>x\<in>set xs. p x \<and> y = f x)"
  by (induction xs arbitrary: ys) (auto split: if_splits)

lemma update_first_Some_ex: "update_first p f xs = Some ys \<Longrightarrow> \<exists>x\<in>set xs. p x"
  by (induction xs arbitrary: ys) (auto split: if_splits)

lemma find_Some_set: "find p xs = Some x \<Longrightarrow> x \<in> set xs \<and> p x"
  by (auto simp: find_Some_iff in_set_conv_nth)

lemma find_None_iff': "find p xs = None \<longleftrightarrow> (\<forall>x\<in>set xs. \<not> p x)"
  by (auto simp: find_None_iff)

text \<open>The two loops of the sources that look an element up and rewrite it agree.\<close>

lemma update_first_find:
  "find p xs = None \<longleftrightarrow> update_first p f xs = None"
  by (simp add: find_None_iff' update_first_None)

end
