(* ===== verification/Errors.thy ===== *)
theory Errors
  imports Prelude
begin

text \<open>
  The \<open>httperr\<close> package (\<open>httperr/errors.go\<close>, \<open>httperr/status.go\<close>,
  \<open>httperr/audience.go\<close>, \<open>httperr/structured.go\<close>) and the sentinels of
  \<open>identity-model/errors.go\<close>: the error values of the program, their mapping to HTTP
  statuses, the redaction of server faults, the \<open>Retry-After\<close> header and the HTMX login
  redirect.

  Errors of the library go-error-family are the constructor \<open>Fam\<close> (family, code,
  message, explicit status with 0 for none, context, cause); the package-level sentinels, which
  Go compares by pointer, are constructors of their own. What that library computes from an error
  (\<open>Classify\<close>, a family's status and texts, the rendered message) is a parameter, the
  record \<open>err_env\<close>; the predicate \<open>errorfamily_ok\<close> states the facts its
  documentation gives and the comments of this repository repeat.
\<close>

section \<open>Error values\<close>

datatype family =
    Rejection | Conflict | Transient | Corruption | Infrastructure | Orchestration
  | UnknownFamily

datatype http_sentinel =
    ErrUnauthorized | ErrForbidden | ErrDecodeFailed | ErrDispatchFailed | ErrEnforcerNil
  | ErrValidationFailed | ErrRequestTooLarge | ErrMethodNotAllowed | ErrUnsupportedMediaType
  | ErrCommandsNil | ErrQueriesNil | ErrDecoderMissing | ErrDecoderReturnedNil

datatype im_sentinel =
    IMErrUserNotFound | IMErrUserIDExists | IMErrEmailExists | IMErrInvalidCredentials
  | IMErrNoCredentials | IMErrWebAuthnNotConfigured | IMErrSessionDataNotFound
  | IMErrSessionNotFound | IMErrSessionExpired | IMErrForbidden | IMErrUnauthorized
  | IMErrValidation | IMErrAccountLocked | IMErrEnforcerNotInitialized
  | IMErrEmailVerificationNotConfigured | IMErrInvalidVerificationToken
  | IMErrEmailAlreadyVerified | IMErrTOTPNotConfigured | IMErrTOTPAlreadyEnabled
  | IMErrTOTPNotEnabled | IMErrInvalidTOTPCode | IMErrTOTPSetupExpired
  | IMErrOAuthNotConfigured | IMErrOAuthProviderNotFound | IMErrOAuthInvalidState
  | IMErrOAuthTokenExchange | IMErrExternalAccountAlreadyLinked | IMErrRegistrationClosed

type_synonym err_ctx = "(string \<times> string) list"

text \<open>
  \<open>Wrapped\<close> is any other error with a single \<open>Unwrap\<close> (a \<open>fmt.Errorf\<close>
  with \<open>%w\<close>, a \<open>StructuredError\<close>), \<open>Join\<close> is \<open>errors.Join\<close>,
  \<open>Coded\<close> a leaf of another module with a \<open>Code()\<close> method, \<open>Foreign\<close> a
  leaf with a message only, and \<open>CSRFInvalid\<close> the sentinel of the library httputil.
\<close>

datatype err =
    Sentinel http_sentinel
  | IMSentinel im_sentinel
  | CSRFInvalid
  | Fam family string string int err_ctx "err option"
  | HttpStatus int err
  | RetryAfter duration err
  | Wrapped string err
  | Join "err list"
  | Coded string string
  | Foreign string

definition CodeUnauthorized :: string where "CodeUnauthorized = ''unauthorized''"
definition CodeForbidden :: string where "CodeForbidden = ''forbidden''"

lemmas auth_codes = CodeUnauthorized_def CodeForbidden_def

fun sentinel_info :: "http_sentinel \<Rightarrow> family \<times> string \<times> string" where
  "sentinel_info ErrUnauthorized =
     (Rejection, CodeUnauthorized, ''unauthorized: authentication required'')"
| "sentinel_info ErrForbidden =
     (Rejection, CodeForbidden, ''forbidden: insufficient permissions'')"
| "sentinel_info ErrDecodeFailed =
     (Rejection, ''decode_failed'', ''failed to decode request body'')"
| "sentinel_info ErrDispatchFailed =
     (Transient, ''dispatch_failed'', ''command/query dispatch failed'')"
| "sentinel_info ErrEnforcerNil =
     (Infrastructure, ''enforcer_nil'', ''casbin enforcer is required for authorization'')"
| "sentinel_info ErrValidationFailed =
     (Rejection, ''validation_failed'', ''request validation failed'')"
| "sentinel_info ErrRequestTooLarge =
     (Rejection, ''request_too_large'', ''request body exceeds maximum size'')"
| "sentinel_info ErrMethodNotAllowed =
     (Rejection, ''method_not_allowed'', ''HTTP method not allowed'')"
| "sentinel_info ErrUnsupportedMediaType =
     (Rejection, ''unsupported_media_type'',
      ''request content type is not supported by this endpoint'')"
| "sentinel_info ErrCommandsNil =
     (Infrastructure, ''commands_nil'', ''command dispatcher is required'')"
| "sentinel_info ErrQueriesNil =
     (Infrastructure, ''queries_nil'', ''query dispatcher is required'')"
| "sentinel_info ErrDecoderMissing =
     (Infrastructure, ''decoder_missing'', ''request decoder is required'')"
| "sentinel_info ErrDecoderReturnedNil =
     (Corruption, ''decoder_returned_nil'',
      ''request decoder returned a nil result without an error - this is a server-side wiring bug'')"

fun im_sentinel_info :: "im_sentinel \<Rightarrow> family \<times> string" where
  "im_sentinel_info IMErrUserNotFound = (Rejection, ''usermgmt.user_not_found'')"
| "im_sentinel_info IMErrUserIDExists = (Rejection, ''usermgmt.user_id_exists'')"
| "im_sentinel_info IMErrEmailExists = (Conflict, ''usermgmt.email_exists'')"
| "im_sentinel_info IMErrInvalidCredentials = (Rejection, ''usermgmt.invalid_credentials'')"
| "im_sentinel_info IMErrNoCredentials = (Rejection, ''usermgmt.no_credentials'')"
| "im_sentinel_info IMErrWebAuthnNotConfigured = (Rejection, ''usermgmt.webauthn_not_configured'')"
| "im_sentinel_info IMErrSessionDataNotFound = (Rejection, ''usermgmt.session_data_not_found'')"
| "im_sentinel_info IMErrSessionNotFound = (Rejection, ''usermgmt.session_not_found'')"
| "im_sentinel_info IMErrSessionExpired = (Rejection, ''usermgmt.session_expired'')"
| "im_sentinel_info IMErrForbidden = (Rejection, ''forbidden'')"
| "im_sentinel_info IMErrUnauthorized = (Rejection, ''unauthorized'')"
| "im_sentinel_info IMErrValidation = (Rejection, ''usermgmt.validation'')"
| "im_sentinel_info IMErrAccountLocked = (Rejection, ''usermgmt.account_locked'')"
| "im_sentinel_info IMErrEnforcerNotInitialized =
     (Rejection, ''usermgmt.enforcer_not_initialized'')"
| "im_sentinel_info IMErrEmailVerificationNotConfigured =
     (Rejection, ''usermgmt.email_verification_not_configured'')"
| "im_sentinel_info IMErrInvalidVerificationToken =
     (Rejection, ''usermgmt.invalid_verification_token'')"
| "im_sentinel_info IMErrEmailAlreadyVerified = (Conflict, ''usermgmt.email_already_verified'')"
| "im_sentinel_info IMErrTOTPNotConfigured = (Rejection, ''usermgmt.totp_not_configured'')"
| "im_sentinel_info IMErrTOTPAlreadyEnabled = (Conflict, ''usermgmt.totp_already_enabled'')"
| "im_sentinel_info IMErrTOTPNotEnabled = (Rejection, ''usermgmt.totp_not_enabled'')"
| "im_sentinel_info IMErrInvalidTOTPCode = (Rejection, ''usermgmt.invalid_totp_code'')"
| "im_sentinel_info IMErrTOTPSetupExpired = (Rejection, ''usermgmt.totp_setup_expired'')"
| "im_sentinel_info IMErrOAuthNotConfigured = (Rejection, ''usermgmt.oauth_not_configured'')"
| "im_sentinel_info IMErrOAuthProviderNotFound =
     (Rejection, ''usermgmt.oauth_provider_not_found'')"
| "im_sentinel_info IMErrOAuthInvalidState = (Rejection, ''usermgmt.oauth_invalid_state'')"
| "im_sentinel_info IMErrOAuthTokenExchange =
     (Rejection, ''usermgmt.oauth_token_exchange_failed'')"
| "im_sentinel_info IMErrExternalAccountAlreadyLinked =
     (Conflict, ''usermgmt.external_account_linked_to_other'')"
| "im_sentinel_info IMErrRegistrationClosed = (Rejection, ''usermgmt.registration_closed'')"

text \<open>The constructors of go-error-family the sources call.\<close>

abbreviation new_error :: "family \<Rightarrow> string \<Rightarrow> string \<Rightarrow> err" where
  "new_error f code msg \<equiv> Fam f code msg 0 [] None"

abbreviation wrap_error :: "family \<Rightarrow> err \<Rightarrow> string \<Rightarrow> string \<Rightarrow> err" where
  "wrap_error f cause code msg \<equiv> Fam f code msg 0 [] (Some cause)"

section \<open>The \<open>errors\<close> package of Go\<close>

fun unwrap :: "err \<Rightarrow> err option" where
  "unwrap (Fam f c m s x cause) = cause"
| "unwrap (HttpStatus n e) = Some e"
| "unwrap (RetryAfter d e) = Some e"
| "unwrap (Wrapped m e) = Some e"
| "unwrap e = None"

text \<open>The nodes \<open>errors.Is\<close> and \<open>errors.As\<close> visit, in their order (pre-order, depth first).\<close>

fun nodes :: "err \<Rightarrow> err list" where
  "nodes (Join es) = Join es # concat (map nodes es)"
| "nodes (Fam f c m s x (Some e)) = Fam f c m s x (Some e) # nodes e"
| "nodes (HttpStatus n e) = HttpStatus n e # nodes e"
| "nodes (RetryAfter d e) = RetryAfter d e # nodes e"
| "nodes (Wrapped m e) = Wrapped m e # nodes e"
| "nodes e = [e]"

definition errors_is :: "err \<Rightarrow> err \<Rightarrow> bool" where
  "errors_is e target \<longleftrightarrow> target \<in> set (nodes e)"

definition errors_as :: "(err \<Rightarrow> 'a option) \<Rightarrow> err \<Rightarrow> 'a option" where
  "errors_as f e = first_some f (nodes e)"

lemma nodes_hd: "\<exists>es. nodes e = e # es"
  by (cases e rule: nodes.cases) auto

lemma nodes_self [simp]: "e \<in> set (nodes e)"
  using nodes_hd [of e] by auto

lemma unwrap_size: "unwrap e = Some e' \<Longrightarrow> size e' < size e"
  by (cases e) auto

text \<open>An error built without \<open>errors.Join\<close> is a chain: its nodes follow \<open>Unwrap\<close>.\<close>

fun is_chain :: "err \<Rightarrow> bool" where
  "is_chain (Join es) = False"
| "is_chain (Fam f c m s x (Some e)) = is_chain e"
| "is_chain (HttpStatus n e) = is_chain e"
| "is_chain (RetryAfter d e) = is_chain e"
| "is_chain (Wrapped m e) = is_chain e"
| "is_chain e = True"

lemma nodes_chain:
  "is_chain e \<Longrightarrow> nodes e = e # (case unwrap e of None \<Rightarrow> [] | Some e' \<Rightarrow> nodes e')"
  by (cases e rule: is_chain.cases) auto

lemma is_chain_unwrap: "is_chain e \<Longrightarrow> unwrap e = Some e' \<Longrightarrow> is_chain e'"
  by (cases e rule: is_chain.cases) auto

text \<open>The methods the sources look for in a chain.\<close>

fun coder :: "err \<Rightarrow> string option" where
  "coder (Sentinel s) = Some (fst (snd (sentinel_info s)))"
| "coder (IMSentinel s) = Some (snd (im_sentinel_info s))"
| "coder (Fam f c m s x cause) = Some c"
| "coder (Coded m c) = Some c"
| "coder e = None"

fun family_code :: "err \<Rightarrow> string option" where
  "family_code (Coded m c) = None"
| "family_code e = coder e"

fun status_carrier :: "err \<Rightarrow> int option" where
  "status_carrier (HttpStatus n e) = Some n"
| "status_carrier (Fam f c m s x cause) = Some s"
| "status_carrier (Sentinel s) = Some 0"
| "status_carrier (IMSentinel s) = Some 0"
| "status_carrier e = None"

fun retry_carrier :: "err \<Rightarrow> duration option" where
  "retry_carrier (RetryAfter d e) = Some d"
| "retry_carrier e = None"

fun error_context :: "err \<Rightarrow> err_ctx option" where
  "error_context (Fam f c m s x cause) = Some x"
| "error_context (Sentinel s) = Some []"
| "error_context (IMSentinel s) = Some []"
| "error_context e = None"

section \<open>What go-error-family computes\<close>

record err_env =
  classify :: "err \<Rightarrow> family"
  family_status :: "family \<Rightarrow> int"
  family_name :: "family \<Rightarrow> string"
  family_valid :: "family \<Rightarrow> bool"
  default_message :: "family \<Rightarrow> string"
  default_why :: "family \<Rightarrow> string"
  default_fix :: "family \<Rightarrow> string"
  library_text :: "err \<Rightarrow> string"

definition errorfamily_ok :: "err_env \<Rightarrow> bool" where
  "errorfamily_ok E \<longleftrightarrow>
     (\<forall>f c m s x k. classify E (Fam f c m s x k) = f)
     \<and> (\<forall>s. classify E (Sentinel s) = fst (sentinel_info s))
     \<and> (\<forall>s. classify E (IMSentinel s) = fst (im_sentinel_info s))
     \<and> (\<forall>n e. classify E (HttpStatus n e) = classify E e)
     \<and> (\<forall>d e. classify E (RetryAfter d e) = classify E e)
     \<and> family_status E Rejection = 400 \<and> family_status E Conflict = 409
     \<and> family_status E Transient = 503 \<and> family_status E Corruption = 500
     \<and> family_status E Infrastructure = 503"

fun error_text :: "err_env \<Rightarrow> err \<Rightarrow> string" where
  "error_text E (HttpStatus n e) = error_text E e"
| "error_text E (RetryAfter d e) = error_text E e"
| "error_text E e = library_text E e"

end
