(* ===== verification/Error_Mapping.thy ===== *)
theory Error_Mapping
  imports Errors
begin

text \<open>
  \<open>MapError\<close>, \<open>carrierStatus\<close>, \<open>ErrorCode\<close>, \<open>SafeDetail\<close>,
  \<open>setRetryAfterHeader\<close>, \<open>HandleErrorCore\<close> and \<open>newStructuredErrorFromContext\<close>
  of the package \<open>httperr\<close>, with \<open>IsForbidden\<close> of the root package's
  \<open>authz_contract.go\<close>. The lemmas give the resolution order of \<open>MapError\<close> branch
  by branch, what a chain of wrappers carries, and that a public reader of a server fault learns
  nothing but the family.
\<close>

section \<open>Explicit statuses\<close>

definition WithHTTPStatus :: "err option \<Rightarrow> int \<Rightarrow> err option" where
  "WithHTTPStatus e status = map_option (HttpStatus status) e"

definition WithRetryAfter :: "err option \<Rightarrow> duration \<Rightarrow> err option" where
  "WithRetryAfter e delay = map_option (RetryAfter delay) e"

definition valid_http_status :: "int \<Rightarrow> bool" where
  "valid_http_status status \<longleftrightarrow> 100 \<le> status \<and> status \<le> 599"

text \<open>The loop of \<open>carrierStatus\<close>: each round asks \<open>errors.AsType\<close> for the first carrier
  below \<open>current\<close>, then moves \<open>current\<close> one \<open>Unwrap\<close> down.\<close>

function carrier_status :: "err \<Rightarrow> int option" where
  "carrier_status current =
     (case errors_as status_carrier current of
        Some status \<Rightarrow>
          if status = 0 then
            (case unwrap current of None \<Rightarrow> None | Some next \<Rightarrow> carrier_status next)
          else if valid_http_status status then Some status
          else Some 500
      | None \<Rightarrow> (case unwrap current of None \<Rightarrow> None | Some next \<Rightarrow> carrier_status next))"
  by pat_completeness auto
termination
  by (relation "measure size") (auto dest: unwrap_size)

declare carrier_status.simps [simp del]

definition is_panic_error :: "err \<Rightarrow> bool" where
  "is_panic_error e \<longleftrightarrow> errors_as family_code e = Some ''panic''"

definition auth_status_from_code :: "err \<Rightarrow> int option" where
  "auth_status_from_code e =
     (case errors_as coder e of
        None \<Rightarrow> None
      | Some code \<Rightarrow>
          if code = CodeUnauthorized then Some 401
          else if code = CodeForbidden then Some 403
          else None)"

definition explicit_error_status :: "err \<Rightarrow> int" where
  "explicit_error_status e =
     (if is_panic_error e then 500
      else if errors_is e (Sentinel ErrUnauthorized) then 401
      else if errors_is e (Sentinel ErrForbidden) \<or> errors_is e CSRFInvalid then 403
      else if errors_is e (Sentinel ErrRequestTooLarge) then 413
      else if errors_is e (Sentinel ErrMethodNotAllowed) then 405
      else if errors_is e (Sentinel ErrUnsupportedMediaType) then 415
      else (case auth_status_from_code e of Some status \<Rightarrow> status | None \<Rightarrow> 0))"

definition MapError :: "err_env \<Rightarrow> err option \<Rightarrow> int" where
  "MapError E err =
     (case err of
        None \<Rightarrow> 500
      | Some e \<Rightarrow>
          (case carrier_status e of
             Some status \<Rightarrow> status
           | None \<Rightarrow>
               (let status = explicit_error_status e
                in if status \<noteq> 0 then status else family_status E (classify E e))))"

section \<open>Codes\<close>

text \<open>\<open>ErrorCode\<close>: the code found last while walking down the \<open>Unwrap\<close> chain.\<close>

function error_code_from :: "string \<Rightarrow> err \<Rightarrow> string" where
  "error_code_from deepest current =
     (let deepest' = (case errors_as coder current of Some c \<Rightarrow> c | None \<Rightarrow> deepest)
      in case unwrap current of None \<Rightarrow> deepest' | Some next \<Rightarrow> error_code_from deepest' next)"
  by pat_completeness auto
termination
  by (relation "measure (\<lambda>(d, e). size e)") (auto dest: unwrap_size)

declare error_code_from.simps [simp del]

definition ErrorCode :: "err option \<Rightarrow> string" where
  "ErrorCode err = (case err of None \<Rightarrow> [] | Some e \<Rightarrow> error_code_from [] e)"

text \<open>\<open>carriesCode\<close> asks the library's \<open>Code\<close> (the parameter \<open>code_of\<close>) at every level of
  the \<open>Unwrap\<close> chain.\<close>

function carries_code :: "(err \<Rightarrow> string) \<Rightarrow> string \<Rightarrow> err \<Rightarrow> bool" where
  "carries_code code_of code e =
     (code_of e = code \<or>
      (case unwrap e of None \<Rightarrow> False | Some next \<Rightarrow> carries_code code_of code next))"
  by pat_completeness auto
termination
  by (relation "measure (\<lambda>(f, c, e). size e)") (auto dest: unwrap_size)

declare carries_code.simps [simp del]

definition IsForbidden :: "(err \<Rightarrow> string) \<Rightarrow> err option \<Rightarrow> bool" where
  "IsForbidden code_of err =
     (case err of None \<Rightarrow> False | Some e \<Rightarrow> carries_code code_of CodeForbidden e)"

definition IsUnauthorized :: "(err \<Rightarrow> string) \<Rightarrow> err option \<Rightarrow> bool" where
  "IsUnauthorized code_of err =
     (case err of None \<Rightarrow> False | Some e \<Rightarrow> carries_code code_of CodeUnauthorized e)"

section \<open>Redaction\<close>

datatype audience = AudiencePublic | AudienceOperator

definition SafeDetailFor :: "err_env \<Rightarrow> err option \<Rightarrow> int \<Rightarrow> audience \<Rightarrow> string" where
  "SafeDetailFor E err status aud =
     (case err of
        None \<Rightarrow> []
      | Some e \<Rightarrow>
          if status < 500 \<or> aud = AudienceOperator then error_text E e
          else default_message E (classify E e))"

definition SafeDetail :: "err_env \<Rightarrow> err option \<Rightarrow> int \<Rightarrow> bool \<Rightarrow> string" where
  "SafeDetail E err status includeInternal =
     (if includeInternal then SafeDetailFor E err status AudienceOperator
      else SafeDetailFor E err status AudiencePublic)"

record structured_error =
  se_type :: string
  se_title :: string
  se_status :: int
  se_detail :: string
  se_message :: string
  se_why :: string
  se_fix :: string
  se_instance :: string
  se_code :: string
  se_context :: err_ctx

definition family_type :: "err_env \<Rightarrow> family \<Rightarrow> string" where
  "family_type E f = (if family_valid E f then family_name E f else ''about:blank'')"

text \<open>The status texts come from the standard library's table \<open>http.StatusText\<close>, the argument
  \<open>std_text\<close>.\<close>

definition status_title :: "(int \<Rightarrow> string) \<Rightarrow> int \<Rightarrow> string" where
  "status_title std_text status =
     (let text = std_text status in if text \<noteq> [] then text else ''Internal Server Error'')"

text \<open>\<open>newStructuredErrorFromContext\<close>; \<open>rid\<close> is the request ID of the context, empty when
  there is none.\<close>

definition new_structured_error ::
  "err_env \<Rightarrow> (int \<Rightarrow> string) \<Rightarrow> err \<Rightarrow> string \<Rightarrow> audience \<Rightarrow> structured_error" where
  "new_structured_error E std_text e rid aud =
     (let status = MapError E (Some e);
          family = classify E e
      in \<lparr> se_type = family_type E family,
           se_title = status_title std_text status,
           se_status = status,
           se_detail = SafeDetailFor E (Some e) status aud,
           se_message = default_message E family,
           se_why = default_why E family,
           se_fix = default_fix E family,
           se_instance = rid,
           se_code = ErrorCode (Some e),
           se_context =
             (case error_context e of
                None \<Rightarrow> []
              | Some x \<Rightarrow> if status < 500 \<or> aud = AudienceOperator then x else []) \<rparr>)"

section \<open>Responses\<close>

text \<open>
  What an error handler writes: the status, the headers that were set and the body. A body writer
  adds the content type and the body to a response whose status and headers are decided.
\<close>

record error_response =
  er_status :: int
  er_headers :: "(string \<times> string) list"
  er_body :: string

text \<open>The header is in whole seconds, rounded up; the duration is in nanoseconds.\<close>

definition retry_after_seconds :: "err \<Rightarrow> int" where
  "retry_after_seconds e =
     (let delay = (case errors_as retry_carrier e of
                     Some d \<Rightarrow> if 0 < d then d else second
                   | None \<Rightarrow> second)
      in max ((delay + (second - 1)) div second) 1)"

definition set_retry_after_header :: "err \<Rightarrow> int \<Rightarrow> int option" where
  "set_retry_after_header e status =
     (if status \<noteq> 503 then None else Some (retry_after_seconds e))"

definition is_auth_error :: "err \<Rightarrow> bool" where
  "is_auth_error e \<longleftrightarrow>
     errors_is e (Sentinel ErrUnauthorized) \<or> errors_is e (Sentinel ErrForbidden)
     \<or> errors_is e CSRFInvalid \<or> auth_status_from_code e \<noteq> None"

datatype handled =
    Redirected string int
  | Handled int "int option"

text \<open>\<open>HandleErrorCore\<close>: an HTMX request gets the login redirect for an authentication error,
  every other request the mapped status, the \<open>Retry-After\<close> header and a body.\<close>

definition HandleErrorCore :: "err_env \<Rightarrow> bool \<Rightarrow> err \<Rightarrow> string \<Rightarrow> handled" where
  "HandleErrorCore E is_htmx e login_redirect =
     (let redirect = (if login_redirect = [] then ''/login'' else login_redirect)
      in if is_htmx \<and> is_auth_error e then Redirected redirect 303
         else (let status = MapError E (Some e)
               in Handled status (set_retry_after_header e status)))"

definition prefix_request_id :: "string \<Rightarrow> string \<Rightarrow> string" where
  "prefix_request_id rid detail =
     (if rid \<noteq> [] then ''[request_id: '' @ rid @ ''] '' @ detail else detail)"

definition plain_body ::
  "err_env \<Rightarrow> string \<Rightarrow> bool \<Rightarrow> bool \<Rightarrow> err \<Rightarrow> int \<Rightarrow> error_response" where
  "plain_body E rid includeInternal includeRequestID e status =
     (let detail = SafeDetail E (Some e) status includeInternal
      in \<lparr> er_status = status,
           er_headers = [(''Content-Type'', ''text/plain; charset=utf-8'')],
           er_body = (if includeRequestID then prefix_request_id rid detail else detail) \<rparr>)"

text \<open>\<open>jsonBodyWriter\<close>: the members of the JSON object, before serialisation.\<close>

record json_error =
  je_error :: string
  je_status :: int
  je_code :: "string option"
  je_request_id :: "string option"

definition json_body :: "err_env \<Rightarrow> string \<Rightarrow> bool \<Rightarrow> err \<Rightarrow> int \<Rightarrow> json_error" where
  "json_body E rid includeInternal e status =
     \<lparr> je_error = SafeDetail E (Some e) status includeInternal,
       je_status = status,
       je_code = (let c = ErrorCode (Some e) in if c \<noteq> [] then Some c else None),
       je_request_id = (if rid \<noteq> [] then Some rid else None) \<rparr>"

section \<open>The resolution order\<close>

named_theorems err_simps \<open>unfolding of error lookups\<close>

lemmas [err_simps] =
  errors_as_def errors_is_def is_panic_error_def auth_status_from_code_def auth_codes

text \<open>The first nonzero status on the way down a chain.\<close>

definition nonzero_carrier :: "err \<Rightarrow> int option" where
  "nonzero_carrier e = (case status_carrier e of Some s \<Rightarrow> if s = 0 then None else Some s | None \<Rightarrow> None)"

definition clamp_status :: "int \<Rightarrow> int" where
  "clamp_status s = (if valid_http_status s then s else 500)"

lemma errors_as_chain:
  "is_chain e \<Longrightarrow>
   errors_as f e =
     (case f e of Some y \<Rightarrow> Some y
      | None \<Rightarrow> (case unwrap e of None \<Rightarrow> None | Some e' \<Rightarrow> errors_as f e'))"
  by (simp add: errors_as_def nodes_chain split: option.splits)

lemma carrier_status_clamped: "carrier_status e = Some s \<Longrightarrow> valid_http_status s"
  by (induction e rule: carrier_status.induct)
     (subst (asm) (2) carrier_status.simps,
      auto simp: valid_http_status_def split: option.splits if_splits)

lemma first_some_refine:
  assumes "\<And>x. g x = (case f x of Some y \<Rightarrow> if p y then None else Some y | None \<Rightarrow> None)"
  shows "first_some f xs = Some y \<Longrightarrow> \<not> p y \<Longrightarrow> first_some g xs = Some y"
  using assms by (induction xs) (auto split: option.splits)

lemma errors_as_nonzero:
  "errors_as status_carrier e = Some s \<Longrightarrow> s \<noteq> 0 \<Longrightarrow> errors_as nonzero_carrier e = Some s"
  unfolding errors_as_def
  by (rule first_some_refine [where p = "\<lambda>s. s = 0"]) (simp_all add: nonzero_carrier_def)

lemma errors_as_nonzero_None:
  "errors_as status_carrier e = None \<Longrightarrow> errors_as nonzero_carrier e = None"
  by (auto simp: errors_as_def nonzero_carrier_def first_some_None)

lemma nonzero_skip:
  assumes "is_chain e" and "errors_as status_carrier e = Some 0"
  shows "errors_as nonzero_carrier e =
    (case unwrap e of None \<Rightarrow> None | Some e' \<Rightarrow> errors_as nonzero_carrier e')"
  using assms by (auto simp: errors_as_chain nonzero_carrier_def split: option.splits)

lemma carrier_status_chain:
  "is_chain e \<Longrightarrow> carrier_status e = map_option clamp_status (errors_as nonzero_carrier e)"
proof (induction e rule: carrier_status.induct)
  case (1 e)
  show ?case
  proof (cases "errors_as status_carrier e")
    case None
    have IH: "carrier_status e' = map_option clamp_status (errors_as nonzero_carrier e')"
      if "unwrap e = Some e'" for e'
      using 1 None that is_chain_unwrap by blast
    have "errors_as nonzero_carrier e' = None" if "unwrap e = Some e'" for e'
      using None 1(3) that errors_as_chain [OF 1(3), of nonzero_carrier] errors_as_nonzero_None
      by (auto split: option.splits)
    with IH None errors_as_nonzero_None [OF None] show ?thesis
      by (subst carrier_status.simps) (auto split: option.splits)
  next
    case (Some s)
    have IH: "carrier_status e' = map_option clamp_status (errors_as nonzero_carrier e')"
      if "s = 0" "unwrap e = Some e'" for e'
      using 1 Some that is_chain_unwrap by metis
    show ?thesis
    proof (cases "s = 0")
      case True
      with IH Some nonzero_skip [OF 1(3)] show ?thesis
        by (subst carrier_status.simps) (auto split: option.splits)
    next
      case False
      with Some errors_as_nonzero [OF Some] show ?thesis
        by (subst carrier_status.simps) (simp add: clamp_status_def)
    qed
  qed
qed

lemma explicit_skip:
  assumes "nodes e = w # nodes e'" and "coder w = None" and "family_code w = None"
    and "\<And>s. w \<noteq> Sentinel s" and "w \<noteq> CSRFInvalid"
  shows "explicit_error_status e = explicit_error_status e'"
  using assms(1-3) assms(4) [symmetric] assms(5) [symmetric]
  by (simp add: explicit_error_status_def err_simps)

section \<open>Properties\<close>

lemma nodes_HttpStatus: "nodes (HttpStatus n e) = HttpStatus n e # nodes e"
  by simp

lemma carrier_status_HttpStatus:
  "carrier_status (HttpStatus n e) = (if n = 0 then carrier_status e else Some (clamp_status n))"
  by (subst carrier_status.simps) (simp add: errors_as_def clamp_status_def)

text \<open>An environment that satisfies the documented facts, used by the witnesses.\<close>

fun demo_classify :: "err \<Rightarrow> family" where
  "demo_classify (Fam f c m s x k) = f"
| "demo_classify (Sentinel s) = fst (sentinel_info s)"
| "demo_classify (IMSentinel s) = fst (im_sentinel_info s)"
| "demo_classify (HttpStatus n e) = demo_classify e"
| "demo_classify (RetryAfter d e) = demo_classify e"
| "demo_classify (Wrapped m e) = demo_classify e"
| "demo_classify e = Transient"

fun demo_family_status :: "family \<Rightarrow> int" where
  "demo_family_status Rejection = 400"
| "demo_family_status Conflict = 409"
| "demo_family_status Transient = 503"
| "demo_family_status Infrastructure = 503"
| "demo_family_status f = 500"

definition demo_err_env :: err_env where
  "demo_err_env =
     \<lparr> classify = demo_classify, family_status = demo_family_status,
       family_name = (\<lambda>f. ''family''), family_valid = (\<lambda>f. f \<noteq> UnknownFamily),
       default_message = (\<lambda>f. ''message''), default_why = (\<lambda>f. ''why''),
       default_fix = (\<lambda>f. ''fix''), library_text = (\<lambda>e. case coder e of None \<Rightarrow> ''?'' | Some c \<Rightarrow> c) \<rparr>"

lemma demo_err_env_ok: "errorfamily_ok demo_err_env"
  by (simp add: errorfamily_ok_def demo_err_env_def)

text \<open>An explicit status wins over every other source: \<open>MapError\<close> of an error
  annotated by \<open>WithHTTPStatus\<close> is that status, 500 when the status is no HTTP status, and
  what it was before when the annotation is 0.\<close>

theorem MapError_WithHTTPStatus:
  assumes "errorfamily_ok E"
  shows "MapError E (WithHTTPStatus (Some e) st) =
    (if st = 0 then MapError E (Some e) else if 100 \<le> st \<and> st \<le> 599 then st else 500)"
proof -
  have "explicit_error_status (HttpStatus st e) = explicit_error_status e"
    by (rule explicit_skip [OF nodes_HttpStatus]) simp_all
  moreover have "classify E (HttpStatus st e) = classify E e"
    using assms by (simp add: errorfamily_ok_def)
  ultimately show ?thesis
    by (auto simp: MapError_def WithHTTPStatus_def carrier_status_HttpStatus clamp_status_def
        valid_http_status_def Let_def split: option.splits)
qed

lemma MapError_WithHTTPStatus_witness:
  "MapError demo_err_env (WithHTTPStatus (Some (Sentinel ErrForbidden)) 404) = 404
   \<and> MapError demo_err_env (WithHTTPStatus (Some (Sentinel ErrForbidden)) 777) = 500"
  using MapError_WithHTTPStatus [OF demo_err_env_ok, of "Sentinel ErrForbidden" 404]
    MapError_WithHTTPStatus [OF demo_err_env_ok, of "Sentinel ErrForbidden" 777]
  by simp

text \<open>For every error built without \<open>errors.Join\<close>, however deeply wrapped, the
  explicit status \<open>MapError\<close> answers is the outermost nonzero one, clamped; without one it
  is the status of the sentinel or authentication code, and without that the family's.\<close>

theorem MapError_chain:
  assumes "is_chain e"
  shows "MapError E (Some e) =
    (case errors_as nonzero_carrier e of
       Some s \<Rightarrow> clamp_status s
     | None \<Rightarrow> if explicit_error_status e \<noteq> 0 then explicit_error_status e
               else family_status E (classify E e))"
  using carrier_status_chain [OF assms]
  by (simp add: MapError_def Let_def split: option.splits)

lemma MapError_chain_witness:
  "MapError demo_err_env
     (Some (Wrapped ''w'' (RetryAfter 5 (Fam Conflict ''c'' ''m'' 0 [] (Some (HttpStatus 418 (Foreign ''x''))))))) = 418"
  using MapError_chain
    [of "Wrapped ''w'' (RetryAfter 5 (Fam Conflict ''c'' ''m'' 0 [] (Some (HttpStatus 418 (Foreign ''x'')))))"
        demo_err_env]
  by (simp add: errors_as_def nonzero_carrier_def clamp_status_def valid_http_status_def)

text \<open>Inside \<open>errors.Join\<close> an explicit status can be lost: when the first joined
  error is a family error without a status, the walk of \<open>carrierStatus\<close> ends at the join and
  a later member's explicit status is not found, while the same status alone is answered.\<close>

theorem carrier_status_join_lost:
  "carrier_status (Join (Fam f c m 0 x k # es)) = None
   \<and> carrier_status (HttpStatus 404 e) = Some 404"
  by (subst carrier_status.simps)
     (cases k; simp add: errors_as_def carrier_status_HttpStatus clamp_status_def
       valid_http_status_def)

lemma auth_status_range: "auth_status_from_code e = Some s \<Longrightarrow> s = 401 \<or> s = 403"
  by (auto simp: auth_status_from_code_def split: option.splits if_splits)

lemma explicit_error_status_valid:
  "explicit_error_status e = 0 \<or> valid_http_status (explicit_error_status e)"
  by (auto simp: explicit_error_status_def valid_http_status_def split: option.splits
      dest: auth_status_range)

text \<open>\<open>MapError\<close> answers a status \<open>http.ResponseWriter\<close> accepts for every error,
  nil included, provided the families' own statuses are HTTP statuses: no caller-chosen carrier
  makes \<open>WriteHeader\<close> panic.\<close>

theorem MapError_valid:
  assumes "\<And>f. valid_http_status (family_status E f)"
  shows "valid_http_status (MapError E err)"
  using assms explicit_error_status_valid carrier_status_clamped
  by (auto simp: MapError_def Let_def valid_http_status_def split: option.splits)

lemma MapError_valid_witness:
  "valid_http_status (MapError demo_err_env (Some (HttpStatus 70000 (Foreign ''boom''))))"
  by (rule MapError_valid) (case_tac f; simp add: demo_err_env_def valid_http_status_def)

lemmas MapError_chain_simps =
  carrier_status_chain MapError_def errors_as_def nonzero_carrier_def explicit_error_status_def
  is_panic_error_def errors_is_def auth_status_from_code_def auth_codes

text \<open>An error of the identity module is recognised as an authentication failure by its
  code, however it is annotated by status-less wrappers that carry no code of their own: the
  forbidden sentinel of \<open>identity-model\<close> maps to 403 and the unauthorized one to 401, as
  the sentinels of \<open>httperr\<close> do.\<close>

fun annotate :: "string list \<Rightarrow> err \<Rightarrow> err" where
  "annotate [] e = e"
| "annotate (m # ms) e = Wrapped m (annotate ms e)"

lemma annotate_chain: "is_chain e \<Longrightarrow> is_chain (annotate ms e)"
  by (induction ms) auto

lemma annotate_as:
  "(\<And>m e. f (Wrapped m e) = None) \<Longrightarrow> errors_as f (annotate ms e) = errors_as f e"
  by (induction ms) (simp_all add: errors_as_def)

lemma annotate_is:
  "(\<And>m e. t \<noteq> Wrapped m e) \<Longrightarrow> errors_is (annotate ms e) t = errors_is e t"
  by (induction ms) (auto simp: errors_is_def)

lemma annotate_explicit:
  "explicit_error_status (annotate ms e) = explicit_error_status e"
  by (simp add: explicit_error_status_def is_panic_error_def auth_status_from_code_def
      annotate_as annotate_is)

theorem MapError_auth_modules:
  "MapError E (Some (annotate ms (IMSentinel IMErrForbidden))) = 403
   \<and> MapError E (Some (annotate ms (Sentinel ErrForbidden))) = 403
   \<and> MapError E (Some (annotate ms (IMSentinel IMErrUnauthorized))) = 401
   \<and> MapError E (Some (annotate ms (Sentinel ErrUnauthorized))) = 401"
proof -
  have carrier: "carrier_status (annotate ms e) = None"
    if "e = IMSentinel i \<or> e = Sentinel s" for e i s
  proof -
    from that have "is_chain e" and "errors_as nonzero_carrier e = None"
      by (auto simp: errors_as_def nonzero_carrier_def)
    then show ?thesis
      by (simp add: carrier_status_chain annotate_chain annotate_as nonzero_carrier_def)
  qed
  have "explicit_error_status (IMSentinel IMErrForbidden) = 403"
    "explicit_error_status (Sentinel ErrForbidden) = 403"
    "explicit_error_status (IMSentinel IMErrUnauthorized) = 401"
    "explicit_error_status (Sentinel ErrUnauthorized) = 401"
    by (simp_all add: explicit_error_status_def err_simps)
  then show ?thesis
    by (simp add: MapError_def carrier annotate_explicit)
qed

text \<open>C9. Of a server fault a public reader is told the texts of its family, its status, its code and the identifier of
  the request, and nothing else. The detail and the (empty) context are the same for any two errors of a family; when
  status and code are the same too, so is the whole body, in each of its three forms, whatever messages, causes
  and context the errors have.\<close>

theorem server_fault_redacted:
  assumes "classify E e = classify E e'"
    and "MapError E (Some e) \<ge> 500" and "MapError E (Some e') \<ge> 500"
  shows "SafeDetail E (Some e) (MapError E (Some e)) False
           = SafeDetail E (Some e') (MapError E (Some e')) False
    \<and> se_context (new_structured_error E std_text e rid AudiencePublic) = []
    \<and> se_detail (new_structured_error E std_text e rid AudiencePublic)
        = se_detail (new_structured_error E std_text e' rid' AudiencePublic)
    \<and> plain_body E rid False named e (MapError E (Some e))
        = (plain_body E rid False named e' (MapError E (Some e'))) \<lparr> er_status := MapError E (Some e) \<rparr>
    \<and> (MapError E (Some e) = MapError E (Some e') \<and> ErrorCode (Some e) = ErrorCode (Some e') \<longrightarrow>
        new_structured_error E std_text e rid AudiencePublic = new_structured_error E std_text e' rid AudiencePublic
        \<and> json_body E rid False e (MapError E (Some e)) = json_body E rid False e' (MapError E (Some e')))"
  using assms
  by (auto simp: SafeDetail_def SafeDetailFor_def new_structured_error_def plain_body_def json_body_def Let_def
      split: option.splits)

lemma server_fault_redacted_witness:
  "SafeDetail demo_err_env (Some (Fam Corruption ''a'' ''disk /dev/sda1 is dead'' 0 [(''k'', ''v'')] None)) 500 False
   = SafeDetail demo_err_env (Some (Fam Corruption ''b'' ''password=hunter2'' 0 [] None)) 500 False"
proof -
  have "MapError demo_err_env (Some (Fam Corruption c m 0 x None)) = 500"
    if "c = ''a'' \<or> c = ''b''" for c m x
    using that
    by (auto simp: MapError_chain_simps demo_err_env_def)
  then show ?thesis
    using server_fault_redacted [of demo_err_env
        "Fam Corruption ''a'' ''disk /dev/sda1 is dead'' 0 [(''k'', ''v'')] None"
        "Fam Corruption ''b'' ''password=hunter2'' 0 [] None"]
    by (simp add: demo_err_env_def)
qed

text \<open>An HTMX request is sent to the login page exactly when the error is an authentication
  error, and it never gets a bare 401 or 403 body unless a caller annotated the error with that
  status: every error the status mapping itself turns into 401 or 403 is one the redirect
  recognises, although the two tests are written separately.\<close>

theorem htmx_login_redirect:
  assumes "carrier_status e = None"
    and "\<And>f. family_status E f \<notin> {401, 403}"
  shows "(HandleErrorCore E True e login = Redirected (if login = [] then ''/login'' else login) 303
           \<longleftrightarrow> is_auth_error e)
    \<and> HandleErrorCore E True e login \<notin> range (Handled 401) \<union> range (Handled 403)"
  using assms
  by (auto simp: HandleErrorCore_def Let_def MapError_def is_auth_error_def
      explicit_error_status_def split: option.splits if_splits)

lemma htmx_login_redirect_witness:
  "HandleErrorCore demo_err_env True (Wrapped ''w'' (IMSentinel IMErrForbidden)) []
     = Redirected ''/login'' 303"
proof -
  have none: "carrier_status (Wrapped ''w'' (IMSentinel IMErrForbidden)) = None"
    by (simp add: MapError_chain_simps)
  have ok: "\<And>f. family_status demo_err_env f \<notin> {401, 403}"
    by (case_tac f; simp add: demo_err_env_def)
  show ?thesis
    using htmx_login_redirect [OF none ok, of "[]"]
    by (simp add: is_auth_error_def err_simps)
qed

text \<open>The \<open>Retry-After\<close> value is the least whole number of seconds that is at least the
  requested delay, and at least one; without a positive requested delay it is one second.\<close>

theorem retry_after_least:
  "1 \<le> retry_after_seconds e
   \<and> (case errors_as retry_carrier e of
        Some d \<Rightarrow>
          if 0 < d then d \<le> retry_after_seconds e * second \<and> (retry_after_seconds e - 1) * second < d
          else retry_after_seconds e = 1
      | None \<Rightarrow> retry_after_seconds e = 1)"
  by (auto simp: retry_after_seconds_def Let_def split: option.splits)

end
