(* ===== verification/Identity.thy ===== *)
theory Identity
  imports Errors "HOL-Library.Word"
begin

text \<open>
  The data model of the package \<open>identity-model\<close>: identifiers (\<open>id.go\<close>), credentials
  and external accounts (\<open>credential.go\<close>, \<open>external_account.go\<close>), the event types
  and payloads (\<open>constants.go\<close>, \<open>events.go\<close>), events, and the parameters of the model:
  the codecs, the event constructor and the identifier functions of go-cqrs-lite, go-codec and
  go-branded-id. The payload bytes of an event have a type \<open>'raw\<close> the model never looks into.
\<close>

section \<open>Identifiers\<close>

type_synonym role = string
type_synonym stream_id = string
type_synonym version = nat

text \<open>\<open>UserID\<close> is a branded ULID (128 bits), \<open>TenantID\<close> and \<open>BotID\<close> are branded strings; an
  \<open>ActorID\<close> is a kind and a raw value, built by \<open>NewActorID\<close> and read by \<open>Kind\<close>
  and \<open>Raw\<close>.\<close>

datatype user_id = UserID "128 word"
datatype tenant_id = NewTenantID (tenant_get: string)
datatype bot_id = NewBotID (bot_get: string)

datatype actor_kind = ActorUnknown | ActorUser | ActorBot | ActorSystem | ActorService

datatype actor_id = NewActorID (Kind: actor_kind) (Raw: string)

definition ActorIDFromBot :: "bot_id \<Rightarrow> actor_id" where
  "ActorIDFromBot bid = NewActorID ActorBot (bot_get bid)"

text \<open>What the identifier libraries compute: the bare text of a user ID (\<open>userID.Get().String()\<close>) with its strict
  parse, the text it is displayed with (\<open>userID.String()\<close>, which may carry a brand), and which identifiers are the
  zero value.\<close>

record id_env =
  user_text :: "user_id \<Rightarrow> string"
  user_display :: "user_id \<Rightarrow> string"
  library_ParseUserID :: "string \<Rightarrow> err + user_id"
  zero_user :: user_id
  actor_is_zero :: "actor_id \<Rightarrow> bool"
  tenant_is_zero :: "tenant_id \<Rightarrow> bool"
  library_ParseActorID :: "string \<Rightarrow> err + actor_id"
  derive_stream_id :: "string list \<Rightarrow> stream_id"
  prefixed :: "actor_id \<Rightarrow> string"
  kind_text :: "actor_kind \<Rightarrow> string"
  actor_text :: "actor_id \<Rightarrow> string"
  user_is_zero :: "user_id \<Rightarrow> bool"
  sha_user :: "string \<Rightarrow> user_id"
  quoted :: "string \<Rightarrow> string"

definition ids_ok :: "id_env \<Rightarrow> bool" where
  "ids_ok I \<longleftrightarrow>
     (\<forall>u. library_ParseUserID I (user_text I u) = Inr u)
     \<and> (\<forall>u. CHR '':'' \<notin> set (user_text I u))
     \<and> (\<forall>a. actor_text I a = Raw a)
     \<and> kind_text I ActorUser = ''user'' \<and> kind_text I ActorBot = ''bot''
     \<and> kind_text I ActorSystem = ''system'' \<and> kind_text I ActorService = ''service''"

definition strippedBrandPrefix :: "string \<Rightarrow> string" where
  "strippedBrandPrefix s = (case after_colon s of Some after \<Rightarrow> after | None \<Rightarrow> s)"

definition ParseUserID :: "id_env \<Rightarrow> string \<Rightarrow> err + user_id" where
  "ParseUserID I s =
     map_err (\<lambda>e. wrap_error Rejection e ''usermgmt.userid.invalid'' (''invalid user id '' @ quoted I s))
       (library_ParseUserID I (strippedBrandPrefix s))"

definition NewUserID :: "id_env \<Rightarrow> string \<Rightarrow> user_id" where
  "NewUserID I s =
     (if s = [] then zero_user I
      else (case ParseUserID I s of Inr uid \<Rightarrow> uid | Inl e \<Rightarrow> sha_user I s))"

definition parseBrandedComponent :: "string \<Rightarrow> string \<Rightarrow> err + string" where
  "parseBrandedComponent s brand =
     (let v = trim_prefix s (brand @ '':'')
      in if v = [] \<or> v \<noteq> trim_space v
         then Inl (new_error Rejection ''identitymodel.branded_id.invalid''
                     ''value is empty or whitespace-padded'')
         else Inr v)"

definition ParseTenantID :: "id_env \<Rightarrow> string \<Rightarrow> err + tenant_id" where
  "ParseTenantID I s =
     (case parseBrandedComponent s ''Tenant'' of
        Inl e \<Rightarrow> Inl (wrap_error Rejection e ''identitymodel.tenant_id.invalid''
                     (''invalid tenant id '' @ quoted I s))
      | Inr v \<Rightarrow> Inr (NewTenantID v))"

definition ParseBotID :: "id_env \<Rightarrow> string \<Rightarrow> err + bot_id" where
  "ParseBotID I s =
     (case parseBrandedComponent s ''Bot'' of
        Inl e \<Rightarrow> Inl (wrap_error Rejection e ''identitymodel.bot_id.invalid''
                     (''invalid bot id '' @ quoted I s))
      | Inr v \<Rightarrow> Inr (NewBotID v))"

definition ParseActorID :: "id_env \<Rightarrow> string \<Rightarrow> err + actor_id" where
  "ParseActorID I s =
     map_err (\<lambda>e. wrap_error Rejection e ''identitymodel.actor_id.parse'' (''parse ActorID '' @ quoted I s))
       (library_ParseActorID I s)"

definition ActorIDFromUser :: "id_env \<Rightarrow> user_id \<Rightarrow> actor_id" where
  "ActorIDFromUser I uid = NewActorID ActorUser (user_text I uid)"

definition ActorIDAsUserID :: "id_env \<Rightarrow> actor_id \<Rightarrow> user_id option" where
  "ActorIDAsUserID I actorID =
     (if Kind actorID \<noteq> ActorUser then None
      else (case ParseUserID I (Raw actorID) of Inl e \<Rightarrow> None | Inr uid \<Rightarrow> Some uid))"

definition ActorKindFromString :: "string \<Rightarrow> err + actor_kind" where
  "ActorKindFromString s =
     (if s = ''user'' then Inr ActorUser
      else if s = ''bot'' then Inr ActorBot
      else if s = ''system'' then Inr ActorSystem
      else if s = ''service'' then Inr ActorService
      else Inl (new_error Rejection ''usermgmt.membership.unknown_actor_kind''
                  (''unknown actor kind: '' @ s)))"

definition DeriveMembershipID :: "id_env \<Rightarrow> actor_id \<Rightarrow> tenant_id \<Rightarrow> stream_id" where
  "DeriveMembershipID I actorID tenantID =
     derive_stream_id I [''membership'', prefixed I actorID, tenant_get tenantID]"

section \<open>Credentials and external accounts\<close>

text \<open>Struct embedding is record extension.\<close>

record CredentialCore =
  cred_id :: bytes
  cred_public_key :: bytes
  cred_attestation_type :: string
  cred_transports :: "string list"
  cred_aaguid :: bytes
  cred_sign_count :: "32 word"
  cred_user_present :: bool
  cred_user_verified :: bool
  cred_backup_eligible :: bool
  cred_backup_state :: bool
  cred_name :: string

record WebAuthnCredential = CredentialCore +
  cred_created_at :: time

record CredentialAddedPayload = CredentialCore +
  ca_schema_version :: int

definition NewCredentialFromPayload :: "CredentialAddedPayload \<Rightarrow> time \<Rightarrow> WebAuthnCredential" where
  "NewCredentialFromPayload p createdAt =
     \<lparr> cred_id = cred_id p, cred_public_key = cred_public_key p,
       cred_attestation_type = cred_attestation_type p, cred_transports = cred_transports p,
       cred_aaguid = cred_aaguid p, cred_sign_count = cred_sign_count p,
       cred_user_present = cred_user_present p, cred_user_verified = cred_user_verified p,
       cred_backup_eligible = cred_backup_eligible p, cred_backup_state = cred_backup_state p,
       cred_name = cred_name p, cred_created_at = createdAt \<rparr>"

record CredentialUse =
  use_credential_id :: bytes
  use_sign_count :: "32 word"
  use_user_present :: bool
  use_user_verified :: bool
  use_backup_state :: bool

definition CounterRegressed :: "WebAuthnCredential \<Rightarrow> 32 word \<Rightarrow> bool" where
  "CounterRegressed c next \<longleftrightarrow>
     next \<le> cred_sign_count c \<and> (next \<noteq> 0 \<or> cred_sign_count c \<noteq> 0)"

definition ApplyUse :: "WebAuthnCredential \<Rightarrow> CredentialUse \<Rightarrow> WebAuthnCredential" where
  "ApplyUse c u =
     c \<lparr> cred_sign_count := use_sign_count u,
         cred_user_present := use_user_present u,
         cred_user_verified := use_user_verified u,
         cred_backup_state := use_backup_state u \<rparr>"

record ExternalAccountCore =
  ea_provider :: string
  ea_subject :: string
  ea_email :: string
  ea_display_name :: string

record ExternalAccount = ExternalAccountCore +
  ea_linked_at :: time

record ExternalAccountLinkedPayload = ExternalAccountCore +
  el_schema_version :: int

definition NewExternalAccount ::
  "string \<Rightarrow> string \<Rightarrow> string \<Rightarrow> string \<Rightarrow> time \<Rightarrow> ExternalAccount" where
  "NewExternalAccount provider subject email displayName linkedAt =
     \<lparr> ea_provider = provider, ea_subject = subject, ea_email = email,
       ea_display_name = displayName, ea_linked_at = linkedAt \<rparr>"

section \<open>Event payloads\<close>

record UserRegisteredPayload =
  ur_schema_version :: int
  ur_email :: string
  ur_display_name :: string
  ur_roles :: "role list"

record RolesUpdatedPayload =
  ru_schema_version :: int
  ru_roles :: "role list"
  ru_domain :: string

record EmailChangedPayload =
  ec_schema_version :: int
  ec_email :: string

record DisplayNameChangedPayload =
  dn_schema_version :: int
  dn_display_name :: string

record UserDeletedPayload =
  ud_schema_version :: int
  ud_reason :: string

record CredentialRemovedPayload =
  cr_schema_version :: int
  cr_id :: bytes

record CredentialUsedPayload =
  cu_schema_version :: int
  cu_credential_id :: bytes
  cu_sign_count :: "32 word"
  cu_user_present :: bool
  cu_user_verified :: bool
  cu_backup_state :: bool

record EmailVerifiedPayload =
  ev_schema_version :: int
  ev_email :: string

record TOTPEnabledPayload =
  te_schema_version :: int
  te_secret :: bytes

record TOTPDisabledPayload =
  td_schema_version :: int

record ExternalAccountUnlinkedPayload =
  eu_schema_version :: int
  eu_provider :: string
  eu_subject :: string

record MemberAddedPayload =
  ma_schema_version :: int
  ma_actor_kind :: string
  ma_actor_id :: string
  ma_tenant_id :: string
  ma_roles :: "role list"

record MemberRolesChangedPayload =
  mc_schema_version :: int
  mc_actor_kind :: string
  mc_actor_id :: string
  mc_tenant_id :: string
  mc_roles :: "role list"

record MemberRemovedPayload =
  mr_schema_version :: int
  mr_actor_id :: string
  mr_tenant_id :: string

record TenantCreatedPayload =
  tc_schema_version :: int
  tc_name :: string
  tc_display_name :: string

record TenantSuspendedPayload =
  ts_schema_version :: int
  ts_reason :: string

record TenantReactivatedPayload =
  tr_schema_version :: int

record TenantDeletedPayload =
  tx_schema_version :: int
  tx_reason :: string

record BotRegisteredPayload =
  br_schema_version :: int
  br_name :: string
  br_owner_id :: user_id
  br_token_hash :: bytes
  br_scopes :: "string list"

record BotDeletedPayload =
  bd_schema_version :: int
  bd_reason :: string

section \<open>Events\<close>

datatype event_type =
    EventUserRegistered | EventRolesUpdated | EventEmailChanged | EventDisplayNameChanged
  | EventUserDeleted | EventCredentialAdded | EventCredentialRemoved | EventCredentialUsed
  | EventEmailVerified | EventTOTPEnabled | EventTOTPDisabled | EventExternalAccountLinked
  | EventExternalAccountUnlinked | EventLoginSucceeded | EventLoginFailed
  | EventRegistrationClosed | EventSessionStarted | EventSessionEnded | EventMemberAdded
  | EventMemberRolesChanged | EventMemberRemoved | EventTenantCreated | EventTenantSuspended
  | EventTenantReactivated | EventTenantDeleted | EventBotRegistered | EventBotDeleted
  | OtherEvent string

fun event_type_name :: "event_type \<Rightarrow> string" where
  "event_type_name EventUserRegistered = ''UserRegistered''"
| "event_type_name EventRolesUpdated = ''RolesUpdated''"
| "event_type_name EventEmailChanged = ''EmailChanged''"
| "event_type_name EventDisplayNameChanged = ''DisplayNameChanged''"
| "event_type_name EventUserDeleted = ''UserDeleted''"
| "event_type_name EventCredentialAdded = ''CredentialAdded''"
| "event_type_name EventCredentialRemoved = ''CredentialRemoved''"
| "event_type_name EventCredentialUsed = ''CredentialUsed''"
| "event_type_name EventEmailVerified = ''EmailVerified''"
| "event_type_name EventTOTPEnabled = ''TOTPEnabled''"
| "event_type_name EventTOTPDisabled = ''TOTPDisabled''"
| "event_type_name EventExternalAccountLinked = ''ExternalAccountLinked''"
| "event_type_name EventExternalAccountUnlinked = ''ExternalAccountUnlinked''"
| "event_type_name EventLoginSucceeded = ''LoginSucceeded''"
| "event_type_name EventLoginFailed = ''LoginFailed''"
| "event_type_name EventRegistrationClosed = ''RegistrationClosed''"
| "event_type_name EventSessionStarted = ''SessionStarted''"
| "event_type_name EventSessionEnded = ''SessionEnded''"
| "event_type_name EventMemberAdded = ''MemberAdded''"
| "event_type_name EventMemberRolesChanged = ''MemberRolesChanged''"
| "event_type_name EventMemberRemoved = ''MemberRemoved''"
| "event_type_name EventTenantCreated = ''TenantCreated''"
| "event_type_name EventTenantSuspended = ''TenantSuspended''"
| "event_type_name EventTenantReactivated = ''TenantReactivated''"
| "event_type_name EventTenantDeleted = ''TenantDeleted''"
| "event_type_name EventBotRegistered = ''BotRegistered''"
| "event_type_name EventBotDeleted = ''BotDeleted''"
| "event_type_name (OtherEvent s) = s"

datatype stream_type =
    AggregateTypeUser | AggregateTypeMembership | AggregateTypeTenant | AggregateTypeBot
  | AggregateTypeAuth

datatype encoding = EncodingJSON | EncodingCBOR | OtherEncoding string

text \<open>A value handed to \<open>event.New\<close>.\<close>

datatype payload =
    PUserRegistered UserRegisteredPayload
  | PRolesUpdated RolesUpdatedPayload
  | PEmailChanged EmailChangedPayload
  | PDisplayNameChanged DisplayNameChangedPayload
  | PUserDeleted UserDeletedPayload
  | PCredentialAdded CredentialAddedPayload
  | PCredentialRemoved CredentialRemovedPayload
  | PCredentialUsed CredentialUsedPayload
  | PEmailVerified EmailVerifiedPayload
  | PTOTPEnabled TOTPEnabledPayload
  | PTOTPDisabled TOTPDisabledPayload
  | PExternalAccountLinked ExternalAccountLinkedPayload
  | PExternalAccountUnlinked ExternalAccountUnlinkedPayload
  | PMemberAdded MemberAddedPayload
  | PMemberRolesChanged MemberRolesChangedPayload
  | PMemberRemoved MemberRemovedPayload
  | PTenantCreated TenantCreatedPayload
  | PTenantSuspended TenantSuspendedPayload
  | PTenantReactivated TenantReactivatedPayload
  | PTenantDeleted TenantDeletedPayload
  | PBotRegistered BotRegisteredPayload
  | PBotDeleted BotDeletedPayload

record 'raw event =
  evt_type :: event_type
  evt_stream :: stream_id
  evt_stream_type :: stream_type
  evt_version :: version
  evt_payload :: 'raw
  evt_encoding :: encoding
  evt_occurred_at :: time

text \<open>
  The parameters that concern events: \<open>codec.ForEncoding\<close> (only whether it fails matters), a
  decoder per payload type, \<open>event.New\<close>, \<open>Version.Increment\<close>, and the probe of
  \<open>extractSchemaVersion\<close>, a lenient JSON decode of one field. \<open>event_new\<close> takes the
  codec it is given as an encoding. \<open>upcasters\<close> is the package-level registry every decode
  reads, set once at start-up.
\<close>

type_synonym 'raw upcaster = "'raw \<Rightarrow> err + 'raw"
type_synonym 'raw registry = "(event_type, (int, 'raw upcaster) gomap) gomap"

record 'raw event_env =
  ids :: id_env
  upcasters :: "'raw registry option"
  for_encoding :: "encoding \<Rightarrow> err option"
  encoding_name :: "encoding \<Rightarrow> string"
  extractSchemaVersion :: "'raw \<Rightarrow> int"
  increment :: "version \<Rightarrow> version"
  event_new :: "event_type \<Rightarrow> stream_id \<Rightarrow> stream_type \<Rightarrow> version \<Rightarrow> payload \<Rightarrow> encoding
    \<Rightarrow> err + 'raw event"
  dec_UserRegistered :: "encoding \<Rightarrow> 'raw \<Rightarrow> err + UserRegisteredPayload"
  dec_RolesUpdated :: "encoding \<Rightarrow> 'raw \<Rightarrow> err + RolesUpdatedPayload"
  dec_EmailChanged :: "encoding \<Rightarrow> 'raw \<Rightarrow> err + EmailChangedPayload"
  dec_DisplayNameChanged :: "encoding \<Rightarrow> 'raw \<Rightarrow> err + DisplayNameChangedPayload"
  dec_UserDeleted :: "encoding \<Rightarrow> 'raw \<Rightarrow> err + UserDeletedPayload"
  dec_CredentialAdded :: "encoding \<Rightarrow> 'raw \<Rightarrow> err + CredentialAddedPayload"
  dec_CredentialRemoved :: "encoding \<Rightarrow> 'raw \<Rightarrow> err + CredentialRemovedPayload"
  dec_CredentialUsed :: "encoding \<Rightarrow> 'raw \<Rightarrow> err + CredentialUsedPayload"
  dec_EmailVerified :: "encoding \<Rightarrow> 'raw \<Rightarrow> err + EmailVerifiedPayload"
  dec_TOTPEnabled :: "encoding \<Rightarrow> 'raw \<Rightarrow> err + TOTPEnabledPayload"
  dec_TOTPDisabled :: "encoding \<Rightarrow> 'raw \<Rightarrow> err + TOTPDisabledPayload"
  dec_ExternalAccountLinked :: "encoding \<Rightarrow> 'raw \<Rightarrow> err + ExternalAccountLinkedPayload"
  dec_ExternalAccountUnlinked :: "encoding \<Rightarrow> 'raw \<Rightarrow> err + ExternalAccountUnlinkedPayload"
  dec_MemberAdded :: "encoding \<Rightarrow> 'raw \<Rightarrow> err + MemberAddedPayload"
  dec_MemberRolesChanged :: "encoding \<Rightarrow> 'raw \<Rightarrow> err + MemberRolesChangedPayload"
  dec_MemberRemoved :: "encoding \<Rightarrow> 'raw \<Rightarrow> err + MemberRemovedPayload"
  dec_TenantCreated :: "encoding \<Rightarrow> 'raw \<Rightarrow> err + TenantCreatedPayload"
  dec_TenantSuspended :: "encoding \<Rightarrow> 'raw \<Rightarrow> err + TenantSuspendedPayload"
  dec_TenantReactivated :: "encoding \<Rightarrow> 'raw \<Rightarrow> err + TenantReactivatedPayload"
  dec_TenantDeleted :: "encoding \<Rightarrow> 'raw \<Rightarrow> err + TenantDeletedPayload"
  dec_BotRegistered :: "encoding \<Rightarrow> 'raw \<Rightarrow> err + BotRegisteredPayload"
  dec_BotDeleted :: "encoding \<Rightarrow> 'raw \<Rightarrow> err + BotDeletedPayload"

text \<open>A payload decodes to what was encoded, under the encoding it was encoded with.\<close>

definition decodes :: "'raw event_env \<Rightarrow> encoding \<Rightarrow> 'raw \<Rightarrow> payload \<Rightarrow> bool" where
  "decodes E enc raw p =
     (case p of
        PUserRegistered x \<Rightarrow> dec_UserRegistered E enc raw = Inr x
      | PRolesUpdated x \<Rightarrow> dec_RolesUpdated E enc raw = Inr x
      | PEmailChanged x \<Rightarrow> dec_EmailChanged E enc raw = Inr x
      | PDisplayNameChanged x \<Rightarrow> dec_DisplayNameChanged E enc raw = Inr x
      | PUserDeleted x \<Rightarrow> dec_UserDeleted E enc raw = Inr x
      | PCredentialAdded x \<Rightarrow> dec_CredentialAdded E enc raw = Inr x
      | PCredentialRemoved x \<Rightarrow> dec_CredentialRemoved E enc raw = Inr x
      | PCredentialUsed x \<Rightarrow> dec_CredentialUsed E enc raw = Inr x
      | PEmailVerified x \<Rightarrow> dec_EmailVerified E enc raw = Inr x
      | PTOTPEnabled x \<Rightarrow> dec_TOTPEnabled E enc raw = Inr x
      | PTOTPDisabled x \<Rightarrow> dec_TOTPDisabled E enc raw = Inr x
      | PExternalAccountLinked x \<Rightarrow> dec_ExternalAccountLinked E enc raw = Inr x
      | PExternalAccountUnlinked x \<Rightarrow> dec_ExternalAccountUnlinked E enc raw = Inr x
      | PMemberAdded x \<Rightarrow> dec_MemberAdded E enc raw = Inr x
      | PMemberRolesChanged x \<Rightarrow> dec_MemberRolesChanged E enc raw = Inr x
      | PMemberRemoved x \<Rightarrow> dec_MemberRemoved E enc raw = Inr x
      | PTenantCreated x \<Rightarrow> dec_TenantCreated E enc raw = Inr x
      | PTenantSuspended x \<Rightarrow> dec_TenantSuspended E enc raw = Inr x
      | PTenantReactivated x \<Rightarrow> dec_TenantReactivated E enc raw = Inr x
      | PTenantDeleted x \<Rightarrow> dec_TenantDeleted E enc raw = Inr x
      | PBotRegistered x \<Rightarrow> dec_BotRegistered E enc raw = Inr x
      | PBotDeleted x \<Rightarrow> dec_BotDeleted E enc raw = Inr x)"

text \<open>What the sources rely on of \<open>event.New\<close>: an event it returns has the type, stream,
  stream type and version it was given, an encoding that resolves, and a payload that decodes to
  the value it was given.\<close>

definition event_new_ok :: "'raw event_env \<Rightarrow> bool" where
  "event_new_ok E \<longleftrightarrow>
     (\<forall>t s st v p enc e. event_new E t s st v p enc = Inr e \<longrightarrow>
        evt_type e = t \<and> evt_stream e = s \<and> evt_stream_type e = st \<and> evt_version e = v
        \<and> evt_encoding e = enc \<and> for_encoding E enc = None
        \<and> decodes E enc (evt_payload e) p)"

definition CurrentSchemaVersion :: int where "CurrentSchemaVersion = 2"

lemma event_new_okD:
  assumes "event_new_ok E" and "event_new E t s st v p enc = Inr e"
  shows "evt_type e = t" "evt_stream e = s" "evt_stream_type e = st" "evt_version e = v"
    "evt_encoding e = enc" "for_encoding E (evt_encoding e) = None"
    "decodes E (evt_encoding e) (evt_payload e) p"
  using assms by (auto simp: event_new_ok_def)

section \<open>Identifier lemmas\<close>

lemma strippedBrandPrefix_no_colon: "CHR '':'' \<notin> set s \<Longrightarrow> strippedBrandPrefix s = s"
  using after_colon_None [of s] by (simp add: strippedBrandPrefix_def)

lemma strippedBrandPrefix_brand:
  "CHR '':'' \<notin> set b \<Longrightarrow> strippedBrandPrefix (b @ CHR '':'' # s) = s"
proof -
  assume b: "CHR '':'' \<notin> set b"
  have "after_colon (b @ CHR '':'' # s) = Some s"
    using b by (induction b) auto
  then show ?thesis by (simp add: strippedBrandPrefix_def)
qed

lemma ParseUserID_text: "ids_ok I \<Longrightarrow> ParseUserID I (user_text I u) = Inr u"
  by (simp add: ids_ok_def ParseUserID_def strippedBrandPrefix_no_colon)

lemma ActorIDAsUserID_user: "ids_ok I \<Longrightarrow> ActorIDAsUserID I (ActorIDFromUser I u) = Some u"
  by (simp add: ActorIDAsUserID_def ActorIDFromUser_def ParseUserID_text)

lemma parseBrandedComponent_ok:
  "parseBrandedComponent s b = Inr v \<Longrightarrow> v \<noteq> [] \<and> trim_space v = v"
  by (auto simp: parseBrandedComponent_def Let_def split: if_splits)

end
