(* ===== verification/Upcaster.thy ===== *)
theory Upcaster
  imports Identity
begin

text \<open>
  \<open>identity-model/upcaster.go\<close> and \<open>identity-model/payload.go\<close>: the registry of schema
  upcasters, the loop that lifts a stored payload to the current schema version, and the decode
  path every fold and read model goes through.
\<close>

section \<open>The registry\<close>

definition NewUpcasterRegistry :: "'raw registry" where
  "NewUpcasterRegistry = []"

text \<open>\<open>None\<close> is the panic on a duplicate registration.\<close>

definition Register :: "'raw registry \<Rightarrow> event_type \<Rightarrow> int \<Rightarrow> 'raw upcaster \<Rightarrow> 'raw registry option" where
  "Register r eventType fromVersion fn =
     (let chain = (case map_get r eventType of Some c \<Rightarrow> c | None \<Rightarrow> [])
      in if map_get chain fromVersion \<noteq> None then None
         else Some (map_put eventType (map_put fromVersion fn chain) r))"

text \<open>The loop of \<open>Upcast\<close>. The error text names the event type and the version, rendered by
  \<open>fmt.Sprintf\<close>, here the argument \<open>msg\<close>.\<close>

function upcast_loop ::
  "(int \<Rightarrow> string) \<Rightarrow> (int, 'raw upcaster) gomap \<Rightarrow> int \<Rightarrow> 'raw \<Rightarrow> err + 'raw" where
  "upcast_loop msg chain version current =
     (if version < CurrentSchemaVersion then
        (case map_get chain version of
           None \<Rightarrow> Inr current
         | Some fn \<Rightarrow>
             (case fn current of
                Inl e \<Rightarrow> Inl (wrap_error Corruption e ''identitymodel.upcast.failed'' (msg version))
              | Inr upcasted \<Rightarrow> upcast_loop msg chain (version + 1) upcasted))
      else Inr current)"
  by pat_completeness auto
termination
  by (relation "measure (\<lambda>(m, c, v, r). nat (CurrentSchemaVersion - v))") auto

declare upcast_loop.simps [simp del]

definition upcast_message :: "event_type \<Rightarrow> int \<Rightarrow> string" where
  "upcast_message t v = ''upcast '' @ event_type_name t @ '' v'' @ show_nat (nat v)"

definition Upcast ::
  "'raw registry \<Rightarrow> ('raw \<Rightarrow> int) \<Rightarrow> event_type \<Rightarrow> 'raw \<Rightarrow> err + 'raw" where
  "Upcast r probe eventType raw =
     (case map_get r eventType of
        None \<Rightarrow> Inr raw
      | Some chain \<Rightarrow>
          if chain = [] then Inr raw
          else upcast_loop (upcast_message eventType) chain (probe raw) raw)"

definition applyUpcasters :: "'raw event_env \<Rightarrow> event_type \<Rightarrow> 'raw \<Rightarrow> err + 'raw" where
  "applyUpcasters E eventType raw =
     (case upcasters E of
        None \<Rightarrow> Inr raw
      | Some r \<Rightarrow> Upcast r (extractSchemaVersion E) eventType raw)"

section \<open>Decoding a payload\<close>

definition decode_failed :: "err \<Rightarrow> string \<Rightarrow> err" where
  "decode_failed e msg = wrap_error Corruption e ''identitymodel.payload_decode_failed'' msg"

definition UnmarshalPayload ::
  "'raw event_env \<Rightarrow> (encoding \<Rightarrow> 'raw \<Rightarrow> err + 'p) \<Rightarrow> 'raw event \<Rightarrow> err + 'p" where
  "UnmarshalPayload E decode evt =
     (case applyUpcasters E (evt_type evt) (evt_payload evt) of
        Inl e \<Rightarrow> Inl (wrap_error Corruption e ''identitymodel.payload.upcast_failed'' ''upcast payload'')
      | Inr raw \<Rightarrow>
          (case for_encoding E (evt_encoding evt) of
             Some e \<Rightarrow>
               Inl (decode_failed e
                 (''resolve codec for encoding '' @ encoding_name E (evt_encoding evt)
                  @ '' (event '' @ event_type_name (evt_type evt) @ '')''))
           | None \<Rightarrow>
               map_err (\<lambda>e. decode_failed e (''decode payload for event '' @ event_type_name (evt_type evt)))
                 (decode (evt_encoding evt) raw)))"

section \<open>Lemmas\<close>

text \<open>Upcasting leaves every payload alone: no registry is set, or nothing in it applies.\<close>

definition upcast_transparent :: "'raw event_env \<Rightarrow> bool" where
  "upcast_transparent E \<longleftrightarrow> (\<forall>t raw. applyUpcasters E t raw = Inr raw)"

lemma upcast_transparent_None: "upcasters E = None \<Longrightarrow> upcast_transparent E"
  by (simp add: upcast_transparent_def applyUpcasters_def)

lemma UnmarshalPayload_transparent:
  assumes "upcast_transparent E" and "for_encoding E (evt_encoding evt) = None"
    and "decode (evt_encoding evt) (evt_payload evt) = Inr p"
  shows "UnmarshalPayload E decode evt = Inr p"
  using assms by (simp add: UnmarshalPayload_def upcast_transparent_def)

text \<open>A chain is followed from the version of the payload to the first gap or the current version;
  \<open>chain_from\<close> lists the functions it applies.\<close>

function chain_from :: "(int, 'raw upcaster) gomap \<Rightarrow> int \<Rightarrow> 'raw upcaster list" where
  "chain_from chain version =
     (if version < CurrentSchemaVersion then
        (case map_get chain version of None \<Rightarrow> [] | Some fn \<Rightarrow> fn # chain_from chain (version + 1))
      else [])"
  by pat_completeness auto
termination
  by (relation "measure (\<lambda>(c, v). nat (CurrentSchemaVersion - v))") auto

declare chain_from.simps [simp del]

fun run_all :: "'raw upcaster list \<Rightarrow> 'raw \<Rightarrow> 'raw option" where
  "run_all [] raw = Some raw"
| "run_all (f # fs) raw = (case f raw of Inl e \<Rightarrow> None | Inr raw' \<Rightarrow> run_all fs raw')"

lemma upcast_loop_chain:
  "(case upcast_loop msg chain v raw of Inl e \<Rightarrow> None | Inr r \<Rightarrow> Some r)
     = run_all (chain_from chain v) raw"
proof (induction msg chain v raw rule: upcast_loop.induct)
  case (1 msg chain version current)
  show ?case
    by (subst upcast_loop.simps, subst chain_from.simps)
       (use 1 in \<open>auto split: option.splits sum.splits\<close>)
qed

lemma upcast_loop_error:
  "upcast_loop msg chain v raw = Inl e \<Longrightarrow>
   \<exists>c v'. e = wrap_error Corruption c ''identitymodel.upcast.failed'' (msg v') \<and> v \<le> v'
     \<and> v' < CurrentSchemaVersion"
proof (induction msg chain v raw rule: upcast_loop.induct)
  case (1 msg chain version current)
  from 1(2) obtain fn where step: "version < CurrentSchemaVersion" "map_get chain version = Some fn"
    and cases: "(\<exists>c. e = wrap_error Corruption c ''identitymodel.upcast.failed'' (msg version))
      \<or> (\<exists>raw'. fn current = Inr raw' \<and> upcast_loop msg chain (version + 1) raw' = Inl e)"
    by (subst (asm) upcast_loop.simps) (auto split: option.splits sum.splits if_splits)
  from cases show ?case
  proof (elim disjE exE conjE)
    fix c
    assume "e = wrap_error Corruption c ''identitymodel.upcast.failed'' (msg version)"
    with step show ?thesis by auto
  next
    fix raw'
    assume "fn current = Inr raw'" and "upcast_loop msg chain (version + 1) raw' = Inl e"
    with 1(1) [OF step] show ?thesis by fastforce
  qed
qed

lemma chain_from_empty: "chain_from [] v = []"
  by (subst chain_from.simps) simp

lemma length_chain_from: "length (chain_from c v) \<le> nat (CurrentSchemaVersion - v)"
proof (induction c v rule: chain_from.induct)
  case (1 chain version)
  then show ?case
    by (subst chain_from.simps) (auto split: option.splits)
qed

text \<open>Upcasting runs exactly the registered functions from the version the payload names up
  to the first version without one or the current version, in order, each on the result of the one
  before; it never goes past the current schema version, and an error is a corruption error naming
  the step.\<close>

theorem Upcast_runs_chain:
  "(case Upcast r probe t raw of
      Inr raw' \<Rightarrow>
        (case map_get r t of
           None \<Rightarrow> raw' = raw
         | Some chain \<Rightarrow> run_all (chain_from chain (probe raw)) raw = Some raw'
             \<and> length (chain_from chain (probe raw)) \<le> nat (CurrentSchemaVersion - probe raw))
    | Inl e \<Rightarrow>
        \<exists>c v chain. map_get r t = Some chain \<and> run_all (chain_from chain (probe raw)) raw = None
          \<and> e = wrap_error Corruption c ''identitymodel.upcast.failed'' (upcast_message t v)
          \<and> probe raw \<le> v \<and> v < CurrentSchemaVersion)"
proof (cases "map_get r t")
  case None
  then show ?thesis by (simp add: Upcast_def)
next
  case (Some chain)
  note loop = upcast_loop_chain [of "upcast_message t" chain "probe raw" raw]
  show ?thesis
  proof (cases "Upcast r probe t raw")
    case (Inl e)
    with Some have "upcast_loop (upcast_message t) chain (probe raw) raw = Inl e"
      by (auto simp: Upcast_def split: if_splits)
    with upcast_loop_error [OF this] loop Some Inl show ?thesis by auto
  next
    case (Inr raw')
    with Some loop show ?thesis
      by (auto simp: Upcast_def chain_from_empty length_chain_from split: if_splits)
  qed
qed

text \<open>The probe of the schema version reads JSON. A payload of the current version whose bytes
  the probe cannot read (it then answers 0) is nevertheless passed through an upcaster registered
  for version 0, which legacy events are the only intended input of.\<close>

theorem Upcast_unreadable_probe:
  assumes "probe raw = 0" and "map_get r t = Some chain" and "map_get chain 0 = Some fn"
    and "fn raw = Inr raw'" and "map_get chain 1 = None"
  shows "Upcast r probe t raw = Inr raw'"
  using assms
  by (auto simp: Upcast_def upcast_loop.simps CurrentSchemaVersion_def)

text \<open>Registering an upcaster twice for the same step panics; otherwise lookups see it.\<close>

lemma Register_lookup:
  "Register r t v fn = Some r' \<Longrightarrow>
   (\<exists>chain. map_get r' t = Some chain \<and> map_get chain v = Some fn)
   \<and> (\<forall>t'. t' \<noteq> t \<longrightarrow> map_get r' t' = map_get r t')"
  by (auto simp: Register_def Let_def split: if_splits)

lemma Upcast_unreadable_probe_witness:
  "Upcast [(EventTOTPEnabled, [(0, \<lambda>raw. Inr (''upcasted '' @ raw))])] (\<lambda>raw. 0)
     EventTOTPEnabled ''cbor'' = Inr ''upcasted cbor''"
  by (rule Upcast_unreadable_probe
      [where chain = "[(0, \<lambda>raw. Inr (''upcasted '' @ raw))]" and fn = "\<lambda>raw. Inr (''upcasted '' @ raw)"])
     simp_all

end
