(* ===== verification/Fold.thy ===== *)
theory Fold
  imports Upcaster
begin

text \<open>
  \<open>identity-model/fold.go\<close>: the four aggregate states and the functions that rebuild them
  from events, branch by branch, decode errors included. \<open>user_apply\<close>, \<open>membership_apply\<close>,
  \<open>tenant_apply\<close> and \<open>bot_apply\<close> are the abstract effect of one decoded payload; the
  lemmas at the end show that each fold implements them.
\<close>

section \<open>Aggregate states\<close>

record UserState =
  us_email :: string
  us_display_name :: string
  us_credentials :: "WebAuthnCredential list"
  us_external_accounts :: "ExternalAccount list"
  us_deleted :: bool
  us_delete_reason :: string
  us_email_verified :: bool
  us_totp_enabled :: bool
  us_totp_secret :: bytes

definition UserState_zero :: UserState where
  "UserState_zero =
     \<lparr> us_email = [], us_display_name = [], us_credentials = [], us_external_accounts = [],
       us_deleted = False, us_delete_reason = [], us_email_verified = False,
       us_totp_enabled = False, us_totp_secret = [] \<rparr>"

definition User_Exists :: "UserState \<Rightarrow> bool" where
  "User_Exists s \<longleftrightarrow> us_email s \<noteq> []"

definition User_IsActive :: "UserState \<Rightarrow> bool" where
  "User_IsActive s \<longleftrightarrow> User_Exists s \<and> \<not> us_deleted s"

text \<open>The zero \<open>ActorID\<close> and \<open>TenantID\<close> of an empty state are \<open>None\<close>.\<close>

record MembershipState =
  ms_actor_id :: "actor_id option"
  ms_tenant_id :: "tenant_id option"
  ms_roles :: "role list"
  ms_removed :: bool

definition MembershipState_zero :: MembershipState where
  "MembershipState_zero =
     \<lparr> ms_actor_id = None, ms_tenant_id = None, ms_roles = [], ms_removed = False \<rparr>"

definition Membership_Exists :: "id_env \<Rightarrow> MembershipState \<Rightarrow> bool" where
  "Membership_Exists I s \<longleftrightarrow>
     (case ms_actor_id s of None \<Rightarrow> False | Some a \<Rightarrow> \<not> actor_is_zero I a) \<and> \<not> ms_removed s"

definition HasRole :: "MembershipState \<Rightarrow> role \<Rightarrow> bool" where
  "HasRole s r \<longleftrightarrow> r \<in> set (ms_roles s)"

record TenantState =
  ts_name :: string
  ts_display_name :: string
  ts_suspended :: bool
  ts_suspend_reason :: string
  ts_deleted :: bool
  ts_delete_reason :: string

definition TenantState_zero :: TenantState where
  "TenantState_zero =
     \<lparr> ts_name = [], ts_display_name = [], ts_suspended = False, ts_suspend_reason = [],
       ts_deleted = False, ts_delete_reason = [] \<rparr>"

definition Tenant_Exists :: "TenantState \<Rightarrow> bool" where
  "Tenant_Exists s \<longleftrightarrow> ts_name s \<noteq> [] \<and> \<not> ts_deleted s"

definition Tenant_IsActive :: "TenantState \<Rightarrow> bool" where
  "Tenant_IsActive s \<longleftrightarrow> Tenant_Exists s \<and> \<not> ts_suspended s"

definition IsValid :: "TenantState \<Rightarrow> bool" where
  "IsValid s =
     (if ts_deleted s \<and> ts_suspended s then False
      else if \<not> ts_suspended s \<and> ts_suspend_reason s \<noteq> [] then False
      else if \<not> ts_deleted s \<and> ts_delete_reason s \<noteq> [] then False
      else True)"

record BotState =
  bs_name :: string
  bs_owner_id :: "user_id option"
  bs_token_hash :: bytes
  bs_scopes :: "string list"
  bs_deleted :: bool

definition BotState_zero :: BotState where
  "BotState_zero =
     \<lparr> bs_name = [], bs_owner_id = None, bs_token_hash = [], bs_scopes = [], bs_deleted = False \<rparr>"

definition Bot_Exists :: "BotState \<Rightarrow> bool" where
  "Bot_Exists s \<longleftrightarrow> bs_name s \<noteq> [] \<and> \<not> bs_deleted s"

definition Bot_IsActive :: "BotState \<Rightarrow> bool" where
  "Bot_IsActive s \<longleftrightarrow> Bot_Exists s"

section \<open>The user fold\<close>

definition applyCredentialUsed ::
  "'raw event_env \<Rightarrow> UserState \<Rightarrow> 'raw event \<Rightarrow> err + UserState" where
  "applyCredentialUsed E state evt =
     on_ok (UnmarshalPayload E (dec_CredentialUsed E) evt) (\<lambda>p.
       let use = \<lparr> use_credential_id = cu_credential_id p, use_sign_count = cu_sign_count p,
                   use_user_present = cu_user_present p, use_user_verified = cu_user_verified p,
                   use_backup_state = cu_backup_state p \<rparr>
       in case update_first (\<lambda>c. cred_id c = cu_credential_id p) (\<lambda>c. ApplyUse c use)
                 (us_credentials state) of
            Some credentials \<Rightarrow> Inr (state \<lparr> us_credentials := credentials \<rparr>)
          | None \<Rightarrow>
              Inl (new_error Corruption ''identity.credential_used.unknown_credential''
                ''CredentialUsed event for a credential the stream never added''))"

definition applyCredentialRemoved ::
  "'raw event_env \<Rightarrow> UserState \<Rightarrow> 'raw event \<Rightarrow> err + UserState" where
  "applyCredentialRemoved E state evt =
     on_ok (UnmarshalPayload E (dec_CredentialRemoved E) evt) (\<lambda>p.
       Inr (state \<lparr> us_credentials := filter (\<lambda>c. cred_id c \<noteq> cr_id p) (us_credentials state) \<rparr>))"

definition FoldUser :: "'raw event_env \<Rightarrow> UserState \<Rightarrow> 'raw event \<Rightarrow> err + UserState" where
  "FoldUser E state evt =
     (case evt_type evt of
        EventUserRegistered \<Rightarrow>
          on_ok (UnmarshalPayload E (dec_UserRegistered E) evt) (\<lambda>p.
            Inr (UserState_zero \<lparr> us_email := ur_email p, us_display_name := ur_display_name p \<rparr>))
      | EventRolesUpdated \<Rightarrow>
          on_ok (UnmarshalPayload E (dec_RolesUpdated E) evt) (\<lambda>p. Inr state)
      | EventEmailChanged \<Rightarrow>
          on_ok (UnmarshalPayload E (dec_EmailChanged E) evt) (\<lambda>p.
            Inr (state \<lparr> us_email := ec_email p, us_email_verified := False,
                         us_totp_enabled := False, us_totp_secret := [] \<rparr>))
      | EventDisplayNameChanged \<Rightarrow>
          on_ok (UnmarshalPayload E (dec_DisplayNameChanged E) evt) (\<lambda>p.
            Inr (state \<lparr> us_display_name := dn_display_name p \<rparr>))
      | EventUserDeleted \<Rightarrow>
          on_ok (UnmarshalPayload E (dec_UserDeleted E) evt) (\<lambda>p.
            Inr (state \<lparr> us_deleted := True, us_delete_reason := ud_reason p \<rparr>))
      | EventCredentialAdded \<Rightarrow>
          on_ok (UnmarshalPayload E (dec_CredentialAdded E) evt) (\<lambda>p.
            Inr (state \<lparr> us_credentials :=
              us_credentials state @ [NewCredentialFromPayload p (evt_occurred_at evt)] \<rparr>))
      | EventCredentialRemoved \<Rightarrow> applyCredentialRemoved E state evt
      | EventCredentialUsed \<Rightarrow> applyCredentialUsed E state evt
      | EventEmailVerified \<Rightarrow>
          on_ok (UnmarshalPayload E (dec_EmailVerified E) evt) (\<lambda>p.
            Inr (state \<lparr> us_email_verified := True \<rparr>))
      | EventTOTPEnabled \<Rightarrow>
          on_ok (UnmarshalPayload E (dec_TOTPEnabled E) evt) (\<lambda>p.
            Inr (state \<lparr> us_totp_enabled := True, us_totp_secret := te_secret p \<rparr>))
      | EventTOTPDisabled \<Rightarrow>
          Inr (state \<lparr> us_totp_enabled := False, us_totp_secret := [] \<rparr>)
      | EventExternalAccountLinked \<Rightarrow>
          on_ok (UnmarshalPayload E (dec_ExternalAccountLinked E) evt) (\<lambda>p.
            Inr (state \<lparr> us_external_accounts := us_external_accounts state
              @ [NewExternalAccount (ea_provider p) (ea_subject p) (ea_email p)
                   (ea_display_name p) (evt_occurred_at evt)] \<rparr>))
      | EventExternalAccountUnlinked \<Rightarrow>
          on_ok (UnmarshalPayload E (dec_ExternalAccountUnlinked E) evt) (\<lambda>p.
            Inr (state \<lparr> us_external_accounts :=
              filter (\<lambda>ea. ea_provider ea \<noteq> eu_provider p \<or> ea_subject ea \<noteq> eu_subject p)
                (us_external_accounts state) \<rparr>))
      | _ \<Rightarrow>
          Inl (new_error Rejection ''usermgmt.user.unknown_event''
            (''FoldUser received unknown event type: '' @ event_type_name (evt_type evt))))"

section \<open>The other folds\<close>

definition FoldMembership ::
  "'raw event_env \<Rightarrow> MembershipState \<Rightarrow> 'raw event \<Rightarrow> err + MembershipState" where
  "FoldMembership E state evt =
     (case evt_type evt of
        EventMemberAdded \<Rightarrow>
          on_ok (UnmarshalPayload E (dec_MemberAdded E) evt) (\<lambda>p.
          on_ok (ActorKindFromString (ma_actor_kind p)) (\<lambda>kind.
          on_ok (ParseTenantID (ids E) (ma_tenant_id p)) (\<lambda>tenantID.
            Inr (state \<lparr> ms_actor_id := Some (NewActorID kind (ma_actor_id p)),
                         ms_tenant_id := Some tenantID,
                         ms_roles := ma_roles p, ms_removed := False \<rparr>))))
      | EventMemberRolesChanged \<Rightarrow>
          on_ok (UnmarshalPayload E (dec_MemberRolesChanged E) evt) (\<lambda>p.
            Inr (state \<lparr> ms_roles := mc_roles p \<rparr>))
      | EventMemberRemoved \<Rightarrow> Inr (state \<lparr> ms_roles := [], ms_removed := True \<rparr>)
      | _ \<Rightarrow>
          Inl (new_error Rejection ''usermgmt.membership.unknown_event''
            (''FoldMembership received unknown event type: '' @ event_type_name (evt_type evt))))"

definition FoldTenant :: "'raw event_env \<Rightarrow> TenantState \<Rightarrow> 'raw event \<Rightarrow> err + TenantState" where
  "FoldTenant E state evt =
     (case evt_type evt of
        EventTenantCreated \<Rightarrow>
          on_ok (UnmarshalPayload E (dec_TenantCreated E) evt) (\<lambda>p.
            Inr (state \<lparr> ts_name := tc_name p, ts_display_name := tc_display_name p,
                         ts_suspended := False, ts_deleted := False,
                         ts_suspend_reason := [], ts_delete_reason := [] \<rparr>))
      | EventTenantSuspended \<Rightarrow>
          on_ok (UnmarshalPayload E (dec_TenantSuspended E) evt) (\<lambda>p.
            Inr (state \<lparr> ts_suspended := True, ts_suspend_reason := ts_reason p \<rparr>))
      | EventTenantReactivated \<Rightarrow>
          Inr (state \<lparr> ts_suspended := False, ts_suspend_reason := [] \<rparr>)
      | EventTenantDeleted \<Rightarrow>
          on_ok (UnmarshalPayload E (dec_TenantDeleted E) evt) (\<lambda>p.
            Inr (state \<lparr> ts_deleted := True, ts_suspended := False, ts_suspend_reason := [],
                         ts_delete_reason := tx_reason p \<rparr>))
      | _ \<Rightarrow>
          Inl (new_error Rejection ''usermgmt.tenant.unknown_event''
            (''FoldTenant received unknown event type: '' @ event_type_name (evt_type evt))))"

definition FoldBot :: "'raw event_env \<Rightarrow> BotState \<Rightarrow> 'raw event \<Rightarrow> err + BotState" where
  "FoldBot E state evt =
     (case evt_type evt of
        EventBotRegistered \<Rightarrow>
          on_ok (UnmarshalPayload E (dec_BotRegistered E) evt) (\<lambda>p.
            Inr (state \<lparr> bs_name := br_name p, bs_owner_id := Some (br_owner_id p),
                         bs_token_hash := br_token_hash p, bs_scopes := br_scopes p,
                         bs_deleted := False \<rparr>))
      | EventBotDeleted \<Rightarrow> Inr (state \<lparr> bs_deleted := True \<rparr>)
      | _ \<Rightarrow>
          Inl (new_error Rejection ''usermgmt.bot.unknown_event''
            (''FoldBot received unknown event type: '' @ event_type_name (evt_type evt))))"

text \<open>Rebuilding a state from a stream: the left fold with the first error ending it, as the
  repository of go-cqrs-lite applies a decider's \<open>Apply\<close>.\<close>

fun fold_events :: "('s \<Rightarrow> 'raw event \<Rightarrow> err + 's) \<Rightarrow> 's \<Rightarrow> 'raw event list \<Rightarrow> err + 's" where
  "fold_events f s [] = Inr s"
| "fold_events f s (e # es) = on_ok (f s e) (\<lambda>s'. fold_events f s' es)"

lemma fold_events_append:
  "fold_events f s (es @ es') = on_ok (fold_events f s es) (\<lambda>s'. fold_events f s' es')"
  by (induction es arbitrary: s) (auto simp: on_ok_def split: sum.splits)

end
