(* ===== verification/Aggregate.thy ===== *)
theory Aggregate
  imports Fold
begin

text \<open>
  What every event-sourced aggregate of \<open>usermgmt\<close> shares: the idiom that builds one event and
  wraps the constructor's error, the streams a sequence of commands can produce, and the contract
  between a decider and its fold as the locale \<open>aggregate\<close>, which the user, membership, tenant
  and bot theories interpret. The repository of go-cqrs-lite loads a stream, folds it, asks the
  decider and appends; \<open>execute\<close> and \<open>stream_of\<close> say that in one step and over many.
\<close>

section \<open>Emitting one event\<close>

text \<open>The tail of every decider: \<open>event.New\<close>, its error wrapped as an infrastructure error,
  else the one event.\<close>

definition emit ::
  "'raw event_env \<Rightarrow> event_type \<Rightarrow> stream_id \<Rightarrow> stream_type \<Rightarrow> version \<Rightarrow> payload \<Rightarrow> encoding
   \<Rightarrow> string \<Rightarrow> string \<Rightarrow> err + 'raw event list" where
  "emit E t aggID st version p enc code msg =
     (case event_new E t aggID st (increment E version) p enc of
        Inl e \<Rightarrow> Inl (wrap_error Infrastructure e code msg)
      | Inr evt \<Rightarrow> Inr [evt])"

text \<open>The event emitted, as the decider's caller may rely on it.\<close>

definition emitted ::
  "'raw event_env \<Rightarrow> event_type \<Rightarrow> stream_id \<Rightarrow> stream_type \<Rightarrow> version \<Rightarrow> payload \<Rightarrow> 'raw event \<Rightarrow> bool"
where
  "emitted E t aggID st version p evt \<longleftrightarrow>
     evt_type evt = t \<and> evt_stream evt = aggID \<and> evt_stream_type evt = st
     \<and> evt_version evt = increment E version
     \<and> for_encoding E (evt_encoding evt) = None
     \<and> decodes E (evt_encoding evt) (evt_payload evt) p"

lemma emit_Inr:
  assumes "event_new_ok E" and "emit E t aggID st version p enc code msg = Inr evts"
  shows "\<exists>evt. evts = [evt] \<and> emitted E t aggID st version p evt"
  using assms event_new_okD [OF assms(1)]
  by (fastforce simp: emit_def emitted_def split: sum.splits)

lemma emit_not_Nil: "emit E t aggID st version p enc code msg \<noteq> Inr []"
  by (simp add: emit_def split: sum.splits)

text \<open>Facts about the environment under which the deciders' events can be folded again.\<close>

definition env_ok :: "'raw event_env \<Rightarrow> bool" where
  "env_ok E \<longleftrightarrow> event_new_ok E \<and> upcast_transparent E"

lemma env_okD: "env_ok E \<Longrightarrow> event_new_ok E" "env_ok E \<Longrightarrow> upcast_transparent E"
  by (simp_all add: env_ok_def)

lemma decodesD:
  assumes "env_ok E" and "for_encoding E (evt_encoding evt) = None"
    and "dec (evt_encoding evt) (evt_payload evt) = Inr p"
  shows "UnmarshalPayload E dec evt = Inr p"
  using assms by (simp add: UnmarshalPayload_transparent env_okD)

section \<open>Executing commands\<close>

definition execute ::
  "('cmd \<Rightarrow> 's \<Rightarrow> version \<Rightarrow> err + 'raw event list) \<Rightarrow> ('s \<Rightarrow> 'raw event \<Rightarrow> err + 's)
   \<Rightarrow> 'cmd \<Rightarrow> 's \<Rightarrow> version \<Rightarrow> err + 's" where
  "execute decide apply_event cmd s v =
     on_ok (decide cmd s v) (\<lambda>evts. fold_events apply_event s evts)"

inductive stream_of ::
  "('cmd \<Rightarrow> 's \<Rightarrow> version \<Rightarrow> err + 'raw event list) \<Rightarrow> ('s \<Rightarrow> 'raw event \<Rightarrow> err + 's) \<Rightarrow> 's
   \<Rightarrow> ('cmd \<Rightarrow> bool) \<Rightarrow> 'raw event list \<Rightarrow> bool"
  for decide apply_event initial admissible where
  stream_empty: "stream_of decide apply_event initial admissible []"
| stream_step:
    "stream_of decide apply_event initial admissible es \<Longrightarrow>
     fold_events apply_event initial es = Inr s \<Longrightarrow> admissible cmd \<Longrightarrow>
     decide cmd s v = Inr new \<Longrightarrow>
     stream_of decide apply_event initial admissible (es @ new)"

inductive_cases stream_snocE: "stream_of decide apply_event initial admissible (es @ [e])"

section \<open>Agreement with a specification\<close>

text \<open>How a decider refuses, and how it fails when the event cannot be built.\<close>

definition refusal :: "err \<Rightarrow> bool" where
  "refusal e \<longleftrightarrow> (\<exists>f c m x. e = Fam f c m 0 x None \<and> f \<in> {Rejection, Conflict})"

definition creation_failed :: "err \<Rightarrow> bool" where
  "creation_failed e \<longleftrightarrow> (\<exists>c m k. e = Fam Infrastructure c m 0 [] (Some k))"

lemma refusal_new [simp]: "refusal (Fam f c m 0 x None) \<longleftrightarrow> f \<in> {Rejection, Conflict}"
  by (auto simp: refusal_def)

lemma emit_Inl: "emit E t aggID st v p enc c m = Inl e \<Longrightarrow> creation_failed e"
  by (auto simp: emit_def creation_failed_def split: sum.splits)

text \<open>The outcome of one command against its specification: accepted with the specified state,
  refused where the specification refuses, or failed to build the event.\<close>

definition agrees ::
  "err + 'raw event list \<Rightarrow> ('raw event list \<Rightarrow> err + 's) \<Rightarrow> (time \<Rightarrow> 's option) \<Rightarrow> bool" where
  "agrees r apply_events spec \<longleftrightarrow>
     (case r of
        Inr evts \<Rightarrow> length evts \<le> 1 \<and> (\<exists>at s'. apply_events evts = Inr s' \<and> spec at = Some s')
      | Inl e \<Rightarrow> refusal e \<and> (\<forall>at. spec at = None) \<or> creation_failed e)"

lemma agrees_emit:
  assumes "env_ok E"
    and "\<And>evt. emitted E t aggID st v p evt \<Longrightarrow>
      \<exists>s'. f s evt = Inr s' \<and> spec (evt_occurred_at evt) = Some s'"
  shows "agrees (emit E t aggID st v p enc c m) (fold_events f s) spec"
proof (cases "emit E t aggID st v p enc c m")
  case (Inl e)
  then show ?thesis by (simp add: agrees_def emit_Inl)
next
  case (Inr evts)
  with emit_Inr [OF env_okD(1) [OF assms(1)]] obtain evt where
    "evts = [evt]" "emitted E t aggID st v p evt" by blast
  with Inr assms(2) show ?thesis by (fastforce simp: agrees_def)
qed

lemma agrees_Inl:
  "refusal e \<Longrightarrow> (\<And>at. spec at = None) \<Longrightarrow> agrees (Inl e) k spec"
  by (simp add: agrees_def)

lemma agrees_if:
  "(b \<Longrightarrow> agrees x k spec) \<Longrightarrow> (\<not> b \<Longrightarrow> agrees y k spec) \<Longrightarrow>
   agrees (if b then x else y) k spec"
  by simp

lemma agrees_case:
  "(x = None \<Longrightarrow> agrees n k spec) \<Longrightarrow> (\<And>y. x = Some y \<Longrightarrow> agrees (f y) k spec) \<Longrightarrow>
   agrees (case x of None \<Rightarrow> n | Some y \<Rightarrow> f y) k spec"
  by (cases x) simp_all

lemma agrees_Nil:
  "(\<And>at. spec at = Some s) \<Longrightarrow> agrees (Inr []) (fold_events f s) spec"
  by (auto simp: agrees_def)

section \<open>The contract of an aggregate\<close>

text \<open>\<open>env\<close> is the condition on the environment under which the contract holds.\<close>

locale aggregate =
  fixes env :: bool
    and decide :: "'cmd \<Rightarrow> 's \<Rightarrow> version \<Rightarrow> err + 'raw event list"
    and apply_event :: "'s \<Rightarrow> 'raw event \<Rightarrow> err + 's"
    and initial :: 's
    and admissible :: "'cmd \<Rightarrow> bool"
    and inv :: "'s \<Rightarrow> bool"
  assumes inv_initial: "inv initial"
    and decide_applies:
      "env \<Longrightarrow> inv s \<Longrightarrow> admissible cmd \<Longrightarrow> decide cmd s v = Inr new \<Longrightarrow>
       \<exists>s'. fold_events apply_event s new = Inr s' \<and> inv s'"
begin

lemma execute_inv:
  assumes env and "inv s" and "admissible cmd"
  shows "(\<exists>e. decide cmd s v = Inl e \<and> execute decide apply_event cmd s v = Inl e)
    \<or> (\<exists>s'. execute decide apply_event cmd s v = Inr s' \<and> inv s')"
  using decide_applies [OF assms]
  by (cases "decide cmd s v") (auto simp: execute_def)

lemma stream_folds:
  assumes env and "stream_of decide apply_event initial admissible es"
  shows "\<exists>s. fold_events apply_event initial es = Inr s \<and> inv s"
  using assms(2)
proof induction
  case stream_empty
  show ?case by (simp add: inv_initial)
next
  case (stream_step es s cmd v new)
  then have "inv s" by simp
  with decide_applies [OF assms(1)] stream_step.hyps obtain s' where
    "fold_events apply_event s new = Inr s'" "inv s'" by blast
  with stream_step.hyps show ?case by (simp add: fold_events_append)
qed

end

section \<open>Aggregates with an abstract contract\<close>

text \<open>
  \<open>specified\<close>: every decision agrees with an abstract contract \<open>spec\<close>, a partial function
  from command, time of the event and state to the next state. With an invariant the contract keeps,
  that makes an \<open>aggregate\<close>.
\<close>

locale specified =
  fixes env :: bool
    and decide :: "'cmd \<Rightarrow> 's \<Rightarrow> version \<Rightarrow> err + 'raw event list"
    and apply_event :: "'s \<Rightarrow> 'raw event \<Rightarrow> err + 's"
    and admissible :: "'cmd \<Rightarrow> bool"
    and spec :: "'cmd \<Rightarrow> time \<Rightarrow> 's \<Rightarrow> 's option"
  assumes decide_agrees:
    "env \<Longrightarrow> admissible cmd \<Longrightarrow>
     agrees (decide cmd s v) (fold_events apply_event s) (\<lambda>at. spec cmd at s)"
begin

lemma execute_spec:
  assumes env and "admissible cmd" and "execute decide apply_event cmd s v = Inr s'"
  shows "\<exists>at. spec cmd at s = Some s'"
  using assms decide_agrees [of cmd s v] by (auto simp: execute_def agrees_def on_ok_eq_Inr)

lemma decide_spec:
  assumes env and "admissible cmd" and "decide cmd s v = Inr new"
  shows "length new \<le> 1 \<and> (\<exists>at s'. fold_events apply_event s new = Inr s' \<and> spec cmd at s = Some s')"
  using assms decide_agrees [of cmd s v] by (auto simp: agrees_def)

lemma decide_refused:
  assumes env and "admissible cmd" and "decide cmd s v = Inl e" and "\<not> creation_failed e"
  shows "refusal e \<and> (\<forall>at. spec cmd at s = None)"
  using assms decide_agrees [of cmd s v] by (auto simp: agrees_def)

end

locale specified_inv = specified +
  fixes initial :: 's and inv :: "'s \<Rightarrow> bool"
  assumes initial_inv: "inv initial"
    and spec_inv: "inv s \<Longrightarrow> admissible cmd \<Longrightarrow> spec cmd at s = Some s' \<Longrightarrow> inv s'"

sublocale specified_inv \<subseteq> aggregate env decide apply_event initial admissible inv
proof
  show "inv initial" by (rule initial_inv)
next
  fix s cmd v new
  assume env and "inv s" and "admissible cmd" and "decide cmd s v = Inr new"
  with decide_spec [of cmd s v new] spec_inv [of s cmd]
  show "\<exists>s'. fold_events apply_event s new = Inr s' \<and> inv s'" by blast
qed

section \<open>Reading what was emitted\<close>

text \<open>A decoded event of a type is folded as its payload says. One lemma per event type, collected
  in \<open>folds\<close>: the deciders' proofs never look into the decoding.\<close>

named_theorems folds \<open>folding an emitted event\<close>

lemma emitted_type: "emitted E t aggID st v p evt \<Longrightarrow> evt_type evt = t"
  by (simp add: emitted_def)

lemma emitted_decodes:
  assumes "env_ok E" and "emitted E t aggID st v p evt"
  shows "decodes E (evt_encoding evt) (evt_payload evt) p"
    and "for_encoding E (evt_encoding evt) = None"
  using assms by (simp_all add: emitted_def)

lemma FoldUser_UserRegistered [folds]:
  "env_ok E \<Longrightarrow> emitted E EventUserRegistered aggID st v (PUserRegistered p) evt \<Longrightarrow>
   FoldUser E s evt =
     Inr (UserState_zero \<lparr> us_email := ur_email p, us_display_name := ur_display_name p \<rparr>)"
  by (simp add: FoldUser_def emitted_def decodes_def decodesD)

lemma FoldUser_EmailChanged [folds]:
  "env_ok E \<Longrightarrow> emitted E EventEmailChanged aggID st v (PEmailChanged p) evt \<Longrightarrow>
   FoldUser E s evt =
     Inr (s \<lparr> us_email := ec_email p, us_email_verified := False, us_totp_enabled := False,
              us_totp_secret := [] \<rparr>)"
  by (simp add: FoldUser_def emitted_def decodes_def decodesD)

lemma FoldUser_DisplayNameChanged [folds]:
  "env_ok E \<Longrightarrow> emitted E EventDisplayNameChanged aggID st v (PDisplayNameChanged p) evt \<Longrightarrow>
   FoldUser E s evt = Inr (s \<lparr> us_display_name := dn_display_name p \<rparr>)"
  by (simp add: FoldUser_def emitted_def decodes_def decodesD)

lemma FoldUser_UserDeleted [folds]:
  "env_ok E \<Longrightarrow> emitted E EventUserDeleted aggID st v (PUserDeleted p) evt \<Longrightarrow>
   FoldUser E s evt = Inr (s \<lparr> us_deleted := True, us_delete_reason := ud_reason p \<rparr>)"
  by (simp add: FoldUser_def emitted_def decodes_def decodesD)

lemma FoldUser_CredentialAdded [folds]:
  "env_ok E \<Longrightarrow> emitted E EventCredentialAdded aggID st v (PCredentialAdded p) evt \<Longrightarrow>
   FoldUser E s evt =
     Inr (s \<lparr> us_credentials := us_credentials s @ [NewCredentialFromPayload p (evt_occurred_at evt)] \<rparr>)"
  by (simp add: FoldUser_def emitted_def decodes_def decodesD)

lemma FoldUser_CredentialRemoved [folds]:
  "env_ok E \<Longrightarrow> emitted E EventCredentialRemoved aggID st v (PCredentialRemoved p) evt \<Longrightarrow>
   FoldUser E s evt =
     Inr (s \<lparr> us_credentials := filter (\<lambda>c. cred_id c \<noteq> cr_id p) (us_credentials s) \<rparr>)"
  by (simp add: FoldUser_def applyCredentialRemoved_def emitted_def decodes_def decodesD)

definition use_of :: "CredentialUsedPayload \<Rightarrow> CredentialUse" where
  "use_of p =
     \<lparr> use_credential_id = cu_credential_id p, use_sign_count = cu_sign_count p,
       use_user_present = cu_user_present p, use_user_verified = cu_user_verified p,
       use_backup_state = cu_backup_state p \<rparr>"

lemma FoldUser_CredentialUsed [folds]:
  "env_ok E \<Longrightarrow> emitted E EventCredentialUsed aggID st v (PCredentialUsed p) evt \<Longrightarrow>
   FoldUser E s evt =
     (case update_first (\<lambda>c. cred_id c = cu_credential_id p) (\<lambda>c. ApplyUse c (use_of p))
             (us_credentials s) of
        Some credentials \<Rightarrow> Inr (s \<lparr> us_credentials := credentials \<rparr>)
      | None \<Rightarrow>
          Inl (new_error Corruption ''identity.credential_used.unknown_credential''
            ''CredentialUsed event for a credential the stream never added''))"
  by (simp add: FoldUser_def applyCredentialUsed_def emitted_def decodes_def decodesD use_of_def Let_def)

lemma FoldUser_EmailVerified [folds]:
  "env_ok E \<Longrightarrow> emitted E EventEmailVerified aggID st v (PEmailVerified p) evt \<Longrightarrow>
   FoldUser E s evt = Inr (s \<lparr> us_email_verified := True \<rparr>)"
  by (simp add: FoldUser_def emitted_def decodes_def decodesD)

lemma FoldUser_TOTPEnabled [folds]:
  "env_ok E \<Longrightarrow> emitted E EventTOTPEnabled aggID st v (PTOTPEnabled p) evt \<Longrightarrow>
   FoldUser E s evt = Inr (s \<lparr> us_totp_enabled := True, us_totp_secret := te_secret p \<rparr>)"
  by (simp add: FoldUser_def emitted_def decodes_def decodesD)

lemma FoldUser_TOTPDisabled [folds]:
  "env_ok E \<Longrightarrow> emitted E EventTOTPDisabled aggID st v (PTOTPDisabled p) evt \<Longrightarrow>
   FoldUser E s evt = Inr (s \<lparr> us_totp_enabled := False, us_totp_secret := [] \<rparr>)"
  by (simp add: FoldUser_def emitted_def)

lemma FoldUser_ExternalAccountLinked [folds]:
  "env_ok E \<Longrightarrow> emitted E EventExternalAccountLinked aggID st v (PExternalAccountLinked p) evt \<Longrightarrow>
   FoldUser E s evt =
     Inr (s \<lparr> us_external_accounts := us_external_accounts s
       @ [NewExternalAccount (ea_provider p) (ea_subject p) (ea_email p) (ea_display_name p)
            (evt_occurred_at evt)] \<rparr>)"
  by (simp add: FoldUser_def emitted_def decodes_def decodesD)

lemma FoldUser_ExternalAccountUnlinked [folds]:
  "env_ok E \<Longrightarrow> emitted E EventExternalAccountUnlinked aggID st v (PExternalAccountUnlinked p) evt \<Longrightarrow>
   FoldUser E s evt =
     Inr (s \<lparr> us_external_accounts :=
       filter (\<lambda>ea. ea_provider ea \<noteq> eu_provider p \<or> ea_subject ea \<noteq> eu_subject p)
         (us_external_accounts s) \<rparr>)"
  by (simp add: FoldUser_def emitted_def decodes_def decodesD)

lemma FoldTenant_TenantCreated [folds]:
  "env_ok E \<Longrightarrow> emitted E EventTenantCreated aggID st v (PTenantCreated p) evt \<Longrightarrow>
   FoldTenant E s evt =
     Inr (s \<lparr> ts_name := tc_name p, ts_display_name := tc_display_name p, ts_suspended := False,
              ts_deleted := False, ts_suspend_reason := [], ts_delete_reason := [] \<rparr>)"
  by (simp add: FoldTenant_def emitted_def decodes_def decodesD)

lemma FoldTenant_TenantSuspended [folds]:
  "env_ok E \<Longrightarrow> emitted E EventTenantSuspended aggID st v (PTenantSuspended p) evt \<Longrightarrow>
   FoldTenant E s evt = Inr (s \<lparr> ts_suspended := True, ts_suspend_reason := ts_reason p \<rparr>)"
  by (simp add: FoldTenant_def emitted_def decodes_def decodesD)

lemma FoldTenant_TenantReactivated [folds]:
  "env_ok E \<Longrightarrow> emitted E EventTenantReactivated aggID st v (PTenantReactivated p) evt \<Longrightarrow>
   FoldTenant E s evt = Inr (s \<lparr> ts_suspended := False, ts_suspend_reason := [] \<rparr>)"
  by (simp add: FoldTenant_def emitted_def)

lemma FoldTenant_TenantDeleted [folds]:
  "env_ok E \<Longrightarrow> emitted E EventTenantDeleted aggID st v (PTenantDeleted p) evt \<Longrightarrow>
   FoldTenant E s evt =
     Inr (s \<lparr> ts_deleted := True, ts_suspended := False, ts_suspend_reason := [],
              ts_delete_reason := tx_reason p \<rparr>)"
  by (simp add: FoldTenant_def emitted_def decodes_def decodesD)

lemma FoldBot_BotRegistered [folds]:
  "env_ok E \<Longrightarrow> emitted E EventBotRegistered aggID st v (PBotRegistered p) evt \<Longrightarrow>
   FoldBot E s evt =
     Inr (s \<lparr> bs_name := br_name p, bs_owner_id := Some (br_owner_id p),
              bs_token_hash := br_token_hash p, bs_scopes := br_scopes p, bs_deleted := False \<rparr>)"
  by (simp add: FoldBot_def emitted_def decodes_def decodesD)

lemma FoldBot_BotDeleted [folds]:
  "env_ok E \<Longrightarrow> emitted E EventBotDeleted aggID st v (PBotDeleted p) evt \<Longrightarrow>
   FoldBot E s evt = Inr (s \<lparr> bs_deleted := True \<rparr>)"
  by (simp add: FoldBot_def emitted_def)

lemma FoldMembership_MemberAdded [folds]:
  "env_ok E \<Longrightarrow> emitted E EventMemberAdded aggID st v (PMemberAdded p) evt \<Longrightarrow>
   FoldMembership E s evt =
     on_ok (ActorKindFromString (ma_actor_kind p)) (\<lambda>kind.
     on_ok (ParseTenantID (ids E) (ma_tenant_id p)) (\<lambda>tenantID.
       Inr (s \<lparr> ms_actor_id := Some (NewActorID kind (ma_actor_id p)), ms_tenant_id := Some tenantID,
                ms_roles := ma_roles p, ms_removed := False \<rparr>)))"
  by (simp add: FoldMembership_def emitted_def decodes_def decodesD)

lemma FoldMembership_MemberRolesChanged [folds]:
  "env_ok E \<Longrightarrow> emitted E EventMemberRolesChanged aggID st v (PMemberRolesChanged p) evt \<Longrightarrow>
   FoldMembership E s evt = Inr (s \<lparr> ms_roles := mc_roles p \<rparr>)"
  by (simp add: FoldMembership_def emitted_def decodes_def decodesD)

lemma FoldMembership_MemberRemoved [folds]:
  "env_ok E \<Longrightarrow> emitted E EventMemberRemoved aggID st v (PMemberRemoved p) evt \<Longrightarrow>
   FoldMembership E s evt = Inr (s \<lparr> ms_roles := [], ms_removed := True \<rparr>)"
  by (simp add: FoldMembership_def emitted_def)

section \<open>An example environment\<close>

text \<open>An environment for the witnesses: payloads are kept as values, every encoding resolves and
  every event is built, at time 0.\<close>

definition demo_ids :: id_env where
  "demo_ids =
     \<lparr> user_text = (\<lambda>u. case u of UserID n \<Rightarrow> replicate (unat n) (CHR ''x'')),
       user_display = (\<lambda>u. case u of UserID n \<Rightarrow> replicate (unat n) (CHR ''x'')),
       library_ParseUserID = (\<lambda>s. Inr (UserID (of_nat (length s)))), zero_user = UserID 0,
       actor_is_zero = (\<lambda>a. Raw a = []), tenant_is_zero = (\<lambda>t. tenant_get t = []),
       library_ParseActorID = (\<lambda>s. Inr (NewActorID ActorUser s)), derive_stream_id = concat,
       prefixed = (\<lambda>a. ''user:'' @ Raw a),
       kind_text = (\<lambda>k. case k of ActorUser \<Rightarrow> ''user'' | ActorBot \<Rightarrow> ''bot'' | ActorSystem \<Rightarrow> ''system''
                       | ActorService \<Rightarrow> ''service'' | ActorUnknown \<Rightarrow> ''unknown''),
       actor_text = Raw, user_is_zero = (\<lambda>u. u = UserID 0), sha_user = (\<lambda>s. UserID 5), quoted = id \<rparr>"

definition demo_env :: "payload event_env" where
  "demo_env =
     \<lparr> ids = demo_ids, upcasters = None, for_encoding = (\<lambda>enc. None), encoding_name = (\<lambda>enc. ''json''),
       extractSchemaVersion = (\<lambda>raw. 2), increment = Suc,
       event_new = (\<lambda>t s st v p enc.
         Inr \<lparr> evt_type = t, evt_stream = s, evt_stream_type = st, evt_version = v, evt_payload = p,
               evt_encoding = enc, evt_occurred_at = 0 \<rparr>),
       dec_UserRegistered = (\<lambda>enc raw. case raw of PUserRegistered p \<Rightarrow> Inr p | _ \<Rightarrow> Inl (Foreign ''type'')),
       dec_RolesUpdated = (\<lambda>enc raw. case raw of PRolesUpdated p \<Rightarrow> Inr p | _ \<Rightarrow> Inl (Foreign ''type'')),
       dec_EmailChanged = (\<lambda>enc raw. case raw of PEmailChanged p \<Rightarrow> Inr p | _ \<Rightarrow> Inl (Foreign ''type'')),
       dec_DisplayNameChanged = (\<lambda>enc raw. case raw of PDisplayNameChanged p \<Rightarrow> Inr p | _ \<Rightarrow> Inl (Foreign ''type'')),
       dec_UserDeleted = (\<lambda>enc raw. case raw of PUserDeleted p \<Rightarrow> Inr p | _ \<Rightarrow> Inl (Foreign ''type'')),
       dec_CredentialAdded = (\<lambda>enc raw. case raw of PCredentialAdded p \<Rightarrow> Inr p | _ \<Rightarrow> Inl (Foreign ''type'')),
       dec_CredentialRemoved = (\<lambda>enc raw. case raw of PCredentialRemoved p \<Rightarrow> Inr p | _ \<Rightarrow> Inl (Foreign ''type'')),
       dec_CredentialUsed = (\<lambda>enc raw. case raw of PCredentialUsed p \<Rightarrow> Inr p | _ \<Rightarrow> Inl (Foreign ''type'')),
       dec_EmailVerified = (\<lambda>enc raw. case raw of PEmailVerified p \<Rightarrow> Inr p | _ \<Rightarrow> Inl (Foreign ''type'')),
       dec_TOTPEnabled = (\<lambda>enc raw. case raw of PTOTPEnabled p \<Rightarrow> Inr p | _ \<Rightarrow> Inl (Foreign ''type'')),
       dec_TOTPDisabled = (\<lambda>enc raw. case raw of PTOTPDisabled p \<Rightarrow> Inr p | _ \<Rightarrow> Inl (Foreign ''type'')),
       dec_ExternalAccountLinked = (\<lambda>enc raw. case raw of PExternalAccountLinked p \<Rightarrow> Inr p | _ \<Rightarrow> Inl (Foreign ''type'')),
       dec_ExternalAccountUnlinked = (\<lambda>enc raw. case raw of PExternalAccountUnlinked p \<Rightarrow> Inr p | _ \<Rightarrow> Inl (Foreign ''type'')),
       dec_MemberAdded = (\<lambda>enc raw. case raw of PMemberAdded p \<Rightarrow> Inr p | _ \<Rightarrow> Inl (Foreign ''type'')),
       dec_MemberRolesChanged = (\<lambda>enc raw. case raw of PMemberRolesChanged p \<Rightarrow> Inr p | _ \<Rightarrow> Inl (Foreign ''type'')),
       dec_MemberRemoved = (\<lambda>enc raw. case raw of PMemberRemoved p \<Rightarrow> Inr p | _ \<Rightarrow> Inl (Foreign ''type'')),
       dec_TenantCreated = (\<lambda>enc raw. case raw of PTenantCreated p \<Rightarrow> Inr p | _ \<Rightarrow> Inl (Foreign ''type'')),
       dec_TenantSuspended = (\<lambda>enc raw. case raw of PTenantSuspended p \<Rightarrow> Inr p | _ \<Rightarrow> Inl (Foreign ''type'')),
       dec_TenantReactivated = (\<lambda>enc raw. case raw of PTenantReactivated p \<Rightarrow> Inr p | _ \<Rightarrow> Inl (Foreign ''type'')),
       dec_TenantDeleted = (\<lambda>enc raw. case raw of PTenantDeleted p \<Rightarrow> Inr p | _ \<Rightarrow> Inl (Foreign ''type'')),
       dec_BotRegistered = (\<lambda>enc raw. case raw of PBotRegistered p \<Rightarrow> Inr p | _ \<Rightarrow> Inl (Foreign ''type'')),
       dec_BotDeleted = (\<lambda>enc raw. case raw of PBotDeleted p \<Rightarrow> Inr p | _ \<Rightarrow> Inl (Foreign ''type'')) \<rparr>"

lemma demo_env_ok: "env_ok demo_env"
  unfolding env_ok_def event_new_ok_def
proof (intro conjI allI impI)
  show "upcast_transparent demo_env" by (rule upcast_transparent_None) (simp add: demo_env_def)
qed (auto simp: demo_env_def decodes_def split: payload.split)

end
