(* ===== verification/User_Decider.thy ===== *)
theory User_Decider
  imports Aggregate
begin

text \<open>
  The deciders of the user aggregate (\<open>usermgmt/es_decide.go\<close>, \<open>es_decide_profile.go\<close>,
  \<open>es_decide_credentials.go\<close>, \<open>es_decide_external.go\<close>, \<open>es_decide_security.go\<close>), their
  commands (\<open>identity-model/commands.go\<close>) and the dispatch table (\<open>es_dispatch.go\<close>). The
  lemmas give the aggregate's invariant, that the fold accepts every event a decider emits, that a
  retried command changes nothing, that signature counters never regress and that deletion is final.
\<close>

section \<open>Deciders\<close>

definition requireExists :: "UserState \<Rightarrow> string \<Rightarrow> err option" where
  "requireExists state domain =
     (if \<not> User_Exists state
      then Some (new_error Rejection (''usermgmt.'' @ domain @ ''.not_found'') ''user does not exist'')
      else None)"

text \<open>The guard each decider on an existing user starts with.\<close>

definition guard_user ::
  "UserState \<Rightarrow> string \<Rightarrow> string \<Rightarrow> string \<Rightarrow> (err + 'a) \<Rightarrow> err + 'a" where
  "guard_user state domain code msg rest =
     (case requireExists state domain of
        Some e \<Rightarrow> Inl e
      | None \<Rightarrow> if us_deleted state then Inl (new_error Rejection code msg) else rest)"

definition decideRegisterUser ::
  "'raw event_env \<Rightarrow> stream_id \<Rightarrow> string \<Rightarrow> string \<Rightarrow> role list \<Rightarrow> UserState \<Rightarrow> version
   \<Rightarrow> err + 'raw event list" where
  "decideRegisterUser E aggID email displayName roles state version =
     (if User_Exists state
      then Inl (new_error Conflict ''usermgmt.user_already_exists'' ''user with this ID already exists'')
      else if email = []
      then Inl (new_error Rejection ''usermgmt.register.email_required'' ''email is required'')
      else emit E EventUserRegistered aggID AggregateTypeUser version
        (PUserRegistered \<lparr> ur_schema_version = CurrentSchemaVersion, ur_email = email,
                           ur_display_name = displayName, ur_roles = roles \<rparr>)
        EncodingJSON ''usermgmt.register.event_failed'' ''create UserRegistered event'')"

definition decideDeleteUser ::
  "'raw event_env \<Rightarrow> stream_id \<Rightarrow> string \<Rightarrow> UserState \<Rightarrow> version \<Rightarrow> err + 'raw event list" where
  "decideDeleteUser E aggID reason state version =
     guard_user state ''delete_user'' ''usermgmt.delete_user.already_deleted'' ''user is already deleted''
       (emit E EventUserDeleted aggID AggregateTypeUser version
         (PUserDeleted \<lparr> ud_schema_version = CurrentSchemaVersion, ud_reason = reason \<rparr>)
         EncodingJSON ''usermgmt.delete_user.event_failed'' ''create UserDeleted event'')"

definition decideChangeEmail ::
  "'raw event_env \<Rightarrow> stream_id \<Rightarrow> string \<Rightarrow> UserState \<Rightarrow> version \<Rightarrow> err + 'raw event list" where
  "decideChangeEmail E aggID email state version =
     guard_user state ''change_email'' ''usermgmt.change_email.deleted''
       ''cannot change email of deleted user''
       (if us_email state = email then Inr []
        else emit E EventEmailChanged aggID AggregateTypeUser version
          (PEmailChanged \<lparr> ec_schema_version = CurrentSchemaVersion, ec_email = email \<rparr>)
          EncodingJSON ''usermgmt.change_email.event_failed'' ''create EmailChanged event'')"

definition decideChangeDisplayName ::
  "'raw event_env \<Rightarrow> stream_id \<Rightarrow> string \<Rightarrow> UserState \<Rightarrow> version \<Rightarrow> err + 'raw event list" where
  "decideChangeDisplayName E aggID displayName state version =
     guard_user state ''change_display_name'' ''usermgmt.change_display_name.deleted''
       ''cannot change display name of deleted user''
       (if us_display_name state = displayName then Inr []
        else emit E EventDisplayNameChanged aggID AggregateTypeUser version
          (PDisplayNameChanged \<lparr> dn_schema_version = CurrentSchemaVersion, dn_display_name = displayName \<rparr>)
          EncodingJSON ''usermgmt.change_display_name.event_failed'' ''create DisplayNameChanged event'')"

definition decideVerifyEmail ::
  "'raw event_env \<Rightarrow> stream_id \<Rightarrow> UserState \<Rightarrow> version \<Rightarrow> err + 'raw event list" where
  "decideVerifyEmail E aggID state version =
     guard_user state ''verify_email'' ''usermgmt.verify_email.deleted''
       ''cannot verify email of deleted user''
       (if us_email_verified state then Inr []
        else emit E EventEmailVerified aggID AggregateTypeUser version
          (PEmailVerified \<lparr> ev_schema_version = CurrentSchemaVersion, ev_email = us_email state \<rparr>)
          EncodingJSON ''usermgmt.verify_email.event_failed'' ''create EmailVerified event'')"

definition findCredential :: "WebAuthnCredential list \<Rightarrow> bytes \<Rightarrow> WebAuthnCredential option" where
  "findCredential credentials credentialID = find (\<lambda>c. cred_id c = credentialID) credentials"

definition decideAddCredential ::
  "'raw event_env \<Rightarrow> stream_id \<Rightarrow> WebAuthnCredential \<Rightarrow> UserState \<Rightarrow> version \<Rightarrow> err + 'raw event list"
where
  "decideAddCredential E aggID cred state version =
     guard_user state ''add_credential'' ''usermgmt.add_credential.deleted''
       ''cannot add credential to deleted user''
       (if \<exists>existing\<in>set (us_credentials state). cred_id existing = cred_id cred
        then Inl (new_error Conflict ''usermgmt.credential_already_exists''
                    ''credential with this ID already exists'')
        else emit E EventCredentialAdded aggID AggregateTypeUser version
          (PCredentialAdded
             \<lparr> cred_id = cred_id cred, cred_public_key = cred_public_key cred,
               cred_attestation_type = cred_attestation_type cred,
               cred_transports = cred_transports cred, cred_aaguid = cred_aaguid cred,
               cred_sign_count = cred_sign_count cred,
               cred_user_present = False, cred_user_verified = False,
               cred_backup_eligible = cred_backup_eligible cred,
               cred_backup_state = cred_backup_state cred, cred_name = cred_name cred,
               ca_schema_version = CurrentSchemaVersion \<rparr>)
          EncodingCBOR ''usermgmt.add_credential.event_failed'' ''create CredentialAdded event'')"

definition decideRemoveCredential ::
  "'raw event_env \<Rightarrow> stream_id \<Rightarrow> bytes \<Rightarrow> UserState \<Rightarrow> version \<Rightarrow> err + 'raw event list" where
  "decideRemoveCredential E aggID credentialID state version =
     guard_user state ''remove_credential'' ''usermgmt.remove_credential.deleted''
       ''cannot remove credential from deleted user''
       (if \<not> (\<exists>c\<in>set (us_credentials state). cred_id c = credentialID)
        then Inl (new_error Rejection ''usermgmt.credential_not_found'' ''credential not found'')
        else emit E EventCredentialRemoved aggID AggregateTypeUser version
          (PCredentialRemoved \<lparr> cr_schema_version = CurrentSchemaVersion, cr_id = credentialID \<rparr>)
          EncodingCBOR ''usermgmt.remove_credential.event_failed'' ''create CredentialRemoved event'')"

definition decideRecordCredentialUse ::
  "'raw event_env \<Rightarrow> stream_id \<Rightarrow> CredentialUse \<Rightarrow> UserState \<Rightarrow> version \<Rightarrow> err + 'raw event list" where
  "decideRecordCredentialUse E aggID use state version =
     guard_user state ''record_credential_use'' ''usermgmt.record_credential_use.deleted''
       ''cannot record credential use for deleted user''
       (case findCredential (us_credentials state) (use_credential_id use) of
          None \<Rightarrow>
            Inl (new_error Rejection ''usermgmt.credential_not_found'' ''credential not found'')
        | Some existing \<Rightarrow>
            if CounterRegressed existing (use_sign_count use)
            then Inl (Fam Conflict ''usermgmt.credential_counter_regressed''
                   ''signature counter did not advance: the authenticator may be cloned'' 0
                   [(''stored_sign_count'', show_nat (unat (cred_sign_count existing))),
                    (''asserted_sign_count'', show_nat (unat (use_sign_count use)))] None)
            else if cred_sign_count existing = use_sign_count use
              \<and> cred_user_present existing = use_user_present use
              \<and> cred_user_verified existing = use_user_verified use
              \<and> cred_backup_state existing = use_backup_state use
            then Inr []
            else emit E EventCredentialUsed aggID AggregateTypeUser version
              (PCredentialUsed
                 \<lparr> cu_schema_version = CurrentSchemaVersion,
                   cu_credential_id = use_credential_id use, cu_sign_count = use_sign_count use,
                   cu_user_present = use_user_present use, cu_user_verified = use_user_verified use,
                   cu_backup_state = use_backup_state use \<rparr>)
              EncodingCBOR ''usermgmt.record_credential_use.event_failed''
              ''create CredentialUsed event'')"

definition decideLinkExternalAccount ::
  "'raw event_env \<Rightarrow> stream_id \<Rightarrow> string \<Rightarrow> string \<Rightarrow> string \<Rightarrow> string \<Rightarrow> UserState \<Rightarrow> version
   \<Rightarrow> err + 'raw event list" where
  "decideLinkExternalAccount E aggID provider subject email displayName state version =
     guard_user state ''link_external_account'' ''usermgmt.link_external_account.deleted''
       ''cannot link external account to deleted user''
       (if provider = [] \<or> subject = []
        then Inl (new_error Rejection ''usermgmt.link_external_account.invalid''
                    ''provider and subject are required'')
        else if \<exists>ea\<in>set (us_external_accounts state). ea_provider ea = provider \<and> ea_subject ea = subject
        then Inl (new_error Conflict ''usermgmt.external_account_already_linked''
                    ''external account already linked to this user'')
        else emit E EventExternalAccountLinked aggID AggregateTypeUser version
          (PExternalAccountLinked
             \<lparr> ea_provider = provider, ea_subject = subject, ea_email = email,
               ea_display_name = displayName, el_schema_version = CurrentSchemaVersion \<rparr>)
          EncodingJSON ''usermgmt.link_external_account.event_failed''
          ''create ExternalAccountLinked event'')"

definition decideUnlinkExternalAccount ::
  "'raw event_env \<Rightarrow> stream_id \<Rightarrow> string \<Rightarrow> string \<Rightarrow> UserState \<Rightarrow> version \<Rightarrow> err + 'raw event list"
where
  "decideUnlinkExternalAccount E aggID provider subject state version =
     guard_user state ''unlink_external_account'' ''usermgmt.unlink_external_account.deleted''
       ''cannot unlink external account from deleted user''
       (if \<not> (\<exists>ea\<in>set (us_external_accounts state). ea_provider ea = provider \<and> ea_subject ea = subject)
        then Inl (new_error Rejection ''usermgmt.external_account_not_found''
                    ''external account not linked to this user'')
        else if length (us_credentials state) = 0 \<and> length (us_external_accounts state) \<le> 1
        then Inl (new_error Rejection ''usermgmt.unlink_external_account.last_auth_method''
                    ''cannot remove the last authentication method'')
        else emit E EventExternalAccountUnlinked aggID AggregateTypeUser version
          (PExternalAccountUnlinked
             \<lparr> eu_schema_version = CurrentSchemaVersion, eu_provider = provider, eu_subject = subject \<rparr>)
          EncodingJSON ''usermgmt.unlink_external_account.event_failed''
          ''create ExternalAccountUnlinked event'')"

definition decideEnableTOTP ::
  "'raw event_env \<Rightarrow> stream_id \<Rightarrow> bytes \<Rightarrow> UserState \<Rightarrow> version \<Rightarrow> err + 'raw event list" where
  "decideEnableTOTP E aggID secret state version =
     guard_user state ''enable_totp'' ''usermgmt.enable_totp.deleted''
       ''cannot enable TOTP for deleted user''
       (if us_totp_enabled state then Inr []
        else emit E EventTOTPEnabled aggID AggregateTypeUser version
          (PTOTPEnabled \<lparr> te_schema_version = CurrentSchemaVersion, te_secret = secret \<rparr>)
          EncodingCBOR ''usermgmt.enable_totp.event_failed'' ''create TOTPEnabled event'')"

definition decideDisableTOTP ::
  "'raw event_env \<Rightarrow> stream_id \<Rightarrow> UserState \<Rightarrow> version \<Rightarrow> err + 'raw event list" where
  "decideDisableTOTP E aggID state version =
     guard_user state ''disable_totp'' ''usermgmt.disable_totp.deleted''
       ''cannot disable TOTP for deleted user''
       (if \<not> us_totp_enabled state then Inr []
        else emit E EventTOTPDisabled aggID AggregateTypeUser version
          (PTOTPDisabled \<lparr> td_schema_version = CurrentSchemaVersion \<rparr>)
          EncodingJSON ''usermgmt.disable_totp.event_failed'' ''create TOTPDisabled event'')"

section \<open>Commands and their dispatch\<close>

datatype user_cmd =
    RegisterUserCmd string string "role list"
  | ChangeEmailCmd string
  | ChangeDisplayNameCmd string
  | DeleteUserCmd string
  | AddCredentialCmd WebAuthnCredential
  | RemoveCredentialCmd bytes
  | RecordCredentialUseCmd CredentialUse
  | VerifyEmailCmd
  | EnableTOTPCmd bytes
  | DisableTOTPCmd
  | LinkExternalAccountCmd string string string string
  | UnlinkExternalAccountCmd string string

text \<open>\<open>RegisterCommands\<close>: the decider registered for each command; \<open>aggID\<close> is the command's
  stream.\<close>

fun decide_user ::
  "'raw event_env \<Rightarrow> stream_id \<Rightarrow> user_cmd \<Rightarrow> UserState \<Rightarrow> version \<Rightarrow> err + 'raw event list" where
  "decide_user E aggID (RegisterUserCmd email name roles) = decideRegisterUser E aggID email name roles"
| "decide_user E aggID (ChangeEmailCmd email) = decideChangeEmail E aggID email"
| "decide_user E aggID (ChangeDisplayNameCmd name) = decideChangeDisplayName E aggID name"
| "decide_user E aggID (DeleteUserCmd reason) = decideDeleteUser E aggID reason"
| "decide_user E aggID (AddCredentialCmd cred) = decideAddCredential E aggID cred"
| "decide_user E aggID (RemoveCredentialCmd credID) = decideRemoveCredential E aggID credID"
| "decide_user E aggID (RecordCredentialUseCmd use) = decideRecordCredentialUse E aggID use"
| "decide_user E aggID VerifyEmailCmd = decideVerifyEmail E aggID"
| "decide_user E aggID (EnableTOTPCmd secret) = decideEnableTOTP E aggID secret"
| "decide_user E aggID DisableTOTPCmd = decideDisableTOTP E aggID"
| "decide_user E aggID (LinkExternalAccountCmd provider subject email name) =
     decideLinkExternalAccount E aggID provider subject email name"
| "decide_user E aggID (UnlinkExternalAccountCmd provider subject) =
     decideUnlinkExternalAccount E aggID provider subject"

section \<open>What one command does\<close>

text \<open>
  The abstract contract of the user aggregate: the state a command leads to when it is accepted, or
  \<open>None\<close> when it is refused. \<open>at\<close> is when the event occurred.
\<close>

lemmas deciders_open =
  decideRegisterUser_def decideDeleteUser_def decideChangeEmail_def decideChangeDisplayName_def
  decideVerifyEmail_def decideAddCredential_def decideRemoveCredential_def
  decideLinkExternalAccount_def decideUnlinkExternalAccount_def
  decideEnableTOTP_def decideDisableTOTP_def

definition added_credential :: "WebAuthnCredential \<Rightarrow> time \<Rightarrow> WebAuthnCredential" where
  "added_credential c at =
     c \<lparr> cred_user_present := False, cred_user_verified := False, cred_created_at := at \<rparr>"

fun user_spec :: "user_cmd \<Rightarrow> time \<Rightarrow> UserState \<Rightarrow> UserState option" where
  "user_spec (RegisterUserCmd email name roles) at s =
     (if us_email s = [] \<and> email \<noteq> []
      then Some (UserState_zero \<lparr> us_email := email, us_display_name := name \<rparr>) else None)"
| "user_spec (ChangeEmailCmd email) at s =
     (if \<not> User_IsActive s then None
      else if us_email s = email then Some s
      else Some (s \<lparr> us_email := email, us_email_verified := False, us_totp_enabled := False,
                     us_totp_secret := [] \<rparr>))"
| "user_spec (ChangeDisplayNameCmd name) at s =
     (if \<not> User_IsActive s then None else Some (s \<lparr> us_display_name := name \<rparr>))"
| "user_spec (DeleteUserCmd reason) at s =
     (if \<not> User_IsActive s then None
      else Some (s \<lparr> us_deleted := True, us_delete_reason := reason \<rparr>))"
| "user_spec (AddCredentialCmd cred) at s =
     (if \<not> User_IsActive s \<or> (\<exists>c\<in>set (us_credentials s). cred_id c = cred_id cred) then None
      else Some (s \<lparr> us_credentials := us_credentials s @ [added_credential cred at] \<rparr>))"
| "user_spec (RemoveCredentialCmd credID) at s =
     (if \<not> User_IsActive s \<or> \<not> (\<exists>c\<in>set (us_credentials s). cred_id c = credID) then None
      else Some (s \<lparr> us_credentials := filter (\<lambda>c. cred_id c \<noteq> credID) (us_credentials s) \<rparr>))"
| "user_spec (RecordCredentialUseCmd use) at s =
     (if \<not> User_IsActive s then None
      else (case findCredential (us_credentials s) (use_credential_id use) of
              None \<Rightarrow> None
            | Some c \<Rightarrow>
                if CounterRegressed c (use_sign_count use) then None
                else map_option (\<lambda>cs. s \<lparr> us_credentials := cs \<rparr>)
                       (update_first (\<lambda>c. cred_id c = use_credential_id use) (\<lambda>c. ApplyUse c use)
                         (us_credentials s))))"
| "user_spec VerifyEmailCmd at s =
     (if \<not> User_IsActive s then None else Some (s \<lparr> us_email_verified := True \<rparr>))"
| "user_spec (EnableTOTPCmd secret) at s =
     (if \<not> User_IsActive s then None
      else if us_totp_enabled s then Some s
      else Some (s \<lparr> us_totp_enabled := True, us_totp_secret := secret \<rparr>))"
| "user_spec DisableTOTPCmd at s =
     (if \<not> User_IsActive s then None
      else if \<not> us_totp_enabled s then Some s
      else Some (s \<lparr> us_totp_enabled := False, us_totp_secret := [] \<rparr>))"
| "user_spec (LinkExternalAccountCmd provider subject email name) at s =
     (if \<not> User_IsActive s \<or> provider = [] \<or> subject = []
         \<or> (\<exists>ea\<in>set (us_external_accounts s). ea_provider ea = provider \<and> ea_subject ea = subject)
      then None
      else Some (s \<lparr> us_external_accounts :=
             us_external_accounts s @ [NewExternalAccount provider subject email name at] \<rparr>))"
| "user_spec (UnlinkExternalAccountCmd provider subject) at s =
     (if \<not> User_IsActive s
         \<or> \<not> (\<exists>ea\<in>set (us_external_accounts s). ea_provider ea = provider \<and> ea_subject ea = subject)
         \<or> us_credentials s = [] \<and> length (us_external_accounts s) \<le> 1
      then None
      else Some (s \<lparr> us_external_accounts :=
             filter (\<lambda>ea. ea_provider ea \<noteq> provider \<or> ea_subject ea \<noteq> subject)
               (us_external_accounts s) \<rparr>))"

section \<open>Refinement\<close>

lemma update_first_same:
  "find p xs = Some x \<Longrightarrow> f x = x \<Longrightarrow> update_first p f xs = Some xs"
  by (induction xs) (auto split: if_splits)

lemma ApplyUse_same:
  "cred_sign_count c = use_sign_count u \<Longrightarrow> cred_user_present c = use_user_present u \<Longrightarrow>
   cred_user_verified c = use_user_verified u \<Longrightarrow> cred_backup_state c = use_backup_state u \<Longrightarrow>
   ApplyUse c u = c"
  by (simp add: ApplyUse_def)

lemma findCredential_None:
  "findCredential cs i = None \<longleftrightarrow> i \<notin> cred_id ` set cs"
  by (auto simp: findCredential_def find_None_iff')

lemma findCredential_Some:
  "findCredential cs i = Some c \<Longrightarrow> c \<in> set cs \<and> cred_id c = i"
  by (auto simp: findCredential_def dest: find_Some_set)

lemma use_found:
  "findCredential cs i = Some c \<Longrightarrow> \<exists>cs'. update_first (\<lambda>c. cred_id c = i) f cs = Some cs'"
  using update_first_find [of "\<lambda>c. cred_id c = i" cs f] by (auto simp: findCredential_def)

lemma guard_user_cases:
  "guard_user s d c m r =
     (if User_IsActive s then r
      else if User_Exists s then Inl (new_error Rejection c m)
      else Inl (new_error Rejection (''usermgmt.'' @ d @ ''.not_found'') ''user does not exist''))"
  by (simp add: guard_user_def requireExists_def User_IsActive_def)

lemma agrees_guard:
  assumes "\<And>at. \<not> User_IsActive s \<Longrightarrow> spec at = None"
    and "User_IsActive s \<Longrightarrow> agrees r k spec"
  shows "agrees (guard_user s d c m r) k spec"
  using assms by (auto simp: guard_user_cases intro!: agrees_Inl)

lemma added_credential_payload:
  "NewCredentialFromPayload
     \<lparr> cred_id = cred_id c, cred_public_key = cred_public_key c,
       cred_attestation_type = cred_attestation_type c, cred_transports = cred_transports c,
       cred_aaguid = cred_aaguid c, cred_sign_count = cred_sign_count c,
       cred_user_present = False, cred_user_verified = False,
       cred_backup_eligible = cred_backup_eligible c, cred_backup_state = cred_backup_state c,
       cred_name = cred_name c, ca_schema_version = n \<rparr> at = added_credential c at"
  by (cases c) (simp add: NewCredentialFromPayload_def added_credential_def)

lemmas agrees_intros = agrees_guard agrees_if agrees_case agrees_Inl agrees_Nil agrees_emit

lemma user_spec_use:
  assumes "User_IsActive s" and "findCredential (us_credentials s) (use_credential_id use) = Some c"
    and "\<not> CounterRegressed c (use_sign_count use)"
  shows "user_spec (RecordCredentialUseCmd use) at s =
    map_option (\<lambda>cs. s \<lparr> us_credentials := cs \<rparr>)
      (update_first (\<lambda>c. cred_id c = use_credential_id use) (\<lambda>c. ApplyUse c use) (us_credentials s))"
  using assms by simp

lemma use_of_eta:
  "use_of \<lparr> cu_schema_version = n, cu_credential_id = use_credential_id u,
     cu_sign_count = use_sign_count u, cu_user_present = use_user_present u,
     cu_user_verified = use_user_verified u, cu_backup_state = use_backup_state u \<rparr> = u"
  by (cases u) (simp add: use_of_def)

lemma refines_record_use:
  assumes "env_ok E"
  shows "agrees (decide_user E aggID (RecordCredentialUseCmd use) s v) (fold_events (FoldUser E) s)
    (\<lambda>at. user_spec (RecordCredentialUseCmd use) at s)"
  unfolding decide_user.simps decideRecordCredentialUse_def
proof (intro agrees_intros assms)
  fix c at
  assume active: "User_IsActive s"
    and c: "findCredential (us_credentials s) (use_credential_id use) = Some c"
    and ok: "\<not> CounterRegressed c (use_sign_count use)"
    and same: "cred_sign_count c = use_sign_count use \<and> cred_user_present c = use_user_present use
      \<and> cred_user_verified c = use_user_verified use \<and> cred_backup_state c = use_backup_state use"
  have "update_first (\<lambda>c. cred_id c = use_credential_id use) (\<lambda>c. ApplyUse c use) (us_credentials s)
      = Some (us_credentials s)"
    using c same ApplyUse_same [of c use]
    by (intro update_first_same [where x = c]) (simp_all add: findCredential_def)
  with user_spec_use [OF active c ok] show "user_spec (RecordCredentialUseCmd use) at s = Some s"
    by simp
next
  fix c evt
  assume active: "User_IsActive s"
    and c: "findCredential (us_credentials s) (use_credential_id use) = Some c"
    and ok: "\<not> CounterRegressed c (use_sign_count use)"
    and evt: "emitted E EventCredentialUsed aggID AggregateTypeUser v
      (PCredentialUsed \<lparr> cu_schema_version = CurrentSchemaVersion,
         cu_credential_id = use_credential_id use, cu_sign_count = use_sign_count use,
         cu_user_present = use_user_present use, cu_user_verified = use_user_verified use,
         cu_backup_state = use_backup_state use \<rparr>) evt"
  from use_found [OF c] obtain cs where
    cs: "update_first (\<lambda>c. cred_id c = use_credential_id use) (\<lambda>c. ApplyUse c use) (us_credentials s)
      = Some cs" by blast
  then show "\<exists>s'. FoldUser E s evt = Inr s'
      \<and> user_spec (RecordCredentialUseCmd use) (evt_occurred_at evt) s = Some s'"
    using FoldUser_CredentialUsed [OF assms evt] user_spec_use [OF active c ok]
    by (simp add: use_of_eta del: user_spec.simps)
qed simp_all

lemma user_refines_agrees:
  assumes "env_ok E"
  shows "agrees (decide_user E aggID cmd s v) (fold_events (FoldUser E) s) (\<lambda>at. user_spec cmd at s)"
proof (cases cmd)
  case (RecordCredentialUseCmd use)
  with refines_record_use [OF assms] show ?thesis by simp
qed (simp only: decide_user.simps deciders_open;
     intro agrees_intros assms;
     auto simp: folds [OF assms] User_Exists_def image_iff added_credential_payload)+

section \<open>The invariant\<close>

definition account_key :: "ExternalAccount \<Rightarrow> string \<times> string" where
  "account_key ea = (ea_provider ea, ea_subject ea)"

definition user_inv :: "UserState \<Rightarrow> bool" where
  "user_inv s \<longleftrightarrow>
     distinct (map cred_id (us_credentials s))
     \<and> distinct (map account_key (us_external_accounts s))
     \<and> (\<forall>ea\<in>set (us_external_accounts s). ea_provider ea \<noteq> [] \<and> ea_subject ea \<noteq> [])
     \<and> (\<not> us_totp_enabled s \<longrightarrow> us_totp_secret s = [])
     \<and> (us_deleted s \<longrightarrow> User_Exists s)
     \<and> (\<not> us_deleted s \<longrightarrow> us_delete_reason s = [])"

lemma user_inv_zero: "user_inv UserState_zero"
  by (simp add: user_inv_def UserState_zero_def)

lemma ApplyUse_id [simp]: "cred_id (ApplyUse c u) = cred_id c"
  by (simp add: ApplyUse_def)

lemma added_credential_id [simp]: "cred_id (added_credential c at) = cred_id c"
  by (simp add: added_credential_def)

lemma account_key_new [simp]: "account_key (NewExternalAccount p su e d at) = (p, su)"
  by (simp add: account_key_def NewExternalAccount_def)

lemma user_spec_inv: "user_spec cmd at s = Some s' \<Longrightarrow> user_inv s \<Longrightarrow> user_inv s'"
proof (cases cmd)
  case (RecordCredentialUseCmd use)
  assume spec: "user_spec cmd at s = Some s'" and inv: "user_inv s"
  from spec RecordCredentialUseCmd obtain cs where
    cs: "update_first (\<lambda>c. cred_id c = use_credential_id use) (\<lambda>c. ApplyUse c use) (us_credentials s)
      = Some cs" and s': "s' = s \<lparr> us_credentials := cs \<rparr>"
    by (auto split: if_splits option.splits)
  from update_first_map [OF cs, of cred_id] inv s' show ?thesis
    by (simp add: user_inv_def User_Exists_def)
next
  case (AddCredentialCmd c)
  assume "user_spec cmd at s = Some s'" and "user_inv s"
  with AddCredentialCmd show ?thesis
    by (fastforce simp: user_inv_def User_Exists_def User_IsActive_def split: if_splits)
qed (auto simp: user_inv_def User_Exists_def User_IsActive_def UserState_zero_def distinct_map_filter
      NewExternalAccount_def account_key_def image_iff split: if_splits)

definition user_admissible :: "user_cmd \<Rightarrow> bool" where
  "user_admissible cmd = True"

lemma user_admissible_all [simp]: "user_admissible cmd"
  by (simp add: user_admissible_def)

interpretation user: specified_inv "env_ok E" "decide_user E aggID" "FoldUser E" user_admissible
  user_spec UserState_zero user_inv for E aggID
  by unfold_locales (auto intro: user_refines_agrees user_inv_zero user_spec_inv)

section \<open>Properties\<close>

text \<open>C2. The deciders of the user aggregate, the encoding of their events, the decoding and the
  fold implement the abstract contract \<open>user_spec\<close>: an accepted command emits at most one
  event and the stream then folds to the specified state; a refused command is one the contract
  refuses, with a rejection or a conflict; the only other failure is that the event cannot be built.\<close>

theorem user_decider_refines:
  assumes "env_ok E"
  shows "(case decide_user E aggID cmd s v of
      Inr evts \<Rightarrow> length evts \<le> 1
        \<and> (\<exists>at s'. fold_events (FoldUser E) s evts = Inr s' \<and> user_spec cmd at s = Some s')
    | Inl e \<Rightarrow> refusal e \<and> (\<forall>at. user_spec cmd at s = None) \<or> creation_failed e)"
  using user_refines_agrees [OF assms] by (simp add: agrees_def)

lemma user_decider_refines_witness:
  "\<exists>at s'. fold_events (FoldUser demo_env) UserState_zero
       [\<lparr> evt_type = EventUserRegistered, evt_stream = ''u1'', evt_stream_type = AggregateTypeUser,
          evt_version = 1, evt_payload = PUserRegistered
            \<lparr> ur_schema_version = 2, ur_email = ''a@b.c'', ur_display_name = ''A'', ur_roles = [] \<rparr>,
          evt_encoding = EncodingJSON, evt_occurred_at = 0 \<rparr>] = Inr s'
     \<and> user_spec (RegisterUserCmd ''a@b.c'' ''A'' []) at UserState_zero = Some s'"
  using user_decider_refines [OF demo_env_ok, of "RegisterUserCmd ''a@b.c'' ''A'' []" UserState_zero "''u1''" 0]
  by (simp add: decideRegisterUser_def User_Exists_def UserState_zero_def emit_def demo_env_def
      CurrentSchemaVersion_def del: fold_events.simps user_spec.simps)

text \<open>C1. Every stream that any sequence of commands can write for a user folds without an error,
  and the state has pairwise distinct credential IDs and external accounts, no TOTP secret while TOTP
  is off, and a tombstone only on a registered user.\<close>

theorem user_stream_sound:
  assumes "env_ok E"
    and "stream_of (decide_user E aggID) (FoldUser E) UserState_zero user_admissible es"
  shows "\<exists>s. fold_events (FoldUser E) UserState_zero es = Inr s \<and> user_inv s"
  using user.stream_folds assms .

lemma demo_stream:
  "stream_of (decide_user demo_env ''u1'') (FoldUser demo_env) UserState_zero user_admissible
     ([] @ [\<lparr> evt_type = EventUserRegistered, evt_stream = ''u1'', evt_stream_type = AggregateTypeUser,
          evt_version = 1, evt_payload = PUserRegistered
            \<lparr> ur_schema_version = 2, ur_email = ''a@b.c'', ur_display_name = ''A'', ur_roles = [] \<rparr>,
          evt_encoding = EncodingJSON, evt_occurred_at = 0 \<rparr>])"
  by (rule stream_step [OF stream_empty, where s = UserState_zero and v = 0
        and cmd = "RegisterUserCmd ''a@b.c'' ''A'' []"])
     (simp_all add: user_admissible_def decideRegisterUser_def User_Exists_def UserState_zero_def
       emit_def demo_env_def CurrentSchemaVersion_def)

lemma user_stream_sound_witness:
  "\<exists>s. fold_events (FoldUser demo_env) UserState_zero
      ([] @ [\<lparr> evt_type = EventUserRegistered, evt_stream = ''u1'', evt_stream_type = AggregateTypeUser,
          evt_version = 1, evt_payload = PUserRegistered
            \<lparr> ur_schema_version = 2, ur_email = ''a@b.c'', ur_display_name = ''A'', ur_roles = [] \<rparr>,
          evt_encoding = EncodingJSON, evt_occurred_at = 0 \<rparr>]) = Inr s \<and> user_inv s"
  by (rule user_stream_sound [OF demo_env_ok demo_stream])

lemmas execute_user_spec = user.execute_spec [OF _ user_admissible_all]

lemma find_update_first:
  "update_first p f xs = Some ys \<Longrightarrow> find p xs = Some x \<Longrightarrow> p (f x) \<Longrightarrow> find p ys = Some (f x)"
  by (induction xs arbitrary: ys) (auto split: if_splits)

lemma CounterRegressed_ApplyUse:
  "CounterRegressed (ApplyUse c u) (use_sign_count u) \<longleftrightarrow> use_sign_count u \<noteq> 0"
  by (auto simp: CounterRegressed_def ApplyUse_def)

text \<open>Commands are safe to retry: once a command has been executed, executing it again emits no
  event, whether it is refused or a no-op.\<close>

theorem user_retry_emits_nothing:
  assumes "env_ok E" and "execute (decide_user E aggID) (FoldUser E) cmd s v = Inr s'"
    and "decide_user E aggID cmd s' v' = Inr evts"
  shows "evts = []"
proof -
  from execute_user_spec [OF assms(1,2)] obtain at where spec: "user_spec cmd at s = Some s'" ..
  show ?thesis
  proof (cases cmd)
    case (RecordCredentialUseCmd use)
    from spec RecordCredentialUseCmd obtain cs c where
      cs: "update_first (\<lambda>c. cred_id c = use_credential_id use) (\<lambda>c. ApplyUse c use) (us_credentials s)
        = Some cs" and s': "s' = s \<lparr> us_credentials := cs \<rparr>" and act: "User_IsActive s"
      and c: "findCredential (us_credentials s) (use_credential_id use) = Some c"
      by (auto split: if_splits option.splits)
    have "findCredential cs (use_credential_id use) = Some (ApplyUse c use)"
      using find_update_first [OF cs] c findCredential_Some [OF c] by (simp add: findCredential_def)
    with assms(3) s' act RecordCredentialUseCmd show ?thesis
      by (auto simp: decideRecordCredentialUse_def guard_user_cases CounterRegressed_ApplyUse
          ApplyUse_def split: if_splits)
  next
    case (RegisterUserCmd e n r)
    with spec assms(3) show ?thesis
      by (auto simp: decideRegisterUser_def User_Exists_def split: if_splits)
  next
    case (ChangeEmailCmd e)
    with spec assms(3) show ?thesis
      by (auto simp: decideChangeEmail_def guard_user_cases split: if_splits)
  next
    case (ChangeDisplayNameCmd n)
    with spec assms(3) show ?thesis
      by (auto simp: decideChangeDisplayName_def guard_user_cases split: if_splits)
  next
    case (DeleteUserCmd r)
    with spec assms(3) show ?thesis
      by (auto simp: decideDeleteUser_def guard_user_cases User_IsActive_def split: if_splits)
  next
    case (AddCredentialCmd c)
    with spec have "\<exists>d\<in>set (us_credentials s'). cred_id d = cred_id c"
      by (auto split: if_splits)
    with AddCredentialCmd assms(3) show ?thesis
      by (simp add: decideAddCredential_def guard_user_cases split: if_splits)
  next
    case (RemoveCredentialCmd c)
    with spec assms(3) show ?thesis
      by (auto simp: decideRemoveCredential_def guard_user_cases split: if_splits)
  next
    case VerifyEmailCmd
    with spec assms(3) show ?thesis
      by (auto simp: decideVerifyEmail_def guard_user_cases split: if_splits)
  next
    case (EnableTOTPCmd secret)
    with spec assms(3) show ?thesis
      by (auto simp: decideEnableTOTP_def guard_user_cases split: if_splits)
  next
    case DisableTOTPCmd
    with spec assms(3) show ?thesis
      by (auto simp: decideDisableTOTP_def guard_user_cases split: if_splits)
  next
    case (LinkExternalAccountCmd pr su e n)
    with spec have "\<exists>ea\<in>set (us_external_accounts s'). ea_provider ea = pr \<and> ea_subject ea = su"
      by (auto simp: NewExternalAccount_def split: if_splits)
    with LinkExternalAccountCmd assms(3) show ?thesis
      by (simp add: decideLinkExternalAccount_def guard_user_cases split: if_splits)
  next
    case (UnlinkExternalAccountCmd pr su)
    with spec have "\<not> (\<exists>ea\<in>set (us_external_accounts s'). ea_provider ea = pr \<and> ea_subject ea = su)"
      by (auto split: if_splits)
    with UnlinkExternalAccountCmd assms(3) show ?thesis
      by (simp add: decideUnlinkExternalAccount_def guard_user_cases split: if_splits)
  qed
qed

lemma CounterRegressed_advance:
  assumes "\<not> CounterRegressed c n" shows "cred_sign_count c \<le> n"
proof (cases "n \<le> cred_sign_count c")
  case True
  with assms have "n = 0" "cred_sign_count c = 0" by (simp_all add: CounterRegressed_def)
  then show ?thesis by simp
next
  case False
  then show ?thesis by simp
qed

lemma user_spec_credentials:
  assumes "user_spec cmd at s = Some s'" and "\<And>use. cmd \<noteq> RecordCredentialUseCmd use"
    and "c' \<in> set (us_credentials s')"
  shows "c' \<in> set (us_credentials s) \<or> cred_id c' \<notin> cred_id ` set (us_credentials s)"
  using assms by (cases cmd) (auto simp: UserState_zero_def split: if_splits)

text \<open>C3. The signature counter of a credential never goes back while the credential stays on the
  account: whatever command is executed, a credential present before and after has a counter at least
  as large. (A counter that does not advance is refused as a sign of a cloned authenticator.)\<close>

theorem user_counter_monotone:
  assumes "env_ok E" and "user_inv s"
    and "execute (decide_user E aggID) (FoldUser E) cmd s v = Inr s'"
    and "c \<in> set (us_credentials s)" and "c' \<in> set (us_credentials s')" and "cred_id c' = cred_id c"
  shows "cred_sign_count c \<le> cred_sign_count c'"
proof -
  from execute_user_spec [OF assms(1,3)] obtain at where spec: "user_spec cmd at s = Some s'" ..
  have uniq: "d = c" if "d \<in> set (us_credentials s)" "cred_id d = cred_id c" for d
    using that assms(2,4) by (auto simp: user_inv_def distinct_map inj_on_def)
  show ?thesis
  proof (cases "\<exists>use. cmd = RecordCredentialUseCmd use")
    case False
    with user_spec_credentials [OF spec _ assms(5)]
    have "c' \<in> set (us_credentials s) \<or> cred_id c' \<notin> cred_id ` set (us_credentials s)" by blast
    with assms(4,6) uniq [of c'] show ?thesis by (metis image_eqI order_refl)
  next
    case True
    then obtain use where use: "cmd = RecordCredentialUseCmd use" ..
    from spec use obtain cs e where
      cs: "update_first (\<lambda>c. cred_id c = use_credential_id use) (\<lambda>c. ApplyUse c use) (us_credentials s)
        = Some cs" and s': "s' = s \<lparr> us_credentials := cs \<rparr>"
      and e: "findCredential (us_credentials s) (use_credential_id use) = Some e"
        "\<not> CounterRegressed e (use_sign_count use)"
      by (auto split: if_splits option.splits)
    from update_first_set [OF cs, of c'] assms(5) s'
    consider "c' \<in> set (us_credentials s)"
      | d where "d \<in> set (us_credentials s)" "cred_id d = use_credential_id use" "c' = ApplyUse d use"
      by auto
    then show ?thesis
    proof cases
      case 1
      with uniq [of c'] assms(6) show ?thesis by simp
    next
      case 2
      from 2(3) assms(6) have "cred_id d = cred_id c" by simp
      from uniq [OF 2(1) this] have d: "d = c" .
      from findCredential_Some [OF e(1)] have "e \<in> set (us_credentials s)" "cred_id e = cred_id c"
        using 2(2) d by auto
      from uniq [OF this] have e': "e = c" .
      from d 2(3) have c': "c' = ApplyUse c use" by (rule subst)
      from e' e(2) have ok: "\<not> CounterRegressed c (use_sign_count use)" by (rule subst)
      from CounterRegressed_advance [OF ok] show ?thesis
        by (simp add: c' ApplyUse_def)
    qed
  qed
qed

definition demo_credential :: WebAuthnCredential where
  "demo_credential =
     \<lparr> cred_id = ''c1'', cred_public_key = ''k'', cred_attestation_type = ''none'', cred_transports = [],
       cred_aaguid = [], cred_sign_count = 7, cred_user_present = True, cred_user_verified = False,
       cred_backup_eligible = False, cred_backup_state = False, cred_name = [], cred_created_at = 0 \<rparr>"

definition demo_user :: UserState where
  "demo_user = UserState_zero \<lparr> us_email := ''a@b.c'', us_credentials := [demo_credential] \<rparr>"

definition demo_use :: CredentialUse where
  "demo_use =
     \<lparr> use_credential_id = ''c1'', use_sign_count = 8, use_user_present = True,
       use_user_verified = True, use_backup_state = False \<rparr>"

lemma demo_user_inv: "user_inv demo_user"
  by (simp add: demo_user_def user_inv_def UserState_zero_def User_Exists_def)

lemmas demo_simps =
  demo_user_def demo_env_def demo_use_def demo_credential_def UserState_zero_def User_Exists_def
  execute_def deciders_open decideRecordCredentialUse_def guard_user_cases User_IsActive_def emit_def
  CurrentSchemaVersion_def FoldUser_def UnmarshalPayload_def applyUpcasters_def findCredential_def
  CounterRegressed_def applyCredentialUsed_def ApplyUse_def Let_def

lemma demo_use_executes:
  "execute (decide_user demo_env ''u1'') (FoldUser demo_env) (RecordCredentialUseCmd demo_use) demo_user 0
   = Inr (demo_user \<lparr> us_credentials :=
       [demo_credential \<lparr> cred_sign_count := 8, cred_user_verified := True \<rparr>] \<rparr>)"
  by (simp add: demo_simps)

lemma user_counter_monotone_witness:
  "cred_sign_count demo_credential
     \<le> cred_sign_count (demo_credential \<lparr> cred_sign_count := 8, cred_user_verified := True \<rparr>)"
  by (rule user_counter_monotone [OF demo_env_ok demo_user_inv demo_use_executes])
     (simp_all add: demo_user_def)

lemma demo_verify_executes:
  "execute (decide_user demo_env ''u1'') (FoldUser demo_env) VerifyEmailCmd demo_user 0
   = Inr (demo_user \<lparr> us_email_verified := True \<rparr>)"
  by (simp add: demo_simps)

lemma user_retry_emits_nothing_witness:
  "decide_user demo_env ''u1'' VerifyEmailCmd (demo_user \<lparr> us_email_verified := True \<rparr>) 5 = Inr []"
proof -
  have "\<exists>evts. decide_user demo_env ''u1'' VerifyEmailCmd (demo_user \<lparr> us_email_verified := True \<rparr>) 5
    = Inr evts"
    by (simp add: demo_simps)
  with user_retry_emits_nothing [OF demo_env_ok demo_verify_executes, of 5] show ?thesis by auto
qed

text \<open>C4. Deletion is final: on a stream that folds to a deleted user no command is accepted any
  more, so the stream never grows again, not even by a new registration.\<close>

theorem user_deletion_final:
  assumes "env_ok E"
    and "stream_of (decide_user E aggID) (FoldUser E) UserState_zero user_admissible es"
    and "fold_events (FoldUser E) UserState_zero es = Inr s" and "us_deleted s"
  shows "\<exists>e. decide_user E aggID cmd s v = Inl e \<and> refusal e"
proof -
  from user.stream_folds [OF assms(1,2)] assms(3,4) have "User_Exists s"
    by (auto simp: user_inv_def)
  with assms(4) show ?thesis
    by (cases cmd)
       (simp_all add: deciders_open decideRecordCredentialUse_def guard_user_cases User_IsActive_def)
qed

definition demo_event :: "event_type \<Rightarrow> version \<Rightarrow> payload \<Rightarrow> encoding \<Rightarrow> payload event" where
  "demo_event t v p enc =
     \<lparr> evt_type = t, evt_stream = ''u1'', evt_stream_type = AggregateTypeUser, evt_version = v,
       evt_payload = p, evt_encoding = enc, evt_occurred_at = 0 \<rparr>"

definition demo_registered :: "payload event" where
  "demo_registered = demo_event EventUserRegistered 1
     (PUserRegistered \<lparr> ur_schema_version = 2, ur_email = ''a@b.c'', ur_display_name = ''A'',
        ur_roles = [] \<rparr>) EncodingJSON"

definition demo_deleted :: "payload event" where
  "demo_deleted = demo_event EventUserDeleted 2
     (PUserDeleted \<lparr> ud_schema_version = 2, ud_reason = ''gdpr'' \<rparr>) EncodingJSON"

lemma demo_registered_folds:
  "fold_events (FoldUser demo_env) UserState_zero [demo_registered]
   = Inr (UserState_zero \<lparr> us_email := ''a@b.c'', us_display_name := ''A'' \<rparr>)"
  by (simp add: demo_registered_def demo_event_def demo_simps)

lemma demo_registered_stream:
  "stream_of (decide_user demo_env ''u1'') (FoldUser demo_env) UserState_zero user_admissible
     ([] @ [demo_registered])"
  by (rule stream_step [OF stream_empty, where s = UserState_zero and v = 0
        and cmd = "RegisterUserCmd ''a@b.c'' ''A'' []"])
     (simp_all add: user_admissible_def demo_registered_def demo_event_def demo_simps)

lemma demo_deleted_stream:
  "stream_of (decide_user demo_env ''u1'') (FoldUser demo_env) UserState_zero user_admissible
     (([] @ [demo_registered]) @ [demo_deleted])"
proof (rule stream_step [OF demo_registered_stream])
  show "fold_events (FoldUser demo_env) UserState_zero ([] @ [demo_registered])
      = Inr (UserState_zero \<lparr> us_email := ''a@b.c'', us_display_name := ''A'' \<rparr>)"
    using demo_registered_folds by simp
  show "decide_user demo_env ''u1'' (DeleteUserCmd ''gdpr'')
      (UserState_zero \<lparr> us_email := ''a@b.c'', us_display_name := ''A'' \<rparr>) 1 = Inr [demo_deleted]"
    by (simp add: demo_deleted_def demo_event_def demo_simps)
qed (simp add: user_admissible_def)

lemma user_deletion_final_witness:
  "\<exists>e. decide_user demo_env ''u1'' (RegisterUserCmd ''x@y.z'' ''X'' [])
      (UserState_zero \<lparr> us_email := ''a@b.c'', us_display_name := ''A'', us_deleted := True,
                        us_delete_reason := ''gdpr'' \<rparr>) 2 = Inl e \<and> refusal e"
  by (rule user_deletion_final [OF demo_env_ok demo_deleted_stream])
     (simp_all add: demo_deleted_def demo_registered_def demo_event_def demo_simps)

lemma unlink_rest:
  assumes "distinct (map account_key xs)" and "xs \<noteq> []" and "length xs \<noteq> 1"
  shows "filter (\<lambda>ea. ea_provider ea \<noteq> p \<or> ea_subject ea \<noteq> su) xs \<noteq> []"
proof -
  obtain x y zs where xs: "xs = x # y # zs"
    using assms(2,3) by (cases xs; cases "tl xs") auto
  with assms(1) have "account_key x \<noteq> account_key y" by auto
  then have "account_key x \<noteq> (p, su) \<or> account_key y \<noteq> (p, su)" by auto
  with xs show ?thesis by (auto simp: account_key_def)
qed

text \<open>Unlinking an external account never takes the last way to authenticate: the user it leaves
  has a passkey or another external account.\<close>

theorem user_last_auth_method:
  assumes "env_ok E" and "user_inv s"
    and "execute (decide_user E aggID) (FoldUser E) (UnlinkExternalAccountCmd p su) s v = Inr s'"
  shows "us_credentials s' \<noteq> [] \<or> us_external_accounts s' \<noteq> []"
    (is "?P s'")
proof -
  from execute_user_spec [OF assms(1,3)] obtain at where
    spec: "user_spec (UnlinkExternalAccountCmd p su) at s = Some s'" ..
  then have linked: "us_external_accounts s \<noteq> []"
    and rest: "us_credentials s \<noteq> [] \<or> length (us_external_accounts s) \<noteq> 1"
    and s': "s' = s \<lparr> us_external_accounts :=
      filter (\<lambda>ea. ea_provider ea \<noteq> p \<or> ea_subject ea \<noteq> su) (us_external_accounts s) \<rparr>"
    by (auto split: if_splits)
  show ?thesis
  proof (cases "us_credentials s = []")
    case True
    with rest linked unlink_rest [of "us_external_accounts s" p su] assms(2) s' show ?thesis
      by (simp add: user_inv_def)
  next
    case False
    with s' show ?thesis by simp
  qed
qed

definition demo_linked :: UserState where
  "demo_linked = demo_user \<lparr> us_external_accounts := [NewExternalAccount ''google'' ''1'' [] [] 0] \<rparr>"

lemma user_last_auth_method_witness:
  "\<not> (us_credentials demo_user = [] \<and> us_external_accounts demo_user = [])"
proof -
  have inv: "user_inv demo_linked"
    by (simp add: demo_linked_def demo_user_def user_inv_def UserState_zero_def User_Exists_def
        NewExternalAccount_def)
  have ex: "execute (decide_user demo_env ''u1'') (FoldUser demo_env)
      (UnlinkExternalAccountCmd ''google'' ''1'') demo_linked 3 = Inr demo_user"
    by (simp add: demo_linked_def NewExternalAccount_def demo_simps)
  from user_last_auth_method [OF demo_env_ok inv ex] show ?thesis by blast
qed

text \<open>An empty new email address is accepted, and then the account is gone: the stream folds to
  a user that does not exist, and a registration on the same stream is accepted that drops every
  passkey and external account of the account.\<close>

theorem empty_email_unregisters:
  assumes "env_ok E" and "User_IsActive s"
    and "execute (decide_user E aggID) (FoldUser E) (ChangeEmailCmd []) s v = Inr s'"
    and "execute (decide_user E aggID) (FoldUser E) (RegisterUserCmd email name roles) s' v' = Inr s''"
  shows "\<not> User_Exists s' \<and> us_credentials s' = us_credentials s
    \<and> us_email s'' = email \<and> us_credentials s'' = [] \<and> us_external_accounts s'' = []"
proof -
  from execute_user_spec [OF assms(1,3)] assms(2)
  have "us_email s' = [] \<and> us_credentials s' = us_credentials s" by (auto split: if_splits)
  moreover from execute_user_spec [OF assms(1,4)]
  have "s'' = UserState_zero \<lparr> us_email := email, us_display_name := name \<rparr>"
    by (auto split: if_splits)
  ultimately show ?thesis by (simp add: User_Exists_def UserState_zero_def)
qed

lemma empty_email_unregisters_witness:
  "\<not> User_Exists (demo_user \<lparr> us_email := [] \<rparr>)
   \<and> us_credentials (UserState_zero \<lparr> us_email := ''m@x.y'', us_display_name := ''M'' \<rparr>) = []"
  using empty_email_unregisters [OF demo_env_ok, of demo_user "''u1''" 3 "demo_user \<lparr> us_email := [] \<rparr>"
      "''m@x.y''" "''M''" "[]" 4 "UserState_zero \<lparr> us_email := ''m@x.y'', us_display_name := ''M'' \<rparr>"]
  by (simp add: demo_simps)

end
