(* ===== verification/Projection.thy ===== *)
theory Projection
  imports Aggregate
begin

text \<open>
  The contract of an in-memory projection under at-least-once delivery: the handler respects the
  equality \<open>same\<close> of projections (equal as maps), and handling an event again right after itself
  changes nothing. From these two laws every delivery that repeats events in place is equivalent to
  the delivery without repetitions. The read models interpret the locale.
\<close>

locale projection =
  fixes handle :: "'m \<Rightarrow> 'raw event \<Rightarrow> err + 'm"
    and same :: "'m \<Rightarrow> 'm \<Rightarrow> bool"
  assumes same_refl: "same m m"
    and same_sym: "same m n \<Longrightarrow> same n m"
    and same_trans: "same l m \<Longrightarrow> same m n \<Longrightarrow> same l n"
    and handle_cong: "same m n \<Longrightarrow> handle m e = Inr m' \<Longrightarrow> \<exists>n'. handle n e = Inr n' \<and> same m' n'"
    and redelivered: "handle m e = Inr m' \<Longrightarrow> \<exists>m''. handle m' e = Inr m'' \<and> same m' m''"
begin

lemma fold_cong:
  "same m n \<Longrightarrow> fold_events handle m es = Inr m' \<Longrightarrow>
   \<exists>n'. fold_events handle n es = Inr n' \<and> same m' n'"
proof (induction es arbitrary: m n)
  case Nil
  then show ?case by simp
next
  case (Cons e es)
  from Cons.prems(2) obtain m1 where "handle m e = Inr m1" "fold_events handle m1 es = Inr m'"
    by (auto simp: on_ok_eq_Inr)
  with handle_cong [OF Cons.prems(1)] Cons.IH show ?case by fastforce
qed

text \<open>Any number of immediate repetitions of an event.\<close>

lemma repeated:
  "handle m e = Inr m' \<Longrightarrow>
   \<exists>m''. fold_events handle m' (replicate k e) = Inr m'' \<and> same m' m''"
proof (induction k arbitrary: m m')
  case 0
  then show ?case by (simp add: same_refl)
next
  case (Suc k)
  from redelivered [OF Suc.prems] obtain m1 where m1: "handle m' e = Inr m1" "same m' m1" by blast
  from Suc.IH [OF m1(1)] obtain m2 where "fold_events handle m1 (replicate k e) = Inr m2" "same m1 m2"
    by blast
  with m1 show ?case by (auto intro: same_trans)
qed

text \<open>A delivery repeats each event of a list some number of times in place.\<close>

definition deliver :: "('raw event \<times> nat) list \<Rightarrow> 'raw event list" where
  "deliver ds = concat (map (\<lambda>(e, k). replicate (Suc k) e) ds)"

lemma at_least_once:
  "fold_events handle m (map fst ds) = Inr m' \<Longrightarrow>
   \<exists>m''. fold_events handle m (deliver ds) = Inr m'' \<and> same m' m''"
proof (induction ds arbitrary: m m')
  case Nil
  then show ?case by (simp add: deliver_def same_refl)
next
  case (Cons d ds)
  obtain e k where d: "d = (e, k)" by (cases d)
  from Cons.prems d obtain m1 where m1: "handle m e = Inr m1" "fold_events handle m1 (map fst ds) = Inr m'"
    by (auto simp: on_ok_eq_Inr)
  from repeated [OF m1(1)] obtain m2 where
    m2: "fold_events handle m1 (replicate k e) = Inr m2" "same m1 m2" by blast
  from fold_cong [OF m2(2) m1(2)] obtain n where
    n: "fold_events handle m2 (map fst ds) = Inr n" "same m' n" by blast
  from Cons.IH [OF n(1)] obtain l where
    "fold_events handle m2 (deliver ds) = Inr l" "same n l" by blast
  with n m1 m2 d show ?case
    by (auto simp: deliver_def fold_events_append intro: same_trans)
qed

end

section \<open>Worlds of streams and a projection\<close>

text \<open>Any commands on any streams of one aggregate type, every accepted event appended, folded and
  handled by the projection.\<close>

inductive world ::
  "(stream_id \<Rightarrow> 'cmd \<Rightarrow> 's \<Rightarrow> version \<Rightarrow> err + 'raw event list) \<Rightarrow> ('s \<Rightarrow> 'raw event \<Rightarrow> err + 's)
   \<Rightarrow> ('m \<Rightarrow> 'raw event \<Rightarrow> err + 'm) \<Rightarrow> ('cmd \<Rightarrow> bool) \<Rightarrow> 's \<Rightarrow> 'm \<Rightarrow> (stream_id \<Rightarrow> 's) \<Rightarrow> 'm \<Rightarrow> bool"
  for decide apply_event handle admissible initial m0 where
  world_start: "world decide apply_event handle admissible initial m0 (\<lambda>a. initial) m0"
| world_next:
    "world decide apply_event handle admissible initial m0 S m \<Longrightarrow> admissible cmd \<Longrightarrow>
     decide a cmd (S a) v = Inr new \<Longrightarrow> fold_events apply_event (S a) new = Inr s' \<Longrightarrow>
     fold_events handle m new = Inr m' \<Longrightarrow>
     world decide apply_event handle admissible initial m0 (S(a := s')) m'"

text \<open>
  A read model of an aggregate: \<open>shows m a s\<close> says that the projection presents stream \<open>a\<close>
  as state \<open>s\<close>. Handling what a command on one stream emits keeps the presentation of that
  stream current and leaves the other streams' alone.
\<close>

locale readmodel =
  fixes env :: bool
    and decide :: "stream_id \<Rightarrow> 'cmd \<Rightarrow> 's \<Rightarrow> version \<Rightarrow> err + 'raw event list"
    and apply_event :: "'s \<Rightarrow> 'raw event \<Rightarrow> err + 's"
    and handle :: "'m \<Rightarrow> 'raw event \<Rightarrow> err + 'm"
    and admissible :: "'cmd \<Rightarrow> bool"
    and initial :: 's
    and m0 :: 'm
    and inv :: "'s \<Rightarrow> bool"
    and shows_state :: "'m \<Rightarrow> stream_id \<Rightarrow> 's \<Rightarrow> bool"
    and index_ok :: "'m \<Rightarrow> bool"
  assumes initial_inv: "inv initial"
    and initial_shown: "shows_state m0 a initial"
    and initial_index: "index_ok m0"
    and step:
      "env \<Longrightarrow> inv s \<Longrightarrow> admissible cmd \<Longrightarrow> shows_state m a s \<Longrightarrow> index_ok m \<Longrightarrow>
       decide a cmd s v = Inr new \<Longrightarrow>
       \<exists>m' s'. fold_events handle m new = Inr m' \<and> fold_events apply_event s new = Inr s' \<and> inv s'
         \<and> shows_state m' a s' \<and> index_ok m' \<and> (\<forall>b t. b \<noteq> a \<longrightarrow> shows_state m b t \<longrightarrow> shows_state m' b t)"
begin

lemma world_shows:
  assumes env and "world decide apply_event handle admissible initial m0 S m"
  shows "index_ok m \<and> inv (S a) \<and> shows_state m a (S a)"
  using assms(2)
proof (induction arbitrary: a)
  case world_start
  show ?case by (simp add: initial_inv initial_shown initial_index)
next
  case (world_next S m cmd b v new s' m')
  from world_next.IH [of b] step [OF assms(1) _ world_next.hyps(2) _ _ world_next.hyps(3), of m]
    world_next.hyps(4,5)
  have "inv s' \<and> shows_state m' b s' \<and> index_ok m' \<and> (\<forall>c t. c \<noteq> b \<longrightarrow> shows_state m c t \<longrightarrow> shows_state m' c t)"
    by fastforce
  with world_next.IH [of a] show ?case by (cases "a = b") auto
qed

lemma world_progress:
  assumes env and "world decide apply_event handle admissible initial m0 S m" and "admissible cmd"
    and "decide a cmd (S a) v = Inr new"
  shows "\<exists>m' s'. fold_events handle m new = Inr m' \<and> fold_events apply_event (S a) new = Inr s'
    \<and> world decide apply_event handle admissible initial m0 (S(a := s')) m'"
  using step [OF assms(1) _ assms(3) _ _ assms(4)] world_shows [OF assms(1,2), of a]
    world_next [OF assms(2,3,4)] by blast

end

text \<open>Laws of a handler for one emitted event lift to the list a decider returns.\<close>

lemma step_emit:
  assumes "env_ok E" and "emit E t a st v p enc c msg = Inr new"
    and "\<And>evt. emitted E t a st v p evt \<Longrightarrow>
      \<exists>m' s'. handle m evt = Inr m' \<and> apply_event s evt = Inr s' \<and> P m' s'"
  shows "\<exists>m' s'. fold_events handle m new = Inr m' \<and> fold_events apply_event s new = Inr s' \<and> P m' s'"
proof -
  from emit_Inr [OF env_okD(1) [OF assms(1)] assms(2)] obtain evt where
    "new = [evt]" "emitted E t a st v p evt" by blast
  with assms(3) show ?thesis by fastforce
qed

end
