(* ===== verification/User_Readmodel.thy ===== *)
theory User_Readmodel
  imports User_Decider Projection
begin

text \<open>
  \<open>usermgmt/es_readmodel.go\<close> with \<open>es_readmodel_base.go\<close>: the in-memory projection of
  users, its email and external-account indexes, its thirteen handlers and its lookups. The lemmas
  relate it to the aggregate: in every world of user streams that commands can produce the projection
  shows exactly the folded states, and its indexes point to users that hold what they are indexed by.
\<close>

section \<open>State\<close>

record User =
  u_id :: user_id
  u_email :: string
  u_display_name :: string
  u_credentials :: "WebAuthnCredential list"
  u_external_accounts :: "ExternalAccount list"
  u_email_verified :: bool
  u_totp_enabled :: bool
  u_totp_secret :: bytes
  u_created_at :: time
  u_updated_at :: time

definition HasCredential :: "User \<Rightarrow> bytes \<Rightarrow> bool" where
  "HasCredential u credID \<longleftrightarrow> (\<exists>c\<in>set (u_credentials u). cred_id c = credID)"

record UserReadModel =
  rm_users :: "(stream_id, User) gomap"
  rm_emails :: "(string, stream_id) gomap"
  rm_external :: "(string \<times> string, stream_id) gomap"

definition NewUserReadModel :: UserReadModel where
  "NewUserReadModel = \<lparr> rm_users = [], rm_emails = [], rm_external = [] \<rparr>"

section \<open>Handlers\<close>

definition decodePayload ::
  "'raw event_env \<Rightarrow> (encoding \<Rightarrow> 'raw \<Rightarrow> err + 'p) \<Rightarrow> 'raw event \<Rightarrow> string \<Rightarrow> err + 'p" where
  "decodePayload E decode evt name =
     map_err (\<lambda>e. Fam Corruption ''usermgmt.readmodel.decode_failed''
         (''decode '' @ name @ '' in read model'') 0 [(''agg_id'', evt_stream evt)] (Some e))
       (UnmarshalPayload E decode evt)"

text \<open>\<open>if u, ok := m.users[aggID]; ok\<close>, with a body that only writes the user's fields.\<close>

definition on_user :: "UserReadModel \<Rightarrow> stream_id \<Rightarrow> (User \<Rightarrow> User) \<Rightarrow> UserReadModel" where
  "on_user m aggID f =
     (case map_get (rm_users m) aggID of
        None \<Rightarrow> m
      | Some u \<Rightarrow> m \<lparr> rm_users := map_put aggID (f u) (rm_users m) \<rparr>)"

definition keep_first :: "'k \<Rightarrow> 'v \<Rightarrow> ('k, 'v) gomap \<Rightarrow> ('k, 'v) gomap" where
  "keep_first k v m = (if map_get m k = None then map_put k v m else m)"

definition evict_owned :: "'k \<Rightarrow> 'v \<Rightarrow> ('k, 'v) gomap \<Rightarrow> ('k, 'v) gomap" where
  "evict_owned k v m = (if map_get m k = Some v then map_del k m else m)"

definition handleUserRegistered ::
  "'raw event_env \<Rightarrow> 'raw event \<Rightarrow> UserReadModel \<Rightarrow> err + UserReadModel" where
  "handleUserRegistered E evt m =
     on_ok (decodePayload E (dec_UserRegistered E) evt ''UserRegistered'') (\<lambda>p.
       let aggID = evt_stream evt;
           u = \<lparr> u_id = NewUserID (ids E) aggID, u_email = ur_email p,
                 u_display_name = ur_display_name p, u_credentials = [], u_external_accounts = [],
                 u_email_verified = False, u_totp_enabled = False, u_totp_secret = [],
                 u_created_at = evt_occurred_at evt, u_updated_at = evt_occurred_at evt \<rparr>
       in Inr (m \<lparr> rm_users := map_put aggID u (rm_users m),
                   rm_emails := keep_first (ur_email p) aggID (rm_emails m) \<rparr>))"

definition handleRolesUpdated ::
  "'raw event_env \<Rightarrow> 'raw event \<Rightarrow> UserReadModel \<Rightarrow> err + UserReadModel" where
  "handleRolesUpdated E evt m =
     on_ok (decodePayload E (dec_RolesUpdated E) evt ''RolesUpdated'') (\<lambda>p. Inr m)"

definition handleEmailChanged ::
  "'raw event_env \<Rightarrow> 'raw event \<Rightarrow> UserReadModel \<Rightarrow> err + UserReadModel" where
  "handleEmailChanged E evt m =
     on_ok (decodePayload E (dec_EmailChanged E) evt ''EmailChanged'') (\<lambda>p.
       let aggID = evt_stream evt
       in Inr (case map_get (rm_users m) aggID of
            None \<Rightarrow> m
          | Some u \<Rightarrow>
              m \<lparr> rm_users := map_put aggID
                    (u \<lparr> u_email := ec_email p, u_email_verified := False, u_totp_enabled := False,
                         u_totp_secret := [], u_updated_at := evt_occurred_at evt \<rparr>) (rm_users m),
                  rm_emails := keep_first (ec_email p) aggID
                    (evict_owned (u_email u) aggID (rm_emails m)) \<rparr>))"

definition handleDisplayNameChanged ::
  "'raw event_env \<Rightarrow> 'raw event \<Rightarrow> UserReadModel \<Rightarrow> err + UserReadModel" where
  "handleDisplayNameChanged E evt m =
     on_ok (decodePayload E (dec_DisplayNameChanged E) evt ''DisplayNameChanged'') (\<lambda>p.
       Inr (on_user m (evt_stream evt)
         (\<lambda>u. u \<lparr> u_display_name := dn_display_name p, u_updated_at := evt_occurred_at evt \<rparr>)))"

definition handleCredentialAdded ::
  "'raw event_env \<Rightarrow> 'raw event \<Rightarrow> UserReadModel \<Rightarrow> err + UserReadModel" where
  "handleCredentialAdded E evt m =
     on_ok (decodePayload E (dec_CredentialAdded E) evt ''CredentialAdded'') (\<lambda>p.
       Inr (on_user m (evt_stream evt)
         (\<lambda>u. if HasCredential u (cred_id p) then u
              else u \<lparr> u_credentials := u_credentials u
                         @ [NewCredentialFromPayload p (evt_occurred_at evt)],
                       u_updated_at := evt_occurred_at evt \<rparr>)))"

definition handleCredentialRemoved ::
  "'raw event_env \<Rightarrow> 'raw event \<Rightarrow> UserReadModel \<Rightarrow> err + UserReadModel" where
  "handleCredentialRemoved E evt m =
     on_ok (decodePayload E (dec_CredentialRemoved E) evt ''CredentialRemoved'') (\<lambda>p.
       Inr (on_user m (evt_stream evt)
         (\<lambda>u. u \<lparr> u_credentials := filter (\<lambda>c. cred_id c \<noteq> cr_id p) (u_credentials u),
                  u_updated_at := evt_occurred_at evt \<rparr>)))"

definition handleCredentialUsed ::
  "'raw event_env \<Rightarrow> 'raw event \<Rightarrow> UserReadModel \<Rightarrow> err + UserReadModel" where
  "handleCredentialUsed E evt m =
     on_ok (decodePayload E (dec_CredentialUsed E) evt ''CredentialUsed'') (\<lambda>p.
       Inr (on_user m (evt_stream evt)
         (\<lambda>u. case update_first (\<lambda>c. cred_id c = cu_credential_id p) (\<lambda>c. ApplyUse c (use_of p))
                    (u_credentials u) of
                None \<Rightarrow> u
              | Some cs \<Rightarrow> u \<lparr> u_credentials := cs, u_updated_at := evt_occurred_at evt \<rparr>)))"

definition handleUserDeleted ::
  "'raw event_env \<Rightarrow> 'raw event \<Rightarrow> UserReadModel \<Rightarrow> err + UserReadModel" where
  "handleUserDeleted E evt m =
     (let aggID = evt_stream evt
      in Inr (case map_get (rm_users m) aggID of
           None \<Rightarrow> m \<lparr> rm_users := map_del aggID (rm_users m) \<rparr>
         | Some u \<Rightarrow>
             m \<lparr> rm_users := map_del aggID (rm_users m),
                 rm_emails := evict_owned (u_email u) aggID (rm_emails m),
                 rm_external := fold (\<lambda>ea. evict_owned (account_key ea) aggID)
                   (u_external_accounts u) (rm_external m) \<rparr>))"

definition handleEmailVerified ::
  "'raw event_env \<Rightarrow> 'raw event \<Rightarrow> UserReadModel \<Rightarrow> err + UserReadModel" where
  "handleEmailVerified E evt m =
     Inr (on_user m (evt_stream evt)
       (\<lambda>u. u \<lparr> u_email_verified := True, u_updated_at := evt_occurred_at evt \<rparr>))"

definition handleTOTPEnabled ::
  "'raw event_env \<Rightarrow> 'raw event \<Rightarrow> UserReadModel \<Rightarrow> err + UserReadModel" where
  "handleTOTPEnabled E evt m =
     on_ok (decodePayload E (dec_TOTPEnabled E) evt ''TOTPEnabled'') (\<lambda>p.
       Inr (on_user m (evt_stream evt)
         (\<lambda>u. u \<lparr> u_totp_enabled := True, u_totp_secret := te_secret p,
                  u_updated_at := evt_occurred_at evt \<rparr>)))"

definition handleTOTPDisabled ::
  "'raw event_env \<Rightarrow> 'raw event \<Rightarrow> UserReadModel \<Rightarrow> err + UserReadModel" where
  "handleTOTPDisabled E evt m =
     Inr (on_user m (evt_stream evt)
       (\<lambda>u. u \<lparr> u_totp_enabled := False, u_totp_secret := [],
                u_updated_at := evt_occurred_at evt \<rparr>))"

definition handleExternalAccountLinked ::
  "'raw event_env \<Rightarrow> 'raw event \<Rightarrow> UserReadModel \<Rightarrow> err + UserReadModel" where
  "handleExternalAccountLinked E evt m =
     on_ok (decodePayload E (dec_ExternalAccountLinked E) evt ''ExternalAccountLinked'') (\<lambda>p.
       let aggID = evt_stream evt
       in Inr (case map_get (rm_users m) aggID of
            None \<Rightarrow> m
          | Some u \<Rightarrow>
              m \<lparr> rm_users := map_put aggID
                    (u \<lparr> u_external_accounts :=
                           (if \<exists>ea\<in>set (u_external_accounts u).
                                 ea_provider ea = ea_provider p \<and> ea_subject ea = ea_subject p
                            then u_external_accounts u
                            else u_external_accounts u
                              @ [NewExternalAccount (ea_provider p) (ea_subject p) (ea_email p)
                                   (ea_display_name p) (evt_occurred_at evt)]),
                         u_updated_at := evt_occurred_at evt \<rparr>) (rm_users m),
                  rm_external := keep_first (ea_provider p, ea_subject p) aggID (rm_external m) \<rparr>))"

definition handleExternalAccountUnlinked ::
  "'raw event_env \<Rightarrow> 'raw event \<Rightarrow> UserReadModel \<Rightarrow> err + UserReadModel" where
  "handleExternalAccountUnlinked E evt m =
     on_ok (decodePayload E (dec_ExternalAccountUnlinked E) evt ''ExternalAccountUnlinked'') (\<lambda>p.
       let aggID = evt_stream evt
       in Inr (case map_get (rm_users m) aggID of
            None \<Rightarrow> m
          | Some u \<Rightarrow>
              m \<lparr> rm_users := map_put aggID
                    (u \<lparr> u_external_accounts :=
                           filter (\<lambda>ea. ea_provider ea \<noteq> eu_provider p \<or> ea_subject ea \<noteq> eu_subject p)
                             (u_external_accounts u),
                         u_updated_at := evt_occurred_at evt \<rparr>) (rm_users m),
                  rm_external := evict_owned (eu_provider p, eu_subject p) aggID (rm_external m) \<rparr>))"

text \<open>\<open>handleEvent\<close> over the handler table: an event of another type is ignored.\<close>

definition Handle_user :: "'raw event_env \<Rightarrow> UserReadModel \<Rightarrow> 'raw event \<Rightarrow> err + UserReadModel" where
  "Handle_user E m evt =
     (case evt_type evt of
        EventUserRegistered \<Rightarrow> handleUserRegistered E evt m
      | EventRolesUpdated \<Rightarrow> handleRolesUpdated E evt m
      | EventEmailChanged \<Rightarrow> handleEmailChanged E evt m
      | EventDisplayNameChanged \<Rightarrow> handleDisplayNameChanged E evt m
      | EventCredentialAdded \<Rightarrow> handleCredentialAdded E evt m
      | EventCredentialRemoved \<Rightarrow> handleCredentialRemoved E evt m
      | EventCredentialUsed \<Rightarrow> handleCredentialUsed E evt m
      | EventUserDeleted \<Rightarrow> handleUserDeleted E evt m
      | EventEmailVerified \<Rightarrow> handleEmailVerified E evt m
      | EventTOTPEnabled \<Rightarrow> handleTOTPEnabled E evt m
      | EventTOTPDisabled \<Rightarrow> handleTOTPDisabled E evt m
      | EventExternalAccountLinked \<Rightarrow> handleExternalAccountLinked E evt m
      | EventExternalAccountUnlinked \<Rightarrow> handleExternalAccountUnlinked E evt m
      | _ \<Rightarrow> Inr m)"

section \<open>Lookups\<close>

text \<open>\<open>Some None\<close> would be a nil user reported as found.\<close>

definition FindByID :: "UserReadModel \<Rightarrow> stream_id \<Rightarrow> User option" where
  "FindByID m aggID = map_get (rm_users m) aggID"

definition FindByEmail :: "UserReadModel \<Rightarrow> string \<Rightarrow> User option option" where
  "FindByEmail m email =
     (case map_get (rm_emails m) email of
        None \<Rightarrow> None
      | Some aggID \<Rightarrow> Some (map_get (rm_users m) aggID))"

definition FindByExternalAccount :: "UserReadModel \<Rightarrow> string \<Rightarrow> string \<Rightarrow> User option option" where
  "FindByExternalAccount m provider subject =
     (case map_get (rm_external m) (provider, subject) of
        None \<Rightarrow> None
      | Some aggID \<Rightarrow> Some (map_get (rm_users m) aggID))"

definition User_Count :: "UserReadModel \<Rightarrow> nat" where
  "User_Count m = length (rm_users m)"

section \<open>Redelivery\<close>

definition same_model :: "UserReadModel \<Rightarrow> UserReadModel \<Rightarrow> bool" where
  "same_model m m' \<longleftrightarrow>
     map_of (rm_users m) = map_of (rm_users m') \<and> map_of (rm_emails m) = map_of (rm_emails m')
     \<and> map_of (rm_external m) = map_of (rm_external m')"

lemma same_model_refl [simp]: "same_model m m"
  by (simp add: same_model_def)

lemma map_of_keep_first [simp]:
  "map_of (keep_first k v m) k' =
     (if k' = k \<and> map_of m k = None then Some v else map_of m k')"
  by (simp add: keep_first_def)

lemma map_of_evict_owned [simp]:
  "map_of (evict_owned k v m) k' =
     (if k' = k \<and> map_of m k = Some v then None else map_of m k')"
  by (simp add: evict_owned_def)

lemma on_user_users [simp]:
  "map_of (rm_users (on_user m a f)) b =
     (if b = a then map_option f (map_of (rm_users m) a) else map_of (rm_users m) b)"
  by (simp add: on_user_def split: option.split)

lemma on_user_indexes [simp]:
  "rm_emails (on_user m a f) = rm_emails m" "rm_external (on_user m a f) = rm_external m"
  by (simp_all add: on_user_def split: option.split)

lemma on_user_same: "(\<And>u. f (f u) = f u) \<Longrightarrow> same_model (on_user m a f) (on_user (on_user m a f) a f)"
  by (auto simp: same_model_def fun_eq_iff option.map_comp comp_def)

lemma update_first_twice:
  assumes "update_first p f xs = Some ys" and "\<And>x. p x \<Longrightarrow> p (f x)" and "\<And>x. f (f x) = f x"
  shows "update_first p f ys = Some ys"
  using assms by (induction xs arbitrary: ys) (auto split: if_splits)

lemma ApplyUse_twice: "ApplyUse (ApplyUse c u) u = ApplyUse c u"
  by (simp add: ApplyUse_def)

text \<open>Handling an event a second time, right after the first, succeeds and changes nothing.\<close>

lemma user_redelivery:
  assumes "Handle_user E m evt = Inr m'"
  shows "\<exists>m''. Handle_user E m' evt = Inr m'' \<and> same_model m' m''"
proof (cases "evt_type evt")
  case EventUserRegistered
  with assms show ?thesis
    by (auto simp: Handle_user_def handleUserRegistered_def on_ok_eq_Inr Let_def same_model_def fun_eq_iff)
next
  case EventEmailChanged
  with assms show ?thesis
    by (auto simp: Handle_user_def handleEmailChanged_def on_ok_eq_Inr Let_def same_model_def fun_eq_iff
        split: option.splits)
next
  case EventCredentialUsed
  with assms obtain p where p: "decodePayload E (dec_CredentialUsed E) evt ''CredentialUsed'' = Inr p"
    by (auto simp: Handle_user_def handleCredentialUsed_def on_ok_eq_Inr)
  let ?f = "\<lambda>u. case update_first (\<lambda>c. cred_id c = cu_credential_id p) (\<lambda>c. ApplyUse c (use_of p))
                    (u_credentials u) of
                None \<Rightarrow> u
              | Some cs \<Rightarrow> u \<lparr> u_credentials := cs, u_updated_at := evt_occurred_at evt \<rparr>"
  have "?f (?f u) = ?f u" for u :: User
    using update_first_twice [of "\<lambda>c. cred_id c = cu_credential_id p" "\<lambda>c. ApplyUse c (use_of p)"]
    by (auto simp: ApplyUse_twice split: option.split)
  from on_user_same [of ?f, OF this] EventCredentialUsed p assms show ?thesis
    by (auto simp: Handle_user_def handleCredentialUsed_def)
next
  case EventUserDeleted
  with assms show ?thesis
    by (auto simp: Handle_user_def handleUserDeleted_def Let_def same_model_def fun_eq_iff
        split: option.splits)
next
  case EventExternalAccountLinked
  with assms obtain p where
    p: "decodePayload E (dec_ExternalAccountLinked E) evt ''ExternalAccountLinked'' = Inr p"
    by (auto simp: Handle_user_def handleExternalAccountLinked_def on_ok_eq_Inr)
  show ?thesis
  proof (cases "map_get (rm_users m) (evt_stream evt)")
    case None
    with EventExternalAccountLinked assms p show ?thesis
      by (auto simp: Handle_user_def handleExternalAccountLinked_def Let_def)
  next
    case (Some u)
    with EventExternalAccountLinked assms p show ?thesis
      by (cases "\<exists>ea\<in>set (u_external_accounts u). ea_provider ea = ea_provider p \<and> ea_subject ea = ea_subject p")
         (auto simp: Handle_user_def handleExternalAccountLinked_def Let_def same_model_def
           fun_eq_iff NewExternalAccount_def)
  qed
next
  case EventExternalAccountUnlinked
  with assms show ?thesis
    by (auto simp: Handle_user_def handleExternalAccountUnlinked_def on_ok_eq_Inr Let_def same_model_def
        fun_eq_iff split: option.splits)
next
  case EventCredentialAdded
  with assms show ?thesis
    by (auto simp: Handle_user_def handleCredentialAdded_def on_ok_eq_Inr HasCredential_def
        NewCredentialFromPayload_def intro!: on_user_same)
next
  case EventCredentialRemoved
  with assms show ?thesis
    by (auto simp: Handle_user_def handleCredentialRemoved_def on_ok_eq_Inr intro!: on_user_same)
next
  case EventDisplayNameChanged
  with assms show ?thesis
    by (auto simp: Handle_user_def handleDisplayNameChanged_def on_ok_eq_Inr intro!: on_user_same)
next
  case EventEmailVerified
  with assms show ?thesis
    by (auto simp: Handle_user_def handleEmailVerified_def intro!: on_user_same)
next
  case EventTOTPEnabled
  with assms show ?thesis
    by (auto simp: Handle_user_def handleTOTPEnabled_def on_ok_eq_Inr intro!: on_user_same)
next
  case EventTOTPDisabled
  with assms show ?thesis
    by (auto simp: Handle_user_def handleTOTPDisabled_def intro!: on_user_same)
next
  case EventRolesUpdated
  with assms show ?thesis
    by (auto simp: Handle_user_def handleRolesUpdated_def on_ok_eq_Inr)
qed (use assms in \<open>simp_all add: Handle_user_def\<close>)

lemma same_modelD:
  assumes "same_model m n"
  shows "map_of (rm_users m) k = map_of (rm_users n) k" "map_of (rm_emails m) e = map_of (rm_emails n) e"
    "map_of (rm_external m) x = map_of (rm_external n) x"
  using assms by (simp_all add: same_model_def)

lemma same_model_users:
  "same_model m n \<Longrightarrow> same_model (m \<lparr> rm_users := map_put k u (rm_users m) \<rparr>) (n \<lparr> rm_users := map_put k u (rm_users n) \<rparr>)"
  by (simp add: same_model_def fun_eq_iff)

lemma on_user_cong: "same_model m n \<Longrightarrow> same_model (on_user m a f) (on_user n a f)"
  by (simp add: same_model_def fun_eq_iff)

lemma map_of_fold_evict [simp]:
  "map_of (fold (\<lambda>ea. evict_owned (f ea) a) xs m) k =
     (if k \<in> f ` set xs \<and> map_of m k = Some a then None else map_of m k)"
  by (induction xs arbitrary: m) auto

lemma handle_user_cong:
  assumes same: "same_model m n" and h: "Handle_user E m evt = Inr m'"
  shows "\<exists>n'. Handle_user E n evt = Inr n' \<and> same_model m' n'"
proof -
  note sim = same_modelD [OF same] on_user_cong [OF same]
  show ?thesis
  proof (cases "evt_type evt")
    case EventUserRegistered
    with h same show ?thesis
      by (auto simp: Handle_user_def handleUserRegistered_def on_ok_eq_Inr Let_def same_model_def fun_eq_iff)
  next
    case EventEmailChanged
    with h obtain p where p: "decodePayload E (dec_EmailChanged E) evt ''EmailChanged'' = Inr p"
      by (auto simp: Handle_user_def handleEmailChanged_def on_ok_eq_Inr)
    with EventEmailChanged h same show ?thesis
      by (cases "map_get (rm_users n) (evt_stream evt)")
         (auto simp: Handle_user_def handleEmailChanged_def Let_def same_model_def fun_eq_iff)
  next
    case EventUserDeleted
    with h same show ?thesis
      by (cases "map_get (rm_users n) (evt_stream evt)")
         (auto simp: Handle_user_def handleUserDeleted_def Let_def same_model_def intro!: ext)
  next
    case EventExternalAccountLinked
    with h obtain p where
      p: "decodePayload E (dec_ExternalAccountLinked E) evt ''ExternalAccountLinked'' = Inr p"
      by (auto simp: Handle_user_def handleExternalAccountLinked_def on_ok_eq_Inr)
    with EventExternalAccountLinked h same show ?thesis
      by (cases "map_get (rm_users n) (evt_stream evt)")
         (auto simp: Handle_user_def handleExternalAccountLinked_def Let_def same_model_def fun_eq_iff)
  next
    case EventExternalAccountUnlinked
    with h obtain p where
      p: "decodePayload E (dec_ExternalAccountUnlinked E) evt ''ExternalAccountUnlinked'' = Inr p"
      by (auto simp: Handle_user_def handleExternalAccountUnlinked_def on_ok_eq_Inr)
    with EventExternalAccountUnlinked h same show ?thesis
      by (cases "map_get (rm_users n) (evt_stream evt)")
         (auto simp: Handle_user_def handleExternalAccountUnlinked_def Let_def same_model_def fun_eq_iff)
  next
    case EventCredentialUsed
    with h sim show ?thesis by (auto simp: Handle_user_def handleCredentialUsed_def on_ok_eq_Inr)
  next
    case EventCredentialAdded
    with h sim show ?thesis by (auto simp: Handle_user_def handleCredentialAdded_def on_ok_eq_Inr)
  next
    case EventCredentialRemoved
    with h sim show ?thesis by (auto simp: Handle_user_def handleCredentialRemoved_def on_ok_eq_Inr)
  next
    case EventDisplayNameChanged
    with h sim show ?thesis by (auto simp: Handle_user_def handleDisplayNameChanged_def on_ok_eq_Inr)
  next
    case EventEmailVerified
    with h sim show ?thesis by (auto simp: Handle_user_def handleEmailVerified_def)
  next
    case EventTOTPEnabled
    with h sim show ?thesis by (auto simp: Handle_user_def handleTOTPEnabled_def on_ok_eq_Inr)
  next
    case EventTOTPDisabled
    with h sim show ?thesis by (auto simp: Handle_user_def handleTOTPDisabled_def)
  next
    case EventRolesUpdated
    with h same show ?thesis by (auto simp: Handle_user_def handleRolesUpdated_def on_ok_eq_Inr)
  qed (use h same in \<open>simp_all add: Handle_user_def\<close>)
qed

interpretation user_rm: projection "Handle_user E" same_model for E
proof
  show "same_model m m" for m by simp
  show "same_model m n \<Longrightarrow> same_model n m" for m n by (simp add: same_model_def)
  show "same_model l m \<Longrightarrow> same_model m n \<Longrightarrow> same_model l n" for l m n by (simp add: same_model_def)
qed (rule handle_user_cong user_redelivery; assumption)+

text \<open>C7. At-least-once delivery is safe: whatever events the projection is given, repeating each of
  them in place any number of times leads to the same users and the same indexes as delivering each
  once, for every event type and any starting state.\<close>

theorem user_at_least_once:
  assumes "fold_events (Handle_user E) m (map fst ds) = Inr m'"
  shows "\<exists>m''. fold_events (Handle_user E) m (concat (map (\<lambda>(e, k). replicate (Suc k) e) ds)) = Inr m''
    \<and> same_model m' m''"
  using user_rm.at_least_once [OF assms] by (simp add: user_rm.deliver_def)

section \<open>The projection follows the aggregate\<close>

definition view_of :: "User \<Rightarrow> UserState \<Rightarrow> bool" where
  "view_of u s \<longleftrightarrow>
     u_email u = us_email s \<and> u_display_name u = us_display_name s
     \<and> u_credentials u = us_credentials s \<and> u_external_accounts u = us_external_accounts s
     \<and> u_email_verified u = us_email_verified s \<and> u_totp_enabled u = us_totp_enabled s
     \<and> u_totp_secret u = us_totp_secret s"

text \<open>What the projection holds for a stream: nothing for one that never started or was deleted,
  otherwise the folded state.\<close>

definition projects :: "User option \<Rightarrow> UserState \<Rightarrow> bool" where
  "projects uo s \<longleftrightarrow>
     (case uo of
        None \<Rightarrow> us_deleted s \<or> s = UserState_zero
      | Some u \<Rightarrow> \<not> us_deleted s \<and> view_of u s)"

definition follows ::
  "'raw event_env \<Rightarrow> stream_id \<Rightarrow> UserReadModel \<Rightarrow> UserState \<Rightarrow> 'raw event list \<Rightarrow> bool" where
  "follows E a m s new \<longleftrightarrow>
     (\<exists>m' s'. fold_events (Handle_user E) m new = Inr m' \<and> fold_events (FoldUser E) s new = Inr s'
       \<and> projects (map_of (rm_users m') a) s'
       \<and> (\<forall>b. b \<noteq> a \<longrightarrow> map_of (rm_users m') b = map_of (rm_users m) b))"

lemma follows_Nil: "projects (map_of (rm_users m) a) s \<Longrightarrow> follows E a m s []"
  by (simp add: follows_def)

lemma follows_emit:
  assumes "env_ok E" and "emit E t a AggregateTypeUser v p enc c msg = Inr new"
    and "\<And>evt. emitted E t a AggregateTypeUser v p evt \<Longrightarrow>
      \<exists>m' s'. Handle_user E m evt = Inr m' \<and> FoldUser E s evt = Inr s'
        \<and> projects (map_of (rm_users m') a) s'
        \<and> (\<forall>b. b \<noteq> a \<longrightarrow> map_of (rm_users m') b = map_of (rm_users m) b)"
  shows "follows E a m s new"
proof -
  from emit_Inr [OF env_okD(1) [OF assms(1)] assms(2)] obtain evt where
    "new = [evt]" "emitted E t a AggregateTypeUser v p evt" by blast
  with assms(3) show ?thesis by (fastforce simp: follows_def)
qed

lemma decodePayload_emitted:
  assumes "env_ok E" and "for_encoding E (evt_encoding evt) = None"
    and "dec (evt_encoding evt) (evt_payload evt) = Inr p"
  shows "decodePayload E dec evt name = Inr p"
  using decodesD [where dec = dec and evt = evt, OF assms] by (simp add: decodePayload_def)

named_theorems handles \<open>the handlers on an emitted event\<close>

lemma Handle_UserRegistered [handles]:
  "env_ok E \<Longrightarrow> emitted E EventUserRegistered a st v (PUserRegistered p) evt \<Longrightarrow>
   Handle_user E m evt = Inr (m \<lparr> rm_users := map_put a
           \<lparr> u_id = NewUserID (ids E) a, u_email = ur_email p,
             u_display_name = ur_display_name p, u_credentials = [], u_external_accounts = [],
             u_email_verified = False, u_totp_enabled = False, u_totp_secret = [],
             u_created_at = evt_occurred_at evt, u_updated_at = evt_occurred_at evt \<rparr> (rm_users m),
         rm_emails := keep_first (ur_email p) a (rm_emails m) \<rparr>)"
  by (simp add: Handle_user_def handleUserRegistered_def emitted_def decodes_def decodePayload_emitted Let_def)

lemma Handle_EmailChanged [handles]:
  "env_ok E \<Longrightarrow> emitted E EventEmailChanged a st v (PEmailChanged p) evt \<Longrightarrow>
   Handle_user E m evt = Inr (case map_get (rm_users m) a of
            None \<Rightarrow> m
          | Some u \<Rightarrow>
              m \<lparr> rm_users := map_put a
                    (u \<lparr> u_email := ec_email p, u_email_verified := False, u_totp_enabled := False,
                         u_totp_secret := [], u_updated_at := evt_occurred_at evt \<rparr>) (rm_users m),
                  rm_emails := keep_first (ec_email p) a (evict_owned (u_email u) a (rm_emails m)) \<rparr>)"
  by (simp add: Handle_user_def handleEmailChanged_def emitted_def decodes_def decodePayload_emitted Let_def)

lemma Handle_DisplayNameChanged [handles]:
  "env_ok E \<Longrightarrow> emitted E EventDisplayNameChanged a st v (PDisplayNameChanged p) evt \<Longrightarrow>
   Handle_user E m evt = Inr (on_user m a
         (\<lambda>u. u \<lparr> u_display_name := dn_display_name p, u_updated_at := evt_occurred_at evt \<rparr>))"
  by (simp add: Handle_user_def handleDisplayNameChanged_def emitted_def decodes_def decodePayload_emitted Let_def)

lemma Handle_CredentialAdded [handles]:
  "env_ok E \<Longrightarrow> emitted E EventCredentialAdded a st v (PCredentialAdded p) evt \<Longrightarrow>
   Handle_user E m evt = Inr (on_user m a
         (\<lambda>u. if HasCredential u (cred_id p) then u
              else u \<lparr> u_credentials := u_credentials u @ [NewCredentialFromPayload p (evt_occurred_at evt)],
                       u_updated_at := evt_occurred_at evt \<rparr>))"
  by (simp add: Handle_user_def handleCredentialAdded_def emitted_def decodes_def decodePayload_emitted Let_def)

lemma Handle_CredentialRemoved [handles]:
  "env_ok E \<Longrightarrow> emitted E EventCredentialRemoved a st v (PCredentialRemoved p) evt \<Longrightarrow>
   Handle_user E m evt = Inr (on_user m a
         (\<lambda>u. u \<lparr> u_credentials := filter (\<lambda>c. cred_id c \<noteq> cr_id p) (u_credentials u),
                  u_updated_at := evt_occurred_at evt \<rparr>))"
  by (simp add: Handle_user_def handleCredentialRemoved_def emitted_def decodes_def decodePayload_emitted Let_def)

lemma Handle_CredentialUsed [handles]:
  "env_ok E \<Longrightarrow> emitted E EventCredentialUsed a st v (PCredentialUsed p) evt \<Longrightarrow>
   Handle_user E m evt = Inr (on_user m a
         (\<lambda>u. case update_first (\<lambda>c. cred_id c = cu_credential_id p) (\<lambda>c. ApplyUse c (use_of p))
                    (u_credentials u) of
                None \<Rightarrow> u
              | Some cs \<Rightarrow> u \<lparr> u_credentials := cs, u_updated_at := evt_occurred_at evt \<rparr>))"
  by (simp add: Handle_user_def handleCredentialUsed_def emitted_def decodes_def decodePayload_emitted Let_def)

lemma Handle_UserDeleted [handles]:
  "env_ok E \<Longrightarrow> emitted E EventUserDeleted a st v (PUserDeleted p) evt \<Longrightarrow>
   Handle_user E m evt = Inr (case map_get (rm_users m) a of
           None \<Rightarrow> m \<lparr> rm_users := map_del a (rm_users m) \<rparr>
         | Some u \<Rightarrow>
             m \<lparr> rm_users := map_del a (rm_users m),
                 rm_emails := evict_owned (u_email u) a (rm_emails m),
                 rm_external := fold (\<lambda>ea. evict_owned (account_key ea) a)
                   (u_external_accounts u) (rm_external m) \<rparr>)"
  by (simp add: Handle_user_def handleUserDeleted_def emitted_def decodes_def Let_def)

lemma Handle_EmailVerified [handles]:
  "env_ok E \<Longrightarrow> emitted E EventEmailVerified a st v (PEmailVerified p) evt \<Longrightarrow>
   Handle_user E m evt = Inr (on_user m a (\<lambda>u. u \<lparr> u_email_verified := True, u_updated_at := evt_occurred_at evt \<rparr>))"
  by (simp add: Handle_user_def handleEmailVerified_def emitted_def decodes_def Let_def)

lemma Handle_TOTPEnabled [handles]:
  "env_ok E \<Longrightarrow> emitted E EventTOTPEnabled a st v (PTOTPEnabled p) evt \<Longrightarrow>
   Handle_user E m evt = Inr (on_user m a
         (\<lambda>u. u \<lparr> u_totp_enabled := True, u_totp_secret := te_secret p, u_updated_at := evt_occurred_at evt \<rparr>))"
  by (simp add: Handle_user_def handleTOTPEnabled_def emitted_def decodes_def decodePayload_emitted Let_def)

lemma Handle_TOTPDisabled [handles]:
  "env_ok E \<Longrightarrow> emitted E EventTOTPDisabled a st v (PTOTPDisabled p) evt \<Longrightarrow>
   Handle_user E m evt = Inr (on_user m a
         (\<lambda>u. u \<lparr> u_totp_enabled := False, u_totp_secret := [], u_updated_at := evt_occurred_at evt \<rparr>))"
  by (simp add: Handle_user_def handleTOTPDisabled_def emitted_def decodes_def Let_def)

lemma Handle_ExternalAccountLinked [handles]:
  "env_ok E \<Longrightarrow> emitted E EventExternalAccountLinked a st v (PExternalAccountLinked p) evt \<Longrightarrow>
   Handle_user E m evt = Inr (case map_get (rm_users m) a of
            None \<Rightarrow> m
          | Some u \<Rightarrow>
              m \<lparr> rm_users := map_put a
                    (u \<lparr> u_external_accounts :=
                           (if \<exists>ea\<in>set (u_external_accounts u).
                                 ea_provider ea = ea_provider p \<and> ea_subject ea = ea_subject p
                            then u_external_accounts u
                            else u_external_accounts u
                              @ [NewExternalAccount (ea_provider p) (ea_subject p) (ea_email p)
                                   (ea_display_name p) (evt_occurred_at evt)]),
                         u_updated_at := evt_occurred_at evt \<rparr>) (rm_users m),
                  rm_external := keep_first (ea_provider p, ea_subject p) a (rm_external m) \<rparr>)"
  by (simp add: Handle_user_def handleExternalAccountLinked_def emitted_def decodes_def decodePayload_emitted Let_def)

lemma Handle_ExternalAccountUnlinked [handles]:
  "env_ok E \<Longrightarrow> emitted E EventExternalAccountUnlinked a st v (PExternalAccountUnlinked p) evt \<Longrightarrow>
   Handle_user E m evt = Inr (case map_get (rm_users m) a of
            None \<Rightarrow> m
          | Some u \<Rightarrow>
              m \<lparr> rm_users := map_put a
                    (u \<lparr> u_external_accounts :=
                           filter (\<lambda>ea. ea_provider ea \<noteq> eu_provider p \<or> ea_subject ea \<noteq> eu_subject p)
                             (u_external_accounts u),
                         u_updated_at := evt_occurred_at evt \<rparr>) (rm_users m),
                  rm_external := evict_owned (eu_provider p, eu_subject p) a (rm_external m) \<rparr>)"
  by (simp add: Handle_user_def handleExternalAccountUnlinked_def emitted_def decodes_def decodePayload_emitted Let_def)

lemma follows_register:
  assumes "env_ok E" and "emit E EventUserRegistered a AggregateTypeUser v (PUserRegistered p) enc c msg = Inr new"
  shows "follows E a m s new"
  by (rule follows_emit [OF assms])
     (simp add: handles [OF assms(1)] folds [OF assms(1)] projects_def view_of_def UserState_zero_def)

lemma follows_emitted:
  assumes "env_ok E" and "emit E t a AggregateTypeUser v p enc c msg = Inr new"
    and "map_of (rm_users m) a = Some u" and "view_of u s" and "\<not> us_deleted s"
    and "\<And>evt. emitted E t a AggregateTypeUser v p evt \<Longrightarrow>
      \<exists>m' s'. Handle_user E m evt = Inr m' \<and> FoldUser E s evt = Inr s'
        \<and> (case map_of (rm_users m') a of None \<Rightarrow> us_deleted s' | Some u' \<Rightarrow> \<not> us_deleted s' \<and> view_of u' s')
        \<and> (\<forall>b. b \<noteq> a \<longrightarrow> map_of (rm_users m') b = map_of (rm_users m) b)"
  shows "follows E a m s new"
  by (rule follows_emit [OF assms(1,2)])
     (drule assms(6), auto simp: projects_def split: option.splits)

text \<open>Each command of an active user, one lemma per event.\<close>

lemma follows_EmailChanged:
  assumes env: "env_ok E" and u: "map_of (rm_users m) a = Some u" and view: "view_of u s"
    and alive: "\<not> us_deleted s"
    and e: "emit E EventEmailChanged a AggregateTypeUser v (PEmailChanged p) enc c msg = Inr new"
  shows "follows E a m s new"
  by (rule follows_emitted [OF env e u view alive])
     (use view alive u in \<open>simp add: handles [OF env] folds [OF env] view_of_def\<close>)

lemma follows_DisplayNameChanged:
  assumes env: "env_ok E" and u: "map_of (rm_users m) a = Some u" and view: "view_of u s"
    and alive: "\<not> us_deleted s"
    and e: "emit E EventDisplayNameChanged a AggregateTypeUser v (PDisplayNameChanged p) enc c msg = Inr new"
  shows "follows E a m s new"
  by (rule follows_emitted [OF env e u view alive])
     (use view alive u in \<open>simp add: handles [OF env] folds [OF env] view_of_def\<close>)

lemma follows_UserDeleted:
  assumes env: "env_ok E" and u: "map_of (rm_users m) a = Some u" and view: "view_of u s"
    and alive: "\<not> us_deleted s"
    and e: "emit E EventUserDeleted a AggregateTypeUser v (PUserDeleted p) enc c msg = Inr new"
  shows "follows E a m s new"
  by (rule follows_emitted [OF env e u view alive])
     (use view alive u in \<open>simp add: handles [OF env] folds [OF env] view_of_def\<close>)

lemma follows_CredentialAdded:
  assumes env: "env_ok E" and u: "map_of (rm_users m) a = Some u" and view: "view_of u s"
    and alive: "\<not> us_deleted s"
    and new: "\<not> (\<exists>c\<in>set (us_credentials s). cred_id c = cred_id p)"
    and e: "emit E EventCredentialAdded a AggregateTypeUser v (PCredentialAdded p) enc c msg = Inr new"
  shows "follows E a m s new"
  by (rule follows_emitted [OF env e u view alive])
     (use view alive u new in \<open>simp add: handles [OF env] folds [OF env] view_of_def HasCredential_def\<close>)

lemma follows_CredentialRemoved:
  assumes env: "env_ok E" and u: "map_of (rm_users m) a = Some u" and view: "view_of u s"
    and alive: "\<not> us_deleted s"
    and e: "emit E EventCredentialRemoved a AggregateTypeUser v (PCredentialRemoved p) enc c msg = Inr new"
  shows "follows E a m s new"
  by (rule follows_emitted [OF env e u view alive])
     (use view alive u in \<open>simp add: handles [OF env] folds [OF env] view_of_def\<close>)

lemma follows_CredentialUsed:
  assumes env: "env_ok E" and u: "map_of (rm_users m) a = Some u" and view: "view_of u s"
    and alive: "\<not> us_deleted s"
    and new: "findCredential (us_credentials s) (cu_credential_id p) = Some d"
    and e: "emit E EventCredentialUsed a AggregateTypeUser v (PCredentialUsed p) enc c msg = Inr new"
  shows "follows E a m s new"
proof -
  from use_found [OF new] obtain cs where
    "update_first (\<lambda>c. cred_id c = cu_credential_id p) (\<lambda>c. ApplyUse c (use_of p)) (us_credentials s) = Some cs"
    by blast
  with view alive u show ?thesis
    by (intro follows_emitted [OF env e u view alive])
       (simp add: handles [OF env] folds [OF env] view_of_def)
qed

lemma follows_EmailVerified:
  assumes env: "env_ok E" and u: "map_of (rm_users m) a = Some u" and view: "view_of u s"
    and alive: "\<not> us_deleted s"
    and e: "emit E EventEmailVerified a AggregateTypeUser v (PEmailVerified p) enc c msg = Inr new"
  shows "follows E a m s new"
  by (rule follows_emitted [OF env e u view alive])
     (use view alive u in \<open>simp add: handles [OF env] folds [OF env] view_of_def\<close>)

lemma follows_TOTPEnabled:
  assumes env: "env_ok E" and u: "map_of (rm_users m) a = Some u" and view: "view_of u s"
    and alive: "\<not> us_deleted s"
    and e: "emit E EventTOTPEnabled a AggregateTypeUser v (PTOTPEnabled p) enc c msg = Inr new"
  shows "follows E a m s new"
  by (rule follows_emitted [OF env e u view alive])
     (use view alive u in \<open>simp add: handles [OF env] folds [OF env] view_of_def\<close>)

lemma follows_TOTPDisabled:
  assumes env: "env_ok E" and u: "map_of (rm_users m) a = Some u" and view: "view_of u s"
    and alive: "\<not> us_deleted s"
    and e: "emit E EventTOTPDisabled a AggregateTypeUser v (PTOTPDisabled p) enc c msg = Inr new"
  shows "follows E a m s new"
  by (rule follows_emitted [OF env e u view alive])
     (use view alive u in \<open>simp add: handles [OF env] folds [OF env] view_of_def\<close>)

lemma follows_ExternalAccountLinked:
  assumes env: "env_ok E" and u: "map_of (rm_users m) a = Some u" and view: "view_of u s"
    and alive: "\<not> us_deleted s"
    and new: "\<not> (\<exists>ea\<in>set (us_external_accounts s). ea_provider ea = ea_provider p \<and> ea_subject ea = ea_subject p)"
    and e: "emit E EventExternalAccountLinked a AggregateTypeUser v (PExternalAccountLinked p) enc c msg = Inr new"
  shows "follows E a m s new"
  by (rule follows_emitted [OF env e u view alive])
     (use view alive u new in \<open>simp add: handles [OF env] folds [OF env] view_of_def\<close>)

lemma follows_ExternalAccountUnlinked:
  assumes env: "env_ok E" and u: "map_of (rm_users m) a = Some u" and view: "view_of u s"
    and alive: "\<not> us_deleted s"
    and e: "emit E EventExternalAccountUnlinked a AggregateTypeUser v (PExternalAccountUnlinked p) enc c msg = Inr new"
  shows "follows E a m s new"
  by (rule follows_emitted [OF env e u view alive])
     (use view alive u in \<open>simp add: handles [OF env] folds [OF env] view_of_def\<close>)

lemmas follows_events =
  follows_EmailChanged follows_DisplayNameChanged follows_UserDeleted follows_CredentialRemoved
  follows_EmailVerified follows_TOTPEnabled follows_TOTPDisabled follows_ExternalAccountUnlinked

lemma readmodel_follows_active:
  assumes env: "env_ok E" and d: "decide_user E a cmd s v = Inr new" and act: "User_IsActive s"
    and u: "map_of (rm_users m) a = Some u" and view: "view_of u s"
  shows "follows E a m s new"
proof -
  have alive: "\<not> us_deleted s" using act by (simp add: User_IsActive_def)
  have nil: "follows E a m s []"
    using alive u view by (simp add: follows_Nil projects_def)
  note step = follows_events [OF env u view alive]
  show ?thesis
  proof (cases cmd)
    case (RecordCredentialUseCmd use)
    with d act show ?thesis
      by (auto simp: decideRecordCredentialUse_def guard_user_cases nil split: option.splits if_splits
          elim!: follows_CredentialUsed [OF env u view alive _, rotated])
  next
    case (RegisterUserCmd e n r)
    with d act show ?thesis by (simp add: decideRegisterUser_def User_IsActive_def)
  next
    case (AddCredentialCmd cr)
    with d act show ?thesis
      by (auto simp: decideAddCredential_def guard_user_cases split: if_splits
          elim!: follows_CredentialAdded [OF env u view alive, rotated])
  next
    case (LinkExternalAccountCmd p su e n)
    with d act show ?thesis
      by (auto simp: decideLinkExternalAccount_def guard_user_cases split: if_splits
          elim!: follows_ExternalAccountLinked [OF env u view alive, rotated])
  qed (use d act in \<open>simp add: deciders_open guard_user_cases nil split: if_splits; elim step\<close>)+
qed

section \<open>Worlds of user streams\<close>

text \<open>The folded state of every user stream, with the projection fed by the same events: any command
  that \<open>ok\<close> allows on any stream, its events appended and handled.\<close>

inductive user_world ::
  "'raw event_env \<Rightarrow> (user_cmd \<Rightarrow> bool) \<Rightarrow> (stream_id \<Rightarrow> UserState) \<Rightarrow> UserReadModel \<Rightarrow> bool"
  for E ok where
  world_init: "user_world E ok (\<lambda>a. UserState_zero) NewUserReadModel"
| world_step:
    "user_world E ok S m \<Longrightarrow> ok cmd \<Longrightarrow> decide_user E a cmd (S a) v = Inr new \<Longrightarrow>
     fold_events (FoldUser E) (S a) new = Inr s' \<Longrightarrow> fold_events (Handle_user E) m new = Inr m' \<Longrightarrow>
     user_world E ok (S(a := s')) m'"

lemma projects_follows:
  assumes env: "env_ok E" and inv: "user_inv s" and proj: "projects (map_of (rm_users m) a) s"
    and d: "decide_user E a cmd s v = Inr new"
  shows "follows E a m s new"
proof (cases "User_IsActive s")
  case True
  then have "s \<noteq> UserState_zero" "\<not> us_deleted s"
    by (auto simp: User_IsActive_def User_Exists_def UserState_zero_def)
  with proj obtain u where "map_of (rm_users m) a = Some u" "view_of u s"
    by (auto simp: projects_def split: option.splits)
  with env d True show ?thesis by (intro readmodel_follows_active)
next
  case False
  show ?thesis
  proof (cases cmd)
    case (RegisterUserCmd e n r)
    with d show ?thesis
      by (auto simp: decideRegisterUser_def split: if_splits intro: follows_register [OF env])
  qed (use d False in \<open>simp_all add: deciders_open decideRecordCredentialUse_def guard_user_cases
         split: if_splits\<close>)
qed

lemma world_invariant:
  assumes "env_ok E" and "user_world E ok S m"
  shows "user_inv (S a) \<and> projects (map_of (rm_users m) a) (S a)"
  using assms(2)
proof (induction arbitrary: a)
  case world_init
  show ?case by (simp add: user_inv_zero projects_def NewUserReadModel_def)
next
  case (world_step S m cmd b v new s' m')
  from world_step.IH [of b] have "follows E b m (S b) new"
    using projects_follows [OF assms(1) _ _ world_step.hyps(3)] by blast
  with world_step.hyps have f: "projects (map_of (rm_users m') b) s'"
      "\<forall>c. c \<noteq> b \<longrightarrow> map_of (rm_users m') c = map_of (rm_users m) c"
    by (auto simp: follows_def)
  from world_step.IH [of b] user.decide_spec [OF assms(1) user_admissible_all world_step.hyps(3)]
    user_spec_inv world_step.hyps(4) have "user_inv s'" by fastforce
  with f world_step.IH [of a] show ?case by (cases "a = b") auto
qed

text \<open>C5. The projection refines the aggregate: in every world that commands on any number of user
  streams can produce, it shows for each stream exactly the folded state, shows nothing for a deleted
  or never-started stream, and the events of every further accepted command are handled without an
  error and leave the other users alone.\<close>

theorem user_readmodel_refines:
  assumes "env_ok E" and "user_world E ok S m"
  shows "projects (FindByID m a) (S a)
    \<and> (\<forall>cmd v new. decide_user E a cmd (S a) v = Inr new \<longrightarrow>
        (\<exists>m' s'. fold_events (Handle_user E) m new = Inr m' \<and> fold_events (FoldUser E) (S a) new = Inr s'
          \<and> projects (FindByID m' a) s' \<and> (\<forall>b. b \<noteq> a \<longrightarrow> FindByID m' b = FindByID m b)))"
  using world_invariant [OF assms, of a] projects_follows [OF assms(1)]
  by (fastforce simp: FindByID_def follows_def)

lemma demo_world:
  "user_world demo_env ok (\<lambda>a. UserState_zero) NewUserReadModel"
  by (rule world_init)

lemma demo_registered_handled:
  "fold_events (Handle_user demo_env) NewUserReadModel [demo_registered] = Inr m' \<Longrightarrow>
   map_option u_email (map_of (rm_users m') ''u1'') = Some ''a@b.c''"
  by (auto simp: demo_registered_def demo_event_def demo_simps Handle_user_def handleUserRegistered_def
      decodePayload_def NewUserReadModel_def)

lemma demo_register_decides:
  "decide_user demo_env ''u1'' (RegisterUserCmd ''a@b.c'' ''A'' []) UserState_zero 0 = Inr [demo_registered]"
  by (simp add: demo_registered_def demo_event_def demo_simps)

lemma user_readmodel_refines_witness:
  "\<exists>m' s'. fold_events (Handle_user demo_env) NewUserReadModel [demo_registered] = Inr m'
     \<and> fold_events (FoldUser demo_env) UserState_zero [demo_registered] = Inr s'
     \<and> projects (FindByID m' ''u1'') s'"
  using user_readmodel_refines [OF demo_env_ok demo_world, of "''u1''"] demo_register_decides
  by (metis demo_register_decides)

section \<open>The indexes\<close>

text \<open>Every entry of an index points to a user that holds its key.\<close>

definition points ::
  "(stream_id, User) gomap \<Rightarrow> ('k, stream_id) gomap \<Rightarrow> ('k \<Rightarrow> User \<Rightarrow> bool) \<Rightarrow> bool" where
  "points U I holds \<longleftrightarrow>
     (\<forall>k a. map_of I k = Some a \<longrightarrow> (\<exists>u. map_of U a = Some u \<and> holds k u))"

abbreviation has_email :: "string \<Rightarrow> User \<Rightarrow> bool" where
  "has_email e u \<equiv> u_email u = e"

abbreviation has_account :: "string \<times> string \<Rightarrow> User \<Rightarrow> bool" where
  "has_account k u \<equiv> k \<in> account_key ` set (u_external_accounts u)"

definition indexed :: "UserReadModel \<Rightarrow> bool" where
  "indexed m \<longleftrightarrow>
     points (rm_users m) (rm_emails m) has_email \<and> points (rm_users m) (rm_external m) has_account"

lemma pointsD: "points U I h \<Longrightarrow> map_of I k = Some a \<Longrightarrow> \<exists>u. map_of U a = Some u \<and> h k u"
  by (simp add: points_def)

lemma pointsI: "(\<And>k a. map_of I k = Some a \<Longrightarrow> \<exists>u. map_of U a = Some u \<and> h k u) \<Longrightarrow> points U I h"
  by (simp add: points_def)

lemma points_put:
  assumes "points U I h" and "\<And>k u. map_of U a = Some u \<Longrightarrow> h k u \<Longrightarrow> h k u'"
  shows "points (map_put a u' U) I h"
  using assms by (fastforce simp: points_def)

lemma points_keep:
  assumes "points U I h" and "map_of U a = Some u" and "h k u"
  shows "points U (keep_first k a I) h"
  using assms by (auto simp: points_def)

lemma points_put_evicted:
  assumes "points U I h" and "map_of U a = Some u" and "\<And>k'. h k' u \<Longrightarrow> k' \<noteq> k \<Longrightarrow> h k' u'"
  shows "points (map_put a u' U) (evict_owned k a I) h"
proof (rule pointsI)
  fix k' b
  assume b: "map_of (evict_owned k a I) k' = Some b"
  then have "map_of I k' = Some b" "b = a \<Longrightarrow> k' \<noteq> k" by (auto split: if_splits)
  with pointsD [OF assms(1)] assms(2,3) show "\<exists>u. map_of (map_put a u' U) b = Some u \<and> h k' u"
    by fastforce
qed

lemma points_del:
  assumes "points U I h"
    and "\<And>k b. map_of I' k = Some b \<Longrightarrow> b \<noteq> a \<and> map_of I k = Some b"
  shows "points (map_del a U) I' h"
  using assms by (fastforce simp: points_def)

lemma points_map:
  assumes "points (rm_users m) I h" and "\<And>k u. h k u \<Longrightarrow> h k (f u)"
  shows "points (rm_users (on_user m a f)) I h"
  using assms by (fastforce simp: points_def)

lemma indexed_on_user:
  assumes "indexed m" and "\<And>u. u_email (f u) = u_email u"
    and "\<And>u. u_external_accounts (f u) = u_external_accounts u"
  shows "indexed (on_user m a f)"
  using assms by (simp add: indexed_def points_map)

definition keeps_index :: "'raw event_env \<Rightarrow> UserReadModel \<Rightarrow> 'raw event list \<Rightarrow> bool" where
  "keeps_index E m new \<longleftrightarrow> (\<forall>m'. fold_events (Handle_user E) m new = Inr m' \<longrightarrow> indexed m')"

lemma keeps_Nil: "indexed m \<Longrightarrow> keeps_index E m []"
  by (simp add: keeps_index_def)

lemma keeps_emit:
  assumes "env_ok E" and "emit E t a AggregateTypeUser v p enc c msg = Inr new"
    and "\<And>evt m'. emitted E t a AggregateTypeUser v p evt \<Longrightarrow> Handle_user E m evt = Inr m' \<Longrightarrow> indexed m'"
  shows "keeps_index E m new"
proof -
  from emit_Inr [OF env_okD(1) [OF assms(1)] assms(2)] obtain evt where
    "new = [evt]" "emitted E t a AggregateTypeUser v p evt" by blast
  with assms(3) show ?thesis by (auto simp: keeps_index_def on_ok_eq_Inr)
qed

lemma indexed_registered:
  assumes "indexed m" and "map_of (rm_users m) a = None" and "u_email u = e"
  shows "indexed (m \<lparr> rm_users := map_put a u (rm_users m), rm_emails := keep_first e a (rm_emails m) \<rparr>)"
proof -
  from assms have "points (map_put a u (rm_users m)) (rm_emails m) has_email"
    by (intro points_put) (simp_all add: indexed_def)
  then have "points (map_put a u (rm_users m)) (keep_first e a (rm_emails m)) has_email"
    using assms(3) by (intro points_keep) auto
  moreover from assms have "points (map_put a u (rm_users m)) (rm_external m) has_account"
    by (intro points_put) (simp_all add: indexed_def)
  ultimately show ?thesis by (simp add: indexed_def)
qed

lemma indexed_email_changed:
  assumes "indexed m" and "map_of (rm_users m) a = Some u" and "u_email u' = e"
    and "u_external_accounts u' = u_external_accounts u"
  shows "indexed (m \<lparr> rm_users := map_put a u' (rm_users m),
      rm_emails := keep_first e a (evict_owned (u_email u) a (rm_emails m)) \<rparr>)"
proof -
  from assms have "points (map_put a u' (rm_users m)) (evict_owned (u_email u) a (rm_emails m)) has_email"
    by (intro points_put_evicted) (auto simp: indexed_def)
  with assms(3) have "points (map_put a u' (rm_users m))
      (keep_first e a (evict_owned (u_email u) a (rm_emails m))) has_email"
    by (intro points_keep) auto
  moreover from assms have "points (map_put a u' (rm_users m)) (rm_external m) has_account"
    by (intro points_put) (auto simp: indexed_def)
  ultimately show ?thesis by (simp add: indexed_def)
qed

lemma indexed_deleted:
  assumes "indexed m" and u: "map_of (rm_users m) a = Some u"
  shows "indexed (m \<lparr> rm_users := map_del a (rm_users m),
      rm_emails := evict_owned (u_email u) a (rm_emails m),
      rm_external := fold (\<lambda>ea. evict_owned (account_key ea) a) (u_external_accounts u) (rm_external m) \<rparr>)"
proof -
  from assms(1) have e: "points (rm_users m) (rm_emails m) has_email"
    and x: "points (rm_users m) (rm_external m) has_account" by (simp_all add: indexed_def)
  have "points (map_del a (rm_users m)) (evict_owned (u_email u) a (rm_emails m)) has_email"
    by (rule points_del [OF e]) (use pointsD [OF e] u in \<open>fastforce split: if_splits\<close>)
  moreover have "points (map_del a (rm_users m))
      (fold (\<lambda>ea. evict_owned (account_key ea) a) (u_external_accounts u) (rm_external m)) has_account"
    by (rule points_del [OF x]) (use pointsD [OF x] u in \<open>fastforce split: if_splits\<close>)
  ultimately show ?thesis by (simp add: indexed_def)
qed

lemma indexed_linked:
  assumes "indexed m" and "map_of (rm_users m) a = Some u" and "u_email u' = u_email u"
    and "has_account k u'" and "\<And>k'. has_account k' u \<Longrightarrow> has_account k' u'"
  shows "indexed (m \<lparr> rm_users := map_put a u' (rm_users m), rm_external := keep_first k a (rm_external m) \<rparr>)"
proof -
  from assms(1,2,5) have "points (map_put a u' (rm_users m)) (rm_external m) has_account"
    by (intro points_put) (simp_all add: indexed_def)
  then have "points (map_put a u' (rm_users m)) (keep_first k a (rm_external m)) has_account"
    using assms(4) by (intro points_keep) auto
  moreover from assms have "points (map_put a u' (rm_users m)) (rm_emails m) has_email"
    by (intro points_put) (auto simp: indexed_def)
  ultimately show ?thesis by (simp add: indexed_def)
qed

lemma indexed_unlinked:
  assumes "indexed m" and "map_of (rm_users m) a = Some u" and "u_email u' = u_email u"
    and "\<And>k'. has_account k' u \<Longrightarrow> k' \<noteq> k \<Longrightarrow> has_account k' u'"
  shows "indexed (m \<lparr> rm_users := map_put a u' (rm_users m), rm_external := evict_owned k a (rm_external m) \<rparr>)"
proof -
  have "points (map_put a u' (rm_users m)) (evict_owned k a (rm_external m)) has_account"
    by (rule points_put_evicted [where h = has_account, OF _ assms(2) assms(4)]) (use assms(1) in \<open>simp_all add: indexed_def\<close>)
  moreover from assms have "points (map_put a u' (rm_users m)) (rm_emails m) has_email"
    by (intro points_put) (auto simp: indexed_def)
  ultimately show ?thesis by (simp add: indexed_def)
qed

text \<open>Which users a command's event registers, and that the rest keep the indexes.\<close>

lemma keeps_command:
  assumes env: "env_ok E" and idx: "indexed m" and d: "decide_user E a cmd s v = Inr new"
    and fresh: "us_email s = [] \<Longrightarrow> map_of (rm_users m) a = None"
    and u: "User_IsActive s \<Longrightarrow> map_of (rm_users m) a \<noteq> None"
  shows "keeps_index E m new"
proof -
  note emit = keeps_emit [OF env]
  note simps = handles [OF env]
  note other = indexed_on_user [OF idx]
  show ?thesis
  proof (cases cmd)
    case (RegisterUserCmd e n r)
    with d fresh idx show ?thesis
      by (auto simp: decideRegisterUser_def User_Exists_def simps split: if_splits
          elim!: emit intro!: indexed_registered)
  next
    case (ChangeEmailCmd e)
    with d idx show ?thesis
      by (auto simp: decideChangeEmail_def guard_user_cases keeps_Nil simps split: if_splits option.splits
          elim!: emit intro!: indexed_email_changed)
  next
    case (DeleteUserCmd r)
    with d u idx show ?thesis
      by (auto simp: decideDeleteUser_def guard_user_cases keeps_Nil simps split: if_splits
          elim!: emit intro!: indexed_deleted)
  next
    case (LinkExternalAccountCmd p su e n)
    with d have act: "User_IsActive s"
      and em: "emit E EventExternalAccountLinked a AggregateTypeUser v
        (PExternalAccountLinked \<lparr> ea_provider = p, ea_subject = su, ea_email = e,
           ea_display_name = n, el_schema_version = CurrentSchemaVersion \<rparr>)
        EncodingJSON ''usermgmt.link_external_account.event_failed''
        ''create ExternalAccountLinked event'' = Inr new"
      by (auto simp: decideLinkExternalAccount_def guard_user_cases split: if_splits)
    from u [OF act] obtain u0 where u0: "map_of (rm_users m) a = Some u0" by auto
    show ?thesis
    proof (rule emit [OF em])
      fix evt m'
      assume "emitted E EventExternalAccountLinked a AggregateTypeUser v
        (PExternalAccountLinked \<lparr> ea_provider = p, ea_subject = su, ea_email = e,
           ea_display_name = n, el_schema_version = CurrentSchemaVersion \<rparr>) evt"
        and "Handle_user E m evt = Inr m'"
      with u0 show "indexed m'"
        by (auto simp: simps account_key_def NewExternalAccount_def image_iff
            intro!: indexed_linked [OF idx u0])
    qed
  next
    case (UnlinkExternalAccountCmd p su)
    with d have act: "User_IsActive s"
      and em: "emit E EventExternalAccountUnlinked a AggregateTypeUser v
        (PExternalAccountUnlinked \<lparr> eu_schema_version = CurrentSchemaVersion, eu_provider = p,
           eu_subject = su \<rparr>) EncodingJSON ''usermgmt.unlink_external_account.event_failed''
        ''create ExternalAccountUnlinked event'' = Inr new"
      by (auto simp: decideUnlinkExternalAccount_def guard_user_cases split: if_splits)
    from u [OF act] obtain u0 where u0: "map_of (rm_users m) a = Some u0" by auto
    show ?thesis
    proof (rule emit [OF em])
      fix evt m'
      assume "emitted E EventExternalAccountUnlinked a AggregateTypeUser v
        (PExternalAccountUnlinked \<lparr> eu_schema_version = CurrentSchemaVersion, eu_provider = p,
           eu_subject = su \<rparr>) evt" and "Handle_user E m evt = Inr m'"
      with u0 show "indexed m'"
        by (auto simp: simps account_key_def image_iff intro!: indexed_unlinked [OF idx u0])
    qed
  next
    case (RecordCredentialUseCmd use)
    with d idx show ?thesis
      by (auto simp: decideRecordCredentialUse_def guard_user_cases keeps_Nil simps
          split: if_splits option.splits elim!: emit intro!: other)
  qed (use d idx in \<open>auto simp: deciders_open guard_user_cases keeps_Nil simps split: if_splits
        elim!: emit intro!: other\<close>)
qed

text \<open>The commands that do not give an account an empty email address.\<close>

definition keeps_email :: "user_cmd \<Rightarrow> bool" where
  "keeps_email cmd \<longleftrightarrow> cmd \<noteq> ChangeEmailCmd []"

lemma user_spec_email:
  "user_spec cmd at s = Some s' \<Longrightarrow> keeps_email cmd \<Longrightarrow> us_email s' \<noteq> []"
  by (cases cmd)
     (auto simp: keeps_email_def User_IsActive_def User_Exists_def UserState_zero_def
       split: if_splits option.splits)

lemma world_indexed:
  assumes env: "env_ok E" and "user_world E keeps_email S m"
  shows "indexed m \<and> (\<forall>a. us_email (S a) = [] \<longrightarrow> S a = UserState_zero \<and> map_of (rm_users m) a = None)"
  using assms(2)
proof induction
  case world_init
  show ?case by (simp add: indexed_def points_def NewUserReadModel_def)
next
  case (world_step S m cmd b v new s' m')
  note inv = world_invariant [OF env world_step.hyps(1), of b]
  from inv have active: "User_IsActive (S b) \<Longrightarrow> map_of (rm_users m) b \<noteq> None"
    by (auto simp: projects_def User_IsActive_def User_Exists_def UserState_zero_def split: option.splits)
  from world_step.IH have idx: "indexed m"
    and fresh: "us_email (S b) = [] \<Longrightarrow> map_of (rm_users m) b = None" by blast+
  have "indexed m'"
    using keeps_command [OF env idx world_step.hyps(3) fresh active] world_step.hyps(5)
    by (simp add: keeps_index_def)
  moreover have "us_email s' \<noteq> []"
    using user.decide_spec [OF env user_admissible_all world_step.hyps(3)] world_step.hyps(2,4)
      user_spec_email by fastforce
  moreover have "\<forall>c. c \<noteq> b \<longrightarrow> map_of (rm_users m') c = map_of (rm_users m) c"
    using projects_follows [OF env _ _ world_step.hyps(3)] inv world_step.hyps(5)
    by (fastforce simp: follows_def)
  ultimately show ?case using world_step.IH by auto
qed

text \<open>C6. Lookups are sound: as long as no command empties an email address, looking a user up by
  email or by external account never reports a missing user as found, and the user it returns is alive
  and currently has that very email, or that very account. (One command that empties an address breaks
  this, because the index then keeps an entry for it.)\<close>

theorem user_lookup_sound:
  assumes "env_ok E" and "user_world E keeps_email S m"
  shows "(\<forall>email uo. FindByEmail m email = Some uo \<longrightarrow>
      (\<exists>u a. uo = Some u \<and> u_email u = email \<and> view_of u (S a) \<and> \<not> us_deleted (S a)))
    \<and> (\<forall>provider subject uo. FindByExternalAccount m provider subject = Some uo \<longrightarrow>
      (\<exists>u a. uo = Some u \<and> (provider, subject) \<in> account_key ` set (u_external_accounts u)
        \<and> view_of u (S a) \<and> \<not> us_deleted (S a)))"
proof -
  from world_indexed [OF assms] have idx: "indexed m" by blast
  have live: "view_of u (S a) \<and> \<not> us_deleted (S a)" if "map_of (rm_users m) a = Some u" for a u
    using world_invariant [OF assms, of a] that by (simp add: projects_def)
  have "\<exists>u a. uo = Some u \<and> u_email u = email \<and> view_of u (S a) \<and> \<not> us_deleted (S a)"
    if "FindByEmail m email = Some uo" for email uo
  proof -
    from that obtain a where "map_of (rm_emails m) email = Some a" and uo: "uo = map_of (rm_users m) a"
      by (auto simp: FindByEmail_def split: option.splits)
    with idx obtain u where "map_of (rm_users m) a = Some u" "u_email u = email"
      by (auto simp: indexed_def dest!: pointsD)
    with live uo show ?thesis by blast
  qed
  moreover have "\<exists>u a. uo = Some u \<and> (provider, subject) \<in> account_key ` set (u_external_accounts u)
      \<and> view_of u (S a) \<and> \<not> us_deleted (S a)"
    if "FindByExternalAccount m provider subject = Some uo" for provider subject uo
  proof -
    from that obtain a where "map_of (rm_external m) (provider, subject) = Some a"
      and uo: "uo = map_of (rm_users m) a"
      by (auto simp: FindByExternalAccount_def split: option.splits)
    with idx obtain u where "map_of (rm_users m) a = Some u"
      "(provider, subject) \<in> account_key ` set (u_external_accounts u)"
      unfolding indexed_def by (blast dest: pointsD)
    with live uo show ?thesis by blast
  qed
  ultimately show ?thesis by blast
qed

definition demo_readmodel :: UserReadModel where
  "demo_readmodel =
     \<lparr> rm_users = [(''u1'',
          \<lparr> u_id = NewUserID demo_ids ''u1'', u_email = ''a@b.c'', u_display_name = ''A'',
            u_credentials = [], u_external_accounts = [], u_email_verified = False,
            u_totp_enabled = False, u_totp_secret = [], u_created_at = 0, u_updated_at = 0 \<rparr>)],
       rm_emails = [(''a@b.c'', ''u1'')], rm_external = [] \<rparr>"

lemma demo_world_registered:
  "user_world demo_env keeps_email
     ((\<lambda>a. UserState_zero)(''u1'' := UserState_zero \<lparr> us_email := ''a@b.c'', us_display_name := ''A'' \<rparr>))
     demo_readmodel"
proof (rule world_step [OF world_init])
  show "keeps_email (RegisterUserCmd ''a@b.c'' ''A'' [])" by (simp add: keeps_email_def)
  show "decide_user demo_env ''u1'' (RegisterUserCmd ''a@b.c'' ''A'' []) UserState_zero 0 = Inr [demo_registered]"
    by (rule demo_register_decides)
  show "fold_events (FoldUser demo_env) UserState_zero [demo_registered]
      = Inr (UserState_zero \<lparr> us_email := ''a@b.c'', us_display_name := ''A'' \<rparr>)"
    by (rule demo_registered_folds)
  show "fold_events (Handle_user demo_env) NewUserReadModel [demo_registered] = Inr demo_readmodel"
    by (simp add: demo_readmodel_def demo_registered_def demo_event_def demo_simps Handle_user_def
        handleUserRegistered_def decodePayload_def NewUserReadModel_def keep_first_def)
qed

lemma user_lookup_sound_witness:
  "\<exists>u a. FindByEmail demo_readmodel ''a@b.c'' = Some (Some u) \<and> u_email u = ''a@b.c''
     \<and> \<not> us_deleted (((\<lambda>a. UserState_zero)(''u1'' :=
          UserState_zero \<lparr> us_email := ''a@b.c'', us_display_name := ''A'' \<rparr>)) a)"
proof -
  have "\<exists>uo. FindByEmail demo_readmodel ''a@b.c'' = Some uo"
    by (simp add: FindByEmail_def demo_readmodel_def)
  with user_lookup_sound [OF demo_env_ok demo_world_registered] show ?thesis by fastforce
qed

lemma user_at_least_once_witness:
  "\<exists>m''. fold_events (Handle_user demo_env) NewUserReadModel
      [demo_registered, demo_registered, demo_registered] = Inr m'' \<and> same_model demo_readmodel m''"
proof -
  have "fold_events (Handle_user demo_env) NewUserReadModel (map fst [(demo_registered, 2::nat)])
      = Inr demo_readmodel"
    by (simp add: demo_readmodel_def demo_registered_def demo_event_def demo_simps Handle_user_def
        handleUserRegistered_def decodePayload_def NewUserReadModel_def keep_first_def)
  from user_at_least_once [OF this] show ?thesis by (simp add: numeral_2_eq_2 del: fold_events.simps)
qed

end
