(* ===== verification/Tenant_Decider.thy ===== *)
theory Tenant_Decider
  imports Aggregate
begin

text \<open>
  The tenant aggregate: \<open>usermgmt/es_tenant_decide.go\<close> and its dispatch table
  \<open>es_tenant_dispatch.go\<close>, with the abstract contract, the struct invariant
  \<open>TenantState.IsValid\<close> on every reachable state, and retries.
\<close>

section \<open>Deciders\<close>

definition decideCreateTenant ::
  "'raw event_env \<Rightarrow> stream_id \<Rightarrow> string \<Rightarrow> string \<Rightarrow> TenantState \<Rightarrow> version \<Rightarrow> err + 'raw event list"
where
  "decideCreateTenant E aggID name displayName state version =
     (if ts_name state \<noteq> []
      then Inl (new_error Conflict ''usermgmt.tenant.already_exists'' ''tenant with this ID already exists'')
      else if name = []
      then Inl (new_error Rejection ''usermgmt.tenant.name_required'' ''tenant name is required'')
      else emit E EventTenantCreated aggID AggregateTypeTenant version
        (PTenantCreated \<lparr> tc_schema_version = CurrentSchemaVersion, tc_name = name,
                          tc_display_name = displayName \<rparr>)
        EncodingJSON ''usermgmt.tenant.event_failed'' ''create TenantCreated event'')"

definition decideSuspendTenant ::
  "'raw event_env \<Rightarrow> stream_id \<Rightarrow> string \<Rightarrow> TenantState \<Rightarrow> version \<Rightarrow> err + 'raw event list" where
  "decideSuspendTenant E aggID reason state version =
     (if \<not> Tenant_Exists state
      then Inl (new_error Rejection ''usermgmt.tenant_suspend.not_found'' ''tenant does not exist'')
      else if ts_suspended state then Inr []
      else emit E EventTenantSuspended aggID AggregateTypeTenant version
        (PTenantSuspended \<lparr> ts_schema_version = CurrentSchemaVersion, ts_reason = reason \<rparr>)
        EncodingJSON ''usermgmt.tenant_suspend.event_failed'' ''create TenantSuspended event'')"

definition decideReactivateTenant ::
  "'raw event_env \<Rightarrow> stream_id \<Rightarrow> TenantState \<Rightarrow> version \<Rightarrow> err + 'raw event list" where
  "decideReactivateTenant E aggID state version =
     (if \<not> Tenant_Exists state
      then Inl (new_error Rejection ''usermgmt.tenant_reactivate.not_found'' ''tenant does not exist'')
      else if \<not> ts_suspended state then Inr []
      else emit E EventTenantReactivated aggID AggregateTypeTenant version
        (PTenantReactivated \<lparr> tr_schema_version = CurrentSchemaVersion \<rparr>)
        EncodingJSON ''usermgmt.tenant_reactivate.event_failed'' ''create TenantReactivated event'')"

definition decideDeleteTenant ::
  "'raw event_env \<Rightarrow> stream_id \<Rightarrow> string \<Rightarrow> TenantState \<Rightarrow> version \<Rightarrow> err + 'raw event list" where
  "decideDeleteTenant E aggID reason state version =
     (if \<not> Tenant_Exists state
      then Inl (new_error Rejection ''usermgmt.tenant_delete.not_found'' ''tenant does not exist'')
      else if ts_deleted state
      then Inl (new_error Rejection ''usermgmt.tenant_delete.already_deleted'' ''tenant is already deleted'')
      else emit E EventTenantDeleted aggID AggregateTypeTenant version
        (PTenantDeleted \<lparr> tx_schema_version = CurrentSchemaVersion, tx_reason = reason \<rparr>)
        EncodingJSON ''usermgmt.tenant_delete.event_failed'' ''create TenantDeleted event'')"

datatype tenant_cmd =
    CreateTenantCmd string string
  | SuspendTenantCmd string
  | ReactivateTenantCmd
  | DeleteTenantCmd string

text \<open>\<open>RegisterTenantCommands\<close>.\<close>

fun decide_tenant ::
  "'raw event_env \<Rightarrow> stream_id \<Rightarrow> tenant_cmd \<Rightarrow> TenantState \<Rightarrow> version \<Rightarrow> err + 'raw event list" where
  "decide_tenant E aggID (CreateTenantCmd name displayName) = decideCreateTenant E aggID name displayName"
| "decide_tenant E aggID (SuspendTenantCmd reason) = decideSuspendTenant E aggID reason"
| "decide_tenant E aggID ReactivateTenantCmd = decideReactivateTenant E aggID"
| "decide_tenant E aggID (DeleteTenantCmd reason) = decideDeleteTenant E aggID reason"

lemmas tenant_deciders =
  decideCreateTenant_def decideSuspendTenant_def decideReactivateTenant_def decideDeleteTenant_def

section \<open>Contract\<close>

text \<open>The life cycle a tenant has: absent, active, suspended, deleted.\<close>

datatype tenant_phase = Absent | Active | SuspendedFor string | DeletedFor string

definition tenant_phase :: "TenantState \<Rightarrow> tenant_phase" where
  "tenant_phase s =
     (if ts_name s = [] then Absent
      else if ts_deleted s then DeletedFor (ts_delete_reason s)
      else if ts_suspended s then SuspendedFor (ts_suspend_reason s)
      else Active)"

fun phase_step :: "tenant_cmd \<Rightarrow> tenant_phase \<Rightarrow> tenant_phase option" where
  "phase_step (CreateTenantCmd name d) Absent = (if name = [] then None else Some Active)"
| "phase_step (SuspendTenantCmd reason) Active = Some (SuspendedFor reason)"
| "phase_step (SuspendTenantCmd reason) (SuspendedFor r) = Some (SuspendedFor r)"
| "phase_step ReactivateTenantCmd Active = Some Active"
| "phase_step ReactivateTenantCmd (SuspendedFor r) = Some Active"
| "phase_step (DeleteTenantCmd reason) Active = Some (DeletedFor reason)"
| "phase_step (DeleteTenantCmd reason) (SuspendedFor r) = Some (DeletedFor reason)"
| "phase_step _ _ = None"

fun tenant_spec :: "tenant_cmd \<Rightarrow> time \<Rightarrow> TenantState \<Rightarrow> TenantState option" where
  "tenant_spec (CreateTenantCmd name displayName) at s =
     (if ts_name s \<noteq> [] \<or> name = [] then None
      else Some (TenantState_zero \<lparr> ts_name := name, ts_display_name := displayName \<rparr>))"
| "tenant_spec (SuspendTenantCmd reason) at s =
     (if \<not> Tenant_Exists s then None
      else if ts_suspended s then Some s
      else Some (s \<lparr> ts_suspended := True, ts_suspend_reason := reason \<rparr>))"
| "tenant_spec ReactivateTenantCmd at s =
     (if \<not> Tenant_Exists s then None
      else if \<not> ts_suspended s then Some s
      else Some (s \<lparr> ts_suspended := False, ts_suspend_reason := [] \<rparr>))"
| "tenant_spec (DeleteTenantCmd reason) at s =
     (if \<not> Tenant_Exists s then None
      else Some (s \<lparr> ts_deleted := True, ts_suspended := False, ts_suspend_reason := [],
                     ts_delete_reason := reason \<rparr>))"

definition tenant_inv :: "TenantState \<Rightarrow> bool" where
  "tenant_inv s \<longleftrightarrow> IsValid s \<and> (ts_name s = [] \<longrightarrow> \<not> ts_deleted s \<and> \<not> ts_suspended s)"

definition tenant_admissible :: "tenant_cmd \<Rightarrow> bool" where
  "tenant_admissible cmd = True"

lemma tenant_admissible_all [simp]: "tenant_admissible cmd"
  by (simp add: tenant_admissible_def)

lemma tenant_refines_agrees:
  assumes "env_ok E"
  shows "agrees (decide_tenant E aggID cmd s v) (fold_events (FoldTenant E) s) (\<lambda>at. tenant_spec cmd at s)"
  by (cases cmd; simp only: decide_tenant.simps tenant_deciders;
      intro agrees_if agrees_Inl agrees_Nil agrees_emit assms;
      auto simp: folds [OF assms] Tenant_Exists_def TenantState_zero_def)

lemma tenant_inv_zero: "tenant_inv TenantState_zero"
  by (simp add: tenant_inv_def IsValid_def TenantState_zero_def)

lemma tenant_spec_inv: "tenant_spec cmd at s = Some s' \<Longrightarrow> tenant_inv s \<Longrightarrow> tenant_inv s'"
  by (cases cmd) (auto simp: tenant_inv_def IsValid_def Tenant_Exists_def TenantState_zero_def split: if_splits)

interpretation tenant: specified_inv "env_ok E" "decide_tenant E aggID" "FoldTenant E" tenant_admissible
  tenant_spec TenantState_zero tenant_inv for E aggID
  by unfold_locales (auto intro: tenant_refines_agrees tenant_inv_zero tenant_spec_inv)

lemma tenant_phase_zero [simp]: "tenant_phase TenantState_zero = Absent"
  by (simp add: tenant_phase_def TenantState_zero_def)

lemma tenant_spec_phase:
  assumes "tenant_inv s"
  shows "map_option tenant_phase (tenant_spec cmd at s) = phase_step cmd (tenant_phase s)"
  using assms
  by (cases cmd)
     (auto simp: tenant_phase_def Tenant_Exists_def tenant_inv_def IsValid_def TenantState_zero_def
       split: if_splits)

section \<open>Properties\<close>

text \<open>Every reachable stream of a tenant folds to a state that satisfies the struct invariant
  \<open>TenantState.IsValid\<close>: never deleted and suspended at once, and no reason without its
  condition.\<close>

theorem tenant_stream_valid:
  assumes "env_ok E"
    and "stream_of (decide_tenant E aggID) (FoldTenant E) TenantState_zero tenant_admissible es"
  shows "\<exists>s. fold_events (FoldTenant E) TenantState_zero es = Inr s \<and> IsValid s"
  using tenant.stream_folds [OF assms] by (auto simp: tenant_inv_def)

lemma tenant_stream_valid_witness:
  "\<exists>s. fold_events (FoldTenant demo_env) TenantState_zero
      ([] @ [\<lparr> evt_type = EventTenantCreated, evt_stream = ''t1'', evt_stream_type = AggregateTypeTenant,
              evt_version = 1, evt_payload = PTenantCreated
                \<lparr> tc_schema_version = 2, tc_name = ''acme'', tc_display_name = ''Acme'' \<rparr>,
              evt_encoding = EncodingJSON, evt_occurred_at = 0 \<rparr>]) = Inr s \<and> IsValid s"
  by (rule tenant_stream_valid [OF demo_env_ok, where aggID = "''t1''"],
      rule stream_step [OF stream_empty, where s = TenantState_zero and v = 0
        and cmd = "CreateTenantCmd ''acme'' ''Acme''"])
     (simp_all add: decideCreateTenant_def TenantState_zero_def emit_def demo_env_def CurrentSchemaVersion_def)

text \<open>The tenant aggregate implements the four-phase life cycle: an accepted command moves the
  phase of the folded stream as \<open>phase_step\<close> says, a command refused with a rejection or conflict
  is one the life cycle does not allow. In particular a deleted tenant is never created again.\<close>

theorem tenant_phase_refinement:
  assumes "env_ok E" and "tenant_inv s"
  shows "(case decide_tenant E aggID cmd s v of
      Inr evts \<Rightarrow> \<exists>s'. fold_events (FoldTenant E) s evts = Inr s' \<and> tenant_inv s'
        \<and> phase_step cmd (tenant_phase s) = Some (tenant_phase s')
    | Inl e \<Rightarrow> creation_failed e \<or> refusal e \<and> phase_step cmd (tenant_phase s) = None)"
proof (cases "decide_tenant E aggID cmd s v")
  case (Inl e)
  with tenant.decide_refused [OF assms(1)] tenant_spec_phase [OF assms(2), of cmd 0] show ?thesis
    by fastforce
next
  case (Inr evts)
  with tenant.decide_spec [OF assms(1)] obtain at s' where
    s': "fold_events (FoldTenant E) s evts = Inr s'" "tenant_spec cmd at s = Some s'"
    by fastforce
  with tenant_spec_inv [OF s'(2) assms(2)] tenant_spec_phase [OF assms(2), of cmd at] Inr show ?thesis
    by auto
qed

lemma tenant_phase_refinement_witness:
  "phase_step (SuspendTenantCmd ''unpaid'') (tenant_phase (TenantState_zero \<lparr> ts_name := ''acme'' \<rparr>))
   = Some (SuspendedFor ''unpaid'')"
  using tenant_phase_refinement [OF demo_env_ok, of "TenantState_zero \<lparr> ts_name := ''acme'' \<rparr>" "SuspendTenantCmd ''unpaid''"
      "''t1''" 1]
  by (auto simp: decideSuspendTenant_def Tenant_Exists_def TenantState_zero_def emit_def demo_env_def
      CurrentSchemaVersion_def tenant_inv_def IsValid_def FoldTenant_def UnmarshalPayload_def
      applyUpcasters_def tenant_phase_def)

end
