(* ===== verification/Tenant_Readmodel.thy ===== *)
theory Tenant_Readmodel
  imports Tenant_Decider Projection
begin

text \<open>
  \<open>usermgmt/es_tenant_readmodel.go\<close>: the in-memory projection of tenants, its handlers and
  lookups, as an instance of the \<open>readmodel\<close> and \<open>projection\<close> contracts.
\<close>

record Tenant =
  t_id :: tenant_id
  t_name :: string
  t_display_name :: string
  t_suspended :: bool
  t_deleted :: bool

type_synonym TenantReadModel = "(stream_id, Tenant) gomap"

definition handleTenantCreated ::
  "'raw event_env \<Rightarrow> stream_id \<Rightarrow> 'raw event \<Rightarrow> TenantReadModel \<Rightarrow> err + TenantReadModel" where
  "handleTenantCreated E aggID evt m =
     on_ok (map_err (\<lambda>e. Fam Corruption ''usermgmt.tenant_readmodel.decode_failed''
              ''decode TenantCreated in read model'' 0 [(''agg_id'', aggID)] (Some e))
            (UnmarshalPayload E (dec_TenantCreated E) evt)) (\<lambda>p.
       Inr (map_put aggID
         \<lparr> t_id = NewTenantID aggID, t_name = tc_name p, t_display_name = tc_display_name p,
           t_suspended = False, t_deleted = False \<rparr> m))"

definition handleTenantSuspended :: "stream_id \<Rightarrow> TenantReadModel \<Rightarrow> TenantReadModel" where
  "handleTenantSuspended aggID m =
     (case map_get m aggID of None \<Rightarrow> m | Some t \<Rightarrow> map_put aggID (t \<lparr> t_suspended := True \<rparr>) m)"

definition handleTenantReactivated :: "stream_id \<Rightarrow> TenantReadModel \<Rightarrow> TenantReadModel" where
  "handleTenantReactivated aggID m =
     (case map_get m aggID of None \<Rightarrow> m | Some t \<Rightarrow> map_put aggID (t \<lparr> t_suspended := False \<rparr>) m)"

definition handleTenantDeleted :: "stream_id \<Rightarrow> TenantReadModel \<Rightarrow> TenantReadModel" where
  "handleTenantDeleted aggID m = map_del aggID m"

definition Handle_tenant :: "'raw event_env \<Rightarrow> TenantReadModel \<Rightarrow> 'raw event \<Rightarrow> err + TenantReadModel" where
  "Handle_tenant E m evt =
     (case evt_type evt of
        EventTenantCreated \<Rightarrow> handleTenantCreated E (evt_stream evt) evt m
      | EventTenantSuspended \<Rightarrow> Inr (handleTenantSuspended (evt_stream evt) m)
      | EventTenantReactivated \<Rightarrow> Inr (handleTenantReactivated (evt_stream evt) m)
      | EventTenantDeleted \<Rightarrow> Inr (handleTenantDeleted (evt_stream evt) m)
      | _ \<Rightarrow> Inr m)"

definition Tenant_FindByID :: "TenantReadModel \<Rightarrow> stream_id \<Rightarrow> Tenant option" where
  "Tenant_FindByID m aggID = map_get m aggID"

text \<open>Go iterates the map in an unspecified order; the model takes the order of the list.\<close>

definition Tenant_FindByName :: "TenantReadModel \<Rightarrow> string \<Rightarrow> Tenant option" where
  "Tenant_FindByName m name = find (\<lambda>t. t_name t = name) (map snd m)"

definition Tenant_All :: "TenantReadModel \<Rightarrow> Tenant list" where
  "Tenant_All m = map snd m"

section \<open>The contracts\<close>

definition shows_tenant :: "TenantReadModel \<Rightarrow> stream_id \<Rightarrow> TenantState \<Rightarrow> bool" where
  "shows_tenant m a s \<longleftrightarrow>
     (case map_of m a of
        None \<Rightarrow> \<not> Tenant_Exists s
      | Some t \<Rightarrow> Tenant_Exists s \<and> t_id t = NewTenantID a \<and> t_name t = ts_name s
          \<and> t_display_name t = ts_display_name s \<and> t_suspended t = ts_suspended s \<and> \<not> t_deleted t)"

lemma tenant_step:
  assumes "env_ok E" and "tenant_inv s" and "shows_tenant m a s" and "decide_tenant E a cmd s v = Inr new"
  shows "\<exists>m' s'. fold_events (Handle_tenant E) m new = Inr m' \<and> fold_events (FoldTenant E) s new = Inr s'
    \<and> tenant_inv s' \<and> shows_tenant m' a s' \<and> (\<forall>b t. b \<noteq> a \<longrightarrow> shows_tenant m b t \<longrightarrow> shows_tenant m' b t)"
proof -
  have nil: ?thesis if "new = []" using that assms(2,3) by simp
  note simps = Handle_tenant_def handleTenantCreated_def handleTenantSuspended_def
    handleTenantReactivated_def handleTenantDeleted_def folds [OF assms(1)] emitted_def decodes_def
    decodesD [OF assms(1)]
  have inv: "tenant_spec cmd at s = Some s' \<Longrightarrow> tenant_inv s'" for at s'
    using tenant_spec_inv assms(2) by blast
  from assms(2,3) show ?thesis
  proof (cases cmd)
    case (CreateTenantCmd n d)
    with assms(4) have "ts_name s = []" "n \<noteq> []" and e: "emit E EventTenantCreated a AggregateTypeTenant v
        (PTenantCreated \<lparr> tc_schema_version = CurrentSchemaVersion, tc_name = n, tc_display_name = d \<rparr>)
        EncodingJSON ''usermgmt.tenant.event_failed'' ''create TenantCreated event'' = Inr new"
      by (auto simp: decideCreateTenant_def split: if_splits)
    then show ?thesis
      by (intro step_emit [OF assms(1) e])
         (auto simp: simps tenant_inv_def IsValid_def shows_tenant_def Tenant_Exists_def)
  next
    case (SuspendTenantCmd r)
    show ?thesis
    proof (cases "ts_suspended s")
      case True
      with SuspendTenantCmd assms(4) nil show ?thesis
        by (simp add: decideSuspendTenant_def split: if_splits)
    next
      case False
      with SuspendTenantCmd assms(4) have "Tenant_Exists s" and e: "emit E EventTenantSuspended a AggregateTypeTenant v
        (PTenantSuspended \<lparr> ts_schema_version = CurrentSchemaVersion, ts_reason = r \<rparr>)
        EncodingJSON ''usermgmt.tenant_suspend.event_failed'' ''create TenantSuspended event'' = Inr new"
        by (auto simp: decideSuspendTenant_def split: if_splits)
      with assms(2,3) show ?thesis
        by (intro step_emit [OF assms(1) e])
           (auto simp: simps tenant_inv_def IsValid_def shows_tenant_def Tenant_Exists_def split: option.splits if_splits)
    qed
  next
    case ReactivateTenantCmd
    show ?thesis
    proof (cases "ts_suspended s")
      case False
      with ReactivateTenantCmd assms(4) nil show ?thesis
        by (simp add: decideReactivateTenant_def split: if_splits)
    next
      case True
      with ReactivateTenantCmd assms(4) have "Tenant_Exists s" and e: "emit E EventTenantReactivated a AggregateTypeTenant v
        (PTenantReactivated \<lparr> tr_schema_version = CurrentSchemaVersion \<rparr>)
        EncodingJSON ''usermgmt.tenant_reactivate.event_failed'' ''create TenantReactivated event'' = Inr new"
        by (auto simp: decideReactivateTenant_def split: if_splits)
      with assms(2,3) show ?thesis
        by (intro step_emit [OF assms(1) e])
           (auto simp: simps tenant_inv_def IsValid_def shows_tenant_def Tenant_Exists_def split: option.splits if_splits)
    qed
  next
    case (DeleteTenantCmd r)
    with assms(4) have "Tenant_Exists s" and e: "emit E EventTenantDeleted a AggregateTypeTenant v
        (PTenantDeleted \<lparr> tx_schema_version = CurrentSchemaVersion, tx_reason = r \<rparr>)
        EncodingJSON ''usermgmt.tenant_delete.event_failed'' ''create TenantDeleted event'' = Inr new"
      by (auto simp: decideDeleteTenant_def split: if_splits)
    with assms(2,3) show ?thesis
      by (intro step_emit [OF assms(1) e])
         (auto simp: simps tenant_inv_def IsValid_def shows_tenant_def Tenant_Exists_def split: option.splits if_splits)
  qed
qed

interpretation tenant_rm: readmodel "env_ok E" "decide_tenant E" "FoldTenant E" "Handle_tenant E"
  tenant_admissible TenantState_zero "[]" tenant_inv shows_tenant "\<lambda>m. True" for E
proof
  show "tenant_inv TenantState_zero" by (rule tenant_inv_zero)
  show "shows_tenant [] a TenantState_zero" for a
    by (simp add: shows_tenant_def Tenant_Exists_def TenantState_zero_def)
next
  fix s cmd m a v new
  assume "env_ok E" and "tenant_inv s" and "shows_tenant m a s" and "decide_tenant E a cmd s v = Inr new"
  from tenant_step [OF this]
  show "\<exists>m' s'. fold_events (Handle_tenant E) m new = Inr m' \<and> fold_events (FoldTenant E) s new = Inr s'
    \<and> tenant_inv s' \<and> shows_tenant m' a s' \<and> True
    \<and> (\<forall>b t. b \<noteq> a \<longrightarrow> shows_tenant m b t \<longrightarrow> shows_tenant m' b t)" by blast
qed simp

lemma handle_tenant_lookup:
  "Handle_tenant E m evt = Inr m' \<Longrightarrow> map_of m = map_of n \<Longrightarrow>
   \<exists>n'. Handle_tenant E n evt = Inr n' \<and> map_of m' = map_of n'"
  by (auto simp: Handle_tenant_def handleTenantCreated_def handleTenantSuspended_def
      handleTenantReactivated_def handleTenantDeleted_def on_ok_eq_Inr fun_eq_iff
      split: event_type.splits option.splits)

lemma handle_tenant_again:
  "Handle_tenant E m evt = Inr m' \<Longrightarrow> \<exists>m''. Handle_tenant E m' evt = Inr m'' \<and> map_of m' = map_of m''"
  by (auto simp: Handle_tenant_def handleTenantCreated_def handleTenantSuspended_def
      handleTenantReactivated_def handleTenantDeleted_def on_ok_eq_Inr fun_eq_iff
      split: event_type.splits option.splits)

interpretation tenant_delivery: projection "Handle_tenant E" "\<lambda>m n. map_of m = map_of n" for E
  by unfold_locales (simp_all add: handle_tenant_lookup handle_tenant_again)

section \<open>Properties\<close>

text \<open>In every world of tenant streams the projection lists exactly the tenants that exist, with
  their current names and suspension, never one that was deleted; and it can handle the events of any
  further accepted command.\<close>

theorem tenant_readmodel_refines:
  assumes "env_ok E"
    and "world (decide_tenant E) (FoldTenant E) (Handle_tenant E) tenant_admissible TenantState_zero [] S m"
  shows "(case Tenant_FindByID m a of
      None \<Rightarrow> \<not> Tenant_Exists (S a)
    | Some t \<Rightarrow> Tenant_Exists (S a) \<and> t_name t = ts_name (S a) \<and> (t_suspended t \<longleftrightarrow> \<not> Tenant_IsActive (S a)))
    \<and> (\<forall>cmd v new. decide_tenant E a cmd (S a) v = Inr new \<longrightarrow>
         (\<exists>m'. fold_events (Handle_tenant E) m new = Inr m'))"
  using tenant_rm.world_shows [OF assms, of a] tenant_rm.world_progress [OF assms]
  by (fastforce simp: Tenant_FindByID_def shows_tenant_def Tenant_IsActive_def split: option.splits)

lemma tenant_readmodel_refines_witness:
  "case Tenant_FindByID [] ''t1'' of None \<Rightarrow> \<not> Tenant_Exists TenantState_zero | Some t \<Rightarrow> True"
  using tenant_readmodel_refines [OF demo_env_ok world_start, of "''t1''"]
  by (simp add: Tenant_FindByID_def)

end
