(* ===== verification/Bot_Decider.thy ===== *)
theory Bot_Decider
  imports Aggregate
begin

text \<open>
  The bot aggregate: \<open>usermgmt/es_bot_decide.go\<close> and its dispatch table
  \<open>es_bot_dispatch.go\<close>, with the abstract contract and the invariant that a usable bot has an
  owner and a token hash.
\<close>

section \<open>Deciders\<close>

definition decideRegisterBot ::
  "'raw event_env \<Rightarrow> stream_id \<Rightarrow> string \<Rightarrow> user_id \<Rightarrow> bytes \<Rightarrow> string list \<Rightarrow> BotState \<Rightarrow> version
   \<Rightarrow> err + 'raw event list" where
  "decideRegisterBot E aggID name ownerID tokenHash scopes state version =
     (if bs_name state \<noteq> []
      then Inl (new_error Conflict ''usermgmt.bot.already_exists'' ''bot with this ID already exists'')
      else if name = []
      then Inl (new_error Rejection ''usermgmt.bot.name_required'' ''bot name is required'')
      else if user_is_zero (ids E) ownerID
      then Inl (new_error Rejection ''usermgmt.bot.owner_required'' ''bot owner ID is required'')
      else if length tokenHash = 0
      then Inl (new_error Rejection ''usermgmt.bot.token_hash_required'' ''bot token hash is required'')
      else emit E EventBotRegistered aggID AggregateTypeBot version
        (PBotRegistered \<lparr> br_schema_version = CurrentSchemaVersion, br_name = name,
                          br_owner_id = ownerID, br_token_hash = tokenHash, br_scopes = scopes \<rparr>)
        EncodingCBOR ''usermgmt.bot.event_failed'' ''create BotRegistered event'')"

definition decideDeleteBot ::
  "'raw event_env \<Rightarrow> stream_id \<Rightarrow> string \<Rightarrow> BotState \<Rightarrow> version \<Rightarrow> err + 'raw event list" where
  "decideDeleteBot E aggID reason state version =
     (if \<not> Bot_Exists state
      then Inl (new_error Rejection ''usermgmt.bot_delete.not_found'' ''bot does not exist'')
      else if bs_deleted state
      then Inl (new_error Rejection ''usermgmt.bot_delete.already_deleted'' ''bot is already deleted'')
      else emit E EventBotDeleted aggID AggregateTypeBot version
        (PBotDeleted \<lparr> bd_schema_version = CurrentSchemaVersion, bd_reason = reason \<rparr>)
        EncodingJSON ''usermgmt.bot_delete.event_failed'' ''create BotDeleted event'')"

datatype bot_cmd =
    RegisterBotCmd string user_id bytes "string list"
  | DeleteBotCmd string

text \<open>\<open>RegisterBotCommands\<close>.\<close>

fun decide_bot ::
  "'raw event_env \<Rightarrow> stream_id \<Rightarrow> bot_cmd \<Rightarrow> BotState \<Rightarrow> version \<Rightarrow> err + 'raw event list" where
  "decide_bot E aggID (RegisterBotCmd name ownerID tokenHash scopes) =
     decideRegisterBot E aggID name ownerID tokenHash scopes"
| "decide_bot E aggID (DeleteBotCmd reason) = decideDeleteBot E aggID reason"

section \<open>Contract\<close>

fun bot_spec :: "id_env \<Rightarrow> bot_cmd \<Rightarrow> time \<Rightarrow> BotState \<Rightarrow> BotState option" where
  "bot_spec I (RegisterBotCmd name ownerID tokenHash scopes) at s =
     (if bs_name s \<noteq> [] \<or> name = [] \<or> user_is_zero I ownerID \<or> tokenHash = [] then None
      else Some \<lparr> bs_name = name, bs_owner_id = Some ownerID, bs_token_hash = tokenHash,
                  bs_scopes = scopes, bs_deleted = False \<rparr>)"
| "bot_spec I (DeleteBotCmd reason) at s =
     (if \<not> Bot_Exists s then None else Some (s \<lparr> bs_deleted := True \<rparr>))"

definition bot_inv :: "id_env \<Rightarrow> BotState \<Rightarrow> bool" where
  "bot_inv I s \<longleftrightarrow>
     (if bs_name s = [] then s = BotState_zero
      else bs_token_hash s \<noteq> [] \<and> (\<exists>u. bs_owner_id s = Some u \<and> \<not> user_is_zero I u))"

definition bot_admissible :: "bot_cmd \<Rightarrow> bool" where
  "bot_admissible cmd = True"

lemma bot_admissible_all [simp]: "bot_admissible cmd"
  by (simp add: bot_admissible_def)

lemma bot_refines_agrees:
  assumes "env_ok E"
  shows "agrees (decide_bot E aggID cmd s v) (fold_events (FoldBot E) s) (\<lambda>at. bot_spec (ids E) cmd at s)"
  by (cases cmd; simp only: decide_bot.simps decideRegisterBot_def decideDeleteBot_def;
      intro agrees_if agrees_Inl agrees_Nil agrees_emit assms;
      auto simp: folds [OF assms] Bot_Exists_def)

lemma bot_inv_zero: "bot_inv I BotState_zero"
  by (simp add: bot_inv_def BotState_zero_def)

lemma bot_spec_inv: "bot_spec I cmd at s = Some s' \<Longrightarrow> bot_inv I s \<Longrightarrow> bot_inv I s'"
  by (cases cmd) (auto simp: bot_inv_def Bot_Exists_def split: if_splits)

interpretation bot: specified_inv "env_ok E" "decide_bot E aggID" "FoldBot E" bot_admissible
  "bot_spec (ids E)" BotState_zero "bot_inv (ids E)" for E aggID
  by unfold_locales (auto intro: bot_refines_agrees bot_inv_zero bot_spec_inv)

section \<open>Properties\<close>

text \<open>On every reachable stream a bot that exists has a real owner and a token hash, and a name
  once taken stays taken: after deletion no command is accepted on the stream.\<close>

theorem bot_stream_sound:
  assumes "env_ok E"
    and "stream_of (decide_bot E aggID) (FoldBot E) BotState_zero bot_admissible es"
  shows "\<exists>s. fold_events (FoldBot E) BotState_zero es = Inr s
    \<and> (Bot_IsActive s \<longrightarrow> bs_token_hash s \<noteq> [] \<and> (\<exists>u. bs_owner_id s = Some u \<and> \<not> user_is_zero (ids E) u))
    \<and> (bs_deleted s \<longrightarrow> (\<forall>cmd v. \<exists>e. decide_bot E aggID cmd s v = Inl e \<and> refusal e))"
proof -
  from bot.stream_folds [OF assms] obtain s where
    s: "fold_events (FoldBot E) BotState_zero es = Inr s" and inv: "bot_inv (ids E) s" by blast
  have "\<exists>e. decide_bot E aggID cmd s v = Inl e \<and> refusal e" if "bs_deleted s" for cmd v
  proof -
    from that inv have "bs_name s \<noteq> []" by (auto simp: bot_inv_def BotState_zero_def split: if_splits)
    with that show ?thesis
      by (cases cmd) (simp_all add: decideRegisterBot_def decideDeleteBot_def Bot_Exists_def)
  qed
  with s inv show ?thesis
    by (auto simp: bot_inv_def Bot_IsActive_def Bot_Exists_def split: if_splits)
qed

lemma bot_stream_sound_witness:
  "\<exists>s. fold_events (FoldBot demo_env) BotState_zero
      ([] @ [\<lparr> evt_type = EventBotRegistered, evt_stream = ''b1'', evt_stream_type = AggregateTypeBot,
              evt_version = 1, evt_payload = PBotRegistered
                \<lparr> br_schema_version = 2, br_name = ''ci'', br_owner_id = UserID 1,
                  br_token_hash = ''h'', br_scopes = [] \<rparr>,
              evt_encoding = EncodingCBOR, evt_occurred_at = 0 \<rparr>]) = Inr s
    \<and> (Bot_IsActive s \<longrightarrow> bs_token_hash s \<noteq> [] \<and> (\<exists>u. bs_owner_id s = Some u \<and> \<not> user_is_zero (ids demo_env) u))
    \<and> (bs_deleted s \<longrightarrow> (\<forall>cmd v. \<exists>e. decide_bot demo_env ''b1'' cmd s v = Inl e \<and> refusal e))"
  by (rule bot_stream_sound [OF demo_env_ok],
      rule stream_step [OF stream_empty, where s = BotState_zero and v = 0
        and cmd = "RegisterBotCmd ''ci'' (UserID 1) ''h'' []"])
     (simp_all add: decideRegisterBot_def BotState_zero_def emit_def demo_env_def demo_ids_def
       CurrentSchemaVersion_def)

end
