(* ===== verification/Bot_Readmodel.thy ===== *)
theory Bot_Readmodel
  imports Bot_Decider Projection
begin

text \<open>
  \<open>usermgmt/es_bot_readmodel.go\<close>: the in-memory projection of bots with its index by token
  hash, from which the API token middleware resolves a bearer token to a bot.
\<close>

record Bot =
  b_id :: bot_id
  b_name :: string
  b_owner_id :: user_id
  b_token_hash :: bytes
  b_scopes :: "string list"
  b_deleted :: bool

text \<open>Both maps of the source hold the same pointer; a bot is never written after it is stored.\<close>

record BotReadModel =
  brm_bots :: "(stream_id, Bot) gomap"
  brm_tokens :: "(bytes, Bot) gomap"

definition NewBotReadModel :: BotReadModel where
  "NewBotReadModel = \<lparr> brm_bots = [], brm_tokens = [] \<rparr>"

definition handleBotRegistered ::
  "'raw event_env \<Rightarrow> stream_id \<Rightarrow> 'raw event \<Rightarrow> BotReadModel \<Rightarrow> err + BotReadModel" where
  "handleBotRegistered E aggID evt m =
     on_ok (map_err (\<lambda>e. Fam Corruption ''usermgmt.bot_readmodel.decode_failed''
              ''decode BotRegistered in read model'' 0 [(''agg_id'', aggID)] (Some e))
            (UnmarshalPayload E (dec_BotRegistered E) evt)) (\<lambda>p.
       let b = \<lparr> b_id = NewBotID aggID, b_name = br_name p, b_owner_id = br_owner_id p,
                   b_token_hash = br_token_hash p, b_scopes = br_scopes p, b_deleted = False \<rparr>
       in Inr \<lparr> brm_bots = map_put aggID b (brm_bots m),
                brm_tokens = map_put (br_token_hash p) b (brm_tokens m) \<rparr>)"

definition botsDelete :: "stream_id \<Rightarrow> BotReadModel \<Rightarrow> (BotReadModel \<times> Bot) option" where
  "botsDelete aggID m =
     (case map_get (brm_bots m) aggID of
        None \<Rightarrow> None
      | Some b \<Rightarrow> Some (m \<lparr> brm_bots := map_del aggID (brm_bots m) \<rparr>, b))"

definition handleBotDeleted :: "stream_id \<Rightarrow> BotReadModel \<Rightarrow> BotReadModel" where
  "handleBotDeleted aggID m =
     (case botsDelete aggID m of
        None \<Rightarrow> m
      | Some (m', b) \<Rightarrow> m' \<lparr> brm_tokens := map_del (b_token_hash b) (brm_tokens m') \<rparr>)"

definition Handle_bot :: "'raw event_env \<Rightarrow> BotReadModel \<Rightarrow> 'raw event \<Rightarrow> err + BotReadModel" where
  "Handle_bot E m evt =
     (case evt_type evt of
        EventBotRegistered \<Rightarrow> handleBotRegistered E (evt_stream evt) evt m
      | EventBotDeleted \<Rightarrow> Inr (handleBotDeleted (evt_stream evt) m)
      | _ \<Rightarrow> Inr m)"

definition Bot_FindByID :: "BotReadModel \<Rightarrow> stream_id \<Rightarrow> Bot option" where
  "Bot_FindByID m aggID = map_get (brm_bots m) aggID"

definition FindByTokenHash :: "BotReadModel \<Rightarrow> bytes \<Rightarrow> Bot option" where
  "FindByTokenHash m hash = map_get (brm_tokens m) hash"

definition FindByOwner :: "BotReadModel \<Rightarrow> user_id \<Rightarrow> Bot list" where
  "FindByOwner m ownerID = filter (\<lambda>b. b_owner_id b = ownerID) (map snd (brm_bots m))"

section \<open>The contracts\<close>

definition shows_bot :: "BotReadModel \<Rightarrow> stream_id \<Rightarrow> BotState \<Rightarrow> bool" where
  "shows_bot m a s \<longleftrightarrow>
     (case map_of (brm_bots m) a of
        None \<Rightarrow> \<not> Bot_Exists s
      | Some b \<Rightarrow> Bot_Exists s \<and> b_id b = NewBotID a \<and> b_name b = bs_name s
          \<and> bs_owner_id s = Some (b_owner_id b) \<and> b_token_hash b = bs_token_hash s
          \<and> b_scopes b = bs_scopes s)"

definition tokens_live :: "BotReadModel \<Rightarrow> bool" where
  "tokens_live m \<longleftrightarrow>
     (\<forall>h b. map_of (brm_tokens m) h = Some b \<longrightarrow>
        b_token_hash b = h \<and> map_of (brm_bots m) (bot_get (b_id b)) = Some b)"

definition ids_match :: "BotReadModel \<Rightarrow> bool" where
  "ids_match m \<longleftrightarrow> (\<forall>a b. map_of (brm_bots m) a = Some b \<longrightarrow> b_id b = NewBotID a)"

lemma bot_step:
  assumes "env_ok E" and "bot_inv (ids E) s" and "shows_bot m a s" and "tokens_live m \<and> ids_match m"
    and "decide_bot E a cmd s v = Inr new"
  shows "\<exists>m' s'. fold_events (Handle_bot E) m new = Inr m' \<and> fold_events (FoldBot E) s new = Inr s'
    \<and> bot_inv (ids E) s' \<and> shows_bot m' a s' \<and> (tokens_live m' \<and> ids_match m')
    \<and> (\<forall>b t. b \<noteq> a \<longrightarrow> shows_bot m b t \<longrightarrow> shows_bot m' b t)"
proof (cases cmd)
  case (RegisterBotCmd n ow h sc)
  with assms(5) have s: "bs_name s = []" "n \<noteq> []" "\<not> user_is_zero (ids E) ow" "h \<noteq> []"
    and e: "emit E EventBotRegistered a AggregateTypeBot v
      (PBotRegistered \<lparr> br_schema_version = CurrentSchemaVersion, br_name = n, br_owner_id = ow,
         br_token_hash = h, br_scopes = sc \<rparr>)
      EncodingCBOR ''usermgmt.bot.event_failed'' ''create BotRegistered event'' = Inr new"
    by (auto simp: decideRegisterBot_def split: if_splits)
  from s assms(3) have fresh: "map_of (brm_bots m) a = None"
    by (auto simp: shows_bot_def Bot_Exists_def split: option.splits)
  let ?bot = "\<lparr> b_id = NewBotID a, b_name = n, b_owner_id = ow, b_token_hash = h, b_scopes = sc,
                b_deleted = False \<rparr>"
  have live: "tokens_live \<lparr> brm_bots = map_put a ?bot (brm_bots m), brm_tokens = map_put h ?bot (brm_tokens m) \<rparr>"
    using assms(4) fresh by (auto simp: tokens_live_def)
  show ?thesis
    by (rule step_emit [OF assms(1) e])
       (use s live assms(4) in \<open>auto simp: Handle_bot_def handleBotRegistered_def folds [OF assms(1)] emitted_def
         decodes_def decodesD [OF assms(1)] bot_inv_def shows_bot_def Bot_Exists_def ids_match_def Let_def\<close>)
next
  case (DeleteBotCmd r)
  with assms(5) have ex: "Bot_Exists s"
    and e: "emit E EventBotDeleted a AggregateTypeBot v
      (PBotDeleted \<lparr> bd_schema_version = CurrentSchemaVersion, bd_reason = r \<rparr>)
      EncodingJSON ''usermgmt.bot_delete.event_failed'' ''create BotDeleted event'' = Inr new"
    by (auto simp: decideDeleteBot_def split: if_splits)
  from ex assms(3) obtain b where b: "map_of (brm_bots m) a = Some b" "b_id b = NewBotID a"
    by (auto simp: shows_bot_def split: option.splits)
  have live: "tokens_live (m \<lparr> brm_bots := map_del a (brm_bots m),
      brm_tokens := map_del (b_token_hash b) (brm_tokens m) \<rparr>)"
    using assms(4) b by (fastforce simp: tokens_live_def ids_match_def)
  have inv: "bot_inv (ids E) (s \<lparr> bs_deleted := True \<rparr>)"
    using ex assms(2) by (auto simp: bot_inv_def Bot_Exists_def)
  show ?thesis
    by (rule step_emit [OF assms(1) e])
       (use ex b live inv assms(4) in \<open>auto simp: Handle_bot_def handleBotDeleted_def botsDelete_def folds [OF assms(1)]
         emitted_def shows_bot_def Bot_Exists_def ids_match_def split: if_splits\<close>)
qed

interpretation bot_rm: readmodel "env_ok E" "decide_bot E" "FoldBot E" "Handle_bot E"
  bot_admissible BotState_zero NewBotReadModel "bot_inv (ids E)" shows_bot
  "\<lambda>m. tokens_live m \<and> ids_match m" for E
proof
  show "bot_inv (ids E) BotState_zero" by (rule bot_inv_zero)
  show "shows_bot NewBotReadModel a BotState_zero" for a
    by (simp add: shows_bot_def Bot_Exists_def BotState_zero_def NewBotReadModel_def)
  show "tokens_live NewBotReadModel \<and> ids_match NewBotReadModel"
    by (simp add: tokens_live_def ids_match_def NewBotReadModel_def)
qed (rule bot_step; assumption)

definition same_bots :: "BotReadModel \<Rightarrow> BotReadModel \<Rightarrow> bool" where
  "same_bots m n \<longleftrightarrow> map_of (brm_bots m) = map_of (brm_bots n) \<and> map_of (brm_tokens m) = map_of (brm_tokens n)"

lemma handle_bot_cong:
  "same_bots m n \<Longrightarrow> Handle_bot E m evt = Inr m' \<Longrightarrow> \<exists>n'. Handle_bot E n evt = Inr n' \<and> same_bots m' n'"
  by (auto simp: Handle_bot_def handleBotRegistered_def handleBotDeleted_def botsDelete_def on_ok_eq_Inr
      same_bots_def fun_eq_iff Let_def split: event_type.splits option.splits)

lemma handle_bot_again:
  "Handle_bot E m evt = Inr m' \<Longrightarrow> \<exists>m''. Handle_bot E m' evt = Inr m'' \<and> same_bots m' m''"
  by (auto simp: Handle_bot_def handleBotRegistered_def handleBotDeleted_def botsDelete_def on_ok_eq_Inr
      same_bots_def fun_eq_iff Let_def split: event_type.splits option.splits)

interpretation bot_delivery: projection "Handle_bot E" same_bots for E
proof
  show "same_bots m m" for m by (simp add: same_bots_def)
  show "same_bots m n \<Longrightarrow> same_bots n m" for m n by (simp add: same_bots_def)
  show "same_bots l m \<Longrightarrow> same_bots m n \<Longrightarrow> same_bots l n" for l m n by (simp add: same_bots_def)
qed (rule handle_bot_cong handle_bot_again; assumption)+

section \<open>Properties\<close>

text \<open>C8. A bearer token authenticates only a bot that exists: in every world of bot streams a token
  hash that the index resolves gives a bot whose stream is registered and not deleted, with that very
  hash and its current owner and scopes. A deleted bot's token resolves to nothing.\<close>

theorem token_resolves_live_bot:
  assumes "env_ok E"
    and "world (decide_bot E) (FoldBot E) (Handle_bot E) bot_admissible BotState_zero NewBotReadModel S m"
    and "FindByTokenHash m hash = Some b"
  shows "Bot_IsActive (S (bot_get (b_id b))) \<and> bs_token_hash (S (bot_get (b_id b))) = hash
    \<and> bs_owner_id (S (bot_get (b_id b))) = Some (b_owner_id b)
    \<and> bs_scopes (S (bot_get (b_id b))) = b_scopes b"
  using bot_rm.world_shows [OF assms(1,2), of "bot_get (b_id b)"] assms(3)
  by (fastforce simp: FindByTokenHash_def tokens_live_def shows_bot_def Bot_IsActive_def split: option.splits)

definition demo_bot_event :: "payload event" where
  "demo_bot_event =
     \<lparr> evt_type = EventBotRegistered, evt_stream = ''b1'', evt_stream_type = AggregateTypeBot,
       evt_version = 1, evt_payload = PBotRegistered
         \<lparr> br_schema_version = 2, br_name = ''ci'', br_owner_id = UserID 1, br_token_hash = ''h'',
           br_scopes = [] \<rparr>,
       evt_encoding = EncodingCBOR, evt_occurred_at = 0 \<rparr>"

definition demo_bot :: Bot where
  "demo_bot =
     \<lparr> b_id = NewBotID ''b1'', b_name = ''ci'', b_owner_id = UserID 1, b_token_hash = ''h'',
       b_scopes = [], b_deleted = False \<rparr>"

lemma demo_bot_world:
  "world (decide_bot demo_env) (FoldBot demo_env) (Handle_bot demo_env) bot_admissible BotState_zero
     NewBotReadModel
     ((\<lambda>a. BotState_zero)(''b1'' := \<lparr> bs_name = ''ci'', bs_owner_id = Some (UserID 1),
        bs_token_hash = ''h'', bs_scopes = [], bs_deleted = False \<rparr>))
     \<lparr> brm_bots = [(''b1'', demo_bot)], brm_tokens = [(''h'', demo_bot)] \<rparr>"
proof (rule world_next [OF world_start])
  show "decide_bot demo_env ''b1'' (RegisterBotCmd ''ci'' (UserID 1) ''h'' []) BotState_zero 0
      = Inr [demo_bot_event]"
    by (simp add: decideRegisterBot_def BotState_zero_def emit_def demo_env_def demo_ids_def
        CurrentSchemaVersion_def demo_bot_event_def)
qed (simp_all add: demo_bot_event_def demo_bot_def FoldBot_def BotState_zero_def Handle_bot_def
      handleBotRegistered_def UnmarshalPayload_def applyUpcasters_def demo_env_def NewBotReadModel_def Let_def)

lemma token_resolves_live_bot_witness:
  "FindByTokenHash \<lparr> brm_bots = [(''b1'', demo_bot)], brm_tokens = [(''h'', demo_bot)] \<rparr> ''h'' = Some demo_bot
   \<and> Bot_IsActive (((\<lambda>a. BotState_zero)(''b1'' := \<lparr> bs_name = ''ci'', bs_owner_id = Some (UserID 1),
        bs_token_hash = ''h'', bs_scopes = [], bs_deleted = False \<rparr>)) (bot_get (b_id demo_bot)))"
proof
  show found: "FindByTokenHash \<lparr> brm_bots = [(''b1'', demo_bot)], brm_tokens = [(''h'', demo_bot)] \<rparr> ''h''
      = Some demo_bot"
    by (simp add: FindByTokenHash_def)
  from token_resolves_live_bot [OF demo_env_ok demo_bot_world found]
  show "Bot_IsActive (((\<lambda>a. BotState_zero)(''b1'' := \<lparr> bs_name = ''ci'', bs_owner_id = Some (UserID 1),
        bs_token_hash = ''h'', bs_scopes = [], bs_deleted = False \<rparr>)) (bot_get (b_id demo_bot)))"
    by blast
qed

end
