(* ===== verification/Membership_Decider.thy ===== *)
theory Membership_Decider
  imports Aggregate
begin

text \<open>
  The membership aggregate: \<open>usermgmt/es_membership_decide.go\<close> and its dispatch table
  \<open>es_membership_dispatch.go\<close>. Its events carry identifiers as text, so the fold accepts what the
  decider emits only for identifiers that survive the round trip; \<open>member_admissible\<close> names them,
  and the last theorem shows what happens otherwise.
\<close>

section \<open>Deciders\<close>

definition decideAddMember ::
  "'raw event_env \<Rightarrow> stream_id \<Rightarrow> actor_id \<Rightarrow> tenant_id \<Rightarrow> role list \<Rightarrow> MembershipState \<Rightarrow> version
   \<Rightarrow> err + 'raw event list" where
  "decideAddMember E aggID actorID tenantID roles state version =
     (if Membership_Exists (ids E) state
      then Inl (new_error Conflict ''usermgmt.membership.already_exists''
                  ''membership already exists for this actor+tenant pair'')
      else if actor_is_zero (ids E) actorID
      then Inl (new_error Rejection ''usermgmt.membership.actor_required'' ''actor ID is required'')
      else if tenant_is_zero (ids E) tenantID
      then Inl (new_error Rejection ''usermgmt.membership.tenant_required'' ''tenant ID is required'')
      else emit E EventMemberAdded aggID AggregateTypeMembership version
        (PMemberAdded \<lparr> ma_schema_version = CurrentSchemaVersion,
                        ma_actor_kind = kind_text (ids E) (Kind actorID),
                        ma_actor_id = actor_text (ids E) actorID,
                        ma_tenant_id = tenant_get tenantID, ma_roles = roles \<rparr>)
        EncodingJSON ''usermgmt.membership.event_failed'' ''create MemberAdded event'')"

text \<open>Only a state that exists reaches the event, so its actor and tenant are set.\<close>

definition decideUpdateMemberRoles ::
  "'raw event_env \<Rightarrow> stream_id \<Rightarrow> role list \<Rightarrow> MembershipState \<Rightarrow> version \<Rightarrow> err + 'raw event list" where
  "decideUpdateMemberRoles E aggID roles state version =
     (if \<not> Membership_Exists (ids E) state
      then Inl (new_error Rejection ''usermgmt.membership_roles.not_found'' ''membership does not exist'')
      else emit E EventMemberRolesChanged aggID AggregateTypeMembership version
        (PMemberRolesChanged
           \<lparr> mc_schema_version = CurrentSchemaVersion,
             mc_actor_kind = (case ms_actor_id state of Some a \<Rightarrow> kind_text (ids E) (Kind a) | None \<Rightarrow> []),
             mc_actor_id = (case ms_actor_id state of Some a \<Rightarrow> actor_text (ids E) a | None \<Rightarrow> []),
             mc_tenant_id = (case ms_tenant_id state of Some t \<Rightarrow> tenant_get t | None \<Rightarrow> []),
             mc_roles = roles \<rparr>)
        EncodingJSON ''usermgmt.membership_roles.event_failed'' ''create MemberRolesChanged event'')"

definition decideRemoveMember ::
  "'raw event_env \<Rightarrow> stream_id \<Rightarrow> MembershipState \<Rightarrow> version \<Rightarrow> err + 'raw event list" where
  "decideRemoveMember E aggID state version =
     (if \<not> Membership_Exists (ids E) state
      then Inl (new_error Rejection ''usermgmt.membership_remove.not_found'' ''membership does not exist'')
      else emit E EventMemberRemoved aggID AggregateTypeMembership version
        (PMemberRemoved
           \<lparr> mr_schema_version = CurrentSchemaVersion,
             mr_actor_id = (case ms_actor_id state of Some a \<Rightarrow> actor_text (ids E) a | None \<Rightarrow> []),
             mr_tenant_id = (case ms_tenant_id state of Some t \<Rightarrow> tenant_get t | None \<Rightarrow> []) \<rparr>)
        EncodingJSON ''usermgmt.membership_remove.event_failed'' ''create MemberRemoved event'')"

datatype member_cmd =
    AddMemberCmd actor_id tenant_id "role list"
  | UpdateMemberRolesCmd "role list"
  | RemoveMemberCmd

text \<open>\<open>RegisterMembershipCommands\<close>.\<close>

fun decide_member ::
  "'raw event_env \<Rightarrow> stream_id \<Rightarrow> member_cmd \<Rightarrow> MembershipState \<Rightarrow> version \<Rightarrow> err + 'raw event list" where
  "decide_member E aggID (AddMemberCmd actorID tenantID roles) = decideAddMember E aggID actorID tenantID roles"
| "decide_member E aggID (UpdateMemberRolesCmd roles) = decideUpdateMemberRoles E aggID roles"
| "decide_member E aggID RemoveMemberCmd = decideRemoveMember E aggID"

section \<open>Contract\<close>

fun member_spec :: "id_env \<Rightarrow> member_cmd \<Rightarrow> time \<Rightarrow> MembershipState \<Rightarrow> MembershipState option" where
  "member_spec I (AddMemberCmd actorID tenantID roles) at s =
     (if Membership_Exists I s \<or> actor_is_zero I actorID \<or> tenant_is_zero I tenantID then None
      else Some \<lparr> ms_actor_id = Some actorID, ms_tenant_id = Some tenantID, ms_roles = roles,
                  ms_removed = False \<rparr>)"
| "member_spec I (UpdateMemberRolesCmd roles) at s =
     (if \<not> Membership_Exists I s then None else Some (s \<lparr> ms_roles := roles \<rparr>))"
| "member_spec I RemoveMemberCmd at s =
     (if \<not> Membership_Exists I s then None else Some (s \<lparr> ms_roles := [], ms_removed := True \<rparr>))"

text \<open>Identifiers that survive being written to an event and read back.\<close>

fun member_admissible :: "member_cmd \<Rightarrow> bool" where
  "member_admissible (AddMemberCmd actorID tenantID roles) =
     (Kind actorID \<noteq> ActorUnknown \<and> tenant_get tenantID \<noteq> []
      \<and> trim_space (tenant_get tenantID) = tenant_get tenantID
      \<and> \<not> has_prefix (tenant_get tenantID) ''Tenant:'')"
| "member_admissible _ = True"

definition member_inv :: "id_env \<Rightarrow> MembershipState \<Rightarrow> bool" where
  "member_inv I s \<longleftrightarrow>
     (ms_removed s \<longrightarrow> ms_roles s = [])
     \<and> (case ms_actor_id s of
          None \<Rightarrow> s = MembershipState_zero
        | Some a \<Rightarrow> \<not> actor_is_zero I a \<and> (\<exists>t. ms_tenant_id s = Some t \<and> \<not> tenant_is_zero I t))"

lemma kind_roundtrip:
  "ids_ok I \<Longrightarrow> k \<noteq> ActorUnknown \<Longrightarrow> ActorKindFromString (kind_text I k) = Inr k"
  by (cases k) (simp_all add: ids_ok_def ActorKindFromString_def)

lemma tenant_roundtrip:
  "tenant_get t \<noteq> [] \<Longrightarrow> trim_space (tenant_get t) = tenant_get t \<Longrightarrow>
   \<not> has_prefix (tenant_get t) ''Tenant:'' \<Longrightarrow> ParseTenantID I (tenant_get t) = Inr t"
  by (simp add: ParseTenantID_def parseBrandedComponent_def)

lemma member_refines_agrees:
  assumes "env_ok E" and "ids_ok (ids E)" and "member_admissible cmd"
  shows "agrees (decide_member E aggID cmd s v) (fold_events (FoldMembership E) s)
    (\<lambda>at. member_spec (ids E) cmd at s)"
proof (cases cmd)
  case (AddMemberCmd a t roles)
  have raw: "actor_text (ids E) a = Raw a" using assms(2) by (simp add: ids_ok_def)
  from AddMemberCmd assms(3)
  have "ActorKindFromString (kind_text (ids E) (Kind a)) = Inr (Kind a)"
    and "ParseTenantID (ids E) (tenant_get t) = Inr t"
    using kind_roundtrip [OF assms(2)] tenant_roundtrip by simp_all
  with raw AddMemberCmd show ?thesis
    by (simp only: decide_member.simps decideAddMember_def)
       (intro agrees_if agrees_Inl agrees_Nil agrees_emit assms(1);
        auto simp: folds [OF assms(1)] MembershipState_zero_def)
next
  case (UpdateMemberRolesCmd roles)
  then show ?thesis
    by (simp only: decide_member.simps decideUpdateMemberRoles_def)
       (intro agrees_if agrees_Inl agrees_Nil agrees_emit assms(1); auto simp: folds [OF assms(1)])
next
  case RemoveMemberCmd
  then show ?thesis
    by (simp only: decide_member.simps decideRemoveMember_def)
       (intro agrees_if agrees_Inl agrees_Nil agrees_emit assms(1); auto simp: folds [OF assms(1)])
qed

lemma member_inv_zero: "member_inv I MembershipState_zero"
  by (simp add: member_inv_def MembershipState_zero_def)

lemma member_spec_inv: "member_spec I cmd at s = Some s' \<Longrightarrow> member_inv I s \<Longrightarrow> member_inv I s'"
  by (cases cmd) (auto simp: member_inv_def Membership_Exists_def split: if_splits option.splits)

interpretation member: specified_inv "env_ok E \<and> ids_ok (ids E)" "decide_member E aggID" "FoldMembership E"
  member_admissible "member_spec (ids E)" MembershipState_zero "member_inv (ids E)" for E aggID
  by unfold_locales (auto intro: member_refines_agrees member_inv_zero member_spec_inv)

section \<open>Properties\<close>

text \<open>For identifiers that survive the round trip through event text, every reachable membership
  stream folds without an error; a removed membership has no roles, and adding the actor again after a
  removal gives exactly the new roles, never the old ones.\<close>

theorem member_stream_sound:
  assumes "env_ok E" and "ids_ok (ids E)"
    and "stream_of (decide_member E aggID) (FoldMembership E) MembershipState_zero member_admissible es"
  shows "\<exists>s. fold_events (FoldMembership E) MembershipState_zero es = Inr s
    \<and> (ms_removed s \<longrightarrow> ms_roles s = [])
    \<and> (\<forall>a t roles v s'. member_admissible (AddMemberCmd a t roles) \<longrightarrow>
        execute (decide_member E aggID) (FoldMembership E) (AddMemberCmd a t roles) s v = Inr s' \<longrightarrow>
        \<not> Membership_Exists (ids E) s \<and> ms_roles s' = roles \<and> ms_actor_id s' = Some a \<and> ms_tenant_id s' = Some t)"
proof -
  have env: "env_ok E \<and> ids_ok (ids E)" using assms by simp
  from member.stream_folds [OF env assms(3)] obtain s where
    s: "fold_events (FoldMembership E) MembershipState_zero es = Inr s" "member_inv (ids E) s" by blast
  show ?thesis
    using s member.execute_spec [OF env]
    by (intro exI [of _ s]) (fastforce simp: member_inv_def split: if_splits)
qed

lemma demo_ids_ok: "ids_ok demo_ids"
  by (auto simp: ids_ok_def demo_ids_def split: user_id.split)

text \<open>Adding a member to a tenant whose identifier is padded with white space is accepted by the
  decider, but the event it appends cannot be folded: the stream can no longer be loaded, and every
  later command on the membership fails.\<close>

theorem padded_tenant_poisons_stream:
  assumes "env_ok E" and "decide_member E aggID (AddMemberCmd a t roles) s v = Inr new"
    and "trim_space (tenant_get t) \<noteq> tenant_get t" and "\<not> has_prefix (tenant_get t) ''Tenant:''"
  shows "new \<noteq> [] \<and> (\<exists>e. \<forall>rest. fold_events (FoldMembership E) s (new @ rest) = Inl e)"
proof -
  from assms(2) have "\<exists>p. emit E EventMemberAdded aggID AggregateTypeMembership v (PMemberAdded p)
      EncodingJSON ''usermgmt.membership.event_failed'' ''create MemberAdded event'' = Inr new
      \<and> ma_tenant_id p = tenant_get t"
    by (auto simp: decideAddMember_def split: if_splits)
  then obtain p evt where p: "ma_tenant_id p = tenant_get t" and new: "new = [evt]"
    and evt: "emitted E EventMemberAdded aggID AggregateTypeMembership v (PMemberAdded p) evt"
    using emit_Inr [OF env_okD(1) [OF assms(1)]] by blast
  have "\<exists>e. ParseTenantID (ids E) (tenant_get t) = Inl e"
    using assms(3,4) by (auto simp: ParseTenantID_def parseBrandedComponent_def)
  then have "\<exists>e. FoldMembership E s evt = Inl e"
    using p FoldMembership_MemberAdded [OF assms(1) evt, of s]
    by (auto simp: on_ok_eq_Inl on_ok_def split: sum.split)
  with new show ?thesis by auto
qed

definition demo_actor :: actor_id where
  "demo_actor = NewActorID ActorUser ''x''"

definition demo_member_added :: "string \<Rightarrow> payload event" where
  "demo_member_added t =
     \<lparr> evt_type = EventMemberAdded, evt_stream = ''m1'', evt_stream_type = AggregateTypeMembership,
       evt_version = 1, evt_payload = PMemberAdded
         \<lparr> ma_schema_version = 2, ma_actor_kind = ''user'', ma_actor_id = ''x'', ma_tenant_id = t,
           ma_roles = [''admin''] \<rparr>,
       evt_encoding = EncodingJSON, evt_occurred_at = 0 \<rparr>"

lemma demo_add_member:
  "t \<noteq> [] \<Longrightarrow>
   decide_member demo_env ''m1'' (AddMemberCmd demo_actor (NewTenantID t) [''admin'']) MembershipState_zero 0
   = Inr [demo_member_added t]"
  by (simp add: decideAddMember_def Membership_Exists_def MembershipState_zero_def emit_def demo_env_def
      demo_ids_def demo_actor_def demo_member_added_def CurrentSchemaVersion_def)

lemma demo_ids_env: "ids_ok (ids demo_env)"
  using demo_ids_ok by (simp add: demo_env_def)

lemma demo_trim: "trim_space ''acme'' = ''acme''" "trim_space ''acme '' = ''acme''"
  by code_simp+

lemma member_stream_sound_witness:
  "\<exists>s. fold_events (FoldMembership demo_env) MembershipState_zero ([] @ [demo_member_added ''acme'']) = Inr s
    \<and> (ms_removed s \<longrightarrow> ms_roles s = [])
    \<and> (\<forall>a t roles v s'. member_admissible (AddMemberCmd a t roles) \<longrightarrow>
        execute (decide_member demo_env ''m1'') (FoldMembership demo_env) (AddMemberCmd a t roles) s v = Inr s' \<longrightarrow>
        \<not> Membership_Exists (ids demo_env) s \<and> ms_roles s' = roles \<and> ms_actor_id s' = Some a \<and> ms_tenant_id s' = Some t)"
  by (rule member_stream_sound [OF demo_env_ok demo_ids_env],
      rule stream_step [OF stream_empty, where s = MembershipState_zero and v = 0
        and cmd = "AddMemberCmd demo_actor (NewTenantID ''acme'') [''admin'']"])
     (use demo_add_member [of "''acme''"] in
       \<open>simp_all add: demo_trim demo_actor_def has_prefix_def del: decide_member.simps\<close>)

lemma padded_tenant_poisons_stream_witness:
  "\<exists>e. \<forall>rest. fold_events (FoldMembership demo_env) MembershipState_zero
      ([demo_member_added ''acme ''] @ rest) = Inl e"
  using padded_tenant_poisons_stream [OF demo_env_ok demo_add_member [of "''acme ''"]]
  by (simp add: demo_trim has_prefix_def)

end
