(* ===== verification/Membership_Readmodel.thy ===== *)
theory Membership_Readmodel
  imports Membership_Decider Projection
begin

text \<open>
  \<open>usermgmt/es_membership_readmodel.go\<close> with \<open>Membership\<close> of
  \<open>identity-model/membership.go\<close>: the projection of memberships, its index by actor, and its
  lookups.
\<close>

record Membership =
  mem_actor_id :: actor_id
  mem_tenant_id :: tenant_id
  mem_roles :: "role list"
  mem_added_at :: time

definition Membership_HasRole :: "Membership \<Rightarrow> role \<Rightarrow> bool" where
  "Membership_HasRole m r \<longleftrightarrow> r \<in> set (mem_roles m)"

definition HasAnyRole :: "Membership \<Rightarrow> role list \<Rightarrow> bool" where
  "HasAnyRole m roles = list_ex (Membership_HasRole m) roles"

record MembershipReadModel =
  mrm_memberships :: "(stream_id, Membership) gomap"
  mrm_by_actor :: "(string, stream_id list) gomap"

definition NewMembershipReadModel :: MembershipReadModel where
  "NewMembershipReadModel = \<lparr> mrm_memberships = [], mrm_by_actor = [] \<rparr>"

text \<open>Reading a missing key of \<open>byActor\<close> gives the nil slice.\<close>

definition actor_slice :: "MembershipReadModel \<Rightarrow> string \<Rightarrow> stream_id list" where
  "actor_slice m k = (case map_get (mrm_by_actor m) k of None \<Rightarrow> [] | Some xs \<Rightarrow> xs)"

definition handleMemberRolesChanged ::
  "'raw event_env \<Rightarrow> stream_id \<Rightarrow> 'raw event \<Rightarrow> MembershipReadModel \<Rightarrow> err + MembershipReadModel" where
  "handleMemberRolesChanged E aggID evt m =
     on_ok (map_err (\<lambda>e. Fam Corruption ''usermgmt.membership_readmodel.decode_failed''
              ''decode MemberRolesChanged in read model'' 0 [(''agg_id'', aggID)] (Some e))
            (UnmarshalPayload E (dec_MemberRolesChanged E) evt)) (\<lambda>p.
       Inr (case map_get (mrm_memberships m) aggID of
              None \<Rightarrow> m
            | Some mem \<Rightarrow>
                m \<lparr> mrm_memberships := map_put aggID (mem \<lparr> mem_roles := mc_roles p \<rparr>) (mrm_memberships m) \<rparr>))"

definition applyMemberAdded ::
  "'raw event_env \<Rightarrow> stream_id \<Rightarrow> 'raw event \<Rightarrow> MembershipReadModel \<Rightarrow> err + MembershipReadModel" where
  "applyMemberAdded E aggID evt m =
     on_ok (map_err (\<lambda>e. Fam Corruption ''usermgmt.membership_readmodel.decode_failed''
              ''decode MemberAdded in read model'' 0 [(''agg_id'', aggID)] (Some e))
            (UnmarshalPayload E (dec_MemberAdded E) evt)) (\<lambda>p.
     on_ok (map_err (\<lambda>e. Fam Corruption ''usermgmt.membership_readmodel.unknown_actor_kind''
              ''decode actor kind in MemberAdded'' 0 [(''agg_id'', aggID)] (Some e))
            (ActorKindFromString (ma_actor_kind p))) (\<lambda>kind.
       let ids' = actor_slice m (ma_actor_id p)
       in Inr (m \<lparr> mrm_memberships := map_put aggID
                     \<lparr> mem_actor_id = NewActorID kind (ma_actor_id p),
                       mem_tenant_id = NewTenantID (ma_tenant_id p), mem_roles = ma_roles p,
                       mem_added_at = evt_occurred_at evt \<rparr> (mrm_memberships m),
                   mrm_by_actor :=
                     (if aggID \<in> set ids' then mrm_by_actor m
                      else map_put (ma_actor_id p) (ids' @ [aggID]) (mrm_by_actor m)) \<rparr>)))"

fun removeAggID :: "stream_id list \<Rightarrow> stream_id \<Rightarrow> stream_id list" where
  "removeAggID [] target = []"
| "removeAggID (v # vs) target = (if v = target then vs else v # removeAggID vs target)"

definition removeMembership :: "id_env \<Rightarrow> stream_id \<Rightarrow> MembershipReadModel \<Rightarrow> MembershipReadModel" where
  "removeMembership I aggID m =
     (case map_get (mrm_memberships m) aggID of
        None \<Rightarrow> m
      | Some mem \<Rightarrow>
          let actorKey = actor_text I (mem_actor_id mem);
              rest = removeAggID (actor_slice m actorKey) aggID
          in m \<lparr> mrm_by_actor :=
                   (if length rest = 0 then map_del actorKey (mrm_by_actor m)
                    else map_put actorKey rest (mrm_by_actor m)),
                 mrm_memberships := map_del aggID (mrm_memberships m) \<rparr>)"

definition handleMemberRemoved :: "id_env \<Rightarrow> stream_id \<Rightarrow> MembershipReadModel \<Rightarrow> MembershipReadModel" where
  "handleMemberRemoved I aggID m = removeMembership I aggID m"

definition Handle_membership ::
  "'raw event_env \<Rightarrow> MembershipReadModel \<Rightarrow> 'raw event \<Rightarrow> err + MembershipReadModel" where
  "Handle_membership E m evt =
     (case evt_type evt of
        EventMemberAdded \<Rightarrow> applyMemberAdded E (evt_stream evt) evt m
      | EventMemberRolesChanged \<Rightarrow> handleMemberRolesChanged E (evt_stream evt) evt m
      | EventMemberRemoved \<Rightarrow> Inr (handleMemberRemoved (ids E) (evt_stream evt) m)
      | _ \<Rightarrow> Inr m)"

definition FindByAggregateID :: "MembershipReadModel \<Rightarrow> stream_id \<Rightarrow> Membership option" where
  "FindByAggregateID m aggID = map_get (mrm_memberships m) aggID"

definition FindByActor :: "MembershipReadModel \<Rightarrow> string \<Rightarrow> Membership list" where
  "FindByActor m actorID = List.map_filter (\<lambda>a. map_get (mrm_memberships m) a) (actor_slice m actorID)"

definition FindByTenant :: "MembershipReadModel \<Rightarrow> string \<Rightarrow> Membership list" where
  "FindByTenant m tenantID =
     filter (\<lambda>mem. tenant_get (mem_tenant_id mem) = tenantID) (map snd (mrm_memberships m))"

section \<open>The contracts\<close>

definition shows_member :: "id_env \<Rightarrow> MembershipReadModel \<Rightarrow> stream_id \<Rightarrow> MembershipState \<Rightarrow> bool" where
  "shows_member I m a s \<longleftrightarrow>
     (case map_of (mrm_memberships m) a of
        None \<Rightarrow> \<not> Membership_Exists I s
      | Some mem \<Rightarrow> Membership_Exists I s \<and> ms_actor_id s = Some (mem_actor_id mem)
          \<and> ms_tenant_id s = Some (mem_tenant_id mem) \<and> ms_roles s = mem_roles mem)"

text \<open>The index lists for each actor exactly the streams of its memberships, once.\<close>

definition by_actor_ok :: "id_env \<Rightarrow> MembershipReadModel \<Rightarrow> bool" where
  "by_actor_ok I m \<longleftrightarrow>
     (\<forall>k. distinct (actor_slice m k)
        \<and> (\<forall>a. a \<in> set (actor_slice m k) \<longleftrightarrow>
             (\<exists>mem. map_of (mrm_memberships m) a = Some mem \<and> actor_text I (mem_actor_id mem) = k)))"

lemma removeAggID_set: "distinct xs \<Longrightarrow> set (removeAggID xs a) = set xs - {a}"
  by (induction xs) auto

lemma removeAggID_distinct: "distinct xs \<Longrightarrow> distinct (removeAggID xs a)"
  by (induction xs) (auto simp: removeAggID_set)

lemma actor_slice_put [simp]:
  "actor_slice (m \<lparr> mrm_by_actor := map_put k xs (mrm_by_actor m) \<rparr>) k' =
     (if k' = k then xs else actor_slice m k')"
  by (simp add: actor_slice_def)

lemma actor_slice_del [simp]:
  "actor_slice (m \<lparr> mrm_by_actor := map_del k (mrm_by_actor m) \<rparr>) k' =
     (if k' = k then [] else actor_slice m k')"
  by (simp add: actor_slice_def)

lemma actor_slice_memberships [simp]:
  "actor_slice (m \<lparr> mrm_memberships := x \<rparr>) k = actor_slice m k"
  "actor_slice (m \<lparr> mrm_memberships := x, mrm_by_actor := y \<rparr>) k = actor_slice (m \<lparr> mrm_by_actor := y \<rparr>) k"
  "actor_slice (m \<lparr> mrm_by_actor := y, mrm_memberships := x \<rparr>) k = actor_slice (m \<lparr> mrm_by_actor := y \<rparr>) k"
  by (simp_all add: actor_slice_def)

lemma removeMembership_slice:
  assumes "map_of (mrm_memberships m) a = Some mem"
  shows "actor_slice (removeMembership I a m) k =
    (if k = actor_text I (mem_actor_id mem) then removeAggID (actor_slice m k) a else actor_slice m k)"
  using assms by (simp add: removeMembership_def Let_def)

lemma removeMembership_memberships [simp]:
  "map_of (mrm_memberships (removeMembership I a m)) b =
     (if b = a then None else map_of (mrm_memberships m) b)"
  by (auto simp: removeMembership_def Let_def split: option.splits)

lemma removeMembership_ok:
  assumes "by_actor_ok I m" and "map_of (mrm_memberships m) a = Some mem"
  shows "by_actor_ok I (removeMembership I a m)"
  using assms removeMembership_slice [OF assms(2), of I]
  by (auto simp: by_actor_ok_def removeAggID_set removeAggID_distinct)

lemma added_ok:
  assumes "by_actor_ok I m" and "map_of (mrm_memberships m) a = None"
    and "actor_text I (mem_actor_id mem) = k"
  shows "by_actor_ok I (m \<lparr> mrm_memberships := map_put a mem (mrm_memberships m),
      mrm_by_actor := map_put k (actor_slice m k @ [a]) (mrm_by_actor m) \<rparr>)"
  using assms by (auto simp: by_actor_ok_def)

lemma roles_ok:
  assumes "by_actor_ok I m" and "map_of (mrm_memberships m) a = Some mem"
    and "mem_actor_id mem' = mem_actor_id mem"
  shows "by_actor_ok I (m \<lparr> mrm_memberships := map_put a mem' (mrm_memberships m) \<rparr>)"
  using assms by (auto simp: by_actor_ok_def)

lemma member_step:
  assumes "env_ok E \<and> ids_ok (ids E)" and "member_inv (ids E) s" and "member_admissible cmd"
    and "shows_member (ids E) m a s" and "by_actor_ok (ids E) m" and "decide_member E a cmd s v = Inr new"
  shows "\<exists>m' s'. fold_events (Handle_membership E) m new = Inr m'
    \<and> fold_events (FoldMembership E) s new = Inr s' \<and> member_inv (ids E) s' \<and> shows_member (ids E) m' a s'
    \<and> by_actor_ok (ids E) m' \<and> (\<forall>b t. b \<noteq> a \<longrightarrow> shows_member (ids E) m b t \<longrightarrow> shows_member (ids E) m' b t)"
proof -
  from assms(1) have env: "env_ok E" and ids: "ids_ok (ids E)" by simp_all
  note simps = Handle_membership_def folds [OF env] emitted_def decodes_def decodesD [OF env]
  show ?thesis
  proof (cases cmd)
    case (AddMemberCmd ac t roles)
    with assms(6) have new: "\<not> Membership_Exists (ids E) s" "\<not> actor_is_zero (ids E) ac"
        "\<not> tenant_is_zero (ids E) t"
      and e: "emit E EventMemberAdded a AggregateTypeMembership v
        (PMemberAdded \<lparr> ma_schema_version = CurrentSchemaVersion,
           ma_actor_kind = kind_text (ids E) (Kind ac), ma_actor_id = actor_text (ids E) ac,
           ma_tenant_id = tenant_get t, ma_roles = roles \<rparr>)
        EncodingJSON ''usermgmt.membership.event_failed'' ''create MemberAdded event'' = Inr new"
      by (auto simp: decideAddMember_def split: if_splits)
    from AddMemberCmd assms(3) have rt: "ActorKindFromString (kind_text (ids E) (Kind ac)) = Inr (Kind ac)"
      "ParseTenantID (ids E) (tenant_get t) = Inr t" "actor_text (ids E) ac = Raw ac"
      using kind_roundtrip [OF ids] tenant_roundtrip ids by (simp_all add: ids_ok_def)
    from new assms(4) have fresh: "map_of (mrm_memberships m) a = None"
      by (auto simp: shows_member_def split: option.splits)
    with assms(5) have notin: "a \<notin> set (actor_slice m (Raw ac))" by (simp add: by_actor_ok_def)
    have ok: "by_actor_ok (ids E) (m \<lparr> mrm_memberships := map_put a mem (mrm_memberships m),
        mrm_by_actor := map_put (Raw ac) (actor_slice m (Raw ac) @ [a]) (mrm_by_actor m) \<rparr>)"
      if "mem_actor_id mem = ac" for mem
      using added_ok [OF assms(5) fresh, of mem "Raw ac"] that rt(3) by simp
    show ?thesis
      by (rule step_emit [OF env e])
         (use new rt notin ok in \<open>auto simp: simps applyMemberAdded_def member_inv_def shows_member_def
           Membership_Exists_def Let_def\<close>)
  next
    case (UpdateMemberRolesCmd roles)
    with assms(6) have ex: "Membership_Exists (ids E) s"
      and e: "emit E EventMemberRolesChanged a AggregateTypeMembership v
        (PMemberRolesChanged
           \<lparr> mc_schema_version = CurrentSchemaVersion,
             mc_actor_kind = (case ms_actor_id s of Some a \<Rightarrow> kind_text (ids E) (Kind a) | None \<Rightarrow> []),
             mc_actor_id = (case ms_actor_id s of Some a \<Rightarrow> actor_text (ids E) a | None \<Rightarrow> []),
             mc_tenant_id = (case ms_tenant_id s of Some t \<Rightarrow> tenant_get t | None \<Rightarrow> []),
             mc_roles = roles \<rparr>)
        EncodingJSON ''usermgmt.membership_roles.event_failed'' ''create MemberRolesChanged event'' = Inr new"
      by (auto simp: decideUpdateMemberRoles_def split: if_splits)
    from ex assms(4) obtain mem where mem: "map_of (mrm_memberships m) a = Some mem"
      by (auto simp: shows_member_def split: option.splits)
    note ok = roles_ok [OF assms(5) mem, of "mem \<lparr> mem_roles := roles \<rparr>"]
    show ?thesis
      by (rule step_emit [OF env e])
         (use ex mem ok assms(2,4) in \<open>auto simp: simps handleMemberRolesChanged_def member_inv_def
           shows_member_def Membership_Exists_def split: option.splits\<close>)
  next
    case RemoveMemberCmd
    with assms(6) have ex: "Membership_Exists (ids E) s"
      and e: "emit E EventMemberRemoved a AggregateTypeMembership v
        (PMemberRemoved
           \<lparr> mr_schema_version = CurrentSchemaVersion,
             mr_actor_id = (case ms_actor_id s of Some a \<Rightarrow> actor_text (ids E) a | None \<Rightarrow> []),
             mr_tenant_id = (case ms_tenant_id s of Some t \<Rightarrow> tenant_get t | None \<Rightarrow> []) \<rparr>)
        EncodingJSON ''usermgmt.membership_remove.event_failed'' ''create MemberRemoved event'' = Inr new"
      by (auto simp: decideRemoveMember_def split: if_splits)
    from ex assms(4) obtain mem where mem: "map_of (mrm_memberships m) a = Some mem"
      by (auto simp: shows_member_def split: option.splits)
    note ok = removeMembership_ok [OF assms(5) mem]
    show ?thesis
      by (rule step_emit [OF env e])
         (use ex mem ok assms(2,4) in \<open>auto simp: simps handleMemberRemoved_def member_inv_def
           shows_member_def Membership_Exists_def split: option.splits\<close>)
  qed
qed

interpretation member_rm: readmodel "env_ok E \<and> ids_ok (ids E)" "decide_member E" "FoldMembership E"
  "Handle_membership E" member_admissible MembershipState_zero NewMembershipReadModel
  "member_inv (ids E)" "shows_member (ids E)" "by_actor_ok (ids E)" for E
proof
  show "member_inv (ids E) MembershipState_zero" by (rule member_inv_zero)
  show "shows_member (ids E) NewMembershipReadModel a MembershipState_zero" for a
    by (simp add: shows_member_def Membership_Exists_def MembershipState_zero_def NewMembershipReadModel_def)
  show "by_actor_ok (ids E) NewMembershipReadModel"
    by (simp add: by_actor_ok_def actor_slice_def NewMembershipReadModel_def)
qed (rule member_step; assumption)

section \<open>Properties\<close>

text \<open>The membership projection is complete and sound per actor: in every world of membership
  streams, the memberships listed for an actor are exactly those in effect on some stream for it, each
  with the stream's current roles and tenant; removed memberships are never listed.\<close>

theorem memberships_of_actor:
  assumes "env_ok E" and "ids_ok (ids E)"
    and "world (decide_member E) (FoldMembership E) (Handle_membership E) member_admissible
           MembershipState_zero NewMembershipReadModel S m"
  shows "mem \<in> set (FindByActor m actorID) \<longleftrightarrow>
    (\<exists>a. FindByAggregateID m a = Some mem \<and> Membership_Exists (ids E) (S a)
       \<and> ms_actor_id (S a) = Some (mem_actor_id mem) \<and> Raw (mem_actor_id mem) = actorID
       \<and> ms_tenant_id (S a) = Some (mem_tenant_id mem) \<and> ms_roles (S a) = mem_roles mem)"
proof -
  have env: "env_ok E \<and> ids_ok (ids E)" using assms by simp
  from member_rm.world_shows [OF env assms(3)] have idx: "by_actor_ok (ids E) m"
    and shown: "\<And>a. shows_member (ids E) m a (S a)" by blast+
  have raw: "actor_text (ids E) a = Raw a" for a using assms(2) by (simp add: ids_ok_def)
  have "mem \<in> set (FindByActor m actorID) \<longleftrightarrow>
      (\<exists>a\<in>set (actor_slice m actorID). map_of (mrm_memberships m) a = Some mem)"
    by (auto simp: FindByActor_def List.map_filter_def image_iff)
  also have "\<dots> \<longleftrightarrow> (\<exists>a. map_of (mrm_memberships m) a = Some mem \<and> Raw (mem_actor_id mem) = actorID)"
    using idx raw by (fastforce simp: by_actor_ok_def)
  also have "\<dots> \<longleftrightarrow> (\<exists>a. FindByAggregateID m a = Some mem \<and> Membership_Exists (ids E) (S a)
       \<and> ms_actor_id (S a) = Some (mem_actor_id mem) \<and> Raw (mem_actor_id mem) = actorID
       \<and> ms_tenant_id (S a) = Some (mem_tenant_id mem) \<and> ms_roles (S a) = mem_roles mem)"
    using shown by (fastforce simp: FindByAggregateID_def shows_member_def split: option.splits)
  finally show ?thesis .
qed

definition demo_membership :: Membership where
  "demo_membership =
     \<lparr> mem_actor_id = demo_actor, mem_tenant_id = NewTenantID ''acme'', mem_roles = [''admin''],
       mem_added_at = 0 \<rparr>"

lemma demo_member_world:
  "world (decide_member demo_env) (FoldMembership demo_env) (Handle_membership demo_env) member_admissible
     MembershipState_zero NewMembershipReadModel
     ((\<lambda>a. MembershipState_zero)(''m1'' := \<lparr> ms_actor_id = Some demo_actor,
        ms_tenant_id = Some (NewTenantID ''acme''), ms_roles = [''admin''], ms_removed = False \<rparr>))
     \<lparr> mrm_memberships = [(''m1'', demo_membership)], mrm_by_actor = [(''x'', [''m1''])] \<rparr>"
proof (rule world_next [OF world_start])
  show "member_admissible (AddMemberCmd demo_actor (NewTenantID ''acme'') [''admin''])"
    by (simp add: demo_trim demo_actor_def has_prefix_def)
  show "decide_member demo_env ''m1'' (AddMemberCmd demo_actor (NewTenantID ''acme'') [''admin''])
      MembershipState_zero 0 = Inr [demo_member_added ''acme'']"
    by (rule demo_add_member) simp
qed (simp_all add: demo_member_added_def FoldMembership_def Handle_membership_def applyMemberAdded_def
      UnmarshalPayload_def applyUpcasters_def demo_env_def MembershipState_zero_def
      NewMembershipReadModel_def ActorKindFromString_def ParseTenantID_def parseBrandedComponent_def
      demo_trim has_prefix_def trim_prefix_def actor_slice_def demo_actor_def demo_membership_def Let_def)

lemma memberships_of_actor_witness:
  "demo_membership \<in> set (FindByActor
     \<lparr> mrm_memberships = [(''m1'', demo_membership)], mrm_by_actor = [(''x'', [''m1''])] \<rparr> ''x'')
   \<and> Raw (mem_actor_id demo_membership) = ''x''"
proof -
  have listed: "demo_membership \<in> set (FindByActor
     \<lparr> mrm_memberships = [(''m1'', demo_membership)], mrm_by_actor = [(''x'', [''m1''])] \<rparr> ''x'')"
    by (simp add: FindByActor_def actor_slice_def List.map_filter_simps)
  with memberships_of_actor [OF demo_env_ok demo_ids_env demo_member_world] show ?thesis by blast
qed

end
