(* ===== verification/Expiry.thy ===== *)
theory Expiry
  imports Identity
begin

text \<open>
  What the in-memory stores of \<open>usermgmt\<close> share: the eviction loop of
  \<open>usermgmt/eviction.go\<close>, the normalization of email addresses, and the contract of a store
  whose entries expire, as a locale that the stores interpret.

  An operation runs under the store's mutex and is one function on the store's maps. The clock
  reading of an operation is its argument \<open>now\<close>; where the code reads the clock twice inside
  one critical section the model reads it once. \<open>t.After(u)\<close> is the strict order.
\<close>

section \<open>The eviction loop\<close>

text \<open>The predicate of \<open>deleteExpired\<close> is a Go closure: it may change captured variables, here
  the state it takes and returns.\<close>

fun deleteExpired ::
  "('k \<Rightarrow> 'v \<Rightarrow> 's \<Rightarrow> bool \<times> 's) \<Rightarrow> ('k, 'v) gomap \<Rightarrow> 's \<Rightarrow> nat \<times> ('k, 'v) gomap \<times> 's" where
  "deleteExpired isExpired [] s = (0, [], s)"
| "deleteExpired isExpired ((k, v) # m) s =
     (let (expired, s') = isExpired k v s;
          (n, m', s'') = deleteExpired isExpired m s'
      in if expired then (Suc n, m', s'') else (n, (k, v) # m', s''))"

definition evictExpired :: "('k \<Rightarrow> 'v \<Rightarrow> bool) \<Rightarrow> ('k, 'v) gomap \<Rightarrow> nat \<times> ('k, 'v) gomap" where
  "evictExpired isExpired m =
     (case deleteExpired (\<lambda>k v _. (isExpired k v, ())) m () of (n, m', _) \<Rightarrow> (n, m'))"

definition deleteKeyed :: "('k, 'v) gomap \<Rightarrow> 'k \<Rightarrow> ('k, 'v) gomap" where
  "deleteKeyed m key = map_del key m"

text \<open>When the verdict does not depend on the captured state, the loop filters the map and folds
  the effects.\<close>

lemma deleteExpired_filter:
  assumes "\<And>k v s. fst (f k v s) = p k v"
  shows "deleteExpired f m s =
    (length (filter (\<lambda>(k, v). p k v) m), filter (\<lambda>(k, v). \<not> p k v) m,
     fold (\<lambda>(k, v) s. snd (f k v s)) m s)"
proof (induction m arbitrary: s)
  case Nil
  show ?case by simp
next
  case (Cons x m)
  obtain k v where x: "x = (k, v)" by (cases x)
  obtain b s' where f: "f k v s = (b, s')" by (cases "f k v s")
  with assms [of k v s] have "b = p k v" by simp
  with Cons.IH [of s'] x f show ?case by simp
qed

lemma evictExpired_filter:
  "evictExpired p m = (length (filter (\<lambda>(k, v). p k v) m), filter (\<lambda>(k, v). \<not> p k v) m)"
  by (simp add: evictExpired_def deleteExpired_filter [where p = p])

lemma evictExpired_get:
  "map_wf m \<Longrightarrow> map_get (snd (evictExpired p m)) k =
     (case map_get m k of None \<Rightarrow> None | Some v \<Rightarrow> if p k v then None else Some v)"
  by (simp add: evictExpired_filter map_of_filter_wf split: option.splits)

lemma evictExpired_wf [simp]: "map_wf m \<Longrightarrow> map_wf (snd (evictExpired p m))"
  by (simp add: evictExpired_filter)

lemma evictExpired_count: "fst (evictExpired p m) + length (snd (evictExpired p m)) = length m"
  using length_filter_split [of "\<lambda>(k, v). p k v" m]
  by (simp add: evictExpired_filter case_prod_unfold)

section \<open>Email addresses\<close>

text \<open>\<open>strings.ToLower\<close> on ASCII bytes; on a string with other bytes it is Unicode's case
  mapping, a parameter.\<close>

definition ascii_lower :: "char \<Rightarrow> char" where
  "ascii_lower c =
     (let n = of_char c :: nat in if 65 \<le> n \<and> n \<le> 90 then char_of (n + 32) else c)"

definition is_ascii :: "string \<Rightarrow> bool" where
  "is_ascii s \<longleftrightarrow> (\<forall>c\<in>set s. (of_char c :: nat) < 128)"

definition ToLower :: "(string \<Rightarrow> string) \<Rightarrow> string \<Rightarrow> string" where
  "ToLower unicode_lower s = (if is_ascii s then map ascii_lower s else unicode_lower s)"

definition normalizeEmail :: "(string \<Rightarrow> string) \<Rightarrow> string \<Rightarrow> string" where
  "normalizeEmail U email = ToLower U (trim_space email)"

text \<open>Strings that start and end with a visible ASCII character are not trimmed.\<close>

definition visible :: "char \<Rightarrow> bool" where
  "visible c \<longleftrightarrow> 33 \<le> (of_char c :: nat) \<and> (of_char c :: nat) \<le> 126"

lemma lead_space_visible:
  assumes "visible c" and "list_all (\<lambda>r. r \<noteq> [] \<longrightarrow> \<not> visible (hd r)) rs"
  shows "lead_space rs (c # s) = None"
proof -
  have "\<not> (r \<noteq> [] \<and> has_prefix (c # s) r)" if "r \<in> set rs" for r
    using assms that by (cases r) (auto simp: has_prefix_def list_all_iff)
  then show ?thesis by (auto simp: lead_space_def first_some_None)
qed

lemma space_runes_invisible:
  "list_all (\<lambda>r. r \<noteq> [] \<longrightarrow> \<not> visible (hd r)) space_runes"
  "list_all (\<lambda>r. r \<noteq> [] \<longrightarrow> \<not> visible (hd r)) (map rev space_runes)"
  by (simp_all add: space_runes_def visible_def byte_def upt_rec)

lemma trim_space_visible:
  assumes "s \<noteq> []" "visible (hd s)" "visible (last s)"
  shows "trim_space s = s"
proof -
  obtain c t where s: "s = c # t" using assms(1) by (cases s) auto
  then have l: "lead_space space_runes s = None"
    using assms(2) by (simp add: lead_space_visible space_runes_invisible)
  obtain d u where r: "rev s = d # u" using assms(1) by (cases "rev s") auto
  then have "last s = d" by (metis hd_rev list.sel(1))
  then have "lead_space (map rev space_runes) (rev s) = None"
    using assms(3) r by (simp add: lead_space_visible space_runes_invisible)
  with l show ?thesis by (simp add: trim_space_def trim_left_fixed)
qed

definition MaxEmailLength :: nat where "MaxEmailLength = 254"

text \<open>\<open>ParseEmail\<close> of \<open>identity-model/email.go\<close>; \<open>mail.ParseAddress\<close> (the address it
  found, or its error) and the \<open>%q\<close> rendering are parameters.\<close>

definition ParseEmail ::
  "(string \<Rightarrow> string) \<Rightarrow> (string \<Rightarrow> err + string) \<Rightarrow> (string \<Rightarrow> string) \<Rightarrow> string \<Rightarrow> err + string" where
  "ParseEmail U parse_address quote_text raw =
     (let s = ToLower U (trim_space raw)
      in if s = [] then
           Inl (wrap_error Rejection (IMSentinel IMErrValidation) ''usermgmt.email.required''
                  ''email is required'')
         else (case parse_address s of
             Inl _ \<Rightarrow> Inl (wrap_error Rejection (IMSentinel IMErrValidation) ''usermgmt.email.invalid''
                        (''invalid email '' @ quote_text s))
           | Inr addr \<Rightarrow>
               if length addr > MaxEmailLength then
                 Inl (wrap_error Rejection (IMSentinel IMErrValidation) ''usermgmt.email.too_long''
                        (''email too long (max '' @ show_nat MaxEmailLength @ '')''))
               else Inr addr))"

lemma ParseEmail_bounds: "ParseEmail U A q raw = Inr e \<Longrightarrow> length e \<le> MaxEmailLength"
  by (auto simp: ParseEmail_def Let_def split: if_splits sum.splits)

lemma ParseEmail_error:
  "ParseEmail U A q raw = Inl e \<Longrightarrow> errors_is e (IMSentinel IMErrValidation)"
  by (auto simp: ParseEmail_def Let_def errors_is_def split: if_splits sum.splits)

section \<open>The contract of a store whose entries expire\<close>

text \<open>
  \<open>view s k\<close> is the entry under a key, if there is one, with its expiry. \<open>take now k s\<close>
  answers the content of an entry and changes the store, \<open>evict now s\<close> is the periodic clean
  up. The laws: an answer is an entry that has not expired; a key that holds a live entry is
  answered; what a call does to other keys and what eviction does to live entries is nothing.
\<close>

locale expiring =
  fixes inv :: "'s \<Rightarrow> bool"
    and view :: "'s \<Rightarrow> 'k \<Rightarrow> ('c \<times> time) option"
    and take :: "time \<Rightarrow> 'k \<Rightarrow> 's \<Rightarrow> 'c option \<times> 's"
    and evict :: "time \<Rightarrow> 's \<Rightarrow> nat \<times> 's"
  assumes take_inv: "inv s \<Longrightarrow> inv (snd (take now k s))"
    and evict_inv: "inv s \<Longrightarrow> inv (snd (evict now s))"
    and take_result: "inv s \<Longrightarrow> fst (take now k s) =
          (case view s k of Some (c, ex) \<Rightarrow> if ex < now then None else Some c | None \<Rightarrow> None)"
    and take_other: "inv s \<Longrightarrow> k' \<noteq> k \<Longrightarrow> view (snd (take now k s)) k' = view s k'"
    and evict_view: "inv s \<Longrightarrow> view (snd (evict now s)) k =
          (case view s k of Some (c, ex) \<Rightarrow> if ex < now then None else Some (c, ex) | None \<Rightarrow> None)"
begin

lemma expired_never_answered:
  "inv s \<Longrightarrow> view s k = Some (c, ex) \<Longrightarrow> ex < now \<Longrightarrow> fst (take now k s) = None"
  by (simp add: take_result)

text \<open>Eviction is invisible: whenever it ran before, a later take answers the same.\<close>

lemma evict_invisible:
  assumes "inv s" and "t \<le> now"
  shows "fst (take now k (snd (evict t s))) = fst (take now k s)"
  using assms
  by (auto simp: take_result evict_inv evict_view split: option.splits prod.splits)

lemma evict_others: "inv s \<Longrightarrow> view (snd (evict now s)) k = None \<or> view (snd (evict now s)) k = view s k"
  by (auto simp: evict_view split: option.splits prod.splits)

end

text \<open>A store whose take deletes: what is put under a key is answered once. \<open>entry x\<close> is
  the content and the expiry of what \<open>put x\<close> stores.\<close>

datatype ('k, 'x) store_op = Take time 'k | Put 'x 'k | Sweep time

fun op_key :: "('k, 'x) store_op \<Rightarrow> 'k option" where
  "op_key (Take now k) = Some k"
| "op_key (Put x k) = Some k"
| "op_key (Sweep now) = None"

fun is_put :: "'k \<Rightarrow> ('k, 'x) store_op \<Rightarrow> bool" where
  "is_put k (Put x k') = (k' = k)"
| "is_put k op = False"

locale one_time = expiring inv view take evict
  for inv :: "'s \<Rightarrow> bool"
    and view :: "'s \<Rightarrow> 'k \<Rightarrow> ('c \<times> time) option"
    and take :: "time \<Rightarrow> 'k \<Rightarrow> 's \<Rightarrow> 'c option \<times> 's"
    and evict :: "time \<Rightarrow> 's \<Rightarrow> nat \<times> 's" +
  fixes put :: "'x \<Rightarrow> 'k \<Rightarrow> 's \<Rightarrow> 's"
    and entry :: "'x \<Rightarrow> 'c \<times> time"
  assumes take_deletes: "inv s \<Longrightarrow> view (snd (take now k s)) k = None"
    and put_inv: "inv s \<Longrightarrow> inv (put x k s)"
    and put_view: "inv s \<Longrightarrow> view (put x k s) k' = (if k' = k then Some (entry x) else view s k')"
begin

fun step :: "('k, 'x) store_op \<Rightarrow> 's \<Rightarrow> 's" where
  "step (Take now k) s = snd (take now k s)"
| "step (Put x k) s = put x k s"
| "step (Sweep now) s = snd (evict now s)"

lemma step_inv: "inv s \<Longrightarrow> inv (step op s)"
  by (cases op) (simp_all add: take_inv evict_inv put_inv)

lemma steps_inv: "inv s \<Longrightarrow> inv (fold step xs s)"
  by (induction xs arbitrary: s) (simp_all add: step_inv)

lemma take_view: "inv s \<Longrightarrow> view (snd (take now k s)) k' = (if k' = k then None else view s k')"
  by (simp add: take_deletes take_other)

text \<open>Until a key is put again it stays gone.\<close>

lemma steps_stay_gone:
  "inv s \<Longrightarrow> view s k = None \<Longrightarrow> list_all (\<lambda>op. \<not> is_put k op) xs \<Longrightarrow> view (fold step xs s) k = None"
proof (induction xs arbitrary: s)
  case (Cons op xs)
  have "view (step op s) k = None"
    using Cons.prems evict_others [of s _ k] by (cases op) (auto simp: take_view put_view)
  with Cons show ?case by (simp add: step_inv)
qed simp

text \<open>Operations on other keys and evictions do not change what a key answers.\<close>

lemma step_result:
  "inv s \<Longrightarrow> op_key op \<noteq> Some k \<Longrightarrow> (\<And>t. op = Sweep t \<Longrightarrow> t \<le> now) \<Longrightarrow>
   fst (take now k (step op s)) = fst (take now k s)"
  by (cases op) (simp_all add: evict_invisible, simp_all add: take_result take_view put_view take_inv put_inv)

lemma steps_result:
  "inv s \<Longrightarrow> list_all (\<lambda>op. op_key op \<noteq> Some k \<and> (case op of Sweep t \<Rightarrow> t \<le> now | _ \<Rightarrow> True)) xs \<Longrightarrow>
   fst (take now k (fold step xs s)) = fst (take now k s)"
proof (induction xs arbitrary: s)
  case (Cons op xs)
  then have "fst (take now k (step op s)) = fst (take now k s)" by (intro step_result) auto
  with Cons show ?case by (simp add: step_inv)
qed simp

lemma taken_once:
  assumes "inv s" and "list_all (\<lambda>op. \<not> is_put k op) xs"
  shows "fst (take t' k (fold step xs (snd (take t k s)))) = None"
  using assms steps_stay_gone [of "snd (take t k s)" k xs] steps_inv [of "snd (take t k s)" xs]
  by (simp add: take_inv take_deletes take_result)

lemma put_take:
  assumes "inv s"
    and "list_all (\<lambda>op. op_key op \<noteq> Some k \<and> (case op of Sweep t \<Rightarrow> t \<le> now | _ \<Rightarrow> True)) xs"
  shows "fst (take now k (fold step xs (put x k s))) =
    (if snd (entry x) < now then None else Some (fst (entry x)))"
  using steps_result [OF put_inv [OF assms(1)] assms(2)] assms(1)
  by (simp add: take_result put_inv put_view split: prod.splits)

end

end
