(* ===== verification/Lockout.thy ===== *)
theory Lockout
  imports Expiry
begin

text \<open>
  The account lockout of \<open>usermgmt/lockout.go\<close>: the three maps, the operations as the code
  has them, and the life cycle of one account that they implement. The failure counters are
  Go's \<open>uint\<close>, 64 bits wide, and \<open>++\<close> wraps; the invariant shows that they never do.
\<close>

section \<open>The code\<close>

record LockoutConfig =
  MaxAttempts :: "64 word"
  Duration :: duration

record AccountLockout =
  lk_config :: LockoutConfig
  lk_attempts :: "(string, 64 word) gomap"
  lk_attemptAt :: "(string, time) gomap"
  lk_lockedAt :: "(string, time) gomap"

definition defaultMaxAttempts :: "64 word" where "defaultMaxAttempts = 5"
definition defaultLockoutDur :: duration where "defaultLockoutDur = 15 * minute"

definition NewAccountLockout :: "LockoutConfig list \<Rightarrow> AccountLockout" where
  "NewAccountLockout config =
     (let resolved = \<lparr> MaxAttempts = defaultMaxAttempts, Duration = defaultLockoutDur \<rparr>;
          resolved = (case config of [] \<Rightarrow> resolved | c # _ \<Rightarrow>
            \<lparr> MaxAttempts = (if MaxAttempts c > 0 then MaxAttempts c else MaxAttempts resolved),
              Duration = (if Duration c > 0 then Duration c else Duration resolved) \<rparr>)
      in \<lparr> lk_config = resolved, lk_attempts = [], lk_attemptAt = [], lk_lockedAt = [] \<rparr>)"

text \<open>\<open>IsLocked\<close> reads under the read lock, and clears an expired lock under the write lock,
  where it looks again: two critical sections, two functions.\<close>

definition IsLocked_read :: "(string \<Rightarrow> string) \<Rightarrow> time \<Rightarrow> string \<Rightarrow> AccountLockout \<Rightarrow> bool" where
  "IsLocked_read U now email l =
     (case map_get (lk_lockedAt l) (normalizeEmail U email) of
        None \<Rightarrow> False
      | Some lockedAt \<Rightarrow> if now - lockedAt > Duration (lk_config l) then False else True)"

definition forget_account :: "string \<Rightarrow> AccountLockout \<Rightarrow> AccountLockout" where
  "forget_account normalized l =
     l \<lparr> lk_lockedAt := map_del normalized (lk_lockedAt l),
         lk_attempts := map_del normalized (lk_attempts l),
         lk_attemptAt := map_del normalized (lk_attemptAt l) \<rparr>"

definition IsLocked_clear :: "(string \<Rightarrow> string) \<Rightarrow> time \<Rightarrow> string \<Rightarrow> AccountLockout \<Rightarrow> AccountLockout" where
  "IsLocked_clear U now email l =
     (let normalized = normalizeEmail U email
      in case map_get (lk_lockedAt l) normalized of
           None \<Rightarrow> l
         | Some lockedAt2 \<Rightarrow>
             if now - lockedAt2 > Duration (lk_config l) then forget_account normalized l else l)"

definition IsLocked ::
  "(string \<Rightarrow> string) \<Rightarrow> time \<Rightarrow> time \<Rightarrow> string \<Rightarrow> AccountLockout \<Rightarrow> bool \<times> AccountLockout" where
  "IsLocked U now now2 email l =
     (case map_get (lk_lockedAt l) (normalizeEmail U email) of
        None \<Rightarrow> (False, l)
      | Some lockedAt \<Rightarrow>
          if now - lockedAt > Duration (lk_config l) then (False, IsLocked_clear U now2 email l)
          else (True, l))"

definition RecordFailure ::
  "(string \<Rightarrow> string) \<Rightarrow> time \<Rightarrow> string \<Rightarrow> AccountLockout \<Rightarrow> bool \<times> AccountLockout" where
  "RecordFailure U now email l =
     (let normalized = normalizeEmail U email;
          count = (\<lambda>l.
            let n = (case map_get (lk_attempts l) normalized of None \<Rightarrow> 0 | Some n \<Rightarrow> n) + 1;
                l' = l \<lparr> lk_attempts := map_put normalized n (lk_attempts l),
                         lk_attemptAt := map_put normalized now (lk_attemptAt l) \<rparr>
            in if n \<ge> MaxAttempts (lk_config l)
               then (True, l' \<lparr> lk_lockedAt := map_put normalized now (lk_lockedAt l') \<rparr>)
               else (False, l'))
      in case map_get (lk_lockedAt l) normalized of
           Some lockedAt \<Rightarrow>
             if now - lockedAt \<le> Duration (lk_config l) then (False, l)
             else count (l \<lparr> lk_lockedAt := map_del normalized (lk_lockedAt l),
                             lk_attempts := map_put normalized 0 (lk_attempts l) \<rparr>)
         | None \<Rightarrow> count l)"

definition Reset :: "(string \<Rightarrow> string) \<Rightarrow> string \<Rightarrow> AccountLockout \<Rightarrow> AccountLockout" where
  "Reset U email l =
     (let normalized = normalizeEmail U email
      in l \<lparr> lk_attempts := map_del normalized (lk_attempts l),
             lk_attemptAt := map_del normalized (lk_attemptAt l),
             lk_lockedAt := map_del normalized (lk_lockedAt l) \<rparr>)"

definition EvictStale :: "time \<Rightarrow> AccountLockout \<Rightarrow> nat \<times> AccountLockout" where
  "EvictStale now l =
     (let dur = Duration (lk_config l);
          (n1, locked, attempts1, attemptAt1) =
            deleteExpired (\<lambda>email lockedAt (attempts, attemptAt).
              if now - lockedAt \<le> dur then (False, attempts, attemptAt)
              else (True, map_del email attempts, map_del email attemptAt))
              (lk_lockedAt l) (lk_attempts l, lk_attemptAt l);
          (n2, attemptAt2, attempts2) =
            deleteExpired (\<lambda>email lastFailure attempts.
              if map_get locked email \<noteq> None then (False, attempts)
              else if now - lastFailure \<le> dur then (False, attempts)
              else (True, map_del email attempts))
              attemptAt1 attempts1
      in (n1 + n2, l \<lparr> lk_lockedAt := locked, lk_attempts := attempts2, lk_attemptAt := attemptAt2 \<rparr>))"

section \<open>The life cycle of one account\<close>

datatype phase = Unknown | Counting nat time | Locked time

definition first_failure :: "LockoutConfig \<Rightarrow> time \<Rightarrow> phase" where
  "first_failure C now = (if unat (MaxAttempts C) \<le> 1 then Locked now else Counting 1 now)"

fun fail_phase :: "LockoutConfig \<Rightarrow> time \<Rightarrow> phase \<Rightarrow> phase" where
  "fail_phase C now Unknown = first_failure C now"
| "fail_phase C now (Counting n t) =
     (if unat (MaxAttempts C) \<le> Suc n then Locked now else Counting (Suc n) now)"
| "fail_phase C now (Locked t) =
     (if now - t \<le> Duration C then Locked t else first_failure C now)"

fun stale :: "LockoutConfig \<Rightarrow> time \<Rightarrow> phase \<Rightarrow> bool" where
  "stale C now Unknown = False"
| "stale C now (Counting n t) = (now - t > Duration C)"
| "stale C now (Locked t) = (now - t > Duration C)"

fun locked_phase :: "LockoutConfig \<Rightarrow> time \<Rightarrow> phase \<Rightarrow> bool" where
  "locked_phase C now (Locked t) = (now - t \<le> Duration C)"
| "locked_phase C now p = False"

type_synonym slot = "64 word option \<times> time option \<times> time option"

definition slot_of :: "AccountLockout \<Rightarrow> string \<Rightarrow> slot" where
  "slot_of l e = (map_get (lk_attempts l) e, map_get (lk_attemptAt l) e, map_get (lk_lockedAt l) e)"

fun slot_phase :: "slot \<Rightarrow> phase" where
  "slot_phase (a, t, Some t') = Locked t'"
| "slot_phase (Some n, Some t, None) = Counting (unat n) t"
| "slot_phase (a, t, None) = Unknown"

definition phase_of :: "AccountLockout \<Rightarrow> string \<Rightarrow> phase" where
  "phase_of l e = slot_phase (slot_of l e)"

text \<open>The invariant of the three maps: a counter has a time; a locked account's counter has just
  reached the threshold, any other is below it.\<close>

fun slot_ok :: "64 word \<Rightarrow> slot \<Rightarrow> bool" where
  "slot_ok m (None, None, None) = True"
| "slot_ok m (Some n, Some t, None) = (0 < unat n \<and> unat n < unat m)"
| "slot_ok m (Some n, Some t, Some t') = (n = m \<and> t = t')"
| "slot_ok m s = False"

definition lockout_inv :: "AccountLockout \<Rightarrow> bool" where
  "lockout_inv l \<longleftrightarrow>
     map_wf (lk_attempts l) \<and> map_wf (lk_attemptAt l) \<and> map_wf (lk_lockedAt l)
     \<and> 0 < MaxAttempts (lk_config l) \<and> 0 < Duration (lk_config l)
     \<and> (\<forall>e. slot_ok (MaxAttempts (lk_config l)) (slot_of l e))"

lemma NewAccountLockout_inv [simp]: "lockout_inv (NewAccountLockout config)"
  by (auto simp: NewAccountLockout_def lockout_inv_def slot_of_def defaultMaxAttempts_def
      defaultLockoutDur_def Let_def split: list.splits)

lemma NewAccountLockout_phase [simp]: "phase_of (NewAccountLockout config) e = Unknown"
  by (simp add: NewAccountLockout_def phase_of_def slot_of_def Let_def)

lemma slot_okE:
  assumes "slot_ok m s"
  obtains "s = (None, None, None)"
  | n t where "s = (Some n, Some t, None)" "0 < unat n" "unat n < unat m"
  | t where "s = (Some m, Some t, Some t)"
  using assms by (cases "(m, s)" rule: slot_ok.cases) auto

text \<open>The operations on one account's slot.\<close>

definition count_slot :: "64 word \<Rightarrow> time \<Rightarrow> 64 word \<Rightarrow> slot" where
  "count_slot m now n = (Some (n + 1), Some now, if n + 1 \<ge> m then Some now else None)"

lemma count_slot_ok:
  assumes "unat n < unat m"
  shows "slot_ok m (count_slot m now n)"
    and "slot_phase (count_slot m now n) =
      (if unat m \<le> Suc (unat n) then Locked now else Counting (Suc (unat n)) now)"
    and "n + 1 \<ge> m \<longleftrightarrow> unat m \<le> Suc (unat n)"
proof -
  have ne: "1 + n \<noteq> 0"
  proof
    assume "1 + n = 0"
    then have "n = - 1" by (simp add: eq_neg_iff_add_eq_0 add.commute)
    then have "m \<le> n" by simp
    with assms show False by (simp add: word_le_nat_alt)
  qed
  then have *: "unat (n + 1) = Suc (unat n)" using unatSuc [of n] by (simp add: add.commute)
  show le: "n + 1 \<ge> m \<longleftrightarrow> unat m \<le> Suc (unat n)" using * by (simp add: word_le_nat_alt)
  have "n + 1 = m" if "m \<le> n + 1" using that * assms by (simp add: word_le_nat_alt word_unat_eq_iff)
  then show "slot_ok m (count_slot m now n)"
    using * assms by (auto simp: count_slot_def word_le_nat_alt)
  show "slot_phase (count_slot m now n) =
      (if unat m \<le> Suc (unat n) then Locked now else Counting (Suc (unat n)) now)"
    using * le by (simp add: count_slot_def)
qed

definition fail_slot :: "LockoutConfig \<Rightarrow> time \<Rightarrow> slot \<Rightarrow> bool \<times> slot" where
  "fail_slot C now s =
     (let count = (\<lambda>n. (n + 1 \<ge> MaxAttempts C, count_slot (MaxAttempts C) now n))
      in case s of
           (a, t, None) \<Rightarrow> count (case a of None \<Rightarrow> 0 | Some n \<Rightarrow> n)
         | (a, t, Some t') \<Rightarrow> if now - t' \<le> Duration C then (False, s) else count 0)"

lemma RecordFailure_slot:
  "slot_of (snd (RecordFailure U now email l)) e =
     (if e \<noteq> normalizeEmail U email then slot_of l e else snd (fail_slot (lk_config l) now (slot_of l e)))"
  "fst (RecordFailure U now email l) = fst (fail_slot (lk_config l) now (slot_of l (normalizeEmail U email)))"
  by (auto simp: RecordFailure_def Let_def slot_of_def count_slot_def fail_slot_def split: option.splits)

lemma RecordFailure_wf:
  "lockout_inv l \<Longrightarrow>
     map_wf (lk_attempts (snd (RecordFailure U now email l)))
     \<and> map_wf (lk_attemptAt (snd (RecordFailure U now email l)))
     \<and> map_wf (lk_lockedAt (snd (RecordFailure U now email l)))"
  by (auto simp: RecordFailure_def Let_def lockout_inv_def split: option.splits)

lemma RecordFailure_config [simp]: "lk_config (snd (RecordFailure U now email l)) = lk_config l"
  by (simp add: RecordFailure_def Let_def split: option.splits)

lemma fail_slot_ok:
  assumes "slot_ok (MaxAttempts C) s" and "0 < MaxAttempts C"
  shows "slot_ok (MaxAttempts C) (snd (fail_slot C now s))"
    and "slot_phase (snd (fail_slot C now s)) = fail_phase C now (slot_phase s)"
    and "fst (fail_slot C now s) \<longleftrightarrow>
      \<not> locked_phase C now (slot_phase s) \<and> fail_phase C now (slot_phase s) = Locked now"
proof -
  have 0: "unat 0 < unat (MaxAttempts C)" using assms(2) by (simp add: word_less_nat_alt)
  note z = count_slot_ok [OF 0]
  show "slot_ok (MaxAttempts C) (snd (fail_slot C now s))"
    using assms(1) by (rule slot_okE) (use z in \<open>auto simp: fail_slot_def Let_def count_slot_ok\<close>)
  show "slot_phase (snd (fail_slot C now s)) = fail_phase C now (slot_phase s)"
    using assms(1)
    by (rule slot_okE) (use z in \<open>auto simp: fail_slot_def Let_def count_slot_ok first_failure_def\<close>)
  show "fst (fail_slot C now s) \<longleftrightarrow>
      \<not> locked_phase C now (slot_phase s) \<and> fail_phase C now (slot_phase s) = Locked now"
    using assms(1)
    by (rule slot_okE) (use z in \<open>auto simp: fail_slot_def Let_def count_slot_ok first_failure_def\<close>)
qed

lemma RecordFailure_phase:
  assumes "lockout_inv l"
  shows "lockout_inv (snd (RecordFailure U now email l))"
    and "phase_of (snd (RecordFailure U now email l)) e = (if e = normalizeEmail U email
           then fail_phase (lk_config l) now (phase_of l e) else phase_of l e)"
    and "fst (RecordFailure U now email l) \<longleftrightarrow>
           \<not> locked_phase (lk_config l) now (phase_of l (normalizeEmail U email))
           \<and> fail_phase (lk_config l) now (phase_of l (normalizeEmail U email)) = Locked now"
proof -
  have ok: "slot_ok (MaxAttempts (lk_config l)) (slot_of l x)" "0 < MaxAttempts (lk_config l)" for x
    using assms by (simp_all add: lockout_inv_def)
  show "lockout_inv (snd (RecordFailure U now email l))"
    using assms RecordFailure_wf [OF assms] fail_slot_ok(1) [OF ok]
    by (simp add: lockout_inv_def RecordFailure_slot)
  show "phase_of (snd (RecordFailure U now email l)) e = (if e = normalizeEmail U email
      then fail_phase (lk_config l) now (phase_of l e) else phase_of l e)"
    using fail_slot_ok(2) [OF ok] by (simp add: phase_of_def RecordFailure_slot)
  show "fst (RecordFailure U now email l) \<longleftrightarrow>
           \<not> locked_phase (lk_config l) now (phase_of l (normalizeEmail U email))
           \<and> fail_phase (lk_config l) now (phase_of l (normalizeEmail U email)) = Locked now"
    using fail_slot_ok(3) [OF ok] by (simp add: phase_of_def RecordFailure_slot)
qed

section \<open>The other operations\<close>

lemma IsLocked_read_phase:
  "IsLocked_read U now email l \<longleftrightarrow>
     locked_phase (lk_config l) now (phase_of l (normalizeEmail U email))"
  by (auto simp: IsLocked_read_def phase_of_def slot_of_def split: option.splits)
     (metis locked_phase.simps(2,3) option.exhaust slot_phase.simps(2-4))+

lemma IsLocked_read_first: "fst (IsLocked U now now2 email l) = IsLocked_read U now email l"
  by (simp add: IsLocked_def IsLocked_read_def split: option.splits)

lemma IsLocked_normal:
  "normalizeEmail U e1 = normalizeEmail U e2 \<Longrightarrow> IsLocked U now now2 e1 l = IsLocked U now now2 e2 l"
  by (simp add: IsLocked_def IsLocked_clear_def Let_def split: option.split)

lemma forget_slot:
  "slot_of (forget_account x l) e = (if e = x then (None, None, None) else slot_of l e)"
  "lk_config (forget_account x l) = lk_config l"
  by (simp_all add: forget_account_def slot_of_def)

lemma forget_inv: "lockout_inv l \<Longrightarrow> lockout_inv (forget_account x l)"
  by (auto simp: lockout_inv_def forget_slot) (simp_all add: forget_account_def)

lemma forget_phase:
  "phase_of (forget_account x l) e = (if e = x then Unknown else phase_of l e)"
  by (simp add: phase_of_def forget_slot)

definition evict_phase :: "LockoutConfig \<Rightarrow> time \<Rightarrow> phase \<Rightarrow> phase" where
  "evict_phase C now p = (if stale C now p then Unknown else p)"

lemma Reset_forget: "Reset U email l = forget_account (normalizeEmail U email) l"
  by (simp add: Reset_def forget_account_def Let_def)

definition clear_phase :: "LockoutConfig \<Rightarrow> time \<Rightarrow> phase \<Rightarrow> phase" where
  "clear_phase C now p =
     (case p of Locked t \<Rightarrow> if now - t > Duration C then Unknown else p | _ \<Rightarrow> p)"

lemma slot_phase_Locked [simp]: "slot_phase (a, b, c) = Locked t \<longleftrightarrow> c = Some t"
  by (cases "(a, b, c)" rule: slot_phase.cases) auto

lemma phase_locked: "phase_of l e = Locked t \<longleftrightarrow> map_get (lk_lockedAt l) e = Some t"
  by (simp add: phase_of_def slot_of_def)

lemma IsLocked_clear_forget:
  "IsLocked_clear U now email l =
     (case phase_of l (normalizeEmail U email) of
        Locked t \<Rightarrow> if now - t > Duration (lk_config l) then forget_account (normalizeEmail U email) l else l
      | _ \<Rightarrow> l)"
proof (cases "map_get (lk_lockedAt l) (normalizeEmail U email)")
  case None
  then have "phase_of l (normalizeEmail U email) \<noteq> Locked t" for t by (simp add: phase_locked)
  with None show ?thesis by (simp add: IsLocked_clear_def Let_def split: phase.split)
next
  case (Some t)
  then have "phase_of l (normalizeEmail U email) = Locked t" by (simp add: phase_locked)
  with Some show ?thesis by (simp add: IsLocked_clear_def Let_def)
qed

lemma IsLocked_clear_phase:
  "lockout_inv l \<Longrightarrow> lockout_inv (IsLocked_clear U now email l)"
  "lk_config (IsLocked_clear U now email l) = lk_config l"
  "phase_of (IsLocked_clear U now email l) e =
     (if e = normalizeEmail U email then clear_phase (lk_config l) now (phase_of l e) else phase_of l e)"
  by (auto simp: IsLocked_clear_forget clear_phase_def forget_inv forget_slot forget_phase
      split: phase.splits)

section \<open>Eviction\<close>

text \<open>The closures delete, from other maps, the keys whose entry fails the test.\<close>

fun drop_keys :: "('k \<Rightarrow> 'v \<Rightarrow> bool) \<Rightarrow> ('k, 'v) gomap \<Rightarrow> ('k, 'w) gomap \<Rightarrow> ('k, 'w) gomap" where
  "drop_keys q [] a = a"
| "drop_keys q ((k, v) # m) a = drop_keys q m (if q k v then a else map_del k a)"

lemma drop_keys_get_set:
  "map_get (drop_keys q m a) e = (if \<exists>v. (e, v) \<in> set m \<and> \<not> q e v then None else map_get a e)"
  by (induction q m a rule: drop_keys.induct) auto

lemma drop_keys_get:
  assumes "map_wf m"
  shows "map_get (drop_keys q m a) e =
     (case map_get m e of None \<Rightarrow> map_get a e | Some v \<Rightarrow> if q e v then map_get a e else None)"
proof -
  have "(\<exists>v. (e, v) \<in> set m \<and> \<not> q e v) \<longleftrightarrow> (\<exists>v. map_get m e = Some v \<and> \<not> q e v)"
    using map_wf_in_set [OF assms] map_of_SomeD by fast
  then show ?thesis by (auto simp: drop_keys_get_set split: option.splits)
qed

lemma drop_keys_wf [simp]: "map_wf a \<Longrightarrow> map_wf (drop_keys q m a)"
  by (induction q m a rule: drop_keys.induct) auto

lemma deleteExpired_drop:
  "deleteExpired (\<lambda>k v a. if q k v then (False, a) else (True, map_del k a)) m a =
     (length (filter (\<lambda>(k, v). \<not> q k v) m), filter (\<lambda>(k, v). q k v) m, drop_keys q m a)"
  by (induction q m a rule: drop_keys.induct) auto

lemma deleteExpired_drop2:
  "deleteExpired (\<lambda>k v (a, b). if q k v then (False, a, b) else (True, map_del k a, map_del k b)) m (a, b) =
     (length (filter (\<lambda>(k, v). \<not> q k v) m), filter (\<lambda>(k, v). q k v) m, drop_keys q m a, drop_keys q m b)"
  by (induction m arbitrary: a b) auto

lemma EvictStale_unfold:
  "EvictStale now l =
     (let young = (\<lambda>e t. now - t \<le> Duration (lk_config l));
          locked = filter (\<lambda>(e, t). young e t) (lk_lockedAt l);
          attempts = drop_keys young (lk_lockedAt l) (lk_attempts l);
          at = drop_keys young (lk_lockedAt l) (lk_attemptAt l);
          stay = (\<lambda>e t. map_get locked e \<noteq> None \<or> young e t)
      in (length (filter (\<lambda>(e, t). \<not> young e t) (lk_lockedAt l)) + length (filter (\<lambda>(e, t). \<not> stay e t) at),
          l \<lparr> lk_lockedAt := locked, lk_attempts := drop_keys stay at attempts,
              lk_attemptAt := filter (\<lambda>(e, t). stay e t) at \<rparr>))"
proof -
  have if2: "(if a then x else if b then x else y) = (if a \<or> b then x else y)" for a b x y by simp
  show ?thesis
    unfolding EvictStale_def Let_def deleteExpired_drop2 prod.case if2 deleteExpired_drop ..
qed

lemma EvictStale_slot:
  assumes "lockout_inv l"
  shows "slot_of (snd (EvictStale now l)) e =
    (if stale (lk_config l) now (phase_of l e) then (None, None, None) else slot_of l e)"
proof -
  have wf: "map_wf (lk_lockedAt l)" "map_wf (lk_attemptAt l)" "map_wf (lk_attempts l)"
    and ok: "slot_ok (MaxAttempts (lk_config l)) (slot_of l e)"
    using assms by (simp_all add: lockout_inv_def)
  from ok show ?thesis
    by (rule slot_okE)
       (auto simp: EvictStale_unfold Let_def slot_of_def phase_of_def drop_keys_get map_of_filter_wf wf)
qed

lemma EvictStale_phase:
  assumes "lockout_inv l"
  shows "lockout_inv (snd (EvictStale now l))"
    and "lk_config (snd (EvictStale now l)) = lk_config l"
    and "phase_of (snd (EvictStale now l)) e = evict_phase (lk_config l) now (phase_of l e)"
proof -
  show c: "lk_config (snd (EvictStale now l)) = lk_config l"
    by (simp add: EvictStale_unfold Let_def)
  show "lockout_inv (snd (EvictStale now l))"
    using assms EvictStale_slot [OF assms]
    by (simp add: lockout_inv_def c) (simp add: EvictStale_unfold Let_def)
  show "phase_of (snd (EvictStale now l)) e = evict_phase (lk_config l) now (phase_of l e)"
    by (simp add: phase_of_def EvictStale_slot [OF assms] evict_phase_def)
qed

section \<open>Sequences of operations\<close>

text \<open>The critical sections of concurrent callers, in the order they take the lock. \<open>Look\<close> is
  the read of \<open>IsLocked\<close> and changes nothing, so it is not listed.\<close>

datatype lockout_op = Failure string | Clear string | Forget string | Evict

fun lockout_step :: "(string \<Rightarrow> string) \<Rightarrow> time \<times> lockout_op \<Rightarrow> AccountLockout \<Rightarrow> AccountLockout" where
  "lockout_step U (now, Failure email) l = snd (RecordFailure U now email l)"
| "lockout_step U (now, Clear email) l = IsLocked_clear U now email l"
| "lockout_step U (now, Forget email) l = Reset U email l"
| "lockout_step U (now, Evict) l = snd (EvictStale now l)"

fun phase_step :: "LockoutConfig \<Rightarrow> (string \<Rightarrow> string) \<Rightarrow> string \<Rightarrow> time \<times> lockout_op \<Rightarrow> phase \<Rightarrow> phase" where
  "phase_step C U e (now, Failure email) p = (if e = normalizeEmail U email then fail_phase C now p else p)"
| "phase_step C U e (now, Clear email) p = (if e = normalizeEmail U email then clear_phase C now p else p)"
| "phase_step C U e (now, Forget email) p = (if e = normalizeEmail U email then Unknown else p)"
| "phase_step C U e (now, Evict) p = evict_phase C now p"

lemma lockout_step_phase:
  assumes "lockout_inv l"
  shows "lockout_inv (lockout_step U x l)" "lk_config (lockout_step U x l) = lk_config l"
    "phase_of (lockout_step U x l) e = phase_step (lk_config l) U e x (phase_of l e)"
  using assms
  by (cases "(U, x, l)" rule: lockout_step.cases,
      simp_all add: RecordFailure_phase IsLocked_clear_phase Reset_forget forget_inv forget_slot
        forget_phase EvictStale_phase)+

lemma lockout_steps_phase:
  "lockout_inv l \<Longrightarrow> lockout_inv (fold (lockout_step U) xs l)
     \<and> lk_config (fold (lockout_step U) xs l) = lk_config l
     \<and> phase_of (fold (lockout_step U) xs l) e = fold (phase_step (lk_config l) U e) xs (phase_of l e)"
  by (induction xs arbitrary: l) (simp_all add: lockout_step_phase)

lemma phase_stays_locked:
  assumes "\<forall>(now, op)\<in>set xs. now - t \<le> Duration C \<and> (\<forall>email. op = Forget email \<longrightarrow> normalizeEmail U email \<noteq> e)"
  shows "fold (phase_step C U e) xs (Locked t) = Locked t"
  using assms
proof (induction xs)
  case (Cons x xs)
  then have "phase_step C U e x (Locked t) = Locked t"
    by (cases "(C, U, e, x, Locked t)" rule: phase_step.cases) (auto simp: clear_phase_def evict_phase_def)
  with Cons show ?case by simp
qed simp

definition lockout_after :: "(string \<Rightarrow> string) \<Rightarrow> LockoutConfig list \<Rightarrow> (time \<times> lockout_op) list \<Rightarrow> AccountLockout" where
  "lockout_after U config xs = fold (lockout_step U) xs (NewAccountLockout config)"

abbreviation resolved :: "LockoutConfig list \<Rightarrow> LockoutConfig" where
  "resolved config \<equiv> lk_config (NewAccountLockout config)"

lemma lockout_after:
  "lockout_inv (lockout_after U config xs)"
  "lk_config (lockout_after U config xs) = resolved config"
  "phase_of (lockout_after U config xs) e = fold (phase_step (resolved config) U e) xs Unknown"
  using lockout_steps_phase [of "NewAccountLockout config" U xs e]
  by (simp_all add: lockout_after_def)

lemma lockout_after_append:
  "fold (lockout_step U) ys (lockout_after U config xs) = lockout_after U config (xs @ ys)"
  by (simp add: lockout_after_def)

text \<open>The failures of an account in a sequence of operations.\<close>

definition failures :: "(string \<Rightarrow> string) \<Rightarrow> string \<Rightarrow> (time \<times> lockout_op) list \<Rightarrow> nat" where
  "failures U e xs =
     length (filter (\<lambda>(now, op). case op of Failure email \<Rightarrow> normalizeEmail U email = e | _ \<Rightarrow> False) xs)"

definition within :: "time \<Rightarrow> duration \<Rightarrow> (string \<Rightarrow> string) \<Rightarrow> string \<Rightarrow> (time \<times> lockout_op) list \<Rightarrow> bool" where
  "within t dur U e xs \<longleftrightarrow>
     list_all (\<lambda>(now, op). t \<le> now \<and> now \<le> t + dur
       \<and> (case op of Forget email \<Rightarrow> normalizeEmail U email \<noteq> e | _ \<Rightarrow> True)) xs"

lemma failures_snoc:
  "failures U e (xs @ [(now, op)]) = (case op of
     Failure email \<Rightarrow> if normalizeEmail U email = e then Suc (failures U e xs) else failures U e xs
   | _ \<Rightarrow> failures U e xs)"
  by (cases op) (simp_all add: failures_def)

definition window_phase :: "LockoutConfig \<Rightarrow> time \<Rightarrow> nat \<Rightarrow> phase \<Rightarrow> bool" where
  "window_phase C t k p = (case p of
     Unknown \<Rightarrow> k = 0
   | Counting n t' \<Rightarrow> n = k \<and> 0 < k \<and> k < unat (MaxAttempts C) \<and> t \<le> t'
   | Locked t' \<Rightarrow> unat (MaxAttempts C) \<le> k \<and> t \<le> t')"

lemma window_phase_step:
  assumes "window_phase C t k p" and "t \<le> now" "now \<le> t + Duration C" and "0 < MaxAttempts C"
    and "(case op of Forget email \<Rightarrow> normalizeEmail U email \<noteq> e | _ \<Rightarrow> True)"
  shows "window_phase C t (case op of
      Failure email \<Rightarrow> if normalizeEmail U email = e then Suc k else k | _ \<Rightarrow> k)
    (phase_step C U e (now, op) p)"
  using assms
  by (cases op; cases p)
     (auto simp: window_phase_def first_failure_def clear_phase_def evict_phase_def word_less_nat_alt)

lemma window_phase_steps:
  assumes "within t (Duration C) U e xs" and "0 < MaxAttempts C"
  shows "window_phase C t (failures U e xs) (fold (phase_step C U e) xs Unknown)"
  using assms(1)
proof (induction xs rule: rev_induct)
  case Nil
  then show ?case by (simp add: window_phase_def failures_def)
next
  case (snoc x xs)
  obtain now op where x: "x = (now, op)" by (cases x)
  with snoc.prems have "within t (Duration C) U e xs" "t \<le> now" "now \<le> t + Duration C"
    "(case op of Forget email \<Rightarrow> normalizeEmail U email \<noteq> e | _ \<Rightarrow> True)"
    by (simp_all add: within_def)
  from window_phase_step [OF snoc.IH [OF this(1)] this(2,3) assms(2) this(4)] show ?case
    by (simp add: x failures_snoc)
qed

text \<open>C13. Whatever operations ran, in whatever order, each account is in the phase of its own life
  cycle: \<open>IsLocked\<close> answers whether its lock is running, \<open>RecordFailure\<close> answers
  true exactly when that failure locks it, and no counter has passed the threshold (so none has
  wrapped).\<close>

theorem lockout_refines:
  "phase_of (lockout_after U config xs) e = fold (phase_step (resolved config) U e) xs Unknown
   \<and> fst (IsLocked U now now2 email (lockout_after U config xs)) =
       locked_phase (resolved config) now (phase_of (lockout_after U config xs) (normalizeEmail U email))
   \<and> fst (RecordFailure U now email (lockout_after U config xs)) =
       (let p = phase_of (lockout_after U config xs) (normalizeEmail U email)
        in \<not> locked_phase (resolved config) now p \<and> fail_phase (resolved config) now p = Locked now)
   \<and> snd ` set (lk_attempts (lockout_after U config xs)) \<subseteq> {1..MaxAttempts (resolved config)}"
proof -
  let ?l = "lockout_after U config xs"
  have inv: "lockout_inv ?l" by (rule lockout_after)
  have "1 \<le> n \<and> n \<le> MaxAttempts (resolved config)" if "(k, n) \<in> set (lk_attempts ?l)" for k n
  proof -
    have "slot_ok (MaxAttempts (resolved config)) (slot_of ?l k)" "0 < MaxAttempts (resolved config)"
      "map_get (lk_attempts ?l) k = Some n"
      using inv that lockout_after(2) [of U config xs] by (simp_all add: lockout_inv_def map_wf_in_set)
    then show ?thesis
      by (auto elim!: slot_okE simp: slot_of_def word_le_nat_alt word_less_nat_alt)
  qed
  then show ?thesis
    using RecordFailure_phase(3) [OF inv]
    by (auto simp: lockout_after IsLocked_read_first IsLocked_read_phase Let_def)
qed

text \<open>C14. A lock expires \<open>Duration\<close> after the failure that set it, whatever failures, probes and
  evictions arrive while it runs; only a reset of the account ends it earlier.\<close>

theorem lock_expiry_fixed:
  assumes "RecordFailure U t0 email (lockout_after U config xs) = (True, l)"
    and "within t0 (Duration (resolved config)) U (normalizeEmail U email) ys"
  shows "fst (IsLocked U now now2 email (fold (lockout_step U) ys l)) \<longleftrightarrow>
    now - t0 \<le> Duration (resolved config)"
proof -
  let ?e = "normalizeEmail U email" and ?C = "resolved config"
  have l: "l = lockout_after U config (xs @ [(t0, Failure email)])"
    using assms(1) by (simp add: lockout_after_def)
  have "phase_of l ?e = Locked t0"
    using assms(1) RecordFailure_phase(2,3) [OF lockout_after(1) [of U config xs], of U t0 email]
    by (simp add: lockout_after(2))
  moreover have "fold (phase_step ?C U ?e) ys (Locked t0) = Locked t0"
    using assms(2) by (intro phase_stays_locked) (auto simp: within_def list_all_iff)
  ultimately have "phase_of (fold (lockout_step U) ys l) ?e = Locked t0"
    using lockout_steps_phase [of l U ys ?e] lockout_after(1,2) by (simp add: l)
  moreover have "lk_config (fold (lockout_step U) ys l) = ?C"
    using lockout_steps_phase [of l U ys ?e] by (simp add: l lockout_after)
  ultimately show ?thesis by (simp add: IsLocked_read_first IsLocked_read_phase)
qed

definition demo_lock_config :: "LockoutConfig list" where
  "demo_lock_config = [\<lparr> MaxAttempts = 2, Duration = 0 \<rparr>]"

definition demo_failures :: "(time \<times> lockout_op) list" where
  "demo_failures = [(7, Failure ''A@x.y''), (8, Evict), (9, Failure ''b@x.y'')]"

lemma demo_normal [simp]:
  "normalizeEmail id ''A@x.y'' = ''a@x.y''" "normalizeEmail id ''a@x.y'' = ''a@x.y''"
  "normalizeEmail id ''b@x.y'' = ''b@x.y''"
  by (simp_all add: normalizeEmail_def trim_space_visible visible_def ToLower_def is_ascii_def ascii_lower_def
      char_of_def bit_simps)

lemma demo_resolved [simp]: "resolved demo_lock_config = \<lparr> MaxAttempts = 2, Duration = 15 * minute \<rparr>"
  by (simp add: demo_lock_config_def NewAccountLockout_def Let_def defaultLockoutDur_def)

lemma lock_expiry_fixed_witness:
  "\<exists>l. RecordFailure id 20 ''a@x.y'' (lockout_after id demo_lock_config demo_failures) = (True, l)
     \<and> fst (IsLocked id 900000000020 900000000020 ''A@x.y''
          (fold (lockout_step id) [(30, Failure ''a@x.y''), (31, Clear ''A@x.y''), (40, Evict)] l))"
proof -
  let ?l = "lockout_after id demo_lock_config demo_failures"
  have "phase_of ?l ''a@x.y'' = Counting 1 7"
    by (simp add: lockout_after demo_failures_def first_failure_def evict_phase_def)
  then have "fst (RecordFailure id 20 ''a@x.y'' ?l)"
    using RecordFailure_phase(3) [OF lockout_after(1) [of id demo_lock_config demo_failures], of id 20 "''a@x.y''"]
    by (simp add: lockout_after(2))
  then have *: "RecordFailure id 20 ''a@x.y'' ?l = (True, snd (RecordFailure id 20 ''a@x.y'' ?l))"
    by (simp add: prod_eq_iff)
  from lock_expiry_fixed [OF *, of "[(30, Failure ''a@x.y''), (31, Clear ''A@x.y''), (40, Evict)]"
      900000000020 900000000020]
  have "fst (IsLocked id 900000000020 900000000020 ''a@x.y''
      (fold (lockout_step id) [(30, Failure ''a@x.y''), (31, Clear ''A@x.y''), (40, Evict)]
        (snd (RecordFailure id 20 ''a@x.y'' ?l))))"
    by (simp add: within_def)
  moreover have "IsLocked id 900000000020 900000000020 ''A@x.y'' = IsLocked id 900000000020 900000000020 ''a@x.y''"
    by (rule ext, rule IsLocked_normal) simp
  ultimately show ?thesis using * by (intro exI conjI) (assumption, simp only:)
qed

text \<open>C15. Of an account that has no counted failures, whatever happened to it and to others before, the failures that
  arrive within one \<open>Duration\<close>, without a reset of the account among them, lock it when their number reaches the
  threshold and not before, whatever happens to other accounts in between. (Failures that are still counted from before would lock it earlier.)\<close>

theorem locks_at_threshold:
  assumes "phase_of (lockout_after U config ys) (normalizeEmail U email) = Unknown"
    and "within t (Duration (resolved config)) U (normalizeEmail U email) xs"
    and "t \<le> now" and "now \<le> t + Duration (resolved config)"
  shows "fst (IsLocked U now now2 email (lockout_after U config (ys @ xs))) \<longleftrightarrow>
    unat (MaxAttempts (resolved config)) \<le> failures U (normalizeEmail U email) xs"
proof -
  have max: "0 < MaxAttempts (resolved config)"
    using NewAccountLockout_inv by (simp add: lockout_inv_def)
  have "phase_of (lockout_after U config (ys @ xs)) (normalizeEmail U email)
      = fold (phase_step (resolved config) U (normalizeEmail U email)) xs Unknown"
    using assms(1) by (simp add: lockout_after(3))
  with window_phase_steps [OF assms(2) max] assms(3,4) max show ?thesis
    by (auto simp: IsLocked_read_first IsLocked_read_phase lockout_after(1,2) window_phase_def
        word_less_nat_alt split: phase.splits)
qed

lemma locks_at_threshold_witness:
  "\<not> fst (IsLocked id 10 10 ''A@x.y'' (lockout_after id demo_lock_config
        ([(1, Failure ''a@x.y''), (2, Forget ''a@x.y'')] @ demo_failures)))
   \<and> fst (IsLocked id 10 10 ''a@x.y'' (lockout_after id demo_lock_config
        ([(1, Failure ''a@x.y''), (2, Forget ''a@x.y'')] @ demo_failures @ [(10, Failure ''a@x.y'')])))"
proof -
  let ?ys = "[(1, Failure ''a@x.y''), (2, Forget ''a@x.y'')]"
  have none: "phase_of (lockout_after id demo_lock_config ?ys) ''a@x.y'' = Unknown"
    by (simp add: lockout_after(3) first_failure_def)
  show ?thesis
    using locks_at_threshold [of id demo_lock_config ?ys "''A@x.y''" 7 demo_failures 10 10]
      locks_at_threshold [of id demo_lock_config ?ys "''a@x.y''" 7 "demo_failures @ [(10, Failure ''a@x.y'')]" 10 10] none
    by (simp add: within_def failures_def demo_failures_def)
qed

end
