(* ===== verification/Token_Stores.thy ===== *)
theory Token_Stores
  imports Expiry
begin

text \<open>
  The expiring in-memory stores of \<open>usermgmt\<close>: verification tokens
  (\<open>email_verification.go\<close>), pending TOTP secrets (\<open>totp.go\<close>), OAuth2 state
  (\<open>oauth2.go\<close>), WebAuthn challenges (\<open>webauthn_session.go\<close>), the session store and
  the generic entity store (\<open>store.go\<close>), and the session value (\<open>identity-model/session.go\<close>).
  Each store that expires interprets the locale \<open>expiring\<close>, the single-use ones
  \<open>one_time\<close>. Random bytes come from the operating system: a generated token, or the
  generator's error, is an argument.
\<close>

section \<open>Single-use stores\<close>

text \<open>The idiom of the three single-use stores: read, delete, then check the expiry.\<close>

definition consume ::
  "('v \<Rightarrow> time) \<Rightarrow> ('v \<Rightarrow> 'c) \<Rightarrow> time \<Rightarrow> 'k \<Rightarrow> ('k, 'v) gomap \<Rightarrow> 'c option \<times> ('k, 'v) gomap" where
  "consume expiry content now key m =
     (case map_get m key of
        None \<Rightarrow> (None, m)
      | Some entry \<Rightarrow>
          (if now > expiry entry then None else Some (content entry), map_del key m))"

definition store_view :: "('v \<Rightarrow> time) \<Rightarrow> ('v \<Rightarrow> 'c) \<Rightarrow> ('k, 'v) gomap \<Rightarrow> 'k \<Rightarrow> ('c \<times> time) option" where
  "store_view expiry content m k = map_option (\<lambda>e. (content e, expiry e)) (map_get m k)"

lemma consume_simps:
  "fst (consume ex c now k m) =
     (case map_get m k of None \<Rightarrow> None | Some e \<Rightarrow> if now > ex e then None else Some (c e))"
  "map_get (snd (consume ex c now k m)) k' = (if k' = k then None else map_get m k')"
  "map_wf m \<Longrightarrow> map_wf (snd (consume ex c now k m))"
  by (auto simp: consume_def split: option.splits)

text \<open>The stores report a failed consume as an error or as \<open>false\<close>; what they answer:\<close>

fun answer :: "'e + 'a \<Rightarrow> 'a option" where
  "answer (Inl e) = None"
| "answer (Inr x) = Some x"

lemma one_time_store:
  assumes "\<And>now k m. tk now k m = consume ex c now k m"
    and "\<And>now m. ev now m = evictExpired (\<lambda>k e. now > ex e) m"
    and "\<And>x k m. put x k m = map_put k (stored x) m"
    and "\<And>x. entry x = (c (stored x), ex (stored x))"
  shows "one_time map_wf (store_view ex c) tk ev put entry"
  by unfold_locales
     (auto simp: assms consume_simps store_view_def evictExpired_get split: option.splits)

subsection \<open>Verification tokens\<close>

definition VerificationTokenTTL :: duration where "VerificationTokenTTL = 24 * hour"

record verificationEntry =
  ve_userID :: user_id
  ve_email :: string
  ve_expiresAt :: time

type_synonym verificationTokenStore = "(string, verificationEntry) gomap"

definition newVerificationTokenStore :: verificationTokenStore where
  "newVerificationTokenStore = []"

definition VerificationTokens_Save ::
  "id_env \<Rightarrow> err + string \<Rightarrow> time \<Rightarrow> user_id \<Rightarrow> string \<Rightarrow> duration \<Rightarrow> verificationTokenStore
   \<Rightarrow> (err + string) \<times> verificationTokenStore" where
  "VerificationTokens_Save I generated now userID email ttl s =
     (case generated of
        Inl e \<Rightarrow> (Inl (Fam Infrastructure ''usermgmt.verification.token_generate''
            ''generate verification token'' 0 [(''user_id'', user_text I userID)] (Some e)), s)
      | Inr token \<Rightarrow>
          (Inr token,
           map_put token \<lparr> ve_userID = userID, ve_email = email, ve_expiresAt = now + ttl \<rparr> s))"

definition VerificationTokens_Consume ::
  "time \<Rightarrow> string \<Rightarrow> verificationTokenStore \<Rightarrow> (err + user_id) \<times> verificationTokenStore" where
  "VerificationTokens_Consume now token s =
     (case map_get s token of
        None \<Rightarrow> (Inl (IMSentinel IMErrInvalidVerificationToken), s)
      | Some entry \<Rightarrow>
          let s' = map_del token s
          in if now > ve_expiresAt entry then (Inl (IMSentinel IMErrInvalidVerificationToken), s')
             else (Inr (ve_userID entry), s'))"

definition VerificationTokens_EvictExpired ::
  "time \<Rightarrow> verificationTokenStore \<Rightarrow> nat \<times> verificationTokenStore" where
  "VerificationTokens_EvictExpired now s = evictExpired (\<lambda>_ e. now > ve_expiresAt e) s"

subsection \<open>Pending TOTP secrets\<close>

definition defaultTOTPPendingTTL :: duration where "defaultTOTPPendingTTL = 5 * minute"

record pendingTOTPSecret =
  pt_secret :: bytes
  pt_expiresAt :: time

type_synonym pendingTOTPStore = "(string, pendingTOTPSecret) gomap"

definition newPendingTOTPStore :: pendingTOTPStore where
  "newPendingTOTPStore = []"

definition PendingTOTP_Save ::
  "time \<Rightarrow> string \<Rightarrow> bytes \<Rightarrow> duration \<Rightarrow> pendingTOTPStore \<Rightarrow> pendingTOTPStore" where
  "PendingTOTP_Save now userID secret ttl s =
     map_put userID \<lparr> pt_secret = secret, pt_expiresAt = now + ttl \<rparr> s"

definition PendingTOTP_Consume ::
  "time \<Rightarrow> string \<Rightarrow> pendingTOTPStore \<Rightarrow> bytes option \<times> pendingTOTPStore" where
  "PendingTOTP_Consume now userID s =
     (let pending = map_get s userID;
          s' = (if pending \<noteq> None then map_del userID s else s)
      in case pending of
           None \<Rightarrow> (None, s')
         | Some p \<Rightarrow> if now > pt_expiresAt p then (None, s') else (Some (pt_secret p), s'))"

definition PendingTOTP_EvictExpired :: "time \<Rightarrow> pendingTOTPStore \<Rightarrow> nat \<times> pendingTOTPStore" where
  "PendingTOTP_EvictExpired now s = evictExpired (\<lambda>_ e. now > pt_expiresAt e) s"

subsection \<open>OAuth2 state\<close>

definition defaultOAuthStateTTL :: duration where "defaultOAuthStateTTL = 10 * minute"

record oauth2StateEntry =
  os_provider :: string
  os_pkceVerifier :: string
  os_nonce :: string
  os_expiresAt :: time

type_synonym oauth2StateStore = "(string, oauth2StateEntry) gomap"

definition newOAuth2StateStore :: oauth2StateStore where
  "newOAuth2StateStore = []"

definition OAuth2State_Save ::
  "time \<Rightarrow> string \<Rightarrow> string \<Rightarrow> string \<Rightarrow> duration \<Rightarrow> oauth2StateStore \<Rightarrow> oauth2StateStore" where
  "OAuth2State_Save now state provider pkceVerifier ttl s =
     map_put state \<lparr> os_provider = provider, os_pkceVerifier = pkceVerifier, os_nonce = [],
       os_expiresAt = now + ttl \<rparr> s"

definition OAuth2State_SaveWithNonce ::
  "time \<Rightarrow> string \<Rightarrow> string \<Rightarrow> string \<Rightarrow> string \<Rightarrow> duration \<Rightarrow> oauth2StateStore \<Rightarrow> oauth2StateStore" where
  "OAuth2State_SaveWithNonce now state provider pkceVerifier nonce ttl s =
     map_put state \<lparr> os_provider = provider, os_pkceVerifier = pkceVerifier, os_nonce = nonce,
       os_expiresAt = now + ttl \<rparr> s"

definition OAuth2State_Consume ::
  "time \<Rightarrow> string \<Rightarrow> oauth2StateStore \<Rightarrow> (err + string \<times> string) \<times> oauth2StateStore" where
  "OAuth2State_Consume now state s =
     (case map_get s state of
        None \<Rightarrow> (Inl (IMSentinel IMErrOAuthInvalidState), s)
      | Some entry \<Rightarrow>
          let s' = map_del state s
          in if now > os_expiresAt entry then (Inl (IMSentinel IMErrOAuthInvalidState), s')
             else (Inr (os_provider entry, os_pkceVerifier entry), s'))"

definition OAuth2State_ConsumeWithNonce ::
  "time \<Rightarrow> string \<Rightarrow> oauth2StateStore \<Rightarrow> (err + string \<times> string \<times> string) \<times> oauth2StateStore" where
  "OAuth2State_ConsumeWithNonce now state s =
     (case map_get s state of
        None \<Rightarrow> (Inl (IMSentinel IMErrOAuthInvalidState), s)
      | Some entry \<Rightarrow>
          let s' = map_del state s
          in if now > os_expiresAt entry then (Inl (IMSentinel IMErrOAuthInvalidState), s')
             else (Inr (os_provider entry, os_pkceVerifier entry, os_nonce entry), s'))"

definition OAuth2State_EvictExpired :: "time \<Rightarrow> oauth2StateStore \<Rightarrow> nat \<times> oauth2StateStore" where
  "OAuth2State_EvictExpired now s = evictExpired (\<lambda>_ e. now > os_expiresAt e) s"

section \<open>WebAuthn challenges\<close>

definition webauthnSessionTTL :: duration where "webauthnSessionTTL = 5 * minute"

record webauthnSessionEntry =
  wa_data :: bytes
  wa_expiresAt :: time

record webauthnSessionStore =
  wa_sessions :: "(string, webauthnSessionEntry) gomap"
  wa_ttl :: duration

definition newWebAuthnSessionStore :: "duration \<Rightarrow> webauthnSessionStore" where
  "newWebAuthnSessionStore ttl =
     \<lparr> wa_sessions = [], wa_ttl = (if ttl \<le> 0 then webauthnSessionTTL else ttl) \<rparr>"

definition WebAuthn_Save :: "time \<Rightarrow> string \<Rightarrow> bytes \<Rightarrow> webauthnSessionStore \<Rightarrow> webauthnSessionStore" where
  "WebAuthn_Save now key data s =
     s \<lparr> wa_sessions := map_put key \<lparr> wa_data = data, wa_expiresAt = now + wa_ttl s \<rparr> (wa_sessions s) \<rparr>"

definition WebAuthn_Get ::
  "time \<Rightarrow> string \<Rightarrow> webauthnSessionStore \<Rightarrow> (err + bytes) \<times> webauthnSessionStore" where
  "WebAuthn_Get now key s =
     (case map_get (wa_sessions s) key of
        None \<Rightarrow> (Inl (HttpStatus 401 (IMSentinel IMErrSessionDataNotFound)), s)
      | Some entry \<Rightarrow>
          if now > wa_expiresAt entry
          then (Inl (HttpStatus 401 (IMSentinel IMErrSessionDataNotFound)),
                s \<lparr> wa_sessions := map_del key (wa_sessions s) \<rparr>)
          else (Inr (wa_data entry), s))"

definition WebAuthn_Delete :: "string \<Rightarrow> webauthnSessionStore \<Rightarrow> webauthnSessionStore" where
  "WebAuthn_Delete key s = s \<lparr> wa_sessions := deleteKeyed (wa_sessions s) key \<rparr>"

definition WebAuthn_EvictExpired :: "time \<Rightarrow> webauthnSessionStore \<Rightarrow> nat \<times> webauthnSessionStore" where
  "WebAuthn_EvictExpired now s =
     (case evictExpired (\<lambda>_ e. now > wa_expiresAt e) (wa_sessions s) of
        (n, m) \<Rightarrow> (n, s \<lparr> wa_sessions := m \<rparr>))"

section \<open>Sessions\<close>

datatype SessionOrigin = DirectLogin actor_id | Impersonation actor_id string time

record Session =
  se_Token :: string
  se_UserID :: user_id
  se_ActorID :: actor_id
  se_Origin :: SessionOrigin
  se_CreatedAt :: time
  se_ExpiresAt :: time

text \<open>A session of an actor that is not a user keeps the zero \<open>UserID\<close>.\<close>

definition newSession ::
  "id_env \<Rightarrow> (string \<Rightarrow> string) \<Rightarrow> err + string \<Rightarrow> time \<Rightarrow> actor_id \<Rightarrow> SessionOrigin \<Rightarrow> duration \<Rightarrow> err + Session" where
  "newSession I quote_text generated now actorID origin ttl =
     (case generated of
        Inl e \<Rightarrow> Inl (wrap_error Transient e ''token_gen_failed''
                   (''generate token for actor '' @ quote_text (prefixed I actorID)))
      | Inr token \<Rightarrow>
          Inr \<lparr> se_Token = token, se_UserID = (case ActorIDAsUserID I actorID of Some uid \<Rightarrow> uid | None \<Rightarrow> zero_user I),
                se_ActorID = actorID,
                se_Origin = origin, se_CreatedAt = now, se_ExpiresAt = now + ttl \<rparr>)"

definition NewSession ::
  "id_env \<Rightarrow> (string \<Rightarrow> string) \<Rightarrow> err + string \<Rightarrow> time \<Rightarrow> user_id \<Rightarrow> duration \<Rightarrow> err + Session" where
  "NewSession I quote_text generated now userID ttl =
     (let actorID = ActorIDFromUser I userID
      in newSession I quote_text generated now actorID (DirectLogin actorID) ttl)"

definition NewImpersonationSession ::
  "id_env \<Rightarrow> (string \<Rightarrow> string) \<Rightarrow> err + string \<Rightarrow> time \<Rightarrow> actor_id \<Rightarrow> actor_id \<Rightarrow> string \<Rightarrow> duration \<Rightarrow> err + Session" where
  "NewImpersonationSession I quote_text generated now target impersonator reason ttl =
     newSession I quote_text generated now target (Impersonation impersonator reason now) ttl"

definition Session_IsExpired :: "time \<Rightarrow> Session \<Rightarrow> bool" where
  "Session_IsExpired now s \<longleftrightarrow> now > se_ExpiresAt s"

definition TokenMatches :: "Session \<Rightarrow> string \<Rightarrow> bool" where
  "TokenMatches s token \<longleftrightarrow> se_Token s = token"

definition Session_Valid :: "time \<Rightarrow> Session \<Rightarrow> string \<Rightarrow> bool" where
  "Session_Valid now s token \<longleftrightarrow> \<not> Session_IsExpired now s \<and> TokenMatches s token"

subsection \<open>The in-memory session store\<close>

type_synonym InMemorySessionStore = "(string, Session) gomap"

definition Sessions_Create :: "Session \<Rightarrow> InMemorySessionStore \<Rightarrow> InMemorySessionStore" where
  "Sessions_Create session s = map_put (se_Token session) session s"

definition Sessions_Find :: "string \<Rightarrow> InMemorySessionStore \<Rightarrow> err + Session" where
  "Sessions_Find token s =
     (case map_get s token of
        None \<Rightarrow> Inl (HttpStatus 404 (IMSentinel IMErrSessionNotFound))
      | Some session \<Rightarrow> Inr session)"

definition Sessions_Delete :: "string \<Rightarrow> InMemorySessionStore \<Rightarrow> InMemorySessionStore" where
  "Sessions_Delete token s = deleteKeyed s token"

definition Sessions_DeleteByUserID :: "user_id \<Rightarrow> InMemorySessionStore \<Rightarrow> InMemorySessionStore" where
  "Sessions_DeleteByUserID userID s = filter (\<lambda>(token, session). \<not> se_UserID session = userID) s"

definition Sessions_EvictExpired :: "time \<Rightarrow> InMemorySessionStore \<Rightarrow> nat \<times> InMemorySessionStore" where
  "Sessions_EvictExpired now s = evictExpired (\<lambda>_ sess. now > se_ExpiresAt sess) s"

section \<open>The generic entity store\<close>

definition Store_FindByID :: "'t \<Rightarrow> ('id, 't) gomap \<Rightarrow> 'id \<Rightarrow> err + 't" where
  "Store_FindByID zero items key = (case map_get items key of None \<Rightarrow> Inr zero | Some v \<Rightarrow> Inr v)"

definition Store_Save :: "('t \<Rightarrow> 'id) \<Rightarrow> 't \<Rightarrow> ('id, 't) gomap \<Rightarrow> ('id, 't) gomap" where
  "Store_Save idOf entity items = map_put (idOf entity) entity items"

definition Store_Create :: "('t \<Rightarrow> 'id) \<Rightarrow> 't \<Rightarrow> ('id, 't) gomap \<Rightarrow> err option \<times> ('id, 't) gomap" where
  "Store_Create idOf entity items =
     (let key = idOf entity
      in if map_get items key \<noteq> None
         then (Some (new_error Conflict ''usermgmt.store.entity_exists'' ''entity already exists''), items)
         else (None, map_put key entity items))"

definition Store_Delete :: "'id \<Rightarrow> ('id, 't) gomap \<Rightarrow> ('id, 't) gomap" where
  "Store_Delete key items = map_del key items"

section \<open>The stores keep the contract\<close>

type_synonym token_request = "id_env \<times> time \<times> user_id \<times> string \<times> duration"

fun token_put :: "token_request \<Rightarrow> string \<Rightarrow> verificationTokenStore \<Rightarrow> verificationTokenStore" where
  "token_put (I, now, userID, email, ttl) token s =
     snd (VerificationTokens_Save I (Inr token) now userID email ttl s)"

fun token_entry :: "token_request \<Rightarrow> user_id \<times> time" where
  "token_entry (I, now, userID, email, ttl) = (userID, now + ttl)"

definition token_take :: "time \<Rightarrow> string \<Rightarrow> verificationTokenStore \<Rightarrow> user_id option \<times> verificationTokenStore" where
  "token_take now token s = map_prod answer id (VerificationTokens_Consume now token s)"

interpretation tokens: one_time map_wf "store_view ve_expiresAt ve_userID"
  token_take VerificationTokens_EvictExpired token_put token_entry
  by (rule one_time_store [where stored = "\<lambda>(I, now, userID, email, ttl).
        \<lparr> ve_userID = userID, ve_email = email, ve_expiresAt = now + ttl \<rparr>"])
     (auto simp: token_take_def VerificationTokens_Consume_def consume_def Let_def
       VerificationTokens_EvictExpired_def VerificationTokens_Save_def split: option.split)

type_synonym totp_request = "time \<times> bytes \<times> duration"

fun totp_put :: "totp_request \<Rightarrow> string \<Rightarrow> pendingTOTPStore \<Rightarrow> pendingTOTPStore" where
  "totp_put (now, secret, ttl) userID s = PendingTOTP_Save now userID secret ttl s"

fun totp_entry :: "totp_request \<Rightarrow> bytes \<times> time" where
  "totp_entry (now, secret, ttl) = (secret, now + ttl)"

interpretation pending: one_time map_wf "store_view pt_expiresAt pt_secret"
  PendingTOTP_Consume PendingTOTP_EvictExpired totp_put totp_entry
  by (rule one_time_store [where stored = "\<lambda>(now, secret, ttl).
        \<lparr> pt_secret = secret, pt_expiresAt = now + ttl \<rparr>"])
     (auto simp: PendingTOTP_Consume_def consume_def Let_def PendingTOTP_EvictExpired_def
       PendingTOTP_Save_def split: option.split)

text \<open>\<open>Save\<close> is \<open>SaveWithNonce\<close> with no nonce, and \<open>Consume\<close> is
  \<open>ConsumeWithNonce\<close> that drops it.\<close>

type_synonym oauth_request = "time \<times> string \<times> string \<times> string \<times> duration"

fun oauth_put :: "oauth_request \<Rightarrow> string \<Rightarrow> oauth2StateStore \<Rightarrow> oauth2StateStore" where
  "oauth_put (now, provider, pkceVerifier, nonce, ttl) state s =
     OAuth2State_SaveWithNonce now state provider pkceVerifier nonce ttl s"

fun oauth_entry :: "oauth_request \<Rightarrow> (string \<times> string \<times> string) \<times> time" where
  "oauth_entry (now, provider, pkceVerifier, nonce, ttl) = ((provider, pkceVerifier, nonce), now + ttl)"

definition oauth_take ::
  "time \<Rightarrow> string \<Rightarrow> oauth2StateStore \<Rightarrow> (string \<times> string \<times> string) option \<times> oauth2StateStore" where
  "oauth_take now state s = map_prod answer id (OAuth2State_ConsumeWithNonce now state s)"

lemma OAuth2State_Save_nonce:
  "OAuth2State_Save now state provider pkceVerifier ttl s =
   OAuth2State_SaveWithNonce now state provider pkceVerifier [] ttl s"
  by (simp add: OAuth2State_Save_def OAuth2State_SaveWithNonce_def)

lemma OAuth2State_Consume_nonce:
  "OAuth2State_Consume now state s =
     map_prod (map_sum id (\<lambda>(provider, verifier, nonce). (provider, verifier))) id
       (OAuth2State_ConsumeWithNonce now state s)"
  by (simp add: OAuth2State_Consume_def OAuth2State_ConsumeWithNonce_def Let_def split: option.split)

interpretation oauth: one_time map_wf
  "store_view os_expiresAt (\<lambda>e. (os_provider e, os_pkceVerifier e, os_nonce e))"
  oauth_take OAuth2State_EvictExpired oauth_put oauth_entry
  by (rule one_time_store [where stored = "\<lambda>(now, provider, verifier, nonce, ttl).
        \<lparr> os_provider = provider, os_pkceVerifier = verifier, os_nonce = nonce, os_expiresAt = now + ttl \<rparr>"])
     (auto simp: oauth_take_def OAuth2State_ConsumeWithNonce_def consume_def Let_def
       OAuth2State_EvictExpired_def OAuth2State_SaveWithNonce_def split: option.split)

definition challenge_take :: "time \<Rightarrow> string \<Rightarrow> webauthnSessionStore \<Rightarrow> bytes option \<times> webauthnSessionStore" where
  "challenge_take now key s = map_prod answer id (WebAuthn_Get now key s)"

interpretation challenges: expiring "\<lambda>s. map_wf (wa_sessions s)"
  "\<lambda>s. store_view wa_expiresAt wa_data (wa_sessions s)" challenge_take WebAuthn_EvictExpired
  by unfold_locales
     (auto simp: challenge_take_def WebAuthn_Get_def WebAuthn_EvictExpired_def store_view_def
       case_prod_unfold evictExpired_get split: option.splits)

text \<open>Sessions are found whether or not they have expired; the callers check
  \<open>IsExpired\<close>, and that check is the contract's.\<close>

definition session_take :: "time \<Rightarrow> string \<Rightarrow> InMemorySessionStore \<Rightarrow> Session option \<times> InMemorySessionStore" where
  "session_take now token s =
     (case Sessions_Find token s of
        Inr session \<Rightarrow> if Session_IsExpired now session then None else Some session
      | Inl e \<Rightarrow> None, s)"

interpretation sessions: expiring map_wf "store_view se_ExpiresAt (\<lambda>s. s)"
  session_take Sessions_EvictExpired
  by unfold_locales
     (auto simp: session_take_def Sessions_Find_def Session_IsExpired_def Sessions_EvictExpired_def
       store_view_def evictExpired_get split: option.splits)

section \<open>Tokens are answered once, while they live\<close>

lemma oauth_answer:
  "fst (OAuth2State_ConsumeWithNonce now state s) =
     (case fst (oauth_take now state s) of
        None \<Rightarrow> Inl (IMSentinel IMErrOAuthInvalidState) | Some x \<Rightarrow> Inr x)"
  by (simp add: oauth_take_def OAuth2State_ConsumeWithNonce_def Let_def split: option.split)

lemma oauth_take_store: "snd (oauth_take now state s) = snd (OAuth2State_ConsumeWithNonce now state s)"
  by (simp add: oauth_take_def)

lemma token_answer:
  "fst (VerificationTokens_Consume now token s) =
     (case fst (token_take now token s) of
        None \<Rightarrow> Inl (IMSentinel IMErrInvalidVerificationToken) | Some x \<Rightarrow> Inr x)"
  by (simp add: token_take_def VerificationTokens_Consume_def Let_def split: option.split)

lemma token_take_store: "snd (token_take now token s) = snd (VerificationTokens_Consume now token s)"
  by (simp add: token_take_def)

type_synonym oauth_op = "(string, oauth_request) store_op"

fun oauth_step :: "oauth_op \<Rightarrow> oauth2StateStore \<Rightarrow> oauth2StateStore" where
  "oauth_step (Take now state) s = snd (OAuth2State_ConsumeWithNonce now state s)"
| "oauth_step (Put (now, provider, verifier, nonce, ttl) state) s =
     OAuth2State_SaveWithNonce now state provider verifier nonce ttl s"
| "oauth_step (Sweep now) s = snd (OAuth2State_EvictExpired now s)"

lemma oauth_step: "oauth_step op s = oauth.step op s"
  by (cases "(op, s)" rule: oauth_step.cases) (simp_all add: oauth_take_def)

definition other_ops :: "time \<Rightarrow> 'k \<Rightarrow> ('k, 'x) store_op list \<Rightarrow> bool" where
  "other_ops now k = list_all (\<lambda>op. op_key op \<noteq> Some k \<and> (case op of Sweep t \<Rightarrow> t \<le> now | _ \<Rightarrow> True))"

definition no_put :: "'k \<Rightarrow> ('k, 'x) store_op list \<Rightarrow> bool" where
  "no_put k = list_all (\<lambda>op. \<not> is_put k op)"

text \<open>C16. A CSRF state saved when a login begins is answered by the first consume that presents it,
  with the provider, the PKCE verifier and the nonce it was saved with, as long as its lifetime has not
  passed; whatever happens to other states and however often the store is swept in between. After that
  consume every further one is refused.\<close>

theorem oauth_state_once:
  fixes xs :: "oauth_op list"
  defines "start \<equiv> fold oauth_step xs newOAuth2StateStore"
  defines "saved \<equiv> (\<lambda>now state p v n ttl ys.
    fold oauth_step ys (OAuth2State_SaveWithNonce now state p v n ttl start))"
  assumes "other_ops t state ys" and "no_put state zs"
  shows "fst (OAuth2State_ConsumeWithNonce t state (saved now state p v n ttl ys)) =
      (if t \<le> now + ttl then Inr (p, v, n) else Inl (IMSentinel IMErrOAuthInvalidState))
    \<and> fst (OAuth2State_ConsumeWithNonce t' state
        (fold oauth_step zs (snd (OAuth2State_ConsumeWithNonce t state (saved now state p v n ttl ys))))) =
      Inl (IMSentinel IMErrOAuthInvalidState)"
proof -
  have steps: "oauth_step = oauth.step" by (intro ext) (rule oauth_step)
  have inv: "map_wf start" using oauth.steps_inv [of newOAuth2StateStore xs]
    by (simp add: start_def steps newOAuth2StateStore_def)
  have saved: "saved now state p v n ttl ys = fold oauth.step ys (oauth_put (now, p, v, n, ttl) state start)"
    by (simp add: saved_def steps)
  have "map_wf (saved now state p v n ttl ys)"
    unfolding saved by (intro oauth.steps_inv oauth.put_inv inv)
  from oauth.taken_once [OF this, of state zs t' t] oauth.put_take [OF inv, of state t ys "(now, p, v, n, ttl)"]
    assms(3,4)
  show ?thesis
    by (auto simp: oauth_answer oauth_take_store other_ops_def no_put_def saved steps)
qed

lemma oauth_state_once_witness:
  "fst (OAuth2State_ConsumeWithNonce 5 ''s'' (fold oauth_step [Put (2, ''p'', ''v'', ''n'', 9) ''t'', Sweep 4, Take 4 ''t'']
     (OAuth2State_SaveWithNonce 1 ''s'' ''google'' ''verifier'' ''nonce'' 4 newOAuth2StateStore)))
   = Inr (''google'', ''verifier'', ''nonce'')"
  using oauth_state_once [of 5 "''s''" "[Put (2, ''p'', ''v'', ''n'', 9) ''t'', Sweep 4, Take 4 ''t'']" "[]" 1
      "''google''" "''verifier''" "''nonce''" 4 "[]"]
  by (simp add: other_ops_def no_put_def)

end
