(* ===== verification/Authz.thy ===== *)
theory Authz
  imports Identity
begin

text \<open>
  The authorization engine of \<open>identity-model\<close> (\<open>authz.go\<close>, \<open>authz_types.go\<close>,
  \<open>authz_model.go\<close>, \<open>authz_hierarchy.go\<close>, \<open>authz_policies.go\<close>,
  \<open>authz_roles.go\<close>, \<open>authz_decide.go\<close>): policies, grants, the role hierarchy, batches
  with rollback, the queries and the decision.

  Casbin itself is a parameter, the record \<open>casbin\<close> of the calls the code makes on an enforcer
  of type \<open>'e\<close>; any of them may fail. \<open>casbin_ok\<close> states what its documentation says: a
  call that succeeds changes the row set it is about and reports whether it did, a call that fails
  changes nothing, the getters read the rows, and a decision is the one the PERM model of
  \<open>authz_model.go\<close> describes, which \<open>rbac_allows\<close> spells out. A nil enforcer is
  \<open>None\<close>.
\<close>

section \<open>Types\<close>

type_synonym action = string

definition ActionExecute :: action where "ActionExecute = ''execute''"
definition ActionRead :: action where "ActionRead = ''read''"
definition ActionAll :: action where "ActionAll = ''*''"

definition Action_Valid :: "action \<Rightarrow> bool" where
  "Action_Valid a \<longleftrightarrow> a \<in> {ActionExecute, ActionRead, ActionAll}"

definition EffectAllow :: string where "EffectAllow = ''allow''"
definition EffectDeny :: string where "EffectDeny = ''deny''"

definition Effect_Valid :: "string \<Rightarrow> bool" where
  "Effect_Valid e \<longleftrightarrow> e \<in> {EffectAllow, EffectDeny}"

definition RoleSuperAdmin :: role where "RoleSuperAdmin = ''super_admin''"
definition RoleAdmin :: role where "RoleAdmin = ''admin''"
definition RoleUser :: role where "RoleUser = ''user''"
definition RoleViewer :: role where "RoleViewer = ''viewer''"
definition RoleOwner :: role where "RoleOwner = ''owner''"

definition Role_Valid :: "role \<Rightarrow> bool" where
  "Role_Valid r \<longleftrightarrow> r \<in> {RoleSuperAdmin, RoleAdmin, RoleUser, RoleViewer, RoleOwner}"

lemmas role_defs = RoleSuperAdmin_def RoleAdmin_def RoleUser_def RoleViewer_def RoleOwner_def

definition AssignableRoles :: "role list" where
  "AssignableRoles = [RoleViewer, RoleUser, RoleAdmin, RoleOwner]"

definition WildcardDomain :: string where "WildcardDomain = ''*''"

definition AdminRoles :: "role list" where "AdminRoles = [RoleSuperAdmin, RoleAdmin]"

record Policy =
  po_Subject :: role
  po_Domain :: string
  po_Object :: string
  po_Action :: action
  po_Effect :: string

record GroupPolicy =
  gp_Subject :: string
  gp_Role :: role
  gp_Domain :: string

record PolicyUpdate =
  AddGroups :: "GroupPolicy list"
  RemoveGroups :: "GroupPolicy list"
  AddPolicies :: "Policy list"
  RemovePolicies :: "Policy list"

record EnforcerConfig =
  ModelString :: string
  ec_Policies :: "Policy list"
  ec_Groups :: "GroupPolicy list"

record EnforceResult =
  er_Allowed :: bool
  er_MatchedRules :: "string list"
  er_Subject :: string
  er_Domain :: string
  er_Object :: string
  er_Action :: action

definition DefaultPolicies :: "Policy list" where
  "DefaultPolicies =
     [\<lparr> po_Subject = RoleAdmin, po_Domain = ''*'', po_Object = ''*'', po_Action = ActionAll,
        po_Effect = EffectAllow \<rparr>,
      \<lparr> po_Subject = RoleSuperAdmin, po_Domain = ''*'', po_Object = ''*'', po_Action = ActionAll,
        po_Effect = EffectAllow \<rparr>]"

definition DefaultRoleHierarchy :: "(role \<times> role) list" where
  "DefaultRoleHierarchy = [(RoleSuperAdmin, RoleAdmin), (RoleAdmin, RoleUser), (RoleUser, RoleViewer)]"

section \<open>The PERM model\<close>

text \<open>\<open>g(s, r, d)\<close> of Casbin's role manager: the role is the subject itself or is reached
  through assignments of the domain, at most ten deep.\<close>

type_synonym row = "string list"

fun g_reach :: "nat \<Rightarrow> row list \<Rightarrow> string \<Rightarrow> string \<Rightarrow> string \<Rightarrow> bool" where
  "g_reach 0 g d s r = (s = r)"
| "g_reach (Suc n) g d s r =
     (s = r \<or> list_ex (\<lambda>w. case w of [s', x, d'] \<Rightarrow> s' = s \<and> d' = d \<and> g_reach n g d x r | _ \<Rightarrow> False) g)"

fun g2_reach :: "nat \<Rightarrow> row list \<Rightarrow> string \<Rightarrow> string \<Rightarrow> bool" where
  "g2_reach 0 g2 s r = (s = r)"
| "g2_reach (Suc n) g2 s r =
     (s = r \<or> list_ex (\<lambda>w. case w of [s', x] \<Rightarrow> s' = s \<and> g2_reach n g2 x r | _ \<Rightarrow> False) g2)"

definition max_depth :: nat where "max_depth = 10"

text \<open>\<open>keyMatch\<close>: a pattern is literal up to its first \<open>*\<close>, which matches the rest.\<close>

fun keyMatch :: "string \<Rightarrow> string \<Rightarrow> bool" where
  "keyMatch key [] = (key = [])"
| "keyMatch [] (p # ps) = (p = CHR ''*'')"
| "keyMatch (k # ks) (p # ps) = (if p = CHR ''*'' then True else k = p \<and> keyMatch ks ps)"

text \<open>The matcher \<open>m\<close> of \<open>DefaultRBACModel\<close>, and its effect \<open>e\<close>: some matching row allows
  and none denies.\<close>

definition row_matches :: "row list \<Rightarrow> row list \<Rightarrow> string \<Rightarrow> string \<Rightarrow> string \<Rightarrow> action \<Rightarrow> row \<Rightarrow> bool" where
  "row_matches g g2 sub domain obj act p =
     (case p of
        [psub, pdom, pobj, pact, peft] \<Rightarrow>
          (psub = ''*'' \<or> g_reach max_depth g domain sub psub \<or> g2_reach max_depth g2 sub psub)
          \<and> (pdom = ''*'' \<or> domain = pdom)
          \<and> (pobj = ''*'' \<or> keyMatch obj pobj)
          \<and> (pact = ''*'' \<or> act = pact)
      | _ \<Rightarrow> False)"

definition rbac_allows ::
  "row list \<Rightarrow> row list \<Rightarrow> row list \<Rightarrow> string \<Rightarrow> string \<Rightarrow> string \<Rightarrow> action \<Rightarrow> bool" where
  "rbac_allows g g2 p sub domain obj act \<longleftrightarrow>
     list_ex (\<lambda>w. row_matches g g2 sub domain obj act w \<and> last w = EffectAllow) p
     \<and> \<not> list_ex (\<lambda>w. row_matches g g2 sub domain obj act w \<and> last w = EffectDeny) p"

section \<open>The enforcer\<close>

record 'e casbin =
  AddGroupingPolicy :: "row \<Rightarrow> 'e \<Rightarrow> (err + bool) \<times> 'e"
  RemoveGroupingPolicy :: "row \<Rightarrow> 'e \<Rightarrow> (err + bool) \<times> 'e"
  cb_AddPolicy :: "row \<Rightarrow> 'e \<Rightarrow> (err + bool) \<times> 'e"
  cb_RemovePolicy :: "row \<Rightarrow> 'e \<Rightarrow> (err + bool) \<times> 'e"
  AddNamedGroupingPolicy :: "row \<Rightarrow> 'e \<Rightarrow> (err + bool) \<times> 'e"
  GetGroupingPolicy :: "'e \<Rightarrow> err + row list"
  GetPolicy :: "'e \<Rightarrow> err + row list"
  GetRolesForUser :: "string \<Rightarrow> string \<Rightarrow> 'e \<Rightarrow> err + string list"
  GetImplicitRolesForUser :: "string \<Rightarrow> string \<Rightarrow> 'e \<Rightarrow> err + string list"
  GetImplicitPermissionsForUser :: "string \<Rightarrow> string \<Rightarrow> 'e \<Rightarrow> err + row list"
  GetDomainsForUser :: "string \<Rightarrow> 'e \<Rightarrow> err + string list"
  GetUsersForRole :: "string \<Rightarrow> string \<Rightarrow> 'e \<Rightarrow> err + string list"
  cb_EnforceEx :: "string \<Rightarrow> string \<Rightarrow> string \<Rightarrow> string \<Rightarrow> 'e \<Rightarrow> err + bool \<times> string list"
  NewModelFromString :: "string \<Rightarrow> err option"
  NewEnforcer :: "string \<Rightarrow> err + 'e"
  has_g2 :: "'e \<Rightarrow> bool"
  g_rows :: "'e \<Rightarrow> row list"
  p_rows :: "'e \<Rightarrow> row list"
  g2_rows :: "'e \<Rightarrow> row list"
  err_text :: "err \<Rightarrow> string"

definition same_rows :: "'e casbin \<Rightarrow> 'e \<Rightarrow> 'e \<Rightarrow> bool" where
  "same_rows C e e' \<longleftrightarrow>
     set (g_rows C e) = set (g_rows C e') \<and> set (p_rows C e) = set (p_rows C e')
     \<and> set (g2_rows C e) = set (g2_rows C e')"

text \<open>What a mutating call does: \<open>sel\<close> is the section it is about.\<close>

definition mutates ::
  "'e casbin \<Rightarrow> (row \<Rightarrow> 'e \<Rightarrow> (err + bool) \<times> 'e) \<Rightarrow> (row \<Rightarrow> row set \<Rightarrow> row set) \<Rightarrow> bool \<Rightarrow> bool" where
  "mutates C op change grouping \<longleftrightarrow>
     (\<forall>w e. case op w e of
        (Inl _, e') \<Rightarrow> same_rows C e e'
      | (Inr changed, e') \<Rightarrow>
          (if grouping
           then set (g_rows C e') = change w (set (g_rows C e)) \<and> set (p_rows C e') = set (p_rows C e)
             \<and> changed = (set (g_rows C e') \<noteq> set (g_rows C e))
           else set (p_rows C e') = change w (set (p_rows C e)) \<and> set (g_rows C e') = set (g_rows C e)
             \<and> changed = (set (p_rows C e') \<noteq> set (p_rows C e)))
          \<and> set (g2_rows C e') = set (g2_rows C e))"

definition casbin_ok :: "'e casbin \<Rightarrow> bool" where
  "casbin_ok C \<longleftrightarrow>
     mutates C (AddGroupingPolicy C) insert True
     \<and> mutates C (RemoveGroupingPolicy C) (\<lambda>w S. S - {w}) True
     \<and> mutates C (cb_AddPolicy C) insert False
     \<and> mutates C (cb_RemovePolicy C) (\<lambda>w S. S - {w}) False
     \<and> (\<forall>e ws. GetGroupingPolicy C e = Inr ws \<longrightarrow> set ws = set (g_rows C e))
     \<and> (\<forall>e ws. GetPolicy C e = Inr ws \<longrightarrow> set ws = set (p_rows C e))
     \<and> (\<forall>s d e rs. GetRolesForUser C s d e = Inr rs \<longrightarrow> set rs = {r. [s, r, d] \<in> set (g_rows C e)})
     \<and> (\<forall>s e ds. GetDomainsForUser C s e = Inr ds \<longrightarrow> set ds = {d. \<exists>r. [s, r, d] \<in> set (g_rows C e)})
     \<and> (\<forall>s d ob a e b ms. cb_EnforceEx C s d ob a e = Inr (b, ms) \<longrightarrow>
          b = rbac_allows (g_rows C e) (g2_rows C e) (p_rows C e) s d ob a)"

type_synonym 'e authz = "'e option"

abbreviation casbin_error :: "err \<Rightarrow> string \<Rightarrow> err" where
  "casbin_error e msg \<equiv> wrap_error Transient e ''casbin_error'' msg"

definition policyArgs :: "Policy \<Rightarrow> row" where
  "policyArgs p = [po_Subject p, po_Domain p, po_Object p, po_Action p, po_Effect p]"

definition groupArgs :: "GroupPolicy \<Rightarrow> row" where
  "groupArgs g = [gp_Subject g, gp_Role g, gp_Domain g]"

definition comma :: "string list \<Rightarrow> string" where
  "comma xs = (case xs of [] \<Rightarrow> [] | x # ys \<Rightarrow> x @ concat (map (\<lambda>y. '', '' @ y) ys))"

definition wrapPolicyError :: "err \<Rightarrow> string \<Rightarrow> Policy \<Rightarrow> err" where
  "wrapPolicyError e op p = casbin_error e (op @ '' policy {'' @ comma (policyArgs p) @ ''}'')"

definition wrapGroupError :: "err \<Rightarrow> string \<Rightarrow> GroupPolicy \<Rightarrow> err" where
  "wrapGroupError e op g = casbin_error e (op @ '' group {'' @ comma (groupArgs g) @ ''}'')"

section \<open>Mutations\<close>

text \<open>A fallible call for its effect: the error, if any, and the enforcer.\<close>

type_synonym 'e action_result = "err option \<times> 'e"

definition call :: "('e \<Rightarrow> (err + 'a) \<times> 'e) \<Rightarrow> (err \<Rightarrow> err) \<Rightarrow> 'e \<Rightarrow> 'e action_result" where
  "call f wrap e = (case f e of (Inl x, e') \<Rightarrow> (Some (wrap x), e') | (Inr _, e') \<Rightarrow> (None, e'))"

text \<open>A loop that returns the first error.\<close>

fun each :: "('a \<Rightarrow> 'e \<Rightarrow> 'e action_result) \<Rightarrow> 'a list \<Rightarrow> 'e \<Rightarrow> 'e action_result" where
  "each f [] e = (None, e)"
| "each f (x # xs) e = (case f x e of (Some err, e') \<Rightarrow> (Some err, e') | (None, e') \<Rightarrow> each f xs e')"

definition ensureRoleHierarchy :: "'e casbin \<Rightarrow> string \<Rightarrow> 'e \<Rightarrow> 'e action_result" where
  "ensureRoleHierarchy C domain =
     each (\<lambda>(from, to). call (AddGroupingPolicy C [from, to, domain])
       (\<lambda>x. casbin_error x (''seed hierarchy '' @ from @ '' -> '' @ to @ '' in domain '' @ domain)))
       DefaultRoleHierarchy"

text \<open>Every method first checks the enforcer.\<close>

definition with_enforcer :: "('e \<Rightarrow> 'e action_result) \<Rightarrow> 'e authz \<Rightarrow> err option \<times> 'e authz" where
  "with_enforcer f a =
     (case a of
        None \<Rightarrow> (Some (IMSentinel IMErrEnforcerNotInitialized), None)
      | Some e \<Rightarrow> (case f e of (r, e') \<Rightarrow> (r, Some e')))"

definition EnsureRoleHierarchy :: "'e casbin \<Rightarrow> tenant_id \<Rightarrow> 'e authz \<Rightarrow> err option \<times> 'e authz" where
  "EnsureRoleHierarchy C domain = with_enforcer (ensureRoleHierarchy C (tenant_get domain))"

definition AddPolicy :: "'e casbin \<Rightarrow> Policy \<Rightarrow> 'e authz \<Rightarrow> err option \<times> 'e authz" where
  "AddPolicy C p =
     with_enforcer (call (cb_AddPolicy C (policyArgs p)) (\<lambda>x. casbin_error x ''add policy''))"

definition RemovePolicy :: "'e casbin \<Rightarrow> Policy \<Rightarrow> 'e authz \<Rightarrow> err option \<times> 'e authz" where
  "RemovePolicy C p =
     with_enforcer (call (cb_RemovePolicy C (policyArgs p)) (\<lambda>x. casbin_error x ''remove policy''))"

definition apply_group :: "'e casbin \<Rightarrow> GroupPolicy \<Rightarrow> 'e \<Rightarrow> 'e action_result" where
  "apply_group C g e =
     (case ensureRoleHierarchy C (gp_Domain g) e of
        (Some x, e') \<Rightarrow> (Some x, e')
      | (None, e') \<Rightarrow> call (AddGroupingPolicy C (groupArgs g)) (\<lambda>x. wrapGroupError x ''add'' g) e')"

definition ApplyGroupPolicy :: "'e casbin \<Rightarrow> GroupPolicy \<Rightarrow> 'e authz \<Rightarrow> err option \<times> 'e authz" where
  "ApplyGroupPolicy C g = with_enforcer (apply_group C g)"

definition RemoveGroupPolicy :: "'e casbin \<Rightarrow> GroupPolicy \<Rightarrow> 'e authz \<Rightarrow> err option \<times> 'e authz" where
  "RemoveGroupPolicy C g =
     with_enforcer (call (RemoveGroupingPolicy C (groupArgs g)) (\<lambda>x. wrapGroupError x ''remove'' g))"

definition group_text :: "string \<Rightarrow> string \<Rightarrow> string \<Rightarrow> string" where
  "group_text s r d = ''remove group {'' @ s @ '', '' @ r @ '', '' @ d @ ''}''"

definition remove_roles_in :: "'e casbin \<Rightarrow> string \<Rightarrow> string \<Rightarrow> 'e \<Rightarrow> 'e action_result" where
  "remove_roles_in C subject d e =
     (case GetRolesForUser C subject d e of
        Inl x \<Rightarrow> (Some (casbin_error x (''get roles for '' @ subject @ '' in domain '' @ d)), e)
      | Inr roles \<Rightarrow>
          each (\<lambda>role. call (RemoveGroupingPolicy C [subject, role, d])
            (\<lambda>x. casbin_error x (group_text subject role d))) roles e)"

definition RemoveAllRolesInDomain :: "'e casbin \<Rightarrow> string \<Rightarrow> tenant_id \<Rightarrow> 'e authz \<Rightarrow> err option \<times> 'e authz" where
  "RemoveAllRolesInDomain C subject domain =
     with_enforcer (remove_roles_in C subject (tenant_get domain))"

definition remove_roles :: "'e casbin \<Rightarrow> string \<Rightarrow> 'e \<Rightarrow> 'e action_result" where
  "remove_roles C subject e =
     (case GetDomainsForUser C subject e of
        Inl x \<Rightarrow> (Some (casbin_error x (''get domains for user '' @ subject)), e)
      | Inr domains \<Rightarrow> each (remove_roles_in C subject) domains e)"

definition RemoveAllRolesForUser :: "'e casbin \<Rightarrow> string \<Rightarrow> 'e authz \<Rightarrow> err option \<times> 'e authz" where
  "RemoveAllRolesForUser C subject = with_enforcer (remove_roles C subject)"

section \<open>Batches\<close>

datatype undoKind = undoRemoveGroup | undoAddGroup | undoRemovePolicy | undoAddPolicy

record undoOp =
  kind :: undoKind
  undo_args :: row

definition undo_apply :: "'e casbin \<Rightarrow> undoOp \<Rightarrow> 'e \<Rightarrow> 'e action_result" where
  "undo_apply C u =
     call (case kind u of
         undoRemoveGroup \<Rightarrow> RemoveGroupingPolicy C (undo_args u)
       | undoAddGroup \<Rightarrow> AddGroupingPolicy C (undo_args u)
       | undoRemovePolicy \<Rightarrow> cb_RemovePolicy C (undo_args u)
       | undoAddPolicy \<Rightarrow> cb_AddPolicy C (undo_args u))
       (\<lambda>x. casbin_error x ''undo policy mutation'')"

text \<open>The four \<open>apply...\<close> helpers: the call, its wrapped error, and the undo entry when it
  changed something.\<close>

type_synonym 'e batch_result = "err option \<times> undoOp list \<times> 'e"

definition recorded ::
  "('e \<Rightarrow> (err + bool) \<times> 'e) \<Rightarrow> (err \<Rightarrow> err) \<Rightarrow> undoOp \<Rightarrow> undoOp list \<Rightarrow> 'e \<Rightarrow> 'e batch_result" where
  "recorded f wrap undo applied e =
     (case f e of
        (Inl x, e') \<Rightarrow> (Some (wrap x), applied, e')
      | (Inr changed, e') \<Rightarrow> (None, if changed then applied @ [undo] else applied, e'))"

definition applyAddGroup :: "'e casbin \<Rightarrow> GroupPolicy \<Rightarrow> undoOp list \<Rightarrow> 'e \<Rightarrow> 'e batch_result" where
  "applyAddGroup C g =
     recorded (AddGroupingPolicy C (groupArgs g)) (\<lambda>x. wrapGroupError x ''add'' g)
       \<lparr> kind = undoRemoveGroup, undo_args = groupArgs g \<rparr>"

definition applyAddPolicy :: "'e casbin \<Rightarrow> Policy \<Rightarrow> undoOp list \<Rightarrow> 'e \<Rightarrow> 'e batch_result" where
  "applyAddPolicy C p =
     recorded (cb_AddPolicy C (policyArgs p)) (\<lambda>x. wrapPolicyError x ''add'' p)
       \<lparr> kind = undoRemovePolicy, undo_args = policyArgs p \<rparr>"

definition applyRemoveGroup :: "'e casbin \<Rightarrow> GroupPolicy \<Rightarrow> undoOp list \<Rightarrow> 'e \<Rightarrow> 'e batch_result" where
  "applyRemoveGroup C g =
     recorded (RemoveGroupingPolicy C (groupArgs g)) (\<lambda>x. wrapGroupError x ''remove'' g)
       \<lparr> kind = undoAddGroup, undo_args = groupArgs g \<rparr>"

definition applyRemovePolicy :: "'e casbin \<Rightarrow> Policy \<Rightarrow> undoOp list \<Rightarrow> 'e \<Rightarrow> 'e batch_result" where
  "applyRemovePolicy C p =
     recorded (cb_RemovePolicy C (policyArgs p)) (\<lambda>x. wrapPolicyError x ''remove'' p)
       \<lparr> kind = undoAddPolicy, undo_args = policyArgs p \<rparr>"

fun run_batch ::
  "(undoOp list \<Rightarrow> 'e \<Rightarrow> 'e batch_result) list \<Rightarrow> undoOp list \<Rightarrow> 'e \<Rightarrow> 'e batch_result" where
  "run_batch [] applied e = (None, applied, e)"
| "run_batch (f # fs) applied e =
     (case f applied e of
        (Some x, applied', e') \<Rightarrow> (Some x, applied', e')
      | (None, applied', e') \<Rightarrow> run_batch fs applied' e')"

fun undo_all :: "'e casbin \<Rightarrow> undoOp list \<Rightarrow> 'e \<Rightarrow> string list \<times> 'e" where
  "undo_all C [] e = ([], e)"
| "undo_all C (u # us) e =
     (case undo_apply C u e of (r, e') \<Rightarrow>
        (case undo_all C us e' of (failed, e'') \<Rightarrow>
          (case r of Some x \<Rightarrow> (err_text C x # failed, e'') | None \<Rightarrow> (failed, e''))))"

definition join_semicolon :: "string list \<Rightarrow> string" where
  "join_semicolon xs = (case xs of [] \<Rightarrow> [] | x # ys \<Rightarrow> x @ concat (map (\<lambda>y. ''; '' @ y) ys))"

definition rollback :: "'e casbin \<Rightarrow> undoOp list \<Rightarrow> err \<Rightarrow> 'e \<Rightarrow> err \<times> 'e" where
  "rollback C applied cause e =
     (case undo_all C (rev applied) e of
        (failed, e') \<Rightarrow>
          (if failed \<noteq> []
           then (casbin_error cause (''apply rolled back incompletely: '' @ join_semicolon failed), e')
           else (cause, e')))"

definition applyPolicyUpdate :: "'e casbin \<Rightarrow> PolicyUpdate \<Rightarrow> 'e \<Rightarrow> 'e action_result" where
  "applyPolicyUpdate C update e =
     (case run_batch
         (map (applyAddGroup C) (AddGroups update) @ map (applyAddPolicy C) (AddPolicies update)
          @ map (applyRemoveGroup C) (RemoveGroups update)
          @ map (applyRemovePolicy C) (RemovePolicies update)) [] e of
        (None, applied, e') \<Rightarrow> (None, e')
      | (Some cause, applied, e') \<Rightarrow>
          (case rollback C applied cause e' of (x, e'') \<Rightarrow> (Some x, e'')))"

definition Apply :: "'e casbin \<Rightarrow> PolicyUpdate \<Rightarrow> 'e authz \<Rightarrow> err option \<times> 'e authz" where
  "Apply C update =
     with_enforcer (\<lambda>e.
       case each (\<lambda>g. ensureRoleHierarchy C (gp_Domain g)) (AddGroups update) e of
         (Some x, e') \<Rightarrow> (Some x, e')
       | (None, e') \<Rightarrow> applyPolicyUpdate C update e')"

section \<open>Queries and decisions\<close>

definition Policies :: "'e casbin \<Rightarrow> 'e authz \<Rightarrow> err + row list" where
  "Policies C a =
     (case a of None \<Rightarrow> Inl (IMSentinel IMErrEnforcerNotInitialized)
      | Some e \<Rightarrow> map_err (\<lambda>x. casbin_error x ''get policies'') (GetPolicy C e))"

definition GroupPolicies :: "'e casbin \<Rightarrow> 'e authz \<Rightarrow> err + row list" where
  "GroupPolicies C a =
     (case a of None \<Rightarrow> Inl (IMSentinel IMErrEnforcerNotInitialized)
      | Some e \<Rightarrow> map_err (\<lambda>x. casbin_error x ''get group policies'') (GetGroupingPolicy C e))"

definition EnforceEx ::
  "'e casbin \<Rightarrow> string \<Rightarrow> string \<Rightarrow> string \<Rightarrow> action \<Rightarrow> 'e authz \<Rightarrow> err + EnforceResult" where
  "EnforceEx C sub domain obj act a =
     (case a of
        None \<Rightarrow> Inl (IMSentinel IMErrEnforcerNotInitialized)
      | Some e \<Rightarrow>
          (case cb_EnforceEx C sub domain obj act e of
             Inl x \<Rightarrow> Inl (casbin_error x
               (''sub='' @ sub @ '' dom='' @ domain @ '' obj='' @ obj))
           | Inr (allowed, matched) \<Rightarrow>
               Inr \<lparr> er_Allowed = allowed, er_MatchedRules = matched, er_Subject = sub,
                     er_Domain = domain, er_Object = obj, er_Action = act \<rparr>))"

definition slashes :: "string list \<Rightarrow> string" where
  "slashes xs = (case xs of [] \<Rightarrow> [] | x # ys \<Rightarrow> x @ concat (map (\<lambda>y. CHR ''/'' # y) ys))"

text \<open>\<open>Enforce\<close> asks the same question without the matched rules.\<close>

definition Enforce ::
  "'e casbin \<Rightarrow> string \<Rightarrow> string \<Rightarrow> string \<Rightarrow> action \<Rightarrow> 'e authz \<Rightarrow> err + bool" where
  "Enforce C sub domain obj act a =
     (case a of
        None \<Rightarrow> Inl (IMSentinel IMErrEnforcerNotInitialized)
      | Some e \<Rightarrow>
          map_sum (\<lambda>x. casbin_error x (''enforce '' @ slashes [sub, domain, obj, act])) fst
            (cb_EnforceEx C sub domain obj act e))"

definition Authorize ::
  "'e casbin \<Rightarrow> string \<Rightarrow> string \<Rightarrow> string \<Rightarrow> action \<Rightarrow> 'e authz \<Rightarrow> err option" where
  "Authorize C sub domain obj act a =
     (case Enforce C sub domain obj act a of
        Inl x \<Rightarrow> Some (casbin_error x (''authorize '' @ slashes [sub, domain, obj, act]))
      | Inr ok \<Rightarrow>
          if \<not> ok
          then Some (wrap_error Rejection (IMSentinel IMErrForbidden) ''forbidden''
                 (sub @ '' cannot '' @ act @ '' '' @ obj @ '' in domain '' @ domain))
          else None)"

definition Check ::
  "'e casbin \<Rightarrow> string \<Rightarrow> string \<Rightarrow> string \<Rightarrow> string \<Rightarrow> 'e authz \<Rightarrow> err + bool \<times> string list" where
  "Check C subject domain resource act a =
     (case EnforceEx C subject domain resource act a of
        Inl e \<Rightarrow> Inl e
      | Inr res \<Rightarrow> Inr (er_Allowed res, er_MatchedRules res))"

definition RolesForUser ::
  "id_env \<Rightarrow> (user_id \<Rightarrow> string) \<Rightarrow> 'e casbin \<Rightarrow> user_id \<Rightarrow> tenant_id \<Rightarrow> 'e authz \<Rightarrow> err + role list" where
  "RolesForUser I show_user C userID domain a =
     (case a of
        None \<Rightarrow> Inl (IMSentinel IMErrEnforcerNotInitialized)
      | Some e \<Rightarrow>
          map_err (\<lambda>x. Fam Transient ''casbin_error'' (''domain='' @ tenant_get domain) 0
              [(''user_id'', show_user userID)] (Some x))
            (GetRolesForUser C (user_text I userID) (tenant_get domain) e))"

definition ImplicitRolesForUser ::
  "id_env \<Rightarrow> (user_id \<Rightarrow> string) \<Rightarrow> 'e casbin \<Rightarrow> user_id \<Rightarrow> tenant_id \<Rightarrow> 'e authz \<Rightarrow> err + role list" where
  "ImplicitRolesForUser I show_user C userID domain a =
     (case a of
        None \<Rightarrow> Inl (IMSentinel IMErrEnforcerNotInitialized)
      | Some e \<Rightarrow>
          map_err (\<lambda>x. Fam Transient ''casbin_error'' (''domain='' @ tenant_get domain) 0
              [(''user_id'', show_user userID)] (Some x))
            (GetImplicitRolesForUser C (user_text I userID) (tenant_get domain) e))"

definition DomainsForUser ::
  "id_env \<Rightarrow> (user_id \<Rightarrow> string) \<Rightarrow> 'e casbin \<Rightarrow> user_id \<Rightarrow> 'e authz \<Rightarrow> err + tenant_id list" where
  "DomainsForUser I show_user C userID a =
     (case a of
        None \<Rightarrow> Inl (IMSentinel IMErrEnforcerNotInitialized)
      | Some e \<Rightarrow>
          (case GetDomainsForUser C (user_text I userID) e of
             Inl x \<Rightarrow> Inl (Fam Transient ''casbin_error'' ''domains for user'' 0
                        [(''user_id'', show_user userID)] (Some x))
           | Inr d \<Rightarrow> Inr (map NewTenantID (filter (\<lambda>domain. domain \<noteq> []) d))))"

definition UsersForRole :: "'e casbin \<Rightarrow> role \<Rightarrow> tenant_id \<Rightarrow> 'e authz \<Rightarrow> err + string list" where
  "UsersForRole C r domain a =
     (case a of
        None \<Rightarrow> Inl (IMSentinel IMErrEnforcerNotInitialized)
      | Some e \<Rightarrow>
          (case GetUsersForRole C r (tenant_get domain) e of
             Inl x \<Rightarrow> Inl (casbin_error x (''users for role '' @ r @ '' domain='' @ tenant_get domain))
           | Inr u \<Rightarrow> Inr (filter (\<lambda>subject. \<not> Role_Valid subject) u)))"

definition RolesForActor ::
  "id_env \<Rightarrow> (user_id \<Rightarrow> string) \<Rightarrow> 'e casbin \<Rightarrow> actor_id \<Rightarrow> tenant_id \<Rightarrow> 'e authz \<Rightarrow> err + role list" where
  "RolesForActor I show_user C actorID tenantID a =
     (if Kind actorID \<noteq> ActorUser then Inr []
      else on_ok (ParseUserID I (Raw actorID)) (\<lambda>uid. RolesForUser I show_user C uid tenantID a))"

section \<open>Construction\<close>

definition seedDefaultRoleHierarchy :: "'e casbin \<Rightarrow> 'e \<Rightarrow> 'e action_result" where
  "seedDefaultRoleHierarchy C e =
     (if \<not> has_g2 C e then (None, e)
      else each (\<lambda>(from, to). call (AddNamedGroupingPolicy C [from, to])
        (\<lambda>x. casbin_error x (''seed role hierarchy g2('' @ from @ '', '' @ to @ '')''))) DefaultRoleHierarchy e)"

text \<open>\<open>default_model\<close> is the text of \<open>DefaultRBACModel\<close>.\<close>

definition NewAuthz :: "'e casbin \<Rightarrow> string \<Rightarrow> EnforcerConfig list \<Rightarrow> err + 'e authz" where
  "NewAuthz C default_model config =
     (let resolved = (case config of
            [] \<Rightarrow> \<lparr> ModelString = default_model, ec_Policies = DefaultPolicies, ec_Groups = [] \<rparr>
          | c # _ \<Rightarrow> c);
          modelStr = (if ModelString resolved = [] then default_model else ModelString resolved)
      in case (case NewModelFromString C modelStr of
             Some x \<Rightarrow> Inl (casbin_error x ''parse casbin model'')
           | None \<Rightarrow> map_err (\<lambda>x. casbin_error x ''create enforcer'') (NewEnforcer C modelStr)) of
           Inl x \<Rightarrow> Inl x
         | Inr e \<Rightarrow>
             (case each (\<lambda>p. call (cb_AddPolicy C (policyArgs p)) (\<lambda>x. wrapPolicyError x ''add'' p))
                 (ec_Policies resolved) e of
                (Some x, _) \<Rightarrow> Inl x
              | (None, e1) \<Rightarrow>
                  (case each (apply_group C) (ec_Groups resolved) e1 of
                     (Some x, _) \<Rightarrow> Inl x
                   | (None, e2) \<Rightarrow>
                       (case seedDefaultRoleHierarchy C e2 of
                          (Some x, _) \<Rightarrow> Inl x
                        | (None, e3) \<Rightarrow> Inr (Some e3)))))"

section \<open>Calls on the row sets\<close>

type_synonym row_sets = "row set \<times> row set \<times> row set"

definition rows_of :: "'e casbin \<Rightarrow> 'e \<Rightarrow> row_sets" where
  "rows_of C e = (set (g_rows C e), set (p_rows C e), set (g2_rows C e))"

lemma same_rows_iff: "same_rows C e e' \<longleftrightarrow> rows_of C e = rows_of C e'"
  by (simp add: same_rows_def rows_of_def)

text \<open>Adding and removing a grouping row or a policy row.\<close>

fun addG :: "row \<Rightarrow> row_sets \<Rightarrow> row_sets" where "addG w (G, P, H) = (insert w G, P, H)"
fun addP :: "row \<Rightarrow> row_sets \<Rightarrow> row_sets" where "addP w (G, P, H) = (G, insert w P, H)"
fun delG :: "row \<Rightarrow> row_sets \<Rightarrow> row_sets" where "delG w (G, P, H) = (G - {w}, P, H)"
fun delP :: "row \<Rightarrow> row_sets \<Rightarrow> row_sets" where "delP w (G, P, H) = (G, P - {w}, H)"

lemma mutatesD:
  assumes "mutates C f change grouping"
  shows "f w e = (Inl x, e') \<Longrightarrow> rows_of C e' = rows_of C e"
    and "f w e = (Inr b, e') \<Longrightarrow> rows_of C e = (G, P, H) \<Longrightarrow> grouping \<Longrightarrow>
      rows_of C e' = (change w G, P, H) \<and> b = (change w G \<noteq> G)"
    and "f w e = (Inr b, e') \<Longrightarrow> rows_of C e = (G, P, H) \<Longrightarrow> \<not> grouping \<Longrightarrow>
      rows_of C e' = (G, change w P, H) \<and> b = (change w P \<noteq> P)"
  using assms unfolding mutates_def
  by (auto simp: rows_of_def same_rows_def dest!: spec [where x = w] spec [where x = e])

lemma casbin_fails:
  assumes "casbin_ok C"
  shows "AddGroupingPolicy C w e = (Inl x, e') \<Longrightarrow> rows_of C e' = rows_of C e"
    and "RemoveGroupingPolicy C w e = (Inl x, e') \<Longrightarrow> rows_of C e' = rows_of C e"
    and "cb_AddPolicy C w e = (Inl x, e') \<Longrightarrow> rows_of C e' = rows_of C e"
    and "cb_RemovePolicy C w e = (Inl x, e') \<Longrightarrow> rows_of C e' = rows_of C e"
  using assms unfolding casbin_ok_def by (metis mutatesD(1))+

lemma casbin_changes:
  assumes "casbin_ok C"
  shows "AddGroupingPolicy C w e = (Inr b, e') \<Longrightarrow> rows_of C e' = addG w (rows_of C e)
      \<and> b = (addG w (rows_of C e) \<noteq> rows_of C e)"
    and "RemoveGroupingPolicy C w e = (Inr b, e') \<Longrightarrow> rows_of C e' = delG w (rows_of C e)
      \<and> b = (delG w (rows_of C e) \<noteq> rows_of C e)"
    and "cb_AddPolicy C w e = (Inr b, e') \<Longrightarrow> rows_of C e' = addP w (rows_of C e)
      \<and> b = (addP w (rows_of C e) \<noteq> rows_of C e)"
    and "cb_RemovePolicy C w e = (Inr b, e') \<Longrightarrow> rows_of C e' = delP w (rows_of C e)
      \<and> b = (delP w (rows_of C e) \<noteq> rows_of C e)"
proof -
  obtain G P H where e: "rows_of C e = (G, P, H)" by (cases "rows_of C e")
  have m: "mutates C (AddGroupingPolicy C) insert True"
    "mutates C (RemoveGroupingPolicy C) (\<lambda>w S. S - {w}) True"
    "mutates C (cb_AddPolicy C) insert False"
    "mutates C (cb_RemovePolicy C) (\<lambda>w S. S - {w}) False"
    using assms by (simp_all add: casbin_ok_def)
  show "AddGroupingPolicy C w e = (Inr b, e') \<Longrightarrow> rows_of C e' = addG w (rows_of C e)
      \<and> b = (addG w (rows_of C e) \<noteq> rows_of C e)"
    using mutatesD(2) [OF m(1) _ e] by (simp add: e)
  show "RemoveGroupingPolicy C w e = (Inr b, e') \<Longrightarrow> rows_of C e' = delG w (rows_of C e)
      \<and> b = (delG w (rows_of C e) \<noteq> rows_of C e)"
    using mutatesD(2) [OF m(2) _ e] by (simp add: e)
  show "cb_AddPolicy C w e = (Inr b, e') \<Longrightarrow> rows_of C e' = addP w (rows_of C e)
      \<and> b = (addP w (rows_of C e) \<noteq> rows_of C e)"
    using mutatesD(3) [OF m(3) _ e] by (simp add: e)
  show "cb_RemovePolicy C w e = (Inr b, e') \<Longrightarrow> rows_of C e' = delP w (rows_of C e)
      \<and> b = (delP w (rows_of C e) \<noteq> rows_of C e)"
    using mutatesD(3) [OF m(4) _ e] by (simp add: e)
qed

lemma taken_back:
  "addG w s \<noteq> s \<Longrightarrow> delG w (addG w s) = s" "delG w s \<noteq> s \<Longrightarrow> addG w (delG w s) = s"
  "addP w s \<noteq> s \<Longrightarrow> delP w (addP w s) = s" "delP w s \<noteq> s \<Longrightarrow> addP w (delP w s) = s"
  by (cases s; auto)+

lemma casbin_getters:
  assumes "casbin_ok C"
  shows "GetGroupingPolicy C e = Inr ws \<Longrightarrow> set ws = fst (rows_of C e)"
    and "GetRolesForUser C s d e = Inr rs \<Longrightarrow> set rs = {r. [s, r, d] \<in> fst (rows_of C e)}"
    and "GetDomainsForUser C s e = Inr ds \<Longrightarrow> set ds = {d. \<exists>r. [s, r, d] \<in> fst (rows_of C e)}"
  using assms by (simp_all add: casbin_ok_def rows_of_def)

section \<open>Batches are atomic\<close>

definition undo_set :: "undoOp \<Rightarrow> row_sets \<Rightarrow> row_sets" where
  "undo_set u =
     (case kind u of
        undoRemoveGroup \<Rightarrow> delG (undo_args u)
      | undoAddGroup \<Rightarrow> addG (undo_args u)
      | undoRemovePolicy \<Rightarrow> delP (undo_args u)
      | undoAddPolicy \<Rightarrow> addP (undo_args u))"

text \<open>A step of a batch does \<open>change\<close> to the row sets, or fails and does nothing, and records
  how to take the change back.\<close>

definition undoable :: "'e casbin \<Rightarrow> (row_sets \<Rightarrow> row_sets) \<Rightarrow> (undoOp list \<Rightarrow> 'e \<Rightarrow> 'e batch_result) \<Rightarrow> bool" where
  "undoable C change f \<longleftrightarrow>
     (\<forall>applied e. case f applied e of
        (Some x, applied', e') \<Rightarrow> applied' = applied \<and> rows_of C e' = rows_of C e
      | (None, applied', e') \<Rightarrow> rows_of C e' = change (rows_of C e)
          \<and> (applied' = applied \<and> rows_of C e' = rows_of C e
             \<or> (\<exists>u. applied' = applied @ [u] \<and> undo_set u (rows_of C e') = rows_of C e)))"

lemma undoable_recorded:
  assumes "\<And>e x e'. op e = (Inl x, e') \<Longrightarrow> rows_of C e' = rows_of C e"
    and "\<And>e b e'. op e = (Inr b, e') \<Longrightarrow> rows_of C e' = change (rows_of C e)
      \<and> (b \<longrightarrow> undo_set u (rows_of C e') = rows_of C e) \<and> (\<not> b \<longrightarrow> rows_of C e' = rows_of C e)"
  shows "undoable C change (recorded op wrap u)"
  unfolding undoable_def
proof (intro allI)
  fix applied e
  obtain r e' where e': "op e = (r, e')" by (cases "op e")
  show "case recorded op wrap u applied e of
      (None, applied', e') \<Rightarrow> rows_of C e' = change (rows_of C e)
          \<and> (applied' = applied \<and> rows_of C e' = rows_of C e
             \<or> (\<exists>u. applied' = applied @ [u] \<and> undo_set u (rows_of C e') = rows_of C e))
    | (Some x, applied', e') \<Rightarrow> applied' = applied \<and> rows_of C e' = rows_of C e"
    using e' assms(1) [of e _ e'] assms(2) [of e _ e'] by (cases r) (auto simp: recorded_def)
qed

lemma undoable_steps:
  assumes "casbin_ok C"
  shows "undoable C (addG (groupArgs g)) (applyAddGroup C g)"
    and "undoable C (addP (policyArgs p)) (applyAddPolicy C p)"
    and "undoable C (delG (groupArgs g)) (applyRemoveGroup C g)"
    and "undoable C (delP (policyArgs p)) (applyRemovePolicy C p)"
  unfolding applyAddGroup_def applyAddPolicy_def applyRemoveGroup_def applyRemovePolicy_def
  by (rule undoable_recorded, erule casbin_fails [OF assms],
      drule casbin_changes [OF assms], simp add: undo_set_def taken_back)+

lemma run_batch_undoable:
  "list_all2 (undoable C) cs fs \<Longrightarrow> run_batch fs applied e = (r, applied', e') \<Longrightarrow>
     fold undo_set (rev applied') (rows_of C e') = fold undo_set (rev applied) (rows_of C e)
     \<and> (r = None \<longrightarrow> rows_of C e' = fold id cs (rows_of C e))"
proof (induction fs arbitrary: cs applied e)
  case Nil
  then show ?case by simp
next
  case (Cons f fs)
  then obtain c cs' where cs: "cs = c # cs'" and f: "undoable C c f" and fs: "list_all2 (undoable C) cs' fs"
    by (auto simp: list_all2_Cons2)
  obtain r1 applied1 e1 where f1: "f applied e = (r1, applied1, e1)" by (metis prod_cases3)
  with f have u: "fold undo_set (rev applied1) (rows_of C e1) = fold undo_set (rev applied) (rows_of C e)"
    unfolding undoable_def by (fastforce split: option.splits dest!: spec [where x = applied] spec [where x = e])
  show ?case
  proof (cases r1)
    case None
    with f1 f have "rows_of C e1 = c (rows_of C e)"
      unfolding undoable_def by (fastforce dest!: spec [where x = applied] spec [where x = e])
    with Cons.IH [OF fs, of applied1 e1] Cons.prems(2) None f1 u cs show ?thesis by auto
  next
    case (Some x)
    with Cons.prems(2) f1 u show ?thesis by auto
  qed
qed

lemma undo_all_complete:
  assumes "casbin_ok C"
  shows "undo_all C us e = ([], e') \<Longrightarrow> rows_of C e' = fold undo_set us (rows_of C e)"
proof (induction us arbitrary: e)
  case Nil
  then show ?case by simp
next
  case (Cons u us)
  obtain r e1 where u: "undo_apply C u e = (r, e1)" by (cases "undo_apply C u e")
  with Cons.prems have r: "r = None" and us: "undo_all C us e1 = ([], e')"
    by (auto split: prod.splits option.splits)
  have "rows_of C e1 = undo_set u (rows_of C e)"
    using u r casbin_changes [OF assms]
    by (auto simp: undo_apply_def call_def undo_set_def split: undoKind.splits prod.splits sum.splits)
  with Cons.IH [OF us] show ?case by simp
qed

text \<open>What a whole batch does to the row sets, additions first.\<close>

fun batch_rows :: "PolicyUpdate \<Rightarrow> row_sets \<Rightarrow> row_sets" where
  "batch_rows update (G, P, H) =
     ((G \<union> groupArgs ` set (AddGroups update)) - groupArgs ` set (RemoveGroups update),
      (P \<union> policyArgs ` set (AddPolicies update)) - policyArgs ` set (RemovePolicies update), H)"

definition batch_changes :: "PolicyUpdate \<Rightarrow> (row_sets \<Rightarrow> row_sets) list" where
  "batch_changes update =
     map (\<lambda>g. addG (groupArgs g)) (AddGroups update)
     @ map (\<lambda>p. addP (policyArgs p)) (AddPolicies update)
     @ map (\<lambda>g. delG (groupArgs g)) (RemoveGroups update)
     @ map (\<lambda>p. delP (policyArgs p)) (RemovePolicies update)"

lemma fold_changes:
  "fold id (map (\<lambda>g. addG (f g)) xs) (G, P, H) = (G \<union> f ` set xs, P, H)"
  "fold id (map (\<lambda>g. addP (f g)) xs) (G, P, H) = (G, P \<union> f ` set xs, H)"
  "fold id (map (\<lambda>g. delG (f g)) xs) (G, P, H) = (G - f ` set xs, P, H)"
  "fold id (map (\<lambda>g. delP (f g)) xs) (G, P, H) = (G, P - f ` set xs, H)"
  by (induction xs arbitrary: G P) auto

lemma batch_changes: "fold id (batch_changes update) s = batch_rows update s"
  by (cases s) (simp add: batch_changes_def fold_changes del: id_apply)

definition incomplete :: "err \<Rightarrow> bool" where
  "incomplete x \<longleftrightarrow> (\<exists>cause failed. failed \<noteq> []
     \<and> x = casbin_error cause (''apply rolled back incompletely: '' @ join_semicolon failed))"

lemma applyPolicyUpdate_atomic:
  assumes "casbin_ok C" and "applyPolicyUpdate C update e = (r, e')"
  shows "(case r of None \<Rightarrow> rows_of C e' = batch_rows update (rows_of C e)
    | Some x \<Rightarrow> rows_of C e' = rows_of C e \<or> incomplete x)"
proof -
  let ?fs = "map (applyAddGroup C) (AddGroups update) @ map (applyAddPolicy C) (AddPolicies update)
      @ map (applyRemoveGroup C) (RemoveGroups update) @ map (applyRemovePolicy C) (RemovePolicies update)"
  obtain r1 applied e1 where run: "run_batch ?fs [] e = (r1, applied, e1)" by (metis prod_cases3)
  have "list_all2 (undoable C) (batch_changes update) ?fs"
    unfolding batch_changes_def
    by (intro list_all2_appendI) (simp_all add: list_all2_conv_all_nth undoable_steps [OF assms(1)])
  from run_batch_undoable [OF this run]
  have undone: "fold undo_set (rev applied) (rows_of C e1) = rows_of C e"
    and completed: "r1 = None \<Longrightarrow> rows_of C e1 = batch_rows update (rows_of C e)"
    by (simp_all add: batch_changes)
  show ?thesis
  proof (cases r1)
    case None
    with assms(2) run completed show ?thesis by (simp add: applyPolicyUpdate_def)
  next
    case (Some cause)
    obtain failed e2 where undo: "undo_all C (rev applied) e1 = (failed, e2)"
      by (cases "undo_all C (rev applied) e1")
    show ?thesis
    proof (cases "failed = []")
      case True
      with undo_all_complete [OF assms(1)] undo undone have "rows_of C e2 = rows_of C e" by simp
      with assms(2) run Some undo True show ?thesis by (auto simp: applyPolicyUpdate_def rollback_def)
    next
      case False
      with assms(2) run Some undo show ?thesis
        by (auto simp: applyPolicyUpdate_def rollback_def incomplete_def)
    qed
  qed
qed

section \<open>Loops of calls\<close>

text \<open>A call that succeeds changes the row sets by \<open>change\<close>, and one that fails leaves rows
  within \<open>change\<close>'s reach, said with a relation.\<close>

definition effects ::
  "'e casbin \<Rightarrow> (row_sets \<Rightarrow> row_sets) \<Rightarrow> (row_sets \<Rightarrow> row_sets \<Rightarrow> bool) \<Rightarrow> ('e \<Rightarrow> 'e action_result) \<Rightarrow> bool" where
  "effects C change part f \<longleftrightarrow>
     (\<forall>e r e'. f e = (r, e') \<longrightarrow>
        (case r of None \<Rightarrow> rows_of C e' = change (rows_of C e) | Some x \<Rightarrow> part (rows_of C e) (rows_of C e')))"

lemma effectsI:
  assumes "\<And>e r e'. f e = (r, e') \<Longrightarrow>
      (case r of None \<Rightarrow> rows_of C e' = change (rows_of C e) | Some x \<Rightarrow> part (rows_of C e) (rows_of C e'))"
  shows "effects C change part f"
  using assms by (simp add: effects_def)

lemma effectsD:
  "effects C change part f \<Longrightarrow> f e = (None, e') \<Longrightarrow> rows_of C e' = change (rows_of C e)"
  "effects C change part f \<Longrightarrow> f e = (Some x, e') \<Longrightarrow> part (rows_of C e) (rows_of C e')"
  unfolding effects_def by (metis option.simps(4), metis option.simps(5))

text \<open>Growing and shrinking the grouping rows within a set.\<close>

fun grows :: "row set \<Rightarrow> row_sets \<Rightarrow> row_sets \<Rightarrow> bool" where
  "grows S (G, P, H) (G', P', H') = (G \<subseteq> G' \<and> G' \<subseteq> G \<union> S \<and> P' = P \<and> H' = H)"

fun shrinks :: "row set \<Rightarrow> row_sets \<Rightarrow> row_sets \<Rightarrow> bool" where
  "shrinks S (G, P, H) (G', P', H') = (G' \<subseteq> G \<and> G - S \<subseteq> G' \<and> P' = P \<and> H' = H)"

fun add_rows :: "row set \<Rightarrow> row_sets \<Rightarrow> row_sets" where
  "add_rows S (G, P, H) = (G \<union> S, P, H)"

fun del_rows :: "row set \<Rightarrow> row_sets \<Rightarrow> row_sets" where
  "del_rows S (G, P, H) = (G - S, P, H)"

lemma grows_refl [simp]: "grows S s s"
  by (cases s) simp

lemma shrinks_refl [simp]: "shrinks S s s"
  by (cases s) simp

lemma add_call:
  assumes "casbin_ok C"
  shows "effects C (add_rows {w}) (grows {w}) (call (AddGroupingPolicy C w) wrap)"
  using casbin_changes(1) [OF assms] casbin_fails(1) [OF assms]
  by (intro effectsI)
     (fastforce simp: call_def rows_of_def split: prod.splits sum.splits option.splits)

lemma del_call:
  assumes "casbin_ok C"
  shows "effects C (del_rows {w}) (shrinks {w}) (call (RemoveGroupingPolicy C w) wrap)"
  using casbin_changes(2) [OF assms] casbin_fails(2) [OF assms]
  by (intro effectsI)
     (fastforce simp: call_def rows_of_def split: prod.splits sum.splits option.splits)

lemma grows_mono: "grows S s t \<Longrightarrow> S \<subseteq> T \<Longrightarrow> grows T s t"
  by (cases s; cases t) auto

lemma shrinks_mono: "shrinks S s t \<Longrightarrow> S \<subseteq> T \<Longrightarrow> shrinks T s t"
  by (cases s; cases t) auto

lemma grows_after: "grows T (add_rows S s) t \<Longrightarrow> grows (S \<union> T) s t"
  by (cases s; cases t) auto

lemma shrinks_after: "shrinks T (del_rows S s) t \<Longrightarrow> shrinks (S \<union> T) s t"
  by (cases s; cases t) auto

lemma add_rows_twice: "add_rows T (add_rows S s) = add_rows (S \<union> T) s"
  by (cases s) auto

lemma del_rows_twice: "del_rows T (del_rows S s) = del_rows (S \<union> T) s"
  by (cases s) auto

lemma each_adds:
  assumes "\<And>x. effects C (add_rows (w x)) (grows (w x)) (f x)"
  shows "effects C (add_rows (\<Union>x\<in>set xs. w x)) (grows (\<Union>x\<in>set xs. w x)) (each f xs)"
proof (induction xs)
  case Nil
  have "add_rows {} s = s" for s by (cases s) simp
  then show ?case by (auto intro!: effectsI)
next
  case (Cons x xs)
  show ?case
  proof (rule effectsI)
    fix e r e' assume run: "each f (x # xs) e = (r, e')"
    obtain r1 e1 where f: "f x e = (r1, e1)" by (cases "f x e")
    show "case r of None \<Rightarrow> rows_of C e' = add_rows (\<Union>x\<in>set (x # xs). w x) (rows_of C e)
        | Some _ \<Rightarrow> grows (\<Union>x\<in>set (x # xs). w x) (rows_of C e) (rows_of C e')"
    proof (cases r1)
      case None
      with run f have "each f xs e1 = (r, e')" by simp
      with effectsD [OF Cons.IH, of e1] effectsD(1) [OF assms, of x e] f None show ?thesis
        by (cases r) (auto simp: add_rows_twice Un_commute dest: grows_after)
    next
      case (Some y)
      with run f effectsD(2) [OF assms, of x e] show ?thesis by (auto intro: grows_mono)
    qed
  qed
qed

lemma each_dels:
  assumes "\<And>x. effects C (del_rows (w x)) (shrinks (w x)) (f x)"
  shows "effects C (del_rows (\<Union>x\<in>set xs. w x)) (shrinks (\<Union>x\<in>set xs. w x)) (each f xs)"
proof (induction xs)
  case Nil
  have "del_rows {} s = s" for s by (cases s) simp
  then show ?case by (auto intro!: effectsI)
next
  case (Cons x xs)
  show ?case
  proof (rule effectsI)
    fix e r e' assume run: "each f (x # xs) e = (r, e')"
    obtain r1 e1 where f: "f x e = (r1, e1)" by (cases "f x e")
    show "case r of None \<Rightarrow> rows_of C e' = del_rows (\<Union>x\<in>set (x # xs). w x) (rows_of C e)
        | Some _ \<Rightarrow> shrinks (\<Union>x\<in>set (x # xs). w x) (rows_of C e) (rows_of C e')"
    proof (cases r1)
      case None
      with run f have "each f xs e1 = (r, e')" by simp
      with effectsD [OF Cons.IH, of e1] effectsD(1) [OF assms, of x e] f None show ?thesis
        by (cases r) (auto simp: del_rows_twice Un_commute dest: shrinks_after)
    next
      case (Some y)
      with run f effectsD(2) [OF assms, of x e] show ?thesis by (auto intro: shrinks_mono)
    qed
  qed
qed

definition hierarchy :: "string \<Rightarrow> row set" where
  "hierarchy d = (\<lambda>(from, to). [from, to, d]) ` set DefaultRoleHierarchy"

lemma ensureRoleHierarchy_effect:
  assumes "casbin_ok C"
  shows "effects C (add_rows (hierarchy d)) (grows (hierarchy d)) (ensureRoleHierarchy C d)"
proof -
  have "hierarchy d = (\<Union>x\<in>set DefaultRoleHierarchy. {[fst x, snd x, d]})"
    by (auto simp: hierarchy_def)
  then show ?thesis
    unfolding ensureRoleHierarchy_def
    using each_adds [of C "\<lambda>x. {[fst x, snd x, d]}" _ DefaultRoleHierarchy] add_call [OF assms]
    by (simp add: case_prod_unfold)
qed

lemma apply_group_effect:
  assumes "casbin_ok C"
  shows "effects C (add_rows (insert (groupArgs g) (hierarchy (gp_Domain g))))
    (grows (insert (groupArgs g) (hierarchy (gp_Domain g)))) (apply_group C g)"
proof (rule effectsI)
  fix e r e' assume run: "apply_group C g e = (r, e')"
  obtain r1 e1 where h: "ensureRoleHierarchy C (gp_Domain g) e = (r1, e1)"
    by (cases "ensureRoleHierarchy C (gp_Domain g) e")
  show "case r of None \<Rightarrow> rows_of C e' = add_rows (insert (groupArgs g) (hierarchy (gp_Domain g))) (rows_of C e)
      | Some _ \<Rightarrow> grows (insert (groupArgs g) (hierarchy (gp_Domain g))) (rows_of C e) (rows_of C e')"
  proof (cases r1)
    case None
    with run h have "call (AddGroupingPolicy C (groupArgs g)) (\<lambda>x. wrapGroupError x ''add'' g) e1 = (r, e')"
      by (simp add: apply_group_def)
    with effectsD [OF add_call [OF assms], of "groupArgs g" _ e1]
      effectsD(1) [OF ensureRoleHierarchy_effect [OF assms], of _ e] h None
      grows_after [of "{groupArgs g}" "hierarchy (gp_Domain g)" "rows_of C e" "rows_of C e'"]
    show ?thesis by (cases r) (auto simp: add_rows_twice)
  next
    case (Some x)
    then have "r = Some x" "e' = e1" using run h by (simp_all add: apply_group_def)
    with Some h effectsD(2) [OF ensureRoleHierarchy_effect [OF assms], of "gp_Domain g" e x e1] show ?thesis
      by (auto intro: grows_mono)
  qed
qed

definition rows_in :: "string \<Rightarrow> string \<Rightarrow> row set" where
  "rows_in s d = (\<lambda>r. [s, r, d]) ` UNIV"

lemma remove_roles_in_effect:
  assumes "casbin_ok C"
  shows "effects C (del_rows (rows_in s d)) (shrinks (rows_in s d)) (remove_roles_in C s d)"
proof (rule effectsI)
  fix e r e' assume run: "remove_roles_in C s d e = (r, e')"
  show "case r of None \<Rightarrow> rows_of C e' = del_rows (rows_in s d) (rows_of C e)
      | Some _ \<Rightarrow> shrinks (rows_in s d) (rows_of C e) (rows_of C e')"
  proof (cases "GetRolesForUser C s d e")
    case (Inl x)
    with run show ?thesis by (auto simp: remove_roles_in_def)
  next
    case (Inr roles)
    obtain G P H where e: "rows_of C e = (G, P, H)" by (cases "rows_of C e")
    have roles: "set roles = {r. [s, r, d] \<in> G}"
      using casbin_getters(2) [OF assms Inr] by (simp add: e)
    have "effects C (del_rows (\<Union>x\<in>set roles. {[s, x, d]})) (shrinks (\<Union>x\<in>set roles. {[s, x, d]}))
        (each (\<lambda>role. call (RemoveGroupingPolicy C [s, role, d]) (\<lambda>x. casbin_error x (group_text s role d))) roles)"
      by (rule each_dels, rule del_call [OF assms])
    from effectsD [OF this, of e] run Inr
    have "case r of None \<Rightarrow> rows_of C e' = del_rows (\<Union>x\<in>set roles. {[s, x, d]}) (rows_of C e)
      | Some _ \<Rightarrow> shrinks (\<Union>x\<in>set roles. {[s, x, d]}) (rows_of C e) (rows_of C e')"
      by (auto simp: remove_roles_in_def split: option.splits)
    moreover have "del_rows (\<Union>x\<in>set roles. {[s, x, d]}) (rows_of C e) = del_rows (rows_in s d) (rows_of C e)"
      by (auto simp: e roles rows_in_def)
    moreover have "(\<Union>x\<in>set roles. {[s, x, d]}) \<subseteq> rows_in s d" by (auto simp: rows_in_def)
    ultimately show ?thesis by (auto intro: shrinks_mono split: option.splits)
  qed
qed

definition rows_for :: "string \<Rightarrow> row set" where
  "rows_for s = (\<lambda>(r, d). [s, r, d]) ` UNIV"

lemma remove_roles_effect:
  assumes "casbin_ok C"
  shows "effects C (del_rows (rows_for s)) (shrinks (rows_for s)) (remove_roles C s)"
proof (rule effectsI)
  fix e r e' assume run: "remove_roles C s e = (r, e')"
  show "case r of None \<Rightarrow> rows_of C e' = del_rows (rows_for s) (rows_of C e)
      | Some _ \<Rightarrow> shrinks (rows_for s) (rows_of C e) (rows_of C e')"
  proof (cases "GetDomainsForUser C s e")
    case (Inl x)
    with run show ?thesis by (auto simp: remove_roles_def)
  next
    case (Inr domains)
    obtain G P H where e: "rows_of C e = (G, P, H)" by (cases "rows_of C e")
    have domains: "set domains = {d. \<exists>r. [s, r, d] \<in> G}"
      using casbin_getters(3) [OF assms Inr] by (simp add: e)
    have "effects C (del_rows (\<Union>d\<in>set domains. rows_in s d)) (shrinks (\<Union>d\<in>set domains. rows_in s d))
        (each (remove_roles_in C s) domains)"
      by (rule each_dels, rule remove_roles_in_effect [OF assms])
    from effectsD [OF this, of e] run Inr
    have "case r of None \<Rightarrow> rows_of C e' = del_rows (\<Union>d\<in>set domains. rows_in s d) (rows_of C e)
      | Some _ \<Rightarrow> shrinks (\<Union>d\<in>set domains. rows_in s d) (rows_of C e) (rows_of C e')"
      by (auto simp: remove_roles_def split: option.splits)
    moreover have "del_rows (\<Union>d\<in>set domains. rows_in s d) (rows_of C e) = del_rows (rows_for s) (rows_of C e)"
      by (auto simp: e domains rows_in_def rows_for_def)
    moreover have "(\<Union>d\<in>set domains. rows_in s d) \<subseteq> rows_for s" by (auto simp: rows_in_def rows_for_def)
    ultimately show ?thesis by (auto intro: shrinks_mono split: option.splits)
  qed
qed

section \<open>An in-memory enforcer\<close>

text \<open>An enforcer for the witnesses: three row lists and a script of which of the next calls fail.\<close>

record mem_enforcer =
  mem_g :: "row list"
  mem_p :: "row list"
  mem_g2 :: "row list"
  mem_fail :: "bool list"

definition mem_call ::
  "(mem_enforcer \<Rightarrow> row list) \<Rightarrow> (row list \<Rightarrow> mem_enforcer \<Rightarrow> mem_enforcer) \<Rightarrow> (row \<Rightarrow> row list \<Rightarrow> row list)
   \<Rightarrow> (row \<Rightarrow> row list \<Rightarrow> bool) \<Rightarrow> row \<Rightarrow> mem_enforcer \<Rightarrow> (err + bool) \<times> mem_enforcer" where
  "mem_call get put change changes w e =
     (let e' = e \<lparr> mem_fail := tl (mem_fail e) \<rparr>
      in if mem_fail e \<noteq> [] \<and> hd (mem_fail e) then (Inl (Foreign ''store down''), e')
         else (Inr (changes w (get e)), put (change w (get e)) e'))"

definition select_rows :: "(string \<Rightarrow> string \<Rightarrow> string \<Rightarrow> 'a list) \<Rightarrow> row list \<Rightarrow> 'a list" where
  "select_rows f ws = concat (map (\<lambda>w. case w of [s, r, d] \<Rightarrow> f s r d | _ \<Rightarrow> []) ws)"

lemma set_select_rows: "set (select_rows f ws) = {x. \<exists>s r d. [s, r, d] \<in> set ws \<and> x \<in> set (f s r d)}"
  by (induction ws) (auto simp: select_rows_def split: list.splits)

definition mem_casbin :: "mem_enforcer casbin" where
  "mem_casbin =
     \<lparr> AddGroupingPolicy = mem_call mem_g (\<lambda>x e. e \<lparr> mem_g := x \<rparr>) List.insert (\<lambda>w x. w \<notin> set x),
       RemoveGroupingPolicy = mem_call mem_g (\<lambda>x e. e \<lparr> mem_g := x \<rparr>) removeAll (\<lambda>w x. w \<in> set x),
       cb_AddPolicy = mem_call mem_p (\<lambda>x e. e \<lparr> mem_p := x \<rparr>) List.insert (\<lambda>w x. w \<notin> set x),
       cb_RemovePolicy = mem_call mem_p (\<lambda>x e. e \<lparr> mem_p := x \<rparr>) removeAll (\<lambda>w x. w \<in> set x),
       AddNamedGroupingPolicy = mem_call mem_g2 (\<lambda>x e. e \<lparr> mem_g2 := x \<rparr>) List.insert (\<lambda>w x. w \<notin> set x),
       GetGroupingPolicy = (\<lambda>e. Inr (mem_g e)), GetPolicy = (\<lambda>e. Inr (mem_p e)),
       GetRolesForUser = (\<lambda>s d e. Inr (select_rows (\<lambda>s' r d'. if s' = s \<and> d' = d then [r] else []) (mem_g e))),
       GetImplicitRolesForUser = (\<lambda>s d e. Inr []), GetImplicitPermissionsForUser = (\<lambda>s d e. Inr []),
       GetDomainsForUser = (\<lambda>s e. Inr (select_rows (\<lambda>s' r d. if s' = s then [d] else []) (mem_g e))),
       GetUsersForRole = (\<lambda>r d e. Inr (select_rows (\<lambda>s r' d'. if r' = r \<and> d' = d then [s] else []) (mem_g e))),
       cb_EnforceEx = (\<lambda>s d ob a e. Inr (rbac_allows (mem_g e) (mem_g2 e) (mem_p e) s d ob a, [])),
       NewModelFromString = (\<lambda>m. None),
       NewEnforcer = (\<lambda>m. Inr \<lparr> mem_g = [], mem_p = [], mem_g2 = [], mem_fail = [] \<rparr>),
       has_g2 = (\<lambda>e. True), g_rows = mem_g, p_rows = mem_p, g2_rows = mem_g2, err_text = (\<lambda>e. ''error'') \<rparr>"

lemma mem_casbin_ok: "casbin_ok mem_casbin"
  unfolding casbin_ok_def mutates_def
  by (intro conjI allI impI)
     (auto simp: mem_casbin_def mem_call_def same_rows_def Let_def set_select_rows split: if_splits)

text \<open>C12. A batch is applied whole or not at all: when \<open>Apply\<close> succeeds the role hierarchy of
  every domain granted into, the additions and then the removals are in effect; when it fails the
  policies are what they were, and so are the grants except for hierarchy rows it may have seeded;
  only an undo that failed itself, which the error then says, leaves more.\<close>

theorem Apply_atomic:
  assumes "casbin_ok C" and "Apply C update (Some e) = (r, a')" and "rows_of C e = (G, P, H)"
  defines "seeded \<equiv> (\<Union>g\<in>set (AddGroups update). hierarchy (gp_Domain g))"
  shows "\<exists>e'. a' = Some e' \<and>
    (case r of
       None \<Rightarrow> rows_of C e' = batch_rows update (G \<union> seeded, P, H)
     | Some x \<Rightarrow> incomplete x \<or> (\<exists>S\<subseteq>seeded. rows_of C e' = (G \<union> S, P, H)))"
proof -
  let ?seed = "each (\<lambda>g. ensureRoleHierarchy C (gp_Domain g)) (AddGroups update)"
  obtain r1 e1 where seed: "?seed e = (r1, e1)" by (cases "?seed e")
  have eff: "effects C (add_rows seeded) (grows seeded) ?seed"
    unfolding seeded_def by (rule each_adds, rule ensureRoleHierarchy_effect [OF assms(1)])
  show ?thesis
  proof (cases r1)
    case (Some x)
    with effectsD(2) [OF eff] seed assms(3) have g: "grows seeded (G, P, H) (rows_of C e1)" by fastforce
    obtain G1 P1 H1 where e1: "rows_of C e1 = (G1, P1, H1)" by (cases "rows_of C e1")
    from g e1 have "\<exists>S\<subseteq>seeded. rows_of C e1 = (G \<union> S, P, H)" by (intro exI [of _ "G1 - G"]) auto
    moreover have "r = Some x" "a' = Some e1"
      using Some seed assms(2) by (simp_all add: Apply_def with_enforcer_def)
    ultimately show ?thesis by simp
  next
    case None
    with effectsD(1) [OF eff] seed assms(3) have e1: "rows_of C e1 = (G \<union> seeded, P, H)" by fastforce
    obtain r2 e2 where b: "applyPolicyUpdate C update e1 = (r2, e2)" by (cases "applyPolicyUpdate C update e1")
    have res: "r = r2" "a' = Some e2"
      using assms(2) seed None b by (simp_all add: Apply_def with_enforcer_def)
    from applyPolicyUpdate_atomic [OF assms(1) b] e1 show ?thesis
      unfolding res by (cases r2) auto
  qed
qed

definition demo_update :: PolicyUpdate where
  "demo_update =
     \<lparr> AddGroups = [\<lparr> gp_Subject = ''u1'', gp_Role = RoleAdmin, gp_Domain = ''t'' \<rparr>], RemoveGroups = [],
       AddPolicies = [\<lparr> po_Subject = RoleUser, po_Domain = ''t'', po_Object = ''o'', po_Action = ActionRead,
         po_Effect = EffectAllow \<rparr>], RemovePolicies = [] \<rparr>"

definition demo_failing :: mem_enforcer where
  "demo_failing = \<lparr> mem_g = [], mem_p = [], mem_g2 = [], mem_fail = [False, False, False, False, True] \<rparr>"

text \<open>The second addition fails and the first is taken back; the hierarchy stays.\<close>

lemma Apply_atomic_witness:
  "\<exists>x e' S. Apply mem_casbin demo_update (Some demo_failing) = (Some x, Some e')
     \<and> S \<subseteq> hierarchy ''t'' \<and> rows_of mem_casbin e' = (S, {}, {})"
proof -
  obtain r a' where run: "Apply mem_casbin demo_update (Some demo_failing) = (r, a')"
    by (cases "Apply mem_casbin demo_update (Some demo_failing)")
  then have r: "\<exists>x. r = Some x \<and> \<not> incomplete x"
    by (simp add: Apply_def with_enforcer_def demo_update_def demo_failing_def ensureRoleHierarchy_def
        DefaultRoleHierarchy_def call_def mem_casbin_def mem_call_def applyPolicyUpdate_def applyAddGroup_def
        applyAddPolicy_def recorded_def rollback_def undo_apply_def groupArgs_def policyArgs_def
        role_defs wrapPolicyError_def incomplete_def) auto
  have "rows_of mem_casbin demo_failing = ({}, {}, {})"
    by (simp add: rows_of_def mem_casbin_def demo_failing_def)
  from Apply_atomic [OF mem_casbin_ok run this] r run show ?thesis
    by (fastforce simp: demo_update_def)
qed

end
