(* ===== verification/Casbin_Projection.thy ===== *)
theory Casbin_Projection
  imports Authz Aggregate
begin

text \<open>
  The projection that derives Casbin grants from events (\<open>usermgmt/es_casbin_projection.go\<close>).
  The abstract side is an access matrix:
  the roles each subject holds in each domain, changed by each event as \<open>grant_change\<close> says;
  \<open>casbin_projection_refines\<close> shows that the enforcer's grouping rows change as that matrix does.
\<close>

section \<open>The projection\<close>

definition casbin_decode ::
  "'raw event_env \<Rightarrow> (encoding \<Rightarrow> 'raw \<Rightarrow> err + 'p) \<Rightarrow> 'raw event \<Rightarrow> string \<Rightarrow> err + 'p" where
  "casbin_decode E dec evt name =
     map_err (\<lambda>e. wrap_error Corruption e ''usermgmt.casbin_projection.decode_failed''
       (''decode '' @ name @ '' in casbin projection'')) (UnmarshalPayload E dec evt)"

fun addRolesFor ::
  "'e casbin \<Rightarrow> string \<Rightarrow> string \<Rightarrow> role list \<Rightarrow> string \<Rightarrow> 'e authz \<Rightarrow> err option \<times> 'e authz" where
  "addRolesFor C subject domain [] errContext a = (None, a)"
| "addRolesFor C subject domain (role # roles) errContext a =
     (case ApplyGroupPolicy C \<lparr> gp_Subject = subject, gp_Role = role, gp_Domain = domain \<rparr> a of
        (Some e, a') \<Rightarrow>
          (Some (wrap_error Infrastructure e ''usermgmt.casbin_projection.add_policy_failed''
             (''add group policy '' @ errContext)), a')
      | (None, a') \<Rightarrow> addRolesFor C subject domain roles errContext a')"

definition removeAllRolesInDomain ::
  "'e casbin \<Rightarrow> string \<Rightarrow> string \<Rightarrow> string \<Rightarrow> 'e authz \<Rightarrow> err option \<times> 'e authz" where
  "removeAllRolesInDomain C subject domain errContext a =
     (case RemoveAllRolesInDomain C subject (NewTenantID domain) a of
        (Some e, a') \<Rightarrow>
          (Some (wrap_error Infrastructure e ''usermgmt.casbin_projection.remove_roles_failed''
             (''remove all roles for '' @ subject @ '' in '' @ domain @ '' ('' @ errContext @ '')'')), a')
      | (None, a') \<Rightarrow> (None, a'))"

fun clear_subjects ::
  "'e casbin \<Rightarrow> string \<Rightarrow> row list \<Rightarrow> string list \<Rightarrow> 'e authz \<Rightarrow> err option \<times> 'e authz" where
  "clear_subjects C domain [] cleared a = (None, a)"
| "clear_subjects C domain (row # rows) cleared a =
     (if length row \<noteq> 3 \<or> row ! 2 \<noteq> domain then clear_subjects C domain rows cleared a
      else if row ! 0 \<in> set cleared then clear_subjects C domain rows cleared a
      else (case removeAllRolesInDomain C (row ! 0) domain ''on tenant delete cascade'' a of
          (Some e, a') \<Rightarrow>
            (Some (wrap_error Infrastructure e ''usermgmt.casbin_projection.tenant_delete_failed''
               (''cascade roles for '' @ row ! 0 @ '' in deleted tenant '' @ domain)), a')
        | (None, a') \<Rightarrow> clear_subjects C domain rows (row ! 0 # cleared) a'))"

definition removeAllRolesForDomain :: "'e casbin \<Rightarrow> string \<Rightarrow> 'e authz \<Rightarrow> err option \<times> 'e authz" where
  "removeAllRolesForDomain C domain a =
     (case GroupPolicies C a of
        Inl e \<Rightarrow> (Some (wrap_error Infrastructure e ''usermgmt.casbin_projection.tenant_delete_failed''
                     (''enumerate policies for deleted tenant '' @ domain)), a)
      | Inr groups \<Rightarrow> clear_subjects C domain groups [] a)"

definition handleMembershipEvent ::
  "'raw event_env \<Rightarrow> 'e casbin \<Rightarrow> 'raw event \<Rightarrow> 'e authz \<Rightarrow> err option \<times> 'e authz" where
  "handleMembershipEvent E C evt a =
     (case evt_type evt of
        EventMemberAdded \<Rightarrow>
          (case casbin_decode E (dec_MemberAdded E) evt ''MemberAdded'' of
             Inl e \<Rightarrow> (Some e, a)
           | Inr d \<Rightarrow> addRolesFor C (ma_actor_id d) (ma_tenant_id d) (ma_roles d) ''on member added'' a)
      | EventMemberRolesChanged \<Rightarrow>
          (case casbin_decode E (dec_MemberRolesChanged E) evt ''MemberRolesChanged'' of
             Inl e \<Rightarrow> (Some e, a)
           | Inr d \<Rightarrow>
               (case removeAllRolesInDomain C (mc_actor_id d) (mc_tenant_id d) ''on member roles changed'' a of
                  (Some e, a') \<Rightarrow> (Some e, a')
                | (None, a') \<Rightarrow>
                    addRolesFor C (mc_actor_id d) (mc_tenant_id d) (mc_roles d) ''on member roles changed'' a'))
      | EventMemberRemoved \<Rightarrow>
          (case casbin_decode E (dec_MemberRemoved E) evt ''MemberRemoved'' of
             Inl e \<Rightarrow> (Some e, a)
           | Inr d \<Rightarrow> removeAllRolesInDomain C (mr_actor_id d) (mr_tenant_id d) ''on member removed'' a)
      | _ \<Rightarrow> (None, a))"

definition Handle_casbin ::
  "'raw event_env \<Rightarrow> 'e casbin \<Rightarrow> 'raw event \<Rightarrow> 'e authz \<Rightarrow> err option \<times> 'e authz" where
  "Handle_casbin E C evt a =
     (let subject = evt_stream evt
      in case evt_type evt of
        EventUserRegistered \<Rightarrow>
          (case casbin_decode E (dec_UserRegistered E) evt ''UserRegistered'' of
             Inl e \<Rightarrow> (Some e, a)
           | Inr d \<Rightarrow> addRolesFor C subject subject (ur_roles d) ''on register'' a)
      | EventRolesUpdated \<Rightarrow>
          (case casbin_decode E (dec_RolesUpdated E) evt ''RolesUpdated'' of
             Inl e \<Rightarrow> (Some e, a)
           | Inr d \<Rightarrow>
               let domain = (if ru_domain d = [] then subject else ru_domain d)
               in (case RemoveAllRolesInDomain C subject (NewTenantID domain) a of
                     (Some e, a') \<Rightarrow>
                       (Some (wrap_error Infrastructure e ''usermgmt.casbin_projection.remove_roles_failed''
                          (''remove old roles for '' @ subject @ '' in '' @ domain)), a')
                   | (None, a') \<Rightarrow> addRolesFor C subject domain (ru_roles d) ''on roles update'' a'))
      | EventUserDeleted \<Rightarrow>
          (case RemoveAllRolesForUser C subject a of
             (Some e, a') \<Rightarrow>
               (Some (wrap_error Infrastructure e ''usermgmt.casbin_projection.delete_failed''
                  ''delete user from casbin''), a')
           | (None, a') \<Rightarrow> (None, a'))
      | EventCredentialAdded \<Rightarrow> (None, a)
      | EventCredentialRemoved \<Rightarrow> (None, a)
      | EventExternalAccountLinked \<Rightarrow> (None, a)
      | EventExternalAccountUnlinked \<Rightarrow> (None, a)
      | EventMemberAdded \<Rightarrow> handleMembershipEvent E C evt a
      | EventMemberRolesChanged \<Rightarrow> handleMembershipEvent E C evt a
      | EventMemberRemoved \<Rightarrow> handleMembershipEvent E C evt a
      | EventTenantDeleted \<Rightarrow> removeAllRolesForDomain C subject a
      | EventBotDeleted \<Rightarrow>
          (case RemoveAllRolesForUser C subject a of
             (Some e, a') \<Rightarrow>
               (Some (wrap_error Infrastructure e ''usermgmt.casbin_projection.bot_delete_failed''
                  (''remove grouping policies for deleted bot '' @ subject)), a')
           | (None, a') \<Rightarrow> (None, a'))
      | _ \<Rightarrow> (None, a))"

section \<open>The access matrix\<close>

datatype grant_change =
    Grant string string "role list"
  | Replace string string "role list"
  | RevokeIn string string
  | RevokeSubject string
  | RevokeDomain string
  | NoChange

type_synonym matrix = "string \<Rightarrow> string \<Rightarrow> role set"

fun apply_change :: "grant_change \<Rightarrow> matrix \<Rightarrow> matrix" where
  "apply_change (Grant s d rs) M = (\<lambda>s' d'. if s' = s \<and> d' = d then M s' d' \<union> set rs else M s' d')"
| "apply_change (Replace s d rs) M = (\<lambda>s' d'. if s' = s \<and> d' = d then set rs else M s' d')"
| "apply_change (RevokeIn s d) M = (\<lambda>s' d'. if s' = s \<and> d' = d then {} else M s' d')"
| "apply_change (RevokeSubject s) M = (\<lambda>s' d'. if s' = s then {} else M s' d')"
| "apply_change (RevokeDomain d) M = (\<lambda>s' d'. if d' = d then {} else M s' d')"
| "apply_change NoChange M = M"

text \<open>What an event says about grants; an event that cannot be decoded says nothing.\<close>

definition decoded :: "err + 'p \<Rightarrow> ('p \<Rightarrow> grant_change) \<Rightarrow> grant_change" where
  "decoded r f = (case r of Inl e \<Rightarrow> NoChange | Inr p \<Rightarrow> f p)"

definition change_of :: "'raw event_env \<Rightarrow> 'raw event \<Rightarrow> grant_change" where
  "change_of E evt =
     (case evt_type evt of
        EventUserRegistered \<Rightarrow> decoded (UnmarshalPayload E (dec_UserRegistered E) evt)
          (\<lambda>p. Grant (evt_stream evt) (evt_stream evt) (ur_roles p))
      | EventRolesUpdated \<Rightarrow> decoded (UnmarshalPayload E (dec_RolesUpdated E) evt)
          (\<lambda>p. Replace (evt_stream evt) (if ru_domain p = [] then evt_stream evt else ru_domain p) (ru_roles p))
      | EventUserDeleted \<Rightarrow> RevokeSubject (evt_stream evt)
      | EventMemberAdded \<Rightarrow> decoded (UnmarshalPayload E (dec_MemberAdded E) evt)
          (\<lambda>p. Grant (ma_actor_id p) (ma_tenant_id p) (ma_roles p))
      | EventMemberRolesChanged \<Rightarrow> decoded (UnmarshalPayload E (dec_MemberRolesChanged E) evt)
          (\<lambda>p. Replace (mc_actor_id p) (mc_tenant_id p) (mc_roles p))
      | EventMemberRemoved \<Rightarrow> decoded (UnmarshalPayload E (dec_MemberRemoved E) evt)
          (\<lambda>p. RevokeIn (mr_actor_id p) (mr_tenant_id p))
      | EventTenantDeleted \<Rightarrow> RevokeDomain (evt_stream evt)
      | EventBotDeleted \<Rightarrow> RevokeSubject (evt_stream evt)
      | _ \<Rightarrow> NoChange)"

text \<open>The grouping rows as a matrix, up to the inheritance edges of the hierarchy: \<open>above s\<close> is the role a role named
  \<open>s\<close> inherits, which a domain is seeded with.\<close>

definition role_names :: "string set" where
  "role_names = fst ` set DefaultRoleHierarchy"

definition above :: "string \<Rightarrow> role set" where
  "above s = {r. (s, r) \<in> set DefaultRoleHierarchy}"

lemma above_none: "s \<notin> role_names \<Longrightarrow> above s = {}"
  by (force simp: above_def role_names_def)

definition granted :: "row set \<Rightarrow> matrix" where
  "granted G s d = {r. [s, r, d] \<in> G}"

definition holds_rows :: "'e casbin \<Rightarrow> 'e \<Rightarrow> matrix \<Rightarrow> bool" where
  "holds_rows C e M \<longleftrightarrow> (\<forall>s d. granted (fst (rows_of C e)) s d - above s = M s d - above s)"

lemma holds_rows_cong:
  "(\<And>s d. M s d - above s = M' s d - above s) \<Longrightarrow> holds_rows C e M = holds_rows C e M'"
  by (simp add: holds_rows_def)

text \<open>Handling an event that does not fail changes the rows as the matrix; the policies and the
  global role rows stay.\<close>

definition implements ::
  "'e casbin \<Rightarrow> ('e authz \<Rightarrow> err option \<times> 'e authz) \<Rightarrow> (matrix \<Rightarrow> matrix) \<Rightarrow> bool" where
  "implements C f c \<longleftrightarrow>
     (\<forall>e a' M. f (Some e) = (None, a') \<longrightarrow> holds_rows C e M \<longrightarrow>
        (\<exists>e'. a' = Some e' \<and> holds_rows C e' (c M) \<and> snd (rows_of C e') = snd (rows_of C e)))"

lemma implementsI:
  assumes "\<And>e a' M. f (Some e) = (None, a') \<Longrightarrow> holds_rows C e M \<Longrightarrow>
     \<exists>e'. a' = Some e' \<and> holds_rows C e' (c M) \<and> snd (rows_of C e') = snd (rows_of C e)"
  shows "implements C f c"
  using assms by (auto simp: implements_def)

lemma implementsD:
  "implements C f c \<Longrightarrow> f (Some e) = (None, a') \<Longrightarrow> holds_rows C e M \<Longrightarrow>
   \<exists>e'. a' = Some e' \<and> holds_rows C e' (c M) \<and> snd (rows_of C e') = snd (rows_of C e)"
  by (auto simp: implements_def)

lemma hierarchy_subject: "[s, r, d'] \<in> hierarchy d \<Longrightarrow> r \<in> above s"
  by (auto simp: hierarchy_def above_def)

lemma holds_rowsD: "holds_rows C e M \<Longrightarrow> r \<notin> above s \<Longrightarrow> [s, r, d] \<in> fst (rows_of C e) \<longleftrightarrow> r \<in> M s d"
  unfolding holds_rows_def granted_def by blast

lemma holds_rowsI: "(\<And>s r d. r \<notin> above s \<Longrightarrow> [s, r, d] \<in> fst (rows_of C e) \<longleftrightarrow> r \<in> M s d) \<Longrightarrow> holds_rows C e M"
  unfolding holds_rows_def granted_def by blast

lemma ApplyGroupPolicy_implements:
  assumes "casbin_ok C"
  shows "implements C (ApplyGroupPolicy C \<lparr> gp_Subject = s, gp_Role = r, gp_Domain = d \<rparr>)
    (apply_change (Grant s d [r]))"
proof (rule implementsI)
  fix e a' M
  let ?g = "\<lparr> gp_Subject = s, gp_Role = r, gp_Domain = d \<rparr>"
  assume run: "ApplyGroupPolicy C ?g (Some e) = (None, a')" and h: "holds_rows C e M"
  obtain e' where e': "apply_group C ?g e = (None, e')" "a' = Some e'"
    using run by (auto simp: ApplyGroupPolicy_def with_enforcer_def split: prod.splits)
  obtain G P H where rows: "rows_of C e = (G, P, H)" by (cases "rows_of C e")
  have rows': "rows_of C e' = (G \<union> insert [s, r, d] (hierarchy d), P, H)"
    using effectsD(1) [OF apply_group_effect [OF assms] e'(1)] by (simp add: rows groupArgs_def)
  have "holds_rows C e' (apply_change (Grant s d [r]) M)"
    using holds_rowsD [OF h] by (intro holds_rowsI) (auto simp: rows rows' dest: hierarchy_subject)
  with e'(2) rows rows' show "\<exists>e'. a' = Some e' \<and> holds_rows C e' (apply_change (Grant s d [r]) M)
      \<and> snd (rows_of C e') = snd (rows_of C e)" by simp
qed

lemma addRolesFor_implements:
  assumes "casbin_ok C"
  shows "implements C (addRolesFor C s d rs ctx) (apply_change (Grant s d rs))"
proof (rule implementsI, goal_cases)
  case (1 e a' M)
  then show ?case
  proof (induction rs arbitrary: e M)
    case Nil
    then show ?case by (intro exI [of _ e]) (auto simp: holds_rows_def)
  next
    case (Cons r rs)
    let ?g = "\<lparr> gp_Subject = s, gp_Role = r, gp_Domain = d \<rparr>"
    obtain x a1 where run: "ApplyGroupPolicy C ?g (Some e) = (x, a1)"
      by (cases "ApplyGroupPolicy C ?g (Some e)")
    with Cons.prems(1) have x: "x = None" and rest: "addRolesFor C s d rs ctx a1 = (None, a')"
      by (auto split: option.splits)
    from implementsD [OF ApplyGroupPolicy_implements [OF assms] run [unfolded x] Cons.prems(2)]
    obtain e1 where e1: "a1 = Some e1" "holds_rows C e1 (apply_change (Grant s d [r]) M)"
      "snd (rows_of C e1) = snd (rows_of C e)" by blast
    from Cons.IH [OF rest [unfolded e1(1)] e1(2)] e1(3) show ?case
      by (auto simp: holds_rows_def)
  qed
qed

lemma RemoveAllRolesInDomain_implements:
  assumes "casbin_ok C"
  shows "implements C (RemoveAllRolesInDomain C s (NewTenantID d)) (apply_change (RevokeIn s d))"
proof (rule implementsI)
  fix e a' M
  assume run: "RemoveAllRolesInDomain C s (NewTenantID d) (Some e) = (None, a')" and h: "holds_rows C e M"
  obtain e' where e': "remove_roles_in C s d e = (None, e')" "a' = Some e'"
    using run by (auto simp: RemoveAllRolesInDomain_def with_enforcer_def split: prod.splits)
  obtain G P H where rows: "rows_of C e = (G, P, H)" by (cases "rows_of C e")
  have rows': "rows_of C e' = (G - rows_in s d, P, H)"
    using effectsD(1) [OF remove_roles_in_effect [OF assms] e'(1)] by (simp add: rows)
  show "\<exists>e'. a' = Some e' \<and> holds_rows C e' (apply_change (RevokeIn s d) M)
      \<and> snd (rows_of C e') = snd (rows_of C e)"
    using holds_rowsD [OF h] e'(2) by (auto intro!: holds_rowsI simp: rows rows' rows_in_def split: if_splits)
qed

lemma removeAllRolesInDomain_implements:
  assumes "casbin_ok C"
  shows "implements C (removeAllRolesInDomain C s d ctx) (apply_change (RevokeIn s d))"
  using RemoveAllRolesInDomain_implements [OF assms, of s d]
  by (auto simp: implements_def removeAllRolesInDomain_def split: prod.splits option.splits)

lemma RemoveAllRolesForUser_implements:
  assumes "casbin_ok C"
  shows "implements C (RemoveAllRolesForUser C s) (apply_change (RevokeSubject s))"
proof (rule implementsI)
  fix e a' M
  assume run: "RemoveAllRolesForUser C s (Some e) = (None, a')" and h: "holds_rows C e M"
  obtain e' where e': "remove_roles C s e = (None, e')" "a' = Some e'"
    using run by (auto simp: RemoveAllRolesForUser_def with_enforcer_def split: prod.splits)
  obtain G P H where rows: "rows_of C e = (G, P, H)" by (cases "rows_of C e")
  have rows': "rows_of C e' = (G - rows_for s, P, H)"
    using effectsD(1) [OF remove_roles_effect [OF assms] e'(1)] by (simp add: rows)
  show "\<exists>e'. a' = Some e' \<and> holds_rows C e' (apply_change (RevokeSubject s) M)
      \<and> snd (rows_of C e') = snd (rows_of C e)"
    using holds_rowsD [OF h] e'(2) by (auto intro!: holds_rowsI simp: rows rows' rows_for_def image_iff split: if_splits)
qed

lemma clear_subjects_implements:
  assumes "casbin_ok C"
  shows "clear_subjects C d ws cleared (Some e) = (None, a') \<Longrightarrow> holds_rows C e M \<Longrightarrow>
    (\<And>s. s \<in> set cleared \<Longrightarrow> M s d \<subseteq> above s) \<Longrightarrow>
    \<exists>e'. a' = Some e' \<and> snd (rows_of C e') = snd (rows_of C e)
      \<and> holds_rows C e' (\<lambda>s d'. if d' = d \<and> (\<exists>r. [s, r, d] \<in> set ws) then {} else M s d')"
proof (induction ws arbitrary: cleared e M)
  case Nil
  then show ?case by (intro exI [of _ e]) (auto simp: holds_rows_def)
next
  case (Cons w ws)
  show ?case
  proof (cases "length w = 3 \<and> w ! 2 = d")
    case False
    then have ne: "[s, r, d] \<noteq> w" for s r by auto
    have run: "clear_subjects C d ws cleared (Some e) = (None, a')"
      using Cons.prems(1) False by (auto split: if_splits)
    have eq: "(\<exists>r. [s, r, d] \<in> set (w # ws)) = (\<exists>r. [s, r, d] \<in> set ws)" for s
      using ne by auto
    show ?thesis unfolding eq using Cons.IH [OF run Cons.prems(2)] Cons.prems(3) by blast
  next
    case True
    then obtain s r where w: "w = [s, r, d]" by (auto simp: numeral_3_eq_3 length_Suc_conv)
    show ?thesis
    proof (cases "s \<in> set cleared")
      case seen: True
      with Cons.prems w have run: "clear_subjects C d ws cleared (Some e) = (None, a')" by simp
      have eq: "holds_rows C e' (\<lambda>s d'. if d' = d \<and> (\<exists>r. [s, r, d] \<in> set (w # ws)) then {} else M s d')
          = holds_rows C e' (\<lambda>s d'. if d' = d \<and> (\<exists>r. [s, r, d] \<in> set ws) then {} else M s d')" for e'
        by (rule holds_rows_cong) (use Cons.prems(3) [OF seen] w in auto)
      show ?thesis unfolding eq using Cons.IH [OF run Cons.prems(2)] Cons.prems(3) by blast
    next
      case False
      obtain x a1 where run: "removeAllRolesInDomain C s d ''on tenant delete cascade'' (Some e) = (x, a1)"
        by (cases "removeAllRolesInDomain C s d ''on tenant delete cascade'' (Some e)")
      with Cons.prems(1) False w have x: "x = None"
        and rest: "clear_subjects C d ws (s # cleared) a1 = (None, a')"
        by (auto split: option.splits)
      from implementsD [OF removeAllRolesInDomain_implements [OF assms] run [unfolded x] Cons.prems(2)]
      obtain e1 where e1: "a1 = Some e1" "holds_rows C e1 (apply_change (RevokeIn s d) M)"
        "snd (rows_of C e1) = snd (rows_of C e)" by blast
      have "apply_change (RevokeIn s d) M s' d \<subseteq> above s'" if "s' \<in> set (s # cleared)" for s'
        using that Cons.prems(3) by auto
      from Cons.IH [OF rest [unfolded e1(1)] e1(2) this] obtain e' where e': "a' = Some e'"
        "snd (rows_of C e') = snd (rows_of C e)"
        "holds_rows C e' (\<lambda>s' d'. if d' = d \<and> (\<exists>r. [s', r, d] \<in> set ws) then {}
          else apply_change (RevokeIn s d) M s' d')" using e1(3) by auto
      have "holds_rows C e' (\<lambda>s' d'. if d' = d \<and> (\<exists>r. [s', r, d] \<in> set (w # ws)) then {} else M s' d')"
        using e'(3) by (rule holds_rows_cong [THEN iffD1, rotated]) (auto simp: w)
      with e'(1,2) show ?thesis by blast
    qed
  qed
qed

lemma removeAllRolesForDomain_implements:
  assumes "casbin_ok C"
  shows "implements C (removeAllRolesForDomain C d) (apply_change (RevokeDomain d))"
proof (rule implementsI)
  fix e a' M
  assume run: "removeAllRolesForDomain C d (Some e) = (None, a')" and h: "holds_rows C e M"
  obtain ws where ws: "GetGroupingPolicy C e = Inr ws" "clear_subjects C d ws [] (Some e) = (None, a')"
    using run by (cases "GetGroupingPolicy C e") (auto simp: removeAllRolesForDomain_def GroupPolicies_def)
  have all: "\<not> (\<exists>r. [s, r, d] \<in> set ws) \<Longrightarrow> M s d \<subseteq> above s" for s
    using holds_rowsD [OF h] casbin_getters(1) [OF assms ws(1)] by auto
  from clear_subjects_implements [OF assms ws(2) h] obtain e' where
    "a' = Some e'" "snd (rows_of C e') = snd (rows_of C e)"
    "holds_rows C e' (\<lambda>s d'. if d' = d \<and> (\<exists>r. [s, r, d] \<in> set ws) then {} else M s d')" by auto
  moreover from this(3) have "holds_rows C e' (apply_change (RevokeDomain d) M)"
    by (rule holds_rows_cong [THEN iffD1, rotated]) (use all in auto)
  ultimately show "\<exists>e'. a' = Some e' \<and> holds_rows C e' (apply_change (RevokeDomain d) M)
      \<and> snd (rows_of C e') = snd (rows_of C e)" by blast
qed

lemma implements_then:
  assumes "implements C f c" and "implements C g c'"
  shows "implements C (\<lambda>a. case f a of (Some x, a') \<Rightarrow> (Some (h x), a') | (None, a') \<Rightarrow> g a') (\<lambda>M. c' (c M))"
proof (rule implementsI)
  fix e a' M
  assume run: "(case f (Some e) of (Some x, a') \<Rightarrow> (Some (h x), a') | (None, a') \<Rightarrow> g a') = (None, a')"
    and h: "holds_rows C e M"
  obtain x a1 where f: "f (Some e) = (x, a1)" by (cases "f (Some e)")
  with run have x: "x = None" and g: "g a1 = (None, a')" by (auto split: option.splits)
  from implementsD [OF assms(1) f [unfolded x] h] obtain e1 where
    e1: "a1 = Some e1" "holds_rows C e1 (c M)" "snd (rows_of C e1) = snd (rows_of C e)" by blast
  from implementsD [OF assms(2) g [unfolded e1(1)] e1(2)] e1(3)
  show "\<exists>e'. a' = Some e' \<and> holds_rows C e' (c' (c M)) \<and> snd (rows_of C e') = snd (rows_of C e)" by auto
qed

lemma implements_same: "implements C (\<lambda>a. (None, a)) (\<lambda>M. M)"
  by (simp add: implements_def)

lemma implements_fails: "implements C (\<lambda>a. (Some x, a)) c"
  by (simp add: implements_def)

lemma Replace_change:
  "apply_change (Replace s d rs) = (\<lambda>M. apply_change (Grant s d rs) (apply_change (RevokeIn s d) M))"
  by (simp add: fun_eq_iff)

lemma casbin_decode_cases:
  "casbin_decode E dec evt name = Inr p \<longleftrightarrow> UnmarshalPayload E dec evt = Inr p"
  by (simp add: casbin_decode_def)

lemma implements_decoded:
  assumes "\<And>d. implements C (f d) (apply_change (c d))"
  shows "implements C (\<lambda>a. case casbin_decode E dec evt name of Inl e \<Rightarrow> (Some e, a) | Inr d \<Rightarrow> f d a)
      (apply_change (decoded (UnmarshalPayload E dec evt) c))"
  using assms by (cases "UnmarshalPayload E dec evt")
    (simp_all add: casbin_decode_def decoded_def implements_fails)

lemma implements_replaced:
  assumes "casbin_ok C" and "implements C f (apply_change (RevokeIn s d))"
  shows "implements C (\<lambda>a. case f a of (Some x, a') \<Rightarrow> (Some (h x), a')
      | (None, a') \<Rightarrow> addRolesFor C s d rs ctx a') (apply_change (Replace s d rs))"
  unfolding Replace_change by (rule implements_then [OF assms(2) addRolesFor_implements [OF assms(1)]])

lemma implements_tail:
  assumes "implements C f c"
  shows "implements C (\<lambda>a. case f a of (Some x, a') \<Rightarrow> (Some (h x), a') | (None, a') \<Rightarrow> (None, a')) c"
  using implements_then [OF assms implements_same] by simp

lemma implements_none: "implements C (\<lambda>a. (None, a)) (apply_change NoChange)"
  by (simp add: implements_def)

lemmas implements_intros =
  implements_decoded implements_replaced implements_tail implements_none addRolesFor_implements
  removeAllRolesInDomain_implements RemoveAllRolesInDomain_implements RemoveAllRolesForUser_implements
  removeAllRolesForDomain_implements

lemma Handle_casbin_implements:
  assumes "casbin_ok C"
  shows "implements C (Handle_casbin E C evt) (apply_change (change_of E evt))"
proof (cases "evt_type evt")
  case EventRolesUpdated
  have "implements C (\<lambda>a. let domain = (if ru_domain d = [] then evt_stream evt else ru_domain d)
      in (case RemoveAllRolesInDomain C (evt_stream evt) (NewTenantID domain) a of
         (Some e, a') \<Rightarrow>
           (Some (wrap_error Infrastructure e ''usermgmt.casbin_projection.remove_roles_failed''
              (''remove old roles for '' @ evt_stream evt @ '' in '' @ domain)), a')
       | (None, a') \<Rightarrow> addRolesFor C (evt_stream evt) domain (ru_roles d) ''on roles update'' a'))
    (apply_change (Replace (evt_stream evt) (if ru_domain d = [] then evt_stream evt else ru_domain d) (ru_roles d)))" for d
    unfolding Let_def by (intro implements_replaced RemoveAllRolesInDomain_implements assms)
  from implements_decoded [OF this] EventRolesUpdated show ?thesis
    by (simp add: Handle_casbin_def [abs_def] change_of_def Let_def)
next
  case EventMemberRolesChanged
  then show ?thesis
    unfolding Handle_casbin_def [abs_def] handleMembershipEvent_def change_of_def Let_def
    by (simp, intro implements_decoded)
      (use implements_replaced [OF assms removeAllRolesInDomain_implements [OF assms], where h = "\<lambda>x. x"] in simp)
qed (auto simp: Handle_casbin_def [abs_def] handleMembershipEvent_def change_of_def Let_def assms
       intro!: implements_intros)

section \<open>The grants are the matrix of the events\<close>

fun project :: "'raw event_env \<Rightarrow> 'e casbin \<Rightarrow> 'raw event list \<Rightarrow> 'e authz \<Rightarrow> err option \<times> 'e authz" where
  "project E C [] a = (None, a)"
| "project E C (evt # es) a =
     (case Handle_casbin E C evt a of (Some x, a') \<Rightarrow> (Some x, a') | (None, a') \<Rightarrow> project E C es a')"

definition matrix_after :: "'raw event_env \<Rightarrow> 'raw event list \<Rightarrow> matrix \<Rightarrow> matrix" where
  "matrix_after E es = fold (\<lambda>evt. apply_change (change_of E evt)) es"

lemma project_implements:
  assumes "casbin_ok C"
  shows "implements C (project E C es) (matrix_after E es)"
proof (induction es)
  case Nil
  show ?case by (simp add: matrix_after_def implements_def)
next
  case (Cons evt es)
  from implements_then [OF Handle_casbin_implements [OF assms] Cons.IH, where h = "\<lambda>x. x"]
  show ?case by (simp add: matrix_after_def comp_def fun_eq_iff [symmetric] implements_def)
qed

lemma project_matrix:
  assumes "casbin_ok C" and "project E C es (Some e) = (None, a')" and "holds_rows C e M"
  shows "\<exists>e'. a' = Some e' \<and> snd (rows_of C e') = snd (rows_of C e) \<and> holds_rows C e' (matrix_after E es M)"
  using implementsD [OF project_implements [OF assms(1)] assms(2,3)] by blast

lemma holds_own: "holds_rows C e (granted (fst (rows_of C e)))"
  by (simp add: holds_rows_def)

text \<open>C10. The projection is the access matrix of the events: whatever rows the enforcer held, when the projection has
  handled a list of events the grouping rows of every subject in every domain are exactly what the events make of
  them, and the policies are untouched. All this is up to the inheritance edges from a role to the next, with which
  domains are seeded.\<close>

theorem casbin_projection_refines:
  assumes "casbin_ok C" and "project E C es (Some e) = (None, a')"
  shows "\<exists>e'. a' = Some e' \<and> snd (rows_of C e') = snd (rows_of C e)
    \<and> (\<forall>s d. granted (fst (rows_of C e')) s d - above s
          = matrix_after E es (granted (fst (rows_of C e))) s d - above s)"
  using project_matrix [OF assms holds_own] by (auto simp: holds_rows_def)

section \<open>Decisions\<close>

lemma case_three:
  "(case w of [a, b, c] \<Rightarrow> P a b c | _ \<Rightarrow> False) \<longleftrightarrow> (\<exists>a b c. w = [a, b, c] \<and> P a b c)"
  by (auto split: list.splits)

lemma case_two: "(case w of [a, b] \<Rightarrow> P a b | _ \<Rightarrow> False) \<longleftrightarrow> (\<exists>a b. w = [a, b] \<and> P a b)"
  by (auto split: list.splits)

lemma g_reach_Suc:
  "g_reach (Suc n) g d s r \<longleftrightarrow> s = r \<or> (\<exists>x. [s, x, d] \<in> set g \<and> g_reach n g d x r)"
  by (auto simp: case_three list_ex_iff)

lemma g2_reach_Suc:
  "g2_reach (Suc n) g2 s r \<longleftrightarrow> s = r \<or> (\<exists>x. [s, x] \<in> set g2 \<and> g2_reach n g2 x r)"
  by (auto simp: case_two list_ex_iff)

lemma max_depth_Suc: "max_depth = Suc (Suc (Suc (Suc 6)))"
  by (simp add: max_depth_def)

text \<open>A subject without a grant in the domain reaches itself only.\<close>

lemma ungranted_reach:
  assumes "granted (set g) s d = {}" and "\<forall>x. [s, x] \<notin> set g2"
  shows "g_reach max_depth g d s r \<longleftrightarrow> s = r" "g2_reach max_depth g2 s r \<longleftrightarrow> s = r"
  unfolding max_depth_Suc g_reach_Suc [of "Suc (Suc (Suc 6))"] g2_reach_Suc [of "Suc (Suc (Suc 6))"]
  using assms by (auto simp: granted_def)

definition names_subject :: "string \<Rightarrow> row list \<Rightarrow> bool" where
  "names_subject s p \<longleftrightarrow> list_ex (\<lambda>w. w \<noteq> [] \<and> (hd w = s \<or> hd w = ''*'')) p"

lemma ungranted_denied:
  assumes "granted (set g) s d = {}" and "\<forall>x. [s, x] \<notin> set g2" and "\<not> names_subject s p"
  shows "\<not> rbac_allows g g2 p s d obj act"
proof -
  have "\<not> row_matches g g2 s d obj act w" if "w \<in> set p" for w
    using assms(3) that ungranted_reach [OF assms(1,2)]
    by (auto simp: row_matches_def names_subject_def list_ex_iff split: list.splits)
  then show ?thesis by (auto simp: rbac_allows_def list_ex_iff)
qed

lemma rows_sets: "set (g_rows C e) = fst (rows_of C e)" "set (p_rows C e) = fst (snd (rows_of C e))"
  "set (g2_rows C e) = snd (snd (rows_of C e))"
  by (simp_all add: rows_of_def)

text \<open>C11. A subject that is not named like a role is refused every action in a domain where the rows there were before
  and the events leave it no role (it was never a member, it was removed, or the user, the bot or the tenant was
  deleted), as long as no policy names it or everyone, and no global role row does.\<close>

theorem ungranted_subject_refused:
  assumes "casbin_ok C" and "project E C es (Some e) = (None, a')"
    and "s \<notin> role_names" and "matrix_after E es (granted (fst (rows_of C e))) s d = {}"
    and "\<forall>x. [s, x] \<notin> set (g2_rows C e)" and "\<not> names_subject s (p_rows C e)"
  shows "Authorize C s d obj act a' \<noteq> None"
proof -
  from project_matrix [OF assms(1,2) holds_own] obtain e' where e': "a' = Some e'"
    "snd (rows_of C e') = snd (rows_of C e)" "holds_rows C e' (matrix_after E es (granted (fst (rows_of C e))))" by blast
  have "granted (set (g_rows C e')) s d = {}"
    using holds_rowsD [OF e'(3), of _ s d] above_none [OF assms(3)] assms(4) by (auto simp: granted_def rows_sets)
  moreover have "\<forall>x. [s, x] \<notin> set (g2_rows C e')" using assms(5) e'(2) by (simp add: rows_sets)
  moreover have "\<not> names_subject s (p_rows C e')"
    using assms(6) e'(2) by (simp add: names_subject_def list_ex_iff rows_sets)
  ultimately have deny: "\<not> rbac_allows (g_rows C e') (g2_rows C e') (p_rows C e') s d obj act"
    by (rule ungranted_denied)
  have "cb_EnforceEx C s d obj act e' = Inr (b, ms) \<Longrightarrow> \<not> b" for b ms
    using assms(1) deny by (auto simp: casbin_ok_def)
  then show ?thesis
    by (cases "cb_EnforceEx C s d obj act e'") (auto simp: e'(1) Authorize_def Enforce_def)
qed

text \<open>The demonstration: a user registered with two roles, a tenant member, the tenant deleted.\<close>

definition demo_casbin_event :: "event_type \<Rightarrow> stream_id \<Rightarrow> payload \<Rightarrow> payload event" where
  "demo_casbin_event t s p =
     \<lparr> evt_type = t, evt_stream = s, evt_stream_type = AggregateTypeUser, evt_version = 1,
       evt_payload = p, evt_encoding = EncodingJSON, evt_occurred_at = 0 \<rparr>"

definition demo_member :: "string \<Rightarrow> role list \<Rightarrow> payload event" where
  "demo_member actor rs = demo_casbin_event EventMemberAdded ''m'' (PMemberAdded
     \<lparr> ma_schema_version = 2, ma_actor_kind = ''user'', ma_actor_id = actor, ma_tenant_id = ''t'', ma_roles = rs \<rparr>)"

definition demo_tenant_deleted :: "payload event" where
  "demo_tenant_deleted = demo_casbin_event EventTenantDeleted ''t''
     (PTenantDeleted \<lparr> tx_schema_version = 2, tx_reason = [] \<rparr>)"

definition demo_authz :: mem_enforcer where
  "demo_authz = \<lparr> mem_g = [], mem_p = map policyArgs DefaultPolicies, mem_g2 = [], mem_fail = [] \<rparr>"

lemma demo_authz_empty: "holds_rows mem_casbin demo_authz (\<lambda>s d. {})"
  by (simp add: holds_rows_def granted_def rows_of_def mem_casbin_def demo_authz_def)

lemma demo_authz_rows: "granted (fst (rows_of mem_casbin demo_authz)) = (\<lambda>s d. {})"
  by (simp add: fun_eq_iff granted_def rows_of_def mem_casbin_def demo_authz_def)

text \<open>Calls on the in-memory enforcer when no failure is scripted.\<close>

lemma calm_add:
  "mem_fail e = [] \<Longrightarrow> call (AddGroupingPolicy mem_casbin w) wrap e =
     (None, e \<lparr> mem_g := List.insert w (mem_g e) \<rparr>)"
  by (cases e) (simp add: call_def mem_casbin_def mem_call_def Let_def)

lemma calm_remove:
  "mem_fail e = [] \<Longrightarrow> call (RemoveGroupingPolicy mem_casbin w) wrap e =
     (None, e \<lparr> mem_g := removeAll w (mem_g e) \<rparr>)"
  by (cases e) (simp add: call_def mem_casbin_def mem_call_def Let_def)

lemma calm_roles:
  "GetRolesForUser mem_casbin s d e = Inr (select_rows (\<lambda>s' r d'. if s' = s \<and> d' = d then [r] else []) (mem_g e))"
  "GetGroupingPolicy mem_casbin e = Inr (mem_g e)"
  by (simp_all add: mem_casbin_def)

lemmas calm = calm_add calm_remove calm_roles

lemma calm_group:
  assumes "mem_fail e = []"
  shows "\<exists>e'. ApplyGroupPolicy mem_casbin g (Some e) = (None, Some e') \<and> mem_fail e' = []
    \<and> mem_p e' = mem_p e"
  using assms
  by (simp add: ApplyGroupPolicy_def with_enforcer_def apply_group_def ensureRoleHierarchy_def
      DefaultRoleHierarchy_def calm)

lemma calm_removes:
  "mem_fail e = [] \<Longrightarrow> \<exists>e'. each (\<lambda>r. call (RemoveGroupingPolicy mem_casbin (f r)) (w r)) rs e = (None, e')
     \<and> mem_fail e' = []"
  by (induction rs arbitrary: e) (simp_all add: calm)

lemma calm_clear:
  "mem_fail e = [] \<Longrightarrow> \<exists>e'. removeAllRolesInDomain mem_casbin s d ctx (Some e) = (None, Some e') \<and> mem_fail e' = []"
  using calm_removes [of e "\<lambda>r. [s, r, d]" "\<lambda>r x. casbin_error x (group_text s r d)"
      "select_rows (\<lambda>s' r d'. if s' = s \<and> d' = d then [r] else []) (mem_g e)"]
  by (auto simp: removeAllRolesInDomain_def RemoveAllRolesInDomain_def with_enforcer_def
      remove_roles_in_def calm)

lemma calm_subjects:
  "mem_fail e = [] \<Longrightarrow> fst (clear_subjects mem_casbin d ws cleared (Some e)) = None"
proof (induction ws arbitrary: cleared e)
  case (Cons w ws)
  obtain e' where "removeAllRolesInDomain mem_casbin (w ! 0) d ''on tenant delete cascade'' (Some e) = (None, Some e')"
    "mem_fail e' = []" using calm_clear [OF Cons.prems] by blast
  with Cons show ?case by simp
qed simp

lemmas demo_casbin_simps =
  Handle_casbin_def handleMembershipEvent_def casbin_decode_def UnmarshalPayload_def applyUpcasters_def
  demo_env_def demo_member_def demo_tenant_deleted_def demo_casbin_event_def

lemma demo_member_projects:
  "\<exists>e'. project demo_env mem_casbin [demo_member s [r]] (Some demo_authz) = (None, Some e')
     \<and> mem_fail e' = []"
proof -
  have "mem_fail demo_authz = []" by (simp add: demo_authz_def)
  from calm_group [OF this, of "\<lparr> gp_Subject = s, gp_Role = r, gp_Domain = ''t'' \<rparr>"] obtain e' where
    "ApplyGroupPolicy mem_casbin \<lparr> gp_Subject = s, gp_Role = r, gp_Domain = ''t'' \<rparr> (Some demo_authz) = (None, Some e')"
    "mem_fail e' = []" by blast
  moreover have "Handle_casbin demo_env mem_casbin (demo_member s [r]) a =
      addRolesFor mem_casbin s ''t'' [r] ''on member added'' a" for a
    by (simp add: demo_casbin_simps)
  ultimately show ?thesis by simp
qed

lemma project_append:
  "project E C (es @ fs) a =
     (case project E C es a of (Some x, a') \<Rightarrow> (Some x, a') | (None, a') \<Rightarrow> project E C fs a')"
  by (induction es arbitrary: a) (auto split: prod.splits option.splits)

lemma demo_deleted_projects:
  "\<exists>a'. project demo_env mem_casbin [demo_member ''u1'' [RoleAdmin], demo_tenant_deleted] (Some demo_authz) = (None, a')"
proof -
  obtain e' where e': "project demo_env mem_casbin [demo_member ''u1'' [RoleAdmin]] (Some demo_authz) = (None, Some e')"
    "mem_fail e' = []" using demo_member_projects by blast
  have "Handle_casbin demo_env mem_casbin demo_tenant_deleted (Some e') =
      clear_subjects mem_casbin ''t'' (mem_g e') [] (Some e')"
    by (simp add: Handle_casbin_def demo_tenant_deleted_def demo_casbin_event_def removeAllRolesForDomain_def
        GroupPolicies_def calm)
  with calm_subjects [OF e'(2), of "''t''" "mem_g e'" "[]"]
  have "fst (project demo_env mem_casbin [demo_tenant_deleted] (Some e')) = None"
    by (cases "clear_subjects mem_casbin ''t'' (mem_g e') [] (Some e')") simp
  with project_append [of demo_env mem_casbin "[demo_member ''u1'' [RoleAdmin]]" "[demo_tenant_deleted]"] e'(1)
  show ?thesis by (cases "project demo_env mem_casbin [demo_tenant_deleted] (Some e')") (simp del: project.simps)
qed

lemma casbin_projection_refines_witness:
  "\<exists>e'. granted (fst (rows_of mem_casbin e')) ''u1'' ''t'' = {RoleUser}"
proof -
  obtain a' where run: "project demo_env mem_casbin [demo_member ''u1'' [RoleUser]] (Some demo_authz) = (None, a')"
    using demo_member_projects [of "''u1''" RoleUser] by blast
  have "matrix_after demo_env [demo_member ''u1'' [RoleUser]] (\<lambda>s d. {}) ''u1'' ''t'' = {RoleUser}"
    by (simp add: matrix_after_def change_of_def decoded_def demo_casbin_simps)
  moreover have "above ''u1'' = {}" by (rule above_none) (simp add: role_names_def DefaultRoleHierarchy_def role_defs)
  ultimately show ?thesis
    using casbin_projection_refines [OF mem_casbin_ok run] unfolding demo_authz_rows by (metis Diff_empty)
qed

lemma ungranted_subject_refused_witness:
  "\<exists>a'. project demo_env mem_casbin [demo_member ''u1'' [RoleAdmin], demo_tenant_deleted] (Some demo_authz) = (None, a')
     \<and> Authorize mem_casbin ''u1'' ''t'' ''orders'' ActionRead a' \<noteq> None"
proof -
  obtain a' where run: "project demo_env mem_casbin [demo_member ''u1'' [RoleAdmin], demo_tenant_deleted] (Some demo_authz) = (None, a')"
    using demo_deleted_projects by blast
  have "matrix_after demo_env [demo_member ''u1'' [RoleAdmin], demo_tenant_deleted] (\<lambda>s d. {}) ''u1'' ''t'' = {}"
    by (simp add: matrix_after_def change_of_def decoded_def demo_casbin_simps)
  moreover have "''u1'' \<notin> role_names" by (simp add: role_names_def DefaultRoleHierarchy_def role_defs)
  moreover have "\<forall>x. [''u1'', x] \<notin> set (g2_rows mem_casbin demo_authz)"
    "\<not> names_subject ''u1'' (p_rows mem_casbin demo_authz)"
    by (simp_all add: mem_casbin_def demo_authz_def names_subject_def DefaultPolicies_def policyArgs_def role_defs)
  ultimately show ?thesis
    using ungranted_subject_refused [OF mem_casbin_ok run] run unfolding demo_authz_rows by blast
qed

section \<open>What a grant gives\<close>

lemma g_reach_4:
  "g_reach (Suc (Suc (Suc (Suc n)))) g d s r \<longleftrightarrow> s = r \<or> (\<exists>x. [s, x, d] \<in> set g
     \<and> (x = r \<or> (\<exists>y. [x, y, d] \<in> set g \<and> (y = r \<or> (\<exists>z. [y, z, d] \<in> set g
     \<and> (z = r \<or> (\<exists>u. [z, u, d] \<in> set g \<and> g_reach n g d u r)))))))"
  by (simp only: g_reach_Suc)

lemma g_reach_max:
  "s = r \<Longrightarrow> g_reach max_depth g d s r"
  "[s, x, d] \<in> set g \<Longrightarrow> g_reach max_depth g d s x"
  "[s, x, d] \<in> set g \<Longrightarrow> [x, y, d] \<in> set g \<Longrightarrow> g_reach max_depth g d s y"
  "[s, x, d] \<in> set g \<Longrightarrow> [x, y, d] \<in> set g \<Longrightarrow> [y, z, d] \<in> set g \<Longrightarrow> g_reach max_depth g d s z"
  "[s, x, d] \<in> set g \<Longrightarrow> [x, y, d] \<in> set g \<Longrightarrow> [y, z, d] \<in> set g \<Longrightarrow> [z, u, d] \<in> set g
    \<Longrightarrow> g_reach max_depth g d s u"
proof -
  have zero: "g_reach 6 g d u u" by (simp add: eval_nat_numeral)
  show "s = r \<Longrightarrow> g_reach max_depth g d s r"
    "[s, x, d] \<in> set g \<Longrightarrow> g_reach max_depth g d s x"
    "[s, x, d] \<in> set g \<Longrightarrow> [x, y, d] \<in> set g \<Longrightarrow> g_reach max_depth g d s y"
    "[s, x, d] \<in> set g \<Longrightarrow> [x, y, d] \<in> set g \<Longrightarrow> [y, z, d] \<in> set g \<Longrightarrow> g_reach max_depth g d s z"
    "[s, x, d] \<in> set g \<Longrightarrow> [x, y, d] \<in> set g \<Longrightarrow> [y, z, d] \<in> set g \<Longrightarrow> [z, u, d] \<in> set g
      \<Longrightarrow> g_reach max_depth g d s u"
    unfolding max_depth_Suc g_reach_4 using zero by blast+
qed

definition below :: "role \<Rightarrow> role list" where
  "below r = (if r = RoleSuperAdmin then [RoleSuperAdmin, RoleAdmin, RoleUser, RoleViewer]
     else if r = RoleAdmin then [RoleAdmin, RoleUser, RoleViewer]
     else if r = RoleUser then [RoleUser, RoleViewer] else [r])"

lemma hierarchy_rows:
  "hierarchy d = {[RoleSuperAdmin, RoleAdmin, d], [RoleAdmin, RoleUser, d], [RoleUser, RoleViewer, d]}"
  by (auto simp: hierarchy_def DefaultRoleHierarchy_def)

lemma g_reach_below:
  assumes "[s, r, d] \<in> set g" and "hierarchy d \<subseteq> set g" and "r' \<in> set (below r)"
  shows "g_reach max_depth g d s r'"
proof -
  have h: "[RoleSuperAdmin, RoleAdmin, d] \<in> set g" "[RoleAdmin, RoleUser, d] \<in> set g"
    "[RoleUser, RoleViewer, d] \<in> set g"
    using assms(2) by (simp_all add: hierarchy_rows)
  from assms(3) consider "r' = r" | "r = RoleSuperAdmin" "r' \<in> {RoleAdmin, RoleUser, RoleViewer}"
    | "r = RoleAdmin" "r' \<in> {RoleUser, RoleViewer}" | "r = RoleUser" "r' = RoleViewer"
    by (auto simp: below_def split: if_splits)
  then show ?thesis
    by cases (use assms(1) h in \<open>auto intro: g_reach_max\<close>)
qed

text \<open>A role granted in a domain carries the permissions of the roles below it there: once
  \<open>ApplyGroupPolicy\<close> has granted it, every action a policy allows a lower role in that domain is
  allowed to the subject, unless some policy denies.\<close>

theorem grant_inherits:
  assumes "casbin_ok C"
    and "ApplyGroupPolicy C \<lparr> gp_Subject = s, gp_Role = r, gp_Domain = d \<rparr> (Some e) = (None, Some e')"
    and "r' \<in> set (below r)" and "[r', d, obj, act, EffectAllow] \<in> set (p_rows C e)"
    and "list_all (\<lambda>w. w \<noteq> [] \<and> last w \<noteq> EffectDeny) (p_rows C e)"
    and "Enforce C s d obj act (Some e') = Inr b"
  shows b
proof -
  obtain G P H where rows: "rows_of C e = (G, P, H)" by (cases "rows_of C e")
  have "apply_group C \<lparr> gp_Subject = s, gp_Role = r, gp_Domain = d \<rparr> e = (None, e')"
    using assms(2) by (auto simp: ApplyGroupPolicy_def with_enforcer_def split: prod.splits)
  from effectsD(1) [OF apply_group_effect [OF assms(1)] this]
  have rows': "rows_of C e' = (G \<union> insert [s, r, d] (hierarchy d), P, H)"
    by (simp add: rows groupArgs_def)
  have g: "[s, r, d] \<in> set (g_rows C e')" "hierarchy d \<subseteq> set (g_rows C e')"
    and p: "set (p_rows C e') = set (p_rows C e)"
    using rows rows' by (auto simp: rows_sets)
  have key: "keyMatch obj obj" by (induction obj) auto
  have "row_matches (g_rows C e') (g2_rows C e') s d obj act [r', d, obj, act, EffectAllow]"
    using g_reach_below [OF g assms(3)] by (simp add: row_matches_def key)
  moreover have "[r', d, obj, act, EffectAllow] \<in> set (p_rows C e')" using assms(4) p by simp
  moreover have "\<not> (w \<in> set (p_rows C e') \<and> last w = EffectDeny)" for w
    using assms(5) p by (auto simp: list_all_iff)
  ultimately have "rbac_allows (g_rows C e') (g2_rows C e') (p_rows C e') s d obj act"
    unfolding rbac_allows_def list_ex_iff by (metis last.simps list.distinct(1))
  moreover have "\<exists>ms. cb_EnforceEx C s d obj act e' = Inr (b, ms)"
    using assms(6) by (cases "cb_EnforceEx C s d obj act e'") (auto simp: Enforce_def)
  ultimately show b using assms(1) by (auto simp: casbin_ok_def)
qed

definition demo_policies :: mem_enforcer where
  "demo_policies = \<lparr> mem_g = [], mem_p = [[RoleViewer, ''t'', ''orders'', ActionRead, EffectAllow]],
     mem_g2 = [], mem_fail = [] \<rparr>"

lemma grant_inherits_witness:
  "\<exists>e'. ApplyGroupPolicy mem_casbin \<lparr> gp_Subject = ''u1'', gp_Role = RoleAdmin, gp_Domain = ''t'' \<rparr>
       (Some demo_policies) = (None, Some e')
     \<and> Enforce mem_casbin ''u1'' ''t'' ''orders'' ActionRead (Some e') = Inr True"
proof -
  obtain e' where e': "ApplyGroupPolicy mem_casbin \<lparr> gp_Subject = ''u1'', gp_Role = RoleAdmin, gp_Domain = ''t'' \<rparr>
       (Some demo_policies) = (None, Some e')"
    using calm_group [of demo_policies] by (auto simp: demo_policies_def)
  obtain x where x: "Enforce mem_casbin ''u1'' ''t'' ''orders'' ActionRead (Some e') = Inr x"
    by (auto simp: Enforce_def mem_casbin_def)
  have rows: "p_rows mem_casbin demo_policies = [[RoleViewer, ''t'', ''orders'', ActionRead, EffectAllow]]"
    by (simp add: mem_casbin_def demo_policies_def)
  have viewer: "RoleViewer \<in> set (below RoleAdmin)" by (simp add: below_def)
  have "EffectAllow \<noteq> EffectDeny" by (simp add: EffectDeny_def EffectAllow_def)
  then have "list_all (\<lambda>w. w \<noteq> [] \<and> last w \<noteq> EffectDeny) (p_rows mem_casbin demo_policies)"
    by (simp add: rows)
  moreover have "[RoleViewer, ''t'', ''orders'', ActionRead, EffectAllow] \<in> set (p_rows mem_casbin demo_policies)"
    by (simp add: rows)
  ultimately have x using grant_inherits [OF mem_casbin_ok e' viewer _ _ x] by blast
  then have "Enforce mem_casbin ''u1'' ''t'' ''orders'' ActionRead (Some e') = Inr True" using x by simp
  with e' show ?thesis by (intro exI conjI)
qed

text \<open>Grants and inheritance edges share one relation, and nothing keeps a subject from being named
  like a role: one member whose identifier is \<open>viewer\<close>, made super admin of a tenant, makes every
  viewer of that tenant a super admin.\<close>

theorem role_named_subject_escalates:
  assumes "casbin_ok C" and "holds_rows C e (\<lambda>s d. {})"
    and "project E C [evt1, evt2] (Some e) = (None, a')"
    and "change_of E evt1 = Grant s d [RoleViewer]"
    and "change_of E evt2 = Grant RoleViewer d [RoleSuperAdmin]"
    and "s \<notin> role_names" and "s \<noteq> RoleViewer"
    and "p_rows C e = map policyArgs DefaultPolicies" and "Enforce C s d obj act a' = Inr b"
  shows b
proof -
  from project_matrix [OF assms(1,3,2)] obtain e' where e': "a' = Some e'"
    "snd (rows_of C e') = snd (rows_of C e)"
    "holds_rows C e' (matrix_after E [evt1, evt2] (\<lambda>s d. {}))" by blast
  have "RoleViewer \<notin> role_names" by (simp add: role_names_def DefaultRoleHierarchy_def role_defs)
  then have g: "[s, RoleViewer, d] \<in> set (g_rows C e')"
    "[RoleViewer, RoleSuperAdmin, d] \<in> set (g_rows C e')"
    using holds_rowsD [OF e'(3), of RoleViewer s d] holds_rowsD [OF e'(3), of RoleSuperAdmin RoleViewer d]
      assms(4,5,6,7) by (simp_all add: matrix_after_def above_none rows_sets)
  have p: "set (p_rows C e') = policyArgs ` set DefaultPolicies"
    using e'(2) assms(8) by (simp add: rows_sets flip: rows_sets(2) [of C e])
  have allow: "[RoleSuperAdmin, ''*'', ''*'', ActionAll, EffectAllow] \<in> set (p_rows C e')"
    by (simp add: p DefaultPolicies_def policyArgs_def)
  have "row_matches (g_rows C e') (g2_rows C e') s d obj act [RoleSuperAdmin, ''*'', ''*'', ActionAll, EffectAllow]"
    using g_reach_max(3) [OF g] by (simp add: row_matches_def ActionAll_def)
  with allow have yes: "\<exists>w\<in>set (p_rows C e'). row_matches (g_rows C e') (g2_rows C e') s d obj act w \<and> last w = EffectAllow"
    by (intro bexI) auto
  have no: "\<not> (w \<in> set (p_rows C e') \<and> last w = EffectDeny)" for w
    by (auto simp: p DefaultPolicies_def policyArgs_def EffectDeny_def EffectAllow_def)
  have "rbac_allows (g_rows C e') (g2_rows C e') (p_rows C e') s d obj act"
    unfolding rbac_allows_def list_ex_iff using yes no by blast
  moreover have "\<exists>ms. cb_EnforceEx C s d obj act e' = Inr (b, ms)"
    using assms(9) by (cases "cb_EnforceEx C s d obj act e'") (auto simp: e'(1) Enforce_def)
  ultimately show b using assms(1) by (auto simp: casbin_ok_def)
qed

lemma role_named_subject_escalates_witness:
  "\<exists>a'. project demo_env mem_casbin [demo_member ''u1'' [RoleViewer], demo_member RoleViewer [RoleSuperAdmin]]
       (Some demo_authz) = (None, a')
     \<and> Enforce mem_casbin ''u1'' ''t'' ''billing'' ActionExecute a' = Inr True"
proof -
  let ?evt1 = "demo_member ''u1'' [RoleViewer]" and ?evt2 = "demo_member RoleViewer [RoleSuperAdmin]"
  obtain e1 where e1: "project demo_env mem_casbin [?evt1] (Some demo_authz) = (None, Some e1)" "mem_fail e1 = []"
    using demo_member_projects [of "''u1''" RoleViewer] by blast
  obtain e2 where "ApplyGroupPolicy mem_casbin \<lparr> gp_Subject = RoleViewer, gp_Role = RoleSuperAdmin, gp_Domain = ''t'' \<rparr>
      (Some e1) = (None, Some e2)" using calm_group [OF e1(2)] by blast
  moreover have "Handle_casbin demo_env mem_casbin ?evt2 a =
      addRolesFor mem_casbin RoleViewer ''t'' [RoleSuperAdmin] ''on member added'' a" for a
    by (simp add: demo_casbin_simps)
  ultimately have "project demo_env mem_casbin [?evt2] (Some e1) = (None, Some e2)" by simp
  with project_append [of demo_env mem_casbin "[?evt1]" "[?evt2]"] e1(1)
  have run: "project demo_env mem_casbin [?evt1, ?evt2] (Some demo_authz) = (None, Some e2)"
    by (simp del: project.simps)
  obtain x where x: "Enforce mem_casbin ''u1'' ''t'' ''billing'' ActionExecute (Some e2) = Inr x"
    by (auto simp: Enforce_def mem_casbin_def)
  have c: "change_of demo_env ?evt1 = Grant ''u1'' ''t'' [RoleViewer]"
    "change_of demo_env ?evt2 = Grant RoleViewer ''t'' [RoleSuperAdmin]"
    by (simp_all add: change_of_def decoded_def demo_casbin_simps)
  have s: "''u1'' \<notin> role_names" "''u1'' \<noteq> RoleViewer"
    by (simp_all add: role_names_def DefaultRoleHierarchy_def role_defs)
  have p: "p_rows mem_casbin demo_authz = map policyArgs DefaultPolicies"
    by (simp add: mem_casbin_def demo_authz_def)
  have x using role_named_subject_escalates [OF mem_casbin_ok demo_authz_empty run c s p x] .
  then have "Enforce mem_casbin ''u1'' ''t'' ''billing'' ActionExecute (Some e2) = Inr True" using x by simp
  with run show ?thesis by (intro exI conjI)
qed

end
