(* ===== verification/Permission.thy ===== *)
theory Permission
  imports Error_Mapping Aggregate
begin

text \<open>
  The authorization seam of the root package (\<open>authz_contract.go\<close>, \<open>authz.go\<close>,
  \<open>route_posture.go\<close>) and its copy in the huma adapter (\<open>huma/adapter.go\<close>): requests,
  decisions, the arity fallback of \<open>enforceRequest\<close>, and the authorization step of a handler.

  The policy engine is an argument: an \<open>Enforcer\<close> takes the list of request values, a
  \<open>PermissionChecker\<close> the four strings. An HTTP request is the record of what the handlers
  read of it.
\<close>

section \<open>Questions and answers\<close>

definition WildcardDomain_root :: string where "WildcardDomain_root = ''*''"

record Resource =
  rs_Type :: string
  rs_ID :: string

definition Resource_String :: "Resource \<Rightarrow> string" where
  "Resource_String r =
     (if rs_Type r = [] then rs_ID r
      else if rs_ID r = [] then rs_Type r
      else rs_Type r @ '':'' @ rs_ID r)"

record Request =
  rq_Subject :: string
  rq_Domain :: string
  rq_Resource :: Resource
  rq_Action :: string

datatype DecisionReason =
  ReasonAllowed | ReasonDeniedByPolicy | ReasonNoMatchingPolicy | ReasonNotAuthenticated

fun reason_text :: "DecisionReason \<Rightarrow> string" where
  "reason_text ReasonAllowed = ''allowed''"
| "reason_text ReasonDeniedByPolicy = ''denied_by_policy''"
| "reason_text ReasonNoMatchingPolicy = ''no_matching_policy''"
| "reason_text ReasonNotAuthenticated = ''not_authenticated''"

record Decision =
  dc_Allowed :: bool
  dc_Reason :: DecisionReason
  dc_MatchedRules :: "string list"

type_synonym PermissionChecker =
  "string \<Rightarrow> string \<Rightarrow> string \<Rightarrow> string \<Rightarrow> err + bool \<times> string list"

type_synonym Enforcer = "string list \<Rightarrow> err + bool"

definition question_text :: "string \<Rightarrow> string \<Rightarrow> string \<Rightarrow> string \<Rightarrow> string" where
  "question_text subject domain resource act =
     ''subject='' @ subject @ '' domain='' @ domain @ '' resource='' @ resource @ '' action='' @ act"

definition Decide :: "PermissionChecker option \<Rightarrow> Request \<Rightarrow> err + Decision" where
  "Decide checker req =
     (if rq_Subject req = []
      then Inr \<lparr> dc_Allowed = False, dc_Reason = ReasonNotAuthenticated, dc_MatchedRules = [] \<rparr>
      else (case checker of
        None \<Rightarrow> Inl (wrap_error Infrastructure (Sentinel ErrEnforcerNil) ''enforcer_nil''
                  ''authorization checker is nil'')
      | Some check \<Rightarrow>
          let domain = (if rq_Domain req = [] then WildcardDomain_root else rq_Domain req);
              resource = Resource_String (rq_Resource req)
          in (case check (rq_Subject req) domain resource (rq_Action req) of
                Inl e \<Rightarrow> Inl (wrap_error Transient e ''enforce_failed''
                  (''authorization check failed for ''
                     @ question_text (rq_Subject req) domain resource (rq_Action req)))
              | Inr (allowed, matched) \<Rightarrow>
                  if allowed
                  then Inr \<lparr> dc_Allowed = True, dc_Reason = ReasonAllowed, dc_MatchedRules = matched \<rparr>
                  else Inr \<lparr> dc_Allowed = False,
                             dc_Reason = (if matched \<noteq> [] then ReasonDeniedByPolicy
                                          else ReasonNoMatchingPolicy),
                             dc_MatchedRules = matched \<rparr>)))"

section \<open>Enforcers\<close>

definition isRequestSizeError :: "err_env \<Rightarrow> err \<Rightarrow> bool" where
  "isRequestSizeError E e = contains_sub (error_text E e) ''invalid request size''"

definition enforceRequest ::
  "err_env \<Rightarrow> Enforcer \<Rightarrow> string \<Rightarrow> string \<Rightarrow> string \<Rightarrow> string \<Rightarrow> err + bool" where
  "enforceRequest E enforcer subject domain resource act =
     (case enforcer [subject, domain, resource, act] of
        Inr ok \<Rightarrow> Inr ok
      | Inl e \<Rightarrow>
          if \<not> isRequestSizeError E e then Inl e
          else enforcer [subject, resource, act])"

definition enforcerChecker :: "err_env \<Rightarrow> Enforcer option \<Rightarrow> PermissionChecker" where
  "enforcerChecker E enforcer subject domain resource act =
     (case enforcer of
        None \<Rightarrow> Inl (wrap_error Infrastructure (Sentinel ErrEnforcerNil) ''enforcer_nil''
                  ''casbin enforcer is required for authorization'')
      | Some enf \<Rightarrow>
          (case enforceRequest E enf subject domain resource act of
             Inl e \<Rightarrow> Inl (wrap_error Transient e ''enforce_failed''
               (''casbin enforce failed for '' @ question_text subject domain resource act))
           | Inr ok \<Rightarrow> Inr (ok, [])))"

definition EnforceIn ::
  "err_env \<Rightarrow> Enforcer option \<Rightarrow> string \<Rightarrow> string \<Rightarrow> string \<Rightarrow> string \<Rightarrow> err option" where
  "EnforceIn E enforcer subject domain resource act =
     (case enforcer of
        None \<Rightarrow> Some (wrap_error Infrastructure (Sentinel ErrEnforcerNil) ''enforcer_nil''
                  (''enforcer is nil for '' @ question_text subject domain resource act))
      | Some enf \<Rightarrow>
          (case enforceRequest E enf subject domain resource act of
             Inl e \<Rightarrow> Some (wrap_error Transient e ''enforce_failed''
               (''casbin enforce failed for '' @ question_text subject domain resource act))
           | Inr ok \<Rightarrow>
               if \<not> ok then Some (wrap_error Rejection (Sentinel ErrForbidden) ''forbidden''
                 (question_text subject domain resource act))
               else None))"

definition short_question :: "string \<Rightarrow> string \<Rightarrow> string \<Rightarrow> string" where
  "short_question subject resource act =
     ''subject='' @ subject @ '' resource='' @ resource @ '' action='' @ act"

text \<open>\<open>Enforce\<close> asks in the wildcard domain.\<close>

definition Enforce_root ::
  "err_env \<Rightarrow> Enforcer option \<Rightarrow> string \<Rightarrow> string \<Rightarrow> string \<Rightarrow> err option" where
  "Enforce_root E enforcer subject resource act =
     (case enforcer of
        None \<Rightarrow> Some (wrap_error Infrastructure (Sentinel ErrEnforcerNil) ''enforcer_nil''
                  (''enforcer is nil for '' @ short_question subject resource act))
      | Some enf \<Rightarrow>
          (case enforceRequest E enf subject WildcardDomain_root resource act of
             Inl e \<Rightarrow> Some (wrap_error Transient e ''enforce_failed''
               (''casbin enforce failed for '' @ short_question subject resource act))
           | Inr ok \<Rightarrow>
               if \<not> ok then Some (wrap_error Rejection (Sentinel ErrForbidden) ''forbidden''
                 (short_question subject resource act))
               else None))"

section \<open>Requests and handler configuration\<close>

text \<open>The context values a request carries are the ones the sources read; a missing value is
  \<open>None\<close>, which \<open>FromContext\<close> reads as the zero value. Header names are canonical.\<close>

record http_request =
  hr_Method :: string
  hr_Path :: string
  hr_Header :: "(string, string) gomap"
  hr_Body :: "bytes option"
  hr_ContentLength :: int
  hr_UserID :: "user_id option"
  hr_ActorID :: "actor_id option"

definition Header_Get :: "http_request \<Rightarrow> string \<Rightarrow> string" where
  "Header_Get r name = (case map_get (hr_Header r) name of None \<Rightarrow> [] | Some v \<Rightarrow> v)"

definition UserIDFromContext :: "id_env \<Rightarrow> http_request \<Rightarrow> user_id" where
  "UserIDFromContext I r = (case hr_UserID r of Some u \<Rightarrow> u | None \<Rightarrow> zero_user I)"

definition ActorIDFromContext :: "http_request \<Rightarrow> actor_id" where
  "ActorIDFromContext r = (case hr_ActorID r of Some a \<Rightarrow> a | None \<Rightarrow> NewActorID ActorUnknown [])"

definition WithUserID :: "user_id \<Rightarrow> http_request \<Rightarrow> http_request" where
  "WithUserID u r = r \<lparr> hr_UserID := Some u \<rparr>"

definition WithActorID :: "actor_id \<Rightarrow> http_request \<Rightarrow> http_request" where
  "WithActorID a r = r \<lparr> hr_ActorID := Some a \<rparr>"

definition IsAuthenticated :: "id_env \<Rightarrow> http_request \<Rightarrow> bool" where
  "IsAuthenticated I r \<longleftrightarrow> \<not> user_is_zero I (UserIDFromContext I r)"

datatype authMode = authNone | authRequired | authAuthorized

text \<open>
  The handler configuration. \<open>'v\<close> is what decoders produce (\<open>None\<close> is the nil interface),
  \<open>'r\<close> the results queries produce. Validators of httputil and renderers are functions the
  configuration carries; a callback is present or not.
\<close>

record ('v, 'r) handlerConfig =
  hc_authMode :: authMode
  hc_domain :: string
  hc_resource :: string
  hc_action :: string
  hc_authzRequest :: "(http_request \<Rightarrow> err + Request) option"
  hc_commandDecoder :: "(http_request \<Rightarrow> err + 'v option) option"
  hc_queryDecoder :: "(http_request \<Rightarrow> err + 'v option) option"
  hc_render :: "(http_request \<Rightarrow> 'r option \<Rightarrow> err option) option"
  hc_redirect :: string
  hc_trigger :: string
  hc_triggerDetail :: "(string, string) gomap"
  hc_pushURL :: string
  hc_csrfConfig :: "(http_request \<Rightarrow> bool) option"
  hc_maxBodySize :: int
  hc_timeout :: duration
  hc_successStatus :: int
  hc_requireMethod :: string
  hc_requireMethods :: "string list"
  hc_requiredContentType :: string
  hc_acceptQuery :: "string list"
  hc_onError :: bool
  hc_requestGuard :: "(http_request \<Rightarrow> 'v \<Rightarrow> err option) option"

definition handlerConfig_zero :: "('v, 'r) handlerConfig" where
  "handlerConfig_zero =
     \<lparr> hc_authMode = authNone, hc_domain = [], hc_resource = [], hc_action = [],
       hc_authzRequest = None, hc_commandDecoder = None, hc_queryDecoder = None, hc_render = None,
       hc_redirect = [], hc_trigger = [], hc_triggerDetail = [], hc_pushURL = [],
       hc_csrfConfig = None, hc_maxBodySize = 0, hc_timeout = 0, hc_successStatus = 0,
       hc_requireMethod = [], hc_requireMethods = [], hc_requiredContentType = [],
       hc_acceptQuery = [], hc_onError = False, hc_requestGuard = None \<rparr>"

type_synonym ('v, 'r) HandlerOption = "('v, 'r) handlerConfig \<Rightarrow> ('v, 'r) handlerConfig"

definition Authorize_option :: "string \<Rightarrow> string \<Rightarrow> ('v, 'r) HandlerOption" where
  "Authorize_option resource act config =
     config \<lparr> hc_domain := WildcardDomain_root, hc_resource := resource, hc_action := act,
              hc_authMode := authAuthorized \<rparr>"

definition AuthorizeIn :: "string \<Rightarrow> string \<Rightarrow> string \<Rightarrow> ('v, 'r) HandlerOption" where
  "AuthorizeIn domain resource act config =
     config \<lparr> hc_domain := domain, hc_resource := resource, hc_action := act,
              hc_authMode := authAuthorized \<rparr>"

definition AuthorizeRequest :: "(http_request \<Rightarrow> err + Request) \<Rightarrow> ('v, 'r) HandlerOption" where
  "AuthorizeRequest resolve config =
     config \<lparr> hc_authzRequest := Some resolve, hc_authMode := authAuthorized \<rparr>"

definition RequireAuth :: "('v, 'r) HandlerOption" where
  "RequireAuth config =
     (if hc_authMode config = authNone then config \<lparr> hc_authMode := authRequired \<rparr> else config)"

definition RequestGuard :: "(http_request \<Rightarrow> 'v \<Rightarrow> err option) \<Rightarrow> ('v, 'r) HandlerOption" where
  "RequestGuard guard config = config \<lparr> hc_requestGuard := Some guard \<rparr>"

definition buildHandlerConfig :: "('v, 'r) HandlerOption list \<Rightarrow> ('v, 'r) handlerConfig" where
  "buildHandlerConfig opts = fold (\<lambda>opt config. opt config) opts handlerConfig_zero"

section \<open>The authorization step of a handler\<close>

text \<open>The code of a sentinel is the one it is declared with.\<close>

definition sentinel_code :: "http_sentinel \<Rightarrow> string" where
  "sentinel_code s = fst (snd (sentinel_info s))"

definition decisionError :: "id_env \<Rightarrow> Decision \<Rightarrow> Request \<Rightarrow> err" where
  "decisionError I decision req =
     (let sentinel = (if dc_Reason decision = ReasonNotAuthenticated then ErrUnauthorized
                      else ErrForbidden)
      in wrap_error Rejection (Sentinel sentinel) (sentinel_code sentinel)
           (''subject='' @ quoted I (rq_Subject req) @ '' domain='' @ quoted I (rq_Domain req)
            @ '' resource='' @ quoted I (Resource_String (rq_Resource req))
            @ '' action='' @ quoted I (rq_Action req) @ '': '' @ reason_text (dc_Reason decision)))"

definition authorizeWithRequest ::
  "id_env \<Rightarrow> err_env \<Rightarrow> Enforcer option \<Rightarrow> http_request \<Rightarrow> (http_request \<Rightarrow> err + Request) \<Rightarrow> err option" where
  "authorizeWithRequest I E enforcer r resolve =
     (case resolve r of
        Inl e \<Rightarrow> Some (wrap_error (classify E e) e ''cqrshtmx.handler.authz_request''
          (''resolve authorization request for '' @ hr_Method r @ '' '' @ hr_Path r))
      | Inr req0 \<Rightarrow>
          let req = (if rq_Subject req0 = []
                     then req0 \<lparr> rq_Subject := user_display I (UserIDFromContext I r) \<rparr> else req0)
          in (case Decide (Some (enforcerChecker E enforcer)) req of
                Inl e \<Rightarrow> Some e
              | Inr decision \<Rightarrow>
                  if dc_Allowed decision then None else Some (decisionError I decision req)))"

definition executeAuthorization ::
  "id_env \<Rightarrow> err_env \<Rightarrow> Enforcer option \<Rightarrow> http_request \<Rightarrow> ('v, 'r) handlerConfig \<Rightarrow> err option" where
  "executeAuthorization I E enforcer r config =
     (if hc_authMode config = authNone then None
      else (case hc_authzRequest config of
        Some resolve \<Rightarrow> authorizeWithRequest I E enforcer r resolve
      | None \<Rightarrow>
          let userID = UserIDFromContext I r
          in if user_is_zero I userID then
               Some (if hc_authMode config = authAuthorized
                     then wrap_error Rejection (Sentinel ErrUnauthorized) ''unauthorized''
                            (hc_resource config @ ''/'' @ hc_action config)
                     else Sentinel ErrUnauthorized)
             else if hc_authMode config = authAuthorized then
               EnforceIn E enforcer (user_display I userID) (hc_domain config) (hc_resource config)
                 (hc_action config)
             else None))"

text \<open>\<open>authorizeRequest\<close> of the huma adapter, which has a checker instead of an enforcer.\<close>

definition huma_denialError :: "id_env \<Rightarrow> Request \<Rightarrow> Decision \<Rightarrow> err" where
  "huma_denialError I req decision =
     (let code = (if dc_Reason decision = ReasonNotAuthenticated then CodeUnauthorized else CodeForbidden);
          sentinel = (if dc_Reason decision = ReasonNotAuthenticated then ErrUnauthorized
                      else ErrForbidden)
      in wrap_error Rejection (Sentinel sentinel) code
           (''subject='' @ quoted I (rq_Subject req) @ '' domain='' @ quoted I (rq_Domain req)
            @ '' resource='' @ quoted I (Resource_String (rq_Resource req))
            @ '' action='' @ quoted I (rq_Action req) @ '': '' @ reason_text (dc_Reason decision)))"

definition huma_authorizeRequest ::
  "id_env \<Rightarrow> PermissionChecker option \<Rightarrow> http_request \<Rightarrow> Request \<Rightarrow> err option" where
  "huma_authorizeRequest I checker r req0 =
     (let userID = UserIDFromContext I r;
          req = (if rq_Subject req0 = [] \<and> \<not> user_is_zero I userID
                 then req0 \<lparr> rq_Subject := user_display I userID \<rparr> else req0)
      in (case Decide checker req of
            Inl e \<Rightarrow> Some e
          | Inr decision \<Rightarrow>
              if dc_Allowed decision then None else Some (huma_denialError I req decision)))"

definition huma_requireAuthenticated :: "id_env \<Rightarrow> http_request \<Rightarrow> string \<Rightarrow> string \<Rightarrow> err option" where
  "huma_requireAuthenticated I r resource act =
     (if \<not> user_is_zero I (UserIDFromContext I r) then None
      else Some (wrap_error Rejection (Sentinel ErrUnauthorized) CodeUnauthorized
        (''authentication required for '' @ resource @ ''/'' @ act)))"

text \<open>The standalone middleware answers with the subject it admits, or with the error it hands to
  the error handler.\<close>

definition AuthorizeMiddleware ::
  "id_env \<Rightarrow> err_env \<Rightarrow> Enforcer option \<Rightarrow> string \<Rightarrow> string \<Rightarrow> (http_request \<Rightarrow> err + user_id) option
    \<Rightarrow> http_request \<Rightarrow> err + string" where
  "AuthorizeMiddleware I E enforcer resource act extractor r =
     (let unauthorized = wrap_error Rejection (Sentinel ErrUnauthorized) ''unauthorized''
            (resource @ ''/'' @ act);
          found = (if IsAuthenticated I r then Inr (user_display I (UserIDFromContext I r))
                   else (case extractor of
                     Some extract \<Rightarrow>
                       (case extract r of
                          Inl e \<Rightarrow> Inl unauthorized
                        | Inr uid \<Rightarrow> if user_is_zero I uid then Inl unauthorized
                                     else Inr (user_display I uid))
                   | None \<Rightarrow> Inl unauthorized))
      in (case found of
            Inl e \<Rightarrow> Inl e
          | Inr subject \<Rightarrow>
              (case Enforce_root E enforcer subject resource act of
                 Some e \<Rightarrow> Inl e
               | None \<Rightarrow> Inr subject)))"

definition enrichUserID ::
  "id_env \<Rightarrow> (http_request \<Rightarrow> err + user_id) option \<Rightarrow> http_request \<Rightarrow> http_request" where
  "enrichUserID I extractor r =
     (if \<not> user_is_zero I (UserIDFromContext I r) then r
      else (case extractor of
        None \<Rightarrow> r
      | Some extract \<Rightarrow>
          (case extract r of
             Inl e \<Rightarrow> r
           | Inr userID \<Rightarrow>
               if user_is_zero I userID then r
               else (let r' = WithUserID userID r
                     in if actor_is_zero I (ActorIDFromContext r')
                        then WithActorID (ActorIDFromUser I userID) r' else r'))))"

section \<open>What the authorization step answers\<close>

text \<open>The status of a classified wrapper.\<close>

lemma carrier_status_wrapped [simp]: "carrier_status (wrap_error f e code msg) = carrier_status e"
  by (subst carrier_status.simps) (simp add: errors_as_def)

lemma carrier_status_Sentinel [simp]: "carrier_status (Sentinel s) = None"
  by (subst carrier_status.simps) (simp add: errors_as_def)

lemma MapError_refusals:
  "MapError E (Some (wrap_error Rejection (Sentinel ErrUnauthorized) ''unauthorized'' msg)) = 401"
  "MapError E (Some (wrap_error Rejection (Sentinel ErrForbidden) ''forbidden'' msg)) = 403"
  "MapError E (Some (Sentinel ErrUnauthorized)) = 401"
  by (simp_all add: MapError_def explicit_error_status_def err_simps)

text \<open>An engine failure says nothing about authentication.\<close>

definition plain_failure :: "err \<Rightarrow> bool" where
  "plain_failure e \<longleftrightarrow> carrier_status e = None \<and> \<not> errors_is e (Sentinel ErrUnauthorized)
     \<and> \<not> errors_is e (Sentinel ErrForbidden) \<and> \<not> errors_is e CSRFInvalid
     \<and> \<not> errors_is e (Sentinel ErrRequestTooLarge) \<and> \<not> errors_is e (Sentinel ErrMethodNotAllowed)
     \<and> \<not> errors_is e (Sentinel ErrUnsupportedMediaType)"

lemma MapError_engine:
  assumes "errorfamily_ok E" and "plain_failure e" and "code \<in> {''enforce_failed'', ''enforcer_nil''}"
    and "f \<in> {Transient, Infrastructure}"
  shows "MapError E (Some (wrap_error f e code msg)) = 503"
  using assms
  by (auto simp: MapError_def plain_failure_def explicit_error_status_def err_simps
      errorfamily_ok_def)

text \<open>The question a handler with \<open>AuthorizeRequest\<close> puts to the engine: an empty subject stands for the user of
  the request and an empty domain for every domain.\<close>

definition asked_of :: "id_env \<Rightarrow> http_request \<Rightarrow> Request \<Rightarrow> Request" where
  "asked_of I r req =
     req \<lparr> rq_Subject := (if rq_Subject req = [] then user_display I (UserIDFromContext I r) else rq_Subject req),
           rq_Domain := (if rq_Domain req = [] then WildcardDomain_root else rq_Domain req) \<rparr>"

definition engine_answer :: "err_env \<Rightarrow> Enforcer \<Rightarrow> Request \<Rightarrow> err + bool" where
  "engine_answer E enf q =
     enforceRequest E enf (rq_Subject q) (rq_Domain q) (Resource_String (rq_Resource q)) (rq_Action q)"

lemma plain_failure_nil: "plain_failure (Sentinel ErrEnforcerNil)"
  by (simp add: plain_failure_def errors_is_def)

lemma plain_failure_wrapped:
  "plain_failure e \<Longrightarrow> f \<in> {Transient, Infrastructure} \<Longrightarrow> plain_failure (wrap_error f e code msg)"
  by (auto simp: plain_failure_def err_simps)

text \<open>What \<open>AuthorizeRequest\<close> answers, by what the resolver and the engine say.\<close>

lemma resolved_authorization:
  assumes "resolve r = Inr req" and "q = asked_of I r req"
  shows "rq_Subject q = [] \<Longrightarrow>
      \<exists>msg. authorizeWithRequest I E enforcer r resolve
        = Some (wrap_error Rejection (Sentinel ErrUnauthorized) ''unauthorized'' msg)"
    and "rq_Subject q \<noteq> [] \<Longrightarrow> enforcer = None \<Longrightarrow>
      \<exists>f e msg. authorizeWithRequest I E enforcer r resolve = Some (wrap_error f e ''enforce_failed'' msg)
        \<and> f \<in> {Transient, Infrastructure} \<and> plain_failure e"
    and "rq_Subject q \<noteq> [] \<Longrightarrow> enforcer = Some enf \<Longrightarrow> engine_answer E enf q = Inr True \<Longrightarrow>
      authorizeWithRequest I E enforcer r resolve = None"
    and "rq_Subject q \<noteq> [] \<Longrightarrow> enforcer = Some enf \<Longrightarrow> engine_answer E enf q = Inr False \<Longrightarrow>
      \<exists>msg. authorizeWithRequest I E enforcer r resolve
        = Some (wrap_error Rejection (Sentinel ErrForbidden) ''forbidden'' msg)"
    and "rq_Subject q \<noteq> [] \<Longrightarrow> enforcer = Some enf \<Longrightarrow> engine_answer E enf q = Inl e \<Longrightarrow>
      \<exists>f e' msg. authorizeWithRequest I E enforcer r resolve = Some (wrap_error f e' ''enforce_failed'' msg)
        \<and> f \<in> {Transient, Infrastructure} \<and> (plain_failure e \<longrightarrow> plain_failure e')"
  using assms plain_failure_wrapped [OF plain_failure_nil]
  by (auto simp: authorizeWithRequest_def asked_of_def engine_answer_def Decide_def enforcerChecker_def
      decisionError_def sentinel_code_def auth_codes Let_def plain_failure_wrapped split: if_splits)

text \<open>What a handler without a resolver answers.\<close>

lemma plain_authorization:
  assumes "errorfamily_ok E" and "hc_authMode c \<noteq> authNone" and "hc_authzRequest c = None"
    and "user = UserIDFromContext I r"
    and "ask = (\<lambda>enf. enforceRequest E enf (user_display I user) (hc_domain c) (hc_resource c) (hc_action c))"
    and "reply = executeAuthorization I E enforcer r c"
  shows "reply = None \<longleftrightarrow> \<not> user_is_zero I user \<and>
      (hc_authMode c = authAuthorized \<longrightarrow> (\<exists>enf. enforcer = Some enf \<and> ask enf = Inr True))"
    and "user_is_zero I user \<longrightarrow> MapError E reply = 401"
    and "\<not> user_is_zero I user \<and> hc_authMode c = authAuthorized \<longrightarrow>
        (\<forall>enf. enforcer = Some enf \<longrightarrow> ask enf = Inr False \<longrightarrow> MapError E reply = 403)
        \<and> (\<forall>enf e. enforcer = Some enf \<longrightarrow> ask enf = Inl e \<longrightarrow> plain_failure e \<longrightarrow> MapError E reply = 503)
        \<and> (enforcer = None \<longrightarrow> MapError E reply = 503)"
proof -
  have mode: "hc_authMode c = authRequired \<or> hc_authMode c = authAuthorized"
    using assms(2) by (cases "hc_authMode c") auto
  show "reply = None \<longleftrightarrow> \<not> user_is_zero I user \<and>
      (hc_authMode c = authAuthorized \<longrightarrow> (\<exists>enf. enforcer = Some enf \<and> ask enf = Inr True))"
    using mode assms(3-6)
    by (auto simp: executeAuthorization_def EnforceIn_def Let_def split: option.splits sum.splits)
  show "user_is_zero I user \<longrightarrow> MapError E reply = 401"
    using mode assms(3-6) by (auto simp: executeAuthorization_def MapError_refusals Let_def)
  show "\<not> user_is_zero I user \<and> hc_authMode c = authAuthorized \<longrightarrow>
      (\<forall>enf. enforcer = Some enf \<longrightarrow> ask enf = Inr False \<longrightarrow> MapError E reply = 403)
      \<and> (\<forall>enf e. enforcer = Some enf \<longrightarrow> ask enf = Inl e \<longrightarrow> plain_failure e \<longrightarrow> MapError E reply = 503)
      \<and> (enforcer = None \<longrightarrow> MapError E reply = 503)"
    using assms(3-6) MapError_engine [OF assms(1)] plain_failure_nil
    by (simp add: executeAuthorization_def EnforceIn_def MapError_refusals)
qed

text \<open>The same of a handler with one, in terms of its question.\<close>

lemma resolver_passes:
  "authorizeWithRequest I E enforcer r resolve = None \<longleftrightarrow>
     (\<exists>req enf. resolve r = Inr req \<and> rq_Subject (asked_of I r req) \<noteq> []
        \<and> enforcer = Some enf \<and> engine_answer E enf (asked_of I r req) = Inr True)"
proof (cases "resolve r")
  case (Inr req)
  then show ?thesis
    by (cases "rq_Subject req = []"; cases "rq_Domain req = []"; cases enforcer)
      (auto simp: authorizeWithRequest_def asked_of_def engine_answer_def Decide_def enforcerChecker_def Let_def
        split: sum.splits)
qed (simp add: authorizeWithRequest_def)

lemma resolver_refuses:
  assumes "errorfamily_ok E" and "resolve r = Inr req" and "q = asked_of I r req"
    and "reply = authorizeWithRequest I E enforcer r resolve"
  shows "rq_Subject q = [] \<Longrightarrow> MapError E reply = 401"
    and "rq_Subject q \<noteq> [] \<Longrightarrow> enforcer = Some enf \<Longrightarrow> engine_answer E enf q = Inr False \<Longrightarrow> MapError E reply = 403"
    and "rq_Subject q \<noteq> [] \<Longrightarrow> enforcer = Some enf \<Longrightarrow> engine_answer E enf q = Inl e \<Longrightarrow> plain_failure e \<Longrightarrow>
      MapError E reply = 503"
    and "rq_Subject q \<noteq> [] \<Longrightarrow> enforcer = None \<Longrightarrow> MapError E reply = 503"
proof -
  note run = resolved_authorization [where resolve = resolve and r = r and I = I and E = E and enforcer = enforcer,
      OF assms(2,3), folded assms(4)]
  note engine = MapError_engine [OF assms(1), where code = "''enforce_failed''"]
  show "rq_Subject q = [] \<Longrightarrow> MapError E reply = 401" using run(1) MapError_refusals by fastforce
  show "rq_Subject q \<noteq> [] \<Longrightarrow> enforcer = Some enf \<Longrightarrow> engine_answer E enf q = Inr False \<Longrightarrow> MapError E reply = 403"
    using run(4) MapError_refusals by fastforce
  show "rq_Subject q \<noteq> [] \<Longrightarrow> enforcer = Some enf \<Longrightarrow> engine_answer E enf q = Inl e \<Longrightarrow> plain_failure e \<Longrightarrow>
      MapError E reply = 503" using run(5) [of enf e] engine by auto
  show "rq_Subject q \<noteq> [] \<Longrightarrow> enforcer = None \<Longrightarrow> MapError E reply = 503" using run(2) engine by auto
qed

text \<open>C17. The authorization step of a handler that has a mode fails closed. \<open>RequireAuth\<close>, \<open>Authorize\<close> and
  \<open>AuthorizeIn\<close> answer an anonymous caller 401; \<open>RequireAuth\<close> asks no more than that there is a user;
  \<open>Authorize\<close> and \<open>AuthorizeIn\<close> pass a user exactly when there is an engine that permits the question in the
  configured domain. With \<open>AuthorizeRequest\<close> the question is the one the resolver made, about the user of the request
  where it names no subject (an anonymous caller is then asked about by the text of the zero ID): the request passes
  exactly when there is such a question with a subject and an engine that permits it, and a question without subject
  is answered 401. Everywhere a refusal of the engine maps to 403, and a missing engine, or one that fails with an
  error that carries no status of its own, to 503, never to a denial.\<close>

theorem authorization_fails_closed:
  assumes "errorfamily_ok E" and "hc_authMode c \<noteq> authNone"
    and "user = UserIDFromContext I r"
    and "ask = (\<lambda>enf. enforceRequest E enf (user_display I user) (hc_domain c) (hc_resource c) (hc_action c))"
    and "reply = executeAuthorization I E enforcer r c"
  shows "(hc_authzRequest c = None \<longrightarrow>
      (reply = None \<longleftrightarrow> \<not> user_is_zero I user \<and>
        (hc_authMode c = authAuthorized \<longrightarrow> (\<exists>enf. enforcer = Some enf \<and> ask enf = Inr True)))
      \<and> (user_is_zero I user \<longrightarrow> MapError E reply = 401)
      \<and> (\<not> user_is_zero I user \<and> hc_authMode c = authAuthorized \<longrightarrow>
          (\<forall>enf. enforcer = Some enf \<longrightarrow> ask enf = Inr False \<longrightarrow> MapError E reply = 403)
          \<and> (\<forall>enf e. enforcer = Some enf \<longrightarrow> ask enf = Inl e \<longrightarrow> plain_failure e \<longrightarrow> MapError E reply = 503)
          \<and> (enforcer = None \<longrightarrow> MapError E reply = 503)))
    \<and> (\<forall>resolve. hc_authzRequest c = Some resolve \<longrightarrow>
      (reply = None \<longleftrightarrow> (\<exists>req enf. resolve r = Inr req \<and> rq_Subject (asked_of I r req) \<noteq> []
          \<and> enforcer = Some enf \<and> engine_answer E enf (asked_of I r req) = Inr True))
      \<and> (\<forall>req q. resolve r = Inr req \<longrightarrow> q = asked_of I r req \<longrightarrow>
          (rq_Subject q = [] \<longrightarrow> MapError E reply = 401)
          \<and> (rq_Subject q \<noteq> [] \<longrightarrow>
              (\<forall>enf. enforcer = Some enf \<longrightarrow> engine_answer E enf q = Inr False \<longrightarrow> MapError E reply = 403)
              \<and> (\<forall>enf e. enforcer = Some enf \<longrightarrow> engine_answer E enf q = Inl e \<longrightarrow> plain_failure e \<longrightarrow>
                    MapError E reply = 503)
              \<and> (enforcer = None \<longrightarrow> MapError E reply = 503))))"
proof (intro conjI [of "hc_authzRequest c = None \<longrightarrow> _"] impI allI)
  assume none: "hc_authzRequest c = None"
  note plain = plain_authorization [OF assms(1,2) none assms(3-5)]
  show "(reply = None \<longleftrightarrow> \<not> user_is_zero I user \<and>
        (hc_authMode c = authAuthorized \<longrightarrow> (\<exists>enf. enforcer = Some enf \<and> ask enf = Inr True)))
      \<and> (user_is_zero I user \<longrightarrow> MapError E reply = 401)
      \<and> (\<not> user_is_zero I user \<and> hc_authMode c = authAuthorized \<longrightarrow>
          (\<forall>enf. enforcer = Some enf \<longrightarrow> ask enf = Inr False \<longrightarrow> MapError E reply = 403)
          \<and> (\<forall>enf e. enforcer = Some enf \<longrightarrow> ask enf = Inl e \<longrightarrow> plain_failure e \<longrightarrow> MapError E reply = 503)
          \<and> (enforcer = None \<longrightarrow> MapError E reply = 503))" by (rule conjI [OF plain(1) conjI [OF plain(2,3)]])
next
  fix resolve assume some: "hc_authzRequest c = Some resolve"
  have reply: "reply = authorizeWithRequest I E enforcer r resolve"
    using some assms(2,5) by (simp add: executeAuthorization_def)
  show "(reply = None \<longleftrightarrow> (\<exists>req enf. resolve r = Inr req \<and> rq_Subject (asked_of I r req) \<noteq> []
          \<and> enforcer = Some enf \<and> engine_answer E enf (asked_of I r req) = Inr True))
      \<and> (\<forall>req q. resolve r = Inr req \<longrightarrow> q = asked_of I r req \<longrightarrow>
          (rq_Subject q = [] \<longrightarrow> MapError E reply = 401)
          \<and> (rq_Subject q \<noteq> [] \<longrightarrow>
              (\<forall>enf. enforcer = Some enf \<longrightarrow> engine_answer E enf q = Inr False \<longrightarrow> MapError E reply = 403)
              \<and> (\<forall>enf e. enforcer = Some enf \<longrightarrow> engine_answer E enf q = Inl e \<longrightarrow> plain_failure e \<longrightarrow>
                    MapError E reply = 503)
              \<and> (enforcer = None \<longrightarrow> MapError E reply = 503)))"
  proof (intro conjI allI impI)
    show "reply = None \<longleftrightarrow> (\<exists>req enf. resolve r = Inr req \<and> rq_Subject (asked_of I r req) \<noteq> []
        \<and> enforcer = Some enf \<and> engine_answer E enf (asked_of I r req) = Inr True)"
      unfolding reply by (rule resolver_passes)
  qed ((rule resolver_refuses [OF assms(1) _ _ reply]; assumption)+)
qed

definition demo_request :: "user_id option \<Rightarrow> http_request" where
  "demo_request user =
     \<lparr> hr_Method = ''POST'', hr_Path = ''/orders'', hr_Header = [], hr_Body = None, hr_ContentLength = 0,
       hr_UserID = user, hr_ActorID = None \<rparr>"

definition demo_enforcer :: Enforcer where
  "demo_enforcer xs = Inr (xs = [''xxx'', ''t'', ''orders'', ''read''])"

definition demo_gated :: "(unit, unit) handlerConfig" where
  "demo_gated = buildHandlerConfig [AuthorizeIn ''t'' ''orders'' ''read'', RequireAuth]"

lemma demo_gated_simps:
  "hc_authMode demo_gated = authAuthorized" "hc_authzRequest demo_gated = None"
  "hc_domain demo_gated = ''t''" "hc_resource demo_gated = ''orders''" "hc_action demo_gated = ''read''"
  by (simp_all add: demo_gated_def buildHandlerConfig_def AuthorizeIn_def RequireAuth_def
      handlerConfig_zero_def)

lemma demo_user:
  "UserIDFromContext demo_ids (demo_request (Some u)) = u"
  "UserIDFromContext demo_ids (demo_request None) = UserID 0"
  "user_is_zero demo_ids u = (u = UserID 0)"
  "user_display demo_ids (UserID 3) = ''xxx''" "user_display demo_ids (UserID 2) = ''xx''"
  by (simp_all add: demo_ids_def demo_request_def UserIDFromContext_def) (code_simp+)

lemma authorization_fails_closed_witness:
  "executeAuthorization demo_ids demo_err_env (Some demo_enforcer) (demo_request (Some (UserID 3))) demo_gated = None
   \<and> MapError demo_err_env (executeAuthorization demo_ids demo_err_env (Some demo_enforcer)
       (demo_request (Some (UserID 2))) demo_gated) = 403
   \<and> MapError demo_err_env (executeAuthorization demo_ids demo_err_env (Some demo_enforcer)
       (demo_request None) demo_gated) = 401"
proof -
  have mode: "hc_authMode demo_gated \<noteq> authNone" by (simp add: demo_gated_simps)
  note rule = authorization_fails_closed [OF demo_err_env_ok mode refl refl refl,
      where I = demo_ids and enforcer = "Some demo_enforcer", THEN conjunct1, THEN mp, OF demo_gated_simps(2)]
  note eval = demo_gated_simps demo_user enforceRequest_def demo_enforcer_def
  show ?thesis
    using rule [of "demo_request (Some (UserID 3))"] rule [of "demo_request (Some (UserID 2))"]
      rule [of "demo_request None"]
    by (simp add: eval)
qed

text \<open>A handler that authorizes by a resolver treats an anonymous caller as the zero user: when the
  resolver names no subject, the engine is asked about the text of the zero identifier, so the
  caller is admitted if a policy of everyone permits it and answered 403 otherwise. The huma
  adapter answers the same question with 401.\<close>

theorem anonymous_request_reaches_engine:
  assumes "user_is_zero I (UserIDFromContext I r)" and "user_display I (UserIDFromContext I r) \<noteq> []"
    and "hc_authMode c \<noteq> authNone" and "hc_authzRequest c = Some resolve"
    and "resolve r = Inr req" and "rq_Subject req = []" and "rq_Domain req = domain" and "domain \<noteq> []"
    and "enforceRequest E enf (user_display I (UserIDFromContext I r)) domain
           (Resource_String (rq_Resource req)) (rq_Action req) = Inr ok"
  shows "(executeAuthorization I E (Some enf) r c = None \<longleftrightarrow> ok)
    \<and> MapError E (executeAuthorization I E (Some enf) r c) = (if ok then MapError E None else 403)
    \<and> MapError E (huma_authorizeRequest I (Some (enforcerChecker E (Some enf))) r req) = 401"
proof -
  have "executeAuthorization I E (Some enf) r c =
      (if ok then None else Some (decisionError I
         \<lparr> dc_Allowed = False, dc_Reason = ReasonNoMatchingPolicy, dc_MatchedRules = [] \<rparr>
         (req \<lparr> rq_Subject := user_display I (UserIDFromContext I r) \<rparr>)))"
    using assms
    by (simp add: executeAuthorization_def authorizeWithRequest_def Decide_def enforcerChecker_def)
  then show ?thesis
    using assms(1,6)
    by (simp add: decisionError_def sentinel_code_def auth_codes huma_authorizeRequest_def
        huma_denialError_def Decide_def MapError_refusals)
qed

lemma anonymous_request_reaches_engine_witness:
  "executeAuthorization (demo_ids \<lparr> user_display := \<lambda>u. ''00'' \<rparr>) demo_err_env (Some (\<lambda>xs. Inr True))
     (demo_request None)
     (AuthorizeRequest (\<lambda>r. Inr \<lparr> rq_Subject = [], rq_Domain = ''t'',
        rq_Resource = \<lparr> rs_Type = ''orders'', rs_ID = [] \<rparr>, rq_Action = ''read'' \<rparr>) demo_gated) = None"
proof -
  let ?req = "\<lparr> rq_Subject = [], rq_Domain = ''t'', rq_Resource = \<lparr> rs_Type = ''orders'', rs_ID = [] \<rparr>,
      rq_Action = ''read'' \<rparr>"
  let ?I = "demo_ids \<lparr> user_display := \<lambda>u. ''00'' \<rparr>"
  have "user_is_zero ?I (UserIDFromContext ?I (demo_request None))"
    "user_display ?I (UserIDFromContext ?I (demo_request None)) \<noteq> []"
    by (simp_all add: demo_ids_def demo_request_def UserIDFromContext_def)
  from anonymous_request_reaches_engine [OF this, where c = "AuthorizeRequest (\<lambda>r. Inr ?req) demo_gated"
      and resolve = "\<lambda>r. Inr ?req" and req = ?req and domain = "''t''" and E = demo_err_env
      and enf = "\<lambda>xs. Inr True" and ok = True]
  show ?thesis by (simp add: AuthorizeRequest_def enforceRequest_def)
qed

end
