(* ===== verification/Dispatch_Gate.thy ===== *)
theory Dispatch_Gate
  imports Permission "HOL-Library.Char_ord" "HOL-Library.List_Lexorder" "HOL-Library.Product_Lexorder" "HOL-Library.Multiset"
begin

text \<open>
  The dispatch gate of the root package (\<open>authz_dispatch.go\<close>) with the postures of
  \<open>route_posture.go\<close>: the declaration table, its validation and manifest, and the verdict every
  command and query dispatch passes.

  The context of a dispatch is the part of \<open>http_request\<close> that carries identities. What a
  payload's \<open>PolicyContext\<close> answers is the argument \<open>describe\<close>, \<open>None\<close> when the payload does
  not implement it. Reports to the observer are collected in a list.
\<close>

section \<open>Postures\<close>

type_synonym Posture = string

definition PosturePublic :: Posture where "PosturePublic = ''public''"
definition PostureAuthenticated :: Posture where "PostureAuthenticated = ''authenticated''"
definition PostureRoleGated :: Posture where "PostureRoleGated = ''role''"
definition PostureUngated :: Posture where "PostureUngated = ''ungated''"

lemmas posture_defs =
  PosturePublic_def PostureAuthenticated_def PostureRoleGated_def PostureUngated_def

definition Posture_Valid :: "Posture \<Rightarrow> bool" where
  "Posture_Valid p \<longleftrightarrow>
     p = PosturePublic \<or> p = PostureAuthenticated \<or> p = PostureRoleGated \<or> p = PostureUngated"

definition Posture_Provable :: "Posture \<Rightarrow> bool" where
  "Posture_Provable p \<longleftrightarrow> p = PosturePublic \<or> p = PostureAuthenticated \<or> p = PostureRoleGated"

record RoutePosture =
  rp_Method :: string
  rp_Pattern :: string
  rp_Posture :: Posture
  rp_Why :: string

definition RoutePosture_String :: "RoutePosture \<Rightarrow> string" where
  "RoutePosture_String r = rp_Method r @ '' '' @ rp_Pattern r"

section \<open>Declarations\<close>

type_synonym DispatchKind = string

definition DispatchCommandKind :: DispatchKind where "DispatchCommandKind = ''command''"
definition DispatchQueryKind :: DispatchKind where "DispatchQueryKind = ''query''"

definition DispatchObject :: "DispatchKind \<Rightarrow> string \<Rightarrow> string" where
  "DispatchObject kind name = kind @ ''/'' @ name"

definition dispatchAction :: "DispatchKind \<Rightarrow> string" where
  "dispatchAction kind = (if kind = DispatchQueryKind then ''read'' else ''execute'')"

record DispatchPosture =
  dp_Kind :: DispatchKind
  dp_Name :: string
  dp_Posture :: Posture
  dp_Why :: string

definition DispatchPosture_String :: "DispatchPosture \<Rightarrow> string" where
  "DispatchPosture_String d = DispatchObject (dp_Kind d) (dp_Name d)"

type_synonym dispatchKey = "DispatchKind \<times> string"

record dispatchRow =
  dr_decl :: DispatchPosture
  dr_object :: string

type_synonym dispatch_table = "(dispatchKey, dispatchRow) gomap"

definition decl_key :: "DispatchPosture \<Rightarrow> dispatchKey" where
  "decl_key d = (dp_Kind d, dp_Name d)"

definition Declare ::
  "id_env \<Rightarrow> DispatchPosture \<Rightarrow> dispatch_table \<Rightarrow> err option \<times> dispatch_table" where
  "Declare I row current =
     (case map_get current (decl_key row) of
        Some existing \<Rightarrow>
          if dr_decl existing \<noteq> row
          then (Some (new_error Rejection ''invalid_argument''
                 (DispatchPosture_String row @ '' is declared twice with different postures (''
                  @ quoted I (dp_Posture (dr_decl existing)) @ '' vs '' @ quoted I (dp_Posture row) @ '')'')),
                current)
          else (None, map_put (decl_key row)
                 \<lparr> dr_decl = row, dr_object = DispatchPosture_String row \<rparr> current)
      | None \<Rightarrow>
          (None, map_put (decl_key row)
             \<lparr> dr_decl = row, dr_object = DispatchPosture_String row \<rparr> current))"

text \<open>\<open>RegisterCommand\<close> and \<open>RegisterQuery\<close> register with the library's dispatcher, whose
  \<open>RegisterTyped\<close> is the argument \<open>register\<close>, and then declare.\<close>

definition register_and_declare ::
  "id_env \<Rightarrow> err_env \<Rightarrow> DispatchKind \<Rightarrow> string \<Rightarrow> string \<Rightarrow> Posture \<Rightarrow> string \<Rightarrow> ('d \<Rightarrow> err option \<times> 'd)
    \<Rightarrow> dispatch_table \<times> 'd \<Rightarrow> err option \<times> dispatch_table \<times> 'd" where
  "register_and_declare I E kind label name posture why register = (\<lambda>(table, disp).
     case register disp of
       (Some e, disp') \<Rightarrow>
         (Some (wrap_error (classify E e) e ''cqrshtmx.dispatch_gate.register_failed''
            (''registering '' @ label @ '' type '' @ name)), table, disp')
     | (None, disp') \<Rightarrow>
         (case Declare I \<lparr> dp_Kind = kind, dp_Name = name, dp_Posture = posture, dp_Why = why \<rparr> table of
            (e, table') \<Rightarrow> (e, table', disp')))"

definition RegisterCommand ::
  "id_env \<Rightarrow> err_env \<Rightarrow> string \<Rightarrow> Posture \<Rightarrow> string \<Rightarrow> ('d \<Rightarrow> err option \<times> 'd)
    \<Rightarrow> dispatch_table \<times> 'd \<Rightarrow> err option \<times> dispatch_table \<times> 'd" where
  "RegisterCommand I E cmdType posture why register =
     register_and_declare I E DispatchCommandKind ''command'' cmdType posture why register"

definition RegisterQuery ::
  "id_env \<Rightarrow> err_env \<Rightarrow> string \<Rightarrow> Posture \<Rightarrow> string \<Rightarrow> ('d \<Rightarrow> err option \<times> 'd)
    \<Rightarrow> dispatch_table \<times> 'd \<Rightarrow> err option \<times> dispatch_table \<times> 'd" where
  "RegisterQuery I E qryType posture why register =
     register_and_declare I E DispatchQueryKind ''query'' qryType posture why register"

definition posture_less :: "DispatchPosture \<Rightarrow> DispatchPosture \<Rightarrow> bool" where
  "posture_less d other =
     (if dp_Kind d \<noteq> dp_Kind other then dp_Kind d < dp_Kind other else dp_Name d < dp_Name other)"

text \<open>The inner loop of the insertion sort: the row at \<open>j\<close> moves left while it is smaller.\<close>

fun sink :: "nat \<Rightarrow> DispatchPosture list \<Rightarrow> DispatchPosture list" where
  "sink 0 rows = rows"
| "sink (Suc j) rows =
     (if posture_less (rows ! Suc j) (rows ! j)
      then sink j (rows [Suc j := rows ! j, j := rows ! Suc j])
      else rows)"

definition sortDispatchPostures :: "DispatchPosture list \<Rightarrow> DispatchPosture list" where
  "sortDispatchPostures rows = fold sink [1..<length rows] rows"

text \<open>The order of the association list stands for the order Go iterates over the map.\<close>

definition Manifest :: "dispatch_table \<Rightarrow> DispatchPosture list" where
  "Manifest table = sortDispatchPostures (map (\<lambda>(k, resolved). dr_decl resolved) table)"

definition row_problems :: "id_env \<Rightarrow> DispatchPosture \<Rightarrow> string list" where
  "row_problems I row =
     (if \<not> Posture_Valid (dp_Posture row) \<or> dp_Posture row = PostureUngated
      then [DispatchPosture_String row @ '' declares posture '' @ quoted I (dp_Posture row)
            @ '', which a dispatch gate cannot enforce''] else [])
     @ (if trim_space (dp_Why row) = []
        then [DispatchPosture_String row @ '' has no reason; a posture without a reason is a guess'']
        else [])"

fun join :: "string \<Rightarrow> string list \<Rightarrow> string" where
  "join sep [] = []"
| "join sep [x] = x"
| "join sep (x # y # xs) = x @ sep @ join sep (y # xs)"

definition Validate :: "id_env \<Rightarrow> dispatch_table \<Rightarrow> err option" where
  "Validate I table =
     (let rows = Manifest table;
          problems =
            (if rows = [] then
               [''no dispatch postures declared: every dispatch will be denied; either declare the ''
                @ ''postures this dispatcher serves or do not install the gate''] else [])
            @ concat (map (row_problems I) rows)
      in if problems = [] then None
         else Some (new_error Rejection ''invalid_argument''
           (''dispatch posture validation failed: '' @ join ''; '' problems)))"

section \<open>Verdicts\<close>

record DispatchOutcome =
  do_Kind :: DispatchKind
  do_Name :: string
  do_Posture :: Posture
  do_Request :: Request
  do_Decision :: Decision
  do_Audit :: bool

record dispatchGate =
  dg_checker :: "PermissionChecker option"
  dg_auditOnly :: bool
  dg_observe :: bool

definition newDispatchGate ::
  "PermissionChecker option \<Rightarrow> (dispatchGate \<Rightarrow> dispatchGate) list \<Rightarrow> dispatchGate" where
  "newDispatchGate checker opts =
     fold (\<lambda>opt g. opt g) opts \<lparr> dg_checker = checker, dg_auditOnly = False, dg_observe = False \<rparr>"

definition AuditOnly :: "dispatchGate \<Rightarrow> dispatchGate" where
  "AuditOnly g = g \<lparr> dg_auditOnly := True \<rparr>"

definition OnDecision :: "bool \<Rightarrow> dispatchGate \<Rightarrow> dispatchGate" where
  "OnDecision observe g = g \<lparr> dg_observe := observe \<rparr>"

definition NewDispatchGate ::
  "PermissionChecker option \<Rightarrow> (dispatchGate \<Rightarrow> dispatchGate) list \<Rightarrow> err + dispatchGate \<times> dispatch_table" where
  "NewDispatchGate checker opts =
     (if checker = None
      then Inl (wrap_error Infrastructure (Sentinel ErrEnforcerNil) ''enforcer_nil''
             ''dispatch gate requires a permission checker'')
      else Inr (newDispatchGate checker opts, []))"

definition DispatchSubject :: "id_env \<Rightarrow> http_request \<Rightarrow> string" where
  "DispatchSubject I ctx =
     (let userID = UserIDFromContext I ctx; actorID = ActorIDFromContext ctx
      in if \<not> user_is_zero I userID then user_display I userID
         else if \<not> actor_is_zero I actorID then
           (if Kind actorID = ActorUser then Raw actorID else prefixed I actorID)
         else [])"

text \<open>A user and its own actor identity are one subject only where the displayed text of a user ID is the bare one.\<close>

lemma user_actor_subjects:
  assumes "hr_UserID ctx = Some u" and "\<not> user_is_zero I u" and "hr_UserID ctx' = None" and "user_is_zero I (zero_user I)"
    and "hr_ActorID ctx' = Some (ActorIDFromUser I u)" and "\<not> actor_is_zero I (ActorIDFromUser I u)"
  shows "DispatchSubject I ctx = DispatchSubject I ctx' \<longleftrightarrow> user_display I u = user_text I u"
  using assms by (simp add: DispatchSubject_def UserIDFromContext_def ActorIDFromContext_def ActorIDFromUser_def)

definition deriveDispatchRequest ::
  "string \<Rightarrow> string \<Rightarrow> string \<Rightarrow> Request option \<Rightarrow> Request" where
  "deriveDispatchRequest object act subject describe =
     (let req = \<lparr> rq_Subject = subject, rq_Domain = WildcardDomain_root,
                  rq_Resource = \<lparr> rs_Type = object, rs_ID = [] \<rparr>, rq_Action = act \<rparr>
      in (case describe of
            None \<Rightarrow> req
          | Some overlay \<Rightarrow>
              \<lparr> rq_Subject = (if rq_Subject overlay \<noteq> [] then rq_Subject overlay else rq_Subject req),
                rq_Domain = (if rq_Domain overlay \<noteq> [] then rq_Domain overlay else rq_Domain req),
                rq_Resource =
                  (if rs_Type (rq_Resource overlay) \<noteq> [] \<or> rs_ID (rq_Resource overlay) \<noteq> []
                   then rq_Resource overlay else rq_Resource req),
                rq_Action = (if rq_Action overlay \<noteq> [] then rq_Action overlay else rq_Action req) \<rparr>))"

definition denyDispatch :: "Request \<Rightarrow> Decision \<Rightarrow> err" where
  "denyDispatch req decision =
     (if dc_Reason decision = ReasonNotAuthenticated
      then wrap_error Rejection (Sentinel ErrUnauthorized) ''unauthorized''
             (''dispatch '' @ Resource_String (rq_Resource req))
      else wrap_error Rejection (Sentinel ErrForbidden) ''forbidden''
             (question_text (rq_Subject req) (rq_Domain req) (Resource_String (rq_Resource req))
                (rq_Action req) @ '' reason='' @ reason_text (dc_Reason decision)))"

definition settle ::
  "dispatchGate \<Rightarrow> DispatchKind \<Rightarrow> string \<Rightarrow> Posture \<Rightarrow> Request \<Rightarrow> Decision \<Rightarrow> err option
    \<Rightarrow> err option \<times> DispatchOutcome list" where
  "settle g kind name posture req decision denial =
     (let outcome = (\<lambda>audit. \<lparr> do_Kind = kind, do_Name = name, do_Posture = posture, do_Request = req,
                               do_Decision = decision, do_Audit = audit \<rparr>);
          report = (\<lambda>audit. if dg_observe g then [outcome audit] else [])
      in (case denial of
            None \<Rightarrow> (None, report False)
          | Some e \<Rightarrow> if \<not> dg_auditOnly g then (Some e, report False) else (None, report True)))"

abbreviation allowed_decision :: Decision where
  "allowed_decision \<equiv> \<lparr> dc_Allowed = True, dc_Reason = ReasonAllowed, dc_MatchedRules = [] \<rparr>"

abbreviation refused_decision :: "DecisionReason \<Rightarrow> Decision" where
  "refused_decision reason \<equiv> \<lparr> dc_Allowed = False, dc_Reason = reason, dc_MatchedRules = [] \<rparr>"

definition authorize ::
  "id_env \<Rightarrow> dispatchGate \<Rightarrow> (dispatchKey \<Rightarrow> dispatchRow option) \<Rightarrow> http_request \<Rightarrow> DispatchKind
    \<Rightarrow> string \<Rightarrow> Request option \<Rightarrow> err option \<times> DispatchOutcome list" where
  "authorize I g lookup ctx kind name describe =
     (let row = lookup (kind, name);
          posture = (case row of Some d \<Rightarrow> dp_Posture (dr_decl d) | None \<Rightarrow> PostureRoleGated);
          object = (case row of
            Some d \<Rightarrow> if dr_object d = [] then DispatchObject kind name else dr_object d
          | None \<Rightarrow> DispatchObject kind name);
          req = deriveDispatchRequest object (dispatchAction kind) (DispatchSubject I ctx) describe
      in if row = None then
           settle g kind name PostureRoleGated req (refused_decision ReasonNoMatchingPolicy)
             (Some (wrap_error Rejection (Sentinel ErrForbidden) ''forbidden''
               (''no dispatch posture declared for '' @ Resource_String (rq_Resource req)
                @ ''; register it through DispatchGate.RegisterCommand'')))
         else if posture = PosturePublic then settle g kind name posture req allowed_decision None
         else if rq_Subject req = [] then
           settle g kind name posture req (refused_decision ReasonNotAuthenticated)
             (Some (denyDispatch req (refused_decision ReasonNotAuthenticated)))
         else if posture = PostureAuthenticated then settle g kind name posture req allowed_decision None
         else if dg_checker g = None then
           (Some (wrap_error Infrastructure (Sentinel ErrEnforcerNil) ''enforcer_nil''
             (''dispatch gate has no checker for '' @ Resource_String (rq_Resource req))), [])
         else (case Decide (dg_checker g) req of
                 Inl e \<Rightarrow> (Some e, [])
               | Inr decision \<Rightarrow>
                   settle g kind name posture req decision
                     (if \<not> dc_Allowed decision then Some (denyDispatch req decision) else None)))"

definition enforcedPosture :: "dispatch_table \<Rightarrow> dispatchKey \<Rightarrow> dispatchRow option" where
  "enforcedPosture table key = map_get table key"

definition allGated :: "dispatchKey \<Rightarrow> dispatchRow option" where
  "allGated key =
     Some \<lparr> dr_decl = \<lparr> dp_Kind = [], dp_Name = [], dp_Posture = PostureRoleGated, dp_Why = [] \<rparr>,
            dr_object = [] \<rparr>"

text \<open>The middlewares: the handler behind them runs when the verdict is no error.\<close>

definition commandMiddlewareFor ::
  "id_env \<Rightarrow> dispatchGate \<Rightarrow> (dispatchKey \<Rightarrow> dispatchRow option) \<Rightarrow> ('cmd \<Rightarrow> string)
    \<Rightarrow> (http_request \<Rightarrow> 'cmd \<Rightarrow> Request option) \<Rightarrow> (http_request \<Rightarrow> 'cmd \<Rightarrow> 'w \<Rightarrow> err option \<times> 'w)
    \<Rightarrow> http_request \<Rightarrow> 'cmd \<Rightarrow> 'w \<Rightarrow> err option \<times> 'w" where
  "commandMiddlewareFor I g lookup type_of describe handler ctx cmd w =
     (case fst (authorize I g lookup ctx DispatchCommandKind (type_of cmd) (describe ctx cmd)) of
        Some e \<Rightarrow> (Some e, w)
      | None \<Rightarrow> handler ctx cmd w)"

definition queryMiddlewareFor ::
  "id_env \<Rightarrow> dispatchGate \<Rightarrow> (dispatchKey \<Rightarrow> dispatchRow option) \<Rightarrow> ('qry \<Rightarrow> string)
    \<Rightarrow> (http_request \<Rightarrow> 'qry \<Rightarrow> Request option) \<Rightarrow> (http_request \<Rightarrow> 'qry \<Rightarrow> 'w \<Rightarrow> (err + 'r) \<times> 'w)
    \<Rightarrow> http_request \<Rightarrow> 'qry \<Rightarrow> 'w \<Rightarrow> (err + 'r) \<times> 'w" where
  "queryMiddlewareFor I g lookup type_of describe handler ctx qry w =
     (case fst (authorize I g lookup ctx DispatchQueryKind (type_of qry) (describe ctx qry)) of
        Some e \<Rightarrow> (Inl e, w)
      | None \<Rightarrow> handler ctx qry w)"

section \<open>The manifest\<close>

text \<open>Sinking a row inserts it into the sorted rows before it.\<close>

lemma posture_less_key: "posture_less d other \<longleftrightarrow> decl_key d < decl_key other"
  by (auto simp: posture_less_def decl_key_def less_prod_def')

fun insert_back :: "DispatchPosture \<Rightarrow> DispatchPosture list \<Rightarrow> DispatchPosture list" where
  "insert_back x [] = [x]"
| "insert_back x (y # ys) = (if posture_less x y then y # insert_back x ys else x # y # ys)"

lemma sink_inserts: "sink (length xs) (xs @ x # ys) = rev (insert_back x (rev xs)) @ ys"
proof (induction xs arbitrary: ys rule: rev_induct)
  case Nil
  then show ?case by simp
next
  case (snoc y xs)
  have swap: "(xs @ y # x # ys) [Suc (length xs) := y, length xs := x] = xs @ x # y # ys"
    by (simp add: list_update_append)
  have nth: "(xs @ y # x # ys) ! Suc (length xs) = x" "(xs @ y # x # ys) ! length xs = y"
    by (simp_all add: nth_append)
  show ?case using snoc.IH [of "y # ys"] by (simp add: swap nth)
qed

lemma set_insert_back: "set (insert_back x xs) = insert x (set xs)"
  by (induction xs) auto

lemma insert_back_sorted:
  "sorted (map decl_key (rev xs)) \<Longrightarrow> sorted (map decl_key (rev (insert_back x xs)))"
  by (induction xs) (auto simp: sorted_append set_insert_back posture_less_key)

lemma mset_insert_back: "mset (insert_back x xs) = add_mset x (mset xs)"
  by (induction xs) auto

lemma sink_steps:
  "n \<le> length rows \<Longrightarrow>
   \<exists>zs. fold sink [1..<n] rows = zs @ drop n rows \<and> mset zs = mset (take n rows)
      \<and> sorted (map decl_key zs)"
proof (induction n)
  case 0
  then show ?case by (intro exI [of _ "[]"]) simp
next
  case (Suc n)
  then obtain zs where zs: "fold sink [1..<n] rows = zs @ drop n rows" "mset zs = mset (take n rows)"
    "sorted (map decl_key zs)" by auto
  from Suc.prems have drop: "drop n rows = rows ! n # drop (Suc n) rows"
    by (simp add: Cons_nth_drop_Suc)
  have len: "length zs = n" using zs(2) Suc.prems mset_eq_length by fastforce
  show ?case
  proof (cases n)
    case 0
    with drop show ?thesis
      using Suc.prems by (intro exI [of _ "[rows ! 0]"]) (cases rows; simp)
  next
    case (Suc m)
    then have "fold sink [1..<Suc n] rows = sink n (fold sink [1..<n] rows)" by simp
    also have "\<dots> = rev (insert_back (rows ! n) (rev zs)) @ drop (Suc n) rows"
      unfolding zs(1) drop using sink_inserts [of zs "rows ! n" "drop (Suc n) rows"] by (simp add: len)
    finally show ?thesis
      using Suc.prems zs(2,3) insert_back_sorted [of "rev zs" "rows ! n"]
      by (intro exI [of _ "rev (insert_back (rows ! n) (rev zs))"])
        (simp add: mset_insert_back take_Suc_conv_app_nth)
  qed
qed

lemma sortDispatchPostures_sorts:
  "mset (sortDispatchPostures rows) = mset rows" "sorted (map decl_key (sortDispatchPostures rows))"
  using sink_steps [of "length rows" rows] by (auto simp: sortDispatchPostures_def)

text \<open>Declaring in sequence: the first declaration of a type stands, a differing one is refused.\<close>

definition table_after :: "id_env \<Rightarrow> DispatchPosture list \<Rightarrow> dispatch_table" where
  "table_after I ds = fold (\<lambda>d t. snd (Declare I d t)) ds []"

definition declared :: "DispatchPosture list \<Rightarrow> dispatchKey \<Rightarrow> DispatchPosture option" where
  "declared ds k = find (\<lambda>d. decl_key d = k) ds"

definition resolved_row :: "DispatchPosture \<Rightarrow> dispatchRow" where
  "resolved_row d = \<lparr> dr_decl = d, dr_object = DispatchPosture_String d \<rparr>"

lemma find_snoc: "find p (xs @ [x]) = (case find p xs of Some y \<Rightarrow> Some y | None \<Rightarrow> if p x then Some x else None)"
  by (induction xs) auto

lemma table_after_get:
  "map_wf (table_after I ds) \<and> map_get (table_after I ds) k = map_option resolved_row (declared ds k)"
proof (induction ds arbitrary: k rule: rev_induct)
  case Nil
  then show ?case by (simp add: table_after_def declared_def)
next
  case (snoc d ds)
  let ?t = "table_after I ds"
  have wf: "map_wf ?t" and get: "\<And>k. map_get ?t k = map_option resolved_row (declared ds k)"
    using snoc.IH by blast+
  have step: "table_after I (ds @ [d]) = snd (Declare I d ?t)" by (simp add: table_after_def)
  have "declared (ds @ [d]) k = (case declared ds k of Some y \<Rightarrow> Some y
      | None \<Rightarrow> if decl_key d = k then Some d else None)"
    by (simp add: declared_def find_snoc)
  then show ?case
    using wf get [of k] get [of "decl_key d"]
    by (auto simp: step Declare_def resolved_row_def split: option.splits)
qed

lemma declared_key: "declared ds k = Some d \<Longrightarrow> decl_key d = k \<and> d \<in> set ds"
  by (auto simp: declared_def dest: find_Some_set)

lemma manifest_of_table:
  assumes "map_wf t" and "map_get t = map_get (table_after I ds)"
  shows "set (Manifest t) = {d. declared ds (decl_key d) = Some d}"
    and "distinct (map decl_key (Manifest t))"
proof -
  have row: "decl_key (dr_decl v) = k \<and> v = resolved_row (dr_decl v) \<and> declared ds k = Some (dr_decl v)"
    if "(k, v) \<in> set t" for k v
  proof -
    have "map_get t k = Some v" using map_wf_in_set [OF assms(1) that] .
    with assms(2) table_after_get [of I ds k] obtain d where "v = resolved_row d" "declared ds k = Some d"
      by auto
    then show ?thesis using declared_key [of ds k d] by (simp add: resolved_row_def)
  qed
  have keys: "map decl_key (map (\<lambda>(k, v). dr_decl v) t) = map fst t"
    using row by (auto simp: case_prod_beta)
  have "mset (map decl_key (Manifest t)) = image_mset decl_key (mset (map (\<lambda>(k, v). dr_decl v) t))"
    unfolding Manifest_def mset_map [of decl_key] sortDispatchPostures_sorts(1) ..
  also have "\<dots> = mset (map fst t)" unfolding keys [symmetric] mset_map [of decl_key] ..
  finally have "mset (map decl_key (Manifest t)) = mset (map fst t)" .
  then show "distinct (map decl_key (Manifest t))"
    using assms(1) by (metis map_wf_def mset_eq_imp_distinct_iff)
  have "set (Manifest t) = (\<lambda>(k, v). dr_decl v) ` set t"
    unfolding Manifest_def by (metis sortDispatchPostures_sorts(1) set_map set_mset_mset)
  also have "\<dots> = {d. declared ds (decl_key d) = Some d}"
  proof (intro equalityI subsetI)
    fix d
    assume "d \<in> {d. declared ds (decl_key d) = Some d}"
    then have "map_get t (decl_key d) = Some (resolved_row d)"
      using assms(2) table_after_get [of I ds "decl_key d"] by simp
    then show "d \<in> (\<lambda>(k, v). dr_decl v) ` set t"
      by (intro image_eqI [of _ _ "(decl_key d, resolved_row d)"])
        (auto simp: resolved_row_def dest: map_of_SomeD)
  qed (use row in fastforce)
  finally show "set (Manifest t) = {d. declared ds (decl_key d) = Some d}" .
qed

text \<open>Whatever declarations a gate was given, and in whatever order Go iterates over its table,
  the manifest is one list: the first declaration of every type, each type once, ordered by kind
  and name.\<close>

theorem manifest_canonical:
  assumes "map_wf t" and "map_get t = map_get (table_after I ds)"
  shows "set (Manifest t) = {d. declared ds (decl_key d) = Some d}
    \<and> sorted_wrt (<) (map decl_key (Manifest t))
    \<and> (\<forall>t'. map_wf t' \<and> map_get t' = map_get t \<longrightarrow> Manifest t' = Manifest t)"
proof -
  note M = manifest_of_table [OF assms]
  have sorted: "sorted (map decl_key (Manifest t))" for t
    by (simp add: Manifest_def sortDispatchPostures_sorts(2))
  have "Manifest t' = Manifest t" if "map_wf t'" "map_get t' = map_get t" for t'
  proof -
    note M' = manifest_of_table [OF that(1) trans [OF that(2) assms(2)]]
    have inj: "inj_on decl_key (set (Manifest t') \<union> set (Manifest t))"
      unfolding M' M by (rule inj_onI) (metis (mono_tags, lifting) Un_absorb mem_Collect_eq option.inject)
    have "set (Manifest t') = set (Manifest t)" unfolding M' M ..
    moreover note M'(2)
    ultimately show ?thesis
      using inj sorted M(2) by (intro map_sorted_distinct_set_unique [of decl_key])
  qed
  moreover have "sorted_wrt (<) (map decl_key (Manifest t))"
    unfolding strict_sorted_iff using sorted M(2) by blast
  ultimately show ?thesis using M(1) by blast
qed

definition demo_posture :: "DispatchKind \<Rightarrow> string \<Rightarrow> Posture \<Rightarrow> DispatchPosture" where
  "demo_posture kind name p = \<lparr> dp_Kind = kind, dp_Name = name, dp_Posture = p, dp_Why = ''why'' \<rparr>"

definition demo_declarations :: "DispatchPosture list" where
  "demo_declarations =
     [demo_posture DispatchQueryKind ''ListItems'' PosturePublic,
      demo_posture DispatchCommandKind ''DeleteItem'' PostureRoleGated,
      demo_posture DispatchCommandKind ''CreateItem'' PostureAuthenticated]"

lemma demo_declarations_eval:
  "rev (table_after demo_ids demo_declarations) \<noteq> table_after demo_ids demo_declarations"
  "map dp_Name (Manifest (table_after demo_ids demo_declarations)) = [''CreateItem'', ''DeleteItem'', ''ListItems'']"
  by code_simp+

lemma manifest_canonical_witness:
  "map dp_Name (Manifest (rev (table_after demo_ids demo_declarations))) = [''CreateItem'', ''DeleteItem'', ''ListItems'']"
proof -
  let ?t = "table_after demo_ids demo_declarations"
  have wf: "map_wf ?t" using table_after_get by blast
  then have "map_wf (rev ?t) \<and> map_get (rev ?t) = map_get ?t"
    by (simp add: map_wf_def map_of_inject_set flip: rev_map)
  with manifest_canonical [OF wf refl] have "Manifest (rev ?t) = Manifest ?t" by blast
  then show ?thesis by (simp add: demo_declarations_eval)
qed

section \<open>The verdict\<close>

text \<open>What a gate with a declaration set admits.\<close>

definition asks_engine :: "dispatchGate \<Rightarrow> Request \<Rightarrow> (err + bool \<times> string list) option" where
  "asks_engine g req =
     map_option (\<lambda>check. check (rq_Subject req) (rq_Domain req) (Resource_String (rq_Resource req)) (rq_Action req))
       (dg_checker g)"

fun admitted :: "dispatchGate \<Rightarrow> DispatchPosture option \<Rightarrow> Request \<Rightarrow> bool" where
  "admitted g None req = False"
| "admitted g (Some d) req =
     (dp_Posture d = PosturePublic
      \<or> rq_Subject req \<noteq> []
        \<and> (dp_Posture d = PostureAuthenticated \<or> (\<exists>ms. asks_engine g req = Some (Inr (True, ms)))))"

text \<open>Dispatches the gate refuses for want of an answer, not for want of a permission.\<close>

fun engine_failed :: "dispatchGate \<Rightarrow> DispatchPosture option \<Rightarrow> Request \<Rightarrow> bool" where
  "engine_failed g None req = False"
| "engine_failed g (Some d) req =
     (dp_Posture d \<noteq> PosturePublic \<and> dp_Posture d \<noteq> PostureAuthenticated \<and> rq_Subject req \<noteq> []
      \<and> (asks_engine g req = None \<or> (\<exists>e. asks_engine g req = Some (Inl e))))"

definition dispatch_question ::
  "id_env \<Rightarrow> http_request \<Rightarrow> DispatchKind \<Rightarrow> string \<Rightarrow> Request option \<Rightarrow> Request" where
  "dispatch_question I ctx kind name describe =
     deriveDispatchRequest (DispatchObject kind name) (dispatchAction kind) (DispatchSubject I ctx) describe"

lemma dispatch_question_domain: "rq_Domain (dispatch_question I ctx kind name describe) \<noteq> []"
  by (auto simp: dispatch_question_def deriveDispatchRequest_def WildcardDomain_root_def Let_def
      split: option.splits)

lemma Decide_answer:
  assumes "rq_Subject req \<noteq> []" and "rq_Domain req \<noteq> []"
  shows "(case Decide (dg_checker g) req of
      Inl e \<Rightarrow> asks_engine g req = None \<or> (\<exists>e. asks_engine g req = Some (Inl e))
    | Inr d \<Rightarrow> asks_engine g req = Some (Inr (dc_Allowed d, dc_MatchedRules d))
        \<and> dc_Reason d \<noteq> ReasonNotAuthenticated)"
  using assms by (auto simp: Decide_def asks_engine_def Let_def split: option.splits sum.splits)

lemma authorize_table:
  fixes ds I ctx kind name describe g
  defines "d \<equiv> declared ds (kind, name)" and "req \<equiv> dispatch_question I ctx kind name describe"
  assumes "map_get t = map_get (table_after I ds)"
  shows "(case fst (authorize I g (enforcedPosture t) ctx kind name describe) of
      None \<Rightarrow> admitted g d req \<or> dg_auditOnly g \<and> \<not> engine_failed g d req
    | Some e \<Rightarrow> engine_failed g d req
        \<or> \<not> dg_auditOnly g \<and> \<not> admitted g d req
          \<and> MapError E (Some e) = (if d \<noteq> None \<and> rq_Subject req = [] then 401 else 403))"
proof (cases d)
  case None
  then have "enforcedPosture t (kind, name) = None"
    using assms(3) table_after_get [of I ds "(kind, name)"] by (simp add: enforcedPosture_def d_def)
  then show ?thesis
    using None by (simp add: authorize_def settle_def Let_def MapError_refusals)
next
  case (Some x)
  have row: "enforcedPosture t (kind, name) = Some (resolved_row x)"
    using assms(3) table_after_get [of I ds "(kind, name)"] Some by (simp add: enforcedPosture_def d_def)
  have obj: "dr_object (resolved_row x) = DispatchObject kind name" "DispatchObject kind name \<noteq> []"
    using declared_key [of ds "(kind, name)" x] Some
    by (auto simp: resolved_row_def DispatchPosture_String_def decl_key_def d_def DispatchObject_def)
  have dom: "rq_Domain req \<noteq> []" unfolding req_def by (rule dispatch_question_domain)
  have run: "authorize I g (enforcedPosture t) ctx kind name describe =
      (if dp_Posture x = PosturePublic then settle g kind name (dp_Posture x) req allowed_decision None
       else if rq_Subject req = [] then
         settle g kind name (dp_Posture x) req (refused_decision ReasonNotAuthenticated)
           (Some (denyDispatch req (refused_decision ReasonNotAuthenticated)))
       else if dp_Posture x = PostureAuthenticated then
         settle g kind name (dp_Posture x) req allowed_decision None
       else if dg_checker g = None then
         (Some (wrap_error Infrastructure (Sentinel ErrEnforcerNil) ''enforcer_nil''
           (''dispatch gate has no checker for '' @ Resource_String (rq_Resource req))), [])
       else (case Decide (dg_checker g) req of
               Inl e \<Rightarrow> (Some e, [])
             | Inr decision \<Rightarrow>
                 settle g kind name (dp_Posture x) req decision
                   (if \<not> dc_Allowed decision then Some (denyDispatch req decision) else None)))"
    using obj by (simp add: authorize_def row resolved_row_def req_def dispatch_question_def Let_def
        split: sum.split)
  show ?thesis
  proof (cases "dp_Posture x = PosturePublic \<or> rq_Subject req = [] \<or> dp_Posture x = PostureAuthenticated
      \<or> dg_checker g = None")
    case True
    then show ?thesis
      by (auto simp: run Some settle_def denyDispatch_def MapError_refusals asks_engine_def)
  next
    case False
    then show ?thesis
      using Decide_answer [of req g] dom
      by (cases "Decide (dg_checker g) req")
        (auto simp: run Some settle_def denyDispatch_def MapError_refusals)
  qed
qed


definition demo_gate :: dispatchGate where
  "demo_gate = newDispatchGate (Some (\<lambda>s d r a. Inr (s = ''xxx'', []))) []"


end
