(* ===== verification/Redirects.thy ===== *)
theory Redirects
  imports Prelude
begin

text \<open>
  Redirect targets of the root package: \<open>sanitizeRedirectURL\<close> and \<open>pathEscapesRoot\<close>
  (\<open>response.go\<close>), \<open>SafeRedirectPath\<close> (\<open>redirect.go\<close>). \<open>url.Parse\<close> is an argument that
  answers the components of a URL; \<open>path.Clean\<close> is written out on the segments of a path.
\<close>

section \<open>Paths\<close>

definition slash :: char where "slash = CHR ''/''"

text \<open>\<open>strings.Split(p, "/")\<close>.\<close>

fun segments :: "string \<Rightarrow> string list" where
  "segments [] = [[]]"
| "segments (c # s) =
     (if c = slash then [] # segments s
      else (case segments s of [] \<Rightarrow> [[c]] | x # xs \<Rightarrow> (c # x) # xs))"

definition named :: "string \<Rightarrow> bool" where
  "named s \<longleftrightarrow> s \<noteq> [] \<and> s \<noteq> ''.''"

definition rooted :: "string \<Rightarrow> bool" where
  "rooted p \<longleftrightarrow> (case p of [] \<Rightarrow> False | c # s \<Rightarrow> c = slash)"

text \<open>\<open>path.Clean\<close>: empty and \<open>.\<close> segments go, \<open>..\<close> takes the segment before it away; what is
  left of a path that climbs is dropped when it is rooted and kept otherwise. The stack of kept
  segments is in reverse.\<close>

definition clean_step :: "bool \<Rightarrow> string \<Rightarrow> string list \<Rightarrow> string list" where
  "clean_step root seg stack =
     (if \<not> named seg then stack
      else if seg = ''..'' then
        (case stack of
           [] \<Rightarrow> if root then [] else [''..'']
         | prev # rest \<Rightarrow> if prev = ''..'' then ''..'' # stack else rest)
      else seg # stack)"

fun join_path :: "string list \<Rightarrow> string" where
  "join_path [] = []"
| "join_path [x] = x"
| "join_path (x # y # xs) = x @ slash # join_path (y # xs)"

definition path_Clean :: "string \<Rightarrow> string" where
  "path_Clean p =
     (let kept = rev (fold (clean_step (rooted p)) (segments p) []);
          cleaned = (if rooted p then slash # join_path kept else join_path kept)
      in if cleaned = [] then ''.'' else cleaned)"

text \<open>\<open>pathEscapesRoot\<close>: the loop skips slashes and takes one segment at a time.\<close>

function escapes_from :: "int \<Rightarrow> string \<Rightarrow> bool" where
  "escapes_from depth [] = False"
| "escapes_from depth (c # s) =
     (if c = slash then escapes_from depth s
      else (let seg = c # takeWhile (\<lambda>x. x \<noteq> slash) s;
                depth' = (if seg = ''..'' then depth - 1
                          else if seg = ''.'' then depth else depth + 1)
            in depth' < 0 \<or> escapes_from depth' (dropWhile (\<lambda>x. x \<noteq> slash) s)))"
  by pat_completeness auto
termination
  by (relation "measure (\<lambda>(d, s). length s)") (auto simp: le_imp_less_Suc length_dropWhile_le)

definition pathEscapesRoot :: "string \<Rightarrow> bool" where
  "pathEscapesRoot p = escapes_from 0 p"

section \<open>Sanitizing\<close>

record parsed_url =
  pu_Scheme :: string
  pu_Host :: string
  pu_Opaque :: string
  pu_Path :: string

definition sanitizeRedirectURL :: "(string \<Rightarrow> parsed_url option) \<Rightarrow> string \<Rightarrow> string \<times> bool" where
  "sanitizeRedirectURL url_Parse rawURL =
     (case url_Parse rawURL of
        None \<Rightarrow> ([], False)
      | Some parsedURL \<Rightarrow>
          if pu_Scheme parsedURL \<noteq> [] \<or> pu_Host parsedURL \<noteq> [] then ([], False)
          else if pu_Opaque parsedURL \<noteq> [] then ([], False)
          else (let cleaned = path_Clean (pu_Path parsedURL)
                in if pathEscapesRoot (pu_Path parsedURL) then ([], False)
                   else (cleaned, pu_Path parsedURL \<noteq> [])))"

definition SafeRedirectPath :: "string \<Rightarrow> string" where
  "SafeRedirectPath p =
     (if p = [] \<or> p ! 0 \<noteq> slash \<or> (length p > 1 \<and> (p ! 1 = slash \<or> p ! 1 = CHR 0x5C))
      then ''/'' else p)"

section \<open>Clean paths\<close>

text \<open>The scan counts the depth the segments reach; a path that never climbs above where it starts
  cleans to names only.\<close>

lemma segments_nonempty: "segments s \<noteq> []"
  by (induction s) (auto split: list.splits)

lemma segments_append_slash: "slash \<notin> set x \<Longrightarrow> segments (x @ slash # s) = x # segments s"
  by (induction x) (auto split: list.splits)

lemma segments_last: "slash \<notin> set x \<Longrightarrow> segments x = [x]"
  by (induction x) auto

definition depth_after :: "string \<Rightarrow> int \<Rightarrow> int" where
  "depth_after seg d = (if seg = ''..'' then d - 1 else if named seg then d + 1 else d)"

fun climbs :: "int \<Rightarrow> string list \<Rightarrow> bool" where
  "climbs d [] = False"
| "climbs d (x # xs) = (depth_after x d < 0 \<or> climbs (depth_after x d) xs)"

lemma segments_cut:
  "segments s = takeWhile (\<lambda>x. x \<noteq> slash) s #
     (case dropWhile (\<lambda>x. x \<noteq> slash) s of [] \<Rightarrow> [] | c # rest \<Rightarrow> segments rest)"
  by (induction s) (auto split: list.splits)

lemma climbs_rest:
  "0 \<le> d \<Longrightarrow> climbs d (segments (dropWhile (\<lambda>x. x \<noteq> slash) s)) =
     climbs d (case dropWhile (\<lambda>x. x \<noteq> slash) s of [] \<Rightarrow> [] | c # rest \<Rightarrow> segments rest)"
proof (cases "dropWhile (\<lambda>x. x \<noteq> slash) s")
  case (Cons x xs)
  then have "x = slash" using hd_dropWhile [of "\<lambda>x. x \<noteq> slash" s] by simp
  moreover assume "0 \<le> d"
  ultimately show ?thesis unfolding Cons by (simp add: depth_after_def named_def)
next
  case Nil
  assume "0 \<le> d"
  then show ?thesis unfolding Nil by (simp add: depth_after_def named_def)
qed

lemma escapes_climbs: "0 \<le> d \<Longrightarrow> escapes_from d p = climbs d (segments p)"
proof (induction d p rule: escapes_from.induct)
  case (1 d)
  then show ?case by (simp add: named_def depth_after_def)
next
  case (2 d c s)
  show ?case
  proof (cases "c = slash")
    case True
    with 2(1) 2(3) show ?thesis by (simp add: depth_after_def named_def)
  next
    case False
    let ?seg = "c # takeWhile (\<lambda>x. x \<noteq> slash) s" and ?rest = "dropWhile (\<lambda>x. x \<noteq> slash) s"
    let ?d = "if ?seg = ''..'' then d - 1 else if ?seg = ''.'' then d else d + 1"
    have d: "?d = depth_after ?seg d" by (auto simp: depth_after_def named_def)
    have segs: "segments (c # s) = ?seg # (case ?rest of [] \<Rightarrow> [] | c # rest \<Rightarrow> segments rest)"
      using segments_cut [of "c # s"] False by simp
    have IH: "0 \<le> ?d \<Longrightarrow> escapes_from ?d ?rest = climbs ?d (segments ?rest)"
      using 2(2) [OF False refl refl] .
    have "escapes_from d (c # s) \<longleftrightarrow> ?d < 0 \<or> escapes_from ?d ?rest"
      using False by (simp only: escapes_from.simps Let_def if_False)
    also have "\<dots> \<longleftrightarrow> depth_after ?seg d < 0 \<or> climbs (depth_after ?seg d) (segments ?rest)"
      using IH unfolding d by linarith
    also have "\<dots> \<longleftrightarrow> climbs d (segments (c # s))"
      unfolding segs climbs.simps using climbs_rest [of "depth_after ?seg d" s] by linarith
    finally show ?thesis .
  qed
qed

lemma clean_step_stays:
  assumes "0 \<le> depth_after x d" and "d = int (length stack)"
    and "\<forall>y\<in>set stack. named y \<and> y \<noteq> ''..''"
  shows "depth_after x d = int (length (clean_step root x stack))
    \<and> (\<forall>y\<in>set (clean_step root x stack). named y \<and> y \<noteq> ''..'')"
proof (cases "named x \<and> x = ''..''")
  case True
  with assms obtain y ys where "stack = y # ys" by (cases stack) (auto simp: depth_after_def)
  with True assms show ?thesis by (simp add: clean_step_def depth_after_def named_def)
next
  case False
  moreover have "named ''..''" by (simp add: named_def)
  ultimately show ?thesis using assms by (auto simp: clean_step_def depth_after_def)
qed

lemma clean_stays:
  assumes "\<not> climbs d xs" and "d = int (length stack)" and "\<forall>x\<in>set stack. named x \<and> x \<noteq> ''..''"
  shows "\<forall>x\<in>set (fold (clean_step root) xs stack). named x \<and> x \<noteq> ''..''"
  using assms
proof (induction xs arbitrary: d stack)
  case (Cons x xs)
  have pos: "0 \<le> depth_after x d" and rest: "\<not> climbs (depth_after x d) xs" using Cons.prems(1) by simp_all
  note step = clean_step_stays [OF pos Cons.prems(2,3), of root]
  from Cons.IH [OF rest conjunct1 [OF step] conjunct2 [OF step]] show ?case by simp
qed simp

lemma segments_no_slash: "x \<in> set (segments s) \<Longrightarrow> slash \<notin> set x"
  by (induction s arbitrary: x) (auto split: if_splits list.splits)

lemma clean_subset: "set (fold (clean_step root) xs stack) \<subseteq> set xs \<union> set stack \<union> {''..''}"
proof (induction xs arbitrary: stack)
  case (Cons x xs)
  have "set (clean_step root x stack) \<subseteq> {x, ''..''} \<union> set stack"
    by (auto simp: clean_step_def split: list.splits)
  with Cons.IH [of "clean_step root x stack"] show ?case by auto
qed auto

lemma segments_join:
  "xs \<noteq> [] \<Longrightarrow> \<forall>x\<in>set xs. slash \<notin> set x \<Longrightarrow> segments (join_path xs) = xs"
  by (induction xs rule: join_path.induct) (simp_all add: segments_last segments_append_slash)

lemma join_path_nonempty: "xs \<noteq> [] \<Longrightarrow> hd xs \<noteq> [] \<Longrightarrow> join_path xs \<noteq> []"
  by (cases xs rule: join_path.cases) simp_all

text \<open>A target \<open>sanitizeRedirectURL\<close> declares safe is a clean path of the same origin: it depends
  on nothing but the path of the URL, it is rooted exactly when that path is, none of its segments is
  empty, \<open>.\<close> or \<open>..\<close> (unless it is the root or the current directory), and it does not
  start with two slashes. (A backslash passes: see \<open>backslash_target_passes\<close>.)\<close>

theorem redirect_target_clean:
  assumes "sanitizeRedirectURL url_Parse raw = (target, True)"
  shows "(\<exists>u. url_Parse raw = Some u \<and> pu_Scheme u = [] \<and> pu_Host u = [] \<and> target = path_Clean (pu_Path u)
      \<and> rooted target = rooted (pu_Path u))
    \<and> (target \<in> {''/'', ''.''} \<or> (\<forall>x\<in>set (segments (if rooted target then tl target else target)).
          x \<noteq> [] \<and> x \<noteq> ''.'' \<and> x \<noteq> ''..''))
    \<and> \<not> has_prefix target ''//''"
proof -
  from assms obtain u where u: "url_Parse raw = Some u" "pu_Scheme u = []" "pu_Host u = []"
    "target = path_Clean (pu_Path u)" "\<not> pathEscapesRoot (pu_Path u)"
    by (auto simp: sanitizeRedirectURL_def Let_def split: option.splits if_splits)
  let ?p = "pu_Path u"
  define kept where "kept = rev (fold (clean_step (rooted ?p)) (segments ?p) [])"
  have names: "\<forall>x\<in>set kept. named x \<and> x \<noteq> ''..''"
    using clean_stays [of 0 "segments ?p" "[]"] u(5) by (simp add: kept_def pathEscapesRoot_def escapes_climbs)
  have free: "\<forall>x\<in>set kept. slash \<notin> set x"
    using clean_subset [of "rooted ?p" "segments ?p" "[]"] segments_no_slash [of _ ?p]
    by (auto simp: kept_def slash_def)
  have target: "target = (let cleaned = (if rooted ?p then slash # join_path kept else join_path kept)
      in if cleaned = [] then ''.'' else cleaned)"
    by (simp add: u(4) path_Clean_def kept_def)
  show ?thesis
  proof (cases "kept = []")
    case True
    then have "target = (if rooted ?p then ''/'' else ''.'')" by (simp add: target slash_def)
    then show ?thesis using u by (auto simp: rooted_def slash_def has_prefix_def)
  next
    case False
    then have "hd kept \<noteq> []" using names by (simp add: named_def)
    from join_path_nonempty [OF False this] obtain c s where cs: "join_path kept = c # s"
      by (meson neq_Nil_conv)
    have segs: "segments (c # s) = kept" using segments_join [OF False free] by (simp only: cs)
    have "[] \<notin> set (segments (c # s))" unfolding segs using names unfolding named_def by blast
    then have c: "c \<noteq> slash" by fastforce
    have t: "target = (if rooted ?p then slash # c # s else c # s)"
      by (simp add: target cs)
    have root: "rooted target = rooted ?p" using c by (simp add: t rooted_def)
    have "segments (if rooted target then tl target else target) = kept"
      unfolding root unfolding t using segs by simp
    then have "\<forall>x\<in>set (segments (if rooted target then tl target else target)).
        x \<noteq> [] \<and> x \<noteq> ''.'' \<and> x \<noteq> ''..''" using names by (simp only: named_def) blast
    moreover have "\<not> has_prefix target ''//''" using c by (simp add: t has_prefix_def slash_def)
    ultimately show ?thesis using u(1-4) root by blast
  qed
qed

definition demo_parse :: "string \<Rightarrow> parsed_url option" where
  "demo_parse raw = Some \<lparr> pu_Scheme = [], pu_Host = [], pu_Opaque = [], pu_Path = raw \<rparr>"

lemma redirect_target_clean_witness:
  "sanitizeRedirectURL demo_parse ''/a/./b/../c//d'' = (''/a/c/d'', True) \<and> segments ''a/c/d'' = [''a'', ''c'', ''d'']
   \<and> \<not> has_prefix ''/a/c/d'' ''//''"
proof -
  have run: "sanitizeRedirectURL demo_parse ''/a/./b/../c//d'' = (''/a/c/d'', True)" by code_simp
  from redirect_target_clean [OF run] have "\<not> has_prefix ''/a/c/d'' ''//''" by blast
  moreover have "segments ''a/c/d'' = [''a'', ''c'', ''d'']" by code_simp
  ultimately show ?thesis using run by blast
qed

text \<open>A URL whose path is a slash and a backslash passes \<open>sanitizeRedirectURL\<close> unchanged,
  although \<open>SafeRedirectPath\<close> of the same package refuses it: browsers read the backslash as a
  second slash, so the target leaves the site.\<close>

theorem backslash_target_passes:
  assumes "url_Parse raw = Some \<lparr> pu_Scheme = [], pu_Host = [], pu_Opaque = [],
      pu_Path = slash # CHR 0x5C # host \<rparr>"
    and "slash \<notin> set host"
  shows "sanitizeRedirectURL url_Parse raw = (slash # CHR 0x5C # host, True)
    \<and> SafeRedirectPath (slash # CHR 0x5C # host) = ''/''"
proof -
  let ?p = "slash # CHR 0x5C # host"
  have ne: "CHR 0x5C \<noteq> slash" by (simp add: slash_def)
  have segs: "segments ?p = [[], CHR 0x5C # host]" using ne segments_last [OF assms(2)] by simp
  have "path_Clean ?p = ?p"
    using segs by (simp add: path_Clean_def rooted_def clean_step_def named_def)
  moreover have "\<not> pathEscapesRoot ?p"
    unfolding pathEscapesRoot_def escapes_climbs [OF order_refl] segs by (simp add: depth_after_def named_def)
  ultimately show ?thesis
    using assms(1) by (simp add: sanitizeRedirectURL_def SafeRedirectPath_def)
qed

lemma backslash_target_passes_witness:
  "sanitizeRedirectURL demo_parse (slash # CHR 0x5C # ''evil.com'') = (slash # CHR 0x5C # ''evil.com'', True)"
proof -
  have "slash \<notin> set ''evil.com''" by (simp add: slash_def)
  from backslash_target_passes [OF _ this, of demo_parse "slash # CHR 0x5C # ''evil.com''"]
  show ?thesis by (simp add: demo_parse_def)
qed

end
