(* ===== verification/Request_Pipeline.thy ===== *)
theory Request_Pipeline
  imports Permission Redirects
begin

text \<open>
  The dispatch pipeline of the root package (\<open>handler.go\<close>, with the parts of
  \<open>options_types.go\<close>, \<open>options_json.go\<close>, \<open>csrf_handler.go\<close>, \<open>options_htmx.go\<close>,
  \<open>method_override.go\<close> and \<open>app.go\<close> it runs): from a request to the dispatch of a decoded
  command or query and the answer.

  What a handler does to the outside is a list of effects, in order: headers set, the error handler
  and the hooks called, the renderer run, the status written. A dispatcher is a function on a world
  \<open>'w\<close>; it is given the context (the identities of the request) and the timeout in force.
\<close>

section \<open>The application\<close>

datatype effect =
    SetHeader string string
  | ErrorHandler err
  | CapturedError err
  | OnErrorCalled err
  | AfterDispatch "err option"
  | CSRFRejected
  | Redirected303 string
  | WroteStatus int
  | Rendered

record ('v, 'r, 'w) App =
  ap_commands :: "(http_request \<Rightarrow> duration option \<Rightarrow> 'v \<Rightarrow> 'w \<Rightarrow> err option \<times> 'w) option"
  ap_queries :: "(http_request \<Rightarrow> duration option \<Rightarrow> 'v \<Rightarrow> 'w \<Rightarrow> (err + 'r) \<times> 'w) option"
  ap_enforcer :: "Enforcer option"
  ap_userIDExtractor :: "(http_request \<Rightarrow> err + user_id) option"
  ap_timeout :: duration
  ap_maxBodySize :: int
  ap_beforeDispatch :: "(http_request \<Rightarrow> http_request) option"
  ap_afterDispatch :: bool

text \<open>The libraries the pipeline calls: the identifier and error libraries, \<open>mime.ParseMediaType\<close>,
  \<open>strings.EqualFold\<close>, \<open>url.Parse\<close>, and the JSON of a trigger's details merged into a header.\<close>

record pipeline_env =
  pe_ids :: id_env
  pe_errs :: err_env
  pe_media_type :: "string \<Rightarrow> string option"
  pe_equal_fold :: "string \<Rightarrow> string \<Rightarrow> bool"
  pe_url_Parse :: "string \<Rightarrow> parsed_url option"
  pe_trigger_json :: "string \<Rightarrow> string \<Rightarrow> string \<Rightarrow> string"

section \<open>Checks before the dispatch\<close>

definition methodAllowed :: "('v, 'r) handlerConfig \<Rightarrow> string \<Rightarrow> bool" where
  "methodAllowed c method =
     (if hc_requireMethod c \<noteq> [] then method = hc_requireMethod c
      else if hc_requireMethods c \<noteq> [] then method \<in> set (hc_requireMethods c)
      else True)"

fun join_comma :: "string list \<Rightarrow> string" where
  "join_comma [] = []"
| "join_comma [x] = x"
| "join_comma (x # y # xs) = x @ '', '' @ join_comma (y # xs)"

definition allowedMethodsHeader :: "('v, 'r) handlerConfig \<Rightarrow> string" where
  "allowedMethodsHeader c =
     (if hc_requireMethod c \<noteq> [] then hc_requireMethod c else join_comma (hc_requireMethods c))"

definition hasNoExplicitBody :: "('v, 'r) handlerConfig \<Rightarrow> bool" where
  "hasNoExplicitBody c \<longleftrightarrow>
     hc_render c = None \<and> hc_redirect c = [] \<and> hc_trigger c = [] \<and> hc_pushURL c = []
     \<and> hc_triggerDetail c = []"

definition executeCSRFValidation ::
  "http_request \<Rightarrow> ('v, 'r) handlerConfig \<Rightarrow> effect list \<times> err option" where
  "executeCSRFValidation r c =
     (case hc_csrfConfig c of
        None \<Rightarrow> ([], None)
      | Some validate \<Rightarrow> if validate r then ([], None) else ([CSRFRejected], Some CSRFInvalid))"

definition checkRequiredContentType ::
  "pipeline_env \<Rightarrow> http_request \<Rightarrow> ('v, 'r) handlerConfig \<Rightarrow> effect list \<times> err option" where
  "checkRequiredContentType P r c =
     (if hc_requiredContentType c = [] then ([], None)
      else (let declared = Header_Get r ''Content-Type''
        in if declared = [] then
             (if hr_Body r = None \<or> hr_ContentLength r = 0 then ([], None)
              else ([ErrorHandler (wrap_error Rejection (Sentinel ErrDecodeFailed)
                       ''cqrshtmx.handler.content_type_missing''
                       (''request carries a body but no Content-Type; want '' @ hc_requiredContentType c))],
                    Some (Sentinel ErrDecodeFailed)))
           else (case pe_media_type P declared of
                   None \<Rightarrow>
                     ([ErrorHandler (wrap_error Rejection (Sentinel ErrDecodeFailed)
                         ''cqrshtmx.handler.content_type_invalid''
                         (''malformed Content-Type '' @ quoted (pe_ids P) declared))],
                      Some (Sentinel ErrDecodeFailed))
                 | Some got \<Rightarrow>
                     if \<not> pe_equal_fold P got (hc_requiredContentType c)
                     then ([ErrorHandler (wrap_error Rejection (Sentinel ErrUnsupportedMediaType)
                              ''cqrshtmx.handler.unsupported_media_type''
                              (''got '' @ quoted (pe_ids P) got @ '', want ''
                               @ quoted (pe_ids P) (hc_requiredContentType c)))],
                           Some (Sentinel ErrUnsupportedMediaType))
                     else ([], None))))"

definition executePreDispatchChecks ::
  "pipeline_env \<Rightarrow> ('v, 'r, 'w) App \<Rightarrow> http_request \<Rightarrow> ('v, 'r) handlerConfig \<Rightarrow> effect list \<times> err option" where
  "executePreDispatchChecks P a r c =
     (if \<not> methodAllowed c (hr_Method r) then
        ([SetHeader ''Allow'' (allowedMethodsHeader c),
          ErrorHandler (wrap_error Rejection (Sentinel ErrMethodNotAllowed)
            ''cqrshtmx.handler.method_not_allowed''
            (''got '' @ hr_Method r @ '', want '' @ allowedMethodsHeader c))],
         Some (Sentinel ErrMethodNotAllowed))
      else (case executeAuthorization (pe_ids P) (pe_errs P) (ap_enforcer a) r c of
              Some e \<Rightarrow> ([ErrorHandler e], Some e)
            | None \<Rightarrow>
                (case executeCSRFValidation r c of
                   (effs, Some e) \<Rightarrow> (effs, Some e)
                 | (effs, None) \<Rightarrow> checkRequiredContentType P r c)))"

definition afterDispatchHook :: "('v, 'r, 'w) App \<Rightarrow> err option \<Rightarrow> effect list" where
  "afterDispatchHook a e = (if ap_afterDispatch a then [AfterDispatch e] else [])"

text \<open>The checks see the request as it came; only what follows them sees the context the
  \<open>BeforeDispatch\<close> hook made of it.\<close>

definition dispatchContext ::
  "pipeline_env \<Rightarrow> ('v, 'r, 'w) App \<Rightarrow> http_request \<Rightarrow> ('v, 'r) handlerConfig
    \<Rightarrow> effect list \<times> http_request \<times> err option" where
  "dispatchContext P a r c =
     (let ctx = (case ap_beforeDispatch a of Some hook \<Rightarrow> hook r | None \<Rightarrow> r)
      in (case executePreDispatchChecks P a r c of
            (effs, Some e) \<Rightarrow> (effs @ afterDispatchHook a (Some e), ctx, Some e)
          | (effs, None) \<Rightarrow> (effs, ctx, None)))"

section \<open>Dispatch and answer\<close>

text \<open>A wrapper of a dispatch error carries the context of the first contextual error below it.\<close>

definition wrapErrorPreservingContext :: "err \<Rightarrow> family \<Rightarrow> string \<Rightarrow> string \<Rightarrow> err" where
  "wrapErrorPreservingContext e f code msg =
     Fam f code msg 0 (case errors_as error_context e of Some x \<Rightarrow> x | None \<Rightarrow> []) (Some e)"

definition handleErr :: "('v, 'r, 'w) App \<Rightarrow> ('v, 'r) handlerConfig \<Rightarrow> err \<Rightarrow> effect list" where
  "handleErr a c e =
     [CapturedError e, ErrorHandler e] @ (if hc_onError c then [OnErrorCalled e] else [])
     @ afterDispatchHook a (Some e)"

definition timeoutCtx :: "('v, 'r, 'w) App \<Rightarrow> ('v, 'r) handlerConfig \<Rightarrow> duration option" where
  "timeoutCtx a c =
     (let t = (if hc_timeout c \<le> 0 then ap_timeout a else hc_timeout c)
      in if t \<le> 0 then None else Some t)"

definition dispatchRequest ::
  "pipeline_env \<Rightarrow> ('v, 'r, 'w) App \<Rightarrow> http_request \<Rightarrow> ('v, 'r) handlerConfig \<Rightarrow> string \<Rightarrow> string
    \<Rightarrow> (http_request \<Rightarrow> err + 'q option) option \<Rightarrow> ('q \<Rightarrow> 'v)
    \<Rightarrow> (http_request \<Rightarrow> duration option \<Rightarrow> 'q \<Rightarrow> 'w \<Rightarrow> (err + 's) \<times> 'w)
    \<Rightarrow> (http_request \<Rightarrow> ('v, 'r) handlerConfig \<Rightarrow> 's \<Rightarrow> effect list)
    \<Rightarrow> 'w \<Rightarrow> effect list \<times> 'w" where
  "dispatchRequest P a r c typeName kind decoder as_any dispatch respond w =
     (let hdr = (if hc_acceptQuery c \<noteq> []
                 then [SetHeader ''Accept-Query'' (join_comma (hc_acceptQuery c))] else [])
      in (case dispatchContext P a r c of
        (effs, ctx, Some e) \<Rightarrow> (hdr @ effs, w)
      | (effs, ctx, None) \<Rightarrow>
          (case decoder of
             None \<Rightarrow> (hdr @ effs @ handleErr a c (Sentinel ErrDecoderMissing), w)
           | Some decode \<Rightarrow>
               (case decode r of
                  Inl e \<Rightarrow> (hdr @ effs @ handleErr a c (wrapErrorPreservingContext e Rejection
                             (''cqrshtmx.decode.'' @ kind @ ''_failed'')
                             (''decode '' @ kind @ '' '' @ typeName)), w)
                | Inr None \<Rightarrow> (hdr @ effs @ handleErr a c (Sentinel ErrDecoderReturnedNil), w)
                | Inr (Some v) \<Rightarrow>
                    (case (case hc_requestGuard c of None \<Rightarrow> None | Some guard \<Rightarrow> guard r (as_any v)) of
                       Some e \<Rightarrow> (hdr @ effs @ handleErr a c e, w)
                     | None \<Rightarrow>
                         (case dispatch ctx (timeoutCtx a c) v w of
                            (Inl e, w') \<Rightarrow>
                              (hdr @ effs @ handleErr a c (wrapErrorPreservingContext e
                                 (classify (pe_errs P) e) (''cqrshtmx.dispatch.'' @ kind @ ''_failed'')
                                 (''dispatch '' @ kind @ '' '' @ typeName)), w')
                          | (Inr result, w') \<Rightarrow>
                              (hdr @ effs @ respond ctx c result @ afterDispatchHook a None, w')))))))"

definition writeDefaultStatus :: "('v, 'r) handlerConfig \<Rightarrow> effect list" where
  "writeDefaultStatus c =
     (if \<not> hasNoExplicitBody c then []
      else [WroteStatus (if hc_successStatus c = 0 then 204 else hc_successStatus c)])"

text \<open>The response builder, as \<open>applyHTMXResponse\<close> drives it: the header a trigger is merged into is
  the one the steps before it left.\<close>

definition IsHTMX :: "http_request \<Rightarrow> bool" where
  "IsHTMX r \<longleftrightarrow> Header_Get r ''Hx-Request'' = ''true''"

definition setTriggerHeader :: "string \<Rightarrow> string \<Rightarrow> string" where
  "setTriggerHeader existing event = (if existing = [] then event else existing @ '','' @ event)"

definition htmx_headers :: "pipeline_env \<Rightarrow> http_request \<Rightarrow> ('v, 'r) handlerConfig \<Rightarrow> effect list" where
  "htmx_headers P r c =
     (if hc_redirect c \<noteq> [] \<and> IsHTMX r then
        (case sanitizeRedirectURL (pe_url_Parse P) (hc_redirect c) of
           (sanitized, safe) \<Rightarrow> if safe then [SetHeader ''Hx-Redirect'' sanitized] else [])
      else [])
     @ (let base = (if hc_trigger c \<noteq> [] then setTriggerHeader [] (hc_trigger c) else []);
            merged = fold (\<lambda>(name, detail) h. pe_trigger_json P h name detail) (hc_triggerDetail c) base
        in if hc_trigger c \<noteq> [] \<or> hc_triggerDetail c \<noteq> [] then [SetHeader ''Hx-Trigger'' merged] else [])
     @ (if hc_pushURL c \<noteq> [] then [SetHeader ''Hx-Push-Url'' (hc_pushURL c)] else [])"

definition applyHTMXResponse ::
  "pipeline_env \<Rightarrow> http_request \<Rightarrow> ('v, 'r) handlerConfig \<Rightarrow> effect list \<times> bool" where
  "applyHTMXResponse P r c =
     (if hc_redirect c = [] \<and> hc_trigger c = [] \<and> hc_pushURL c = [] \<and> hc_triggerDetail c = []
      then ([], False)
      else (let headers = htmx_headers P r c;
                redirectURL = (if IsHTMX r then [] else hc_redirect c)
            in if redirectURL \<noteq> [] then
                 (case sanitizeRedirectURL (pe_url_Parse P) redirectURL of
                    (target, safe) \<Rightarrow>
                      (headers @ [if safe then Redirected303 target else WroteStatus 400], True))
               else (headers @ (if IsHTMX r then [SetHeader ''Content-Type'' ''text/html; charset=utf-8'']
                                else []), False)))"

definition applyCommandResponse ::
  "pipeline_env \<Rightarrow> http_request \<Rightarrow> ('v, 'r) handlerConfig \<Rightarrow> effect list" where
  "applyCommandResponse P r c =
     (case applyHTMXResponse P r c of
        (effs, True) \<Rightarrow> effs
      | (effs, False) \<Rightarrow> effs @ writeDefaultStatus c)"

definition applyQueryResponse ::
  "pipeline_env \<Rightarrow> ('v, 'r, 'w) App \<Rightarrow> http_request \<Rightarrow> ('v, 'r) handlerConfig \<Rightarrow> 'r option \<Rightarrow> effect list" where
  "applyQueryResponse P a r c result =
     (case applyHTMXResponse P r c of
        (effs, True) \<Rightarrow> effs
      | (effs, False) \<Rightarrow>
          (case hc_render c of
             None \<Rightarrow> effs @ writeDefaultStatus c
           | Some render \<Rightarrow>
               (case render r result of
                  Some e \<Rightarrow> effs @ [Rendered] @ handleErr a c e
                | None \<Rightarrow> effs @ [Rendered] @ writeDefaultStatus c)))"

definition handleCommandDispatch ::
  "pipeline_env \<Rightarrow> ('v, 'r, 'w) App \<Rightarrow> (http_request \<Rightarrow> duration option \<Rightarrow> 'v \<Rightarrow> 'w \<Rightarrow> err option \<times> 'w)
    \<Rightarrow> http_request \<Rightarrow> string \<Rightarrow> ('v, 'r) handlerConfig \<Rightarrow> 'w \<Rightarrow> effect list \<times> 'w" where
  "handleCommandDispatch P a commands r cmdType c w =
     dispatchRequest P a r c cmdType ''command'' (hc_commandDecoder c) id
       (\<lambda>ctx t v w. case commands ctx t v w of (Some e, w') \<Rightarrow> (Inl e, w') | (None, w') \<Rightarrow> (Inr (), w'))
       (\<lambda>ctx c _. applyCommandResponse P ctx c) w"

definition handleQueryDispatch ::
  "pipeline_env \<Rightarrow> ('v, 'r, 'w) App \<Rightarrow> (http_request \<Rightarrow> duration option \<Rightarrow> 'v \<Rightarrow> 'w \<Rightarrow> (err + 'r) \<times> 'w)
    \<Rightarrow> http_request \<Rightarrow> string \<Rightarrow> ('v, 'r) handlerConfig \<Rightarrow> 'w \<Rightarrow> effect list \<times> 'w" where
  "handleQueryDispatch P a queries r qryType c w =
     dispatchRequest P a r c qryType ''query'' (hc_queryDecoder c) id queries
       (\<lambda>ctx c result. applyQueryResponse P a ctx c (Some result)) w"

text \<open>The typed handlers assert the decoded value to their type: \<open>as_q\<close> is that assertion,
  \<open>mismatch\<close> the text of a failed one.\<close>

definition typed_decoder ::
  "string \<Rightarrow> string \<Rightarrow> ('v option \<Rightarrow> 'q option) \<Rightarrow> (http_request \<Rightarrow> err + 'v option) option
    \<Rightarrow> (http_request \<Rightarrow> err + 'q option) option" where
  "typed_decoder code mismatch as_q decoder =
     map_option (\<lambda>decode r.
       (case decode r of
          Inl e \<Rightarrow> Inl e
        | Inr v \<Rightarrow>
            (case as_q v of
               None \<Rightarrow> Inl (wrap_error Rejection (Sentinel ErrDecodeFailed) code mismatch)
             | Some q \<Rightarrow> Inr (Some q)))) decoder"

definition handleCommandTypedDispatch ::
  "pipeline_env \<Rightarrow> ('v, 'r, 'w) App \<Rightarrow> string \<Rightarrow> ('v option \<Rightarrow> 'q option) \<Rightarrow> ('q \<Rightarrow> 'v)
    \<Rightarrow> (http_request \<Rightarrow> duration option \<Rightarrow> 'q \<Rightarrow> 'w \<Rightarrow> err option \<times> 'w)
    \<Rightarrow> http_request \<Rightarrow> string \<Rightarrow> ('v, 'r) handlerConfig \<Rightarrow> 'w \<Rightarrow> effect list \<times> 'w" where
  "handleCommandTypedDispatch P a mismatch as_q as_any commands r cmdType c w =
     dispatchRequest P a r c cmdType ''command''
       (typed_decoder ''cqrshtmx.handler.command_type_mismatch'' mismatch as_q (hc_commandDecoder c)) as_any
       (\<lambda>ctx t q w. case commands ctx t q w of (Some e, w') \<Rightarrow> (Inl e, w') | (None, w') \<Rightarrow> (Inr (), w'))
       (\<lambda>ctx c _. applyCommandResponse P ctx c) w"

definition handleQueryTypedDispatch ::
  "pipeline_env \<Rightarrow> ('v, 'r, 'w) App \<Rightarrow> string \<Rightarrow> ('v option \<Rightarrow> 'q option) \<Rightarrow> ('q \<Rightarrow> 'v)
    \<Rightarrow> (http_request \<Rightarrow> duration option \<Rightarrow> 'q \<Rightarrow> 'w \<Rightarrow> (err + 'r) \<times> 'w)
    \<Rightarrow> http_request \<Rightarrow> string \<Rightarrow> ('v, 'r) handlerConfig \<Rightarrow> 'w \<Rightarrow> effect list \<times> 'w" where
  "handleQueryTypedDispatch P a mismatch as_q as_any queries r qryType c w =
     dispatchRequest P a r c qryType ''query''
       (typed_decoder ''cqrshtmx.handler.query_type_mismatch'' mismatch as_q (hc_queryDecoder c)) as_any
       queries (\<lambda>ctx c result. applyQueryResponse P a ctx c (Some result)) w"

text \<open>The handlers \<open>App.Command\<close> and \<open>App.Query\<close> return.\<close>

definition App_Command ::
  "pipeline_env \<Rightarrow> ('v, 'r, 'w) App \<Rightarrow> string \<Rightarrow> ('v, 'r) handlerConfig \<Rightarrow> http_request \<Rightarrow> 'w \<Rightarrow> effect list \<times> 'w" where
  "App_Command P a cmdType c r w =
     (case ap_commands a of
        None \<Rightarrow> ([ErrorHandler (Sentinel ErrCommandsNil)], w)
      | Some commands \<Rightarrow>
          handleCommandDispatch P a commands (enrichUserID (pe_ids P) (ap_userIDExtractor a) r) cmdType c w)"

definition App_Query ::
  "pipeline_env \<Rightarrow> ('v, 'r, 'w) App \<Rightarrow> string \<Rightarrow> ('v, 'r) handlerConfig \<Rightarrow> http_request \<Rightarrow> 'w \<Rightarrow> effect list \<times> 'w" where
  "App_Query P a qryType c r w =
     (case ap_queries a of
        None \<Rightarrow> ([ErrorHandler (Sentinel ErrQueriesNil)], w)
      | Some queries \<Rightarrow>
          handleQueryDispatch P a queries (enrichUserID (pe_ids P) (ap_userIDExtractor a) r) qryType c w)"

text \<open>The method override, before routing.\<close>

definition overrideTargetsQuery :: "http_request \<Rightarrow> bool" where
  "overrideTargetsQuery r \<longleftrightarrow>
     (let target = Header_Get r ''X-Http-Method-Override'';
          target' = (if target = [] then Header_Get r ''X-Http-Method'' else target)
      in target' = ''QUERY'')"

definition MethodOverrideMiddleware :: "http_request \<Rightarrow> http_request" where
  "MethodOverrideMiddleware r =
     (if hr_Method r = ''POST'' \<and> overrideTargetsQuery r then r \<lparr> hr_Method := ''QUERY'' \<rparr> else r)"

section \<open>What passes the pipeline\<close>

fun is_after :: "effect \<Rightarrow> bool" where
  "is_after (AfterDispatch e) = True"
| "is_after _ = False"

fun is_refusal :: "effect \<Rightarrow> bool" where
  "is_refusal (ErrorHandler e) = True"
| "is_refusal CSRFRejected = True"
| "is_refusal _ = False"

definition hooks :: "effect list \<Rightarrow> nat" where
  "hooks effs = length (filter is_after effs)"

definition refusals :: "effect list \<Rightarrow> nat" where
  "refusals effs = length (filter is_refusal effs)"

lemma effect_counts [simp]:
  "hooks [] = 0" "refusals [] = 0"
  "hooks (x # xs) = (if is_after x then 1 else 0) + hooks xs"
  "refusals (x # xs) = (if is_refusal x then 1 else 0) + refusals xs"
  "hooks (xs @ ys) = hooks xs + hooks ys" "refusals (xs @ ys) = refusals xs + refusals ys"
  by (simp_all add: hooks_def refusals_def)

text \<open>The request passes every check and decodes to \<open>v\<close>.\<close>

definition decodes ::
  "(http_request \<Rightarrow> err + 'q option) option \<Rightarrow> ('q \<Rightarrow> 'v) \<Rightarrow> http_request \<Rightarrow> ('v, 'r) handlerConfig \<Rightarrow> 'q \<Rightarrow> bool" where
  "decodes decoder as_any r c v \<longleftrightarrow>
     (\<exists>decode. decoder = Some decode \<and> decode r = Inr (Some v))
     \<and> (\<forall>guard. hc_requestGuard c = Some guard \<longrightarrow> guard r (as_any v) = None)"

definition checked ::
  "pipeline_env \<Rightarrow> ('v, 'r, 'w) App \<Rightarrow> http_request \<Rightarrow> ('v, 'r) handlerConfig \<Rightarrow> bool" where
  "checked P a r c \<longleftrightarrow>
     methodAllowed c (hr_Method r)
     \<and> executeAuthorization (pe_ids P) (pe_errs P) (ap_enforcer a) r c = None
     \<and> (\<forall>validate. hc_csrfConfig c = Some validate \<longrightarrow> validate r)
     \<and> snd (checkRequiredContentType P r c) = None"

lemma content_type_effects:
  "hooks (fst (checkRequiredContentType P r c)) = 0"
  "refusals (fst (checkRequiredContentType P r c)) =
     (if snd (checkRequiredContentType P r c) = None then 0 else 1)"
  by (simp_all add: checkRequiredContentType_def Let_def split: option.split)

lemma pre_checks:
  "snd (executePreDispatchChecks P a r c) = None \<longleftrightarrow> checked P a r c"
  "hooks (fst (executePreDispatchChecks P a r c)) = 0"
  "refusals (fst (executePreDispatchChecks P a r c)) = (if checked P a r c then 0 else 1)"
  by (auto simp: executePreDispatchChecks_def checked_def executeCSRFValidation_def content_type_effects
      split: option.split)

lemma dispatchContext_cases:
  obtains effs where "checked P a r c" "hooks effs = 0" "refusals effs = 0"
    "dispatchContext P a r c = (effs, (case ap_beforeDispatch a of Some hook \<Rightarrow> hook r | None \<Rightarrow> r), None)"
  | effs ctx e where "\<not> checked P a r c" "hooks effs = (if ap_afterDispatch a then 1 else 0)"
    "refusals effs = 1" "dispatchContext P a r c = (effs, ctx, Some e)"
proof (cases "executePreDispatchChecks P a r c")
  case (Pair effs x)
  then have facts: "(x = None) = checked P a r c" "hooks effs = 0"
    "refusals effs = (if checked P a r c then 0 else 1)"
    using pre_checks [of P a r c] by simp_all
  show thesis
  proof (cases x)
    case None
    then show thesis using Pair facts that(1) [of effs] by (simp add: dispatchContext_def)
  next
    case (Some e)
    then show thesis using Pair facts
      by (intro that(2) [of "effs @ afterDispatchHook a (Some e)"
            "case ap_beforeDispatch a of Some hook \<Rightarrow> hook r | None \<Rightarrow> r" e])
        (simp_all add: dispatchContext_def afterDispatchHook_def)
  qed
qed

lemma handleErr_counts [simp]:
  "hooks (handleErr a c e) = (if ap_afterDispatch a then 1 else 0)" "refusals (handleErr a c e) = 1"
  by (simp_all add: handleErr_def afterDispatchHook_def)

text \<open>One dispatch of the shared pipeline, by whether the request passed.\<close>

lemma dispatchRequest_passed:
  assumes "checked P a r c" and "decodes decoder as_any r c v"
  obtains effs where "hooks effs = 0" "refusals effs = 0"
    "dispatchRequest P a r c typeName kind decoder as_any dispatch respond w =
       (let ctx = (case ap_beforeDispatch a of Some hook \<Rightarrow> hook r | None \<Rightarrow> r)
        in case dispatch ctx (timeoutCtx a c) v w of
             (Inl e, w') \<Rightarrow> (effs @ handleErr a c (wrapErrorPreservingContext e (classify (pe_errs P) e)
                 (''cqrshtmx.dispatch.'' @ kind @ ''_failed'') (''dispatch '' @ kind @ '' '' @ typeName)), w')
           | (Inr result, w') \<Rightarrow> (effs @ respond ctx c result @ afterDispatchHook a None, w'))"
proof -
  define hdr where "hdr = (if hc_acceptQuery c \<noteq> []
    then [SetHeader ''Accept-Query'' (join_comma (hc_acceptQuery c))] else [])"
  have hdr: "hooks hdr = 0" "refusals hdr = 0" by (simp_all add: hdr_def)
  from assms(1) obtain effs where effs: "hooks effs = 0" "refusals effs = 0"
    "dispatchContext P a r c = (effs, (case ap_beforeDispatch a of Some hook \<Rightarrow> hook r | None \<Rightarrow> r), None)"
    by (cases rule: dispatchContext_cases [where P = P and a = a and r = r and c = c]) auto
  obtain decode where dec: "decoder = Some decode" "decode r = Inr (Some v)"
    "(case hc_requestGuard c of None \<Rightarrow> None | Some guard \<Rightarrow> guard r (as_any v)) = None"
    using assms(2) by (auto simp: decodes_def split: option.splits)
  have "dispatchRequest P a r c typeName kind decoder as_any dispatch respond w =
       (let ctx = (case ap_beforeDispatch a of Some hook \<Rightarrow> hook r | None \<Rightarrow> r)
        in case dispatch ctx (timeoutCtx a c) v w of
             (Inl e, w') \<Rightarrow> ((hdr @ effs) @ handleErr a c (wrapErrorPreservingContext e (classify (pe_errs P) e)
                 (''cqrshtmx.dispatch.'' @ kind @ ''_failed'') (''dispatch '' @ kind @ '' '' @ typeName)), w')
           | (Inr result, w') \<Rightarrow> ((hdr @ effs) @ respond ctx c result @ afterDispatchHook a None, w'))"
    unfolding dispatchRequest_def hdr_def [symmetric] Let_def effs(3) prod.case option.case dec sum.case
    by (simp split: prod.split sum.split)
  with hdr effs show thesis by (intro that [of "hdr @ effs"]) simp_all
qed

lemma dispatchRequest_refused:
  assumes "\<not> (checked P a r c \<and> (\<exists>v. decodes decoder as_any r c v))"
  shows "\<exists>effs. dispatchRequest P a r c typeName kind decoder as_any dispatch respond w = (effs, w)
      \<and> hooks effs = (if ap_afterDispatch a then 1 else 0) \<and> refusals effs = 1"
proof -
  define hdr where "hdr = (if hc_acceptQuery c \<noteq> []
    then [SetHeader ''Accept-Query'' (join_comma (hc_acceptQuery c))] else [])"
  have hdr: "hooks hdr = 0" "refusals hdr = 0" by (simp_all add: hdr_def)
  show ?thesis
  proof (cases rule: dispatchContext_cases [where P = P and a = a and r = r and c = c])
    case (1 effs)
    then have "\<nexists>v. decodes decoder as_any r c v" using assms by blast
    then show ?thesis using 1 hdr
      by (auto simp: dispatchRequest_def Let_def decodes_def simp flip: hdr_def split: option.splits sum.splits)
  next
    case (2 effs ctx e)
    then show ?thesis using hdr by (simp add: dispatchRequest_def Let_def flip: hdr_def)
  qed
qed

lemma response_counts:
  "hooks (applyCommandResponse P r c) = 0" "refusals (applyCommandResponse P r c) = 0"
  by (auto simp: applyCommandResponse_def applyHTMXResponse_def htmx_headers_def writeDefaultStatus_def Let_def
      split: prod.split)

abbreviation dispatch_ctx :: "('v, 'r, 'w) App \<Rightarrow> http_request \<Rightarrow> http_request" where
  "dispatch_ctx a r \<equiv> (case ap_beforeDispatch a of Some hook \<Rightarrow> hook r | None \<Rightarrow> r)"

lemma App_Command_refused:
  assumes "ap_commands a = Some commands" and "r' = enrichUserID (pe_ids P) (ap_userIDExtractor a) r"
    and "\<not> (checked P a r' c \<and> (\<exists>v. decodes (hc_commandDecoder c) id r' c v))"
  shows "\<exists>effs. App_Command P a cmdType c r w = (effs, w)
      \<and> hooks effs = (if ap_afterDispatch a then 1 else 0) \<and> refusals effs = 1"
  unfolding App_Command_def handleCommandDispatch_def assms(1) option.case assms(2) [symmetric]
  by (rule dispatchRequest_refused [OF assms(3)])

text \<open>C19. A command endpoint reaches the dispatcher only with a request that has an allowed method,
  passes authorization, CSRF and content-type checks, decodes to a command and passes the guard; it
  then dispatches exactly that command, once. Every other request leaves the world alone and is
  answered by exactly one refusal, and the after-dispatch hook runs exactly once in every case.\<close>

theorem command_pipeline:
  assumes "ap_commands a = Some commands"
    and "r' = enrichUserID (pe_ids P) (ap_userIDExtractor a) r"
    and "App_Command P a cmdType c r w = (effs, w')"
  shows "(\<forall>v. checked P a r' c \<and> decodes (hc_commandDecoder c) id r' c v \<longrightarrow>
       (\<exists>reply. commands (dispatch_ctx a r') (timeoutCtx a c) v w = (reply, w')
          \<and> refusals effs = (if reply = None then 0 else 1)))
    \<and> (\<not> (checked P a r' c \<and> (\<exists>v. decodes (hc_commandDecoder c) id r' c v)) \<longrightarrow>
         w' = w \<and> refusals effs = 1)
    \<and> hooks effs = (if ap_afterDispatch a then 1 else 0)"
proof -
  let ?dispatch = "\<lambda>ctx t v w. case commands ctx t v w of (Some e, w') \<Rightarrow> (Inl e, w') | (None, w') \<Rightarrow> (Inr (), w')"
  let ?respond = "\<lambda>ctx c (_ :: unit). applyCommandResponse P ctx c"
  have run: "dispatchRequest P a r' c cmdType ''command'' (hc_commandDecoder c) id ?dispatch ?respond w = (effs, w')"
    using assms by (simp add: App_Command_def handleCommandDispatch_def)
  show ?thesis
  proof (cases "checked P a r' c \<and> (\<exists>v. decodes (hc_commandDecoder c) id r' c v)")
    case False
    from App_Command_refused [OF assms(1,2) this, of cmdType w] False assms(3)
    show ?thesis by auto
  next
    case True
    then obtain v where v: "checked P a r' c" "decodes (hc_commandDecoder c) id r' c v" by blast
    have unique: "u = v" if "decodes (hc_commandDecoder c) id r' c u" for u
      using that v(2) by (auto simp: decodes_def)
    obtain reply w2 where reply: "commands (dispatch_ctx a r') (timeoutCtx a c) v w = (reply, w2)"
      by fastforce
    from v obtain before where before: "hooks before = 0" "refusals before = 0"
      "(effs, w') = (case reply of
          Some e \<Rightarrow> (before @ handleErr a c (wrapErrorPreservingContext e (classify (pe_errs P) e)
              (''cqrshtmx.dispatch.'' @ ''command'' @ ''_failed'') (''dispatch '' @ ''command'' @ '' '' @ cmdType)), w2)
        | None \<Rightarrow> (before @ applyCommandResponse P (dispatch_ctx a r') c @ afterDispatchHook a None, w2))"
      by (rule dispatchRequest_passed [where typeName = cmdType and kind = "''command''"
            and dispatch = ?dispatch and respond = ?respond and w = w])
        (simp add: run reply Let_def split: option.splits)
    then have "w' = w2 \<and> refusals effs = (if reply = None then 0 else 1)
        \<and> hooks effs = (if ap_afterDispatch a then 1 else 0)"
      by (cases reply) (simp_all add: response_counts afterDispatchHook_def)
    with reply unique True show ?thesis by metis
  qed
qed

definition demo_pipeline :: pipeline_env where
  "demo_pipeline =
     \<lparr> pe_ids = demo_ids, pe_errs = demo_err_env, pe_media_type = Some, pe_equal_fold = (=),
       pe_url_Parse = demo_parse, pe_trigger_json = (\<lambda>h name detail. name) \<rparr>"

definition demo_app :: "(string, string, string list) App" where
  "demo_app =
     \<lparr> ap_commands = Some (\<lambda>ctx t v w. if v = ''bad'' then (Some (Foreign v), w) else (None, v # w)),
       ap_queries = Some (\<lambda>ctx t v w. (Inr v, w)), ap_enforcer = Some demo_enforcer,
       ap_userIDExtractor = None, ap_timeout = 0, ap_maxBodySize = 0, ap_beforeDispatch = None,
       ap_afterDispatch = True \<rparr>"

definition demo_endpoint :: "string \<Rightarrow> (string, string) handlerConfig" where
  "demo_endpoint cmd =
     handlerConfig_zero \<lparr> hc_authMode := authRequired,
       hc_commandDecoder := Some (\<lambda>r. Inr (Some cmd)), hc_queryDecoder := Some (\<lambda>r. Inr (Some cmd)),
       hc_render := Some (\<lambda>r x. Some (Foreign ''template'')) \<rparr>"

lemma demo_checked:
  "checked demo_pipeline demo_app (enrichUserID (pe_ids demo_pipeline) (ap_userIDExtractor demo_app)
     (demo_request (Some (UserID 3)))) (demo_endpoint cmd)"
  "\<not> checked demo_pipeline demo_app (enrichUserID (pe_ids demo_pipeline) (ap_userIDExtractor demo_app)
     (demo_request None)) (demo_endpoint cmd)"
  by (simp_all add: checked_def demo_endpoint_def demo_pipeline_def demo_app_def handlerConfig_zero_def
      methodAllowed_def executeAuthorization_def checkRequiredContentType_def enrichUserID_def demo_user)

lemma command_pipeline_witness:
  "(\<exists>effs. App_Command demo_pipeline demo_app ''Create'' (demo_endpoint ''x'') (demo_request (Some (UserID 3))) []
       = (effs, [''x'']) \<and> hooks effs = 1 \<and> refusals effs = 0)
   \<and> (\<exists>effs. App_Command demo_pipeline demo_app ''Create'' (demo_endpoint ''x'') (demo_request None) []
       = (effs, []) \<and> hooks effs = 1 \<and> refusals effs = 1)"
proof -
  let ?run = "\<lambda>u. App_Command demo_pipeline demo_app ''Create'' (demo_endpoint ''x'') (demo_request u) []"
  have cmds: "ap_commands demo_app = Some (\<lambda>ctx t v w. if v = ''bad'' then (Some (Foreign v), w) else (None, v # w))"
    and hook: "ap_afterDispatch demo_app" by (simp_all add: demo_app_def)
  have dec: "decodes (hc_commandDecoder (demo_endpoint ''x'')) id r (demo_endpoint ''x'') ''x''" for r
    by (simp add: decodes_def demo_endpoint_def handlerConfig_zero_def)
  obtain effs w' where 1: "?run (Some (UserID 3)) = (effs, w')" by fastforce
  obtain effs2 w2 where 2: "?run None = (effs2, w2)" by fastforce
  from command_pipeline [OF cmds refl 1] demo_checked(1) [of "''x''"] dec hook
  have "w' = [''x''] \<and> hooks effs = 1 \<and> refusals effs = 0" by fastforce
  moreover from command_pipeline [OF cmds refl 2] demo_checked(2) [of "''x''"] hook
  have "w2 = [] \<and> hooks effs2 = 1 \<and> refusals effs2 = 1" by simp
  ultimately show ?thesis using 1 2 by blast
qed

lemma response_without_redirect:
  "hc_redirect c = [] \<Longrightarrow>
   \<not> snd (applyHTMXResponse P r c) \<and> filter is_after (fst (applyHTMXResponse P r c)) = []"
  by (simp add: applyHTMXResponse_def htmx_headers_def Let_def)

text \<open>A query whose renderer fails reports its outcome twice: the after-dispatch hook runs with the
  rendering error and then again with success, although the hook is documented to run once after
  the dispatch.\<close>

theorem render_failure_reports_twice:
  assumes "ap_queries a = Some queries" and "r' = enrichUserID (pe_ids P) (ap_userIDExtractor a) r"
    and "checked P a r' c" and "decodes (hc_queryDecoder c) id r' c v"
    and "queries (dispatch_ctx a r') (timeoutCtx a c) v w = (Inr result, w')"
    and "hc_redirect c = []" and "hc_render c = Some render"
    and "render (dispatch_ctx a r') (Some result) = Some e" and "ap_afterDispatch a"
  shows "filter is_after (fst (App_Query P a qryType c r w)) = [AfterDispatch (Some e), AfterDispatch None]"
proof -
  let ?respond = "\<lambda>ctx c result. applyQueryResponse P a ctx c (Some result)"
  from assms(3,4) obtain before where before: "hooks before = 0"
    "dispatchRequest P a r' c qryType ''query'' (hc_queryDecoder c) id queries ?respond w =
       (before @ applyQueryResponse P a (dispatch_ctx a r') c (Some result) @ afterDispatchHook a None, w')"
    by (rule dispatchRequest_passed [where typeName = qryType and kind = "''query''"
          and dispatch = queries and respond = ?respond and w = w])
      (simp add: assms(5) Let_def)
  have none: "filter is_after before = []" using before(1) by (simp add: hooks_def)
  obtain htmx where htmx: "applyHTMXResponse P (dispatch_ctx a r') c = (htmx, False)" "filter is_after htmx = []"
    using response_without_redirect [OF assms(6), of P "dispatch_ctx a r'"] by (metis prod.collapse)
  have "App_Query P a qryType c r w =
      (before @ applyQueryResponse P a (dispatch_ctx a r') c (Some result) @ afterDispatchHook a None, w')"
    using before(2) assms(1,2) by (simp add: App_Query_def handleQueryDispatch_def)
  then show ?thesis
    using assms(7-9) none htmx by (simp add: applyQueryResponse_def handleErr_def afterDispatchHook_def)
qed

lemma render_failure_reports_twice_witness:
  "filter is_after (fst (App_Query demo_pipeline demo_app ''List'' (demo_endpoint ''x'')
     (demo_request (Some (UserID 3))) [])) = [AfterDispatch (Some (Foreign ''template'')), AfterDispatch None]"
  by (rule render_failure_reports_twice [OF _ refl demo_checked(1), where v = "''x''" and result = "''x''"
        and w' = "[]" and queries = "\<lambda>ctx t v w. (Inr v, w)" and render = "\<lambda>r x. Some (Foreign ''template'')"])
    (simp_all add: demo_app_def decodes_def demo_endpoint_def handlerConfig_zero_def)

end
