(* ===== verification/Sync_Push.thy ===== *)
theory Sync_Push
  imports Request_Pipeline
begin

text \<open>
  The write half of the sync protocol of the root package (\<open>sync_push.go\<close>): a batch of commands,
  each replayed through the registered endpoint of its type, and its outcomes. The theorems say which
  envelopes are confirmed, that the outcomes answer the envelopes one by one, and where the replay
  differs from the endpoint.
\<close>

section \<open>Envelopes and outcomes\<close>

definition MaxSyncPushBatch :: nat where "MaxSyncPushBatch = 100"

definition SyncPushStatusConfirmed :: string where "SyncPushStatusConfirmed = ''confirmed''"
definition SyncPushStatusRejected :: string where "SyncPushStatusRejected = ''rejected''"

record SyncPushEnvelope =
  sp_CommandID :: string
  sp_Type :: string
  sp_Body :: string
  sp_ContentType :: string

record SyncPushError =
  sx_Message :: string
  sx_Code :: string
  sx_Family :: string

record SyncPushResult =
  sr_CommandID :: string
  sr_Status :: string
  sr_Error :: "SyncPushError option"

text \<open>The client's decoding of an outcome.\<close>

definition UnmarshalSyncPushResult :: "(string \<Rightarrow> string) \<Rightarrow> SyncPushResult \<Rightarrow> err + SyncPushResult" where
  "UnmarshalSyncPushResult quote r =
     (if sr_Status r = SyncPushStatusConfirmed then
        (if sr_Error r \<noteq> None
         then Inl (new_error Corruption ''cqrshtmx.sync.push.status_union''
                (''confirmed outcome must not carry an error (command '' @ quote (sr_CommandID r) @ '')''))
         else Inr r)
      else if sr_Status r = SyncPushStatusRejected then
        (if sr_Error r = None
         then Inl (new_error Corruption ''cqrshtmx.sync.push.status_union''
                (''rejected outcome must carry an error (command '' @ quote (sr_CommandID r) @ '')''))
         else Inr r)
      else Inl (new_error Corruption ''cqrshtmx.sync.push.status_union''
             (''unknown status '' @ quote (sr_Status r) @ '' (command '' @ quote (sr_CommandID r) @ '')'')))"

type_synonym ('v, 'r) commandRegistry = "(string, ('v, 'r) handlerConfig) gomap"

definition remember ::
  "string \<Rightarrow> ('v, 'r) handlerConfig \<Rightarrow> ('v, 'r) commandRegistry \<Rightarrow> ('v, 'r) commandRegistry" where
  "remember cmdType config r = map_put cmdType config r"

definition lookup_registry :: "string \<Rightarrow> ('v, 'r) commandRegistry \<Rightarrow> ('v, 'r) handlerConfig option" where
  "lookup_registry cmdType r = map_get r cmdType"

definition rejectedSyncPushResult :: "err_env \<Rightarrow> string \<Rightarrow> string \<Rightarrow> string \<Rightarrow> family \<Rightarrow> SyncPushResult" where
  "rejectedSyncPushResult E commandID code message family =
     (let f = (if family_name E family = ''unknown'' then Rejection else family)
      in \<lparr> sr_CommandID = commandID, sr_Status = SyncPushStatusRejected,
           sr_Error = Some \<lparr> sx_Message = message, sx_Code = code, sx_Family = family_name E f \<rparr> \<rparr>)"

definition synthesizeSyncPushRequest :: "http_request \<Rightarrow> SyncPushEnvelope \<Rightarrow> http_request" where
  "synthesizeSyncPushRequest r envelope =
     (let contentType = (if sp_ContentType envelope = [] then ''application/json'' else sp_ContentType envelope)
      in r \<lparr> hr_Header := map_put ''X-Command-Id'' (sp_CommandID envelope)
                           (map_put ''Content-Type'' contentType (hr_Header r)),
             hr_Body := Some (sp_Body envelope),
             hr_ContentLength := int (length (sp_Body envelope)) \<rparr>)"

text \<open>One envelope: the outcome, the runs of the after-dispatch hook (with the request each is given)
  and the world.\<close>

definition dispatchSyncPushEnvelope ::
  "pipeline_env \<Rightarrow> ('v, 'r, 'w) App \<Rightarrow> (http_request \<Rightarrow> duration option \<Rightarrow> 'v \<Rightarrow> 'w \<Rightarrow> err option \<times> 'w)
    \<Rightarrow> ('v, 'r) commandRegistry \<Rightarrow> http_request \<Rightarrow> SyncPushEnvelope \<Rightarrow> 'w
    \<Rightarrow> SyncPushResult \<times> (http_request \<times> err option) list \<times> 'w" where
  "dispatchSyncPushEnvelope P a commands registry r envelope w =
     (let E = pe_errs P; cid = sp_CommandID envelope
      in if cid = [] then
           (rejectedSyncPushResult E [] ''cqrshtmx.sync.push.command_id_missing'' ''commandId is required''
              Rejection, [], w)
         else (case lookup_registry (sp_Type envelope) registry of
           None \<Rightarrow> (rejectedSyncPushResult E cid ''cqrshtmx.sync.push.unknown_type''
                      (''unknown command type: '' @ sp_Type envelope) Rejection, [], w)
         | Some config \<Rightarrow>
             (case hc_commandDecoder config of
                None \<Rightarrow> (rejectedSyncPushResult E cid ''cqrshtmx.sync.push.unknown_type''
                           (''unknown command type: '' @ sp_Type envelope) Rejection, [], w)
              | Some decode \<Rightarrow>
                  (let inner = synthesizeSyncPushRequest r envelope
                   in case executeAuthorization (pe_ids P) E (ap_enforcer a) inner config of
                        Some e \<Rightarrow> (rejectedSyncPushResult E cid (ErrorCode (Some e)) (error_text E e)
                                     (classify E e), [], w)
                      | None \<Rightarrow>
                          (case decode inner of
                             Inl e \<Rightarrow> (rejectedSyncPushResult E cid ''cqrshtmx.sync.push.decode_failed''
                               (''decode '' @ sp_Type envelope @ '' failed: '' @ error_text E e) Rejection, [], w)
                           | Inr None \<Rightarrow>
                               (rejectedSyncPushResult E cid ''cqrshtmx.sync.push.decode_failed''
                                 (''decode '' @ sp_Type envelope @ '' failed: ''
                                  @ error_text E (Sentinel ErrDecoderReturnedNil)) Rejection, [], w)
                           | Inr (Some cmd) \<Rightarrow>
                               (case (case hc_requestGuard config of None \<Rightarrow> None | Some guard \<Rightarrow> guard inner cmd) of
                                  Some e \<Rightarrow> (rejectedSyncPushResult E cid (ErrorCode (Some e)) (error_text E e)
                                               (classify E e), [], w)
                                | None \<Rightarrow>
                                    (case commands r (timeoutCtx a config) cmd w of
                                       (reply, w') \<Rightarrow>
                                         let after = (if ap_afterDispatch a then [(inner, reply)] else [])
                                         in (case reply of
                                               Some e \<Rightarrow>
                                                 (rejectedSyncPushResult E cid (ErrorCode (Some e))
                                                    (SafeDetail E (Some e) (MapError E (Some e)) False)
                                                    (classify E e), after, w')
                                             | None \<Rightarrow>
                                                 (\<lparr> sr_CommandID = cid, sr_Status = SyncPushStatusConfirmed,
                                                    sr_Error = None \<rparr>, after, w'))))))))) "

fun dispatch_batch ::
  "(SyncPushEnvelope \<Rightarrow> 'w \<Rightarrow> SyncPushResult \<times> 'h list \<times> 'w) \<Rightarrow> SyncPushEnvelope list \<Rightarrow> 'w
    \<Rightarrow> SyncPushResult list \<times> 'h list \<times> 'w" where
  "dispatch_batch one [] w = ([], [], w)"
| "dispatch_batch one (e # es) w =
     (case one e w of (result, after, w1) \<Rightarrow>
       (case dispatch_batch one es w1 of (results, after', w2) \<Rightarrow> (result # results, after @ after', w2)))"

datatype push_reply = PushError int string string | PushResults "SyncPushResult list"

text \<open>\<open>decode_batch\<close> is the JSON decoding of the body, \<open>None\<close> when it fails (also because the body
  exceeds the limit it is given).\<close>

definition SyncPushHandler ::
  "pipeline_env \<Rightarrow> ('v, 'r, 'w) App \<Rightarrow> ('v, 'r) commandRegistry \<Rightarrow> (int option \<Rightarrow> bytes option \<Rightarrow> SyncPushEnvelope list option)
    \<Rightarrow> http_request \<Rightarrow> 'w \<Rightarrow> push_reply \<times> (http_request \<times> err option) list \<times> 'w" where
  "SyncPushHandler P a registry decode_batch r w =
     (if hr_Method r \<noteq> ''POST'' then
        (PushError 405 ''cqrshtmx.sync.push.method_not_allowed'' ''sync push is a POST endpoint'', [], w)
      else (case ap_commands a of
        None \<Rightarrow> (PushError 503 ''cqrshtmx.sync.push.no_commands'' ''no command dispatcher configured'', [], w)
      | Some commands \<Rightarrow>
          (case decode_batch (if ap_maxBodySize a > 0 then Some (ap_maxBodySize a) else None) (hr_Body r) of
             None \<Rightarrow> (PushError 400 ''cqrshtmx.sync.push.decode''
                        ''request body must be a JSON batch of commands'', [], w)
           | Some envelopes \<Rightarrow>
               if envelopes = [] then
                 (PushError 400 ''cqrshtmx.sync.push.empty'' ''commands must not be empty'', [], w)
               else if length envelopes > MaxSyncPushBatch then
                 (PushError 400 ''cqrshtmx.sync.push.too_large'' ''batch exceeds MaxSyncPushBatch envelopes'', [], w)
               else (case dispatch_batch (dispatchSyncPushEnvelope P a commands registry r) envelopes w of
                       (results, after, w') \<Rightarrow> (PushResults results, after, w')))))"

section \<open>Outcomes\<close>

text \<open>The replay of an envelope up to the dispatch.\<close>

definition replays ::
  "pipeline_env \<Rightarrow> ('v, 'r, 'w) App \<Rightarrow> ('v, 'r) commandRegistry \<Rightarrow> http_request \<Rightarrow> SyncPushEnvelope
    \<Rightarrow> ('v, 'r) handlerConfig \<Rightarrow> 'v \<Rightarrow> bool" where
  "replays P a registry r e config cmd \<longleftrightarrow>
     sp_CommandID e \<noteq> [] \<and> lookup_registry (sp_Type e) registry = Some config
     \<and> executeAuthorization (pe_ids P) (pe_errs P) (ap_enforcer a) (synthesizeSyncPushRequest r e) config = None
     \<and> decodes (hc_commandDecoder config) id (synthesizeSyncPushRequest r e) config cmd"

lemma rejected_result [simp]:
  "sr_CommandID (rejectedSyncPushResult E cid code msg f) = cid"
  "sr_Status (rejectedSyncPushResult E cid code msg f) = SyncPushStatusRejected"
  "(sr_Error (rejectedSyncPushResult E cid code msg f) = None) = False"
  "(\<exists>y. sr_Error (rejectedSyncPushResult E cid code msg f) = Some y) = True"
  by (simp_all add: rejectedSyncPushResult_def Let_def)

lemma statuses [simp]: "SyncPushStatusRejected \<noteq> SyncPushStatusConfirmed"
  by (simp add: SyncPushStatusRejected_def SyncPushStatusConfirmed_def)

lemma envelope_replayed:
  assumes "replays P a registry r e config cmd"
    and "commands r (timeoutCtx a config) cmd w = (reply, w')"
  shows "\<exists>result. dispatchSyncPushEnvelope P a commands registry r e w =
      (result, if ap_afterDispatch a then [(synthesizeSyncPushRequest r e, reply)] else [], w')
    \<and> sr_CommandID result = sp_CommandID e
    \<and> sr_Status result = (if reply = None then SyncPushStatusConfirmed else SyncPushStatusRejected)
    \<and> (sr_Error result = None \<longleftrightarrow> reply = None)"
proof -
  obtain decode where dec: "hc_commandDecoder config = Some decode"
    "decode (synthesizeSyncPushRequest r e) = Inr (Some cmd)"
    "(case hc_requestGuard config of None \<Rightarrow> None | Some guard \<Rightarrow> guard (synthesizeSyncPushRequest r e) cmd) = None"
    using assms(1) by (auto simp: replays_def decodes_def split: option.splits)
  have cid: "sp_CommandID e \<noteq> []" and reg: "lookup_registry (sp_Type e) registry = Some config"
    and auth: "executeAuthorization (pe_ids P) (pe_errs P) (ap_enforcer a) (synthesizeSyncPushRequest r e) config = None"
    using assms(1) by (simp_all add: replays_def)
  show ?thesis
    unfolding dispatchSyncPushEnvelope_def Let_def reg dec auth option.case sum.case assms(2) prod.case
    using cid by (auto split: option.split)
qed

lemma envelope_refused:
  assumes "\<nexists>config cmd. replays P a registry r e config cmd"
  shows "\<exists>result. dispatchSyncPushEnvelope P a commands registry r e w = (result, [], w)
    \<and> sr_CommandID result = sp_CommandID e \<and> sr_Status result = SyncPushStatusRejected
    \<and> sr_Error result \<noteq> None"
  using assms
  by (auto simp: dispatchSyncPushEnvelope_def replays_def decodes_def Let_def simp del: split_paired_Ex
      split: option.split sum.split)

text \<open>What a batch does, envelope by envelope: the outcomes (confirmed or not) and the world.\<close>

inductive push_run ::
  "pipeline_env \<Rightarrow> ('v, 'r, 'w) App \<Rightarrow> (http_request \<Rightarrow> duration option \<Rightarrow> 'v \<Rightarrow> 'w \<Rightarrow> err option \<times> 'w)
    \<Rightarrow> ('v, 'r) commandRegistry \<Rightarrow> http_request \<Rightarrow> SyncPushEnvelope list \<Rightarrow> 'w \<Rightarrow> (string \<times> bool) list \<Rightarrow> 'w \<Rightarrow> bool"
  for P a commands registry r where
  Empty: "push_run P a commands registry r [] w [] w"
| Dispatched: "replays P a registry r e config cmd \<Longrightarrow>
    commands r (timeoutCtx a config) cmd w = (reply, w1) \<Longrightarrow>
    push_run P a commands registry r es w1 outs w2 \<Longrightarrow>
    push_run P a commands registry r (e # es) w ((sp_CommandID e, reply = None) # outs) w2"
| Refused: "(\<nexists>config cmd. replays P a registry r e config cmd) \<Longrightarrow>
    push_run P a commands registry r es w outs w2 \<Longrightarrow>
    push_run P a commands registry r (e # es) w ((sp_CommandID e, False) # outs) w2"

definition outcome_of :: "SyncPushResult \<Rightarrow> string \<times> bool" where
  "outcome_of result = (sr_CommandID result, sr_Status result = SyncPushStatusConfirmed)"

definition decodable :: "SyncPushResult \<Rightarrow> bool" where
  "decodable result \<longleftrightarrow> (\<forall>quote. UnmarshalSyncPushResult quote result = Inr result)"

lemma batch_run:
  "dispatch_batch (dispatchSyncPushEnvelope P a commands registry r) es w = (results, hs, w') \<Longrightarrow>
   push_run P a commands registry r es w (map outcome_of results) w' \<and> list_all decodable results"
proof (induction es arbitrary: w results hs w')
  case Nil
  then show ?case by (simp add: push_run.Empty)
next
  case (Cons e es)
  obtain result h w1 where one: "dispatchSyncPushEnvelope P a commands registry r e w = (result, h, w1)"
    by (cases "dispatchSyncPushEnvelope P a commands registry r e w")
  obtain rest h' w2 where batch: "dispatch_batch (dispatchSyncPushEnvelope P a commands registry r) es w1 = (rest, h', w2)"
    by (cases "dispatch_batch (dispatchSyncPushEnvelope P a commands registry r) es w1")
  have eq: "results = result # rest" "w' = w2" using Cons.prems by (simp_all add: one batch)
  note run = Cons.IH [OF batch]
  show ?case
  proof (cases "\<exists>config cmd. replays P a registry r e config cmd")
    case True
    then obtain config cmd where rep: "replays P a registry r e config cmd" by blast
    obtain reply w3 where reply: "commands r (timeoutCtx a config) cmd w = (reply, w3)" by fastforce
    from envelope_replayed [of P a registry r e config cmd commands w, OF rep reply] one
    have res: "w3 = w1" "sr_CommandID result = sp_CommandID e"
      "sr_Status result = (if reply = None then SyncPushStatusConfirmed else SyncPushStatusRejected)"
      "(sr_Error result = None) = (reply = None)" by auto
    have "outcome_of result = (sp_CommandID e, reply = None)" using res by (simp add: outcome_of_def)
    moreover have "decodable result" using res by (simp add: decodable_def UnmarshalSyncPushResult_def)
    ultimately show ?thesis
      using push_run.Dispatched [OF rep, of commands w reply w1] reply res(1) run by (simp add: eq)
  next
    case False
    from envelope_refused [of P a registry r e commands w, OF False] one
    have res: "w1 = w" "sr_CommandID result = sp_CommandID e" "sr_Status result = SyncPushStatusRejected"
      "sr_Error result \<noteq> None" by auto
    have "outcome_of result = (sp_CommandID e, False)" using res by (simp add: outcome_of_def)
    moreover have "decodable result" using res by (simp add: decodable_def UnmarshalSyncPushResult_def)
    ultimately show ?thesis
      using push_run.Refused [OF False] res(1) run by (simp add: eq)
  qed
qed

text \<open>C20. A push of a decodable batch of 1 to 100 commands answers every envelope, in order, with one
  outcome the client can decode: an envelope that replays (known type, authorized, decoded, guarded)
  is dispatched once and confirmed exactly when the dispatcher reports no error; any other envelope is
  rejected and leaves the world alone, and never stops the ones behind it.\<close>

theorem push_outcomes:
  assumes "ap_commands a = Some commands" and "hr_Method r = ''POST''"
    and "decode_batch (if ap_maxBodySize a > 0 then Some (ap_maxBodySize a) else None) (hr_Body r) = Some es"
    and "0 < length es" and "length es \<le> 100"
  shows "\<exists>results hs w'. SyncPushHandler P a registry decode_batch r w = (PushResults results, hs, w')
    \<and> push_run P a commands registry r es w (map outcome_of results) w'
    \<and> list_all decodable results"
proof -
  obtain results hs w' where run:
    "dispatch_batch (dispatchSyncPushEnvelope P a commands registry r) es w = (results, hs, w')"
    by (cases "dispatch_batch (dispatchSyncPushEnvelope P a commands registry r) es w")
  then have "SyncPushHandler P a registry decode_batch r w = (PushResults results, hs, w')"
    using assms by (simp add: SyncPushHandler_def MaxSyncPushBatch_def)
  with batch_run [OF run] show ?thesis by blast
qed

definition demo_post :: http_request where
  "demo_post = demo_request (Some (UserID 3)) \<lparr> hr_Body := Some ''batch'' \<rparr>"

definition demo_envelope :: "string \<Rightarrow> string \<Rightarrow> SyncPushEnvelope" where
  "demo_envelope cid body =
     \<lparr> sp_CommandID = cid, sp_Type = ''Create'', sp_Body = body, sp_ContentType = [] \<rparr>"

definition demo_registry :: "(string, string) commandRegistry" where
  "demo_registry = remember ''Create''
     (handlerConfig_zero \<lparr> hc_authMode := authRequired, hc_requireMethod := ''PUT'',
        hc_csrfConfig := Some (\<lambda>r. False), hc_commandDecoder := Some (\<lambda>r. Inr (hr_Body r)) \<rparr>) []"

lemma push_outcomes_witness:
  "\<exists>results hs w'. SyncPushHandler demo_pipeline demo_app demo_registry
      (\<lambda>n b. Some [demo_envelope ''c1'' ''good'', demo_envelope ''c2'' ''bad'', demo_envelope [] ''lost''])
      demo_post [] = (PushResults results, hs, w') \<and> list_all decodable results"
proof -
  have "ap_commands demo_app = Some (\<lambda>ctx t v w. if v = ''bad'' then (Some (Foreign v), w) else (None, v # w))"
    "hr_Method demo_post = ''POST''"
    by (simp_all add: demo_app_def demo_post_def demo_request_def)
  from push_outcomes [OF this, where es = "[demo_envelope ''c1'' ''good'', demo_envelope ''c2'' ''bad'',
      demo_envelope [] ''lost'']" and P = demo_pipeline and registry = demo_registry and w = "[]"
      and decode_batch = "\<lambda>n b. Some [demo_envelope ''c1'' ''good'', demo_envelope ''c2'' ''bad'',
      demo_envelope [] ''lost'']"]
  show ?thesis by auto
qed

text \<open>The replay is not the endpoint's pipeline: an envelope of a command that its own endpoint refuses,
  because its CSRF validator, its method guard or its content-type rule rejects the very same
  request, is dispatched by a push all the same.\<close>

theorem push_skips_endpoint_checks:
  assumes "replays P a registry r e config cmd" and "ap_commands a = Some commands"
    and "commands r (timeoutCtx a config) cmd w = (None, w')"
    and "inner = synthesizeSyncPushRequest r e" and "\<not> user_is_zero (pe_ids P) (UserIDFromContext (pe_ids P) r)"
    and "(\<exists>validate. hc_csrfConfig config = Some validate \<and> \<not> validate inner)
      \<or> \<not> methodAllowed config (hr_Method inner) \<or> snd (checkRequiredContentType P inner config) \<noteq> None"
  shows "(\<exists>effs. App_Command P a (sp_Type e) config inner w = (effs, w) \<and> refusals effs = 1)
    \<and> (\<exists>result hs. dispatchSyncPushEnvelope P a commands registry r e w = (result, hs, w')
         \<and> sr_Status result = SyncPushStatusConfirmed)"
proof -
  have same: "inner = enrichUserID (pe_ids P) (ap_userIDExtractor a) inner"
    using assms(4,5) by (simp add: enrichUserID_def UserIDFromContext_def synthesizeSyncPushRequest_def Let_def)
  have "\<not> checked P a inner config" using assms(6) by (auto simp: checked_def)
  with App_Command_refused [OF assms(2) same]
  have "\<exists>effs. App_Command P a (sp_Type e) config inner w = (effs, w) \<and> refusals effs = 1" by metis
  moreover from envelope_replayed [of P a registry r e config cmd commands w, OF assms(1,3)]
  have "\<exists>result hs. dispatchSyncPushEnvelope P a commands registry r e w = (result, hs, w')
      \<and> sr_Status result = SyncPushStatusConfirmed" by auto
  ultimately show ?thesis by blast
qed

lemma push_skips_endpoint_checks_witness:
  "\<exists>config. lookup_registry ''Create'' demo_registry = Some config
     \<and> (\<exists>effs. App_Command demo_pipeline demo_app ''Create'' config
          (synthesizeSyncPushRequest demo_post (demo_envelope ''c1'' ''good'')) [] = (effs, []) \<and> refusals effs = 1)
     \<and> (\<exists>result hs. dispatchSyncPushEnvelope demo_pipeline demo_app
          (\<lambda>ctx t v w. if v = ''bad'' then (Some (Foreign v), w) else (None, v # w)) demo_registry demo_post
          (demo_envelope ''c1'' ''good'') [] = (result, hs, [''good'']) \<and> sr_Status result = SyncPushStatusConfirmed)"
proof -
  let ?cfg = "(handlerConfig_zero \<lparr> hc_authMode := authRequired, hc_requireMethod := ''PUT'',
        hc_csrfConfig := Some (\<lambda>r. False), hc_commandDecoder := Some (\<lambda>r. Inr (hr_Body r)) \<rparr>)
      :: (string, string) handlerConfig"
  let ?cmds = "\<lambda>ctx t v w. if v = ''bad'' then (Some (Foreign v), w) else (None, v # w)"
  have reg: "lookup_registry ''Create'' demo_registry = Some ?cfg"
    by (simp add: lookup_registry_def demo_registry_def remember_def)
  have user: "\<not> user_is_zero (pe_ids demo_pipeline) (UserIDFromContext (pe_ids demo_pipeline) demo_post)"
    by (simp add: demo_pipeline_def demo_ids_def UserIDFromContext_def demo_post_def demo_request_def)
  then have rep: "replays demo_pipeline demo_app demo_registry demo_post (demo_envelope ''c1'' ''good'') ?cfg ''good''"
    using reg by (simp add: replays_def demo_envelope_def executeAuthorization_def handlerConfig_zero_def
        decodes_def synthesizeSyncPushRequest_def UserIDFromContext_def Let_def)
  have cmds: "ap_commands demo_app = Some ?cmds" by (simp add: demo_app_def)
  have csrf: "hc_csrfConfig ?cfg = Some (\<lambda>r. False)" by simp
  from push_skips_endpoint_checks [OF rep cmds _ refl user, of "[]" "[''good'']"] csrf
  show ?thesis using reg by (simp add: demo_envelope_def)
qed

end
