(* ===== verification/Base64.thy ===== *)
theory Base64
  imports Prelude
begin

text \<open>
  \<open>base64.StdEncoding\<close>, which the sync and session code renders bytes with: groups of three bytes
  become four characters of the standard alphabet, padded with \<open>=\<close>. Decoding an encoding gives
  the bytes back (\<open>base64_roundtrip\<close>).
\<close>

definition alphabet :: string where
  "alphabet = ''ABCDEFGHIJKLMNOPQRSTUVWXYZabcdefghijklmnopqrstuvwxyz0123456789+/''"

definition sextet :: "nat \<Rightarrow> char" where
  "sextet n = alphabet ! n"

fun index_of :: "'a \<Rightarrow> 'a list \<Rightarrow> nat option" where
  "index_of c [] = None"
| "index_of c (x # xs) = (if x = c then Some 0 else map_option Suc (index_of c xs))"

definition unsextet :: "char \<Rightarrow> nat option" where
  "unsextet c = index_of c alphabet"

abbreviation octet :: "char \<Rightarrow> nat" where "octet c \<equiv> of_char c"

fun EncodeToString :: "bytes \<Rightarrow> string" where
  "EncodeToString (a # b # c # rest) =
     [sextet (octet a div 4), sextet (octet a mod 4 * 16 + octet b div 16),
      sextet (octet b mod 16 * 4 + octet c div 64), sextet (octet c mod 64)] @ EncodeToString rest"
| "EncodeToString [a, b] =
     [sextet (octet a div 4), sextet (octet a mod 4 * 16 + octet b div 16),
      sextet (octet b mod 16 * 4), CHR ''='']"
| "EncodeToString [a] = [sextet (octet a div 4), sextet (octet a mod 4 * 16), CHR ''='', CHR ''='']"
| "EncodeToString [] = []"

definition quad :: "string \<Rightarrow> nat list option" where
  "quad cs =
     (if list_all (\<lambda>c. unsextet c \<noteq> None) cs then Some (map (\<lambda>c. the (unsextet c)) cs) else None)"

definition three_bytes :: "nat \<Rightarrow> nat \<Rightarrow> nat \<Rightarrow> nat \<Rightarrow> bytes" where
  "three_bytes p q r s =
     [char_of (p * 4 + q div 16), char_of (q mod 16 * 16 + r div 4), char_of (r mod 4 * 64 + s)]"

fun DecodeString :: "string \<Rightarrow> bytes option" where
  "DecodeString [] = Some []"
| "DecodeString (a # b # c # d # rest) =
     (if d = CHR ''='' \<and> c = CHR ''='' then
        (if rest \<noteq> [] then None
         else (case (unsextet a, unsextet b) of
                 (Some p, Some q) \<Rightarrow> Some (take 1 (three_bytes p q 0 0)) | _ \<Rightarrow> None))
      else if d = CHR ''='' then
        (if rest \<noteq> [] then None
         else (case (unsextet a, unsextet b, unsextet c) of
                 (Some p, Some q, Some r) \<Rightarrow> Some (take 2 (three_bytes p q r 0)) | _ \<Rightarrow> None))
      else (case (unsextet a, unsextet b, unsextet c, unsextet d) of
              (Some p, Some q, Some r, Some s) \<Rightarrow> map_option ((@) (three_bytes p q r s)) (DecodeString rest)
            | _ \<Rightarrow> None))"
| "DecodeString _ = None"

lemma index_of_nth: "distinct xs \<Longrightarrow> i < length xs \<Longrightarrow> index_of (xs ! i) xs = Some i"
  by (induction xs arbitrary: i) (auto simp: nth_Cons' split: nat.splits)

lemma alphabet_distinct: "distinct alphabet" "length alphabet = 64" "CHR ''='' \<notin> set alphabet"
  by code_simp+

lemma unsextet_sextet [simp]: "n < 64 \<Longrightarrow> unsextet (sextet n) = Some n"
  by (simp add: unsextet_def sextet_def index_of_nth alphabet_distinct)

lemma sextet_pad [simp]: "n < 64 \<Longrightarrow> sextet n \<noteq> CHR ''=''"
  by (metis alphabet_distinct(2,3) nth_mem sextet_def)

lemma octet_bounds [simp]: "octet a < 256"
  using nat_of_char_less_256 [of a] .

lemma sextet_bounds [simp]:
  "octet a div 4 < 64" "octet a mod 4 * 16 + octet b div 16 < 64"
  "octet b mod 16 * 4 + octet c div 64 < 64" "octet c mod 64 < 64"
  "octet a mod 4 * 16 < 64" "octet b mod 16 * 4 < 64"
  using octet_bounds [of a] octet_bounds [of b] octet_bounds [of c] by linarith+

lemma three_bytes_sextets:
  "three_bytes (octet a div 4) (octet a mod 4 * 16 + octet b div 16)
     (octet b mod 16 * 4 + octet c div 64) (octet c mod 64) = [a, b, c]"
proof -
  have "octet a div 4 * 4 + (octet a mod 4 * 16 + octet b div 16) div 16 = octet a"
    using octet_bounds [of b] by (simp flip: div_mult2_eq)
  moreover have "(octet a mod 4 * 16 + octet b div 16) mod 16 * 16 + (octet b mod 16 * 4 + octet c div 64) div 4 = octet b"
  proof -
    have "octet b div 16 < 16" "octet c div 64 div 4 = 0"
      using octet_bounds [of b] octet_bounds [of c] by linarith+
    then show ?thesis by simp
  qed
  moreover have "(octet b mod 16 * 4 + octet c div 64) mod 4 * 64 + octet c mod 64 = octet c"
  proof -
    have "octet c div 64 < 4" using octet_bounds [of c] by linarith
    then show ?thesis by simp
  qed
  ultimately show ?thesis by (simp add: three_bytes_def)
qed

lemma base64_roundtrip: "DecodeString (EncodeToString xs) = Some xs"
proof (induction xs rule: EncodeToString.induct)
  case (1 a b c rest)
  then show ?case by (simp add: three_bytes_sextets)
next
  case (2 a b)
  have "three_bytes (octet a div 4) (octet a mod 4 * 16 + octet b div 16) (octet b mod 16 * 4) 0 =
      three_bytes (octet a div 4) (octet a mod 4 * 16 + octet b div 16) (octet b mod 16 * 4 + octet (char_of (0::nat)) div 64)
        (octet (char_of (0::nat)) mod 64)"
    by simp
  then show ?case using three_bytes_sextets [of a b "char_of (0::nat)"] by simp
next
  case (3 a)
  have "three_bytes (octet a div 4) (octet a mod 4 * 16) 0 0 =
      three_bytes (octet a div 4) (octet a mod 4 * 16 + octet (char_of (0::nat)) div 16)
        (octet (char_of (0::nat)) mod 16 * 4 + octet (char_of (0::nat)) div 64) (octet (char_of (0::nat)) mod 64)"
    by simp
  then show ?case using three_bytes_sextets [of a "char_of (0::nat)" "char_of (0::nat)"] by simp
qed simp

lemma EncodeToString_empty [simp]: "EncodeToString xs = [] \<longleftrightarrow> xs = []"
  by (cases xs rule: EncodeToString.cases) simp_all

end
