(* ===== verification/Sync_Pull.thy ===== *)
theory Sync_Pull
  imports Base64 Errors "HOL-Library.Word" "HOL-Library.Char_ord" "HOL-Library.List_Lexorder"
begin

text \<open>
  The read half of the sync protocol of the root package (\<open>sync_pull.go\<close>): the window read from a
  journal, the page a client gets, the wire form of an event and the client's decoding of it, and the
  ETag of a page.

  The journal is the list of its events. A \<open>SeekableJournal\<close> is an argument, its \<open>ReadFrom\<close>; the
  interface a pull relies on is the locale \<open>journal_window\<close>, which the fallback over \<open>ReadAll\<close>
  implements for a journal in identifier order. The JSON library answers whether bytes are valid JSON
  and their compact form.
\<close>

section \<open>Events\<close>

record journal_event =
  je_ID :: string
  je_Type :: string
  je_StreamType :: string
  je_StreamID :: string
  je_Version :: "64 word"
  je_SchemaVersion :: string
  je_OccurredAt :: string
  je_Encoding :: string
  je_Payload :: bytes

record SyncEvent =
  sv_EventID :: string
  sv_Type :: string
  sv_StreamType :: string
  sv_StreamID :: string
  sv_Version :: "64 word"
  sv_SchemaVersion :: string
  sv_OccurredAt :: string
  sv_PayloadEncoding :: string
  sv_Payload :: bytes
  sv_PayloadB64 :: string

definition SyncPayloadEncodingJSON :: string where "SyncPayloadEncodingJSON = ''json''"
definition SyncPayloadEncodingOpaque :: string where "SyncPayloadEncodingOpaque = ''opaque''"

definition newSyncEvent :: "(bytes \<Rightarrow> bool) \<Rightarrow> journal_event \<Rightarrow> SyncEvent" where
  "newSyncEvent json_valid evt =
     (let out = \<lparr> sv_EventID = je_ID evt, sv_Type = je_Type evt, sv_StreamType = je_StreamType evt,
                  sv_StreamID = je_StreamID evt, sv_Version = je_Version evt,
                  sv_SchemaVersion = je_SchemaVersion evt, sv_OccurredAt = je_OccurredAt evt,
                  sv_PayloadEncoding = je_Encoding evt, sv_Payload = [], sv_PayloadB64 = [] \<rparr>
      in if je_Encoding evt = SyncPayloadEncodingJSON \<and> json_valid (je_Payload evt)
         then out \<lparr> sv_Payload := je_Payload evt \<rparr>
         else (let out' = out \<lparr> sv_PayloadB64 := EncodeToString (je_Payload evt) \<rparr>
               in if je_Encoding evt = SyncPayloadEncodingJSON
                  then out' \<lparr> sv_PayloadEncoding := SyncPayloadEncodingOpaque \<rparr> else out'))"

text \<open>
  What travels: a member declared \<open>omitempty\<close> is left out when its JSON is an empty value (for
  \<open>encoding/json/v2\<close> that is null, the empty string, the empty object or the empty array), and a
  member that was left out decodes to the zero value. The raw payload travels in compact form.
\<close>

definition json_empty :: "bytes \<Rightarrow> bool" where
  "json_empty v \<longleftrightarrow> v \<in> {[], ''null'', [CHR 0x22, CHR 0x22], ''{}'', ''[]''}"

definition over_the_wire :: "(bytes \<Rightarrow> bytes) \<Rightarrow> SyncEvent \<Rightarrow> SyncEvent" where
  "over_the_wire compact e =
     e \<lparr> sv_Payload := (if sv_Payload e = [] \<or> json_empty (compact (sv_Payload e)) then []
                      else compact (sv_Payload e)) \<rparr>"

definition UnmarshalSyncEvent :: "(string \<Rightarrow> string) \<Rightarrow> SyncEvent \<Rightarrow> err + SyncEvent" where
  "UnmarshalSyncEvent quote e =
     (let inline = sv_Payload e \<noteq> []; b64 = sv_PayloadB64 e \<noteq> []
      in if inline \<and> b64 then
           Inl (new_error Corruption ''cqrshtmx.sync.event.payload_exclusive_or''
                  ''both payload and payloadB64 set'')
         else if \<not> inline \<and> \<not> b64 then
           Inl (new_error Corruption ''cqrshtmx.sync.event.payload_exclusive_or''
                  ''neither payload nor payloadB64 set'')
         else if inline \<and> sv_PayloadEncoding e \<noteq> SyncPayloadEncodingJSON then
           Inl (new_error Corruption ''cqrshtmx.sync.event.payload_encoding''
                  (''inline payload requires encoding '' @ quote SyncPayloadEncodingJSON @ '', got ''
                   @ quote (sv_PayloadEncoding e)))
         else if \<not> inline \<and> sv_PayloadEncoding e = SyncPayloadEncodingJSON then
           Inl (new_error Corruption ''cqrshtmx.sync.event.payload_encoding''
                  (''encoding '' @ quote SyncPayloadEncodingJSON
                   @ '' requires the inline payload, got payloadB64''))
         else Inr e)"

section \<open>Reading a window\<close>

definition DefaultSyncPullLimit :: int where "DefaultSyncPullLimit = 500"
definition MaxSyncPullLimit :: int where "MaxSyncPullLimit = 1000"

text \<open>\<open>None\<close> is the zero cursor.\<close>

fun scan_after ::
  "string option \<Rightarrow> int \<Rightarrow> journal_event list \<Rightarrow> journal_event list \<Rightarrow> journal_event list" where
  "scan_after cursor limit out [] = out"
| "scan_after cursor limit out (evt # rest) =
     (if (case cursor of None \<Rightarrow> False | Some c \<Rightarrow> je_ID evt \<le> c)
      then scan_after cursor limit out rest
      else if int (length (out @ [evt])) = limit then out @ [evt]
      else scan_after cursor limit (out @ [evt]) rest)"

definition readAllAfter ::
  "err + journal_event list \<Rightarrow> string option \<Rightarrow> int \<Rightarrow> err + journal_event list" where
  "readAllAfter ReadAll cursor limit =
     (case ReadAll of
        Inl e \<Rightarrow> Inl (Fam Infrastructure ''cqrshtmx.sync.pull.read_all'' ''journal read failed'' 0
                       [(''after_id'', case cursor of None \<Rightarrow> [] | Some c \<Rightarrow> c)] (Some e))
      | Inr events \<Rightarrow> Inr (scan_after cursor limit [] events))"

text \<open>Slicing beyond the ends of the window panics, which is the value \<open>None\<close>.\<close>

definition readSyncPullWindow ::
  "(string option \<Rightarrow> int \<Rightarrow> err + journal_event list) \<Rightarrow> string option \<Rightarrow> int
    \<Rightarrow> (err + journal_event list \<times> bool) option" where
  "readSyncPullWindow read afterID limit =
     (case read afterID (limit + 1) of
        Inl e \<Rightarrow> Some (Inl e)
      | Inr events \<Rightarrow>
          if int (length events) > limit then
            (if limit < 0 then None else Some (Inr (take (nat limit) events, True)))
          else Some (Inr (events, False)))"

record SyncPullResponse =
  pr_BackendID :: string
  pr_Events :: "SyncEvent list"
  pr_NextCursor :: string
  pr_HasMore :: bool

record 'ctx syncPullConfig =
  pc_backendID :: string
  pc_filter :: "('ctx \<Rightarrow> journal_event \<Rightarrow> bool) option"
  pc_limit :: int

definition syncPullConfig_default :: "'ctx syncPullConfig" where
  "syncPullConfig_default =
     \<lparr> pc_backendID = [], pc_filter = None, pc_limit = DefaultSyncPullLimit \<rparr>"

definition WithSyncPullBackendID :: "string \<Rightarrow> 'ctx syncPullConfig \<Rightarrow> 'ctx syncPullConfig" where
  "WithSyncPullBackendID b c = c \<lparr> pc_backendID := b \<rparr>"

definition WithSyncPullFilter :: "('ctx \<Rightarrow> journal_event \<Rightarrow> bool) \<Rightarrow> 'ctx syncPullConfig \<Rightarrow> 'ctx syncPullConfig" where
  "WithSyncPullFilter pred c = c \<lparr> pc_filter := Some pred \<rparr>"

definition WithSyncPullLimit :: "int \<Rightarrow> 'ctx syncPullConfig \<Rightarrow> 'ctx syncPullConfig" where
  "WithSyncPullLimit n c = c \<lparr> pc_limit := n \<rparr>"

record 'ctx pull_request =
  pq_Method :: string
  pq_limit :: string
  pq_after :: string
  pq_IfNoneMatch :: string
  pq_ctx :: 'ctx

text \<open>The identifier and number parsers, the JSON library and the ETag library.\<close>

record pull_env =
  pl_Atoi :: "string \<Rightarrow> int option"
  pl_ParseEventID :: "string \<Rightarrow> string option"
  pl_json_valid :: "bytes \<Rightarrow> bool"
  pl_matches :: "string \<Rightarrow> string \<Rightarrow> bool"

datatype pull_reply = PullError int string string | PullPage string SyncPullResponse | NotModified string | PullPanic

definition parseSyncPullQuery ::
  "pull_env \<Rightarrow> 'ctx pull_request \<Rightarrow> int \<Rightarrow> pull_reply + string option \<times> int" where
  "parseSyncPullQuery P r defaultLimit =
     (let limit = (if pq_limit r = [] then Some defaultLimit
                   else (case pl_Atoi P (pq_limit r) of
                           None \<Rightarrow> None
                         | Some parsed \<Rightarrow> if parsed \<le> 0 then None else Some parsed))
      in (case limit of
            None \<Rightarrow> Inl (PullError 400 ''cqrshtmx.sync.pull.limit_invalid'' ''limit must be a positive integer'')
          | Some n \<Rightarrow>
              (let n' = (if n > MaxSyncPullLimit then MaxSyncPullLimit else n)
               in if pq_after r = [] then Inr (None, n')
                  else (case pl_ParseEventID P (pq_after r) of
                          None \<Rightarrow> Inl (PullError 400 ''cqrshtmx.sync.pull.cursor_invalid''
                                         ''after must be a valid event ID (ULID)'')
                        | Some parsed \<Rightarrow> Inr (Some parsed, n')))))"

text \<open>The loop over the window: every event moves the cursor, the visible ones are delivered.\<close>

definition visible_to :: "'ctx syncPullConfig \<Rightarrow> 'ctx \<Rightarrow> journal_event \<Rightarrow> bool" where
  "visible_to c ctx evt = (case pc_filter c of None \<Rightarrow> True | Some pred \<Rightarrow> pred ctx evt)"

fun pull_events ::
  "(journal_event \<Rightarrow> bool) \<Rightarrow> (journal_event \<Rightarrow> SyncEvent) \<Rightarrow> journal_event list \<Rightarrow> SyncEvent list \<times> string
    \<Rightarrow> SyncEvent list \<times> string" where
  "pull_events keep render [] acc = acc"
| "pull_events keep render (evt # events) (visible, cursor) =
     pull_events keep render events
       (if keep evt then visible @ [render evt] else visible, je_ID evt)"

section \<open>The ETag\<close>

definition fnv_offset :: "64 word" where "fnv_offset = 14695981039346656037"
definition fnv_prime :: "64 word" where "fnv_prime = 1099511628211"

definition fnv1a :: "bytes \<Rightarrow> 64 word" where
  "fnv1a data = fold (\<lambda>b hash. xor hash (of_nat (of_char b)) * fnv_prime) data fnv_offset"

function hex :: "nat \<Rightarrow> string" where
  "hex n =
     (let digit = ''0123456789abcdef'' ! (n mod 16)
      in if n < 16 then [digit] else hex (n div 16) @ [digit])"
  by pat_completeness auto
termination
  by (relation "measure id") auto

declare hex.simps [simp del]

definition HashTag :: "bytes \<Rightarrow> string" where
  "HashTag data = hex (unat (fnv1a data))"

definition syncPullETag :: "SyncPullResponse \<Rightarrow> string" where
  "syncPullETag resp =
     [CHR 0x22]
     @ HashTag (pr_BackendID resp @ [CHR 0x00] @ pr_NextCursor resp @ [CHR 0x00]
         @ show_nat (length (pr_Events resp)) @ [CHR 0x00]
         @ (if pr_HasMore resp then ''true'' else ''false''))
     @ [CHR 0x22]"

definition writeSyncPullResponse :: "pull_env \<Rightarrow> 'ctx pull_request \<Rightarrow> SyncPullResponse \<Rightarrow> pull_reply" where
  "writeSyncPullResponse P r resp =
     (let tag = syncPullETag resp
      in if pl_matches P tag (pq_IfNoneMatch r) then NotModified tag else PullPage tag resp)"

definition SyncPullHandler ::
  "pull_env \<Rightarrow> err + journal_event list \<Rightarrow> (string option \<Rightarrow> int \<Rightarrow> err + journal_event list) option
    \<Rightarrow> ('ctx syncPullConfig \<Rightarrow> 'ctx syncPullConfig) list \<Rightarrow> 'ctx pull_request \<Rightarrow> pull_reply" where
  "SyncPullHandler P journal seekable opts r =
     (let config = fold (\<lambda>opt c. opt c) opts syncPullConfig_default
      in if pq_Method r \<noteq> ''GET'' \<and> pq_Method r \<noteq> ''HEAD'' then
           PullError 405 ''cqrshtmx.sync.pull.method_not_allowed'' ''sync pull is a GET endpoint''
         else (case parseSyncPullQuery P r (pc_limit config) of
                 Inl reply \<Rightarrow> reply
               | Inr (afterID, limit) \<Rightarrow>
                   (let read = (case seekable of Some ReadFrom \<Rightarrow> ReadFrom | None \<Rightarrow> readAllAfter journal)
                    in case readSyncPullWindow read afterID limit of
                         None \<Rightarrow> PullPanic
                       | Some (Inl e) \<Rightarrow>
                           PullError 500 ''cqrshtmx.sync.pull.journal_read'' ''journal read failed''
                       | Some (Inr (events, hasMore)) \<Rightarrow>
                           (case pull_events (visible_to config (pq_ctx r)) (newSyncEvent (pl_json_valid P))
                                   events ([], []) of
                              (visible, nextCursor) \<Rightarrow>
                                writeSyncPullResponse P r
                                  \<lparr> pr_BackendID = pc_backendID config, pr_Events = visible,
                                    pr_NextCursor = nextCursor, pr_HasMore = hasMore \<rparr>))))"

section \<open>The wire form\<close>

text \<open>The payload of an event that a client can decode: not empty, and not an empty JSON value.\<close>

definition carries_payload :: "(bytes \<Rightarrow> bool) \<Rightarrow> (bytes \<Rightarrow> bytes) \<Rightarrow> journal_event \<Rightarrow> bool" where
  "carries_payload json_valid compact evt \<longleftrightarrow>
     je_Payload evt \<noteq> []
     \<and> (je_Encoding evt = SyncPayloadEncodingJSON \<and> json_valid (je_Payload evt) \<longrightarrow>
          \<not> json_empty (compact (je_Payload evt)))"

lemma json_empty_Nil [simp]: "json_empty []"
  by (simp add: json_empty_def)

lemma payload_encodings [simp]: "SyncPayloadEncodingOpaque \<noteq> SyncPayloadEncodingJSON"
  by (simp add: SyncPayloadEncodingOpaque_def SyncPayloadEncodingJSON_def)

text \<open>An event with a payload survives the wire: the client decodes it, gets the metadata of the
  journal event, and recovers the payload - the compact form of the JSON inline, or exactly the
  journal's bytes from base64 when the bytes are not the JSON they are stamped as.\<close>

theorem sync_event_roundtrip:
  assumes "carries_payload json_valid compact evt"
    and "sent = over_the_wire compact (newSyncEvent json_valid evt)"
  shows "UnmarshalSyncEvent quote sent = Inr sent
    \<and> (sv_EventID sent, sv_Type sent, sv_StreamType sent, sv_StreamID sent, sv_Version sent)
        = (je_ID evt, je_Type evt, je_StreamType evt, je_StreamID evt, je_Version evt)
    \<and> (if je_Encoding evt = SyncPayloadEncodingJSON \<and> json_valid (je_Payload evt)
       then sv_PayloadEncoding sent = SyncPayloadEncodingJSON \<and> sv_Payload sent = compact (je_Payload evt)
       else sv_PayloadEncoding sent = (if je_Encoding evt = SyncPayloadEncodingJSON
              then SyncPayloadEncodingOpaque else je_Encoding evt)
         \<and> DecodeString (sv_PayloadB64 sent) = Some (je_Payload evt))"
  using assms
  by (cases "compact (je_Payload evt) = []")
    (auto simp: carries_payload_def over_the_wire_def newSyncEvent_def UnmarshalSyncEvent_def
      base64_roundtrip Let_def)

definition demo_event :: "string \<Rightarrow> string \<Rightarrow> bytes \<Rightarrow> journal_event" where
  "demo_event i enc p =
     \<lparr> je_ID = i, je_Type = ''t'', je_StreamType = ''s'', je_StreamID = ''x'', je_Version = 1,
       je_SchemaVersion = [], je_OccurredAt = ''2026'', je_Encoding = enc, je_Payload = p \<rparr>"

lemma sync_event_roundtrip_witness:
  "DecodeString (sv_PayloadB64 (over_the_wire id (newSyncEvent (\<lambda>v. v \<noteq> []) (demo_event ''01'' ''cbor'' ''ab'')))) = Some ''ab''
   \<and> sv_Payload (over_the_wire id (newSyncEvent (\<lambda>v. v \<noteq> []) (demo_event ''01'' ''json'' ''[1]''))) = ''[1]''"
proof -
  have c: "carries_payload (\<lambda>v. v \<noteq> []) id (demo_event ''01'' ''cbor'' ''ab'')"
    "carries_payload (\<lambda>v. v \<noteq> []) id (demo_event ''01'' ''json'' ''[1]'')"
    by (simp_all add: carries_payload_def demo_event_def json_empty_def SyncPayloadEncodingJSON_def)
  show ?thesis
    using sync_event_roundtrip [OF c(1) refl] sync_event_roundtrip [OF c(2) refl]
    by (simp add: demo_event_def SyncPayloadEncodingJSON_def)
qed

text \<open>An event without a payload cannot be pulled: when the journal holds no bytes, or an empty JSON
  value such as \<open>{}\<close>, both payload members are left out of the JSON and the client refuses the
  event (and with it the page) as corrupt.\<close>

theorem empty_payload_undecodable:
  assumes "\<not> carries_payload json_valid compact evt"
  shows "\<exists>e. UnmarshalSyncEvent quote (over_the_wire compact (newSyncEvent json_valid evt)) = Inl e
    \<and> coder e = Some ''cqrshtmx.sync.event.payload_exclusive_or''"
  using assms
  by (auto simp: carries_payload_def over_the_wire_def newSyncEvent_def UnmarshalSyncEvent_def Let_def)

lemma empty_payload_undecodable_witness:
  "\<exists>e. UnmarshalSyncEvent id (over_the_wire id (newSyncEvent (\<lambda>v. v \<noteq> []) (demo_event ''01'' ''json'' ''{}''))) = Inl e"
proof -
  have "\<not> carries_payload (\<lambda>v. v \<noteq> []) id (demo_event ''01'' ''json'' ''{}'')"
    by (simp add: carries_payload_def demo_event_def json_empty_def SyncPayloadEncodingJSON_def)
  from empty_payload_undecodable [OF this] show ?thesis by blast
qed

section \<open>Paging\<close>

definition after :: "string option \<Rightarrow> journal_event list \<Rightarrow> journal_event list" where
  "after c es = filter (\<lambda>e. case c of None \<Rightarrow> True | Some i \<Rightarrow> i < je_ID e) es"

definition ordered :: "journal_event list \<Rightarrow> bool" where
  "ordered es \<longleftrightarrow> sorted_wrt (<) (map je_ID es)"

text \<open>What a pull relies on: a read answers the first events after the cursor.\<close>

locale journal_window =
  fixes read :: "journal_event list \<Rightarrow> string option \<Rightarrow> int \<Rightarrow> err + journal_event list"
  assumes read: "ordered es \<Longrightarrow> 0 < n \<Longrightarrow> read es c n = Inr (take (nat n) (after c es))"
begin

lemma window:
  assumes "ordered es" and "0 < limit"
  shows "readSyncPullWindow (read es) c limit =
    Some (Inr (take (nat limit) (after c es), limit < int (length (after c es))))"
proof -
  have n: "nat (limit + 1) = Suc (nat limit)" using assms(2) by simp
  show ?thesis
    using read [OF assms(1), of "limit + 1" c] assms(2)
    by (auto simp: readSyncPullWindow_def n min_def)
qed

end

lemma scan_after_take:
  "int (length out) < limit \<Longrightarrow>
   scan_after c limit out es = out @ take (nat limit - length out) (after c es)"
proof (induction es arbitrary: out)
  case (Cons e es)
  have len: "nat limit - length out = Suc (nat limit - Suc (length out))" using Cons.prems by linarith
  show ?case
  proof (cases "int (length (out @ [e])) = limit")
    case True
    then have "nat limit - length out = Suc 0" by auto
    with True Cons show ?thesis by (auto simp: after_def not_le split: option.splits)
  next
    case False
    then have "int (length (out @ [e])) < limit" using Cons.prems by simp
    with False Cons show ?thesis by (auto simp: after_def len not_le split: option.splits)
  qed
qed (simp add: after_def)

interpretation fallback: journal_window "\<lambda>es. readAllAfter (Inr es)"
  by unfold_locales (simp add: readAllAfter_def scan_after_take)

lemma after_mem: "x \<in> set (after c es) \<Longrightarrow> (case c of None \<Rightarrow> True | Some i \<Rightarrow> i < je_ID x)"
  by (simp add: after_def)

lemma after_sorted_drop:
  assumes "ordered es" and "k < length (after c es)"
  shows "after (Some (je_ID (after c es ! k))) es = drop (Suc k) (after c es)"
proof -
  let ?rem = "after c es"
  have sorted: "sorted_wrt (<) (map je_ID ?rem)"
    using assms(1) by (simp add: after_def ordered_def sorted_wrt_map sorted_wrt_filter)
  have cut: "after (Some (je_ID (?rem ! k))) ?rem = drop (Suc k) ?rem"
  proof -
    have "filter (\<lambda>e. je_ID (?rem ! k) < je_ID e) (take (Suc k) ?rem) = []"
      using sorted assms(2) by (auto simp: filter_empty_conv sorted_wrt_iff_nth_less in_set_conv_nth
          less_Suc_eq not_less order.strict_implies_order)
    moreover have "filter (\<lambda>e. je_ID (?rem ! k) < je_ID e) (drop (Suc k) ?rem) = drop (Suc k) ?rem"
      using sorted assms(2) by (auto simp: filter_id_conv sorted_wrt_iff_nth_less in_set_conv_nth)
    ultimately show ?thesis
      by (metis (no_types, lifting) after_def append_Nil append_take_drop_id filter_append option.simps(5) filter_cong)
  qed
  moreover have "after (Some (je_ID (?rem ! k))) ?rem = after (Some (je_ID (?rem ! k))) es"
  proof -
    have "(case c of None \<Rightarrow> True | Some i \<Rightarrow> i < je_ID (?rem ! k))"
      using after_mem [OF nth_mem [OF assms(2)]] .
    then show ?thesis by (auto simp: after_def intro!: filter_cong split: option.splits)
  qed
  ultimately show ?thesis by simp
qed

text \<open>The client: it asks for the page after its cursor until a page says there is no more. \<open>None\<close> is a
  client that got an error or is still asking.\<close>

fun pull_loop ::
  "nat \<Rightarrow> (string \<Rightarrow> pull_reply) \<Rightarrow> string \<Rightarrow> SyncEvent list \<Rightarrow> (SyncEvent list \<times> string) option" where
  "pull_loop 0 pull cursor got = None"
| "pull_loop (Suc n) pull cursor got =
     (case pull cursor of
        PullPage tag resp \<Rightarrow>
          (let got' = got @ pr_Events resp;
               cursor' = (if pr_NextCursor resp = [] then cursor else pr_NextCursor resp)
           in if pr_HasMore resp then pull_loop n pull cursor' got' else Some (got', cursor'))
      | _ \<Rightarrow> None)"

definition client_request :: "'ctx \<Rightarrow> string \<Rightarrow> 'ctx pull_request" where
  "client_request ctx cursor =
     \<lparr> pq_Method = ''GET'', pq_limit = [], pq_after = cursor, pq_IfNoneMatch = [], pq_ctx = ctx \<rparr>"

lemma pull_events_eq:
  "pull_events keep render es (v, c) =
     (v @ map render (filter keep es), if es = [] then c else je_ID (last es))"
  by (induction es arbitrary: v c) auto

definition cursor_of :: "pull_env \<Rightarrow> string \<Rightarrow> string option" where
  "cursor_of P raw = (if raw = [] then None else pl_ParseEventID P raw)"

definition page_of ::
  "pull_env \<Rightarrow> 'ctx syncPullConfig \<Rightarrow> 'ctx \<Rightarrow> nat \<Rightarrow> journal_event list \<Rightarrow> SyncPullResponse" where
  "page_of P config ctx n rest =
     \<lparr> pr_BackendID = pc_backendID config,
       pr_Events = map (newSyncEvent (pl_json_valid P)) (filter (visible_to config ctx) (take n rest)),
       pr_NextCursor = (if take n rest = [] then [] else je_ID (last (take n rest))),
       pr_HasMore = (n < length rest) \<rparr>"

lemma last_take: "0 < n \<Longrightarrow> n < length xs \<Longrightarrow> last (take n xs) = xs ! (n - 1) \<and> take n xs \<noteq> []"
  by (cases xs) (auto simp: last_conv_nth)

context journal_window
begin

lemma page:
  assumes "ordered es" and "config = fold (\<lambda>opt c. opt c) opts syncPullConfig_default"
    and "0 < pc_limit config" and "\<And>tag. \<not> pl_matches P tag []"
    and "raw = [] \<or> pl_ParseEventID P raw \<noteq> None"
    and "resp = page_of P config ctx (nat (min (pc_limit config) MaxSyncPullLimit)) (after (cursor_of P raw) es)"
  shows "SyncPullHandler P journal (Some (read es)) opts (client_request ctx raw) =
    PullPage (syncPullETag resp) resp"
proof -
  let ?limit = "min (pc_limit config) MaxSyncPullLimit"
  have limit: "0 < ?limit" using assms(3) by (simp add: MaxSyncPullLimit_def)
  have query: "parseSyncPullQuery P (client_request ctx raw) (pc_limit config) = Inr (cursor_of P raw, ?limit)"
    using assms(5) by (auto simp: parseSyncPullQuery_def client_request_def cursor_of_def min_def Let_def)
  have more: "(?limit < int (length (after (cursor_of P raw) es))) =
      (nat ?limit < length (after (cursor_of P raw) es))" using limit by linarith
  show ?thesis
    unfolding SyncPullHandler_def Let_def assms(2) [symmetric] query sum.case prod.case option.case
      window [OF assms(1) limit] pull_events_eq
    using assms(4,6) by (simp add: client_request_def page_of_def writeSyncPullResponse_def more)
qed

lemma delivers:
  assumes "ordered es" and "config = fold (\<lambda>opt c. opt c) opts syncPullConfig_default"
    and "0 < pc_limit config" and "\<And>tag. \<not> pl_matches P tag []"
    and ids: "\<forall>e\<in>set es. je_ID e \<noteq> [] \<and> pl_ParseEventID P (je_ID e) = Some (je_ID e)"
  shows "raw = [] \<or> pl_ParseEventID P raw \<noteq> None \<Longrightarrow> length (after (cursor_of P raw) es) < fuel \<Longrightarrow>
    \<exists>cursor. pull_loop fuel (\<lambda>c. SyncPullHandler P journal (Some (read es)) opts (client_request ctx c)) raw got =
      Some (got @ map (newSyncEvent (pl_json_valid P))
        (filter (visible_to config ctx) (after (cursor_of P raw) es)), cursor)"
proof (induction fuel arbitrary: raw got)
  case (Suc fuel)
  let ?rest = "after (cursor_of P raw) es" and ?n = "nat (min (pc_limit config) MaxSyncPullLimit)"
  let ?resp = "page_of P config ctx ?n ?rest"
  note page = page [OF assms(1-4) Suc.prems(1) refl, of journal ctx]
  have n: "0 < ?n" using assms(3) by (simp add: MaxSyncPullLimit_def)
  show ?case
  proof (cases "?n < length ?rest")
    case False
    then show ?thesis by (simp add: page page_of_def)
  next
    case True
    let ?last = "?rest ! (?n - 1)"
    have last: "last (take ?n ?rest) = ?last" "take ?n ?rest \<noteq> []"
      using last_take [OF n True] by blast+
    have "?last \<in> set es" using True by (intro subsetD [OF _ nth_mem]) (auto simp: after_def)
    with ids have id: "je_ID ?last \<noteq> []" "pl_ParseEventID P (je_ID ?last) = Some (je_ID ?last)" by auto
    then have cursor: "cursor_of P (je_ID ?last) = Some (je_ID ?last)" by (simp add: cursor_of_def)
    have rest: "after (cursor_of P (je_ID ?last)) es = drop ?n ?rest"
    proof -
      have "?n - 1 < length ?rest" "Suc (?n - 1) = ?n" using True n by linarith+
      with after_sorted_drop [OF assms(1), of "?n - 1" "cursor_of P raw"] show ?thesis
        unfolding cursor by metis
    qed
    have "length (after (cursor_of P (je_ID ?last)) es) < fuel"
      using Suc.prems(2) n True unfolding rest length_drop by linarith
    from Suc.IH [OF disjI2 this, of "got @ pr_Events ?resp"] id obtain cur where
      "pull_loop fuel (\<lambda>c. SyncPullHandler P journal (Some (read es)) opts (client_request ctx c)) (je_ID ?last)
         (got @ pr_Events ?resp) =
       Some ((got @ pr_Events ?resp) @ map (newSyncEvent (pl_json_valid P))
         (filter (visible_to config ctx) (drop ?n ?rest)), cur)"
      unfolding rest by auto
    moreover have "pr_NextCursor ?resp = je_ID ?last" "pr_HasMore ?resp"
      using last True by (simp_all add: page_of_def)
    moreover have "pr_Events ?resp @ map (newSyncEvent (pl_json_valid P)) (filter (visible_to config ctx) (drop ?n ?rest))
        = map (newSyncEvent (pl_json_valid P)) (filter (visible_to config ctx) ?rest)"
      unfolding page_of_def by (simp flip: map_append filter_append)
    ultimately show ?thesis using id(1) by (simp add: page Let_def)
  qed
qed simp

end

text \<open>A client that decodes: a page of which some event does not decode is an error.\<close>

definition decoded_reply ::
  "(string \<Rightarrow> string) \<Rightarrow> (bytes \<Rightarrow> bytes) \<Rightarrow> pull_reply \<Rightarrow> pull_reply" where
  "decoded_reply quote compact reply =
     (case reply of
        PullPage tag resp \<Rightarrow>
          (let sent = map (over_the_wire compact) (pr_Events resp)
           in if list_all (\<lambda>e. UnmarshalSyncEvent quote e = Inr e) sent
              then PullPage tag (resp \<lparr> pr_Events := sent \<rparr>) else PullError 200 [] ''undecodable'')
      | _ \<Rightarrow> reply)"

lemma pull_loop_keeps: "pull_loop n pull c got = Some (got', cur) \<Longrightarrow> set got \<subseteq> set got'"
proof (induction n arbitrary: c got)
  case (Suc n)
  then show ?case by (fastforce simp: Let_def split: pull_reply.splits if_splits)
qed simp

lemma decoded_loop:
  "pull_loop n pull c got = Some (got', cur) \<Longrightarrow>
   \<forall>e\<in>set got'. UnmarshalSyncEvent quote (over_the_wire compact e) = Inr (over_the_wire compact e) \<Longrightarrow>
   pull_loop n (\<lambda>c. decoded_reply quote compact (pull c)) c (map (over_the_wire compact) got)
     = Some (map (over_the_wire compact) got', cur)"
proof (induction n arbitrary: c got)
  case (Suc n)
  then obtain tag resp where page: "pull c = PullPage tag resp"
    by (auto split: pull_reply.splits)
  let ?next = "if pr_NextCursor resp = [] then c else pr_NextCursor resp"
  have run: "if pr_HasMore resp then pull_loop n pull ?next (got @ pr_Events resp) = Some (got', cur)
      else got @ pr_Events resp = got' \<and> ?next = cur"
    using Suc.prems(1) by (simp add: page Let_def split: if_splits)
  then have "set (pr_Events resp) \<subseteq> set got'"
    using pull_loop_keeps [of n pull ?next "got @ pr_Events resp"] by (auto split: if_splits)
  with Suc.prems(2) have ok: "list_all (\<lambda>e. UnmarshalSyncEvent quote e = Inr e)
      (map (over_the_wire compact) (pr_Events resp))" by (auto simp: list_all_iff)
  show ?case
    using run Suc.IH [of ?next "got @ pr_Events resp"] Suc.prems(2) ok
    by (auto simp: page decoded_reply_def Let_def split: if_splits)
qed simp


definition demo_pull :: pull_env where
  "demo_pull = \<lparr> pl_Atoi = (\<lambda>s. None), pl_ParseEventID = Some, pl_json_valid = (\<lambda>v. v \<noteq> []),
     pl_matches = (\<lambda>tag v. v \<noteq> [] \<and> tag = v) \<rparr>"

definition demo_journal :: "journal_event list" where
  "demo_journal = map (\<lambda>i. demo_event i ''cbor'' i) [''01'', ''02'', ''03'', ''04'', ''05'']"

definition demo_seek :: "string option \<Rightarrow> int \<Rightarrow> err + journal_event list" where
  "demo_seek c n = Inr (take (nat n) (after c demo_journal))"


text \<open>A handler configured with \<open>WithSyncPullLimit(0)\<close> never lets a client catch up: as long as
  there is an event after the cursor, every page is empty, moves no cursor and promises more. With a
  negative limit every pull of a readable journal panics.\<close>

theorem nonpositive_limit_starves:
  assumes "config = fold (\<lambda>opt c. opt c) opts syncPullConfig_default"
    and "ordered es" and "\<And>tag. \<not> pl_matches P tag []"
    and "raw = [] \<or> pl_ParseEventID P raw \<noteq> None"
  shows "(pc_limit config = 0 \<and> after (cursor_of P raw) es \<noteq> [] \<longrightarrow>
      pull_loop fuel (\<lambda>c. SyncPullHandler P (Inr es) None opts (client_request ctx c)) raw [] = None)
    \<and> (pc_limit config < 0 \<longrightarrow> SyncPullHandler P (Inr es) None opts (client_request ctx raw) = PullPanic)"
proof -
  have query: "parseSyncPullQuery P (client_request ctx raw) (pc_limit config) =
      Inr (cursor_of P raw, pc_limit config)" if "pc_limit config \<le> 0"
    using assms(4) that
    by (auto simp: parseSyncPullQuery_def client_request_def cursor_of_def MaxSyncPullLimit_def Let_def)
  let ?resp = "\<lparr> pr_BackendID = pc_backendID config, pr_Events = [], pr_NextCursor = [], pr_HasMore = True \<rparr>"
  have zero: "SyncPullHandler P (Inr es) None opts (client_request ctx raw) = PullPage (syncPullETag ?resp) ?resp"
    if "pc_limit config = 0" "after (cursor_of P raw) es \<noteq> []"
  proof -
    have window: "readSyncPullWindow (readAllAfter (Inr es)) (cursor_of P raw) 0 = Some (Inr ([], True))"
      using fallback.read [OF assms(2), of 1 "cursor_of P raw"] that(2)
      by (cases "after (cursor_of P raw) es") (simp_all add: readSyncPullWindow_def)
    show ?thesis
      using query that(1) assms(3)
      by (simp add: SyncPullHandler_def writeSyncPullResponse_def client_request_def window flip: assms(1))
  qed
  have "pull_loop fuel (\<lambda>c. SyncPullHandler P (Inr es) None opts (client_request ctx c)) raw got = None"
    if "pc_limit config = 0" "after (cursor_of P raw) es \<noteq> []" for got
    using zero [OF that] by (induction fuel arbitrary: got) (simp_all add: Let_def)
  moreover have "SyncPullHandler P (Inr es) None opts (client_request ctx raw) = PullPanic"
    if "pc_limit config < 0"
    using query that
    by (simp add: SyncPullHandler_def readSyncPullWindow_def readAllAfter_def client_request_def flip: assms(1))
  ultimately show ?thesis by blast
qed

lemma nonpositive_limit_starves_witness:
  "pull_loop 1000 (\<lambda>c. SyncPullHandler demo_pull (Inr demo_journal) None [WithSyncPullLimit 0]
     (client_request () c)) [] [] = None
   \<and> SyncPullHandler demo_pull (Inr demo_journal) None [WithSyncPullLimit (- 1)] (client_request () []) = PullPanic"
proof -
  have ord: "ordered demo_journal" by code_simp
  have tag: "\<not> pl_matches demo_pull tag []" for tag by (simp add: demo_pull_def)
  have wait: "after (cursor_of demo_pull []) demo_journal \<noteq> []" by code_simp
  show ?thesis
    using nonpositive_limit_starves [OF refl ord, where opts = "[WithSyncPullLimit 0]" and P = demo_pull
        and raw = "[]" and ctx = "()" and fuel = 1000]
      nonpositive_limit_starves [OF refl ord, where opts = "[WithSyncPullLimit (- 1)]" and P = demo_pull
        and raw = "[]" and ctx = "()" and fuel = 1000] wait
    by (simp add: WithSyncPullLimit_def demo_pull_def)
qed

end
