(* ===== verification/Service.thy ===== *)
theory Service
  imports Error_Mapping User_Readmodel Membership_Readmodel Tenant_Readmodel Bot_Readmodel
    Lockout Token_Stores Casbin_Projection
begin

text \<open>
  The core of \<open>usermgmt.Service\<close>: its dependencies and state (\<open>service_core.go\<close>), the auth audit
  journal (\<open>auth_audit.go\<close>), the auditing session store (\<open>session_audit.go\<close>), registration
  (\<open>service_register.go\<close>), sessions (\<open>service_login.go\<close>) and the operations of one user, with
  the cascade of its deletion (\<open>service_misc.go\<close>).

  The command dispatcher and its repositories belong to go-cqrs-lite: dispatching is a function of the
  environment on a world of type \<open>'w\<close>, which also holds the projections. What the services rely
  on is \<open>dispatcher_ok\<close>: a dispatch that reports no error has run the aggregate's decider, appended
  its events and fed them to the projection before it returns, and one that reports an error has changed
  neither. Random values, clock readings and new identifiers are arguments. The session store is the
  in-memory one. Log lines are not modelled.
\<close>

section \<open>The re-exported sentinels\<close>

fun usermgmt_status :: "im_sentinel \<Rightarrow> int option" where
  "usermgmt_status IMErrUserNotFound = Some 404"
| "usermgmt_status IMErrUserIDExists = Some 409"
| "usermgmt_status IMErrEmailExists = Some 409"
| "usermgmt_status IMErrInvalidCredentials = Some 401"
| "usermgmt_status IMErrNoCredentials = Some 404"
| "usermgmt_status IMErrWebAuthnNotConfigured = Some 401"
| "usermgmt_status IMErrSessionDataNotFound = Some 401"
| "usermgmt_status IMErrSessionNotFound = Some 404"
| "usermgmt_status IMErrSessionExpired = Some 401"
| "usermgmt_status IMErrForbidden = None"
| "usermgmt_status IMErrUnauthorized = None"
| "usermgmt_status IMErrValidation = None"
| "usermgmt_status IMErrAccountLocked = Some 429"
| "usermgmt_status IMErrEnforcerNotInitialized = Some 500"
| "usermgmt_status IMErrEmailVerificationNotConfigured = Some 503"
| "usermgmt_status IMErrInvalidVerificationToken = None"
| "usermgmt_status IMErrEmailAlreadyVerified = Some 409"
| "usermgmt_status IMErrTOTPNotConfigured = Some 503"
| "usermgmt_status IMErrTOTPAlreadyEnabled = Some 409"
| "usermgmt_status IMErrTOTPNotEnabled = None"
| "usermgmt_status IMErrInvalidTOTPCode = Some 401"
| "usermgmt_status IMErrTOTPSetupExpired = None"
| "usermgmt_status IMErrOAuthNotConfigured = Some 503"
| "usermgmt_status IMErrOAuthProviderNotFound = Some 404"
| "usermgmt_status IMErrOAuthInvalidState = None"
| "usermgmt_status IMErrOAuthTokenExchange = None"
| "usermgmt_status IMErrExternalAccountAlreadyLinked = Some 409"
| "usermgmt_status IMErrRegistrationClosed = Some 403"

definition usermgmt_error :: "im_sentinel \<Rightarrow> err" where
  "usermgmt_error s =
     (case usermgmt_status s of Some n \<Rightarrow> HttpStatus n (IMSentinel s) | None \<Rightarrow> IMSentinel s)"

section \<open>The auth audit journal\<close>

definition AuthMethodWebAuthN :: string where "AuthMethodWebAuthN = ''webauthn''"
definition AuthMethodTOTP :: string where "AuthMethodTOTP = ''totp''"
definition AuthMethodOAuth2 :: string where "AuthMethodOAuth2 = ''oauth2''"

definition AuthFailureNoCredentials :: string where "AuthFailureNoCredentials = ''no_credentials''"
definition AuthFailureCeremonyFailed :: string where "AuthFailureCeremonyFailed = ''ceremony_failed''"
definition AuthFailureCodeInvalid :: string where "AuthFailureCodeInvalid = ''code_invalid''"

definition SessionEndLogout :: string where "SessionEndLogout = ''logout''"
definition SessionEndExpired :: string where "SessionEndExpired = ''expired''"
definition SessionEndImpersonationEnded :: string where "SessionEndImpersonationEnded = ''impersonation_ended''"
definition SessionEndRevoked :: string where "SessionEndRevoked = ''revoked''"
definition SessionEndDeleted :: string where "SessionEndDeleted = ''deleted''"

record LoginSucceededPayload =
  ls_schema_version :: int
  ls_method :: string
  ls_provider :: string

record LoginFailedPayload =
  lf_schema_version :: int
  lf_method :: string
  lf_reason :: string
  lf_provider :: string

record SessionStartedPayload =
  st_schema_version :: int
  st_actor_id :: string
  st_impersonator :: string
  st_reason :: string
  st_started_at :: time
  st_expires_at :: time
  st_token_hash :: string

record SessionEndedPayload =
  sn_schema_version :: int
  sn_actor_id :: string
  sn_impersonator :: string
  sn_token_hash :: string
  sn_cause :: string

datatype auth_payload =
    PLoginSucceeded LoginSucceededPayload
  | PLoginFailed LoginFailedPayload
  | PRegistrationClosed int
  | PSessionStarted SessionStartedPayload
  | PSessionEnded SessionEndedPayload

text \<open>One entry of the journal: the event's type, its payload and its actor; \<open>None\<close> is the
  zero \<open>ActorID\<close>, for which no actor is set.\<close>

type_synonym auth_entry = "event_type \<times> auth_payload \<times> actor_id option"

section \<open>Dependencies and state\<close>

text \<open>
  \<open>sv_unicode_lower\<close> and \<open>sv_unicode_fold\<close> are what \<open>strings.ToLower\<close> and the folding of \<open>strings.EqualFold\<close>
  do; \<open>sv_persists\<close>: whether the audit event could be built and saved. \<open>sv_token_hash\<close> is the
  encoded SHA-256 of a token. \<open>sv_verificationTTL\<close> and \<open>sv_sendEmail\<close> belong to the optional
  email verification.
\<close>

record 'w service_env =
  sv_err :: err_env
  sv_ids :: id_env
  sv_parse_stream :: "string \<Rightarrow> err + stream_id"
  sv_dispatch_user :: "stream_id \<Rightarrow> user_cmd \<Rightarrow> 'w \<Rightarrow> err option \<times> 'w"
  sv_dispatch_member :: "stream_id \<Rightarrow> member_cmd \<Rightarrow> 'w \<Rightarrow> err option \<times> 'w"
  sv_dispatch_tenant :: "stream_id \<Rightarrow> tenant_cmd \<Rightarrow> 'w \<Rightarrow> err option \<times> 'w"
  sv_dispatch_bot :: "stream_id \<Rightarrow> bot_cmd \<Rightarrow> 'w \<Rightarrow> err option \<times> 'w"
  sv_users :: "'w \<Rightarrow> UserReadModel"
  sv_members :: "'w \<Rightarrow> MembershipReadModel"
  sv_tenants :: "'w \<Rightarrow> TenantReadModel"
  sv_bots :: "'w \<Rightarrow> BotReadModel"
  sv_unicode_lower :: "string \<Rightarrow> string"
  sv_unicode_fold :: "string \<Rightarrow> string"
  sv_parse_address :: "string \<Rightarrow> err + string"
  sv_quote :: "string \<Rightarrow> string"
  sv_persists :: "event_type \<Rightarrow> auth_payload \<Rightarrow> bool"
  sv_token_hash :: "string \<Rightarrow> string"
  sv_bot_zero :: "bot_id \<Rightarrow> bool"
  sv_maxUsers :: int
  sv_sessionTTL :: duration
  sv_verification :: bool
  sv_verificationTTL :: duration
  sv_sendEmail :: "(string \<Rightarrow> string \<Rightarrow> err option) option"

record 'w service =
  ss_world :: 'w
  ss_sessions :: InMemorySessionStore
  ss_lockout :: "AccountLockout option"
  ss_challenges :: webauthnSessionStore
  ss_tokens :: verificationTokenStore
  ss_pending :: pendingTOTPStore
  ss_states :: oauth2StateStore
  ss_journal :: "auth_entry list"

definition users :: "'w service_env \<Rightarrow> 'w service \<Rightarrow> UserReadModel" where
  "users P s = sv_users P (ss_world s)"

section \<open>Journalling\<close>

definition auth_append ::
  "'w service_env \<Rightarrow> event_type \<Rightarrow> auth_payload \<Rightarrow> actor_id option \<Rightarrow> 'w service \<Rightarrow> 'w service" where
  "auth_append P evtType payload actor s =
     (if sv_persists P evtType payload then s \<lparr> ss_journal := ss_journal s @ [(evtType, payload, actor)] \<rparr>
      else s)"

definition loginSuccess :: "'w service_env \<Rightarrow> user_id \<Rightarrow> string \<Rightarrow> 'w service \<Rightarrow> 'w service" where
  "loginSuccess P userID method =
     auth_append P EventLoginSucceeded
       (PLoginSucceeded \<lparr> ls_schema_version = CurrentSchemaVersion, ls_method = method, ls_provider = [] \<rparr>)
       (Some (ActorIDFromUser (sv_ids P) userID))"

definition loginFailure :: "'w service_env \<Rightarrow> user_id \<Rightarrow> string \<Rightarrow> string \<Rightarrow> 'w service \<Rightarrow> 'w service" where
  "loginFailure P userID method reason =
     auth_append P EventLoginFailed
       (PLoginFailed \<lparr> lf_schema_version = CurrentSchemaVersion, lf_method = method, lf_reason = reason,
                       lf_provider = [] \<rparr>)
       (Some (ActorIDFromUser (sv_ids P) userID))"

definition registrationClosed :: "'w service_env \<Rightarrow> 'w service \<Rightarrow> 'w service" where
  "registrationClosed P = auth_append P EventRegistrationClosed (PRegistrationClosed CurrentSchemaVersion) None"

definition oauth2LoginSuccess :: "'w service_env \<Rightarrow> user_id \<Rightarrow> string \<Rightarrow> 'w service \<Rightarrow> 'w service" where
  "oauth2LoginSuccess P userID provider =
     auth_append P EventLoginSucceeded
       (PLoginSucceeded \<lparr> ls_schema_version = CurrentSchemaVersion, ls_method = AuthMethodOAuth2,
                          ls_provider = provider \<rparr>)
       (Some (ActorIDFromUser (sv_ids P) userID))"

text \<open>\<open>WithActor\<close> is skipped for a zero actor.\<close>

definition non_zero :: "id_env \<Rightarrow> actor_id \<Rightarrow> actor_id option" where
  "non_zero I a = (if actor_is_zero I a then None else Some a)"

definition sessionStarted :: "'w service_env \<Rightarrow> Session \<Rightarrow> 'w service \<Rightarrow> 'w service" where
  "sessionStarted P session s =
     (let payload = \<lparr> st_schema_version = CurrentSchemaVersion,
            st_actor_id = prefixed (sv_ids P) (se_ActorID session), st_impersonator = [], st_reason = [],
            st_started_at = se_CreatedAt session, st_expires_at = se_ExpiresAt session,
            st_token_hash = sv_token_hash P (se_Token session) \<rparr>
      in case se_Origin session of
           Impersonation by reason at \<Rightarrow>
             auth_append P EventSessionStarted
               (PSessionStarted (payload \<lparr> st_impersonator := prefixed (sv_ids P) by, st_reason := reason \<rparr>))
               (non_zero (sv_ids P) by) s
         | DirectLogin a \<Rightarrow>
             auth_append P EventSessionStarted (PSessionStarted payload)
               (non_zero (sv_ids P) (se_ActorID session)) s)"

definition sessionEnded :: "'w service_env \<Rightarrow> Session \<Rightarrow> string \<Rightarrow> 'w service \<Rightarrow> 'w service" where
  "sessionEnded P session cause s =
     (let payload = \<lparr> sn_schema_version = CurrentSchemaVersion,
            sn_actor_id = prefixed (sv_ids P) (se_ActorID session), sn_impersonator = [],
            sn_token_hash = sv_token_hash P (se_Token session), sn_cause = cause \<rparr>
      in case se_Origin session of
           Impersonation by reason at \<Rightarrow>
             auth_append P EventSessionEnded
               (PSessionEnded (payload \<lparr> sn_impersonator := prefixed (sv_ids P) by \<rparr>))
               (non_zero (sv_ids P) by) s
         | DirectLogin a \<Rightarrow>
             auth_append P EventSessionEnded (PSessionEnded payload)
               (non_zero (sv_ids P) (se_ActorID session)) s)"

definition sessionsRevokedForUser :: "'w service_env \<Rightarrow> user_id \<Rightarrow> 'w service \<Rightarrow> 'w service" where
  "sessionsRevokedForUser P userID =
     (let actor = ActorIDFromUser (sv_ids P) userID
      in auth_append P EventSessionEnded
           (PSessionEnded \<lparr> sn_schema_version = CurrentSchemaVersion,
              sn_actor_id = prefixed (sv_ids P) actor, sn_impersonator = [], sn_token_hash = [],
              sn_cause = SessionEndRevoked \<rparr>)
           (non_zero (sv_ids P) actor))"

section \<open>The auditing session store\<close>

definition audited_Create :: "'w service_env \<Rightarrow> Session \<Rightarrow> 'w service \<Rightarrow> 'w service" where
  "audited_Create P session s =
     sessionStarted P session (s \<lparr> ss_sessions := Sessions_Create session (ss_sessions s) \<rparr>)"

definition audited_Find :: "string \<Rightarrow> 'w service \<Rightarrow> err + Session" where
  "audited_Find token s = Sessions_Find token (ss_sessions s)"

text \<open>\<open>cause\<close> is what \<open>withSessionEndCause\<close> stamped into the context.\<close>

definition audited_Delete :: "'w service_env \<Rightarrow> string \<Rightarrow> string \<Rightarrow> 'w service \<Rightarrow> 'w service" where
  "audited_Delete P cause token s =
     (let s' = s \<lparr> ss_sessions := Sessions_Delete token (ss_sessions s) \<rparr>
      in case Sessions_Find token (ss_sessions s) of
           Inl e \<Rightarrow> s'
         | Inr session \<Rightarrow> sessionEnded P session (if cause = [] then SessionEndDeleted else cause) s')"

definition audited_DeleteByUserID :: "'w service_env \<Rightarrow> user_id \<Rightarrow> 'w service \<Rightarrow> 'w service" where
  "audited_DeleteByUserID P userID s =
     sessionsRevokedForUser P userID
       (s \<lparr> ss_sessions := Sessions_DeleteByUserID userID (ss_sessions s) \<rparr>)"

text \<open>\<open>createAndStoreSession\<close>; the in-memory store does not fail.\<close>

definition createAndStoreSession ::
  "'w service_env \<Rightarrow> err + string \<Rightarrow> time \<Rightarrow> user_id \<Rightarrow> 'w service \<Rightarrow> (err + Session) \<times> 'w service" where
  "createAndStoreSession P generated now userID s =
     (case NewSession (sv_ids P) (sv_quote P) generated now userID (sv_sessionTTL P) of
        Inl e \<Rightarrow> (Inl (wrap_error Transient e ''usermgmt.session.create'' ''create session''), s)
      | Inr session \<Rightarrow> (Inr session, audited_Create P session s))"

section \<open>Errors of a dispatch\<close>

text \<open>\<open>WithContext\<close> on an error of go-error-family. Context put on a sentinel found inside a chain
  is not modelled: the sentinel stands for itself.\<close>

fun WithContext :: "string \<Rightarrow> string \<Rightarrow> err \<Rightarrow> err" where
  "WithContext k v (Fam f c m st x cause) = Fam f c m st (map_put k v x) cause"
| "WithContext k v e = e"

definition withUserIDContext :: "id_env \<Rightarrow> err \<Rightarrow> user_id \<Rightarrow> err" where
  "withUserIDContext I e userID =
     (if user_is_zero I userID then e else WithContext ''user_id'' (user_text I userID) e)"

fun event_error :: "err \<Rightarrow> err option" where
  "event_error (Fam f c m st x cause) = Some (Fam f c m st x cause)"
| "event_error (Sentinel s) = Some (Sentinel s)"
| "event_error (IMSentinel s) = Some (IMSentinel s)"
| "event_error e = None"

definition classifyDispatchError ::
  "err_env \<Rightarrow> id_env \<Rightarrow> err \<Rightarrow> user_id \<Rightarrow> (string \<times> string) list \<Rightarrow> err" where
  "classifyDispatchError E I e userID kv =
     (let add = fold (\<lambda>(k, v). WithContext k v) kv;
          failed = withUserIDContext I
            (wrap_error Transient e ''usermgmt.command.dispatch'' ''dispatch command'') userID
      in case classify E e of
           Conflict \<Rightarrow>
             add (withUserIDContext I
               (wrap_error Rejection (usermgmt_error IMErrUserIDExists) ''usermgmt.user_id_exists''
                  ''user ID already exists'') userID)
         | Rejection \<Rightarrow>
             (if kv = [] then e
              else (case errors_as event_error e of
                      None \<Rightarrow> e
                    | Some ee \<Rightarrow> add (withUserIDContext I ee userID)))
         | _ \<Rightarrow> add failed)"

section \<open>Identifiers of streams\<close>

definition aggIDFromBranded :: "'w service_env \<Rightarrow> string \<Rightarrow> string \<Rightarrow> err + stream_id" where
  "aggIDFromBranded P raw sentinel =
     map_err (\<lambda>e. wrap_error Infrastructure e sentinel ''invalid branded ID for AggregateID conversion'')
       (sv_parse_stream P raw)"

definition aggIDFromUser :: "'w service_env \<Rightarrow> user_id \<Rightarrow> err + stream_id" where
  "aggIDFromUser P userID = aggIDFromBranded P (user_text (sv_ids P) userID) ''usermgmt.readmodel.invalid_userid''"

definition FindByUserID :: "'w service_env \<Rightarrow> UserReadModel \<Rightarrow> user_id \<Rightarrow> User option" where
  "FindByUserID P m userID =
     (case sv_parse_stream P (user_text (sv_ids P) userID) of
        Inl e \<Rightarrow> None | Inr aggID \<Rightarrow> FindByID m aggID)"

definition userid_failed :: "err \<Rightarrow> err" where
  "userid_failed e = wrap_error Infrastructure e ''usermgmt.service.userid_conversion_failed'' ''convert userID''"

section \<open>Registration\<close>

definition defaultSessionTTL :: duration where "defaultSessionTTL = 24 * hour"
definition maxDisplayNameLength :: nat where "maxDisplayNameLength = 100"

record RegisterRequest =
  rq_ID :: user_id
  rq_Email :: string
  rq_DisplayName :: string

definition semicolons :: "string list \<Rightarrow> string" where
  "semicolons xs = (case xs of [] \<Rightarrow> [] | x # ys \<Rightarrow> x @ concat (map (\<lambda>y. ''; '' @ y) ys))"

definition formatValidationErrors :: "string list \<Rightarrow> err option" where
  "formatValidationErrors errs =
     (if errs = [] then None
      else Some (wrap_error Rejection (usermgmt_error IMErrValidation) ''validation'' (semicolons errs)))"

definition RegisterRequest_Validate ::
  "'w service_env \<Rightarrow> RegisterRequest \<Rightarrow> err option \<times> RegisterRequest" where
  "RegisterRequest_Validate P r =
     (let name = trim_space (rq_DisplayName r);
          (errs, email) =
            (case ParseEmail (sv_unicode_lower P) (sv_parse_address P) (sv_quote P) (rq_Email r) of
               Inl e \<Rightarrow> ([''invalid email''], rq_Email r)
             | Inr email \<Rightarrow> ([], email));
          errs' = errs @ (if length name > maxDisplayNameLength
            then [''display name must be under '' @ show_nat maxDisplayNameLength @ '' characters''] else [])
      in (formatValidationErrors errs', r \<lparr> rq_Email := email, rq_DisplayName := name \<rparr>))"

record AuthResult =
  ar_User :: User
  ar_Session :: Session

text \<open>\<open>Register\<close> holds \<open>registrationMu\<close> from the count to the return: it is one step.
  \<open>fresh\<close> is the identifier \<open>id.NewUserID\<close> would make.\<close>

definition Register ::
  "'w service_env \<Rightarrow> user_id \<Rightarrow> err + string \<Rightarrow> time \<Rightarrow> RegisterRequest \<Rightarrow> 'w service
   \<Rightarrow> (err + AuthResult) \<times> 'w service" where
  "Register P fresh generated now req s =
     (let I = sv_ids P in
      if sv_maxUsers P > 0 \<and> int (User_Count (users P s)) \<ge> sv_maxUsers P then
        (Inl (withUserIDContext I
           (wrap_error Rejection (usermgmt_error IMErrRegistrationClosed) ''usermgmt.registration_closed''
              ''registration is closed'') (rq_ID req)),
         registrationClosed P s)
      else
        (let req1 = (if user_is_zero I (rq_ID req) then req \<lparr> rq_ID := fresh \<rparr> else req) in
         case RegisterRequest_Validate P req1 of
           (Some e, req2) \<Rightarrow> (Inl e, s)
         | (None, req2) \<Rightarrow>
             if FindByEmail (users P s) (rq_Email req2) \<noteq> None then
               (Inl (withUserIDContext I
                  (wrap_error Rejection (usermgmt_error IMErrEmailExists) ''usermgmt.email_exists''
                     ''email already registered'') (rq_ID req2)), s)
             else (case aggIDFromUser P (rq_ID req2) of
                 Inl e \<Rightarrow> (Inl (userid_failed e), s)
               | Inr aggID \<Rightarrow>
                   (case sv_dispatch_user P aggID
                           (RegisterUserCmd (rq_Email req2) (rq_DisplayName req2) [RoleViewer, RoleUser])
                           (ss_world s) of
                      (Some e, w) \<Rightarrow>
                        (Inl (classifyDispatchError (sv_err P) I e (rq_ID req2) []), s \<lparr> ss_world := w \<rparr>)
                    | (None, w) \<Rightarrow>
                        (let s1 = s \<lparr> ss_world := w \<rparr> in
                         case FindByID (users P s1) aggID of
                           None \<Rightarrow>
                             (Inl (withUserIDContext I
                                (new_error Transient ''usermgmt.user.read_model_missing''
                                   ''user not in read model after register'') (rq_ID req2)), s1)
                         | Some user \<Rightarrow>
                             (case createAndStoreSession P generated now (rq_ID req2) s1 of
                                (Inl e, s2) \<Rightarrow>
                                  (Inl (withUserIDContext I
                                     (wrap_error Transient e ''usermgmt.session.create'' ''create session'')
                                     (rq_ID req2)), s2)
                              | (Inr session, s2) \<Rightarrow>
                                  (Inr \<lparr> ar_User = user, ar_Session = session \<rparr>, s2)))))))"

section \<open>Sessions\<close>

definition Logout :: "'w service_env \<Rightarrow> string \<Rightarrow> 'w service \<Rightarrow> err option \<times> 'w service" where
  "Logout P token s = (None, audited_Delete P SessionEndLogout token s)"

definition Authenticate :: "'w service_env \<Rightarrow> time \<Rightarrow> string \<Rightarrow> 'w service \<Rightarrow> (err + User) \<times> 'w service" where
  "Authenticate P now token s =
     (case audited_Find token s of
        Inl e \<Rightarrow> (Inl (usermgmt_error IMErrUnauthorized), s)
      | Inr session \<Rightarrow>
          if Session_IsExpired now session then
            (Inl (usermgmt_error IMErrSessionExpired), audited_Delete P SessionEndExpired token s)
          else if \<not> Session_Valid now session token then (Inl (usermgmt_error IMErrUnauthorized), s)
          else (case FindByUserID P (users P s) (se_UserID session) of
                  None \<Rightarrow> (Inl (usermgmt_error IMErrUserNotFound), s)
                | Some user \<Rightarrow> (Inr user, s)))"

section \<open>Operations on one user\<close>

definition dispatchUserCommand ::
  "'w service_env \<Rightarrow> user_id \<Rightarrow> user_cmd \<Rightarrow> (string \<times> string) list \<Rightarrow> 'w service
   \<Rightarrow> err option \<times> 'w service" where
  "dispatchUserCommand P userID cmd kv s =
     (case aggIDFromUser P userID of
        Inl e \<Rightarrow> (Some (userid_failed e), s)
      | Inr aggID \<Rightarrow>
          (case sv_dispatch_user P aggID cmd (ss_world s) of
             (r, w) \<Rightarrow>
               (map_option (\<lambda>e. classifyDispatchError (sv_err P) (sv_ids P) e userID kv) r,
                s \<lparr> ss_world := w \<rparr>)))"

definition GetUser :: "'w service_env \<Rightarrow> user_id \<Rightarrow> 'w service \<Rightarrow> err + User" where
  "GetUser P userID s =
     (case FindByUserID P (users P s) userID of
        None \<Rightarrow> Inl (wrap_error Rejection (usermgmt_error IMErrUserNotFound)
                  ''usermgmt.service.user_not_found'' ''get user'')
      | Some user \<Rightarrow> Inr user)"

definition userActorPrefix :: string where "userActorPrefix = ''user:''"

definition DisplayName :: "'w service_env \<Rightarrow> string \<Rightarrow> 'w service \<Rightarrow> string" where
  "DisplayName P userID s =
     (let bare = trim_prefix userID userActorPrefix in
      case ParseUserID (sv_ids P) bare of
        Inl e \<Rightarrow> []
      | Inr parsed \<Rightarrow>
          (case FindByUserID P (users P s) parsed of
             None \<Rightarrow> []
           | Some user \<Rightarrow> if u_display_name user \<noteq> [] then u_display_name user else u_email user))"

definition ChangeEmail :: "'w service_env \<Rightarrow> user_id \<Rightarrow> string \<Rightarrow> 'w service \<Rightarrow> err option \<times> 'w service" where
  "ChangeEmail P userID newEmail = dispatchUserCommand P userID (ChangeEmailCmd newEmail) [(''new_email'', newEmail)]"

definition ChangeDisplayName :: "'w service_env \<Rightarrow> user_id \<Rightarrow> string \<Rightarrow> 'w service \<Rightarrow> err option \<times> 'w service" where
  "ChangeDisplayName P userID newName =
     dispatchUserCommand P userID (ChangeDisplayNameCmd newName) [(''new_name'', newName)]"

definition AddCredential ::
  "'w service_env \<Rightarrow> user_id \<Rightarrow> WebAuthnCredential \<Rightarrow> 'w service \<Rightarrow> err option \<times> 'w service" where
  "AddCredential P userID cred = dispatchUserCommand P userID (AddCredentialCmd cred) []"

definition RemoveCredential :: "'w service_env \<Rightarrow> user_id \<Rightarrow> bytes \<Rightarrow> 'w service \<Rightarrow> err option \<times> 'w service" where
  "RemoveCredential P userID credentialID = dispatchUserCommand P userID (RemoveCredentialCmd credentialID) []"

subsection \<open>Deletion and its cascade\<close>

text \<open>The failures of the cascade are logged and dropped.\<close>

fun removeMemberships :: "'w service_env \<Rightarrow> Membership list \<Rightarrow> 'w \<Rightarrow> 'w" where
  "removeMemberships P [] w = w"
| "removeMemberships P (mem # ms) w =
     removeMemberships P ms
       (snd (sv_dispatch_member P
          (DeriveMembershipID (sv_ids P) (mem_actor_id mem) (mem_tenant_id mem)) RemoveMemberCmd w))"

definition removeMembershipsForUserBestEffort :: "'w service_env \<Rightarrow> user_id \<Rightarrow> 'w service \<Rightarrow> 'w service" where
  "removeMembershipsForUserBestEffort P userID s =
     s \<lparr> ss_world := removeMemberships P
       (FindByActor (sv_members P (ss_world s)) (user_text (sv_ids P) userID)) (ss_world s) \<rparr>"

fun deleteBots :: "'w service_env \<Rightarrow> string \<Rightarrow> Bot list \<Rightarrow> 'w \<Rightarrow> 'w" where
  "deleteBots P reason [] w = w"
| "deleteBots P reason (b # bs) w =
     deleteBots P reason bs
       (case sv_parse_stream P (bot_get (b_id b)) of
          Inl e \<Rightarrow> w
        | Inr aggID \<Rightarrow> snd (sv_dispatch_bot P aggID (DeleteBotCmd reason) w))"

definition deleteBotsForUserBestEffort :: "'w service_env \<Rightarrow> user_id \<Rightarrow> string \<Rightarrow> 'w service \<Rightarrow> 'w service" where
  "deleteBotsForUserBestEffort P userID reason s =
     s \<lparr> ss_world := deleteBots P reason (FindByOwner (sv_bots P (ss_world s)) userID) (ss_world s) \<rparr>"

definition DeleteUser :: "'w service_env \<Rightarrow> user_id \<Rightarrow> string \<Rightarrow> 'w service \<Rightarrow> err option \<times> 'w service" where
  "DeleteUser P userID reason s =
     (case dispatchUserCommand P userID (DeleteUserCmd reason) [(''reason'', reason)] s of
        (Some e, s1) \<Rightarrow> (Some e, s1)
      | (None, s1) \<Rightarrow>
          (None, deleteBotsForUserBestEffort P userID reason
             (removeMembershipsForUserBestEffort P userID (audited_DeleteByUserID P userID s1))))"

end
