(* ===== verification/Service_Dispatch.thy ===== *)
theory Service_Dispatch
  imports Service
begin

text \<open>
  What the services rely on when they dispatch, as the locale \<open>dispatching\<close>, and its consequences for
  the projection the services read: the world of user streams stays a world, only a registration makes
  the number of users grow, and the second factor of a user changes only by the commands about it.
\<close>

section \<open>The contract of the dispatcher\<close>

text \<open>\<open>S w\<close> is the folded state of every user stream in the world \<open>w\<close>.\<close>

definition same_users :: "'w service_env \<Rightarrow> ('w \<Rightarrow> stream_id \<Rightarrow> UserState) \<Rightarrow> 'w \<Rightarrow> 'w \<Rightarrow> bool" where
  "same_users P S w w' \<longleftrightarrow> S w' = S w \<and> sv_users P w' = sv_users P w"

definition dispatcher_ok :: "'raw event_env \<Rightarrow> 'w service_env \<Rightarrow> ('w \<Rightarrow> stream_id \<Rightarrow> UserState) \<Rightarrow> bool" where
  "dispatcher_ok E P S \<longleftrightarrow>
     (\<forall>a cmd w w'. sv_dispatch_user P a cmd w = (None, w') \<longrightarrow>
        (\<exists>v new s'. decide_user E a cmd (S w a) v = Inr new \<and> fold_events (FoldUser E) (S w a) new = Inr s'
          \<and> S w' = (S w)(a := s') \<and> fold_events (Handle_user E) (sv_users P w) new = Inr (sv_users P w')))
     \<and> (\<forall>a cmd w e w'. sv_dispatch_user P a cmd w = (Some e, w') \<longrightarrow> same_users P S w w')
     \<and> (\<forall>a cmd w. same_users P S w (snd (sv_dispatch_member P a cmd w)))
     \<and> (\<forall>a cmd w. same_users P S w (snd (sv_dispatch_tenant P a cmd w)))
     \<and> (\<forall>a cmd w. same_users P S w (snd (sv_dispatch_bot P a cmd w)))"

lemma dispatch_Some: "dispatcher_ok E P S \<Longrightarrow> sv_dispatch_user P a cmd w = (Some e, w') \<Longrightarrow> same_users P S w w'"
  unfolding dispatcher_ok_def by blast

lemma dispatch_None:
  assumes "dispatcher_ok E P S" and "sv_dispatch_user P a cmd w = (None, w')"
  obtains v new s' where "decide_user E a cmd (S w a) v = Inr new"
    "fold_events (FoldUser E) (S w a) new = Inr s'" "S w' = (S w)(a := s')"
    "fold_events (Handle_user E) (sv_users P w) new = Inr (sv_users P w')"
proof -
  from assms have "\<exists>v new s'. decide_user E a cmd (S w a) v = Inr new \<and> fold_events (FoldUser E) (S w a) new = Inr s'
      \<and> S w' = (S w)(a := s') \<and> fold_events (Handle_user E) (sv_users P w) new = Inr (sv_users P w')"
    unfolding dispatcher_ok_def by simp
  with that show thesis by blast
qed

lemma dispatch_others:
  assumes "dispatcher_ok E P S"
  shows "same_users P S w (snd (sv_dispatch_member P a c w))"
    and "same_users P S w (snd (sv_dispatch_tenant P a c' w))"
    and "same_users P S w (snd (sv_dispatch_bot P a c'' w))"
  using assms unfolding dispatcher_ok_def by blast+

section \<open>Users of the projection\<close>

lemma on_user_wf: "map_wf (rm_users m) \<Longrightarrow> map_wf (rm_users (on_user m a f))"
  by (simp add: on_user_def split: option.splits)

lemma handlers_wf:
  assumes "map_wf (rm_users m)"
  shows "handleUserRegistered E evt m = Inr m' \<Longrightarrow> map_wf (rm_users m')"
    and "handleEmailChanged E evt m = Inr m' \<Longrightarrow> map_wf (rm_users m')"
    and "handleUserDeleted E evt m = Inr m' \<Longrightarrow> map_wf (rm_users m')"
    and "handleExternalAccountLinked E evt m = Inr m' \<Longrightarrow> map_wf (rm_users m')"
    and "handleExternalAccountUnlinked E evt m = Inr m' \<Longrightarrow> map_wf (rm_users m')"
    and "handleCredentialUsed E evt m = Inr m' \<Longrightarrow> map_wf (rm_users m')"
    and "handleCredentialAdded E evt m = Inr m' \<Longrightarrow> map_wf (rm_users m')"
  using assms
  by (auto simp: handleUserRegistered_def handleEmailChanged_def handleUserDeleted_def
      handleExternalAccountLinked_def handleExternalAccountUnlinked_def handleCredentialUsed_def
      handleCredentialAdded_def on_ok_eq_Inr Let_def on_user_wf split: option.splits if_splits)

lemma field_handlers_wf:
  assumes "map_wf (rm_users m)"
  shows "handleRolesUpdated E evt m = Inr m' \<Longrightarrow> map_wf (rm_users m')"
    and "handleDisplayNameChanged E evt m = Inr m' \<Longrightarrow> map_wf (rm_users m')"
    and "handleCredentialRemoved E evt m = Inr m' \<Longrightarrow> map_wf (rm_users m')"
    and "handleEmailVerified E evt m = Inr m' \<Longrightarrow> map_wf (rm_users m')"
    and "handleTOTPEnabled E evt m = Inr m' \<Longrightarrow> map_wf (rm_users m')"
    and "handleTOTPDisabled E evt m = Inr m' \<Longrightarrow> map_wf (rm_users m')"
  using assms
  by (auto simp: handleRolesUpdated_def handleDisplayNameChanged_def handleCredentialRemoved_def
      handleEmailVerified_def handleTOTPEnabled_def handleTOTPDisabled_def on_ok_eq_Inr on_user_wf)

lemma Handle_user_wf:
  assumes "Handle_user E m evt = Inr m'" and "map_wf (rm_users m)"
  shows "map_wf (rm_users m')"
  using assms(1) handlers_wf [OF assms(2), of E evt m'] field_handlers_wf [OF assms(2), of E evt m'] assms(2)
  unfolding Handle_user_def by (cases "evt_type evt"; simp)

lemma handled_wf:
  "fold_events (Handle_user E) m es = Inr m' \<Longrightarrow> map_wf (rm_users m) \<Longrightarrow> map_wf (rm_users m')"
  by (induction es arbitrary: m) (auto simp: on_ok_eq_Inr dest: Handle_user_wf)

lemma world_wf: "user_world E ok S m \<Longrightarrow> map_wf (rm_users m)"
  by (induction rule: user_world.induct) (auto simp: NewUserReadModel_def dest: handled_wf)

definition is_registration :: "user_cmd \<Rightarrow> bool" where
  "is_registration cmd \<longleftrightarrow> (\<exists>e n rs. cmd = RegisterUserCmd e n rs)"

lemma only_active:
  assumes "decide_user E a cmd s v = Inr new" and "\<not> is_registration cmd"
  shows "User_IsActive s"
  using assms
  by (cases cmd) (simp_all add: deciders_open decideRecordCredentialUse_def decideAddCredential_def
      decideLinkExternalAccount_def guard_user_cases is_registration_def split: if_splits)

lemma map_wf_count: "map_wf m \<Longrightarrow> length m = card (dom (map_of m))"
  using distinct_card [of "map fst m"] by (simp add: map_wf_def dom_map_of_conv_image_fst)

text \<open>The number of users grows by a registration only, and by one.\<close>

lemma handled_count:
  assumes env: "env_ok E" and world: "user_world E ok S m" and d: "decide_user E a cmd (S a) v = Inr new"
    and h: "fold_events (Handle_user E) m new = Inr m'"
  shows "User_Count m' \<le> (if is_registration cmd then Suc (User_Count m) else User_Count m)"
proof -
  note inv = world_invariant [OF env world, of a]
  from projects_follows [OF env _ _ d, of m] inv h
  have others: "\<forall>b. b \<noteq> a \<longrightarrow> map_of (rm_users m') b = map_of (rm_users m) b"
    by (auto simp: follows_def)
  have wf: "map_wf (rm_users m)" "map_wf (rm_users m')"
    using world_wf [OF world] handled_wf [OF h] by auto
  have "dom (map_of (rm_users m')) \<subseteq> (if is_registration cmd then insert a (dom (map_of (rm_users m)))
      else dom (map_of (rm_users m)))"
  proof (cases "is_registration cmd")
    case True
    with others show ?thesis by (auto simp: dom_def)
  next
    case False
    from only_active [OF d False] inv have "a \<in> dom (map_of (rm_users m))"
      by (auto simp: projects_def User_IsActive_def User_Exists_def UserState_zero_def split: option.splits)
    then have "b \<in> dom (map_of (rm_users m))" if "b \<in> dom (map_of (rm_users m'))" for b
      using that others by (cases "b = a") (simp_all add: domIff)
    with False show ?thesis by auto
  qed
  from card_mono [OF _ this] have "card (dom (map_of (rm_users m'))) \<le>
      (if is_registration cmd then Suc (card (dom (map_of (rm_users m)))) else card (dom (map_of (rm_users m))))"
    by (cases "is_registration cmd") (auto simp: finite_dom_map_of card_insert_if split: if_splits)
  with wf show ?thesis by (simp add: User_Count_def map_wf_count split: if_splits)
qed

section \<open>The second factor of a user\<close>

definition second_factor :: "UserState \<Rightarrow> bool \<times> bytes" where
  "second_factor s = (us_totp_enabled s, us_totp_secret s)"

text \<open>What a command makes of it.\<close>

fun factor_after :: "user_cmd \<Rightarrow> UserState \<Rightarrow> bool \<times> bytes" where
  "factor_after (ChangeEmailCmd email) s = (if us_email s = email then second_factor s else (False, []))"
| "factor_after (EnableTOTPCmd secret) s = (if us_totp_enabled s then second_factor s else (True, secret))"
| "factor_after DisableTOTPCmd s = (False, [])"
| "factor_after cmd s = second_factor s"

definition absent_plain :: "UserState \<Rightarrow> bool" where
  "absent_plain s \<longleftrightarrow> (\<not> User_Exists s \<longrightarrow> second_factor s = (False, []))"

lemma user_spec_factor:
  assumes "user_inv s" and "absent_plain s" and "user_spec cmd at s = Some s'"
  shows "second_factor s' = factor_after cmd s \<and> absent_plain s'"
  using assms
  by (cases cmd)
     (auto simp: second_factor_def absent_plain_def User_Exists_def User_IsActive_def UserState_zero_def
       user_inv_def split: if_splits option.splits)

lemma world_plain:
  assumes "env_ok E" and "user_world E ok S m"
  shows "absent_plain (S a)"
  using assms(2)
proof (induction arbitrary: a rule: user_world.induct)
  case world_init
  show ?case by (simp add: absent_plain_def second_factor_def UserState_zero_def)
next
  case (world_step S m cmd b v new s' m')
  from user.decide_spec [OF assms(1) user_admissible_all world_step.hyps(3)] world_step.hyps(4)
  obtain at where "user_spec cmd at (S b) = Some s'" by auto
  with user_spec_factor world_invariant [OF assms(1) world_step.hyps(1), of b] world_step.IH [of b]
  have "absent_plain s'" by blast
  with world_step.IH [of a] show ?case by simp
qed

section \<open>Worlds under a dispatcher\<close>

locale dispatching =
  fixes E :: "'raw event_env" and P :: "'w service_env" and S :: "'w \<Rightarrow> stream_id \<Rightarrow> UserState"
    and ok :: "user_cmd \<Rightarrow> bool"
  assumes contract: "env_ok E \<Longrightarrow> dispatcher_ok E P S"
begin

definition in_world :: "'w \<Rightarrow> bool" where
  "in_world w \<longleftrightarrow> user_world E ok (S w) (sv_users P w)"

lemma same_world: "same_users P S w w' \<Longrightarrow> in_world w' = in_world w"
  by (simp add: in_world_def same_users_def)

lemma dispatch_world:
  assumes env: "env_ok E" and "in_world w" and "ok cmd" and "sv_dispatch_user P a cmd w = (r, w')"
  shows "in_world w'"
proof (cases r)
  case None
  with assms(4) have "sv_dispatch_user P a cmd w = (None, w')" by simp
  from dispatch_None [OF contract [OF env] this] obtain v new s' where
    n: "decide_user E a cmd (S w a) v = Inr new" "fold_events (FoldUser E) (S w a) new = Inr s'"
      "S w' = (S w)(a := s')" "fold_events (Handle_user E) (sv_users P w) new = Inr (sv_users P w')" by blast
  from user_world.world_step [where S = "S w" and m = "sv_users P w" and ok = ok and cmd = cmd,
      OF _ assms(3) n(1,2,4)] assms(2) n(3)
  show ?thesis by (simp add: in_world_def)
next
  case (Some e)
  with assms same_world [OF dispatch_Some [OF contract]] show ?thesis by simp
qed

lemma dispatch_count:
  assumes env: "env_ok E" and "in_world w" and "sv_dispatch_user P a cmd w = (r, w')"
  shows "User_Count (sv_users P w') \<le>
    (if is_registration cmd then Suc (User_Count (sv_users P w)) else User_Count (sv_users P w))"
proof (cases r)
  case None
  with assms(3) have "sv_dispatch_user P a cmd w = (None, w')" by simp
  from dispatch_None [OF contract [OF env] this] obtain v new where
    "decide_user E a cmd (S w a) v = Inr new"
    "fold_events (Handle_user E) (sv_users P w) new = Inr (sv_users P w')" by blast
  with handled_count [OF env] assms(2) show ?thesis by (auto simp: in_world_def)
next
  case (Some e)
  with assms dispatch_Some [OF contract] have "same_users P S w w'" by blast
  then show ?thesis by (simp add: same_users_def)
qed

text \<open>A command that succeeds makes of the stream what the aggregate's contract says.\<close>

lemma dispatch_spec:
  assumes env: "env_ok E" and "sv_dispatch_user P a cmd w = (None, w')"
  obtains at s' where "user_spec cmd at (S w a) = Some s'" "S w' = (S w)(a := s')"
proof -
  from dispatch_None [OF contract [OF env] assms(2)] obtain v new s' where
    n: "decide_user E a cmd (S w a) v = Inr new" "fold_events (FoldUser E) (S w a) new = Inr s'"
      "S w' = (S w)(a := s')" by blast
  from user.decide_spec [OF env user_admissible_all n(1)] n(2) obtain at where
    "user_spec cmd at (S w a) = Some s'" by auto
  with n(3) that show thesis by blast
qed

lemma shown:
  assumes "env_ok E" and "in_world w"
  shows "projects (FindByID (sv_users P w) a) (S w a) \<and> user_inv (S w a)"
  using world_invariant assms unfolding in_world_def FindByID_def by blast

lemma dispatch_factor:
  assumes env: "env_ok E" and "in_world w" and "sv_dispatch_user P a cmd w = (r, w')"
  shows "second_factor (S w' b) = second_factor (S w b)
    \<or> b = a \<and> second_factor (S w' b) = factor_after cmd (S w b)"
proof (cases r)
  case None
  with assms(3) have "sv_dispatch_user P a cmd w = (None, w')" by simp
  from dispatch_spec [OF env this] obtain at s' where
    n: "user_spec cmd at (S w a) = Some s'" "S w' = (S w)(a := s')" by blast
  with user_spec_factor world_plain [OF env] assms(2) shown [OF env assms(2)]
  have "second_factor s' = factor_after cmd (S w a)" unfolding in_world_def by blast
  with n(2) show ?thesis by auto
next
  case (Some e)
  with assms dispatch_Some [OF contract] have "same_users P S w w'" by blast
  then show ?thesis by (simp add: same_users_def)
qed

end

section \<open>The direct dispatcher\<close>

text \<open>
  The dispatcher \<open>RegisterCommands\<close> wires, as the repository runs it: decide on the folded stream,
  append, and project before returning. The commands of the other aggregates do not touch the users.
\<close>

definition direct_dispatch ::
  "'raw event_env \<Rightarrow> stream_id \<Rightarrow> user_cmd \<Rightarrow> (stream_id \<Rightarrow> UserState) \<times> UserReadModel
   \<Rightarrow> err option \<times> (stream_id \<Rightarrow> UserState) \<times> UserReadModel" where
  "direct_dispatch E a cmd w =
     (case on_ok (decide_user E a cmd (fst w a) 0) (\<lambda>new.
             on_ok (fold_events (FoldUser E) (fst w a) new) (\<lambda>s'.
             on_ok (fold_events (Handle_user E) (snd w) new) (\<lambda>m'. Inr ((fst w)(a := s'), m')))) of
        Inl e \<Rightarrow> (Some e, w)
      | Inr w' \<Rightarrow> (None, w'))"

definition direct_service ::
  "'raw event_env \<Rightarrow> ((stream_id \<Rightarrow> UserState) \<times> UserReadModel) service_env
   \<Rightarrow> ((stream_id \<Rightarrow> UserState) \<times> UserReadModel) service_env" where
  "direct_service E P =
     P \<lparr> sv_dispatch_user := direct_dispatch E, sv_dispatch_member := (\<lambda>a c w. (None, w)),
         sv_dispatch_tenant := (\<lambda>a c w. (None, w)), sv_dispatch_bot := (\<lambda>a c w. (None, w)), sv_users := snd \<rparr>"

lemma direct_dispatch_None:
  assumes "direct_dispatch E a cmd w = (None, w')"
  shows "\<exists>v new s'. decide_user E a cmd (fst w a) v = Inr new \<and> fold_events (FoldUser E) (fst w a) new = Inr s'
    \<and> fst w' = (fst w)(a := s') \<and> fold_events (Handle_user E) (snd w) new = Inr (snd w')"
  using assms by (fastforce simp: direct_dispatch_def on_ok_eq_Inr split: sum.splits)

lemma direct_dispatch_Some: "direct_dispatch E a cmd w = (Some e, w') \<Longrightarrow> w' = w"
  by (auto simp: direct_dispatch_def split: sum.splits)

lemma direct_ok: "dispatcher_ok E (direct_service E P) fst"
  using direct_dispatch_None [of E] direct_dispatch_Some [of E]
  unfolding dispatcher_ok_def same_users_def direct_service_def by simp blast

interpretation direct: dispatching E "direct_service E P" fst ok for E P ok
  by unfold_locales (rule direct_ok)

text \<open>A service for the witnesses: one user is allowed, nothing is persisted in the auth journal.\<close>

type_synonym demo_world = "(stream_id \<Rightarrow> UserState) \<times> UserReadModel"

definition demo_service :: "demo_world service_env" where
  "demo_service = direct_service demo_env
     \<lparr> sv_err = demo_err_env, sv_ids = demo_ids, sv_parse_stream = Inr,
       sv_dispatch_user = (\<lambda>a c w. (None, w)), sv_dispatch_member = (\<lambda>a c w. (None, w)),
       sv_dispatch_tenant = (\<lambda>a c w. (None, w)), sv_dispatch_bot = (\<lambda>a c w. (None, w)), sv_users = snd,
       sv_members = (\<lambda>w. NewMembershipReadModel), sv_tenants = (\<lambda>w. []),
       sv_bots = (\<lambda>w. NewBotReadModel), sv_unicode_lower = id, sv_unicode_fold = id, sv_parse_address = Inr, sv_quote = id,
       sv_persists = (\<lambda>t p. False), sv_token_hash = id, sv_bot_zero = (\<lambda>b. False), sv_maxUsers = 1,
       sv_sessionTTL = hour, sv_verification = False, sv_verificationTTL = hour, sv_sendEmail = None \<rparr>"

definition demo_start :: "demo_world \<Rightarrow> demo_world service" where
  "demo_start w =
     \<lparr> ss_world = w, ss_sessions = [], ss_lockout = None, ss_challenges = newWebAuthnSessionStore 0,
       ss_tokens = [], ss_pending = [], ss_states = [], ss_journal = [] \<rparr>"

lemma demo_service_ok: "dispatcher_ok demo_env demo_service fst"
  unfolding demo_service_def by (rule direct_ok)

lemma demo_service_simps:
  "sv_users demo_service = snd" "sv_maxUsers demo_service = 1" "sv_parse_stream demo_service = Inr"
  "sv_ids demo_service = demo_ids" "sv_err demo_service = demo_err_env" "sv_sessionTTL demo_service = hour"
  "sv_persists demo_service = (\<lambda>t p. False)" "sv_dispatch_user demo_service = direct_dispatch demo_env"
  "sv_unicode_lower demo_service = id" "sv_parse_address demo_service = Inr"
  by (simp_all add: demo_service_def direct_service_def)

end
