(* ===== verification/Service_Factors.thy ===== *)
theory Service_Factors
  imports Service
begin

text \<open>
  Email verification (\<open>usermgmt/email_verification.go\<close>) and TOTP as a second factor
  (\<open>usermgmt/totp.go\<close>). The TOTP provider is a parameter: the secret it generates for an email
  address and whether it accepts a code for a secret at the time of the call.
\<close>

section \<open>Email verification\<close>

definition SendVerificationEmail ::
  "'w service_env \<Rightarrow> err + string \<Rightarrow> time \<Rightarrow> user_id \<Rightarrow> 'w service \<Rightarrow> (err + string) \<times> 'w service" where
  "SendVerificationEmail P generated now userID s =
     (if \<not> sv_verification P then (Inl (usermgmt_error IMErrEmailVerificationNotConfigured), s)
      else (case FindByUserID P (users P s) userID of
          None \<Rightarrow>
            (Inl (Fam Rejection ''usermgmt.verification.user_not_found'' ''send verification email'' 0
                [(''user_id'', user_text (sv_ids P) userID)] (Some (usermgmt_error IMErrUserNotFound))), s)
        | Some user \<Rightarrow>
            if u_email_verified user then (Inl (usermgmt_error IMErrEmailAlreadyVerified), s)
            else (case VerificationTokens_Save (sv_ids P) generated now userID (u_email user)
                    (sv_verificationTTL P) (ss_tokens s) of
                (Inl e, ts) \<Rightarrow>
                  (Inl (wrap_error Transient e ''usermgmt.email_verification.generate_token''
                      ''generate verification token''), s \<lparr> ss_tokens := ts \<rparr>)
              | (Inr token, ts) \<Rightarrow>
                  (case sv_sendEmail P of
                     None \<Rightarrow> (Inr token, s \<lparr> ss_tokens := ts \<rparr>)
                   | Some send \<Rightarrow>
                       (case send (u_email user) token of
                          Some e \<Rightarrow>
                            (Inl (wrap_error Transient e ''usermgmt.email_verification.send''
                                ''send verification email''), s \<lparr> ss_tokens := ts \<rparr>)
                        | None \<Rightarrow> (Inr token, s \<lparr> ss_tokens := ts \<rparr>))))))"

definition VerifyEmail :: "'w service_env \<Rightarrow> time \<Rightarrow> string \<Rightarrow> 'w service \<Rightarrow> err option \<times> 'w service" where
  "VerifyEmail P now token s =
     (if \<not> sv_verification P then (Some (usermgmt_error IMErrEmailVerificationNotConfigured), s)
      else (case VerificationTokens_Consume now token (ss_tokens s) of
          (Inl e, ts) \<Rightarrow> (Some e, s \<lparr> ss_tokens := ts \<rparr>)
        | (Inr userID, ts) \<Rightarrow>
            (case aggIDFromUser P userID of
               Inl e \<Rightarrow> (Some (userid_failed e), s \<lparr> ss_tokens := ts \<rparr>)
             | Inr aggID \<Rightarrow>
                 (case sv_dispatch_user P aggID VerifyEmailCmd (ss_world s) of
                    (Some e, w) \<Rightarrow>
                      (Some (wrap_error (classify (sv_err P) e) e ''usermgmt.verification.dispatch_failed''
                          ''verify email dispatch''), s \<lparr> ss_tokens := ts, ss_world := w \<rparr>)
                  | (None, w) \<Rightarrow> (None, s \<lparr> ss_tokens := ts, ss_world := w \<rparr>)))))"

section \<open>TOTP\<close>

record totp_provider =
  tp_GenerateSecret :: "string \<Rightarrow> err + bytes \<times> string \<times> string"
  tp_ValidateCode :: "bytes \<Rightarrow> string \<Rightarrow> bool"

record TOTPSetupResponse =
  ts_Secret :: string
  ts_QRCodeURI :: string

definition user_context :: "'w service_env \<Rightarrow> family \<Rightarrow> err \<Rightarrow> string \<Rightarrow> string \<Rightarrow> user_id \<Rightarrow> err" where
  "user_context P f e code msg userID =
     Fam f code msg 0 [(''user_id'', user_text (sv_ids P) userID)] (Some e)"

definition EnableTOTP ::
  "'w service_env \<Rightarrow> totp_provider option \<Rightarrow> duration \<Rightarrow> time \<Rightarrow> user_id \<Rightarrow> 'w service
   \<Rightarrow> (err + TOTPSetupResponse) \<times> 'w service" where
  "EnableTOTP P totp pendingTTL now userID s =
     (case totp of
        None \<Rightarrow> (Inl (usermgmt_error IMErrTOTPNotConfigured), s)
      | Some provider \<Rightarrow>
          (case FindByUserID P (users P s) userID of
             None \<Rightarrow>
               (Inl (user_context P Rejection (usermgmt_error IMErrUserNotFound) ''usermgmt.totp.user_not_found''
                   ''enable totp'' userID), s)
           | Some user \<Rightarrow>
               if u_totp_enabled user then (Inl (usermgmt_error IMErrTOTPAlreadyEnabled), s)
               else (case tp_GenerateSecret provider (u_email user) of
                   Inl e \<Rightarrow> (Inl (wrap_error Transient e ''usermgmt.totp.transient'' ''generate totp key''), s)
                 | Inr (rawSecret, base32Secret, otpauthURI) \<Rightarrow>
                     (Inr \<lparr> ts_Secret = base32Secret, ts_QRCodeURI = otpauthURI \<rparr>,
                      s \<lparr> ss_pending := PendingTOTP_Save now (user_text (sv_ids P) userID) rawSecret pendingTTL
                            (ss_pending s) \<rparr>))))"

definition VerifyTOTPSetup ::
  "'w service_env \<Rightarrow> totp_provider option \<Rightarrow> time \<Rightarrow> user_id \<Rightarrow> string \<Rightarrow> 'w service
   \<Rightarrow> err option \<times> 'w service" where
  "VerifyTOTPSetup P totp now userID code s =
     (case totp of
        None \<Rightarrow> (Some (usermgmt_error IMErrTOTPNotConfigured), s)
      | Some provider \<Rightarrow>
          (case PendingTOTP_Consume now (user_text (sv_ids P) userID) (ss_pending s) of
             (None, ps) \<Rightarrow> (Some (usermgmt_error IMErrTOTPSetupExpired), s \<lparr> ss_pending := ps \<rparr>)
           | (Some secret, ps) \<Rightarrow>
               if \<not> tp_ValidateCode provider secret code then
                 (Some (usermgmt_error IMErrInvalidTOTPCode), s \<lparr> ss_pending := ps \<rparr>)
               else (case aggIDFromUser P userID of
                   Inl e \<Rightarrow>
                     (Some (wrap_error Infrastructure e ''usermgmt.totp.userid_conversion_failed'' ''convert userID''),
                      s \<lparr> ss_pending := ps \<rparr>)
                 | Inr aggID \<Rightarrow>
                     (case sv_dispatch_user P aggID (EnableTOTPCmd secret) (ss_world s) of
                        (Some e, w) \<Rightarrow>
                          (Some (user_context P (classify (sv_err P) e) e ''usermgmt.totp.dispatch_failed''
                              ''enable totp dispatch'' userID), s \<lparr> ss_pending := ps, ss_world := w \<rparr>)
                      | (None, w) \<Rightarrow> (None, s \<lparr> ss_pending := ps, ss_world := w \<rparr>)))))"

definition requireValidTOTP ::
  "'w service_env \<Rightarrow> totp_provider option \<Rightarrow> user_id \<Rightarrow> string \<Rightarrow> 'w service \<Rightarrow> err option" where
  "requireValidTOTP P totp userID code s =
     (case totp of
        None \<Rightarrow> Some (usermgmt_error IMErrTOTPNotConfigured)
      | Some provider \<Rightarrow>
          (case FindByUserID P (users P s) userID of
             None \<Rightarrow>
               Some (user_context P Rejection (usermgmt_error IMErrUserNotFound) ''usermgmt.totp.user_not_found''
                 ''totp'' userID)
           | Some user \<Rightarrow>
               if \<not> u_totp_enabled user \<or> u_totp_secret user = [] then Some (usermgmt_error IMErrTOTPNotEnabled)
               else if \<not> tp_ValidateCode provider (u_totp_secret user) code then
                 Some (usermgmt_error IMErrInvalidTOTPCode)
               else None))"

definition VerifyTOTP ::
  "'w service_env \<Rightarrow> totp_provider option \<Rightarrow> user_id \<Rightarrow> string \<Rightarrow> 'w service \<Rightarrow> err option \<times> 'w service" where
  "VerifyTOTP P totp userID code s =
     (case requireValidTOTP P totp userID code s of
        Some e \<Rightarrow>
          (Some (user_context P (classify (sv_err P) e) e ''usermgmt.totp.verify_failed'' ''totp verify failed'' userID),
           loginFailure P userID AuthMethodTOTP AuthFailureCodeInvalid s)
      | None \<Rightarrow> (None, loginSuccess P userID AuthMethodTOTP s))"

definition DisableTOTP ::
  "'w service_env \<Rightarrow> totp_provider option \<Rightarrow> user_id \<Rightarrow> string \<Rightarrow> 'w service \<Rightarrow> err option \<times> 'w service" where
  "DisableTOTP P totp userID code s =
     (case requireValidTOTP P totp userID code s of
        Some e \<Rightarrow>
          (Some (user_context P (classify (sv_err P) e) e ''usermgmt.totp.disable_failed'' ''totp disable failed''
             userID), s)
      | None \<Rightarrow>
          (case aggIDFromUser P userID of
             Inl e \<Rightarrow>
               (Some (user_context P Infrastructure e ''usermgmt.totp.userid_conversion_failed'' ''convert userID''
                  userID), s)
           | Inr aggID \<Rightarrow>
               (case sv_dispatch_user P aggID DisableTOTPCmd (ss_world s) of
                  (Some e, w) \<Rightarrow>
                    (Some (user_context P (classify (sv_err P) e) e ''usermgmt.totp.dispatch_failed''
                        ''disable totp dispatch'' userID), s \<lparr> ss_world := w \<rparr>)
                | (None, w) \<Rightarrow> (None, s \<lparr> ss_world := w \<rparr>))))"

end
