(* ===== verification/Service_OAuth.thy ===== *)
theory Service_OAuth
  imports Service
begin

text \<open>
  The OAuth2 login of \<open>usermgmt/service_oauth2_extracted.go\<close>: the state saved when a login begins, the
  callback that consumes it, the match of the external identity with an account or its registration,
  and unlinking. The provider is a parameter; \<open>nonce_capable\<close> says that it and the state store
  implement the additive nonce interfaces, which the in-memory store does. \<open>OAuth2State_Consume\<close>
  and \<open>OAuth2State_Save\<close> are the state store without a nonce.
\<close>

section \<open>The provider\<close>

text \<open>
  \<open>op_BeginLogin\<close> gives the redirect URL, the PKCE verifier and, in the nonce interface, the nonce;
  \<open>op_FinishLogin\<close> the user info for a code, a verifier and a nonce (empty without the interface).
  \<open>op_decode\<close> is the JSON decoding of the user info.
\<close>

record OAuth2UserInfo =
  oi_Subject :: string
  oi_Email :: string
  oi_EmailVerified :: bool
  oi_DisplayName :: string

record oauth_provider =
  op_nonce_capable :: bool
  op_BeginLogin :: "string \<Rightarrow> string \<Rightarrow> err + string \<times> string \<times> string"
  op_FinishLogin :: "string \<Rightarrow> string \<Rightarrow> string \<Rightarrow> string \<Rightarrow> err + bytes"
  op_decode :: "bytes \<Rightarrow> err + OAuth2UserInfo"
  op_stateTTL :: duration

definition with_provider :: "family \<Rightarrow> string \<Rightarrow> string \<Rightarrow> string \<Rightarrow> err option \<Rightarrow> err" where
  "with_provider f code msg provider cause = Fam f code msg 0 [(''provider'', provider)] cause"

section \<open>Beginning a login\<close>

definition OAuth_BeginLogin ::
  "oauth_provider \<Rightarrow> err + string \<Rightarrow> time \<Rightarrow> string \<Rightarrow> 'w service \<Rightarrow> (err + string) \<times> 'w service" where
  "OAuth_BeginLogin o2 generated now provider s =
     (case generated of
        Inl e \<Rightarrow> (Inl (wrap_error Transient e ''usermgmt.oauth2.generate_state'' ''generate oauth2 state''), s)
      | Inr state \<Rightarrow>
          (case op_BeginLogin o2 provider state of
             Inl e \<Rightarrow>
               (Inl (with_provider Transient ''usermgmt.oauth2.begin_login'' ''oauth2 begin login'' provider (Some e)), s)
           | Inr (redirectURL, pkceVerifier, nonce) \<Rightarrow>
               (Inr redirectURL,
                s \<lparr> ss_states :=
                  (if op_nonce_capable o2 then
                     OAuth2State_SaveWithNonce now state provider pkceVerifier nonce (op_stateTTL o2) (ss_states s)
                   else OAuth2State_Save now state provider pkceVerifier (op_stateTTL o2) (ss_states s)) \<rparr>)))"

section \<open>Linking an external account\<close>

definition readUserExternalAccounts :: "'w service_env \<Rightarrow> user_id \<Rightarrow> 'w service \<Rightarrow> ExternalAccount list" where
  "readUserExternalAccounts P userID s =
     (case FindByUserID P (users P s) userID of None \<Rightarrow> [] | Some user \<Rightarrow> u_external_accounts user)"

text \<open>A nil user reported as found would panic in \<open>existing.ID\<close>; in every world it is a user.\<close>

definition isExternalAccountLinkedToOther ::
  "'w service_env \<Rightarrow> string \<Rightarrow> string \<Rightarrow> user_id \<Rightarrow> 'w service \<Rightarrow> bool" where
  "isExternalAccountLinkedToOther P provider subject userID s =
     (case FindByExternalAccount (users P s) provider subject of
        Some (Some existing) \<Rightarrow> u_id existing \<noteq> userID
      | _ \<Rightarrow> False)"

text \<open>\<open>strings.EqualFold\<close>: equality under simple Unicode case folding, which is the argument \<open>F\<close>.\<close>

definition EqualFold :: "(string \<Rightarrow> string) \<Rightarrow> string \<Rightarrow> string \<Rightarrow> bool" where
  "EqualFold F x y \<longleftrightarrow> F x = F y"

definition markEmailVerifiedIfMatch ::
  "'w service_env \<Rightarrow> stream_id \<Rightarrow> user_id \<Rightarrow> string \<Rightarrow> 'w service \<Rightarrow> 'w service" where
  "markEmailVerifiedIfMatch P aggID userID email s =
     (case FindByUserID P (users P s) userID of
        None \<Rightarrow> s
      | Some user \<Rightarrow>
          if u_email_verified user \<or> \<not> EqualFold (sv_unicode_fold P) (u_email user) email then s
          else s \<lparr> ss_world := snd (sv_dispatch_user P aggID VerifyEmailCmd (ss_world s)) \<rparr>)"

definition linkExternalAccount ::
  "'w service_env \<Rightarrow> user_id \<Rightarrow> string \<Rightarrow> OAuth2UserInfo \<Rightarrow> 'w service \<Rightarrow> err option \<times> 'w service" where
  "linkExternalAccount P userID provider info s =
     (if \<exists>ea\<in>set (readUserExternalAccounts P userID s). ea_provider ea = provider \<and> ea_subject ea = oi_Subject info
      then (None, s)
      else if isExternalAccountLinkedToOther P provider (oi_Subject info) userID s
      then (Some (usermgmt_error IMErrExternalAccountAlreadyLinked), s)
      else (case aggIDFromUser P userID of
          Inl e \<Rightarrow>
            (Some (wrap_error Infrastructure e ''usermgmt.service.userid_conversion_failed''
               ''convert userID for link''), s)
        | Inr aggID \<Rightarrow>
            (case sv_dispatch_user P aggID
                    (LinkExternalAccountCmd provider (oi_Subject info) (oi_Email info) (oi_DisplayName info))
                    (ss_world s) of
               (Some e, w) \<Rightarrow>
                 (Some (classifyDispatchError (sv_err P) (sv_ids P) e userID [(''subject'', oi_Subject info)]),
                  s \<lparr> ss_world := w \<rparr>)
             | (None, w) \<Rightarrow>
                 (let s1 = s \<lparr> ss_world := w \<rparr>
                  in (None, if oi_EmailVerified info
                            then markEmailVerifiedIfMatch P aggID userID (oi_Email info) s1 else s1)))))"

section \<open>Matching or registering\<close>

definition missing_user :: "'w service_env \<Rightarrow> string \<Rightarrow> user_id \<Rightarrow> err" where
  "missing_user P msg userID =
     withUserIDContext (sv_ids P) (new_error Transient ''usermgmt.oauth2.read_model_missing'' msg) userID"

text \<open>\<open>None\<close> is "no match".\<close>

definition matchVerifiedEmail ::
  "'w service_env \<Rightarrow> string \<Rightarrow> OAuth2UserInfo \<Rightarrow> 'w service \<Rightarrow> (err + User option) \<times> 'w service" where
  "matchVerifiedEmail P provider info s =
     (if \<not> oi_EmailVerified info then (Inr None, s)
      else (case FindByEmail (users P s) (oi_Email info) of
          Some (Some user) \<Rightarrow>
            (case linkExternalAccount P (u_id user) provider info s of
               (Some e, s1) \<Rightarrow> (Inl e, s1)
             | (None, s1) \<Rightarrow>
                 (case FindByUserID P (users P s1) (u_id user) of
                    None \<Rightarrow>
                      (Inl (missing_user P ''oauth2 user not in read model after email-match link'' (u_id user)), s1)
                  | Some refreshed \<Rightarrow> (Inr (Some refreshed), s1)))
        | _ \<Rightarrow> (Inr None, s)))"

text \<open>\<open>freshID\<close> is the stream identifier \<open>id.NewStreamID\<close> makes.\<close>

definition provisionLinkedUser ::
  "'w service_env \<Rightarrow> stream_id \<Rightarrow> string \<Rightarrow> OAuth2UserInfo \<Rightarrow> 'w service \<Rightarrow> (err + User) \<times> 'w service" where
  "provisionLinkedUser P freshID provider info s =
     (if sv_maxUsers P > 0 \<and> int (User_Count (users P s)) \<ge> sv_maxUsers P then
        (Inl (with_provider Rejection ''usermgmt.oauth2.registration_closed'' ''registration is closed'' provider
           (Some (usermgmt_error IMErrRegistrationClosed))), registrationClosed P s)
      else
        (let userID = NewUserID (sv_ids P) freshID;
             name = (if oi_DisplayName info = [] then oi_Email info else oi_DisplayName info) in
         case sv_dispatch_user P freshID (RegisterUserCmd (oi_Email info) name [RoleViewer, RoleUser]) (ss_world s) of
           (Some e, w) \<Rightarrow> (Inl (classifyDispatchError (sv_err P) (sv_ids P) e userID []), s \<lparr> ss_world := w \<rparr>)
         | (None, w) \<Rightarrow>
             (let s1 = s \<lparr> ss_world := w \<rparr> in
              case FindByID (users P s1) freshID of
                None \<Rightarrow> (Inl (missing_user P ''oauth2 user not in read model after register'' userID), s1)
              | Some user \<Rightarrow>
                  (case linkExternalAccount P (u_id user) provider info s1 of
                     (Some e, s2) \<Rightarrow>
                       (Inl (Fam (classify (sv_err P) e) ''usermgmt.oauth2.link_failed'' ''link external account'' 0
                          [(''user_id'', user_text (sv_ids P) (u_id user)), (''provider'', provider)] (Some e)), s2)
                   | (None, s2) \<Rightarrow>
                       (case FindByID (users P s2) freshID of
                          None \<Rightarrow>
                            (Inl (missing_user P ''oauth2 user not in read model after register+link'' userID), s2)
                        | Some user2 \<Rightarrow> (Inr user2, s2))))))"

definition matchOrCreateUser ::
  "'w service_env \<Rightarrow> stream_id \<Rightarrow> string \<Rightarrow> OAuth2UserInfo \<Rightarrow> 'w service \<Rightarrow> (err + User) \<times> 'w service" where
  "matchOrCreateUser P freshID provider info s =
     (case FindByExternalAccount (users P s) provider (oi_Subject info) of
        Some (Some existing) \<Rightarrow> (Inr existing, s)
      | _ \<Rightarrow>
          (case matchVerifiedEmail P provider info s of
             (Inl e, s1) \<Rightarrow> (Inl e, s1)
           | (Inr (Some user), s1) \<Rightarrow> (Inr user, s1)
           | (Inr None, s1) \<Rightarrow> provisionLinkedUser P freshID provider info s1))"

section \<open>Finishing a login\<close>

definition completeLogin ::
  "'w service_env \<Rightarrow> oauth_provider \<Rightarrow> stream_id \<Rightarrow> err + string \<Rightarrow> time \<Rightarrow> string \<Rightarrow> bytes \<Rightarrow> 'w service
   \<Rightarrow> (err + AuthResult) \<times> 'w service" where
  "completeLogin P o2 freshID generated now provider userInfoJSON s =
     (case op_decode o2 userInfoJSON of
        Inl e \<Rightarrow>
          (Inl (with_provider Infrastructure ''usermgmt.oauth.userinfo_unmarshal'' ''unmarshal user info''
             provider (Some e)), s)
      | Inr raw \<Rightarrow>
          if oi_Email raw = [] then
            (Inl (with_provider Rejection ''usermgmt.oauth_no_email''
               ''OAuth2 provider did not return an email address'' provider None), s)
          else if oi_Subject raw = [] then
            (Inl (with_provider Rejection ''usermgmt.oauth_no_subject''
               ''OAuth2 provider did not return a subject (sub) claim'' provider None), s)
          else
            (let info = raw \<lparr> oi_Email := ToLower (sv_unicode_lower P) (trim_space (oi_Email raw)) \<rparr> in
             case matchOrCreateUser P freshID provider info s of
               (Inl e, s1) \<Rightarrow> (Inl e, s1)
             | (Inr user, s1) \<Rightarrow>
                 (case createAndStoreSession P generated now (u_id user) s1 of
                    (Inl e, s2) \<Rightarrow>
                      (Inl (withUserIDContext (sv_ids P)
                         (wrap_error Transient e ''usermgmt.oauth2.create_session'' ''create oauth2 session'')
                         (u_id user)), s2)
                  | (Inr session, s2) \<Rightarrow>
                      (Inr \<lparr> ar_User = user, ar_Session = session \<rparr>,
                       oauth2LoginSuccess P (u_id user) provider s2))))"

definition OAuth_FinishLogin ::
  "'w service_env \<Rightarrow> oauth_provider \<Rightarrow> stream_id \<Rightarrow> err + string \<Rightarrow> time \<Rightarrow> string \<Rightarrow> string \<Rightarrow> string
   \<Rightarrow> 'w service \<Rightarrow> (err + AuthResult) \<times> 'w service" where
  "OAuth_FinishLogin P o2 freshID generated now provider code state s =
     (case (if op_nonce_capable o2 then OAuth2State_ConsumeWithNonce now state (ss_states s)
            else map_prod (map_sum (\<lambda>e. e) (\<lambda>(p, v). (p, v, []))) (\<lambda>m. m)
                   (OAuth2State_Consume now state (ss_states s))) of
        (Inl e, ss) \<Rightarrow>
          (Inl (with_provider Rejection ''usermgmt.oauth.state_consume_failed'' ''consume oauth2 state''
             provider (Some e)), s \<lparr> ss_states := ss \<rparr>)
      | (Inr (storedProvider, pkceVerifier, nonce), ss) \<Rightarrow>
          (let s1 = s \<lparr> ss_states := ss \<rparr> in
           if storedProvider \<noteq> provider then
             (Inl (with_provider Rejection ''usermgmt.oauth.provider_mismatch''
                ''oauth2 provider mismatch between state and callback'' provider
                (Some (usermgmt_error IMErrOAuthInvalidState))), s1)
           else (case op_FinishLogin o2 provider code pkceVerifier nonce of
               Inl e \<Rightarrow>
                 (Inl (with_provider Transient ''usermgmt.oauth.token_exchange'' ''exchange oauth2 token''
                    provider (Some e)), s1)
             | Inr userInfoJSON \<Rightarrow> completeLogin P o2 freshID generated now provider userInfoJSON s1)))"

section \<open>Unlinking\<close>

definition OAuth_Unlink ::
  "'w service_env \<Rightarrow> user_id \<Rightarrow> string \<Rightarrow> 'w service \<Rightarrow> err option \<times> 'w service" where
  "OAuth_Unlink P userID provider s =
     (case FindByUserID P (users P s) userID of
        None \<Rightarrow>
          (Some (Fam Rejection ''usermgmt.service.user_not_found'' ''unlink external account'' 0
             [(''user_id'', user_text (sv_ids P) userID)] (Some (usermgmt_error IMErrUserNotFound))), s)
      | Some user \<Rightarrow>
          (let subject = (case find (\<lambda>ea. ea_provider ea = provider) (u_external_accounts user) of
                            None \<Rightarrow> [] | Some ea \<Rightarrow> ea_subject ea) in
           if subject = [] then (Some (usermgmt_error IMErrOAuthProviderNotFound), s)
           else (case aggIDFromUser P userID of
               Inl e \<Rightarrow>
                 (Some (wrap_error Infrastructure e ''usermgmt.service.userid_conversion_failed''
                    ''convert userID for unlink''), s)
             | Inr aggID \<Rightarrow>
                 (case sv_dispatch_user P aggID (UnlinkExternalAccountCmd provider subject) (ss_world s) of
                    (Some e, w) \<Rightarrow>
                      (Some (classifyDispatchError (sv_err P) (sv_ids P) e userID [(''subject'', subject)]),
                       s \<lparr> ss_world := w \<rparr>)
                  | (None, w) \<Rightarrow> (None, s \<lparr> ss_world := w \<rparr>)))))"

text \<open>The methods of \<open>Service\<close>, which delegate to the OAuth2 service when a provider is configured.\<close>

definition BeginOAuthLogin ::
  "oauth_provider option \<Rightarrow> err + string \<Rightarrow> time \<Rightarrow> string \<Rightarrow> 'w service \<Rightarrow> (err + string) \<times> 'w service" where
  "BeginOAuthLogin svc generated now provider s =
     (case svc of None \<Rightarrow> (Inl (usermgmt_error IMErrOAuthNotConfigured), s)
      | Some o2 \<Rightarrow> OAuth_BeginLogin o2 generated now provider s)"

definition FinishOAuthLogin ::
  "'w service_env \<Rightarrow> oauth_provider option \<Rightarrow> stream_id \<Rightarrow> err + string \<Rightarrow> time \<Rightarrow> string \<Rightarrow> string \<Rightarrow> string
   \<Rightarrow> 'w service \<Rightarrow> (err + AuthResult) \<times> 'w service" where
  "FinishOAuthLogin P svc freshID generated now provider code state s =
     (case svc of None \<Rightarrow> (Inl (usermgmt_error IMErrOAuthNotConfigured), s)
      | Some o2 \<Rightarrow> OAuth_FinishLogin P o2 freshID generated now provider code state s)"

definition UnlinkExternalAccount ::
  "'w service_env \<Rightarrow> oauth_provider option \<Rightarrow> user_id \<Rightarrow> string \<Rightarrow> 'w service \<Rightarrow> err option \<times> 'w service" where
  "UnlinkExternalAccount P svc userID provider s =
     (case svc of None \<Rightarrow> (Some (usermgmt_error IMErrOAuthNotConfigured), s)
      | Some o2 \<Rightarrow> OAuth_Unlink P userID provider s)"

end
