(* ===== verification/Service_WebAuthn.thy ===== *)
theory Service_WebAuthn
  imports Service
begin

text \<open>
  The WebAuthn ceremonies of \<open>usermgmt/webauthn_service.go\<close>: registration of a credential and login,
  each begun with a challenge kept server-side and finished with the authenticator's response. The
  ceremonies themselves (package \<open>usermgmt/webauthn\<close> over go-webauthn) and JSON are parameters.
\<close>

section \<open>What the provider is given\<close>

record webAuthnUserCred =
  wc_ID :: bytes
  wc_PublicKey :: bytes
  wc_AttestationType :: string
  wc_Transports :: "string list"
  wc_AAGUID :: bytes
  wc_SignCount :: "32 word"
  wc_UserPresent :: bool
  wc_UserVerified :: bool
  wc_BackupEligible :: bool
  wc_BackupState :: bool

record webAuthnUserData =
  wu_ID :: string
  wu_Email :: string
  wu_DisplayName :: string
  wu_Credentials :: "webAuthnUserCred list"

record webauthn_provider =
  wp_marshal :: "webAuthnUserData \<Rightarrow> err + bytes"
  wp_BeginRegistration :: "bytes \<Rightarrow> err + bytes \<times> bytes"
  wp_FinishRegistration :: "bytes \<Rightarrow> bytes \<Rightarrow> bytes \<Rightarrow> err + bytes"
  wp_BeginLogin :: "bytes \<Rightarrow> err + bytes \<times> bytes"
  wp_FinishLogin :: "bytes \<Rightarrow> bytes \<Rightarrow> bytes \<Rightarrow> err + bytes"
  wp_decode_core :: "bytes \<Rightarrow> err + CredentialCore"
  wp_decode_cred :: "bytes \<Rightarrow> err + webAuthnUserCred"

definition user_cred :: "WebAuthnCredential \<Rightarrow> webAuthnUserCred" where
  "user_cred c =
     \<lparr> wc_ID = cred_id c, wc_PublicKey = cred_public_key c, wc_AttestationType = cred_attestation_type c,
       wc_Transports = cred_transports c, wc_AAGUID = cred_aaguid c, wc_SignCount = cred_sign_count c,
       wc_UserPresent = cred_user_present c, wc_UserVerified = cred_user_verified c,
       wc_BackupEligible = cred_backup_eligible c, wc_BackupState = cred_backup_state c \<rparr>"

definition marshalWebAuthnUser :: "'w service_env \<Rightarrow> webauthn_provider \<Rightarrow> User \<Rightarrow> err + bytes" where
  "marshalWebAuthnUser P wp user =
     map_err (\<lambda>e. wrap_error Infrastructure e ''usermgmt.webauthn.marshal_user_data'' ''marshal webauthn user data'')
       (wp_marshal wp \<lparr> wu_ID = user_text (sv_ids P) (u_id user), wu_Email = u_email user,
          wu_DisplayName = u_display_name user, wu_Credentials = map user_cred (u_credentials user) \<rparr>)"

definition marshal_failed :: "err \<Rightarrow> err" where
  "marshal_failed e = wrap_error Infrastructure e ''usermgmt.webauthn.marshal_user'' ''marshal user data''"

definition maxWebAuthnBodySize :: nat where "maxWebAuthnBodySize = 2 ^ 20"

definition registrationSessionPrefix :: string where "registrationSessionPrefix = ''reg:''"
definition loginSessionPrefix :: string where "loginSessionPrefix = ''login:''"

definition registration_key :: "'w service_env \<Rightarrow> user_id \<Rightarrow> string" where
  "registration_key P userID = registrationSessionPrefix @ user_text (sv_ids P) userID"

definition login_key :: "'w service_env \<Rightarrow> user_id \<Rightarrow> string" where
  "login_key P userID = loginSessionPrefix @ user_text (sv_ids P) userID"

text \<open>\<open>io.ReadAll(io.LimitReader(r.Body, ...))\<close>: a longer body is cut off.\<close>

definition read_body :: "string \<Rightarrow> err + bytes \<Rightarrow> err + bytes" where
  "read_body msg body =
     (case body of Inl e \<Rightarrow> Inl (wrap_error Rejection e ''usermgmt.webauthn.body_read'' msg)
      | Inr b \<Rightarrow> Inr (take maxWebAuthnBodySize b))"

definition no_user :: "'w service_env \<Rightarrow> string \<Rightarrow> user_id \<Rightarrow> err" where
  "no_user P msg userID =
     Fam Rejection ''usermgmt.webauthn.user_not_found'' msg 0 [(''user_id'', user_text (sv_ids P) userID)]
       (Some (usermgmt_error IMErrUserNotFound))"

record webauthnBeginResponse =
  wb_Options :: bytes
  wb_SessionKey :: string

section \<open>Registering a credential\<close>

definition BeginRegistration ::
  "'w service_env \<Rightarrow> webauthn_provider option \<Rightarrow> time \<Rightarrow> user_id \<Rightarrow> 'w service
   \<Rightarrow> (err + webauthnBeginResponse) \<times> 'w service" where
  "BeginRegistration P webauthn now userID s =
     (case webauthn of
        None \<Rightarrow> (Inl (usermgmt_error IMErrWebAuthnNotConfigured), s)
      | Some wp \<Rightarrow>
          (case FindByUserID P (users P s) userID of
             None \<Rightarrow> (Inl (no_user P ''begin registration'' userID), s)
           | Some user \<Rightarrow>
               (case marshalWebAuthnUser P wp user of
                  Inl e \<Rightarrow> (Inl (marshal_failed e), s)
                | Inr userJSON \<Rightarrow>
                    (case wp_BeginRegistration wp userJSON of
                       Inl e \<Rightarrow>
                         (Inl (wrap_error Transient e ''usermgmt.webauthn.begin_registration''
                            ''begin webauthn registration''), s)
                     | Inr (options, sessionData) \<Rightarrow>
                         (let key = registration_key P userID in
                          (Inr \<lparr> wb_Options = options, wb_SessionKey = key \<rparr>,
                           s \<lparr> ss_challenges := WebAuthn_Save now key sessionData (ss_challenges s) \<rparr>))))))"

definition FinishRegistration ::
  "'w service_env \<Rightarrow> webauthn_provider option \<Rightarrow> time \<Rightarrow> user_id \<Rightarrow> err + bytes \<Rightarrow> string \<Rightarrow> 'w service
   \<Rightarrow> err option \<times> 'w service" where
  "FinishRegistration P webauthn now userID request credentialName s =
     (case webauthn of
        None \<Rightarrow> (Some (usermgmt_error IMErrWebAuthnNotConfigured), s)
      | Some wp \<Rightarrow>
          (case FindByUserID P (users P s) userID of
             None \<Rightarrow> (Some (no_user P ''finish registration'' userID), s)
           | Some user \<Rightarrow>
               (case WebAuthn_Get now (registration_key P userID) (ss_challenges s) of
                  (Inl e, cs) \<Rightarrow> (Some e, s \<lparr> ss_challenges := cs \<rparr>)
                | (Inr sessionData, cs) \<Rightarrow>
                    (let s1 = s \<lparr> ss_challenges := cs \<rparr> in
                     case read_body ''read attestation body'' request of
                       Inl e \<Rightarrow> (Some e, s1)
                     | Inr body \<Rightarrow>
                         (case marshalWebAuthnUser P wp user of
                            Inl e \<Rightarrow> (Some (marshal_failed e), s1)
                          | Inr userJSON \<Rightarrow>
                              (case wp_FinishRegistration wp userJSON body sessionData of
                                 Inl e \<Rightarrow>
                                   (Some (wrap_error Rejection e ''usermgmt.webauthn.registration_failed''
                                      ''credential registration failed''), s1)
                               | Inr credJSON \<Rightarrow>
                                   (let s2 = s1 \<lparr> ss_challenges :=
                                          WebAuthn_Delete (registration_key P userID) (ss_challenges s1) \<rparr> in
                                    case wp_decode_core wp credJSON of
                                      Inl e \<Rightarrow>
                                        (Some (wrap_error Infrastructure e ''usermgmt.webauthn.unmarshal_credential''
                                           ''unmarshal credential''), s2)
                                    | Inr core \<Rightarrow>
                                        (case aggIDFromUser P userID of
                                           Inl e \<Rightarrow>
                                             (Some (Fam Infrastructure ''usermgmt.webauthn.userid_conversion_failed''
                                                ''convert userID'' 0
                                                [(''user_id'', user_text (sv_ids P) userID)] (Some e)), s2)
                                         | Inr aggID \<Rightarrow>
                                             (case sv_dispatch_user P aggID
                                                     (AddCredentialCmd (CredentialCore.extend
                                                        (core \<lparr> cred_name := credentialName \<rparr>)
                                                        \<lparr> cred_created_at = 0 \<rparr>)) (ss_world s2) of
                                                (Some e, w) \<Rightarrow>
                                                  (Some (Fam (classify (sv_err P) e)
                                                     ''usermgmt.webauthn.dispatch_failed''
                                                     ''finish registration dispatch'' 0
                                                     [(''user_id'', user_text (sv_ids P) userID)] (Some e)),
                                                   s2 \<lparr> ss_world := w \<rparr>)
                                              | (None, w) \<Rightarrow> (None, s2 \<lparr> ss_world := w \<rparr>))))))))))"

section \<open>Logging in\<close>

text \<open>A user found by email is a user: see \<open>FindByEmail\<close> of the read model.
  \<open>now2\<close> is the clock reading of the second critical section of \<open>IsLocked\<close> and after.\<close>

definition BeginLogin ::
  "'w service_env \<Rightarrow> webauthn_provider option \<Rightarrow> time \<Rightarrow> time \<Rightarrow> string \<Rightarrow> 'w service
   \<Rightarrow> (err + webauthnBeginResponse) \<times> 'w service" where
  "BeginLogin P webauthn now now2 email s =
     (case webauthn of
        None \<Rightarrow> (Inl (usermgmt_error IMErrWebAuthnNotConfigured), s)
      | Some wp \<Rightarrow>
          (let (locked, s1) =
                 (case ss_lockout s of
                    None \<Rightarrow> (False, s)
                  | Some l \<Rightarrow>
                      (case IsLocked (sv_unicode_lower P) now now2 email l of
                         (b, l') \<Rightarrow> (b, s \<lparr> ss_lockout := Some l' \<rparr>))) in
           if locked then (Inl (usermgmt_error IMErrAccountLocked), s1)
           else (case FindByEmail (users P s1) email of
               Some (Some user) \<Rightarrow>
                 if u_credentials user = [] then
                   (Inl (usermgmt_error IMErrNoCredentials),
                    loginFailure P (u_id user) AuthMethodWebAuthN AuthFailureNoCredentials s1)
                 else (case marshalWebAuthnUser P wp user of
                     Inl e \<Rightarrow> (Inl (marshal_failed e), s1)
                   | Inr userJSON \<Rightarrow>
                       (case wp_BeginLogin wp userJSON of
                          Inl e \<Rightarrow>
                            (Inl (wrap_error Transient e ''usermgmt.webauthn.begin_login'' ''begin webauthn login''), s1)
                        | Inr (options, sessionData) \<Rightarrow>
                            (let key = login_key P (u_id user) in
                             (Inr \<lparr> wb_Options = options, wb_SessionKey = key \<rparr>,
                              s1 \<lparr> ss_challenges := WebAuthn_Save now2 key sessionData (ss_challenges s1) \<rparr>))))
             | _ \<Rightarrow>
                 (Inl (wrap_error Rejection (usermgmt_error IMErrUserNotFound) ''usermgmt.webauthn.user_not_found''
                    ''begin login''), s1))))"

definition finishLoginFailed ::
  "'w service_env \<Rightarrow> time \<Rightarrow> user_id \<Rightarrow> User \<Rightarrow> err \<Rightarrow> 'w service \<Rightarrow> err \<times> 'w service" where
  "finishLoginFailed P now userID user cause s =
     (let s1 = (case ss_lockout s of
                  None \<Rightarrow> s
                | Some l \<Rightarrow> s \<lparr> ss_lockout := Some (snd (RecordFailure (sv_unicode_lower P) now (u_email user) l)) \<rparr>)
      in (wrap_error Rejection cause ''usermgmt.webauthn.login_failed'' ''credential login failed'',
          loginFailure P userID AuthMethodWebAuthN AuthFailureCeremonyFailed s1))"

definition recordCredentialUse ::
  "'w service_env \<Rightarrow> webauthn_provider \<Rightarrow> user_id \<Rightarrow> bytes \<Rightarrow> 'w service \<Rightarrow> err option \<times> 'w service" where
  "recordCredentialUse P wp userID credJSON s =
     (case wp_decode_cred wp credJSON of
        Inl e \<Rightarrow>
          (Some (Fam Infrastructure ''usermgmt.webauthn.unmarshal_credential'' ''unmarshal logged-in credential'' 0
             [(''user_id'', user_text (sv_ids P) userID)] (Some e)), s)
      | Inr used \<Rightarrow>
          (case aggIDFromUser P userID of
             Inl e \<Rightarrow>
               (Some (Fam Infrastructure ''usermgmt.webauthn.userid_conversion_failed'' ''convert userID'' 0
                  [(''user_id'', user_text (sv_ids P) userID)] (Some e)), s)
           | Inr aggID \<Rightarrow>
               (case sv_dispatch_user P aggID
                       (RecordCredentialUseCmd
                          \<lparr> use_credential_id = wc_ID used, use_sign_count = wc_SignCount used,
                            use_user_present = wc_UserPresent used, use_user_verified = wc_UserVerified used,
                            use_backup_state = wc_BackupState used \<rparr>) (ss_world s) of
                  (Some e, w) \<Rightarrow>
                    (Some (Fam (classify (sv_err P) e) ''usermgmt.webauthn.credential_use_failed''
                       ''record credential use'' 0 [(''user_id'', user_text (sv_ids P) userID)] (Some e)),
                     s \<lparr> ss_world := w \<rparr>)
                | (None, w) \<Rightarrow> (None, s \<lparr> ss_world := w \<rparr>))))"

definition FinishLogin ::
  "'w service_env \<Rightarrow> webauthn_provider option \<Rightarrow> err + string \<Rightarrow> time \<Rightarrow> user_id \<Rightarrow> err + bytes \<Rightarrow> 'w service
   \<Rightarrow> (err + AuthResult) \<times> 'w service" where
  "FinishLogin P webauthn generated now userID request s =
     (case webauthn of
        None \<Rightarrow> (Inl (usermgmt_error IMErrWebAuthnNotConfigured), s)
      | Some wp \<Rightarrow>
          (case FindByUserID P (users P s) userID of
             None \<Rightarrow> (Inl (no_user P ''finish login'' userID), s)
           | Some user \<Rightarrow>
               (case WebAuthn_Get now (login_key P userID) (ss_challenges s) of
                  (Inl e, cs) \<Rightarrow> (Inl e, s \<lparr> ss_challenges := cs \<rparr>)
                | (Inr sessionData, cs) \<Rightarrow>
                    (let s1 = s \<lparr> ss_challenges := cs \<rparr> in
                     case read_body ''read assertion body'' request of
                       Inl e \<Rightarrow> (Inl e, s1)
                     | Inr body \<Rightarrow>
                         (case marshalWebAuthnUser P wp user of
                            Inl e \<Rightarrow> (Inl (marshal_failed e), s1)
                          | Inr userJSON \<Rightarrow>
                              (case wp_FinishLogin wp userJSON body sessionData of
                                 Inl e \<Rightarrow> (case finishLoginFailed P now userID user e s1 of (e', s2) \<Rightarrow> (Inl e', s2))
                               | Inr credJSON \<Rightarrow>
                                   (case recordCredentialUse P wp userID credJSON s1 of
                                      (Some e, s2) \<Rightarrow> (Inl e, s2)
                                    | (None, s2) \<Rightarrow>
                                        (let s3 = s2 \<lparr> ss_challenges :=
                                                WebAuthn_Delete (login_key P userID) (ss_challenges s2),
                                              ss_lockout := map_option
                                                (Reset (sv_unicode_lower P) (u_email user)) (ss_lockout s2) \<rparr> in
                                         case createAndStoreSession P generated now (u_id user) s3 of
                                           (Inl e, s4) \<Rightarrow>
                                             (Inl (withUserIDContext (sv_ids P)
                                                (wrap_error Transient e ''usermgmt.session.create'' ''create session'')
                                                (u_id user)), s4)
                                         | (Inr sess, s4) \<Rightarrow>
                                             (Inr \<lparr> ar_User = user, ar_Session = sess \<rparr>,
                                              loginSuccess P userID AuthMethodWebAuthN s4)))))))))"

end
