(* ===== verification/Service_Admin.thy ===== *)
theory Service_Admin
  imports Service
begin

text \<open>
  The administrative operations of the service: tenants (\<open>usermgmt/service_tenant.go\<close>), memberships and
  role grants (\<open>service_membership.go\<close>, \<open>service_grants.go\<close>), bots and their API tokens
  (\<open>service_bot.go\<close>) and impersonation (\<open>service_impersonation.go\<close>).
\<close>

section \<open>Tenants\<close>

definition aggIDFromTenant :: "'w service_env \<Rightarrow> tenant_id \<Rightarrow> err + stream_id" where
  "aggIDFromTenant P tenantID = aggIDFromBranded P (tenant_get tenantID) ''usermgmt.invalid_tenant_id''"

record CreateTenantRequest =
  ctr_ID :: tenant_id
  ctr_Name :: string
  ctr_DisplayName :: string

definition tenant_conversion :: "(string \<times> string) list \<Rightarrow> err \<Rightarrow> err" where
  "tenant_conversion x e = Fam Infrastructure ''usermgmt.tenant.id_conversion_failed'' ''convert tenant ID'' 0 x (Some e)"

definition CreateTenant ::
  "'w service_env \<Rightarrow> CreateTenantRequest \<Rightarrow> 'w service \<Rightarrow> (err + Tenant) \<times> 'w service" where
  "CreateTenant P req s =
     (if tenant_is_zero (sv_ids P) (ctr_ID req) then
        (Inl (new_error Rejection ''usermgmt.tenant.id_required'' ''tenant ID is required''), s)
      else if ctr_Name req = [] then
        (Inl (new_error Rejection ''usermgmt.tenant.name_required'' ''tenant name is required''), s)
      else (case aggIDFromTenant P (ctr_ID req) of
          Inl e \<Rightarrow> (Inl (tenant_conversion [] e), s)
        | Inr aggID \<Rightarrow>
            (case sv_dispatch_tenant P aggID (CreateTenantCmd (ctr_Name req) (ctr_DisplayName req)) (ss_world s) of
               (Some e, w) \<Rightarrow> (Inl e, s \<lparr> ss_world := w \<rparr>)
             | (None, w) \<Rightarrow>
                 (case Tenant_FindByID (sv_tenants P w) aggID of
                    None \<Rightarrow>
                      (Inl (new_error Transient ''usermgmt.tenant.read_model_missing''
                         ''tenant not in read model after create''), s \<lparr> ss_world := w \<rparr>)
                  | Some tenant \<Rightarrow> (Inr tenant, s \<lparr> ss_world := w \<rparr>)))))"

definition dispatch_tenant_cmd ::
  "'w service_env \<Rightarrow> tenant_id \<Rightarrow> tenant_cmd \<Rightarrow> 'w service \<Rightarrow> err option \<times> 'w service" where
  "dispatch_tenant_cmd P tenantID cmd s =
     (case aggIDFromTenant P tenantID of
        Inl e \<Rightarrow> (Some (tenant_conversion [(''tenant_id'', tenant_get tenantID)] e), s)
      | Inr aggID \<Rightarrow>
          (case sv_dispatch_tenant P aggID cmd (ss_world s) of (r, w) \<Rightarrow> (r, s \<lparr> ss_world := w \<rparr>)))"

definition SuspendTenant :: "'w service_env \<Rightarrow> tenant_id \<Rightarrow> string \<Rightarrow> 'w service \<Rightarrow> err option \<times> 'w service" where
  "SuspendTenant P tenantID reason = dispatch_tenant_cmd P tenantID (SuspendTenantCmd reason)"

definition ReactivateTenant :: "'w service_env \<Rightarrow> tenant_id \<Rightarrow> 'w service \<Rightarrow> err option \<times> 'w service" where
  "ReactivateTenant P tenantID = dispatch_tenant_cmd P tenantID ReactivateTenantCmd"

text \<open>The loop removes each listed membership in the deleted tenant; the failures are logged.\<close>

fun revokeMemberships :: "'w service_env \<Rightarrow> tenant_id \<Rightarrow> Membership list \<Rightarrow> 'w \<Rightarrow> nat \<times> 'w" where
  "revokeMemberships P tenantID [] w = (0, w)"
| "revokeMemberships P tenantID (mem # ms) w =
     (case sv_dispatch_member P (DeriveMembershipID (sv_ids P) (mem_actor_id mem) tenantID) RemoveMemberCmd w of
        (r, w1) \<Rightarrow>
          (case revokeMemberships P tenantID ms w1 of
             (failed, w2) \<Rightarrow> ((if r = None then failed else Suc failed), w2)))"

definition revokeMembershipsForTenantBestEffort :: "'w service_env \<Rightarrow> tenant_id \<Rightarrow> 'w service \<Rightarrow> 'w service" where
  "revokeMembershipsForTenantBestEffort P tenantID s =
     s \<lparr> ss_world := snd (revokeMemberships P tenantID
       (FindByTenant (sv_members P (ss_world s)) (tenant_get tenantID)) (ss_world s)) \<rparr>"

definition DeleteTenant :: "'w service_env \<Rightarrow> tenant_id \<Rightarrow> string \<Rightarrow> 'w service \<Rightarrow> err option \<times> 'w service" where
  "DeleteTenant P tenantID reason s =
     (case dispatch_tenant_cmd P tenantID (DeleteTenantCmd reason) s of
        (Some e, s1) \<Rightarrow> (Some e, s1)
      | (None, s1) \<Rightarrow> (None, revokeMembershipsForTenantBestEffort P tenantID s1))"

definition GetTenant :: "'w service_env \<Rightarrow> tenant_id \<Rightarrow> 'w service \<Rightarrow> err + Tenant" where
  "GetTenant P tenantID s =
     (case aggIDFromTenant P tenantID of
        Inl e \<Rightarrow> Inl (tenant_conversion [] e)
      | Inr aggID \<Rightarrow>
          (case Tenant_FindByID (sv_tenants P (ss_world s)) aggID of
             None \<Rightarrow> Inl (new_error Rejection ''usermgmt.tenant.not_found'' ''tenant not found'')
           | Some tenant \<Rightarrow> Inr tenant))"

definition AllTenants :: "'w service_env \<Rightarrow> 'w service \<Rightarrow> Tenant list" where
  "AllTenants P s = Tenant_All (sv_tenants P (ss_world s))"

definition TenantMembers :: "'w service_env \<Rightarrow> tenant_id \<Rightarrow> 'w service \<Rightarrow> Membership list" where
  "TenantMembers P tenantID s = FindByTenant (sv_members P (ss_world s)) (tenant_get tenantID)"

section \<open>Memberships and grants\<close>

definition dispatch_member_cmd ::
  "'w service_env \<Rightarrow> actor_id \<Rightarrow> tenant_id \<Rightarrow> member_cmd \<Rightarrow> 'w service \<Rightarrow> err option \<times> 'w service" where
  "dispatch_member_cmd P actorID tenantID cmd s =
     (case sv_dispatch_member P (DeriveMembershipID (sv_ids P) actorID tenantID) cmd (ss_world s) of
        (r, w) \<Rightarrow> (r, s \<lparr> ss_world := w \<rparr>))"

definition AddMember ::
  "'w service_env \<Rightarrow> actor_id \<Rightarrow> tenant_id \<Rightarrow> role list \<Rightarrow> 'w service \<Rightarrow> err option \<times> 'w service" where
  "AddMember P actorID tenantID roles =
     dispatch_member_cmd P actorID tenantID (AddMemberCmd actorID tenantID roles)"

definition UpdateMemberRoles ::
  "'w service_env \<Rightarrow> actor_id \<Rightarrow> tenant_id \<Rightarrow> role list \<Rightarrow> 'w service \<Rightarrow> err option \<times> 'w service" where
  "UpdateMemberRoles P actorID tenantID roles =
     dispatch_member_cmd P actorID tenantID (UpdateMemberRolesCmd roles)"

definition RemoveMember ::
  "'w service_env \<Rightarrow> actor_id \<Rightarrow> tenant_id \<Rightarrow> 'w service \<Rightarrow> err option \<times> 'w service" where
  "RemoveMember P actorID tenantID = dispatch_member_cmd P actorID tenantID RemoveMemberCmd"

definition isConflict :: "err_env \<Rightarrow> err \<Rightarrow> bool" where
  "isConflict E e \<longleftrightarrow> classify E e = Conflict"

definition actor_required :: err where
  "actor_required = new_error Rejection ''usermgmt.grant.actor_required'' ''actor ID is required''"

definition tenant_required :: err where
  "tenant_required = new_error Rejection ''usermgmt.grant.tenant_required'' ''tenant ID is required''"

definition validateGrant :: "id_env \<Rightarrow> actor_id \<Rightarrow> tenant_id \<Rightarrow> role list \<Rightarrow> err option" where
  "validateGrant I actorID tenantID roles =
     (if actor_is_zero I actorID then Some actor_required
      else if tenant_is_zero I tenantID then Some tenant_required
      else (case find (\<lambda>r. \<not> Role_Valid r) roles of
          None \<Rightarrow> None
        | Some r \<Rightarrow>
            Some (Fam Rejection ''usermgmt.grant.unknown_role'' (''unknown role: '' @ r) 0
              [(''valid_roles'', ''super_admin, admin, owner, user, viewer'')] None)))"

definition GrantRoles ::
  "'w service_env \<Rightarrow> actor_id \<Rightarrow> tenant_id \<Rightarrow> role list \<Rightarrow> 'w service \<Rightarrow> err option \<times> 'w service" where
  "GrantRoles P actorID tenantID roles s =
     (case validateGrant (sv_ids P) actorID tenantID roles of
        Some e \<Rightarrow> (Some e, s)
      | None \<Rightarrow>
          (case AddMember P actorID tenantID roles s of
             (None, s1) \<Rightarrow> (None, s1)
           | (Some e, s1) \<Rightarrow>
               if \<not> isConflict (sv_err P) e then (Some e, s1)
               else UpdateMemberRoles P actorID tenantID roles s1))"

definition RevokeRoles ::
  "'w service_env \<Rightarrow> actor_id \<Rightarrow> tenant_id \<Rightarrow> 'w service \<Rightarrow> err option \<times> 'w service" where
  "RevokeRoles P actorID tenantID s =
     (if actor_is_zero (sv_ids P) actorID then (Some actor_required, s)
      else if tenant_is_zero (sv_ids P) tenantID then (Some tenant_required, s)
      else RemoveMember P actorID tenantID s)"

definition HasAdminGrant :: "'e casbin \<Rightarrow> tenant_id \<Rightarrow> 'e authz \<Rightarrow> err + bool" where
  "HasAdminGrant C domain a =
     (case GroupPolicies C a of
        Inl e \<Rightarrow>
          Inl (wrap_error Infrastructure e ''usermgmt.admin_grant.enumerate'' ''enumerate casbin group policies'')
      | Inr groups \<Rightarrow>
          Inr (list_ex (\<lambda>row. length row = 3 \<and> row ! 2 = tenant_get domain \<and> \<not> Role_Valid (row ! 0)
                             \<and> row ! 1 \<in> set AdminRoles) groups))"

section \<open>Bots\<close>

definition aggIDFromBot :: "'w service_env \<Rightarrow> bot_id \<Rightarrow> err + stream_id" where
  "aggIDFromBot P botID =
     map_err (\<lambda>e. wrap_error Infrastructure e ''usermgmt.invalid_bot_id''
         ''invalid BotID for AggregateID conversion'')
       (sv_parse_stream P (bot_get botID))"

record RegisterBotRequest =
  rb_ID :: bot_id
  rb_Name :: string
  rb_OwnerID :: user_id
  rb_Scopes :: "string list"

text \<open>\<open>hash\<close> is \<open>HashToken\<close>, the HMAC of a token under a pepper.\<close>

definition bot_conversion :: "(string \<times> string) list \<Rightarrow> err \<Rightarrow> err" where
  "bot_conversion x e = Fam Infrastructure ''usermgmt.bot.id_conversion_failed'' ''convert bot ID'' 0 x (Some e)"

definition RegisterBot ::
  "'w service_env \<Rightarrow> (string \<Rightarrow> bytes \<Rightarrow> bytes) \<Rightarrow> bytes option \<Rightarrow> err + string \<Rightarrow> RegisterBotRequest
   \<Rightarrow> 'w service \<Rightarrow> (err + Bot \<times> string) \<times> 'w service" where
  "RegisterBot P hash pepper generated req s =
     (case pepper of
        None \<Rightarrow>
          (Inl (new_error Rejection ''usermgmt.bot.pepper_not_configured''
             ''token pepper must be configured before registering bots (ServiceConfig.TokenPepper)''), s)
      | Some k \<Rightarrow>
          if sv_bot_zero P (rb_ID req) then
            (Inl (new_error Rejection ''usermgmt.bot.id_required'' ''bot ID is required''), s)
          else if rb_Name req = [] then
            (Inl (new_error Rejection ''usermgmt.bot.name_required'' ''bot name is required''), s)
          else (case generated of
              Inl e \<Rightarrow>
                (Inl (wrap_error Infrastructure e ''usermgmt.bot.token_generation_failed'' ''generate API token''), s)
            | Inr token \<Rightarrow>
                (case aggIDFromBot P (rb_ID req) of
                   Inl e \<Rightarrow> (Inl (bot_conversion [] e), s)
                 | Inr aggID \<Rightarrow>
                     (case sv_dispatch_bot P aggID
                             (RegisterBotCmd (rb_Name req) (rb_OwnerID req) (hash token k) (rb_Scopes req))
                             (ss_world s) of
                        (Some e, w) \<Rightarrow> (Inl e, s \<lparr> ss_world := w \<rparr>)
                      | (None, w) \<Rightarrow>
                          (case Bot_FindByID (sv_bots P w) aggID of
                             None \<Rightarrow>
                               (Inl (new_error Transient ''usermgmt.bot.read_model_missing''
                                  ''bot not in read model after register''), s \<lparr> ss_world := w \<rparr>)
                           | Some b \<Rightarrow> (Inr (b, token), s \<lparr> ss_world := w \<rparr>))))))"

definition DeleteBot :: "'w service_env \<Rightarrow> bot_id \<Rightarrow> string \<Rightarrow> 'w service \<Rightarrow> err option \<times> 'w service" where
  "DeleteBot P botID reason s =
     (case aggIDFromBot P botID of
        Inl e \<Rightarrow> (Some (bot_conversion [(''bot_id'', bot_get botID)] e), s)
      | Inr aggID \<Rightarrow>
          (case sv_dispatch_bot P aggID (DeleteBotCmd reason) (ss_world s) of (r, w) \<Rightarrow> (r, s \<lparr> ss_world := w \<rparr>)))"

definition GetBot :: "'w service_env \<Rightarrow> bot_id \<Rightarrow> 'w service \<Rightarrow> err + Bot" where
  "GetBot P botID s =
     (case aggIDFromBot P botID of
        Inl e \<Rightarrow> Inl (bot_conversion [] e)
      | Inr aggID \<Rightarrow>
          (case Bot_FindByID (sv_bots P (ss_world s)) aggID of
             None \<Rightarrow> Inl (new_error Rejection ''usermgmt.bot.not_found'' ''bot not found'')
           | Some b \<Rightarrow> Inr b))"

definition ResolveBotByToken ::
  "'w service_env \<Rightarrow> (string \<Rightarrow> bytes \<Rightarrow> bytes) \<Rightarrow> bytes option \<Rightarrow> string \<Rightarrow> 'w service \<Rightarrow> Bot option" where
  "ResolveBotByToken P hash pepper token s =
     (case pepper of
        None \<Rightarrow> None
      | Some k \<Rightarrow> if token = [] then None else FindByTokenHash (sv_bots P (ss_world s)) (hash token k))"

section \<open>Impersonation\<close>

definition impersonation_error :: "'w service_env \<Rightarrow> user_id \<Rightarrow> family \<Rightarrow> string \<Rightarrow> string \<Rightarrow> err option \<Rightarrow> err" where
  "impersonation_error P targetID f code msg cause =
     Fam f (''usermgmt.impersonation.'' @ code) msg 0 [(''target_id'', user_text (sv_ids P) targetID)] cause"

definition BeginImpersonation ::
  "'w service_env \<Rightarrow> 'e casbin \<Rightarrow> (user_id \<Rightarrow> string) \<Rightarrow> 'e authz \<Rightarrow> err + string \<Rightarrow> time \<Rightarrow> user_id \<Rightarrow> user_id
   \<Rightarrow> string \<Rightarrow> 'w service \<Rightarrow> (err + Session) \<times> 'w service" where
  "BeginImpersonation P C show_user a generated now callerID targetID reason s =
     (if reason = [] then
        (Inl (impersonation_error P targetID Rejection ''reason_required''
           ''impersonation reason is required for audit trail'' None), s)
      else if callerID = targetID then
        (Inl (impersonation_error P targetID Rejection ''self_impersonation'' ''cannot impersonate yourself'' None), s)
      else (case aggIDFromUser P callerID of
          Inl e \<Rightarrow>
            (Inl (impersonation_error P targetID Infrastructure ''caller_id_invalid'' ''convert caller UserID'' (Some e)), s)
        | Inr callerAggID \<Rightarrow>
            (case RolesForUser (sv_ids P) show_user C callerID (NewTenantID callerAggID) a of
               Inl e \<Rightarrow>
                 (Inl (impersonation_error P targetID Infrastructure ''role_check_failed''
                    (''check roles for caller '' @ show_user callerID) (Some e)), s)
             | Inr roles \<Rightarrow>
                 if RoleSuperAdmin \<notin> set roles then
                   (Inl (impersonation_error P targetID Rejection ''insufficient_privileges''
                      ''caller must have super_admin role to impersonate'' None), s)
                 else (case aggIDFromUser P targetID of
                     Inl e \<Rightarrow>
                       (Inl (impersonation_error P targetID Infrastructure ''target_id_invalid''
                          ''convert target UserID'' (Some e)), s)
                   | Inr targetAggID \<Rightarrow>
                       (case FindByID (users P s) targetAggID of
                          None \<Rightarrow>
                            (Inl (impersonation_error P targetID Rejection ''target_not_found''
                               ''target user does not exist'' None), s)
                        | Some target \<Rightarrow>
                            (case NewImpersonationSession (sv_ids P) (sv_quote P) generated now
                                    (ActorIDFromUser (sv_ids P) targetID) (ActorIDFromUser (sv_ids P) callerID)
                                    reason (sv_sessionTTL P) of
                               Inl e \<Rightarrow>
                                 (Inl (wrap_error Transient e ''usermgmt.impersonation.create_session''
                                    ''create impersonation session''), s)
                             | Inr session \<Rightarrow> (Inr session, audited_Create P session s)))))))"

definition EndImpersonation :: "'w service_env \<Rightarrow> string \<Rightarrow> 'w service \<Rightarrow> err option \<times> 'w service" where
  "EndImpersonation P token s =
     (case audited_Find token s of
        Inl e \<Rightarrow> (Some e, s)
      | Inr session \<Rightarrow>
          (case se_Origin session of
             DirectLogin a \<Rightarrow>
               (Some (new_error Rejection ''usermgmt.impersonation.not_impersonation''
                  ''session is not an impersonation session''), s)
           | Impersonation by reason at \<Rightarrow> (None, audited_Delete P SessionEndImpersonationEnded token s)))"

end
