(* ===== verification/Service_Import.thy ===== *)
theory Service_Import
  imports Service
begin

text \<open>
  Importing and exporting users (\<open>usermgmt/import_export.go\<close>). The readers of the CSV and JSON libraries are
  arguments: the rows or users they read, or their error. \<open>fresh i\<close> is the identifier \<open>id.NewStreamID\<close> makes
  for the \<open>i\<close>-th user of the batch.
\<close>

section \<open>Importing\<close>

record ImportUser =
  iu_Email :: string
  iu_DisplayName :: string

definition ImportUser_Validate :: "'w service_env \<Rightarrow> ImportUser \<Rightarrow> err option \<times> ImportUser" where
  "ImportUser_Validate P u =
     (let u = u \<lparr> iu_DisplayName := trim_space (iu_DisplayName u) \<rparr> in
      case ParseEmail (sv_unicode_lower P) (sv_parse_address P) (sv_quote P) (iu_Email u) of
        Inl e \<Rightarrow> (Some e, u)
      | Inr email \<Rightarrow>
          (let u = u \<lparr> iu_Email := email \<rparr> in
           if length (iu_DisplayName u) > maxDisplayNameLength then
             (Some (wrap_error Rejection (usermgmt_error IMErrValidation) ''usermgmt.import.display_name_too_long''
                (''display name too long (max '' @ show_nat maxDisplayNameLength @ '')'')), u)
           else (None, u)))"

record ImportResult =
  ir_Imported :: nat
  ir_Skipped :: nat
  ir_Errors :: "string list"

definition skipped :: "string list \<Rightarrow> ImportResult \<Rightarrow> ImportResult" where
  "skipped errs r = r \<lparr> ir_Skipped := Suc (ir_Skipped r), ir_Errors := ir_Errors r @ errs \<rparr>"

text \<open>One user of the batch.\<close>

definition import_step ::
  "'w service_env \<Rightarrow> stream_id \<Rightarrow> ImportUser \<Rightarrow> ImportResult \<times> 'w service \<Rightarrow> ImportResult \<times> 'w service" where
  "import_step P aggID u = (\<lambda>(r, s).
     (case ImportUser_Validate P u of
        (Some e, _) \<Rightarrow> (skipped [error_text (sv_err P) e] r, s)
      | (None, u) \<Rightarrow>
          if FindByEmail (users P s) (iu_Email u) \<noteq> None then (skipped [] r, s)
          else if sv_maxUsers P > 0 \<and> int (User_Count (users P s)) \<ge> sv_maxUsers P then
            (skipped [iu_Email u @ '': registration is closed''] r, s)
          else (case sv_dispatch_user P aggID (RegisterUserCmd (iu_Email u) (iu_DisplayName u) [RoleUser])
                    (ss_world s) of
                  (Some e, w) \<Rightarrow>
                    (r \<lparr> ir_Errors := ir_Errors r @ [iu_Email u @ '': '' @ error_text (sv_err P) e] \<rparr>,
                     s \<lparr> ss_world := w \<rparr>)
                | (None, w) \<Rightarrow> (r \<lparr> ir_Imported := Suc (ir_Imported r) \<rparr>, s \<lparr> ss_world := w \<rparr>))))"

fun import_from ::
  "'w service_env \<Rightarrow> (nat \<Rightarrow> stream_id) \<Rightarrow> nat \<Rightarrow> ImportUser list \<Rightarrow> ImportResult \<times> 'w service
   \<Rightarrow> ImportResult \<times> 'w service" where
  "import_from P fresh i [] st = st"
| "import_from P fresh i (u # us) st = import_from P fresh (Suc i) us (import_step P (fresh i) u st)"

definition importUsers ::
  "'w service_env \<Rightarrow> (nat \<Rightarrow> stream_id) \<Rightarrow> ImportUser list \<Rightarrow> 'w service \<Rightarrow> ImportResult \<times> 'w service" where
  "importUsers P fresh us s =
     import_from P fresh 0 us (\<lparr> ir_Imported = 0, ir_Skipped = 0, ir_Errors = [] \<rparr>, s)"

definition ImportUsersFromJSON ::
  "'w service_env \<Rightarrow> (nat \<Rightarrow> stream_id) \<Rightarrow> (bytes \<Rightarrow> err + ImportUser list) \<Rightarrow> err + bytes \<Rightarrow> 'w service
   \<Rightarrow> (err + ImportResult) \<times> 'w service" where
  "ImportUsersFromJSON P fresh decode body s =
     (case body of
        Inl e \<Rightarrow> (Inl (wrap_error Rejection e ''usermgmt.import.json_read_failed'' ''read import JSON''), s)
      | Inr bs \<Rightarrow>
          (case decode bs of
             Inl e \<Rightarrow> (Inl (wrap_error Rejection e ''usermgmt.import.json_decode_failed'' ''decode import JSON''), s)
           | Inr us \<Rightarrow> apfst Inr (importUsers P fresh us s)))"

definition csvColumnID :: string where "csvColumnID = ''id''"
definition csvColumnEmail :: string where "csvColumnEmail = ''email''"
definition csvColumnEmailAlt :: string where "csvColumnEmailAlt = ''e-mail''"
definition csvColumnDisplayName :: string where "csvColumnDisplayName = ''display_name''"
definition csvColumnName :: string where "csvColumnName = ''name''"
definition csvColumnNameAlt :: string where "csvColumnNameAlt = ''displayname''"
definition csvColumnEmailVerified :: string where "csvColumnEmailVerified = ''email_verified''"
definition csvColumnTOTPEnabled :: string where "csvColumnTOTPEnabled = ''totp_enabled''"

lemmas csv_columns = csvColumnID_def csvColumnEmail_def csvColumnEmailAlt_def csvColumnDisplayName_def
  csvColumnName_def csvColumnNameAlt_def csvColumnEmailVerified_def csvColumnTOTPEnabled_def

text \<open>\<open>None\<close> stands for \<open>-1\<close>; the last column of a name counts.\<close>

fun csv_columns_from ::
  "(string \<Rightarrow> string) \<Rightarrow> nat \<Rightarrow> string list \<Rightarrow> nat option \<times> nat option \<Rightarrow> nat option \<times> nat option" where
  "csv_columns_from U i [] found = found"
| "csv_columns_from U i (col # cols) (emailIdx, nameIdx) =
     (let c = ToLower U (trim_space col) in
      csv_columns_from U (Suc i) cols
        (if c \<in> {csvColumnEmail, csvColumnEmailAlt} then (Some i, nameIdx)
         else if c \<in> {csvColumnDisplayName, csvColumnName, csvColumnNameAlt} then (emailIdx, Some i)
         else (emailIdx, nameIdx)))"

definition findCSVColumns :: "(string \<Rightarrow> string) \<Rightarrow> string list \<Rightarrow> nat option \<times> nat option" where
  "findCSVColumns U header = csv_columns_from U 0 header (None, None)"

definition csv_field :: "nat option \<Rightarrow> string list \<Rightarrow> string" where
  "csv_field idx row = (case idx of None \<Rightarrow> [] | Some i \<Rightarrow> if i < length row then trim_space (row ! i) else [])"

definition csv_users :: "(string \<Rightarrow> string) \<Rightarrow> string list list \<Rightarrow> ImportUser list" where
  "csv_users U rows =
     (case rows of
        [] \<Rightarrow> []
      | header # rest \<Rightarrow>
          (let (emailIdx, nameIdx) = findCSVColumns U header in
           filter (\<lambda>u. iu_Email u \<noteq> [])
             (map (\<lambda>row. \<lparr> iu_Email = csv_field emailIdx row, iu_DisplayName = csv_field nameIdx row \<rparr>)
               (filter (\<lambda>row. row \<noteq> []) rest))))"

definition ImportUsersFromCSV ::
  "'w service_env \<Rightarrow> (nat \<Rightarrow> stream_id) \<Rightarrow> err + string list list \<Rightarrow> 'w service
   \<Rightarrow> (err + ImportResult) \<times> 'w service" where
  "ImportUsersFromCSV P fresh read s =
     (case read of
        Inl e \<Rightarrow> (Inl (wrap_error Rejection e ''usermgmt.import.csv_read_failed'' ''read CSV''), s)
      | Inr rows \<Rightarrow> apfst Inr (importUsers P fresh (csv_users (sv_unicode_lower P) rows) s))"

section \<open>Exporting\<close>

record ExportUser =
  xu_ID :: user_id
  xu_Email :: string
  xu_DisplayName :: string
  xu_EmailVerified :: bool
  xu_TOTPEnabled :: bool
  xu_ExternalAccounts :: "ExternalAccount list"

text \<open>\<open>all\<close> is what \<open>AllUsers\<close> of the read model answers: its users, sorted by their creation.\<close>

definition exportAllUsers :: "User list \<Rightarrow> ExportUser list" where
  "exportAllUsers all =
     map (\<lambda>u. \<lparr> xu_ID = u_id u, xu_Email = u_email u, xu_DisplayName = u_display_name u,
            xu_EmailVerified = u_email_verified u, xu_TOTPEnabled = u_totp_enabled u,
            xu_ExternalAccounts = u_external_accounts u \<rparr>) all"

definition FormatBool :: "bool \<Rightarrow> string" where
  "FormatBool b = (if b then ''true'' else ''false'')"

text \<open>The records \<open>ExportUsersToCSV\<close> writes.\<close>

definition ExportUsersToCSV :: "id_env \<Rightarrow> User list \<Rightarrow> string list list" where
  "ExportUsersToCSV I all =
     [csvColumnID, csvColumnEmail, csvColumnDisplayName, csvColumnEmailVerified, csvColumnTOTPEnabled]
     # map (\<lambda>u. [user_text I (xu_ID u), xu_Email u, xu_DisplayName u, FormatBool (xu_EmailVerified u),
              FormatBool (xu_TOTPEnabled u)]) (exportAllUsers all)"

section \<open>What an import does\<close>

lemma import_from_append:
  "import_from P fresh i (us @ vs) st = import_from P fresh (i + length us) vs (import_from P fresh i us st)"
  by (induction us arbitrary: i st) simp_all

text \<open>Every user of a batch is imported, skipped or named in an error.\<close>

lemma import_step_counts:
  assumes "import_step P a u (r, s) = (r', s')"
  shows "ir_Imported r' + ir_Skipped r' \<le> Suc (ir_Imported r + ir_Skipped r)"
    and "ir_Imported r + ir_Skipped r + length (ir_Errors r)
      < ir_Imported r' + ir_Skipped r' + length (ir_Errors r')"
  using assms by (auto simp: import_step_def skipped_def split: prod.splits option.splits if_splits)

lemma import_counts:
  assumes "importUsers P fresh us s = (r, s')"
  shows "ir_Imported r + ir_Skipped r \<le> length us"
    and "length us \<le> ir_Imported r + ir_Skipped r + length (ir_Errors r)"
proof -
  have "ir_Imported r' + ir_Skipped r' \<le> length us + ir_Imported r0 + ir_Skipped r0
      \<and> length us + ir_Imported r0 + ir_Skipped r0 + length (ir_Errors r0)
        \<le> ir_Imported r' + ir_Skipped r' + length (ir_Errors r')"
    if "import_from P fresh i us (r0, s0) = (r', s1)" for i r0 s0 r' s1
    using that
  proof (induction us arbitrary: i r0 s0)
    case (Cons u us)
    obtain r1 s2 where one: "import_step P (fresh i) u (r0, s0) = (r1, s2)" by fastforce
    from Cons.IH [of "Suc i" r1 s2] Cons.prems one import_step_counts [OF one] show ?case by auto
  qed simp
  from this [of 0 "\<lparr> ir_Imported = 0, ir_Skipped = 0, ir_Errors = [] \<rparr>" s r s'] assms
  show "ir_Imported r + ir_Skipped r \<le> length us"
    and "length us \<le> ir_Imported r + ir_Skipped r + length (ir_Errors r)"
    by (auto simp: importUsers_def)
qed

text \<open>Users that are there already are skipped, and nothing is dispatched for them.\<close>

definition known_user :: "'w service_env \<Rightarrow> 'w service \<Rightarrow> ImportUser \<Rightarrow> bool" where
  "known_user P s u \<longleftrightarrow>
     (\<exists>v. ImportUser_Validate P u = (None, v) \<and> FindByEmail (users P s) (iu_Email v) \<noteq> None)"

lemma import_known:
  assumes "\<forall>u\<in>set us. known_user P s u"
  shows "importUsers P fresh us s = (\<lparr> ir_Imported = 0, ir_Skipped = length us, ir_Errors = [] \<rparr>, s)"
proof -
  have "import_from P fresh i us (r, s) = (r \<lparr> ir_Skipped := ir_Skipped r + length us \<rparr>, s)" for i r
    using assms
    by (induction us arbitrary: i r) (auto simp: known_user_def import_step_def skipped_def split: prod.splits)
  then show ?thesis by (simp add: importUsers_def)
qed

section \<open>An export can be imported\<close>

definition plain_char :: "char \<Rightarrow> bool" where
  "plain_char c \<longleftrightarrow> 32 < (of_char c :: nat) \<and> (of_char c :: nat) < 128"

lemma space_rune_ends: "\<forall>r\<in>set space_runes. \<not> plain_char (hd r) \<and> \<not> plain_char (last r)"
  by (auto simp: space_runes_def byte_def plain_char_def)

lemma lead_space_plain:
  assumes "\<forall>r\<in>set rs. r \<noteq> [] \<longrightarrow> \<not> plain_char (hd r)" and "s \<noteq> []" and "plain_char (hd s)"
  shows "lead_space rs s = None"
proof -
  have "\<not> has_prefix s r" if "r \<in> set rs" "r \<noteq> []" for r
    using assms that by (cases r; cases s) (auto simp: has_prefix_def)
  then show ?thesis by (auto simp: lead_space_def first_some_None)
qed

text \<open>A text that starts and ends with printable ASCII has no white space around it.\<close>

lemma trim_space_plain:
  assumes "s \<noteq> []" and "plain_char (hd s)" and "plain_char (last s)"
  shows "trim_space s = s"
proof -
  have "lead_space space_runes s = None"
    using space_rune_ends assms by (intro lead_space_plain) auto
  moreover have "lead_space (map rev space_runes) (rev s) = None"
    using space_rune_ends assms by (intro lead_space_plain) (auto simp: hd_rev)
  ultimately show ?thesis by (simp add: trim_space_def trim_left_fixed)
qed

lemma lower_columns:
  "\<forall>c\<in>{csvColumnID, csvColumnEmail, csvColumnDisplayName, csvColumnEmailVerified, csvColumnTOTPEnabled}.
     c \<noteq> [] \<and> (\<forall>x\<in>set c. plain_char x \<and> ascii_lower x = x)"
  by (simp add: csv_columns plain_char_def ascii_lower_def)

lemma lowered_columns:
  assumes "c \<in> {csvColumnID, csvColumnEmail, csvColumnDisplayName, csvColumnEmailVerified, csvColumnTOTPEnabled}"
  shows "ToLower U (trim_space c) = c"
proof -
  from lower_columns assms have c: "c \<noteq> []" "\<forall>x\<in>set c. plain_char x \<and> ascii_lower x = x" by blast+
  then have "trim_space c = c" by (intro trim_space_plain) auto
  moreover have "is_ascii c" using c(2) by (simp add: is_ascii_def plain_char_def)
  moreover have "map ascii_lower c = c" using c(2) by (simp add: map_idI)
  ultimately show ?thesis by (simp add: ToLower_def)
qed

lemma export_columns:
  "findCSVColumns U [csvColumnID, csvColumnEmail, csvColumnDisplayName, csvColumnEmailVerified, csvColumnTOTPEnabled]
   = (Some 1, Some 2)"
  by (simp add: findCSVColumns_def lowered_columns) (simp add: csv_columns)

text \<open>C33. Reading the records of a CSV export back gives, of the users that were exported and in their order, those whose
  email address is not blank: their email addresses and display names, each without the white space around it. (A user
  whose email address was emptied by a change is not read back.)\<close>

theorem import_reads_export:
  "csv_users U (ExportUsersToCSV I all) =
     filter (\<lambda>u. iu_Email u \<noteq> [])
       (map (\<lambda>u. \<lparr> iu_Email = trim_space (u_email u), iu_DisplayName = trim_space (u_display_name u) \<rparr>) all)"
  by (simp add: csv_users_def ExportUsersToCSV_def exportAllUsers_def export_columns csv_field_def comp_def
      filter_map)

end
