(* ===== verification/Service_Run.thy ===== *)
theory Service_Run
  imports Service_Dispatch Service_Factors Service_OAuth Service_WebAuthn Service_Admin Service_Import
begin

text \<open>
  The service as a whole: its operations as one type, the state an operation leaves, and what holds
  whatever operations run in whatever order. \<open>op_guard\<close> states under which condition an operation
  dispatches which command; \<open>op_runs\<close> is the one case analysis over all operations that shows it, and
  the properties follow by induction on the dispatches.
\<close>

section \<open>Operations\<close>

datatype 'e service_op =
    OpRegister user_id "err + string" time RegisterRequest
  | OpLogout string
  | OpAuthenticate time string
  | OpChangeEmail user_id string
  | OpChangeDisplayName user_id string
  | OpDeleteUser user_id string
  | OpAddCredential user_id WebAuthnCredential
  | OpRemoveCredential user_id bytes
  | OpSendVerificationEmail "err + string" time user_id
  | OpVerifyEmail time string
  | OpEnableTOTP "totp_provider option" duration time user_id
  | OpVerifyTOTPSetup "totp_provider option" time user_id string
  | OpVerifyTOTP "totp_provider option" user_id string
  | OpDisableTOTP "totp_provider option" user_id string
  | OpBeginOAuthLogin "oauth_provider option" "err + string" time string
  | OpFinishOAuthLogin "oauth_provider option" stream_id "err + string" time string string string
  | OpUnlinkExternalAccount "oauth_provider option" user_id string
  | OpBeginRegistration "webauthn_provider option" time user_id
  | OpFinishRegistration "webauthn_provider option" time user_id "err + bytes" string
  | OpBeginLogin "webauthn_provider option" time time string
  | OpFinishLogin "webauthn_provider option" "err + string" time user_id "err + bytes"
  | OpCreateTenant CreateTenantRequest
  | OpTenant tenant_id tenant_cmd
  | OpDeleteTenant tenant_id string
  | OpGrantRoles actor_id tenant_id "role list"
  | OpMember actor_id tenant_id member_cmd
  | OpRegisterBot "string \<Rightarrow> bytes \<Rightarrow> bytes" "bytes option" "err + string" RegisterBotRequest
  | OpDeleteBot bot_id string
  | OpBeginImpersonation "'e casbin" "user_id \<Rightarrow> string" "'e authz" "err + string" time user_id user_id string
  | OpEndImpersonation string
  | OpImport "nat \<Rightarrow> stream_id" "ImportUser list"
  | OpSweep time

text \<open>\<open>OpTenant\<close> is \<open>SuspendTenant\<close> and \<open>ReactivateTenant\<close>, \<open>OpMember\<close> the three membership
  operations and \<open>RevokeRoles\<close>; \<open>OpSweep\<close> is a tick of every background eviction.\<close>

definition sweep :: "time \<Rightarrow> 'w service \<Rightarrow> 'w service" where
  "sweep now s =
     s \<lparr> ss_sessions := snd (Sessions_EvictExpired now (ss_sessions s)),
         ss_lockout := map_option (\<lambda>l. snd (EvictStale now l)) (ss_lockout s),
         ss_challenges := snd (WebAuthn_EvictExpired now (ss_challenges s)),
         ss_tokens := snd (VerificationTokens_EvictExpired now (ss_tokens s)),
         ss_pending := snd (PendingTOTP_EvictExpired now (ss_pending s)),
         ss_states := snd (OAuth2State_EvictExpired now (ss_states s)) \<rparr>"

fun apply_op :: "'w service_env \<Rightarrow> 'e service_op \<Rightarrow> 'w service \<Rightarrow> 'w service" where
  "apply_op P (OpRegister fresh g now req) s = snd (Register P fresh g now req s)"
| "apply_op P (OpLogout token) s = snd (Logout P token s)"
| "apply_op P (OpAuthenticate now token) s = snd (Authenticate P now token s)"
| "apply_op P (OpChangeEmail u email) s = snd (ChangeEmail P u email s)"
| "apply_op P (OpChangeDisplayName u name) s = snd (ChangeDisplayName P u name s)"
| "apply_op P (OpDeleteUser u reason) s = snd (DeleteUser P u reason s)"
| "apply_op P (OpAddCredential u cred) s = snd (AddCredential P u cred s)"
| "apply_op P (OpRemoveCredential u c) s = snd (RemoveCredential P u c s)"
| "apply_op P (OpSendVerificationEmail g now u) s = snd (SendVerificationEmail P g now u s)"
| "apply_op P (OpVerifyEmail now token) s = snd (VerifyEmail P now token s)"
| "apply_op P (OpEnableTOTP totp ttl now u) s = snd (EnableTOTP P totp ttl now u s)"
| "apply_op P (OpVerifyTOTPSetup totp now u code) s = snd (VerifyTOTPSetup P totp now u code s)"
| "apply_op P (OpVerifyTOTP totp u code) s = snd (VerifyTOTP P totp u code s)"
| "apply_op P (OpDisableTOTP totp u code) s = snd (DisableTOTP P totp u code s)"
| "apply_op P (OpBeginOAuthLogin o2 g now p) s = snd (BeginOAuthLogin o2 g now p s)"
| "apply_op P (OpFinishOAuthLogin o2 fresh g now p code state) s =
     snd (FinishOAuthLogin P o2 fresh g now p code state s)"
| "apply_op P (OpUnlinkExternalAccount o2 u p) s = snd (UnlinkExternalAccount P o2 u p s)"
| "apply_op P (OpBeginRegistration wp now u) s = snd (BeginRegistration P wp now u s)"
| "apply_op P (OpFinishRegistration wp now u req name) s = snd (FinishRegistration P wp now u req name s)"
| "apply_op P (OpBeginLogin wp now now2 email) s = snd (BeginLogin P wp now now2 email s)"
| "apply_op P (OpFinishLogin wp g now u req) s = snd (FinishLogin P wp g now u req s)"
| "apply_op P (OpCreateTenant req) s = snd (CreateTenant P req s)"
| "apply_op P (OpTenant t cmd) s = snd (dispatch_tenant_cmd P t cmd s)"
| "apply_op P (OpDeleteTenant t reason) s = snd (DeleteTenant P t reason s)"
| "apply_op P (OpGrantRoles a t roles) s = snd (GrantRoles P a t roles s)"
| "apply_op P (OpMember a t cmd) s = snd (dispatch_member_cmd P a t cmd s)"
| "apply_op P (OpRegisterBot hash pepper g req) s = snd (RegisterBot P hash pepper g req s)"
| "apply_op P (OpDeleteBot b reason) s = snd (DeleteBot P b reason s)"
| "apply_op P (OpBeginImpersonation C show_user a g now caller target reason) s =
     snd (BeginImpersonation P C show_user a g now caller target reason s)"
| "apply_op P (OpEndImpersonation token) s = snd (EndImpersonation P token s)"
| "apply_op P (OpImport fresh us) s = snd (importUsers P fresh us s)"
| "apply_op P (OpSweep now) s = sweep now s"

section \<open>Which command under which condition\<close>

definition open_registration :: "'w service_env \<Rightarrow> 'w \<Rightarrow> bool" where
  "open_registration P w \<longleftrightarrow> sv_maxUsers P > 0 \<longrightarrow> int (User_Count (sv_users P w)) < sv_maxUsers P"

definition confirms_setup ::
  "'w service_env \<Rightarrow> totp_provider option \<Rightarrow> time \<Rightarrow> user_id \<Rightarrow> string \<Rightarrow> 'w service \<Rightarrow> bytes \<Rightarrow> bool" where
  "confirms_setup P totp now u code s secret \<longleftrightarrow>
     fst (PendingTOTP_Consume now (user_text (sv_ids P) u) (ss_pending s)) = Some secret
     \<and> (\<exists>tp. totp = Some tp \<and> tp_ValidateCode tp secret code)"

fun op_guard :: "'w service_env \<Rightarrow> 'e service_op \<Rightarrow> 'w service \<Rightarrow> 'w \<Rightarrow> stream_id \<Rightarrow> user_cmd \<Rightarrow> bool" where
  "op_guard P op s w a (RegisterUserCmd email name roles) \<longleftrightarrow>
     open_registration P w
     \<and> (case op of OpRegister fresh g now req \<Rightarrow> True | OpFinishOAuthLogin o2 f g now p code st \<Rightarrow> True
        | OpImport fresh us \<Rightarrow> True | _ \<Rightarrow> False)"
| "op_guard P op s w a (ChangeEmailCmd email) \<longleftrightarrow> (\<exists>u. op = OpChangeEmail u email \<and> aggIDFromUser P u = Inr a)"
| "op_guard P op s w a (ChangeDisplayNameCmd name) \<longleftrightarrow>
     (\<exists>u. op = OpChangeDisplayName u name \<and> aggIDFromUser P u = Inr a)"
| "op_guard P op s w a (DeleteUserCmd reason) \<longleftrightarrow> (\<exists>u. op = OpDeleteUser u reason \<and> aggIDFromUser P u = Inr a)"
| "op_guard P op s w a (AddCredentialCmd cred) \<longleftrightarrow>
     (case op of OpAddCredential u c \<Rightarrow> True | OpFinishRegistration wp now u req name \<Rightarrow> True | _ \<Rightarrow> False)"
| "op_guard P op s w a (RemoveCredentialCmd c) \<longleftrightarrow>
     (\<exists>u. op = OpRemoveCredential u c \<and> aggIDFromUser P u = Inr a)"
| "op_guard P op s w a (RecordCredentialUseCmd use) \<longleftrightarrow>
     (\<exists>wp g now u req. op = OpFinishLogin wp g now u req \<and> aggIDFromUser P u = Inr a)"
| "op_guard P op s w a VerifyEmailCmd \<longleftrightarrow>
     (case op of OpVerifyEmail now token \<Rightarrow> True | OpFinishOAuthLogin o2 f g now p code st \<Rightarrow> True | _ \<Rightarrow> False)"
| "op_guard P op s w a (EnableTOTPCmd secret) \<longleftrightarrow>
     (\<exists>totp now u code. op = OpVerifyTOTPSetup totp now u code \<and> aggIDFromUser P u = Inr a
        \<and> confirms_setup P totp now u code s secret)"
| "op_guard P op s w a DisableTOTPCmd \<longleftrightarrow>
     (\<exists>totp u code. op = OpDisableTOTP totp u code \<and> aggIDFromUser P u = Inr a
        \<and> requireValidTOTP P totp u code s = None)"
| "op_guard P op s w a (LinkExternalAccountCmd p su e n) \<longleftrightarrow>
     (\<exists>o2 f g now code st. op = OpFinishOAuthLogin o2 f g now p code st)"
| "op_guard P op s w a (UnlinkExternalAccountCmd p su) \<longleftrightarrow>
     (\<exists>o2 u. op = OpUnlinkExternalAccount o2 u p \<and> aggIDFromUser P u = Inr a)"

inductive runs ::
  "'w service_env \<Rightarrow> ('w \<Rightarrow> stream_id \<Rightarrow> user_cmd \<Rightarrow> bool) \<Rightarrow> 'w \<Rightarrow> 'w \<Rightarrow> bool" for P G w where
  runs_none: "runs P G w w"
| runs_user: "runs P G w w1 \<Longrightarrow> G w1 a cmd \<Longrightarrow> runs P G w (snd (sv_dispatch_user P a cmd w1))"
| runs_member: "runs P G w w1 \<Longrightarrow> runs P G w (snd (sv_dispatch_member P a c w1))"
| runs_tenant: "runs P G w w1 \<Longrightarrow> runs P G w (snd (sv_dispatch_tenant P a t w1))"
| runs_bot: "runs P G w w1 \<Longrightarrow> runs P G w (snd (sv_dispatch_bot P a b w1))"

lemma runs_dispatch:
  "sv_dispatch_user P a cmd w1 = (r, w2) \<Longrightarrow> runs P G w w1 \<Longrightarrow> G w1 a cmd \<Longrightarrow> runs P G w w2"
  using runs_user [of P G w w1 a cmd] by simp

lemma runs_dispatch_others:
  "sv_dispatch_member P a c w1 = (r, w2) \<Longrightarrow> runs P G w w1 \<Longrightarrow> runs P G w w2"
  "sv_dispatch_tenant P a t w1 = (r, w2) \<Longrightarrow> runs P G w w1 \<Longrightarrow> runs P G w w2"
  "sv_dispatch_bot P a b w1 = (r, w2) \<Longrightarrow> runs P G w w1 \<Longrightarrow> runs P G w w2"
  using runs_member [of P G w w1 a c] runs_tenant [of P G w w1 a t] runs_bot [of P G w w1 a b] by simp_all

lemma runs_memberships: "runs P G w w1 \<Longrightarrow> runs P G w (removeMemberships P ms w1)"
  by (induction ms arbitrary: w1) (auto intro: runs_member)

lemma runs_bots: "runs P G w w1 \<Longrightarrow> runs P G w (deleteBots P reason bs w1)"
  by (induction bs arbitrary: w1) (auto intro: runs_bot split: sum.splits)

lemma runs_revocations: "runs P G w w1 \<Longrightarrow> runs P G w (snd (revokeMemberships P t ms w1))"
proof (induction ms arbitrary: w1)
  case (Cons mem ms)
  from Cons.IH [OF runs_member [OF Cons.prems]] show ?case
    by (simp add: case_prod_unfold)
qed simp

lemmas runs_intros =
  runs_none runs_dispatch runs_dispatch_others runs_memberships runs_bots runs_revocations

lemma journal_world [simp]: "ss_world (auth_append P t p a s) = ss_world s"
  by (simp add: auth_append_def)

lemma audit_world [simp]:
  "ss_world (loginSuccess P u m s) = ss_world s"
  "ss_world (loginFailure P u m r s) = ss_world s"
  "ss_world (registrationClosed P s) = ss_world s"
  "ss_world (oauth2LoginSuccess P u p s) = ss_world s"
  "ss_world (audited_Create P session s) = ss_world s"
  "ss_world (audited_Delete P cause token s) = ss_world s"
  "ss_world (audited_DeleteByUserID P u s) = ss_world s"
  by (auto simp: loginSuccess_def loginFailure_def registrationClosed_def oauth2LoginSuccess_def
      audited_Create_def sessionStarted_def audited_Delete_def sessionEnded_def
      audited_DeleteByUserID_def sessionsRevokedForUser_def Let_def split: SessionOrigin.splits sum.splits)

lemma session_world [simp]:
  "ss_world (snd (createAndStoreSession P g now u s)) = ss_world s"
  by (simp add: createAndStoreSession_def split: sum.splits)

lemma session_worldD: "createAndStoreSession P g now u s = (r, s') \<Longrightarrow> ss_world s' = ss_world s"
  using session_world [of P g now u s] by simp

text \<open>Following an operation branch by branch.\<close>

lemma branch_rules:
  "(b \<Longrightarrow> Q (snd x)) \<Longrightarrow> (\<not> b \<Longrightarrow> Q (snd y)) \<Longrightarrow> Q (snd (if b then x else y))"
  "(\<And>e. r = Inl e \<Longrightarrow> Q (snd (f e))) \<Longrightarrow> (\<And>v. r = Inr v \<Longrightarrow> Q (snd (h v))) \<Longrightarrow> Q (snd (case_sum f h r))"
  "(q = None \<Longrightarrow> Q (snd n)) \<Longrightarrow> (\<And>v. q = Some v \<Longrightarrow> Q (snd (k v))) \<Longrightarrow> Q (snd (case_option n k q))"
  "(\<And>u v. p = (u, v) \<Longrightarrow> Q (snd (l u v))) \<Longrightarrow> Q (snd (case_prod l p))"
  by (auto split: sum.splits option.splits prod.splits)

lemmas runs_branches = branch_rules [where Q = "\<lambda>s. runs P G w (ss_world s)" for P G w]

lemma Register_runs:
  "runs P (op_guard P (OpRegister fresh g now req) s) (ss_world s) (ss_world (snd (Register P fresh g now req s)))"
  unfolding Register_def Let_def
  by (intro runs_branches)
     (auto simp: open_registration_def users_def dest!: session_worldD intro: runs_intros)

lemma user_command_runs:
  assumes "\<And>a. aggIDFromUser P u = Inr a \<Longrightarrow> G (ss_world s) a cmd"
  shows "runs P G (ss_world s) (ss_world (snd (dispatchUserCommand P u cmd kv s)))"
  using assms unfolding dispatchUserCommand_def
  by (intro runs_branches) (auto intro: runs_intros)

lemma DeleteUser_runs:
  "runs P (op_guard P (OpDeleteUser u reason) s) (ss_world s) (ss_world (snd (DeleteUser P u reason s)))"
proof -
  have "runs P (op_guard P (OpDeleteUser u reason) s) (ss_world s)
    (ss_world (snd (dispatchUserCommand P u (DeleteUserCmd reason) [(''reason'', reason)] s)))"
    by (rule user_command_runs) simp
  then show ?thesis
    by (auto simp: DeleteUser_def deleteBotsForUserBestEffort_def removeMembershipsForUserBestEffort_def
        split: prod.splits option.splits intro!: runs_bots runs_memberships)
qed

lemma factor_runs:
  "runs P (op_guard P (OpVerifyEmail now token) s) (ss_world s) (ss_world (snd (VerifyEmail P now token s)))"
  "runs P (op_guard P (OpVerifyTOTPSetup totp now u code) s) (ss_world s)
     (ss_world (snd (VerifyTOTPSetup P totp now u code s)))"
  "runs P (op_guard P (OpDisableTOTP totp u code) s) (ss_world s) (ss_world (snd (DisableTOTP P totp u code s)))"
  unfolding VerifyEmail_def VerifyTOTPSetup_def DisableTOTP_def
  by (intro runs_branches; auto simp: confirms_setup_def intro: runs_intros)+

lemma factor_worlds [simp]:
  "ss_world (snd (SendVerificationEmail P g now u s)) = ss_world s"
  "ss_world (snd (EnableTOTP P totp ttl now u s)) = ss_world s"
  "ss_world (snd (VerifyTOTP P totp u code s)) = ss_world s"
  by (auto simp: SendVerificationEmail_def EnableTOTP_def VerifyTOTP_def split: sum.splits option.splits prod.splits)

lemma markEmailVerified_runs:
  assumes "runs P G w (ss_world s)" and "\<And>w a. G w a VerifyEmailCmd"
  shows "runs P G w (ss_world (markEmailVerifiedIfMatch P a u email s))"
  using assms by (auto simp: markEmailVerifiedIfMatch_def split: option.splits intro: runs_user)

lemma linkExternalAccount_runs:
  assumes "runs P G w (ss_world s)" and "\<And>w a su e n. G w a (LinkExternalAccountCmd provider su e n)"
    and "\<And>w a. G w a VerifyEmailCmd"
  shows "runs P G w (ss_world (snd (linkExternalAccount P u provider info s)))"
  using assms unfolding linkExternalAccount_def Let_def
  by (intro runs_branches) (auto intro!: markEmailVerified_runs intro: runs_intros)

lemma linkExternalAccount_runsD:
  "linkExternalAccount P u provider info s = (r, s') \<Longrightarrow> runs P G w (ss_world s) \<Longrightarrow>
   (\<And>w a su e n. G w a (LinkExternalAccountCmd provider su e n)) \<Longrightarrow> (\<And>w a. G w a VerifyEmailCmd) \<Longrightarrow>
   runs P G w (ss_world s')"
  using linkExternalAccount_runs [of P G w s provider u info] by simp

lemma matchVerifiedEmail_runs:
  assumes "runs P G w (ss_world s)" and "\<And>w a su e n. G w a (LinkExternalAccountCmd provider su e n)"
    and "\<And>w a. G w a VerifyEmailCmd"
  shows "runs P G w (ss_world (snd (matchVerifiedEmail P provider info s)))"
  using assms unfolding matchVerifiedEmail_def
  by (intro runs_branches) (auto elim!: linkExternalAccount_runsD)

lemma provisionLinkedUser_runs:
  assumes "runs P G w (ss_world s)" and "\<And>w a su e n. G w a (LinkExternalAccountCmd provider su e n)"
    and "\<And>w a. G w a VerifyEmailCmd"
    and "\<And>w a e n r. open_registration P w \<Longrightarrow> G w a (RegisterUserCmd e n r)"
  shows "runs P G w (ss_world (snd (provisionLinkedUser P freshID provider info s)))"
  using assms unfolding provisionLinkedUser_def Let_def
  by (intro runs_branches)
     (auto simp: open_registration_def users_def intro: runs_intros elim!: linkExternalAccount_runsD)

lemma matchOrCreateUser_runs:
  assumes "runs P G w (ss_world s)" and "\<And>w a su e n. G w a (LinkExternalAccountCmd provider su e n)"
    and "\<And>w a. G w a VerifyEmailCmd"
    and "\<And>w a e n r. open_registration P w \<Longrightarrow> G w a (RegisterUserCmd e n r)"
  shows "runs P G w (ss_world (snd (matchOrCreateUser P freshID provider info s)))"
proof -
  have m: "runs P G w (ss_world s1)" if "matchVerifiedEmail P provider info s = (r, s1)" for r s1
    using matchVerifiedEmail_runs [OF assms(1-3), where info = info] that by simp
  show ?thesis
    using assms unfolding matchOrCreateUser_def
    by (intro runs_branches) (auto intro: m provisionLinkedUser_runs)
qed

lemma completeLogin_runs:
  assumes "runs P G w (ss_world s)" and "\<And>w a su e n. G w a (LinkExternalAccountCmd provider su e n)"
    and "\<And>w a. G w a VerifyEmailCmd"
    and "\<And>w a e n r. open_registration P w \<Longrightarrow> G w a (RegisterUserCmd e n r)"
  shows "runs P G w (ss_world (snd (completeLogin P o2 freshID g now provider json s)))"
proof -
  have m: "runs P G w (ss_world s1)" if "matchOrCreateUser P freshID provider info s = (r, s1)" for info r s1
    using matchOrCreateUser_runs [OF assms, where freshID = freshID and info = info] that by simp
  show ?thesis
    using assms(1) unfolding completeLogin_def Let_def
    by (intro runs_branches) (auto dest!: session_worldD intro: m)
qed

lemma FinishOAuthLogin_runs:
  "runs P (op_guard P (OpFinishOAuthLogin o2 fresh g now p code state :: 'e service_op) s) (ss_world s)
     (ss_world (snd (FinishOAuthLogin P o2 fresh g now p code state s)))"
  unfolding FinishOAuthLogin_def OAuth_FinishLogin_def Let_def
  by (intro runs_branches) (auto intro!: completeLogin_runs intro: runs_none)

lemma Unlink_runs:
  "runs P (op_guard P (OpUnlinkExternalAccount o2 u p) s) (ss_world s)
     (ss_world (snd (UnlinkExternalAccount P o2 u p s)))"
  unfolding UnlinkExternalAccount_def OAuth_Unlink_def Let_def
  by (intro runs_branches) (auto intro: runs_intros)

lemma BeginOAuthLogin_world [simp]: "ss_world (snd (BeginOAuthLogin o2 g now p s)) = ss_world s"
  by (auto simp: BeginOAuthLogin_def OAuth_BeginLogin_def split: option.splits sum.splits)

lemma webauthn_worlds [simp]:
  "ss_world (snd (BeginRegistration P wp now u s)) = ss_world s"
  "ss_world (snd (BeginLogin P wp now now2 email s)) = ss_world s"
  "ss_world (snd (finishLoginFailed P now u user e s)) = ss_world s"
  by (auto simp: BeginRegistration_def BeginLogin_def finishLoginFailed_def Let_def
      split: option.splits sum.splits prod.splits)

lemma finishLoginFailed_worldD: "finishLoginFailed P now u user e s = (e', s') \<Longrightarrow> ss_world s' = ss_world s"
  using webauthn_worlds(3) [of P now u user e s] by simp

lemma FinishRegistration_runs:
  "runs P (op_guard P (OpFinishRegistration wp now u req name) s) (ss_world s)
     (ss_world (snd (FinishRegistration P wp now u req name s)))"
  unfolding FinishRegistration_def Let_def
  by (intro runs_branches) (auto intro: runs_intros)

lemma recordCredentialUse_runs:
  assumes "recordCredentialUse P wp u json s = (r, s')" and "runs P G w (ss_world s)"
    and "\<And>w a use. aggIDFromUser P u = Inr a \<Longrightarrow> G w a (RecordCredentialUseCmd use)"
  shows "runs P G w (ss_world s')"
proof -
  have "runs P G w (ss_world (snd (recordCredentialUse P wp u json s)))"
    using assms(2,3) unfolding recordCredentialUse_def
    by (intro runs_branches) (auto intro: runs_intros)
  with assms(1) show ?thesis by simp
qed

lemma FinishLogin_runs:
  "runs P (op_guard P (OpFinishLogin wp g now u req) s) (ss_world s)
     (ss_world (snd (FinishLogin P wp g now u req s)))"
  unfolding FinishLogin_def Let_def
  by (intro runs_branches)
     (auto simp: runs_none dest!: session_worldD finishLoginFailed_worldD elim!: recordCredentialUse_runs)

lemma admin_runs:
  "runs P G (ss_world s) (ss_world (snd (CreateTenant P creq s)))"
  "runs P G (ss_world s) (ss_world (snd (dispatch_tenant_cmd P t tcmd s)))"
  "runs P G (ss_world s) (ss_world (snd (RegisterBot P hash pepper g breq s)))"
  "runs P G (ss_world s) (ss_world (snd (DeleteBot P b reason s)))"
  unfolding CreateTenant_def dispatch_tenant_cmd_def RegisterBot_def DeleteBot_def
  by (intro runs_branches; auto intro: runs_intros)+

lemma DeleteTenant_runs: "runs P G (ss_world s) (ss_world (snd (DeleteTenant P t reason s)))"
  using admin_runs(2) [of P G s t "DeleteTenantCmd reason"] unfolding DeleteTenant_def
  by (intro runs_branches)
     (auto simp: revokeMembershipsForTenantBestEffort_def intro: runs_revocations)

lemma member_cmd_runs:
  "runs P G w (ss_world s) \<Longrightarrow> runs P G w (ss_world (snd (dispatch_member_cmd P a t cmd s)))"
  unfolding dispatch_member_cmd_def by (intro runs_branches) (auto intro: runs_dispatch_others)

lemma member_cmd_runsD:
  "dispatch_member_cmd P a t cmd s = (r, s') \<Longrightarrow> runs P G w (ss_world s) \<Longrightarrow> runs P G w (ss_world s')"
  using member_cmd_runs [of P G w s a t cmd] by simp

lemma GrantRoles_runs: "runs P G (ss_world s) (ss_world (snd (GrantRoles P a t roles s)))"
  unfolding GrantRoles_def AddMember_def UpdateMemberRoles_def
  by (intro runs_branches) (auto intro: runs_none member_cmd_runs member_cmd_runsD)

lemma impersonation_worlds [simp]:
  "ss_world (snd (BeginImpersonation P C sh a g now caller target reason s)) = ss_world s"
  "ss_world (snd (EndImpersonation P token s)) = ss_world s"
  by (auto simp: BeginImpersonation_def EndImpersonation_def split: option.splits sum.splits SessionOrigin.splits)

lemma session_op_worlds [simp]:
  "ss_world (snd (Logout P token s)) = ss_world s"
  "ss_world (snd (Authenticate P now token s)) = ss_world s"
  "ss_world (sweep now s) = ss_world s"
  by (auto simp: Logout_def Authenticate_def sweep_def split: option.splits sum.splits)

lemma import_step_runs:
  assumes "runs P G w (ss_world s)" and "\<And>w a e n r. open_registration P w \<Longrightarrow> G w a (RegisterUserCmd e n r)"
  shows "runs P G w (ss_world (snd (import_step P a u (r, s))))"
  using assms unfolding import_step_def prod.case
  by (intro runs_branches) (auto simp: open_registration_def users_def intro: runs_intros)

lemma importUsers_runs:
  "runs P (op_guard P (OpImport fresh us :: 'e service_op) s) (ss_world s) (ss_world (snd (importUsers P fresh us s)))"
proof -
  let ?G = "op_guard P (OpImport fresh us :: 'e service_op) s"
  have "runs P ?G w (ss_world (snd (import_from P fresh i vs (r, s1))))"
    if "runs P ?G w (ss_world s1)" for w i vs r s1
    using that
  proof (induction vs arbitrary: i r s1)
    case (Cons v vs)
    obtain r2 s2 where one: "import_step P (fresh i) v (r, s1) = (r2, s2)" by fastforce
    with import_step_runs [OF Cons.prems, of "fresh i" v r]
    have "runs P ?G w (ss_world s2)" by simp
    from Cons.IH [OF this] one show ?case by simp
  qed simp
  from this [OF runs_none] show ?thesis by (simp add: importUsers_def)
qed

text \<open>Every operation only dispatches what its guard allows.\<close>

lemma op_runs: "runs P (op_guard P op s) (ss_world s) (ss_world (apply_op P op s))"
  by (cases op)
     (simp_all add: runs_none Register_runs user_command_runs DeleteUser_runs factor_runs FinishOAuthLogin_runs
       Unlink_runs FinishRegistration_runs FinishLogin_runs admin_runs member_cmd_runs DeleteTenant_runs GrantRoles_runs
       importUsers_runs
       ChangeEmail_def ChangeDisplayName_def AddCredential_def RemoveCredential_def)

lemma guard_registration: "op_guard P op s w a cmd \<Longrightarrow> is_registration cmd \<Longrightarrow> open_registration P w"
  by (cases cmd) (auto simp: is_registration_def)

section \<open>What holds whatever operations run\<close>

definition run_ops :: "'w service_env \<Rightarrow> 'e service_op list \<Rightarrow> 'w service \<Rightarrow> 'w service" where
  "run_ops P ops s = fold (apply_op P) ops s"

context dispatching begin

lemma runs_world:
  assumes "runs P G w w'" and env: "env_ok E" and "in_world w" and "\<And>w a cmd. G w a cmd \<Longrightarrow> ok cmd"
  shows "in_world w'"
  using assms(1)
proof induction
  case runs_none
  show ?case by fact
next
  case (runs_user w1 a cmd)
  obtain r w2 where "sv_dispatch_user P a cmd w1 = (r, w2)" by fastforce
  with dispatch_world [OF env runs_user.IH assms(4) [OF runs_user.hyps(2)]] show ?case by simp
qed (simp_all add: same_world [OF dispatch_others(1) [OF contract [OF env]]]
    same_world [OF dispatch_others(2) [OF contract [OF env]]] same_world [OF dispatch_others(3) [OF contract [OF env]]])

lemma runs_count:
  assumes "runs P G w w'" and env: "env_ok E" and "in_world w" and "\<And>w a cmd. G w a cmd \<Longrightarrow> ok cmd"
    and "\<And>w a cmd. G w a cmd \<Longrightarrow> is_registration cmd \<Longrightarrow> open_registration P w" and "0 < sv_maxUsers P"
  shows "int (User_Count (sv_users P w')) \<le> max (int (User_Count (sv_users P w))) (sv_maxUsers P)"
  using assms(1)
proof induction
  case (runs_user w1 a cmd)
  obtain r w2 where d: "sv_dispatch_user P a cmd w1 = (r, w2)" by fastforce
  from runs_world [OF runs_user.hyps(1) env assms(3,4)] have "in_world w1" .
  from dispatch_count [OF env this d] runs_user.IH assms(5) [OF runs_user.hyps(2)] assms(6) d show ?case
    by (auto simp: open_registration_def split: if_splits)
qed (use dispatch_others [OF contract [OF env]] in \<open>auto simp: same_users_def\<close>)

text \<open>The second factor after a run: as before, or as some command the guard allows leaves it.\<close>

lemma runs_factor:
  assumes "runs P G w w'" and env: "env_ok E" and "in_world w" and "\<And>w a cmd. G w a cmd \<Longrightarrow> ok cmd"
  shows "second_factor (S w' b) = second_factor (S w b)
    \<or> (\<exists>w1 secret. G w1 b (EnableTOTPCmd secret) \<and> second_factor (S w' b) = (True, secret))
    \<or> (\<exists>w1 cmd. G w1 b cmd \<and> (cmd = DisableTOTPCmd \<or> (\<exists>email. cmd = ChangeEmailCmd email))
         \<and> second_factor (S w' b) = (False, []))"
    (is "?R w'")
  using assms(1)
proof induction
  case (runs_user w1 a cmd)
  obtain r w2 where d: "sv_dispatch_user P a cmd w1 = (r, w2)" by fastforce
  from runs_world [OF runs_user.hyps(1) env assms(3,4)] have "in_world w1" .
  from dispatch_factor [OF env this d, of b] consider "second_factor (S w2 b) = second_factor (S w1 b)"
    | "b = a" "second_factor (S w2 b) = factor_after cmd (S w1 b)" by blast
  then have "?R w2"
  proof cases
    case 1
    with runs_user.IH show ?thesis by simp
  next
    case 2
    with runs_user show ?thesis by (cases cmd) (auto split: if_splits)
  qed
  with d show ?case by simp
qed (use dispatch_others [OF contract [OF env]] in \<open>auto simp: same_users_def\<close>)

lemma op_world:
  assumes "env_ok E" and "in_world (ss_world s)" and "\<And>w a cmd. op_guard P op s w a cmd \<Longrightarrow> ok cmd"
  shows "in_world (ss_world (apply_op P op s))"
  by (rule runs_world [OF op_runs assms])

lemma ops_count:
  assumes "env_ok E" and "in_world (ss_world s)" and "\<And>cmd. ok cmd" and "0 < sv_maxUsers P"
  shows "int (User_Count (users P (run_ops P ops s))) \<le> max (int (User_Count (users P s))) (sv_maxUsers P)"
  using assms(2)
proof (induction ops arbitrary: s)
  case (Cons op ops)
  have "int (User_Count (sv_users P (ss_world (apply_op P op s))))
      \<le> max (int (User_Count (sv_users P (ss_world s)))) (sv_maxUsers P)"
    by (rule runs_count [OF op_runs assms(1) Cons.prems]) (use assms(3,4) in \<open>auto dest: guard_registration\<close>)
  with Cons.IH [OF op_world [OF assms(1) Cons.prems assms(3)], of op] show ?case
    by (simp add: run_ops_def users_def)
qed (simp add: run_ops_def)

end

text \<open>C26. The user limit holds whatever operations run in whatever order: from any world, the number of
  users never exceeds \<open>MaxUsers\<close> (or what it was, when the limit was set below it) - neither
  through registrations and imports nor through the accounts that first OAuth2 logins provision.\<close>

theorem user_limit_kept:
  assumes "env_ok E" and "dispatcher_ok E P S" and "user_world E (\<lambda>_. True) (S (ss_world s)) (users P s)"
    and "0 < sv_maxUsers P"
  shows "int (User_Count (users P (run_ops P ops s))) \<le> max (int (User_Count (users P s))) (sv_maxUsers P)"
  using dispatching.ops_count [where ok = "\<lambda>_. True", OF dispatching.intro [OF assms(2)] assms(1)] assms(3,4)
  by (simp add: dispatching.in_world_def dispatching_def users_def assms(2))

lemma user_limit_kept_witness:
  "int (User_Count (users demo_service (run_ops demo_service
     [OpRegister (UserID 3) (Inr ''t'') 0 \<lparr> rq_ID = UserID 1, rq_Email = ''a@b.c'', rq_DisplayName = ''A'' \<rparr> :: mem_enforcer service_op,
      OpRegister (UserID 4) (Inr ''t'') 0 \<lparr> rq_ID = UserID 2, rq_Email = ''d@e.f'', rq_DisplayName = ''D'' \<rparr>]
     (demo_start (\<lambda>a. UserState_zero, NewUserReadModel))))) \<le> 1"
proof -
  have "user_world demo_env (\<lambda>_. True) (\<lambda>a. UserState_zero) NewUserReadModel" by (rule world_init)
  then have "user_world demo_env (\<lambda>_. True) (fst (ss_world (demo_start (\<lambda>a. UserState_zero, NewUserReadModel))))
      (users demo_service (demo_start (\<lambda>a. UserState_zero, NewUserReadModel)))"
    by (simp add: demo_start_def users_def demo_service_simps)
  from user_limit_kept [OF demo_env_ok demo_service_ok this, of "[OpRegister (UserID 3) (Inr ''t'') 0
      \<lparr> rq_ID = UserID 1, rq_Email = ''a@b.c'', rq_DisplayName = ''A'' \<rparr> :: mem_enforcer service_op,
      OpRegister (UserID 4) (Inr ''t'') 0 \<lparr> rq_ID = UserID 2, rq_Email = ''d@e.f'', rq_DisplayName = ''D'' \<rparr>]"]
  show ?thesis
    by (simp add: demo_service_simps(2) User_Count_def NewUserReadModel_def users_def demo_service_simps(1) demo_start_def)
qed

text \<open>C22. The second factor of a user is guarded: an operation changes it only when it confirms a setup
  with a code that the provider accepts for the very secret \<open>EnableTOTP\<close> issued and that has not
  expired, when it disables TOTP with a code accepted for the active secret - or when it changes the
  user's email address, which drops the factor without any code.\<close>

theorem second_factor_guarded:
  assumes "env_ok E" and "dispatcher_ok E P S" and "user_world E (\<lambda>_. True) (S (ss_world s)) (users P s)"
    and "before = second_factor (S (ss_world s) a)" and "after = second_factor (S (ss_world (apply_op P op s)) a)"
  shows "after = before
    \<or> (\<exists>totp now u code secret. op = OpVerifyTOTPSetup totp now u code \<and> aggIDFromUser P u = Inr a
         \<and> confirms_setup P totp now u code s secret \<and> after = (True, secret))
    \<or> (\<exists>totp u code. op = OpDisableTOTP totp u code \<and> aggIDFromUser P u = Inr a
         \<and> requireValidTOTP P totp u code s = None \<and> after = (False, []))
    \<or> (\<exists>u email. op = OpChangeEmail u email \<and> aggIDFromUser P u = Inr a \<and> after = (False, []))"
proof -
  have D: "dispatching E P S" by (simp add: dispatching_def assms(2))
  have "dispatching.in_world E P S (\<lambda>_. True) (ss_world s)"
    using assms(3) by (simp add: dispatching.in_world_def [OF D] users_def)
  from dispatching.runs_factor [OF D op_runs assms(1) this, of op a] assms(4,5) show ?thesis by auto
qed

lemma second_factor_guarded_witness:
  "second_factor (fst (ss_world (apply_op demo_service (OpDisableTOTP None (UserID 1) ''0'' :: mem_enforcer service_op)
      (demo_start (\<lambda>a. UserState_zero, NewUserReadModel)))) ''x'') = (False, [])"
proof -
  have "user_world demo_env (\<lambda>_. True) (\<lambda>a. UserState_zero) NewUserReadModel" by (rule world_init)
  then have "user_world demo_env (\<lambda>_. True) (fst (ss_world (demo_start (\<lambda>a. UserState_zero, NewUserReadModel))))
      (users demo_service (demo_start (\<lambda>a. UserState_zero, NewUserReadModel)))"
    by (simp add: demo_start_def users_def demo_service_simps)
  from second_factor_guarded [where a = "''x''"
      and op = "OpDisableTOTP None (UserID 1) ''0'' :: mem_enforcer service_op",
      OF demo_env_ok demo_service_ok this refl refl]
  show ?thesis by (auto simp: demo_start_def second_factor_def UserState_zero_def)
qed

end
