(* ===== verification/Service_OAuth_Login.thy ===== *)
theory Service_OAuth_Login
  imports Service_Run
begin

text \<open>
  Who an OAuth2 login signs in: a user that holds the external identity, found by it, matched by an email
  address the provider verified, or registered for it; and only for a state that was saved for this very
  provider, has not expired and cannot be used again.
\<close>

section \<open>The identifier of a projected user\<close>

definition named :: "'raw event_env \<Rightarrow> (stream_id, User) gomap \<Rightarrow> bool" where
  "named E U \<longleftrightarrow> (\<forall>a u. map_get U a = Some u \<longrightarrow> u_id u = NewUserID (ids E) a)"

lemma named_get: "named E U \<Longrightarrow> map_get U a = Some u \<Longrightarrow> u_id u = NewUserID (ids E) a"
  by (simp add: named_def)

lemma named_put [simp]: "named E U \<Longrightarrow> u_id u = NewUserID (ids E) a \<Longrightarrow> named E (map_put a u U)"
  by (simp add: named_def)

lemma named_del [simp]: "named E U \<Longrightarrow> named E (map_del a U)"
  by (simp add: named_def)

lemma on_user_named:
  "named E (rm_users m) \<Longrightarrow> (\<And>u. u_id (f u) = u_id u) \<Longrightarrow> named E (rm_users (on_user m a f))"
  by (auto simp: on_user_def named_get split: option.splits)

lemma handlers_named:
  assumes "named E (rm_users m)"
  shows "handleUserRegistered E evt m = Inr m' \<Longrightarrow> named E (rm_users m')"
    and "handleEmailChanged E evt m = Inr m' \<Longrightarrow> named E (rm_users m')"
    and "handleUserDeleted E evt m = Inr m' \<Longrightarrow> named E (rm_users m')"
    and "handleExternalAccountUnlinked E evt m = Inr m' \<Longrightarrow> named E (rm_users m')"
    and "handleCredentialUsed E evt m = Inr m' \<Longrightarrow> named E (rm_users m')"
    and "handleCredentialAdded E evt m = Inr m' \<Longrightarrow> named E (rm_users m')"
  using assms
  by (auto simp: handleUserRegistered_def handleEmailChanged_def handleUserDeleted_def
      handleExternalAccountUnlinked_def handleCredentialUsed_def handleCredentialAdded_def on_ok_eq_Inr
      Let_def named_get intro!: on_user_named split: option.splits)

lemma linked_named:
  "named E (rm_users m) \<Longrightarrow> handleExternalAccountLinked E evt m = Inr m' \<Longrightarrow> named E (rm_users m')"
  by (cases "map_get (rm_users m) (evt_stream evt)")
     (auto simp: handleExternalAccountLinked_def on_ok_eq_Inr Let_def named_get simp del: if_split)

lemma field_handlers_named:
  assumes "named E (rm_users m)"
  shows "handleRolesUpdated E evt m = Inr m' \<Longrightarrow> named E (rm_users m')"
    and "handleDisplayNameChanged E evt m = Inr m' \<Longrightarrow> named E (rm_users m')"
    and "handleCredentialRemoved E evt m = Inr m' \<Longrightarrow> named E (rm_users m')"
    and "handleEmailVerified E evt m = Inr m' \<Longrightarrow> named E (rm_users m')"
    and "handleTOTPEnabled E evt m = Inr m' \<Longrightarrow> named E (rm_users m')"
    and "handleTOTPDisabled E evt m = Inr m' \<Longrightarrow> named E (rm_users m')"
  using assms
  by (auto simp: handleRolesUpdated_def handleDisplayNameChanged_def handleCredentialRemoved_def
      handleEmailVerified_def handleTOTPEnabled_def handleTOTPDisabled_def on_ok_eq_Inr intro!: on_user_named)

lemma Handle_user_named:
  assumes "Handle_user E m evt = Inr m'" and "named E (rm_users m)"
  shows "named E (rm_users m')"
  using assms(1) handlers_named [OF assms(2), of evt m'] linked_named [OF assms(2), of evt m']
    field_handlers_named [OF assms(2), of evt m'] assms(2)
  unfolding Handle_user_def by (cases "evt_type evt"; simp)

lemma handled_named:
  "fold_events (Handle_user E) m es = Inr m' \<Longrightarrow> named E (rm_users m) \<Longrightarrow> named E (rm_users m')"
  by (induction es arbitrary: m) (auto simp: on_ok_eq_Inr dest: Handle_user_named)

lemma world_named: "user_world E ok S m \<Longrightarrow> named E (rm_users m)"
proof (induction rule: user_world.induct)
  case world_init
  show ?case by (simp add: NewUserReadModel_def named_def)
qed (rule handled_named)

section \<open>Linking binds\<close>

abbreviation holds :: "User \<Rightarrow> string \<Rightarrow> string \<Rightarrow> bool" where
  "holds user provider subject \<equiv> (provider, subject) \<in> account_key ` set (u_external_accounts user)"

lemma aggIDFromUser_parse: "aggIDFromUser P u = Inr a \<Longrightarrow> FindByUserID P m u = FindByID m a"
  by (auto simp: aggIDFromUser_def aggIDFromBranded_def FindByUserID_def split: sum.splits)

definition accounts :: "UserState \<Rightarrow> (string \<times> string) set" where
  "accounts s = account_key ` set (us_external_accounts s)"

context dispatching begin

lemma verify_accounts:
  assumes "env_ok E" and "sv_dispatch_user P b VerifyEmailCmd w = (r, w')"
  shows "accounts (S w' a) = accounts (S w a)"
proof (cases r)
  case None
  with assms(2) have "sv_dispatch_user P b VerifyEmailCmd w = (None, w')" by simp
  then obtain at s' where "user_spec VerifyEmailCmd at (S w b) = Some s'" "S w' = (S w)(b := s')"
    by (rule dispatch_spec [OF assms(1)])
  then show ?thesis by (auto simp: accounts_def split: if_splits)
next
  case (Some e)
  with assms(2) dispatch_Some [OF contract [OF assms(1)]] have "same_users P S w w'" by blast
  then show ?thesis by (simp add: same_users_def)
qed

lemma mark_accounts:
  assumes "env_ok E"
  shows "accounts (S (ss_world (markEmailVerifiedIfMatch P b u email s)) a) = accounts (S (ss_world s) a)"
proof -
  have "accounts (S (snd (sv_dispatch_user P b VerifyEmailCmd (ss_world s))) a) = accounts (S (ss_world s) a)"
    using verify_accounts [OF assms, of b "ss_world s"] by (metis prod.collapse)
  then show ?thesis by (simp add: markEmailVerifiedIfMatch_def split: option.splits)
qed

lemma shown_accounts:
  assumes "env_ok E" and "in_world w" and "FindByID (sv_users P w) a = Some user"
  shows "account_key ` set (u_external_accounts user) = accounts (S w a)"
  using shown [OF assms(1,2), of a] assms(3) by (simp add: projects_def view_of_def accounts_def)

lemma link_world:
  assumes "env_ok E" and "in_world (ss_world s)" and "\<forall>cmd. keeps_email cmd \<longrightarrow> ok cmd"
    and "linkExternalAccount P u provider info s = (r, s')"
  shows "in_world (ss_world s')"
  by (rule runs_world [OF linkExternalAccount_runsD [OF assms(4) runs_none, where G = "\<lambda>w a. keeps_email"] assms(1,2)])
     (use assms(3) in \<open>auto simp: keeps_email_def\<close>)

lemma link_binds:
  assumes env: "env_ok E" and w: "in_world (ss_world s)" and oks: "\<forall>cmd. keeps_email cmd \<longrightarrow> ok cmd"
    and l: "linkExternalAccount P u provider info s = (None, s')"
    and f: "FindByUserID P (users P s') u = Some user"
  shows "holds user provider (oi_Subject info)"
proof (cases "\<exists>ea\<in>set (readUserExternalAccounts P u s). ea_provider ea = provider \<and> ea_subject ea = oi_Subject info")
  case True
  with l have "s' = s" by (simp add: linkExternalAccount_def)
  with True f show ?thesis
    by (force simp: readUserExternalAccounts_def account_key_def)
next
  case False
  with l obtain a w1 where a: "aggIDFromUser P u = Inr a"
    and d: "sv_dispatch_user P a (LinkExternalAccountCmd provider (oi_Subject info) (oi_Email info)
        (oi_DisplayName info)) (ss_world s) = (None, w1)"
    and s': "s' = (if oi_EmailVerified info
        then markEmailVerifiedIfMatch P a u (oi_Email info) (s \<lparr> ss_world := w1 \<rparr>) else s \<lparr> ss_world := w1 \<rparr>)"
    by (auto simp: linkExternalAccount_def Let_def split: if_splits sum.splits prod.splits option.splits)
  from d obtain at s1 where "user_spec (LinkExternalAccountCmd provider (oi_Subject info) (oi_Email info)
      (oi_DisplayName info)) at (S (ss_world s) a) = Some s1" "S w1 = (S (ss_world s))(a := s1)"
    by (rule dispatch_spec [OF env])
  then have "(provider, oi_Subject info) \<in> accounts (S w1 a)"
    by (auto simp: accounts_def account_key_def NewExternalAccount_def split: if_splits)
  with s' mark_accounts [OF env, of a u "oi_Email info" "s \<lparr> ss_world := w1 \<rparr>"]
  have "(provider, oi_Subject info) \<in> accounts (S (ss_world s') a)" by (simp split: if_splits)
  moreover from f aggIDFromUser_parse [OF a] have "FindByID (sv_users P (ss_world s')) a = Some user"
    by (simp add: users_def)
  ultimately show ?thesis using shown_accounts [OF env link_world [OF env w oks l]] by blast
qed

text \<open>The three ways of \<open>matchOrCreateUser\<close>.\<close>

lemma match_binds:
  assumes env: "env_ok E" and w: "in_world (ss_world s)" and oks: "\<forall>cmd. keeps_email cmd \<longrightarrow> ok cmd"
    and m: "matchVerifiedEmail P provider info s = (Inr (Some user), s')"
  shows "holds user provider (oi_Subject info) \<and> oi_EmailVerified info
    \<and> (\<exists>u. FindByEmail (users P s) (oi_Email info) = Some (Some u)
         \<and> FindByUserID P (users P s') (u_id u) = Some user)"
  using m link_binds [OF env w oks]
  by (auto simp: matchVerifiedEmail_def split: if_splits option.splits prod.splits)

lemma matched_none:
  "matchVerifiedEmail P provider info s = (Inr None, s') \<Longrightarrow>
   s' = s \<and> (oi_EmailVerified info \<longrightarrow> (\<forall>u. FindByEmail (users P s) (oi_Email info) \<noteq> Some (Some u)))"
  by (auto simp: matchVerifiedEmail_def split: if_splits option.splits prod.splits)

lemma provision_binds:
  assumes env: "env_ok E" and w: "in_world (ss_world s)" and oks: "\<forall>cmd. keeps_email cmd \<longrightarrow> ok cmd"
    and fresh: "aggIDFromUser P (NewUserID (ids E) freshID) = Inr freshID"
    and p: "provisionLinkedUser P freshID provider info s = (Inr user, s')"
  shows "holds user provider (oi_Subject info) \<and> FindByID (users P s') freshID = Some user
    \<and> \<not> User_Exists (S (ss_world s) freshID) \<and> open_registration P (ss_world s)"
proof -
  let ?name = "if oi_DisplayName info = [] then oi_Email info else oi_DisplayName info"
  let ?cmd = "RegisterUserCmd (oi_Email info) ?name [RoleViewer, RoleUser]"
  from p obtain w1 u0 where r: "sv_dispatch_user P freshID ?cmd (ss_world s) = (None, w1)"
    and u0: "FindByID (sv_users P w1) freshID = Some u0"
    and l: "linkExternalAccount P (u_id u0) provider info (s \<lparr> ss_world := w1 \<rparr>) = (None, s')"
    and f: "FindByID (users P s') freshID = Some user" and o: "open_registration P (ss_world s)"
    by (auto simp: provisionLinkedUser_def Let_def users_def open_registration_def
        split: if_splits prod.splits option.splits)
  have w1: "in_world w1" by (rule dispatch_world [OF env w _ r]) (use oks in \<open>simp add: keeps_email_def\<close>)
  then have "named E (rm_users (sv_users P w1))" unfolding in_world_def by (rule world_named)
  with u0 have "u_id u0 = NewUserID (ids E) freshID" by (simp add: named_get FindByID_def)
  with aggIDFromUser_parse [OF fresh] f have "FindByUserID P (users P s') (u_id u0) = Some user" by simp
  with link_binds [OF env _ oks l] w1 have "holds user provider (oi_Subject info)" by simp
  moreover from r obtain at s1 where "user_spec ?cmd at (S (ss_world s) freshID) = Some s1"
    by (rule dispatch_spec [OF env])
  then have "\<not> User_Exists (S (ss_world s) freshID)"
    by (auto simp: User_Exists_def split: if_splits)
  ultimately show ?thesis using f o by simp
qed

end

lemma user_lookup:
  assumes "env_ok E" and "user_world E keeps_email S m"
    and "FindByExternalAccount m provider subject = Some (Some u)"
  shows "holds u provider subject"
proof -
  from world_indexed [OF assms(1,2)] have "indexed m" by blast
  with assms(3) show ?thesis
    by (auto simp: FindByExternalAccount_def indexed_def split: option.splits dest!: pointsD)
qed

section \<open>The state of a login is used up\<close>

lemma audit_states [simp]:
  "ss_states (auth_append P t p a s) = ss_states s"
  "ss_states (registrationClosed P s) = ss_states s"
  "ss_states (oauth2LoginSuccess P u provider s) = ss_states s"
  "ss_states (audited_Create P session s) = ss_states s"
  by (auto simp: auth_append_def registrationClosed_def oauth2LoginSuccess_def audited_Create_def
      sessionStarted_def Let_def split: SessionOrigin.splits)

definition same_states :: "oauth2StateStore \<Rightarrow> 'w service \<Rightarrow> bool" where
  "same_states ss s \<longleftrightarrow> ss_states s = ss"

lemma same_states_simps [simp]:
  "same_states ss (s \<lparr> ss_world := w \<rparr>) = same_states ss s"
  "same_states ss (s \<lparr> ss_sessions := t \<rparr>) = same_states ss s"
  "same_states ss (registrationClosed P s) = same_states ss s"
  "same_states ss (oauth2LoginSuccess P u p s) = same_states ss s"
  "same_states ss (audited_Create P session s) = same_states ss s"
  "same_states ss (markEmailVerifiedIfMatch P a u email s) = same_states ss s"
  by (auto simp: same_states_def markEmailVerifiedIfMatch_def split: option.splits)

lemmas states_branches = branch_rules [where Q = "same_states ss" for ss]

lemma sub_states:
  assumes "same_states ss s"
  shows "linkExternalAccount P u provider info s = (r, s') \<Longrightarrow> same_states ss s'"
    and "createAndStoreSession P g now u s = (r2, s') \<Longrightarrow> same_states ss s'"
proof -
  have "same_states ss (snd (linkExternalAccount P u provider info s))"
    unfolding linkExternalAccount_def Let_def by (intro states_branches) (simp_all add: assms)
  then show "linkExternalAccount P u provider info s = (r, s') \<Longrightarrow> same_states ss s'" by simp
  have "same_states ss (snd (createAndStoreSession P g now u s))"
    unfolding createAndStoreSession_def by (intro states_branches) (simp_all add: assms)
  then show "createAndStoreSession P g now u s = (r2, s') \<Longrightarrow> same_states ss s'" by simp
qed

lemma matched_states:
  assumes "same_states ss s" and "matchOrCreateUser P freshID provider info s = (r, s')"
  shows "same_states ss s'"
proof -
  have m: "same_states ss (snd (matchVerifiedEmail P provider info s))"
    unfolding matchVerifiedEmail_def
    by (intro states_branches) (auto simp: assms(1) elim!: sub_states(1) [rotated])
  have p: "same_states ss (snd (provisionLinkedUser P freshID provider info s1))" if "same_states ss s1" for s1
    unfolding provisionLinkedUser_def Let_def
    by (intro states_branches) (auto simp: that elim!: sub_states(1) [rotated])
  have "same_states ss (snd (matchOrCreateUser P freshID provider info s))"
    unfolding matchOrCreateUser_def using m by (intro states_branches) (auto simp: assms(1) intro: p)
  with assms(2) show ?thesis by simp
qed

lemma completed_states: "ss_states (snd (completeLogin P o2 freshID g now provider json s)) = ss_states s"
proof -
  have "same_states (ss_states s) (snd (completeLogin P o2 freshID g now provider json s))"
    unfolding completeLogin_def Let_def
    by (intro states_branches)
       (auto simp: same_states_def [of "ss_states s" s] elim!: sub_states(2) [rotated] matched_states [rotated])
  then show ?thesis by (simp add: same_states_def)
qed

text \<open>Where the state of a successful callback came from.\<close>

lemma FinishLogin_state:
  assumes "OAuth_FinishLogin P o2 freshID g now provider code state s = (Inr result, s')"
  obtains entry json where "map_get (ss_states s) state = Some entry" "os_provider entry = provider"
    "now \<le> os_expiresAt entry"
    "op_FinishLogin o2 provider code (os_pkceVerifier entry) (if op_nonce_capable o2 then os_nonce entry else [])
       = Inr json"
    "completeLogin P o2 freshID g now provider json (s \<lparr> ss_states := map_del state (ss_states s) \<rparr>) = (Inr result, s')"
  using assms
  by (auto simp: OAuth_FinishLogin_def OAuth2State_Consume_def OAuth2State_ConsumeWithNonce_def Let_def
      split: if_splits option.splits sum.splits prod.splits)

lemma completeLogin_result:
  assumes "completeLogin P o2 freshID g now provider json s = (Inr result, s')"
  obtains raw info s1 where "op_decode o2 json = Inr raw" "oi_Subject raw \<noteq> []" "oi_Email raw \<noteq> []"
    "info = raw \<lparr> oi_Email := ToLower (sv_unicode_lower P) (trim_space (oi_Email raw)) \<rparr>"
    "matchOrCreateUser P freshID provider info s = (Inr (ar_User result), s1)" "ss_world s' = ss_world s1"
    "se_ActorID (ar_Session result) = ActorIDFromUser (sv_ids P) (u_id (ar_User result))"
proof -
  have actor: "se_ActorID session = ActorIDFromUser (sv_ids P) u"
    if "createAndStoreSession P g now u s1 = (Inr session, s2)" for u s1 s2 session
    using that by (auto simp: createAndStoreSession_def NewSession_def newSession_def Let_def split: sum.splits)
  from assms obtain raw user session s1 s2 where r: "op_decode o2 json = Inr raw" "oi_Subject raw \<noteq> []" "oi_Email raw \<noteq> []"
    "matchOrCreateUser P freshID provider
       (raw \<lparr> oi_Email := ToLower (sv_unicode_lower P) (trim_space (oi_Email raw)) \<rparr>) s = (Inr user, s1)"
    and c: "createAndStoreSession P g now (u_id user) s1 = (Inr session, s2)"
    and res: "result = \<lparr> ar_User = user, ar_Session = session \<rparr>" "s' = oauth2LoginSuccess P (u_id user) provider s2"
    by (auto simp: completeLogin_def Let_def split: if_splits sum.splits prod.splits)
  from actor [OF c] session_worldD [OF c] res show thesis
    by (intro that [OF r(1-3) refl, of s1]) (simp_all add: r(4))
qed

text \<open>C24. What a successful OAuth2 callback means: its state was saved for this provider, has not
  expired and is used up; the provider accepted the code with the saved verifier (and nonce); the user
  who is signed in holds the external identity the provider reported; and that user had it before, or
  was found by an email address the provider itself verified, or was just registered under the fresh
  identifier - within the user limit. This holds as long as no command emptied the email address of an account: after
  one that did, the index of external identities may name a user who no longer holds the identity.\<close>

theorem oauth_login_binds:
  assumes "env_ok E" and "dispatcher_ok E P S" and "user_world E keeps_email (S (ss_world s)) (users P s)"
    and "aggIDFromUser P (NewUserID (ids E) freshID) = Inr freshID"
    and "FinishOAuthLogin P (Some o2) freshID g now provider code state s = (Inr result, s')"
  shows "\<exists>entry json info email user. map_get (ss_states s) state = Some entry \<and> os_provider entry = provider
    \<and> now \<le> os_expiresAt entry \<and> map_get (ss_states s') state = None
    \<and> op_FinishLogin o2 provider code (os_pkceVerifier entry) (if op_nonce_capable o2 then os_nonce entry else [])
        = Inr json
    \<and> op_decode o2 json = Inr info \<and> email = ToLower (sv_unicode_lower P) (trim_space (oi_Email info))
    \<and> user = ar_User result \<and> holds user provider (oi_Subject info)
    \<and> se_ActorID (ar_Session result) = ActorIDFromUser (sv_ids P) (u_id user)
    \<and> (FindByExternalAccount (users P s) provider (oi_Subject info) = Some (Some user)
       \<or> oi_EmailVerified info \<and> (\<exists>u. FindByEmail (users P s) email = Some (Some u)
            \<and> FindByUserID P (users P s') (u_id u) = Some user)
       \<or> FindByID (users P s') freshID = Some user \<and> \<not> User_Exists (S (ss_world s) freshID)
          \<and> open_registration P (ss_world s))"
proof -
  have D: "dispatching E P S" by (simp add: dispatching_def assms(2))
  have w: "dispatching.in_world E P S keeps_email (ss_world s)"
    using assms(3) by (simp add: dispatching.in_world_def [OF D] users_def)
  from assms(5) obtain entry json where
    e: "map_get (ss_states s) state = Some entry" "os_provider entry = provider" "now \<le> os_expiresAt entry"
      "op_FinishLogin o2 provider code (os_pkceVerifier entry) (if op_nonce_capable o2 then os_nonce entry else [])
         = Inr json"
    and c: "completeLogin P o2 freshID g now provider json (s \<lparr> ss_states := map_del state (ss_states s) \<rparr>)
      = (Inr result, s')"
    by (auto simp: FinishOAuthLogin_def elim: FinishLogin_state)
  let ?s0 = "s \<lparr> ss_states := map_del state (ss_states s) \<rparr>"
  from completed_states [of P o2 freshID g now provider json ?s0] c have gone: "map_get (ss_states s') state = None"
    by simp
  from c obtain raw info s1 where
    r: "op_decode o2 json = Inr raw" "info = raw \<lparr> oi_Email := ToLower (sv_unicode_lower P) (trim_space (oi_Email raw)) \<rparr>"
      "ss_world s' = ss_world s1" "se_ActorID (ar_Session result) = ActorIDFromUser (sv_ids P) (u_id (ar_User result))"
    and m: "matchOrCreateUser P freshID provider info ?s0 = (Inr (ar_User result), s1)"
    by (rule completeLogin_result)
  let ?user = "ar_User result"
  have "holds ?user provider (oi_Subject info) \<and> (FindByExternalAccount (users P s) provider (oi_Subject info) = Some (Some ?user)
       \<or> oi_EmailVerified info \<and> (\<exists>u. FindByEmail (users P s) (oi_Email info) = Some (Some u)
            \<and> FindByUserID P (users P s1) (u_id u) = Some ?user)
       \<or> FindByID (users P s1) freshID = Some ?user \<and> \<not> User_Exists (S (ss_world s) freshID)
          \<and> open_registration P (ss_world s))"
  proof -
    consider (had) "FindByExternalAccount (users P s) provider (oi_Subject info) = Some (Some ?user)"
      | (matched) "matchVerifiedEmail P provider info ?s0 = (Inr (Some ?user), s1)"
      | (registered) s2 where "matchVerifiedEmail P provider info ?s0 = (Inr None, s2)"
          "provisionLinkedUser P freshID provider info s2 = (Inr ?user, s1)"
      using m by (auto simp: matchOrCreateUser_def users_def split: option.splits sum.splits prod.splits)
    then show ?thesis
    proof cases
      case had
      with user_lookup [OF assms(1,3)] show ?thesis by blast
    next
      case matched
      from dispatching.match_binds [OF D assms(1) _ _ matched, of keeps_email] w show ?thesis
        by (auto simp: users_def)
    next
      case registered
      from dispatching.matched_none [OF D registered(1)] have "s2 = ?s0" by simp
      with dispatching.provision_binds [OF D assms(1) _ _ assms(4) registered(2), of keeps_email] w show ?thesis
        by simp
    qed
  qed
  with e gone r show ?thesis by (auto simp: users_def)
qed

definition demo_oauth :: oauth_provider where
  "demo_oauth =
     \<lparr> op_nonce_capable = True, op_BeginLogin = (\<lambda>p st. Inr (''url'', ''v'', ''n'')),
       op_FinishLogin = (\<lambda>p code v n. if code = ''ok'' \<and> v = ''v'' \<and> n = ''n'' then Inr ''json'' else Inl (Foreign ''code'')),
       op_decode = (\<lambda>json. Inr \<lparr> oi_Subject = ''sub'', oi_Email = ''A@b.c'', oi_EmailVerified = False,
         oi_DisplayName = ''A'' \<rparr>), op_stateTTL = 10 * minute \<rparr>"

definition demo_callback :: "(err + AuthResult) \<times> demo_world service" where
  "demo_callback =
     FinishOAuthLogin demo_service (Some demo_oauth) ''x'' (Inr ''t'') 5 ''p'' ''ok'' ''st''
       (snd (BeginOAuthLogin (Some demo_oauth) (Inr ''st'') 0 ''p'' (demo_start (\<lambda>a. UserState_zero, NewUserReadModel))))"

lemma demo_callback_ok: "\<exists>result s'. demo_callback = (Inr result, s')"
proof -
  have "case_sum (\<lambda>e. False) (\<lambda>r. True) (fst demo_callback)" by code_simp
  then obtain result where "fst demo_callback = Inr result" by (cases "fst demo_callback") simp_all
  then show ?thesis by (intro exI [of _ result] exI [of _ "snd demo_callback"]) (rule prod_eqI; simp)
qed

lemma oauth_login_binds_witness:
  "\<exists>result s'. demo_callback = (Inr result, s') \<and> holds (ar_User result) ''p'' ''sub''
     \<and> map_get (ss_states s') ''st'' = None"
proof -
  from demo_callback_ok obtain result s' where r: "demo_callback = (Inr result, s')" by blast
  let ?s = "snd (BeginOAuthLogin (Some demo_oauth) (Inr ''st'') 0 ''p'' (demo_start (\<lambda>a. UserState_zero, NewUserReadModel)))"
  have w: "user_world demo_env keeps_email (fst (ss_world ?s)) (users demo_service ?s)"
    by (simp add: users_def demo_service_simps demo_start_def demo_world)
  have a: "aggIDFromUser demo_service (NewUserID (ids demo_env) ''x'') = Inr ''x''" by code_simp
  from oauth_login_binds [OF demo_env_ok demo_service_ok w a r [unfolded demo_callback_def]]
  have "holds (ar_User result) ''p'' ''sub'' \<and> map_get (ss_states s') ''st'' = None"
    by (auto simp: demo_oauth_def split: if_splits)
  with r show ?thesis by blast
qed

end
