(* ===== verification/Service_WebAuthn_Login.thy ===== *)
theory Service_WebAuthn_Login
  imports Service_Run
begin

text \<open>
  What a WebAuthn login that succeeds has checked and recorded: the challenge it answers, the counter of
  the authenticator, the failures it forgives.
\<close>

text \<open>What recording the use of a credential leaves in the stream.\<close>

lemma update_first_find_Some:
  "update_first p f xs = Some ys \<Longrightarrow> find p xs = Some x \<Longrightarrow> p (f x) \<Longrightarrow> find p ys = Some (f x)"
  by (induction xs arbitrary: ys) (auto split: if_splits)

lemma use_recorded:
  assumes "user_spec (RecordCredentialUseCmd use) at s = Some s'"
  obtains c where "findCredential (us_credentials s) (use_credential_id use) = Some c"
    "\<not> CounterRegressed c (use_sign_count use)"
    "findCredential (us_credentials s') (use_credential_id use) = Some (ApplyUse c use)"
proof -
  from assms obtain c cs where c: "findCredential (us_credentials s) (use_credential_id use) = Some c"
    and r: "\<not> CounterRegressed c (use_sign_count use)"
    and u: "update_first (\<lambda>c. cred_id c = use_credential_id use) (\<lambda>c. ApplyUse c use) (us_credentials s) = Some cs"
    and s': "s' = s \<lparr> us_credentials := cs \<rparr>"
    by (auto split: if_splits option.splits)
  from c have f: "find (\<lambda>c. cred_id c = use_credential_id use) (us_credentials s) = Some c"
    by (simp add: findCredential_def)
  moreover have "cred_id (ApplyUse c use) = use_credential_id use"
    using find_Some_set [OF f] by (simp add: ApplyUse_def)
  ultimately have "findCredential cs (use_credential_id use) = Some (ApplyUse c use)"
    using update_first_find_Some [OF u] by (simp add: findCredential_def)
  with that c r s' show thesis by simp
qed

lemma recordCredentialUse_dispatch:
  assumes "recordCredentialUse P wp u json s = (None, s')"
  obtains used a w where "wp_decode_cred wp json = Inr used" "aggIDFromUser P u = Inr a"
    "sv_dispatch_user P a (RecordCredentialUseCmd
        \<lparr> use_credential_id = wc_ID used, use_sign_count = wc_SignCount used,
          use_user_present = wc_UserPresent used, use_user_verified = wc_UserVerified used,
          use_backup_state = wc_BackupState used \<rparr>) (ss_world s) = (None, w)" "s' = s \<lparr> ss_world := w \<rparr>"
  using assms by (auto simp: recordCredentialUse_def split: sum.splits option.splits prod.splits)

lemma audit_stores [simp]:
  "ss_challenges (loginSuccess P u m s) = ss_challenges s"
  "ss_lockout (loginSuccess P u m s) = ss_lockout s"
  "ss_challenges (audited_Create P session s) = ss_challenges s"
  "ss_lockout (audited_Create P session s) = ss_lockout s"
  by (auto simp: loginSuccess_def audited_Create_def sessionStarted_def auth_append_def Let_def
      split: SessionOrigin.splits)

lemma session_stores:
  "createAndStoreSession P g now u s = (Inr session, s') \<Longrightarrow>
   ss_world s' = ss_world s \<and> ss_challenges s' = ss_challenges s \<and> ss_lockout s' = ss_lockout s
   \<and> se_ActorID session = ActorIDFromUser (sv_ids P) u"
  by (auto simp: createAndStoreSession_def NewSession_def newSession_def Let_def split: sum.splits)

text \<open>Following a successful login through its checks.\<close>

lemma FinishLogin_path:
  assumes "FinishLogin P (Some wp) g now u req s = (Inr result, s')"
  obtains user entry body userJSON credJSON s2 where
    "FindByUserID P (users P s) u = Some user" "ar_User result = user"
    "map_get (wa_sessions (ss_challenges s)) (login_key P u) = Some entry" "now \<le> wa_expiresAt entry"
    "marshalWebAuthnUser P wp user = Inr userJSON"
    "wp_FinishLogin wp userJSON body (wa_data entry) = Inr credJSON"
    "recordCredentialUse P wp u credJSON s = (None, s2)" "ss_world s' = ss_world s2"
    "ss_challenges s' = WebAuthn_Delete (login_key P u) (ss_challenges s)"
    "ss_lockout s' = map_option (Reset (sv_unicode_lower P) (u_email user)) (ss_lockout s)"
    "se_ActorID (ar_Session result) = ActorIDFromUser (sv_ids P) (u_id user)"
proof -
  from assms obtain user entry body userJSON credJSON s2 session s4 where
    r: "FindByUserID P (users P s) u = Some user"
    "map_get (wa_sessions (ss_challenges s)) (login_key P u) = Some entry" "now \<le> wa_expiresAt entry"
    "marshalWebAuthnUser P wp user = Inr userJSON"
    "wp_FinishLogin wp userJSON body (wa_data entry) = Inr credJSON"
    "recordCredentialUse P wp u credJSON s = (None, s2)"
    and c: "createAndStoreSession P g now (u_id user)
        (s2 \<lparr> ss_challenges := WebAuthn_Delete (login_key P u) (ss_challenges s2),
              ss_lockout := map_option (Reset (sv_unicode_lower P) (u_email user)) (ss_lockout s2) \<rparr>)
      = (Inr session, s4)"
    and res: "result = \<lparr> ar_User = user, ar_Session = session \<rparr>" "s' = loginSuccess P u AuthMethodWebAuthN s4"
    by (auto simp: FinishLogin_def WebAuthn_Get_def Let_def split: if_splits sum.splits option.splits prod.splits)
  from r(6) obtain w where "s2 = s \<lparr> ss_world := w \<rparr>" by (rule recordCredentialUse_dispatch)
  with session_stores [OF c] res r show thesis by (intro that [OF r(1) _ r(2-6)]) simp_all
qed

text \<open>C25. What a successful WebAuthn login means: the response answers an unexpired challenge kept for
  this very user, which is then gone, so that it cannot be answered twice; the ceremony accepted it for
  the user's own credentials; the credential it used is one of the account's and its counter did not
  fall behind the recorded one (a cloned authenticator), and the new counter and flags are now recorded;
  the user's failed attempts are forgiven; and the session is the user's.\<close>

theorem webauthn_login_binds:
  assumes "env_ok E" and "dispatcher_ok E P S"
    and "FinishLogin P (Some wp) g now u req s = (Inr result, s')"
  shows "\<exists>user entry body userJSON credJSON used a c c'.
    FindByUserID P (users P s) u = Some user \<and> ar_User result = user
    \<and> map_get (wa_sessions (ss_challenges s)) (login_key P u) = Some entry \<and> now \<le> wa_expiresAt entry
    \<and> map_get (wa_sessions (ss_challenges s')) (login_key P u) = None
    \<and> marshalWebAuthnUser P wp user = Inr userJSON
    \<and> wp_FinishLogin wp userJSON body (wa_data entry) = Inr credJSON \<and> wp_decode_cred wp credJSON = Inr used
    \<and> aggIDFromUser P u = Inr a
    \<and> findCredential (us_credentials (S (ss_world s) a)) (wc_ID used) = Some c
    \<and> \<not> CounterRegressed c (wc_SignCount used)
    \<and> findCredential (us_credentials (S (ss_world s') a)) (wc_ID used) = Some c'
    \<and> cred_sign_count c' = wc_SignCount used \<and> cred_user_verified c' = wc_UserVerified used
    \<and> ss_lockout s' = map_option (Reset (sv_unicode_lower P) (u_email user)) (ss_lockout s)
    \<and> se_ActorID (ar_Session result) = ActorIDFromUser (sv_ids P) (u_id user)"
proof -
  from assms(3) obtain user entry body userJSON credJSON s2 where
    p: "FindByUserID P (users P s) u = Some user" "ar_User result = user"
    "map_get (wa_sessions (ss_challenges s)) (login_key P u) = Some entry" "now \<le> wa_expiresAt entry"
    "marshalWebAuthnUser P wp user = Inr userJSON"
    "wp_FinishLogin wp userJSON body (wa_data entry) = Inr credJSON"
    "recordCredentialUse P wp u credJSON s = (None, s2)" "ss_world s' = ss_world s2"
    "ss_challenges s' = WebAuthn_Delete (login_key P u) (ss_challenges s)"
    "ss_lockout s' = map_option (Reset (sv_unicode_lower P) (u_email user)) (ss_lockout s)"
    "se_ActorID (ar_Session result) = ActorIDFromUser (sv_ids P) (u_id user)"
    by (rule FinishLogin_path)
  let ?use = "\<lambda>used. \<lparr> use_credential_id = wc_ID used, use_sign_count = wc_SignCount used,
      use_user_present = wc_UserPresent used, use_user_verified = wc_UserVerified used,
      use_backup_state = wc_BackupState used \<rparr>"
  from p(7) obtain used a w where d: "wp_decode_cred wp credJSON = Inr used" "aggIDFromUser P u = Inr a"
    "sv_dispatch_user P a (RecordCredentialUseCmd (?use used)) (ss_world s) = (None, w)" "s2 = s \<lparr> ss_world := w \<rparr>"
    by (rule recordCredentialUse_dispatch)
  have D: "dispatching E P S" by (simp add: dispatching_def assms(2))
  from d(3) obtain at t where
    t: "user_spec (RecordCredentialUseCmd (?use used)) at (S (ss_world s) a) = Some t" "S w = (S (ss_world s))(a := t)"
    by (rule dispatching.dispatch_spec [OF D assms(1)])
  from t(1) obtain c where c: "findCredential (us_credentials (S (ss_world s) a)) (use_credential_id (?use used)) = Some c"
    "\<not> CounterRegressed c (use_sign_count (?use used))"
    "findCredential (us_credentials t) (use_credential_id (?use used)) = Some (ApplyUse c (?use used))"
    by (rule use_recorded)
  have gone: "map_get (wa_sessions (ss_challenges s')) (login_key P u) = None"
    by (simp add: p(9) WebAuthn_Delete_def deleteKeyed_def)
  show ?thesis
    by (intro exI [of _ user] exI [of _ entry] exI [of _ body] exI [of _ userJSON] exI [of _ credJSON]
        exI [of _ used] exI [of _ a] exI [of _ c] exI [of _ "ApplyUse c (?use used)"])
       (use p d t(2) c gone in \<open>simp add: ApplyUse_def\<close>)
qed

definition demo_cred :: WebAuthnCredential where
  "demo_cred =
     \<lparr> cred_id = ''k'', cred_public_key = ''pk'', cred_attestation_type = [], cred_transports = [], cred_aaguid = [],
       cred_sign_count = 4, cred_user_present = True, cred_user_verified = True, cred_backup_eligible = False,
       cred_backup_state = False, cred_name = ''key'', cred_created_at = 0 \<rparr>"

definition demo_keyed :: "demo_world service" where
  "demo_keyed =
     demo_start ((\<lambda>a. UserState_zero)(''x'' := UserState_zero \<lparr> us_email := ''a@b.c'', us_credentials := [demo_cred] \<rparr>),
       \<lparr> rm_users = [(''x'',
           \<lparr> u_id = UserID 1, u_email = ''a@b.c'', u_display_name = [], u_credentials = [demo_cred],
             u_external_accounts = [], u_email_verified = False, u_totp_enabled = False, u_totp_secret = [],
             u_created_at = 0, u_updated_at = 0 \<rparr>)], rm_emails = [(''a@b.c'', ''x'')], rm_external = [] \<rparr>)"

definition demo_ceremony :: webauthn_provider where
  "demo_ceremony =
     \<lparr> wp_marshal = (\<lambda>d. Inr (wu_ID d)), wp_BeginRegistration = (\<lambda>d. Inr (''opt'', ''reg'')),
       wp_FinishRegistration = (\<lambda>d b c. Inl (Foreign ''no'')), wp_BeginLogin = (\<lambda>d. Inr (''opt'', ''challenge'')),
       wp_FinishLogin = (\<lambda>d b c. if b = ''signed '' @ c then Inr ''cred'' else Inl (Foreign ''bad'')),
       wp_decode_core = (\<lambda>j. Inl (Foreign ''no'')),
       wp_decode_cred = (\<lambda>j. Inr ((user_cred demo_cred) \<lparr> wc_SignCount := 5 \<rparr>)) \<rparr>"

definition demo_signed :: "(err + AuthResult) \<times> demo_world service" where
  "demo_signed =
     FinishLogin demo_service (Some demo_ceremony) (Inr ''t'') 5 (UserID 1) (Inr ''signed challenge'')
       (snd (BeginLogin demo_service (Some demo_ceremony) 0 0 ''a@b.c'' demo_keyed))"

text \<open>A body within the limit is read whole; this spares the evaluation the limit as a natural number.\<close>

lemma read_body_code [code]:
  "read_body msg body =
     (case body of Inl e \<Rightarrow> Inl (wrap_error Rejection e ''usermgmt.webauthn.body_read'' msg)
      | Inr b \<Rightarrow> Inr (if int (length b) \<le> 1048576 then b else take maxWebAuthnBodySize b))"
  by (auto simp: read_body_def maxWebAuthnBodySize_def split: sum.splits)

lemma demo_signed_ok: "\<exists>result s'. demo_signed = (Inr result, s')"
proof -
  have "case_sum (\<lambda>e. False) (\<lambda>r. True) (fst demo_signed)" by code_simp
  then obtain result where "fst demo_signed = Inr result" by (cases "fst demo_signed") simp_all
  then show ?thesis by (intro exI [of _ result] exI [of _ "snd demo_signed"]) (rule prod_eqI; simp)
qed

lemma webauthn_login_binds_witness:
  "\<exists>result s' c'. demo_signed = (Inr result, s')
     \<and> findCredential (us_credentials (fst (ss_world s') ''x'')) ''k'' = Some c' \<and> cred_sign_count c' = 5"
proof -
  from demo_signed_ok obtain result s' where r: "demo_signed = (Inr result, s')" by blast
  have "aggIDFromUser demo_service (UserID 1) = Inr ''x''" by code_simp
  with webauthn_login_binds [OF demo_env_ok demo_service_ok r [unfolded demo_signed_def]] r show ?thesis
    by (auto simp: demo_ceremony_def user_cred_def demo_cred_def)
qed

end
