(* ===== verification/Service_Sessions.thy ===== *)
theory Service_Sessions
  imports Service_Run
begin

text \<open>
  Sessions over the whole service: no operation brings a session back. A token that was logged out, has
  expired, belonged to a deleted user or ended an impersonation stays unauthorized through any further
  operations, unless an operation is handed that very token by the random generator.
\<close>

fun issues :: "'e service_op \<Rightarrow> string \<Rightarrow> bool" where
  "issues (OpRegister fresh g now req) token \<longleftrightarrow> g = Inr token"
| "issues (OpFinishOAuthLogin o2 fresh g now p code state) token \<longleftrightarrow> g = Inr token"
| "issues (OpFinishLogin wp g now u req) token \<longleftrightarrow> g = Inr token"
| "issues (OpBeginImpersonation C sh a g now caller target reason) token \<longleftrightarrow> g = Inr token"
| "issues op token \<longleftrightarrow> False"

definition no_session :: "string \<Rightarrow> 'w service \<Rightarrow> bool" where
  "no_session token s \<longleftrightarrow> map_wf (ss_sessions s) \<and> map_get (ss_sessions s) token = None"

lemma no_session_world [simp]:
  "no_session token (s \<lparr> ss_world := w \<rparr>) = no_session token s"
  "no_session token (s \<lparr> ss_lockout := l \<rparr>) = no_session token s"
  "no_session token (s \<lparr> ss_challenges := c \<rparr>) = no_session token s"
  "no_session token (s \<lparr> ss_tokens := ts \<rparr>) = no_session token s"
  "no_session token (s \<lparr> ss_pending := ps \<rparr>) = no_session token s"
  "no_session token (s \<lparr> ss_states := st \<rparr>) = no_session token s"
  by (simp_all add: no_session_def)

lemma auth_append_sessions [simp]: "ss_sessions (auth_append P t p a s) = ss_sessions s"
  by (simp add: auth_append_def)

lemma audit_sessions [simp]:
  "ss_sessions (loginSuccess P u m s) = ss_sessions s"
  "ss_sessions (loginFailure P u m r s) = ss_sessions s"
  "ss_sessions (registrationClosed P s) = ss_sessions s"
  "ss_sessions (oauth2LoginSuccess P u p s) = ss_sessions s"
  "ss_sessions (sessionStarted P session s) = ss_sessions s"
  "ss_sessions (sessionEnded P session cause s) = ss_sessions s"
  "ss_sessions (sessionsRevokedForUser P u s) = ss_sessions s"
  by (auto simp: loginSuccess_def loginFailure_def registrationClosed_def oauth2LoginSuccess_def
      sessionStarted_def sessionEnded_def sessionsRevokedForUser_def Let_def split: SessionOrigin.splits)

lemma audit_no_session [simp]:
  "no_session token (loginSuccess P u m s) = no_session token s"
  "no_session token (loginFailure P u m r s) = no_session token s"
  "no_session token (registrationClosed P s) = no_session token s"
  "no_session token (oauth2LoginSuccess P u p s) = no_session token s"
  by (simp_all add: no_session_def)

lemma ended_sessions:
  "ss_sessions (audited_Delete P cause t s) = map_del t (ss_sessions s)"
  "ss_sessions (audited_DeleteByUserID P u s) = filter (\<lambda>(k, session). \<not> se_UserID session = u) (ss_sessions s)"
  by (auto simp: audited_Delete_def audited_DeleteByUserID_def Sessions_Delete_def deleteKeyed_def
      Sessions_DeleteByUserID_def Let_def split: sum.splits)

lemma sessions_stay_ended [simp]:
  "no_session token s \<Longrightarrow> no_session token (audited_Delete P cause t s)"
  "no_session token s \<Longrightarrow> no_session token (audited_DeleteByUserID P u s)"
  by (simp_all add: no_session_def ended_sessions map_of_filter_wf)

lemma new_session_token: "newSession I q g now actor origin ttl = Inr session \<Longrightarrow> g = Inr (se_Token session)"
  by (auto simp: newSession_def split: sum.splits)

lemma created_session:
  "no_session token s \<Longrightarrow> se_Token session \<noteq> token \<Longrightarrow> no_session token (audited_Create P session s)"
  by (simp add: no_session_def audited_Create_def Sessions_Create_def)

lemma stored_session:
  assumes "no_session token s" and "g \<noteq> Inr token" and "createAndStoreSession P g now u s = (r, s')"
  shows "no_session token s'"
  using assms
  by (auto simp: createAndStoreSession_def NewSession_def Let_def split: sum.splits
      dest!: new_session_token [OF sym] intro: created_session)

lemmas session_branches = branch_rules [where Q = "no_session token" for token]

lemma dispatched_session:
  "no_session token s \<Longrightarrow> no_session token (snd (dispatchUserCommand P u cmd kv s))"
  unfolding dispatchUserCommand_def by (intro session_branches) simp_all

lemma DeleteUser_session: "no_session token s \<Longrightarrow> no_session token (snd (DeleteUser P u reason s))"
  using dispatched_session [of token s P u "DeleteUserCmd reason" "[(''reason'', reason)]"]
  unfolding DeleteUser_def deleteBotsForUserBestEffort_def removeMembershipsForUserBestEffort_def
  by (intro session_branches) simp_all

lemma Register_session:
  "no_session token s \<Longrightarrow> g \<noteq> Inr token \<Longrightarrow> no_session token (snd (Register P fresh g now req s))"
  unfolding Register_def Let_def by (intro session_branches) (auto elim!: stored_session [rotated 2])

lemma factor_session:
  assumes "no_session token s"
  shows "no_session token (snd (VerifyEmail P now t s))"
    and "no_session token (snd (SendVerificationEmail P g now u s))"
    and "no_session token (snd (EnableTOTP P totp ttl now u s))"
    and "no_session token (snd (VerifyTOTPSetup P totp now u code s))"
    and "no_session token (snd (VerifyTOTP P totp u code s))"
    and "no_session token (snd (DisableTOTP P totp u code s))"
  unfolding VerifyEmail_def SendVerificationEmail_def EnableTOTP_def VerifyTOTPSetup_def VerifyTOTP_def
    DisableTOTP_def
  by (intro session_branches; simp add: assms)+

lemma link_session:
  assumes "no_session token s" and "linkExternalAccount P u provider info s = (r, s')"
  shows "no_session token s'"
proof -
  have mark: "no_session token (markEmailVerifiedIfMatch P a u email s1) = no_session token s1" for a email s1
    by (simp add: markEmailVerifiedIfMatch_def split: option.splits)
  have "no_session token (snd (linkExternalAccount P u provider info s))"
    unfolding linkExternalAccount_def Let_def by (intro session_branches) (simp_all add: mark assms(1))
  with assms(2) show ?thesis by simp
qed

lemma match_session:
  assumes "no_session token s" and "matchOrCreateUser P freshID provider info s = (r, s')"
  shows "no_session token s'"
proof -
  have m: "no_session token (snd (matchVerifiedEmail P provider info s))"
    unfolding matchVerifiedEmail_def
    by (intro session_branches) (auto simp: assms(1) elim!: link_session [rotated])
  have p: "no_session token (snd (provisionLinkedUser P freshID provider info s1))" if "no_session token s1" for s1
    unfolding provisionLinkedUser_def Let_def
    by (intro session_branches) (auto simp: that elim!: link_session [rotated])
  have "no_session token (snd (matchOrCreateUser P freshID provider info s))"
    unfolding matchOrCreateUser_def using m by (intro session_branches) (auto simp: assms(1) intro: p)
  with assms(2) show ?thesis by simp
qed

lemma OAuth_session:
  assumes "no_session token s"
  shows "g \<noteq> Inr token \<Longrightarrow> no_session token (snd (FinishOAuthLogin P o2 fresh g now p code state s))"
    and "no_session token (snd (BeginOAuthLogin o2 g' now p s))"
    and "no_session token (snd (UnlinkExternalAccount P o2 u p s))"
proof -
  have c: "no_session token (snd (completeLogin P o' fresh g now p json s1))"
    if "no_session token s1" "g \<noteq> Inr token" for o' json s1
    unfolding completeLogin_def Let_def
    by (intro session_branches) (auto simp: that elim!: stored_session [rotated 2] match_session [rotated])
  show "g \<noteq> Inr token \<Longrightarrow> no_session token (snd (FinishOAuthLogin P o2 fresh g now p code state s))"
    unfolding FinishOAuthLogin_def OAuth_FinishLogin_def Let_def
    by (intro session_branches) (auto simp: assms intro!: c)
  show "no_session token (snd (BeginOAuthLogin o2 g' now p s))"
    unfolding BeginOAuthLogin_def OAuth_BeginLogin_def by (intro session_branches) (simp_all add: assms)
  show "no_session token (snd (UnlinkExternalAccount P o2 u p s))"
    unfolding UnlinkExternalAccount_def OAuth_Unlink_def Let_def
    by (intro session_branches) (simp_all add: assms)
qed

lemma ceremony_session:
  assumes "no_session token s"
  shows "no_session token (snd (BeginRegistration P wp now u s))"
    and "no_session token (snd (FinishRegistration P wp now u req name s))"
    and "no_session token (snd (BeginLogin P wp now now2 email s))"
  unfolding BeginRegistration_def FinishRegistration_def BeginLogin_def Let_def
  by (intro session_branches; auto simp: assms split: option.splits prod.splits)+

lemma failed_session:
  "no_session token s \<Longrightarrow> finishLoginFailed P now u user e s = (e', s') \<Longrightarrow> no_session token s'"
  by (auto simp: finishLoginFailed_def Let_def split: option.splits)

lemma used_session:
  assumes "no_session token s" and "recordCredentialUse P wp u json s = (r, s')"
  shows "no_session token s'"
proof -
  have "no_session token (snd (recordCredentialUse P wp u json s))"
    unfolding recordCredentialUse_def by (intro session_branches) (simp_all add: assms(1))
  with assms(2) show ?thesis by simp
qed

lemma FinishLogin_session:
  assumes "no_session token s" and "g \<noteq> Inr token"
  shows "no_session token (snd (FinishLogin P wp g now u req s))"
proof -
  note used = used_session [where s = "s \<lparr> ss_challenges := cs \<rparr>" for cs, simplified, OF assms(1)]
  show ?thesis
    unfolding FinishLogin_def Let_def
    by (intro session_branches)
       (auto simp: assms dest: used elim!: stored_session [rotated 2] failed_session [rotated])
qed

lemma admin_session:
  assumes "no_session token s"
  shows "no_session token (snd (CreateTenant P creq s))"
    and "no_session token (snd (dispatch_tenant_cmd P t tcmd s))"
    and "no_session token (snd (dispatch_member_cmd P actor t mcmd s))"
    and "no_session token (snd (RegisterBot P hash pepper g breq s))"
    and "no_session token (snd (DeleteBot P b reason s))"
  unfolding CreateTenant_def dispatch_tenant_cmd_def dispatch_member_cmd_def RegisterBot_def DeleteBot_def
  by (intro session_branches; simp add: assms)+

lemma member_session:
  "no_session token s \<Longrightarrow> dispatch_member_cmd P actor t cmd s = (r, s') \<Longrightarrow> no_session token s'"
  using admin_session(3) [of token s P actor t cmd] by simp

lemma tenant_session:
  assumes "no_session token s"
  shows "no_session token (snd (DeleteTenant P t reason s))"
    and "no_session token (snd (GrantRoles P actor t roles s))"
  using admin_session(2) [OF assms, of P t "DeleteTenantCmd reason"]
  unfolding DeleteTenant_def GrantRoles_def AddMember_def UpdateMemberRoles_def
    revokeMembershipsForTenantBestEffort_def
  by - (intro session_branches; auto simp: assms intro: admin_session(3) dest: member_session [OF assms])+

lemma new_impersonation_token:
  "NewImpersonationSession I q g now actor by reason ttl = Inr session \<Longrightarrow> g = Inr (se_Token session)"
  by (auto simp: NewImpersonationSession_def dest: new_session_token)

lemma impersonation_session:
  assumes "no_session token s"
  shows "g \<noteq> Inr token \<Longrightarrow> no_session token (snd (BeginImpersonation P C sh a g now caller target reason s))"
    and "no_session token (snd (EndImpersonation P t s))"
  unfolding BeginImpersonation_def EndImpersonation_def
  by (intro session_branches; auto simp: assms dest!: new_impersonation_token intro: created_session
      split: SessionOrigin.splits)+

lemma sign_out_session:
  assumes "no_session token s"
  shows "no_session token (snd (Logout P t s))"
    and "no_session token (snd (Authenticate P now t s))"
  unfolding Logout_def Authenticate_def
  by (simp add: assms) (intro session_branches; simp add: assms)

lemma import_session: "no_session token s \<Longrightarrow> no_session token (snd (importUsers P fresh us s))"
proof -
  have step: "no_session token (snd (import_step P a u (r, s)))" if "no_session token s" for a u r s
    unfolding import_step_def prod.case by (intro session_branches) (simp_all add: that)
  have "no_session token (snd (import_from P fresh i us st))" if "no_session token (snd st)" for i st
    using that
  proof (induction us arbitrary: i st)
    case (Cons u us)
    from step [OF Cons.prems, of "fresh i" u "fst st"] show ?case by (auto intro: Cons.IH)
  qed simp
  then show "no_session token s \<Longrightarrow> no_session token (snd (importUsers P fresh us s))"
    by (simp add: importUsers_def)
qed

text \<open>No operation brings a session back under a token it was not handed.\<close>

lemma op_session:
  assumes "no_session token s" and "\<not> issues op token"
  shows "no_session token (apply_op P op s)"
proof (cases op)
  case (OpSweep now)
  with assms(1) show ?thesis
    by (simp add: no_session_def sweep_def Sessions_EvictExpired_def evictExpired_get)
qed (use assms in \<open>simp_all add: Register_session dispatched_session DeleteUser_session factor_session OAuth_session
    ceremony_session FinishLogin_session admin_session tenant_session impersonation_session sign_out_session import_session
    ChangeEmail_def ChangeDisplayName_def AddCredential_def RemoveCredential_def\<close>)

lemma ops_session:
  "no_session token s \<Longrightarrow> \<forall>op \<in> set ops. \<not> issues op token \<Longrightarrow> no_session token (run_ops P ops s)"
  by (induction ops arbitrary: s) (simp_all add: run_ops_def op_session)

section \<open>Ended sessions\<close>

text \<open>What ends a session: signing out, ending its impersonation, being seen or swept after its expiry, and
  the deletion of its user.\<close>

fun ends :: "'w service_env \<Rightarrow> 'w service \<Rightarrow> 'e service_op \<Rightarrow> Session \<Rightarrow> bool" where
  "ends P s (OpLogout token) session \<longleftrightarrow> token = se_Token session"
| "ends P s (OpEndImpersonation token) session \<longleftrightarrow>
     token = se_Token session \<and> fst (EndImpersonation P token s) = None"
| "ends P s (OpAuthenticate now token) session \<longleftrightarrow> token = se_Token session \<and> se_ExpiresAt session < now"
| "ends P s (OpSweep now) session \<longleftrightarrow> se_ExpiresAt session < now"
| "ends P s (OpDeleteUser u reason) session \<longleftrightarrow> u = se_UserID session \<and> fst (DeleteUser P u reason s) = None"
| "ends P s op session \<longleftrightarrow> False"

lemma deleted_session:
  "map_wf (ss_sessions s) \<Longrightarrow> no_session token (audited_Delete P cause token s)"
  by (simp add: no_session_def ended_sessions)

lemma best_effort_session [simp]:
  "no_session token (deleteBotsForUserBestEffort P u reason s) = no_session token s"
  "no_session token (removeMembershipsForUserBestEffort P u s) = no_session token s"
  by (auto simp: deleteBotsForUserBestEffort_def removeMembershipsForUserBestEffort_def split: sum.splits)

lemma dispatched_sessions: "ss_sessions (snd (dispatchUserCommand P u cmd kv s)) = ss_sessions s"
  by (auto simp: dispatchUserCommand_def split: sum.splits prod.splits)

lemma user_deleted_session:
  assumes "map_wf (ss_sessions s)" and "map_get (ss_sessions s) token = Some session"
    and "fst (DeleteUser P (se_UserID session) reason s) = None"
  shows "no_session token (snd (DeleteUser P (se_UserID session) reason s))"
proof -
  obtain r s1 where d: "dispatchUserCommand P (se_UserID session) (DeleteUserCmd reason) [(''reason'', reason)] s = (r, s1)"
    by fastforce
  with dispatched_sessions [of P "se_UserID session" "DeleteUserCmd reason" "[(''reason'', reason)]" s]
  have "ss_sessions s1 = ss_sessions s" by simp
  with assms d have "no_session token (audited_DeleteByUserID P (se_UserID session) s1)"
    by (simp add: no_session_def ended_sessions map_of_filter_wf)
  with d assms(3) show ?thesis by (simp add: DeleteUser_def split: option.splits)
qed

lemma ended:
  assumes "map_wf (ss_sessions s)" and "map_get (ss_sessions s) (se_Token session) = Some session"
    and "ends P s op session"
  shows "no_session (se_Token session) (apply_op P op s)"
proof (cases op)
  case (OpDeleteUser u reason)
  with assms user_deleted_session [OF assms(1,2)] show ?thesis by auto
next
  case (OpSweep now)
  with assms show ?thesis
    by (simp add: no_session_def sweep_def Sessions_EvictExpired_def evictExpired_get)
next
  case (OpEndImpersonation token)
  with assms deleted_session [OF assms(1)] show ?thesis
    by (auto simp: EndImpersonation_def split: sum.splits SessionOrigin.splits)
qed (use assms deleted_session [OF assms(1)] in
  \<open>simp_all add: Logout_def Authenticate_def audited_Find_def Sessions_Find_def Session_IsExpired_def\<close>)

lemma Authenticate_none:
  "no_session token s \<Longrightarrow> Authenticate P now token s = (Inl (usermgmt_error IMErrUnauthorized), s)"
  by (simp add: no_session_def Authenticate_def audited_Find_def Sessions_Find_def)

text \<open>C23. An ended session stays ended: once a session was signed out, its impersonation was ended, it
  was seen or swept after its expiry, or its user was deleted, its token is unauthorized after any
  further operations of the service, whoever runs them and in whatever order - unless the random
  generator hands a later session that very token.\<close>

theorem ended_sessions_stay_ended:
  assumes "map_wf (ss_sessions s)" and "map_get (ss_sessions s) (se_Token session) = Some session"
    and "ends P s op session" and "\<forall>later \<in> set ops. \<not> issues later (se_Token session)"
  shows "fst (Authenticate P now (se_Token session) (run_ops P ops (apply_op P op s)))
    = Inl (usermgmt_error IMErrUnauthorized)"
  using Authenticate_none [OF ops_session [OF ended [OF assms(1-3)] assms(4)], of P now] by simp

definition demo_session :: Session where
  "demo_session =
     \<lparr> se_Token = ''t'', se_UserID = UserID 1, se_ActorID = NewActorID ActorUser ''x'',
       se_Origin = DirectLogin (NewActorID ActorUser ''x''), se_CreatedAt = 0, se_ExpiresAt = 10 \<rparr>"

lemma ended_sessions_stay_ended_witness:
  "fst (Authenticate demo_service 5 ''t'' (run_ops demo_service
      [OpSweep 3 :: mem_enforcer service_op, OpAuthenticate 4 ''t'']
      (apply_op demo_service (OpLogout ''t'' :: mem_enforcer service_op)
        (demo_start (\<lambda>a. UserState_zero, NewUserReadModel) \<lparr> ss_sessions := [(''t'', demo_session)] \<rparr>))))
    = Inl (usermgmt_error IMErrUnauthorized)"
proof -
  let ?s = "demo_start (\<lambda>a. UserState_zero, NewUserReadModel) \<lparr> ss_sessions := [(''t'', demo_session)] \<rparr>"
  have "map_wf (ss_sessions ?s)" "map_get (ss_sessions ?s) (se_Token demo_session) = Some demo_session"
    "ends demo_service ?s (OpLogout ''t'' :: mem_enforcer service_op) demo_session"
    "\<forall>later \<in> set [OpSweep 3 :: mem_enforcer service_op, OpAuthenticate 4 ''t'']. \<not> issues later (se_Token demo_session)"
    by (simp_all add: map_wf_def demo_session_def)
  from ended_sessions_stay_ended [OF this, of 5] show ?thesis by (simp add: demo_session_def)
qed

end
