(* ===== verification/Url_Query.thy ===== *)
theory Url_Query
  imports Prelude
begin

text \<open>
  Query strings (\<open>net/url\<close>) and numbers in them (\<open>strconv\<close>): \<open>QueryEscape\<close>, \<open>QueryUnescape\<close>,
  \<open>ParseQuery\<close>, \<open>Itoa\<close>, \<open>Atoi\<close> and \<open>ParseUint\<close> of the Go standard library, with the round trips the
  links of the dashboard rest on: what a link puts into the query is what the next request reads.
\<close>

section \<open>Escapes\<close>

definition hex_char :: "nat \<Rightarrow> char" where
  "hex_char n = (if n < 10 then char_of (48 + n) else char_of (55 + n))"

definition hex_digit :: "char \<Rightarrow> nat option" where
  "hex_digit c =
     (let n = of_char c in
      if 48 \<le> n \<and> n \<le> 57 then Some (n - 48)
      else if 65 \<le> n \<and> n \<le> 70 then Some (n - 55)
      else if 97 \<le> n \<and> n \<le> 102 then Some (n - 87) else None)"

lemma hex_digit_char:
  assumes "n < 16" shows "hex_digit (hex_char n) = Some n"
proof (cases "n < 10")
  case True
  then have "of_char (hex_char n) = 48 + n" by (simp add: hex_char_def)
  with True show ?thesis by (simp add: hex_digit_def)
next
  case False
  with assms have "of_char (hex_char n) = 55 + n" by (simp add: hex_char_def)
  with False assms show ?thesis by (simp add: hex_digit_def)
qed

lemma hex_digits_of_char:
  "hex_digit (hex_char (of_char c div 16)) = Some (of_char c div 16)"
  "hex_digit (hex_char (of_char c mod 16)) = Some (of_char c mod 16)"
proof -
  have "(of_char c :: nat) < 16 * 16" using nat_of_char_less_256 [of c] by simp
  then have "(of_char c :: nat) div 16 < 16" by (rule less_mult_imp_div_less)
  then show "hex_digit (hex_char (of_char c div 16)) = Some (of_char c div 16)" by (rule hex_digit_char)
  show "hex_digit (hex_char (of_char c mod 16)) = Some (of_char c mod 16)" by (rule hex_digit_char) simp
qed

definition unreserved :: "char \<Rightarrow> bool" where
  "unreserved c \<longleftrightarrow>
     (let n = (of_char c :: nat) in
      48 \<le> n \<and> n \<le> 57 \<or> 65 \<le> n \<and> n \<le> 90 \<or> 97 \<le> n \<and> n \<le> 122 \<or> c \<in> set ''-_.~'')"

definition escape_char :: "char \<Rightarrow> string" where
  "escape_char c =
     (if unreserved c then [c]
      else if c = CHR '' '' then ''+''
      else let n = (of_char c :: nat) in [CHR ''%'', hex_char (n div 16), hex_char (n mod 16)])"

definition QueryEscape :: "string \<Rightarrow> string" where
  "QueryEscape s = concat (map escape_char s)"

text \<open>Decoding; \<open>q\<close> is set in a query, where \<open>+\<close> is a space.\<close>

fun percent_decode :: "bool \<Rightarrow> string \<Rightarrow> string option" where
  "percent_decode q [] = Some []"
| "percent_decode q (c # s) =
     (if c = CHR ''%'' then
        (case s of
           a # b # rest \<Rightarrow>
             (case (hex_digit a, hex_digit b) of
                (Some x, Some y) \<Rightarrow> map_option ((#) (byte (16 * x + y))) (percent_decode q rest)
              | _ \<Rightarrow> None)
         | _ \<Rightarrow> None)
      else map_option ((#) (if q \<and> c = CHR ''+'' then CHR '' '' else c)) (percent_decode q s))"

definition QueryUnescape :: "string \<Rightarrow> string option" where
  "QueryUnescape s = percent_decode True s"

definition pathUnescape :: "string \<Rightarrow> string" where
  "pathUnescape s = (case percent_decode False s of None \<Rightarrow> s | Some t \<Rightarrow> t)"

lemma unreserved_plain: "unreserved c \<Longrightarrow> c \<noteq> CHR ''%'' \<and> c \<noteq> CHR ''+''"
  by (auto simp: unreserved_def)

lemma decode_escape_char:
  "percent_decode True (escape_char c @ s) = map_option ((#) c) (percent_decode True s)"
proof (cases "unreserved c \<or> c = CHR '' ''")
  case True
  then show ?thesis using unreserved_plain [of c] by (auto simp: escape_char_def)
next
  case False
  have "byte (16 * (of_char c div 16) + of_char c mod 16) = c"
    by (simp add: byte_def)
  then show ?thesis using False by (simp add: escape_char_def Let_def hex_digits_of_char)
qed

theorem QueryUnescape_Escape: "QueryUnescape (QueryEscape s) = Some s"
  unfolding QueryUnescape_def QueryEscape_def
  by (induction s) (simp_all add: decode_escape_char)

lemma escape_char_no_sep: "set (escape_char c) \<inter> set ''&=;?#'' = {}"
proof -
  have "x \<notin> set ''&=;?#''" if "hex_digit x \<noteq> None" for x
    using that by (auto simp: hex_digit_def)
  from this [of "hex_char (of_char c div 16)"] this [of "hex_char (of_char c mod 16)"]
  have "hex_char (of_char c div 16) \<notin> set ''&=;?#''" "hex_char (of_char c mod 16) \<notin> set ''&=;?#''"
    by (simp_all add: hex_digits_of_char)
  then show ?thesis by (auto simp: escape_char_def unreserved_def Let_def)
qed

lemma QueryEscape_no_sep: "x \<in> set ''&=;?#'' \<Longrightarrow> x \<notin> set (QueryEscape s)"
  using escape_char_no_sep by (auto simp: QueryEscape_def)

section \<open>Queries\<close>

text \<open>\<open>strings.Cut\<close>: the text before the first separator and the text behind it, which is empty when there
  is none.\<close>

definition cut_at :: "char \<Rightarrow> string \<Rightarrow> string \<times> string" where
  "cut_at c s = (takeWhile (\<lambda>x. x \<noteq> c) s, tl (dropWhile (\<lambda>x. x \<noteq> c) s))"

lemma cut_at_append: "c \<notin> set a \<Longrightarrow> cut_at c (a @ c # b) = (a, b)"
  by (induction a) (auto simp: cut_at_def)

lemma cut_at_none: "c \<notin> set a \<Longrightarrow> cut_at c a = (a, [])"
  by (induction a) (auto simp: cut_at_def)

definition query_pair :: "string \<Rightarrow> (string \<times> string) list" where
  "query_pair part =
     (if CHR '';'' \<in> set part \<or> part = [] then []
      else let (k, v) = cut_at (CHR ''='') part in
        (case (QueryUnescape k, QueryUnescape v) of (Some k', Some v') \<Rightarrow> [(k', v')] | _ \<Rightarrow> []))"

text \<open>\<open>url.ParseQuery\<close> as \<open>URL.Query\<close> uses it, which drops what is malformed.\<close>

function ParseQuery :: "string \<Rightarrow> (string \<times> string) list" where
  "ParseQuery [] = []"
| "ParseQuery (c # s) =
     (let (part, rest) = cut_at (CHR ''&'') (c # s) in query_pair part @ ParseQuery rest)"
  by pat_completeness auto
termination
proof (relation "measure length", goal_cases)
  case (2 c s p q r)
  have "length (dropWhile (\<lambda>x. x \<noteq> CHR ''&'') (c # s)) \<le> length (c # s)" by (rule length_dropWhile_le)
  with 2 show ?case by (auto simp: cut_at_def)
qed simp

text \<open>\<open>Values.Get\<close>: the first value, or the empty text.\<close>

definition Query_Get :: "(string \<times> string) list \<Rightarrow> string \<Rightarrow> string" where
  "Query_Get q k = (case map_of q k of None \<Rightarrow> [] | Some v \<Rightarrow> v)"

fun join_amp :: "string list \<Rightarrow> string" where
  "join_amp [] = []"
| "join_amp [x] = x"
| "join_amp (x # xs) = x @ ''&'' @ join_amp xs"

definition plain_key :: "string \<Rightarrow> bool" where
  "plain_key k \<longleftrightarrow> k \<noteq> [] \<and> (\<forall>c\<in>set k. unreserved c)"

lemma plain_key_unescape:
  assumes "plain_key k" shows "QueryUnescape k = Some k"
proof -
  from assms have "\<forall>c\<in>set k. unreserved c" by (simp add: plain_key_def)
  then have "QueryEscape k = k"
    unfolding QueryEscape_def by (induction k) (simp_all add: escape_char_def)
  with QueryUnescape_Escape [of k] show ?thesis by simp
qed

lemma query_pair_of:
  assumes "plain_key k"
  shows "query_pair (k @ ''='' @ QueryEscape v) = [(k, v)]"
proof -
  have "CHR ''='' \<notin> set k" "CHR '';'' \<notin> set k"
    using assms by (auto simp: plain_key_def unreserved_def)
  moreover have "CHR '';'' \<notin> set (QueryEscape v)" by (rule QueryEscape_no_sep) simp
  ultimately show ?thesis
    using cut_at_append [of "CHR ''=''" k "QueryEscape v"] assms
    by (simp add: query_pair_def QueryUnescape_Escape plain_key_unescape plain_key_def)
qed

definition query_part :: "string \<times> string \<Rightarrow> string" where
  "query_part = (\<lambda>(k, v). k @ ''='' @ QueryEscape v)"

lemma query_part_no_amp: "plain_key (fst kv) \<Longrightarrow> CHR ''&'' \<notin> set (query_part kv)"
  using QueryEscape_no_sep [of "CHR ''&''" "snd kv"]
  by (force simp: query_part_def plain_key_def unreserved_def split: prod.splits)

lemma ParseQuery_cons:
  "s \<noteq> [] \<Longrightarrow> ParseQuery s = query_pair (fst (cut_at (CHR ''&'') s)) @ ParseQuery (snd (cut_at (CHR ''&'') s))"
  by (cases s) (simp_all add: split_beta)

theorem ParseQuery_join:
  assumes "\<And>kv. kv \<in> set kvs \<Longrightarrow> plain_key (fst kv)"
  shows "ParseQuery (join_amp (map query_part kvs)) = kvs"
  using assms
proof (induction kvs rule: induct_list012)
  case 1
  show ?case by simp
next
  case (2 kv)
  then have p: "plain_key (fst kv)" by simp
  have "query_part kv \<noteq> []" by (simp add: query_part_def split: prod.splits)
  from ParseQuery_cons [OF this] cut_at_none [OF query_part_no_amp [OF p]] query_pair_of [OF p, of "snd kv"]
  show ?case by (simp add: query_part_def split_beta)
next
  case (3 kv kv2 kvs)
  then have p: "plain_key (fst kv)" by simp
  let ?rest = "join_amp (map query_part (kv2 # kvs))"
  have "join_amp (map query_part (kv # kv2 # kvs)) = query_part kv @ CHR ''&'' # ?rest" by simp
  moreover have "cut_at (CHR ''&'') (query_part kv @ CHR ''&'' # ?rest) = (query_part kv, ?rest)"
    by (rule cut_at_append [OF query_part_no_amp [OF p]])
  moreover have "query_pair (query_part kv) = [kv]"
    using query_pair_of [OF p, of "snd kv"] by (simp add: query_part_def split_beta)
  moreover have "ParseQuery ?rest = kv2 # kvs" using 3 by simp
  ultimately show ?case by (simp add: ParseQuery_cons)
qed

section \<open>Numbers\<close>

definition digit :: "char \<Rightarrow> nat option" where
  "digit c = (let n = of_char c in if 48 \<le> n \<and> n \<le> 57 then Some (n - 48) else None)"

fun digits_from :: "nat \<Rightarrow> string \<Rightarrow> nat option" where
  "digits_from n [] = Some n"
| "digits_from n (c # s) = (case digit c of None \<Rightarrow> None | Some d \<Rightarrow> digits_from (10 * n + d) s)"

definition read_digits :: "string \<Rightarrow> nat option" where
  "read_digits s = (if s = [] then None else digits_from 0 s)"

text \<open>\<open>strconv.Atoi\<close> on 64 bits; \<open>None\<close> is an error.\<close>

definition Atoi :: "string \<Rightarrow> int option" where
  "Atoi s =
     (let neg = has_prefix s ''-'';
          ds = (if neg \<or> has_prefix s ''+'' then tl s else s) in
      case read_digits ds of
        None \<Rightarrow> None
      | Some n \<Rightarrow>
          if neg then (if n \<le> 2 ^ 63 then Some (- int n) else None)
          else (if n < 2 ^ 63 then Some (int n) else None))"

text \<open>\<open>strconv.ParseUint(s, 10, 64)\<close>: the value and whether there was no error. It is 0 for malformed text and
  the largest number for one out of range.\<close>

definition ParseUint :: "string \<Rightarrow> nat \<times> bool" where
  "ParseUint s =
     (case read_digits s of
        None \<Rightarrow> (0, False)
      | Some n \<Rightarrow> if n < 2 ^ 64 then (n, True) else (2 ^ 64 - 1, False))"

lemma digits_from_append:
  "digits_from n (s @ t) = (case digits_from n s of None \<Rightarrow> None | Some m \<Rightarrow> digits_from m t)"
  by (induction n s rule: digits_from.induct) (auto split: option.splits)

lemma digit_char: "d < 10 \<Longrightarrow> digit (char_of (48 + d)) = Some d"
  by (auto simp: digit_def)

lemma show_nat_nonempty: "show_nat n \<noteq> []"
  by (subst show_nat.simps) simp

lemma digits_from_show: "digits_from 0 (show_nat n) = Some n"
proof (induction n rule: less_induct)
  case (less n)
  show ?case
  proof (cases "n < 10")
    case True
    then show ?thesis by (subst show_nat.simps) (simp add: digit_char)
  next
    case False
    then have "digits_from 0 (show_nat (n div 10)) = Some (n div 10)" by (intro less) simp
    with False show ?thesis
      by (subst show_nat.simps) (simp add: digits_from_append digit_char)
  qed
qed

lemma read_digits_show: "read_digits (show_nat n) = Some n"
  by (simp add: read_digits_def digits_from_show show_nat_nonempty)

lemma show_nat_digits: "c \<in> set (show_nat n) \<Longrightarrow> 48 \<le> (of_char c :: nat) \<and> (of_char c :: nat) \<le> 57"
proof (induction n rule: less_induct)
  case (less n)
  show ?case
  proof (cases "n < 10")
    case True
    with less.prems show ?thesis by (subst (asm) show_nat.simps) auto
  next
    case False
    then have "c \<in> set (show_nat (n div 10)) \<or> c = char_of (48 + n mod 10)"
      using less.prems by (subst (asm) show_nat.simps) auto
    with less.IH [of "n div 10"] False show ?thesis by auto
  qed
qed

lemma show_nat_unsigned: "\<not> has_prefix (show_nat n) ''-''" "\<not> has_prefix (show_nat n) ''+''"
  using show_nat_digits [of "hd (show_nat n)" n] show_nat_nonempty [of n]
  by (cases "show_nat n"; auto simp: has_prefix_def)+

theorem Atoi_show: "n < 2 ^ 63 \<Longrightarrow> Atoi (show_nat n) = Some (int n)"
  by (simp add: Atoi_def read_digits_show show_nat_unsigned)

lemma ParseUint_show: "n < 2 ^ 64 \<Longrightarrow> ParseUint (show_nat n) = (n, True)"
  by (simp add: ParseUint_def read_digits_show)

lemma QueryEscape_show: "QueryEscape (show_nat n) = show_nat n"
proof -
  have "c \<in> set (show_nat n) \<Longrightarrow> escape_char c = [c]" for c
    using show_nat_digits [of c n] by (simp add: escape_char_def unreserved_def)
  then have "concat (map escape_char (show_nat n)) = concat (map (\<lambda>c. [c]) (show_nat n))"
    by (intro arg_cong [where f = concat] map_cong) auto
  then show ?thesis by (simp add: QueryEscape_def)
qed

end
