(* ===== verification/Serve_Mux.thy ===== *)
theory Serve_Mux
  imports Redirects Url_Query
begin

text \<open>
  The request router of the Go standard library (\<open>http.ServeMux\<close>), as far as the routers of the repository
  use it: patterns of a method and a path whose segments are literals, \<open>{name}\<close> wildcards, the end marker
  \<open>{$}\<close> or a trailing slash, without hosts. The search is that of the library's routing tree, on the list of
  registered patterns: a literal first, then a wildcard, then a trailing slash.
\<close>

section \<open>Patterns and paths\<close>

datatype pat_seg = Lit string | Wild string | Multi

definition GET :: string where "GET = ''GET''"
definition POST :: string where "POST = ''POST''"
definition HEAD :: string where "HEAD = ''HEAD''"

definition pattern_seg :: "string \<Rightarrow> pat_seg" where
  "pattern_seg s =
     (if s = ''{$}'' then Lit ''/''
      else if has_prefix s ''{'' then Wild (butlast (tl s)) else Lit s)"

fun pattern_segs :: "string list \<Rightarrow> pat_seg list" where
  "pattern_segs [] = []"
| "pattern_segs [s] = (if s = [] then [Multi] else [pattern_seg s])"
| "pattern_segs (s # t # ss) = pattern_seg s # pattern_segs (t # ss)"

text \<open>The pattern of a path; the leading slash is dropped.\<close>

definition parse_pattern :: "string \<Rightarrow> pat_seg list" where
  "parse_pattern p = pattern_segs (segments (tl p))"

text \<open>The segments of a request path: a trailing slash is a segment of its own.\<close>

fun path_parts :: "string list \<Rightarrow> string list" where
  "path_parts [] = []"
| "path_parts [s] = [if s = [] then ''/'' else pathUnescape s]"
| "path_parts (s # t # ss) = pathUnescape s # path_parts (t # ss)"

definition path_segments :: "string \<Rightarrow> string list" where
  "path_segments p = path_parts (segments (tl p))"

definition cleanPath :: "string \<Rightarrow> string" where
  "cleanPath p =
     (if p = [] then ''/''
      else let q = (if hd p = slash then p else slash # p); np = path_Clean q in
        if last q = slash \<and> np \<noteq> ''/'' then np @ ''/'' else np)"

section \<open>The search\<close>

type_synonym 'h branch = "(pat_seg list \<times> 'h) list"

fun lit_child :: "string \<Rightarrow> 'h branch \<Rightarrow> 'h branch" where
  "lit_child seg [] = []"
| "lit_child seg ((p, h) # ps) =
     (case p of
        Lit s # p' \<Rightarrow> if s = seg then (p', h) # lit_child seg ps else lit_child seg ps
      | _ \<Rightarrow> lit_child seg ps)"

fun wild_child :: "'h branch \<Rightarrow> 'h branch" where
  "wild_child [] = []"
| "wild_child ((p, h) # ps) =
     (case p of Wild n # p' \<Rightarrow> (p', h) # wild_child ps | _ \<Rightarrow> wild_child ps)"

fun leaf :: "'h branch \<Rightarrow> 'h option" where
  "leaf [] = None"
| "leaf ((p, h) # ps) = (if p = [] then Some h else leaf ps)"

fun multi_child :: "'h branch \<Rightarrow> 'h option" where
  "multi_child [] = None"
| "multi_child ((p, h) # ps) = (if p = [Multi] then Some h else multi_child ps)"

fun matchPath :: "'h branch \<Rightarrow> string list \<Rightarrow> string list \<Rightarrow> ('h \<times> string list) option" where
  "matchPath ps [] matches = map_option (\<lambda>h. (h, matches)) (leaf ps)"
| "matchPath ps (seg # rest) matches =
     (case matchPath (lit_child seg ps) rest matches of
        Some r \<Rightarrow> Some r
      | None \<Rightarrow>
          (case (if seg \<noteq> ''/'' then matchPath (wild_child ps) rest (matches @ [seg]) else None) of
             Some r \<Rightarrow> Some r
           | None \<Rightarrow> map_option (\<lambda>h. (h, matches)) (multi_child ps)))"

record 'h mux_row =
  mr_Method :: string
  mr_Pattern :: string
  mr_Handler :: 'h

type_synonym 'h mux = "'h mux_row list"

definition method_branch :: "'h mux \<Rightarrow> string \<Rightarrow> 'h mux_row branch" where
  "method_branch mux m = map (\<lambda>r. (parse_pattern (mr_Pattern r), r)) (filter (\<lambda>r. mr_Method r = m) mux)"

definition matchMethodAndPath ::
  "'h mux \<Rightarrow> string \<Rightarrow> string \<Rightarrow> ('h mux_row \<times> string list) option" where
  "matchMethodAndPath mux meth path =
     first_some (\<lambda>m. matchPath (method_branch mux m) (path_segments path) [])
       (meth # (if meth = HEAD then [GET] else []) @ [[]])"

definition exactMatch :: "('h mux_row \<times> string list) option \<Rightarrow> string \<Rightarrow> bool" where
  "exactMatch n path =
     (case n of
        None \<Rightarrow> False
      | Some (r, _) \<Rightarrow>
          (let segs = parse_pattern (mr_Pattern r) in
           if last segs \<noteq> Multi then True
           else if path \<noteq> [] \<and> last path \<noteq> slash then False
           else length segs = count_list path slash))"

definition wild_names :: "pat_seg list \<Rightarrow> string list" where
  "wild_names segs = concat (map (\<lambda>p. case p of Wild n \<Rightarrow> [n] | _ \<Rightarrow> []) segs)"

definition matchingMethods :: "'h mux \<Rightarrow> string \<Rightarrow> string list" where
  "matchingMethods mux path =
     (let paths = (if path \<noteq> [] \<and> last path = slash then [path] else [path, path @ ''/'']) in
      remdups (concat (map
        (\<lambda>r. if mr_Method r \<noteq> [] \<and>
                (\<exists>p\<in>set paths. matchPath [(parse_pattern (mr_Pattern r), r)] (path_segments p) [] \<noteq> None)
              then mr_Method r # (if mr_Method r = GET then [HEAD] else []) else []) mux)))"

datatype 'h mux_answer =
    Handled 'h "(string \<times> string) list"
  | MovedTo string
  | MethodNotAllowed "string list"
  | NoRoute

text \<open>\<open>findHandler\<close>: the path is the escaped one of the request.\<close>

definition findHandler :: "'h mux \<Rightarrow> string \<Rightarrow> string \<Rightarrow> 'h mux_answer" where
  "findHandler mux meth escaped =
     (let connect = (meth = ''CONNECT'');
          path = (if connect then escaped else cleanPath escaped);
          n = matchMethodAndPath mux meth path;
          slashed = path @ ''/'' in
      if \<not> exactMatch n path \<and> \<not> (path \<noteq> [] \<and> last path = slash)
         \<and> exactMatch (matchMethodAndPath mux meth slashed) slashed
      then MovedTo (cleanPath path @ ''/'')
      else if \<not> connect \<and> path \<noteq> escaped then MovedTo path
      else (case n of
              Some (r, vs) \<Rightarrow> Handled (mr_Handler r) (zip (wild_names (parse_pattern (mr_Pattern r))) vs)
            | None \<Rightarrow>
                (case matchingMethods mux path of [] \<Rightarrow> NoRoute | ms \<Rightarrow> MethodNotAllowed ms)))"

definition PathValue :: "(string \<times> string) list \<Rightarrow> string \<Rightarrow> string" where
  "PathValue vars name = (case map_of vars name of None \<Rightarrow> [] | Some v \<Rightarrow> v)"

section \<open>What a pattern matches\<close>

fun seg_match :: "pat_seg list \<Rightarrow> string list \<Rightarrow> bool" where
  "seg_match [] segs \<longleftrightarrow> segs = []"
| "seg_match (Lit s # p) segs \<longleftrightarrow> (case segs of [] \<Rightarrow> False | seg # rest \<Rightarrow> seg = s \<and> seg_match p rest)"
| "seg_match (Wild n # p) segs \<longleftrightarrow>
     (case segs of [] \<Rightarrow> False | seg # rest \<Rightarrow> seg \<noteq> ''/'' \<and> seg_match p rest)"
| "seg_match (Multi # p) segs \<longleftrightarrow> p = [] \<and> segs \<noteq> []"

lemma lit_child_set: "(p, h) \<in> set (lit_child seg ps) \<longleftrightarrow> (Lit seg # p, h) \<in> set ps"
  by (induction seg ps rule: lit_child.induct) (auto split: list.splits pat_seg.splits)

lemma wild_child_set: "(p, h) \<in> set (wild_child ps) \<longleftrightarrow> (\<exists>n. (Wild n # p, h) \<in> set ps)"
  by (induction ps rule: wild_child.induct) (auto split: list.splits pat_seg.splits)

lemma leaf_set: "leaf ps = Some h \<Longrightarrow> ([], h) \<in> set ps" "leaf ps = None \<Longrightarrow> ([], h) \<notin> set ps"
  by (induction ps rule: leaf.induct) (auto split: if_splits)

lemma multi_child_set:
  "multi_child ps = Some h \<Longrightarrow> ([Multi], h) \<in> set ps" "multi_child ps = None \<Longrightarrow> ([Multi], h) \<notin> set ps"
  by (induction ps rule: multi_child.induct) (auto split: if_splits)

lemma matchPath_sound:
  "matchPath ps segs vs = Some (h, vs') \<Longrightarrow> \<exists>p. (p, h) \<in> set ps \<and> seg_match p segs"
proof (induction ps segs vs rule: matchPath.induct)
  case (1 ps vs)
  then show ?case using leaf_set(1) [of ps h] by (intro exI [of _ "[]"]) auto
next
  case (2 ps seg rest vs)
  consider (lit) "matchPath (lit_child seg ps) rest vs = Some (h, vs')"
    | (wild) "matchPath (lit_child seg ps) rest vs = None" "seg \<noteq> ''/''"
        "matchPath (wild_child ps) rest (vs @ [seg]) = Some (h, vs')"
    | (multi) "multi_child ps = Some h"
    using "2.prems" by (auto split: option.splits if_splits)
  then show ?case
  proof cases
    case lit
    from "2.IH"(1) [OF lit] obtain p where "(p, h) \<in> set (lit_child seg ps)" "seg_match p rest" by blast
    then show ?thesis by (intro exI [of _ "Lit seg # p"]) (simp add: lit_child_set)
  next
    case wild
    from "2.IH"(2) [OF wild] obtain p where "(p, h) \<in> set (wild_child ps)" "seg_match p rest" by blast
    then obtain n where "(Wild n # p, h) \<in> set ps" unfolding wild_child_set by blast
    with \<open>seg_match p rest\<close> wild(2) show ?thesis by (intro exI [of _ "Wild n # p"]) simp
  next
    case multi
    from multi_child_set(1) [OF this] show ?thesis by (intro exI [of _ "[Multi]"]) simp
  qed
qed

lemma matchPath_complete:
  "(p, h) \<in> set ps \<Longrightarrow> seg_match p segs \<Longrightarrow> matchPath ps segs vs \<noteq> None"
proof (induction ps segs vs arbitrary: p rule: matchPath.induct)
  case (1 ps vs)
  then have "p = []" by (cases p rule: list.exhaust) (auto elim: seg_match.elims)
  with 1 show ?case using leaf_set(2) [of ps h] by auto
next
  case (2 ps seg rest vs)
  consider (lit) p' where "p = Lit seg # p'" "seg_match p' rest"
    | (wild) n p' where "p = Wild n # p'" "seg \<noteq> ''/''" "seg_match p' rest"
    | (multi) "p = [Multi]"
    using "2.prems"(2) by (cases p rule: list.exhaust) (auto split: pat_seg.splits elim!: seg_match.elims)
  then show ?case
  proof cases
    case lit
    with "2.prems"(1) have "(p', h) \<in> set (lit_child seg ps)" by (simp add: lit_child_set)
    from "2.IH"(1) [OF this lit(2)] show ?thesis by auto
  next
    case wild
    with "2.prems"(1) have "(p', h) \<in> set (wild_child ps)" by (auto simp: wild_child_set)
    from "2.IH"(2) [OF _ wild(2) this wild(3)] wild(2) show ?thesis
      by (cases "matchPath (lit_child seg ps) rest vs") (auto split: option.splits)
  next
    case multi
    with "2.prems"(1) multi_child_set(2) [of ps h] have "multi_child ps \<noteq> None" by auto
    then show ?thesis by (auto split: option.splits)
  qed
qed

section \<open>What a mux serves\<close>

text \<open>A pattern of \<open>GET\<close> serves \<open>HEAD\<close> as well; one without a method serves all.\<close>

definition method_serves :: "string \<Rightarrow> string \<Rightarrow> bool" where
  "method_serves m meth \<longleftrightarrow> m = meth \<or> (m = GET \<and> meth = HEAD) \<or> m = []"

lemma matchMethodAndPath_sound:
  assumes "matchMethodAndPath mux meth path = Some (r, vs)"
  shows "r \<in> set mux \<and> method_serves (mr_Method r) meth
    \<and> seg_match (parse_pattern (mr_Pattern r)) (path_segments path)"
proof -
  from assms obtain m where m: "m = meth \<or> m = GET \<and> meth = HEAD \<or> m = []"
    "matchPath (method_branch mux m) (path_segments path) [] = Some (r, vs)"
    by (auto simp: matchMethodAndPath_def split: option.splits if_splits)
  from matchPath_sound [OF m(2)] m(1) show ?thesis
    by (auto simp: method_branch_def method_serves_def)
qed

lemma matchMethodAndPath_complete:
  assumes "r \<in> set mux" and "method_serves (mr_Method r) meth"
    and "seg_match (parse_pattern (mr_Pattern r)) (path_segments path)"
  shows "matchMethodAndPath mux meth path \<noteq> None"
proof -
  have "matchPath (method_branch mux (mr_Method r)) (path_segments path) [] \<noteq> None"
    using assms by (intro matchPath_complete [of _ r]) (auto simp: method_branch_def)
  then have "\<exists>m\<in>set (meth # (if meth = HEAD then [GET] else []) @ [[]]).
      matchPath (method_branch mux m) (path_segments path) [] \<noteq> None"
    using assms(2) by (auto simp: method_serves_def)
  then show ?thesis unfolding matchMethodAndPath_def first_some_None by auto
qed

lemma findHandler_sound:
  assumes "findHandler mux meth path = Handled h vars"
  obtains r where "r \<in> set mux" and "h = mr_Handler r" and "method_serves (mr_Method r) meth"
    and "seg_match (parse_pattern (mr_Pattern r)) (path_segments path)"
proof -
  from assms obtain r vs where "matchMethodAndPath mux meth path = Some (r, vs)" "h = mr_Handler r"
    by (auto simp: findHandler_def Let_def split: if_splits option.splits list.splits)
  with matchMethodAndPath_sound [of mux meth path r vs] that [of r] show thesis by simp
qed

end
