(* ===== verification/Service_Http.thy ===== *)
theory Service_Http
  imports Service_Sessions Serve_Mux Base64 "HOL-Library.Signed_Division"
begin

text \<open>
  The HTTP endpoints of the user service (\<open>usermgmt/http.go\<close>, \<open>middleware.go\<close>, \<open>session_gate.go\<close>,
  \<open>verification_totp_http.go\<close>, \<open>webauthn_http.go\<close>, \<open>oauth2_http.go\<close>, \<open>credential_http.go\<close>): the session
  token of a request, the session pass, the routes, every handler and the session cookie. JSON, CSV, the rate
  limiters and the pagination of the query library are arguments; a timeout only bounds the context that the
  service passes on, and is not modelled.
\<close>

section \<open>Requests and replies\<close>

text \<open>\<open>ht_RequestID\<close> is the text of the request ID of the context, empty when there is none.\<close>

record http_request =
  ht_Method :: string
  ht_Path :: string
  ht_RawQuery :: string
  ht_Cookies :: "(string, string) gomap"
  ht_Authorization :: string
  ht_ContentType :: string
  ht_Body :: "err + bytes"
  ht_RequestID :: string

record cookie =
  ck_Name :: string
  ck_Value :: string
  ck_Path :: string
  ck_HttpOnly :: bool
  ck_Secure :: bool
  ck_SameSiteStrict :: bool
  ck_MaxAge :: int

record credentialSummary =
  cs_ID :: string
  cs_Name :: string
  cs_BackupEligible :: bool
  cs_BackupState :: bool
  cs_CreatedAt :: time

record credentialListResponse =
  cl_Credentials :: "credentialSummary list"
  cl_TotalCount :: int
  cl_Page :: int
  cl_PageSize :: int
  cl_TotalPages :: int

datatype reply_body =
    ErrorBody string string string
  | StatusBody string
  | TokenBody string
  | AuthBody AuthResult
  | UserBody User
  | CredentialsBody credentialListResponse
  | TOTPBody TOTPSetupResponse
  | BeginBody webauthnBeginResponse
  | ImportBody ImportResult
  | CSVFile "string list list"
  | JSONFile "ExportUser list"
  | Location string
  | NoBody
  | Panic

record http_reply =
  hr_Status :: int
  hr_Body :: reply_body
  hr_Cookie :: "cookie option"

definition auth_JSON :: "int \<Rightarrow> reply_body \<Rightarrow> http_reply" where
  "auth_JSON status body = \<lparr> hr_Status = status, hr_Body = body, hr_Cookie = None \<rparr>"

definition writeError :: "int \<Rightarrow> string \<Rightarrow> http_reply" where
  "writeError status message = auth_JSON status (ErrorBody message [] [])"

definition redirect_to :: "string \<Rightarrow> http_reply" where
  "redirect_to url = auth_JSON 302 (Location url)"

section \<open>The handler\<close>

datatype limiter =
  RegLimiter | ImportLimiter | TOTPLimiter | VerificationLimiter | WebAuthnLimiter | OAuthLimiter

record RateLimitConfig =
  rl_Enabled :: bool
  rl_MaxRequests :: int

text \<open>A limiter is made only for an enabled configuration.\<close>

definition newLimiterFromConfig :: "RateLimitConfig \<Rightarrow> bool" where
  "newLimiterFromConfig config \<longleftrightarrow> rl_Enabled config \<and> rl_MaxRequests config > 0"

record HandlerConfig =
  hc_CookieName :: string
  hc_Secure :: "bool option"
  hc_SessionMaxAge :: int
  hc_RateLimits :: "limiter \<Rightarrow> RateLimitConfig"
  hc_OAuth2SuccessURL :: string
  hc_OAuth2ErrorURL :: string
  hc_ImportExportAuthorizer :: "(User \<Rightarrow> err option) option"

text \<open>The handler: its configuration, the service and what libraries decode.\<close>

record 'w auth_handler =
  ah_service :: "'w service_env"
  ah_totp :: "totp_provider option"
  ah_pendingTTL :: duration
  ah_oauth :: "oauth_provider option"
  ah_webauthn :: "webauthn_provider option"
  ah_cookieName :: string
  ah_secure :: bool
  ah_sessionMaxAge :: int
  ah_limiter :: "limiter \<Rightarrow> bool"
  ah_oauth2SuccessURL :: string
  ah_oauth2ErrorURL :: string
  ah_importExportAuthorizer :: "User \<Rightarrow> err option"
  ah_decode_register :: "bytes \<Rightarrow> err + RegisterRequest"
  ah_decode_field :: "string \<Rightarrow> bytes \<Rightarrow> err + string"
  ah_decode_users :: "bytes \<Rightarrow> err + ImportUser list"
  ah_read_csv :: "bytes \<Rightarrow> err + string list list"
  ah_AllUsers :: "UserReadModel \<Rightarrow> User list"
  ah_NewPagination :: "string \<Rightarrow> string \<Rightarrow> int \<times> int"

definition defaultCookieName :: string where "defaultCookieName = ''session_token''"

definition applyConfigDefaults :: "HandlerConfig \<Rightarrow> HandlerConfig" where
  "applyConfigDefaults config =
     (let config = (if hc_CookieName config = [] then config \<lparr> hc_CookieName := defaultCookieName \<rparr> else config)
      in if hc_Secure config = None then config \<lparr> hc_Secure := Some True \<rparr> else config)"

text \<open>\<open>RequireAdminRole\<close>: the role in the tenant named like the user; \<open>roles_for\<close> is \<open>RolesForUser\<close> of the authorization component.\<close>

definition RequireAdminRole :: "id_env \<Rightarrow> (user_id \<Rightarrow> tenant_id \<Rightarrow> err + role list) \<Rightarrow> User \<Rightarrow> err option" where
  "RequireAdminRole I roles_for user =
     (case roles_for (u_id user) (NewTenantID (user_text I (u_id user))) of
        Inl e \<Rightarrow> Some e
      | Inr roles \<Rightarrow> if RoleAdmin \<in> set roles then None else Some (usermgmt_error IMErrForbidden))"

definition NewAuthHandler ::
  "(user_id \<Rightarrow> tenant_id \<Rightarrow> err + role list) \<Rightarrow> HandlerConfig \<Rightarrow> 'w auth_handler \<Rightarrow> 'w auth_handler" where
  "NewAuthHandler roles_for config H =
     (let resolved = applyConfigDefaults config in
      H \<lparr> ah_cookieName := hc_CookieName resolved,
          ah_secure := (case hc_Secure resolved of Some b \<Rightarrow> b | None \<Rightarrow> True),
          ah_sessionMaxAge := hc_SessionMaxAge resolved,
          ah_limiter := (\<lambda>l. newLimiterFromConfig (hc_RateLimits resolved l)),
          ah_oauth2SuccessURL := hc_OAuth2SuccessURL resolved, ah_oauth2ErrorURL := hc_OAuth2ErrorURL resolved,
          ah_importExportAuthorizer :=
            (case hc_ImportExportAuthorizer resolved of
               Some f \<Rightarrow> f
             | None \<Rightarrow> RequireAdminRole (sv_ids (ah_service H)) roles_for) \<rparr>)"

text \<open>What the clock, the random generator and the rate limiters answer during one request.\<close>

record request_input =
  hi_now :: time
  hi_now2 :: time
  hi_generated :: "err + string"
  hi_freshUser :: user_id
  hi_freshStream :: "nat \<Rightarrow> stream_id"
  hi_allows :: "limiter \<Rightarrow> bool"

section \<open>Errors\<close>

definition friendlyRegistrationClosedMessage :: string where
  "friendlyRegistrationClosedMessage =
     ''New sign-ups are closed on this server. If you should have access, ask the administrator to add you, ''
     @ ''then sign in with your existing account.''"

definition friendlyAuthMessage :: "err_env \<Rightarrow> err \<Rightarrow> string" where
  "friendlyAuthMessage E e =
     (if errors_is e (usermgmt_error IMErrRegistrationClosed) then friendlyRegistrationClosedMessage
      else error_text E e)"

definition errorStatus :: "err_env \<Rightarrow> err \<Rightarrow> int" where
  "errorStatus E e = MapError E (Some e)"

definition writeDispatchError :: "'w auth_handler \<Rightarrow> http_request \<Rightarrow> err \<Rightarrow> http_reply" where
  "writeDispatchError H r e =
     (let E = sv_err (ah_service H) in
      auth_JSON (errorStatus E e) (ErrorBody (friendlyAuthMessage E e) (ErrorCode (Some e)) (ht_RequestID r)))"

text \<open>A service call that answers an error or something to write.\<close>

definition or_error :: "'w auth_handler \<Rightarrow> http_request \<Rightarrow> ('a \<Rightarrow> http_reply) \<Rightarrow> (err + 'a) \<times> 'w service
   \<Rightarrow> http_reply \<times> 'w service" where
  "or_error H r f = (\<lambda>(res, s). (case res of Inl e \<Rightarrow> writeDispatchError H r e | Inr v \<Rightarrow> f v, s))"

definition or_fault :: "'w auth_handler \<Rightarrow> http_request \<Rightarrow> http_reply \<Rightarrow> err option \<times> 'w service
   \<Rightarrow> http_reply \<times> 'w service" where
  "or_fault H r ok = (\<lambda>(res, s). (case res of Some e \<Rightarrow> writeDispatchError H r e | None \<Rightarrow> ok, s))"

definition checkRateLimit :: "'w auth_handler \<Rightarrow> request_input \<Rightarrow> limiter \<Rightarrow> string \<Rightarrow> http_reply option" where
  "checkRateLimit H i l msg = (if ah_limiter H l \<and> \<not> hi_allows i l then Some (writeError 429 msg) else None)"

definition maxAuthBodySize :: nat where "maxAuthBodySize = 2 ^ 20"

definition read_auth_body :: "http_request \<Rightarrow> err + bytes" where
  "read_auth_body r = (case ht_Body r of Inl e \<Rightarrow> Inl e | Inr b \<Rightarrow> Inr (take maxAuthBodySize b))"

definition bad_body :: "'w auth_handler \<Rightarrow> string \<Rightarrow> err \<Rightarrow> http_reply" where
  "bad_body H what e =
     (let E = sv_err (ah_service H) in
      writeError 400 (error_text E (usermgmt_error IMErrValidation) @ '': '' @ what @ '': '' @ error_text E e))"

definition decodeAuthJSON ::
  "'w auth_handler \<Rightarrow> string \<Rightarrow> string \<Rightarrow> http_request \<Rightarrow> (bytes \<Rightarrow> err + 'a) \<Rightarrow> http_reply + 'a" where
  "decodeAuthJSON H unread undecoded r decode =
     (case read_auth_body r of
        Inl e \<Rightarrow> Inl (bad_body H unread e)
      | Inr body \<Rightarrow> (case decode body of Inl e \<Rightarrow> Inl (bad_body H undecoded e) | Inr v \<Rightarrow> Inr v))"

abbreviation decode_auth :: "'w auth_handler \<Rightarrow> http_request \<Rightarrow> (bytes \<Rightarrow> err + 'a) \<Rightarrow> http_reply + 'a" where
  "decode_auth H \<equiv> decodeAuthJSON H ''read request body'' ''invalid request body''"

section \<open>Sessions of requests\<close>

definition bearerPrefix :: string where "bearerPrefix = ''Bearer ''"

definition extractToken :: "string \<Rightarrow> http_request \<Rightarrow> string" where
  "extractToken cookieName r =
     (case map_get (ht_Cookies r) cookieName of
        Some v \<Rightarrow>
          if v \<noteq> [] then v
          else if has_prefix (ht_Authorization r) bearerPrefix
               then drop (length bearerPrefix) (ht_Authorization r) else []
      | None \<Rightarrow>
          if has_prefix (ht_Authorization r) bearerPrefix
          then drop (length bearerPrefix) (ht_Authorization r) else [])"

record sessionOriginInfo =
  so_ActorID :: string
  so_ImpersonatorID :: string

text \<open>What the session pass puts into the context: the user and the origin of the session.\<close>

definition session_origin :: "id_env \<Rightarrow> Session \<Rightarrow> sessionOriginInfo" where
  "session_origin I session =
     \<lparr> so_ActorID = prefixed I (se_ActorID session),
       so_ImpersonatorID = (case se_Origin session of Impersonation by _ _ \<Rightarrow> prefixed I by | DirectLogin _ \<Rightarrow> []) \<rparr>"

definition authenticateRequest ::
  "'w service_env \<Rightarrow> string \<Rightarrow> time \<Rightarrow> http_request \<Rightarrow> 'w service
   \<Rightarrow> (User \<times> sessionOriginInfo option) option \<times> 'w service" where
  "authenticateRequest P cookieName now r s =
     (let token = extractToken cookieName r in
      if token = [] then (None, s)
      else (case Authenticate P now token s of
              (Inl e, s1) \<Rightarrow> (None, s1)
            | (Inr user, s1) \<Rightarrow>
                (Some (user, case audited_Find token s1 of
                    Inl e \<Rightarrow> None | Inr session \<Rightarrow> Some (session_origin (sv_ids P) session)), s1)))"

definition setSessionCookie :: "'w auth_handler \<Rightarrow> string \<Rightarrow> http_reply \<Rightarrow> http_reply" where
  "setSessionCookie H token reply =
     reply \<lparr> hr_Cookie := Some
       \<lparr> ck_Name = ah_cookieName H, ck_Value = token, ck_Path = ''/'', ck_HttpOnly = True, ck_Secure = ah_secure H,
         ck_SameSiteStrict = True,
         ck_MaxAge = (if ah_sessionMaxAge H \<le> 0 then defaultSessionTTL div second else ah_sessionMaxAge H) \<rparr> \<rparr>"

definition clearSessionCookie :: "'w auth_handler \<Rightarrow> http_reply \<Rightarrow> http_reply" where
  "clearSessionCookie H reply =
     reply \<lparr> hr_Cookie := Some
       \<lparr> ck_Name = ah_cookieName H, ck_Value = [], ck_Path = ''/'', ck_HttpOnly = True, ck_Secure = ah_secure H,
         ck_SameSiteStrict = True, ck_MaxAge = -1 \<rparr> \<rparr>"

text \<open>\<open>currentUser\<close>: the user of the context, or a 401.\<close>

definition currentUser :: "User option \<Rightarrow> http_reply + User" where
  "currentUser ctx = (case ctx of None \<Rightarrow> Inl (writeError 401 ''not authenticated'') | Some user \<Rightarrow> Inr user)"

definition requireSessionUserTarget :: "id_env \<Rightarrow> User option \<Rightarrow> string \<Rightarrow> http_reply + user_id" where
  "requireSessionUserTarget I ctx target =
     (case currentUser ctx of
        Inl reply \<Rightarrow> Inl reply
      | Inr user \<Rightarrow>
          if target = [] then Inl (writeError 400 ''user_id is required'')
          else if target \<noteq> user_text I (u_id user) then
            Inl (writeError 403 ''cannot enroll credentials for another user'')
          else Inr (u_id user))"

text \<open>The preflights: rate limit, user, and for imports and exports the authorizer.\<close>

definition authContext ::
  "'w auth_handler \<Rightarrow> request_input \<Rightarrow> User option \<Rightarrow> limiter \<Rightarrow> string \<Rightarrow> http_reply + User" where
  "authContext H i ctx l msg =
     (case checkRateLimit H i l msg of Some reply \<Rightarrow> Inl reply | None \<Rightarrow> currentUser ctx)"

definition importExportContext ::
  "'w auth_handler \<Rightarrow> request_input \<Rightarrow> http_request \<Rightarrow> User option \<Rightarrow> string \<Rightarrow> http_reply option" where
  "importExportContext H i r ctx msg =
     (case authContext H i ctx ImportLimiter msg of
        Inl reply \<Rightarrow> Some reply
      | Inr user \<Rightarrow>
          (case ah_importExportAuthorizer H user of
             Some e \<Rightarrow> Some (writeDispatchError H r e)
           | None \<Rightarrow> None))"

section \<open>Handlers\<close>

text \<open>A handler is run with the user of the context, the path values and the state of the service.\<close>

type_synonym 'w handled = "'w service \<Rightarrow> http_reply \<times> 'w service"

definition stop :: "http_reply \<Rightarrow> 'w handled" where
  "stop reply s = (reply, s)"

definition for_user :: "http_reply + User \<Rightarrow> (User \<Rightarrow> 'w handled) \<Rightarrow> 'w handled" where
  "for_user x f = (case x of Inl reply \<Rightarrow> stop reply | Inr user \<Rightarrow> f user)"

definition handleRegister :: "'w auth_handler \<Rightarrow> request_input \<Rightarrow> http_request \<Rightarrow> 'w handled" where
  "handleRegister H i r =
     (case checkRateLimit H i RegLimiter ''too many registration requests'' of
        Some reply \<Rightarrow> stop reply
      | None \<Rightarrow>
          (case decodeAuthJSON H ''read register request'' ''unmarshal register request'' r (ah_decode_register H) of
             Inl reply \<Rightarrow> stop reply
           | Inr req \<Rightarrow>
               (\<lambda>s. or_error H r
                  (\<lambda>resp. setSessionCookie H (se_Token (ar_Session resp)) (auth_JSON 201 (AuthBody resp)))
                  (Register (ah_service H) (hi_freshUser i) (hi_generated i) (hi_now i) req s))))"

definition handleLogout :: "'w auth_handler \<Rightarrow> http_request \<Rightarrow> 'w handled" where
  "handleLogout H r =
     (let token = extractToken (ah_cookieName H) r in
      if token = [] then stop (writeError 401 ''no session'')
      else (\<lambda>s. or_fault H r (clearSessionCookie H (auth_JSON 200 (StatusBody ''logged_out'')))
              (Logout (ah_service H) token s)))"

definition handleMe :: "User option \<Rightarrow> 'w handled" where
  "handleMe ctx = for_user (currentUser ctx) (\<lambda>user. stop (auth_JSON 200 (UserBody user)))"

definition handleSendVerificationEmail ::
  "'w auth_handler \<Rightarrow> request_input \<Rightarrow> http_request \<Rightarrow> User option \<Rightarrow> 'w handled" where
  "handleSendVerificationEmail H i r ctx =
     for_user (authContext H i ctx VerificationLimiter ''too many verification requests'')
       (\<lambda>user s. or_error H r (\<lambda>token. auth_JSON 200 (TokenBody token))
          (SendVerificationEmail (ah_service H) (hi_generated i) (hi_now i) (u_id user) s))"

definition handleVerifyEmail :: "'w auth_handler \<Rightarrow> request_input \<Rightarrow> http_request \<Rightarrow> 'w handled" where
  "handleVerifyEmail H i r =
     (case checkRateLimit H i VerificationLimiter ''too many verification requests'' of
        Some reply \<Rightarrow> stop reply
      | None \<Rightarrow>
          (case decode_auth H r (ah_decode_field H ''token'') of
             Inl reply \<Rightarrow> stop reply
           | Inr token \<Rightarrow>
               (\<lambda>s. or_fault H r (auth_JSON 200 (StatusBody ''verified''))
                  (VerifyEmail (ah_service H) (hi_now i) token s))))"

definition handleTOTPSetup :: "'w auth_handler \<Rightarrow> request_input \<Rightarrow> http_request \<Rightarrow> User option \<Rightarrow> 'w handled" where
  "handleTOTPSetup H i r ctx =
     for_user (authContext H i ctx TOTPLimiter ''too many TOTP requests'')
       (\<lambda>user s. or_error H r (\<lambda>resp. auth_JSON 200 (TOTPBody resp))
          (EnableTOTP (ah_service H) (ah_totp H) (ah_pendingTTL H) (hi_now i) (u_id user) s))"

definition handleTOTPCode ::
  "'w auth_handler \<Rightarrow> request_input \<Rightarrow> http_request \<Rightarrow> User option
   \<Rightarrow> (user_id \<Rightarrow> string \<Rightarrow> 'w service \<Rightarrow> err option \<times> 'w service) \<Rightarrow> string \<Rightarrow> 'w handled" where
  "handleTOTPCode H i r ctx verify status =
     for_user (authContext H i ctx TOTPLimiter ''too many TOTP requests'')
       (\<lambda>user. case decode_auth H r (ah_decode_field H ''code'') of
          Inl reply \<Rightarrow> stop reply
        | Inr code \<Rightarrow> (\<lambda>s. or_fault H r (auth_JSON 200 (StatusBody status)) (verify (u_id user) code s)))"

definition formatFromQuery :: "'w auth_handler \<Rightarrow> http_request \<Rightarrow> string" where
  "formatFromQuery H r = ToLower (sv_unicode_lower (ah_service H)) (Query_Get (ParseQuery (ht_RawQuery r)) ''format'')"

datatype UserDataFormat = UserDataFormatJSON | UserDataFormatCSV

definition parseUserDataFormat :: "'w auth_handler \<Rightarrow> http_request \<Rightarrow> UserDataFormat" where
  "parseUserDataFormat H r = (if formatFromQuery H r = ''csv'' then UserDataFormatCSV else UserDataFormatJSON)"

definition parseImportFormat :: "'w auth_handler \<Rightarrow> http_request \<Rightarrow> UserDataFormat" where
  "parseImportFormat H r =
     (let v = formatFromQuery H r in
      if v = ''csv'' then UserDataFormatCSV
      else if v = ''json'' then UserDataFormatJSON
      else let ct = ToLower (sv_unicode_lower (ah_service H))
                  (trim_space (takeWhile (\<lambda>c. c \<noteq> CHR '';'') (ht_ContentType r))) in
           if ct = ''text/csv'' then UserDataFormatCSV else UserDataFormatJSON)"

definition handleExportUsers :: "'w auth_handler \<Rightarrow> request_input \<Rightarrow> http_request \<Rightarrow> User option \<Rightarrow> 'w handled" where
  "handleExportUsers H i r ctx s =
     (case importExportContext H i r ctx ''too many export requests'' of
        Some reply \<Rightarrow> (reply, s)
      | None \<Rightarrow>
          (let all = ah_AllUsers H (users (ah_service H) s) in
           (case parseUserDataFormat H r of
              UserDataFormatCSV \<Rightarrow> auth_JSON 200 (CSVFile (ExportUsersToCSV (sv_ids (ah_service H)) all))
            | UserDataFormatJSON \<Rightarrow> auth_JSON 200 (JSONFile (exportAllUsers all)), s)))"

definition handleImportUsers :: "'w auth_handler \<Rightarrow> request_input \<Rightarrow> http_request \<Rightarrow> User option \<Rightarrow> 'w handled" where
  "handleImportUsers H i r ctx =
     (case importExportContext H i r ctx ''too many import requests'' of
        Some reply \<Rightarrow> stop reply
      | None \<Rightarrow>
          (\<lambda>s. or_error H r (\<lambda>result. auth_JSON 200 (ImportBody result))
             (case parseImportFormat H r of
                UserDataFormatCSV \<Rightarrow>
                  ImportUsersFromCSV (ah_service H) (hi_freshStream i)
                    (case read_auth_body r of Inl e \<Rightarrow> Inl e | Inr body \<Rightarrow> ah_read_csv H body) s
              | UserDataFormatJSON \<Rightarrow>
                  ImportUsersFromJSON (ah_service H) (hi_freshStream i) (ah_decode_users H) (read_auth_body r) s)))"

subsection \<open>Credentials\<close>

text \<open>\<open>base64.RawURLEncoding\<close>: the standard encoding with \<open>-\<close> and \<open>_\<close> and without padding. Decoding drops
  line breaks.\<close>

definition url_char :: "char \<Rightarrow> char" where
  "url_char c = (if c = CHR ''+'' then CHR ''-'' else if c = CHR ''/'' then CHR ''_'' else c)"

definition std_char :: "char \<Rightarrow> char" where
  "std_char c = (if c = CHR ''-'' then CHR ''+'' else if c = CHR ''_'' then CHR ''/'' else c)"

definition RawURL_Encode :: "bytes \<Rightarrow> string" where
  "RawURL_Encode bs = map url_char (filter (\<lambda>c. c \<noteq> CHR ''='') (EncodeToString bs))"

fun pad4 :: "string \<Rightarrow> string option" where
  "pad4 (a # b # c # d # rest) = map_option (\<lambda>r. a # b # c # d # r) (pad4 rest)"
| "pad4 [a, b, c] = Some [a, b, c, CHR ''='']"
| "pad4 [a, b] = Some [a, b, CHR ''='', CHR ''='']"
| "pad4 [a] = None"
| "pad4 [] = Some []"

definition RawURL_Decode :: "string \<Rightarrow> bytes option" where
  "RawURL_Decode s =
     (let t = filter (\<lambda>c. (of_char c :: nat) \<notin> {10, 13}) s in
      if set t \<inter> set ''+/='' \<noteq> {} then None
      else (case pad4 (map std_char t) of None \<Rightarrow> None | Some padded \<Rightarrow> DecodeString padded))"

text \<open>Arithmetic on \<open>int\<close>, 64 bits wide. A slice whose bounds are out of range panics; the server then drops the
  connection.\<close>

definition wrap64 :: "int \<Rightarrow> int" where
  "wrap64 n = signed_take_bit 63 n"

definition totalPages :: "int \<Rightarrow> int \<Rightarrow> int" where
  "totalPages totalCount pageSize =
     (if pageSize = 0 then 0
      else let pages = totalCount sdiv pageSize in if totalCount smod pageSize > 0 then pages + 1 else pages)"

definition paginate :: "'a list \<Rightarrow> int \<Rightarrow> int \<Rightarrow> 'a list option" where
  "paginate items page pageSize =
     (if items = [] then Some items
      else let start = wrap64 (wrap64 (page - 1) * pageSize) in
           if start \<ge> int (length items) then Some []
           else let finish = min (wrap64 (start + pageSize)) (int (length items)) in
                if 0 \<le> start \<and> start \<le> finish
                then Some (take (nat (finish - start)) (drop (nat start) items)) else None)"

definition credential_summary :: "WebAuthnCredential \<Rightarrow> credentialSummary" where
  "credential_summary cred =
     \<lparr> cs_ID = RawURL_Encode (cred_id cred), cs_Name = cred_name cred, cs_BackupEligible = cred_backup_eligible cred,
       cs_BackupState = cred_backup_state cred, cs_CreatedAt = cred_created_at cred \<rparr>"

definition handleListCredentials :: "'w auth_handler \<Rightarrow> http_request \<Rightarrow> User option \<Rightarrow> 'w handled" where
  "handleListCredentials H r ctx =
     for_user (currentUser ctx) (\<lambda>user.
       let q = ParseQuery (ht_RawQuery r);
           summaries = map credential_summary (u_credentials user);
           total_count = int (length summaries);
           (page, pageSize) = ah_NewPagination H (Query_Get q ''page'') (Query_Get q ''page_size'') in
       case paginate summaries page pageSize of
         None \<Rightarrow> stop (auth_JSON 0 Panic)
       | Some paged \<Rightarrow>
           stop (auth_JSON 200 (CredentialsBody
             \<lparr> cl_Credentials = paged, cl_TotalCount = total_count, cl_Page = page, cl_PageSize = pageSize,
               cl_TotalPages = totalPages total_count pageSize \<rparr>)))"

definition handleDeleteCredential ::
  "'w auth_handler \<Rightarrow> http_request \<Rightarrow> User option \<Rightarrow> string \<Rightarrow> 'w handled" where
  "handleDeleteCredential H r ctx encodedID =
     for_user (currentUser ctx) (\<lambda>user.
       if encodedID = [] then stop (writeError 400 ''credential id is required'')
       else (case RawURL_Decode encodedID of
               None \<Rightarrow> stop (writeError 400 ''invalid credential id encoding'')
             | Some credID \<Rightarrow>
                 (\<lambda>s. or_fault H r (auth_JSON 200 (StatusBody ''removed''))
                    (RemoveCredential (ah_service H) (u_id user) credID s))))"

subsection \<open>WebAuthn ceremonies\<close>

definition too_many_webauthn :: string where "too_many_webauthn = ''too many WebAuthn requests''"

definition handleWebAuthnBeginRegistration ::
  "'w auth_handler \<Rightarrow> request_input \<Rightarrow> http_request \<Rightarrow> User option \<Rightarrow> 'w handled" where
  "handleWebAuthnBeginRegistration H i r ctx =
     for_user (authContext H i ctx WebAuthnLimiter too_many_webauthn) (\<lambda>user.
       case decode_auth H r (ah_decode_field H ''user_id'') of
         Inl reply \<Rightarrow> stop reply
       | Inr target \<Rightarrow>
           (case requireSessionUserTarget (sv_ids (ah_service H)) ctx target of
              Inl reply \<Rightarrow> stop reply
            | Inr userID \<Rightarrow>
                (\<lambda>s. or_error H r (\<lambda>resp. auth_JSON 200 (BeginBody resp))
                   (BeginRegistration (ah_service H) (ah_webauthn H) (hi_now i) userID s))))"

definition handleWebAuthnFinishRegistration ::
  "'w auth_handler \<Rightarrow> request_input \<Rightarrow> http_request \<Rightarrow> User option \<Rightarrow> 'w handled" where
  "handleWebAuthnFinishRegistration H i r ctx =
     (let q = ParseQuery (ht_RawQuery r) in
      case checkRateLimit H i WebAuthnLimiter too_many_webauthn of
        Some reply \<Rightarrow> stop reply
      | None \<Rightarrow>
          (case requireSessionUserTarget (sv_ids (ah_service H)) ctx (Query_Get q ''user_id'') of
             Inl reply \<Rightarrow> stop reply
           | Inr userID \<Rightarrow>
               (\<lambda>s. or_fault H r (auth_JSON 200 (StatusBody ''registered''))
                  (FinishRegistration (ah_service H) (ah_webauthn H) (hi_now i) userID (ht_Body r)
                     (Query_Get q ''credential_name'') s))))"

definition handleWebAuthnBeginLogin :: "'w auth_handler \<Rightarrow> request_input \<Rightarrow> http_request \<Rightarrow> 'w handled" where
  "handleWebAuthnBeginLogin H i r =
     (case checkRateLimit H i WebAuthnLimiter too_many_webauthn of
        Some reply \<Rightarrow> stop reply
      | None \<Rightarrow>
          (case decode_auth H r (ah_decode_field H ''email'') of
             Inl reply \<Rightarrow> stop reply
           | Inr email \<Rightarrow>
               (\<lambda>s. or_error H r (\<lambda>resp. auth_JSON 200 (BeginBody resp))
                  (BeginLogin (ah_service H) (ah_webauthn H) (hi_now i) (hi_now2 i) email s))))"

definition requireUserIDWithWebAuthnRateLimit ::
  "'w auth_handler \<Rightarrow> request_input \<Rightarrow> http_request \<Rightarrow> http_reply + user_id" where
  "requireUserIDWithWebAuthnRateLimit H i r =
     (case checkRateLimit H i WebAuthnLimiter too_many_webauthn of
        Some reply \<Rightarrow> Inl reply
      | None \<Rightarrow>
          (let userID = Query_Get (ParseQuery (ht_RawQuery r)) ''user_id'' in
           if userID = [] then Inl (writeError 400 ''user_id query parameter is required'')
           else Inr (NewUserID (sv_ids (ah_service H)) userID)))"

definition handleWebAuthnFinishLogin :: "'w auth_handler \<Rightarrow> request_input \<Rightarrow> http_request \<Rightarrow> 'w handled" where
  "handleWebAuthnFinishLogin H i r =
     (case requireUserIDWithWebAuthnRateLimit H i r of
        Inl reply \<Rightarrow> stop reply
      | Inr userID \<Rightarrow>
          (\<lambda>s. or_error H r
             (\<lambda>resp. setSessionCookie H (se_Token (ar_Session resp)) (auth_JSON 200 (AuthBody resp)))
             (FinishLogin (ah_service H) (ah_webauthn H) (hi_generated i) (hi_now i) userID (ht_Body r) s)))"

subsection \<open>OAuth2\<close>

definition too_many_oauth :: string where "too_many_oauth = ''too many OAuth2 requests''"

definition handleOAuth2Begin :: "'w auth_handler \<Rightarrow> request_input \<Rightarrow> http_request \<Rightarrow> string \<Rightarrow> 'w handled" where
  "handleOAuth2Begin H i r provider =
     (case checkRateLimit H i OAuthLimiter too_many_oauth of
        Some reply \<Rightarrow> stop reply
      | None \<Rightarrow>
          if provider = [] then stop (writeError 400 ''provider is required'')
          else (\<lambda>s. or_error H r redirect_to
                 (BeginOAuthLogin (ah_oauth H) (hi_generated i) (hi_now i) provider s)))"

definition oauth2Error :: "'w auth_handler \<Rightarrow> int \<Rightarrow> string \<Rightarrow> http_reply" where
  "oauth2Error H status message =
     (if ah_oauth2ErrorURL H \<noteq> [] then redirect_to (ah_oauth2ErrorURL H @ ''?error='' @ QueryEscape message)
      else writeError status message)"

definition handleOAuth2Callback :: "'w auth_handler \<Rightarrow> request_input \<Rightarrow> http_request \<Rightarrow> string \<Rightarrow> 'w handled" where
  "handleOAuth2Callback H i r provider =
     (let q = ParseQuery (ht_RawQuery r); code = Query_Get q ''code''; state = Query_Get q ''state'' in
      case checkRateLimit H i OAuthLimiter too_many_oauth of
        Some reply \<Rightarrow> stop reply
      | None \<Rightarrow>
          if provider = [] then stop (oauth2Error H 400 ''provider is required'')
          else if code = [] \<or> state = [] then
            stop (oauth2Error H 400 ''code and state query parameters are required'')
          else (\<lambda>s. case FinishOAuthLogin (ah_service H) (ah_oauth H) (hi_freshStream i 0) (hi_generated i) (hi_now i)
                    provider code state s of
                  (Inl e, s1) \<Rightarrow>
                    (let E = sv_err (ah_service H) in
                     (oauth2Error H (errorStatus E e) (friendlyAuthMessage E e), s1))
                | (Inr resp, s1) \<Rightarrow>
                    (setSessionCookie H (se_Token (ar_Session resp))
                       (if ah_oauth2SuccessURL H \<noteq> [] then redirect_to (ah_oauth2SuccessURL H)
                        else auth_JSON 200 (AuthBody resp)), s1)))"

definition handleOAuth2Unlink :: "'w auth_handler \<Rightarrow> http_request \<Rightarrow> User option \<Rightarrow> string \<Rightarrow> 'w handled" where
  "handleOAuth2Unlink H r ctx provider =
     for_user (currentUser ctx) (\<lambda>user.
       if provider = [] then stop (writeError 400 ''provider is required'')
       else (\<lambda>s. or_fault H r (auth_JSON 200 (StatusBody ''unlinked''))
              (UnlinkExternalAccount (ah_service H) (ah_oauth H) (u_id user) provider s)))"

section \<open>Routes\<close>

datatype auth_route =
    RouteRegister | RouteBeginRegistration | RouteFinishRegistration | RouteBeginLogin | RouteFinishLogin
  | RouteLogout | RouteMe | RouteListCredentials | RouteDeleteCredential
  | RouteSendVerification | RouteVerifyEmail | RouteTOTPSetup | RouteTOTPSetupVerify | RouteTOTPVerify
  | RouteTOTPDisable | RouteExport | RouteImport
  | RouteOAuthBegin | RouteOAuthCallback | RouteOAuthUnlink

text \<open>The handler of a route; \<open>ctx\<close> is the user of the context and \<open>path\<close> the path values.\<close>

fun auth_handle ::
  "auth_route \<Rightarrow> 'w auth_handler \<Rightarrow> request_input \<Rightarrow> http_request \<Rightarrow> User option \<Rightarrow> (string \<Rightarrow> string) \<Rightarrow> 'w handled" where
  "auth_handle RouteRegister H i r ctx path = handleRegister H i r"
| "auth_handle RouteBeginRegistration H i r ctx path = handleWebAuthnBeginRegistration H i r ctx"
| "auth_handle RouteFinishRegistration H i r ctx path = handleWebAuthnFinishRegistration H i r ctx"
| "auth_handle RouteBeginLogin H i r ctx path = handleWebAuthnBeginLogin H i r"
| "auth_handle RouteFinishLogin H i r ctx path = handleWebAuthnFinishLogin H i r"
| "auth_handle RouteLogout H i r ctx path = handleLogout H r"
| "auth_handle RouteMe H i r ctx path = handleMe ctx"
| "auth_handle RouteListCredentials H i r ctx path = handleListCredentials H r ctx"
| "auth_handle RouteDeleteCredential H i r ctx path = handleDeleteCredential H r ctx (path ''id'')"
| "auth_handle RouteSendVerification H i r ctx path = handleSendVerificationEmail H i r ctx"
| "auth_handle RouteVerifyEmail H i r ctx path = handleVerifyEmail H i r"
| "auth_handle RouteTOTPSetup H i r ctx path = handleTOTPSetup H i r ctx"
| "auth_handle RouteTOTPSetupVerify H i r ctx path =
     handleTOTPCode H i r ctx (VerifyTOTPSetup (ah_service H) (ah_totp H) (hi_now i)) ''totp_setup_verified''"
| "auth_handle RouteTOTPVerify H i r ctx path =
     handleTOTPCode H i r ctx (VerifyTOTP (ah_service H) (ah_totp H)) ''totp_verified''"
| "auth_handle RouteTOTPDisable H i r ctx path =
     handleTOTPCode H i r ctx (DisableTOTP (ah_service H) (ah_totp H)) ''totp_disabled''"
| "auth_handle RouteExport H i r ctx path = handleExportUsers H i r ctx"
| "auth_handle RouteImport H i r ctx path = handleImportUsers H i r ctx"
| "auth_handle RouteOAuthBegin H i r ctx path = handleOAuth2Begin H i r (path ''provider'')"
| "auth_handle RouteOAuthCallback H i r ctx path = handleOAuth2Callback H i r (path ''provider'')"
| "auth_handle RouteOAuthUnlink H i r ctx path = handleOAuth2Unlink H r ctx (path ''provider'')"

definition DELETE :: string where "DELETE = ''DELETE''"

text \<open>A row: the method, the pattern, whether the session pass runs first, and the route.\<close>

definition session_routes :: "(bool \<times> auth_route) mux" where
  "session_routes = map (\<lambda>(m, p, h). \<lparr> mr_Method = m, mr_Pattern = p, mr_Handler = (True, h) \<rparr>)
     [(POST, ''/auth/webauthn/register/begin'', RouteBeginRegistration),
      (POST, ''/auth/webauthn/register/finish'', RouteFinishRegistration),
      (GET, ''/auth/me'', RouteMe),
      (GET, ''/auth/credentials'', RouteListCredentials),
      (DELETE, ''/auth/credentials/{id}'', RouteDeleteCredential),
      (POST, ''/auth/email/verify/send'', RouteSendVerification),
      (POST, ''/auth/totp/setup'', RouteTOTPSetup),
      (POST, ''/auth/totp/setup/verify'', RouteTOTPSetupVerify),
      (POST, ''/auth/totp/verify'', RouteTOTPVerify),
      (POST, ''/auth/totp/disable'', RouteTOTPDisable),
      (GET, ''/auth/export'', RouteExport),
      (POST, ''/auth/import'', RouteImport),
      (POST, ''/auth/oauth/{provider}/unlink'', RouteOAuthUnlink)]"

definition public_routes :: "(bool \<times> auth_route) mux" where
  "public_routes = map (\<lambda>(m, p, h). \<lparr> mr_Method = m, mr_Pattern = p, mr_Handler = (False, h) \<rparr>)
     [(POST, ''/auth/register'', RouteRegister),
      (POST, ''/auth/webauthn/login/begin'', RouteBeginLogin),
      (POST, ''/auth/webauthn/login/finish'', RouteFinishLogin),
      (POST, ''/auth/logout'', RouteLogout),
      (POST, ''/auth/email/verify'', RouteVerifyEmail),
      (GET, ''/auth/oauth/{provider}/begin'', RouteOAuthBegin),
      (GET, ''/auth/oauth/{provider}/callback'', RouteOAuthCallback)]"

definition RegisterRoutes :: "(bool \<times> auth_route) mux" where
  "RegisterRoutes = session_routes @ public_routes"

text \<open>One request to the endpoints, without an outer session middleware.\<close>

definition serve_auth :: "'w auth_handler \<Rightarrow> request_input \<Rightarrow> http_request \<Rightarrow> 'w handled" where
  "serve_auth H i r s =
     (case findHandler RegisterRoutes (ht_Method r) (ht_Path r) of
        mux_answer.Handled (withSession, h) vars \<Rightarrow>
          (if withSession then
             (case authenticateRequest (ah_service H) (ah_cookieName H) (hi_now i) r s of
                (ctx, s1) \<Rightarrow> auth_handle h H i r (map_option fst ctx) (PathValue vars) s1)
           else auth_handle h H i r None (PathValue vars) s)
      | MovedTo path \<Rightarrow> (auth_JSON 301 (Location path), s)
      | MethodNotAllowed ms \<Rightarrow> (auth_JSON 405 NoBody, s)
      | NoRoute \<Rightarrow> (auth_JSON 404 NoBody, s))"

section \<open>Whom a request acts for\<close>

text \<open>What a request may run: its own session pass and sign-out, the operations that carry their own proof (a
  registration, a login, the token of an email), and everything else only on the user of the request's session;
  an import only after the authorizer admitted that user.\<close>

fun http_op :: "'w auth_handler \<Rightarrow> http_request \<Rightarrow> User option \<Rightarrow> unit service_op \<Rightarrow> bool" where
  "http_op H r ctx (OpAuthenticate now t) \<longleftrightarrow> t = extractToken (ah_cookieName H) r \<and> t \<noteq> []"
| "http_op H r ctx (OpLogout t) \<longleftrightarrow> t = extractToken (ah_cookieName H) r \<and> t \<noteq> []"
| "http_op H r ctx (OpRegister fresh g now req) \<longleftrightarrow> True"
| "http_op H r ctx (OpVerifyEmail now token) \<longleftrightarrow> True"
| "http_op H r ctx (OpBeginOAuthLogin o2 g now p) \<longleftrightarrow> True"
| "http_op H r ctx (OpFinishOAuthLogin o2 fresh g now p code state) \<longleftrightarrow> True"
| "http_op H r ctx (OpBeginLogin wp now now2 email) \<longleftrightarrow> True"
| "http_op H r ctx (OpFinishLogin wp g now u req) \<longleftrightarrow> True"
| "http_op H r ctx (OpRemoveCredential u c) \<longleftrightarrow> map_option u_id ctx = Some u"
| "http_op H r ctx (OpSendVerificationEmail g now u) \<longleftrightarrow> map_option u_id ctx = Some u"
| "http_op H r ctx (OpEnableTOTP totp ttl now u) \<longleftrightarrow> map_option u_id ctx = Some u"
| "http_op H r ctx (OpVerifyTOTPSetup totp now u code) \<longleftrightarrow> map_option u_id ctx = Some u"
| "http_op H r ctx (OpVerifyTOTP totp u code) \<longleftrightarrow> map_option u_id ctx = Some u"
| "http_op H r ctx (OpDisableTOTP totp u code) \<longleftrightarrow> map_option u_id ctx = Some u"
| "http_op H r ctx (OpUnlinkExternalAccount o2 u p) \<longleftrightarrow> map_option u_id ctx = Some u"
| "http_op H r ctx (OpBeginRegistration wp now u) \<longleftrightarrow> map_option u_id ctx = Some u"
| "http_op H r ctx (OpFinishRegistration wp now u req name) \<longleftrightarrow> map_option u_id ctx = Some u"
| "http_op H r ctx (OpImport fresh us) \<longleftrightarrow> (\<exists>user. ctx = Some user \<and> ah_importExportAuthorizer H user = None)"
| "http_op H r ctx op \<longleftrightarrow> False"

definition does :: "'w service_env \<Rightarrow> (unit service_op \<Rightarrow> bool) \<Rightarrow> 'w service \<Rightarrow> 'w service \<Rightarrow> bool" where
  "does P Q s s' \<longleftrightarrow> (\<exists>ops. (\<forall>op\<in>set ops. Q op) \<and> s' = run_ops P ops s)"

lemma does_none [simp]: "does P Q s s"
  by (auto simp: does_def run_ops_def intro: exI [of _ "[]"])

lemma does_op: "Q op \<Longrightarrow> does P Q s (apply_op P op s)"
  by (auto simp: does_def run_ops_def intro: exI [of _ "[op]"])

lemma does_then: "does P Q s s1 \<Longrightarrow> does P Q s1 s2 \<Longrightarrow> does P Q s s2"
  unfolding does_def
proof (elim exE conjE)
  fix ops1 ops2
  assume "\<forall>op\<in>set ops1. Q op" "s1 = run_ops P ops1 s" "\<forall>op\<in>set ops2. Q op" "s2 = run_ops P ops2 s1"
  then show "\<exists>ops. (\<forall>op\<in>set ops. Q op) \<and> s2 = run_ops P ops s"
    by (intro exI [of _ "ops1 @ ops2"]) (auto simp: run_ops_def)
qed

lemma does_ops:
  "Q (OpRegister f g now req) \<Longrightarrow> does P Q s (snd (Register P f g now req s))"
  "Q (OpLogout t) \<Longrightarrow> does P Q s (snd (Logout P t s))"
  "Q (OpAuthenticate now t) \<Longrightarrow> does P Q s (snd (Authenticate P now t s))"
  "Q (OpRemoveCredential u c) \<Longrightarrow> does P Q s (snd (RemoveCredential P u c s))"
  "Q (OpSendVerificationEmail g now u) \<Longrightarrow> does P Q s (snd (SendVerificationEmail P g now u s))"
  "Q (OpVerifyEmail now t) \<Longrightarrow> does P Q s (snd (VerifyEmail P now t s))"
  "Q (OpEnableTOTP totp ttl now u) \<Longrightarrow> does P Q s (snd (EnableTOTP P totp ttl now u s))"
  "Q (OpVerifyTOTPSetup totp now u code) \<Longrightarrow> does P Q s (snd (VerifyTOTPSetup P totp now u code s))"
  "Q (OpVerifyTOTP totp u code) \<Longrightarrow> does P Q s (snd (VerifyTOTP P totp u code s))"
  "Q (OpDisableTOTP totp u code) \<Longrightarrow> does P Q s (snd (DisableTOTP P totp u code s))"
  "Q (OpBeginOAuthLogin o2 g now p) \<Longrightarrow> does P Q s (snd (BeginOAuthLogin o2 g now p s))"
  "Q (OpFinishOAuthLogin o2 fs g now p code st) \<Longrightarrow> does P Q s (snd (FinishOAuthLogin P o2 fs g now p code st s))"
  "Q (OpUnlinkExternalAccount o2 u p) \<Longrightarrow> does P Q s (snd (UnlinkExternalAccount P o2 u p s))"
  "Q (OpBeginRegistration wp now u) \<Longrightarrow> does P Q s (snd (BeginRegistration P wp now u s))"
  "Q (OpFinishRegistration wp now u body name) \<Longrightarrow> does P Q s (snd (FinishRegistration P wp now u body name s))"
  "Q (OpBeginLogin wp now now2 email) \<Longrightarrow> does P Q s (snd (BeginLogin P wp now now2 email s))"
  "Q (OpFinishLogin wp g now u body) \<Longrightarrow> does P Q s (snd (FinishLogin P wp g now u body s))"
  "Q (OpImport fresh us) \<Longrightarrow> does P Q s (snd (importUsers P fresh us s))"
  using does_op [of Q _ P s] by force+

lemma reply_states [simp]:
  "snd (stop reply s) = s" "snd (or_error H r f x) = snd x" "snd (or_fault H r ok y) = snd y"
  by (simp_all add: stop_def or_error_def or_fault_def split: prod.splits)

lemma import_states:
  assumes "Q (OpImport fresh us)" and "\<And>us. Q (OpImport fresh us)"
  shows "does P Q s (snd (ImportUsersFromCSV P fresh rows s))"
    and "does P Q s (snd (ImportUsersFromJSON P fresh decode body s))"
  using assms by (auto simp: ImportUsersFromCSV_def ImportUsersFromJSON_def split: sum.splits intro: does_ops)

lemmas preflights = authContext_def importExportContext_def currentUser_def requireSessionUserTarget_def for_user_def
  checkRateLimit_def requireUserIDWithWebAuthnRateLimit_def

text \<open>Every handler runs at most one operation, an admissible one.\<close>

lemma handler_does:
  "does (ah_service H) (http_op H r ctx) s (snd (auth_handle h H i r ctx path s))"
proof (cases h)
  case RouteImport
  then show ?thesis
    by (auto simp: handleImportUsers_def preflights intro!: import_states split: option.splits sum.splits
        UserDataFormat.splits if_splits)
next
  case RouteExport
  then show ?thesis by (auto simp: handleExportUsers_def Let_def split: option.splits)
next
  case RouteOAuthCallback
  have "does (ah_service H) (http_op H r ctx) s s1"
    if "FinishOAuthLogin (ah_service H) o2 fs g now p code st s = (res, s1)" for o2 fs g now p code st res s1
    using that does_ops(12) [of "http_op H r ctx" o2 fs g now p code st "ah_service H" s] by simp
  with RouteOAuthCallback show ?thesis
    by (auto simp: handleOAuth2Callback_def Let_def split: option.splits prod.splits sum.splits)
qed (auto simp: handleRegister_def handleLogout_def handleMe_def handleListCredentials_def handleDeleteCredential_def
    handleSendVerificationEmail_def handleVerifyEmail_def handleTOTPSetup_def handleTOTPCode_def
    handleWebAuthnBeginRegistration_def handleWebAuthnFinishRegistration_def handleWebAuthnBeginLogin_def
    handleWebAuthnFinishLogin_def handleOAuth2Begin_def handleOAuth2Unlink_def preflights Let_def
    split: option.splits sum.splits if_splits prod.splits intro!: does_ops)

text \<open>The user whose session the request carries.\<close>

definition session_user :: "'w auth_handler \<Rightarrow> request_input \<Rightarrow> http_request \<Rightarrow> 'w service \<Rightarrow> User option" where
  "session_user H i r s =
     (let token = extractToken (ah_cookieName H) r in
      if token = [] then None
      else (case fst (Authenticate (ah_service H) (hi_now i) token s) of Inl e \<Rightarrow> None | Inr user \<Rightarrow> Some user))"

lemma authenticated_user:
  "authenticateRequest (ah_service H) (ah_cookieName H) (hi_now i) r s = (ctx, s1) \<Longrightarrow>
   map_option fst ctx = session_user H i r s
   \<and> does (ah_service H) (http_op H r (session_user H i r s)) s s1"
  using does_ops(3) [of "http_op H r (session_user H i r s)" "hi_now i" "extractToken (ah_cookieName H) r" "ah_service H" s]
  by (auto simp: authenticateRequest_def session_user_def Let_def split: if_splits prod.splits sum.splits)

lemma http_op_none: "http_op H r None op \<Longrightarrow> http_op H r ctx op"
  by (cases op) auto

lemma serve_does: "does (ah_service H) (http_op H r (session_user H i r s)) s (snd (serve_auth H i r s))"
proof (cases "findHandler RegisterRoutes (ht_Method r) (ht_Path r)")
  case (Handled wh vars)
  obtain withSession h where wh: "wh = (withSession, h)" by fastforce
  obtain ctx s1 where a: "authenticateRequest (ah_service H) (ah_cookieName H) (hi_now i) r s = (ctx, s1)" by fastforce
  note c = authenticated_user [OF a]
  show ?thesis
  proof (cases withSession)
    case True
    have "does (ah_service H) (http_op H r (session_user H i r s)) s1
        (snd (auth_handle h H i r (map_option fst ctx) (PathValue vars) s1))"
      using handler_does [of H r "map_option fst ctx" s1 h i "PathValue vars"] c by simp
    with c does_then True Handled wh a show ?thesis by (force simp: serve_auth_def)
  next
    case False
    have "does (ah_service H) (http_op H r (session_user H i r s)) s (snd (auth_handle h H i r None (PathValue vars) s))"
      using handler_does [of H r None s h i "PathValue vars"] http_op_none [of H r _ "session_user H i r s"]
      by (auto simp: does_def)
    with False Handled wh show ?thesis by (simp add: serve_auth_def)
  qed
qed (simp_all add: serve_auth_def)

text \<open>C31. Whatever request comes in, what it does to the service is a run of operations (so every property of runs
  holds of the endpoints), and each of them is one the request may ask for: apart from signing in, signing up and
  answering an emailed token, it acts on no account but the one whose live session the request carries.\<close>

theorem auth_http_acts_for_caller:
  "\<exists>ops. snd (serve_auth H i r s) = run_ops (ah_service H) ops s
     \<and> (\<forall>op\<in>set ops. http_op H r (session_user H i r s) op)"
  using serve_does [of H r i s] by (simp add: does_def conj_commute)

section \<open>Cookies\<close>

lemma stored_session_found:
  assumes "createAndStoreSession P g now u s = (Inr session, s')"
  shows "g = Inr (se_Token session)" and "map_get (ss_sessions s') (se_Token session) = Some session"
  using assms
  by (auto simp: createAndStoreSession_def NewSession_def Let_def audited_Create_def Sessions_Create_def
      split: sum.splits dest: new_session_token)

text \<open>A sign-in answers a session that was just created under the generated token.\<close>

definition signs_in :: "err + string \<Rightarrow> (err + AuthResult) \<times> 'w service \<Rightarrow> bool" where
  "signs_in g = (\<lambda>(res, s). \<forall>auth. res = Inr auth \<longrightarrow>
     g = Inr (se_Token (ar_Session auth))
     \<and> map_get (ss_sessions s) (se_Token (ar_Session auth)) = Some (ar_Session auth))"

lemma signs_in_branches:
  "(b \<Longrightarrow> signs_in g x) \<Longrightarrow> (\<not> b \<Longrightarrow> signs_in g y) \<Longrightarrow> signs_in g (if b then x else y)"
  "(\<And>e. r = Inl e \<Longrightarrow> signs_in g (f e)) \<Longrightarrow> (\<And>v. r = Inr v \<Longrightarrow> signs_in g (h v)) \<Longrightarrow> signs_in g (case_sum f h r)"
  "(q = None \<Longrightarrow> signs_in g n) \<Longrightarrow> (\<And>v. q = Some v \<Longrightarrow> signs_in g (k v)) \<Longrightarrow> signs_in g (case_option n k q)"
  "(\<And>u v. p = (u, v) \<Longrightarrow> signs_in g (l u v)) \<Longrightarrow> signs_in g (case_prod l p)"
  "signs_in g (Inl e, s)"
  by (auto simp: signs_in_def split: sum.splits option.splits prod.splits)

lemma sign_ins:
  "signs_in g (Register P fresh g now req s)"
  "signs_in g (FinishLogin P wp g now u body s)"
  "signs_in g (completeLogin P o2' fs g now p json s)"
  unfolding Register_def FinishLogin_def completeLogin_def Let_def
  by (intro signs_in_branches; auto simp: signs_in_def dest: stored_session_found)+

lemma oauth_sign_in: "signs_in g (FinishOAuthLogin P o2 fs g now p code st s)"
  unfolding FinishOAuthLogin_def OAuth_FinishLogin_def Let_def
  by (intro signs_in_branches sign_ins)

text \<open>What a cookie of a reply may be: the sign-out cookie, or one with the token of a session just created.\<close>

definition cookie_sound :: "'w auth_handler \<Rightarrow> request_input \<Rightarrow> http_request \<Rightarrow> http_reply \<times> 'w service \<Rightarrow> bool" where
  "cookie_sound H i r = (\<lambda>(reply, s'). \<forall>c. hr_Cookie reply = Some c \<longrightarrow>
     ck_Name c = ah_cookieName H \<and> ck_Path c = ''/'' \<and> ck_HttpOnly c \<and> ck_SameSiteStrict c
     \<and> ck_Secure c = ah_secure H
     \<and> (ck_Value c = [] \<and> ck_MaxAge c = -1
        \<or> (ck_MaxAge c > 0 \<and> hi_generated i = Inr (ck_Value c)
           \<and> (\<exists>session. map_get (ss_sessions s') (ck_Value c) = Some session \<and> se_Token session = ck_Value c))))"

lemma no_cookie: "hr_Cookie reply = None \<Longrightarrow> cookie_sound H i r (reply, s)"
  by (simp add: cookie_sound_def)

lemma plain_replies [simp]:
  "hr_Cookie (auth_JSON st b) = None" "hr_Cookie (writeError st m) = None" "hr_Cookie (redirect_to u) = None"
  "hr_Cookie (writeDispatchError H r e) = None" "hr_Cookie (bad_body H what e) = None"
  "hr_Cookie (oauth2Error H st m) = None"
  by (simp_all add: auth_JSON_def writeError_def redirect_to_def writeDispatchError_def bad_body_def oauth2Error_def Let_def)

lemma or_error_cookie:
  "\<forall>v. hr_Cookie (f v) = None \<Longrightarrow> cookie_sound H i r (or_error H r f x)"
  "hr_Cookie ok = None \<Longrightarrow> cookie_sound H i r (or_fault H r ok y)"
  by (auto simp: or_error_def or_fault_def cookie_sound_def split: prod.splits sum.splits option.splits)

lemma session_cookie:
  assumes "signs_in (hi_generated i) (Inr auth, s)"
  shows "cookie_sound H i r (setSessionCookie H (se_Token (ar_Session auth)) reply, s)"
  using assms by (auto simp: cookie_sound_def signs_in_def setSessionCookie_def defaultSessionTTL_def)

lemma sign_in_cookie:
  "signs_in (hi_generated i) x \<Longrightarrow>
   cookie_sound H i r (or_error H r (\<lambda>resp. setSessionCookie H (se_Token (ar_Session resp)) (reply resp)) x)"
  by (cases x; cases "fst x") (auto simp: or_error_def no_cookie intro: session_cookie)

lemma stop_cookie: "hr_Cookie reply = None \<Longrightarrow> cookie_sound H i r (stop reply s)"
  by (simp add: stop_def no_cookie)

lemma preflight_cookies:
  "checkRateLimit H i l m = Some reply \<Longrightarrow> hr_Cookie reply = None"
  "decodeAuthJSON H m1 m2 r decode = Inl reply \<Longrightarrow> hr_Cookie reply = None"
  "authContext H i ctx l m = Inl reply \<Longrightarrow> hr_Cookie reply = None"
  "currentUser ctx = Inl reply \<Longrightarrow> hr_Cookie reply = None"
  "requireSessionUserTarget I ctx t = Inl reply \<Longrightarrow> hr_Cookie reply = None"
  "importExportContext H i r ctx m = Some reply \<Longrightarrow> hr_Cookie reply = None"
  "requireUserIDWithWebAuthnRateLimit H i r = Inl reply \<Longrightarrow> hr_Cookie reply = None"
  by (auto simp: preflights decodeAuthJSON_def Let_def split: if_splits option.splits sum.splits)

lemma handler_cookie: "cookie_sound H i r (auth_handle h H i r ctx path s)"
proof (cases h)
  case RouteLogout
  have "cookie_sound H i r (or_fault H r (clearSessionCookie H reply) y)" for reply y
    by (auto simp: or_fault_def cookie_sound_def clearSessionCookie_def split: prod.splits option.splits)
  with RouteLogout show ?thesis by (simp add: handleLogout_def Let_def stop_cookie)
next
  case RouteOAuthCallback
  have "cookie_sound H i r (setSessionCookie H (se_Token (ar_Session auth)) reply, s1)"
    if "FinishOAuthLogin (ah_service H) o2 fs (hi_generated i) now p code st s = (Inr auth, s1)"
    for o2 fs now p code st auth s1 reply
    using oauth_sign_in [of "hi_generated i" "ah_service H" o2 fs now p code st s] that by (auto intro: session_cookie)
  with RouteOAuthCallback show ?thesis
    by (auto simp: handleOAuth2Callback_def Let_def split: option.splits prod.splits sum.splits
        intro!: stop_cookie no_cookie dest: preflight_cookies)
qed (auto simp: handleRegister_def handleMe_def handleListCredentials_def handleDeleteCredential_def
    handleSendVerificationEmail_def handleVerifyEmail_def handleTOTPSetup_def handleTOTPCode_def
    handleExportUsers_def handleImportUsers_def
    handleWebAuthnBeginRegistration_def handleWebAuthnFinishRegistration_def handleWebAuthnBeginLogin_def
    handleWebAuthnFinishLogin_def handleOAuth2Begin_def handleOAuth2Unlink_def for_user_def Let_def
    split: option.splits sum.splits if_splits prod.splits UserDataFormat.splits
    intro!: stop_cookie no_cookie or_error_cookie sign_in_cookie sign_ins dest: preflight_cookies)

text \<open>C32. A session cookie is only ever the sign-out cookie, or carries the freshly generated token of a session that
  the very request created and that is in the store; it is out of reach of scripts, sent to the own site only and,
  unless configured otherwise, over secure connections only.\<close>

theorem session_cookie_sound:
  assumes "serve_auth H i r s = (reply, s')" and "hr_Cookie reply = Some c"
  shows "ck_Name c = ah_cookieName H \<and> ck_Path c = ''/'' \<and> ck_HttpOnly c \<and> ck_SameSiteStrict c
    \<and> ck_Secure c = ah_secure H
    \<and> (ck_Value c = [] \<and> ck_MaxAge c = -1
       \<or> (ck_MaxAge c > 0 \<and> hi_generated i = Inr (ck_Value c)
          \<and> (\<exists>session. map_get (ss_sessions s') (ck_Value c) = Some session \<and> se_Token session = ck_Value c)))"
proof -
  have "cookie_sound H i r (serve_auth H i r s)"
    by (auto simp: serve_auth_def handler_cookie no_cookie split: mux_answer.splits prod.splits)
  with assms show ?thesis by (auto simp: cookie_sound_def)
qed

section \<open>Credential identifiers and pages\<close>

lemma alphabet_chars: "set (EncodeToString bs) \<subseteq> set alphabet \<union> {CHR ''=''}"
proof -
  have "sextet n \<in> set alphabet" if "n < 64" for n using that alphabet_distinct(2) by (simp add: sextet_def)
  then show ?thesis
    by (induction bs rule: EncodeToString.induct) (use sextet_bounds in \<open>auto simp del: sextet_pad\<close>)
qed

lemma pad4_encode: "pad4 (filter (\<lambda>c. c \<noteq> CHR ''='') (EncodeToString bs)) = Some (EncodeToString bs)"
  by (induction bs rule: EncodeToString.induct) simp_all

lemma url_chars:
  "\<forall>c\<in>set alphabet. std_char (url_char c) = c \<and> url_char c \<notin> set ''+/=''
     \<and> (of_char (url_char c) :: nat) \<notin> {10, 13}"
  by (simp add: alphabet_def url_char_def std_char_def)

text \<open>The identifier a credential is listed under deletes that credential.\<close>

lemma credential_id_roundtrip: "RawURL_Decode (RawURL_Encode bs) = Some bs"
proof -
  let ?e = "filter (\<lambda>c. c \<noteq> CHR ''='') (EncodeToString bs)"
  have e: "\<forall>c\<in>set ?e. c \<in> set alphabet" using alphabet_chars by fastforce
  have "filter (\<lambda>c. (of_char c :: nat) \<notin> {10, 13}) (map url_char ?e) = map url_char ?e"
    using e url_chars by (intro filter_True) auto
  moreover have "set (map url_char ?e) \<inter> set ''+/='' = {}" using e url_chars by auto
  moreover have "map std_char (map url_char ?e) = ?e" unfolding map_map using e url_chars by (intro map_idI) auto
  ultimately show ?thesis 
    by (simp only: RawURL_Decode_def RawURL_Encode_def Let_def pad4_encode) (simp add: base64_roundtrip)
qed

text \<open>Pages within 64 bits are slices; a page number that overflows panics.\<close>

lemma wrap64_id: "- (2 ^ 63) \<le> n \<Longrightarrow> n < 2 ^ 63 \<Longrightarrow> wrap64 n = n"
  by (simp add: wrap64_def signed_take_bit_int_eq_self_iff)

lemma paginate_from:
  assumes "start = wrap64 (wrap64 (page - 1) * pageSize)" and "0 \<le> start" and "1 \<le> pageSize"
    and "wrap64 (start + pageSize) = start + pageSize"
  shows "paginate items page pageSize = Some (take (nat pageSize) (drop (nat start) items))"
proof (cases "start \<ge> int (length items)")
  case True
  then have "length items \<le> nat start" by simp
  with True show ?thesis by (auto simp: paginate_def Let_def assms(1) [symmetric])
next
  case False
  then have "take (nat (min (start + pageSize) (int (length items)) - start)) (drop (nat start) items)
      = take (nat pageSize) (drop (nat start) items)"
    using assms(2,3)
    by (cases "start + pageSize \<le> int (length items)") (simp_all add: min_def nat_diff_distrib)
  with False assms(2-4) show ?thesis by (auto simp: paginate_def Let_def assms(1) [symmetric])
qed

lemma paginate_slice:
  assumes "1 \<le> page" and "1 \<le> pageSize" and "page * pageSize < 2 ^ 63"
  shows "paginate items page pageSize = Some (take (nat pageSize) (drop (nat ((page - 1) * pageSize)) items))"
proof (rule paginate_from)
  have "page * 1 \<le> page * pageSize" using assms(1,2) by (intro mult_left_mono) simp_all
  moreover have "(page - 1) * pageSize + pageSize = page * pageSize" by (simp add: algebra_simps)
  moreover have "0 \<le> (page - 1) * pageSize" using assms(1,2) by simp
  ultimately have b: "0 \<le> (page - 1) * pageSize" "(page - 1) * pageSize + pageSize = page * pageSize"
    "page \<le> page * pageSize" by simp_all
  have w: "wrap64 (page - 1) = page - 1" "wrap64 ((page - 1) * pageSize) = (page - 1) * pageSize"
    by (rule wrap64_id, use assms b in linarith, use assms b in linarith)+
  then show "(page - 1) * pageSize = wrap64 (wrap64 (page - 1) * pageSize)" by simp
  show "wrap64 ((page - 1) * pageSize + pageSize) = (page - 1) * pageSize + pageSize"
    by (rule wrap64_id; use assms b in linarith)
qed (use assms in simp_all)

lemma page_overflow_panics: "items \<noteq> [] \<Longrightarrow> paginate items (2 ^ 62 + 1) 2 = None"
  by (simp add: paginate_def wrap64_def)

section \<open>What email verification proves\<close>

text \<open>The token an address was sent is answered to the caller as well, whether or not a mail callback is configured,
  and it is not bound to that address: it verifies whatever address the account has when it comes back.\<close>

lemma token_in_reply:
  assumes "authContext H i ctx VerificationLimiter ''too many verification requests'' = Inr user"
    and "SendVerificationEmail (ah_service H) (hi_generated i) (hi_now i) (u_id user) s = (Inr token, s1)"
  shows "handleSendVerificationEmail H i r ctx s = (auth_JSON 200 (TokenBody token), s1)"
  using assms by (simp add: handleSendVerificationEmail_def for_user_def or_error_def)

lemma changed_email_tokens: "ss_tokens (snd (ChangeEmail P u email s)) = ss_tokens s"
  by (auto simp: ChangeEmail_def dispatchUserCommand_def split: sum.splits prod.splits)

lemma stale_token_verifies:
  assumes "SendVerificationEmail P g now u s = (Inr token, s1)" and "now2 \<le> now + sv_verificationTTL P"
    and "aggIDFromUser P u = Inr a" and "s2 = snd (ChangeEmail P u email s1)"
  shows "ss_world (snd (VerifyEmail P now2 token s2)) = snd (sv_dispatch_user P a VerifyEmailCmd (ss_world s2))"
proof -
  from assms(1) have v: "sv_verification P" and
    t: "\<exists>entry. map_get (ss_tokens s1) token = Some entry \<and> ve_userID entry = u
      \<and> ve_expiresAt entry = now + sv_verificationTTL P"
    by (auto simp: SendVerificationEmail_def VerificationTokens_Save_def
        split: if_splits option.splits sum.splits prod.splits)
  have "ss_tokens s2 = ss_tokens s1" by (simp add: assms(4) changed_email_tokens)
  with t assms(2) have "fst (VerificationTokens_Consume now2 token (ss_tokens s2)) = Inr u"
    by (auto simp: VerificationTokens_Consume_def Let_def)
  then obtain ts where "VerificationTokens_Consume now2 token (ss_tokens s2) = (Inr u, ts)"
    by (cases "VerificationTokens_Consume now2 token (ss_tokens s2)") auto
  with v assms(3) show ?thesis by (auto simp: VerifyEmail_def split: prod.splits option.splits)
qed

text \<open>A registration may name the identifier of the account it makes.\<close>

lemma registration_names_account:
  assumes "\<not> user_is_zero (sv_ids P) (rq_ID req)"
    and "Register P fresh g now req s = (Inr auth, s')"
  shows "\<exists>a. aggIDFromUser P (rq_ID req) = Inr a \<and> FindByID (users P s') a = Some (ar_User auth)"
  using assms
  by (auto simp: Register_def RegisterRequest_Validate_def Let_def users_def split: if_splits sum.splits option.splits
      prod.splits dest!: session_worldD)

section \<open>A run over the endpoints\<close>

text \<open>Requests one after the other.\<close>

definition serve_all :: "'w auth_handler \<Rightarrow> (request_input \<times> http_request) list \<Rightarrow> 'w service \<Rightarrow> 'w service" where
  "serve_all H rs s = fold (\<lambda>(i, r) s. snd (serve_auth H i r s)) rs s"

lemma serve_step_runs: "\<exists>ops::unit service_op list. snd (serve_auth H i r s) = run_ops (ah_service H) ops s"
  using serve_does [of H r i s] by (auto simp: does_def)

lemma serve_all_runs: "\<exists>ops::unit service_op list. serve_all H rs s = run_ops (ah_service H) ops s"
proof (induction rs arbitrary: s)
  case Nil
  show ?case by (auto simp: serve_all_def run_ops_def intro: exI [of _ "[]"])
next
  case (Cons ir rs)
  obtain i r where ir: "ir = (i, r)" by fastforce
  obtain ops1 :: "unit service_op list" where 1: "snd (serve_auth H i r s) = run_ops (ah_service H) ops1 s"
    using serve_step_runs by blast
  obtain ops2 :: "unit service_op list" where
    2: "serve_all H rs (snd (serve_auth H i r s)) = run_ops (ah_service H) ops2 (snd (serve_auth H i r s))"
    using Cons.IH by blast
  show ?case
    by (rule exI [of _ "ops1 @ ops2"]) (use 1 2 ir in \<open>simp add: serve_all_def run_ops_def\<close>)
qed

section \<open>A sign-out\<close>

definition demo_auth :: "demo_world auth_handler" where
  "demo_auth =
     \<lparr> ah_service = demo_service, ah_totp = None, ah_pendingTTL = 0, ah_oauth = None, ah_webauthn = None,
       ah_cookieName = ''session_token'', ah_secure = True, ah_sessionMaxAge = 0, ah_limiter = (\<lambda>l. False),
       ah_oauth2SuccessURL = [], ah_oauth2ErrorURL = [], ah_importExportAuthorizer = (\<lambda>u. None),
       ah_decode_register = (\<lambda>b. Inl (usermgmt_error IMErrValidation)), ah_decode_field = (\<lambda>k b. Inr b),
       ah_decode_users = (\<lambda>b. Inr []), ah_read_csv = (\<lambda>b. Inr []), ah_AllUsers = (\<lambda>m. []),
       ah_NewPagination = (\<lambda>p n. (1, 10)) \<rparr>"

definition demo_logout :: http_request where
  "demo_logout =
     \<lparr> ht_Method = ''POST'', ht_Path = ''/auth/logout'', ht_RawQuery = [], ht_Cookies = [(''session_token'', ''t'')],
       ht_Authorization = [], ht_ContentType = [], ht_Body = Inr [], ht_RequestID = [] \<rparr>"

definition demo_input :: request_input where
  "demo_input =
     \<lparr> hi_now = 5, hi_now2 = 5, hi_generated = Inr ''fresh'', hi_freshUser = UserID 7, hi_freshStream = (\<lambda>n. ''s''),
       hi_allows = (\<lambda>l. True) \<rparr>"

lemma demo_logout_path:
  "path_segments ''/auth/logout'' = [''auth'', ''logout'']" "cleanPath ''/auth/logout'' = ''/auth/logout''"
  by (simp_all add: path_segments_def slash_def pathUnescape_def cleanPath_def path_Clean_def clean_step_def
      rooted_def named_def)

lemma auth_patterns:
  "parse_pattern ''/auth/webauthn/register/begin'' = [Lit ''auth'', Lit ''webauthn'', Lit ''register'', Lit ''begin'']"
  "parse_pattern ''/auth/webauthn/register/finish'' = [Lit ''auth'', Lit ''webauthn'', Lit ''register'', Lit ''finish'']"
  "parse_pattern ''/auth/email/verify/send'' = [Lit ''auth'', Lit ''email'', Lit ''verify'', Lit ''send'']"
  "parse_pattern ''/auth/totp/setup'' = [Lit ''auth'', Lit ''totp'', Lit ''setup'']"
  "parse_pattern ''/auth/totp/setup/verify'' = [Lit ''auth'', Lit ''totp'', Lit ''setup'', Lit ''verify'']"
  "parse_pattern ''/auth/totp/verify'' = [Lit ''auth'', Lit ''totp'', Lit ''verify'']"
  "parse_pattern ''/auth/totp/disable'' = [Lit ''auth'', Lit ''totp'', Lit ''disable'']"
  "parse_pattern ''/auth/import'' = [Lit ''auth'', Lit ''import'']"
  "parse_pattern ''/auth/oauth/{provider}/unlink'' = [Lit ''auth'', Lit ''oauth'', Wild ''provider'', Lit ''unlink'']"
  "parse_pattern ''/auth/register'' = [Lit ''auth'', Lit ''register'']"
  "parse_pattern ''/auth/webauthn/login/begin'' = [Lit ''auth'', Lit ''webauthn'', Lit ''login'', Lit ''begin'']"
  "parse_pattern ''/auth/webauthn/login/finish'' = [Lit ''auth'', Lit ''webauthn'', Lit ''login'', Lit ''finish'']"
  "parse_pattern ''/auth/logout'' = [Lit ''auth'', Lit ''logout'']"
  "parse_pattern ''/auth/email/verify'' = [Lit ''auth'', Lit ''email'', Lit ''verify'']"
  by (simp_all add: parse_pattern_def slash_def pattern_seg_def has_prefix_def)

lemma demo_logout_route:
  "findHandler RegisterRoutes ''POST'' ''/auth/logout'' = mux_answer.Handled (False, RouteLogout) []"
proof -
  have "matchPath (method_branch RegisterRoutes ''POST'') [''auth'', ''logout''] []
      = Some (\<lparr> mr_Method = POST, mr_Pattern = ''/auth/logout'', mr_Handler = (False, RouteLogout) \<rparr>, [])"
    by (simp add: method_branch_def RegisterRoutes_def session_routes_def public_routes_def GET_def POST_def
        DELETE_def auth_patterns)
  then have "matchMethodAndPath RegisterRoutes ''POST'' ''/auth/logout''
      = Some (\<lparr> mr_Method = POST, mr_Pattern = ''/auth/logout'', mr_Handler = (False, RouteLogout) \<rparr>, [])"
    by (simp add: matchMethodAndPath_def demo_logout_path)
  then show ?thesis
    by (simp add: findHandler_def demo_logout_path exactMatch_def auth_patterns wild_names_def)
qed

lemma auth_http_acts_for_caller_witness:
  "\<exists>ops. snd (serve_auth demo_auth demo_input demo_logout (demo_start (\<lambda>a. UserState_zero, NewUserReadModel)))
       = run_ops (ah_service demo_auth) ops (demo_start (\<lambda>a. UserState_zero, NewUserReadModel))
     \<and> list_all (http_op demo_auth demo_logout
         (session_user demo_auth demo_input demo_logout (demo_start (\<lambda>a. UserState_zero, NewUserReadModel)))) ops"
  using auth_http_acts_for_caller [of demo_auth demo_input demo_logout "demo_start (\<lambda>a. UserState_zero, NewUserReadModel)"]
  by (simp add: list_all_iff)

lemma session_cookie_sound_witness:
  "\<exists>reply s' c. serve_auth demo_auth demo_input demo_logout
      (demo_start (\<lambda>a. UserState_zero, NewUserReadModel) \<lparr> ss_sessions := [(''t'', demo_session)] \<rparr>) = (reply, s')
    \<and> hr_Cookie reply = Some c \<and> ck_HttpOnly c \<and> ck_SameSiteStrict c \<and> ck_Secure c"
proof -
  let ?s = "demo_start (\<lambda>a. UserState_zero, NewUserReadModel) \<lparr> ss_sessions := [(''t'', demo_session)] \<rparr>"
  obtain reply s' where run: "serve_auth demo_auth demo_input demo_logout ?s = (reply, s')" by fastforce
  then have "hr_Cookie reply \<noteq> None"
    by (auto simp: serve_auth_def demo_logout_def demo_logout_route handleLogout_def extractToken_def demo_auth_def
        or_fault_def clearSessionCookie_def Logout_def Let_def split: prod.splits)
  then obtain c where c: "hr_Cookie reply = Some c" by blast
  from session_cookie_sound [OF run c] run c show ?thesis by (auto simp: demo_auth_def)
qed

end
