(* ===== verification/Dashboard_Scan.thy ===== *)
theory Dashboard_Scan
  imports Errors
begin

text \<open>
  Scanning a journal page by page, as the dashboard does it for events, commands and queries: the loop, the
  contract of a seekable journal (the locale \<open>seekable\<close>), and that under it the loop ends and answers as
  if the whole journal had been read at once. The scan may go on for ever when the journal does, so its
  value is an option.
\<close>

section \<open>Positions and identifiers\<close>

fun index_of :: "('a \<Rightarrow> bool) \<Rightarrow> 'a list \<Rightarrow> nat option" where
  "index_of p [] = None"
| "index_of p (x # xs) = (if p x then Some 0 else map_option Suc (index_of p xs))"

text \<open>The zero identifier is the empty one.\<close>

definition good_ids :: "('i \<Rightarrow> string) \<Rightarrow> 'i list \<Rightarrow> bool" where
  "good_ids idOf es \<longleftrightarrow> distinct (map idOf es) \<and> [] \<notin> idOf ` set es"

text \<open>The cursor that stands before the item at position \<open>k\<close>.\<close>

definition cursor_at :: "('i \<Rightarrow> string) \<Rightarrow> 'i list \<Rightarrow> nat \<Rightarrow> string" where
  "cursor_at idOf es k = (if k = 0 then [] else idOf (es ! (k - 1)))"

lemma good_nth:
  "good_ids idOf es \<Longrightarrow> i < length es \<Longrightarrow> idOf (es ! i) \<noteq> []"
  "good_ids idOf es \<Longrightarrow> i < length es \<Longrightarrow> j < length es \<Longrightarrow> idOf (es ! i) = idOf (es ! j) \<longleftrightarrow> i = j"
  by (auto simp: good_ids_def image_iff distinct_conv_nth) (metis nth_mem)+

lemma cursor_moves:
  "good_ids idOf es \<Longrightarrow> k < j \<Longrightarrow> j \<le> length es \<Longrightarrow> cursor_at idOf es j \<noteq> cursor_at idOf es k"
  using good_nth [of idOf es "j - 1"] by (auto simp: cursor_at_def)

lemma index_of_at:
  "i < length xs \<Longrightarrow> p (xs ! i) \<Longrightarrow> (\<And>j. j < i \<Longrightarrow> \<not> p (xs ! j)) \<Longrightarrow> index_of p xs = Some i"
proof (induction xs arbitrary: i)
  case (Cons x xs)
  show ?case
  proof (cases i)
    case 0
    with Cons.prems show ?thesis by simp
  next
    case (Suc n)
    from Cons.prems(3) [of 0] Suc have "\<not> p x" by simp
    moreover have "\<not> p (xs ! j)" if "j < n" for j
      using Cons.prems(3) [of "Suc j"] Suc that by simp
    then have "index_of p xs = Some n"
      using Cons.prems Suc by (intro Cons.IH) simp_all
    ultimately show ?thesis by (simp add: Suc)
  qed
qed simp

lemma index_of_None: "index_of p xs = None \<longleftrightarrow> (\<forall>x\<in>set xs. \<not> p x)"
  by (induction xs) auto

lemma index_of_id:
  "good_ids idOf es \<Longrightarrow> k < length es \<Longrightarrow> index_of (\<lambda>e. idOf e = idOf (es ! k)) es = Some k"
  using good_nth(2) [of idOf es _ k] by (intro index_of_at) auto

lemma find_parts:
  "find p (b1 @ b2) = (case find p b1 of Some x \<Rightarrow> Some x | None \<Rightarrow> find p b2)"
  by (induction b1) auto

definition newest :: "nat \<Rightarrow> 'a list \<Rightarrow> 'a list" where
  "newest n xs = drop (length xs - n) xs"

lemma newest_append: "newest n (newest n xs @ ys) = newest n (xs @ ys)"
  by (cases "length xs \<le> n") (simp_all add: newest_def add.commute)

section \<open>The loop\<close>

type_synonym 'i read_from = "string \<Rightarrow> int \<Rightarrow> err + 'i list"

text \<open>A page, a step on it that may answer at once, and the next page after its last item unless the page was
  short. A cursor that does not move ends the scan; nothing else does.\<close>

datatype ('acc, 'r) scan_result = ScanFailed err | ScanStalled | ScanFound 'r | ScanDone 'acc

partial_function (option) scan_journal ::
  "nat \<Rightarrow> ('i \<Rightarrow> string) \<Rightarrow> 'i read_from \<Rightarrow> ('acc \<Rightarrow> 'i list \<Rightarrow> 'r + 'acc) \<Rightarrow> string \<Rightarrow> 'acc
   \<Rightarrow> ('acc, 'r) scan_result option" where
  "scan_journal psize idOf ReadFrom step cursor acc =
     (case ReadFrom cursor (int psize) of
        Inl e \<Rightarrow> Some (ScanFailed e)
      | Inr batch \<Rightarrow>
          (case step acc batch of
             Inl r \<Rightarrow> Some (ScanFound r)
           | Inr acc' \<Rightarrow>
               if length batch < psize then Some (ScanDone acc')
               else if idOf (last batch) = cursor then Some ScanStalled
               else scan_journal psize idOf ReadFrom step (idOf (last batch)) acc'))"

section \<open>Journals that keep the contract of ReadFrom\<close>

locale seekable =
  fixes idOf :: "'i \<Rightarrow> string" and read :: "'i read_from" and es :: "'i list"
  assumes read: "good_ids idOf es \<Longrightarrow> k \<le> length es \<Longrightarrow> 0 < n \<Longrightarrow>
    read (cursor_at idOf es k) n = Inr (take (nat n) (drop k es))"
begin

text \<open>One page of a scan: the rest of the journal, or a full page and the cursor behind it.\<close>

lemma page:
  assumes "good_ids idOf es" and "k \<le> length es" and "0 < psize"
  obtains (short) "read (cursor_at idOf es k) (int psize) = Inr (drop k es)" "length (drop k es) < psize"
  | (full) "read (cursor_at idOf es k) (int psize) = Inr (take psize (drop k es))" "k + psize \<le> length es"
      "idOf (last (take psize (drop k es))) = cursor_at idOf es (k + psize)"
      "cursor_at idOf es (k + psize) \<noteq> cursor_at idOf es k" "length (take psize (drop k es)) = psize"
      "last (take psize (drop k es)) = es ! (k + psize - 1)"
proof -
  have r: "read (cursor_at idOf es k) (int psize) = Inr (take psize (drop k es))"
    using read [OF assms(1,2), of "int psize"] assms(3) by simp
  show thesis
  proof (cases "length es - k < psize")
    case True
    with r show thesis by (intro short) simp_all
  next
    case False
    then have l: "k + psize \<le> length es" using assms(2) by simp
    have last: "last (take psize (drop k es)) = es ! (k + psize - 1)"
      using l assms(3) by (subst last_conv_nth) (auto simp: min_def intro!: arg_cong [where f = "(!) es"])
    with r l assms(3) cursor_moves [OF assms(1), of k "k + psize"] show thesis
      by (intro full) (simp_all add: cursor_at_def)
  qed
qed

text \<open>Whatever its steps do, a scan ends.\<close>

lemma scan_ends:
  assumes "good_ids idOf es" and "k \<le> length es" and "0 < psize"
  shows "\<exists>r. scan_journal psize idOf read step (cursor_at idOf es k) acc = Some r"
  using assms(2)
proof (induction "length es - k" arbitrary: k acc rule: less_induct)
  case less
  from assms(1) less.prems assms(3) show ?case
  proof (cases rule: page)
    case short
    then show ?thesis by (subst scan_journal.simps) (auto split: sum.splits)
  next
    case full
    have "\<exists>r. scan_journal psize idOf read step (cursor_at idOf es (k + psize)) acc' = Some r" for acc'
      using full(2) assms(3) by (intro less.hyps) auto
    with full show ?thesis by (subst scan_journal.simps) (auto split: sum.splits)
  qed
qed

text \<open>A scan whose step may be taken on any division into pages answers as on the whole journal.\<close>

lemma scan_from:
  assumes "good_ids idOf es" and "k \<le> length es" and "0 < psize"
    and parts: "\<And>acc b1 b2. step acc (b1 @ b2) = (case step acc b1 of Inl r \<Rightarrow> Inl r | Inr acc' \<Rightarrow> step acc' b2)"
  shows "scan_journal psize idOf read step (cursor_at idOf es k) acc =
    Some (case step acc (drop k es) of Inl r \<Rightarrow> ScanFound r | Inr acc' \<Rightarrow> ScanDone acc')"
  using assms(2)
proof (induction "length es - k" arbitrary: k acc rule: less_induct)
  case less
  from assms(1) less.prems assms(3) show ?case
  proof (cases rule: page)
    case short
    then show ?thesis by (subst scan_journal.simps) (simp split: sum.splits)
  next
    case full
    have "drop k es = take psize (drop k es) @ drop (k + psize) es"
      by (metis append_take_drop_id drop_drop add.commute)
    then have "step acc (drop k es) = (case step acc (take psize (drop k es)) of
        Inl r \<Rightarrow> Inl r | Inr acc' \<Rightarrow> step acc' (drop (k + psize) es))"
      using parts by metis
    with full less.hyps [of "k + psize"] assms(3) show ?thesis
      by (subst scan_journal.simps) (simp split: sum.splits)
  qed
qed

lemmas scan_whole = scan_from [where k = 0, unfolded cursor_at_def, simplified]

lemma scan_all:
  assumes "good_ids idOf es" and "0 < psize" and "\<And>acc b1 b2. f acc (b1 @ b2) = f (f acc b1) b2"
  shows "scan_journal psize idOf read (\<lambda>acc b. Inr (f acc b)) [] acc = Some (ScanDone (f acc es))"
  using scan_whole [OF assms(1,2), of "\<lambda>acc b. Inr (f acc b)"] assms(3) by simp

end

end
