(* ===== verification/Dashboard_Journal.thy ===== *)
theory Dashboard_Journal
  imports Sync_Pull Dashboard_Scan Url_Query
begin

text \<open>
  The data layer of the dashboard that reads the event journal: \<open>dashboardui/core/events.go\<close>,
  \<open>command_fates.go\<close> and \<open>event_throughput.go\<close>. They rest on the scan of \<open>Dashboard_Scan\<close>.
\<close>

definition show_int :: "int \<Rightarrow> string" where
  "show_int n = (if n < 0 then ''-'' @ show_nat (nat (- n)) else show_nat (nat n))"

section \<open>Sources\<close>

text \<open>An event with the bare form of its stream identifier (\<open>Get\<close>) and its time. The zero \<open>EventID\<close> is the
  empty identifier.\<close>

record dash_event = journal_event +
  de_StreamBare :: string
  de_Time :: time

record dash_config =
  dc_SeekableJournal :: "dash_event read_from option"
  dc_Journal :: "(err + dash_event list) option"
  dc_EventByIDLoader :: "(string \<Rightarrow> err + dash_event) option"

definition infra :: "string \<Rightarrow> string \<Rightarrow> (string \<times> string) list \<Rightarrow> err \<Rightarrow> err" where
  "infra code msg ctx e = Fam Infrastructure code msg 0 ctx (Some e)"

definition FilterScanLimit :: int where "FilterScanLimit = 500"
definition tailScanBatch :: nat where "tailScanBatch = 5000"

section \<open>Filters\<close>

record EventFilter =
  ef_Type :: string
  ef_StreamType :: string
  ef_StreamID :: string

definition filter_zero :: EventFilter where
  "filter_zero = \<lparr> ef_Type = [], ef_StreamType = [], ef_StreamID = [] \<rparr>"

definition Filter_Active :: "EventFilter \<Rightarrow> bool" where
  "Filter_Active f \<longleftrightarrow> ef_Type f \<noteq> [] \<or> ef_StreamType f \<noteq> [] \<or> ef_StreamID f \<noteq> []"

definition Matches :: "EventFilter \<Rightarrow> dash_event \<Rightarrow> bool" where
  "Matches f evt \<longleftrightarrow>
     \<not> (ef_Type f \<noteq> [] \<and> je_Type evt \<noteq> ef_Type f)
     \<and> \<not> (ef_StreamType f \<noteq> [] \<and> je_StreamType evt \<noteq> ef_StreamType f)
     \<and> \<not> (ef_StreamID f \<noteq> [] \<and> je_StreamID evt \<noteq> ef_StreamID f)"

definition Filter_ExtraParams :: "EventFilter \<Rightarrow> string" where
  "Filter_ExtraParams f =
     (if \<not> Filter_Active f then []
      else join_amp
        ((if ef_Type f \<noteq> [] then [''type='' @ QueryEscape (ef_Type f)] else [])
         @ (if ef_StreamType f \<noteq> [] then [''streamType='' @ QueryEscape (ef_StreamType f)] else [])
         @ (if ef_StreamID f \<noteq> [] then [''streamID='' @ QueryEscape (ef_StreamID f)] else [])))"

text \<open>The query of the request, as \<open>URL.Query\<close> parses it.\<close>

definition ParseEventFilter :: "(string \<times> string) list \<Rightarrow> EventFilter" where
  "ParseEventFilter q =
     \<lparr> ef_Type = Query_Get q ''type'', ef_StreamType = Query_Get q ''streamType'',
       ef_StreamID = Query_Get q ''streamID'' \<rparr>"

section \<open>Windows\<close>

definition indexAfter :: "dash_event list \<Rightarrow> string \<Rightarrow> nat" where
  "indexAfter events cursor =
     (if cursor = [] then 0
      else case index_of (\<lambda>evt. je_ID evt = cursor) events of None \<Rightarrow> 0 | Some i \<Rightarrow> Suc i)"

definition LoadRecentEvents :: "dash_config \<Rightarrow> string \<Rightarrow> int \<Rightarrow> err + dash_event list" where
  "LoadRecentEvents cfg cursor limit =
     (case dc_SeekableJournal cfg of
        Some ReadFrom \<Rightarrow>
          map_err (infra ''dashboardui.recent_events.read_failed'' ''read recent events'' []) (ReadFrom cursor limit)
      | None \<Rightarrow>
          (case dc_Journal cfg of
             Some ReadAll \<Rightarrow>
               on_ok (map_err (infra ''dashboardui.recent_events.read_all_failed'' ''read all events'' []) ReadAll)
                 (\<lambda>all. let rest = drop (indexAfter all cursor) all in
                   Inr (if int (length rest) > limit then take (nat limit) rest else rest))
           | None \<Rightarrow> Inr []))"

text \<open>The filtering loop stops one event past the page, which is how the handler sees that there is more.\<close>

fun filter_page :: "EventFilter \<Rightarrow> int \<Rightarrow> dash_event list \<Rightarrow> dash_event list \<Rightarrow> dash_event list" where
  "filter_page f pageSize filtered [] = filtered"
| "filter_page f pageSize filtered (evt # raw) =
     (if Matches f evt then
        (if int (length (filtered @ [evt])) > pageSize then filtered @ [evt]
         else filter_page f pageSize (filtered @ [evt]) raw)
      else filter_page f pageSize filtered raw)"

definition LoadFilteredEvents ::
  "dash_config \<Rightarrow> string \<Rightarrow> EventFilter \<Rightarrow> int \<Rightarrow> err + dash_event list" where
  "LoadFilteredEvents cfg cursor f pageSize =
     (let rawLimit = max FilterScanLimit (pageSize + 1);
          ctx = [(''page_size'', show_int pageSize)] in
      on_ok
        (case dc_SeekableJournal cfg of
           Some ReadFrom \<Rightarrow>
             map_err (infra ''dashboardui.filtered_events.read_failed'' ''read events for filtering'' ctx)
               (ReadFrom cursor rawLimit)
         | None \<Rightarrow>
             (case dc_Journal cfg of
                Some ReadAll \<Rightarrow>
                  map_sum (infra ''dashboardui.filtered_events.read_all_failed'' ''read all events for filtering'' ctx)
                    (\<lambda>all. let rest = drop (indexAfter all cursor) all in
                      if int (length rest) > rawLimit then take (nat rawLimit) rest else rest) ReadAll
              | None \<Rightarrow> Inr []))
        (\<lambda>raw. Inr (filter_page f pageSize [] raw)))"

section \<open>Scanning the whole journal\<close>

definition keep_tail ::
  "EventFilter \<Rightarrow> nat \<Rightarrow> dash_event list \<times> nat \<Rightarrow> dash_event list \<Rightarrow> dash_event list \<times> nat" where
  "keep_tail f limit acc batch =
     (let tail = fst acc @ filter (Matches f) batch in
      (if length tail > limit then drop (length tail - limit) tail else tail, snd acc + length batch))"

definition LoadTailEvents :: "dash_config \<Rightarrow> EventFilter \<Rightarrow> nat \<Rightarrow> (err + dash_event list \<times> nat) option" where
  "LoadTailEvents cfg f limit =
     (let ctx = [(''limit'', show_nat limit)] in
      case dc_SeekableJournal cfg of
        Some ReadFrom \<Rightarrow>
          map_option (\<lambda>r. case r of
              ScanFailed e \<Rightarrow> Inl (infra ''dashboardui.tail_events.read_failed'' ''read journal tail'' ctx e)
            | ScanStalled \<Rightarrow> Inl (new_error Infrastructure ''dashboardui.tail_events.cursor_stalled''
                ''journal cursor did not advance while reading the tail'')
            | ScanFound u \<Rightarrow> u
            | ScanDone acc \<Rightarrow> Inr acc)
            (scan_journal tailScanBatch je_ID ReadFrom (\<lambda>acc batch. Inr (keep_tail f limit acc batch)) [] ([], 0))
      | None \<Rightarrow>
          (case dc_Journal cfg of
             Some ReadAll \<Rightarrow>
               Some (map_sum (infra ''dashboardui.tail_events.read_all_failed'' ''read journal'' ctx)
                 (keep_tail f limit ([], 0)) ReadAll)
           | None \<Rightarrow> Some (Inr ([], 0))))"

text \<open>The text of an identifier in a message is the identifier.\<close>

definition LoadEventByID :: "dash_config \<Rightarrow> string \<Rightarrow> (err + dash_event) option" where
  "LoadEventByID cfg eventID =
     (case dc_EventByIDLoader cfg of
        Some LoadByEventID \<Rightarrow>
          Some (map_err (infra ''dashboardui.event_detail.load_failed'' ''load event by ID'' [(''event_id'', eventID)])
            (LoadByEventID eventID))
      | None \<Rightarrow>
          (case dc_SeekableJournal cfg of
             Some ReadFrom \<Rightarrow>
               map_option (\<lambda>r. case r of
                   ScanFailed e \<Rightarrow> Inl (infra ''dashboardui.event_detail.scan_failed'' ''scan journal for event'' [] e)
                 | ScanStalled \<Rightarrow> Inl (new_error Infrastructure ''dashboardui.event_detail.cursor_stalled''
                     ''journal cursor did not advance while scanning for the event'')
                 | ScanFound evt \<Rightarrow> Inr evt
                 | ScanDone u \<Rightarrow> Inl (new_error Rejection ''dashboardui.event_detail.not_found''
                     (''event '' @ eventID @ '' not found in journal scan'')))
                 (scan_journal tailScanBatch je_ID ReadFrom
                    (\<lambda>u batch. case find (\<lambda>evt. je_ID evt = eventID) batch of Some evt \<Rightarrow> Inl evt | None \<Rightarrow> Inr ())
                    [] ())
           | None \<Rightarrow>
               (case dc_Journal cfg of
                  Some ReadAll \<Rightarrow>
                    Some (on_ok (map_err (infra ''dashboardui.event_detail.read_failed'' ''read journal'' []) ReadAll)
                      (\<lambda>all. case find (\<lambda>evt. je_ID evt = eventID) all of
                         Some evt \<Rightarrow> Inr evt
                       | None \<Rightarrow> Inl (new_error Rejection ''dashboardui.event_detail.not_found''
                           (''event '' @ eventID @ '' not found in journal''))))
                | None \<Rightarrow>
                    Some (Inl (new_error Infrastructure ''dashboardui.event_detail.no_source''
                      (''no event source available to load event '' @ eventID))))))"

section \<open>Neighbours\<close>

definition neighborsIn :: "dash_event list \<Rightarrow> dash_event option \<Rightarrow> string \<Rightarrow> (string \<times> string) option" where
  "neighborsIn events lastOfPreviousBatch eventID =
     (case index_of (\<lambda>evt. je_ID evt = eventID) events of
        None \<Rightarrow> None
      | Some i \<Rightarrow>
          Some ((if i > 0 then je_ID (events ! (i - 1))
                 else case lastOfPreviousBatch of Some p \<Rightarrow> je_ID p | None \<Rightarrow> []),
                (if Suc i < length events then je_ID (events ! Suc i) else [])))"

definition FindEventNeighbors :: "dash_config \<Rightarrow> string \<Rightarrow> (string \<times> string) option" where
  "FindEventNeighbors cfg eventID =
     (case dc_SeekableJournal cfg of
        Some ReadFrom \<Rightarrow>
          map_option (\<lambda>r. case r of ScanFound p \<Rightarrow> p | _ \<Rightarrow> ([], []))
            (scan_journal tailScanBatch je_ID ReadFrom
               (\<lambda>prev batch. case neighborsIn batch prev eventID of
                  Some p \<Rightarrow> Inl p
                | None \<Rightarrow> Inr (if batch = [] then prev else Some (last batch)))
               [] None)
      | None \<Rightarrow>
          (case dc_Journal cfg of
             Some (Inr all) \<Rightarrow>
               Some (case neighborsIn all None eventID of Some p \<Rightarrow> p | None \<Rightarrow> ([], []))
           | _ \<Rightarrow> Some ([], [])))"

section \<open>The journal in memory\<close>

text \<open>The journal without seeking keeps the contract, by the seek in memory of \<open>LoadRecentEvents\<close>.\<close>

definition memory :: "dash_event list \<Rightarrow> dash_config" where
  "memory es = \<lparr> dc_SeekableJournal = None, dc_Journal = Some (Inr es), dc_EventByIDLoader = None \<rparr>"

lemma index_at: "good_ids je_ID es \<Longrightarrow> k \<le> length es \<Longrightarrow> indexAfter es (cursor_at je_ID es k) = k"
  using good_nth(1) [of je_ID es "k - 1"] index_of_id [of je_ID es "k - 1"] by (auto simp: indexAfter_def cursor_at_def)

interpretation memory: seekable je_ID "LoadRecentEvents (memory es)" es for es
  by unfold_locales (auto simp: LoadRecentEvents_def memory_def index_at Let_def nat_le_iff)

section \<open>The newest events\<close>

lemma batch_pos: "0 < tailScanBatch"
  by (simp add: tailScanBatch_def)

lemma keep_tail_newest:
  "keep_tail f limit acc b = (newest limit (fst acc @ filter (Matches f) b), snd acc + length b)"
  by (auto simp: keep_tail_def newest_def Let_def)

lemma keep_tail_parts: "keep_tail f limit acc (b1 @ b2) = keep_tail f limit (keep_tail f limit acc b1) b2"
  by (simp add: keep_tail_newest newest_append)

text \<open>A configuration that reads the journal \<open>es\<close>, by seeking or at once.\<close>

definition reads :: "dash_config \<Rightarrow> dash_event list \<Rightarrow> bool" where
  "reads cfg es \<longleftrightarrow>
     (case dc_SeekableJournal cfg of
        Some ReadFrom \<Rightarrow> seekable je_ID ReadFrom es
      | None \<Rightarrow> dc_Journal cfg = Some (Inr es))"

text \<open>Reading the newest events ends, on every journal that keeps the contract of \<open>ReadFrom\<close>, however
  long it is; and what it answers does not depend on how the journal is paged, or on whether it can be
  sought in at all: the last \<open>limit\<close> events that match, in journal order, and the number of all events.\<close>

theorem tail_scan_ends:
  assumes "good_ids je_ID es" and "reads cfg es"
  shows "LoadTailEvents cfg f limit = Some (Inr (newest limit (filter (Matches f) es), length es))"
proof (cases "dc_SeekableJournal cfg")
  case None
  with assms(2) show ?thesis by (simp add: reads_def LoadTailEvents_def keep_tail_newest Let_def)
next
  case (Some R)
  with assms(2) have "seekable je_ID R es" by (simp add: reads_def)
  then have "scan_journal tailScanBatch je_ID R (\<lambda>acc b. Inr (keep_tail f limit acc b) :: (err + dash_event list \<times> nat) + _) [] ([], 0)
      = Some (ScanDone (keep_tail f limit ([], 0) es))"
    by (rule seekable.scan_all [OF _ assms(1) batch_pos keep_tail_parts])
  with Some show ?thesis by (simp add: LoadTailEvents_def keep_tail_newest Let_def)
qed

text \<open>The event with an identifier is found wherever it stands, and no other; an absent one is a rejection.\<close>

lemma event_by_id_found:
  assumes "good_ids je_ID es" and "reads cfg es" and "dc_EventByIDLoader cfg = None"
  shows "\<exists>r. LoadEventByID cfg eventID = Some r
    \<and> (case find (\<lambda>evt. je_ID evt = eventID) es of Some evt \<Rightarrow> r = Inr evt | None \<Rightarrow> \<exists>e. r = Inl e)"
proof (cases "dc_SeekableJournal cfg")
  case None
  with assms(2,3) show ?thesis by (auto simp: reads_def LoadEventByID_def split: option.splits)
next
  case (Some R)
  with assms(2) have "seekable je_ID R es" by (simp add: reads_def)
  from seekable.scan_whole [OF this assms(1) batch_pos, where acc = "()" and
      step = "\<lambda>u batch. case find (\<lambda>evt. je_ID evt = eventID) batch of Some evt \<Rightarrow> Inl evt | None \<Rightarrow> Inr ()"]
    Some assms(3) show ?thesis
    by (auto simp: LoadEventByID_def find_parts split: option.splits)
qed

section \<open>The neighbours that are found\<close>

lemma neighborsIn_at:
  assumes "good_ids je_ID es" and "k \<le> i" and "i < length es" and "k + n \<le> length es"
  shows "neighborsIn (take n (drop k es)) prev (je_ID (es ! i)) =
    (if i < k + n then
       Some ((if k < i then je_ID (es ! (i - 1)) else case prev of Some p \<Rightarrow> je_ID p | None \<Rightarrow> []),
             (if Suc i < k + n then je_ID (es ! Suc i) else []))
     else None)"
proof (cases "i < k + n")
  case True
  have len: "length (take n (drop k es)) = n" using assms(4) by simp
  have nth: "take n (drop k es) ! j = es ! (k + j)" if "j < n" for j using that assms(4) by simp
  have "index_of (\<lambda>evt. je_ID evt = je_ID (es ! i)) (take n (drop k es)) = Some (i - k)"
    using True assms(1-3) len by (intro index_of_at) (auto simp: good_nth(2))
  with True assms(2) len show ?thesis by (auto simp: neighborsIn_def)
next
  case False
  have "index_of (\<lambda>evt. je_ID evt = je_ID (es ! i)) (take n (drop k es)) = None"
    using False assms by (auto simp: index_of_None in_set_conv_nth good_nth(2))
  with False show ?thesis by (simp add: neighborsIn_def)
qed

definition neighbor_step :: "string \<Rightarrow> dash_event option \<Rightarrow> dash_event list \<Rightarrow> (string \<times> string) + dash_event option" where
  "neighbor_step eventID prev batch =
     (case neighborsIn batch prev eventID of
        Some p \<Rightarrow> Inl p | None \<Rightarrow> Inr (if batch = [] then prev else Some (last batch)))"

lemma between_multiples: "(5000::nat) dvd k \<Longrightarrow> k < j \<Longrightarrow> j < k + 5000 \<Longrightarrow> \<not> 5000 dvd j"
  by (auto simp: dvd_def)

lemma scan_neighbors:
  assumes "seekable je_ID R es" and "good_ids je_ID es" and "5000 dvd k" and "k \<le> i" and "i < length es"
  shows "scan_journal tailScanBatch je_ID R (neighbor_step (je_ID (es ! i))) (cursor_at je_ID es k)
      (if k = 0 then None else Some (es ! (k - 1)))
    = Some (ScanFound (if i = 0 then [] else je_ID (es ! (i - 1)),
        if Suc i < length es \<and> \<not> 5000 dvd Suc i then je_ID (es ! Suc i) else []))"
  using assms(3-4)
proof (induction "length es - k" arbitrary: k rule: less_induct)
  case less
  let ?prev = "if k = 0 then None else Some (es ! (k - 1))"
  from less.prems assms(5) have k: "k \<le> length es" by simp
  from assms(1,2) k batch_pos show ?case
  proof (cases rule: seekable.page [consumes 4, case_names short full])
    case short
    have "Suc i < length es \<Longrightarrow> Suc i < k + 5000"
      using short(2) k by (simp add: tailScanBatch_def)
    then have "Suc i < length es \<Longrightarrow> \<not> 5000 dvd Suc i"
      using between_multiples [OF less.prems(1), of "Suc i"] less.prems(2) by (simp add: tailScanBatch_def)
    with neighborsIn_at [OF assms(2) less.prems(2) assms(5), of "length es - k" ?prev] k short assms(5) less.prems(2)
    show ?thesis
      by (subst scan_journal.simps) (auto simp: neighbor_step_def)
  next
    case full
    note full = full [unfolded tailScanBatch_def]
    show ?thesis
    proof (cases "i < k + 5000")
      case True
      have "Suc i < k + 5000 \<longleftrightarrow> Suc i < length es \<and> \<not> 5000 dvd Suc i"
        using between_multiples [OF less.prems(1), of "Suc i"] less.prems full(2) True
        by (cases "Suc i = k + 5000") auto
      with neighborsIn_at [OF assms(2) less.prems(2) assms(5) full(2), of ?prev] full(1) True less.prems(2)
      show ?thesis
        unfolding tailScanBatch_def by (subst scan_journal.simps) (auto simp: neighbor_step_def)
    next
      case False
      have ne: "take 5000 (drop k es) \<noteq> []" using full(2) by auto
      from neighborsIn_at [OF assms(2) less.prems(2) assms(5) full(2), of ?prev] False
      have "neighbor_step (je_ID (es ! i)) ?prev (take 5000 (drop k es)) = Inr (Some (es ! (k + 4999)))"
        using full(6) ne by (simp add: neighbor_step_def add.commute)
      with full less.hyps [of "k + 5000"] less.prems(1) False show ?thesis
        unfolding tailScanBatch_def by (subst scan_journal.simps) (simp add: add.commute)
    qed
  qed
qed

text \<open>The neighbours of an event: its predecessor and its successor in the journal, at whatever position -
  except that a seekable journal shows no successor for an event that ends a full page of 5000, although
  there is one.\<close>

theorem neighbors_of_event:
  assumes "good_ids je_ID es" and "reads cfg es" and "i < length es"
  shows "FindEventNeighbors cfg (je_ID (es ! i)) =
    Some (if i = 0 then [] else je_ID (es ! (i - 1)),
      if Suc i < length es \<and> (dc_SeekableJournal cfg = None \<or> \<not> 5000 dvd Suc i) then je_ID (es ! Suc i) else [])"
proof (cases "dc_SeekableJournal cfg")
  case None
  with neighborsIn_at [OF assms(1) _ assms(3), of 0 "length es" None] assms(2,3) show ?thesis
    by (auto simp: reads_def FindEventNeighbors_def)
next
  case (Some R)
  with assms(2) have "seekable je_ID R es" by (simp add: reads_def)
  from scan_neighbors [OF this assms(1) _ _ assms(3), of 0] Some show ?thesis
    by (simp add: FindEventNeighbors_def cursor_at_def neighbor_step_def [abs_def])
qed

definition demo_dash :: "string \<Rightarrow> string \<Rightarrow> time \<Rightarrow> dash_event" where
  "demo_dash i t at =
     \<lparr> je_ID = i, je_Type = t, je_StreamType = ''User'', je_StreamID = ''u1'', je_Version = 1, je_SchemaVersion = [],
       je_OccurredAt = [], je_Encoding = ''json'', je_Payload = [], de_StreamBare = ''u1'', de_Time = at \<rparr>"

definition demo_dash_journal :: "dash_event list" where
  "demo_dash_journal = [demo_dash ''1'' ''a'' 0, demo_dash ''2'' ''b'' 10, demo_dash ''3'' ''a'' 20, demo_dash ''4'' ''a'' 30]"

lemma demo_dash_good: "good_ids je_ID demo_dash_journal"
  by (simp add: good_ids_def demo_dash_journal_def demo_dash_def)

lemma tail_scan_ends_witness:
  "LoadTailEvents \<lparr> dc_SeekableJournal = Some (LoadRecentEvents (memory demo_dash_journal)), dc_Journal = None,
       dc_EventByIDLoader = None \<rparr> (filter_zero \<lparr> ef_Type := ''a'' \<rparr>) 2
   = Some (Inr ([demo_dash ''3'' ''a'' 20, demo_dash ''4'' ''a'' 30], 4))"
proof -
  have "reads \<lparr> dc_SeekableJournal = Some (LoadRecentEvents (memory demo_dash_journal)), dc_Journal = None,
      dc_EventByIDLoader = None \<rparr> demo_dash_journal"
    by (simp add: reads_def memory.seekable_axioms)
  from tail_scan_ends [OF demo_dash_good this, of "filter_zero \<lparr> ef_Type := ''a'' \<rparr>" 2] show ?thesis
    by (simp add: demo_dash_journal_def Matches_def filter_zero_def newest_def demo_dash_def)
qed

section \<open>Filtered pages\<close>

lemma filter_page_take:
  "int (length filtered) \<le> pageSize \<Longrightarrow>
   filter_page f pageSize filtered raw = filtered @ take (Suc (nat pageSize) - length filtered) (filter (Matches f) raw)"
proof (induction raw arbitrary: filtered)
  case (Cons evt raw)
  show ?case
  proof (cases "Matches f evt")
    case True
    have s: "Suc (nat pageSize) - length filtered = Suc (nat pageSize - length filtered)" using Cons.prems by linarith
    show ?thesis
    proof (cases "int (length filtered) = pageSize")
      case True
      then have "nat pageSize = length filtered" by simp
      with \<open>Matches f evt\<close> True show ?thesis by simp
    next
      case False
      with Cons.prems have "int (length (filtered @ [evt])) \<le> pageSize" by simp
      from Cons.IH [OF this] \<open>Matches f evt\<close> this s show ?thesis by simp
    qed
  next
    case False
    with Cons show ?thesis by simp
  qed
qed simp

text \<open>A filtered page sees one window of the journal only: when the window holds no more than a page of
  matches, the result is those, and nothing in it tells that matches further on exist.\<close>

theorem filtered_page_window:
  assumes "good_ids je_ID es" and "dc_SeekableJournal cfg = None" and "dc_Journal cfg = Some (Inr es)"
    and "k \<le> length es" and "0 \<le> pageSize"
  shows "LoadFilteredEvents cfg (cursor_at je_ID es k) f pageSize =
    Inr (take (Suc (nat pageSize)) (filter (Matches f) (take (nat (max FilterScanLimit (pageSize + 1))) (drop k es))))"
proof -
  have "(if int (length (drop k es)) > m then take (nat m) (drop k es) else drop k es) = take (nat m) (drop k es)" for m
    by (auto simp: nat_le_iff)
  with assms index_at [OF assms(1,4)] filter_page_take [of "[]" pageSize f] show ?thesis
    by (simp add: LoadFilteredEvents_def Let_def del: max_less_iff_conj)
qed

section \<open>Command fates\<close>

text \<open>The payloads of the library's lifecycle events, as far as they are read, and the library's decoders and
  type names.\<close>

record FailedPayload =
  fp_CommandID :: string
  fp_CommandType :: string
  fp_Attempt :: int
  fp_Error :: string
  fp_FailedAt :: "time option"

record RejectedPayload =
  jp_CommandID :: string
  jp_CommandType :: string
  jp_Attempt :: int
  jp_Error :: string
  jp_Family :: string
  jp_ErrorCode :: string
  jp_RejectedAt :: "time option"

record RetriedPayload =
  tp_CommandType :: string
  tp_Attempt :: int
  tp_RetriedAt :: "time option"

record DeadLetteredPayload =
  dp_CommandType :: string
  dp_Attempts :: int
  dp_Error :: string
  dp_DeadLetteredAt :: "time option"

record CompletedPayload =
  cp_CommandID :: string
  cp_CommandType :: string
  cp_CompletedAt :: "time option"

type_synonym 'p codecs = "(bytes \<Rightarrow> err + 'p) \<times> (bytes \<Rightarrow> err + 'p)"

record lifecycle_env =
  le_StreamType :: string
  le_TypeReceived :: string
  le_TypeFailed :: string
  le_TypeRejected :: string
  le_TypeRetried :: string
  le_TypeDeadLettered :: string
  le_TypeCompleted :: string
  le_Failed :: "FailedPayload codecs"
  le_Rejected :: "RejectedPayload codecs"
  le_Retried :: "RetriedPayload codecs"
  le_DeadLettered :: "DeadLetteredPayload codecs"
  le_Completed :: "CompletedPayload codecs"

definition FateRejected :: string where "FateRejected = ''rejected''"
definition FateFailed :: string where "FateFailed = ''failed''"
definition FateRetried :: string where "FateRetried = ''retried''"
definition FateDeadLettered :: string where "FateDeadLettered = ''dead-lettered''"
definition FateCompleted :: string where "FateCompleted = ''completed''"

record CommandFate =
  cf_Time :: "time option"
  cf_CommandType :: string
  cf_CommandID :: string
  cf_Fate :: string
  cf_Attempt :: int
  cf_Error :: string
  cf_Family :: string
  cf_ErrorCode :: string
  cf_EventID :: string

text \<open>\<open>codec.EncodingJSON\<close> and \<open>codec.EncodingCBOR\<close> are \<open>json\<close> and \<open>cbor\<close>, as in the event codec.\<close>

definition decoded :: "err + 'p \<Rightarrow> 'p option" where
  "decoded r = (case r of Inl e \<Rightarrow> None | Inr p \<Rightarrow> Some p)"

definition decodeLifecyclePayload :: "'p codecs \<Rightarrow> dash_event \<Rightarrow> 'p option" where
  "decodeLifecyclePayload codecs evt =
     (if je_Encoding evt = ''json'' \<or> je_Encoding evt = [] then decoded (fst codecs (je_Payload evt))
      else if je_Encoding evt = ''cbor'' then decoded (snd codecs (je_Payload evt))
      else None)"

definition newCommandFateRow :: "dash_event \<Rightarrow> string \<Rightarrow> CommandFate" where
  "newCommandFateRow evt fate =
     \<lparr> cf_Time = None, cf_CommandType = [], cf_CommandID = de_StreamBare evt, cf_Fate = fate, cf_Attempt = 0,
       cf_Error = [], cf_Family = [], cf_ErrorCode = [], cf_EventID = je_ID evt \<rparr>"

definition payloadCommandID :: "string \<Rightarrow> string \<Rightarrow> string" where
  "payloadCommandID payloadID fallback = (if payloadID \<noteq> [] then payloadID else fallback)"

definition failedFate :: "lifecycle_env \<Rightarrow> dash_event \<Rightarrow> CommandFate" where
  "failedFate L evt =
     (let row = newCommandFateRow evt FateFailed in
      case decodeLifecyclePayload (le_Failed L) evt of
        None \<Rightarrow> row
      | Some p \<Rightarrow> row \<lparr> cf_CommandType := fp_CommandType p, cf_Attempt := fp_Attempt p, cf_Error := fp_Error p,
          cf_Time := fp_FailedAt p, cf_CommandID := payloadCommandID (fp_CommandID p) (cf_CommandID row) \<rparr>)"

definition rejectedFate :: "lifecycle_env \<Rightarrow> dash_event \<Rightarrow> CommandFate" where
  "rejectedFate L evt =
     (let row = newCommandFateRow evt FateRejected in
      case decodeLifecyclePayload (le_Rejected L) evt of
        None \<Rightarrow> row
      | Some p \<Rightarrow> row \<lparr> cf_CommandType := jp_CommandType p, cf_Attempt := jp_Attempt p, cf_Error := jp_Error p,
          cf_Family := jp_Family p, cf_ErrorCode := jp_ErrorCode p, cf_Time := jp_RejectedAt p,
          cf_CommandID := payloadCommandID (jp_CommandID p) (cf_CommandID row) \<rparr>)"

definition retriedFate :: "lifecycle_env \<Rightarrow> dash_event \<Rightarrow> CommandFate" where
  "retriedFate L evt =
     (let row = newCommandFateRow evt FateRetried in
      case decodeLifecyclePayload (le_Retried L) evt of
        None \<Rightarrow> row
      | Some p \<Rightarrow> row \<lparr> cf_CommandType := tp_CommandType p, cf_Attempt := tp_Attempt p, cf_Time := tp_RetriedAt p \<rparr>)"

definition deadLetteredFate :: "lifecycle_env \<Rightarrow> dash_event \<Rightarrow> CommandFate" where
  "deadLetteredFate L evt =
     (let row = newCommandFateRow evt FateDeadLettered in
      case decodeLifecyclePayload (le_DeadLettered L) evt of
        None \<Rightarrow> row
      | Some p \<Rightarrow> row \<lparr> cf_CommandType := dp_CommandType p, cf_Attempt := dp_Attempts p, cf_Error := dp_Error p,
          cf_Time := dp_DeadLetteredAt p \<rparr>)"

definition completedFate :: "lifecycle_env \<Rightarrow> dash_event \<Rightarrow> CommandFate" where
  "completedFate L evt =
     (let row = newCommandFateRow evt FateCompleted in
      case decodeLifecyclePayload (le_Completed L) evt of
        None \<Rightarrow> row
      | Some p \<Rightarrow> row \<lparr> cf_CommandType := cp_CommandType p, cf_Time := cp_CompletedAt p,
          cf_CommandID := payloadCommandID (cp_CommandID p) (cf_CommandID row) \<rparr>)"

definition decodeCommandFate :: "lifecycle_env \<Rightarrow> dash_event \<Rightarrow> CommandFate option" where
  "decodeCommandFate L evt =
     (if je_Type evt = le_TypeReceived L then None
      else if je_Type evt = le_TypeFailed L then Some (failedFate L evt)
      else if je_Type evt = le_TypeRejected L then Some (rejectedFate L evt)
      else if je_Type evt = le_TypeRetried L then Some (retriedFate L evt)
      else if je_Type evt = le_TypeDeadLettered L then Some (deadLetteredFate L evt)
      else if je_Type evt = le_TypeCompleted L then Some (completedFate L evt)
      else Some (newCommandFateRow evt (je_Type evt) \<lparr> cf_CommandType := je_Type evt \<rparr>))"

fun keepFates ::
  "lifecycle_env \<Rightarrow> nat \<Rightarrow> CommandFate list \<times> nat \<Rightarrow> dash_event list \<Rightarrow> CommandFate list \<times> nat" where
  "keepFates L limit (fates, seen) [] = (fates, seen)"
| "keepFates L limit (fates, seen) (evt # batch) =
     (if je_StreamType evt \<noteq> le_StreamType L then keepFates L limit (fates, seen) batch
      else case decodeCommandFate L evt of
          None \<Rightarrow> keepFates L limit (fates, seen) batch
        | Some fate \<Rightarrow>
            let fates' = fates @ [fate] in
            keepFates L limit
              (if length fates' > limit then drop (length fates' - limit) fates' else fates', seen + 1) batch)"

definition LoadCommandFates :: "lifecycle_env \<Rightarrow> dash_config \<Rightarrow> nat \<Rightarrow> (err + CommandFate list \<times> nat) option" where
  "LoadCommandFates L cfg limit =
     (let ctx = [(''limit'', show_nat limit)];
          newest_first = (\<lambda>(fates, seen). (rev fates, seen)) in
      case dc_SeekableJournal cfg of
        Some ReadFrom \<Rightarrow>
          map_option (\<lambda>r. case r of
              ScanFailed e \<Rightarrow>
                Inl (infra ''dashboardui.command_fates.read_failed'' ''read journal for command fates'' ctx e)
            | ScanStalled \<Rightarrow> Inl (new_error Infrastructure ''dashboardui.command_fates.cursor_stalled''
                ''journal cursor did not advance while reading command fates'')
            | ScanFound u \<Rightarrow> u
            | ScanDone acc \<Rightarrow> Inr (newest_first acc))
            (scan_journal tailScanBatch je_ID ReadFrom (\<lambda>acc batch. Inr (keepFates L limit acc batch)) [] ([], 0))
      | None \<Rightarrow>
          (case dc_Journal cfg of
             Some ReadAll \<Rightarrow>
               Some (map_sum (infra ''dashboardui.command_fates.read_all_failed'' ''read journal for command fates'' ctx)
                 (\<lambda>all. newest_first (keepFates L limit ([], 0) all)) ReadAll)
           | None \<Rightarrow> Some (Inr ([], 0))))"

text \<open>The fates of a journal, oldest first.\<close>

definition fates_of :: "lifecycle_env \<Rightarrow> dash_event list \<Rightarrow> CommandFate list" where
  "fates_of L es = List.map_filter (\<lambda>evt. if je_StreamType evt \<noteq> le_StreamType L then None else decodeCommandFate L evt) es"

lemma keepFates_newest:
  "keepFates L limit acc es = (newest limit (fst acc @ fates_of L es), snd acc + length (fates_of L es))"
  if "length (fst acc) \<le> limit"
  using that
proof (induction es arbitrary: acc)
  case Nil
  then show ?case by (cases acc) (simp add: fates_of_def newest_def map_filter_simps)
next
  case (Cons evt es)
  obtain fates seen where acc: "acc = (fates, seen)" by fastforce
  have trim: "(if length xs > limit then drop (length xs - limit) xs else xs) = newest limit xs" for xs :: "CommandFate list"
    by (simp add: newest_def)
  have short: "length (newest limit xs) \<le> limit" for xs :: "CommandFate list" by (simp add: newest_def)
  from Cons.IH [of "(fates, seen)"] Cons.IH [of "(newest limit (fates @ [fate]), seen + 1)" for fate] Cons.prems
  show ?case
    by (simp add: acc fates_of_def map_filter_simps trim Let_def newest_append short split: option.splits)
qed

lemma keepFates_parts:
  "keepFates L limit acc (b1 @ b2) = keepFates L limit (keepFates L limit acc b1) b2"
  by (induction L limit acc b1 rule: keepFates.induct) (auto simp: Let_def split: option.splits)

text \<open>The command fates view: the newest fates first, whatever the paging, with the number of all of
  them; an event whose payload does not decode is there too, and only arrivals are not.\<close>

theorem command_fates_newest:
  assumes "good_ids je_ID es" and "reads cfg es"
  shows "LoadCommandFates L cfg limit = Some (Inr (rev (newest limit (fates_of L es)), length (fates_of L es)))"
proof (cases "dc_SeekableJournal cfg")
  case None
  with assms(2) keepFates_newest [of "([], 0)" limit L es] show ?thesis
    by (simp add: reads_def LoadCommandFates_def Let_def)
next
  case (Some R)
  with assms(2) have "seekable je_ID R es" by (simp add: reads_def)
  then have "scan_journal tailScanBatch je_ID R (\<lambda>acc b. Inr (keepFates L limit acc b) :: (err + CommandFate list \<times> nat) + _) [] ([], 0)
      = Some (ScanDone (keepFates L limit ([], 0) es))"
    by (rule seekable.scan_all [OF _ assms(1) batch_pos keepFates_parts])
  with Some keepFates_newest [of "([], 0)" limit L es] show ?thesis by (simp add: LoadCommandFates_def Let_def)
qed

section \<open>Throughput\<close>

record EventThroughput =
  et_Labels :: "string list"
  et_Counts :: "nat list"
  et_Window :: duration
  et_InWindow :: nat
  et_Older :: nat
  et_Scanned :: nat

definition throughputScanLimit :: nat where "throughputScanLimit = 10000"

text \<open>One event of the bucketing loop. \<open>/\<close> on durations truncates, which is \<open>div\<close> for the non-negative age;
  a window of 0 divides by zero, which panics and is the value \<open>None\<close>.\<close>

definition bucket_event :: "nat \<Rightarrow> duration \<Rightarrow> time \<Rightarrow> dash_event \<Rightarrow> EventThroughput \<Rightarrow> EventThroughput option" where
  "bucket_event buckets window newest_at evt out =
     (let age = max (newest_at - de_Time evt) 0 in
      if window = 0 then None
      else let idx = int buckets - 1 - age div window in
        if idx < 0 then Some (out \<lparr> et_Older := et_Older out + 1 \<rparr>)
        else Some (out \<lparr> et_Counts := (et_Counts out)[nat idx := et_Counts out ! nat idx + 1],
                         et_InWindow := et_InWindow out + 1 \<rparr>))"

fun bucket_events ::
  "nat \<Rightarrow> duration \<Rightarrow> time \<Rightarrow> dash_event list \<Rightarrow> EventThroughput \<Rightarrow> EventThroughput option" where
  "bucket_events buckets window newest_at [] out = Some out"
| "bucket_events buckets window newest_at (evt # tail) out =
     (case bucket_event buckets window newest_at evt out of
        None \<Rightarrow> None | Some out' \<Rightarrow> bucket_events buckets window newest_at tail out')"

text \<open>\<open>format\<close> renders a time in the layout with or without the hour. The outer option is the scan that does
  not end or the panic.\<close>

definition LoadEventThroughput ::
  "(bool \<Rightarrow> time \<Rightarrow> string) \<Rightarrow> dash_config \<Rightarrow> duration \<Rightarrow> int \<Rightarrow> (err + EventThroughput) option" where
  "LoadEventThroughput format_time cfg span buckets =
     (if buckets \<le> 0 then
        Some (Inl (new_error Rejection ''dashboardui.throughput.bad_buckets'' ''buckets must be positive''))
      else if span \<le> 0 then
        Some (Inl (new_error Rejection ''dashboardui.throughput.bad_span'' ''span must be positive''))
      else
        (let window = span div buckets; n = nat buckets in
         case LoadTailEvents cfg filter_zero throughputScanLimit of
           None \<Rightarrow> None
         | Some (Inl e) \<Rightarrow> Some (Inl e)
         | Some (Inr (tail, scanned)) \<Rightarrow>
             (let out = \<lparr> et_Labels = [], et_Counts = [], et_Window = window, et_InWindow = 0, et_Older = 0,
                          et_Scanned = scanned \<rparr> in
              if tail = [] then Some (Inr out)
              else
                (let newest_at = de_Time (last tail) in
                 map_option Inr (bucket_events n window newest_at tail
                   (out \<lparr> et_Labels := map (\<lambda>i. format_time (window \<ge> 24 * hour)
                                (newest_at - window * (int n - int i))) [0..<n],
                          et_Counts := replicate n 0 \<rparr>))))))"

text \<open>The bucket of an event, counted from the newest: whole windows between it and the newest event, and 0
  for an event of the future.\<close>

definition windows_old :: "duration \<Rightarrow> time \<Rightarrow> dash_event \<Rightarrow> int" where
  "windows_old window newest_at evt = max (newest_at - de_Time evt) 0 div window"

lemma windows_old_nonneg: "0 < window \<Longrightarrow> 0 \<le> windows_old window t evt"
  by (simp add: windows_old_def pos_imp_zdiv_nonneg_iff)

lemma bucket_event_counts:
  assumes "0 < window" and "length (et_Counts out) = n"
  shows "\<exists>out'. bucket_event n window t evt out = Some out' \<and> length (et_Counts out') = n
    \<and> (\<forall>i<n. et_Counts out' ! i =
        et_Counts out ! i + (if windows_old window t evt = int n - 1 - int i then 1 else 0))
    \<and> et_InWindow out' = et_InWindow out + (if windows_old window t evt < int n then 1 else 0)
    \<and> et_Older out' = et_Older out + (if windows_old window t evt < int n then 0 else 1)"
proof -
  let ?w = "windows_old window t evt"
  have b: "bucket_event n window t evt out =
    (if int n - 1 - ?w < 0 then Some (out \<lparr> et_Older := et_Older out + 1 \<rparr>)
     else Some (out \<lparr> et_Counts := (et_Counts out)[nat (int n - 1 - ?w) := et_Counts out ! nat (int n - 1 - ?w) + 1],
                      et_InWindow := et_InWindow out + 1 \<rparr>))"
    using assms(1) by (simp add: bucket_event_def windows_old_def Let_def)
  show ?thesis
  proof (cases "?w < int n")
    case True
    have "nat (int n - 1 - ?w) = i \<longleftrightarrow> ?w = int n - 1 - int i" if "i < n" for i
      using True that windows_old_nonneg [OF assms(1), of t evt] by auto
    with True assms(2) b show ?thesis by (auto simp: nth_list_update)
  next
    case False
    with b windows_old_nonneg [OF assms(1), of t evt] assms(2) show ?thesis by auto
  qed
qed

lemma bucket_events_counts:
  assumes "0 < window" and "length (et_Counts out) = n"
  shows "\<exists>out'. bucket_events n window t tail out = Some out' \<and> length (et_Counts out') = n
    \<and> (\<forall>i<n. et_Counts out' ! i =
        et_Counts out ! i + length (filter (\<lambda>e. windows_old window t e = int n - 1 - int i) tail))
    \<and> et_InWindow out' = et_InWindow out + length (filter (\<lambda>e. windows_old window t e < int n) tail)
    \<and> et_Older out' = et_Older out + length (filter (\<lambda>e. \<not> windows_old window t e < int n) tail)"
  using assms(2)
proof (induction tail arbitrary: out)
  case (Cons evt tail)
  from bucket_event_counts [OF assms(1) Cons.prems, of t evt] obtain out1 where
    b: "bucket_event n window t evt out = Some out1" and l: "length (et_Counts out1) = n"
    and c: "\<forall>i<n. et_Counts out1 ! i =
        et_Counts out ! i + (if windows_old window t evt = int n - 1 - int i then 1 else 0)"
      "et_InWindow out1 = et_InWindow out + (if windows_old window t evt < int n then 1 else 0)"
      "et_Older out1 = et_Older out + (if windows_old window t evt < int n then 0 else 1)" by blast
  from Cons.IH [OF l] b c show ?case by auto
qed simp

text \<open>The chart: every bucket counts exactly the scanned events whose age lies in its window, an event of
  the future in the newest one, and every event scanned is charted or counted as older.\<close>

theorem throughput_counts:
  assumes "good_ids je_ID es" and "reads cfg es" and "es \<noteq> []" and "0 < buckets" and "buckets \<le> span"
    and "tail = newest throughputScanLimit es"
  shows "\<exists>out. LoadEventThroughput fmt cfg span buckets = Some (Inr out) \<and> length (et_Counts out) = nat buckets
    \<and> (\<forall>i<nat buckets. et_Counts out ! i =
        length (filter (\<lambda>e. windows_old (span div buckets) (de_Time (last tail)) e = buckets - 1 - int i) tail))
    \<and> et_InWindow out + et_Older out = length tail"
proof -
  have all: "filter (Matches filter_zero) es = es"
    by (simp add: Matches_def filter_zero_def)
  have w: "0 < span div buckets" using assms(4,5) by (simp add: pos_imp_zdiv_pos_iff)
  have ne: "tail \<noteq> []" using assms(3,6) by (cases es) (auto simp: newest_def throughputScanLimit_def)
  let ?out = "\<lparr> et_Labels = map (\<lambda>i. fmt (span div buckets \<ge> 24 * hour)
      (de_Time (last tail) - span div buckets * (int (nat buckets) - int i))) [0..<nat buckets],
    et_Counts = replicate (nat buckets) 0, et_Window = span div buckets, et_InWindow = 0, et_Older = 0,
    et_Scanned = length es \<rparr>"
  have l: "length (et_Counts ?out) = nat buckets" by simp
  from bucket_events_counts [OF w l, of "de_Time (last tail)" tail] obtain out where
    b: "bucket_events (nat buckets) (span div buckets) (de_Time (last tail)) tail ?out = Some out"
    and c: "length (et_Counts out) = nat buckets"
      "\<forall>i<nat buckets. et_Counts out ! i =
         length (filter (\<lambda>e. windows_old (span div buckets) (de_Time (last tail)) e = int (nat buckets) - 1 - int i) tail)"
      "et_InWindow out + et_Older out = length tail"
    by (auto simp: sum_length_filter_compl)
  have "LoadEventThroughput fmt cfg span buckets = Some (Inr out)"
    using b ne assms(4,5) tail_scan_ends [OF assms(1,2), of filter_zero throughputScanLimit]
    by (simp add: LoadEventThroughput_def all Let_def flip: assms(6))
  with c assms(4) show ?thesis by auto
qed

text \<open>A span shorter than the number of buckets makes a window of 0, by which the code then divides.\<close>

theorem throughput_short_span_panics:
  assumes "good_ids je_ID es" and "reads cfg es" and "es \<noteq> []" and "0 < span" and "span < buckets"
  shows "LoadEventThroughput fmt cfg span buckets = None"
proof -
  have "filter (Matches filter_zero) es = es" by (simp add: Matches_def filter_zero_def)
  moreover obtain e rest where "newest throughputScanLimit es = e # rest"
    using assms(3) by (cases es; cases "newest throughputScanLimit es") (auto simp: newest_def throughputScanLimit_def)
  moreover have "span div buckets = 0" using assms(4,5) by simp
  ultimately show ?thesis
    using assms(4,5) tail_scan_ends [OF assms(1,2), of filter_zero throughputScanLimit]
    by (simp add: LoadEventThroughput_def bucket_event_def Let_def)
qed

end
