(* ===== verification/Dashboard_Paging.thy ===== *)
theory Dashboard_Paging
  imports Dashboard_Journal "HOL-Library.Multiset"
begin

text \<open>
  Paging, sorting and the event listing of the dashboard: \<open>dashboardui/core/pagination.go\<close>,
  \<open>dashboardui/pagination.go\<close>, \<open>sort.go\<close>, \<open>handlers_events.go\<close> and the export formats of \<open>export.go\<close>. A
  handler answers a value that says what it writes: an error page, a page with the data its template is
  given, or an export; it is an option where a journal is scanned to its end. The last section follows the Next and Previous links from page to page.
\<close>

section \<open>Requests and answers\<close>

text \<open>The handlers read the query of the request; \<open>RenderPage\<close> holds what a page shows. The errors name the
  status and the message of \<open>renderError\<close>; the call of a method on a nil interface is \<open>Panicked\<close>.\<close>

datatype responseFormat = formatHTML | formatCSV | formatJSON

datatype 'p answer =
    RenderError nat string
  | RenderPage 'p
  | WriteCSV string "string list" "string list list"
  | WriteJSON "string list" "string list list"
  | Panicked

type_synonym query = "(string \<times> string) list"

section \<open>Cursors\<close>

record PageState =
  ps_HasNext :: bool
  ps_NextCursor :: string
  ps_PageSize :: int
  ps_HasPrev :: bool
  ps_After :: string
  ps_PrevHistory :: string
  ps_TotalCount :: string
  ps_PageStart :: int
  ps_PageLen :: int

definition PushCursor :: "string \<Rightarrow> string \<Rightarrow> string" where
  "PushCursor history cursor =
     (if cursor = [] then history else if history = [] then cursor else history @ '','' @ cursor)"

text \<open>\<open>strings.CutLast\<close>: the texts around the last separator.\<close>

definition cut_last :: "char \<Rightarrow> string \<Rightarrow> (string \<times> string) option" where
  "cut_last c s =
     (if c \<in> set s then
        Some (butlast (rev (dropWhile (\<lambda>x. x \<noteq> c) (rev s))), rev (takeWhile (\<lambda>x. x \<noteq> c) (rev s)))
      else None)"

definition PopCursor :: "string \<Rightarrow> string \<times> string" where
  "PopCursor history =
     (if history = [] then ([], [])
      else case cut_last (CHR '','') history of
             None \<Rightarrow> (history, [])
           | Some (before, behind) \<Rightarrow> (behind, before))"

definition PaginationQuery :: "string \<Rightarrow> string \<Rightarrow> int \<Rightarrow> string \<Rightarrow> string" where
  "PaginationQuery after_cursor prevHistory pageSize extraParams =
     join_amp
       ((if after_cursor \<noteq> [] then [''after='' @ QueryEscape after_cursor] else [])
        @ (if prevHistory \<noteq> [] then [''prev='' @ QueryEscape prevHistory] else [])
        @ [''limit='' @ show_int pageSize]
        @ (if extraParams \<noteq> [] then [extraParams] else []))"

definition DefaultPageSize :: int where "DefaultPageSize = 50"
definition MaxPageSize :: int where "MaxPageSize = 200"

definition ComputePageStart :: "PageState \<Rightarrow> int" where
  "ComputePageStart s =
     (let entriesInPrev = (if ps_PrevHistory s \<noteq> [] then int (count_list (ps_PrevHistory s) (CHR '','')) + 1 else 0);
          traversed = (if ps_After s \<noteq> [] then entriesInPrev + 1 else entriesInPrev);
          size = (if ps_PageSize s \<le> 0 then DefaultPageSize else ps_PageSize s)
      in traversed * size + 1)"

definition WithCountInfo :: "PageState \<Rightarrow> nat \<Rightarrow> PageState" where
  "WithCountInfo s itemLen =
     (let s' = s \<lparr> ps_PageStart := ComputePageStart s, ps_PageLen := int itemLen \<rparr> in
      if \<not> ps_HasNext s' \<and> itemLen > 0
      then s' \<lparr> ps_TotalCount := show_int (ps_PageStart s' + int itemLen - 1) \<rparr> else s')"

definition ParsePageSize :: "query \<Rightarrow> int \<Rightarrow> int" where
  "ParsePageSize q defaultSize =
     (let s = Query_Get q ''limit'' in
      if s = [] then defaultSize
      else case Atoi s of
             None \<Rightarrow> defaultSize
           | Some num \<Rightarrow> if num < 1 then defaultSize else if num > MaxPageSize then MaxPageSize else num)"

definition ParseCursorParams :: "query \<Rightarrow> string \<times> string \<times> bool" where
  "ParseCursorParams q =
     (let after_cursor = Query_Get q ''after'' in (after_cursor, Query_Get q ''prev'', after_cursor \<noteq> []))"

section \<open>Links\<close>

definition prevPaginationHref :: "string \<Rightarrow> string \<Rightarrow> PageState \<Rightarrow> string \<Rightarrow> string" where
  "prevPaginationHref basePath path s extraParams =
     (let (prevAfter, prevHistory) = PopCursor (ps_PrevHistory s) in
      basePath @ path @ ''?'' @ PaginationQuery prevAfter prevHistory (ps_PageSize s) extraParams)"

definition nextPaginationHref :: "string \<Rightarrow> string \<Rightarrow> PageState \<Rightarrow> string \<Rightarrow> string" where
  "nextPaginationHref basePath path s extraParams =
     (let nextHistory = PushCursor (ps_PrevHistory s) (ps_After s) in
      basePath @ path @ ''?'' @ PaginationQuery (ps_NextCursor s) nextHistory (ps_PageSize s) extraParams)"

definition en_dash :: string where "en_dash = map byte [0xE2, 0x80, 0x93]"

definition paginationInfoText :: "PageState \<Rightarrow> string" where
  "paginationInfoText s =
     (if ps_PageLen s = 0 then []
      else let start = max (ps_PageStart s) 1;
               last_shown = max (start + ps_PageLen s - 1) start
           in ''Showing '' @ show_int start @ en_dash @ show_int last_shown
              @ (if ps_TotalCount s \<noteq> [] then '' of '' @ ps_TotalCount s else []))"

definition pageSizeOptions :: "int list" where "pageSizeOptions = [25, 50, 100, 200]"

record SelectOption =
  so_Value :: string
  so_Label :: string
  so_Disabled :: bool
  so_Selected :: bool

definition pageSizeOptionsFor :: "string \<Rightarrow> string \<Rightarrow> PageState \<Rightarrow> string \<Rightarrow> SelectOption list" where
  "pageSizeOptionsFor basePath path s extraParams =
     (let current = (if ps_PageSize s = 0 then DefaultPageSize else ps_PageSize s) in
      map (\<lambda>opt. \<lparr> so_Value = basePath @ path @ ''?'' @ ''limit='' @ show_int opt
                     @ (if extraParams \<noteq> [] then ''&'' @ extraParams else []),
                   so_Label = show_int opt, so_Disabled = False, so_Selected = (opt = current) \<rparr>)
        pageSizeOptions)"

section \<open>Sorting\<close>

record sortState =
  ss_Column :: string
  ss_Direction :: string

definition sortAsc :: string where "sortAsc = ''asc''"
definition sortDesc :: string where "sortDesc = ''desc''"

definition Sort_Active :: "sortState \<Rightarrow> bool" where
  "Sort_Active s \<longleftrightarrow> ss_Column s \<noteq> []"

definition Sort_extraParams :: "sortState \<Rightarrow> string" where
  "Sort_extraParams s =
     (if \<not> Sort_Active s then []
      else ''sort='' @ QueryEscape (ss_Column s) @ ''&dir='' @ QueryEscape (ss_Direction s))"

definition parseSort :: "query \<Rightarrow> sortState" where
  "parseSort q =
     (let col = Query_Get q ''sort''; dir = Query_Get q ''dir'' in
      if col = [] then \<lparr> ss_Column = [], ss_Direction = [] \<rparr>
      else \<lparr> ss_Column = col, ss_Direction = (if dir \<noteq> sortAsc \<and> dir \<noteq> sortDesc then sortAsc else dir) \<rparr>)"

text \<open>\<open>sort.SliceStable\<close>: the sorted permutation that keeps the order of equals, by insertion from the right.\<close>

fun insert_stable :: "('a \<Rightarrow> 'a \<Rightarrow> bool) \<Rightarrow> 'a \<Rightarrow> 'a list \<Rightarrow> 'a list" where
  "insert_stable lt x [] = [x]"
| "insert_stable lt x (y # ys) = (if lt y x then y # insert_stable lt x ys else x # y # ys)"

definition SliceStable :: "('a \<Rightarrow> 'a \<Rightarrow> bool) \<Rightarrow> 'a list \<Rightarrow> 'a list" where
  "SliceStable lt xs = foldr (insert_stable lt) xs []"

text \<open>The comparison of a column in a direction: \<open>before\<close> in ascending order, its converse in descending.\<close>

definition sort_less :: "sortState \<Rightarrow> ('k::linorder) \<Rightarrow> 'k \<Rightarrow> bool" where
  "sort_less s a b \<longleftrightarrow> (if ss_Direction s = sortAsc then a < b else b < a)"

definition sortEvents :: "dash_event list \<Rightarrow> sortState \<Rightarrow> dash_event list" where
  "sortEvents events s =
     (if \<not> Sort_Active s then events
      else if ss_Column s = ''time'' then SliceStable (\<lambda>a b. sort_less s (de_Time a) (de_Time b)) events
      else if ss_Column s = ''type'' then SliceStable (\<lambda>a b. sort_less s (je_Type a) (je_Type b)) events
      else if ss_Column s = ''streamType'' then
        SliceStable (\<lambda>a b. sort_less s (je_StreamType a) (je_StreamType b)) events
      else if ss_Column s = ''version'' then
        SliceStable (\<lambda>a b. sort_less s (unat (je_Version a)) (unat (je_Version b))) events
      else events)"

datatype SortDirection = SortNone | SortAsc | SortDesc

record TableHeader =
  th_Label :: string
  th_Sortable :: bool
  th_SortDirection :: SortDirection
  th_Href :: string

definition eventSortHeader :: "string \<Rightarrow> string \<Rightarrow> string \<Rightarrow> sortState \<Rightarrow> string \<Rightarrow> TableHeader" where
  "eventSortHeader basePath label column s extraParams =
     (let (direction, next_dir) =
        (if ss_Column s = column
         then (if ss_Direction s = sortAsc then (SortAsc, sortDesc) else (SortDesc, sortAsc))
         else (SortNone, sortAsc))
      in \<lparr> th_Label = label, th_Sortable = True, th_SortDirection = direction,
           th_Href = basePath @ ''/events?sort='' @ QueryEscape column @ ''&dir='' @ QueryEscape next_dir
             @ (if extraParams \<noteq> [] then ''&'' @ extraParams else []) \<rparr>)"

definition combinedFilterSortParams :: "EventFilter \<Rightarrow> sortState \<Rightarrow> string" where
  "combinedFilterSortParams f sortBy =
     (let combined = Filter_ExtraParams f; sp = Sort_extraParams sortBy in
      if sp \<noteq> [] then (if combined \<noteq> [] then combined @ ''&'' @ sp else sp) else combined)"

section \<open>Exports\<close>

definition csvFormulaTriggers :: "char list" where
  "csvFormulaTriggers = ''=+-@'' @ [CHR 0x09, CHR 0x0D]"

definition neutralizeCSVFormula :: "string \<Rightarrow> string" where
  "neutralizeCSVFormula v =
     (case v of [] \<Rightarrow> v | c # _ \<Rightarrow> if c \<in> set csvFormulaTriggers then CHR 0x27 # v else v)"

definition neutralizeCSVRow :: "string list \<Rightarrow> string list" where
  "neutralizeCSVRow row = map neutralizeCSVFormula row"

definition writeCSV :: "string \<Rightarrow> string list \<Rightarrow> string list list \<Rightarrow> 'p answer" where
  "writeCSV filename headers rows = WriteCSV filename (neutralizeCSVRow headers) (map neutralizeCSVRow rows)"

definition parseFormat :: "query \<Rightarrow> responseFormat" where
  "parseFormat q =
     (let f = Query_Get q ''format'' in
      if f = ''csv'' then formatCSV else if f = ''json'' then formatJSON else formatHTML)"

definition exportLimit :: nat where "exportLimit = 10000"

text \<open>\<open>rfc3339\<close> renders a time in the layout of the exports.\<close>

definition event_export_row :: "(time \<Rightarrow> string) \<Rightarrow> dash_event \<Rightarrow> string list" where
  "event_export_row rfc3339 evt =
     [je_ID evt, je_Type evt, je_StreamType evt, je_StreamID evt, show_nat (unat (je_Version evt)),
      rfc3339 (de_Time evt)]"

definition exportEventsCSV :: "(time \<Rightarrow> string) \<Rightarrow> dash_event list \<Rightarrow> 'p answer" where
  "exportEventsCSV rfc3339 events =
     writeCSV ''events.csv'' [''Event ID'', ''Type'', ''Stream Type'', ''Stream ID'', ''Version'', ''Occurred At'']
       (map (event_export_row rfc3339) events)"

definition exportEventsJSON :: "(time \<Rightarrow> string) \<Rightarrow> dash_event list \<Rightarrow> 'p answer" where
  "exportEventsJSON rfc3339 events =
     WriteJSON [''eventId'', ''type'', ''streamType'', ''streamId'', ''version'', ''occurredAt'']
       (map (event_export_row rfc3339) events)"

lemma csv_cells_inert:
  assumes "writeCSV filename headers rows = WriteCSV f hs rs" and "cell \<in> set hs \<union> \<Union> (set ` set rs)"
  shows "cell = [] \<or> hd cell \<notin> set csvFormulaTriggers"
proof -
  have "neutralizeCSVFormula v = [] \<or> hd (neutralizeCSVFormula v) \<notin> set csvFormulaTriggers" for v
    by (auto simp: neutralizeCSVFormula_def csvFormulaTriggers_def split: list.splits)
  with assms show ?thesis by (fastforce simp: writeCSV_def neutralizeCSVRow_def)
qed

section \<open>The event listing\<close>

text \<open>The identifier parsers and the time layout of the exports. A parsed identifier is its canonical text.\<close>

record dash_env =
  dn_ParseEventID :: "string \<Rightarrow> string option"
  dn_ParseCommandID :: "string \<Rightarrow> string option"
  dn_ParseRequestID :: "string \<Rightarrow> string option"
  dn_ParseStreamID :: "string \<Rightarrow> string option"
  dn_ParseStreamType :: "string \<Rightarrow> string option"
  dn_rfc3339 :: "time \<Rightarrow> string"

definition parseAfterCursor :: "(string \<Rightarrow> string option) \<Rightarrow> string \<Rightarrow> 'p answer + string" where
  "parseAfterCursor parse raw =
     (if raw = [] then Inr []
      else case parse raw of
             None \<Rightarrow> Inl (RenderError 400 ''invalid after cursor'')
           | Some parsed \<Rightarrow> Inr parsed)"

text \<open>The cut of a page and the cursor behind it, for whatever items have identifiers.\<close>

definition pageEvents :: "dash_event list \<Rightarrow> int \<Rightarrow> bool \<Rightarrow> bool \<times> dash_event list \<times> string" where
  "pageEvents events pageSize windowed =
     (let hasNext = (\<not> windowed \<and> int (length events) > pageSize);
          cut = (if hasNext then take (nat pageSize) events else events)
      in (hasNext, cut, if hasNext \<and> cut \<noteq> [] then je_ID (last cut) else []))"

record events_page =
  ep_Events :: "dash_event list"
  ep_State :: PageState
  ep_Filters :: EventFilter
  ep_Sort :: sortState
  ep_WindowCount :: nat

definition exportEvents ::
  "dash_env \<Rightarrow> dash_config \<Rightarrow> responseFormat \<Rightarrow> EventFilter \<Rightarrow> sortState \<Rightarrow> 'p answer option" where
  "exportEvents N cfg format filters sortBy =
     map_option (\<lambda>r. case r of
         Inl e \<Rightarrow> RenderError 500 ''failed to load events for export''
       | Inr (events, _) \<Rightarrow>
           (let sorted_events = sortEvents events sortBy in
            if format = formatCSV then exportEventsCSV (dn_rfc3339 N) sorted_events
            else exportEventsJSON (dn_rfc3339 N) sorted_events))
       (LoadTailEvents cfg filters exportLimit)"

definition events_index_page ::
  "dash_env \<Rightarrow> dash_config \<Rightarrow> int \<Rightarrow> query \<Rightarrow> events_page answer" where
  "events_index_page N cfg configPageSize q =
     (let filters = ParseEventFilter q; sortBy = parseSort q;
          pageSize = ParsePageSize q configPageSize;
          (afterCursor, prevHistory, hasPrev) = ParseCursorParams q in
      case parseAfterCursor (dn_ParseEventID N) afterCursor of
        Inl answer \<Rightarrow> answer
      | Inr afterID \<Rightarrow>
          (let windowed = (Sort_Active sortBy \<and> \<not> Filter_Active filters) in
           case (if Filter_Active filters then LoadFilteredEvents cfg afterID filters pageSize
                 else if Sort_Active sortBy then LoadFilteredEvents cfg [] filter_zero FilterScanLimit
                 else LoadRecentEvents cfg afterID (pageSize + 1)) of
             Inl e \<Rightarrow> RenderError 500 ''failed to load events''
           | Inr loaded \<Rightarrow>
               (let windowCount = (if windowed then length loaded else 0);
                    (hasNext, events, nextCursor) = pageEvents loaded pageSize windowed;
                    events = sortEvents events sortBy;
                    state = WithCountInfo
                      \<lparr> ps_HasNext = hasNext, ps_NextCursor = nextCursor, ps_PageSize = pageSize,
                        ps_HasPrev = hasPrev, ps_After = afterCursor, ps_PrevHistory = prevHistory,
                        ps_TotalCount = [], ps_PageStart = 0, ps_PageLen = 0 \<rparr> (length events);
                    state = (if windowed
                             then state \<lparr> ps_HasNext := False, ps_HasPrev := False, ps_NextCursor := [],
                                         ps_TotalCount := [] \<rparr>
                             else state)
                in RenderPage \<lparr> ep_Events = events, ep_State = state, ep_Filters = filters, ep_Sort = sortBy,
                                 ep_WindowCount = windowCount \<rparr>)))"

definition eventsIndexHandler ::
  "dash_env \<Rightarrow> dash_config \<Rightarrow> int \<Rightarrow> query \<Rightarrow> events_page answer option" where
  "eventsIndexHandler N cfg configPageSize q =
     (let format = parseFormat q in
      if format \<noteq> formatHTML then exportEvents N cfg format (ParseEventFilter q) (parseSort q)
      else Some (events_index_page N cfg configPageSize q))"

section \<open>The query of a link\<close>

lemma join_amp_cons: "xs \<noteq> [] \<Longrightarrow> join_amp (x # xs) = x @ ''&'' @ join_amp xs"
  by (cases xs) auto

lemma join_amp_nonempty: "[] \<notin> set xs \<Longrightarrow> xs \<noteq> [] \<Longrightarrow> join_amp xs \<noteq> []"
  by (cases xs rule: join_amp.cases) auto

lemma show_int_nat: "show_int (int n) = show_nat n"
  by (simp add: show_int_def)

definition link_params :: "string \<Rightarrow> string \<Rightarrow> nat \<Rightarrow> query \<Rightarrow> query" where
  "link_params after_cursor prevHistory n extra =
     (if after_cursor \<noteq> [] then [(''after'', after_cursor)] else [])
     @ (if prevHistory \<noteq> [] then [(''prev'', prevHistory)] else []) @ [(''limit'', show_nat n)] @ extra"

lemma PaginationQuery_read:
  assumes "\<And>kv. kv \<in> set extra \<Longrightarrow> plain_key (fst kv)"
  shows "ParseQuery (PaginationQuery a p (int n) (join_amp (map query_part extra))) = link_params a p n extra"
proof -
  have ne: "join_amp (map query_part extra) \<noteq> []" if "extra \<noteq> []"
  proof (rule join_amp_nonempty)
    show "[] \<notin> set (map query_part extra)" by (auto simp: query_part_def)
    show "map query_part extra \<noteq> []" using that by simp
  qed
  have "PaginationQuery a p (int n) (join_amp (map query_part extra)) = join_amp (map query_part (link_params a p n extra))"
  proof (cases "extra = []")
    case True
    then show ?thesis
      by (simp add: PaginationQuery_def link_params_def query_part_def show_int_nat QueryEscape_show)
  next
    case False
    with ne [OF False] show ?thesis
      by (simp add: PaginationQuery_def link_params_def query_part_def show_int_nat QueryEscape_show join_amp_cons)
  qed
  moreover have "plain_key (fst kv)" if "kv \<in> set (link_params a p n extra)" for kv
  proof -
    have "fst kv \<in> {''after'', ''prev'', ''limit''} \<or> kv \<in> set extra"
      using that by (auto simp: link_params_def split: if_splits)
    moreover have "plain_key ''after''" "plain_key ''prev''" "plain_key ''limit''"
      by (simp_all add: plain_key_def unreserved_def)
    ultimately show ?thesis using assms [of kv] by auto
  qed
  ultimately show ?thesis by (simp add: ParseQuery_join)
qed

lemma cut_last_append: "c \<notin> set x \<Longrightarrow> cut_last c (h @ c # x) = Some (h, x)"
proof -
  assume c: "c \<notin> set x"
  have "takeWhile (\<lambda>y. y \<noteq> c) (rev x @ c # rev h) = rev x" "dropWhile (\<lambda>y. y \<noteq> c) (rev x @ c # rev h) = c # rev h"
    using c by (auto simp: takeWhile_append dropWhile_append)
  then show ?thesis by (simp add: cut_last_def)
qed

theorem PopCursor_PushCursor:
  assumes "cursor \<noteq> []" and "CHR '','' \<notin> set cursor"
  shows "PopCursor (PushCursor history cursor) = (cursor, history)"
  using assms cut_last_append [OF assms(2), of history]
  by (auto simp: PopCursor_def PushCursor_def cut_last_def)

section \<open>Following the links of the event listing\<close>

text \<open>The query of a link and the request that follows it.\<close>

definition link_query :: "string \<Rightarrow> query" where
  "link_query href = ParseQuery (snd (cut_at (CHR ''?'') href))"

definition page_params :: "events_page \<Rightarrow> string" where
  "page_params p = combinedFilterSortParams (ep_Filters p) (ep_Sort p)"

definition shown_page :: "events_page answer option \<Rightarrow> events_page option" where
  "shown_page r = (case r of Some (RenderPage p) \<Rightarrow> Some p | _ \<Rightarrow> None)"

definition follow_next :: "dash_env \<Rightarrow> dash_config \<Rightarrow> int \<Rightarrow> string \<Rightarrow> events_page \<Rightarrow> events_page option" where
  "follow_next N cfg psize basePath p =
     shown_page (eventsIndexHandler N cfg psize
       (link_query (nextPaginationHref basePath ''/events'' (ep_State p) (page_params p))))"

definition follow_prev :: "dash_env \<Rightarrow> dash_config \<Rightarrow> int \<Rightarrow> string \<Rightarrow> events_page \<Rightarrow> events_page option" where
  "follow_prev N cfg psize basePath p =
     shown_page (eventsIndexHandler N cfg psize
       (link_query (prevPaginationHref basePath ''/events'' (ep_State p) (page_params p))))"

fun nth_page :: "dash_env \<Rightarrow> dash_config \<Rightarrow> int \<Rightarrow> string \<Rightarrow> nat \<Rightarrow> nat \<Rightarrow> events_page option" where
  "nth_page N cfg psize basePath n 0 = shown_page (eventsIndexHandler N cfg psize [(''limit'', show_nat n)])"
| "nth_page N cfg psize basePath n (Suc k) =
     (case nth_page N cfg psize basePath n k of None \<Rightarrow> None | Some p \<Rightarrow> follow_next N cfg psize basePath p)"

lemma reads_seekable: "reads cfg es \<Longrightarrow> seekable je_ID (LoadRecentEvents cfg) es"
proof (cases "dc_SeekableJournal cfg")
  case None
  assume "reads cfg es"
  with None have "LoadRecentEvents cfg = LoadRecentEvents (memory es)"
    by (intro ext) (simp add: reads_def LoadRecentEvents_def memory_def)
  then show ?thesis by (simp add: memory.seekable_axioms)
next
  case (Some R)
  assume "reads cfg es"
  with Some have "seekable je_ID R es" by (simp add: reads_def)
  with Some show ?thesis by (simp add: seekable_def LoadRecentEvents_def)
qed

text \<open>The page number \<open>k\<close> of a journal: its cursor, the history of the pages before it and what it shows.\<close>

definition page_cursor :: "dash_event list \<Rightarrow> nat \<Rightarrow> nat \<Rightarrow> string" where
  "page_cursor es n k = cursor_at je_ID es (k * n)"

fun page_history :: "dash_event list \<Rightarrow> nat \<Rightarrow> nat \<Rightarrow> string" where
  "page_history es n 0 = []"
| "page_history es n (Suc k) = PushCursor (page_history es n k) (page_cursor es n k)"

definition page_params_at :: "dash_event list \<Rightarrow> nat \<Rightarrow> nat \<Rightarrow> query" where
  "page_params_at es n k = link_params (page_cursor es n k) (page_history es n k) n []"

definition page_at :: "dash_event list \<Rightarrow> nat \<Rightarrow> nat \<Rightarrow> events_page" where
  "page_at es n k =
     (let shown = take n (drop (k * n) es); more = k * n + n < length es in
      \<lparr> ep_Events = shown,
        ep_State =
          \<lparr> ps_HasNext = more, ps_NextCursor = (if more then page_cursor es n (Suc k) else []),
            ps_PageSize = int n, ps_HasPrev = (page_cursor es n k \<noteq> []), ps_After = page_cursor es n k,
            ps_PrevHistory = page_history es n k,
            ps_TotalCount = (if \<not> more \<and> shown \<noteq> [] then show_nat (length es) else []),
            ps_PageStart = int (k * n + 1), ps_PageLen = int (length shown) \<rparr>,
        ep_Filters = filter_zero, ep_Sort = \<lparr> ss_Column = [], ss_Direction = [] \<rparr>, ep_WindowCount = 0 \<rparr>)"

definition clean_ids :: "dash_env \<Rightarrow> dash_event list \<Rightarrow> bool" where
  "clean_ids N es \<longleftrightarrow> good_ids je_ID es
     \<and> (\<forall>e\<in>set es. dn_ParseEventID N (je_ID e) = Some (je_ID e) \<and> CHR '','' \<notin> set (je_ID e))"

lemma cursor_clean:
  assumes "clean_ids N es" and "k * n \<le> length es" and "0 < n"
  shows "CHR '','' \<notin> set (page_cursor es n k)" and "page_cursor es n k = [] \<longleftrightarrow> k = 0"
    and "parseAfterCursor (dn_ParseEventID N) (page_cursor es n k) = Inr (page_cursor es n k)"
proof -
  have "k * n - 1 < length es" if "k \<noteq> 0" using assms(2,3) that by (cases "k * n") auto
  with assms show "CHR '','' \<notin> set (page_cursor es n k)" and e: "page_cursor es n k = [] \<longleftrightarrow> k = 0"
    and "parseAfterCursor (dn_ParseEventID N) (page_cursor es n k) = Inr (page_cursor es n k)"
    using good_nth(1) [of je_ID es "k * n - 1"]
    by (auto simp: page_cursor_def cursor_at_def clean_ids_def parseAfterCursor_def)
qed

lemma history_entries:
  assumes "clean_ids N es" and "k * n \<le> length es" and "0 < n"
  shows "(if page_history es n (Suc k) = [] then 0
      else count_list (page_history es n (Suc k)) (CHR '','') + 1) = k"
  using assms(2)
proof (induction k)
  case 0
  then show ?case by (simp add: PushCursor_def page_cursor_def cursor_at_def)
next
  case (Suc k)
  then have IH: "(if page_history es n (Suc k) = [] then 0
      else count_list (page_history es n (Suc k)) (CHR '','') + 1) = k" by simp
  have c: "page_cursor es n (Suc k) \<noteq> []" "CHR '','' \<notin> set (page_cursor es n (Suc k))"
    using cursor_clean [OF assms(1) Suc.prems assms(3)] by auto
  show ?case
    using IH c by (subst page_history.simps(2)) (auto simp: PushCursor_def count_list_0_iff split: if_splits)
qed

lemma history_pop:
  assumes "clean_ids N es" and "k * n \<le> length es" and "0 < n"
  shows "PopCursor (page_history es n (Suc k)) = (page_cursor es n k, page_history es n k)"
proof (cases "k = 0")
  case True
  then show ?thesis by (simp add: PopCursor_def PushCursor_def page_cursor_def cursor_at_def)
next
  case False
  with cursor_clean [OF assms] show ?thesis by (simp add: PopCursor_PushCursor)
qed

lemma link_params_get:
  "Query_Get (link_params a p n []) ''after'' = a" "Query_Get (link_params a p n []) ''prev'' = p"
  "Query_Get (link_params a p n []) ''limit'' = show_nat n"
  "key \<notin> {''after'', ''prev'', ''limit''} \<Longrightarrow> Query_Get (link_params a p n []) key = []"
  by (auto simp: Query_Get_def link_params_def)

lemma page_size_read:
  "0 < n \<Longrightarrow> n \<le> 200 \<Longrightarrow> ParsePageSize (link_params a p n []) d = int n"
  by (simp add: ParsePageSize_def link_params_get Atoi_show show_nat_nonempty MaxPageSize_def)

lemma ComputePageStart_entries:
  assumes "0 < n"
    and "(if h = [] then 0 else count_list h (CHR '','') + 1) + (if c = [] then 0 else 1) = k"
    and "ps_PrevHistory s = h" and "ps_After s = c" and "ps_PageSize s = int n"
  shows "ComputePageStart s = int (k * n + 1)"
  using assms(1) unfolding assms(2) [symmetric]
  by (auto simp: ComputePageStart_def assms(3-5) algebra_simps)

lemma page_shown:
  assumes clean: "clean_ids N es" and "reads cfg es" and n: "0 < n" "n \<le> 200" and k: "k = 0 \<or> k * n < length es"
  shows "eventsIndexHandler N cfg psize (page_params_at es n k) = Some (RenderPage (page_at es n k))"
proof -
  let ?q = "page_params_at es n k"
  note get = link_params_get [where a = "page_cursor es n k" and p = "page_history es n k" and n = n,
      folded page_params_at_def]
  have le: "k * n \<le> length es" using k by auto
  have plain: "ParseEventFilter ?q = filter_zero" "parseSort ?q = \<lparr> ss_Column = [], ss_Direction = [] \<rparr>"
    "parseFormat ?q = formatHTML"
    by (simp_all add: ParseEventFilter_def parseSort_def parseFormat_def get filter_zero_def Let_def)
  have size: "ParsePageSize ?q psize = int n"
    using page_size_read [OF n] by (simp add: page_params_at_def)
  have cur: "ParseCursorParams ?q = (page_cursor es n k, page_history es n k, page_cursor es n k \<noteq> [])"
    by (simp add: ParseCursorParams_def get Let_def)
  from clean have good: "good_ids je_ID es" by (simp add: clean_ids_def)
  from seekable.read [OF reads_seekable [OF assms(2)] good le, of "int n + 1"]
  have load: "LoadRecentEvents cfg (page_cursor es n k) (int n + 1) = Inr (take (Suc n) (drop (k * n) es))"
    by (simp add: page_cursor_def nat_add_distrib)
  let ?more = "k * n + n < length es"
  have cut: "pageEvents (take (Suc n) (drop (k * n) es)) (int n) False =
      (?more, take n (drop (k * n) es), if ?more then page_cursor es n (Suc k) else [])"
  proof (cases ?more)
    case True
    then have "last (take n (drop (k * n) es)) = es ! (k * n + n - 1)" "take n (drop (k * n) es) \<noteq> []"
      using n(1) by (auto simp: last_conv_nth min_def intro!: arg_cong [where f = "(!) es"])
    with True n(1) show ?thesis
      by (auto simp: pageEvents_def Let_def page_cursor_def cursor_at_def min_def add.commute)
  next
    case False
    then show ?thesis by (auto simp: pageEvents_def Let_def)
  qed
  have start: "(if page_history es n k = [] then 0 else count_list (page_history es n k) (CHR '','') + 1)
      + (if page_cursor es n k = [] then 0 else 1) = k"
  proof (cases k)
    case 0
    then show ?thesis by (simp add: page_cursor_def cursor_at_def)
  next
    case (Suc j)
    with history_entries [OF clean, of j n] cursor_clean(2) [OF clean le n(1)] le n(1) show ?thesis
      by (auto simp del: page_history.simps split: if_splits)
  qed
  have inactive: "\<not> Filter_Active filter_zero" "\<not> Sort_Active \<lparr> ss_Column = [], ss_Direction = [] \<rparr>"
    by (simp_all add: Filter_Active_def filter_zero_def Sort_Active_def)
  have count: "WithCountInfo \<lparr> ps_HasNext = ?more, ps_NextCursor = c, ps_PageSize = int n, ps_HasPrev = b,
        ps_After = page_cursor es n k, ps_PrevHistory = page_history es n k, ps_TotalCount = [],
        ps_PageStart = 0, ps_PageLen = 0 \<rparr> (length (take n (drop (k * n) es)))
      = \<lparr> ps_HasNext = ?more, ps_NextCursor = c, ps_PageSize = int n, ps_HasPrev = b,
        ps_After = page_cursor es n k, ps_PrevHistory = page_history es n k,
        ps_TotalCount = (if \<not> ?more \<and> take n (drop (k * n) es) \<noteq> [] then show_nat (length es) else []),
        ps_PageStart = int (k * n + 1), ps_PageLen = int (length (take n (drop (k * n) es))) \<rparr>" for c b
  proof -
    have "ComputePageStart \<lparr> ps_HasNext = ?more, ps_NextCursor = c, ps_PageSize = int n, ps_HasPrev = b,
        ps_After = page_cursor es n k, ps_PrevHistory = page_history es n k, ps_TotalCount = [],
        ps_PageStart = 0, ps_PageLen = 0 \<rparr> = int (k * n + 1)"
      using n(1) by (intro ComputePageStart_entries [OF _ start]) simp_all
    moreover have "int (k * n + 1) + int (length es - k * n) - 1 = int (length es)" using le by simp
    ultimately show ?thesis
      using le by (auto simp: WithCountInfo_def Let_def min_def simp flip: show_int_nat)
  qed
  show ?thesis
    unfolding eventsIndexHandler_def events_index_page_def Let_def plain size cur prod.case
      cursor_clean(3) [OF clean le n(1)] sum.case load
    by (simp only: inactive simp_thms if_True if_False sum.case load cut prod.case sortEvents_def page_at_def
        Let_def count)
qed

lemma page_inactive: "page_params (page_at es n k) = []"
  by (simp add: page_params_def page_at_def combinedFilterSortParams_def Filter_ExtraParams_def Sort_extraParams_def
      Filter_Active_def Sort_Active_def filter_zero_def Let_def)

lemma link_query_of:
  assumes "CHR ''?'' \<notin> set basePath"
  shows "link_query (basePath @ ''/events'' @ ''?'' @ PaginationQuery a p (int n) []) = link_params a p n []"
proof -
  have "cut_at (CHR ''?'') ((basePath @ ''/events'') @ CHR ''?'' # PaginationQuery a p (int n) []) =
      (basePath @ ''/events'', PaginationQuery a p (int n) [])"
    using assms by (intro cut_at_append) auto
  then show ?thesis using PaginationQuery_read [of "[]" a p n] by (simp add: link_query_def)
qed

lemma next_link:
  assumes "CHR ''?'' \<notin> set basePath" and "k * n + n < length es"
  shows "link_query (nextPaginationHref basePath ''/events'' (ep_State (page_at es n k)) (page_params (page_at es n k)))
    = page_params_at es n (Suc k)"
  using assms(2) link_query_of [OF assms(1)] unfolding page_inactive
  by (simp add: nextPaginationHref_def page_at_def Let_def page_params_at_def)

lemma prev_link:
  assumes "CHR ''?'' \<notin> set basePath" and "clean_ids N es" and "k * n \<le> length es" and "0 < n"
  shows "link_query (prevPaginationHref basePath ''/events'' (ep_State (page_at es n (Suc k)))
      (page_params (page_at es n (Suc k)))) = page_params_at es n k"
  using link_query_of [OF assms(1)] history_pop [OF assms(2-4)] unfolding page_inactive
  by (simp add: prevPaginationHref_def page_at_def Let_def page_params_at_def del: page_history.simps)

lemma nth_page_at:
  assumes "clean_ids N es" and "reads cfg es" and "0 < n" and "n \<le> 200" and "CHR ''?'' \<notin> set basePath"
    and "k = 0 \<or> k * n < length es"
  shows "nth_page N cfg psize basePath n k = Some (page_at es n k)"
  using assms(6)
proof (induction k)
  case 0
  have "[(''limit'', show_nat n)] = page_params_at es n 0"
    by (simp add: page_params_at_def link_params_def page_cursor_def cursor_at_def)
  with page_shown [OF assms(1-4), of 0 psize] show ?case by (simp add: shown_page_def)
next
  case (Suc k)
  then have "k = 0 \<or> k * n < length es" and more: "k * n + n < length es" by auto
  with Suc.IH have "nth_page N cfg psize basePath n k = Some (page_at es n k)" by simp
  with next_link [OF assms(5) more] page_shown [OF assms(1-4) Suc.prems, of psize] show ?case
    by (simp add: follow_next_def shown_page_def)
qed

text \<open>C30. Browsing the event listing with the Next link, each request read from the query of the link before,
  page \<open>k\<close> shows the \<open>k\<close>-th run of \<open>n\<close> events of the journal: the pages together show every event once and in
  order, a Next link is offered exactly while events are left, the first row is numbered right, and the last
  page tells the exact total. The Previous link leads back to the page before.\<close>

theorem event_pages:
  assumes "clean_ids N es" and "reads cfg es" and "0 < n" and "n \<le> 200" and "CHR ''?'' \<notin> set basePath"
    and "k = 0 \<or> k * n < length es"
  shows "\<exists>p. nth_page N cfg psize basePath n k = Some p
    \<and> ep_Events p = take n (drop (k * n) es)
    \<and> (ps_HasNext (ep_State p) \<longleftrightarrow> Suc k * n < length es)
    \<and> (ps_HasPrev (ep_State p) \<longleftrightarrow> 0 < k)
    \<and> ps_PageStart (ep_State p) = int (k * n + 1)
    \<and> (\<not> ps_HasNext (ep_State p) \<and> es \<noteq> [] \<longrightarrow> ps_TotalCount (ep_State p) = show_nat (length es))
    \<and> (0 < k \<longrightarrow> follow_prev N cfg psize basePath p = nth_page N cfg psize basePath n (k - 1))"
proof -
  have le: "k * n \<le> length es" using assms(6) by auto
  have go_back: "follow_prev N cfg psize basePath (page_at es n k) = nth_page N cfg psize basePath n (k - 1)" if "0 < k"
  proof -
    from that obtain j where j: "k = Suc j" by (cases k) auto
    then have "j = 0 \<or> j * n < length es" "j * n \<le> length es" using le assms(3) by auto
    with page_shown [OF assms(1-4), of j psize] prev_link [OF assms(5,1) _ assms(3), of j]
      nth_page_at [OF assms(1-5), of j psize]
    show ?thesis by (simp add: j follow_prev_def shown_page_def)
  qed
  from nth_page_at [OF assms, of psize] go_back cursor_clean(2) [OF assms(1) le assms(3)] assms(6) show ?thesis
    by (auto simp: page_at_def Let_def add.commute)
qed

definition demo_dash_env :: dash_env where
  "demo_dash_env =
     \<lparr> dn_ParseEventID = Some, dn_ParseCommandID = Some, dn_ParseRequestID = Some, dn_ParseStreamID = Some,
       dn_ParseStreamType = Some, dn_rfc3339 = (\<lambda>t. show_int t) \<rparr>"

lemma event_pages_witness:
  "\<exists>p. nth_page demo_dash_env (memory demo_dash_journal) 50 ''/dashboard'' 2 1 = Some p
    \<and> ep_Events p = [demo_dash ''3'' ''a'' 20, demo_dash ''4'' ''a'' 30]
    \<and> \<not> ps_HasNext (ep_State p) \<and> ps_TotalCount (ep_State p) = show_nat 4"
proof -
  have clean: "clean_ids demo_dash_env demo_dash_journal"
    by (simp add: clean_ids_def demo_dash_good demo_dash_env_def) (simp add: demo_dash_journal_def demo_dash_def)
  have reads: "reads (memory demo_dash_journal) demo_dash_journal" by (simp add: reads_def memory_def)
  from event_pages [OF clean reads, of 2 "''/dashboard''" 1 50] obtain p where
    "nth_page demo_dash_env (memory demo_dash_journal) 50 ''/dashboard'' 2 1 = Some p"
    "ep_Events p = take 2 (drop (1 * 2) demo_dash_journal)"
    "ps_HasNext (ep_State p) \<longleftrightarrow> Suc 1 * 2 < length demo_dash_journal"
    "\<not> ps_HasNext (ep_State p) \<and> demo_dash_journal \<noteq> []
       \<longrightarrow> ps_TotalCount (ep_State p) = show_nat (length demo_dash_journal)"
    by (auto simp: demo_dash_journal_def)
  then show ?thesis by (auto simp: demo_dash_journal_def eval_nat_numeral)
qed

section \<open>Sorting\<close>

text \<open>The stable sort keeps the events, orders them and keeps the order of those the column does not tell apart.\<close>

lemma insert_stable_mset: "mset (insert_stable lt x ys) = add_mset x (mset ys)"
  by (induction ys) auto

lemma SliceStable_mset: "mset (SliceStable lt xs) = mset xs"
  by (induction xs) (simp_all add: SliceStable_def insert_stable_mset)

lemma insert_stable_keyed:
  "filter (\<lambda>y. key y = v) (insert_stable (\<lambda>a b. sort_less s (key a) (key b)) x ys) = filter (\<lambda>y. key y = v) (x # ys)"
  by (induction ys) (auto simp: sort_less_def)

lemma SliceStable_keeps_order:
  "filter (\<lambda>y. key y = v) (SliceStable (\<lambda>a b. sort_less s (key a) (key b)) xs) = filter (\<lambda>y. key y = v) xs"
  using insert_stable_keyed [of key v s] by (induction xs) (simp_all add: SliceStable_def)

lemma SliceStable_sorts:
  "sorted_wrt (\<lambda>a b. \<not> sort_less s (key b) (key a)) (SliceStable (\<lambda>a b. sort_less s (key a) (key b)) xs)"
proof -
  have set: "set (insert_stable lt x ys) = insert x (set ys)" for lt and x :: 'a and ys
    by (induction ys) auto
  have "sorted_wrt (\<lambda>a b. \<not> sort_less s (key b) (key a)) (insert_stable (\<lambda>a b. sort_less s (key a) (key b)) x ys)"
    if "sorted_wrt (\<lambda>a b. \<not> sort_less s (key b) (key a)) ys" for x ys
    using that by (induction ys) (auto simp: set sort_less_def split: if_splits)
  then show ?thesis by (induction xs) (simp_all add: SliceStable_def)
qed

lemma sortEvents_mset: "mset (sortEvents es s) = mset es"
  by (simp add: sortEvents_def SliceStable_mset)

end
