(* ===== verification/Dashboard_Audit.thy ===== *)
theory Dashboard_Audit
  imports Dashboard_Paging
begin

text \<open>
  The command and query audit of the dashboard (\<open>dashboardui/handlers_audit.go\<close>) with its exports, and the
  rendering of event payloads (\<open>dashboardui/core/payload.go\<close>, \<open>payloadBytes\<close> of \<open>detail_items.go\<close>). The two
  journals have twin handlers in the code; the parts they share are the generic definitions here.
\<close>

section \<open>Journals\<close>

record PersistedQuery =
  pi_ID :: string
  pi_Type :: string
  pi_ReceivedAt :: time

record PersistedCommand = PersistedQuery +
  pc_StreamType :: string
  pc_StreamID :: string

text \<open>A journal is seekable, or offers all its items only.\<close>

datatype 'i audit_journal = SeekableJournal "'i read_from" | PlainJournal "err + 'i list"

definition itemsAfter :: "('i \<Rightarrow> string) \<Rightarrow> 'i list \<Rightarrow> string \<Rightarrow> 'i list" where
  "itemsAfter idOf items cursor =
     (if cursor = [] then items
      else case index_of (\<lambda>item. idOf item = cursor) items of None \<Rightarrow> items | Some i \<Rightarrow> drop (Suc i) items)"

definition commandsAfter :: "PersistedCommand list \<Rightarrow> string \<Rightarrow> PersistedCommand list" where
  "commandsAfter = itemsAfter pi_ID"

definition queriesAfter :: "PersistedQuery list \<Rightarrow> string \<Rightarrow> PersistedQuery list" where
  "queriesAfter = itemsAfter pi_ID"

definition exportBatch :: nat where "exportBatch = 500"

text \<open>The walk over the whole journal. The texts of the errors are those of the twin.\<close>

definition loadAll ::
  "('i \<Rightarrow> string) \<Rightarrow> string \<Rightarrow> string \<Rightarrow> 'i audit_journal \<Rightarrow> (err + 'i list) option" where
  "loadAll idOf plural singular journal =
     (case journal of
        PlainJournal ReadAll \<Rightarrow>
          Some (map_err (infra (''dashboardui.audit.'' @ plural @ ''_read_all_failed'')
            (''read '' @ singular @ '' journal for export'') []) ReadAll)
      | SeekableJournal ReadFrom \<Rightarrow>
          map_option (\<lambda>r. case r of
              ScanFailed e \<Rightarrow> Inl (infra (''dashboardui.audit.'' @ plural @ ''_read_failed'')
                (''read '' @ singular @ '' journal for export'') [(''batch_size'', ''500'')] e)
            | ScanStalled \<Rightarrow> Inl (new_error Infrastructure (''dashboardui.audit.'' @ plural @ ''_cursor_stalled'')
                (singular @ '' journal cursor did not advance while paging the export''))
            | ScanFound u \<Rightarrow> u
            | ScanDone items \<Rightarrow> Inr items)
            (scan_journal exportBatch idOf ReadFrom (\<lambda>all batch. Inr (all @ batch)) [] []))"

definition loadAllCommands :: "PersistedCommand audit_journal \<Rightarrow> (err + PersistedCommand list) option" where
  "loadAllCommands = loadAll pi_ID ''commands'' ''command''"

definition loadAllQueries :: "PersistedQuery audit_journal \<Rightarrow> (err + PersistedQuery list) option" where
  "loadAllQueries = loadAll pi_ID ''queries'' ''query''"

text \<open>A page of the listing. The handlers cut it and take the cursor from the last item shown.\<close>

record 'i audit_page =
  ap_Items :: "'i list"
  ap_State :: PageState

definition load_page :: "('i \<Rightarrow> string) \<Rightarrow> 'i audit_journal \<Rightarrow> string \<Rightarrow> int \<Rightarrow> err + 'i list" where
  "load_page idOf journal cursor pageSize =
     (case journal of
        SeekableJournal ReadFrom \<Rightarrow> ReadFrom cursor (pageSize + 1)
      | PlainJournal ReadAll \<Rightarrow> map_sum id (\<lambda>items. itemsAfter idOf items cursor) ReadAll)"

definition audit_state :: "('i \<Rightarrow> string) \<Rightarrow> 'i list \<Rightarrow> int \<Rightarrow> query \<Rightarrow> 'i audit_page" where
  "audit_state idOf loaded pageSize q =
     (let (afterCursor, prevHistory, hasPrev) = ParseCursorParams q;
          hasNext = (int (length loaded) > pageSize);
          items = (if hasNext then take (nat pageSize) loaded else loaded);
          nextCursor = (if hasNext \<and> items \<noteq> [] then idOf (last items) else [])
      in \<lparr> ap_Items = items,
           ap_State = WithCountInfo
             \<lparr> ps_HasNext = hasNext, ps_NextCursor = nextCursor, ps_PageSize = pageSize, ps_HasPrev = hasPrev,
               ps_After = afterCursor, ps_PrevHistory = prevHistory, ps_TotalCount = [], ps_PageStart = 0,
               ps_PageLen = 0 \<rparr> (length items) \<rparr>)"

definition command_export_row :: "dash_env \<Rightarrow> PersistedCommand \<Rightarrow> string list" where
  "command_export_row N cmd =
     [pi_ID cmd, pi_Type cmd, pc_StreamType cmd, pc_StreamID cmd, dn_rfc3339 N (pi_ReceivedAt cmd)]"

definition exportCommandsCSV :: "dash_env \<Rightarrow> PersistedCommand list \<Rightarrow> 'p answer" where
  "exportCommandsCSV N cmds =
     writeCSV ''commands.csv'' [''Command ID'', ''Type'', ''Stream Type'', ''Stream ID'', ''Received At'']
       (map (command_export_row N) cmds)"

definition exportCommandsJSON :: "dash_env \<Rightarrow> PersistedCommand list \<Rightarrow> 'p answer" where
  "exportCommandsJSON N cmds =
     WriteJSON [''commandId'', ''type'', ''streamType'', ''streamId'', ''receivedAt'']
       (map (command_export_row N) cmds)"

definition query_export_row :: "dash_env \<Rightarrow> PersistedQuery \<Rightarrow> string list" where
  "query_export_row N qry = [pi_ID qry, pi_Type qry, dn_rfc3339 N (pi_ReceivedAt qry)]"

definition exportQueriesCSV :: "dash_env \<Rightarrow> PersistedQuery list \<Rightarrow> 'p answer" where
  "exportQueriesCSV N queries =
     writeCSV ''queries.csv'' [''Request ID'', ''Type'', ''Received At''] (map (query_export_row N) queries)"

definition exportQueriesJSON :: "dash_env \<Rightarrow> PersistedQuery list \<Rightarrow> 'p answer" where
  "exportQueriesJSON N queries =
     WriteJSON [''requestId'', ''type'', ''receivedAt''] (map (query_export_row N) queries)"

definition commandsIndexHandler ::
  "dash_env \<Rightarrow> PersistedCommand audit_journal option \<Rightarrow> int \<Rightarrow> query \<Rightarrow> PersistedCommand audit_page answer option" where
  "commandsIndexHandler N CommandJournal configPageSize q =
     (let format = parseFormat q in
      if format \<noteq> formatHTML then
        (case CommandJournal of
           None \<Rightarrow> Some (RenderError 500 ''no command journal configured'')
         | Some journal \<Rightarrow>
             map_option (\<lambda>r. case r of
                 Inl e \<Rightarrow> RenderError 500 ''failed to load commands for export''
               | Inr cmds \<Rightarrow> if format = formatCSV then exportCommandsCSV N cmds else exportCommandsJSON N cmds)
               (loadAllCommands journal))
      else
        (let pageSize = ParsePageSize q configPageSize; (afterCursor, _, _) = ParseCursorParams q in
         Some (case parseAfterCursor (dn_ParseCommandID N) afterCursor of
             Inl answer \<Rightarrow> answer
           | Inr cursor \<Rightarrow>
               (case CommandJournal of
                  None \<Rightarrow> RenderPage (audit_state pi_ID [] pageSize q)
                | Some journal \<Rightarrow>
                    (case load_page pi_ID journal cursor pageSize of
                       Inl e \<Rightarrow> RenderError 500 ''failed to load commands''
                     | Inr cmds \<Rightarrow> RenderPage (audit_state pi_ID cmds pageSize q))))))"

definition queriesIndexHandler ::
  "dash_env \<Rightarrow> PersistedQuery audit_journal option \<Rightarrow> int \<Rightarrow> query \<Rightarrow> PersistedQuery audit_page answer option" where
  "queriesIndexHandler N QueryJournal configPageSize q =
     (let format = parseFormat q in
      if format \<noteq> formatHTML then
        (case QueryJournal of
           None \<Rightarrow> Some (RenderError 500 ''no query journal configured'')
         | Some journal \<Rightarrow>
             map_option (\<lambda>r. case r of
                 Inl e \<Rightarrow> RenderError 500 ''failed to load queries for export''
               | Inr qs \<Rightarrow> if format = formatCSV then exportQueriesCSV N qs else exportQueriesJSON N qs)
               (loadAllQueries journal))
      else
        (let pageSize = ParsePageSize q configPageSize; (afterCursor, _, _) = ParseCursorParams q in
         Some (case parseAfterCursor (dn_ParseRequestID N) afterCursor of
             Inl answer \<Rightarrow> answer
           | Inr cursor \<Rightarrow>
               (case QueryJournal of
                  None \<Rightarrow> RenderPage (audit_state pi_ID [] pageSize q)
                | Some journal \<Rightarrow>
                    (case load_page pi_ID journal cursor pageSize of
                       Inl e \<Rightarrow> RenderError 500 ''failed to load queries''
                     | Inr qs \<Rightarrow> RenderPage (audit_state pi_ID qs pageSize q))))))"

section \<open>One item\<close>

definition scanLimit :: nat where "scanLimit = 5000"

text \<open>The scan for one item. Nothing stops it while the pages are full: a cursor that does not parse is read
  as the start of the journal, and one that does not move is used again.\<close>

partial_function (option) scanJournalByID ::
  "'i read_from \<Rightarrow> (string \<Rightarrow> string option) \<Rightarrow> ('i \<Rightarrow> string) \<Rightarrow> string \<Rightarrow> err \<Rightarrow> (err \<Rightarrow> err) \<Rightarrow> string
   \<Rightarrow> (err + 'i) option" where
  "scanJournalByID ReadFrom parse idOf targetID notFound failed cursor =
     (case ReadFrom (case parse cursor of None \<Rightarrow> [] | Some c \<Rightarrow> c) (int scanLimit) of
        Inl e \<Rightarrow> Some (Inl (failed e))
      | Inr batch \<Rightarrow>
          (case find (\<lambda>item. idOf item = targetID) batch of
             Some item \<Rightarrow> Some (Inr item)
           | None \<Rightarrow>
               if length batch < scanLimit then Some (Inl notFound)
               else scanJournalByID ReadFrom parse idOf targetID notFound failed (idOf (last batch))))"

definition findInAll :: "(err + 'i list) \<Rightarrow> ('i \<Rightarrow> string) \<Rightarrow> string \<Rightarrow> err \<Rightarrow> (err \<Rightarrow> err) \<Rightarrow> err + 'i" where
  "findInAll ReadAll idOf targetID notFound failed =
     (case ReadAll of
        Inl e \<Rightarrow> Inl (failed e)
      | Inr all \<Rightarrow>
          (case find (\<lambda>item. idOf item = targetID) all of Some item \<Rightarrow> Inr item | None \<Rightarrow> Inl notFound))"

definition detail_not_found :: "string \<Rightarrow> string \<Rightarrow> err" where
  "detail_not_found what targetID =
     Fam Rejection ''dashboardui.detail.not_found'' (what @ '' '' @ targetID @ '' not found'') 0
       [(''target_id'', targetID)] None"

definition loadByID ::
  "(string \<Rightarrow> string option) \<Rightarrow> ('i \<Rightarrow> string) \<Rightarrow> string \<Rightarrow> 'i audit_journal \<Rightarrow> string \<Rightarrow> (err + 'i) option" where
  "loadByID parse idOf what journal targetID =
     (let notFound = detail_not_found what targetID; ctx = [(''target_id'', targetID)] in
      case journal of
        SeekableJournal ReadFrom \<Rightarrow>
          scanJournalByID ReadFrom parse idOf targetID notFound
            (infra (''dashboardui.'' @ what @ ''_detail.scan_failed'') (''scan '' @ what @ '' journal'') ctx) []
      | PlainJournal ReadAll \<Rightarrow>
          Some (findInAll ReadAll idOf targetID notFound
            (infra (''dashboardui.'' @ what @ ''_detail.read_failed'') (''read '' @ what @ '' journal'') ctx)))"

definition loadCommandByID :: "dash_env \<Rightarrow> PersistedCommand audit_journal \<Rightarrow> string \<Rightarrow> (err + PersistedCommand) option" where
  "loadCommandByID N = loadByID (dn_ParseCommandID N) pi_ID ''command''"

definition loadQueryByID :: "dash_env \<Rightarrow> PersistedQuery audit_journal \<Rightarrow> string \<Rightarrow> (err + PersistedQuery) option" where
  "loadQueryByID N = loadByID (dn_ParseRequestID N) pi_ID ''query''"

text \<open>\<open>renderLoadError\<close>: a rejection means that there is no such item.\<close>

definition renderLoadError :: "err_env \<Rightarrow> string \<Rightarrow> err \<Rightarrow> 'p answer" where
  "renderLoadError E what e =
     (if classify E e = Rejection then RenderError 404 (what @ '' not found'')
      else RenderError 500 (''failed to load '' @ what))"

definition commandDetailHandler ::
  "err_env \<Rightarrow> dash_env \<Rightarrow> PersistedCommand audit_journal \<Rightarrow> string \<Rightarrow> PersistedCommand answer option" where
  "commandDetailHandler E N journal pathID =
     (case dn_ParseCommandID N pathID of
        None \<Rightarrow> Some (RenderError 400 ''invalid command ID'')
      | Some cmdID \<Rightarrow>
          map_option (\<lambda>r. case r of Inl e \<Rightarrow> renderLoadError E ''command'' e | Inr cmd \<Rightarrow> RenderPage cmd)
            (loadCommandByID N journal cmdID))"

definition queryDetailHandler ::
  "err_env \<Rightarrow> dash_env \<Rightarrow> PersistedQuery audit_journal \<Rightarrow> string \<Rightarrow> PersistedQuery answer option" where
  "queryDetailHandler E N journal pathID =
     (case dn_ParseRequestID N pathID of
        None \<Rightarrow> Some (RenderError 400 ''invalid query ID'')
      | Some queryID \<Rightarrow>
          map_option (\<lambda>r. case r of Inl e \<Rightarrow> renderLoadError E ''query'' e | Inr q \<Rightarrow> RenderPage q)
            (loadQueryByID N journal queryID))"

section \<open>What the exports and the details answer\<close>

definition audits :: "('i \<Rightarrow> string) \<Rightarrow> 'i audit_journal \<Rightarrow> 'i list \<Rightarrow> bool" where
  "audits idOf journal items \<longleftrightarrow>
     (case journal of
        SeekableJournal ReadFrom \<Rightarrow> seekable idOf ReadFrom items
      | PlainJournal ReadAll \<Rightarrow> ReadAll = Inr items)"

text \<open>An export is the complete audit trail, in order, whatever the pages.\<close>

theorem loadAll_complete:
  fixes journal :: "'i audit_journal"
  assumes "good_ids idOf items" and "audits idOf journal items"
  shows "loadAll idOf plural singular journal = Some (Inr items)"
proof (cases journal)
  case (SeekableJournal R)
  with assms(2) have R: "seekable idOf R items" by (simp add: audits_def)
  have "scan_journal exportBatch idOf R (\<lambda>all batch. Inr (all @ batch) :: (err + 'i list) + 'i list) [] [] = Some (ScanDone items)"
    using seekable.scan_all [OF R assms(1), of exportBatch "(@)" "[]"] by (simp add: exportBatch_def)
  then show ?thesis by (simp add: loadAll_def SeekableJournal)
next
  case (PlainJournal r)
  with assms(2) show ?thesis by (simp add: audits_def loadAll_def)
qed

text \<open>A detail page finds the item wherever it stands, when the cursors parse.\<close>

lemma scan_by_id_from:
  assumes "seekable idOf R items" and "good_ids idOf items"
    and "\<And>item. item \<in> set items \<Longrightarrow> parse (idOf item) = Some (idOf item)" and "k \<le> length items"
    and "k = 0 \<longrightarrow> (case parse [] of None \<Rightarrow> [] | Some c \<Rightarrow> c) = []"
  shows "scanJournalByID R parse idOf targetID notFound failed (cursor_at idOf items k) =
    Some (case find (\<lambda>item. idOf item = targetID) (drop k items) of Some item \<Rightarrow> Inr item | None \<Rightarrow> Inl notFound)"
  using assms(4,5)
proof (induction "length items - k" arbitrary: k rule: less_induct)
  case less
  have pos: "0 < scanLimit" by (simp add: scanLimit_def)
  have cur: "(case parse (cursor_at idOf items k) of None \<Rightarrow> [] | Some c \<Rightarrow> c) = cursor_at idOf items k"
    using assms(3) [of "items ! (k - 1)"] less.prems by (auto simp: cursor_at_def)
  from assms(1,2) less.prems(1) pos show ?case
  proof (cases rule: seekable.page [consumes 4, case_names short full])
    case short
    then show ?thesis by (subst scanJournalByID.simps) (simp add: cur split: option.splits)
  next
    case full
    have split: "drop k items = take scanLimit (drop k items) @ drop (k + scanLimit) items"
      by (metis append_take_drop_id drop_drop add.commute)
    have "find p (drop k items) = (case find p (take scanLimit (drop k items)) of Some x \<Rightarrow> Some x
        | None \<Rightarrow> find p (drop (k + scanLimit) items))" for p
      by (subst split) (rule find_parts)
    moreover have "scanJournalByID R parse idOf targetID notFound failed (cursor_at idOf items (k + scanLimit)) =
        Some (case find (\<lambda>item. idOf item = targetID) (drop (k + scanLimit) items) of
          Some item \<Rightarrow> Inr item | None \<Rightarrow> Inl notFound)"
      using full(2) pos by (intro less.hyps) auto
    ultimately show ?thesis
      using full(1,3,5) by (subst scanJournalByID.simps) (simp add: cur split: option.splits)
  qed
qed

theorem detail_found:
  assumes "good_ids idOf items" and "audits idOf journal items"
    and "\<And>item. item \<in> set items \<Longrightarrow> parse (idOf item) = Some (idOf item)"
    and "(case parse [] of None \<Rightarrow> [] | Some c \<Rightarrow> c) = []"
  shows "loadByID parse idOf what journal targetID =
    Some (case find (\<lambda>item. idOf item = targetID) items of
      Some item \<Rightarrow> Inr item | None \<Rightarrow> Inl (detail_not_found what targetID))"
proof (cases journal)
  case (SeekableJournal R)
  with assms(2) have "seekable idOf R items" by (simp add: audits_def)
  from scan_by_id_from [OF this assms(1,3), of 0] assms(4) show ?thesis
    by (simp add: loadByID_def SeekableJournal cursor_at_def Let_def)
next
  case (PlainJournal r)
  with assms(2) show ?thesis by (simp add: audits_def loadByID_def findInAll_def Let_def split: option.splits)
qed

text \<open>The other scans stop when the cursor does not move. This one does not: on a journal that answers the same
  full page again the request is never answered.\<close>

theorem scan_by_id_hangs:
  assumes "\<And>cursor. ReadFrom cursor (int scanLimit) = Inr batch" and "length batch = scanLimit"
    and "\<forall>item\<in>set batch. idOf item \<noteq> targetID"
  shows "scanJournalByID ReadFrom parse idOf targetID notFound failed cursor = None"
proof -
  have none: "find (\<lambda>item. idOf item = targetID) batch = None"
    using assms(3) by (simp add: find_None_iff)
  have "R = ReadFrom \<longrightarrow> i = idOf \<longrightarrow> t = targetID \<longrightarrow> False"
    if "scanJournalByID R p i t n f c = Some y" for R p i t n f c y
  proof (rule scanJournalByID.raw_induct [OF _ that], goal_cases)
    case (1 rec R p i t n f c y)
    show ?case
    proof (intro impI)
      assume eqs: "R = ReadFrom" "i = idOf" "t = targetID"
      from 1(2) eqs assms(1,2) none have "rec ReadFrom p idOf targetID n f (idOf (last batch)) = Some y" by simp
      from 1(1) [OF this] show False by simp
    qed
  qed
  then have "scanJournalByID ReadFrom parse idOf targetID notFound failed cursor \<noteq> Some y" for y by blast
  then show ?thesis by (cases "scanJournalByID ReadFrom parse idOf targetID notFound failed cursor") auto
qed

section \<open>Payloads\<close>

text \<open>A renderer answers bytes, or the nil slice, or an error. The codec library decodes into whatever a payload is
  and prints it.\<close>

type_synonym payloadRenderFunc = "bytes \<Rightarrow> string \<Rightarrow> err + bytes option"
type_synonym payload_types = "(string, payloadRenderFunc) gomap"

record 'v codec_env =
  ce_JSON :: string
  ce_CBOR :: string
  ce_Raw :: string
  ce_decode_json :: "bytes \<Rightarrow> err + 'v"
  ce_decode_cbor :: "bytes \<Rightarrow> err + 'v"
  ce_print :: "'v \<Rightarrow> err + bytes"
  ce_Diagnose :: "bytes \<Rightarrow> err + bytes"

definition Registry_Render :: "payload_types option \<Rightarrow> string \<Rightarrow> bytes \<Rightarrow> string \<Rightarrow> bytes option" where
  "Registry_Render reg evtType payload encoding =
     (case reg of
        None \<Rightarrow> None
      | Some entries \<Rightarrow>
          (case map_get entries evtType of
             None \<Rightarrow> None
           | Some fn \<Rightarrow> (case fn payload encoding of Inr (Some out) \<Rightarrow> Some out | _ \<Rightarrow> None)))"

text \<open>\<open>RenderTyped\<close> of the consumer works on the decoded payload.\<close>

definition typedRender :: "'v codec_env \<Rightarrow> ('v \<Rightarrow> string \<Rightarrow> err + bytes option) \<Rightarrow> payloadRenderFunc" where
  "typedRender C RenderTyped payload encoding =
     (let failed = (\<lambda>msg e. Fam Corruption ''dashboardui.payload.typed_decode_failed'' msg 0 [] (Some e)) in
      if encoding = ce_JSON C \<or> encoding = [] then
        on_ok (map_err (failed ''decode JSON payload into registered type'') (ce_decode_json C payload))
          (\<lambda>p. RenderTyped p encoding)
      else if encoding = ce_CBOR C then
        on_ok (map_err (failed ''decode CBOR payload into registered type'') (ce_decode_cbor C payload))
          (\<lambda>p. RenderTyped p encoding)
      else if encoding = ce_Raw C then
        Inl (new_error Corruption ''dashboardui.payload.typed_encoding_unsupported''
          ''no typed decode for raw payload encoding'')
      else Inl (new_error Corruption ''dashboardui.payload.typed_encoding_unsupported''
        ''no typed decode for payload encoding''))"

definition RegisterPayloadTypeIn ::
  "'v codec_env \<Rightarrow> payload_types \<Rightarrow> string \<Rightarrow> ('v \<Rightarrow> string \<Rightarrow> err + bytes option) \<Rightarrow> payload_types" where
  "RegisterPayloadTypeIn C reg evtType r = map_put evtType (typedRender C r) reg"

definition diagnoseFallback :: "'v codec_env \<Rightarrow> bytes \<Rightarrow> bytes option" where
  "diagnoseFallback C payload =
     (case ce_Diagnose C payload of Inr diag \<Rightarrow> if diag = [] then None else Some diag | Inl e \<Rightarrow> None)"

definition DefaultPayloadRenderer_Render :: "'v codec_env \<Rightarrow> payloadRenderFunc" where
  "DefaultPayloadRenderer_Render C payload encoding =
     (let pretty = (\<lambda>raw. map_sum
              (\<lambda>e. infra ''dashboardui.payload.pretty_print_failed'' ''pretty-print payload'' [] e) Some (ce_print C raw));
          degraded = (\<lambda>code msg e. case diagnoseFallback C payload of
              Some out \<Rightarrow> Inr (Some out) | None \<Rightarrow> Inl (Fam Corruption code msg 0 [] (Some e))) in
      if payload = [] then Inr (Some ''{}'')
      else if encoding = ce_JSON C \<or> encoding = [] then
        (case ce_decode_json C payload of
           Inl e \<Rightarrow> degraded ''dashboardui.payload.json_decode_failed'' ''decode JSON payload'' e
         | Inr raw \<Rightarrow> pretty raw)
      else if encoding = ce_CBOR C then
        (case ce_decode_cbor C payload of
           Inl e \<Rightarrow> degraded ''dashboardui.payload.cbor_decode_failed'' ''decode CBOR payload'' e
         | Inr raw \<Rightarrow> pretty raw)
      else Inr (Some payload))"

text \<open>The package registry is an argument: it is process-global state.\<close>

definition RenderPayload :: "payload_types \<Rightarrow> payloadRenderFunc \<Rightarrow> dash_event \<Rightarrow> bytes" where
  "RenderPayload defaultPayloadTypes Render evt =
     (case Registry_Render (Some defaultPayloadTypes) (je_Type evt) (je_Payload evt) (je_Encoding evt) of
        Some out \<Rightarrow> out
      | None \<Rightarrow>
          (case Render (je_Payload evt) (je_Encoding evt) of Inr (Some out) \<Rightarrow> out | _ \<Rightarrow> je_Payload evt))"

definition payloadBytes :: "payload_types \<Rightarrow> payload_types option \<Rightarrow> payloadRenderFunc \<Rightarrow> dash_event \<Rightarrow> bytes" where
  "payloadBytes defaultPayloadTypes PayloadTypes Render evt =
     (case Registry_Render PayloadTypes (je_Type evt) (je_Payload evt) (je_Encoding evt) of
        Some out \<Rightarrow> out | None \<Rightarrow> RenderPayload defaultPayloadTypes Render evt)"

text \<open>An explicit registry cannot hide the package registry: what is registered there still renders the types the
  explicit one has no renderer for.\<close>

theorem package_registry_not_hidden:
  assumes "Registry_Render (Some defaults) (je_Type evt) (je_Payload evt) (je_Encoding evt) = Some out"
  shows "payloadBytes defaults (Some []) Render evt = out"
  using assms by (simp add: payloadBytes_def RenderPayload_def Registry_Render_def)

end
