(* ===== verification/Dashboard_Panels.thy ===== *)
theory Dashboard_Panels
  imports Dashboard_Audit Expiry
begin

text \<open>
  The other panels of the dashboard: overview and projection health (\<open>dashboardui/core/overview.go\<close>), dead
  letters (\<open>core/dlq.go\<close>), aggregates and time travel, snapshots, throughput, command fates, telemetry and
  the probes (\<open>dashboardui/handlers_*.go\<close>), as functions of what the configured interfaces answer.
\<close>

section \<open>What the interfaces answer\<close>

text \<open>A nil interface is \<open>None\<close>. The values of the libraries have the fields that are read.\<close>

type_synonym stream_ref = "string \<times> string"

record event_source =
  es_Load :: "stream_ref \<Rightarrow> err + dash_event list"
  es_LoadToVersion :: "stream_ref \<Rightarrow> nat \<Rightarrow> err + dash_event list"

record stream_listing =
  sl_Type :: string
  sl_ID :: string

record stream_page =
  sp_Items :: "stream_listing list"
  sp_HasMore :: bool

record worker_state =
  ws_Name :: string
  ws_Status :: string
  ws_Processed :: int
  ws_Errors :: int
  ws_Restarts :: int
  ws_Checkpoint :: string
  ws_LastError :: string

record projection_host =
  ph_Status :: "worker_state list"
  ph_LagPerProjection :: "(string, duration) gomap"

record dead_letter =
  dl_EventID :: string
  dl_EventType :: string
  dl_StreamID :: string
  dl_Event :: "dash_event option"

record snapshot =
  sn_Ref :: stream_ref
  sn_Version :: nat
  sn_State :: bytes

record InstanceView =
  iv_Name :: string
  iv_Role :: string
  iv_EngineName :: string
  iv_DriverName :: string
  iv_Durability :: string
  iv_HealthStatus :: string
  iv_Collections :: "string list"

record BusView =
  bv_Name :: string
  bv_Driver :: string
  bv_Mode :: string

record ProjectionHostView =
  hv_Started :: bool
  hv_Workers :: int

record TopologyView =
  tv_Instances :: "InstanceView list"
  tv_Buses :: "BusView list"
  tv_ProjectionHost :: "ProjectionHostView option"

record EngineHealthView =
  hv_Name :: string
  hv_Healthy :: bool
  hv_Error :: string

text \<open>A latency estimate is kept as the rendered number.\<close>

record PlacementView =
  pv_Query :: string
  pv_Engine :: string
  pv_ADT :: string
  pv_Volume :: int
  pv_EstLatencyMs :: string

record EngineStatsView =
  ev_Name :: string
  ev_HasRTT :: bool
  ev_Samples :: int
  ev_EWMA :: duration
  ev_P95 :: duration
  ev_LastSample :: "time option"

definition Stale :: "time \<Rightarrow> EngineStatsView \<Rightarrow> duration \<Rightarrow> bool" where
  "Stale now v threshold =
     (case ev_LastSample v of None \<Rightarrow> True | Some sample \<Rightarrow> now - sample > threshold)"

record dash_sources = dash_config +
  ds_EventSource :: "event_source option"
  ds_StreamReader :: "(nat \<Rightarrow> string \<Rightarrow> err + stream_page option) option"
  ds_ProjectionHost :: "projection_host option"
  ds_DeadLetterStore :: "(string \<Rightarrow> err + dead_letter list) option"
  ds_CommandJournal :: "PersistedCommand audit_journal option"
  ds_QueryJournal :: "PersistedQuery audit_journal option"
  ds_SnapshotStore :: "(stream_ref \<Rightarrow> err + snapshot option) option"
  ds_EventBus :: bool
  ds_Topology :: "(err + TopologyView) option"
  ds_EngineHealths :: "EngineHealthView list option"
  ds_Placements :: "(err + PlacementView list) option"
  ds_EngineStats :: "EngineStatsView list option"

abbreviation coreConfig :: "dash_sources \<Rightarrow> dash_config" where
  "coreConfig \<equiv> dash_config.truncate"

section \<open>Capabilities\<close>

record Capabilities =
  cap_EventSource :: bool
  cap_EventByIDLoader :: bool
  cap_Journal :: bool
  cap_SeekableJournal :: bool
  cap_StreamReader :: bool
  cap_ProjectionHost :: bool
  cap_DeadLetterStore :: bool
  cap_CommandJournal :: bool
  cap_QueryJournal :: bool
  cap_SnapshotStore :: bool
  cap_EventBus :: bool
  cap_Telemetry :: bool

definition DetectCapabilities :: "dash_sources \<Rightarrow> Capabilities" where
  "DetectCapabilities s =
     \<lparr> cap_EventSource = (ds_EventSource s \<noteq> None), cap_EventByIDLoader = (dc_EventByIDLoader s \<noteq> None),
       cap_Journal = (dc_Journal s \<noteq> None), cap_SeekableJournal = (dc_SeekableJournal s \<noteq> None),
       cap_StreamReader = (ds_StreamReader s \<noteq> None), cap_ProjectionHost = (ds_ProjectionHost s \<noteq> None),
       cap_DeadLetterStore = (ds_DeadLetterStore s \<noteq> None), cap_CommandJournal = (ds_CommandJournal s \<noteq> None),
       cap_QueryJournal = (ds_QueryJournal s \<noteq> None), cap_SnapshotStore = (ds_SnapshotStore s \<noteq> None),
       cap_EventBus = ds_EventBus s,
       cap_Telemetry = (ds_Topology s \<noteq> None \<or> ds_EngineHealths s \<noteq> None \<or> ds_Placements s \<noteq> None
         \<or> ds_EngineStats s \<noteq> None) \<rparr>"

definition HasEventRead :: "Capabilities \<Rightarrow> bool" where
  "HasEventRead c \<longleftrightarrow> cap_Journal c \<or> cap_SeekableJournal c"

section \<open>Projection health\<close>

definition StatusGood :: string where "StatusGood = ''good''"
definition StatusWarn :: string where "StatusWarn = ''warn''"
definition StatusBad :: string where "StatusBad = ''bad''"
definition StatusNeutral :: string where "StatusNeutral = ''neutral''"

definition ProjectionStatusKind :: "(string \<Rightarrow> string) \<Rightarrow> string \<Rightarrow> string" where
  "ProjectionStatusKind unicode_lower status =
     (let s = ToLower unicode_lower status in
      if s \<in> {''running'', ''live'', ''stopped''} then StatusGood
      else if s \<in> {''idle'', ''backoff'', ''draining''} then StatusWarn
      else if s = ''failed'' then StatusBad else StatusNeutral)"

record ProjectionStat =
  pt_Name :: string
  pt_Status :: string
  pt_Lag :: string
  pt_Processed :: int
  pt_Errors :: int
  pt_StatusKind :: string
  pt_Restarts :: int
  pt_Checkpoint :: string
  pt_LastError :: string

text \<open>The rest of what the panels take from libraries: the case mapping and the texts of durations and times, what
  \<open>errors.Is\<close> says of the missing snapshot, and the codecs.\<close>

record panel_env = dash_env +
  pe_unicode_lower :: "string \<Rightarrow> string"
  pe_duration_text :: "duration \<Rightarrow> string"
  pe_bucket_label :: "bool \<Rightarrow> time \<Rightarrow> string"
  pe_errors :: err_env
  pe_is_snapshot_missing :: "err \<Rightarrow> bool"
  pe_lifecycle :: lifecycle_env
  pe_json :: string
  pe_defaultPayloadTypes :: payload_types
  pe_PayloadTypes :: "payload_types option"
  pe_PayloadRenderer :: payloadRenderFunc

definition ProjectionStats :: "panel_env \<Rightarrow> projection_host option \<Rightarrow> ProjectionStat list" where
  "ProjectionStats N host =
     (case host of
        None \<Rightarrow> []
      | Some h \<Rightarrow>
          map (\<lambda>ws. \<lparr> pt_Name = ws_Name ws, pt_Status = ws_Status ws,
                 pt_Lag = pe_duration_text N
                   (case map_get (ph_LagPerProjection h) (ws_Name ws) of None \<Rightarrow> 0 | Some d \<Rightarrow> d),
                 pt_Processed = ws_Processed ws, pt_Errors = ws_Errors ws,
                 pt_StatusKind = ProjectionStatusKind (pe_unicode_lower N) (ws_Status ws),
                 pt_Restarts = ws_Restarts ws, pt_Checkpoint = ws_Checkpoint ws, pt_LastError = ws_LastError ws \<rparr>)
            (ph_Status h))"

definition classifyProjectionHealth :: "ProjectionStat list \<Rightarrow> string \<times> string \<times> string" where
  "classifyProjectionHealth projs =
     (let totalErrors = (\<Sum>pr\<leftarrow>projs. pt_Errors pr);
          dlqCount = (if totalErrors > 0 then show_int totalErrors else []) in
      if \<exists>pr\<in>set projs. pt_StatusKind pr = StatusBad then (dlqCount, ''Unhealthy'', StatusBad)
      else if \<exists>pr\<in>set projs. pt_StatusKind pr = StatusWarn then (dlqCount, ''Degraded'', StatusWarn)
      else if projs \<noteq> [] then (dlqCount, ''Healthy'', StatusGood)
      else ([], [], []))"

section \<open>Overview\<close>

definition RecentEventsLimit :: nat where "RecentEventsLimit = 5"

record RecentEvent =
  re_Time :: string
  re_Type :: string
  re_StreamID :: string
  re_StreamType :: string
  re_Version :: string
  re_EventID :: string
  re_OccurredAt :: time

definition recentEventsFrom :: "dash_env \<Rightarrow> dash_event list \<Rightarrow> RecentEvent list" where
  "recentEventsFrom N events =
     map (\<lambda>evt. \<lparr> re_Time = dn_rfc3339 N (de_Time evt), re_Type = je_Type evt, re_StreamID = je_StreamID evt,
            re_StreamType = je_StreamType evt, re_Version = show_nat (unat (je_Version evt)),
            re_EventID = je_ID evt, re_OccurredAt = de_Time evt \<rparr>)
       (rev (drop (length events - min (length events) RecentEventsLimit) events))"

record HubHealth =
  hh_Subscribers :: int
  hh_BufferSize :: int
  hh_Closed :: bool
  hh_Draining :: bool
  hh_Drops :: int

record Overview =
  ov_TotalAggregates :: string
  ov_TotalEvents :: string
  ov_Projections :: "ProjectionStat list"
  ov_DLQCount :: string
  ov_RecentEvents :: "RecentEvent list"
  ov_HealthStatus :: string
  ov_HealthKind :: string
  ov_SSEHub :: "HubHealth option"

definition FetchOverview :: "panel_env \<Rightarrow> dash_sources \<Rightarrow> int \<Rightarrow> Overview option" where
  "FetchOverview N s pageSize =
     (let aggregates =
        (case ds_StreamReader s of
           None \<Rightarrow> ''0''
         | Some List \<Rightarrow>
             (case List (nat pageSize) [] of
                Inr (Some page) \<Rightarrow> show_nat (length (sp_Items page)) @ (if sp_HasMore page then ''+'' else [])
              | _ \<Rightarrow> ''0''));
          projections = ProjectionStats N (ds_ProjectionHost s);
          (dlqCount, health, kind) =
            (if ds_ProjectionHost s = None then ([], [], []) else classifyProjectionHealth projections);
          stats = (\<lambda>events recent.
            \<lparr> ov_TotalAggregates = aggregates, ov_TotalEvents = events, ov_Projections = projections,
              ov_DLQCount = dlqCount, ov_RecentEvents = recent, ov_HealthStatus = health, ov_HealthKind = kind,
              ov_SSEHub = None \<rparr>) in
      if dc_SeekableJournal s = None \<and> dc_Journal s = None then Some (stats ''0'' [])
      else
        map_option (\<lambda>r. case r of
            Inl e \<Rightarrow> stats ''0'' []
          | Inr (tail, n) \<Rightarrow> stats (show_nat n) (recentEventsFrom (dash_env.truncate N) tail))
          (LoadTailEvents (coreConfig s) filter_zero RecentEventsLimit))"

record DLQProjectionLink =
  lk_Name :: string
  lk_Count :: int

definition DLQProjectionLinks :: "dash_sources \<Rightarrow> DLQProjectionLink list" where
  "DLQProjectionLinks s =
     (case ds_ProjectionHost s of
        None \<Rightarrow> []
      | Some host \<Rightarrow>
          map (\<lambda>ws. \<lparr> lk_Name = ws_Name ws,
                 lk_Count =
                   (case ds_DeadLetterStore s of
                      Some List \<Rightarrow> (case List (ws_Name ws) of Inr entries \<Rightarrow> int (length entries) | Inl e \<Rightarrow> 0)
                    | None \<Rightarrow> ws_Errors ws) \<rparr>)
            (ph_Status host))"

section \<open>Streams\<close>

record stream_index =
  si_Listings :: "stream_listing list"
  si_State :: PageState

definition page_state_of :: "int \<Rightarrow> PageState" where
  "page_state_of pageSize =
     \<lparr> ps_HasNext = False, ps_NextCursor = [], ps_PageSize = pageSize, ps_HasPrev = False, ps_After = [],
       ps_PrevHistory = [], ps_TotalCount = [], ps_PageStart = 0, ps_PageLen = 0 \<rparr>"

text \<open>The cut of a listing that was read one item beyond the page.\<close>

definition cut_listing :: "stream_listing list \<Rightarrow> int \<Rightarrow> string \<Rightarrow> string \<Rightarrow> bool \<Rightarrow> stream_index" where
  "cut_listing items pageSize afterCursor prevHistory hasPrev =
     (let hasMore = (int (length items) > pageSize);
          listings = (if hasMore then take (nat pageSize) items else items);
          nextCursor = (if hasMore \<and> listings \<noteq> [] then sl_ID (last listings) else [])
      in \<lparr> si_Listings = listings,
           si_State = (page_state_of pageSize) \<lparr> ps_HasNext := hasMore, ps_NextCursor := nextCursor,
             ps_HasPrev := hasPrev, ps_After := afterCursor, ps_PrevHistory := prevHistory \<rparr> \<rparr>)"

definition ListStreamsPaged ::
  "err_env \<Rightarrow> dash_env \<Rightarrow> (nat \<Rightarrow> string \<Rightarrow> err + stream_page option) option \<Rightarrow> int \<Rightarrow> query \<Rightarrow> err + stream_index" where
  "ListStreamsPaged E N StreamReader configPageSize q =
     (let pageSize = ParsePageSize q configPageSize;
          (afterCursor, prevHistory, hasPrev) = ParseCursorParams q in
      case StreamReader of
        None \<Rightarrow> Inr \<lparr> si_Listings = [], si_State = page_state_of pageSize \<rparr>
      | Some List \<Rightarrow>
          (case (if afterCursor = [] then Some [] else dn_ParseStreamID N afterCursor) of
             None \<Rightarrow> Inl (Fam Rejection ''dashboardui.streams.invalid_cursor'' ''invalid after cursor'' 0
                        [(''after'', afterCursor)] None)
           | Some cursor \<Rightarrow>
               (case List (nat (pageSize + 1)) cursor of
                  Inl e \<Rightarrow> Inl (Fam (classify E e) ''dashboardui.streams.list_failed'' ''list streams'' 0 [] (Some e))
                | Inr None \<Rightarrow> Inl (new_error Infrastructure ''dashboardui.streams.nil_page''
                    ''stream reader returned no page'')
                | Inr (Some page) \<Rightarrow> Inr (cut_listing (sp_Items page) pageSize afterCursor prevHistory hasPrev))))"

definition renderStreamIndex ::
  "err_env \<Rightarrow> dash_env \<Rightarrow> (nat \<Rightarrow> string \<Rightarrow> err + stream_page option) option \<Rightarrow> int \<Rightarrow> query \<Rightarrow> stream_index answer" where
  "renderStreamIndex E N StreamReader configPageSize q =
     (case ListStreamsPaged E N StreamReader configPageSize q of
        Inl e \<Rightarrow>
          if classify E e = Rejection then RenderError 400 ''invalid after cursor''
          else RenderError 500 ''failed to load streams''
      | Inr p \<Rightarrow> RenderPage (p \<lparr> si_State := WithCountInfo (si_State p) (length (si_Listings p)) \<rparr>))"

definition aggregatesIndexHandler ::
  "dash_env \<Rightarrow> (nat \<Rightarrow> string \<Rightarrow> err + stream_page option) option \<Rightarrow> int \<Rightarrow> query \<Rightarrow> stream_index answer" where
  "aggregatesIndexHandler N StreamReader configPageSize q =
     (let pageSize = ParsePageSize q configPageSize;
          (afterCursor, prevHistory, hasPrev) = ParseCursorParams q;
          shown = (\<lambda>items. let p = cut_listing items pageSize afterCursor prevHistory hasPrev in
            RenderPage (p \<lparr> si_State := WithCountInfo (si_State p) (length (si_Listings p)) \<rparr>)) in
      case parseAfterCursor (dn_ParseStreamID N) afterCursor of
        Inl answer \<Rightarrow> answer
      | Inr cursor \<Rightarrow>
          (case StreamReader of
             None \<Rightarrow> shown []
           | Some List \<Rightarrow>
               (case List (nat (pageSize + 1)) cursor of
                  Inl e \<Rightarrow> RenderError 500 ''failed to load aggregates''
                | Inr None \<Rightarrow> shown []
                | Inr (Some page) \<Rightarrow> shown (sp_Items page))))"

definition StreamRefFromID :: "dash_env \<Rightarrow> string \<Rightarrow> string \<Rightarrow> stream_ref option" where
  "StreamRefFromID N streamType streamID =
     (case dn_ParseStreamType N streamType of
        None \<Rightarrow> None
      | Some t \<Rightarrow> (case dn_ParseStreamID N streamID of None \<Rightarrow> None | Some i \<Rightarrow> Some (t, i)))"

text \<open>The path values are those of the pattern; a nil event source panics when it is called.\<close>

definition loadStreamFromRequest ::
  "dash_env \<Rightarrow> event_source option \<Rightarrow> string \<Rightarrow> string \<Rightarrow> 'p answer + stream_ref \<times> dash_event list" where
  "loadStreamFromRequest N EventSource streamType streamID =
     (case StreamRefFromID N streamType streamID of
        None \<Rightarrow> Inl (RenderError 400 ''invalid stream reference'')
      | Some ref \<Rightarrow>
          (case EventSource of
             None \<Rightarrow> Inl Panicked
           | Some src \<Rightarrow>
               (case es_Load src ref of
                  Inl e \<Rightarrow> Inl (RenderError 500 ''failed to load aggregate'')
                | Inr events \<Rightarrow> Inr (ref, events))))"

definition version_of :: "dash_event \<Rightarrow> nat" where
  "version_of evt = unat (je_Version evt)"

definition aggregateTimelinePagination :: "int \<Rightarrow> query \<Rightarrow> PageState" where
  "aggregateTimelinePagination configPageSize q =
     (let (afterCursor, prevHistory, _) = ParseCursorParams q;
          afterVersion = (if afterCursor \<noteq> [] then fst (ParseUint afterCursor) else 0)
      in (page_state_of (ParsePageSize q configPageSize)) \<lparr> ps_After := afterCursor, ps_PrevHistory := prevHistory,
           ps_HasPrev := (afterVersion > 0) \<rparr>)"

definition paginateEventsByVersion :: "dash_event list \<Rightarrow> PageState \<Rightarrow> dash_event list \<times> bool" where
  "paginateEventsByVersion events page =
     (let afterVersion = (if ps_After page \<noteq> [] then fst (ParseUint (ps_After page)) else 0);
          start = (case index_of (\<lambda>evt. version_of evt > afterVersion) events of
                     None \<Rightarrow> length events | Some i \<Rightarrow> i) in
      if start \<ge> length events then ([], False)
      else let paged = take (nat (ps_PageSize page + 1)) (drop start events);
               hasMore = (int (length paged) > ps_PageSize page)
           in (if hasMore then take (nat (ps_PageSize page)) paged else paged, hasMore))"

definition timelinePageState :: "dash_event list \<Rightarrow> dash_event list \<Rightarrow> PageState \<Rightarrow> bool \<Rightarrow> PageState" where
  "timelinePageState events pagedEvents page hasNext =
     (let timeline = page \<lparr> ps_HasNext := hasNext \<rparr>;
          timeline = (if hasNext \<and> pagedEvents \<noteq> []
                      then timeline \<lparr> ps_NextCursor := show_nat (version_of (last pagedEvents)) \<rparr> else timeline);
          timeline = timeline \<lparr> ps_PageLen := int (length pagedEvents) \<rparr>;
          timeline = (if pagedEvents \<noteq> [] then timeline \<lparr> ps_PageStart := int (version_of (hd pagedEvents)) \<rparr>
                      else timeline)
      in timeline \<lparr> ps_TotalCount := show_nat (length events) \<rparr>)"

record aggregate_detail =
  ad_Ref :: stream_ref
  ad_Events :: "dash_event list"
  ad_Paged :: "dash_event list"
  ad_State :: PageState

definition aggregateDetailHandler ::
  "dash_env \<Rightarrow> event_source option \<Rightarrow> int \<Rightarrow> query \<Rightarrow> string \<Rightarrow> string \<Rightarrow> aggregate_detail answer" where
  "aggregateDetailHandler N EventSource configPageSize q streamType streamID =
     (case loadStreamFromRequest N EventSource streamType streamID of
        Inl answer \<Rightarrow> answer
      | Inr (ref, events) \<Rightarrow>
          (let page = aggregateTimelinePagination configPageSize q;
               (pagedEvents, hasNext) = paginateEventsByVersion events page
           in RenderPage \<lparr> ad_Ref = ref, ad_Events = events, ad_Paged = pagedEvents,
                           ad_State = timelinePageState events pagedEvents page hasNext \<rparr>))"

section \<open>Time travel\<close>

datatype time_travel =
    NoEvents stream_ref
  | AtVersion stream_ref "dash_event list" nat nat

definition timeTravelDetailHandler ::
  "dash_env \<Rightarrow> event_source option \<Rightarrow> query \<Rightarrow> string \<Rightarrow> string \<Rightarrow> time_travel answer" where
  "timeTravelDetailHandler N EventSource q streamType streamID =
     (case loadStreamFromRequest N EventSource streamType streamID of
        Inl answer \<Rightarrow> answer
      | Inr (ref, allEvents) \<Rightarrow>
          if allEvents = [] then RenderPage (NoEvents ref)
          else
            (let maxVersion = version_of (last allEvents);
                 v = Query_Get q ''v'';
                 requested = (if v \<noteq> [] \<and> snd (ParseUint v) then fst (ParseUint v) else maxVersion);
                 requested = (if requested > maxVersion then maxVersion else requested);
                 requested = (if requested < 1 then 1 else requested) in
             case EventSource of
               None \<Rightarrow> Panicked
             | Some src \<Rightarrow>
                 (case es_LoadToVersion src ref requested of
                    Inl e \<Rightarrow> RenderError 500 ''failed to load version''
                  | Inr events \<Rightarrow> RenderPage (AtVersion ref events requested maxVersion))))"

section \<open>Snapshots\<close>

datatype snapshot_page =
    SnapshotMissing string string
  | SnapshotEmpty
  | SnapshotDetail stream_ref snapshot bytes

definition snapshotStateText :: "panel_env \<Rightarrow> bytes \<Rightarrow> bytes" where
  "snapshotStateText N state =
     (if state = [] then ''(empty)''
      else case pe_PayloadRenderer N state (pe_json N) of
             Inr (Some out) \<Rightarrow> if out \<noteq> [] then out else state
           | _ \<Rightarrow> state)"

text \<open>\<open>Load\<close> may answer the nil snapshot, which is the inner \<open>None\<close>.\<close>

definition snapshotDetailHandler ::
  "panel_env \<Rightarrow> (stream_ref \<Rightarrow> err + snapshot option) option \<Rightarrow> string \<Rightarrow> string \<Rightarrow> snapshot_page answer" where
  "snapshotDetailHandler N SnapshotStore streamType streamID =
     (case StreamRefFromID (dash_env.truncate N) streamType streamID of
        None \<Rightarrow> RenderError 400 ''invalid stream reference''
      | Some ref \<Rightarrow>
          (case SnapshotStore of
             None \<Rightarrow> Panicked
           | Some Load \<Rightarrow>
               (case Load ref of
                  Inl e \<Rightarrow> if pe_is_snapshot_missing N e then RenderPage (SnapshotMissing streamType streamID)
                         else RenderError 500 ''failed to load snapshot''
                | Inr None \<Rightarrow> RenderPage SnapshotEmpty
                | Inr (Some snap) \<Rightarrow> RenderPage (SnapshotDetail ref snap (snapshotStateText N (sn_State snap))))))"

section \<open>One event\<close>

record event_detail =
  vd_Event :: dash_event
  vd_PrevID :: string
  vd_NextID :: string
  vd_Payload :: bytes

definition panel_payload :: "panel_env \<Rightarrow> dash_event \<Rightarrow> bytes" where
  "panel_payload N evt = payloadBytes (pe_defaultPayloadTypes N) (pe_PayloadTypes N) (pe_PayloadRenderer N) evt"

definition eventDetailHandler :: "panel_env \<Rightarrow> dash_config \<Rightarrow> string \<Rightarrow> event_detail answer option" where
  "eventDetailHandler N cfg pathID =
     (case dn_ParseEventID N pathID of
        None \<Rightarrow> Some (RenderError 400 ''invalid event ID'')
      | Some eventID \<Rightarrow>
          (case LoadEventByID cfg eventID of
             None \<Rightarrow> None
           | Some (Inl e) \<Rightarrow> Some (renderLoadError (pe_errors N) ''event'' e)
           | Some (Inr evt) \<Rightarrow>
               map_option (\<lambda>(prevID, nextID). RenderPage
                   \<lparr> vd_Event = evt, vd_PrevID = prevID, vd_NextID = nextID, vd_Payload = panel_payload N evt \<rparr>)
                 (FindEventNeighbors cfg eventID)))"

text \<open>The loader's errors are wrapped as infrastructure errors, so its missing event is a failure of the server and
  not the 404 of the scans.\<close>

theorem loader_miss_is_500:
  assumes "errorfamily_ok (pe_errors N)" and "dc_EventByIDLoader cfg = Some L" and "L eventID = Inl e"
    and "dn_ParseEventID N pathID = Some eventID"
  shows "eventDetailHandler N cfg pathID = Some (RenderError 500 ''failed to load event'')"
  using assms by (simp add: eventDetailHandler_def LoadEventByID_def renderLoadError_def infra_def errorfamily_ok_def)

section \<open>Throughput and fates\<close>

definition throughputSpan :: duration where "throughputSpan = 86400000000000"
definition throughputBuckets :: int where "throughputBuckets = 12"
definition minThroughputBuckets :: int where "minThroughputBuckets = 4"
definition maxThroughputBuckets :: int where "maxThroughputBuckets = 48"

definition parseThroughputBuckets :: "query \<Rightarrow> int \<Rightarrow> int" where
  "parseThroughputBuckets q fallback =
     (let raw = Query_Get q ''buckets'' in
      if raw = [] then fallback
      else case Atoi raw of
             None \<Rightarrow> fallback
           | Some n \<Rightarrow> min (max n minThroughputBuckets) maxThroughputBuckets)"

definition throughputIndexHandler :: "panel_env \<Rightarrow> dash_config \<Rightarrow> query \<Rightarrow> EventThroughput answer option" where
  "throughputIndexHandler N cfg q =
     map_option (\<lambda>r. case r of
         Inl e \<Rightarrow> RenderError 500 ''failed to load event throughput''
       | Inr data \<Rightarrow> RenderPage data)
       (LoadEventThroughput (pe_bucket_label N) cfg throughputSpan (parseThroughputBuckets q throughputBuckets))"

record fates_page =
  fg_Fates :: "CommandFate list"
  fg_Total :: nat

definition commandFatesIndexHandler :: "panel_env \<Rightarrow> dash_config \<Rightarrow> int \<Rightarrow> query \<Rightarrow> fates_page answer option" where
  "commandFatesIndexHandler N cfg configPageSize q =
     map_option (\<lambda>r. case r of
         Inl e \<Rightarrow> RenderError 500 ''failed to load command fates''
       | Inr (fates, n) \<Rightarrow> RenderPage \<lparr> fg_Fates = fates, fg_Total = n \<rparr>)
       (LoadCommandFates (pe_lifecycle N) cfg (nat (ParsePageSize q configPageSize)))"

definition fateAttemptLabel :: "int \<Rightarrow> string" where
  "fateAttemptLabel attempt = (if attempt = 0 then ''-'' else show_int attempt)"

definition familyBadgeLabel :: "string \<Rightarrow> string \<Rightarrow> string" where
  "familyBadgeLabel family_text errorCode = (if errorCode \<noteq> [] then family_text @ ''/'' @ errorCode else family_text)"

section \<open>Telemetry\<close>

record telemetryData =
  td_HasTopology :: bool
  td_Topology :: "(err + TopologyView) option"
  td_HasPlacement :: bool
  td_Placements :: "(err + PlacementView list) option"
  td_Stats :: "EngineStatsView list"

definition telemetryHandler :: "dash_sources \<Rightarrow> telemetryData answer" where
  "telemetryHandler s =
     RenderPage \<lparr> td_HasTopology = (ds_Topology s \<noteq> None), td_Topology = ds_Topology s,
       td_HasPlacement = (ds_Placements s \<noteq> None), td_Placements = ds_Placements s,
       td_Stats = (case ds_EngineStats s of None \<Rightarrow> [] | Some stats \<Rightarrow> stats) \<rparr>"

section \<open>Projections and dead letters\<close>

definition projectionDetailHandler :: "panel_env \<Rightarrow> projection_host option \<Rightarrow> string \<Rightarrow> ProjectionStat answer" where
  "projectionDetailHandler N host name =
     (case find (\<lambda>p. pt_Name p = name) (ProjectionStats N host) of
        None \<Rightarrow> RenderError 404 ''projection not found''
      | Some found \<Rightarrow> RenderPage found)"

record dlq_page =
  qp_Projection :: string
  qp_Entries :: "dead_letter list"

definition dlqDetailHandler :: "(string \<Rightarrow> err + dead_letter list) option \<Rightarrow> string \<Rightarrow> dlq_page answer" where
  "dlqDetailHandler DeadLetterStore proj =
     (case DeadLetterStore of
        None \<Rightarrow> RenderPage \<lparr> qp_Projection = proj, qp_Entries = [] \<rparr>
      | Some List \<Rightarrow>
          (case List proj of
             Inl e \<Rightarrow> RenderError 500 ''failed to list dead letters''
           | Inr entries \<Rightarrow> RenderPage \<lparr> qp_Projection = proj, qp_Entries = entries \<rparr>))"

record dlq_entry_page =
  qe_Projection :: string
  qe_Entry :: dead_letter
  qe_Payload :: bytes

definition no_dead_letter :: dead_letter where
  "no_dead_letter = \<lparr> dl_EventID = [], dl_EventType = [], dl_StreamID = [], dl_Event = None \<rparr>"

definition dlqEntryDetailHandler ::
  "panel_env \<Rightarrow> (string \<Rightarrow> err + dead_letter list) option \<Rightarrow> string \<Rightarrow> string \<Rightarrow> dlq_entry_page answer" where
  "dlqEntryDetailHandler N DeadLetterStore proj eventID =
     (case (case DeadLetterStore of
              None \<Rightarrow> Inr no_dead_letter
            | Some List \<Rightarrow>
                map_sum id (\<lambda>entries. case find (\<lambda>e. dl_EventID e = eventID) entries of
                    Some e \<Rightarrow> e | None \<Rightarrow> no_dead_letter) (List proj)) of
        Inl e \<Rightarrow> RenderError 500 ''failed to load dead letter''
      | Inr entry \<Rightarrow>
          if dl_EventID entry = [] then RenderError 404 ''dead letter not found''
          else RenderPage \<lparr> qe_Projection = proj, qe_Entry = entry,
            qe_Payload = (case dl_Event entry of None \<Rightarrow> [] | Some evt \<Rightarrow> panel_payload N evt) \<rparr>)"

section \<open>Probes\<close>

text \<open>The JSON a probe writes, with its status.\<close>

record probe =
  pb_Code :: nat
  pb_Status :: string
  pb_Ready :: "bool option"
  pb_Engines :: "EngineHealthView list option"

text \<open>\<open>closed\<close> says that the dashboard was closed.\<close>

definition healthzHandler :: "bool \<Rightarrow> dash_sources \<Rightarrow> probe" where
  "healthzHandler closed s =
     (if closed then \<lparr> pb_Code = 503, pb_Status = ''shutting_down'', pb_Ready = None, pb_Engines = None \<rparr>
      else \<lparr> pb_Code = 200, pb_Status = ''ok'', pb_Ready = None, pb_Engines = ds_EngineHealths s \<rparr>)"

definition readyzHandler :: "bool \<Rightarrow> Capabilities \<Rightarrow> dash_sources \<Rightarrow> probe" where
  "readyzHandler closed caps s =
     (if closed then \<lparr> pb_Code = 503, pb_Status = ''shutting_down'', pb_Ready = Some False, pb_Engines = None \<rparr>
      else if \<not> HasEventRead caps \<and> \<not> cap_EventSource caps then
        \<lparr> pb_Code = 503, pb_Status = ''no_data_source'', pb_Ready = Some False, pb_Engines = None \<rparr>
      else
        (let engines = (case ds_EngineHealths s of None \<Rightarrow> [] | Some es \<Rightarrow> es) in
         if \<exists>engine\<in>set engines. \<not> hv_Healthy engine then
           \<lparr> pb_Code = 503, pb_Status = ''engine_unhealthy'', pb_Ready = Some False, pb_Engines = Some engines \<rparr>
         else \<lparr> pb_Code = 200, pb_Status = ''ready'', pb_Ready = Some True, pb_Engines = None \<rparr>))"

lemma readyz_ready:
  "pb_Code (readyzHandler closed caps s) = 200 \<longleftrightarrow>
     \<not> closed \<and> (HasEventRead caps \<or> cap_EventSource caps)
     \<and> (\<forall>engines. ds_EngineHealths s = Some engines \<longrightarrow> (\<forall>engine\<in>set engines. hv_Healthy engine))"
  by (cases "ds_EngineHealths s") (auto simp: readyzHandler_def Let_def)

section \<open>The timeline of an aggregate\<close>

text \<open>On a stream of versions 1 to n, the timeline after version k starts behind it.\<close>

definition versioned :: "dash_event list \<Rightarrow> bool" where
  "versioned es \<longleftrightarrow> map version_of es = [1..<Suc (length es)]"

lemma versioned_nth: "versioned es \<Longrightarrow> i < length es \<Longrightarrow> version_of (es ! i) = Suc i"
proof -
  assume v: "versioned es" and i: "i < length es"
  have "version_of (es ! i) = map version_of es ! i" using i by simp
  also have "\<dots> = [1..<Suc (length es)] ! i" using v by (simp only: versioned_def)
  also have "\<dots> = Suc i" using i by (subst nth_upt) simp_all
  finally show ?thesis .
qed

theorem timeline_page:
  assumes "versioned es" and "length es < 2 ^ 64" and "k \<le> length es" and "0 < n"
    and "ps_After page = (if k = 0 then [] else show_nat k)" and "ps_PageSize page = int n"
  shows "paginateEventsByVersion es page = (take n (drop k es), k + n < length es)"
proof -
  have after_version: "(if ps_After page \<noteq> [] then fst (ParseUint (ps_After page)) else 0) = k"
    using assms(2,3,5) by (simp add: show_nat_nonempty ParseUint_show)
  have start: "(case index_of (\<lambda>evt. version_of evt > k) es of None \<Rightarrow> length es | Some i \<Rightarrow> i) = k"
  proof (cases "k < length es")
    case True
    then have "index_of (\<lambda>evt. version_of evt > k) es = Some k"
      using versioned_nth [OF assms(1)] by (intro index_of_at) auto
    then show ?thesis by simp
  next
    case False
    then have "index_of (\<lambda>evt. version_of evt > k) es = None"
      using versioned_nth [OF assms(1)] by (auto simp: index_of_None in_set_conv_nth)
    with False assms(3) show ?thesis by simp
  qed
  show ?thesis
    unfolding paginateEventsByVersion_def after_version start Let_def assms(6)
    by (auto simp: nat_add_distrib min_def)
qed

end
