(* ===== verification/Dashboard_Config.thy ===== *)
theory Dashboard_Config
  imports Dashboard_Panels Redirects
begin

text \<open>
  The configuration of the dashboard (\<open>dashboardui/config.go\<close>): defaults and validation, the closed grammar of the
  accent color (\<open>accent_color.go\<close>), the empty-state texts (\<open>empty_state.go\<close>), the navigation, and the detection
  of what a list of sources provides (\<open>autodetect.go\<close>, \<open>system_bridge.go\<close>).
\<close>

section \<open>The accent color\<close>

definition maxAccentColorLen :: nat where "maxAccentColorLen = 32"

definition onlyRunes :: "string \<Rightarrow> string \<Rightarrow> bool" where
  "onlyRunes s charset \<longleftrightarrow> list_all (\<lambda>c. c \<in> set charset) s"

definition isHexDigits :: "string \<Rightarrow> bool" where
  "isHexDigits s \<longleftrightarrow> s \<noteq> [] \<and> onlyRunes s ''0123456789abcdefABCDEF''"

definition onlyNumericColorComponents :: "string \<Rightarrow> bool" where
  "onlyNumericColorComponents s \<longleftrightarrow> trim_space s \<noteq> [] \<and> onlyRunes s (''0123456789.,%+-/ '' @ [CHR 0x09])"

definition cssNamedColors :: "string list" where
  "cssNamedColors = [
    ''aliceblue'', ''antiquewhite'', ''aqua'', ''aquamarine'', ''azure'', ''beige'', ''bisque'', ''black'',
    ''blanchedalmond'', ''blue'', ''blueviolet'', ''brown'', ''burlywood'', ''cadetblue'', ''chartreuse'',
    ''chocolate'', ''coral'', ''cornflowerblue'', ''cornsilk'', ''crimson'', ''cyan'', ''darkblue'', ''darkcyan'',
    ''darkgoldenrod'', ''darkgray'', ''darkgreen'', ''darkgrey'', ''darkkhaki'', ''darkmagenta'', ''darkolivegreen'',
    ''darkorange'', ''darkorchid'', ''darkred'', ''darksalmon'', ''darkseagreen'', ''darkslateblue'',
    ''darkslategray'', ''darkslategrey'', ''darkturquoise'', ''darkviolet'', ''deeppink'', ''deepskyblue'',
    ''dimgray'', ''dimgrey'', ''dodgerblue'', ''firebrick'', ''floralwhite'', ''forestgreen'', ''fuchsia'',
    ''gainsboro'', ''ghostwhite'', ''gold'', ''goldenrod'', ''gray'', ''green'', ''greenyellow'', ''grey'',
    ''honeydew'', ''hotpink'', ''indianred'', ''indigo'', ''ivory'', ''khaki'', ''lavender'', ''lavenderblush'',
    ''lawngreen'', ''lemonchiffon'', ''lightblue'', ''lightcoral'', ''lightcyan'', ''lightgoldenrodyellow'',
    ''lightgray'', ''lightgreen'', ''lightgrey'', ''lightpink'', ''lightsalmon'', ''lightseagreen'',
    ''lightskyblue'', ''lightslategray'', ''lightslategrey'', ''lightsteelblue'', ''lightyellow'', ''lime'',
    ''limegreen'', ''linen'', ''magenta'', ''maroon'', ''mediumaquamarine'', ''mediumblue'', ''mediumorchid'',
    ''mediumpurple'', ''mediumseagreen'', ''mediumslateblue'', ''mediumspringgreen'', ''mediumturquoise'',
    ''mediumvioletred'', ''midnightblue'', ''mintcream'', ''mistyrose'', ''moccasin'', ''navajowhite'', ''navy'',
    ''oldlace'', ''olive'', ''olivedrab'', ''orange'', ''orangered'', ''orchid'', ''palegoldenrod'', ''palegreen'',
    ''paleturquoise'', ''palevioletred'', ''papayawhip'', ''peachpuff'', ''peru'', ''pink'', ''plum'',
    ''powderblue'', ''purple'', ''rebeccapurple'', ''red'', ''rosybrown'', ''royalblue'', ''saddlebrown'',
    ''salmon'', ''sandybrown'', ''seagreen'', ''seashell'', ''sienna'', ''silver'', ''skyblue'', ''slateblue'',
    ''slategray'', ''slategrey'', ''snow'', ''springgreen'', ''steelblue'', ''tan'', ''teal'', ''thistle'',
    ''tomato'', ''transparent'', ''turquoise'', ''violet'', ''wheat'', ''white'', ''whitesmoke'', ''yellow'',
    ''yellowgreen'']"

text \<open>Runes of more than one byte are in none of the character sets.\<close>

definition has_suffix :: "string \<Rightarrow> string \<Rightarrow> bool" where
  "has_suffix s p \<longleftrightarrow> has_prefix (rev s) (rev p)"

definition isValidAccentColor :: "(string \<Rightarrow> string) \<Rightarrow> string \<Rightarrow> bool" where
  "isValidAccentColor unicode_lower color =
     (if color = [] \<or> length color > maxAccentColorLen then False
      else if has_prefix color ''#'' then
        (let digits = drop 1 color in
         if length digits \<in> {3, 4, 6, 8} then isHexDigits digits else False)
      else
        (let lower = ToLower unicode_lower color in
         case find (\<lambda>fn. has_prefix lower fn) [''rgb('', ''rgba('', ''hsl('', ''hsla(''] of
           Some fn \<Rightarrow>
             if \<not> has_suffix lower '')'' then False
             else onlyNumericColorComponents (butlast (drop (length fn) lower))
         | None \<Rightarrow> lower \<in> set cssNamedColors))"

section \<open>Empty states\<close>

definition EmptyStateEvents :: string where "EmptyStateEvents = ''events''"
definition EmptyStateEventsFiltered :: string where "EmptyStateEventsFiltered = ''events-filtered''"
definition EmptyStateCommands :: string where "EmptyStateCommands = ''commands''"
definition EmptyStateQueries :: string where "EmptyStateQueries = ''queries''"
definition EmptyStateProjections :: string where "EmptyStateProjections = ''projections''"
definition EmptyStateSnapshots :: string where "EmptyStateSnapshots = ''snapshots''"
definition EmptyStateDeadLetters :: string where "EmptyStateDeadLetters = ''dead-letters''"
definition EmptyStateTimeTravelEvents :: string where "EmptyStateTimeTravelEvents = ''timetravel-events''"
definition EmptyStateTimeTravelAggregates :: string where "EmptyStateTimeTravelAggregates = ''timetravel-aggregates''"
definition EmptyStateSnapshotAggregates :: string where "EmptyStateSnapshotAggregates = ''snapshot-aggregates''"
definition EmptyStateCommandFates :: string where "EmptyStateCommandFates = ''command-fates''"
definition EmptyStateThroughput :: string where "EmptyStateThroughput = ''throughput''"

record EmptyStateCopy =
  ec_Title :: string
  ec_Message :: string

definition em_dash :: string where "em_dash = map byte [0xE2, 0x80, 0x94]"

definition defaultEmptyStates :: "(string, EmptyStateCopy) gomap" where
  "defaultEmptyStates =
     [(EmptyStateEvents, \<lparr> ec_Title = ''No events yet'', ec_Message = ''Events will appear here as they are committed to the store.'' \<rparr>),
      (EmptyStateEventsFiltered, \<lparr> ec_Title = ''No matching events'', ec_Message = ''No events match the current filters. Try adjusting or clearing them.'' \<rparr>),
      (EmptyStateCommands, \<lparr> ec_Title = ''No commands recorded'', ec_Message = ''Commands will appear here as they are dispatched.'' \<rparr>),
      (EmptyStateQueries, \<lparr> ec_Title = ''No queries recorded'', ec_Message = ''Queries will appear here as they are executed.'' \<rparr>),
      (EmptyStateProjections, \<lparr> ec_Title = ''No projections registered'', ec_Message = [] \<rparr>),
      (EmptyStateSnapshots, \<lparr> ec_Title = ''No snapshot'', ec_Message = [] \<rparr>),
      (EmptyStateDeadLetters, \<lparr> ec_Title = ''Dead-Letter Queue'', ec_Message = ''No projections registered. Dead letters will appear here when projection errors occur.'' \<rparr>),
      (EmptyStateTimeTravelEvents, \<lparr> ec_Title = ''No events'', ec_Message = [] \<rparr>),
      (EmptyStateTimeTravelAggregates, \<lparr> ec_Title = ''No aggregates found'', ec_Message = ''Configure a StreamReader to list aggregates for time-travel inspection.'' \<rparr>),
      (EmptyStateSnapshotAggregates, \<lparr> ec_Title = ''No aggregates found'', ec_Message = ''Configure a StreamReader to browse snapshots by aggregate.'' \<rparr>),
      (EmptyStateCommandFates, \<lparr> ec_Title = ''No command fates recorded'', ec_Message = ''Command outcomes (rejected, failed, retried, dead-lettered, completed) appear here when command lifecycle recording is enabled: set ServiceConfig.CommandLifecycle in usermgmt, or wire the commandlifecycle middleware pair.'' \<rparr>),
      (EmptyStateThroughput, \<lparr> ec_Title = ''No events to chart'', ec_Message = ''The throughput chart buckets journal events into fixed time windows '' @ em_dash @ '' record events and refresh.'' \<rparr>)]"

definition resolveEmptyStates :: "(string, EmptyStateCopy) gomap \<Rightarrow> (string, EmptyStateCopy) gomap" where
  "resolveEmptyStates overrides =
     fold (\<lambda>(key, override) resolved.
         let merged = (case map_get resolved key of Some c \<Rightarrow> c | None \<Rightarrow> \<lparr> ec_Title = [], ec_Message = [] \<rparr>);
             merged = (if ec_Title override \<noteq> [] then merged \<lparr> ec_Title := ec_Title override \<rparr> else merged);
             merged = (if ec_Message override \<noteq> [] then merged \<lparr> ec_Message := ec_Message override \<rparr> else merged)
         in map_put key merged resolved)
       overrides defaultEmptyStates"

section \<open>Navigation\<close>

record NavEntry =
  ne_Label :: string
  ne_Href :: string
  ne_Icon :: string

record NavLink =
  nl_Href :: string
  nl_Label :: string
  nl_Icon :: string
  nl_Verbatim :: bool

text \<open>The icons are names of the component library.\<close>

definition extraNavItems :: "string \<Rightarrow> NavEntry list \<Rightarrow> NavLink list" where
  "extraNavItems link_icon entries =
     map (\<lambda>e. \<lparr> nl_Href = ne_Href e, nl_Label = ne_Label e,
            nl_Icon = (if ne_Icon e = [] then link_icon else ne_Icon e), nl_Verbatim = True \<rparr>) entries"

definition buildNav :: "(string \<Rightarrow> string) \<Rightarrow> Capabilities \<Rightarrow> NavLink list" where
  "buildNav icon caps =
     map (\<lambda>(cond, href, label, i). \<lparr> nl_Href = href, nl_Label = label, nl_Icon = icon i, nl_Verbatim = False \<rparr>)
       (filter fst
         [(True, ''/'', ''Overview'', ''Chart''),
          (HasEventRead caps, ''/events'', ''Events'', ''QueueList''),
          (cap_StreamReader caps \<or> cap_EventSource caps, ''/aggregates'', ''Aggregates'', ''Cube''),
          (cap_ProjectionHost caps, ''/projections'', ''Projections'', ''ArrowPath''),
          (cap_DeadLetterStore caps \<or> cap_ProjectionHost caps, ''/dead-letters'', ''Dead Letters'', ''BugAnt''),
          (cap_CommandJournal caps, ''/commands'', ''Commands'', ''Clipboard''),
          (HasEventRead caps, ''/command-fates'', ''Command Fates'', ''ExclamationTriangle''),
          (HasEventRead caps, ''/throughput'', ''Throughput'', ''Chart''),
          (cap_QueryJournal caps, ''/queries'', ''Queries'', ''Search''),
          (cap_EventSource caps, ''/time-travel'', ''Time Travel'', ''Clock''),
          (cap_SnapshotStore caps, ''/snapshots'', ''Snapshots'', ''ArchiveBox''),
          (cap_Telemetry caps, ''/telemetry'', ''Telemetry'', ''Signal'')])"

section \<open>Settings\<close>

record Actor =
  act_ID :: string
  act_Name :: string

definition Actor_known :: "Actor \<Rightarrow> bool" where
  "Actor_known a \<longleftrightarrow> act_ID a \<noteq> [] \<or> act_Name a \<noteq> []"

text \<open>A request: its escaped path, its raw query, the actor and the request ID of its context.\<close>

record dash_request =
  dq_Method :: string
  dq_Path :: string
  dq_RawQuery :: string
  dq_Header :: "(string, string) gomap"
  dq_Actor :: "Actor option"
  dq_RequestID :: string

record settings =
  st_Title :: string
  st_BasePath :: string
  st_AccentColor :: string
  st_ReadOnly :: bool
  st_PageSize :: int
  st_SSEHeartbeatInterval :: duration
  st_Authorizer :: "(dash_request \<Rightarrow> err option) option"
  st_ActorAuthorizer :: "(dash_request \<Rightarrow> err + Actor) option"
  st_VersionzRequireAuth :: bool
  st_EmptyStateCopy :: "(string, EmptyStateCopy) gomap"
  st_ExtraNav :: "NavEntry list"

definition errConfig :: "string \<Rightarrow> err" where
  "errConfig msg = new_error Rejection ''dashboardui.config'' msg"

text \<open>\<open>trimTrailingSlash\<close> keeps a path that is only a slash.\<close>

fun trimTrailingSlash_rev :: "string \<Rightarrow> string" where
  "trimTrailingSlash_rev (c # d # s) = (if c = slash then trimTrailingSlash_rev (d # s) else c # d # s)"
| "trimTrailingSlash_rev s = s"

definition trimTrailingSlash :: "string \<Rightarrow> string" where
  "trimTrailingSlash s = rev (trimTrailingSlash_rev (rev s))"

definition clampPageSize :: "int \<Rightarrow> int" where
  "clampPageSize n = (if n \<le> 0 then DefaultPageSize else min n MaxPageSize)"

fun validateExtraNav_from :: "nat \<Rightarrow> NavEntry list \<Rightarrow> err option" where
  "validateExtraNav_from i [] = None"
| "validateExtraNav_from i (entry # entries) =
     (if ne_Label entry = [] then
        Some (errConfig (''Config.ExtraNav['' @ show_nat i @ ''].Label must not be empty''))
      else if ne_Href entry = [] then
        Some (errConfig (''Config.ExtraNav['' @ show_nat i @ ''].Href must not be empty''))
      else validateExtraNav_from (Suc i) entries)"

definition validateExtraNav :: "NavEntry list \<Rightarrow> err option" where
  "validateExtraNav entries = validateExtraNav_from 0 entries"

definition validateEmptyStateCopy :: "(string, EmptyStateCopy) gomap \<Rightarrow> err option" where
  "validateEmptyStateCopy overrides =
     map_option (\<lambda>(k, _). errConfig (''Config.EmptyStateCopy has unknown key '' @ k))
       (find (\<lambda>(k, _). map_get defaultEmptyStates k = None) overrides)"

definition validateAccentColor :: "(string \<Rightarrow> string) \<Rightarrow> string \<Rightarrow> err option" where
  "validateAccentColor unicode_lower color =
     (if isValidAccentColor unicode_lower color then None
      else Some (errConfig (''Config.AccentColor must be a CSS color literal (#hex, rgb()/rgba()/hsl()/hsla() with ''
        @ ''numeric components, or a named color); got '' @ color)))"

definition textDefaults :: "settings \<Rightarrow> settings" where
  "textDefaults config =
     (let config = (if st_Title config = [] then config \<lparr> st_Title := ''CQRS Dashboard'' \<rparr> else config);
          config = (if st_BasePath config = [] then config \<lparr> st_BasePath := ''/dashboard'' \<rparr> else config);
          config = config \<lparr> st_BasePath := trimTrailingSlash (st_BasePath config) \<rparr>
      in if st_AccentColor config = [] then config \<lparr> st_AccentColor := ''#4f46e5'' \<rparr> else config)"

definition numberDefaults :: "settings \<Rightarrow> settings" where
  "numberDefaults config =
     (let config = config \<lparr> st_PageSize := clampPageSize (st_PageSize config) \<rparr>
      in if st_SSEHeartbeatInterval config = 0 then config \<lparr> st_SSEHeartbeatInterval := 15000000000 \<rparr> else config)"

definition withDefaults :: "(string \<Rightarrow> string) \<Rightarrow> dash_sources \<Rightarrow> settings \<Rightarrow> err + settings" where
  "withDefaults unicode_lower s config =
     (if ds_EventSource s = None \<and> dc_Journal s = None \<and> dc_SeekableJournal s = None then
        Inl (errConfig (''at least one of Config.EventSource, Config.Journal, ''
          @ ''or Config.SeekableJournal is required''))
      else
        (let config = textDefaults config in
         case validateAccentColor unicode_lower (st_AccentColor config) of
           Some e \<Rightarrow> Inl e
         | None \<Rightarrow>
             (let config = numberDefaults config in
              case validateEmptyStateCopy (st_EmptyStateCopy config) of
                Some e \<Rightarrow> Inl e
              | None \<Rightarrow>
                  (case validateExtraNav (st_ExtraNav config) of Some e \<Rightarrow> Inl e | None \<Rightarrow> Inr config))))"

section \<open>Detection\<close>

text \<open>What a source implements is given like a configuration; a system answers its parts.\<close>

record system_parts =
  sy_EventStore :: "dash_sources option"
  sy_Bus :: bool
  sy_ProjectionHost :: "projection_host option"
  sy_SnapshotStore :: "(stream_ref \<Rightarrow> err + snapshot option) option"
  sy_CommandStore :: "PersistedCommand audit_journal option option"
  sy_QueryStore :: "PersistedQuery audit_journal option option"

datatype source = Leaf dash_sources | System system_parts

text \<open>\<open>fieldProbe\<close>: a field that is set stays. Whether it is set is asked of the field boxed as \<open>any\<close>, and a boxed
  pointer is not nil even when the pointer is.\<close>

datatype field_kind = InterfaceField | PointerField

definition boxed_set :: "field_kind \<Rightarrow> 'a option \<Rightarrow> bool" where
  "boxed_set kind field = (case kind of InterfaceField \<Rightarrow> field \<noteq> None | PointerField \<Rightarrow> True)"

definition fieldProbe :: "field_kind \<Rightarrow> 'a option \<Rightarrow> 'a option \<Rightarrow> 'a option" where
  "fieldProbe kind field implemented =
     (if boxed_set kind field then field else case implemented of None \<Rightarrow> field | Some v \<Rightarrow> Some v)"

definition readProbes :: "dash_sources \<Rightarrow> dash_sources \<Rightarrow> dash_sources" where
  "readProbes c src =
     c \<lparr> ds_EventSource := fieldProbe InterfaceField (ds_EventSource c) (ds_EventSource src),
         dc_Journal := fieldProbe InterfaceField (dc_Journal c) (dc_Journal src),
         dc_SeekableJournal := fieldProbe InterfaceField (dc_SeekableJournal c) (dc_SeekableJournal src) \<rparr>"

definition optionalProbes :: "dash_sources \<Rightarrow> dash_sources \<Rightarrow> dash_sources" where
  "optionalProbes c src =
     c \<lparr> dc_EventByIDLoader := fieldProbe InterfaceField (dc_EventByIDLoader c) (dc_EventByIDLoader src),
         ds_StreamReader := fieldProbe InterfaceField (ds_StreamReader c) (ds_StreamReader src),
         ds_ProjectionHost := fieldProbe PointerField (ds_ProjectionHost c) (ds_ProjectionHost src),
         ds_DeadLetterStore := fieldProbe InterfaceField (ds_DeadLetterStore c) (ds_DeadLetterStore src),
         ds_CommandJournal := fieldProbe InterfaceField (ds_CommandJournal c) (ds_CommandJournal src),
         ds_QueryJournal := fieldProbe InterfaceField (ds_QueryJournal c) (ds_QueryJournal src),
         ds_SnapshotStore := fieldProbe InterfaceField (ds_SnapshotStore c) (ds_SnapshotStore src),
         ds_EventBus := (ds_EventBus c \<or> ds_EventBus src) \<rparr>"

text \<open>\<open>derive\<close> is the in-memory stream reader of a journal.\<close>

definition applySystemEventStore ::
  "((err + dash_event list) \<Rightarrow> (nat \<Rightarrow> string \<Rightarrow> err + stream_page option)) \<Rightarrow> dash_sources \<Rightarrow> dash_sources option
   \<Rightarrow> dash_sources" where
  "applySystemEventStore derive c store =
     (case store of
        None \<Rightarrow> c
      | Some st \<Rightarrow>
          (let c = readProbes c st;
               c = c \<lparr> dc_EventByIDLoader := fieldProbe InterfaceField (dc_EventByIDLoader c) (dc_EventByIDLoader st),
                       ds_StreamReader := fieldProbe InterfaceField (ds_StreamReader c) (ds_StreamReader st) \<rparr>
           in case (ds_StreamReader c, dc_Journal c) of
                (None, Some j) \<Rightarrow> c \<lparr> ds_StreamReader := Some (derive j) \<rparr>
              | _ \<Rightarrow> c))"

definition or_else :: "'a option \<Rightarrow> 'a option \<Rightarrow> 'a option" where
  "or_else a b = (case a of None \<Rightarrow> b | Some x \<Rightarrow> Some x)"

definition applySystem ::
  "((err + dash_event list) \<Rightarrow> (nat \<Rightarrow> string \<Rightarrow> err + stream_page option)) \<Rightarrow> dash_sources \<Rightarrow> system_parts
   \<Rightarrow> dash_sources" where
  "applySystem derive c sys =
     (let c = applySystemEventStore derive c (sy_EventStore sys) in
      c \<lparr> ds_EventBus := (ds_EventBus c \<or> sy_Bus sys),
          ds_ProjectionHost := or_else (ds_ProjectionHost c) (sy_ProjectionHost sys),
          ds_SnapshotStore := or_else (ds_SnapshotStore c) (sy_SnapshotStore sys),
          ds_CommandJournal := or_else (ds_CommandJournal c) (case sy_CommandStore sys of Some j \<Rightarrow> j | None \<Rightarrow> None),
          ds_QueryJournal := or_else (ds_QueryJournal c) (case sy_QueryStore sys of Some j \<Rightarrow> j | None \<Rightarrow> None) \<rparr>)"

definition no_sources :: dash_sources where
  "no_sources =
     \<lparr> dc_SeekableJournal = None, dc_Journal = None, dc_EventByIDLoader = None, ds_EventSource = None,
       ds_StreamReader = None, ds_ProjectionHost = None, ds_DeadLetterStore = None, ds_CommandJournal = None,
       ds_QueryJournal = None, ds_SnapshotStore = None, ds_EventBus = False, ds_Topology = None,
       ds_EngineHealths = None, ds_Placements = None, ds_EngineStats = None \<rparr>"

definition detect_step ::
  "((err + dash_event list) \<Rightarrow> (nat \<Rightarrow> string \<Rightarrow> err + stream_page option)) \<Rightarrow> source \<Rightarrow> dash_sources \<Rightarrow> dash_sources" where
  "detect_step derive src c =
     (case src of
        System sys \<Rightarrow> applySystem derive c sys
      | Leaf leaf_src \<Rightarrow> optionalProbes (readProbes c leaf_src) leaf_src)"

definition Autodetect ::
  "((err + dash_event list) \<Rightarrow> (nat \<Rightarrow> string \<Rightarrow> err + stream_page option)) \<Rightarrow> (source list \<Rightarrow> string) \<Rightarrow> source list
   \<Rightarrow> err + dash_sources" where
  "Autodetect derive sourceTypes sources =
     (let config = fold (detect_step derive) sources no_sources in
      if ds_EventSource config = None \<and> dc_Journal config = None \<and> dc_SeekableJournal config = None then
        Inl (Fam Rejection ''dashboardui.autodetect.no_read_interface''
          (''no source implements any of the interfaces the dashboard reads from ''
           @ ''(event.EventSource, event.Journal, event.SeekableJournal)'') 0
          [(''source_types'', sourceTypes sources)] None)
      else Inr config)"

section \<open>What the configuration guarantees\<close>

text \<open>An accepted color cannot leave the declaration it is spliced into: it has no quotes, braces, semicolons,
  backslashes or angle brackets.\<close>

definition style_breaks :: "char list" where
  "style_breaks = '';{}<>'' @ [CHR 0x22, CHR 0x27, CHR 0x5C]"

definition harmless :: "string \<Rightarrow> bool" where
  "harmless s \<longleftrightarrow> set s \<inter> set style_breaks = {}"

lemma harmless_append [simp]: "harmless (s @ t) \<longleftrightarrow> harmless s \<and> harmless t"
  by (auto simp: harmless_def)

lemma harmless_subset: "harmless t \<Longrightarrow> set s \<subseteq> set t \<Longrightarrow> harmless s"
  by (auto simp: harmless_def)

text \<open>The letters among the characters, by their bits.\<close>

definition letter_bits :: "char \<Rightarrow> bool" where
  "letter_bits c \<longleftrightarrow> digit6 c \<and> \<not> (digit4 c \<and> digit3 c \<and> (digit2 c \<or> digit1 c \<and> digit0 c))"

lemma letter_bits_harmless: "list_all letter_bits s \<Longrightarrow> harmless s"
proof -
  have "\<forall>c\<in>set style_breaks. \<not> letter_bits c" by (simp add: style_breaks_def letter_bits_def)
  then show "list_all letter_bits s \<Longrightarrow> harmless s" by (auto simp: harmless_def list_all_iff)
qed

lemma named_colors_letters: "list_all (list_all letter_bits) cssNamedColors"
  by (simp add: cssNamedColors_def letter_bits_def)

lemma charsets_harmless:
  "harmless ''0123456789abcdefABCDEF''" "harmless (''0123456789.,%+-/ '' @ [CHR 0x09])"
  "fn \<in> set [''rgb('', ''rgba('', ''hsl('', ''hsla('']  \<Longrightarrow> harmless fn" "harmless '')''" "harmless ''#''"
  by (auto simp: harmless_def style_breaks_def)

lemma lower_breaks: "c \<in> set style_breaks \<Longrightarrow> ascii_lower c = c"
  by (auto simp: style_breaks_def ascii_lower_def)

lemma harmless_lower: "harmless (map ascii_lower s) \<Longrightarrow> harmless s"
  using lower_breaks by (force simp: harmless_def disjoint_iff)

lemma onlyRunes_harmless: "onlyRunes s charset \<Longrightarrow> harmless charset \<Longrightarrow> harmless s"
  by (auto simp: onlyRunes_def list_all_iff harmless_def)

lemma call_parts:
  assumes "has_prefix l fn" and "has_suffix l [c]" and "harmless fn" and "harmless [c]"
    and "harmless (butlast (drop (length fn) l))"
  shows "harmless l"
proof -
  have "l = fn @ drop (length fn) l" using assms(1) by (metis append_take_drop_id has_prefix_def)
  moreover have "harmless (drop (length fn) l)"
  proof (cases "drop (length fn) l" rule: rev_cases)
    case (snoc ys y)
    then have "last l = y" by (metis last_drop last_snoc length_drop list.size(3) snoc_eq_iff_butlast zero_less_diff length_greater_0_conv)
    moreover have "last l = c" using assms(2) by (cases l rule: rev_cases) (simp_all add: has_suffix_def has_prefix_def)
    ultimately show ?thesis using assms(4,5) snoc by simp
  qed (simp add: harmless_def)
  ultimately show ?thesis using assms(3) by (metis harmless_append)
qed

theorem accent_color_harmless:
  assumes "isValidAccentColor unicode_lower color" and "is_ascii color"
  shows "harmless color"
proof (cases "has_prefix color ''#''")
  case True
  then obtain digits where c: "color = ''#'' @ digits" by (cases color) (auto simp: has_prefix_def)
  with True assms(1) have "onlyRunes digits ''0123456789abcdefABCDEF''"
    unfolding isValidAccentColor_def isHexDigits_def by (auto simp: Let_def split: if_splits)
  with onlyRunes_harmless charsets_harmless(1,5) show ?thesis unfolding c harmless_append by blast
next
  case False
  let ?l = "map ascii_lower color"
  let ?fns = "[''rgb('', ''rgba('', ''hsl('', ''hsla('']"
  have l: "ToLower unicode_lower color = ?l" using assms(2) by (simp add: ToLower_def)
  note valid = assms(1) [unfolded isValidAccentColor_def l Let_def]
  have "harmless ?l"
  proof (cases "find (\<lambda>fn. has_prefix ?l fn) ?fns")
    case None
    with False valid have "?l \<in> set cssNamedColors" by (simp only: option.case if_False split: if_splits)
    with named_colors_letters letter_bits_harmless show ?thesis by (simp add: list_all_iff)
  next
    case (Some fn)
    from find_Some_set [OF Some] have fn: "fn \<in> set ?fns" "has_prefix ?l fn" by blast+
    from False valid Some have "has_suffix ?l '')''" "onlyNumericColorComponents (butlast (drop (length fn) ?l))"
      by (simp_all only: option.case if_False not_not split: if_splits)
    with call_parts [OF fn(2)] charsets_harmless(2,4) charsets_harmless(3) [OF fn(1)] onlyRunes_harmless
    show ?thesis unfolding onlyNumericColorComponents_def by blast
  qed
  then show ?thesis by (rule harmless_lower)
qed

lemma trimTrailingSlash_nonempty: "s \<noteq> [] \<Longrightarrow> trimTrailingSlash s \<noteq> []"
proof -
  have "t \<noteq> [] \<Longrightarrow> trimTrailingSlash_rev t \<noteq> []" for t
    by (induction t rule: trimTrailingSlash_rev.induct) auto
  then show "s \<noteq> [] \<Longrightarrow> trimTrailingSlash s \<noteq> []" by (simp add: trimTrailingSlash_def)
qed

lemma validateExtraNav_None:
  "validateExtraNav_from i entries = None \<longleftrightarrow> (\<forall>e\<in>set entries. ne_Label e \<noteq> [] \<and> ne_Href e \<noteq> [])"
  by (induction i entries rule: validateExtraNav_from.induct) auto

lemma validateEmptyStateCopy_None:
  "validateEmptyStateCopy overrides = None \<longleftrightarrow> (\<forall>(k, c)\<in>set overrides. map_get defaultEmptyStates k \<noteq> None)"
  by (auto simp: validateEmptyStateCopy_def find_None_iff)

text \<open>C34. A configuration that \<open>withDefaults\<close> accepts is well formed, whatever was given: the title and the base
  path are not empty, a page has between one and the most rows, the accent colour is a CSS colour literal (so it can be
  written into a style sheet), the heartbeat is not zero, overrides name known empty states and navigation entries have
  a label and a target; who is let in and whether it is read-only are what was configured.\<close>

theorem config_normalised:
  assumes "withDefaults unicode_lower s config = Inr c"
  shows "st_Title c \<noteq> [] \<and> st_BasePath c \<noteq> [] \<and> 1 \<le> st_PageSize c \<and> st_PageSize c \<le> 200
    \<and> isValidAccentColor unicode_lower (st_AccentColor c) \<and> st_SSEHeartbeatInterval c \<noteq> 0
    \<and> (\<forall>(k, copy)\<in>set (st_EmptyStateCopy c). map_get defaultEmptyStates k \<noteq> None)
    \<and> (\<forall>e\<in>set (st_ExtraNav c). ne_Label e \<noteq> [] \<and> ne_Href e \<noteq> [])
    \<and> st_ReadOnly c = st_ReadOnly config \<and> st_Authorizer c = st_Authorizer config
    \<and> st_ActorAuthorizer c = st_ActorAuthorizer config"
proof -
  let ?t = "textDefaults config"
  from assms have c: "c = numberDefaults ?t" and v: "validateAccentColor unicode_lower (st_AccentColor ?t) = None"
    "validateEmptyStateCopy (st_EmptyStateCopy c) = None" "validateExtraNav (st_ExtraNav c) = None"
    by (simp_all only: withDefaults_def Let_def split: if_splits option.splits sum.splits) auto
  have t: "st_Title ?t \<noteq> []" "st_BasePath ?t \<noteq> []" "st_ReadOnly ?t = st_ReadOnly config"
    "st_Authorizer ?t = st_Authorizer config" "st_ActorAuthorizer ?t = st_ActorAuthorizer config"
    by (simp_all add: textDefaults_def Let_def trimTrailingSlash_nonempty)
  have n: "st_Title c = st_Title ?t" "st_BasePath c = st_BasePath ?t" "st_AccentColor c = st_AccentColor ?t"
    "st_ReadOnly c = st_ReadOnly ?t" "st_Authorizer c = st_Authorizer ?t"
    "st_ActorAuthorizer c = st_ActorAuthorizer ?t" "1 \<le> st_PageSize c" "st_PageSize c \<le> 200"
    "st_SSEHeartbeatInterval c \<noteq> 0"
    by (simp_all add: c numberDefaults_def Let_def clampPageSize_def DefaultPageSize_def MaxPageSize_def)
  from v(1) n(3) have "isValidAccentColor unicode_lower (st_AccentColor c)"
    by (simp add: validateAccentColor_def split: if_splits)
  moreover from v(2) have "\<forall>(k, copy)\<in>set (st_EmptyStateCopy c). map_get defaultEmptyStates k \<noteq> None"
    by (simp only: validateEmptyStateCopy_None)
  moreover from v(3) have "\<forall>e\<in>set (st_ExtraNav c). ne_Label e \<noteq> [] \<and> ne_Href e \<noteq> []"
    by (simp only: validateExtraNav_def validateExtraNav_None)
  ultimately show ?thesis using t n by simp
qed

definition bare_settings :: settings where
  "bare_settings =
     \<lparr> st_Title = [], st_BasePath = ''/ops//'', st_AccentColor = [], st_ReadOnly = True, st_PageSize = 0,
       st_SSEHeartbeatInterval = 0, st_Authorizer = None, st_ActorAuthorizer = None, st_VersionzRequireAuth = False,
       st_EmptyStateCopy = [], st_ExtraNav = [\<lparr> ne_Label = ''Home'', ne_Href = ''/'', ne_Icon = [] \<rparr>] \<rparr>"

lemma bare_accepted:
  "\<exists>c. withDefaults id (no_sources \<lparr> dc_Journal := Some (Inr []) \<rparr>) bare_settings = Inr c"
proof -
  have "isValidAccentColor id ''#4f46e5''"
    by (simp add: isValidAccentColor_def isHexDigits_def onlyRunes_def
      maxAccentColorLen_def has_prefix_def)
  then show ?thesis
    by (simp add: withDefaults_def bare_settings_def textDefaults_def numberDefaults_def no_sources_def
      validateAccentColor_def validateEmptyStateCopy_def validateExtraNav_def Let_def)
qed

lemma config_normalised_witness:
  "\<exists>c. withDefaults id (no_sources \<lparr> dc_Journal := Some (Inr []) \<rparr>) bare_settings = Inr c
     \<and> st_Title c \<noteq> [] \<and> 1 \<le> st_PageSize c \<and> st_ReadOnly c \<and> isValidAccentColor id (st_AccentColor c)"
  using bare_accepted config_normalised [of id "no_sources \<lparr> dc_Journal := Some (Inr []) \<rparr>" bare_settings]
  by (auto simp: bare_settings_def)

text \<open>A projection host among the sources is never wired: its field is a pointer, which always counts as set.\<close>

theorem host_not_detected:
  assumes "\<forall>src\<in>set sources. \<exists>l. src = Leaf l" and "Autodetect derive sourceTypes sources = Inr config"
  shows "ds_ProjectionHost config = None"
proof -
  have "ds_ProjectionHost (fold (detect_step derive) sources c) = ds_ProjectionHost c" for c
    using assms(1)
  proof (induction sources arbitrary: c)
    case (Cons src sources)
    then obtain l where "src = Leaf l" by auto
    with Cons show ?case
      by (simp add: detect_step_def readProbes_def optionalProbes_def fieldProbe_def boxed_set_def)
  qed simp
  with assms(2) show ?thesis by (auto simp: Autodetect_def Let_def no_sources_def split: if_splits)
qed

end
