(* ===== verification/Dashboard_Access.thy ===== *)
theory Dashboard_Access
  imports Dashboard_Config Serve_Mux Dispatch_Gate
begin

text \<open>
  Who reaches what on the dashboard: the route table, the manifest and its postures (\<open>dashboardui/routes.go\<close>), the
  authorization guard and the actor of the audit log (\<open>dashboard.go\<close>, \<open>actor.go\<close>), the mux (\<open>handler.go\<close>), and
  the handlers that change something: projection reset, the dead letters' replay, deletion and purge, and the
  deletion of a snapshot (\<open>handlers_projections.go\<close>, \<open>handlers_dlq.go\<close>, \<open>handlers_snapshots.go\<close>).
\<close>

section \<open>The route table\<close>

datatype dash_handler =
    ServeCSS | ServeTwCSS | ServeJS | ServeHTMXScript
  | HealthzHandler | ReadyzHandler | VersionzHandler | OverviewHandler | SSEHandler
  | EventsIndexHandler | EventDetailHandler | AggregatesIndexHandler | AggregateDetailHandler
  | ProjectionsIndexHandler | ProjectionDetailHandler | ProjectionHealthPartialHandler | ProjectionResetHandler
  | DLQIndexHandler | DLQDetailHandler | DLQEntryDetailHandler | DLQReplayHandler | DLQDeleteHandler
  | DLQPurgeHandler | CommandsIndexHandler | CommandDetailHandler | CommandFatesIndexHandler
  | ThroughputIndexHandler | QueriesIndexHandler | QueryDetailHandler | TimeTravelIndexHandler
  | TimeTravelDetailHandler | TelemetryHandler | SnapshotsIndexHandler | SnapshotDetailHandler
  | SnapshotDeleteHandler | NotFoundHandler

datatype routeGuard = guardAlways | guardNever | guardVersionz

text \<open>\<open>when\<close> is a predicate on the capabilities and on \<open>ReadOnly\<close>; \<open>None\<close> is unconditional.\<close>

record routeSpec =
  rs_method :: string
  rs_pattern :: string
  rs_panel :: string
  rs_handler :: dash_handler
  rs_guardMode :: routeGuard
  rs_write :: bool
  rs_when :: "(Capabilities \<Rightarrow> bool \<Rightarrow> bool) option"

definition whenCaps :: "(Capabilities \<Rightarrow> bool) \<Rightarrow> (Capabilities \<Rightarrow> bool \<Rightarrow> bool) option" where
  "whenCaps predicate = Some (\<lambda>caps _. predicate caps)"

definition read_route :: "string \<Rightarrow> string \<Rightarrow> dash_handler \<Rightarrow> (Capabilities \<Rightarrow> bool) \<Rightarrow> routeSpec" where
  "read_route pattern panel h predicate =
     \<lparr> rs_method = GET, rs_pattern = pattern, rs_panel = panel, rs_handler = h, rs_guardMode = guardAlways,
       rs_write = False, rs_when = whenCaps predicate \<rparr>"

definition write_route :: "string \<Rightarrow> string \<Rightarrow> dash_handler \<Rightarrow> (Capabilities \<Rightarrow> bool) \<Rightarrow> routeSpec" where
  "write_route pattern panel h predicate =
     \<lparr> rs_method = POST, rs_pattern = pattern, rs_panel = panel, rs_handler = h, rs_guardMode = guardAlways,
       rs_write = True, rs_when = Some (\<lambda>caps readOnly. predicate caps \<and> \<not> readOnly) \<rparr>"

definition fixed_route :: "string \<Rightarrow> string \<Rightarrow> dash_handler \<Rightarrow> routeGuard \<Rightarrow> routeSpec" where
  "fixed_route pattern panel h mode =
     \<lparr> rs_method = GET, rs_pattern = pattern, rs_panel = panel, rs_handler = h, rs_guardMode = mode,
       rs_write = False, rs_when = None \<rparr>"

definition unconditionalRoutes :: "routeSpec list" where
  "unconditionalRoutes =
     [fixed_route ''/-/dashboard.css'' ''Assets'' ServeCSS guardAlways,
      fixed_route ''/-/dashboard-tw.css'' ''Assets'' ServeTwCSS guardAlways,
      fixed_route ''/-/dashboard.js'' ''Assets'' ServeJS guardAlways,
      fixed_route ''/-/htmx.js'' ''Assets'' ServeHTMXScript guardNever,
      fixed_route ''/-/healthz'' ''Observability'' HealthzHandler guardNever,
      fixed_route ''/-/readyz'' ''Observability'' ReadyzHandler guardNever,
      fixed_route ''/-/versionz'' ''Observability'' VersionzHandler guardVersionz,
      fixed_route ''/'' ''Overview'' OverviewHandler guardAlways]"

definition dead_letter_panel :: "Capabilities \<Rightarrow> bool" where
  "dead_letter_panel caps \<longleftrightarrow> cap_DeadLetterStore caps \<or> cap_ProjectionHost caps"

definition capabilityRoutes :: "routeSpec list" where
  "capabilityRoutes =
     [read_route ''/-/events/stream'' ''Live updates'' SSEHandler cap_EventBus,
      read_route ''/events'' ''Events'' EventsIndexHandler HasEventRead,
      read_route ''/events/{id}'' ''Events'' EventDetailHandler HasEventRead,
      read_route ''/aggregates'' ''Aggregates'' AggregatesIndexHandler
        (\<lambda>caps. cap_StreamReader caps \<or> cap_EventSource caps),
      read_route ''/aggregates/{type}/{id}'' ''Aggregates'' AggregateDetailHandler cap_EventSource,
      read_route ''/projections'' ''Projections'' ProjectionsIndexHandler cap_ProjectionHost,
      read_route ''/projections/{name}'' ''Projections'' ProjectionDetailHandler cap_ProjectionHost,
      read_route ''/-/partials/projection-health'' ''Projections'' ProjectionHealthPartialHandler cap_ProjectionHost,
      write_route ''/projections/{name}/reset'' ''Projections'' ProjectionResetHandler cap_ProjectionHost,
      read_route ''/dead-letters'' ''Dead letters'' DLQIndexHandler dead_letter_panel,
      read_route ''/dead-letters/{projection}'' ''Dead letters'' DLQDetailHandler dead_letter_panel,
      read_route ''/dead-letters/{projection}/{eventID}'' ''Dead letters'' DLQEntryDetailHandler dead_letter_panel,
      write_route ''/dead-letters/{projection}/replay'' ''Dead letters'' DLQReplayHandler cap_ProjectionHost,
      write_route ''/dead-letters/{projection}/{eventID}/delete'' ''Dead letters'' DLQDeleteHandler
        cap_DeadLetterStore,
      write_route ''/dead-letters/{projection}/purge'' ''Dead letters'' DLQPurgeHandler cap_DeadLetterStore,
      read_route ''/commands'' ''Commands'' CommandsIndexHandler cap_CommandJournal,
      read_route ''/commands/{id}'' ''Commands'' CommandDetailHandler cap_CommandJournal,
      read_route ''/command-fates'' ''Command fates'' CommandFatesIndexHandler HasEventRead,
      read_route ''/throughput'' ''Throughput'' ThroughputIndexHandler HasEventRead,
      read_route ''/queries'' ''Queries'' QueriesIndexHandler cap_QueryJournal,
      read_route ''/queries/{id}'' ''Queries'' QueryDetailHandler cap_QueryJournal]"

definition inspectionRoutes :: "routeSpec list" where
  "inspectionRoutes =
     [read_route ''/time-travel'' ''Time travel'' TimeTravelIndexHandler cap_EventSource,
      read_route ''/time-travel/{type}/{id}'' ''Time travel'' TimeTravelDetailHandler cap_EventSource,
      read_route ''/telemetry'' ''Telemetry'' TelemetryHandler cap_Telemetry,
      read_route ''/snapshots'' ''Snapshots'' SnapshotsIndexHandler cap_SnapshotStore,
      read_route ''/snapshots/{type}/{id}'' ''Snapshots'' SnapshotDetailHandler cap_SnapshotStore,
      write_route ''/snapshots/{type}/{id}/delete'' ''Snapshots'' SnapshotDeleteHandler cap_SnapshotStore]"

definition routeTable :: "routeSpec list" where
  "routeTable = unconditionalRoutes @ capabilityRoutes @ inspectionRoutes"

definition enabled :: "routeSpec \<Rightarrow> Capabilities \<Rightarrow> bool \<Rightarrow> bool" where
  "enabled spec caps readOnly \<longleftrightarrow> (case rs_when spec of None \<Rightarrow> True | Some cond \<Rightarrow> cond caps readOnly)"

section \<open>Authorization\<close>

text \<open>What an authorizer answers: an error, or the actor it knows.\<close>

definition actorAuthorizer :: "settings \<Rightarrow> (dash_request \<Rightarrow> err + Actor option) option" where
  "actorAuthorizer cfg =
     (case st_ActorAuthorizer cfg of
        Some f \<Rightarrow> Some (\<lambda>r. map_sum id Some (f r))
      | None \<Rightarrow>
          (case st_Authorizer cfg of
             Some f \<Rightarrow> Some (\<lambda>r. case f r of Some e \<Rightarrow> Inl e | None \<Rightarrow> Inr None)
           | None \<Rightarrow> None))"

definition WithActor :: "Actor \<Rightarrow> dash_request \<Rightarrow> dash_request" where
  "WithActor a r = r \<lparr> dq_Actor := Some a \<rparr>"

text \<open>A refused request gets \<open>refused\<close> (a 403); an admitted one is passed on with its actor.\<close>

definition guard :: "settings \<Rightarrow> 'b \<Rightarrow> (dash_request \<Rightarrow> 'b) \<Rightarrow> dash_request \<Rightarrow> 'b" where
  "guard cfg refused fn r =
     (case actorAuthorizer cfg of
        None \<Rightarrow> fn r
      | Some ask \<Rightarrow>
          (case ask r of
             Inl e \<Rightarrow> refused
           | Inr None \<Rightarrow> fn r
           | Inr (Some actor) \<Rightarrow> fn (WithActor actor r)))"

definition wrapped :: "settings \<Rightarrow> 'b \<Rightarrow> routeGuard \<Rightarrow> (dash_request \<Rightarrow> 'b) \<Rightarrow> dash_request \<Rightarrow> 'b" where
  "wrapped cfg refused mode fn =
     (case mode of
        guardVersionz \<Rightarrow> if \<not> st_VersionzRequireAuth cfg then fn else guard cfg refused fn
      | guardNever \<Rightarrow> fn
      | guardAlways \<Rightarrow> guard cfg refused fn)"

section \<open>The manifest\<close>

record Route =
  rt_Method :: string
  rt_Pattern :: string
  rt_Panel :: string
  rt_Write :: bool
  rt_Posture :: Posture
  rt_Why :: string

definition route_posture :: "settings \<Rightarrow> routeSpec \<Rightarrow> Posture \<times> string" where
  "route_posture cfg spec =
     (if rs_guardMode spec = guardNever then
        (PosturePublic, ''unguarded by design: observability probes and vendored scripts carry no data'')
      else if rs_guardMode spec = guardVersionz \<and> \<not> st_VersionzRequireAuth cfg then
        (PosturePublic, ''unguarded by default; Config.VersionzRequireAuth opts versionz into the guard'')
      else if actorAuthorizer cfg = None then
        (PostureUngated, ''no Authorizer configured: the dashboard enforces nothing itself '' @ em_dash
          @ '' the consumer's middleware owns the gate'')
      else (PostureRoleGated, ''behind the configured Authorizer (403 for callers it refuses)''))"

definition Routes :: "settings \<Rightarrow> Capabilities \<Rightarrow> Route list" where
  "Routes cfg caps =
     map (\<lambda>spec. let (posture, why) = route_posture cfg spec in
            \<lparr> rt_Method = rs_method spec, rt_Pattern = rs_pattern spec, rt_Panel = rs_panel spec,
              rt_Write = rs_write spec, rt_Posture = posture, rt_Why = why \<rparr>)
       (filter (\<lambda>spec. enabled spec caps (st_ReadOnly cfg)) routeTable)"

definition registrationPattern :: "string \<Rightarrow> string" where
  "registrationPattern pattern = (if pattern = ''/'' then ''/{$}'' else pattern)"

text \<open>The mux: a handler with its guard mode for every enabled row, and the styled 404 for any other GET.\<close>

definition routes :: "settings \<Rightarrow> Capabilities \<Rightarrow> (routeGuard \<times> dash_handler) mux" where
  "routes cfg caps =
     map (\<lambda>spec. \<lparr> mr_Method = rs_method spec, mr_Pattern = registrationPattern (rs_pattern spec),
            mr_Handler = (rs_guardMode spec, rs_handler spec) \<rparr>)
       (filter (\<lambda>spec. enabled spec caps (st_ReadOnly cfg)) routeTable)
     @ [\<lparr> mr_Method = GET, mr_Pattern = ''/'', mr_Handler = (guardAlways, NotFoundHandler) \<rparr>]"

section \<open>Handlers\<close>

text \<open>What the pages show.\<close>

datatype dash_page =
    OverviewPage Overview | EventsPage events_page | EventDetailPage event_detail | AggregatesPage stream_index
  | AggregateDetailPage aggregate_detail | ProjectionsPage "ProjectionStat list"
  | ProjectionDetailPage ProjectionStat | ProjectionHealthPanel "ProjectionStat list"
  | DLQIndexPage "DLQProjectionLink list" | DLQPage dlq_page | DLQEntryDetailPage dlq_entry_page
  | CommandsPage "PersistedCommand audit_page" | CommandDetailPage PersistedCommand
  | CommandFatesPage fates_page | ThroughputPage EventThroughput
  | QueriesPage "PersistedQuery audit_page" | QueryDetailPage PersistedQuery
  | TimeTravelIndexPage stream_index | TimeTravelDetailPage time_travel | TelemetryPage telemetryData
  | SnapshotsIndexPage stream_index | SnapshotDetailPage snapshot_page

text \<open>A reply of the dashboard. A write that fails sets an error toast and answers 500; one that succeeds sets a
  toast and redirects.\<close>

datatype dash_reply =
    Answered "dash_page answer"
  | Probed probe
  | VersionInfo Capabilities bool string string
  | Asset dash_handler
  | EventStream
  | WriteRefused nat string
  | WriteFailed string
  | WriteDone string string
  | NotFound404
  | Forbidden
  | Moved string
  | BadMethod "string list"
  | NoSuchRoute

text \<open>One entry of the audit log: the operation, its attributes, who did it and the request ID.\<close>

record audit_entry =
  au_Attrs :: "(string \<times> string) list"
  au_Actor :: "Actor option"
  au_RequestID :: string

definition audit :: "dash_request \<Rightarrow> (string \<times> string) list \<Rightarrow> audit_entry" where
  "audit r attrs =
     \<lparr> au_Attrs = attrs,
       au_Actor = (case dq_Actor r of Some a \<Rightarrow> if Actor_known a then Some a else None | None \<Rightarrow> None),
       au_RequestID = dq_RequestID r \<rparr>"

text \<open>The dashboard works on a world: what its interfaces answer in it, and the calls that change it.\<close>

record 'w dash_ops =
  op_sources :: "'w \<Rightarrow> dash_sources"
  op_closed :: "'w \<Rightarrow> bool"
  op_hub :: "'w \<Rightarrow> HubHealth option"
  op_Reset :: "string \<Rightarrow> 'w \<Rightarrow> err option \<times> 'w"
  op_ReplayDeadLetters :: "string \<Rightarrow> 'w \<Rightarrow> (err + nat \<times> nat) \<times> 'w"
  op_DeadLetter_Delete :: "string \<Rightarrow> string \<Rightarrow> 'w \<Rightarrow> err option \<times> 'w"
  op_DeadLetter_Purge :: "string \<Rightarrow> 'w \<Rightarrow> err option \<times> 'w"
  op_Snapshot_Delete :: "stream_ref \<Rightarrow> 'w \<Rightarrow> err option \<times> 'w"

type_synonym 'w served = "(dash_reply \<times> audit_entry list \<times> 'w) option"

definition audited :: "dash_request \<Rightarrow> (string \<times> string) list \<Rightarrow> string \<Rightarrow> string \<Rightarrow> string \<Rightarrow> err option \<times> 'w \<Rightarrow> 'w served" where
  "audited r attrs failed_toast done_toast target result =
     (case result of
        (Some e, w) \<Rightarrow> Some (WriteFailed failed_toast, [audit r (attrs @ [(''result'', ''error'')])], w)
      | (None, w) \<Rightarrow> Some (WriteDone done_toast target, [audit r (attrs @ [(''result'', ''ok'')])], w))"

definition projectionResetHandler :: "'w dash_ops \<Rightarrow> settings \<Rightarrow> dash_request \<Rightarrow> string \<Rightarrow> 'w \<Rightarrow> 'w served" where
  "projectionResetHandler P cfg r name w =
     (if ds_ProjectionHost (op_sources P w) = None then
        Some (WriteRefused 400 ''projection host not configured'', [], w)
      else audited r [(''op'', ''projection.reset''), (''projection'', name)] ''Reset failed'' ''Projection reset''
        (st_BasePath cfg @ ''/projections'') (op_Reset P name w))"

definition dlqReplayHandler :: "'w dash_ops \<Rightarrow> settings \<Rightarrow> dash_request \<Rightarrow> string \<Rightarrow> 'w \<Rightarrow> 'w served" where
  "dlqReplayHandler P cfg r proj w =
     (if ds_ProjectionHost (op_sources P w) = None then
        Some (WriteRefused 400 ''projection host not configured'', [], w)
      else
        (let attrs = [(''op'', ''dlq.replay''), (''projection'', proj)] in
         case op_ReplayDeadLetters P proj w of
           (Inl e, w') \<Rightarrow> Some (WriteFailed ''Replay failed'', [audit r (attrs @ [(''result'', ''error'')])], w')
         | (Inr (replayed, failing), w') \<Rightarrow>
             Some (WriteDone (''Replayed '' @ show_nat replayed @ '', '' @ show_nat failing @ '' still failing'')
                     (st_BasePath cfg @ ''/dead-letters/'' @ proj),
                   [audit r (attrs @ [(''replayed'', show_nat replayed), (''still_failing'', show_nat failing),
                      (''result'', ''ok'')])], w')))"

definition dlqDeleteHandler :: "'w dash_ops \<Rightarrow> settings \<Rightarrow> dash_request \<Rightarrow> string \<Rightarrow> string \<Rightarrow> 'w \<Rightarrow> 'w served" where
  "dlqDeleteHandler P cfg r proj eventID w =
     (if ds_DeadLetterStore (op_sources P w) = None then
        Some (WriteRefused 400 ''dead letter store not configured'', [], w)
      else audited r [(''op'', ''dlq.delete''), (''projection'', proj), (''event_id'', eventID)] ''Delete failed''
        ''Dead letter deleted'' (st_BasePath cfg @ ''/dead-letters/'' @ proj) (op_DeadLetter_Delete P proj eventID w))"

definition dlqPurgeHandler :: "'w dash_ops \<Rightarrow> settings \<Rightarrow> dash_request \<Rightarrow> string \<Rightarrow> 'w \<Rightarrow> 'w served" where
  "dlqPurgeHandler P cfg r proj w =
     (if ds_DeadLetterStore (op_sources P w) = None then
        Some (WriteRefused 400 ''dead letter store not configured'', [], w)
      else audited r [(''op'', ''dlq.purge''), (''projection'', proj)] ''Purge failed'' ''Dead letters purged''
        (st_BasePath cfg @ ''/dead-letters/'' @ proj) (op_DeadLetter_Purge P proj w))"

text \<open>Deleting a snapshot that is gone is a success.\<close>

definition snapshotDeleteHandler ::
  "panel_env \<Rightarrow> 'w dash_ops \<Rightarrow> settings \<Rightarrow> dash_request \<Rightarrow> string \<Rightarrow> string \<Rightarrow> 'w \<Rightarrow> 'w served" where
  "snapshotDeleteHandler N P cfg r streamType streamID w =
     (if ds_SnapshotStore (op_sources P w) = None then
        Some (WriteRefused 400 ''snapshot store not configured'', [], w)
      else case StreamRefFromID (dash_env.truncate N) streamType streamID of
        None \<Rightarrow> Some (WriteRefused 400 ''invalid stream reference'', [], w)
      | Some ref \<Rightarrow>
          (case op_Snapshot_Delete P ref w of
             (deleteErr, w') \<Rightarrow>
               audited r [(''op'', ''snapshot.delete''), (''stream_type'', fst ref), (''stream_id'', snd ref)]
                 ''Delete failed'' ''Snapshot deleted'' (st_BasePath cfg @ ''/snapshots'')
                 (case deleteErr of
                    Some e \<Rightarrow> if pe_is_snapshot_missing N e then None else Some e
                  | None \<Rightarrow> None, w')))"

text \<open>The handlers that only read; \<open>vars\<close> are the path values of the pattern.\<close>

definition page_reply :: "('p \<Rightarrow> dash_page) \<Rightarrow> 'p answer option \<Rightarrow> dash_reply option" where
  "page_reply show_page r = map_option (\<lambda>a. Answered (map_answer show_page a)) r"

definition read_reply ::
  "panel_env \<Rightarrow> settings \<Rightarrow> Capabilities \<Rightarrow> dash_sources \<Rightarrow> bool \<Rightarrow> HubHealth option \<Rightarrow> dash_handler \<Rightarrow> query
   \<Rightarrow> (string \<times> string) list \<Rightarrow> dash_reply option" where
  "read_reply N cfg caps s closed hub h q vars =
     (let D = dash_env.truncate N; E = pe_errors N; core = coreConfig s; n = st_PageSize cfg;
          path = PathValue vars in
      case h of
        OverviewHandler \<Rightarrow>
          map_option (\<lambda>ov. Answered (RenderPage (OverviewPage (ov \<lparr> ov_SSEHub := hub \<rparr>)))) (FetchOverview N s n)
      | EventsIndexHandler \<Rightarrow> page_reply EventsPage (eventsIndexHandler D core n q)
      | EventDetailHandler \<Rightarrow> page_reply EventDetailPage (eventDetailHandler N core (path ''id''))
      | AggregatesIndexHandler \<Rightarrow> page_reply AggregatesPage (Some (aggregatesIndexHandler D (ds_StreamReader s) n q))
      | AggregateDetailHandler \<Rightarrow>
          page_reply AggregateDetailPage
            (Some (aggregateDetailHandler D (ds_EventSource s) n q (path ''type'') (path ''id'')))
      | ProjectionsIndexHandler \<Rightarrow>
          Some (Answered (RenderPage (ProjectionsPage (ProjectionStats N (ds_ProjectionHost s)))))
      | ProjectionDetailHandler \<Rightarrow>
          page_reply ProjectionDetailPage (Some (projectionDetailHandler N (ds_ProjectionHost s) (path ''name'')))
      | ProjectionHealthPartialHandler \<Rightarrow>
          Some (Answered (RenderPage (ProjectionHealthPanel (ProjectionStats N (ds_ProjectionHost s)))))
      | DLQIndexHandler \<Rightarrow> Some (Answered (RenderPage (DLQIndexPage (DLQProjectionLinks s))))
      | DLQDetailHandler \<Rightarrow> page_reply DLQPage (Some (dlqDetailHandler (ds_DeadLetterStore s) (path ''projection'')))
      | DLQEntryDetailHandler \<Rightarrow>
          page_reply DLQEntryDetailPage
            (Some (dlqEntryDetailHandler N (ds_DeadLetterStore s) (path ''projection'') (path ''eventID'')))
      | CommandsIndexHandler \<Rightarrow> page_reply CommandsPage (commandsIndexHandler D (ds_CommandJournal s) n q)
      | CommandDetailHandler \<Rightarrow>
          (case ds_CommandJournal s of
             None \<Rightarrow> Some (Answered Panicked)
           | Some j \<Rightarrow> page_reply CommandDetailPage (commandDetailHandler E D j (path ''id'')))
      | CommandFatesIndexHandler \<Rightarrow> page_reply CommandFatesPage (commandFatesIndexHandler N core n q)
      | ThroughputIndexHandler \<Rightarrow> page_reply ThroughputPage (throughputIndexHandler N core q)
      | QueriesIndexHandler \<Rightarrow> page_reply QueriesPage (queriesIndexHandler D (ds_QueryJournal s) n q)
      | QueryDetailHandler \<Rightarrow>
          (case ds_QueryJournal s of
             None \<Rightarrow> Some (Answered Panicked)
           | Some j \<Rightarrow> page_reply QueryDetailPage (queryDetailHandler E D j (path ''id'')))
      | TimeTravelIndexHandler \<Rightarrow> page_reply TimeTravelIndexPage (Some (renderStreamIndex E D (ds_StreamReader s) n q))
      | TimeTravelDetailHandler \<Rightarrow>
          page_reply TimeTravelDetailPage
            (Some (timeTravelDetailHandler D (ds_EventSource s) q (path ''type'') (path ''id'')))
      | TelemetryHandler \<Rightarrow> page_reply TelemetryPage (Some (telemetryHandler s))
      | SnapshotsIndexHandler \<Rightarrow> page_reply SnapshotsIndexPage (Some (renderStreamIndex E D (ds_StreamReader s) n q))
      | SnapshotDetailHandler \<Rightarrow>
          page_reply SnapshotDetailPage
            (Some (snapshotDetailHandler N (ds_SnapshotStore s) (path ''type'') (path ''id'')))
      | HealthzHandler \<Rightarrow> Some (Probed (healthzHandler closed s))
      | ReadyzHandler \<Rightarrow> Some (Probed (readyzHandler closed caps s))
      | VersionzHandler \<Rightarrow> Some (VersionInfo caps (st_ReadOnly cfg) (st_BasePath cfg) (st_Title cfg))
      | SSEHandler \<Rightarrow> Some EventStream
      | NotFoundHandler \<Rightarrow> Some NotFound404
      | _ \<Rightarrow> Some (Asset h))"

definition handle_dash ::
  "panel_env \<Rightarrow> 'w dash_ops \<Rightarrow> settings \<Rightarrow> Capabilities \<Rightarrow> dash_handler \<Rightarrow> (string \<times> string) list \<Rightarrow> 'w \<Rightarrow> dash_request
   \<Rightarrow> 'w served" where
  "handle_dash N P cfg caps h vars w r =
     (let path = PathValue vars in
      if h = ProjectionResetHandler then projectionResetHandler P cfg r (path ''name'') w
      else if h = DLQReplayHandler then dlqReplayHandler P cfg r (path ''projection'') w
      else if h = DLQDeleteHandler then dlqDeleteHandler P cfg r (path ''projection'') (path ''eventID'') w
      else if h = DLQPurgeHandler then dlqPurgeHandler P cfg r (path ''projection'') w
      else if h = SnapshotDeleteHandler then snapshotDeleteHandler N P cfg r (path ''type'') (path ''id'') w
      else map_option (\<lambda>reply. (reply, [], w))
        (read_reply N cfg caps (op_sources P w) (op_closed P w) (op_hub P w) h (ParseQuery (dq_RawQuery r)) vars))"

text \<open>One request on the dashboard's own paths.\<close>

definition serve_dashboard ::
  "panel_env \<Rightarrow> 'w dash_ops \<Rightarrow> settings \<Rightarrow> Capabilities \<Rightarrow> dash_request \<Rightarrow> 'w \<Rightarrow> 'w served" where
  "serve_dashboard N P cfg caps r w =
     (case findHandler (routes cfg caps) (dq_Method r) (dq_Path r) of
        mux_answer.Handled (mode, h) vars \<Rightarrow>
          wrapped cfg (Some (Forbidden, [], w)) mode (handle_dash N P cfg caps h vars w) r
      | MovedTo path \<Rightarrow> Some (Moved path, [], w)
      | MethodNotAllowed ms \<Rightarrow> Some (BadMethod ms, [], w)
      | NoRoute \<Rightarrow> Some (NoSuchRoute, [], w))"

section \<open>The rows of the table\<close>

definition writing :: "dash_handler set" where
  "writing = {ProjectionResetHandler, DLQReplayHandler, DLQDeleteHandler, DLQPurgeHandler, SnapshotDeleteHandler}"

lemmas route_defs = routeTable_def unconditionalRoutes_def capabilityRoutes_def inspectionRoutes_def
  fixed_route_def read_route_def write_route_def whenCaps_def

lemma write_rows:
  "\<forall>spec\<in>set routeTable. rs_handler spec \<in> writing \<longrightarrow>
     rs_method spec = POST \<and> rs_guardMode spec = guardAlways \<and> (enabled spec caps ro \<longrightarrow> \<not> ro)"
  by (simp add: route_defs writing_def enabled_def)

lemma read_only_rows: "\<forall>spec\<in>set routeTable. enabled spec caps True \<longrightarrow> \<not> rs_write spec"
  by (simp add: route_defs enabled_def)

lemma served_row:
  assumes "findHandler (routes cfg caps) m p = mux_answer.Handled (mode, h) vars"
  shows "(\<exists>spec\<in>set routeTable. enabled spec caps (st_ReadOnly cfg) \<and> mode = rs_guardMode spec
        \<and> h = rs_handler spec \<and> method_serves (rs_method spec) m
        \<and> seg_match (parse_pattern (registrationPattern (rs_pattern spec))) (path_segments p))
      \<or> mode = guardAlways \<and> h = NotFoundHandler"
proof -
  from assms obtain r where "r \<in> set (routes cfg caps)" "(mode, h) = mr_Handler r" "method_serves (mr_Method r) m"
    "seg_match (parse_pattern (mr_Pattern r)) (path_segments p)"
    by (rule findHandler_sound)
  then show ?thesis by (auto simp: routes_def)
qed

section \<open>Writes\<close>

lemma read_handlers_keep_world:
  "h \<notin> writing \<Longrightarrow> handle_dash N P cfg caps h vars w r = Some (reply, log, w') \<Longrightarrow> w' = w \<and> log = []"
  by (auto simp: handle_dash_def writing_def Let_def)

text \<open>The entry of the audit log of a request: who, by which request.\<close>

definition logged_for :: "dash_request \<Rightarrow> audit_entry list \<Rightarrow> bool" where
  "logged_for r log \<longleftrightarrow> (\<exists>attrs. log = [audit r attrs])"

lemma write_handlers_log:
  assumes "handle_dash N P cfg caps h vars w r = Some (reply, log, w')" and "w' \<noteq> w"
  shows "h \<in> writing \<and> logged_for r log"
proof -
  have "h \<in> writing" using read_handlers_keep_world [OF _ assms(1)] assms(2) by auto
  moreover have "logged_for r log" if "audited r attrs f d t res = Some (reply, log, w')" for attrs f d t and res :: "err option \<times> 'a"
    using that by (cases res) (auto simp: audited_def logged_for_def split: option.splits)
  then have "logged_for r log" using assms
    by (auto simp: handle_dash_def projectionResetHandler_def dlqReplayHandler_def dlqDeleteHandler_def
        dlqPurgeHandler_def snapshotDeleteHandler_def logged_for_def Let_def
        split: if_splits option.splits prod.splits sum.splits)
  ultimately show ?thesis ..
qed

text \<open>The request a guarded handler is given: the actor the authorizer answered is in its context.\<close>

definition admitted_as :: "settings \<Rightarrow> dash_request \<Rightarrow> dash_request option" where
  "admitted_as cfg r =
     (case actorAuthorizer cfg of
        None \<Rightarrow> Some r
      | Some ask \<Rightarrow>
          (case ask r of Inl e \<Rightarrow> None | Inr None \<Rightarrow> Some r | Inr (Some actor) \<Rightarrow> Some (WithActor actor r)))"

lemma guard_admits: "guard cfg refused fn r = (case admitted_as cfg r of None \<Rightarrow> refused | Some r' \<Rightarrow> fn r')"
  by (simp add: guard_def admitted_as_def split: option.splits sum.splits)

text \<open>C27. Nothing a request does changes the state behind the dashboard unless it is a POST, the dashboard is not
  read-only, and the configured authorizer admitted it; and then there is exactly one entry in the audit log,
  which names the actor the authorizer answered (or the one the consumer's middleware put into the context) and
  the request.\<close>

theorem dashboard_writes_guarded:
  assumes "serve_dashboard N P cfg caps r w = Some (reply, log, w')" and "w' \<noteq> w"
  shows "dq_Method r = POST \<and> \<not> st_ReadOnly cfg \<and> (\<exists>r' attrs. admitted_as cfg r = Some r' \<and> log = [audit r' attrs])"
proof -
  from assms obtain mode h vars where f: "findHandler (routes cfg caps) (dq_Method r) (dq_Path r)
      = mux_answer.Handled (mode, h) vars"
    and s: "wrapped cfg (Some (Forbidden, [], w)) mode (handle_dash N P cfg caps h vars w) r = Some (reply, log, w')"
    by (auto simp: serve_dashboard_def split: mux_answer.splits)
  obtain r' where r': "handle_dash N P cfg caps h vars w r' = Some (reply, log, w')"
    "mode = guardAlways \<longrightarrow> admitted_as cfg r = Some r'"
    using s assms(2)
    by (auto simp: wrapped_def guard_admits split: routeGuard.splits if_splits option.splits)
  from write_handlers_log [OF r'(1) assms(2)] have h: "h \<in> writing" "logged_for r' log" by auto
  from served_row [OF f] h(1) obtain spec where spec: "spec \<in> set routeTable" "enabled spec caps (st_ReadOnly cfg)"
    "mode = rs_guardMode spec" "h = rs_handler spec" "method_serves (rs_method spec) (dq_Method r)"
    by (auto simp: writing_def)
  from write_rows [of caps "st_ReadOnly cfg"] spec h(1) have row: "rs_method spec = POST" "mode = guardAlways"
    "\<not> st_ReadOnly cfg" by auto
  from spec(5) row(1) have "dq_Method r = POST" by (simp add: method_serves_def GET_def POST_def)
  with row r'(2) h(2) show ?thesis by (auto simp: logged_for_def)
qed

section \<open>The manifest tells the truth\<close>

text \<open>C28. Every request a handler of the table answers belongs to a row of the manifest, and is treated as that row
  says: a public one is handled without asking anyone, a role-gated one is refused with 403 exactly when the
  configured authorizer refuses it and is handled with the authorizer's actor otherwise, and a row is ungated
  only when no authorizer is configured. A read-only dashboard lists no write.\<close>

theorem dashboard_manifest_true:
  assumes "findHandler (routes cfg caps) (dq_Method r) (dq_Path r) = mux_answer.Handled (mode, h) vars"
    and "h \<noteq> NotFoundHandler"
  shows "\<exists>rt\<in>set (Routes cfg caps). method_serves (rt_Method rt) (dq_Method r)
    \<and> seg_match (parse_pattern (registrationPattern (rt_Pattern rt))) (path_segments (dq_Path r))
    \<and> (st_ReadOnly cfg \<longrightarrow> \<not> rt_Write rt)
    \<and> (let answer = serve_dashboard N P cfg caps r w; run = handle_dash N P cfg caps h vars w in
       (rt_Posture rt = PosturePublic \<and> answer = run r)
       \<or> (rt_Posture rt = PostureUngated \<and> actorAuthorizer cfg = None \<and> answer = run r)
       \<or> (rt_Posture rt = PostureRoleGated \<and> actorAuthorizer cfg \<noteq> None
          \<and> answer = (case admitted_as cfg r of None \<Rightarrow> Some (Forbidden, [], w) | Some r' \<Rightarrow> run r')))"
proof -
  from served_row [OF assms(1)] assms(2) obtain spec where spec: "spec \<in> set routeTable"
    "enabled spec caps (st_ReadOnly cfg)" "mode = rs_guardMode spec" "h = rs_handler spec"
    "method_serves (rs_method spec) (dq_Method r)"
    "seg_match (parse_pattern (registrationPattern (rs_pattern spec))) (path_segments (dq_Path r))"
    by auto
  let ?rt = "\<lparr> rt_Method = rs_method spec, rt_Pattern = rs_pattern spec, rt_Panel = rs_panel spec,
    rt_Write = rs_write spec, rt_Posture = fst (route_posture cfg spec), rt_Why = snd (route_posture cfg spec) \<rparr>"
  have "?rt \<in> set (Routes cfg caps)" using spec(1,2) by (force simp: Routes_def split_beta Let_def)
  moreover have "st_ReadOnly cfg \<longrightarrow> \<not> rs_write spec" using read_only_rows [of caps] spec(1,2) by auto
  moreover have "serve_dashboard N P cfg caps r w
      = wrapped cfg (Some (Forbidden, [], w)) (rs_guardMode spec) (handle_dash N P cfg caps h vars w) r"
    using assms(1) spec(3) by (simp add: serve_dashboard_def)
  moreover have "admitted_as cfg r = Some r" if "actorAuthorizer cfg = None" using that by (simp add: admitted_as_def)
  ultimately show ?thesis using spec(5,6)
    by (intro bexI [of _ ?rt])
      (auto simp: Let_def wrapped_def guard_admits route_posture_def posture_defs split: routeGuard.splits)
qed

section \<open>Every request is answered\<close>

lemma throughput_answers:
  assumes "good_ids je_ID es" and "reads cfg es"
  shows "\<exists>r. throughputIndexHandler N cfg q = Some (RenderPage r)"
proof -
  let ?b = "parseThroughputBuckets q throughputBuckets"
  have b: "0 < ?b" "?b \<le> throughputSpan"
    by (auto simp: parseThroughputBuckets_def throughputBuckets_def minThroughputBuckets_def
        maxThroughputBuckets_def throughputSpan_def Let_def split: option.splits)
  show ?thesis
  proof (cases "es = []")
    case True
    with tail_scan_ends [OF assms, of filter_zero throughputScanLimit] b show ?thesis
      by (simp add: throughputIndexHandler_def LoadEventThroughput_def newest_def Let_def throughputSpan_def)
  next
    case False
    from throughput_counts [OF assms False b refl, of "pe_bucket_label N"] show ?thesis
      by (auto simp: throughputIndexHandler_def)
  qed
qed

lemma detail_answers:
  assumes "good_ids je_ID es" and "reads cfg es"
  shows "\<exists>r. eventDetailHandler N cfg pathID = Some r \<and> r \<noteq> Panicked"
proof -
  have "\<exists>r. LoadEventByID cfg i = Some r" for i
    using event_by_id_found [OF assms, of i] by (cases "dc_EventByIDLoader cfg") (auto simp: LoadEventByID_def)
  moreover have "FindEventNeighbors cfg i \<noteq> None" for i
  proof (cases "dc_SeekableJournal cfg")
    case None
    with assms(2) show ?thesis by (simp add: reads_def FindEventNeighbors_def)
  next
    case (Some R)
    with assms(2) have "seekable je_ID R es" by (simp add: reads_def)
    from seekable.scan_ends [OF this assms(1) le0 batch_pos] Some show ?thesis
      by (auto simp: FindEventNeighbors_def cursor_at_def)
  qed
  ultimately show ?thesis
    by (simp add: eventDetailHandler_def renderLoadError_def split: option.splits sum.splits) (metis answer.distinct not_None_eq)
qed

text \<open>What the interfaces promise: a journal that is there keeps the contract of its kind, and its identifiers parse.\<close>

definition keeps_audit :: "(string \<Rightarrow> string option) \<Rightarrow> ('i \<Rightarrow> string) \<Rightarrow> 'i audit_journal option \<Rightarrow> bool" where
  "keeps_audit parse idOf journal \<longleftrightarrow>
     (case journal of
        None \<Rightarrow> True
      | Some j \<Rightarrow>
          \<exists>items. good_ids idOf items \<and> audits idOf j items
            \<and> (\<forall>item\<in>set items. parse (idOf item) = Some (idOf item))
            \<and> (case parse [] of None \<Rightarrow> [] | Some c \<Rightarrow> c) = [])"

definition keeps_contracts :: "panel_env \<Rightarrow> dash_sources \<Rightarrow> bool" where
  "keeps_contracts N s \<longleftrightarrow>
     (dc_Journal s = None \<and> dc_SeekableJournal s = None \<or> (\<exists>es. good_ids je_ID es \<and> reads (coreConfig s) es))
     \<and> keeps_audit (dn_ParseCommandID N) pi_ID (ds_CommandJournal s)
     \<and> keeps_audit (dn_ParseRequestID N) pi_ID (ds_QueryJournal s)"

lemma audit_answers:
  assumes "keeps_audit parse idOf (Some j)"
  shows "\<exists>items. loadAll idOf plural singular j = Some (Inr items)" and "\<exists>r. loadByID parse idOf what j i = Some r"
proof -
  from assms obtain items where i: "good_ids idOf items" "audits idOf j items"
    "\<And>item. item \<in> set items \<Longrightarrow> parse (idOf item) = Some (idOf item)"
    "(case parse [] of None \<Rightarrow> [] | Some c \<Rightarrow> c) = []"
    by (auto simp: keeps_audit_def)
  from loadAll_complete [OF i(1,2)] show "\<exists>items. loadAll idOf plural singular j = Some (Inr items)" by blast
  from detail_found [OF i] show "\<exists>r. loadByID parse idOf what j i = Some r" by blast
qed

definition answers :: "'p answer option \<Rightarrow> bool" where
  "answers x \<longleftrightarrow> x \<noteq> None \<and> x \<noteq> Some Panicked"

lemma parse_answers: "parseAfterCursor parse raw = Inl a \<Longrightarrow> a \<noteq> Panicked"
  by (auto simp: parseAfterCursor_def split: if_splits option.splits)

lemma export_answers [simp]:
  "exportCommandsCSV D cmds \<noteq> Panicked" "exportCommandsJSON D cmds \<noteq> Panicked"
  "exportQueriesCSV D qs \<noteq> Panicked" "exportQueriesJSON D qs \<noteq> Panicked"
  "exportEventsCSV f es \<noteq> Panicked" "exportEventsJSON f es \<noteq> Panicked" "renderLoadError E what e \<noteq> Panicked"
  by (simp_all add: exportCommandsCSV_def exportCommandsJSON_def exportQueriesCSV_def exportQueriesJSON_def
      exportEventsCSV_def exportEventsJSON_def writeCSV_def renderLoadError_def)

lemma commands_answer:
  assumes "keeps_audit (dn_ParseCommandID D) pi_ID j"
  shows "answers (commandsIndexHandler D j n q)"
proof (cases j)
  case (Some journal)
  with audit_answers(1) [of "dn_ParseCommandID D" pi_ID journal "''commands''" "''command''"] assms
  obtain items where "loadAllCommands journal = Some (Inr items)" by (auto simp: loadAllCommands_def)
  with Some show ?thesis
    by (auto simp: answers_def commandsIndexHandler_def Let_def split: prod.splits sum.splits dest: parse_answers)
qed (auto simp: answers_def commandsIndexHandler_def Let_def split: prod.splits sum.splits dest: parse_answers)

lemma queries_answer:
  assumes "keeps_audit (dn_ParseRequestID D) pi_ID j"
  shows "answers (queriesIndexHandler D j n q)"
proof (cases j)
  case (Some journal)
  with audit_answers(1) [of "dn_ParseRequestID D" pi_ID journal "''queries''" "''query''"] assms
  obtain items where "loadAllQueries journal = Some (Inr items)" by (auto simp: loadAllQueries_def)
  with Some show ?thesis
    by (auto simp: answers_def queriesIndexHandler_def Let_def split: prod.splits sum.splits dest: parse_answers)
qed (auto simp: answers_def queriesIndexHandler_def Let_def split: prod.splits sum.splits dest: parse_answers)

lemma one_item_answers:
  "keeps_audit (dn_ParseCommandID D) pi_ID (Some j) \<Longrightarrow> answers (commandDetailHandler E D j i)"
  "keeps_audit (dn_ParseRequestID D) pi_ID (Some j') \<Longrightarrow> answers (queryDetailHandler E D j' i)"
  using audit_answers(2) [of "dn_ParseCommandID D" pi_ID j "''command''"]
    audit_answers(2) [of "dn_ParseRequestID D" pi_ID j' "''query''"]
  by (auto simp: answers_def commandDetailHandler_def queryDetailHandler_def loadCommandByID_def loadQueryByID_def
      split: option.splits sum.splits)

lemma events_answer:
  assumes "good_ids je_ID es" and "reads cfg es"
  shows "answers (eventsIndexHandler D cfg n q)" "answers (eventDetailHandler N cfg i)"
    "answers (commandFatesIndexHandler N cfg n q)" "answers (throughputIndexHandler N cfg q)"
proof -
  show "answers (eventsIndexHandler D cfg n q)"
    using tail_scan_ends [OF assms, of "ParseEventFilter q" exportLimit]
    by (auto simp: answers_def eventsIndexHandler_def exportEvents_def events_index_page_def Let_def
        split: prod.splits sum.splits dest: parse_answers)
  show "answers (eventDetailHandler N cfg i)"
    using detail_answers [OF assms, of N i] by (auto simp: answers_def)
  show "answers (commandFatesIndexHandler N cfg n q)"
    using command_fates_newest [OF assms] by (auto simp: answers_def commandFatesIndexHandler_def)
  show "answers (throughputIndexHandler N cfg q)"
    using throughput_answers [OF assms] by (fastforce simp: answers_def)
qed

lemma stream_answers:
  "answers (Some (aggregatesIndexHandler D SR n q))" "answers (Some (renderStreamIndex E D SR n q))"
  "answers (Some (aggregateDetailHandler D (Some src) n q t i))"
  "answers (Some (timeTravelDetailHandler D (Some src) q t i))"
  "answers (Some (snapshotDetailHandler N (Some Load) t i))"
  "answers (Some (projectionDetailHandler N host name))"
  "answers (Some (dlqDetailHandler store name))" "answers (Some (dlqEntryDetailHandler N store name i))"
  "answers (Some (telemetryHandler s))"
  by (auto simp: answers_def aggregatesIndexHandler_def renderStreamIndex_def aggregateDetailHandler_def
      timeTravelDetailHandler_def snapshotDetailHandler_def projectionDetailHandler_def dlqDetailHandler_def
      dlqEntryDetailHandler_def telemetryHandler_def loadStreamFromRequest_def Let_def
      split: prod.splits sum.splits option.splits dest: parse_answers)

text \<open>What a panel needs is what its route asks for.\<close>

definition panel_ready :: "Capabilities \<Rightarrow> dash_handler \<Rightarrow> bool" where
  "panel_ready caps h \<longleftrightarrow>
     (h \<in> {EventsIndexHandler, EventDetailHandler, CommandFatesIndexHandler, ThroughputIndexHandler}
        \<longrightarrow> HasEventRead caps)
     \<and> (h \<in> {AggregateDetailHandler, TimeTravelDetailHandler} \<longrightarrow> cap_EventSource caps)
     \<and> (h = CommandDetailHandler \<longrightarrow> cap_CommandJournal caps) \<and> (h = QueryDetailHandler \<longrightarrow> cap_QueryJournal caps)
     \<and> (h = SnapshotDetailHandler \<longrightarrow> cap_SnapshotStore caps)"

lemma rows_ready: "\<forall>spec\<in>set routeTable. enabled spec caps ro \<longrightarrow> panel_ready caps (rs_handler spec)"
  by (simp add: route_defs enabled_def panel_ready_def)

lemma map_answer_panicked: "map_answer f y = Panicked \<longleftrightarrow> y = Panicked"
  by (cases y) simp_all

lemma page_reply_answers:
  "answers x \<Longrightarrow> \<exists>reply. page_reply f x = Some reply \<and> reply \<noteq> Answered Panicked"
  by (auto simp: answers_def page_reply_def map_answer_panicked)

lemma overview_answers: "keeps_contracts N' s \<Longrightarrow> \<exists>ov. FetchOverview N s n = Some ov"
  using tail_scan_ends [of _ "coreConfig s" filter_zero RecentEventsLimit]
  by (fastforce simp: keeps_contracts_def FetchOverview_def Let_def split: prod.splits)

lemma read_reply_answers:
  assumes "keeps_contracts N s" and "panel_ready (DetectCapabilities s) h"
  shows "\<exists>reply. read_reply N cfg (DetectCapabilities s) s closed hub h q vars = Some reply \<and> reply \<noteq> Answered Panicked"
proof -
  let ?D = "dash_env.truncate N"
  have audits: "keeps_audit (dn_ParseCommandID ?D) pi_ID (ds_CommandJournal s)"
    "keeps_audit (dn_ParseRequestID ?D) pi_ID (ds_QueryJournal s)"
    using assms(1) by (simp_all add: keeps_contracts_def dash_env.truncate_def)
  note reply = read_reply_def Let_def page_reply_answers
  show ?thesis
  proof (cases "h \<in> {EventsIndexHandler, EventDetailHandler, CommandFatesIndexHandler, ThroughputIndexHandler}")
    case True
    with assms(2) have "dc_Journal s \<noteq> None \<or> dc_SeekableJournal s \<noteq> None"
      by (auto simp: panel_ready_def DetectCapabilities_def HasEventRead_def)
    with assms(1) obtain es where es: "good_ids je_ID es" "reads (coreConfig s) es"
      by (auto simp: keeps_contracts_def)
    from True show ?thesis
      by (elim insertE emptyE) (simp_all add: reply events_answer [OF es])
  next
    case False
    show ?thesis
    proof (cases h)
      case OverviewHandler
      from overview_answers [OF assms(1), of N "st_PageSize cfg"] obtain ov
        where "FetchOverview N s (st_PageSize cfg) = Some ov" ..
      with OverviewHandler show ?thesis by (simp add: read_reply_def Let_def)
    next
      case CommandsIndexHandler
      with commands_answer [OF audits(1)] show ?thesis by (simp add: reply)
    next
      case QueriesIndexHandler
      with queries_answer [OF audits(2)] show ?thesis by (simp add: reply)
    next
      case CommandDetailHandler
      with assms(2) obtain j where j: "ds_CommandJournal s = Some j"
        by (auto simp: panel_ready_def DetectCapabilities_def)
      from one_item_answers(1) [OF audits(1) [unfolded j]] CommandDetailHandler j show ?thesis by (simp add: reply)
    next
      case QueryDetailHandler
      with assms(2) obtain j where j: "ds_QueryJournal s = Some j"
        by (auto simp: panel_ready_def DetectCapabilities_def)
      from one_item_answers(2) [OF audits(2) [unfolded j]] QueryDetailHandler j show ?thesis by (simp add: reply)
    next
      case AggregateDetailHandler
      with assms(2) obtain src where "ds_EventSource s = Some src"
        by (auto simp: panel_ready_def DetectCapabilities_def)
      with AggregateDetailHandler show ?thesis by (simp add: reply stream_answers)
    next
      case TimeTravelDetailHandler
      with assms(2) obtain src where "ds_EventSource s = Some src"
        by (auto simp: panel_ready_def DetectCapabilities_def)
      with TimeTravelDetailHandler show ?thesis by (simp add: reply stream_answers)
    next
      case SnapshotDetailHandler
      with assms(2) obtain Load where "ds_SnapshotStore s = Some Load"
        by (auto simp: panel_ready_def DetectCapabilities_def)
      with SnapshotDetailHandler show ?thesis by (simp add: reply stream_answers)
    qed (use False in \<open>simp_all add: reply stream_answers\<close>)
  qed
qed

text \<open>C29. On journals that keep their contracts every request to the dashboard is answered: no scan goes on for
  ever, and no handler is reached whose interface is missing, because its route is there only when the interface
  is.\<close>

theorem dashboard_answers:
  assumes "keeps_contracts N (op_sources P w)"
  shows "\<exists>reply log w'. serve_dashboard N P cfg (DetectCapabilities (op_sources P w)) r w = Some (reply, log, w')
    \<and> reply \<noteq> Answered Panicked"
proof -
  let ?caps = "DetectCapabilities (op_sources P w)"
  have run: "\<exists>reply log w'. handle_dash N P cfg ?caps h vars w r' = Some (reply, log, w') \<and> reply \<noteq> Answered Panicked"
    if "panel_ready ?caps h" for h vars r'
  proof -
    have "\<exists>reply log w'. audited r' attrs f d t res = Some (reply, log, w') \<and> reply \<noteq> Answered Panicked"
      for attrs f d t and res :: "err option \<times> 'a"
      by (cases res; cases "fst res") (auto simp: audited_def)
    with read_reply_answers [OF assms that, of cfg "op_closed P w" "op_hub P w" "ParseQuery (dq_RawQuery r')" vars]
    show ?thesis
      by (auto simp: handle_dash_def projectionResetHandler_def dlqReplayHandler_def dlqDeleteHandler_def
          dlqPurgeHandler_def snapshotDeleteHandler_def Let_def split: option.splits prod.splits sum.splits)
  qed
  show ?thesis
  proof (cases "findHandler (routes cfg ?caps) (dq_Method r) (dq_Path r)")
    case (Handled mh vars)
    obtain mode h where mh: "mh = (mode, h)" by fastforce
    with served_row [of cfg ?caps "dq_Method r" "dq_Path r" mode h vars] Handled rows_ready [of ?caps "st_ReadOnly cfg"]
    have "panel_ready ?caps h" by (auto simp: panel_ready_def)
    from run [OF this, of vars] Handled mh show ?thesis
      by (auto simp: serve_dashboard_def wrapped_def guard_admits split: routeGuard.splits option.splits)
  qed (auto simp: serve_dashboard_def)
qed

section \<open>A small dashboard\<close>

text \<open>A dashboard over a journal and a projection host whose world counts the resets, behind an authorizer that knows
  one token.\<close>

definition demo_sources :: dash_sources where
  "demo_sources =
     \<lparr> dc_SeekableJournal = None, dc_Journal = Some (Inr demo_dash_journal), dc_EventByIDLoader = None,
       ds_EventSource = None, ds_StreamReader = None,
       ds_ProjectionHost = Some \<lparr> ph_Status = [], ph_LagPerProjection = [] \<rparr>, ds_DeadLetterStore = None,
       ds_CommandJournal = None, ds_QueryJournal = None, ds_SnapshotStore = None, ds_EventBus = False,
       ds_Topology = None, ds_EngineHealths = None, ds_Placements = None, ds_EngineStats = None \<rparr>"

definition demo_dash_ops :: "nat dash_ops" where
  "demo_dash_ops =
     \<lparr> op_sources = (\<lambda>w. demo_sources), op_closed = (\<lambda>w. False), op_hub = (\<lambda>w. None),
       op_Reset = (\<lambda>name w. (None, Suc w)), op_ReplayDeadLetters = (\<lambda>name w. (Inr (0, 0), w)),
       op_DeadLetter_Delete = (\<lambda>name i w. (None, w)), op_DeadLetter_Purge = (\<lambda>name w. (None, w)),
       op_Snapshot_Delete = (\<lambda>ref w. (None, w)) \<rparr>"

definition demo_operator :: Actor where
  "demo_operator = \<lparr> act_ID = ''ada'', act_Name = ''Ada'' \<rparr>"

definition demo_settings :: settings where
  "demo_settings =
     \<lparr> st_Title = ''CQRS'', st_BasePath = ''/dashboard'', st_AccentColor = [], st_ReadOnly = False, st_PageSize = 50,
       st_SSEHeartbeatInterval = 0, st_Authorizer = None,
       st_ActorAuthorizer = Some (\<lambda>r. if dq_RawQuery r = ''token'' then Inr demo_operator
         else Inl (errConfig ''no token'')),
       st_VersionzRequireAuth = False, st_EmptyStateCopy = [], st_ExtraNav = [] \<rparr>"

definition demo_reset_request :: "string \<Rightarrow> dash_request" where
  "demo_reset_request token =
     \<lparr> dq_Method = ''POST'', dq_Path = ''/projections/orders/reset'', dq_RawQuery = token, dq_Header = [],
       dq_Actor = None, dq_RequestID = ''r1'' \<rparr>"

definition demo_caps :: Capabilities where
  "demo_caps = DetectCapabilities demo_sources"

lemma demo_patterns:
  "parse_pattern ''/projections/{name}/reset'' = [Lit ''projections'', Wild ''name'', Lit ''reset'']"
  "parse_pattern ''/dead-letters/{projection}/replay'' = [Lit ''dead-letters'', Wild ''projection'', Lit ''replay'']"
  by (simp_all add: parse_pattern_def slash_def pattern_seg_def has_prefix_def)

lemma demo_path:
  "path_segments ''/projections/orders/reset'' = [''projections'', ''orders'', ''reset'']"
  "cleanPath ''/projections/orders/reset'' = ''/projections/orders/reset''"
  by (simp_all add: path_segments_def slash_def pathUnescape_def cleanPath_def path_Clean_def clean_step_def
      rooted_def named_def)

lemma post_rows: "\<forall>spec\<in>set routeTable. method_serves (rs_method spec) POST \<longrightarrow> rs_guardMode spec = guardAlways"
  by (simp add: route_defs method_serves_def GET_def POST_def HEAD_def)

lemma demo_reset_route:
  "findHandler (routes demo_settings demo_caps) ''POST'' ''/projections/orders/reset''
   = mux_answer.Handled (guardAlways, ProjectionResetHandler) [(''name'', ''orders'')]"
  by (simp add: routes_def route_defs demo_caps_def demo_settings_def demo_sources_def DetectCapabilities_def
      enabled_def HasEventRead_def dead_letter_panel_def findHandler_def matchMethodAndPath_def method_branch_def
      GET_def POST_def HEAD_def registrationPattern_def demo_path demo_patterns exactMatch_def wild_names_def)

lemma dashboard_writes_guarded_witness:
  "\<forall>N. \<exists>reply log. serve_dashboard N demo_dash_ops demo_settings demo_caps (demo_reset_request ''token'') 0
       = Some (reply, log, 1)
     \<and> (\<exists>attrs. log = [audit (WithActor demo_operator (demo_reset_request ''token'')) attrs])"
proof
  fix N
  have "\<exists>reply log. serve_dashboard N demo_dash_ops demo_settings demo_caps (demo_reset_request ''token'') 0
      = Some (reply, log, 1)"
    by (simp add: serve_dashboard_def demo_reset_request_def demo_reset_route)
      (simp add: wrapped_def guard_admits admitted_as_def actorAuthorizer_def demo_settings_def handle_dash_def
        projectionResetHandler_def demo_dash_ops_def demo_sources_def audited_def PathValue_def WithActor_def)
  then obtain reply log where run: "serve_dashboard N demo_dash_ops demo_settings demo_caps
      (demo_reset_request ''token'') 0 = Some (reply, log, 1)" by blast
  from dashboard_writes_guarded [OF this] obtain r' attrs where
    "admitted_as demo_settings (demo_reset_request ''token'') = Some r'" "log = [audit r' attrs]" by auto
  with run show "\<exists>reply log. serve_dashboard N demo_dash_ops demo_settings demo_caps (demo_reset_request ''token'') 0
       = Some (reply, log, 1) \<and> (\<exists>attrs. log = [audit (WithActor demo_operator (demo_reset_request ''token'')) attrs])"
    by (auto simp: admitted_as_def actorAuthorizer_def demo_settings_def demo_reset_request_def)
qed

lemma dashboard_manifest_true_witness:
  "\<forall>N. serve_dashboard N demo_dash_ops demo_settings demo_caps (demo_reset_request []) 0 = Some (Forbidden, [], 0)"
proof
  fix N
  have "findHandler (routes demo_settings demo_caps) (dq_Method (demo_reset_request []))
      (dq_Path (demo_reset_request [])) = mux_answer.Handled (guardAlways, ProjectionResetHandler) [(''name'', ''orders'')]"
    by (simp add: demo_reset_request_def demo_reset_route)
  from dashboard_manifest_true [OF this, of N demo_dash_ops 0] obtain rt where rt: "rt \<in> set (Routes demo_settings demo_caps)"
    "seg_match (parse_pattern (registrationPattern (rt_Pattern rt))) [''projections'', ''orders'', ''reset'']"
    "method_serves (rt_Method rt) ''POST''"
    and cases: "rt_Posture rt \<in> {PosturePublic, PostureUngated} \<or> serve_dashboard N demo_dash_ops demo_settings demo_caps
        (demo_reset_request []) 0 = Some (Forbidden, [], 0)"
    by (auto simp: demo_path demo_reset_request_def admitted_as_def actorAuthorizer_def demo_settings_def Let_def)
  from rt(1) obtain spec where spec: "spec \<in> set routeTable" "rs_method spec = rt_Method rt"
    "rt_Posture rt = fst (route_posture demo_settings spec)"
    by (auto simp: Routes_def Let_def split_beta)
  with post_rows rt(3) have "rs_guardMode spec = guardAlways" by (simp add: POST_def)
  then have "rt_Posture rt \<notin> {PosturePublic, PostureUngated}"
    by (simp add: spec(3) route_posture_def actorAuthorizer_def demo_settings_def posture_defs)
  with cases show "serve_dashboard N demo_dash_ops demo_settings demo_caps (demo_reset_request []) 0
      = Some (Forbidden, [], 0)" by simp
qed

lemma dashboard_answers_witness:
  "\<forall>N. \<exists>reply log w. serve_dashboard N demo_dash_ops demo_settings demo_caps (demo_reset_request ''token'') 0
     = Some (reply, log, w) \<and> reply \<noteq> Answered Panicked"
proof
  fix N
  have "reads (coreConfig demo_sources) demo_dash_journal"
    by (simp add: demo_sources_def dash_config.truncate_def reads_def)
  then have "keeps_contracts N (op_sources demo_dash_ops 0)"
    using demo_dash_good by (auto simp: keeps_contracts_def keeps_audit_def demo_dash_ops_def demo_sources_def)
  from dashboard_answers [OF this, of demo_settings "demo_reset_request ''token''"]
  show "\<exists>reply log w. serve_dashboard N demo_dash_ops demo_settings demo_caps (demo_reset_request ''token'') 0
      = Some (reply, log, w) \<and> reply \<noteq> Answered Panicked"
    by (simp add: demo_caps_def demo_dash_ops_def)
qed

end
