(* ===== verification/Sse_Replay.thy ===== *)
theory Sse_Replay
  imports Dashboard_Journal
begin

text \<open>
  The feed of domain events over SSE: \<open>transport/journalsse.go\<close> (the store that answers a reconnect from the
  journal), \<open>event_sse.go\<close> (the envelope) and \<open>serve.go\<close> (the handler: subscribe, replay, then the live events, with
  the events that came both ways written once), and the bridge of \<open>dashboardui/sse.go\<close>. The connection is a step
  relation over the journal, the bus, the subscriber's channel and what was written. Of the go-sse and dedup libraries
  the model takes, as parameters, the size of a channel, the ring of recent identifiers and what a replay writes;
  \<open>feed_laws\<close> says what they promise. Heartbeats are comment frames and are left out.
\<close>

record sse_event =
  sx_Event :: string
  sx_Data :: string
  sx_ID :: string
  sx_Retry :: nat

section \<open>The envelope\<close>

record EventPayload =
  ep_Type :: string
  ep_StreamType :: string
  ep_StreamID :: string
  ep_Version :: "64 word"
  ep_OccurredAt :: string
  ep_EventID :: string

definition sseEventType :: string where "sseEventType = ''event''"

text \<open>\<open>rfc3339\<close> renders a time and \<open>marshal\<close> is the JSON encoder, which may fail.\<close>

definition DomainEventToSSE :: "(time \<Rightarrow> string) \<Rightarrow> (EventPayload \<Rightarrow> string option) \<Rightarrow> dash_event \<Rightarrow> sse_event" where
  "DomainEventToSSE rfc3339 marshal evt =
     (let payload = \<lparr> ep_Type = je_Type evt, ep_StreamType = je_StreamType evt, ep_StreamID = je_StreamID evt,
                      ep_Version = je_Version evt, ep_OccurredAt = rfc3339 (de_Time evt), ep_EventID = je_ID evt \<rparr>
      in case marshal payload of
           None \<Rightarrow> \<lparr> sx_Event = sseEventType, sx_Data = [], sx_ID = ep_EventID payload, sx_Retry = 0 \<rparr>
         | Some data \<Rightarrow> \<lparr> sx_Event = sseEventType, sx_Data = data, sx_ID = ep_EventID payload, sx_Retry = 0 \<rparr>)"

lemma envelope_id [simp]: "sx_ID (DomainEventToSSE rfc3339 marshal evt) = je_ID evt"
  by (simp add: DomainEventToSSE_def Let_def split: option.splits)

section \<open>The replay store\<close>

text \<open>A journal with its optional interfaces; \<open>ParseEventID\<close> answers the canonical text.\<close>

record sse_journal =
  sj_ReadAll :: "err + dash_event list"
  sj_ReadFrom :: "dash_event read_from option"
  sj_ReadLastN :: "(int \<Rightarrow> err + dash_event list) option"
  sj_ParseEventID :: "string \<Rightarrow> string option"

record JournalSSEStore =
  js_journal :: sse_journal
  js_mapper :: "dash_event \<Rightarrow> sse_event"
  js_maxReplay :: int

definition DefaultMaxReplay :: int where "DefaultMaxReplay = 1000"

definition WithMaxReplay :: "int \<Rightarrow> JournalSSEStore \<Rightarrow> JournalSSEStore" where
  "WithMaxReplay n s = s \<lparr> js_maxReplay := n \<rparr>"

text \<open>A nil journal or mapper panics, which is the value \<open>None\<close>.\<close>

definition NewJournalSSEStore ::
  "sse_journal option \<Rightarrow> (dash_event \<Rightarrow> sse_event) option \<Rightarrow> (JournalSSEStore \<Rightarrow> JournalSSEStore) list
   \<Rightarrow> JournalSSEStore option" where
  "NewJournalSSEStore journal mapper opts =
     (case (journal, mapper) of
        (Some j, Some f) \<Rightarrow>
          Some (fold (\<lambda>opt s. opt s) opts \<lparr> js_journal = j, js_mapper = f, js_maxReplay = DefaultMaxReplay \<rparr>)
      | _ \<Rightarrow> None)"

definition replayLimit :: "JournalSSEStore \<Rightarrow> int" where
  "replayLimit s = (if js_maxReplay s \<le> 0 then DefaultMaxReplay else js_maxReplay s)"

abbreviation replay_limit :: "JournalSSEStore \<Rightarrow> nat" where
  "replay_limit s \<equiv> nat (replayLimit s)"

definition mapEvents :: "JournalSSEStore \<Rightarrow> dash_event list \<Rightarrow> sse_event list" where
  "mapEvents s events = map (js_mapper s) events"

definition eventsAfterTail ::
  "JournalSSEStore \<Rightarrow> (int \<Rightarrow> err + dash_event list) \<Rightarrow> err + sse_event list" where
  "eventsAfterTail s ReadLastN =
     (case ReadLastN (replayLimit s) of
        Inl e \<Rightarrow> Inl (infra ''transport.sse.journal_tail_read_failed'' ''read newest events from journal'' [] e)
      | Inr events \<Rightarrow> Inr (mapEvents s (newest (replay_limit s) events)))"

text \<open>The paged read that keeps the newest events. It does not look at whether the cursor moved.\<close>

partial_function (option) read_tail ::
  "('i \<Rightarrow> string) \<Rightarrow> 'i read_from \<Rightarrow> nat \<Rightarrow> (err \<Rightarrow> err) \<Rightarrow> string \<Rightarrow> 'i list \<Rightarrow> (err + 'i list) option" where
  "read_tail idOf ReadFrom limit failed cursor tail =
     (case ReadFrom cursor (int limit) of
        Inl e \<Rightarrow> Some (Inl (failed e))
      | Inr batch \<Rightarrow>
          if batch = [] then Some (Inr tail)
          else if length batch < limit then Some (Inr (newest limit (tail @ batch)))
          else read_tail idOf ReadFrom limit failed (idOf (last batch)) (newest limit (tail @ batch)))"

definition eventsAfterSeekable ::
  "JournalSSEStore \<Rightarrow> dash_event read_from \<Rightarrow> string \<Rightarrow> (err + sse_event list) option" where
  "eventsAfterSeekable s ReadFrom lastID =
     (case (if lastID = [] then Some [] else sj_ParseEventID (js_journal s) lastID) of
        None \<Rightarrow> Some (Inr [])
      | Some afterID \<Rightarrow>
          map_option (map_sum id (mapEvents s))
            (read_tail je_ID ReadFrom (replay_limit s)
               (infra ''transport.sse.journal_read_failed'' ''read events from journal'' [(''last_id'', lastID)])
               afterID []))"

definition eventsAfterFullScan :: "JournalSSEStore \<Rightarrow> string \<Rightarrow> err + sse_event list" where
  "eventsAfterFullScan s lastID =
     (case sj_ReadAll (js_journal s) of
        Inl e \<Rightarrow> Inl (infra ''transport.sse.journal_readall_failed'' ''read all events from journal''
                        [(''last_id'', lastID)] e)
      | Inr events \<Rightarrow>
          if lastID = [] then Inr (mapEvents s (newest (replay_limit s) events))
          else (case index_of (\<lambda>evt. je_ID evt = lastID) events of
                  None \<Rightarrow> Inr []
                | Some i \<Rightarrow> Inr (mapEvents s (newest (replay_limit s) (drop (Suc i) events)))))"

definition EventsAfter :: "JournalSSEStore \<Rightarrow> string \<Rightarrow> (err + sse_event list) option" where
  "EventsAfter s lastID =
     (case (if lastID = [] then sj_ReadLastN (js_journal s) else None) of
        Some ReadLastN \<Rightarrow> Some (eventsAfterTail s ReadLastN)
      | None \<Rightarrow>
          (case sj_ReadFrom (js_journal s) of
             Some ReadFrom \<Rightarrow> eventsAfterSeekable s ReadFrom lastID
           | None \<Rightarrow> Some (eventsAfterFullScan s lastID)))"

lemma limit_pos: "0 < replay_limit s"
  by (simp add: replayLimit_def DefaultMaxReplay_def)

lemma newest_short: "length xs \<le> n \<Longrightarrow> newest n xs = xs"
  by (simp add: newest_def)

lemma newest_idem [simp]: "newest n (newest n xs) = newest n xs"
  by (simp add: newest_def)

lemma newest_map: "newest n (map f xs) = map f (newest n xs)"
  by (simp add: newest_def drop_map)

lemma length_newest: "length (newest n xs) = min n (length xs)"
  by (simp add: newest_def)

text \<open>Under the contract of \<open>ReadFrom\<close> the paged read ends, with the newest of what follows the cursor.\<close>

context seekable begin

lemma read_tail_newest:
  assumes "good_ids idOf es" and "k \<le> length es" and "0 < limit" and "length tail \<le> limit"
  shows "read_tail idOf read limit failed (cursor_at idOf es k) tail
    = Some (Inr (newest limit (tail @ drop k es)))"
  using assms(2,4)
proof (induction "length es - k" arbitrary: k tail rule: less_induct)
  case less
  from assms(1) less.prems(1) assms(3) show ?case
  proof (cases rule: page)
    case short
    with less.prems(2) show ?thesis
      by (subst read_tail.simps) (auto simp: newest_short)
  next
    case full
    let ?b = "take limit (drop k es)"
    have "drop k es = ?b @ drop (k + limit) es"
      by (metis append_take_drop_id drop_drop add.commute)
    then have split: "newest limit (newest limit (tail @ ?b) @ drop (k + limit) es) = newest limit (tail @ drop k es)"
      by (simp only: newest_append append_assoc)
    have "read_tail idOf read limit failed (cursor_at idOf es (k + limit)) (newest limit (tail @ ?b))
        = Some (Inr (newest limit (newest limit (tail @ ?b) @ drop (k + limit) es)))"
      using full(2) assms(3) by (intro less.hyps) (auto simp: length_newest)
    moreover have "?b \<noteq> []" using full(5) assms(3) by auto
    ultimately show ?thesis using full(1,3,5) split by (subst read_tail.simps) simp
  qed
qed

end

text \<open>What the interfaces of a journal with the events \<open>es\<close> promise.\<close>

definition journal_laws :: "dash_event list \<Rightarrow> sse_journal \<Rightarrow> bool" where
  "journal_laws es j \<longleftrightarrow>
     sj_ReadAll j = Inr es
     \<and> (case sj_ReadFrom j of None \<Rightarrow> True | Some r \<Rightarrow> seekable je_ID r es)
     \<and> (case sj_ReadLastN j of None \<Rightarrow> True | Some r \<Rightarrow> (\<forall>n>0. r n = Inr (newest (nat n) es)))
     \<and> (\<forall>e\<in>set es. sj_ParseEventID j (je_ID e) = Some (je_ID e))"

lemma EventsAfter_newest:
  assumes laws: "journal_laws es (js_journal s)" and good: "good_ids je_ID es" and k: "k \<le> length es"
  shows "EventsAfter s (cursor_at je_ID es k) = Some (Inr (map (js_mapper s) (newest (replay_limit s) (drop k es))))"
proof -
  let ?c = "cursor_at je_ID es k"
  have c: "?c = [] \<longleftrightarrow> k = 0" using good k good_nth(1) [of je_ID es "k - 1"] by (auto simp: cursor_at_def)
  have tail: ?thesis if "?c = []" "sj_ReadLastN (js_journal s) = Some r" for r
  proof -
    from laws that(2) limit_pos [of s] have "r (replayLimit s) = Inr (newest (replay_limit s) es)"
      by (auto simp: journal_laws_def)
    with that c show ?thesis by (simp add: EventsAfter_def eventsAfterTail_def mapEvents_def)
  qed
  have parsed: "(if ?c = [] then Some [] else sj_ParseEventID (js_journal s) ?c) = Some ?c"
    using laws good k by (cases k) (auto simp: journal_laws_def cursor_at_def)
  have seek: "eventsAfterSeekable s r ?c = Some (Inr (map (js_mapper s) (newest (replay_limit s) (drop k es))))"
    if "sj_ReadFrom (js_journal s) = Some r" for r
  proof -
    from laws that have "seekable je_ID r es" by (auto simp: journal_laws_def)
    from seekable.read_tail_newest [OF this good k limit_pos, of "[]" s] show ?thesis
      by (simp add: eventsAfterSeekable_def parsed mapEvents_def)
  qed
  have scan: "eventsAfterFullScan s ?c = Inr (map (js_mapper s) (newest (replay_limit s) (drop k es)))"
  proof (cases k)
    case 0
    with laws c show ?thesis by (simp add: eventsAfterFullScan_def journal_laws_def mapEvents_def)
  next
    case (Suc i)
    with k have "index_of (\<lambda>e. je_ID e = je_ID (es ! i)) es = Some i" by (intro index_of_id good) simp
    with laws c Suc show ?thesis
      by (simp add: eventsAfterFullScan_def journal_laws_def mapEvents_def cursor_at_def)
  qed
  show ?thesis
  proof (cases "if ?c = [] then sj_ReadLastN (js_journal s) else None")
    case None
    then show ?thesis using seek scan by (auto simp: EventsAfter_def split: option.splits)
  next
    case (Some r)
    then show ?thesis using tail by (auto split: if_splits)
  qed
qed

section \<open>Replaying into a stream\<close>

text \<open>A predicate of the consumer may panic, which is the value \<open>None\<close>.\<close>

type_synonym sse_pred = "sse_event \<Rightarrow> bool option"

definition safePredCall :: "sse_pred \<Rightarrow> sse_event \<Rightarrow> bool" where
  "safePredCall pred evt = (case pred evt of None \<Rightarrow> False | Some match \<Rightarrow> match)"

record 'r dedup_ring =
  dr_New :: 'r
  dr_Add :: "string \<Rightarrow> 'r \<Rightarrow> 'r"
  dr_Has :: "'r \<Rightarrow> string \<Rightarrow> bool"
  dr_Capacity :: nat

definition recordReplayedIDs :: "'r dedup_ring \<Rightarrow> sse_event list \<Rightarrow> 'r \<Rightarrow> 'r" where
  "recordReplayedIDs R events replayed =
     fold (\<lambda>evt r. if sx_ID evt \<noteq> [] then dr_Add R (sx_ID evt) r else r) events replayed"

definition isReplayDuplicate :: "'r dedup_ring \<Rightarrow> sse_event \<Rightarrow> 'r \<Rightarrow> bool" where
  "isReplayDuplicate R evt replayed \<longleftrightarrow> sx_ID evt \<noteq> [] \<and> dr_Has R replayed (sx_ID evt)"

definition DefaultRetryHintMillis :: nat where "DefaultRetryHintMillis = 5000"

definition cap_replay :: "int \<Rightarrow> 'a list \<Rightarrow> 'a list" where
  "cap_replay maxN events = (if maxN > 0 then newest (nat maxN) events else events)"

definition stamp_retry :: "nat \<Rightarrow> sse_event \<Rightarrow> sse_event" where
  "stamp_retry hint evt = (if sx_Retry evt = 0 \<and> hint > 0 then evt \<lparr> sx_Retry := hint \<rparr> else evt)"

text \<open>An event store answers an identifier; no answer is a read that never ends.\<close>

type_synonym sse_store = "string \<Rightarrow> (err + sse_event list) option"

record 'r replay_adjust =
  ra_inner :: sse_store
  ra_maxN :: int
  ra_retryHit :: nat
  ra_ring :: "'r dedup_ring"

definition replayAdjustedStore_EventsAfter ::
  "'r replay_adjust \<Rightarrow> string \<Rightarrow> 'r \<Rightarrow> ((err + sse_event list) \<times> 'r) option" where
  "replayAdjustedStore_EventsAfter s lastID replayed =
     (case ra_inner s lastID of
        None \<Rightarrow> None
      | Some (Inl e) \<Rightarrow> Some (Inl e, replayed)
      | Some (Inr events) \<Rightarrow>
          (let events = cap_replay (ra_maxN s) events in
           Some (Inr (map (stamp_retry (ra_retryHit s)) events), recordReplayedIDs (ra_ring s) events replayed)))"

definition EventsAfterFiltered ::
  "'r replay_adjust \<Rightarrow> string \<Rightarrow> sse_pred \<Rightarrow> 'r \<Rightarrow> ((err + sse_event list) \<times> 'r) option" where
  "EventsAfterFiltered f lastID pred replayed =
     (case ra_inner f lastID of
        None \<Rightarrow> None
      | Some (Inl e) \<Rightarrow> Some (Inl e, replayed)
      | Some (Inr events) \<Rightarrow>
          (let out = cap_replay (ra_maxN f) (filter (safePredCall pred) events) in
           Some (Inr (map (stamp_retry (ra_retryHit f)) out), recordReplayedIDs (ra_ring f) out replayed)))"

text \<open>\<open>write\<close> is what \<open>sse.Replay\<close> writes of the events a store answered; after an error nothing is written.\<close>

definition replayEvents ::
  "'r dedup_ring \<Rightarrow> (sse_event list \<Rightarrow> sse_event list) \<Rightarrow> sse_store option \<Rightarrow> sse_pred option \<Rightarrow> int \<Rightarrow> string \<Rightarrow> 'r
   \<Rightarrow> (sse_event list \<times> 'r) option" where
  "replayEvents R write store pred maxReplay lastID replayed =
     (case store of
        None \<Rightarrow> Some ([], replayed)
      | Some inner \<Rightarrow>
          (let s = \<lparr> ra_inner = inner, ra_maxN = maxReplay, ra_retryHit = DefaultRetryHintMillis, ra_ring = R \<rparr> in
           case (case pred of
                   Some p \<Rightarrow> EventsAfterFiltered s lastID p replayed
                 | None \<Rightarrow> replayAdjustedStore_EventsAfter s lastID replayed) of
             None \<Rightarrow> None
           | Some (Inl e, r) \<Rightarrow> Some ([], r)
           | Some (Inr events, r) \<Rightarrow> Some (write events, r)))"

section \<open>Options and the start of a connection\<close>

record 'q serveDomainEventsConfig =
  sd_logPrefix :: string
  sd_unavailableMessage :: string
  sd_filter :: "sse_pred option"
  sd_requestFilter :: "('q \<Rightarrow> err + sse_pred option) option"
  sd_maxReplay :: int

definition serveDefaults :: "'q serveDomainEventsConfig" where
  "serveDefaults = \<lparr> sd_logPrefix = ''transport'', sd_unavailableMessage = ''SSE not available'', sd_filter = None,
                     sd_requestFilter = None, sd_maxReplay = 0 \<rparr>"

definition WithSSELogPrefix :: "string \<Rightarrow> 'q serveDomainEventsConfig \<Rightarrow> 'q serveDomainEventsConfig" where
  "WithSSELogPrefix prefix c = c \<lparr> sd_logPrefix := prefix \<rparr>"
definition WithSSEUnavailableMessage :: "string \<Rightarrow> 'q serveDomainEventsConfig \<Rightarrow> 'q serveDomainEventsConfig" where
  "WithSSEUnavailableMessage msg c = c \<lparr> sd_unavailableMessage := msg \<rparr>"
definition WithSSEFilter :: "sse_pred option \<Rightarrow> 'q serveDomainEventsConfig \<Rightarrow> 'q serveDomainEventsConfig" where
  "WithSSEFilter pred c = c \<lparr> sd_filter := pred \<rparr>"
definition WithRequestFilter ::
  "('q \<Rightarrow> err + sse_pred option) option \<Rightarrow> 'q serveDomainEventsConfig \<Rightarrow> 'q serveDomainEventsConfig" where
  "WithRequestFilter derive c = c \<lparr> sd_requestFilter := derive \<rparr>"
definition WithSSEMaxReplay :: "int \<Rightarrow> 'q serveDomainEventsConfig \<Rightarrow> 'q serveDomainEventsConfig" where
  "WithSSEMaxReplay n c = c \<lparr> sd_maxReplay := n \<rparr>"

record 'q SSEOptions =
  so_LogPrefix :: string
  so_UnavailableMessage :: string
  so_Filter :: "sse_pred option"
  so_RequestFilter :: "('q \<Rightarrow> err + sse_pred option) option"
  so_MaxReplay :: int

definition Options :: "'q SSEOptions \<Rightarrow> ('q serveDomainEventsConfig \<Rightarrow> 'q serveDomainEventsConfig) list" where
  "Options o1 =
     (if so_LogPrefix o1 \<noteq> [] then [WithSSELogPrefix (so_LogPrefix o1)] else [])
     @ (if so_UnavailableMessage o1 \<noteq> [] then [WithSSEUnavailableMessage (so_UnavailableMessage o1)] else [])
     @ (if so_Filter o1 \<noteq> None then [WithSSEFilter (so_Filter o1)] else [])
     @ (if so_RequestFilter o1 \<noteq> None then [WithRequestFilter (so_RequestFilter o1)] else [])
     @ (if so_MaxReplay o1 > 0 then [WithSSEMaxReplay (so_MaxReplay o1)] else [])"

definition resolveFilter :: "'q serveDomainEventsConfig \<Rightarrow> 'q \<Rightarrow> err + sse_pred option" where
  "resolveFilter c r =
     (case sd_requestFilter c of
        None \<Rightarrow> Inr (sd_filter c)
      | Some derive \<Rightarrow>
          (case derive r of
             Inl e \<Rightarrow> Inl e
           | Inr None \<Rightarrow> Inr (sd_filter c)
           | Inr (Some pred) \<Rightarrow> Inr (Some pred)))"

datatype serve_start = Refused int string | Streaming "sse_pred option"

definition ServeDomainEvents ::
  "err_env \<Rightarrow> bool \<Rightarrow> ('q serveDomainEventsConfig \<Rightarrow> 'q serveDomainEventsConfig) list \<Rightarrow> 'q \<Rightarrow> serve_start" where
  "ServeDomainEvents E broadcaster opts r =
     (let cfg = fold (\<lambda>opt c. opt c) opts serveDefaults in
      if \<not> broadcaster then Refused 503 (sd_unavailableMessage cfg)
      else case resolveFilter cfg r of
             Inl e \<Rightarrow> Refused 400 (error_text E e)
           | Inr pred \<Rightarrow> Streaming pred)"

text \<open>The two forms of the options are interchangeable.\<close>

lemma options_interchangeable:
  "fold (\<lambda>opt c. opt c) (Options o1) serveDefaults =
     \<lparr> sd_logPrefix = (if so_LogPrefix o1 = [] then ''transport'' else so_LogPrefix o1),
       sd_unavailableMessage = (if so_UnavailableMessage o1 = [] then ''SSE not available'' else so_UnavailableMessage o1),
       sd_filter = so_Filter o1, sd_requestFilter = so_RequestFilter o1, sd_maxReplay = max 0 (so_MaxReplay o1) \<rparr>"
  by (simp add: Options_def serveDefaults_def WithSSELogPrefix_def WithSSEUnavailableMessage_def WithSSEFilter_def
    WithRequestFilter_def WithSSEMaxReplay_def)

section \<open>Who broadcasts\<close>

text \<open>The bridge of the dashboard (\<open>startEventBridge\<close>) subscribes to the bus when there is one; \<open>SubscribeAll\<close> is what
  the bus answers. Its handler broadcasts every event until the dashboard is closed.\<close>

definition startEventBridge :: "bool \<Rightarrow> bool \<Rightarrow> err option \<Rightarrow> err option" where
  "startEventBridge eventBus broadcaster SubscribeAll =
     (if \<not> eventBus \<or> \<not> broadcaster then None
      else map_option (infra ''dashboardui.sse_subscribe_failed'' ''subscribe to event bus for SSE bridge'' [])
             SubscribeAll)"

definition bridge_event ::
  "(time \<Rightarrow> string) \<Rightarrow> (EventPayload \<Rightarrow> string option) \<Rightarrow> bool \<Rightarrow> dash_event \<Rightarrow> sse_event list" where
  "bridge_event rfc3339 marshal closed evt = (if closed then [] else [DomainEventToSSE rfc3339 marshal evt])"

definition dashboard_sse_options ::
  "bool \<Rightarrow> ('q serveDomainEventsConfig \<Rightarrow> 'q serveDomainEventsConfig) list" where
  "dashboard_sse_options broadcaster =
     (if \<not> broadcaster then [WithSSEUnavailableMessage ''SSE not available (no event bus configured)'']
      else [WithSSELogPrefix ''dashboardui'',
            WithSSEUnavailableMessage ''SSE not available (no event bus configured)''])"

definition dashboard_sse :: "err_env \<Rightarrow> bool \<Rightarrow> 'q \<Rightarrow> serve_start" where
  "dashboard_sse E broadcaster r = ServeDomainEvents E broadcaster (dashboard_sse_options broadcaster) r"

lemma dashboard_sse_starts:
  "dashboard_sse E broadcaster r =
     (if broadcaster then Streaming None else Refused 503 ''SSE not available (no event bus configured)'')"
  by (simp add: dashboard_sse_def dashboard_sse_options_def ServeDomainEvents_def serveDefaults_def resolveFilter_def
    WithSSELogPrefix_def WithSSEUnavailableMessage_def Let_def)

text \<open>The hooks of the root package broadcast after a dispatch, by its outcome.\<close>

definition broadcastOnSuccessHook :: "('q \<Rightarrow> sse_event) \<Rightarrow> 'q \<Rightarrow> err option \<Rightarrow> sse_event list" where
  "broadcastOnSuccessHook mapper r e = (if e \<noteq> None then [] else [mapper r])"

definition broadcastOnErrorHook :: "('q \<Rightarrow> err \<Rightarrow> sse_event) \<Rightarrow> 'q \<Rightarrow> err option \<Rightarrow> sse_event list" where
  "broadcastOnErrorHook mapper r e = (case e of None \<Rightarrow> [] | Some e \<Rightarrow> [mapper r e])"

definition BroadcastOnSuccess :: "string \<Rightarrow> string \<Rightarrow> 'q \<Rightarrow> err option \<Rightarrow> sse_event list" where
  "BroadcastOnSuccess eventName data =
     broadcastOnSuccessHook (\<lambda>_. \<lparr> sx_Event = eventName, sx_Data = data, sx_ID = [], sx_Retry = 0 \<rparr>)"

section \<open>A connection\<close>

datatype feed_phase = Opening | Subscribed | Live | Closed

text \<open>What a connection is served with: the store over the journal as it is, the filter of the request, the cap, the
  cursor the client sent, the size of a subscriber's channel, and how many committed events may at most be on their way
  to the broadcaster.\<close>

record 'r sse_feed =
  sf_journal :: "dash_event list \<Rightarrow> sse_journal"
  sf_mapper :: "dash_event \<Rightarrow> sse_event"
  sf_storeReplay :: int
  sf_filter :: "sse_pred option"
  sf_maxReplay :: int
  sf_cursor :: string
  sf_ring :: "'r dedup_ring"
  sf_write :: "sse_event list \<Rightarrow> sse_event list"
  sf_buffer :: nat
  sf_lag :: nat

record 'r sse_conn =
  sc_journal :: "dash_event list"
  sc_bus :: "sse_event list"
  sc_phase :: feed_phase
  sc_channel :: "sse_event list"
  sc_dropped :: bool
  sc_sent :: "sse_event list"
  sc_replayed :: 'r

definition matches :: "'r sse_feed \<Rightarrow> sse_event \<Rightarrow> bool" where
  "matches F evt = (case sf_filter F of None \<Rightarrow> True | Some pred \<Rightarrow> safePredCall pred evt)"

definition feed_store :: "'r sse_feed \<Rightarrow> dash_event list \<Rightarrow> JournalSSEStore option" where
  "feed_store F es = NewJournalSSEStore (Some (sf_journal F es)) (Some (sf_mapper F)) [WithMaxReplay (sf_storeReplay F)]"

definition connected :: sse_event where
  "connected = \<lparr> sx_Event = ''connected'', sx_Data = ''connected'', sx_ID = [], sx_Retry = 0 \<rparr>"

text \<open>\<open>pumpLiveEvents\<close> takes one event of the channel.\<close>

definition pump :: "'r sse_feed \<Rightarrow> sse_event \<Rightarrow> 'r sse_conn \<Rightarrow> 'r sse_conn" where
  "pump F evt c =
     (if isReplayDuplicate (sf_ring F) evt (sc_replayed c) then c
      else c \<lparr> sc_sent := sc_sent c @ [evt] \<rparr>)"

text \<open>The broadcaster hands an event to the subscription: to the filtered one only what matches, and to a full channel
  nothing.\<close>

definition broadcast_to :: "'r sse_feed \<Rightarrow> sse_event \<Rightarrow> 'r sse_conn \<Rightarrow> 'r sse_conn" where
  "broadcast_to F evt c =
     (if sc_phase c \<in> {Subscribed, Live} \<and> matches F evt then
        (if length (sc_channel c) < sf_buffer F then c \<lparr> sc_channel := sc_channel c @ [evt] \<rparr>
         else c \<lparr> sc_dropped := True \<rparr>)
      else c)"

text \<open>An event is committed to a journal that keeps its promises, with an identifier of its own, and is then on its
  way to the broadcaster, first in, first out.\<close>

definition good_journal :: "'r sse_feed \<Rightarrow> dash_event list \<Rightarrow> bool" where
  "good_journal F es \<longleftrightarrow> good_ids je_ID es \<and> journal_laws es (sf_journal F es)"

inductive serve_step :: "'r sse_feed \<Rightarrow> 'r sse_conn \<Rightarrow> 'r sse_conn \<Rightarrow> bool" for F where
  Commit: "length (sc_bus c) < sf_lag F \<Longrightarrow> good_journal F (sc_journal c @ [e]) \<Longrightarrow>
    serve_step F c (c \<lparr> sc_journal := sc_journal c @ [e], sc_bus := sc_bus c @ [sf_mapper F e] \<rparr>)"
| Broadcast: "sc_bus c = evt # rest \<Longrightarrow> serve_step F c (broadcast_to F evt (c \<lparr> sc_bus := rest \<rparr>))"
| Subscribe: "sc_phase c = Opening \<Longrightarrow>
    serve_step F c (c \<lparr> sc_phase := Subscribed, sc_sent := sc_sent c @ [connected] \<rparr>)"
| Replay: "sc_phase c = Subscribed \<Longrightarrow>
    replayEvents (sf_ring F) (sf_write F) (map_option EventsAfter (feed_store F (sc_journal c))) (sf_filter F)
      (sf_maxReplay F) (sf_cursor F) (sc_replayed c) = Some (out, r) \<Longrightarrow>
    serve_step F c (c \<lparr> sc_phase := Live, sc_sent := sc_sent c @ out, sc_replayed := r \<rparr>)"
| Pump: "sc_phase c = Live \<Longrightarrow> sc_channel c = evt # rest \<Longrightarrow>
    serve_step F c (pump F evt (c \<lparr> sc_channel := rest \<rparr>))"
| Disconnect: "serve_step F c (c \<lparr> sc_phase := Closed \<rparr>)"

inductive_cases serve_stepE: "serve_step F c c'"

section \<open>Every event once\<close>

text \<open>What the libraries promise: a ring holds the newest identifiers up to its capacity, a replay writes what the
  store answered, an envelope carries the identifier of its event; and the ring is larger than a channel and the bus
  together.\<close>

definition feed_laws :: "'r sse_feed \<Rightarrow> bool" where
  "feed_laws F \<longleftrightarrow>
     (let R = sf_ring F in
      (\<forall>ids i. distinct ids \<and> [] \<notin> set ids \<longrightarrow>
         dr_Has R (fold (dr_Add R) ids (dr_New R)) i = (i \<in> set (newest (dr_Capacity R) ids)))
      \<and> (\<forall>evts. sf_write F evts = evts) \<and> (\<forall>e. sx_ID (sf_mapper F e) = je_ID e)
      \<and> sf_buffer F + sf_lag F \<le> dr_Capacity R)"

text \<open>A connection begins: the client has seen the first \<open>k\<close> events. Some of them may still be on their way to the
  broadcaster (the client read them in a replay); with \<open>only_new\<close> none of them is.\<close>

definition on_its_way :: "'r sse_feed \<Rightarrow> bool \<Rightarrow> nat \<Rightarrow> 'r sse_conn \<Rightarrow> bool" where
  "on_its_way F only_new k c \<longleftrightarrow>
     good_journal F (sc_journal c) \<and> sf_cursor F = cursor_at je_ID (sc_journal c) k
     \<and> k \<le> length (sc_journal c) \<and> length (sc_bus c) \<le> length (sc_journal c) \<and> length (sc_bus c) \<le> sf_lag F
     \<and> sc_bus c = map (sf_mapper F) (newest (length (sc_bus c)) (sc_journal c))
     \<and> (only_new \<longrightarrow> k + length (sc_bus c) \<le> length (sc_journal c))"

definition opened :: "'r sse_feed \<Rightarrow> nat \<Rightarrow> 'r sse_conn \<Rightarrow> bool" where
  "opened F k c \<longleftrightarrow>
     sc_phase c = Opening \<and> sc_channel c = [] \<and> \<not> sc_dropped c \<and> sc_sent c = []
     \<and> sc_replayed c = dr_New (sf_ring F) \<and> on_its_way F False k c"

definition feed_cap :: "'r sse_feed \<Rightarrow> nat" where
  "feed_cap F =
     (let n = nat (if sf_storeReplay F \<le> 0 then DefaultMaxReplay else sf_storeReplay F) in
      if sf_maxReplay F > 0 then min n (nat (sf_maxReplay F)) else n)"

text \<open>The events the client is owed, and those still on their way to it.\<close>

definition wanted :: "'r sse_feed \<Rightarrow> nat \<Rightarrow> dash_event list \<Rightarrow> dash_event list" where
  "wanted F k es = filter (\<lambda>e. matches F (sf_mapper F e)) (drop k es)"

definition pending :: "'r sse_feed \<Rightarrow> 'r sse_conn \<Rightarrow> sse_event list" where
  "pending F c = sc_channel c @ filter (matches F) (sc_bus c)"

definition undelivered :: "'r sse_feed \<Rightarrow> 'r sse_conn \<Rightarrow> sse_event list" where
  "undelivered F c = filter (\<lambda>evt. \<not> isReplayDuplicate (sf_ring F) evt (sc_replayed c)) (pending F c)"

text \<open>The replay of a whole window.\<close>

lemma record_ids:
  "[] \<notin> sx_ID ` set evts \<Longrightarrow> recordReplayedIDs R evts r = fold (dr_Add R) (map sx_ID evts) r"
  unfolding recordReplayedIDs_def by (induction evts arbitrary: r) auto

lemma stamped_ids [simp]: "map sx_ID (map (stamp_retry n) evts) = map sx_ID evts"
  by (simp add: stamp_retry_def)

lemma stamped_id_comp [simp]: "map (sx_ID \<circ> stamp_retry n) evts = map sx_ID evts"
  by (simp add: stamp_retry_def)

lemma feed_store_parts:
  assumes "feed_store F es = Some s"
  shows "js_journal s = sf_journal F es" "js_mapper s = sf_mapper F"
    "replay_limit s = nat (if sf_storeReplay F \<le> 0 then DefaultMaxReplay else sf_storeReplay F)"
  using assms by (auto simp: feed_store_def NewJournalSSEStore_def WithMaxReplay_def replayLimit_def)

lemma replay_window:
  assumes good: "good_journal F es" and laws: "feed_laws F" and k: "k \<le> length es"
    and cap: "length es - k \<le> feed_cap F"
    and run: "replayEvents (sf_ring F) (sf_write F) (map_option EventsAfter (feed_store F es)) (sf_filter F)
      (sf_maxReplay F) (cursor_at je_ID es k) (dr_New (sf_ring F)) = Some (out, r)"
  shows "map sx_ID out = map je_ID (wanted F k es)"
    and "r = fold (dr_Add (sf_ring F)) (map je_ID (wanted F k es)) (dr_New (sf_ring F))"
proof -
  obtain s where s: "feed_store F es = Some s" by (simp add: feed_store_def NewJournalSSEStore_def)
  note p = feed_store_parts [OF s]
  have id: "\<And>e. sx_ID (sf_mapper F e) = je_ID e" and w: "\<And>evts. sf_write F evts = evts"
    using laws by (simp_all add: feed_laws_def Let_def)
  have "length (drop k es) \<le> replay_limit s" using cap p(3) by (auto simp: feed_cap_def Let_def split: if_splits)
  then have after: "EventsAfter s (cursor_at je_ID es k) = Some (Inr (map (sf_mapper F) (drop k es)))"
    using EventsAfter_newest [of es s k] good k p by (simp add: good_journal_def newest_short)
  have short: "cap_replay (sf_maxReplay F) evts = evts" if "length evts \<le> length es - k" for evts :: "sse_event list"
    using that cap by (auto simp: cap_replay_def feed_cap_def Let_def newest_short split: if_splits)
  have ids: "[] \<notin> sx_ID ` set (map (sf_mapper F) xs)" if "set xs \<subseteq> set es" for xs
    using good that id by (auto simp: good_journal_def good_ids_def)
  show "map sx_ID out = map je_ID (wanted F k es)"
    and "r = fold (dr_Add (sf_ring F)) (map je_ID (wanted F k es)) (dr_New (sf_ring F))"
  proof (atomize (full), cases "sf_filter F")
    case None
    have "matches F = (\<lambda>e. True)" using None by (simp add: matches_def fun_eq_iff)
    moreover from run None have "out = map (stamp_retry DefaultRetryHintMillis) (map (sf_mapper F) (drop k es))"
      "r = recordReplayedIDs (sf_ring F) (map (sf_mapper F) (drop k es)) (dr_New (sf_ring F))"
      by (simp_all add: replayEvents_def s after replayAdjustedStore_EventsAfter_def Let_def short w)
    moreover have "[] \<notin> sx_ID ` set (map (sf_mapper F) (drop k es))" by (rule ids) (rule set_drop_subset)
    ultimately show "map sx_ID out = map je_ID (wanted F k es)
        \<and> r = fold (dr_Add (sf_ring F)) (map je_ID (wanted F k es)) (dr_New (sf_ring F))"
      by (simp add: record_ids wanted_def id o_def stamp_retry_def)
  next
    case (Some pred)
    let ?m = "filter (safePredCall pred) (map (sf_mapper F) (drop k es))"
    have m: "?m = map (sf_mapper F) (wanted F k es)"
      using Some by (simp add: wanted_def matches_def filter_map o_def)
    have "length (wanted F k es) \<le> length es - k"
      unfolding wanted_def by (metis length_filter_le length_drop)
    with run Some have "out = map (stamp_retry DefaultRetryHintMillis) (map (sf_mapper F) (wanted F k es))"
      "r = recordReplayedIDs (sf_ring F) (map (sf_mapper F) (wanted F k es)) (dr_New (sf_ring F))"
      by (simp_all add: replayEvents_def s after EventsAfterFiltered_def Let_def short w m)
    moreover have "[] \<notin> sx_ID ` set (map (sf_mapper F) (wanted F k es))"
      by (rule ids) (auto simp: wanted_def dest: in_set_dropD)
    ultimately show "map sx_ID out = map je_ID (wanted F k es)
        \<and> r = fold (dr_Add (sf_ring F)) (map je_ID (wanted F k es)) (dr_New (sf_ring F))"
      by (simp add: record_ids id o_def stamp_retry_def)
  qed
qed

text \<open>The ring knows exactly the replayed ones among what is pending.\<close>

lemma wanted_ids: "good_journal F es \<Longrightarrow> distinct (map je_ID (wanted F k es)) \<and> [] \<notin> je_ID ` set (wanted F k es)"
proof -
  assume "good_journal F es"
  then have d: "distinct (map je_ID es)" "[] \<notin> je_ID ` set es" by (auto simp: good_journal_def good_ids_def)
  then have "distinct (map je_ID (drop k es))" by (metis distinct_drop drop_map)
  then have "distinct (map je_ID (wanted F k es))" unfolding wanted_def by (rule distinct_map_filter)
  moreover have "set (wanted F k es) \<subseteq> set es" by (auto simp: wanted_def dest: in_set_dropD)
  ultimately show ?thesis using d(2) by blast
qed

lemma replayed_known:
  assumes laws: "feed_laws F" and ids: "distinct (map je_ID W)" "[] \<notin> je_ID ` set W"
    and a: "b - a \<le> dr_Capacity (sf_ring F)" "a \<le> i" "i < length W" "b \<le> length W"
    and ring: "ring = fold (dr_Add (sf_ring F)) (map je_ID (take b W)) (dr_New (sf_ring F))"
  shows "isReplayDuplicate (sf_ring F) (sf_mapper F (W ! i)) ring \<longleftrightarrow> i < b"
proof -
  let ?n = "dr_Capacity (sf_ring F)"
  have id: "sx_ID (sf_mapper F (W ! i)) = je_ID (W ! i)" using laws by (simp add: feed_laws_def Let_def)
  have "distinct (map je_ID (take b W))" using ids(1) by (metis distinct_take take_map)
  moreover have "[] \<notin> set (map je_ID (take b W))" using ids(2) by (auto dest: in_set_takeD)
  ultimately have "dr_Has (sf_ring F) ring (je_ID (W ! i)) \<longleftrightarrow>
      je_ID (W ! i) \<in> set (newest ?n (map je_ID (take b W)))"
    using laws by (simp add: feed_laws_def Let_def ring)
  also have "newest ?n (map je_ID (take b W)) = map je_ID (drop (b - ?n) (take b W))"
    using a(4) by (simp add: newest_def drop_map)
  also have "je_ID (W ! i) \<in> set (map je_ID (drop (b - ?n) (take b W))) \<longleftrightarrow> i < b"
  proof
    assume "je_ID (W ! i) \<in> set (map je_ID (drop (b - ?n) (take b W)))"
    then obtain j where "j < b - (b - ?n)" "je_ID (W ! i) = je_ID (W ! (b - ?n + j))"
      using a(4) by (auto simp: in_set_conv_nth)
    moreover from this have "b - ?n + j < length W" using a(4) by linarith
    ultimately have "i = b - ?n + j" using ids(1) a(3) by (metis distinct_conv_nth length_map nth_map)
    with \<open>j < b - (b - ?n)\<close> show "i < b" by linarith
  next
    assume "i < b"
    then have "W ! i = drop (b - ?n) (take b W) ! (i - (b - ?n))" "i - (b - ?n) < length (drop (b - ?n) (take b W))"
      using a by simp_all
    then show "je_ID (W ! i) \<in> set (map je_ID (drop (b - ?n) (take b W)))" by (metis imageI nth_mem set_map)
  qed
  finally have "dr_Has (sf_ring F) ring (je_ID (W ! i)) \<longleftrightarrow> i < b" .
  moreover have "je_ID (W ! i) \<noteq> []" using ids(2) a(3) by (metis imageI nth_mem)
  ultimately show ?thesis using id by (simp add: isReplayDuplicate_def)
qed

text \<open>What is counted: every identifier, or every one but those of the events the client has seen.\<close>

definition counted :: "bool \<Rightarrow> nat \<Rightarrow> dash_event list \<Rightarrow> string \<Rightarrow> bool" where
  "counted only_new k es i \<longleftrightarrow> only_new \<or> i \<notin> je_ID ` set (take k es)"

lemma counted_new:
  assumes "good_journal F es" and "i = [] \<or> i \<in> je_ID ` set (drop k es)"
  shows "counted only_new k es i"
proof -
  have "distinct (map je_ID (take k es @ drop k es))" and none: "[] \<notin> je_ID ` set es"
    using assms(1) by (simp_all add: good_journal_def good_ids_def)
  then have apart: "je_ID ` set (take k es) \<inter> je_ID ` set (drop k es) = {}"
    by (simp only: map_append distinct_append set_map)
  have "je_ID ` set (take k es) \<subseteq> je_ID ` set es" by (intro image_mono set_take_subset)
  with none have "[] \<notin> je_ID ` set (take k es)" by (rule contra_subsetD [rotated])
  with apart assms(2) have "i \<notin> je_ID ` set (take k es)" by (metis disjoint_iff)
  then show ?thesis by (simp add: counted_def)
qed

lemma counted_wanted: "good_journal F es \<Longrightarrow> e \<in> set (wanted F k es) \<Longrightarrow> counted only_new k es (je_ID e)"
  by (rule counted_new) (auto simp: wanted_def)

lemma counted_wanted_ids:
  assumes "good_journal F es" and "set xs \<subseteq> set (wanted F k es)"
  shows "filter (counted only_new k es) (map je_ID xs) = map je_ID xs"
  using counted_wanted [OF assms(1)] assms(2) by (auto simp: filter_id_conv)

lemma counted_Nil: "good_journal F es \<Longrightarrow> counted only_new k es []"
  by (rule counted_new) simp_all

lemma counted_snoc [simp]: "k \<le> length es \<Longrightarrow> counted only_new k (es @ [e]) = counted only_new k es"
  by (simp add: counted_def fun_eq_iff)

definition owed :: "'r sse_feed \<Rightarrow> bool \<Rightarrow> nat \<Rightarrow> 'r sse_conn \<Rightarrow> sse_event list" where
  "owed F only_new k c = filter (\<lambda>evt. counted only_new k (sc_journal c) (sx_ID evt)) (pending F c)"

text \<open>The invariant. Of what the client is owed, what is pending starts at \<open>a\<close> and the replay ended at \<open>b\<close>.\<close>

definition live_at :: "'r sse_feed \<Rightarrow> bool \<Rightarrow> nat \<Rightarrow> dash_event list \<Rightarrow> 'r sse_conn \<Rightarrow> nat \<Rightarrow> nat \<Rightarrow> bool" where
  "live_at F only_new k W c a b \<longleftrightarrow>
     a \<le> length W \<and> b \<le> length W \<and> b - a \<le> dr_Capacity (sf_ring F)
     \<and> owed F only_new k c = map (sf_mapper F) (drop a W)
     \<and> sc_replayed c = fold (dr_Add (sf_ring F)) (map je_ID (take b W)) (dr_New (sf_ring F))
     \<and> filter (counted only_new k (sc_journal c)) (map sx_ID (sc_sent c)) = [] # map je_ID (take (max a b) W)"

definition live_inv :: "'r sse_feed \<Rightarrow> bool \<Rightarrow> nat \<Rightarrow> 'r sse_conn \<Rightarrow> bool" where
  "live_inv F only_new k c \<longleftrightarrow> (\<exists>a b. live_at F only_new k (wanted F k (sc_journal c)) c a b)"

definition subscribed_inv :: "'r sse_feed \<Rightarrow> bool \<Rightarrow> nat \<Rightarrow> 'r sse_conn \<Rightarrow> bool" where
  "subscribed_inv F only_new k c \<longleftrightarrow>
     length (sc_channel c) \<le> sf_buffer F \<and> sc_sent c = [connected] \<and> sc_replayed c = dr_New (sf_ring F)
     \<and> (\<not> sc_dropped c \<longrightarrow> (\<exists>a\<le>length (wanted F k (sc_journal c)).
          owed F only_new k c = map (sf_mapper F) (drop a (wanted F k (sc_journal c)))))"

text \<open>\<open>whole\<close> says that the replay covered everything after the cursor.\<close>

definition feed_inv :: "'r sse_feed \<Rightarrow> bool \<Rightarrow> bool \<Rightarrow> nat \<Rightarrow> 'r sse_conn \<Rightarrow> bool" where
  "feed_inv F whole only_new k c \<longleftrightarrow>
     on_its_way F only_new k c
     \<and> (sc_phase c = Opening \<longrightarrow> sc_channel c = [] \<and> sc_sent c = [] \<and> sc_replayed c = dr_New (sf_ring F))
     \<and> (sc_phase c = Subscribed \<longrightarrow> subscribed_inv F only_new k c)
     \<and> (sc_phase c = Live \<longrightarrow> \<not> sc_dropped c \<longrightarrow> whole \<longrightarrow> live_inv F only_new k c)"

lemma wanted_snoc:
  "k \<le> length es \<Longrightarrow> wanted F k (es @ [e]) = wanted F k es @ (if matches F (sf_mapper F e) then [e] else [])"
  by (simp add: wanted_def)

lemma newest_snoc: "n \<le> length es \<Longrightarrow> newest (Suc n) (es @ [e]) = newest n es @ [e]"
  by (simp add: newest_def)

lemma on_its_way_commit:
  assumes "on_its_way F only_new k c" and "length (sc_bus c) < sf_lag F" and "good_journal F (sc_journal c @ [e])"
  shows "on_its_way F only_new k (c \<lparr> sc_journal := sc_journal c @ [e], sc_bus := sc_bus c @ [sf_mapper F e] \<rparr>)"
proof -
  from assms(1) have b: "map (sf_mapper F) (newest (length (sc_bus c)) (sc_journal c)) = sc_bus c"
    and l: "k \<le> length (sc_journal c)" "length (sc_bus c) \<le> length (sc_journal c)"
    and c: "sf_cursor F = cursor_at je_ID (sc_journal c) k"
    by (simp_all only: on_its_way_def)
  have new: "only_new \<longrightarrow> k + length (sc_bus c) \<le> length (sc_journal c)"
    using assms(1) unfolding on_its_way_def by blast
  from c l have "sf_cursor F = cursor_at je_ID (sc_journal c @ [e]) k" by (auto simp: cursor_at_def nth_append)
  with assms(2,3) b l new show ?thesis by (simp add: on_its_way_def newest_snoc)
qed

lemma on_its_way_taken:
  assumes "on_its_way F only_new k c" and "sc_bus c = evt # rest"
  shows "on_its_way F only_new k (c \<lparr> sc_bus := rest \<rparr>)"
proof -
  from assms have b: "map (sf_mapper F) (newest (Suc (length rest)) (sc_journal c)) = evt # rest"
    and l: "Suc (length rest) \<le> length (sc_journal c)"
    by (simp_all add: on_its_way_def)
  from l have "newest (length rest) (sc_journal c) = tl (newest (Suc (length rest)) (sc_journal c))"
    by (simp add: newest_def tl_drop drop_Suc [symmetric] Suc_diff_Suc)
  with b have "map (sf_mapper F) (newest (length rest) (sc_journal c)) = rest" by (simp add: map_tl)
  moreover have "only_new \<longrightarrow> k + length rest \<le> length (sc_journal c)" using assms by (auto simp: on_its_way_def)
  ultimately show ?thesis using assms by (simp add: on_its_way_def)
qed

lemma on_its_way_more [simp]:
  "on_its_way F w k (c \<lparr> sc_phase := p \<rparr>) = on_its_way F w k c"
  "on_its_way F w k (c \<lparr> sc_sent := x \<rparr>) = on_its_way F w k c"
  "on_its_way F w k (c \<lparr> sc_channel := x \<rparr>) = on_its_way F w k c"
  "on_its_way F w k (c \<lparr> sc_dropped := d \<rparr>) = on_its_way F w k c"
  "on_its_way F w k (c \<lparr> sc_replayed := r \<rparr>) = on_its_way F w k c"
  by (simp_all add: on_its_way_def)

lemma feed_invI:
  assumes "on_its_way F w k c"
    and "sc_phase c = Opening \<Longrightarrow> sc_channel c = [] \<and> sc_sent c = [] \<and> sc_replayed c = dr_New (sf_ring F)"
    and "sc_phase c = Subscribed \<Longrightarrow> subscribed_inv F w k c"
    and "sc_phase c = Live \<Longrightarrow> \<not> sc_dropped c \<Longrightarrow> q \<Longrightarrow> live_inv F w k c"
  shows "feed_inv F q w k c"
  using assms unfolding feed_inv_def by blast

lemma feed_invD:
  assumes "feed_inv F q w k c"
  shows "on_its_way F w k c"
    and "sc_phase c = Opening \<Longrightarrow> sc_channel c = [] \<and> sc_sent c = [] \<and> sc_replayed c = dr_New (sf_ring F)"
    and "sc_phase c = Subscribed \<Longrightarrow> subscribed_inv F w k c"
    and "sc_phase c = Live \<Longrightarrow> \<not> sc_dropped c \<Longrightarrow> q \<Longrightarrow> live_inv F w k c"
  using assms unfolding feed_inv_def by blast+

lemma commit_keeps:
  assumes laws: "feed_laws F" and inv: "feed_inv F q w k c" and lag: "length (sc_bus c) < sf_lag F"
    and good: "good_journal F (sc_journal c @ [e])"
  shows "feed_inv F q w k (c \<lparr> sc_journal := sc_journal c @ [e], sc_bus := sc_bus c @ [sf_mapper F e] \<rparr>)"
    (is "feed_inv F q w k ?c")
proof -
  have way: "on_its_way F w k c" using inv by (simp add: feed_inv_def)
  then have k: "k \<le> length (sc_journal c)" by (simp add: on_its_way_def)
  let ?W = "wanted F k (sc_journal c)" and ?m = "if matches F (sf_mapper F e) then [e] else []"
  have "counted w k (sc_journal c @ [e]) (je_ID e)" by (rule counted_new [OF good]) (use k in simp)
  then have "counted w k (sc_journal c) (sx_ID (sf_mapper F e))"
    using k laws by (simp add: feed_laws_def Let_def)
  then have pend: "owed F w k ?c = owed F w k c @ map (sf_mapper F) ?m"
    using k by (simp add: owed_def pending_def)
  have sub: "subscribed_inv F w k ?c" if "subscribed_inv F w k c"
  proof (cases "sc_dropped c")
    case False
    with that obtain a where "a \<le> length ?W" "owed F w k c = map (sf_mapper F) (drop a ?W)"
      by (auto simp: subscribed_inv_def)
    with that k show ?thesis
      unfolding subscribed_inv_def pend by (auto simp: wanted_snoc intro!: exI [of _ a])
  qed (use that in \<open>simp add: subscribed_inv_def\<close>)
  have live: "live_inv F w k ?c" if l: "live_inv F w k c"
  proof -
    from l obtain a b where "live_at F w k ?W c a b" unfolding live_inv_def by blast
    with k have "live_at F w k (wanted F k (sc_journal c @ [e])) ?c a b"
      unfolding live_at_def pend by (simp add: wanted_snoc)
    then show ?thesis unfolding live_inv_def by auto
  qed
  show ?thesis
  proof (rule feed_invI)
    show "on_its_way F w k ?c" by (rule on_its_way_commit [OF way lag good])
    show "sc_channel ?c = [] \<and> sc_sent ?c = [] \<and> sc_replayed ?c = dr_New (sf_ring F)" if "sc_phase ?c = Opening"
      using feed_invD(2) [OF inv] that by simp
    show "subscribed_inv F w k ?c" if "sc_phase ?c = Subscribed"
      using feed_invD(3) [OF inv] that by (intro sub) simp
    show "live_inv F w k ?c" if "sc_phase ?c = Live" "\<not> sc_dropped ?c" q
      using feed_invD(4) [OF inv] that by (intro live) simp
  qed
qed

lemma broadcast_keeps:
  assumes inv: "feed_inv F q w k c" and bus: "sc_bus c = evt # rest"
  shows "feed_inv F q w k (broadcast_to F evt (c \<lparr> sc_bus := rest \<rparr>))" (is "feed_inv F q w k ?c")
proof -
  have way: "on_its_way F w k ?c"
    using on_its_way_taken [OF feed_invD(1) [OF inv] bus] by (simp add: broadcast_to_def)
  have same: "sc_journal ?c = sc_journal c" "sc_phase ?c = sc_phase c" "sc_sent ?c = sc_sent c"
    "sc_replayed ?c = sc_replayed c"
    by (simp_all add: broadcast_to_def)
  have pend: "owed F w k ?c = owed F w k c \<and> \<not> sc_dropped c"
    if "\<not> sc_dropped ?c" "sc_phase c \<in> {Subscribed, Live}"
    using that bus by (auto simp: broadcast_to_def owed_def pending_def split: if_splits)
  show ?thesis
  proof (rule feed_invI)
    show "on_its_way F w k ?c" by (rule way)
    show "sc_channel ?c = [] \<and> sc_sent ?c = [] \<and> sc_replayed ?c = dr_New (sf_ring F)" if "sc_phase ?c = Opening"
      using feed_invD(2) [OF inv] that same by (simp add: broadcast_to_def)
    show "subscribed_inv F w k ?c" if p: "sc_phase ?c = Subscribed"
    proof -
      have "length (sc_channel ?c) \<le> sf_buffer F" if "length (sc_channel c) \<le> sf_buffer F"
        using that by (simp add: broadcast_to_def)
      with feed_invD(3) [OF inv] p pend same show ?thesis unfolding subscribed_inv_def by auto
    qed
    show "live_inv F w k ?c" if "sc_phase ?c = Live" "\<not> sc_dropped ?c" q
      using feed_invD(4) [OF inv] that pend same unfolding live_inv_def live_at_def by auto
  qed
qed

text \<open>The bus at the subscription: what is left of the seen events, then an end of what is wanted.\<close>

lemma newest_split:
  assumes "k \<le> length es"
  shows "newest n es = drop (length es - n) (take k es) @ drop (length es - n - k) (drop k es)"
proof -
  have "newest n es = drop (length es - n) (take k es @ drop k es)" by (simp add: newest_def)
  moreover have "length (take k es) = k" using assms by simp
  ultimately show ?thesis by (simp only: drop_append)
qed

lemma subscribe_keeps:
  assumes laws: "feed_laws F" and inv: "feed_inv F q w k c" and o: "sc_phase c = Opening"
  shows "feed_inv F q w k (c \<lparr> sc_phase := Subscribed, sc_sent := sc_sent c @ [connected] \<rparr>)" (is "feed_inv F q w k ?c")
proof -
  let ?J = "sc_journal c" and ?m = "length (sc_journal c) - length (sc_bus c)"
  have way: "on_its_way F w k c" by (rule feed_invD(1) [OF inv])
  have k: "k \<le> length ?J" and good: "good_journal F ?J" and new: "w \<longrightarrow> k \<le> ?m"
    and b: "map (sf_mapper F) (newest (length (sc_bus c)) ?J) = sc_bus c"
    using way by (auto simp: on_its_way_def)
  have id: "sx_ID (sf_mapper F e) = je_ID e" for e using laws by (simp add: feed_laws_def Let_def)
  define X where "X = wanted F 0 (take (?m - k) (drop k ?J))"
  define Y where "Y = wanted F 0 (drop (?m - k) (drop k ?J))"
  have W: "wanted F k ?J = X @ Y"
    unfolding wanted_def X_def Y_def by (metis append_take_drop_id drop0 filter_append)
  have seen: "filter (\<lambda>evt. counted w k ?J (sx_ID evt)) (map (sf_mapper F) (drop ?m (take k ?J))) = []"
  proof (cases w)
    case True
    with new show ?thesis by simp
  next
    case False
    then show ?thesis by (auto simp: filter_empty_conv counted_def id dest: in_set_dropD)
  qed
  have bus: "sc_bus c = map (sf_mapper F) (drop ?m (take k ?J)) @ map (sf_mapper F) (drop (?m - k) (drop k ?J))"
    unfolding map_append [symmetric] newest_split [OF k, symmetric] by (rule b [symmetric])
  have "set Y \<subseteq> set (wanted F k ?J)" by (simp add: W)
  then have "filter (\<lambda>evt. counted w k ?J (sx_ID evt)) (map (sf_mapper F) Y) = map (sf_mapper F) Y"
    using counted_wanted [OF good] by (auto simp: filter_id_conv id)
  moreover have "filter (matches F) (map (sf_mapper F) (drop (?m - k) (drop k ?J))) = map (sf_mapper F) Y"
    by (simp add: Y_def wanted_def filter_map o_def)
  moreover have "filter (\<lambda>evt. counted w k ?J (sx_ID evt)) (filter (matches F) (map (sf_mapper F) (drop ?m (take k ?J)))) = []"
    using seen unfolding filter_empty_conv by (simp only: set_filter) blast
  ultimately have "filter (\<lambda>evt. counted w k ?J (sx_ID evt)) (filter (matches F)
      (map (sf_mapper F) (drop ?m (take k ?J)) @ map (sf_mapper F) (drop (?m - k) (drop k ?J)))) = map (sf_mapper F) Y"
    by (simp only: filter_append append_Nil)
  then have "filter (\<lambda>evt. counted w k ?J (sx_ID evt)) (filter (matches F) (sc_bus c)) = map (sf_mapper F) Y"
    unfolding bus [symmetric] .
  then have "owed F w k ?c = map (sf_mapper F) (drop (length X) (wanted F k ?J))"
    using feed_invD(2) [OF inv o] by (simp add: owed_def pending_def W)
  moreover have "length X \<le> length (wanted F k ?J)" by (simp add: W)
  ultimately have "subscribed_inv F w k ?c"
    using feed_invD(2) [OF inv o] by (auto simp: subscribed_inv_def)
  with way show ?thesis by (intro feed_invI) simp_all
qed

lemma replay_keeps:
  assumes laws: "feed_laws F" and inv: "feed_inv F q w k c" and sub: "sc_phase c = Subscribed"
    and cap: "q \<Longrightarrow> length (sc_journal c) - k \<le> feed_cap F"
    and run: "replayEvents (sf_ring F) (sf_write F) (map_option EventsAfter (feed_store F (sc_journal c))) (sf_filter F)
      (sf_maxReplay F) (sf_cursor F) (sc_replayed c) = Some (out, r)"
  shows "feed_inv F q w k (c \<lparr> sc_phase := Live, sc_sent := sc_sent c @ out, sc_replayed := r \<rparr>)" (is "feed_inv F q w k ?c")
proof (rule feed_invI)
  have way: "on_its_way F w k c" by (rule feed_invD(1) [OF inv])
  have si: "subscribed_inv F w k c" by (rule feed_invD(3) [OF inv sub])
  show "on_its_way F w k ?c" using way by simp
  show "live_inv F w k ?c" if nd: "\<not> sc_dropped ?c" and q
  proof -
    let ?W = "wanted F k (sc_journal c)"
    have good: "good_journal F (sc_journal c)" and k: "k \<le> length (sc_journal c)"
      and lag: "length (sc_bus c) \<le> sf_lag F" and cur: "sf_cursor F = cursor_at je_ID (sc_journal c) k"
      using way by (simp_all add: on_its_way_def)
    have sent: "sc_sent c = [connected]" "sc_replayed c = dr_New (sf_ring F)" "length (sc_channel c) \<le> sf_buffer F"
      using si by (simp_all add: subscribed_inv_def)
    from si nd obtain a where a: "a \<le> length ?W" "owed F w k c = map (sf_mapper F) (drop a ?W)"
      by (auto simp: subscribed_inv_def)
    have "length (pending F c) \<le> sf_buffer F + sf_lag F"
      using sent(3) le_trans [OF length_filter_le lag, of "matches F"] by (simp add: pending_def add_mono)
    then have "length (owed F w k c) \<le> sf_buffer F + sf_lag F"
      unfolding owed_def by (rule le_trans [OF length_filter_le])
    then have "length ?W - a \<le> dr_Capacity (sf_ring F)" using laws a by (simp add: feed_laws_def Let_def)
    moreover have out: "map sx_ID out = map je_ID ?W"
      "r = fold (dr_Add (sf_ring F)) (map je_ID ?W) (dr_New (sf_ring F))"
      using replay_window [OF good laws k _ run [unfolded cur sent(2)]] cap \<open>q\<close> by simp_all
    moreover have "filter (counted w k (sc_journal c)) (map sx_ID out) = map je_ID ?W"
      unfolding out(1) by (rule counted_wanted_ids [OF good subset_refl])
    ultimately have "live_at F w k ?W ?c a (length ?W)"
      using a sent(1) counted_Nil [OF good] unfolding live_at_def
      by (simp add: owed_def pending_def connected_def)
    then show ?thesis unfolding live_inv_def by auto
  qed
qed simp_all

lemma pump_keeps:
  assumes laws: "feed_laws F" and inv: "feed_inv F q w k c" and ph: "sc_phase c = Live" and ch: "sc_channel c = evt # rest"
  shows "feed_inv F q w k (pump F evt (c \<lparr> sc_channel := rest \<rparr>))" (is "feed_inv F q w k ?c")
proof (rule feed_invI)
  have way: "on_its_way F w k c" by (rule feed_invD(1) [OF inv])
  then show "on_its_way F w k ?c" by (simp add: pump_def)
  have p: "sc_phase ?c = Live" "sc_journal ?c = sc_journal c" using ph by (simp_all add: pump_def)
  then show "sc_channel ?c = [] \<and> sc_sent ?c = [] \<and> sc_replayed ?c = dr_New (sf_ring F)" if "sc_phase ?c = Opening"
    using that by simp
  show "subscribed_inv F w k ?c" if "sc_phase ?c = Subscribed" using that p by simp
  show "live_inv F w k ?c" if nd: "\<not> sc_dropped ?c" and q
  proof -
    let ?W = "wanted F k (sc_journal c)" and ?K = "counted w k (sc_journal c)"
    have "\<not> sc_dropped c" using nd by (simp add: pump_def split: if_splits)
    with feed_invD(4) [OF inv ph] \<open>q\<close> p obtain a b where ab: "live_at F w k ?W c a b" by (auto simp: live_inv_def)
    have good: "good_journal F (sc_journal c)" using way by (simp add: on_its_way_def)
    have rest: "owed F w k ?c = filter (\<lambda>evt. ?K (sx_ID evt)) (rest @ filter (matches F) (sc_bus c))"
      by (simp add: owed_def pending_def pump_def)
    have "owed F w k c = (if ?K (sx_ID evt) then [evt] else []) @ owed F w k ?c"
      unfolding rest by (simp add: owed_def pending_def ch)
    with ab have pend: "(if ?K (sx_ID evt) then [evt] else []) @ owed F w k ?c = map (sf_mapper F) (drop a ?W)"
      by (simp only: live_at_def)
    show ?thesis
    proof (cases "?K (sx_ID evt)")
      case False
      then have "live_at F w k ?W ?c a b" using ab pend unfolding live_at_def by (simp add: pump_def)
      with p(2) show ?thesis unfolding live_inv_def by auto
    next
      case True
      then have a: "a < length ?W" using pend by (cases "a < length ?W") auto
      with pend True have "evt # owed F w k ?c = sf_mapper F (?W ! a) # map (sf_mapper F) (drop (Suc a) ?W)"
        unfolding Cons_nth_drop_Suc [OF a, symmetric] by (simp only: if_True append_Cons append_Nil list.map)
      then have both: "evt = sf_mapper F (?W ! a) \<and> owed F w k ?c = map (sf_mapper F) (drop (Suc a) ?W)"
        unfolding list.inject .
      note evt = both [THEN conjunct1] and rest = both [THEN conjunct2]
      have dup: "isReplayDuplicate (sf_ring F) evt (sc_replayed c) \<longleftrightarrow> a < b"
        unfolding evt using ab a wanted_ids [OF good, of k]
        by (intro replayed_known [OF laws, of ?W b a a]) (simp_all add: live_at_def)
      have id: "sx_ID evt = je_ID (?W ! a)" using laws evt by (simp add: feed_laws_def Let_def)
      have "live_at F w k ?W ?c (Suc a) b"
      proof (cases "a < b")
        case less: True
        moreover have "b - Suc a \<le> dr_Capacity (sf_ring F)" using ab unfolding live_at_def by linarith
        ultimately show ?thesis using ab a dup rest unfolding live_at_def by (simp add: pump_def max_def)
      next
        case False
        with ab a dup rest id True show ?thesis
          unfolding live_at_def by (simp add: pump_def max_def take_Suc_conv_app_nth)
      qed
      with p(2) show ?thesis unfolding live_inv_def by auto
    qed
  qed
qed

lemma step_keeps:
  assumes "feed_laws F" and "serve_step F c c'" and "feed_inv F q w k c"
    and "q \<Longrightarrow> sc_phase c = Subscribed \<Longrightarrow> length (sc_journal c) - k \<le> feed_cap F"
  shows "feed_inv F q w k c'"
  using assms(2)
proof cases
  case (Commit e)
  with commit_keeps [OF assms(1,3)] show ?thesis by blast
next
  case (Broadcast evt rest)
  with broadcast_keeps [OF assms(3)] show ?thesis by blast
next
  case Subscribe
  with subscribe_keeps [OF assms(1,3)] show ?thesis by blast
next
  case (Replay out r)
  with replay_keeps [OF assms(1,3)] assms(4) show ?thesis by blast
next
  case (Pump evt rest)
  with pump_keeps [OF assms(1,3)] show ?thesis by blast
next
  case Disconnect
  from feed_invD(1) [OF assms(3)] show ?thesis unfolding Disconnect by (intro feed_invI) simp_all
qed

text \<open>Before the replay nothing is asked about the cap, after it nothing more.\<close>

lemma run_before:
  assumes "feed_laws F" and "opened F k c" and "w \<longrightarrow> k + length (sc_bus c) \<le> length (sc_journal c)"
    and "(serve_step F)\<^sup>*\<^sup>* c c'"
  shows "feed_inv F False w k c'"
  using assms(4)
proof (induction rule: rtranclp_induct)
  case base
  with assms(2,3) show ?case by (intro feed_invI) (simp_all add: opened_def on_its_way_def)
next
  case (step y z)
  show ?case by (rule step_keeps [OF assms(1) step.hyps(2) step.IH]) simp
qed

lemma stays_live: "serve_step F c c' \<Longrightarrow> sc_phase c \<in> {Live, Closed} \<Longrightarrow> sc_phase c' \<in> {Live, Closed}"
  by (auto simp: broadcast_to_def pump_def elim!: serve_stepE)

lemma run_after:
  assumes "feed_laws F" and "feed_inv F True w k c" and "sc_phase c \<in> {Live, Closed}" and "(serve_step F)\<^sup>*\<^sup>* c c'"
  shows "feed_inv F True w k c' \<and> sc_phase c' \<in> {Live, Closed}"
  using assms(4)
proof (induction rule: rtranclp_induct)
  case base
  with assms(2,3) show ?case by simp
next
  case (step y z)
  then show ?case using step_keeps [OF assms(1) step.hyps(2)] stays_live [OF step.hyps(2)] by auto
qed

text \<open>A connection that went live by a replay that covered what was after the cursor.\<close>

definition went_live :: "'r sse_feed \<Rightarrow> nat \<Rightarrow> 'r sse_conn \<Rightarrow> 'r sse_conn \<Rightarrow> bool" where
  "went_live F k c0 c \<longleftrightarrow>
     opened F k c0 \<and> sc_phase c = Live \<and> \<not> sc_dropped c
     \<and> (\<exists>c1 c2. (serve_step F)\<^sup>*\<^sup>* c0 c1 \<and> sc_phase c1 = Subscribed \<and> serve_step F c1 c2 \<and> sc_phase c2 = Live
          \<and> length (sc_journal c1) - k \<le> feed_cap F \<and> (serve_step F)\<^sup>*\<^sup>* c2 c)"

lemma went_live_inv:
  assumes "feed_laws F" and "went_live F k c0 c" and "w \<longrightarrow> k + length (sc_bus c0) \<le> length (sc_journal c0)"
  shows "feed_inv F True w k c"
proof -
  from assms(2) obtain c1 c2 where c: "opened F k c0" "(serve_step F)\<^sup>*\<^sup>* c0 c1" "sc_phase c1 = Subscribed"
    "serve_step F c1 c2" "sc_phase c2 = Live" "length (sc_journal c1) - k \<le> feed_cap F" "(serve_step F)\<^sup>*\<^sup>* c2 c"
    by (auto simp: went_live_def)
  have "feed_inv F True w k c1"
    using run_before [OF assms(1) c(1) assms(3) c(2)] c(3) by (simp add: feed_inv_def)
  from step_keeps [OF assms(1) c(4) this c(6)] have "feed_inv F True w k c2" .
  from run_after [OF assms(1) this _ c(7)] c(5) show ?thesis by simp
qed

lemma live_delivers:
  assumes laws: "feed_laws F" and inv: "feed_inv F True w k c" and c: "sc_phase c = Live" "\<not> sc_dropped c"
  shows "filter (counted w k (sc_journal c)) (map sx_ID (sc_sent c) @ map sx_ID (undelivered F c))
    = [] # map je_ID (wanted F k (sc_journal c))"
proof -
  let ?W = "wanted F k (sc_journal c)" and ?K = "counted w k (sc_journal c)"
  from feed_invD(4) [OF inv c] obtain a b where ab: "live_at F w k ?W c a b" by (auto simp: live_inv_def)
  have good: "good_journal F (sc_journal c)" using feed_invD(1) [OF inv] by (simp add: on_its_way_def)
  have dup: "isReplayDuplicate (sf_ring F) (sf_mapper F (?W ! i)) (sc_replayed c) \<longleftrightarrow> i < b"
    if "a \<le> i" "i < length ?W" for i
    using ab that wanted_ids [OF good, of k] by (intro replayed_known [OF laws, of ?W b a i]) (simp_all add: live_at_def)
  let ?dup = "\<lambda>e. isReplayDuplicate (sf_ring F) (sf_mapper F e) (sc_replayed c)"
  have "drop a ?W = take (b - a) (drop a ?W) @ drop (max a b) ?W"
    using append_take_drop_id [of "b - a" "drop a ?W", symmetric] by (cases "a \<le> b") (simp_all add: max_def)
  moreover have "?dup e" if "e \<in> set (take (b - a) (drop a ?W))" for e
    using that ab dup by (auto simp: in_set_conv_nth live_at_def)
  moreover have "\<not> ?dup e" if "e \<in> set (drop (max a b) ?W)" for e
  proof -
    have "max a b \<le> length ?W" using ab by (simp add: live_at_def)
    with that obtain i where "i < length ?W - max a b" "e = ?W ! (max a b + i)" by (auto simp: in_set_conv_nth)
    with dup [of "max a b + i"] show ?thesis by auto
  qed
  ultimately have rest: "filter (\<lambda>e. \<not> ?dup e) (drop a ?W) = drop (max a b) ?W"
    by (metis (no_types, lifting) append_Nil filter_False filter_True filter_append)
  have "filter (\<lambda>evt. ?K (sx_ID evt)) (undelivered F c)
      = filter (\<lambda>evt. \<not> isReplayDuplicate (sf_ring F) evt (sc_replayed c)) (owed F w k c)"
    unfolding undelivered_def owed_def filter_filter by (rule filter_cong) auto
  also have "\<dots> = map (sf_mapper F) (drop (max a b) ?W)"
    using ab rest by (simp add: live_at_def filter_map o_def)
  finally have "filter ?K (map sx_ID (undelivered F c)) = map je_ID (drop (max a b) ?W)"
    using laws by (simp add: filter_map o_def feed_laws_def Let_def)
  moreover have "filter ?K (map sx_ID (sc_sent c)) = [] # map je_ID (take (max a b) ?W)"
    using ab by (simp only: live_at_def)
  ultimately have "filter ?K (map sx_ID (sc_sent c) @ map sx_ID (undelivered F c))
      = [] # (map je_ID (take (max a b) ?W) @ map je_ID (drop (max a b) ?W))"
    by (simp only: filter_append append_Cons)
  then show ?thesis by (simp only: map_append [symmetric] append_take_drop_id)
qed

lemma counted_all: "filter (counted True k es) xs = xs"
  by (simp add: counted_def)

lemma counted_unseen: "filter (counted False k es) xs = filter (\<lambda>i. i \<notin> je_ID ` set (take k es)) xs"
  by (rule filter_cong) (simp_all add: counted_def)

lemma went_live_delivers:
  assumes "feed_laws F" and "went_live F k c0 c"
    and "ids = map sx_ID (sc_sent c) @ map sx_ID (undelivered F c)"
  shows "filter (\<lambda>i. i \<notin> je_ID ` set (take k (sc_journal c))) ids = [] # map je_ID (wanted F k (sc_journal c))"
    and "k + length (sc_bus c0) \<le> length (sc_journal c0) \<Longrightarrow> ids = [] # map je_ID (wanted F k (sc_journal c))"
proof -
  have c: "sc_phase c = Live" "\<not> sc_dropped c" using assms(2) by (simp_all add: went_live_def)
  show "filter (\<lambda>i. i \<notin> je_ID ` set (take k (sc_journal c))) ids = [] # map je_ID (wanted F k (sc_journal c))"
    using live_delivers [OF assms(1) went_live_inv [OF assms(1,2), of False] c]
    unfolding assms(3) counted_unseen by simp
  show "ids = [] # map je_ID (wanted F k (sc_journal c))" if "k + length (sc_bus c0) \<le> length (sc_journal c0)"
    using live_delivers [OF assms(1) went_live_inv [OF assms(1,2), of True] c] that
    unfolding assms(3) counted_all by simp
qed


text \<open>The handler and the broadcaster alone bring a live connection to where everything is written.\<close>

lemma pump_parts [simp]:
  "sc_journal (pump F evt c) = sc_journal c" "sc_bus (pump F evt c) = sc_bus c" "sc_phase (pump F evt c) = sc_phase c"
  "sc_channel (pump F evt c) = sc_channel c" "sc_dropped (pump F evt c) = sc_dropped c"
  by (simp_all add: pump_def)

definition delivery :: "'r sse_feed \<Rightarrow> 'r sse_conn \<Rightarrow> 'r sse_conn \<Rightarrow> bool" where
  "delivery F c c' \<longleftrightarrow> serve_step F c c' \<and> sc_phase c = Live \<and> sc_phase c' = Live \<and> sc_journal c' = sc_journal c"

definition load :: "'r sse_conn \<Rightarrow> nat" where
  "load c = length (sc_channel c) + 2 * length (sc_bus c)"

lemma delivery_runs: "(delivery F)\<^sup>*\<^sup>* c c' \<Longrightarrow> (serve_step F)\<^sup>*\<^sup>* c c'"
  by (rule rtranclp_mono [THEN predicate2D]) (auto simp: delivery_def)

text \<open>Such steps cannot go on for ever.\<close>

lemma delivery_decreases: "delivery F c c' \<Longrightarrow> load c' < load c"
  by (auto simp: delivery_def load_def broadcast_to_def elim!: serve_stepE split: if_splits)

lemma delivery_ends: "\<exists>n. \<not> delivery F (f n) (f (Suc n))"
proof (rule ccontr)
  assume "\<nexists>n. \<not> delivery F (f n) (f (Suc n))"
  then have "\<forall>n. (f (Suc n), f n) \<in> measure load" using delivery_decreases by (auto simp: measure_def)
  with wf_measure show False by (auto simp: wf_iff_no_infinite_down_chain)
qed

lemma delivery_live:
  "(delivery F)\<^sup>*\<^sup>* c c' \<Longrightarrow> sc_phase c = Live \<Longrightarrow> sc_phase c' = Live \<and> sc_journal c' = sc_journal c"
  by (induction rule: rtranclp_induct) (auto simp: delivery_def)

text \<open>They only stop where nothing is left.\<close>

lemma delivery_stops:
  assumes "sc_phase c = Live" and "\<not> (\<exists>c'. delivery F c c')"
  shows "sc_channel c = [] \<and> sc_bus c = []"
proof -
  have "sc_channel c \<noteq> evt # rest" for evt rest
  proof
    assume ch: "sc_channel c = evt # rest"
    from Pump [OF assms(1) ch] assms(1) have "delivery F c (pump F evt (c \<lparr> sc_channel := rest \<rparr>))"
      by (simp add: delivery_def)
    with assms(2) show False by blast
  qed
  moreover have "sc_bus c \<noteq> evt # rest" for evt rest
  proof
    assume bus: "sc_bus c = evt # rest"
    from Broadcast [OF bus, of F] assms(1) have "delivery F c (broadcast_to F evt (c \<lparr> sc_bus := rest \<rparr>))"
      by (simp add: delivery_def broadcast_to_def)
    with assms(2) show False by blast
  qed
  ultimately show ?thesis by (metis list.exhaust)
qed

lemma drains:
  assumes "sc_phase c = Live" and "\<not> sc_dropped c" and "0 < sf_buffer F"
  shows "\<exists>c'. (delivery F)\<^sup>*\<^sup>* c c' \<and> sc_phase c' = Live \<and> \<not> sc_dropped c' \<and> sc_journal c' = sc_journal c
    \<and> sc_channel c' = [] \<and> sc_bus c' = []"
  using assms
proof (induction "length (sc_channel c) + 2 * length (sc_bus c)" arbitrary: c rule: less_induct)
  case less
  show ?case
  proof (cases "sc_channel c")
    case (Cons evt rest)
    let ?c = "pump F evt (c \<lparr> sc_channel := rest \<rparr>)"
    have "delivery F c ?c" using Pump [OF less.prems(1) Cons] less.prems(1) by (simp add: delivery_def)
    moreover from less.hyps [of ?c] less.prems Cons obtain c' where "(delivery F)\<^sup>*\<^sup>* ?c c'"
      "sc_phase c' = Live" "\<not> sc_dropped c'" "sc_journal c' = sc_journal c" "sc_channel c' = []" "sc_bus c' = []"
      by auto
    ultimately show ?thesis by (metis converse_rtranclp_into_rtranclp)
  next
    case Nil
    show ?thesis
    proof (cases "sc_bus c")
      case (Cons evt rest)
      let ?c = "broadcast_to F evt (c \<lparr> sc_bus := rest \<rparr>)"
      have "delivery F c ?c"
        using Broadcast [OF Cons, of F] less.prems(1) by (simp add: delivery_def broadcast_to_def)
      moreover have "sc_phase ?c = Live" "\<not> sc_dropped ?c" "sc_journal ?c = sc_journal c" "sc_bus ?c = rest"
        "length (sc_channel ?c) \<le> 1"
        using less.prems Nil by (simp_all add: broadcast_to_def)
      moreover from this less.hyps [of ?c] less.prems Cons Nil obtain c' where "(delivery F)\<^sup>*\<^sup>* ?c c'"
        "sc_phase c' = Live" "\<not> sc_dropped c'" "sc_journal c' = sc_journal c" "sc_channel c' = []" "sc_bus c' = []"
        by auto
      ultimately show ?thesis by (metis converse_rtranclp_into_rtranclp)
    qed (use less.prems Nil in auto)
  qed
qed


section \<open>Where the documentation promises more\<close>

text \<open>The store's own cap counts events before the filter of a scoped feed: when none of the newest \<open>n\<close> events matches,
  nothing is replayed, whatever matches before them.\<close>

lemma scoped_backfill_starved:
  assumes "good_journal F es" and "k \<le> length es" and "sf_filter F = Some pred"
    and "feed_store F es = Some s"
    and "\<forall>e\<in>set (newest (replay_limit s) (drop k es)). \<not> safePredCall pred (sf_mapper F e)"
  shows "replayEvents (sf_ring F) (sf_write F) (map_option EventsAfter (feed_store F es)) (sf_filter F)
      (sf_maxReplay F) (cursor_at je_ID es k) r = Some (sf_write F [], r)"
proof -
  have "EventsAfter s (cursor_at je_ID es k) = Some (Inr (map (sf_mapper F) (newest (replay_limit s) (drop k es))))"
    using EventsAfter_newest [of es s k] assms(1,2) feed_store_parts [OF assms(4)] by (simp add: good_journal_def)
  moreover have "filter (safePredCall pred) (map (sf_mapper F) (newest (replay_limit s) (drop k es))) = []"
    using assms(5) by (auto simp: filter_empty_conv)
  moreover have "cap_replay (sf_maxReplay F) ([] :: sse_event list) = []" by (simp add: cap_replay_def newest_def)
  ultimately show ?thesis
    by (simp add: replayEvents_def assms(3,4) EventsAfterFiltered_def Let_def recordReplayedIDs_def)
qed

text \<open>A valid cursor the journal does not know is not answered with nothing: where \<open>ReadFrom\<close> reads it from the
  beginning, the newest events of the whole journal are.\<close>

lemma unknown_cursor_replays:
  assumes "journal_laws es (js_journal s)" and "good_ids je_ID es" and "sj_ReadFrom (js_journal s) = Some ReadFrom"
    and "lastID \<noteq> []" and "sj_ParseEventID (js_journal s) lastID = Some lastID"
    and "\<And>n. ReadFrom lastID n = ReadFrom [] n"
  shows "EventsAfter s lastID = Some (Inr (map (js_mapper s) (newest (replay_limit s) es)))"
proof -
  let ?f = "infra ''transport.sse.journal_read_failed'' ''read events from journal'' [(''last_id'', lastID)]"
  have "read_tail je_ID ReadFrom (replay_limit s) ?f lastID [] = read_tail je_ID ReadFrom (replay_limit s) ?f [] []"
    by (subst (1 2) read_tail.simps) (simp add: assms(6))
  moreover have "seekable je_ID ReadFrom es" using assms(1,3) by (simp add: journal_laws_def)
  note seekable.read_tail_newest [OF this assms(2) _ limit_pos, of 0 "[]" s ?f]
  ultimately have "read_tail je_ID ReadFrom (replay_limit s) ?f lastID [] = Some (Inr (newest (replay_limit s) es))"
    by (simp add: cursor_at_def)
  with assms(3-5) show ?thesis
    by (simp add: EventsAfter_def eventsAfterSeekable_def mapEvents_def)
qed

section \<open>A connection at the seam\<close>

text \<open>An event is on its way when the client connects: it reaches the channel before the replay writes it.\<close>

definition recent_ring :: "string list dedup_ring" where
  "recent_ring = \<lparr> dr_New = [], dr_Add = (\<lambda>i r. newest 4 (r @ [i])), dr_Has = (\<lambda>r i. i \<in> set r), dr_Capacity = 4 \<rparr>"

definition seam_event :: dash_event where
  "seam_event =
     \<lparr> je_ID = ''e1'', je_Type = ''UserRegistered'', je_StreamType = ''user'', je_StreamID = ''user:1'', je_Version = 1,
       je_SchemaVersion = ''1'', je_OccurredAt = [], je_Encoding = ''json'', je_Payload = [],
       de_StreamBare = ''1'', de_Time = 0 \<rparr>"

definition seam_feed :: "string list sse_feed" where
  "seam_feed =
     \<lparr> sf_journal = (\<lambda>es. \<lparr> sj_ReadAll = Inr es, sj_ReadFrom = None, sj_ReadLastN = None, sj_ParseEventID = Some \<rparr>),
       sf_mapper = DomainEventToSSE (\<lambda>t. []) (\<lambda>p. Some (ep_Type p)), sf_storeReplay = 0, sf_filter = None,
       sf_maxReplay = 0, sf_cursor = [], sf_ring = recent_ring, sf_write = (\<lambda>evts. evts), sf_buffer = 2, sf_lag = 2 \<rparr>"

definition seam_open :: "string list sse_conn" where
  "seam_open =
     \<lparr> sc_journal = [seam_event], sc_bus = [sf_mapper seam_feed seam_event], sc_phase = Opening, sc_channel = [],
       sc_dropped = False, sc_sent = [], sc_replayed = [] \<rparr>"

definition seam_live :: "string list sse_conn" where
  "seam_live =
     seam_open \<lparr> sc_bus := [], sc_phase := Live, sc_channel := [sf_mapper seam_feed seam_event],
       sc_sent := [connected, stamp_retry DefaultRetryHintMillis (sf_mapper seam_feed seam_event)],
       sc_replayed := [''e1''] \<rparr>"

lemma recent_ring_fold: "fold (dr_Add recent_ring) ids (newest 4 r) = newest 4 (r @ ids)"
proof (induction ids arbitrary: r)
  case (Cons i ids)
  have "dr_Add recent_ring i (newest 4 r) = newest 4 (r @ [i])" by (simp add: recent_ring_def newest_append)
  with Cons.IH [of "r @ [i]"] show ?case by simp
qed simp

lemma seam_laws: "feed_laws seam_feed"
proof -
  have "fold (dr_Add recent_ring) ids [] = newest 4 ids" for ids
    using recent_ring_fold [of ids "[]"] by (simp add: newest_def)
  then show ?thesis by (simp add: feed_laws_def seam_feed_def Let_def) (simp add: recent_ring_def)
qed

lemma seam_opened: "opened seam_feed 0 seam_open"
  by (simp add: opened_def seam_open_def on_its_way_def good_journal_def good_ids_def journal_laws_def seam_feed_def
    cursor_at_def newest_def recent_ring_def seam_event_def)

definition seam_subscribed :: "string list sse_conn" where
  "seam_subscribed =
     seam_open \<lparr> sc_bus := [], sc_phase := Subscribed, sc_channel := [sf_mapper seam_feed seam_event],
       sc_sent := [connected] \<rparr>"

lemma seam_run: "(serve_step seam_feed)\<^sup>*\<^sup>* seam_open seam_subscribed"
proof -
  let ?c1 = "seam_open \<lparr> sc_phase := Subscribed, sc_sent := sc_sent seam_open @ [connected] \<rparr>"
  have s1: "serve_step seam_feed seam_open ?c1" by (rule Subscribe) (simp add: seam_open_def)
  have "serve_step seam_feed ?c1 (broadcast_to seam_feed (sf_mapper seam_feed seam_event) (?c1 \<lparr> sc_bus := [] \<rparr>))"
    by (rule Broadcast) (simp add: seam_open_def)
  moreover have "broadcast_to seam_feed (sf_mapper seam_feed seam_event) (?c1 \<lparr> sc_bus := [] \<rparr>) = seam_subscribed"
    by (simp add: broadcast_to_def seam_subscribed_def seam_open_def matches_def seam_feed_def)
  ultimately have "serve_step seam_feed ?c1 seam_subscribed" by simp
  then have "(serve_step seam_feed)\<^sup>*\<^sup>* ?c1 seam_subscribed" by (rule r_into_rtranclp)
  with s1 show ?thesis by (rule converse_rtranclp_into_rtranclp)
qed

lemma seam_replay: "serve_step seam_feed seam_subscribed seam_live"
proof -
  have "serve_step seam_feed seam_subscribed (seam_subscribed \<lparr> sc_phase := Live,
      sc_sent := sc_sent seam_subscribed @ [stamp_retry DefaultRetryHintMillis (sf_mapper seam_feed seam_event)],
      sc_replayed := [''e1''] \<rparr>)"
    by (rule Replay) (simp_all add: seam_subscribed_def seam_open_def seam_feed_def replayEvents_def
      replayAdjustedStore_EventsAfter_def feed_store_def NewJournalSSEStore_def WithMaxReplay_def EventsAfter_def
      eventsAfterFullScan_def mapEvents_def replayLimit_def DefaultMaxReplay_def newest_def cap_replay_def
      recordReplayedIDs_def recent_ring_def seam_event_def Let_def)
  then show ?thesis by (simp add: seam_live_def seam_subscribed_def seam_open_def)
qed

lemma seam_state:
  "sc_phase seam_subscribed = Subscribed" "sc_phase seam_live = Live"
  "length (sc_journal seam_subscribed) - 0 \<le> feed_cap seam_feed"
  "(serve_step seam_feed)\<^sup>*\<^sup>* seam_live seam_live" "\<not> sc_dropped seam_live" "0 < sf_buffer seam_feed"
  "wanted seam_feed 0 (sc_journal seam_live) = [seam_event]" "sc_journal seam_live = [seam_event]"
  by (simp_all add: seam_subscribed_def seam_live_def seam_open_def feed_cap_def seam_feed_def DefaultMaxReplay_def
    wanted_def matches_def)



text \<open>The event at the cursor, when it is still on its way as the client connects, is written to it once more: the
  replay starts after it, so the ring does not know it.\<close>

definition again_feed :: "string list sse_feed" where
  "again_feed = seam_feed \<lparr> sf_cursor := ''e1'' \<rparr>"

lemma cursor_event_sent_again:
  "opened again_feed 1 seam_open
   \<and> (\<exists>c. (serve_step again_feed)\<^sup>*\<^sup>* seam_open c \<and> map sx_ID (sc_sent c) = [[], ''e1''])"
proof -
  let ?e = "sf_mapper again_feed seam_event"
  let ?c1 = "seam_open \<lparr> sc_phase := Subscribed, sc_sent := sc_sent seam_open @ [connected] \<rparr>"
  let ?c2 = "broadcast_to again_feed ?e (?c1 \<lparr> sc_bus := [] \<rparr>)"
  let ?c3 = "?c2 \<lparr> sc_phase := Live, sc_sent := sc_sent ?c2 @ [], sc_replayed := [] \<rparr>"
  have c2: "?c2 = seam_open \<lparr> sc_bus := [], sc_phase := Subscribed, sc_channel := [?e], sc_sent := [connected] \<rparr>"
    by (simp add: broadcast_to_def seam_open_def matches_def again_feed_def seam_feed_def)
  have s1: "serve_step again_feed seam_open ?c1" by (rule Subscribe) (simp add: seam_open_def)
  have s2: "serve_step again_feed ?c1 ?c2"
    by (rule Broadcast) (simp add: seam_open_def again_feed_def)
  have s3: "serve_step again_feed ?c2 ?c3"
    unfolding c2 by (rule Replay) (simp_all add: seam_open_def again_feed_def seam_feed_def replayEvents_def
      replayAdjustedStore_EventsAfter_def feed_store_def NewJournalSSEStore_def WithMaxReplay_def EventsAfter_def
      eventsAfterFullScan_def mapEvents_def replayLimit_def DefaultMaxReplay_def newest_def cap_replay_def
      recordReplayedIDs_def recent_ring_def seam_event_def Let_def)
  have s4: "serve_step again_feed ?c3 (pump again_feed ?e (?c3 \<lparr> sc_channel := [] \<rparr>))"
    unfolding c2 by (rule Pump) simp_all
  have sent: "map sx_ID (sc_sent (pump again_feed ?e (?c3 \<lparr> sc_channel := [] \<rparr>))) = [[], ''e1'']"
    unfolding c2 by (simp add: pump_def isReplayDuplicate_def connected_def again_feed_def seam_feed_def seam_event_def
      seam_open_def recent_ring_def)
  have start: "opened again_feed 1 seam_open"
    by (simp add: opened_def seam_open_def on_its_way_def good_journal_def good_ids_def journal_laws_def again_feed_def
      seam_feed_def cursor_at_def newest_def recent_ring_def seam_event_def)
  from s4 have "(serve_step again_feed)\<^sup>*\<^sup>* ?c3 (pump again_feed ?e (?c3 \<lparr> sc_channel := [] \<rparr>))"
    by (rule r_into_rtranclp)
  with s3 have "(serve_step again_feed)\<^sup>*\<^sup>* ?c2 (pump again_feed ?e (?c3 \<lparr> sc_channel := [] \<rparr>))"
    by (rule converse_rtranclp_into_rtranclp)
  with s2 have "(serve_step again_feed)\<^sup>*\<^sup>* ?c1 (pump again_feed ?e (?c3 \<lparr> sc_channel := [] \<rparr>))"
    by (rule converse_rtranclp_into_rtranclp)
  with s1 have run: "(serve_step again_feed)\<^sup>*\<^sup>* seam_open (pump again_feed ?e (?c3 \<lparr> sc_channel := [] \<rparr>))"
    by (rule converse_rtranclp_into_rtranclp)
  from start run sent show ?thesis by (intro conjI exI)
qed

end
