(* ===== verification/Audit_Log.thy ===== *)
theory Audit_Log
  imports Service Dashboard_Scan
begin

text \<open>
  The audit log of the user service (\<open>usermgmt/audit_log.go\<close>): a projection that turns every audited event into an
  entry and keeps the newest of them in a ring. The lemmas relate the ring to the list of all entries. The locks are
  left out; a call is one step.
\<close>

record AuditEntry =
  ae_EventType :: event_type
  ae_AggregateID :: stream_id
  ae_OccurredAt :: time
  ae_ActorID :: actor_id
  ae_UserID :: user_id
  ae_Email :: string
  ae_Action :: string
  ae_Detail :: string

text \<open>The ring: \<open>al_head\<close> is the index of the oldest entry once it is full.\<close>

record AuditLog =
  al_entries :: "AuditEntry list"
  al_head :: nat
  al_limit :: nat
  al_dropped :: nat

definition DefaultAuditLogLimit :: nat where "DefaultAuditLogLimit = 10000"

definition NewAuditLogWithLimit :: "int \<Rightarrow> AuditLog" where
  "NewAuditLogWithLimit limit =
     \<lparr> al_entries = [], al_head = 0, al_limit = (if limit \<le> 0 then DefaultAuditLogLimit else nat limit),
       al_dropped = 0 \<rparr>"

definition NewAuditLog :: AuditLog where
  "NewAuditLog = NewAuditLogWithLimit (int DefaultAuditLogLimit)"

definition auditActions :: "(event_type, string) gomap" where
  "auditActions =
     [(EventUserRegistered, ''register''), (EventRolesUpdated, ''roles_updated''),
      (EventEmailChanged, ''email_changed''), (EventDisplayNameChanged, ''display_name_changed''),
      (EventUserDeleted, ''user_deleted''), (EventCredentialAdded, ''credential_added''),
      (EventCredentialRemoved, ''credential_removed''), (EventCredentialUsed, ''credential_used''),
      (EventEmailVerified, ''email_verified''), (EventTOTPEnabled, ''totp_enabled''),
      (EventTOTPDisabled, ''totp_disabled''), (EventLoginSucceeded, ''login_succeeded''),
      (EventLoginFailed, ''login_failed''), (EventRegistrationClosed, ''registration_closed''),
      (EventSessionStarted, ''session_started''), (EventSessionEnded, ''session_ended'')]"

definition auditActionFor :: "event_type \<Rightarrow> string" where
  "auditActionFor t = (case map_get auditActions t of Some action \<Rightarrow> action | None \<Rightarrow> event_type_name t)"

text \<open>What the projection reads of an event: the actor of its metadata, and the decoded payloads of failed logins and
  ended sessions.\<close>

record 'raw audit_env =
  av_ids :: id_env
  av_ActorID :: "'raw event \<Rightarrow> actor_id"
  av_LoginFailed :: "'raw event \<Rightarrow> err + LoginFailedPayload"
  av_SessionEnded :: "'raw event \<Rightarrow> err + SessionEndedPayload"

definition audit_entry :: "'raw audit_env \<Rightarrow> 'raw event \<Rightarrow> AuditEntry" where
  "audit_entry V evt =
     \<lparr> ae_EventType = evt_type evt, ae_AggregateID = evt_stream evt, ae_OccurredAt = evt_occurred_at evt,
       ae_ActorID = av_ActorID V evt,
       ae_UserID = (case ActorIDAsUserID (av_ids V) (av_ActorID V evt) of Some uid \<Rightarrow> uid | None \<Rightarrow> zero_user (av_ids V)),
       ae_Email = [], ae_Action = auditActionFor (evt_type evt),
       ae_Detail =
         (if evt_type evt = EventLoginFailed then
            (case av_LoginFailed V evt of Inr p \<Rightarrow> lf_reason p | Inl e \<Rightarrow> [])
          else if evt_type evt = EventSessionEnded then
            (case av_SessionEnded V evt of Inr p \<Rightarrow> sn_cause p | Inl e \<Rightarrow> [])
          else []) \<rparr>"

definition appendEntry :: "AuditEntry \<Rightarrow> AuditLog \<Rightarrow> AuditLog" where
  "appendEntry entry a =
     (if length (al_entries a) < al_limit a then a \<lparr> al_entries := al_entries a @ [entry] \<rparr>
      else a \<lparr> al_entries := (al_entries a)[al_head a := entry], al_head := (al_head a + 1) mod al_limit a,
               al_dropped := al_dropped a + 1 \<rparr>)"

definition AuditLog_Handle :: "'raw audit_env \<Rightarrow> 'raw event \<Rightarrow> AuditLog \<Rightarrow> AuditLog" where
  "AuditLog_Handle V evt a = appendEntry (audit_entry V evt) a"

definition entryAt :: "AuditLog \<Rightarrow> nat \<Rightarrow> AuditEntry" where
  "entryAt a i = al_entries a ! ((al_head a + i) mod al_limit a)"

definition Entries :: "AuditLog \<Rightarrow> AuditEntry list" where
  "Entries a = map (entryAt a) [0..<length (al_entries a)]"

definition EntriesFor :: "stream_id \<Rightarrow> AuditLog \<Rightarrow> AuditEntry list" where
  "EntriesFor aggregateID a =
     filter (\<lambda>e. ae_AggregateID e = aggregateID) (map (entryAt a) [0..<length (al_entries a)])"

definition AuditLog_Count :: "AuditLog \<Rightarrow> nat" where "AuditLog_Count a = length (al_entries a)"
definition AuditLog_Limit :: "AuditLog \<Rightarrow> nat" where "AuditLog_Limit a = al_limit a"
definition AuditLog_Dropped :: "AuditLog \<Rightarrow> nat" where "AuditLog_Dropped a = al_dropped a"

definition Recent :: "int \<Rightarrow> AuditLog \<Rightarrow> AuditEntry list" where
  "Recent n a =
     (if n \<le> 0 then []
      else let len = length (al_entries a);
               n = (if n > int len then len else nat n);
               start = len - n
           in map (\<lambda>i. entryAt a (start + i)) [0..<n])"

section \<open>The ring is a window\<close>

definition ring_ok :: "AuditLog \<Rightarrow> bool" where
  "ring_ok a \<longleftrightarrow> 0 < al_limit a \<and> length (al_entries a) \<le> al_limit a \<and> al_head a < al_limit a
     \<and> (length (al_entries a) < al_limit a \<longrightarrow> al_head a = 0)"

lemma ring_ok_append: "ring_ok a \<Longrightarrow> ring_ok (appendEntry e a)"
  by (auto simp: ring_ok_def appendEntry_def)

lemma turned_ne: "h < n \<Longrightarrow> 0 < i \<Longrightarrow> i < n \<Longrightarrow> (h + i) mod n \<noteq> (h :: nat)"
proof (cases "h + i < n")
  case False
  moreover assume "h < n" "i < n"
  ultimately have "(h + i) mod n = h + i - n" "h + i - n < h" by (auto simp: mod_if)
  then show ?thesis by simp
qed simp

lemma length_Entries [simp]: "length (Entries a) = length (al_entries a)"
  by (simp add: Entries_def)

lemma Entries_nth: "i < length (al_entries a) \<Longrightarrow> Entries a ! i = entryAt a i"
  by (simp add: Entries_def)

lemma Entries_append_room:
  assumes "ring_ok a" and "length (al_entries a) < al_limit a"
  shows "Entries (appendEntry e a) = Entries a @ [e]"
proof (rule nth_equalityI)
  fix i assume "i < length (Entries (appendEntry e a))"
  with assms show "Entries (appendEntry e a) ! i = (Entries a @ [e]) ! i"
    by (auto simp: ring_ok_def appendEntry_def Entries_nth entryAt_def nth_append less_Suc_eq)
qed (use assms in \<open>simp add: appendEntry_def\<close>)

lemma Entries_append_full:
  assumes "ring_ok a" and "\<not> length (al_entries a) < al_limit a"
  shows "Entries (appendEntry e a) = tl (Entries a) @ [e]"
proof (rule nth_equalityI)
  let ?L = "al_limit a" and ?h = "al_head a"
  have L: "length (al_entries a) = ?L" "0 < ?L" "?h < ?L" using assms by (auto simp: ring_ok_def)
  then show "length (Entries (appendEntry e a)) = length (tl (Entries a) @ [e])"
    using assms(2) by (simp add: appendEntry_def)
  fix i assume "i < length (Entries (appendEntry e a))"
  then have i: "i < ?L" using L assms(2) by (simp add: appendEntry_def)
  have turn: "(Suc ?h mod ?L + i) mod ?L = (?h + Suc i) mod ?L" by (simp add: mod_add_left_eq)
  show "Entries (appendEntry e a) ! i = (tl (Entries a) @ [e]) ! i"
  proof (cases "Suc i < ?L")
    case True
    then have "(?h + Suc i) mod ?L \<noteq> ?h" using turned_ne [OF L(3), of "Suc i"] by simp
    with True i L assms(2) turn show ?thesis
      by (simp add: appendEntry_def Entries_nth entryAt_def nth_append nth_tl)
  next
    case False
    with i have "Suc i = ?L" by simp
    then have "(?h + Suc i) mod ?L = ?h" using L by simp
    with False i L assms(2) turn show ?thesis
      by (simp add: appendEntry_def Entries_nth entryAt_def nth_append)
  qed
qed

lemma newest_snoc_tl: "newest n (xs @ [x]) = (if length xs < n then newest n xs @ [x] else tl (newest n xs @ [x]))"
proof (cases "length xs < n")
  case False
  then have "newest n (xs @ [x]) = drop (Suc (length xs - n)) (xs @ [x])" by (simp add: newest_def Suc_diff_le)
  also have "\<dots> = tl (drop (length xs - n) (xs @ [x]))" by (simp only: drop_Suc tl_drop)
  also have "drop (length xs - n) (xs @ [x]) = newest n xs @ [x]" by (simp add: newest_def)
  finally show ?thesis using False by simp
qed (simp add: newest_def)

definition logged :: "int \<Rightarrow> AuditEntry list \<Rightarrow> AuditLog" where
  "logged limit es = fold appendEntry es (NewAuditLogWithLimit limit)"

lemma logged_window:
  "ring_ok (logged limit es) \<and> al_limit (logged limit es) = al_limit (NewAuditLogWithLimit limit)
   \<and> Entries (logged limit es) = newest (al_limit (NewAuditLogWithLimit limit)) es
   \<and> al_dropped (logged limit es) = length es - al_limit (NewAuditLogWithLimit limit)"
proof (induction es rule: rev_induct)
  case Nil
  show ?case
    by (auto simp: logged_def ring_ok_def NewAuditLogWithLimit_def DefaultAuditLogLimit_def Entries_def newest_def)
next
  case (snoc e es)
  let ?a = "logged limit es" and ?L = "al_limit (NewAuditLogWithLimit limit)"
  have step: "logged limit (es @ [e]) = appendEntry e ?a" by (simp add: logged_def)
  have len: "length (al_entries ?a) = min ?L (length es)"
    using snoc by (metis length_Entries length_drop newest_def diff_diff_cancel diff_is_0_eq' min.commute min_def nle_le)
  have pos: "0 < ?L" using snoc by (simp add: ring_ok_def)
  show ?case
  proof (cases "length es < ?L")
    case True
    with len snoc have "Entries (appendEntry e ?a) = Entries ?a @ [e]" by (intro Entries_append_room) simp_all
    with True len snoc show ?thesis by (simp add: step ring_ok_append newest_snoc_tl) (simp add: appendEntry_def)
  next
    case False
    with len snoc have "Entries (appendEntry e ?a) = tl (Entries ?a) @ [e]" by (intro Entries_append_full) simp_all
    moreover have "newest ?L es \<noteq> []" using False pos by (simp add: newest_def)
    ultimately show ?thesis using False len snoc
      by (simp add: step ring_ok_append newest_snoc_tl) (simp add: appendEntry_def Suc_diff_le)
  qed
qed

lemma Recent_newest: "Recent n a = newest (nat n) (Entries a)"
proof (cases "n \<le> 0")
  case False
  let ?len = "length (al_entries a)"
  have shift: "map (\<lambda>i. entryAt a (s + i)) [0..<?len - s] = drop s (Entries a)" if "s \<le> ?len" for s
    using that by (intro nth_equalityI) (simp_all add: Entries_nth)
  show ?thesis
    using False shift [of "?len - nat n"] shift [of 0]
    by (auto simp: Recent_def Let_def newest_def)
qed (simp add: Recent_def newest_def)

text \<open>C37. Whatever the size it was built with and however many events it was given, the audit log is the window of the
  newest entries: its entries are the newest ones up to the limit, in the order of the events, \<open>Recent\<close> answers the
  newest of those, and what is retained and what was dropped add up to the events it was given. A size that is not
  positive never makes it unbounded.\<close>

theorem audit_log_window:
  "let a = fold (AuditLog_Handle V) evts (NewAuditLogWithLimit limit) in
     Entries a = newest (AuditLog_Limit a) (map (audit_entry V) evts)
     \<and> Recent n a = newest (nat n) (Entries a)
     \<and> AuditLog_Count a + AuditLog_Dropped a = length evts
     \<and> 0 < AuditLog_Limit a \<and> AuditLog_Count a \<le> AuditLog_Limit a"
proof -
  have run: "fold (AuditLog_Handle V) evts b = fold appendEntry (map (audit_entry V) evts) b" for b
    by (induction evts arbitrary: b) (simp_all add: AuditLog_Handle_def)
  let ?a = "logged limit (map (audit_entry V) evts)"
  note w = logged_window [of limit "map (audit_entry V) evts"]
  have "AuditLog_Count ?a = length (Entries ?a)" by (simp add: AuditLog_Count_def)
  with w show ?thesis
    unfolding run logged_def [symmetric] AuditLog_Limit_def AuditLog_Dropped_def Let_def
    by (auto simp: Recent_newest newest_def ring_ok_def)
qed

end
