(* ===== verification/Admin_Panel.thy ===== *)
theory Admin_Panel
  imports Service_Http Audit_Log Dashboard_Config
begin

text \<open>
  The admin panel (\<open>adminui\<close>): its configuration, who is let in, the route table with its two modes and its manifest,
  and every handler over the user service. A page is the data its template is given; templates, assets and the page
  shell are left out. The role store, the audit log and the SSE statistics are asked through \<open>admin_env\<close>.
\<close>

section \<open>Configuration\<close>

text \<open>\<open>Mode\<close> is an integer of the configuration, so a panel can be built with neither of the two.\<close>

definition ModeSuperAdmin :: int where "ModeSuperAdmin = 0"
definition ModeTenantAdmin :: int where "ModeTenantAdmin = 1"

definition PosturePublic_text :: string where "PosturePublic_text = ''public''"
definition PostureAuthenticated_text :: string where "PostureAuthenticated_text = ''authenticated''"
definition PostureRoleGated_text :: string where "PostureRoleGated_text = ''role''"
definition PostureUngated_text :: string where "PostureUngated_text = ''ungated''"

lemmas posture_texts = PosturePublic_text_def PostureAuthenticated_text_def PostureRoleGated_text_def
  PostureUngated_text_def

definition DefaultAccentColor :: string where "DefaultAccentColor = ''#4f46e5''"
definition MaxListRows :: nat where "MaxListRows = 200"
definition defaultBasePath :: string where "defaultBasePath = ''/admin''"

text \<open>An authorizer may ask the role store, so it is given the state of the world.\<close>

type_synonym 'w admin_authorizer = "'w \<Rightarrow> User \<Rightarrow> err option"

record 'w admin_config =
  ad_Title :: string
  ad_BasePath :: string
  ad_Mode :: int
  ad_TenantID :: tenant_id
  ad_AccentColor :: string
  ad_Authorizer :: "'w admin_authorizer option"
  ad_AuthorizerPosture :: string
  ad_ExtraNav :: "NavEntry list"
  ad_DashboardURL :: string

definition admin_errConfig :: "string \<Rightarrow> err" where
  "admin_errConfig msg = new_error Rejection ''adminui.config'' msg"

text \<open>\<open>strings.TrimRight(s, "/")\<close>: a path that is only slashes becomes empty.\<close>

definition admin_trimTrailingSlash :: "string \<Rightarrow> string" where
  "admin_trimTrailingSlash s = rev (dropWhile (\<lambda>c. c = slash) (rev s))"

fun admin_validateExtraNav_from :: "nat \<Rightarrow> NavEntry list \<Rightarrow> err option" where
  "admin_validateExtraNav_from i [] = None"
| "admin_validateExtraNav_from i (entry # entries) =
     (if ne_Label entry = [] then
        Some (admin_errConfig (''Config.ExtraNav['' @ show_nat i @ ''].Label must not be empty''))
      else if ne_Href entry = [] then
        Some (admin_errConfig (''Config.ExtraNav['' @ show_nat i @ ''].Href must not be empty''))
      else admin_validateExtraNav_from (Suc i) entries)"

definition admin_validateExtraNav :: "NavEntry list \<Rightarrow> err option" where
  "admin_validateExtraNav entries = admin_validateExtraNav_from 0 entries"

definition admin_textDefaults :: "'w admin_config \<Rightarrow> 'w admin_config" where
  "admin_textDefaults config =
     (let config = (if ad_Title config = [] then config \<lparr> ad_Title := ''Admin'' \<rparr> else config);
          config = (if ad_BasePath config = [] then config \<lparr> ad_BasePath := defaultBasePath \<rparr> else config);
          config = config \<lparr> ad_BasePath := admin_trimTrailingSlash (ad_BasePath config) \<rparr>
      in if ad_AccentColor config = [] then config \<lparr> ad_AccentColor := DefaultAccentColor \<rparr> else config)"

definition admin_posture_error :: "string \<Rightarrow> err option" where
  "admin_posture_error p =
     (if p \<in> {[], PostureAuthenticated_text, PostureRoleGated_text} then None
      else if p \<in> {PosturePublic_text, PostureUngated_text} then
        Some (admin_errConfig (''Config.AuthorizerPosture may not be public or ungated '' @ em_dash
          @ '' the guard always refuses anonymous callers, so both would be lies''))
      else Some (admin_errConfig (''Config.AuthorizerPosture must be empty (role-gated default), ''
          @ ''cqrshtmx.PostureAuthenticated, or cqrshtmx.PostureRoleGated'')))"

text \<open>The accent colours are the ones of the dashboard. \<open>service\<close> says whether there is one.\<close>

definition admin_withDefaults :: "(string \<Rightarrow> string) \<Rightarrow> bool \<Rightarrow> 'w admin_config \<Rightarrow> err + 'w admin_config" where
  "admin_withDefaults unicode_lower service config =
     (if \<not> service then Inl (admin_errConfig ''Config.Service is required'')
      else
        (let config = admin_textDefaults config in
         if \<not> isValidAccentColor unicode_lower (ad_AccentColor config) then
           Inl (admin_errConfig (''Config.AccentColor must be a CSS color literal (#hex, rgb()/rgba()/hsl()/hsla() with ''
             @ ''numeric components, or a named color); got '' @ ad_AccentColor config))
         else if ad_Mode config = ModeTenantAdmin \<and> tenant_get (ad_TenantID config) = [] then
           Inl (admin_errConfig ''Config.TenantID is required for ModeTenantAdmin'')
         else (case admin_posture_error (ad_AuthorizerPosture config) of
                 Some e \<Rightarrow> Inl e
               | None \<Rightarrow>
                   (case admin_validateExtraNav (ad_ExtraNav config) of Some e \<Rightarrow> Inl e | None \<Rightarrow> Inr config))))"

section \<open>Who is let in\<close>

text \<open>What the panel asks of the service: \<open>Authz\<close>, the audit log and the hub statistics in a state of the world, the
  provider of OAuth2, what \<open>AllUsers\<close> answers, and the code of an error (\<open>errorfamily.Code\<close>).\<close>

record 'w admin_env =
  ax_service :: "'w service_env"
  ax_oauth :: "oauth_provider option"
  ax_providers :: "string list"
  ax_AllUsers :: "UserReadModel \<Rightarrow> User list"
  ax_ImplicitRoles :: "'w \<Rightarrow> user_id \<Rightarrow> tenant_id \<Rightarrow> err + role list"
  ax_Domains :: "'w \<Rightarrow> user_id \<Rightarrow> err + tenant_id list"
  ax_Roles :: "'w \<Rightarrow> user_id \<Rightarrow> tenant_id \<Rightarrow> err + role list"
  ax_HasAdminGrant :: "'w \<Rightarrow> tenant_id \<Rightarrow> err + bool"
  ax_AuditLog :: "'w \<Rightarrow> AuditLog option"
  ax_HubStats :: "(int \<times> int) option"
  ax_Code :: "err \<Rightarrow> string"

definition errForbidden :: err where "errForbidden = IMSentinel IMErrForbidden"

definition RequireAnyRole :: "'w admin_env \<Rightarrow> string \<Rightarrow> role list \<Rightarrow> 'w admin_authorizer" where
  "RequireAnyRole A domain roles w user =
     (case ax_ImplicitRoles A w (u_id user) (NewTenantID domain) of
        Inl e \<Rightarrow> Some errForbidden
      | Inr held \<Rightarrow> if \<exists>r\<in>set held. r \<in> set roles then None else Some errForbidden)"

definition RequireAuthenticated :: "'w admin_authorizer" where
  "RequireAuthenticated w user = None"

definition defaultAuthorizer :: "'w admin_env \<Rightarrow> 'w admin_config \<Rightarrow> 'w admin_authorizer" where
  "defaultAuthorizer A config =
     (if ad_Mode config = ModeTenantAdmin
      then RequireAnyRole A (tenant_get (ad_TenantID config)) [RoleAdmin, RoleOwner]
      else RequireAnyRole A ''*'' [RoleSuperAdmin, RoleAdmin])"

definition authorizer :: "'w admin_env \<Rightarrow> 'w admin_config \<Rightarrow> 'w admin_authorizer" where
  "authorizer A config = (case ad_Authorizer config of Some f \<Rightarrow> f | None \<Rightarrow> defaultAuthorizer A config)"

section \<open>Requests and answers\<close>

text \<open>The user of the context is the one an outer session middleware stored. \<open>FormValue\<close> is the first value of a field.\<close>

record admin_request =
  aq_Method :: string
  aq_Path :: string
  aq_RawQuery :: string
  aq_User :: "User option"
  aq_ParseForm :: "err option"
  aq_FormValue :: "string \<Rightarrow> string"
  aq_FormRoles :: "string list"
  aq_Partial :: bool
  aq_now :: time
  aq_generated :: "err + string"
  aq_freshUser :: user_id

datatype userFilter = userFilterNone | userFilterVerified | userFilterUnverified | userFilterMFA | userFilterExternal

record usersListData =
  ul_Users :: "User list"
  ul_Total :: nat
  ul_Search :: string
  ul_Filter :: userFilter
  ul_Page :: int
  ul_TotalPages :: int

record userTimeline =
  tl_Entries :: "AuditEntry list"
  tl_Total :: nat

record userDetailData =
  ud_User :: User
  ud_TenantRoles :: "(string, role list) gomap"
  ud_PlatformRoles :: "role list"
  ud_GrantableAdminRoles :: "role list"
  ud_IsSelf :: bool
  ud_Timeline :: userTimeline
  ud_ConfiguredProviders :: "string list"
  ud_UnlinkExternalBase :: string

record tenantsListData =
  tn_Tenants :: "Tenant list"
  tn_Total :: nat
  tn_Page :: int
  tn_TotalPages :: int

record memberRow =
  mr_Actor :: actor_id
  mr_Roles :: "role list"

record tenantDetailData =
  td_Tenant :: "Tenant option"
  td_Members :: "memberRow list"
  td_AssignableRoles :: "role list"
  td_AddMemberURL :: string
  td_RemoveMemberBase :: string
  td_UpdateRoleBase :: string

record auditData =
  au_Entries :: "AuditEntry list"
  au_Total :: nat
  au_Search :: string
  au_Page :: int
  au_TotalPages :: int

datatype stat_tone = StatToneBlue | StatTonePurple | StatToneGreen | StatToneYellow

record statCard =
  sc_Label :: string
  sc_Value :: string
  sc_Tone :: stat_tone
  sc_Href :: string

record dashboardData =
  db_Stats :: "statCard list"
  db_StatsURL :: string
  db_Recent :: "AuditEntry list"
  db_NoAdminGrant :: bool

datatype admin_view =
    UsersPage usersListData
  | UserDetailPage userDetailData
  | UserNewPage
  | TenantsPage tenantsListData
  | TenantNewPage
  | TenantDetailPage tenantDetailData
  | MembersPage tenantDetailData
  | AuditPage auditData
  | DashboardPage dashboardData
  | StatsRegion "statCard list"

datatype toast = ToastOk string | ToastErr string

datatype admin_body =
    View admin_view
  | ErrorPage int string string
  | NotFound404
  | RedirectTo string
  | StaticAsset string
  | Panicked
  | MuxAnswer int

type_synonym admin_reply = "toast list \<times> admin_body"

type_synonym 'w admin_handled = "'w service \<Rightarrow> admin_reply \<times> 'w service"

definition show_page :: "admin_view \<Rightarrow> 'w admin_handled" where
  "show_page v s = (([], View v), s)"

definition writeErrorPage :: "int \<Rightarrow> string \<Rightarrow> string \<Rightarrow> 'w admin_handled" where
  "writeErrorPage status title message s = (([], ErrorPage status title message), s)"

definition redirected :: "toast \<Rightarrow> string \<Rightarrow> 'w admin_handled" where
  "redirected t path s = (([t], RedirectTo (SafeRedirectPath path)), s)"

section \<open>Failed actions\<close>

definition tenantGoneMessage :: string where
  "tenantGoneMessage = ''This tenant no longer exists. Refresh the list and try again.''"

definition actionErrorMessages :: "(string, string) gomap" where
  "actionErrorMessages =
     [(''usermgmt.tenant.already_exists'', ''A tenant with this ID already exists. Pick a different identifier.''),
      (''usermgmt.tenant.name_required'', ''A tenant name is required.''),
      (''usermgmt.tenant_suspend.not_found'', tenantGoneMessage),
      (''usermgmt.tenant_reactivate.not_found'', tenantGoneMessage),
      (''usermgmt.tenant_delete.not_found'', tenantGoneMessage),
      (''usermgmt.tenant_delete.already_deleted'', ''This tenant is already deleted.''),
      (''usermgmt.email_exists'', ''That email address is already registered.''),
      (''usermgmt.user_not_found'', ''That user no longer exists. Refresh the list and try again.''),
      (''usermgmt.user_id_exists'', ''That user ID is already taken.''),
      (''usermgmt.membership.already_exists'', ''That member is already in this tenant. Change their role instead.''),
      (''usermgmt.membership.actor_required'', ''A valid member identifier is required.''),
      (''usermgmt.membership_roles.not_found'', ''That membership no longer exists. Refresh the page.''),
      (''usermgmt.membership_remove.not_found'', ''That membership no longer exists. Refresh the page.''),
      (''usermgmt.validation'', ''Some values are invalid. Check the form and try again.''),
      (''usermgmt.oauth_not_configured'', ''OAuth2 is not configured on this deployment. Unlinking external accounts requires a provider configuration.'')]"

fun actionErrorFallback :: "family \<Rightarrow> string" where
  "actionErrorFallback Rejection = ''The request was rejected. Check the values and try again.''"
| "actionErrorFallback Conflict = ''The record changed since you loaded it. Refresh and try again.''"
| "actionErrorFallback Transient = ''The service is temporarily unavailable. Try again in a moment.''"
| "actionErrorFallback Corruption = ''Something is wrong with the stored data. This has been logged for investigation.''"
| "actionErrorFallback Infrastructure = ''A backing service failed. Try again in a moment.''"
| "actionErrorFallback Orchestration = ''A background process is still settling. Refresh and try again shortly.''"
| "actionErrorFallback UnknownFamily = ''The request failed. Try again.''"

fun actionErrorStatus :: "family \<Rightarrow> int" where
  "actionErrorStatus Rejection = 400"
| "actionErrorStatus Conflict = 409"
| "actionErrorStatus Transient = 503"
| "actionErrorStatus Corruption = 500"
| "actionErrorStatus Infrastructure = 503"
| "actionErrorStatus Orchestration = 202"
| "actionErrorStatus UnknownFamily = 500"

definition actionErrorMessage :: "'w admin_env \<Rightarrow> err \<Rightarrow> string" where
  "actionErrorMessage A e =
     (case map_get actionErrorMessages (ax_Code A e) of
        Some message \<Rightarrow> message
      | None \<Rightarrow> actionErrorFallback (classify (sv_err (ax_service A)) e))"

definition writeActionError :: "'w admin_env \<Rightarrow> string \<Rightarrow> err \<Rightarrow> 'w admin_handled" where
  "writeActionError A action e s =
     (let message = actionErrorMessage A e in
      (([ToastErr (action @ '' failed: '' @ message)],
        ErrorPage (actionErrorStatus (classify (sv_err (ax_service A)) e)) (action @ '' failed'') message), s))"

text \<open>An operation, then the redirect, or the error page.\<close>

definition acted ::
  "'w admin_env \<Rightarrow> string \<Rightarrow> string \<Rightarrow> string \<Rightarrow> ('w service \<Rightarrow> err option \<times> 'w service) \<Rightarrow> 'w admin_handled" where
  "acted A action ok back run s =
     (case run s of
        (Some e, s1) \<Rightarrow> writeActionError A action e s1
      | (None, s1) \<Rightarrow> redirected (ToastOk ok) back s1)"

section \<open>Lists\<close>

definition listPageSize :: int where "listPageSize = 50"

definition pageBounds :: "int \<Rightarrow> int \<Rightarrow> int \<Rightarrow> int \<times> int \<times> int \<times> int" where
  "pageBounds page total_rows pageSize =
     (let pageSize = (if pageSize \<le> 0 then listPageSize else pageSize);
          totalPages = max ((total_rows + pageSize - 1) div pageSize) 1;
          current = min (max page 1) totalPages;
          offset = (current - 1) * pageSize;
          limit = max (min pageSize (total_rows - offset)) 0
      in (offset, limit, totalPages, current))"

definition parsePageQuery :: "admin_request \<Rightarrow> int" where
  "parsePageQuery r =
     (case Atoi (Query_Get (ParseQuery (aq_RawQuery r)) ''page'') of
        None \<Rightarrow> 1
      | Some n \<Rightarrow> if n < 1 then 1 else n)"

definition page_rows :: "'a list \<Rightarrow> int \<Rightarrow> int \<Rightarrow> 'a list" where
  "page_rows xs offset limit = take (nat limit) (drop (nat offset) xs)"

definition parseUserFilter :: "string \<Rightarrow> userFilter" where
  "parseUserFilter raw =
     (if raw = ''verified'' then userFilterVerified
      else if raw = ''unverified'' then userFilterUnverified
      else if raw = ''mfa'' then userFilterMFA
      else if raw = ''external'' then userFilterExternal
      else userFilterNone)"

fun userMatchesFilter :: "User \<Rightarrow> userFilter \<Rightarrow> bool" where
  "userMatchesFilter u userFilterVerified = u_email_verified u"
| "userMatchesFilter u userFilterUnverified = (\<not> u_email_verified u)"
| "userMatchesFilter u userFilterMFA = u_totp_enabled u"
| "userMatchesFilter u userFilterExternal = (u_external_accounts u \<noteq> [])"
| "userMatchesFilter u userFilterNone = True"

definition filterUsers :: "(string \<Rightarrow> string) \<Rightarrow> User list \<Rightarrow> string \<Rightarrow> userFilter \<Rightarrow> User list" where
  "filterUsers U all_users q f =
     (let needle = ToLower U q in
      filter (\<lambda>u. (needle = [] \<or> contains_sub (ToLower U (u_email u)) needle
                   \<or> contains_sub (ToLower U (u_display_name u)) needle) \<and> userMatchesFilter u f) all_users)"

definition auditLabels :: "(string, string) gomap" where
  "auditLabels =
     [(''register'', ''User registered''), (''roles_updated'', ''Roles updated''), (''email_changed'', ''Email changed''),
      (''display_name_changed'', ''Display name changed''), (''user_deleted'', ''User deleted''),
      (''credential_added'', ''Passkey added''), (''credential_removed'', ''Passkey removed''),
      (''credential_used'', ''Passkey used''), (''email_verified'', ''Email verified''), (''totp_enabled'', ''MFA enabled''),
      (''totp_disabled'', ''MFA disabled''), (''login_succeeded'', ''Login succeeded''), (''login_failed'', ''Login failed''),
      (''registration_closed'', ''Registration closed''), (''session_started'', ''Session started''),
      (''session_ended'', ''Session ended'')]"

definition auditLabel :: "string \<Rightarrow> string" where
  "auditLabel action = (case map_get auditLabels action of Some label \<Rightarrow> label | None \<Rightarrow> action)"

definition filterAuditEntries ::
  "(string \<Rightarrow> string) \<Rightarrow> AuditEntry list \<Rightarrow> string \<Rightarrow> AuditEntry list" where
  "filterAuditEntries U entries needle =
     (if needle = [] then entries
      else let want = ToLower U needle in
        filter (\<lambda>e. contains_sub (ToLower U (ae_Action e)) want \<or> contains_sub (ToLower U (ae_Email e)) want
                 \<or> contains_sub (ToLower U (ae_AggregateID e)) want
                 \<or> contains_sub (ToLower U (auditLabel (ae_Action e))) want) entries)"

text \<open>The emails of users that still exist are filled in.\<close>

definition resolveAuditEmails :: "'w admin_env \<Rightarrow> 'w service \<Rightarrow> AuditEntry list \<Rightarrow> AuditEntry list" where
  "resolveAuditEmails A s entries =
     map (\<lambda>e. if ae_Email e \<noteq> [] then e
              else (case FindByID (users (ax_service A) s) (ae_AggregateID e) of
                      Some u \<Rightarrow> e \<lparr> ae_Email := u_email u \<rparr>
                    | None \<Rightarrow> e)) entries"

definition retained :: "AuditLog \<Rightarrow> AuditEntry list" where
  "retained al = Recent (int (AuditLog_Count al)) al"

definition toMemberRows :: "Membership list \<Rightarrow> memberRow list" where
  "toMemberRows memberships = map (\<lambda>m. \<lparr> mr_Actor = mem_actor_id m, mr_Roles = mem_roles m \<rparr>) memberships"

section \<open>Pages\<close>

definition usersIndex :: "'w admin_env \<Rightarrow> admin_request \<Rightarrow> 'w admin_handled" where
  "usersIndex A r s =
     (let q = trim_space (Query_Get (ParseQuery (aq_RawQuery r)) ''q'');
          f = parseUserFilter (Query_Get (ParseQuery (aq_RawQuery r)) ''filter'');
          matched = filterUsers (sv_unicode_lower (ax_service A)) (ax_AllUsers A (users (ax_service A) s)) q f;
          (offset, limit, totalPages, page) = pageBounds (parsePageQuery r) (int (length matched)) listPageSize
      in show_page (UsersPage \<lparr> ul_Users = page_rows matched offset limit, ul_Total = length matched, ul_Search = q,
                                ul_Filter = f, ul_Page = page, ul_TotalPages = totalPages \<rparr>) s)"

text \<open>The entries of a user's own stream, eight of them at most.\<close>

definition userTimeline_of :: "'w admin_env \<Rightarrow> User \<Rightarrow> 'w service \<Rightarrow> userTimeline" where
  "userTimeline_of A shown s =
     (case ax_AuditLog A (ss_world s) of
        None \<Rightarrow> \<lparr> tl_Entries = [], tl_Total = 0 \<rparr>
      | Some al \<Rightarrow>
          (let own = filter (\<lambda>e. ae_AggregateID e = user_text (sv_ids (ax_service A)) (u_id shown)) (retained al)
           in \<lparr> tl_Entries = resolveAuditEmails A s (take 8 own), tl_Total = length own \<rparr>))"

fun tenant_roles ::
  "('w \<Rightarrow> user_id \<Rightarrow> tenant_id \<Rightarrow> err + role list) \<Rightarrow> 'w \<Rightarrow> user_id \<Rightarrow> tenant_id list \<Rightarrow> (string, role list) gomap
   \<Rightarrow> (string, role list) gomap" where
  "tenant_roles rolesFor w u [] found = found"
| "tenant_roles rolesFor w u (d # ds) found =
     tenant_roles rolesFor w u ds
       (case rolesFor w u d of
          Inl e \<Rightarrow> found
        | Inr rs \<Rightarrow> if rs = [] then found else map_put (tenant_get d) rs found)"

definition parseUserID_page :: "'w admin_env \<Rightarrow> string \<Rightarrow> (user_id \<Rightarrow> 'w admin_handled) \<Rightarrow> 'w admin_handled" where
  "parseUserID_page A userID k =
     (case ParseUserID (sv_ids (ax_service A)) userID of
        Inl e \<Rightarrow> writeErrorPage 400 ''Invalid user id'' ''The id in the URL path is not a valid user id.''
      | Inr target \<Rightarrow> k target)"

definition userPath :: "'w admin_env \<Rightarrow> 'w admin_config \<Rightarrow> user_id \<Rightarrow> string" where
  "userPath A config u = ad_BasePath config @ ''/users/'' @ user_text (sv_ids (ax_service A)) u"

definition userDetail :: "'w admin_env \<Rightarrow> 'w admin_config \<Rightarrow> User \<Rightarrow> string \<Rightarrow> 'w admin_handled" where
  "userDetail A config session userID =
     parseUserID_page A userID (\<lambda>target s.
       case GetUser (ax_service A) target s of
         Inl e \<Rightarrow> writeErrorPage 404 ''User not found'' ''No user with this id exists (it may have been deleted).'' s
       | Inr shown \<Rightarrow>
           (let w = ss_world s;
                roles = (case ax_Domains A w (u_id shown) of
                           Inl e \<Rightarrow> []
                         | Inr domains \<Rightarrow> tenant_roles (ax_Roles A) w (u_id shown) domains [])
            in show_page (UserDetailPage
                 \<lparr> ud_User = shown, ud_TenantRoles = roles,
                   ud_PlatformRoles = (case map_get roles WildcardDomain of Some rs \<Rightarrow> rs | None \<Rightarrow> []),
                   ud_GrantableAdminRoles = AdminRoles, ud_IsSelf = (u_id session = u_id shown),
                   ud_Timeline = userTimeline_of A shown s, ud_ConfiguredProviders = ax_providers A,
                   ud_UnlinkExternalBase = userPath A config (u_id shown) @ ''/external'' \<rparr>) s))"

definition tenantsIndex :: "'w admin_env \<Rightarrow> admin_request \<Rightarrow> 'w admin_handled" where
  "tenantsIndex A r s =
     (let ts = AllTenants (ax_service A) s;
          (offset, limit, totalPages, page) = pageBounds (parsePageQuery r) (int (length ts)) listPageSize
      in show_page (TenantsPage \<lparr> tn_Tenants = page_rows ts offset limit, tn_Total = length ts, tn_Page = page,
                                  tn_TotalPages = totalPages \<rparr>) s)"

definition tenant_data :: "'w admin_env \<Rightarrow> string \<Rightarrow> tenant_id \<Rightarrow> Tenant option \<Rightarrow> 'w service \<Rightarrow> tenantDetailData" where
  "tenant_data A memberBase t shown s =
     \<lparr> td_Tenant = shown, td_Members = toMemberRows (TenantMembers (ax_service A) t s),
       td_AssignableRoles = AssignableRoles, td_AddMemberURL = memberBase, td_RemoveMemberBase = memberBase,
       td_UpdateRoleBase = memberBase \<rparr>"

definition tenantDetail :: "'w admin_env \<Rightarrow> 'w admin_config \<Rightarrow> string \<Rightarrow> 'w admin_handled" where
  "tenantDetail A config tenantID s =
     (let t = NewTenantID tenantID in
      case GetTenant (ax_service A) t s of
        Inl e \<Rightarrow> writeErrorPage 404 ''Tenant not found'' ''No tenant with this id exists (it may have been deleted).'' s
      | Inr shown \<Rightarrow>
          show_page (TenantDetailPage
            (tenant_data A (ad_BasePath config @ ''/tenants/'' @ tenantID @ ''/members'') t (Some shown) s)) s)"

definition membersIndex :: "'w admin_env \<Rightarrow> 'w admin_config \<Rightarrow> 'w admin_handled" where
  "membersIndex A config s =
     (let t = ad_TenantID config;
          shown = (case GetTenant (ax_service A) t s of Inl e \<Rightarrow> None | Inr x \<Rightarrow> Some x)
      in show_page (MembersPage (tenant_data A (ad_BasePath config @ ''/members'') t shown s)) s)"

definition auditIndex :: "'w admin_env \<Rightarrow> admin_request \<Rightarrow> 'w admin_handled" where
  "auditIndex A r s =
     (let q = trim_space (Query_Get (ParseQuery (aq_RawQuery r)) ''q'') in
      show_page (AuditPage
        (case ax_AuditLog A (ss_world s) of
           None \<Rightarrow> \<lparr> au_Entries = [], au_Total = 0, au_Search = q, au_Page = 1, au_TotalPages = 1 \<rparr>
         | Some al \<Rightarrow>
             (let matched = filterAuditEntries (sv_unicode_lower (ax_service A))
                              (resolveAuditEmails A s (retained al)) q;
                  (offset, limit, totalPages, page) = pageBounds (parsePageQuery r) (int (length matched)) listPageSize
              in \<lparr> au_Entries = page_rows matched offset limit, au_Total = length matched, au_Search = q,
                   au_Page = page, au_TotalPages = totalPages \<rparr>))) s)"

definition percent :: "nat \<Rightarrow> nat \<Rightarrow> string" where
  "percent part of_all = (if of_all = 0 then em_dash else show_nat (part * 100 div of_all) @ ''%'')"

definition superAdminStats :: "'w admin_env \<Rightarrow> string \<Rightarrow> 'w service \<Rightarrow> statCard list" where
  "superAdminStats A base s =
     (let us = ax_AllUsers A (users (ax_service A) s); ts = AllTenants (ax_service A) s in
      [\<lparr> sc_Label = ''Users'', sc_Value = show_nat (length us), sc_Tone = StatToneBlue, sc_Href = base @ ''/users'' \<rparr>,
       \<lparr> sc_Label = ''Verified'', sc_Value = percent (length (filter u_email_verified us)) (length us),
         sc_Tone = StatToneBlue, sc_Href = base @ ''/users'' \<rparr>,
       \<lparr> sc_Label = ''MFA adoption'', sc_Value = percent (length (filter u_totp_enabled us)) (length us),
         sc_Tone = StatToneBlue, sc_Href = base @ ''/users'' \<rparr>,
       \<lparr> sc_Label = ''Tenants'', sc_Value = show_nat (length ts), sc_Tone = StatTonePurple,
         sc_Href = base @ ''/tenants'' \<rparr>,
       \<lparr> sc_Label = ''Suspended tenants'', sc_Value = show_nat (length (filter t_suspended ts)),
         sc_Tone = StatTonePurple, sc_Href = base @ ''/tenants'' \<rparr>])"

definition tenantStats :: "'w admin_env \<Rightarrow> 'w admin_config \<Rightarrow> 'w service \<Rightarrow> statCard list" where
  "tenantStats A config s =
     (let t = ad_TenantID config;
          name = (case GetTenant (ax_service A) t s of
                    Inr x \<Rightarrow> if t_display_name x \<noteq> [] then t_display_name x else tenant_get t
                  | Inl e \<Rightarrow> tenant_get t)
      in [\<lparr> sc_Label = ''Members'', sc_Value = show_nat (length (TenantMembers (ax_service A) t s)),
            sc_Tone = StatToneBlue, sc_Href = ad_BasePath config @ ''/members'' \<rparr>,
          \<lparr> sc_Label = ''Tenant'', sc_Value = name, sc_Tone = StatTonePurple, sc_Href = [] \<rparr>])"

definition dashboardStats :: "'w admin_env \<Rightarrow> 'w admin_config \<Rightarrow> 'w service \<Rightarrow> statCard list" where
  "dashboardStats A config s =
     (if ad_Mode config = ModeSuperAdmin then superAdminStats A (ad_BasePath config) s else tenantStats A config s)
     @ (case ax_AuditLog A (ss_world s) of
          None \<Rightarrow> []
        | Some al \<Rightarrow> [\<lparr> sc_Label = ''Audit events'', sc_Value = show_nat (AuditLog_Count al), sc_Tone = StatToneGreen,
                        sc_Href = ad_BasePath config @ ''/audit'' \<rparr>])
     @ (case ax_HubStats A of
          None \<Rightarrow> []
        | Some (subscribers, dropped) \<Rightarrow>
            [\<lparr> sc_Label = ''SSE live'', sc_Value = show_int subscribers, sc_Tone = StatToneGreen, sc_Href = [] \<rparr>,
             \<lparr> sc_Label = ''Dropped events'', sc_Value = show_int dropped,
               sc_Tone = (if dropped > 0 then StatToneYellow else StatToneGreen), sc_Href = [] \<rparr>])"

definition dashboard_page :: "'w admin_env \<Rightarrow> 'w admin_config \<Rightarrow> 'w admin_handled" where
  "dashboard_page A config s =
     show_page (DashboardPage
       \<lparr> db_Stats = dashboardStats A config s, db_StatsURL = ad_BasePath config @ ''/partials/stats'',
         db_Recent = (case ax_AuditLog A (ss_world s) of None \<Rightarrow> [] | Some al \<Rightarrow> resolveAuditEmails A s (Recent 8 al)),
         db_NoAdminGrant = (ax_HasAdminGrant A (ss_world s) (NewTenantID WildcardDomain) = Inr False) \<rparr>) s"

definition statsPartial :: "'w admin_env \<Rightarrow> 'w admin_config \<Rightarrow> 'w admin_handled" where
  "statsPartial A config s = show_page (StatsRegion (dashboardStats A config s)) s"

section \<open>Actions on users\<close>

definition userDelete :: "'w admin_env \<Rightarrow> 'w admin_config \<Rightarrow> admin_request \<Rightarrow> string \<Rightarrow> 'w admin_handled" where
  "userDelete A config r userID =
     parseUserID_page A userID (\<lambda>target.
       let reason = trim_space (aq_FormValue r ''reason'');
           reason = (if reason = [] then ''deleted via admin panel'' else reason)
       in acted A ''Delete user'' ''User deleted'' (ad_BasePath config @ ''/users'')
            (DeleteUser (ax_service A) target reason))"

definition userUnlinkExternal :: "'w admin_env \<Rightarrow> 'w admin_config \<Rightarrow> string \<Rightarrow> string \<Rightarrow> 'w admin_handled" where
  "userUnlinkExternal A config userID providerSegment =
     parseUserID_page A userID (\<lambda>target.
       let provider = trim_space providerSegment in
       if provider = [] then writeErrorPage 400 ''Missing provider'' ''The provider path segment is required.''
       else acted A (''Unlink '' @ provider) (provider @ '' account unlinked'') (userPath A config target)
              (UnlinkExternalAccount (ax_service A) (ax_oauth A) target provider))"

definition invalid_form :: "'w admin_handled" where
  "invalid_form = writeErrorPage 400 ''Invalid form'' ''The submitted form could not be parsed.''"

definition email_required :: "'w admin_handled" where
  "email_required s =
     (([ToastErr ''Email is required''], ErrorPage 400 ''Email required'' ''An email address is required.''), s)"

definition userCreate :: "'w admin_env \<Rightarrow> 'w admin_config \<Rightarrow> admin_request \<Rightarrow> 'w admin_handled" where
  "userCreate A config r s =
     (if aq_ParseForm r \<noteq> None then invalid_form s
      else
        (let req = \<lparr> rq_ID = zero_user (sv_ids (ax_service A)), rq_Email = trim_space (aq_FormValue r ''email''),
                     rq_DisplayName = trim_space (aq_FormValue r ''display_name'') \<rparr> in
         if rq_Email req = [] then email_required s
         else (case Register (ax_service A) (aq_freshUser r) (aq_generated r) (aq_now r) req s of
                 (Inl e, s1) \<Rightarrow> writeActionError A ''Create user'' e s1
               | (Inr result, s1) \<Rightarrow>
                   redirected (ToastOk ''User created'') (userPath A config (u_id (ar_User result))) s1)))"

definition userUpdateDisplayName ::
  "'w admin_env \<Rightarrow> 'w admin_config \<Rightarrow> admin_request \<Rightarrow> string \<Rightarrow> 'w admin_handled" where
  "userUpdateDisplayName A config r userID =
     parseUserID_page A userID (\<lambda>target.
       acted A ''Change display name'' ''Display name updated'' (userPath A config target)
         (ChangeDisplayName (ax_service A) target (trim_space (aq_FormValue r ''display_name''))))"

definition userUpdateEmail :: "'w admin_env \<Rightarrow> 'w admin_config \<Rightarrow> admin_request \<Rightarrow> string \<Rightarrow> 'w admin_handled" where
  "userUpdateEmail A config r userID =
     parseUserID_page A userID (\<lambda>target.
       let email = trim_space (aq_FormValue r ''email'') in
       if email = [] then email_required
       else acted A ''Change email'' ''Email updated'' (userPath A config target)
              (ChangeEmail (ax_service A) target email))"

definition platform_actor :: "'w admin_env \<Rightarrow> user_id \<Rightarrow> actor_id" where
  "platform_actor A target = ActorIDFromUser (sv_ids (ax_service A)) target"

definition userGrantPlatformRoles ::
  "'w admin_env \<Rightarrow> 'w admin_config \<Rightarrow> admin_request \<Rightarrow> string \<Rightarrow> 'w admin_handled" where
  "userGrantPlatformRoles A config r userID =
     parseUserID_page A userID (\<lambda>target.
       if aq_ParseForm r \<noteq> None then invalid_form
       else if aq_FormRoles r = [] then
         writeActionError A ''Grant roles'' (admin_errConfig ''select at least one platform role'')
       else acted A ''Grant roles'' ''Platform roles granted'' (userPath A config target)
              (GrantRoles (ax_service A) (platform_actor A target) (NewTenantID WildcardDomain) (aq_FormRoles r)))"

definition userRevokePlatformRoles :: "'w admin_env \<Rightarrow> 'w admin_config \<Rightarrow> User \<Rightarrow> string \<Rightarrow> 'w admin_handled" where
  "userRevokePlatformRoles A config session userID =
     parseUserID_page A userID (\<lambda>target.
       acted A ''Revoke roles''
         (if u_id session = target then ''Platform roles revoked '' @ em_dash @ '' you may have locked yourself out''
          else ''Platform roles revoked'')
         (userPath A config target)
         (RevokeRoles (ax_service A) (platform_actor A target) (NewTenantID WildcardDomain)))"

definition userRemoveCredential :: "'w admin_env \<Rightarrow> 'w admin_config \<Rightarrow> string \<Rightarrow> string \<Rightarrow> 'w admin_handled" where
  "userRemoveCredential A config userID encoded =
     parseUserID_page A userID (\<lambda>target.
       case RawURL_Decode encoded of
         None \<Rightarrow> writeErrorPage 400 ''Invalid credential id''
                   ''The credential id in the URL path is not valid base64url.''
       | Some credentialID \<Rightarrow>
           acted A ''Remove passkey'' ''Passkey removed'' (userPath A config target)
             (RemoveCredential (ax_service A) target credentialID))"

definition err_of :: "(err + 'a) \<times> 's \<Rightarrow> err option \<times> 's" where
  "err_of x = (case fst x of Inl e \<Rightarrow> Some e | Inr _ \<Rightarrow> None, snd x)"

definition userResendVerification ::
  "'w admin_env \<Rightarrow> 'w admin_config \<Rightarrow> admin_request \<Rightarrow> string \<Rightarrow> 'w admin_handled" where
  "userResendVerification A config r userID =
     parseUserID_page A userID (\<lambda>target.
       acted A ''Resend verification'' ''Verification email sent'' (userPath A config target)
         (\<lambda>s. err_of (SendVerificationEmail (ax_service A) (aq_generated r) (aq_now r) target s)))"

section \<open>Actions on tenants and members\<close>

definition tenantCreate :: "'w admin_env \<Rightarrow> 'w admin_config \<Rightarrow> admin_request \<Rightarrow> 'w admin_handled" where
  "tenantCreate A config r s =
     (if aq_ParseForm r \<noteq> None then invalid_form s
      else
        (let name = trim_space (aq_FormValue r ''name'');
             shown = trim_space (aq_FormValue r ''display_name'');
             shown = (if shown = [] then name else shown) in
         if name = [] then
           (([ToastErr ''Tenant name is required''], ErrorPage 400 ''Name required'' ''A tenant name is required.''), s)
         else (case CreateTenant (ax_service A)
                      \<lparr> ctr_ID = NewTenantID name, ctr_Name = name, ctr_DisplayName = shown \<rparr> s of
                 (Inl e, s1) \<Rightarrow> writeActionError A ''Create tenant'' e s1
               | (Inr t, s1) \<Rightarrow>
                   redirected (ToastOk ''Tenant created'') (ad_BasePath config @ ''/tenants/'' @ tenant_get (t_id t)) s1)))"

definition tenantSuspend :: "'w admin_env \<Rightarrow> 'w admin_config \<Rightarrow> string \<Rightarrow> 'w admin_handled" where
  "tenantSuspend A config t =
     acted A ''Suspend tenant'' ''Tenant suspended'' (ad_BasePath config @ ''/tenants/'' @ t)
       (SuspendTenant (ax_service A) (NewTenantID t) ''suspended via admin panel'')"

definition tenantReactivate :: "'w admin_env \<Rightarrow> 'w admin_config \<Rightarrow> string \<Rightarrow> 'w admin_handled" where
  "tenantReactivate A config t =
     acted A ''Reactivate tenant'' ''Tenant reactivated'' (ad_BasePath config @ ''/tenants/'' @ t)
       (ReactivateTenant (ax_service A) (NewTenantID t))"

definition tenantDelete :: "'w admin_env \<Rightarrow> 'w admin_config \<Rightarrow> string \<Rightarrow> 'w admin_handled" where
  "tenantDelete A config t =
     acted A ''Delete tenant'' ''Tenant deleted'' (ad_BasePath config @ ''/tenants'')
       (DeleteTenant (ax_service A) (NewTenantID t) ''deleted via admin panel'')"

text \<open>The member forms answer a failure with a toast and the same redirect.\<close>

definition toasted ::
  "'w admin_env \<Rightarrow> string \<Rightarrow> string \<Rightarrow> string \<Rightarrow> ('w service \<Rightarrow> err option \<times> 'w service) \<Rightarrow> 'w admin_handled" where
  "toasted A failed ok back run s =
     (case run s of
        (Some e, s1) \<Rightarrow> redirected (ToastErr (failed @ '' failed: '' @ actionErrorMessage A e)) back s1
      | (None, s1) \<Rightarrow> redirected (ToastOk ok) back s1)"

text \<open>\<open>FindByEmail\<close> may answer an entry without a user, which is dereferenced.\<close>

definition doAddMember :: "'w admin_env \<Rightarrow> admin_request \<Rightarrow> tenant_id \<Rightarrow> string \<Rightarrow> 'w admin_handled" where
  "doAddMember A r t back s =
     (if aq_ParseForm r \<noteq> None then invalid_form s
      else
        (let email = trim_space (aq_FormValue r ''email''); role = trim_space (aq_FormValue r ''role'') in
         if email = [] \<or> role = [] then redirected (ToastErr ''Email and role are required'') back s
         else (case FindByEmail (users (ax_service A) s) email of
                 None \<Rightarrow> redirected (ToastErr ''No user with that email'') back s
               | Some None \<Rightarrow> (([], Panicked), s)
               | Some (Some target) \<Rightarrow>
                   toasted A ''Add member'' ''Member added'' back
                     (AddMember (ax_service A) (platform_actor A (u_id target)) t [role]) s)))"

definition doRemoveMember :: "'w admin_env \<Rightarrow> tenant_id \<Rightarrow> actor_id \<Rightarrow> string \<Rightarrow> 'w admin_handled" where
  "doRemoveMember A t actor back =
     toasted A ''Remove member'' ''Member removed'' back (RemoveMember (ax_service A) actor t)"

definition doUpdateRole :: "'w admin_env \<Rightarrow> admin_request \<Rightarrow> tenant_id \<Rightarrow> actor_id \<Rightarrow> string \<Rightarrow> 'w admin_handled" where
  "doUpdateRole A r t actor back s =
     (if aq_ParseForm r \<noteq> None then invalid_form s
      else
        (let role = trim_space (aq_FormValue r ''role'') in
         if role = [] then redirected (ToastErr ''Role is required'') back s
         else toasted A ''Role update'' ''Role updated'' back
                (UpdateMemberRoles (ax_service A) actor t [role]) s))"

definition with_actor :: "'w admin_env \<Rightarrow> string \<Rightarrow> string \<Rightarrow> (actor_id \<Rightarrow> 'w admin_handled) \<Rightarrow> 'w admin_handled" where
  "with_actor A segment back k =
     (case ParseActorID (sv_ids (ax_service A)) segment of
        Inl e \<Rightarrow> redirected (ToastErr ''Invalid actor ID'') back
      | Inr actor \<Rightarrow> k actor)"

definition membersAdd :: "'w admin_env \<Rightarrow> 'w admin_config \<Rightarrow> admin_request \<Rightarrow> 'w admin_handled" where
  "membersAdd A config r = doAddMember A r (ad_TenantID config) (ad_BasePath config @ ''/members'')"

definition membersRemove :: "'w admin_env \<Rightarrow> 'w admin_config \<Rightarrow> string \<Rightarrow> 'w admin_handled" where
  "membersRemove A config segment =
     (let back = ad_BasePath config @ ''/members'' in
      with_actor A segment back (\<lambda>actor. doRemoveMember A (ad_TenantID config) actor back))"

definition membersUpdateRole :: "'w admin_env \<Rightarrow> 'w admin_config \<Rightarrow> admin_request \<Rightarrow> string \<Rightarrow> 'w admin_handled" where
  "membersUpdateRole A config r segment =
     (let back = ad_BasePath config @ ''/members'' in
      with_actor A segment back (\<lambda>actor. doUpdateRole A r (ad_TenantID config) actor back))"

definition tenantAddMember :: "'w admin_env \<Rightarrow> 'w admin_config \<Rightarrow> admin_request \<Rightarrow> string \<Rightarrow> 'w admin_handled" where
  "tenantAddMember A config r t = doAddMember A r (NewTenantID t) (ad_BasePath config @ ''/tenants/'' @ t)"

definition tenantRemoveMember :: "'w admin_env \<Rightarrow> 'w admin_config \<Rightarrow> string \<Rightarrow> string \<Rightarrow> 'w admin_handled" where
  "tenantRemoveMember A config t segment =
     (let back = ad_BasePath config @ ''/tenants/'' @ t in
      with_actor A segment back (\<lambda>actor. doRemoveMember A (NewTenantID t) actor back))"

definition tenantUpdateMemberRole ::
  "'w admin_env \<Rightarrow> 'w admin_config \<Rightarrow> admin_request \<Rightarrow> string \<Rightarrow> string \<Rightarrow> 'w admin_handled" where
  "tenantUpdateMemberRole A config r t segment =
     (let back = ad_BasePath config @ ''/tenants/'' @ t in
      with_actor A segment back (\<lambda>actor. doUpdateRole A r (NewTenantID t) actor back))"

section \<open>Routes\<close>

datatype admin_page =
    PageDashboard | PageStats | PageAudit | PageNotFound
  | PageUsers | PageUserNew | PageUser | DoUserCreate | DoUserDelete | DoDisplayName | DoEmail | DoUnlink | DoGrant
  | DoRevoke | DoRemoveCredential | DoResend
  | PageTenants | PageTenantNew | PageTenant | DoTenantCreate | DoSuspend | DoReactivate | DoTenantDelete
  | DoTenantAdd | DoTenantRemove | DoTenantRole
  | PageMembers | DoMemberAdd | DoMemberRemove | DoMemberRole

datatype admin_asset = AdminCSS | AdminJS | HtmxJS | SyncWorker | SyncClient | MethodNotAllowedPage

text \<open>A row has exactly one of the two handlers.\<close>

datatype admin_target = Guarded admin_page | Static admin_asset

datatype routeMode = routeModeInvalid | routeModeBoth | routeModeSuperAdmin | routeModeTenantAdmin

fun servesIn :: "routeMode \<Rightarrow> int \<Rightarrow> bool" where
  "servesIn routeModeBoth mode = True"
| "servesIn routeModeSuperAdmin mode = (mode = ModeSuperAdmin)"
| "servesIn routeModeTenantAdmin mode = (mode = ModeTenantAdmin)"
| "servesIn routeModeInvalid mode = False"

record admin_routeSpec =
  ap_method :: string
  ap_pattern :: string
  ap_panel :: string
  ap_handler :: admin_target
  ap_mode :: routeMode
  ap_write :: bool
  ap_why :: string

definition sharedRoutes :: "admin_routeSpec list" where
  "sharedRoutes =
     [\<lparr> ap_method = GET, ap_pattern = ''/-/admin-tw.css'', ap_panel = ''Assets'', ap_handler = (Static AdminCSS), ap_mode = routeModeBoth,
         ap_write = False, ap_why = ''static stylesheet, no data'' \<rparr>,
      \<lparr> ap_method = GET, ap_pattern = ''/-/admin.js'', ap_panel = ''Assets'', ap_handler = (Static AdminJS), ap_mode = routeModeBoth,
         ap_write = False, ap_why = ''static script, no data'' \<rparr>,
      \<lparr> ap_method = GET, ap_pattern = ''/-/htmx.js'', ap_panel = ''Assets'', ap_handler = (Static HtmxJS), ap_mode = routeModeBoth,
         ap_write = False, ap_why = ''vendored HTMX, no data'' \<rparr>,
      \<lparr> ap_method = GET, ap_pattern = ''/-/sync-worker.js'', ap_panel = ''Assets'', ap_handler = (Static SyncWorker), ap_mode = routeModeBoth,
         ap_write = False, ap_why = ''static sync worker, no data'' \<rparr>,
      \<lparr> ap_method = GET, ap_pattern = ''/-/sync-client.js'', ap_panel = ''Assets'', ap_handler = (Static SyncClient), ap_mode = routeModeBoth,
         ap_write = False, ap_why = ''static sync client, no data'' \<rparr>,
      \<lparr> ap_method = GET, ap_pattern = ''/'', ap_panel = ''Dashboard'', ap_handler = (Guarded PageDashboard), ap_mode = routeModeBoth,
         ap_write = False, ap_why = ''the dashboard summarizes every identity in the system'' \<rparr>,
      \<lparr> ap_method = GET, ap_pattern = ''/partials/stats'', ap_panel = ''Dashboard'', ap_handler = (Guarded PageStats), ap_mode = routeModeBoth,
         ap_write = False, ap_why = ''the stats partial summarizes every identity in the system'' \<rparr>,
      \<lparr> ap_method = GET, ap_pattern = ''/audit'', ap_panel = ''Audit log'', ap_handler = (Guarded PageAudit), ap_mode = routeModeBoth,
         ap_write = False, ap_why = ''the audit trail names every actor and command'' \<rparr>]"

definition fallbackRoutes :: "admin_routeSpec list" where
  "fallbackRoutes =
     [\<lparr> ap_method = GET, ap_pattern = ''/*'', ap_panel = ''Fallback'', ap_handler = (Guarded PageNotFound), ap_mode = routeModeBoth,
         ap_write = False, ap_why = ''unknown pages stay behind the gate: the 404 page itself reveals the panel exists'' \<rparr>,
      \<lparr> ap_method = ''*'', ap_pattern = ''/*'', ap_panel = ''Fallback'', ap_handler = (Static MethodNotAllowedPage), ap_mode = routeModeBoth,
         ap_write = False, ap_why = ''unmatched methods answer 405 regardless of caller '' @ em_dash @ '' nothing to protect'' \<rparr>]"

definition superAdminUserRoutes :: "admin_routeSpec list" where
  "superAdminUserRoutes =
     [\<lparr> ap_method = GET, ap_pattern = ''/users'', ap_panel = ''Users'', ap_handler = (Guarded PageUsers), ap_mode = routeModeSuperAdmin,
         ap_write = False, ap_why = ''the user list spans every tenant'' \<rparr>,
      \<lparr> ap_method = GET, ap_pattern = ''/users/new'', ap_panel = ''Users'', ap_handler = (Guarded PageUserNew), ap_mode = routeModeSuperAdmin,
         ap_write = False, ap_why = ''the creation form itself reveals the directory shape'' \<rparr>,
      \<lparr> ap_method = POST, ap_pattern = ''/users'', ap_panel = ''Users'', ap_handler = (Guarded DoUserCreate), ap_mode = routeModeSuperAdmin,
         ap_write = True, ap_why = ''creating accounts is platform-admin territory'' \<rparr>,
      \<lparr> ap_method = GET, ap_pattern = ''/users/{id}'', ap_panel = ''Users'', ap_handler = (Guarded PageUser), ap_mode = routeModeSuperAdmin,
         ap_write = False, ap_why = ''user detail exposes credentials metadata'' \<rparr>,
      \<lparr> ap_method = POST, ap_pattern = ''/users/{id}/delete'', ap_panel = ''Users'', ap_handler = (Guarded DoUserDelete), ap_mode = routeModeSuperAdmin,
         ap_write = True, ap_why = ''deleting users is platform-admin territory'' \<rparr>]"

definition superAdminUserAccountRoutes :: "admin_routeSpec list" where
  "superAdminUserAccountRoutes =
     [\<lparr> ap_method = POST, ap_pattern = ''/users/{id}/display-name'', ap_panel = ''Users'', ap_handler = (Guarded DoDisplayName), ap_mode = routeModeSuperAdmin,
         ap_write = True, ap_why = ''editing a profile field is platform-admin territory'' \<rparr>,
      \<lparr> ap_method = POST, ap_pattern = ''/users/{id}/email'', ap_panel = ''Users'', ap_handler = (Guarded DoEmail), ap_mode = routeModeSuperAdmin,
         ap_write = True, ap_why = ''changing a sign-in email changes how the user authenticates'' \<rparr>,
      \<lparr> ap_method = POST, ap_pattern = ''/users/{id}/external/{provider}/unlink'', ap_panel = ''Users'', ap_handler = (Guarded DoUnlink), ap_mode = routeModeSuperAdmin,
         ap_write = True, ap_why = ''unlinking a user's external account changes how they authenticate'' \<rparr>,
      \<lparr> ap_method = POST, ap_pattern = ''/users/{id}/roles'', ap_panel = ''Users'', ap_handler = (Guarded DoGrant), ap_mode = routeModeSuperAdmin,
         ap_write = True, ap_why = ''platform roles decide who can reach this panel'' \<rparr>,
      \<lparr> ap_method = POST, ap_pattern = ''/users/{id}/roles/revoke'', ap_panel = ''Users'', ap_handler = (Guarded DoRevoke), ap_mode = routeModeSuperAdmin,
         ap_write = True, ap_why = ''revoking platform roles can lock a user (or the admin) out'' \<rparr>,
      \<lparr> ap_method = POST, ap_pattern = ''/users/{id}/credentials/{credential}/delete'', ap_panel = ''Users'', ap_handler = (Guarded DoRemoveCredential), ap_mode = routeModeSuperAdmin,
         ap_write = True, ap_why = ''removing a passkey changes how the user authenticates'' \<rparr>,
      \<lparr> ap_method = POST, ap_pattern = ''/users/{id}/resend-verification'', ap_panel = ''Users'', ap_handler = (Guarded DoResend), ap_mode = routeModeSuperAdmin,
         ap_write = True, ap_why = ''sending mail as a user-visible action must be admin-gated'' \<rparr>]"

definition superAdminTenantRoutes :: "admin_routeSpec list" where
  "superAdminTenantRoutes =
     [\<lparr> ap_method = GET, ap_pattern = ''/tenants'', ap_panel = ''Tenants'', ap_handler = (Guarded PageTenants), ap_mode = routeModeSuperAdmin,
         ap_write = False, ap_why = ''the tenant list is the platform roster'' \<rparr>,
      \<lparr> ap_method = GET, ap_pattern = ''/tenants/new'', ap_panel = ''Tenants'', ap_handler = (Guarded PageTenantNew), ap_mode = routeModeSuperAdmin,
         ap_write = False, ap_why = ''tenant creation form'' \<rparr>,
      \<lparr> ap_method = POST, ap_pattern = ''/tenants'', ap_panel = ''Tenants'', ap_handler = (Guarded DoTenantCreate), ap_mode = routeModeSuperAdmin,
         ap_write = True, ap_why = ''creating tenants is platform-admin territory'' \<rparr>,
      \<lparr> ap_method = GET, ap_pattern = ''/tenants/{id}'', ap_panel = ''Tenants'', ap_handler = (Guarded PageTenant), ap_mode = routeModeSuperAdmin,
         ap_write = False, ap_why = ''tenant detail exposes membership rosters'' \<rparr>,
      \<lparr> ap_method = POST, ap_pattern = ''/tenants/{id}/suspend'', ap_panel = ''Tenants'', ap_handler = (Guarded DoSuspend), ap_mode = routeModeSuperAdmin,
         ap_write = True, ap_why = ''suspending a tenant disables every member of it'' \<rparr>,
      \<lparr> ap_method = POST, ap_pattern = ''/tenants/{id}/reactivate'', ap_panel = ''Tenants'', ap_handler = (Guarded DoReactivate), ap_mode = routeModeSuperAdmin,
         ap_write = True, ap_why = ''reactivation reverses a platform suspension'' \<rparr>,
      \<lparr> ap_method = POST, ap_pattern = ''/tenants/{id}/delete'', ap_panel = ''Tenants'', ap_handler = (Guarded DoTenantDelete), ap_mode = routeModeSuperAdmin,
         ap_write = True, ap_why = ''deleting tenants destroys their history'' \<rparr>]"

definition superAdminTenantMemberRoutes :: "admin_routeSpec list" where
  "superAdminTenantMemberRoutes =
     [\<lparr> ap_method = POST, ap_pattern = ''/tenants/{id}/members'', ap_panel = ''Tenants'', ap_handler = (Guarded DoTenantAdd), ap_mode = routeModeSuperAdmin,
         ap_write = True, ap_why = ''membership grants tenant access'' \<rparr>,
      \<lparr> ap_method = POST, ap_pattern = ''/tenants/{id}/members/{actor}/delete'', ap_panel = ''Tenants'', ap_handler = (Guarded DoTenantRemove), ap_mode = routeModeSuperAdmin,
         ap_write = True, ap_why = ''membership removal revokes tenant access'' \<rparr>,
      \<lparr> ap_method = POST, ap_pattern = ''/tenants/{id}/members/{actor}'', ap_panel = ''Tenants'', ap_handler = (Guarded DoTenantRole), ap_mode = routeModeSuperAdmin,
         ap_write = True, ap_why = ''role changes re-shape authority inside the tenant'' \<rparr>]"

definition superAdminRoutes :: "admin_routeSpec list" where
  "superAdminRoutes =
     superAdminUserRoutes @ superAdminUserAccountRoutes @ superAdminTenantRoutes @ superAdminTenantMemberRoutes"

definition tenantAdminRoutes :: "admin_routeSpec list" where
  "tenantAdminRoutes =
     [\<lparr> ap_method = GET, ap_pattern = ''/members'', ap_panel = ''Members'', ap_handler = (Guarded PageMembers), ap_mode = routeModeTenantAdmin,
         ap_write = False, ap_why = ''the member roster is tenant-internal'' \<rparr>,
      \<lparr> ap_method = POST, ap_pattern = ''/members'', ap_panel = ''Members'', ap_handler = (Guarded DoMemberAdd), ap_mode = routeModeTenantAdmin,
         ap_write = True, ap_why = ''membership grants tenant access'' \<rparr>,
      \<lparr> ap_method = POST, ap_pattern = ''/members/{actor}/delete'', ap_panel = ''Members'', ap_handler = (Guarded DoMemberRemove), ap_mode = routeModeTenantAdmin,
         ap_write = True, ap_why = ''membership removal revokes tenant access'' \<rparr>,
      \<lparr> ap_method = POST, ap_pattern = ''/members/{actor}'', ap_panel = ''Members'', ap_handler = (Guarded DoMemberRole), ap_mode = routeModeTenantAdmin,
         ap_write = True, ap_why = ''role changes re-shape authority inside the tenant'' \<rparr>]"

definition buildRouteTable :: "admin_routeSpec list" where
  "buildRouteTable = sharedRoutes @ superAdminRoutes @ tenantAdminRoutes @ fallbackRoutes"

lemmas admin_route_defs = buildRouteTable_def sharedRoutes_def fallbackRoutes_def superAdminRoutes_def
  superAdminUserRoutes_def superAdminUserAccountRoutes_def superAdminTenantRoutes_def
  superAdminTenantMemberRoutes_def tenantAdminRoutes_def

text \<open>The method and the pattern a row is registered under.\<close>

definition registration :: "admin_routeSpec \<Rightarrow> string \<times> string" where
  "registration spec =
     (if ap_method spec = ''*'' \<and> ap_pattern spec = ''/*'' then ([], ''/'')
      else if ap_method spec = ''*'' then ([], ap_pattern spec)
      else if ap_pattern spec = ''/'' then (ap_method spec, ''/{$}'')
      else if ap_pattern spec = ''/*'' then (ap_method spec, ''/'')
      else (ap_method spec, ap_pattern spec))"

fun validateRouteTable :: "admin_routeSpec list \<Rightarrow> err option" where
  "validateRouteTable [] = None"
| "validateRouteTable (spec # table) =
     (if ap_method spec = [] \<or> ap_pattern spec = [] then
        Some (admin_errConfig (''route table row needs a method and a pattern: '' @ ap_pattern spec))
      else if ap_mode spec = routeModeInvalid then
        Some (admin_errConfig (''route table row '' @ ap_method spec @ '' '' @ ap_pattern spec
          @ '' has no mode (a forgotten mode is served by NO mode, not both)''))
      else if ap_why spec = [] then
        Some (admin_errConfig (''route table row '' @ ap_method spec @ '' '' @ ap_pattern spec @ '' needs a Why''))
      else validateRouteTable table)"

definition registerRoutes :: "'w admin_config \<Rightarrow> admin_target mux" where
  "registerRoutes config =
     map (\<lambda>spec. \<lparr> mr_Method = fst (registration spec), mr_Pattern = snd (registration spec),
                   mr_Handler = ap_handler spec \<rparr>)
       (filter (\<lambda>spec. servesIn (ap_mode spec) (ad_Mode config)) buildRouteTable)"

record admin_Route =
  ro_Method :: string
  ro_Pattern :: string
  ro_Panel :: string
  ro_Write :: bool
  ro_Posture :: string
  ro_Why :: string

definition authorizerPosture :: "'w admin_config \<Rightarrow> string" where
  "authorizerPosture config =
     (if ad_AuthorizerPosture config \<noteq> [] then ad_AuthorizerPosture config else PostureRoleGated_text)"

definition admin_Routes :: "'w admin_config \<Rightarrow> admin_Route list" where
  "admin_Routes config =
     map (\<lambda>spec. \<lparr> ro_Method = ap_method spec, ro_Pattern = ap_pattern spec, ro_Panel = ap_panel spec,
                   ro_Write = ap_write spec,
                   ro_Posture = (case ap_handler spec of
                     Static a \<Rightarrow> PosturePublic_text | Guarded p \<Rightarrow> authorizerPosture config),
                   ro_Why = ap_why spec \<rparr>)
       (filter (\<lambda>spec. servesIn (ap_mode spec) (ad_Mode config)) buildRouteTable)"

section \<open>Serving\<close>

fun admin_serve_page ::
  "admin_page \<Rightarrow> 'w admin_env \<Rightarrow> 'w admin_config \<Rightarrow> admin_request \<Rightarrow> (string \<Rightarrow> string) \<Rightarrow> User \<Rightarrow> 'w admin_handled" where
  "admin_serve_page PageDashboard A config r path u = dashboard_page A config"
| "admin_serve_page PageStats A config r path u = statsPartial A config"
| "admin_serve_page PageAudit A config r path u = auditIndex A r"
| "admin_serve_page PageNotFound A config r path u = (\<lambda>s. (([], NotFound404), s))"
| "admin_serve_page PageUsers A config r path u = usersIndex A r"
| "admin_serve_page PageUserNew A config r path u = show_page UserNewPage"
| "admin_serve_page PageUser A config r path u = userDetail A config u (path ''id'')"
| "admin_serve_page DoUserCreate A config r path u = userCreate A config r"
| "admin_serve_page DoUserDelete A config r path u = userDelete A config r (path ''id'')"
| "admin_serve_page DoDisplayName A config r path u = userUpdateDisplayName A config r (path ''id'')"
| "admin_serve_page DoEmail A config r path u = userUpdateEmail A config r (path ''id'')"
| "admin_serve_page DoUnlink A config r path u = userUnlinkExternal A config (path ''id'') (path ''provider'')"
| "admin_serve_page DoGrant A config r path u = userGrantPlatformRoles A config r (path ''id'')"
| "admin_serve_page DoRevoke A config r path u = userRevokePlatformRoles A config u (path ''id'')"
| "admin_serve_page DoRemoveCredential A config r path u = userRemoveCredential A config (path ''id'') (path ''credential'')"
| "admin_serve_page DoResend A config r path u = userResendVerification A config r (path ''id'')"
| "admin_serve_page PageTenants A config r path u = tenantsIndex A r"
| "admin_serve_page PageTenantNew A config r path u = show_page TenantNewPage"
| "admin_serve_page PageTenant A config r path u = tenantDetail A config (path ''id'')"
| "admin_serve_page DoTenantCreate A config r path u = tenantCreate A config r"
| "admin_serve_page DoSuspend A config r path u = tenantSuspend A config (path ''id'')"
| "admin_serve_page DoReactivate A config r path u = tenantReactivate A config (path ''id'')"
| "admin_serve_page DoTenantDelete A config r path u = tenantDelete A config (path ''id'')"
| "admin_serve_page DoTenantAdd A config r path u = tenantAddMember A config r (path ''id'')"
| "admin_serve_page DoTenantRemove A config r path u = tenantRemoveMember A config (path ''id'') (path ''actor'')"
| "admin_serve_page DoTenantRole A config r path u = tenantUpdateMemberRole A config r (path ''id'') (path ''actor'')"
| "admin_serve_page PageMembers A config r path u = membersIndex A config"
| "admin_serve_page DoMemberAdd A config r path u = membersAdd A config r"
| "admin_serve_page DoMemberRemove A config r path u = membersRemove A config (path ''actor'')"
| "admin_serve_page DoMemberRole A config r path u = membersUpdateRole A config r (path ''actor'')"

definition admin_guard ::
  "'w admin_env \<Rightarrow> 'w admin_config \<Rightarrow> admin_request \<Rightarrow> (User \<Rightarrow> 'w admin_handled) \<Rightarrow> 'w admin_handled" where
  "admin_guard A config r fn s =
     (case aq_User r of
        None \<Rightarrow> writeErrorPage 401 ''Sign in required''
                  ''Your session is missing or expired. Sign in again to continue.'' s
      | Some user \<Rightarrow>
          (case authorizer A config (ss_world s) user of
             Some e \<Rightarrow> writeErrorPage 403 ''Access denied'' ''Your role does not allow this action.'' s
           | None \<Rightarrow> fn user s))"

fun static_asset :: "admin_asset \<Rightarrow> admin_body" where
  "static_asset MethodNotAllowedPage =
     ErrorPage 405 ''Method not allowed'' ''This endpoint does not support that HTTP method.''"
| "static_asset AdminCSS = StaticAsset ''admin-tw.css''"
| "static_asset AdminJS = StaticAsset ''admin.js''"
| "static_asset HtmxJS = StaticAsset ''htmx.js''"
| "static_asset SyncWorker = StaticAsset ''sync-worker.js''"
| "static_asset SyncClient = StaticAsset ''sync-client.js''"

definition serve_admin :: "'w admin_env \<Rightarrow> 'w admin_config \<Rightarrow> admin_request \<Rightarrow> 'w admin_handled" where
  "serve_admin A config r s =
     (case findHandler (registerRoutes config) (aq_Method r) (aq_Path r) of
        mux_answer.Handled (Guarded p) vars \<Rightarrow>
          admin_guard A config r (admin_serve_page p A config r (PathValue vars)) s
      | mux_answer.Handled (Static a) vars \<Rightarrow> (([], static_asset a), s)
      | MovedTo path \<Rightarrow> (([], RedirectTo path), s)
      | MethodNotAllowed ms \<Rightarrow> (([], MuxAnswer 405), s)
      | NoRoute \<Rightarrow> (([], MuxAnswer 404), s))"

section \<open>The table\<close>

lemma route_table_valid: "validateRouteTable buildRouteTable = None"
  by (simp add: admin_route_defs GET_def POST_def)

definition read_pages :: "admin_page set" where
  "read_pages = {PageDashboard, PageStats, PageAudit, PageNotFound, PageUsers, PageUserNew, PageUser, PageTenants,
     PageTenantNew, PageTenant, PageMembers}"

definition tenant_writes :: "admin_page set" where
  "tenant_writes = {DoMemberAdd, DoMemberRemove, DoMemberRole}"

definition row_kind :: "admin_routeSpec \<Rightarrow> bool" where
  "row_kind spec \<longleftrightarrow>
     (case ap_handler spec of
        Static a \<Rightarrow> \<not> ap_write spec
      | Guarded p \<Rightarrow>
          if p \<in> read_pages then \<not> ap_write spec
          else ap_write spec \<and> ap_method spec = POST \<and> ap_pattern spec \<noteq> ''/*''
               \<and> ap_mode spec = (if p \<in> tenant_writes then routeModeTenantAdmin else routeModeSuperAdmin))"

lemma page_kinds:
  "p \<in> read_pages \<longleftrightarrow> p \<in> {PageDashboard, PageStats, PageAudit, PageNotFound, PageUsers, PageUserNew, PageUser,
     PageTenants, PageTenantNew, PageTenant, PageMembers}"
  "p \<in> tenant_writes \<longleftrightarrow> p \<in> {DoMemberAdd, DoMemberRemove, DoMemberRole}"
  by (simp_all add: read_pages_def tenant_writes_def)

lemma shared_kinds: "list_all row_kind (sharedRoutes @ fallbackRoutes)"
  by (simp add: sharedRoutes_def fallbackRoutes_def row_kind_def page_kinds)

lemma user_kinds: "list_all row_kind (superAdminUserRoutes @ superAdminUserAccountRoutes)"
  by (simp add: superAdminUserRoutes_def superAdminUserAccountRoutes_def row_kind_def page_kinds)

lemma tenant_kinds: "list_all row_kind (superAdminTenantRoutes @ superAdminTenantMemberRoutes @ tenantAdminRoutes)"
  by (simp add: superAdminTenantRoutes_def superAdminTenantMemberRoutes_def tenantAdminRoutes_def row_kind_def page_kinds)

lemma row_kinds: "spec \<in> set buildRouteTable \<Longrightarrow> row_kind spec"
  using shared_kinds user_kinds tenant_kinds
  by (auto simp: list_all_iff buildRouteTable_def superAdminRoutes_def)

lemma registered_method:
  "ap_method spec = POST \<Longrightarrow> fst (registration spec) = POST"
  by (auto simp: registration_def POST_def)

section \<open>What a request can do\<close>

text \<open>The super admin panel acts on users, tenants, memberships and platform roles; the tenant admin panel on the
  memberships of its own tenant only.\<close>

fun admin_op :: "'w admin_config \<Rightarrow> unit service_op \<Rightarrow> bool" where
  "admin_op config (OpMember a t cmd) \<longleftrightarrow>
     ad_Mode config = ModeSuperAdmin \<or> ad_Mode config = ModeTenantAdmin \<and> t = ad_TenantID config"
| "admin_op config (OpGrantRoles a t roles) \<longleftrightarrow> ad_Mode config = ModeSuperAdmin \<and> t = NewTenantID WildcardDomain"
| "admin_op config (OpRegister fresh g now req) \<longleftrightarrow> ad_Mode config = ModeSuperAdmin"
| "admin_op config (OpDeleteUser u reason) \<longleftrightarrow> ad_Mode config = ModeSuperAdmin"
| "admin_op config (OpChangeDisplayName u name) \<longleftrightarrow> ad_Mode config = ModeSuperAdmin"
| "admin_op config (OpChangeEmail u email) \<longleftrightarrow> ad_Mode config = ModeSuperAdmin"
| "admin_op config (OpUnlinkExternalAccount o2 u p) \<longleftrightarrow> ad_Mode config = ModeSuperAdmin"
| "admin_op config (OpRemoveCredential u c) \<longleftrightarrow> ad_Mode config = ModeSuperAdmin"
| "admin_op config (OpSendVerificationEmail g now u) \<longleftrightarrow> ad_Mode config = ModeSuperAdmin"
| "admin_op config (OpCreateTenant req) \<longleftrightarrow> ad_Mode config = ModeSuperAdmin"
| "admin_op config (OpTenant t cmd) \<longleftrightarrow> ad_Mode config = ModeSuperAdmin"
| "admin_op config (OpDeleteTenant t reason) \<longleftrightarrow> ad_Mode config = ModeSuperAdmin"
| "admin_op config op \<longleftrightarrow> False"

lemma does_admin_ops:
  "Q (OpMember a t (AddMemberCmd a t roles)) \<Longrightarrow> does P Q s (snd (AddMember P a t roles s))"
  "Q (OpMember a t RemoveMemberCmd) \<Longrightarrow> does P Q s (snd (RemoveMember P a t s))"
  "Q (OpMember a t (UpdateMemberRolesCmd roles)) \<Longrightarrow> does P Q s (snd (UpdateMemberRoles P a t roles s))"
  "Q (OpGrantRoles a t roles) \<Longrightarrow> does P Q s (snd (GrantRoles P a t roles s))"
  "Q (OpDeleteUser u reason) \<Longrightarrow> does P Q s (snd (DeleteUser P u reason s))"
  "Q (OpChangeDisplayName u name) \<Longrightarrow> does P Q s (snd (ChangeDisplayName P u name s))"
  "Q (OpChangeEmail u email) \<Longrightarrow> does P Q s (snd (ChangeEmail P u email s))"
  "Q (OpCreateTenant req) \<Longrightarrow> does P Q s (snd (CreateTenant P req s))"
  "Q (OpTenant x (SuspendTenantCmd reason)) \<Longrightarrow> does P Q s (snd (SuspendTenant P x reason s))"
  "Q (OpTenant x ReactivateTenantCmd) \<Longrightarrow> does P Q s (snd (ReactivateTenant P x s))"
  "Q (OpDeleteTenant x reason) \<Longrightarrow> does P Q s (snd (DeleteTenant P x reason s))"
  using does_op [of Q _ P s]
  by (force simp: AddMember_def RemoveMember_def UpdateMemberRoles_def SuspendTenant_def ReactivateTenant_def)+

lemma does_revoke: "Q (OpMember a t RemoveMemberCmd) \<Longrightarrow> does P Q s (snd (RevokeRoles P a t s))"
  by (simp add: RevokeRoles_def does_admin_ops)

lemma answered_states [simp]:
  "snd (show_page v s) = s" "snd (writeErrorPage status title message s) = s" "snd (redirected t path s) = s"
  "snd (writeActionError A action e s) = s" "snd (acted A action ok back run s) = snd (run s)"
  "snd (toasted A failed ok back run s) = snd (run s)" "snd (invalid_form s) = s" "snd (email_required s) = s"
  "snd (err_of x) = snd x"
  by (simp_all add: show_page_def writeErrorPage_def redirected_def writeActionError_def acted_def toasted_def
    invalid_form_def email_required_def err_of_def Let_def split: prod.splits option.splits)

lemma read_pages_keep: "p \<in> read_pages \<Longrightarrow> snd (admin_serve_page p A config r path u s) = s"
  by (auto simp: read_pages_def dashboard_page_def statsPartial_def auditIndex_def usersIndex_def userDetail_def
    parseUserID_page_def tenantsIndex_def tenantDetail_def membersIndex_def Let_def
    split: option.splits sum.splits prod.splits)

lemma write_pages_do:
  assumes "p \<notin> read_pages"
    and "ad_Mode config = (if p \<in> tenant_writes then ModeTenantAdmin else ModeSuperAdmin)"
  shows "does (ax_service A) (admin_op config) s (snd (admin_serve_page p A config r path u s))"
proof (cases p)
  case DoUserCreate
  with assms show ?thesis
    by (auto simp: userCreate_def tenant_writes_def Let_def split: sum.splits prod.splits dest: sndI intro!: does_ops(1))
next
  case DoTenantCreate
  with assms show ?thesis
    by (auto simp: tenantCreate_def tenant_writes_def Let_def split: sum.splits prod.splits dest: sndI
        intro!: does_admin_ops(8))
qed (use assms in \<open>auto simp: read_pages_def tenant_writes_def userDelete_def userUnlinkExternal_def
    userUpdateDisplayName_def userUpdateEmail_def userGrantPlatformRoles_def userRevokePlatformRoles_def
    userRemoveCredential_def userResendVerification_def parseUserID_page_def tenantSuspend_def tenantReactivate_def
    tenantDelete_def tenantAddMember_def tenantRemoveMember_def tenantUpdateMemberRole_def membersAdd_def
    membersRemove_def membersUpdateRole_def doAddMember_def doRemoveMember_def doUpdateRole_def with_actor_def Let_def
    split: sum.splits option.splits intro!: does_ops does_admin_ops does_revoke\<close>)

definition admitted :: "'w admin_env \<Rightarrow> 'w admin_config \<Rightarrow> admin_request \<Rightarrow> 'w service \<Rightarrow> bool" where
  "admitted A config r s \<longleftrightarrow> (\<exists>user. aq_User r = Some user \<and> authorizer A config (ss_world s) user = None)"

lemma served_guarded:
  assumes "findHandler (registerRoutes config) meth path = mux_answer.Handled (Guarded p) vars"
  shows "p \<in> read_pages
    \<or> meth = POST \<and> ad_Mode config = (if p \<in> tenant_writes then ModeTenantAdmin else ModeSuperAdmin)"
proof -
  from findHandler_sound [OF assms] obtain row where row: "row \<in> set (registerRoutes config)"
    "Guarded p = mr_Handler row" "method_serves (mr_Method row) meth" by metis
  then obtain spec where spec: "spec \<in> set buildRouteTable" "servesIn (ap_mode spec) (ad_Mode config)"
    "ap_handler spec = Guarded p" "mr_Method row = fst (registration spec)"
    by (auto simp: registerRoutes_def)
  from row_kinds [OF spec(1)] spec(3) show ?thesis
  proof (cases "p \<in> read_pages")
    case False
    with row_kinds [OF spec(1)] spec(3) have k: "ap_method spec = POST"
      "ap_mode spec = (if p \<in> tenant_writes then routeModeTenantAdmin else routeModeSuperAdmin)"
      by (simp_all add: row_kind_def)
    from registered_method [OF k(1)] row(3) spec(4) have "meth = POST"
      by (auto simp: method_serves_def POST_def GET_def)
    with k(2) spec(2) show ?thesis by (simp split: if_splits)
  qed simp
qed

lemma guarded_parts:
  "admitted A config r s \<Longrightarrow> \<exists>user. admin_guard A config r fn s = fn user s"
  "\<not> admitted A config r s \<Longrightarrow> snd (admin_guard A config r fn s) = s
     \<and> (\<exists>status title msg. snd (fst (admin_guard A config r fn s)) = ErrorPage status title msg)"
  by (auto simp: admitted_def admin_guard_def writeErrorPage_def split: option.splits)

text \<open>C38. Whatever request reaches the admin panel, what it does to the service is a run of operations of the panel's
  mode, where the panel of a tenant only touches the memberships of that tenant; unless the request is a POST of a
  signed-in user the authorizer admits, nothing happens; and no page with data, nor the page for unknown paths, is
  shown to anybody else.\<close>

theorem admin_acts_guarded:
  "(\<exists>ops. snd (serve_admin A config r s) = run_ops (ax_service A) ops s
      \<and> (\<forall>op\<in>set ops. admin_op config op \<and> aq_Method r = POST \<and> admitted A config r s))
   \<and> (snd (fst (serve_admin A config r s)) \<in> range View \<union> {NotFound404} \<longrightarrow> admitted A config r s)"
proof -
  let ?Q = "\<lambda>op. admin_op config op \<and> aq_Method r = POST \<and> admitted A config r s"
  have none: "does (ax_service A) ?Q s s" by simp
  have "does (ax_service A) ?Q s (snd (serve_admin A config r s))
      \<and> (snd (fst (serve_admin A config r s)) \<in> range View \<union> {NotFound404} \<longrightarrow> admitted A config r s)"
  proof (cases "findHandler (registerRoutes config) (aq_Method r) (aq_Path r)")
    case (Handled h vars)
    show ?thesis
    proof (cases h)
      case (Guarded p)
      have run: "serve_admin A config r s = admin_guard A config r (admin_serve_page p A config r (PathValue vars)) s"
        using Handled Guarded by (simp add: serve_admin_def)
      show ?thesis
      proof (cases "admitted A config r s")
        case True
        then obtain user where u: "serve_admin A config r s = admin_serve_page p A config r (PathValue vars) user s"
          using guarded_parts(1) unfolding run by blast
        have "does (ax_service A) ?Q s (snd (serve_admin A config r s))"
        proof (cases "p \<in> read_pages")
          case True
          then show ?thesis by (simp add: u read_pages_keep)
        next
          case False
          with served_guarded [OF Handled [unfolded Guarded]] have m: "aq_Method r = POST"
            "ad_Mode config = (if p \<in> tenant_writes then ModeTenantAdmin else ModeSuperAdmin)" by blast+
          from write_pages_do [OF False m(2), of A s r "PathValue vars" user] m(1) True show ?thesis
            unfolding u does_def by blast
        qed
        with True show ?thesis by blast
      next
        case False
        from guarded_parts(2) [OF False] obtain status title msg where
          "snd (serve_admin A config r s) = s" "snd (fst (serve_admin A config r s)) = ErrorPage status title msg"
          unfolding run by blast
        then show ?thesis by auto
      qed
    next
      case (Static a)
      have "static_asset a \<notin> range View \<union> {NotFound404}" by (cases a) auto
      with Static Handled show ?thesis by (simp add: serve_admin_def)
    qed
  qed (auto simp: serve_admin_def)
  then show ?thesis by (auto simp: does_def)
qed

section \<open>Pages of a list\<close>

lemma div_times_le: "0 < k \<Longrightarrow> x div k * k \<le> (x :: int)"
  using div_mult_mod_eq [of x k] pos_mod_sign [of k x] by linarith

text \<open>The window always lies inside the list, so slicing never panics.\<close>

lemma page_bounds_inside:
  assumes "0 \<le> n" and "pageBounds page n k = (offset, limit, pages, current)"
  shows "0 \<le> offset" and "0 \<le> limit" and "offset + limit \<le> n" and "1 \<le> current" and "current \<le> pages"
proof -
  define k' where "k' = (if k \<le> 0 then listPageSize else k)"
  have k: "0 < k'" by (simp add: k'_def listPageSize_def)
  define q where "q = (n + k' - 1) div k'"
  have "((min (max page 1) (max q 1) - 1) * k',
      max (min k' (n - (min (max page 1) (max q 1) - 1) * k')) 0, max q 1, min (max page 1) (max q 1))
      = (offset, limit, pages, current)"
    using assms(2) by (simp only: pageBounds_def Let_def k'_def q_def)
  then have parts: "pages = max q 1" "current = min (max page 1) pages" "offset = (current - 1) * k'"
    "limit = max (min k' (n - offset)) 0"
    by auto
  show c: "1 \<le> current" "current \<le> pages" using parts by auto
  show o: "0 \<le> offset" using c k by (simp add: parts(3))
  show "0 \<le> limit" by (simp add: parts(4))
  have "offset \<le> (pages - 1) * k'" using c k by (simp add: parts(3))
  also have "\<dots> \<le> n"
  proof (cases "q \<le> 1")
    case True
    then show ?thesis using assms(1) by (simp add: parts(1) max_def)
  next
    case False
    then show ?thesis using div_times_le [OF k, of "n + k' - 1"] k by (simp add: parts(1) q_def max_def algebra_simps)
  qed
  finally show "offset + limit \<le> n" by (simp add: parts(4))
qed

text \<open>Every row is on the page its position says, and nowhere else on it.\<close>

lemma row_on_page:
  assumes "i < length xs" and "0 < k"
    and page: "pageBounds (int (i div k) + 1) (int (length xs)) (int k) = (offset, limit, pages, current)"
  shows "current = int (i div k) + 1" and "i mod k < length (page_rows xs offset limit)"
    and "page_rows xs offset limit ! (i mod k) = xs ! i"
proof -
  have "int (i div k) + 1 = (int i + int k) div int k" using assms(2) div_add_self2 [of "int k" "int i"] by (simp add: zdiv_int)
  also have "\<dots> \<le> (int (length xs) + int k - 1) div int k" using assms(1,2) by (intro zdiv_mono1) simp_all
  finally have "int (i div k) + 1 \<le> max ((int (length xs) + int k - 1) div int k) 1" by simp
  then have parts: "current = int (i div k) + 1" "offset = int (i div k) * int k"
    "limit = max (min (int k) (int (length xs) - offset)) 0"
    using page assms(2) by (auto simp: pageBounds_def Let_def)
  show "current = int (i div k) + 1" by (rule parts(1))
  have o: "nat offset = i div k * k" "i div k * k + i mod k = i" by (simp_all add: parts(2) nat_mult_distrib)
  have "int (i mod k) < int k" using assms(2) by simp
  moreover have "int (i div k * k) + int (i mod k) = int i" using o(2) by (simp only: of_nat_add [symmetric])
  ultimately have "int (i mod k) < limit" using assms(1) by (simp add: parts(2,3))
  then have l: "i mod k < nat limit" by linarith
  have d: "i mod k < length xs - i div k * k" using assms(1) o(2) by linarith
  have "drop (i div k * k) xs ! (i mod k) = xs ! (i div k * k + i mod k)"
    using assms(1) o(2) by (intro nth_drop) linarith
  then have n: "drop (i div k * k) xs ! (i mod k) = xs ! i" by (simp only: o(2))
  show "i mod k < length (page_rows xs offset limit)" using l d by (simp add: page_rows_def o(1))
  show "page_rows xs offset limit ! (i mod k) = xs ! i" using l n by (simp add: page_rows_def o(1))
qed

section \<open>Where the panel differs from what it says\<close>

text \<open>The card of recent activity shows the oldest entries of the log, in their order, not the newest ones.\<close>

lemma timeline_shows_oldest:
  assumes "ax_AuditLog A (ss_world s) = Some al"
  shows "tl_Entries (userTimeline_of A shown s) = resolveAuditEmails A s
    (take 8 (filter (\<lambda>e. ae_AggregateID e = user_text (sv_ids (ax_service A)) (u_id shown)) (Entries al)))"
  using assms
  by (simp add: userTimeline_of_def Let_def retained_def Recent_newest AuditLog_Count_def newest_def)

text \<open>The form of a tenant's panel takes any text for a role, also the global one that \<open>AssignableRoles\<close> leaves out.\<close>

lemma global_role_in_tenant:
  assumes "aq_ParseForm r = None" and "trim_space (aq_FormValue r ''role'') = RoleSuperAdmin"
    and "trim_space (aq_FormValue r ''email'') = email" and "email \<noteq> []"
    and "FindByEmail (users (ax_service A) s) email = Some (Some target)"
  shows "snd (membersAdd A config r s)
    = snd (AddMember (ax_service A) (platform_actor A (u_id target)) (ad_TenantID config) [RoleSuperAdmin] s)"
    and "RoleSuperAdmin \<notin> set AssignableRoles"
  using assms
  by (simp_all add: membersAdd_def doAddMember_def Let_def AssignableRoles_def RoleSuperAdmin_def RoleViewer_def
    RoleUser_def RoleAdmin_def RoleOwner_def)

section \<open>A panel\<close>

definition demo_admin :: "demo_world admin_env" where
  "demo_admin =
     \<lparr> ax_service = demo_service, ax_oauth = None, ax_providers = [], ax_AllUsers = (\<lambda>m. []),
       ax_ImplicitRoles = (\<lambda>w u t. Inr [RoleAdmin]), ax_Domains = (\<lambda>w u. Inr []), ax_Roles = (\<lambda>w u t. Inr []),
       ax_HasAdminGrant = (\<lambda>w t. Inr True), ax_AuditLog = (\<lambda>w. None), ax_HubStats = None, ax_Code = (\<lambda>e. []) \<rparr>"

definition demo_panel :: "demo_world admin_config" where
  "demo_panel =
     \<lparr> ad_Title = ''Admin'', ad_BasePath = ''/admin'', ad_Mode = ModeTenantAdmin, ad_TenantID = NewTenantID ''t1'',
       ad_AccentColor = DefaultAccentColor, ad_Authorizer = None, ad_AuthorizerPosture = [], ad_ExtraNav = [],
       ad_DashboardURL = [] \<rparr>"

definition demo_signed_in :: User where
  "demo_signed_in =
     \<lparr> u_id = UserID 1, u_email = ''a@b.c'', u_display_name = [], u_credentials = [], u_external_accounts = [],
       u_email_verified = True, u_totp_enabled = False, u_totp_secret = [], u_created_at = 1, u_updated_at = 1 \<rparr>"

definition demo_members :: admin_request where
  "demo_members =
     \<lparr> aq_Method = ''GET'', aq_Path = ''/members'', aq_RawQuery = [], aq_User = Some demo_signed_in,
       aq_ParseForm = None, aq_FormValue = (\<lambda>k. []), aq_FormRoles = [], aq_Partial = False, aq_now = 5,
       aq_generated = Inr ''t'', aq_freshUser = UserID 7 \<rparr>"

lemma demo_members_route:
  "findHandler (registerRoutes demo_panel) ''GET'' ''/members'' = mux_answer.Handled (Guarded PageMembers) []"
  by code_simp

text \<open>The administrator of a tenant reads the list of its members: the page is shown, so the authorizer admitted the
  caller, and, the request being no POST, the service is left as it was.\<close>

lemma admin_acts_guarded_witness:
  "admitted demo_admin demo_panel demo_members (demo_start (\<lambda>a. UserState_zero, NewUserReadModel))
   \<and> snd (serve_admin demo_admin demo_panel demo_members (demo_start (\<lambda>a. UserState_zero, NewUserReadModel)))
     = demo_start (\<lambda>a. UserState_zero, NewUserReadModel)"
proof -
  let ?s = "demo_start (\<lambda>a. UserState_zero, NewUserReadModel)"
  note g = admin_acts_guarded [of demo_admin demo_panel demo_members ?s]
  have req: "aq_Method demo_members = ''GET''" "aq_Path demo_members = ''/members''"
    "aq_User demo_members = Some demo_signed_in"
    by (simp_all add: demo_members_def)
  have allow: "authorizer demo_admin demo_panel w u = None" for w u
    by (simp add: authorizer_def demo_panel_def defaultAuthorizer_def RequireAnyRole_def demo_admin_def)
  have "snd (fst (serve_admin demo_admin demo_panel demo_members ?s)) \<in> range View"
    by (simp add: serve_admin_def req demo_members_route admin_guard_def allow membersIndex_def show_page_def Let_def)
  with g have a: "admitted demo_admin demo_panel demo_members ?s" by blast
  from g obtain ops where ops: "snd (serve_admin demo_admin demo_panel demo_members ?s)
      = run_ops (ax_service demo_admin) ops ?s"
    "\<forall>op\<in>set ops. admin_op demo_panel op \<and> aq_Method demo_members = POST \<and> admitted demo_admin demo_panel demo_members ?s"
    by (elim conjE exE)
  from ops(2) have "ops = []" by (cases ops) (auto simp: req POST_def)
  with ops(1) a show ?thesis by (simp add: run_ops_def)
qed

end
