(* ===== verification/Login_Page.thy ===== *)
theory Login_Page
  imports Redirects Url_Query Errors
begin

text \<open>
  The sign-in page (\<open>loginpage\<close>): its configuration with defaults and refusals, the data the page is rendered
  from, the automatic redirect, and the texts that are spliced into scripts and attributes. The user service is asked
  for its sign-in methods only; the tokens of the CSRF library, the hooks and the parsed query are given with the
  request. The template itself and the client script are left out.
\<close>

section \<open>Texts spliced into the page\<close>

definition ThemeDark :: string where "ThemeDark = ''dark''"
definition ThemeLight :: string where "ThemeLight = ''light''"
definition LoginAccentColor :: string where "LoginAccentColor = ''#4f46e5''"
definition maxErrorMessageLength :: nat where "maxErrorMessageLength = 300"

definition login_errConfig :: "string \<Rightarrow> err" where
  "login_errConfig msg = new_error Rejection ''loginpage.config'' msg"

text \<open>The markup and quote characters: less, greater, ampersand, the quotes, backslash and backquote.\<close>

definition markup_chars :: string where
  "markup_chars = [CHR 0x3C, CHR 0x3E, CHR 0x26, CHR 0x22, CHR 0x27, CHR 0x5C, CHR 0x60]"

definition login_validateAccentColor :: "string \<Rightarrow> err option" where
  "login_validateAccentColor accent =
     (if list_ex (\<lambda>c. c \<in> set markup_chars) accent then
        Some (login_errConfig (''Config.AccentColor must be a CSS color without markup or quote characters (''
          @ [CHR 0x3C] @ '' '' @ [CHR 0x3E] @ '' '' @ [CHR 0x26] @ '' '' @ [CHR 0x22] @ '' '' @ [CHR 0x27] @ '' ''
          @ [CHR 0x5C, CHR 0x5C] @ '' '' @ [CHR 0x60] @ '')''))
      else None)"

definition validateStylesheetURL :: "string \<Rightarrow> err option" where
  "validateStylesheetURL cssPath =
     (if cssPath = [] \<or> has_prefix cssPath ''/'' \<or> has_prefix cssPath ''http://'' \<or> has_prefix cssPath ''https://''
      then None
      else Some (login_errConfig (''Config.CSSPath must be a root-relative path ('' @ [CHR 0x22] @ ''/css/app.css''
        @ [CHR 0x22] @ '') or an absolute http(s) URL'')))"

definition validateAuthPrefix :: "string \<Rightarrow> err option" where
  "validateAuthPrefix prefix =
     (if prefix = [] \<or> (has_prefix prefix ''/'' \<and> \<not> has_prefix prefix ''//'') then None
      else Some (login_errConfig (''Config.AuthPrefix must be empty or a root-relative path starting with ''
        @ [CHR 0x22] @ ''/'' @ [CHR 0x22] @ '' (e.g. '' @ [CHR 0x22] @ ''/api'' @ [CHR 0x22]
        @ ''): it feeds link targets and the AutoRedirect 302 Location, so bare-relative ('' @ [CHR 0x22] @ ''api''
        @ [CHR 0x22] @ '') and protocol-relative ('' @ [CHR 0x22] @ ''//host'' @ [CHR 0x22]
        @ '') values redirect wrongly or off-site'')))"

text \<open>\<open>strings.TrimRight(s, "/")\<close>.\<close>

definition login_trimTrailingSlash :: "string \<Rightarrow> string" where
  "login_trimTrailingSlash s = rev (dropWhile (\<lambda>c. c = slash) (rev s))"

text \<open>The runes kept are of one byte; every other byte belongs to a rune that is dropped.\<close>

definition nonce_char :: "char \<Rightarrow> bool" where
  "nonce_char c \<longleftrightarrow> c \<in> set ''abcdefghijklmnopqrstuvwxyzABCDEFGHIJKLMNOPQRSTUVWXYZ0123456789-_''"

definition sanitizeNonce :: "string \<Rightarrow> string" where
  "sanitizeNonce nonce = filter nonce_char nonce"

text \<open>The three replacements of \<open>strings.NewReplacer\<close> are of single characters.\<close>

fun script_safe_char :: "char \<Rightarrow> string" where
  "script_safe_char c =
     (if c = CHR 0x3C then CHR 0x5C # ''u003c''
      else if c = CHR 0x3E then CHR 0x5C # ''u003e''
      else if c = CHR 0x26 then CHR 0x5C # ''u0026'' else [c])"

definition scriptSafeJSON :: "string \<Rightarrow> string" where
  "scriptSafeJSON s = concat (map script_safe_char s)"

definition nonceAttr :: "string \<Rightarrow> string" where
  "nonceAttr nonce = (if nonce = [] then [] else '' nonce='' @ [CHR 0x22] @ nonce @ [CHR 0x22])"

definition scriptTag :: "string \<Rightarrow> string \<Rightarrow> string" where
  "scriptTag js nonce = [CHR 0x3C] @ ''script'' @ nonceAttr nonce @ [CHR 0x3E] @ js @ [CHR 0x3C] @ ''/script'' @ [CHR 0x3E]"

definition jsonScriptTag :: "string \<Rightarrow> string \<Rightarrow> string" where
  "jsonScriptTag cfgJSON nonce =
     [CHR 0x3C] @ ''script id='' @ [CHR 0x22] @ ''loginpage-config'' @ [CHR 0x22] @ '' type='' @ [CHR 0x22]
     @ ''application/json'' @ [CHR 0x22] @ nonceAttr nonce @ [CHR 0x3E] @ cfgJSON
     @ [CHR 0x3C] @ ''/script'' @ [CHR 0x3E]"

section \<open>Providers\<close>

definition knownProviderLabels :: "(string, string) gomap" where
  "knownProviderLabels =
     [(''google'', ''Google''), (''github'', ''GitHub''), (''microsoft'', ''Microsoft''), (''apple'', ''Apple''),
      (''gitlab'', ''GitLab''), (''facebook'', ''Facebook''), (''amazon'', ''Amazon''), (''linkedin'', ''LinkedIn''),
      (''twitter'', ''Twitter''), (''discord'', ''Discord'')]"

text \<open>\<open>strings.ToUpper\<close> of the first byte: a byte that is no character of its own becomes the replacement character.\<close>

definition upper_byte :: "char \<Rightarrow> string" where
  "upper_byte c =
     (if 128 \<le> (of_char c :: nat) then map byte [0xEF, 0xBF, 0xBD]
      else if c \<in> set ''abcdefghijklmnopqrstuvwxyz'' then [byte (of_char c - 32)] else [c])"

definition ProviderDisplayName :: "string \<Rightarrow> string" where
  "ProviderDisplayName provider =
     (case map_get knownProviderLabels provider of
        Some label \<Rightarrow> label
      | None \<Rightarrow> (case provider of [] \<Rightarrow> [] | c # cs \<Rightarrow> upper_byte c @ cs))"

record OAuth2Button =
  ob_Provider :: string
  ob_Label :: string

definition OAuth2ButtonFromProvider :: "string \<Rightarrow> OAuth2Button" where
  "OAuth2ButtonFromProvider provider =
     \<lparr> ob_Provider = provider, ob_Label = ''Sign in with '' @ ProviderDisplayName provider \<rparr>"

section \<open>Configuration\<close>

text \<open>What the page asks the user service for.\<close>

record login_service =
  ls_HasWebAuthn :: bool
  ls_ConfiguredOAuth2Providers :: "string list"

text \<open>A request: the query is raw, the CSRF texts are the ones of the CSRF library, the rest is what the hooks read.\<close>

record login_request =
  lr_Method :: string
  lr_RawQuery :: string
  lr_CSRFMeta :: string
  lr_CSRFField :: string
  lr_Theme :: string
  lr_Nonce :: string

record login_config =
  lg_Service :: "login_service option"
  lg_Title :: string
  lg_Brand :: string
  lg_Redirect :: string
  lg_AccentColor :: string
  lg_CSSPath :: string
  lg_Theme :: string
  lg_ThemeFromRequest :: "(login_request \<Rightarrow> string) option"
  lg_NonceFromRequest :: "(login_request \<Rightarrow> string) option"
  lg_NoRegistration :: bool
  lg_AuthPrefix :: string
  lg_OAuth2Buttons :: "OAuth2Button list"
  lg_NoOAuth2 :: bool
  lg_NoWebAuthn :: bool
  lg_AutoRedirect :: bool
  lg_CredentialName :: string
  lg_RegisterFirst :: bool

definition login_validate :: "login_config \<Rightarrow> err option" where
  "login_validate config =
     (if lg_NoOAuth2 config \<and> lg_OAuth2Buttons config \<noteq> [] then
        Some (login_errConfig (''Config.NoOAuth2 and Config.OAuth2Buttons are mutually exclusive: NoOAuth2 hides every ''
          @ ''OAuth2 button, an explicit list shows specific ones''))
      else if lg_AutoRedirect config \<and> lg_NoOAuth2 config then
        Some (login_errConfig (''Config.AutoRedirect and Config.NoOAuth2 are contradictory: AutoRedirect sends visitors ''
          @ ''straight to an OAuth2 provider, NoOAuth2 hides every OAuth2 button''))
      else if lg_NoWebAuthn config \<and> lg_NoOAuth2 config then
        Some (login_errConfig (''Config.NoWebAuthn and Config.NoOAuth2 are contradictory: the page would have no sign-in ''
          @ ''method at all '' @ map byte [0xE2, 0x80, 0x94]
          @ '' mount a page per audience instead of hiding every method on one''))
      else case validateAuthPrefix (lg_AuthPrefix config) of
        Some e \<Rightarrow> Some e
      | None \<Rightarrow>
          if lg_Theme config \<noteq> [] \<and> lg_Theme config \<noteq> ThemeLight \<and> lg_Theme config \<noteq> ThemeDark then
            Some (login_errConfig (''Config.Theme must be '' @ [CHR 0x22] @ ''light'' @ [CHR 0x22] @ '' or '' @ [CHR 0x22]
              @ ''dark'' @ [CHR 0x22] @ '' (or empty to follow prefers-color-scheme)''))
          else None)"

definition login_textDefaults :: "login_config \<Rightarrow> login_config" where
  "login_textDefaults config =
     (let config = (if lg_Title config = [] then config \<lparr> lg_Title := ''Sign in'' \<rparr> else config);
          config = (if lg_Brand config = [] then config \<lparr> lg_Brand := lg_Title config \<rparr> else config);
          config = (if lg_Redirect config = [] then config \<lparr> lg_Redirect := ''/'' \<rparr> else config);
          config = (if lg_AccentColor config = [] then config \<lparr> lg_AccentColor := LoginAccentColor \<rparr> else config)
      in if lg_CredentialName config = [] then config \<lparr> lg_CredentialName := ''Passkey'' \<rparr> else config)"

definition login_withDefaults :: "login_config \<Rightarrow> err + login_config" where
  "login_withDefaults config =
     (if lg_Service config = None then Inl (login_errConfig ''Config.Service is required'')
      else
        (let config = login_textDefaults config in
         case login_validateAccentColor (lg_AccentColor config) of
           Some e \<Rightarrow> Inl e
         | None \<Rightarrow>
             (case validateStylesheetURL (lg_CSSPath config) of
                Some e \<Rightarrow> Inl e
              | None \<Rightarrow>
                  (case login_validate config of
                     Some e \<Rightarrow> Inl e
                   | None \<Rightarrow>
                       (let config = (if lg_CSSPath config = [] then config \<lparr> lg_CSSPath := ''/app.css'' \<rparr> else config)
                        in Inr (config \<lparr> lg_AuthPrefix := login_trimTrailingSlash (lg_AuthPrefix config) \<rparr>))))))"

definition resolveTheme :: "login_config \<Rightarrow> login_request option \<Rightarrow> string" where
  "resolveTheme config r =
     (let fallback = (if lg_Theme config = ThemeLight \<or> lg_Theme config = ThemeDark then lg_Theme config else []) in
      case (lg_ThemeFromRequest config, r) of
        (Some f, Some req) \<Rightarrow> if f req = ThemeLight \<or> f req = ThemeDark then f req else fallback
      | _ \<Rightarrow> fallback)"

section \<open>The page\<close>

record page_data =
  pd_Title :: string
  pd_Brand :: string
  pd_Subtitle :: string
  pd_Accent :: string
  pd_CSSPath :: string
  pd_WebAuthn :: bool
  pd_OAuth2Buttons :: "OAuth2Button list"
  pd_ShowReg :: bool
  pd_RegisterFirst :: bool
  pd_CSRFMeta :: string
  pd_CSRFField :: string
  pd_Nonce :: string
  pd_Theme :: string
  pd_ErrorMessage :: string
  pd_authPrefix :: string
  pd_configJSON :: string

definition oauthBeginURL :: "page_data \<Rightarrow> string \<Rightarrow> string" where
  "oauthBeginURL p provider = pd_authPrefix p @ ''/auth/oauth/'' @ provider @ ''/begin''"

definition soleOAuthBeginURL :: "page_data \<Rightarrow> string" where
  "soleOAuthBeginURL p =
     (if pd_WebAuthn p then []
      else (case pd_OAuth2Buttons p of [b] \<Rightarrow> oauthBeginURL p (ob_Provider b) | _ \<Rightarrow> []))"

definition errorMessageFromQuery :: "login_request \<Rightarrow> string" where
  "errorMessageFromQuery r = take maxErrorMessageLength (trim_space (Query_Get (ParseQuery (lr_RawQuery r)) ''error''))"

definition applyRequestScoped :: "page_data \<Rightarrow> login_config \<Rightarrow> login_request \<Rightarrow> page_data" where
  "applyRequestScoped data config r =
     (let data = data \<lparr> pd_CSRFMeta := lr_CSRFMeta r, pd_CSRFField := lr_CSRFField r \<rparr>;
          data = (case lg_NonceFromRequest config of
                    None \<Rightarrow> data | Some f \<Rightarrow> data \<lparr> pd_Nonce := sanitizeNonce (f r) \<rparr>)
      in data \<lparr> pd_Theme := resolveTheme config (Some r), pd_ErrorMessage := errorMessageFromQuery r \<rparr>)"

record endpointConfig =
  ep_LoginBegin :: string
  ep_LoginFinish :: string
  ep_Register :: string
  ep_RegisterBegin :: string
  ep_RegisterFinish :: string

record clientConfig =
  cc_Redirect :: string
  cc_Endpoints :: endpointConfig
  cc_CredentialName :: string

definition client_config :: "login_config \<Rightarrow> clientConfig" where
  "client_config config =
     (let prefix = lg_AuthPrefix config in
      \<lparr> cc_Redirect = SafeRedirectPath (lg_Redirect config),
        cc_Endpoints = \<lparr> ep_LoginBegin = prefix @ ''/auth/webauthn/login/begin'',
                         ep_LoginFinish = prefix @ ''/auth/webauthn/login/finish'',
                         ep_Register = prefix @ ''/auth/register'',
                         ep_RegisterBegin = prefix @ ''/auth/webauthn/register/begin'',
                         ep_RegisterFinish = prefix @ ''/auth/webauthn/register/finish'' \<rparr>,
        cc_CredentialName = lg_CredentialName config \<rparr>)"

text \<open>\<open>marshal\<close> is the JSON encoder of the standard library, which may fail.\<close>

definition config_json :: "(clientConfig \<Rightarrow> string option) \<Rightarrow> login_config \<Rightarrow> string" where
  "config_json marshal config =
     scriptSafeJSON (case marshal (client_config config) of
        Some json \<Rightarrow> json
      | None \<Rightarrow> [CHR 0x7B, CHR 0x22] @ ''redirect'' @ [CHR 0x22, CHR 0x3A, CHR 0x22] @ ''/''
                  @ [CHR 0x22, CHR 0x2C, CHR 0x22] @ ''endpoints'' @ [CHR 0x22, CHR 0x3A, CHR 0x7B, CHR 0x7D, CHR 0x7D])"

definition page_buttons :: "login_config \<Rightarrow> login_service \<Rightarrow> OAuth2Button list" where
  "page_buttons config svc =
     (let buttons = (if lg_OAuth2Buttons config = []
                     then map OAuth2ButtonFromProvider (ls_ConfiguredOAuth2Providers svc)
                     else lg_OAuth2Buttons config)
      in if lg_NoOAuth2 config then [] else buttons)"

definition buildPageData ::
  "(clientConfig \<Rightarrow> string option) \<Rightarrow> login_config \<Rightarrow> login_service \<Rightarrow> login_request option \<Rightarrow> page_data" where
  "buildPageData marshal config svc r =
     (let hasWebAuthn = (ls_HasWebAuthn svc \<and> \<not> lg_NoWebAuthn config);
          buttons = page_buttons config svc;
          subtitle = (if \<not> hasWebAuthn \<and> buttons = [] then ''No authentication method is configured.''
                      else ''Sign in to your account'');
          data = \<lparr> pd_Title = lg_Title config, pd_Brand = lg_Brand config, pd_Subtitle = subtitle,
                   pd_Accent = lg_AccentColor config, pd_CSSPath = lg_CSSPath config, pd_WebAuthn = hasWebAuthn,
                   pd_OAuth2Buttons = buttons, pd_ShowReg = (\<not> lg_NoRegistration config \<and> hasWebAuthn),
                   pd_RegisterFirst = lg_RegisterFirst config, pd_CSRFMeta = [], pd_CSRFField = [], pd_Nonce = [],
                   pd_Theme = [], pd_ErrorMessage = [], pd_authPrefix = lg_AuthPrefix config,
                   pd_configJSON = config_json marshal config \<rparr>
      in case r of None \<Rightarrow> data | Some req \<Rightarrow> applyRequestScoped data config req)"

definition NewPageData ::
  "(clientConfig \<Rightarrow> string option) \<Rightarrow> login_config \<Rightarrow> login_request option \<Rightarrow> err + page_data" where
  "NewPageData marshal config r =
     (case login_withDefaults config of
        Inl e \<Rightarrow> Inl e
      | Inr config \<Rightarrow>
          (case lg_Service config of
             None \<Rightarrow> Inl (login_errConfig ''Config.Service is required'')
           | Some svc \<Rightarrow> Inr (buildPageData marshal config svc r)))"

section \<open>The handler\<close>

record login_handler =
  lh_config :: login_config
  lh_data :: page_data
  lh_autoRedirectURL :: string

definition New_login :: "(clientConfig \<Rightarrow> string option) \<Rightarrow> login_config \<Rightarrow> err + login_handler" where
  "New_login marshal config =
     (case login_withDefaults config of
        Inl e \<Rightarrow> Inl e
      | Inr config \<Rightarrow>
          (case lg_Service config of
             None \<Rightarrow> Inl (login_errConfig ''Config.Service is required'')
           | Some svc \<Rightarrow>
               (let data = buildPageData marshal config svc None in
                Inr \<lparr> lh_config = config, lh_data = data,
                      lh_autoRedirectURL = (if lg_AutoRedirect config then soleOAuthBeginURL data else []) \<rparr>)))"

datatype login_answer =
    LoginMethodNotAllowed
  | LoginRedirect string
  | LoginRendered page_data

definition login_ServeHTTP :: "login_handler \<Rightarrow> login_request \<Rightarrow> login_answer" where
  "login_ServeHTTP h r =
     (if lr_Method r \<noteq> ''GET'' \<and> lr_Method r \<noteq> ''HEAD'' then LoginMethodNotAllowed
      else if lh_autoRedirectURL h \<noteq> [] \<and> Query_Get (ParseQuery (lr_RawQuery r)) ''error'' = [] then
        LoginRedirect (lh_autoRedirectURL h)
      else LoginRendered (applyRequestScoped (lh_data h) (lh_config h) r))"

section \<open>What is safe\<close>

lemma script_safe: "c \<in> set (scriptSafeJSON s) \<Longrightarrow> c \<noteq> CHR 0x3C \<and> c \<noteq> CHR 0x3E \<and> c \<noteq> CHR 0x26"
  by (auto simp: scriptSafeJSON_def split: if_splits)

lemma nonce_safe: "list_all nonce_char (sanitizeNonce n)"
  by (simp add: sanitizeNonce_def list_all_iff)

lemma login_text_keeps [simp]:
  "lg_Service (login_textDefaults c) = lg_Service c" "lg_AutoRedirect (login_textDefaults c) = lg_AutoRedirect c"
  "lg_NoWebAuthn (login_textDefaults c) = lg_NoWebAuthn c" "lg_NoOAuth2 (login_textDefaults c) = lg_NoOAuth2 c"
  "lg_OAuth2Buttons (login_textDefaults c) = lg_OAuth2Buttons c" "lg_AuthPrefix (login_textDefaults c) = lg_AuthPrefix c"
  by (simp_all add: login_textDefaults_def Let_def)

lemma login_accepted:
  assumes "login_withDefaults config = Inr c"
  shows "lg_Service c = lg_Service config" and "lg_AutoRedirect c = lg_AutoRedirect config"
    and "lg_NoWebAuthn c = lg_NoWebAuthn config" and "lg_NoOAuth2 c = lg_NoOAuth2 config"
    and "lg_OAuth2Buttons c = lg_OAuth2Buttons config"
    and "lg_AuthPrefix c = login_trimTrailingSlash (lg_AuthPrefix config)"
    and "validateAuthPrefix (lg_AuthPrefix config) = None"
proof -
  from assms have v: "login_validate (login_textDefaults config) = None"
    by (simp add: login_withDefaults_def Let_def split: if_splits option.splits)
  from assms have c: "c = (if lg_CSSPath (login_textDefaults config) = []
      then login_textDefaults config \<lparr> lg_CSSPath := ''/app.css'' \<rparr> else login_textDefaults config)
      \<lparr> lg_AuthPrefix := login_trimTrailingSlash (lg_AuthPrefix config) \<rparr>"
    by (simp add: login_withDefaults_def Let_def split: if_splits option.splits)
  show "lg_Service c = lg_Service config" "lg_AutoRedirect c = lg_AutoRedirect config"
    "lg_NoWebAuthn c = lg_NoWebAuthn config" "lg_NoOAuth2 c = lg_NoOAuth2 config"
    "lg_OAuth2Buttons c = lg_OAuth2Buttons config"
    "lg_AuthPrefix c = login_trimTrailingSlash (lg_AuthPrefix config)"
    by (simp_all add: c)
  show "validateAuthPrefix (lg_AuthPrefix config) = None"
    using v by (simp add: login_validate_def split: if_splits option.splits)
qed

text \<open>The page of a request holds no character that closes the script block, a nonce that closes no attribute, an
  error text that is bounded, and a theme of the two.\<close>

lemma page_texts_safe:
  assumes "New_login marshal config = Inr h" and "login_ServeHTTP h r = LoginRendered p"
  shows "c \<in> set (pd_configJSON p) \<Longrightarrow> c \<noteq> CHR 0x3C"
    and "list_all nonce_char (pd_Nonce p)"
    and "length (pd_ErrorMessage p) \<le> maxErrorMessageLength"
    and "pd_Theme p \<in> {[], ThemeLight, ThemeDark}"
proof -
  from assms(1) obtain c' svc where h: "lh_config h = c'" "lh_data h = buildPageData marshal c' svc None"
    by (auto simp: New_login_def Let_def split: sum.splits option.splits)
  from assms(2) have p: "p = applyRequestScoped (buildPageData marshal c' svc None) c' r"
    by (auto simp: login_ServeHTTP_def h split: if_splits)
  note parts = p applyRequestScoped_def buildPageData_def Let_def
  show "c \<in> set (pd_configJSON p) \<Longrightarrow> c \<noteq> CHR 0x3C"
    using script_safe by (auto simp: parts config_json_def split: option.splits)
  show "list_all nonce_char (pd_Nonce p)" by (auto simp: parts nonce_safe split: option.splits)
  show "length (pd_ErrorMessage p) \<le> maxErrorMessageLength"
    by (simp add: parts errorMessageFromQuery_def split: option.splits)
  show "pd_Theme p \<in> {[], ThemeLight, ThemeDark}"
    by (simp add: parts resolveTheme_def split: option.splits)
qed

text \<open>A failed callback comes back with an error in the query, and is never sent out again.\<close>

lemma no_redirect_loop:
  "Query_Get (ParseQuery (lr_RawQuery r)) ''error'' \<noteq> [] \<Longrightarrow> login_ServeHTTP h r \<noteq> LoginRedirect url"
  by (simp add: login_ServeHTTP_def)

text \<open>The redirect only happens when there is nothing to choose, and goes to a path of the site.\<close>

lemma trimmed_part: "s = login_trimTrailingSlash s @ rev (takeWhile (\<lambda>c. c = slash) (rev s))"
  by (metis (mono_tags, lifting) login_trimTrailingSlash_def rev_append rev_rev_ident takeWhile_dropWhile_id)

lemma trimmed_last: "login_trimTrailingSlash s \<noteq> [] \<Longrightarrow> last (login_trimTrailingSlash s) \<noteq> slash"
  using hd_dropWhile [of "\<lambda>c. c = slash" "rev s"] by (simp add: login_trimTrailingSlash_def last_rev)

lemma prefix_rooted:
  assumes "validateAuthPrefix s = None" and "login_trimTrailingSlash s \<noteq> []"
  obtains c t where "login_trimTrailingSlash s = slash # c # t" and "c \<noteq> slash"
proof -
  let ?p = "login_trimTrailingSlash s"
  have pre: "take n s = take n ?p" if "n \<le> length ?p" for n
    using that by (subst trimmed_part [of s]) simp
  from assms have s: "has_prefix s ''/''" "\<not> has_prefix s ''//''"
    by (auto simp: validateAuthPrefix_def login_trimTrailingSlash_def split: if_splits)
  from assms(2) obtain a u where p: "?p = a # u" by (cases ?p) auto
  from s(1) pre [of 1] have a: "a = slash" by (simp add: p has_prefix_def slash_def)
  from trimmed_last [OF assms(2)] p a obtain c t where u: "u = c # t" by (cases u) auto
  from s(2) pre [of 2] have "c \<noteq> slash" by (auto simp: p a u has_prefix_def slash_def numeral_2_eq_2)
  with p a u that show thesis by simp
qed

lemma auto_redirect_rooted:
  assumes "New_login marshal config = Inr h" and "login_ServeHTTP h r = LoginRedirect url"
  shows "lg_AutoRedirect config" and "\<exists>b svc. lg_Service config = Some svc
      \<and> (\<not> ls_HasWebAuthn svc \<or> lg_NoWebAuthn config) \<and> page_buttons config svc = [b]"
    and "\<exists>c t. url = slash # c # t \<and> c \<noteq> slash"
proof -
  from assms(2) have url: "url = lh_autoRedirectURL h" "url \<noteq> []" by (auto simp: login_ServeHTTP_def split: if_splits)
  from assms(1) obtain c' svc where c': "login_withDefaults config = Inr c'" "lg_Service c' = Some svc"
    "lh_autoRedirectURL h = (if lg_AutoRedirect c' then soleOAuthBeginURL (buildPageData marshal c' svc None) else [])"
    by (auto simp: New_login_def Let_def split: sum.splits option.splits)
  note same = login_accepted(2,1,3,4,5,6,7) [OF c'(1)]
  from url c'(3) show "lg_AutoRedirect config" using same(1) by (auto split: if_splits)
  from url c'(3) have sole: "url = soleOAuthBeginURL (buildPageData marshal c' svc None)" by (auto split: if_splits)
  with url(2) have "\<not> pd_WebAuthn (buildPageData marshal c' svc None)"
    and "\<exists>b. pd_OAuth2Buttons (buildPageData marshal c' svc None) = [b]"
    by (auto simp: soleOAuthBeginURL_def split: if_splits list.splits)
  then obtain b where b: "page_buttons c' svc = [b]" "\<not> ls_HasWebAuthn svc \<or> lg_NoWebAuthn config"
    by (auto simp: buildPageData_def Let_def same)
  then show "\<exists>b svc. lg_Service config = Some svc \<and> (\<not> ls_HasWebAuthn svc \<or> lg_NoWebAuthn config)
      \<and> page_buttons config svc = [b]"
    using c'(2) by (auto simp: same page_buttons_def)
  have u: "url = login_trimTrailingSlash (lg_AuthPrefix config) @ ''/auth/oauth/'' @ ob_Provider b @ ''/begin''"
    using sole url(2) b by (auto simp: soleOAuthBeginURL_def oauthBeginURL_def buildPageData_def Let_def same
      split: if_splits)
  show "\<exists>c t. url = slash # c # t \<and> c \<noteq> slash"
  proof (cases "login_trimTrailingSlash (lg_AuthPrefix config) = []")
    case True
    then show ?thesis by (simp add: u slash_def)
  next
    case False
    from prefix_rooted [OF same(7) False] u show ?thesis by (metis append_Cons)
  qed
qed

text \<open>Two weaknesses: a tab between two slashes passes the check of redirect targets, although browsers drop it; and a
  provider name that starts with a character of several bytes is cut apart.\<close>

lemma tab_redirect_leaves_site:
  "SafeRedirectPath (slash # CHR 0x09 # slash # host) = slash # CHR 0x09 # slash # host"
  by (simp add: SafeRedirectPath_def slash_def)

lemma provider_name_garbled:
  "ProviderDisplayName (map byte [0xC3, 0xA9]) = map byte [0xEF, 0xBF, 0xBD, 0xA9]"
  by code_simp

end
