(* ===== verification/Readiness.thy ===== *)
theory Readiness
  imports Errors Projection "HOL-Library.Multiset"
begin

text \<open>
  Readiness and projection health: named checks and the readiness endpoint (\<open>readiness.go\<close>), the gate that holds a
  deployment back while projections catch up (\<open>projection_readiness.go\<close>), the health probe over the same states
  (\<open>health/probe.go\<close>), the rebuild of a projection with its recovery (\<open>usermgmt/es_projection_health.go\<close>), and the
  catalog of events (\<open>eventcatalog\<close>). The host of the projections is a library: what its calls answer is given.
\<close>

section \<open>Named checks\<close>

text \<open>What is asked of libraries: the text of an error, \<open>%q\<close>, and the text of a duration.\<close>

record ready_env =
  rd_err :: err_env
  rd_quote :: "string \<Rightarrow> string"
  rd_duration :: "duration \<Rightarrow> string"

text \<open>A check reads a state of the world; a nil function is \<open>None\<close>.\<close>

record 'w named_check =
  nk_Name :: string
  nk_Check :: "('w \<Rightarrow> err option) option"
  nk_Timeout :: duration

definition NewNamedCheck :: "string \<Rightarrow> ('w \<Rightarrow> err option) \<Rightarrow> 'w named_check" where
  "NewNamedCheck name check = \<lparr> nk_Name = name, nk_Check = Some check, nk_Timeout = 0 \<rparr>"

text \<open>\<open>runBounded\<close>: what the check found, and whether the timer fired first. A nil check panics, which is no answer.\<close>

definition runBounded :: "ready_env \<Rightarrow> 'w named_check \<Rightarrow> bool \<Rightarrow> 'w \<Rightarrow> err option option" where
  "runBounded R n timer_first w =
     (case nk_Check n of
        None \<Rightarrow> None
      | Some check \<Rightarrow>
          if nk_Timeout n \<le> 0 \<or> \<not> timer_first then Some (check w)
          else Some (Some (new_error Transient ''cqrshtmx.readiness.check_timeout''
                 (nk_Name n @ '': timed out after '' @ rd_duration R (nk_Timeout n)))))"

section \<open>The readiness endpoint\<close>

record readinessDetail =
  rt_Status :: string
  rt_Error :: string

record readinessResult =
  rr_Status :: string
  rr_Checks :: "string \<rightharpoonup> readinessDetail"

datatype readiness_answer = ReadyPlain int | ReadyJSON int readinessResult

definition check_detail :: "ready_env \<Rightarrow> err option \<Rightarrow> readinessDetail" where
  "check_detail R found =
     (case found of
        None \<Rightarrow> \<lparr> rt_Status = ''ok'', rt_Error = [] \<rparr>
      | Some e \<Rightarrow> \<lparr> rt_Status = ''fail'', rt_Error = error_text (rd_err R) e \<rparr>)"

text \<open>The goroutines share a flag and a map: the checks are recorded one by one, in the order they finish.\<close>

definition record_check :: "ready_env \<Rightarrow> string \<times> err option
    \<Rightarrow> bool \<times> (string \<rightharpoonup> readinessDetail) \<Rightarrow> bool \<times> (string \<rightharpoonup> readinessDetail)" where
  "record_check R finished acc =
     (case (finished, acc) of
        ((name, found), (allOK, results)) \<Rightarrow> (allOK \<and> found = None, results(name \<mapsto> check_detail R found)))"

definition readiness_answer_of :: "bool \<times> (string \<rightharpoonup> readinessDetail) \<Rightarrow> readiness_answer" where
  "readiness_answer_of acc =
     (case acc of
        (allOK, results) \<Rightarrow>
          if allOK then ReadyJSON 200 \<lparr> rr_Status = ''ok'', rr_Checks = results \<rparr>
          else ReadyJSON 503 \<lparr> rr_Status = ''degraded'', rr_Checks = results \<rparr>)"

definition ReadinessHandler :: "ready_env \<Rightarrow> (string \<times> err option) list \<Rightarrow> readiness_answer" where
  "ReadinessHandler R finished =
     (if finished = [] then ReadyPlain 200
      else readiness_answer_of (fold (record_check R) finished (True, Map.empty)))"

text \<open>Every order in which the checks of different names finish gives the same answer, and it is 200 only when no
  check failed.\<close>

lemma recorded:
  "distinct (map fst finished) \<Longrightarrow>
   fold (record_check R) finished (allOK, results)
     = (allOK \<and> list_all (\<lambda>(n, f). f = None) finished,
        results ++ (map_option (check_detail R) \<circ> map_of finished))"
proof (induction finished arbitrary: allOK results)
  case Nil
  then show ?case by (simp add: map_add_def fun_eq_iff)
next
  case (Cons p ps)
  obtain n f where p: "p = (n, f)" by force
  from Cons.prems have new: "map_of ps n = None" "distinct (map fst ps)" by (auto simp: p map_of_eq_None_iff)
  have over: "(results(n \<mapsto> check_detail R f)) ++ (map_option (check_detail R) \<circ> map_of ps)
      = results ++ (map_option (check_detail R) \<circ> map_of (p # ps))"
    using new(1) by (auto simp: p map_add_def fun_eq_iff split: option.splits)
  have "fold (record_check R) (p # ps) (allOK, results)
      = fold (record_check R) ps (allOK \<and> f = None, results(n \<mapsto> check_detail R f))"
    by (simp add: p record_check_def)
  also have "\<dots> = ((allOK \<and> f = None) \<and> list_all (\<lambda>(n, f). f = None) ps,
      (results(n \<mapsto> check_detail R f)) ++ (map_option (check_detail R) \<circ> map_of ps))"
    by (rule Cons.IH [OF new(2)])
  also have "\<dots> = (allOK \<and> list_all (\<lambda>(n, f). f = None) (p # ps),
      results ++ (map_option (check_detail R) \<circ> map_of (p # ps)))"
    by (simp only: over) (simp add: p)
  finally show ?case .
qed

lemma readiness_order_free:
  assumes "mset finished = mset finished'" and "distinct (map fst finished)"
  shows "ReadinessHandler R finished = ReadinessHandler R finished'"
proof -
  from assms have d: "distinct (map fst finished')"
    by (metis mset_eq_imp_distinct_iff mset_map)
  have "map_of finished = map_of finished'"
    using assms d by (intro ext) (metis map_of_eq_None_iff map_of_eq_Some_iff mset_eq_setD option.exhaust set_map)
  moreover have "list_all P finished = list_all P finished'" for P
    using mset_eq_setD [OF assms(1)] by (simp add: list_all_iff)
  moreover have "finished = [] \<longleftrightarrow> finished' = []" using assms(1) by (metis mset_zero_iff)
  ultimately show ?thesis by (simp add: ReadinessHandler_def recorded assms(2) d)
qed

lemma readiness_ok_iff:
  assumes "distinct (map fst finished)"
  shows "(\<exists>b. ReadinessHandler R finished \<in> {ReadyPlain 200, ReadyJSON 200 b}) \<longleftrightarrow> list_all (\<lambda>(n, f). f = None) finished"
  using recorded [OF assms, of R True Map.empty] by (auto simp: ReadinessHandler_def readiness_answer_of_def)

section \<open>The hub and the projections\<close>

record hub_health =
  hh_Closed :: bool
  hh_Draining :: bool
  hh_SubscriberCount :: nat
  hh_BufferSize :: nat

definition hub_text :: "string \<Rightarrow> hub_health \<Rightarrow> string" where
  "hub_text what h = ''sse hub '' @ what @ '' (subscribers='' @ show_nat (hh_SubscriberCount h) @ '', bufferSize=''
     @ show_nat (hh_BufferSize h) @ '')''"

definition HubReadinessCheck :: "('w \<Rightarrow> hub_health) \<Rightarrow> 'w named_check" where
  "HubReadinessCheck health = NewNamedCheck ''sse-hub''
     (\<lambda>w. let h = health w in
          if hh_Closed h then Some (new_error Infrastructure ''cqrshtmx.sse.hub_closed'' (hub_text ''closed'' h))
          else if hh_Draining h then
            Some (new_error Infrastructure ''cqrshtmx.sse.hub_draining'' (hub_text ''draining'' h))
          else None)"

definition ProjectionStatusIdle :: string where "ProjectionStatusIdle = ''idle''"
definition ProjectionStatusRunning :: string where "ProjectionStatusRunning = ''running''"
definition ProjectionStatusBackoff :: string where "ProjectionStatusBackoff = ''backoff''"
definition ProjectionStatusDraining :: string where "ProjectionStatusDraining = ''draining''"
definition ProjectionStatusLive :: string where "ProjectionStatusLive = ''live''"
definition ProjectionStatusStopped :: string where "ProjectionStatusStopped = ''stopped''"
definition ProjectionStatusFailed :: string where "ProjectionStatusFailed = ''failed''"

lemmas projection_status = ProjectionStatusIdle_def ProjectionStatusRunning_def ProjectionStatusBackoff_def
  ProjectionStatusDraining_def ProjectionStatusLive_def ProjectionStatusStopped_def ProjectionStatusFailed_def

definition ProjectionDrainReady :: "string \<Rightarrow> bool" where
  "ProjectionDrainReady status \<longleftrightarrow> status \<in> {ProjectionStatusLive, ProjectionStatusStopped}"

text \<open>A worker of the host, and the entry served for it: the lag in milliseconds, truncated towards zero.\<close>

record ProjectionStatusEntry =
  pn_Name :: string
  pn_Status :: string
  pn_Checkpoint :: string
  pn_Processed :: int
  pn_Errors :: int
  pn_Restarts :: int
  pn_LagMillis :: int
  pn_LastError :: string

record WorkerState =
  ws_Name :: string
  ws_Status :: string
  ws_Checkpoint :: string
  ws_Processed :: int
  ws_Errors :: int
  ws_Restarts :: int
  ws_Lag :: duration
  ws_LastError :: string

definition Milliseconds :: "duration \<Rightarrow> int" where
  "Milliseconds d = (if d < 0 then - ((- d) div 1000000) else d div 1000000)"

definition adaptWorkerStates :: "WorkerState list \<Rightarrow> ProjectionStatusEntry list" where
  "adaptWorkerStates workers =
     map (\<lambda>w. \<lparr> pn_Name = ws_Name w, pn_Status = ws_Status w, pn_Checkpoint = ws_Checkpoint w,
                pn_Processed = ws_Processed w, pn_Errors = ws_Errors w, pn_Restarts = ws_Restarts w,
                pn_LagMillis = Milliseconds (ws_Lag w), pn_LastError = ws_LastError w \<rparr>) workers"

definition projectionStatuses :: "('h \<Rightarrow> WorkerState list) \<Rightarrow> 'h option \<Rightarrow> ProjectionStatusEntry list" where
  "projectionStatuses Status host = (case host of None \<Rightarrow> [] | Some h \<Rightarrow> adaptWorkerStates (Status h))"

fun join_names :: "string list \<Rightarrow> string" where
  "join_names [] = []"
| "join_names [s] = s"
| "join_names (s # t # ss) = s @ '', '' @ join_names (t # ss)"

text \<open>The loop over the statuses: the first that failed ends it, the ones that are not ready are collected.\<close>

fun scan_statuses :: "ready_env \<Rightarrow> string list \<Rightarrow> ProjectionStatusEntry list \<Rightarrow> err option" where
  "scan_statuses R draining [] =
     (if length draining > 0 then
        Some (new_error Transient ''cqrshtmx.projection.draining'' (''projections still draining: '' @ join_names draining))
      else None)"
| "scan_statuses R draining (s # ss) =
     (if ProjectionDrainReady (pn_Status s) then scan_statuses R draining ss
      else if pn_Status s = ProjectionStatusFailed then
        Some (new_error Infrastructure ''cqrshtmx.projection.failed''
          (''projection '' @ rd_quote R (pn_Name s) @ '' has failed: '' @ pn_LastError s))
      else scan_statuses R (draining @ [pn_Name s]) ss)"

definition ProjectionReadinessCheck :: "ready_env \<Rightarrow> ('w \<Rightarrow> ProjectionStatusEntry list) option \<Rightarrow> 'w named_check" where
  "ProjectionReadinessCheck R provider = NewNamedCheck ''projections''
     (\<lambda>w. case provider of
            None \<Rightarrow> Some (new_error Infrastructure ''cqrshtmx.projection.readiness.nil_provider''
                      (''ProjectionReadinessCheck: status provider is nil '' @ map byte [0xE2, 0x80, 0x94]
                       @ '' readiness cannot be evaluated''))
          | Some statuses \<Rightarrow> scan_statuses R [] (statuses w))"

lemma scan_statuses_ok:
  "scan_statuses R draining ss = None \<longleftrightarrow> draining = [] \<and> list_all (\<lambda>s. ProjectionDrainReady (pn_Status s)) ss"
  by (induction R draining ss rule: scan_statuses.induct) auto

text \<open>Traffic is let in exactly when every projection has caught up or was stopped; without a provider never.\<close>

lemma projection_gate:
  "runBounded R (ProjectionReadinessCheck R provider) timer w = Some None
     \<longleftrightarrow> (\<exists>statuses. provider = Some statuses \<and> list_all (\<lambda>s. ProjectionDrainReady (pn_Status s)) (statuses w))"
  by (auto simp: runBounded_def ProjectionReadinessCheck_def NewNamedCheck_def scan_statuses_ok split: option.splits)

section \<open>The health probe\<close>

definition checkError :: "ready_env \<Rightarrow> ProjectionStatusEntry \<Rightarrow> err option" where
  "checkError R entry =
     (let status = pn_Status entry; q = rd_quote R in
      if status = ProjectionStatusLive \<or> status = ProjectionStatusStopped then None
      else if status = ProjectionStatusFailed then
        Some (new_error Infrastructure ''cqrshtmx.projection.failed''
          (''projection '' @ q (pn_Name entry) @ '' failed: '' @ pn_LastError entry))
      else if status = ProjectionStatusIdle \<or> status = ProjectionStatusRunning \<or> status = ProjectionStatusBackoff then
        Some (new_error Transient ''cqrshtmx.projection.draining''
          (''projection '' @ q (pn_Name entry) @ '' is '' @ q status @ '' (catching up)''))
      else
        Some (new_error Transient ''cqrshtmx.projection.unknown_status''
          (''projection '' @ q (pn_Name entry) @ '' reported unrecognized status '' @ q status
           @ '' (treated as not-ready)'')))"

text \<open>The checks of the injector's services, when there is an injector, and over them the projections.\<close>

definition RecordHealthCheckWithContext ::
  "ready_env \<Rightarrow> ProjectionStatusEntry list \<Rightarrow> (string \<rightharpoonup> err option) option \<Rightarrow> (string \<rightharpoonup> err option)" where
  "RecordHealthCheckWithContext R statuses injector =
     fold (\<lambda>entry results. results(pn_Name entry \<mapsto> checkError R entry)) statuses
       (case injector of None \<Rightarrow> Map.empty | Some checks \<Rightarrow> checks)"

record CheckDetail =
  cd_Err :: "err option"
  cd_Duration :: duration

definition RecordDetailedHealthCheckWithContext ::
  "ready_env \<Rightarrow> duration \<Rightarrow> ProjectionStatusEntry list \<Rightarrow> (string \<rightharpoonup> err option) option \<Rightarrow> (string \<rightharpoonup> CheckDetail)" where
  "RecordDetailedHealthCheckWithContext R readDuration entries injector =
     fold (\<lambda>entry results. results(pn_Name entry \<mapsto> \<lparr> cd_Err = checkError R entry, cd_Duration = readDuration \<rparr>)) entries
       (case injector of
          None \<Rightarrow> Map.empty
        | Some checks \<Rightarrow> (\<lambda>name. map_option (\<lambda>e. \<lparr> cd_Err = e, cd_Duration = 0 \<rparr>) (checks name)))"

lemma probe_entry:
  "distinct (map pn_Name entries) \<Longrightarrow> entry \<in> set entries \<Longrightarrow>
   RecordHealthCheckWithContext R entries injector (pn_Name entry) = Some (checkError R entry)"
  unfolding RecordHealthCheckWithContext_def
proof (induction entries rule: rev_induct)
  case (snoc x xs)
  then show ?case by (cases "pn_Name entry = pn_Name x") (force simp: image_iff)+
qed simp

lemma probe_other:
  "name \<notin> set (map pn_Name entries) \<Longrightarrow>
   RecordHealthCheckWithContext R entries injector name = (case injector of None \<Rightarrow> None | Some checks \<Rightarrow> checks name)"
  unfolding RecordHealthCheckWithContext_def by (induction entries rule: rev_induct) (auto split: option.splits)

text \<open>The detailed recorder finds the same, with durations.\<close>

lemma probe_detailed:
  "map_option cd_Err (RecordDetailedHealthCheckWithContext R d entries injector name)
     = RecordHealthCheckWithContext R entries injector name"
  unfolding RecordDetailedHealthCheckWithContext_def RecordHealthCheckWithContext_def
  by (induction entries rule: rev_induct) (auto split: option.splits simp: option.map_comp option.map_ident comp_def)

text \<open>The probe and the readiness gate agree on every list of statuses of different names: the probe reports no failing
  projection exactly when the gate lets traffic in.\<close>

lemma probe_agrees_with_gate:
  assumes "distinct (map pn_Name (statuses w))"
  shows "(\<forall>name found. RecordHealthCheckWithContext R (statuses w) None name = Some found \<longrightarrow> found = None)
    \<longleftrightarrow> runBounded R (ProjectionReadinessCheck R (Some statuses)) timer w = Some None"
proof -
  have ok: "checkError R e = None \<longleftrightarrow> ProjectionDrainReady (pn_Status e)" for e
    by (auto simp: checkError_def ProjectionDrainReady_def Let_def)
  have "(\<forall>name found. RecordHealthCheckWithContext R (statuses w) None name = Some found \<longrightarrow> found = None)
      \<longleftrightarrow> (\<forall>e\<in>set (statuses w). checkError R e = None)"
  proof
    assume "\<forall>name found. RecordHealthCheckWithContext R (statuses w) None name = Some found \<longrightarrow> found = None"
    then show "\<forall>e\<in>set (statuses w). checkError R e = None" using probe_entry [OF assms] by blast
  next
    assume all: "\<forall>e\<in>set (statuses w). checkError R e = None"
    show "\<forall>name found. RecordHealthCheckWithContext R (statuses w) None name = Some found \<longrightarrow> found = None"
    proof (intro allI impI)
      fix name found
      assume r: "RecordHealthCheckWithContext R (statuses w) None name = Some found"
      with probe_other [of name "statuses w" R None] obtain e where "e \<in> set (statuses w)" "pn_Name e = name" by auto
      with probe_entry [OF assms this(1), of R None] all r show "found = None" by simp
    qed
  qed
  then show ?thesis by (simp add: projection_gate list_all_iff ok)
qed

text \<open>A worker that drains is reported in a state nobody recognized, although the state is one of the published ones.\<close>

lemma draining_called_unknown:
  "pn_Status e = ProjectionStatusDraining \<Longrightarrow> \<exists>msg. checkError R e = Some (new_error Transient ''cqrshtmx.projection.unknown_status'' msg)"
  by (simp add: checkError_def projection_status Let_def)

section \<open>Rebuilding a projection\<close>

text \<open>What the host and its factory answer during one rebuild: \<open>Stop\<close>, \<open>Reset\<close> of the named projection, and up to
  two constructions. \<open>combine\<close> is \<open>WithCause\<close> of the error library.\<close>

record 'h rebuild_io =
  ri_Stop :: "err option"
  ri_Reset :: "string \<Rightarrow> err option"
  ri_create :: "err + 'h"
  ri_recover :: "err + 'h"
  ri_combine :: "err \<Rightarrow> err \<Rightarrow> err"

datatype 'h host_state = NoHost | Running 'h | StoppedHost

definition recoverProjectionHost :: "'h rebuild_io \<Rightarrow> err + 'h \<Rightarrow> err \<Rightarrow> 'h host_state \<Rightarrow> err option \<times> 'h host_state" where
  "recoverProjectionHost io made cause host =
     (case made of
        Inr h \<Rightarrow> (Some cause, Running h)
      | Inl recErr \<Rightarrow>
          (Some (ri_combine io (wrap_error Infrastructure recErr ''usermgmt.rebuild.recovery_failed''
             (''rebuild failed AND the recovery host could not start '' @ map byte [0xE2, 0x80, 0x94]
              @ '' projections are DOWN'')) cause), host))"

definition rebuildProjection :: "'h rebuild_io \<Rightarrow> string \<Rightarrow> 'h host_state \<Rightarrow> err option \<times> 'h host_state" where
  "rebuildProjection io name host =
     (if host = NoHost then
        (Some (new_error Rejection ''usermgmt.rebuild.no_host'' ''no projection host configured''), host)
      else (case ri_Stop io of
        Some e \<Rightarrow> (Some (wrap_error Transient e ''usermgmt.rebuild.stop_failed'' ''stop projection host for rebuild''), host)
      | None \<Rightarrow>
          (let host = StoppedHost in
           case ri_Reset io name of
             Some e \<Rightarrow> recoverProjectionHost io (ri_create io) e host
           | None \<Rightarrow>
               (case ri_create io of
                  Inl e \<Rightarrow> recoverProjectionHost io (ri_recover io) e host
                | Inr h \<Rightarrow> (None, Running h)))))"

text \<open>A rebuild never leaves the service without a running host in silence: when the host was stopped and none runs
  afterwards, the error is the one that says so, and a rebuild without an error ends with a new host.\<close>

lemma rebuild_never_silent:
  assumes "rebuildProjection io name host = (result, host')"
  shows "result = None \<Longrightarrow> \<exists>h. ri_create io = Inr h \<and> host' = Running h"
    and "host' = StoppedHost \<Longrightarrow> host \<noteq> StoppedHost \<Longrightarrow> \<exists>recErr cause. result = Some (ri_combine io
      (wrap_error Infrastructure recErr ''usermgmt.rebuild.recovery_failed''
        (''rebuild failed AND the recovery host could not start '' @ map byte [0xE2, 0x80, 0x94]
         @ '' projections are DOWN'')) cause)"
  using assms by (auto simp: rebuildProjection_def recoverProjectionHost_def Let_def
    split: if_splits option.splits sum.splits)

section \<open>The catalog of events\<close>

record PayloadField =
  pf_Name :: string
  pf_Type :: string
  pf_Required :: bool

record EventMetadata =
  em_Type :: string
  em_Aggregate :: string
  em_SchemaVersion :: int
  em_Description :: string
  em_PayloadFields :: "PayloadField list"

definition catalog_key :: "EventMetadata \<Rightarrow> string \<times> string" where
  "catalog_key m = (em_Type m, em_Aggregate m)"

definition catalog_Register :: "EventMetadata \<Rightarrow> EventMetadata list \<Rightarrow> EventMetadata list" where
  "catalog_Register meta events =
     (case update_first (\<lambda>existing. em_Type existing = em_Type meta \<and> em_Aggregate existing = em_Aggregate meta)
             (\<lambda>_. meta) events of
        Some events' \<Rightarrow> events' | None \<Rightarrow> events @ [meta])"

text \<open>However events are registered, a pair of type and aggregate is listed once, and with what was registered last.\<close>

lemma update_first_at:
  assumes "update_first p (\<lambda>_. y) xs = Some ys" and "distinct (map g xs)" and "\<And>x. p x \<longleftrightarrow> g x = g y"
  shows "map g ys = map g xs" and "y \<in> set ys"
    and "z \<in> set ys \<Longrightarrow> g z = g y \<Longrightarrow> z = y"
proof -
  show "map g ys = map g xs" using assms(1,3)
    by (induction xs arbitrary: ys) (auto split: if_splits)
  show "y \<in> set ys" using assms(1) by (induction xs arbitrary: ys) (auto split: if_splits)
  show "z \<in> set ys \<Longrightarrow> g z = g y \<Longrightarrow> z = y" using assms
  proof (induction xs arbitrary: ys)
    case (Cons x xs)
    then show ?case by (cases "p x") (force simp: image_iff)+
  qed simp
qed

lemma catalog_registered:
  assumes "distinct (map catalog_key events)"
  shows "distinct (map catalog_key (catalog_Register meta events))" and "meta \<in> set (catalog_Register meta events)"
    and "m \<in> set (catalog_Register meta events) \<Longrightarrow> catalog_key m = catalog_key meta \<Longrightarrow> m = meta"
proof -
  let ?p = "\<lambda>existing. em_Type existing = em_Type meta \<and> em_Aggregate existing = em_Aggregate meta"
  have p: "?p x \<longleftrightarrow> catalog_key x = catalog_key meta" for x by (auto simp: catalog_key_def)
  have all: "distinct (map catalog_key (catalog_Register meta events)) \<and> meta \<in> set (catalog_Register meta events)
    \<and> (m \<in> set (catalog_Register meta events) \<longrightarrow> catalog_key m = catalog_key meta \<longrightarrow> m = meta)"
  proof (cases "update_first ?p (\<lambda>_. meta) events")
    case None
    then have "\<forall>x\<in>set events. catalog_key x \<noteq> catalog_key meta" unfolding update_first_None p .
    with None assms show ?thesis by (auto simp: catalog_Register_def)
  next
    case (Some ys)
    note u = update_first_at [OF Some assms p]
    from u(1) assms have "distinct (map catalog_key ys)" by simp
    with u(2,3) Some show ?thesis by (simp add: catalog_Register_def)
  qed
  then show "distinct (map catalog_key (catalog_Register meta events))" "meta \<in> set (catalog_Register meta events)"
    "m \<in> set (catalog_Register meta events) \<Longrightarrow> catalog_key m = catalog_key meta \<Longrightarrow> m = meta" by blast+
qed

end
