(* ===== verification/Setup_Config.thy ===== *)
theory Setup_Config
  imports Admin_Panel Login_Page Readiness
begin

text \<open>
  The configuration of the bundle (\<open>setup/config.go\<close>, \<open>config_paths.go\<close>, \<open>config_validate.go\<close>): its defaults, the
  normal form of its paths and every refusal, in the order they are tried.
\<close>

section \<open>The configuration\<close>

text \<open>A handle of a database, as its two probes answer: the query for the version of SQLite, and the ping.\<close>

record sql_handle =
  db_sqlite_version :: "err option"
  db_ping :: "err option"

text \<open>Values that are only handed on are named by their type variable: services, event stores and buses; of the fields
  that are only compared with nil the model keeps whether they are set.\<close>

record ('svc, 'store, 'bus, 'w) setup_config =
  su_TOTP :: bool
  su_WebAuthn :: bool
  su_OAuth2 :: bool
  su_Service :: "'svc option"
  su_ServiceConfig :: bool
  su_Observability :: bool
  su_EventStore :: "'store option"
  su_EventBus :: "'bus option"
  su_ReadModelDB :: "sql_handle option"
  su_SSEPath :: string
  su_SSEHeartbeatInterval :: duration
  su_SSEMaxReplay :: int
  su_SSEScriptPath :: string
  su_DataStarPath :: string
  su_DataStarScriptPath :: string
  su_Title :: string
  su_AccentColor :: string
  su_AdminPath :: string
  su_DashboardPath :: string
  su_LoginRedirect :: string
  su_HealthPath :: string
  su_HealthChecks :: "'w named_check list"
  su_LivePath :: string
  su_EventCatalogPath :: string
  su_ProjectionStatusPath :: string
  su_DebugPath :: string
  su_DocsPath :: string
  su_DocsHandler :: bool
  su_CookieName :: string
  su_SessionTTL :: duration
  su_AuthHandlerConfig :: "HandlerConfig option"
  su_Logger :: bool
  su_AdminMode :: int
  su_TenantID :: tenant_id
  su_AdminAuthorizer :: "'w admin_authorizer option"
  su_AdminExtraNav :: "NavEntry list"
  su_AdminDashboardURL :: string
  su_DashboardAuthorizer :: "(dash_request \<Rightarrow> err option) option"
  su_DashboardExtraNav :: "NavEntry list"
  su_OnProjectionFailed :: bool
  su_NonceFunc :: "(login_request \<Rightarrow> string) option"
  su_AsyncStartup :: bool
  su_DashboardReadOnly :: "bool option"
  su_DashboardPageSize :: int
  su_LoginNoRegistration :: bool
  su_LoginAutoRedirect :: bool
  su_LoginCSSPath :: string
  su_DisableAdmin :: bool
  su_DisableDashboard :: bool
  su_DisableLogin :: bool
  su_DisableAuth :: bool
  su_DisableService :: bool

section \<open>Paths\<close>

definition startsWithSlash :: "string \<Rightarrow> bool" where
  "startsWithSlash s \<longleftrightarrow> length s > 0 \<and> s ! 0 = slash"

definition startsWithScheme :: "string \<Rightarrow> bool" where
  "startsWithScheme s \<longleftrightarrow> has_prefix s ''http://'' \<or> has_prefix s ''https://''"

definition ensureTrailingSlash :: "string \<Rightarrow> string" where
  "ensureTrailingSlash s = (if \<not> has_suffix s ''/'' then s @ ''/'' else s)"

text \<open>One trailing slash, and not the one of the root.\<close>

definition setup_trimTrailingSlash :: "string \<Rightarrow> string" where
  "setup_trimTrailingSlash s = (if length s > 1 \<and> last s = slash then butlast s else s)"

definition normalizeRoutePaths :: "('svc, 'store, 'bus, 'w) setup_config \<Rightarrow> ('svc, 'store, 'bus, 'w) setup_config" where
  "normalizeRoutePaths cfg =
     (let cfg = cfg \<lparr> su_AdminPath := ensureTrailingSlash (su_AdminPath cfg),
                      su_DashboardPath := ensureTrailingSlash (su_DashboardPath cfg) \<rparr>;
          cfg = cfg \<lparr> su_HealthPath := setup_trimTrailingSlash (su_HealthPath cfg),
                      su_LivePath := setup_trimTrailingSlash (su_LivePath cfg),
                      su_EventCatalogPath := setup_trimTrailingSlash (su_EventCatalogPath cfg),
                      su_ProjectionStatusPath := setup_trimTrailingSlash (su_ProjectionStatusPath cfg),
                      su_DebugPath := setup_trimTrailingSlash (su_DebugPath cfg),
                      su_SSEPath := setup_trimTrailingSlash (su_SSEPath cfg),
                      su_SSEScriptPath := setup_trimTrailingSlash (su_SSEScriptPath cfg),
                      su_DataStarPath := setup_trimTrailingSlash (su_DataStarPath cfg),
                      su_DataStarScriptPath := setup_trimTrailingSlash (su_DataStarScriptPath cfg) \<rparr>;
          cfg = (if su_SSEPath cfg \<noteq> [] \<and> su_SSEScriptPath cfg = []
                 then cfg \<lparr> su_SSEScriptPath := ''/sse.js'' \<rparr> else cfg)
      in if su_DataStarPath cfg \<noteq> [] \<and> su_DataStarScriptPath cfg = []
         then cfg \<lparr> su_DataStarScriptPath := ''/datastar.js'' \<rparr> else cfg)"

definition setup_withDefaults :: "('svc, 'store, 'bus, 'w) setup_config \<Rightarrow> ('svc, 'store, 'bus, 'w) setup_config" where
  "setup_withDefaults c =
     (let cfg = (if su_Title c = [] then c \<lparr> su_Title := ''cqrs-htmx'' \<rparr> else c);
          cfg = (if su_AccentColor cfg = [] then cfg \<lparr> su_AccentColor := ''#0ea5e9'' \<rparr> else cfg);
          cfg = (if su_AdminPath cfg = [] then cfg \<lparr> su_AdminPath := ''/admin/'' \<rparr> else cfg);
          cfg = (if su_DashboardPath cfg = [] then cfg \<lparr> su_DashboardPath := ''/dashboard/'' \<rparr> else cfg);
          cfg = (if su_CookieName cfg = [] then cfg \<lparr> su_CookieName := ''session'' \<rparr> else cfg);
          cfg = (if su_HealthPath cfg = [] then cfg \<lparr> su_HealthPath := ''/health'' \<rparr> else cfg);
          cfg = normalizeRoutePaths cfg;
          cfg = (if su_LoginRedirect cfg = [] then cfg \<lparr> su_LoginRedirect := su_AdminPath cfg \<rparr> else cfg)
      in if su_SSEHeartbeatInterval cfg = 0 then cfg \<lparr> su_SSEHeartbeatInterval := 15 * second \<rparr> else cfg)"

section \<open>Refusals\<close>

definition invalid_config :: "string \<Rightarrow> err" where
  "invalid_config msg = new_error Rejection ''setup.invalid_config'' msg"

definition dash_text :: string where "dash_text = '' '' @ em_dash @ '' ''"

text \<open>Every path of the table with its name, as the validations list them.\<close>

definition mount_paths :: "('svc, 'store, 'bus, 'w) setup_config \<Rightarrow> (string \<times> string) list" where
  "mount_paths c =
     [(''AdminPath'', su_AdminPath c), (''DashboardPath'', su_DashboardPath c), (''HealthPath'', su_HealthPath c),
      (''SSEPath'', su_SSEPath c), (''SSEScriptPath'', su_SSEScriptPath c), (''DataStarPath'', su_DataStarPath c),
      (''DataStarScriptPath'', su_DataStarScriptPath c), (''LivePath'', su_LivePath c),
      (''EventCatalogPath'', su_EventCatalogPath c), (''ProjectionStatusPath'', su_ProjectionStatusPath c),
      (''DebugPath'', su_DebugPath c), (''DocsPath'', su_DocsPath c)]"

definition must_start :: "(string \<Rightarrow> string) \<Rightarrow> string \<Rightarrow> string \<Rightarrow> string \<Rightarrow> err" where
  "must_start q name rest path =
     invalid_config (name @ '' must start with '' @ q ''/'' @ rest @ '' (got '' @ q path @ '')'')"

definition validateOptionalFeedPaths :: "(string \<Rightarrow> string) \<Rightarrow> ('svc, 'store, 'bus, 'w) setup_config \<Rightarrow> err option" where
  "validateOptionalFeedPaths q c =
     (case first_some (\<lambda>(name, path, allowDash).
              if path = [] \<or> (allowDash \<and> path = ''-'') then None
              else if \<not> startsWithSlash path then Some (must_start q name [] path) else None)
            [(''EventCatalogPath'', su_EventCatalogPath c, False),
             (''ProjectionStatusPath'', su_ProjectionStatusPath c, False),
             (''DebugPath'', su_DebugPath c, False), (''LivePath'', su_LivePath c, False),
             (''SSEPath'', su_SSEPath c, False), (''SSEScriptPath'', su_SSEScriptPath c, True),
             (''DataStarPath'', su_DataStarPath c, False), (''DataStarScriptPath'', su_DataStarScriptPath c, True),
             (''DocsPath'', su_DocsPath c, False)] of
        Some e \<Rightarrow> Some e
      | None \<Rightarrow>
          if (su_DocsPath c = []) \<noteq> (\<not> su_DocsHandler c) then
            Some (invalid_config (''DocsPath and DocsHandler must be set together'' @ dash_text @ ''mount both or neither''))
          else None)"

definition validatePathShapes :: "(string \<Rightarrow> string) \<Rightarrow> ('svc, 'store, 'bus, 'w) setup_config \<Rightarrow> err option" where
  "validatePathShapes q c =
     (if \<not> startsWithSlash (su_AdminPath c) then Some (must_start q ''AdminPath'' [] (su_AdminPath c))
      else if \<not> startsWithSlash (su_DashboardPath c) then Some (must_start q ''DashboardPath'' [] (su_DashboardPath c))
      else if su_HealthPath c \<noteq> ''-'' \<and> \<not> startsWithSlash (su_HealthPath c) then
        Some (must_start q ''HealthPath'' ('' or be '' @ [CHR 0x22] @ ''-'' @ [CHR 0x22] @ '' to disable'') (su_HealthPath c))
      else if su_LivePath c \<noteq> [] \<and> \<not> startsWithSlash (su_LivePath c) then
        Some (must_start q ''LivePath'' [] (su_LivePath c))
      else case validateOptionalFeedPaths q c of
        Some e \<Rightarrow> Some e
      | None \<Rightarrow>
          if \<not> startsWithSlash (su_LoginRedirect c) \<and> \<not> startsWithScheme (su_LoginRedirect c) then
            Some (must_start q ''LoginRedirect'' '' or a URL scheme'' (su_LoginRedirect c))
          else if su_CookieName c = [] then Some (invalid_config ''CookieName must not be empty'')
          else None)"

definition validatePathRoots :: "(string \<Rightarrow> string) \<Rightarrow> ('svc, 'store, 'bus, 'w) setup_config \<Rightarrow> err option" where
  "validatePathRoots q c =
     first_some (\<lambda>(name, path).
         if path = ''/'' then
           Some (invalid_config (name @ '' must not be '' @ q ''/'' @ dash_text @ ''the site root is reserved for the login page''))
         else None) (mount_paths c)"

fun path_clash :: "(string \<Rightarrow> string) \<Rightarrow> string \<times> string \<Rightarrow> (string \<times> string) list \<Rightarrow> err option" where
  "path_clash q (name, path) rest =
     first_some (\<lambda>(name', path').
         if path = [] \<or> path' = [] \<or> path = ''-'' \<or> path' = ''-'' then None
         else if path = path' then
           Some (invalid_config (name @ '' and '' @ name' @ '' both resolve to '' @ q path @ dash_text
             @ ''routes would conflict''))
         else None) rest"

fun distinct_paths :: "(string \<Rightarrow> string) \<Rightarrow> (string \<times> string) list \<Rightarrow> err option" where
  "distinct_paths q [] = None"
| "distinct_paths q (p # ps) = (case path_clash q p ps of Some e \<Rightarrow> Some e | None \<Rightarrow> distinct_paths q ps)"

definition requireDistinctPaths :: "(string \<Rightarrow> string) \<Rightarrow> ('svc, 'store, 'bus, 'w) setup_config \<Rightarrow> err option" where
  "requireDistinctPaths q c =
     distinct_paths q (map (\<lambda>(name, path). (name, setup_trimTrailingSlash path)) (mount_paths c))"

definition serviceConstructionConflicts :: "('svc, 'store, 'bus, 'w) setup_config \<Rightarrow> string list" where
  "serviceConstructionConflicts c =
     map fst (filter snd
       [(''EventStore'', su_EventStore c \<noteq> None), (''EventBus'', su_EventBus c \<noteq> None),
        (''ReadModelDB'', su_ReadModelDB c \<noteq> None), (''TOTP'', su_TOTP c), (''WebAuthn'', su_WebAuthn c),
        (''OAuth2'', su_OAuth2 c), (''SessionTTL'', su_SessionTTL c \<noteq> 0), (''Logger'', su_Logger c),
        (''AsyncStartup'', su_AsyncStartup c), (''OnProjectionFailed'', su_OnProjectionFailed c),
        (''Observability'', su_Observability c)])"

definition validateServiceSources :: "('svc, 'store, 'bus, 'w) setup_config \<Rightarrow> err option" where
  "validateServiceSources c =
     (if su_Service c \<noteq> None \<and> su_ServiceConfig c then
        Some (invalid_config (''Service and ServiceConfig are mutually exclusive'' @ dash_text
          @ ''Service adopts an existing *usermgmt.Service, ServiceConfig builds one; pick one''))
      else if su_Service c \<noteq> None then
        (let conflicts = serviceConstructionConflicts c in
         if length conflicts > 0 then
           Some (invalid_config (''Service adopts an existing *usermgmt.Service, so service-construction fields are ignored''
             @ dash_text @ ''unset them: '' @ join_names conflicts))
         else None)
      else if su_ServiceConfig c then
        (let conflicts = serviceConstructionConflicts c in
         if length conflicts > 0 then
           Some (invalid_config (''ServiceConfig fully specifies the service, so flattened service-construction fields are ignored''
             @ dash_text @ ''set them inside ServiceConfig instead: '' @ join_names conflicts))
         else None)
      else None)"

definition validateReadModelDialect :: "err_env \<Rightarrow> ('svc, 'store, 'bus, 'w) setup_config \<Rightarrow> err option" where
  "validateReadModelDialect V c =
     (case su_ReadModelDB c of
        None \<Rightarrow> None
      | Some db \<Rightarrow>
          (case db_sqlite_version db of
             None \<Rightarrow> None
           | Some probeErr \<Rightarrow>
               if db_ping db \<noteq> None then None
               else Some (invalid_config (''ReadModelDB does not speak SQLite (dialect probe failed: ''
                 @ error_text V probeErr @ '')'' @ dash_text
                 @ ''the flattened config path always builds SQLite-dialect read models; for this database use ''
                 @ ''Config.ServiceConfig with ReadModelDB and ReadModelDialect set together ('' @ [CHR 0x22] @ ''postgres''
                 @ [CHR 0x22] @ '', '' @ [CHR 0x22] @ ''pgx'' @ [CHR 0x22] @ '', or '' @ [CHR 0x22] @ ''mysql'' @ [CHR 0x22]
                 @ '')''))))"

definition validateAuthHandlerConfig :: "(string \<Rightarrow> string) \<Rightarrow> ('svc, 'store, 'bus, 'w) setup_config \<Rightarrow> err option" where
  "validateAuthHandlerConfig q c =
     (case su_AuthHandlerConfig c of
        None \<Rightarrow> None
      | Some h \<Rightarrow>
          (let name = hc_CookieName h in
           if name \<noteq> [] \<and> name \<noteq> su_CookieName c then
             Some (invalid_config (''AuthHandlerConfig.CookieName '' @ q name @ '' does not match Config.CookieName ''
               @ q (su_CookieName c) @ dash_text
               @ ''the auth handler must write the same cookie the session middleware reads; leave it empty to inherit''))
           else None))"

definition disableServicePanelConflicts :: "('svc, 'store, 'bus, 'w) setup_config \<Rightarrow> string list" where
  "disableServicePanelConflicts c =
     (if su_DisableAdmin c then [] else [''DisableAdmin'']) @ (if su_DisableDashboard c then [] else [''DisableDashboard''])
     @ (if su_DisableLogin c then [] else [''DisableLogin''])"

definition disableServiceGatedSurfaces :: "('svc, 'store, 'bus, 'w) setup_config \<Rightarrow> string list" where
  "disableServiceGatedSurfaces c =
     map fst (filter (\<lambda>(name, path). path \<noteq> [])
       [(''SSEPath'', su_SSEPath c), (''DataStarPath'', su_DataStarPath c), (''EventCatalogPath'', su_EventCatalogPath c),
        (''ProjectionStatusPath'', su_ProjectionStatusPath c), (''DebugPath'', su_DebugPath c), (''DocsPath'', su_DocsPath c)])"

definition shell_text :: string where
  "shell_text = ''DisableService builds a bundle without a usermgmt.Service, so ''"

definition validateDisableService :: "('svc, 'store, 'bus, 'w) setup_config \<Rightarrow> err option" where
  "validateDisableService c =
     (if \<not> su_DisableService c then None
      else if su_Service c \<noteq> None then
        Some (invalid_config (shell_text @ ''Service must be nil'' @ dash_text
          @ ''adopt with Service instead of DisableService, or drop Service for the shell''))
      else if su_ServiceConfig c then
        Some (invalid_config (shell_text @ ''ServiceConfig must be nil'' @ dash_text
          @ ''build one with ServiceConfig instead of DisableService, or drop ServiceConfig for the shell''))
      else
        (let serviceFields = filter (\<lambda>f. f \<noteq> ''EventStore'' \<and> f \<noteq> ''EventBus'') (serviceConstructionConflicts c);
             panels = disableServicePanelConflicts c;
             gated = disableServiceGatedSurfaces c in
         if length serviceFields > 0 then
           Some (invalid_config (shell_text @ ''service-construction fields are ignored'' @ dash_text @ ''unset them: ''
             @ join_names serviceFields))
         else if length panels > 0 then
           Some (invalid_config (shell_text @ ''the panels cannot be built'' @ dash_text @ ''set '' @ join_names panels
             @ '' to true''))
         else if length gated > 0 then
           Some (invalid_config (''DisableService builds a bundle whose session gate has no service to authenticate against ''
             @ ''(a cookie-carrying request would panic), so the session-gated surfaces cannot mount'' @ dash_text
             @ ''unset '' @ join_names gated @ ''; they return behind an injectable gate in a future release''))
         else if su_AuthHandlerConfig c \<noteq> None then
           Some (invalid_config (''DisableService mounts no auth endpoints, so AuthHandlerConfig has nothing to configure''
             @ dash_text @ ''drop it''))
         else None))"

definition validateDisableAuth :: "('svc, 'store, 'bus, 'w) setup_config \<Rightarrow> err option" where
  "validateDisableAuth c =
     (if \<not> su_DisableAuth c then None
      else if \<not> su_DisableLogin c then
        Some (invalid_config (''DisableAuth mounts no /auth/* routes, so the login page's form would post into the void''
          @ dash_text @ ''set DisableLogin too, or drop DisableAuth''))
      else if su_AuthHandlerConfig c \<noteq> None then
        Some (invalid_config (''DisableAuth builds no auth handler, so AuthHandlerConfig has nothing to configure''
          @ dash_text @ ''drop it''))
      else None)"

fun health_checks_from :: "(string \<Rightarrow> string) \<Rightarrow> string list \<Rightarrow> 'w named_check list \<Rightarrow> err option" where
  "health_checks_from q seen [] = None"
| "health_checks_from q seen (k # ks) =
     (if nk_Name k = [] then Some (invalid_config ''HealthChecks entries must have a non-empty Name'')
      else if nk_Check k = None then
        Some (invalid_config (''HealthChecks entry '' @ q (nk_Name k) @ '' must have a non-nil Check''))
      else if nk_Name k \<in> set seen then
        Some (invalid_config (''HealthChecks name '' @ q (nk_Name k)
          @ '' collides with another check or a built-in (projections, sse-hub)'' @ dash_text @ ''names must be unique''))
      else health_checks_from q (nk_Name k # seen) ks)"

definition validateHealthChecks :: "(string \<Rightarrow> string) \<Rightarrow> ('svc, 'store, 'bus, 'w) setup_config \<Rightarrow> err option" where
  "validateHealthChecks q c = health_checks_from q [''projections'', ''sse-hub''] (su_HealthChecks c)"

definition setup_validate :: "err_env \<Rightarrow> (string \<Rightarrow> string) \<Rightarrow> ('svc, 'store, 'bus, 'w) setup_config \<Rightarrow> err option" where
  "setup_validate V q c =
     first_some (\<lambda>check. check c)
       [validateDisableService, validateServiceSources, validateReadModelDialect V, validateDisableAuth,
        validateAuthHandlerConfig q,
        (\<lambda>c. if su_SSEMaxReplay c < 0 then
               Some (invalid_config (''SSEMaxReplay must not be negative'' @ dash_text
                 @ ''0 uses the transport default (1000), a positive value caps the backfill; got ''
                 @ show_int (su_SSEMaxReplay c)))
             else None),
        validatePathShapes q, validatePathRoots q, validateHealthChecks q, requireDistinctPaths q]"

section \<open>What an accepted configuration keeps\<close>

lemmas setup_defaults = setup_withDefaults_def normalizeRoutePaths_def Let_def

lemma first_some_Cons_None: "first_some f (x # xs) = None \<longleftrightarrow> f x = None \<and> first_some f xs = None"
  by (simp split: option.splits)

lemma setup_valid:
  assumes "setup_validate V q c = None"
  shows "validateDisableService c = None" and "validateServiceSources c = None" and "validateDisableAuth c = None"
    and "validateAuthHandlerConfig q c = None" and "0 \<le> su_SSEMaxReplay c" and "validatePathShapes q c = None"
    and "validatePathRoots q c = None" and "validateHealthChecks q c = None" and "requireDistinctPaths q c = None"
  using assms unfolding setup_validate_def first_some_Cons_None by (auto split: if_splits)

lemma distinct_paths_None:
  "distinct_paths q ps = None \<Longrightarrow> sorted_wrt (\<lambda>(n, a) (n', b). a = [] \<or> b = [] \<or> a = ''-'' \<or> b = ''-'' \<or> a \<noteq> b) ps"
proof (induction ps)
  case (Cons p ps)
  obtain n a where p: "p = (n, a)" by force
  from Cons.prems have "path_clash q p ps = None" "distinct_paths q ps = None" by (auto split: option.splits)
  with Cons.IH show ?case by (fastforce simp: p first_some_None split: if_splits)
qed simp

text \<open>The names of the checks of an accepted configuration, built-in ones included, are distinct: the answer of the
  readiness endpoint is keyed by them.\<close>

lemma health_checks_distinct:
  "health_checks_from q seen ks = None \<Longrightarrow> distinct seen \<Longrightarrow> distinct (rev (map nk_Name ks) @ seen)"
proof (induction ks arbitrary: seen)
  case (Cons k ks)
  then have "nk_Name k \<notin> set seen" "health_checks_from q (nk_Name k # seen) ks = None" by (auto split: if_splits)
  with Cons.IH [of "nk_Name k # seen"] Cons.prems(2) show ?case by simp
qed simp

lemma health_names_distinct:
  "validateHealthChecks q c = None \<Longrightarrow> distinct (''projections'' # ''sse-hub'' # map nk_Name (su_HealthChecks c))"
  using health_checks_distinct [of q "[''projections'', ''sse-hub'']" "su_HealthChecks c"]
  by (auto simp: validateHealthChecks_def)

end
