(* ===== verification/Mux_Conflicts.thy ===== *)
theory Mux_Conflicts
  imports Serve_Mux
begin

text \<open>
  Registration on the request router of the Go standard library: the relation of two patterns, and that a router
  panics on a pattern that conflicts with one it has. With it, when patterns without wildcards conflict.
\<close>

section \<open>The relation of two patterns\<close>

datatype relationship = Equivalent | MoreGeneral | MoreSpecific | Disjoint | Overlaps

fun inverseRelationship :: "relationship \<Rightarrow> relationship" where
  "inverseRelationship MoreSpecific = MoreGeneral"
| "inverseRelationship MoreGeneral = MoreSpecific"
| "inverseRelationship r = r"

definition combineRelationships :: "relationship \<Rightarrow> relationship \<Rightarrow> relationship" where
  "combineRelationships r1 r2 =
     (case r1 of
        Equivalent \<Rightarrow> r2
      | Disjoint \<Rightarrow> Disjoint
      | Overlaps \<Rightarrow> if r2 = Disjoint then Disjoint else Overlaps
      | _ \<Rightarrow> if r2 = Equivalent then r1 else if r2 = inverseRelationship r1 then Overlaps else r2)"

definition compareMethods :: "string \<Rightarrow> string \<Rightarrow> relationship" where
  "compareMethods m1 m2 =
     (if m1 = m2 then Equivalent
      else if m1 = [] then MoreGeneral
      else if m2 = [] then MoreSpecific
      else if m1 = GET \<and> m2 = HEAD then MoreGeneral
      else if m2 = GET \<and> m1 = HEAD then MoreSpecific
      else Disjoint)"

fun compareSegments :: "pat_seg \<Rightarrow> pat_seg \<Rightarrow> relationship" where
  "compareSegments Multi Multi = Equivalent"
| "compareSegments Multi s2 = MoreGeneral"
| "compareSegments s1 Multi = MoreSpecific"
| "compareSegments (Wild a) (Wild b) = Equivalent"
| "compareSegments (Wild a) (Lit s) = (if s = ''/'' then Disjoint else MoreGeneral)"
| "compareSegments (Lit s) (Wild b) = (if s = ''/'' then Disjoint else MoreSpecific)"
| "compareSegments (Lit s) (Lit t) = (if s = t then Equivalent else Disjoint)"

definition last_multi :: "pat_seg list \<Rightarrow> bool" where
  "last_multi p \<longleftrightarrow> p \<noteq> [] \<and> last p = Multi"

fun compare_from :: "bool \<Rightarrow> bool \<Rightarrow> relationship \<Rightarrow> pat_seg list \<Rightarrow> pat_seg list \<Rightarrow> relationship" where
  "compare_from m1 m2 rel (s1 # p1) (s2 # p2) =
     (let rel' = combineRelationships rel (compareSegments s1 s2) in
      if rel' = Disjoint then Disjoint else compare_from m1 m2 rel' p1 p2)"
| "compare_from m1 m2 rel [] [] = rel"
| "compare_from m1 m2 rel [] (s2 # p2) = (if m1 then combineRelationships rel MoreGeneral else Disjoint)"
| "compare_from m1 m2 rel (s1 # p1) [] = (if m2 then combineRelationships rel MoreSpecific else Disjoint)"

definition comparePaths :: "pat_seg list \<Rightarrow> pat_seg list \<Rightarrow> relationship" where
  "comparePaths p1 p2 =
     (if length p1 \<noteq> length p2 \<and> \<not> last_multi p1 \<and> \<not> last_multi p2 then Disjoint
      else compare_from (last_multi p1) (last_multi p2) Equivalent p1 p2)"

definition comparePathsAndMethods :: "string \<times> pat_seg list \<Rightarrow> string \<times> pat_seg list \<Rightarrow> relationship" where
  "comparePathsAndMethods p1 p2 =
     (let mrel = compareMethods (fst p1) (fst p2) in
      if mrel = Disjoint then Disjoint
      else combineRelationships mrel (comparePaths (snd p1) (snd p2)))"

definition row_pattern :: "'h mux_row \<Rightarrow> string \<times> pat_seg list" where
  "row_pattern r = (mr_Method r, parse_pattern (mr_Pattern r))"

definition conflictsWith :: "'h mux_row \<Rightarrow> 'h mux_row \<Rightarrow> bool" where
  "conflictsWith r r' \<longleftrightarrow> comparePathsAndMethods (row_pattern r) (row_pattern r') \<in> {Equivalent, Overlaps}"

text \<open>\<open>Handle\<close>: no value when the router panics.\<close>

definition mux_Handle :: "'h mux_row \<Rightarrow> 'h mux \<Rightarrow> 'h mux option" where
  "mux_Handle r mux = (if list_ex (conflictsWith r) mux then None else Some (mux @ [r]))"

fun mux_register :: "'h mux \<Rightarrow> 'h mux \<Rightarrow> 'h mux option" where
  "mux_register mux [] = Some mux"
| "mux_register mux (r # rs) = (case mux_Handle r mux of None \<Rightarrow> None | Some mux' \<Rightarrow> mux_register mux' rs)"

lemma mux_register_Some:
  "mux_register mux rs = Some (mux @ rs)"
  if "\<forall>r\<in>set rs. \<forall>r'\<in>set mux. \<not> conflictsWith r r'" and "sorted_wrt (\<lambda>r r'. \<not> conflictsWith r' r) rs"
  using that
proof (induction rs arbitrary: mux)
  case (Cons r rs)
  then have "mux_Handle r mux = Some (mux @ [r])" by (auto simp: mux_Handle_def list_ex_iff)
  moreover have "mux_register (mux @ [r]) rs = Some ((mux @ [r]) @ rs)"
    using Cons.prems by (intro Cons.IH) auto
  ultimately show ?case by simp
qed simp

section \<open>Patterns without wildcards\<close>

text \<open>Literals, and possibly a trailing slash.\<close>

fun literal :: "pat_seg list \<Rightarrow> bool" where
  "literal [] \<longleftrightarrow> True"
| "literal (Lit s # p) \<longleftrightarrow> literal p"
| "literal (Wild n # p) \<longleftrightarrow> False"
| "literal (Multi # p) \<longleftrightarrow> p = []"

lemma compare_from_literal:
  "literal p \<Longrightarrow> literal q \<Longrightarrow>
   compare_from (last_multi p) (last_multi q) Equivalent p q \<noteq> Overlaps
   \<and> (compare_from (last_multi p) (last_multi q) Equivalent p q = Equivalent \<longleftrightarrow> p = q)"
proof (induction p arbitrary: q rule: literal.induct)
  case 1
  then show ?case by (cases q) (auto simp: last_multi_def)
next
  case (2 s p)
  show ?case
  proof (cases q rule: literal.cases)
    case 1
    then show ?thesis using 2 by (simp add: last_multi_def)
  next
    case (2 t q')
    show ?thesis
    proof (cases "s = t")
      case True
      have "last_multi (Lit s # x) = last_multi x" for s x by (simp add: last_multi_def)
      with True 2 "2.IH" [of q'] "2.prems" show ?thesis by (simp add: combineRelationships_def Let_def)
    next
      case False
      with 2 show ?thesis by (simp add: combineRelationships_def Let_def)
    qed
  next
    case (3 n q')
    with "2.prems" show ?thesis by simp
  next
    case (4 q')
    with "2.prems" show ?thesis by (cases p) (auto simp: combineRelationships_def last_multi_def Let_def)
  qed
next
  case (4 p)
  then show ?case
    by (cases q rule: literal.cases; cases "tl q")
      (auto simp: combineRelationships_def last_multi_def Let_def)
qed simp_all

lemma comparePaths_literal:
  assumes "literal p" and "literal q"
  shows "comparePaths p q \<noteq> Overlaps" and "comparePaths p q = Equivalent \<longleftrightarrow> p = q"
  using compare_from_literal [OF assms] by (auto simp: comparePaths_def)

lemma literal_rows_conflict:
  assumes "mr_Method r = mr_Method r'" and "literal (parse_pattern (mr_Pattern r))" and "literal (parse_pattern (mr_Pattern r'))"
  shows "conflictsWith r r' \<longleftrightarrow> parse_pattern (mr_Pattern r) = parse_pattern (mr_Pattern r')"
  using comparePaths_literal [OF assms(2,3)] assms(1)
  by (auto simp: conflictsWith_def comparePathsAndMethods_def row_pattern_def compareMethods_def combineRelationships_def)

text \<open>A pattern for all methods never conflicts with one of a method whose first segment it does not have.\<close>

lemma first_segment_apart:
  assumes "mr_Method r = []" and "mr_Method r' \<noteq> []" and "parse_pattern (mr_Pattern r') = Lit s # q"
    and "literal (parse_pattern (mr_Pattern r))" and "parse_pattern (mr_Pattern r) \<noteq> []"
    and "\<And>p. parse_pattern (mr_Pattern r) \<noteq> Lit s # p" and "\<not> last_multi (Lit s # q)"
  shows "\<not> conflictsWith r r'"
proof -
  let ?p = "parse_pattern (mr_Pattern r)"
  have "comparePaths ?p (Lit s # q) \<in> {Disjoint, MoreGeneral}"
  proof (cases ?p rule: literal.cases)
    case (4 p')
    then show ?thesis using assms(4) by (cases q) (auto simp: comparePaths_def last_multi_def combineRelationships_def)
  qed (use assms in \<open>auto simp: comparePaths_def combineRelationships_def\<close>)
  with assms(1-3) show ?thesis
    by (auto simp: conflictsWith_def comparePathsAndMethods_def row_pattern_def compareMethods_def combineRelationships_def)
qed

section \<open>Plain paths\<close>

text \<open>A plain path starts with a slash and has no brace, no escape and no blank, so it is its own pattern.\<close>

definition plain_char :: "char \<Rightarrow> bool" where
  "plain_char c \<longleftrightarrow> c \<noteq> CHR 0x7B \<and> c \<noteq> CHR 0x25 \<and> c \<noteq> CHR 0x20 \<and> c \<noteq> CHR 0x09"

definition plain_path :: "string \<Rightarrow> bool" where
  "plain_path p \<longleftrightarrow> p \<noteq> [] \<and> hd p = slash \<and> list_all plain_char p"

lemma join_segments: "join_path (segments s) = s"
proof (induction s)
  case (Cons c s)
  then show ?case using segments_nonempty [of s] by (cases "segments s") (auto, (case_tac list, auto)+)
qed simp

lemma join_chars: "x \<in> set xs \<Longrightarrow> set x \<subseteq> set (join_path xs)"
  by (induction xs rule: join_path.induct) auto

lemma segments_chars: "c \<in> set s \<Longrightarrow> s \<in> set (segments p) \<Longrightarrow> c \<in> set p"
  using join_chars [of s "segments p"] by (auto simp: join_segments)

lemma pattern_seg_plain: "list_all plain_char s \<Longrightarrow> pattern_seg s = Lit s"
  by (cases s) (auto simp: pattern_seg_def has_prefix_def plain_char_def)

lemma pattern_segs_plain:
  "list_all (list_all plain_char) ss \<Longrightarrow> ss \<noteq> [] \<Longrightarrow>
   pattern_segs ss = map Lit (butlast ss) @ [if last ss = [] then Multi else Lit (last ss)]"
  by (induction ss rule: pattern_segs.induct) (auto simp: pattern_seg_plain)

lemma literal_map: "literal (map Lit xs @ [y]) \<longleftrightarrow> (\<forall>n. y \<noteq> Wild n)"
  by (induction xs) (cases y, auto)

lemma plain_segments:
  assumes "plain_path p"
  shows "list_all (list_all plain_char) (segments (tl p))" and "segments (tl p) \<noteq> []"
proof -
  have "c \<in> set p" if "c \<in> set s" "s \<in> set (segments (tl p))" for c s
    using segments_chars [OF that] assms by (cases p) (auto simp: plain_path_def)
  then show "list_all (list_all plain_char) (segments (tl p))" using assms by (auto simp: list_all_iff plain_path_def)
qed (rule segments_nonempty)

lemma plain_literal:
  "plain_path p \<Longrightarrow> literal (parse_pattern p)" "plain_path p \<Longrightarrow> parse_pattern p \<noteq> []"
  using plain_segments [of p] by (simp_all add: parse_pattern_def pattern_segs_plain literal_map)

lemma segments_inj: "segments a = segments b \<Longrightarrow> a = b"
proof -
  assume "segments a = segments b"
  then have "join_path (segments a) = join_path (segments b)" by simp
  then show ?thesis by (simp add: join_segments)
qed

lemma plain_parse_inj:
  assumes "plain_path p" and "plain_path q" and "parse_pattern p = parse_pattern q"
  shows "p = q"
proof -
  have inj: "map Lit xs = map Lit ys \<longleftrightarrow> xs = ys" for xs ys by (simp add: inj_map_eq_map inj_def)
  from assms(3) have "segments (tl p) = segments (tl q)"
    using plain_segments [OF assms(1)] plain_segments [OF assms(2)]
    by (simp add: parse_pattern_def pattern_segs_plain inj append_butlast_last_id split: if_splits)
      (metis append_butlast_last_id)+
  then have "tl p = tl q" by (rule segments_inj)
  with assms(1,2) show ?thesis by (cases p; cases q) (auto simp: plain_path_def)
qed

end
