(* ===== verification/Setup.thy ===== *)
theory Setup
  imports Setup_Config Mux_Conflicts
begin

text \<open>
  The bundle (\<open>setup/setup.go\<close>, \<open>bundle.go\<close>, \<open>mount.go\<close>, \<open>machine.go\<close>, \<open>sse.go\<close>, \<open>route_postures.go\<close>): how one
  configuration becomes a service, the auth handler, the panels and the event hub, which routes are mounted behind
  which gate, the manifest of their postures, and closing. The construction of the service, its stores and bus, and
  the serialization of the event catalog answer what \<open>setup_env\<close> says.
\<close>

section \<open>The bundle\<close>

record ('svc, 'store, 'bus, 'w) setup_env =
  se_err :: err_env
  se_ready :: ready_env
  se_quote :: "string \<Rightarrow> string"
  se_lower :: "string \<Rightarrow> string"
  se_NewService :: "('svc, 'store, 'bus, 'w) setup_config \<Rightarrow> err + 'svc"
  se_CloseService :: "'svc \<Rightarrow> err option"
  se_Journal :: "'svc \<Rightarrow> 'store"
  se_EventBus :: "'svc \<Rightarrow> 'bus"
  se_isJournal :: "'store \<Rightarrow> bool"
  se_NewMemoryStore :: 'store
  se_NewEventBus :: 'bus
  se_Use :: "'bus \<Rightarrow> err option"
  se_SubscribeAll :: "'bus \<Rightarrow> err option"
  se_sources :: "'svc \<Rightarrow> dash_sources"
  se_login :: "'svc \<Rightarrow> login_service"
  se_marshal :: "clientConfig \<Rightarrow> string option"
  se_catalog :: "err option"
  se_statuses :: "'svc \<Rightarrow> 'w \<Rightarrow> ProjectionStatusEntry list"
  se_hub :: "'w \<Rightarrow> hub_health"
  se_HasAdminGrant :: "'svc \<Rightarrow> tenant_id \<Rightarrow> err + bool"

text \<open>\<open>sseDone\<close> is the channel that stops the bridge: nil, or open, or closed.\<close>

datatype done_channel = NilChannel | OpenChannel | ClosedChannel

record ('svc, 'store, 'bus, 'w) app_bundle =
  bd_Service :: "'svc option"
  bd_Auth :: "HandlerConfig option"
  bd_Admin :: "'w admin_config option"
  bd_Dashboard :: "settings option"
  bd_Login :: "login_handler option"
  bd_EventStore :: 'store
  bd_EventBus :: 'bus
  bd_Broadcaster :: bool
  bd_DataStarBroadcaster :: bool
  bd_config :: "('svc, 'store, 'bus, 'w) setup_config"
  bd_ownsService :: bool
  bd_sseDone :: done_channel
  bd_sseStore :: bool

section \<open>Construction\<close>

definition resolveAuthHandlerConfig :: "('svc, 'store, 'bus, 'w) setup_config \<Rightarrow> HandlerConfig \<Rightarrow> HandlerConfig" where
  "resolveAuthHandlerConfig cfg bare =
     (case su_AuthHandlerConfig cfg of
        None \<Rightarrow> bare \<lparr> hc_CookieName := su_CookieName cfg \<rparr>
      | Some given \<Rightarrow>
          if hc_CookieName given = [] then given \<lparr> hc_CookieName := su_CookieName cfg \<rparr> else given)"

text \<open>The zero value of the handler configuration.\<close>

definition HandlerConfig_zero :: HandlerConfig where
  "HandlerConfig_zero =
     \<lparr> hc_CookieName = [], hc_Secure = None, hc_SessionMaxAge = 0,
       hc_RateLimits = (\<lambda>l. \<lparr> rl_Enabled = False, rl_MaxRequests = 0 \<rparr>), hc_OAuth2SuccessURL = [],
       hc_OAuth2ErrorURL = [], hc_ImportExportAuthorizer = None \<rparr>"

definition buildService ::
  "('svc, 'store, 'bus, 'w) setup_env \<Rightarrow> ('svc, 'store, 'bus, 'w) setup_config \<Rightarrow> err + 'svc" where
  "buildService E cfg =
     map_err (\<lambda>e. wrap_error Rejection e ''setup.service_creation_failed'' ''failed to create usermgmt service'')
       (se_NewService E cfg)"

definition attachAdmin ::
  "('svc, 'store, 'bus, 'w) setup_env \<Rightarrow> ('svc, 'store, 'bus, 'w) app_bundle \<Rightarrow> err + ('svc, 'store, 'bus, 'w) app_bundle" where
  "attachAdmin E b =
     (let cfg = bd_config b in
      if su_DisableAdmin cfg then Inr b
      else
        (let adminCfg =
           \<lparr> ad_Title = su_Title cfg, ad_BasePath = su_AdminPath cfg, ad_Mode = su_AdminMode cfg,
             ad_TenantID = su_TenantID cfg, ad_AccentColor = su_AccentColor cfg,
             ad_Authorizer = su_AdminAuthorizer cfg, ad_AuthorizerPosture = [], ad_ExtraNav = su_AdminExtraNav cfg,
             ad_DashboardURL = su_AdminDashboardURL cfg \<rparr>
         in case admin_withDefaults (se_lower E) (bd_Service b \<noteq> None) adminCfg of
              Inl e \<Rightarrow> Inl (wrap_error Rejection e ''setup.admin_creation_failed'' ''failed to create admin panel'')
            | Inr admin \<Rightarrow> Inr (b \<lparr> bd_Admin := Some admin \<rparr>)))"

text \<open>The dot between the titles is \<open>U+00B7\<close>. The sources are the ones of the service.\<close>

definition buildDashboardConfig :: "('svc, 'store, 'bus, 'w) setup_config \<Rightarrow> settings" where
  "buildDashboardConfig cfg =
     \<lparr> st_Title = su_Title cfg @ '' '' @ map byte [0xC2, 0xB7] @ '' CQRS Dashboard'', st_BasePath = su_DashboardPath cfg,
       st_AccentColor = su_AccentColor cfg,
       st_ReadOnly = (case su_DashboardReadOnly cfg of Some ro \<Rightarrow> ro | None \<Rightarrow> True),
       st_PageSize = su_DashboardPageSize cfg, st_SSEHeartbeatInterval = su_SSEHeartbeatInterval cfg,
       st_Authorizer = su_DashboardAuthorizer cfg, st_ActorAuthorizer = None, st_VersionzRequireAuth = False,
       st_EmptyStateCopy = [], st_ExtraNav = su_DashboardExtraNav cfg \<rparr>"

definition attachDashboard ::
  "('svc, 'store, 'bus, 'w) setup_env \<Rightarrow> ('svc, 'store, 'bus, 'w) app_bundle \<Rightarrow> err + ('svc, 'store, 'bus, 'w) app_bundle" where
  "attachDashboard E b =
     (let cfg = bd_config b in
      if su_DisableDashboard cfg then Inr b
      else case bd_Service b of
        None \<Rightarrow> Inr b
      | Some svc \<Rightarrow>
          (case withDefaults (se_lower E) (se_sources E svc) (buildDashboardConfig cfg) of
             Inl e \<Rightarrow> Inl (wrap_error Rejection e ''setup.dashboard_creation_failed'' ''failed to create CQRS dashboard'')
           | Inr dash \<Rightarrow> Inr (b \<lparr> bd_Dashboard := Some dash \<rparr>)))"

definition attachLogin ::
  "('svc, 'store, 'bus, 'w) setup_env \<Rightarrow> ('svc, 'store, 'bus, 'w) app_bundle \<Rightarrow> err + ('svc, 'store, 'bus, 'w) app_bundle" where
  "attachLogin E b =
     (let cfg = bd_config b in
      if su_DisableLogin cfg then Inr b
      else
        (let loginCfg =
           \<lparr> lg_Service = map_option (se_login E) (bd_Service b), lg_Title = su_Title cfg, lg_Brand = [],
             lg_Redirect = su_LoginRedirect cfg, lg_AccentColor = su_AccentColor cfg, lg_CSSPath = su_LoginCSSPath cfg,
             lg_Theme = [], lg_ThemeFromRequest = None,
             lg_NonceFromRequest = Some (case su_NonceFunc cfg of Some f \<Rightarrow> f | None \<Rightarrow> lr_Nonce),
             lg_NoRegistration = su_LoginNoRegistration cfg, lg_AuthPrefix = [], lg_OAuth2Buttons = [],
             lg_NoOAuth2 = False, lg_NoWebAuthn = False, lg_AutoRedirect = su_LoginAutoRedirect cfg,
             lg_CredentialName = [], lg_RegisterFirst = False \<rparr>
         in case New_login (se_marshal E) loginCfg of
              Inl e \<Rightarrow> Inl (wrap_error Rejection e ''setup.login_creation_failed'' ''failed to create login page'')
            | Inr login \<Rightarrow> Inr (b \<lparr> bd_Login := Some login \<rparr>)))"

definition attachPanels ::
  "('svc, 'store, 'bus, 'w) setup_env \<Rightarrow> ('svc, 'store, 'bus, 'w) app_bundle \<Rightarrow> err + ('svc, 'store, 'bus, 'w) app_bundle" where
  "attachPanels E b = on_ok (attachAdmin E b) (\<lambda>b. on_ok (attachDashboard E b) (attachLogin E))"

definition attachSSE ::
  "('svc, 'store, 'bus, 'w) setup_env \<Rightarrow> ('svc, 'store, 'bus, 'w) app_bundle \<Rightarrow> err + ('svc, 'store, 'bus, 'w) app_bundle" where
  "attachSSE E b =
     (let cfg = bd_config b in
      if su_SSEPath cfg = [] \<and> su_DataStarPath cfg = [] then Inr b
      else
        (let b = b \<lparr> bd_Broadcaster := True, bd_sseDone := OpenChannel,
                     bd_sseStore := se_isJournal E (bd_EventStore b) \<rparr>
         in case se_SubscribeAll E (bd_EventBus b) of
              Some e \<Rightarrow> Inl (wrap_error Infrastructure e ''setup.sse_subscribe_failed'' ''subscribe to event bus for SSE bridge'')
            | None \<Rightarrow> Inr (if su_DataStarPath cfg \<noteq> [] then b \<lparr> bd_DataStarBroadcaster := True \<rparr> else b)))"

definition attachMachineEndpoints ::
  "('svc, 'store, 'bus, 'w) setup_env \<Rightarrow> ('svc, 'store, 'bus, 'w) app_bundle \<Rightarrow> err + ('svc, 'store, 'bus, 'w) app_bundle" where
  "attachMachineEndpoints E b =
     (case se_catalog E of
        Some e \<Rightarrow> Inl (wrap_error Rejection e ''setup.event_catalog_creation_failed'' ''failed to serialize the event catalog'')
      | None \<Rightarrow> Inr b)"

definition attach_all ::
  "('svc, 'store, 'bus, 'w) setup_env \<Rightarrow> ('svc, 'store, 'bus, 'w) app_bundle \<Rightarrow> err + ('svc, 'store, 'bus, 'w) app_bundle" where
  "attach_all E b = on_ok (attachPanels E b) (\<lambda>b. on_ok (attachSSE E b) (attachMachineEndpoints E))"

definition newShellBundle ::
  "('svc, 'store, 'bus, 'w) setup_env \<Rightarrow> ('svc, 'store, 'bus, 'w) setup_config \<Rightarrow> err + ('svc, 'store, 'bus, 'w) app_bundle" where
  "newShellBundle E cfg =
     (let store = (case su_EventStore cfg of None \<Rightarrow> se_NewMemoryStore E | Some st \<Rightarrow> st);
          shell = (\<lambda>bus. \<lparr> bd_Service = None, bd_Auth = None, bd_Admin = None, bd_Dashboard = None, bd_Login = None,
             bd_EventStore = store, bd_EventBus = bus, bd_Broadcaster = False, bd_DataStarBroadcaster = False,
             bd_config = cfg, bd_ownsService = False, bd_sseDone = NilChannel, bd_sseStore = False \<rparr>)
      in case su_EventBus cfg of
           Some bus \<Rightarrow> Inr (shell bus)
         | None \<Rightarrow>
             (case se_Use E (se_NewEventBus E) of
                Some e \<Rightarrow> Inl (wrap_error Infrastructure e ''setup.default_event_bus_recovery''
                         ''failed to apply recovery middleware to the default event bus'')
              | None \<Rightarrow> Inr (shell (se_NewEventBus E))))"

definition base_bundle ::
  "('svc, 'store, 'bus, 'w) setup_env \<Rightarrow> ('svc, 'store, 'bus, 'w) setup_config \<Rightarrow> 'svc \<Rightarrow> bool \<Rightarrow> ('svc, 'store, 'bus, 'w) app_bundle" where
  "base_bundle E cfg svc owns =
     \<lparr> bd_Service = Some svc,
       bd_Auth = (if su_DisableAuth cfg then None else Some (resolveAuthHandlerConfig cfg HandlerConfig_zero)),
       bd_Admin = None, bd_Dashboard = None, bd_Login = None, bd_EventStore = se_Journal E svc,
       bd_EventBus = se_EventBus E svc, bd_Broadcaster = False, bd_DataStarBroadcaster = False, bd_config = cfg,
       bd_ownsService = owns, bd_sseDone = NilChannel, bd_sseStore = False \<rparr>"

text \<open>The services that are closed: \<open>cleanup\<close> of a bundle that could not be finished.\<close>

definition closed_services :: "('svc, 'store, 'bus, 'w) app_bundle \<Rightarrow> 'svc list" where
  "closed_services b = (if bd_ownsService b then case bd_Service b of None \<Rightarrow> [] | Some svc \<Rightarrow> [svc] else [])"

definition finish_bundle ::
  "('svc, 'store, 'bus, 'w) setup_env \<Rightarrow> ('svc, 'store, 'bus, 'w) app_bundle
   \<Rightarrow> (err + ('svc, 'store, 'bus, 'w) app_bundle) \<times> 'svc list" where
  "finish_bundle E b = (case attach_all E b of Inl e \<Rightarrow> (Inl e, closed_services b) | Inr b' \<Rightarrow> (Inr b', []))"

definition newBundle ::
  "('svc, 'store, 'bus, 'w) setup_env \<Rightarrow> ('svc, 'store, 'bus, 'w) setup_config
   \<Rightarrow> (err + ('svc, 'store, 'bus, 'w) app_bundle) \<times> 'svc list" where
  "newBundle E cfg =
     (let cfg = setup_withDefaults cfg in
      case setup_validate (se_err E) (se_quote E) cfg of
        Some e \<Rightarrow> (Inl e, [])
      | None \<Rightarrow>
          if su_DisableService cfg then (newShellBundle E cfg, [])
          else (case su_Service cfg of
            Some svc \<Rightarrow> finish_bundle E (base_bundle E cfg svc False)
          | None \<Rightarrow>
              (case buildService E cfg of
                 Inl e \<Rightarrow> (Inl e, [])
               | Inr svc \<Rightarrow> finish_bundle E (base_bundle E cfg svc True))))"

definition NewShell ::
  "('svc, 'store, 'bus, 'w) setup_env \<Rightarrow> ('svc, 'store, 'bus, 'w) setup_config
   \<Rightarrow> (err + ('svc, 'store, 'bus, 'w) app_bundle) \<times> 'svc list" where
  "NewShell E cfg = newBundle E (cfg \<lparr> su_DisableService := True \<rparr>)"

section \<open>Mounting\<close>

text \<open>The gate a handler is wrapped in: none, the session middleware and the CSRF check (which let an anonymous caller
  through to the panel's own guard), or the session middleware and \<open>RequireSession\<close>.\<close>

datatype bundle_gate = NoGate | SessionCSRF | SessionRequired

datatype bundle_target =
    AuthEndpoint bool auth_route
  | LoginTarget | AdminTarget | DashboardTarget | SSEScriptTarget | SSETarget | DataStarScriptTarget | DataStarTarget
  | CatalogTarget | StatusTarget | DebugTarget | DocsTarget | HealthTarget | LiveTarget

type_synonym bundle_row = "(bundle_gate \<times> bundle_target) mux_row"

definition handle_row :: "string \<Rightarrow> bundle_gate \<Rightarrow> bundle_target \<Rightarrow> bundle_row" where
  "handle_row pattern gate target = \<lparr> mr_Method = [], mr_Pattern = pattern, mr_Handler = (gate, target) \<rparr>"

definition when_row :: "bool \<Rightarrow> 'a \<Rightarrow> 'a list" where "when_row c r = (if c then [r] else [])"

definition auth_rows :: "bundle_row list" where
  "auth_rows = map (\<lambda>r. \<lparr> mr_Method = mr_Method r, mr_Pattern = mr_Pattern r,
     mr_Handler = (NoGate, AuthEndpoint (fst (mr_Handler r)) (snd (mr_Handler r))) \<rparr>) RegisterRoutes"

definition served_path :: "string \<Rightarrow> bool" where "served_path p \<longleftrightarrow> p \<noteq> [] \<and> p \<noteq> ''-''"

definition mountEventFeeds :: "('svc, 'store, 'bus, 'w) app_bundle \<Rightarrow> bundle_row list" where
  "mountEventFeeds b =
     (let cfg = bd_config b; sse = (bd_Broadcaster b \<and> su_SSEPath cfg \<noteq> []) in
      when_row (sse \<and> served_path (su_SSEScriptPath cfg)) (handle_row (su_SSEScriptPath cfg) NoGate SSEScriptTarget)
      @ when_row sse (handle_row (su_SSEPath cfg) SessionRequired SSETarget)
      @ when_row (bd_DataStarBroadcaster b \<and> served_path (su_DataStarScriptPath cfg))
          (handle_row (su_DataStarScriptPath cfg) NoGate DataStarScriptTarget)
      @ when_row (bd_DataStarBroadcaster b) (handle_row (su_DataStarPath cfg) SessionRequired DataStarTarget))"

definition mountMachineEndpoints :: "('svc, 'store, 'bus, 'w) app_bundle \<Rightarrow> bundle_row list" where
  "mountMachineEndpoints b =
     (let cfg = bd_config b in
      when_row (su_EventCatalogPath cfg \<noteq> []) (handle_row (su_EventCatalogPath cfg) SessionRequired CatalogTarget)
      @ when_row (su_ProjectionStatusPath cfg \<noteq> []) (handle_row (su_ProjectionStatusPath cfg) SessionRequired StatusTarget)
      @ when_row (su_DebugPath cfg \<noteq> []) (handle_row (su_DebugPath cfg) SessionRequired DebugTarget)
      @ when_row (su_DocsPath cfg \<noteq> []) (handle_row (su_DocsPath cfg) SessionRequired DocsTarget))"

definition panel_rows :: "('svc, 'store, 'bus, 'w) app_bundle \<Rightarrow> bundle_row list" where
  "panel_rows b =
     (let cfg = bd_config b in
      when_row (bd_Admin b \<noteq> None) (handle_row (su_AdminPath cfg) SessionCSRF AdminTarget)
      @ when_row (bd_Dashboard b \<noteq> None) (handle_row (su_DashboardPath cfg) SessionRequired DashboardTarget))"

definition probe_rows :: "('svc, 'store, 'bus, 'w) app_bundle \<Rightarrow> bundle_row list" where
  "probe_rows b =
     (let cfg = bd_config b in
      when_row (served_path (su_HealthPath cfg)) (handle_row (su_HealthPath cfg) NoGate HealthTarget)
      @ when_row (su_LivePath cfg \<noteq> []) (handle_row (su_LivePath cfg) NoGate LiveTarget))"

text \<open>The routes in the order \<open>Mount\<close> registers them.\<close>

definition Mount :: "('svc, 'store, 'bus, 'w) app_bundle \<Rightarrow> bundle_row list" where
  "Mount b =
     (if bd_Auth b \<noteq> None then auth_rows else [])
     @ when_row (bd_Login b \<noteq> None) (handle_row ''/'' NoGate LoginTarget)
     @ panel_rows b @ mountEventFeeds b @ mountMachineEndpoints b @ probe_rows b"

text \<open>\<open>RequireSession\<close> after the session middleware: an anonymous caller gets 401 before the handler.\<close>

definition passes_gate :: "bundle_gate \<Rightarrow> User option \<Rightarrow> bool" where
  "passes_gate gate caller \<longleftrightarrow> (gate = SessionRequired \<longrightarrow> caller \<noteq> None)"

definition bundleReadinessChecks ::
  "('svc, 'store, 'bus, 'w) setup_env \<Rightarrow> ('svc, 'store, 'bus, 'w) app_bundle \<Rightarrow> 'w named_check list" where
  "bundleReadinessChecks E b =
     (case bd_Service b of None \<Rightarrow> [] | Some svc \<Rightarrow> [ProjectionReadinessCheck (se_ready E) (Some (se_statuses E svc))])
     @ when_row (bd_Broadcaster b) (HubReadinessCheck (se_hub E))
     @ su_HealthChecks (bd_config b)"

section \<open>The manifest\<close>

record posture_entry =
  rp_Method :: string
  rp_Pattern :: string
  rp_Posture :: string
  rp_Why :: string

definition posture_row :: "string \<Rightarrow> string \<Rightarrow> string \<Rightarrow> string \<Rightarrow> posture_entry" where
  "posture_row m pattern posture why =
     \<lparr> rp_Method = m, rp_Pattern = pattern, rp_Posture = posture, rp_Why = why \<rparr>"

definition feedPostures :: "('svc, 'store, 'bus, 'w) app_bundle \<Rightarrow> posture_entry list" where
  "feedPostures b =
     (let cfg = bd_config b; sse = (bd_Broadcaster b \<and> su_SSEPath cfg \<noteq> []) in
      when_row sse (posture_row GET (su_SSEPath cfg) PostureAuthenticated_text
        (''the shared SSE feed streams event metadata'' @ dash_text @ ''session-gated''))
      @ when_row (sse \<and> served_path (su_SSEScriptPath cfg)) (posture_row GET (su_SSEScriptPath cfg) PosturePublic_text
          ''static HTMX SSE extension script, no data'')
      @ when_row (bd_DataStarBroadcaster b \<and> su_DataStarPath cfg \<noteq> [])
          (posture_row GET (su_DataStarPath cfg) PostureAuthenticated_text
            (''the DataStar feed streams event metadata'' @ dash_text @ ''session-gated''))
      @ when_row (bd_DataStarBroadcaster b \<and> served_path (su_DataStarScriptPath cfg))
          (posture_row GET (su_DataStarScriptPath cfg) PosturePublic_text ''static DataStar SDK script, no data''))"

definition machine_posture :: "string \<Rightarrow> string \<Rightarrow> posture_entry" where
  "machine_posture pattern what =
     posture_row ''*'' pattern PostureAuthenticated_text (what @ '' carries event metadata'' @ dash_text @ ''session-gated'')"

definition machineEndpointPostures :: "('svc, 'store, 'bus, 'w) app_bundle \<Rightarrow> posture_entry list" where
  "machineEndpointPostures b =
     (let cfg = bd_config b in
      when_row (su_EventCatalogPath cfg \<noteq> []) (machine_posture (su_EventCatalogPath cfg) ''the event catalog'')
      @ when_row (su_ProjectionStatusPath cfg \<noteq> []) (machine_posture (su_ProjectionStatusPath cfg) ''projection status'')
      @ when_row (su_DebugPath cfg \<noteq> []) (machine_posture (su_DebugPath cfg) ''the debug dump'')
      @ when_row (su_DocsPath cfg \<noteq> []) (machine_posture (su_DocsPath cfg) ''the docs endpoint''))"

definition probePostures :: "('svc, 'store, 'bus, 'w) app_bundle \<Rightarrow> posture_entry list" where
  "probePostures b =
     (let cfg = bd_config b in
      when_row (served_path (su_HealthPath cfg)) (posture_row ''*'' (su_HealthPath cfg) PosturePublic_text
        ''readiness probe: orchestrators must reach it without a session'')
      @ when_row (su_LivePath cfg \<noteq> []) (posture_row GET (su_LivePath cfg) PosturePublic_text
          ''liveness probe: orchestrators must reach it without a session''))"

definition RoutePostures :: "('svc, 'store, 'bus, 'w) app_bundle \<Rightarrow> posture_entry list" where
  "RoutePostures b =
     (let cfg = bd_config b in
      when_row (bd_Auth b \<noteq> None) (posture_row ''*'' ''/auth/*'' PostureUngated_text
        (''usermgmt enforces per-route postures itself (public ceremonies, self-wrapped 401 session routes ''
         @ em_dash @ '' ADR-0055); this layer adds no gate''))
      @ when_row (bd_Login b \<noteq> None) (posture_row GET ''/'' PosturePublic_text
          ''the login page is the anonymous entry point'')
      @ when_row (bd_Admin b \<noteq> None) (posture_row ''*'' (su_AdminPath cfg) PostureRoleGated_text
          (''session + CSRF + the admin authorizer (role-based by default: super_admin/admin globally, ''
           @ ''admin/owner per tenant)''))
      @ when_row (bd_Dashboard b \<noteq> None)
          (if su_DashboardAuthorizer cfg \<noteq> None
           then posture_row ''*'' (su_DashboardPath cfg) PostureRoleGated_text
             ''RequireSession + the configured DashboardAuthorizer (403 for callers it refuses)''
           else posture_row ''*'' (su_DashboardPath cfg) PostureAuthenticated_text
             ''RequireSession: the dashboard renders event payloads and stream IDs, so it must never be public'')
      @ feedPostures b @ machineEndpointPostures b @ probePostures b)"

section \<open>Closing\<close>

definition closeSSEDone :: "('svc, 'store, 'bus, 'w) app_bundle \<Rightarrow> ('svc, 'store, 'bus, 'w) app_bundle" where
  "closeSSEDone b = (if bd_sseDone b \<noteq> NilChannel then b \<lparr> bd_sseDone := NilChannel \<rparr> else b)"

definition closeSSEBroadcasters :: "('svc, 'store, 'bus, 'w) app_bundle \<Rightarrow> ('svc, 'store, 'bus, 'w) app_bundle" where
  "closeSSEBroadcasters b = b \<lparr> bd_Broadcaster := False, bd_DataStarBroadcaster := False \<rparr>"

definition drainAndCloseSSE :: "('svc, 'store, 'bus, 'w) app_bundle \<Rightarrow> ('svc, 'store, 'bus, 'w) app_bundle" where
  "drainAndCloseSSE b = (if \<not> bd_Broadcaster b then b else closeSSEBroadcasters (closeSSEDone b))"

definition Bundle_Close ::
  "('svc, 'store, 'bus, 'w) setup_env \<Rightarrow> ('svc, 'store, 'bus, 'w) app_bundle
   \<Rightarrow> (err option \<times> 'svc list) \<times> ('svc, 'store, 'bus, 'w) app_bundle" where
  "Bundle_Close E b =
     (let b = drainAndCloseSSE b in
      case (bd_ownsService b, bd_Service b) of
        (True, Some svc) \<Rightarrow>
          ((map_option (\<lambda>e. wrap_error Infrastructure e ''setup.bundle_close'' ''failed to close service'')
              (se_CloseService E svc), [svc]), b)
      | _ \<Rightarrow> ((None, []), b))"

text \<open>The bridge: what happens when the bus hands it an event. It keeps the bundle, not the channel and the hub it was
  made for; a receive from a nil channel is never ready.\<close>

datatype bridge_outcome = BridgeStopped | BridgeBroadcast | NilDereference

definition bridge_handle :: "('svc, 'store, 'bus, 'w) app_bundle \<Rightarrow> bridge_outcome" where
  "bridge_handle b =
     (if bd_sseDone b = ClosedChannel then BridgeStopped
      else if bd_Broadcaster b then BridgeBroadcast else NilDereference)"

section \<open>The boot diagnostic\<close>

definition warnOnUnreachableAdminPanel ::
  "('svc, 'store, 'bus, 'w) setup_env \<Rightarrow> bool \<Rightarrow> ('svc, 'store, 'bus, 'w) app_bundle \<Rightarrow> string option" where
  "warnOnUnreachableAdminPanel E asyncStartup b =
     (case (bd_Admin b, bd_Service b) of
        (Some admin, Some svc) \<Rightarrow>
          if asyncStartup then None
          else (case se_HasAdminGrant E svc (NewTenantID WildcardDomain) of
                  Inl e \<Rightarrow> Some ''setup: admin panel is mounted but its admin grant could not be verified''
                | Inr True \<Rightarrow> None
                | Inr False \<Rightarrow> Some (''setup: admin panel is mounted but nobody holds admin or super_admin in the wildcard ''
                    @ ''domain'' @ dash_text @ ''every panel request will be refused with 403''))
      | _ \<Rightarrow> None)"

section \<open>What a finished bundle is\<close>

lemma on_ok_Inr: "on_ok x f = Inr y \<longleftrightarrow> (\<exists>v. x = Inr v \<and> f v = Inr y)"
  by (cases x) (simp_all add: on_ok_def)

text \<open>The attaching steps only add to the bundle.\<close>

definition grows :: "('svc, 'store, 'bus, 'w) app_bundle \<Rightarrow> ('svc, 'store, 'bus, 'w) app_bundle \<Rightarrow> bool" where
  "grows b b' \<longleftrightarrow> bd_config b' = bd_config b \<and> bd_Auth b' = bd_Auth b \<and> bd_Service b' = bd_Service b
     \<and> bd_ownsService b' = bd_ownsService b"

lemma attach_panel_grows:
  "attachAdmin E b = Inr b' \<Longrightarrow> grows b b' \<and> bd_Broadcaster b' = bd_Broadcaster b
     \<and> bd_DataStarBroadcaster b' = bd_DataStarBroadcaster b"
  "attachDashboard E b = Inr b' \<Longrightarrow> grows b b' \<and> bd_Broadcaster b' = bd_Broadcaster b
     \<and> bd_DataStarBroadcaster b' = bd_DataStarBroadcaster b"
  "attachLogin E b = Inr b' \<Longrightarrow> grows b b' \<and> bd_Broadcaster b' = bd_Broadcaster b
     \<and> bd_DataStarBroadcaster b' = bd_DataStarBroadcaster b"
  by (auto simp: attachAdmin_def attachDashboard_def attachLogin_def grows_def Let_def
    split: if_splits sum.splits option.splits)

lemma attachSSE_grows:
  assumes "attachSSE E b = Inr b'" and "\<not> bd_Broadcaster b" and "\<not> bd_DataStarBroadcaster b"
  shows "grows b b'" and "bd_Broadcaster b' \<longleftrightarrow> su_SSEPath (bd_config b) \<noteq> [] \<or> su_DataStarPath (bd_config b) \<noteq> []"
    and "bd_DataStarBroadcaster b' \<longleftrightarrow> su_DataStarPath (bd_config b) \<noteq> []"
  using assms by (auto simp: attachSSE_def grows_def Let_def split: if_splits option.splits)

lemma attach_all_grows:
  assumes "attach_all E b = Inr b'" and "\<not> bd_Broadcaster b" and "\<not> bd_DataStarBroadcaster b"
  shows "grows b b'" and "bd_Broadcaster b' \<longleftrightarrow> su_SSEPath (bd_config b) \<noteq> [] \<or> su_DataStarPath (bd_config b) \<noteq> []"
    and "bd_DataStarBroadcaster b' \<longleftrightarrow> su_DataStarPath (bd_config b) \<noteq> []"
proof -
  from assms(1) obtain b1 b2 b3 where steps: "attachAdmin E b = Inr b1" "attachDashboard E b1 = Inr b2"
    "attachLogin E b2 = Inr b3" "attachSSE E b3 = Inr b'"
    by (auto simp: attach_all_def attachPanels_def attachMachineEndpoints_def on_ok_Inr split: option.splits)
  note g = attach_panel_grows(1) [OF steps(1)] attach_panel_grows(2) [OF steps(2)] attach_panel_grows(3) [OF steps(3)]
  have hub: "\<not> bd_Broadcaster b3" "\<not> bd_DataStarBroadcaster b3" "grows b b3" using g assms(2,3) by (simp_all add: grows_def)
  note s = attachSSE_grows [OF steps(4) hub(1,2)]
  show "grows b b'" "bd_Broadcaster b' \<longleftrightarrow> su_SSEPath (bd_config b) \<noteq> [] \<or> su_DataStarPath (bd_config b) \<noteq> []"
    "bd_DataStarBroadcaster b' \<longleftrightarrow> su_DataStarPath (bd_config b) \<noteq> []"
    using s hub(3) by (simp_all add: grows_def)
qed

text \<open>A shell has none of the parts that need a service; another bundle has a service, the handler its configuration
  asks for, and the hub exactly when there is a feed.\<close>

definition shell_bundle :: "('svc, 'store, 'bus, 'w) app_bundle \<Rightarrow> bool" where
  "shell_bundle b \<longleftrightarrow> bd_Service b = None \<and> bd_Auth b = None \<and> bd_Admin b = None \<and> bd_Dashboard b = None
     \<and> bd_Login b = None \<and> \<not> bd_Broadcaster b \<and> \<not> bd_DataStarBroadcaster b"

definition full_bundle :: "('svc, 'store, 'bus, 'w) app_bundle \<Rightarrow> bool" where
  "full_bundle b \<longleftrightarrow> bd_Service b \<noteq> None
     \<and> bd_Auth b = (if su_DisableAuth (bd_config b) then None
                    else Some (resolveAuthHandlerConfig (bd_config b) HandlerConfig_zero))
     \<and> (bd_Broadcaster b \<longleftrightarrow> su_SSEPath (bd_config b) \<noteq> [] \<or> su_DataStarPath (bd_config b) \<noteq> [])
     \<and> (bd_DataStarBroadcaster b \<longleftrightarrow> su_DataStarPath (bd_config b) \<noteq> [])"

lemma finish_bundle_full:
  assumes "finish_bundle E (base_bundle E cfg svc owns) = (Inr b, closed)"
  shows "bd_config b = cfg" and "full_bundle b" and "closed = []" and "bd_Service b = Some svc" and "bd_ownsService b = owns"
proof -
  from assms have a: "attach_all E (base_bundle E cfg svc owns) = Inr b" and c: "closed = []"
    by (auto simp: finish_bundle_def split: sum.splits)
  have hub: "\<not> bd_Broadcaster (base_bundle E cfg svc owns)" "\<not> bd_DataStarBroadcaster (base_bundle E cfg svc owns)"
    by (simp_all add: base_bundle_def)
  note g = attach_all_grows [OF a hub]
  show "bd_config b = cfg" "full_bundle b" "bd_Service b = Some svc" "bd_ownsService b = owns"
    using g by (simp_all add: grows_def full_bundle_def base_bundle_def)
  show "closed = []" by (rule c)
qed

lemma newBundle_cases:
  assumes "newBundle E c = (Inr b, closed)"
  shows "bd_config b = setup_withDefaults c" and "setup_validate (se_err E) (se_quote E) (bd_config b) = None"
    and "su_DisableService (bd_config b) \<and> shell_bundle b \<or> \<not> su_DisableService (bd_config b) \<and> full_bundle b"
    and "closed = []"
proof -
  let ?cfg = "setup_withDefaults c"
  from assms have v: "setup_validate (se_err E) (se_quote E) ?cfg = None"
    by (auto simp: newBundle_def Let_def split: option.splits)
  have "bd_config b = ?cfg \<and> closed = []
    \<and> (su_DisableService ?cfg \<and> shell_bundle b \<or> \<not> su_DisableService ?cfg \<and> full_bundle b)"
  proof (cases "su_DisableService ?cfg")
    case True
    then show ?thesis using assms v
      by (auto simp: newBundle_def Let_def newShellBundle_def shell_bundle_def split: option.splits)
  next
    case False
    with assms v obtain svc owns where "finish_bundle E (base_bundle E ?cfg svc owns) = (Inr b, closed)"
      by (auto simp: newBundle_def Let_def split: option.splits sum.splits)
    from finish_bundle_full [OF this] False show ?thesis by simp
  qed
  with v show "bd_config b = ?cfg" "setup_validate (se_err E) (se_quote E) (bd_config b) = None"
    "su_DisableService (bd_config b) \<and> shell_bundle b \<or> \<not> su_DisableService (bd_config b) \<and> full_bundle b"
    "closed = []"
    by simp_all
qed

text \<open>A service that was adopted is never closed: not by a construction that fails later, not by closing the bundle.\<close>

lemma adopted_never_closed:
  assumes "su_Service (setup_withDefaults c) = Some svc"
  shows "snd (newBundle E c) = []"
    and "newBundle E c = (Inr b, closed) \<Longrightarrow> snd (fst (Bundle_Close E b)) = []"
proof -
  show "snd (newBundle E c) = []"
    using assms by (auto simp: newBundle_def Let_def finish_bundle_def closed_services_def base_bundle_def
      split: option.splits sum.splits)
  assume "newBundle E c = (Inr b, closed)"
  then have "\<not> bd_ownsService b"
    using assms finish_bundle_full(5) [of E "setup_withDefaults c" svc False b closed]
    by (auto simp: newBundle_def newShellBundle_def Let_def split: option.splits if_splits)
  then show "snd (fst (Bundle_Close E b)) = []"
    by (simp add: Bundle_Close_def drainAndCloseSSE_def closeSSEBroadcasters_def closeSSEDone_def Let_def)
qed

text \<open>Closing twice is closing once, but for the service, which is closed again.\<close>

lemma Close_settles: "drainAndCloseSSE (drainAndCloseSSE b) = drainAndCloseSSE b"
  by (simp add: drainAndCloseSSE_def closeSSEBroadcasters_def)

text \<open>The bridge outlives the bundle: the bus of an adopted service goes on, and the next event after closing makes the
  handler use a hub that is gone.\<close>

lemma closed_bridge_panics:
  "bd_Broadcaster b \<Longrightarrow> bridge_handle (snd (Bundle_Close E b)) = NilDereference"
  by (simp add: Bundle_Close_def drainAndCloseSSE_def closeSSEBroadcasters_def closeSSEDone_def bridge_handle_def
    Let_def split: option.splits bool.splits)

section \<open>What is mounted\<close>

lemma when_row_set [simp]: "x \<in> set (when_row c r) \<longleftrightarrow> c \<and> x = r"
  by (auto simp: when_row_def)

lemma when_row_sorted [simp]: "sorted_wrt P (when_row c r)"
  by (simp add: when_row_def)

definition own_rows :: "('svc, 'store, 'bus, 'w) app_bundle \<Rightarrow> bundle_row list" where
  "own_rows b = when_row (bd_Login b \<noteq> None) (handle_row ''/'' NoGate LoginTarget)
     @ panel_rows b @ mountEventFeeds b @ mountMachineEndpoints b @ probe_rows b"

lemma Mount_rows: "Mount b = (if bd_Auth b \<noteq> None then auth_rows else []) @ own_rows b"
  by (simp add: Mount_def own_rows_def)

lemma own_row_method: "r \<in> set (own_rows b) \<Longrightarrow> mr_Method r = []"
  by (auto simp: own_rows_def panel_rows_def mountEventFeeds_def mountMachineEndpoints_def probe_rows_def handle_row_def Let_def)

text \<open>Accepted paths: none of the routes is the root, each starts with a slash unless its feature is off, and two that
  are on are different.\<close>

lemma shapes_ok:
  assumes "validatePathShapes q c = None"
  shows "startsWithSlash (su_AdminPath c)" and "startsWithSlash (su_DashboardPath c)"
    and "su_HealthPath c = ''-'' \<or> startsWithSlash (su_HealthPath c)"
    and "su_LivePath c = [] \<or> startsWithSlash (su_LivePath c)" and "su_CookieName c \<noteq> []"
    and "validateOptionalFeedPaths q c = None"
  using assms by (auto simp: validatePathShapes_def split: if_splits option.splits)

lemma off_or_rooted:
  "first_some (\<lambda>(name, path, allowDash).
      if path = [] \<or> (allowDash \<and> path = ''-'') then None
      else if \<not> startsWithSlash path then Some (f name path) else None) ps = None \<Longrightarrow>
   (name, path, allowDash) \<in> set ps \<Longrightarrow> path = [] \<or> allowDash \<and> path = ''-'' \<or> startsWithSlash path"
  by (fastforce simp: first_some_None split: if_splits)

lemma case_Some_None: "(case x of Some e \<Rightarrow> Some e | None \<Rightarrow> y) = None \<Longrightarrow> x = None"
  by (cases x) simp_all

lemma optional_ok:
  assumes "validateOptionalFeedPaths q c = None"
  shows "su_EventCatalogPath c = [] \<or> startsWithSlash (su_EventCatalogPath c)"
    and "su_ProjectionStatusPath c = [] \<or> startsWithSlash (su_ProjectionStatusPath c)"
    and "su_DebugPath c = [] \<or> startsWithSlash (su_DebugPath c)"
    and "su_SSEPath c = [] \<or> startsWithSlash (su_SSEPath c)"
    and "su_SSEScriptPath c = [] \<or> su_SSEScriptPath c = ''-'' \<or> startsWithSlash (su_SSEScriptPath c)"
    and "su_DataStarPath c = [] \<or> startsWithSlash (su_DataStarPath c)"
    and "su_DataStarScriptPath c = [] \<or> su_DataStarScriptPath c = ''-'' \<or> startsWithSlash (su_DataStarScriptPath c)"
    and "su_DocsPath c = [] \<or> startsWithSlash (su_DocsPath c)"
proof -
  let ?paths = "[(''EventCatalogPath'', su_EventCatalogPath c, False),
             (''ProjectionStatusPath'', su_ProjectionStatusPath c, False),
             (''DebugPath'', su_DebugPath c, False), (''LivePath'', su_LivePath c, False),
             (''SSEPath'', su_SSEPath c, False), (''SSEScriptPath'', su_SSEScriptPath c, True),
             (''DataStarPath'', su_DataStarPath c, False), (''DataStarScriptPath'', su_DataStarScriptPath c, True),
             (''DocsPath'', su_DocsPath c, False)]"
  from assms have "first_some (\<lambda>(name, path, allowDash).
      if path = [] \<or> (allowDash \<and> path = ''-'') then None
      else if \<not> startsWithSlash path then Some (must_start q name [] path) else None) ?paths = None"
    unfolding validateOptionalFeedPaths_def by (rule case_Some_None)
  note on = off_or_rooted [OF this]
  show "su_EventCatalogPath c = [] \<or> startsWithSlash (su_EventCatalogPath c)"
    using on [of "''EventCatalogPath''" "su_EventCatalogPath c" False] by simp
  show "su_ProjectionStatusPath c = [] \<or> startsWithSlash (su_ProjectionStatusPath c)"
    using on [of "''ProjectionStatusPath''" "su_ProjectionStatusPath c" False] by simp
  show "su_DebugPath c = [] \<or> startsWithSlash (su_DebugPath c)"
    using on [of "''DebugPath''" "su_DebugPath c" False] by simp
  show "su_SSEPath c = [] \<or> startsWithSlash (su_SSEPath c)"
    using on [of "''SSEPath''" "su_SSEPath c" False] by simp
  show "su_SSEScriptPath c = [] \<or> su_SSEScriptPath c = ''-'' \<or> startsWithSlash (su_SSEScriptPath c)"
    using on [of "''SSEScriptPath''" "su_SSEScriptPath c" True] by simp
  show "su_DataStarPath c = [] \<or> startsWithSlash (su_DataStarPath c)"
    using on [of "''DataStarPath''" "su_DataStarPath c" False] by simp
  show "su_DataStarScriptPath c = [] \<or> su_DataStarScriptPath c = ''-'' \<or> startsWithSlash (su_DataStarScriptPath c)"
    using on [of "''DataStarScriptPath''" "su_DataStarScriptPath c" True] by simp
  show "su_DocsPath c = [] \<or> startsWithSlash (su_DocsPath c)"
    using on [of "''DocsPath''" "su_DocsPath c" False] by simp
qed

definition mountable :: "('svc, 'store, 'bus, 'w) setup_config \<Rightarrow> bool" where
  "mountable c \<longleftrightarrow> list_all (\<lambda>(name, p). startsWithSlash p \<longrightarrow> plain_path p \<and> hd (segments (tl p)) \<noteq> ''auth'') (mount_paths c)"

lemma accepted_distinct:
  assumes "requireDistinctPaths q c = None" and "validatePathRoots q c = None"
  shows "distinct (filter startsWithSlash (''/'' # map snd (mount_paths c)))"
proof -
  have trim: "setup_trimTrailingSlash a \<noteq> [] \<and> setup_trimTrailingSlash a \<noteq> ''-''" if "startsWithSlash a" for a
    using that by (cases a rule: rev_cases) (auto simp: setup_trimTrailingSlash_def startsWithSlash_def slash_def nth_append
      split: if_splits)
  have apart: "distinct (filter startsWithSlash (map snd ps))"
    if "sorted_wrt (\<lambda>(n, a) (n', b). a = [] \<or> b = [] \<or> a = ''-'' \<or> b = ''-'' \<or> a \<noteq> b)
      (map (\<lambda>(name, path). (name, setup_trimTrailingSlash path)) ps)" for ps :: "(string \<times> string) list"
    using that by (induction ps) (use trim in fastforce)+
  from assms(2) have "''/'' \<notin> set (map snd (mount_paths c))"
    by (auto simp: validatePathRoots_def first_some_None split: if_splits)
  with apart [OF distinct_paths_None [OF assms(1) [unfolded requireDistinctPaths_def]]] show ?thesis by auto
qed

text \<open>The paths in the order of the routes.\<close>

definition own_paths :: "('svc, 'store, 'bus, 'w) setup_config \<Rightarrow> string list" where
  "own_paths c =
     [''/''] @ ([su_AdminPath c] @ [su_DashboardPath c])
     @ ([su_SSEScriptPath c] @ [su_SSEPath c] @ [su_DataStarScriptPath c] @ [su_DataStarPath c])
     @ ([su_EventCatalogPath c] @ [su_ProjectionStatusPath c] @ [su_DebugPath c] @ [su_DocsPath c])
     @ ([su_HealthPath c] @ [su_LivePath c])"

lemma own_paths_mount: "mset (own_paths c) = mset (''/'' # map snd (mount_paths c))"
  by (simp add: own_paths_def mount_paths_def ac_simps)

lemma when_row_part:
  "(c \<Longrightarrow> startsWithSlash p) \<Longrightarrow>
   mset (map mr_Pattern (when_row c (handle_row p g t))) \<subseteq># mset (filter startsWithSlash [p])"
  by (simp add: when_row_def handle_row_def)

lemma own_rows_part:
  assumes "setup_validate V q (bd_config b) = None" and "full_bundle b \<or> shell_bundle b"
  shows "mset (map mr_Pattern (own_rows b)) \<subseteq># mset (filter startsWithSlash (own_paths (bd_config b)))"
proof -
  let ?c = "bd_config b"
  note v = setup_valid [OF assms(1)]
  note s = shapes_ok [OF v(6)] optional_ok [OF shapes_ok(6) [OF v(6)]]
  have feed: "bd_DataStarBroadcaster b \<Longrightarrow> startsWithSlash (su_DataStarPath ?c)"
    using s(12) assms(2) by (auto simp: full_bundle_def shell_bundle_def)
  have "startsWithSlash ''/''" by (simp add: startsWithSlash_def slash_def)
  with s feed show ?thesis
    unfolding own_rows_def panel_rows_def mountEventFeeds_def mountMachineEndpoints_def probe_rows_def own_paths_def
      Let_def map_append filter_append mset_append
    by (intro subset_mset.add_mono when_row_part) (auto simp: served_path_def)
qed

lemma own_rows_distinct:
  assumes "setup_validate V q (bd_config b) = None" and "full_bundle b \<or> shell_bundle b"
  shows "distinct (map mr_Pattern (own_rows b))"
    and "mr_Pattern ` set (own_rows b) \<subseteq> set (filter startsWithSlash (''/'' # map snd (mount_paths (bd_config b))))"
proof -
  let ?ps = "filter startsWithSlash (''/'' # map snd (mount_paths (bd_config b)))"
  note v = setup_valid [OF assms(1)]
  have part: "mset (map mr_Pattern (own_rows b)) \<subseteq># mset ?ps"
    using own_rows_part [OF assms] own_paths_mount [of "bd_config b"] by (simp only: mset_filter)
  have d: "distinct ?ps" using accepted_distinct [OF v(9,7)] .
  have "count (mset (map mr_Pattern (own_rows b))) p \<le> 1" for p
    using mset_subset_eq_count [OF part, of p] d [THEN distinct_count_atmost_1 [THEN iffD1, rule_format], of p]
    by (auto split: if_splits)
  then show "distinct (map mr_Pattern (own_rows b))"
    by (metis count_mset_0_iff distinct_count_atmost_1 le_SucE le_zero_eq numeral_nat(7))
  show "mr_Pattern ` set (own_rows b) \<subseteq> set ?ps" using set_mset_mono [OF part] by simp
qed

lemma own_row_plain:
  assumes "setup_validate V q (bd_config b) = None" and "full_bundle b \<or> shell_bundle b" and "mountable (bd_config b)"
    and "r \<in> set (own_rows b)"
  shows "plain_path (mr_Pattern r)" and "hd (segments (tl (mr_Pattern r))) \<noteq> ''auth''"
proof -
  have root: "plain_path ''/''" "hd (segments (tl ''/'')) \<noteq> ''auth''" by code_simp+
  from own_rows_distinct(2) [OF assms(1,2)] assms(4)
  have "mr_Pattern r = ''/'' \<or> startsWithSlash (mr_Pattern r) \<and> mr_Pattern r \<in> snd ` set (mount_paths (bd_config b))"
    unfolding set_filter list.set(2) set_map by blast
  with assms(3) root show "plain_path (mr_Pattern r)" "hd (segments (tl (mr_Pattern r))) \<noteq> ''auth''"
    unfolding mountable_def list_all_iff by fastforce+
qed

text \<open>The routes of the auth handler have a method each and are below \<open>/auth/\<close>, and no two of them conflict.\<close>

definition auth_row_ok :: "bundle_row \<Rightarrow> bool" where
  "auth_row_ok r \<longleftrightarrow> mr_Method r \<noteq> []
     \<and> (case parse_pattern (mr_Pattern r) of Lit s # q \<Rightarrow> s = ''auth'' \<and> \<not> last_multi (Lit s # q) | _ \<Rightarrow> False)"

lemma auth_rows_ok: "list_all auth_row_ok auth_rows"
  by code_simp

fun rows_apart :: "'h mux_row list \<Rightarrow> bool" where
  "rows_apart [] \<longleftrightarrow> True"
| "rows_apart (r # rs) \<longleftrightarrow> list_all (\<lambda>r'. \<not> conflictsWith r' r) rs \<and> rows_apart rs"

lemma rows_apart_sorted: "rows_apart rs \<longleftrightarrow> sorted_wrt (\<lambda>r r'. \<not> conflictsWith r' r) rs"
  by (induction rs) (auto simp: list_all_iff)

lemma auth_rows_apart: "rows_apart auth_rows"
  by code_simp

lemma own_rows_apart:
  assumes "setup_validate V q (bd_config b) = None" and "full_bundle b \<or> shell_bundle b" and "mountable (bd_config b)"
  shows "sorted_wrt (\<lambda>r r'. \<not> conflictsWith r' r) (own_rows b)"
proof -
  have differ: "\<not> conflictsWith r' r" if "r \<in> set (own_rows b)" "r' \<in> set (own_rows b)" "mr_Pattern r \<noteq> mr_Pattern r'" for r r'
  proof -
    note plain = own_row_plain(1) [OF assms that(1)] own_row_plain(1) [OF assms that(2)]
    have "mr_Method r' = mr_Method r" using that(1,2) by (simp add: own_row_method)
    from literal_rows_conflict [OF this plain_literal(1) [OF plain(2)] plain_literal(1) [OF plain(1)]]
    show ?thesis using plain_parse_inj [OF plain(2,1)] that(3) by auto
  qed
  have "sorted_wrt (\<lambda>r r'. mr_Pattern r \<noteq> mr_Pattern r') rs" if "distinct (map mr_Pattern rs)" for rs :: "bundle_row list"
    using that by (induction rs) auto
  from this [OF own_rows_distinct(1) [OF assms(1,2)]] show ?thesis
    by (rule sorted_wrt_mono_rel [rotated]) (use differ in blast)
qed

lemma own_auth_apart:
  assumes "setup_validate V q (bd_config b) = None" and "full_bundle b \<or> shell_bundle b" and "mountable (bd_config b)"
    and "r \<in> set (own_rows b)" and "r' \<in> set auth_rows"
  shows "\<not> conflictsWith r r'"
proof -
  note plain = own_row_plain [OF assms(1-4)]
  from auth_rows_ok assms(5) have ok: "auth_row_ok r'" by (simp add: list_all_iff)
  then obtain tail where tail: "parse_pattern (mr_Pattern r') = Lit ''auth'' # tail" "\<not> last_multi (Lit ''auth'' # tail)"
    "mr_Method r' \<noteq> []"
    by (auto simp: auth_row_ok_def split: list.splits pat_seg.splits)
  have "parse_pattern (mr_Pattern r) \<noteq> Lit ''auth'' # p" for p
    using plain plain_segments [OF plain(1)]
    by (cases "segments (tl (mr_Pattern r))") (auto simp: parse_pattern_def pattern_segs_plain split: if_splits)
  from first_segment_apart [OF own_row_method [OF assms(4)] tail(3,1) plain_literal [OF plain(1)] this tail(2)]
  show ?thesis .
qed

text \<open>The panel of a bundle is configured without a posture of its own, so it states the default one.\<close>

lemma admin_withDefaults_posture:
  "admin_withDefaults U s config = Inr config' \<Longrightarrow> ad_AuthorizerPosture config' = ad_AuthorizerPosture config"
  by (auto simp: admin_withDefaults_def admin_textDefaults_def Let_def split: if_splits option.splits)

lemma bundle_admin_posture:
  assumes "newBundle E c = (Inr b, closed)" and "bd_Admin b = Some admin"
  shows "authorizerPosture admin = PostureRoleGated_text"
proof -
  have first: "ad_AuthorizerPosture a = []" if "attachAdmin E b0 = Inr b1" "bd_Admin b0 = None" "bd_Admin b1 = Some a" for b0 b1 a
    using that by (auto simp: attachAdmin_def Let_def dest: admin_withDefaults_posture split: if_splits sum.splits)
  have keeps: "attachDashboard E b0 = Inr b1 \<Longrightarrow> bd_Admin b1 = bd_Admin b0"
    "attachLogin E b0 = Inr b1 \<Longrightarrow> bd_Admin b1 = bd_Admin b0" "attachSSE E b0 = Inr b1 \<Longrightarrow> bd_Admin b1 = bd_Admin b0"
    "attachMachineEndpoints E b0 = Inr b1 \<Longrightarrow> bd_Admin b1 = bd_Admin b0" for b0 b1
    by (auto simp: attachDashboard_def attachLogin_def attachSSE_def attachMachineEndpoints_def Let_def
      split: if_splits sum.splits option.splits)
  have "ad_AuthorizerPosture admin = []"
  proof (cases "su_DisableService (setup_withDefaults c)")
    case True
    with newBundle_cases(1,3) [OF assms(1)] assms(2) show ?thesis by (simp add: shell_bundle_def)
  next
    case False
    with assms(1) obtain svc owns where "finish_bundle E (base_bundle E (setup_withDefaults c) svc owns) = (Inr b, closed)"
      by (auto simp: newBundle_def Let_def split: option.splits sum.splits)
    then have "attach_all E (base_bundle E (setup_withDefaults c) svc owns) = Inr b"
      by (auto simp: finish_bundle_def split: sum.splits)
    then obtain b1 b2 b3 b4 where steps: "attachAdmin E (base_bundle E (setup_withDefaults c) svc owns) = Inr b1"
      "attachDashboard E b1 = Inr b2" "attachLogin E b2 = Inr b3" "attachSSE E b3 = Inr b4"
      "attachMachineEndpoints E b4 = Inr b"
      unfolding attach_all_def attachPanels_def on_ok_Inr by blast
    have "bd_Admin b1 = Some admin" using keeps steps(2-5) assms(2) by metis
    with first [OF steps(1)] show ?thesis by (simp add: base_bundle_def)
  qed
  then show ?thesis by (simp add: authorizerPosture_def)
qed

text \<open>The posture a route has by the gate it is behind, and the admin panel by what its own manifest states; the auth
  routes, which have their gates within, are one entry.\<close>

definition row_posture :: "('svc, 'store, 'bus, 'w) app_bundle \<Rightarrow> bundle_row \<Rightarrow> string" where
  "row_posture b r =
     (case mr_Handler r of
        (gate, AuthEndpoint scoped route) \<Rightarrow> PostureUngated_text
      | (gate, AdminTarget) \<Rightarrow>
          (case bd_Admin b of Some admin \<Rightarrow> authorizerPosture admin | None \<Rightarrow> PosturePublic_text)
      | (SessionRequired, DashboardTarget) \<Rightarrow>
          (if su_DashboardAuthorizer (bd_config b) \<noteq> None then PostureRoleGated_text else PostureAuthenticated_text)
      | (SessionRequired, target) \<Rightarrow> PostureAuthenticated_text
      | (gate, target) \<Rightarrow> PosturePublic_text)"

definition manifest_pattern :: "bundle_row \<Rightarrow> string" where
  "manifest_pattern r = (case snd (mr_Handler r) of AuthEndpoint scoped route \<Rightarrow> ''/auth/*'' | _ \<Rightarrow> mr_Pattern r)"

definition own_postures :: "('svc, 'store, 'bus, 'w) app_bundle \<Rightarrow> posture_entry list" where
  "own_postures b = filter (\<lambda>p. rp_Posture p \<noteq> PostureUngated_text) (RoutePostures b)"

lemmas posture_texts = PosturePublic_text_def PostureAuthenticated_text_def PostureRoleGated_text_def
  PostureUngated_text_def

lemma set_when_row: "set (when_row c r) = (if c then {r} else {})"
  by (simp add: when_row_def)

lemma image_if: "f ` (if c then {x} else {}) = (if c then {f x} else {})"
  by simp

lemma filter_when_row: "filter P (when_row c r) = when_row (c \<and> P r) r"
  by (simp add: when_row_def)

text \<open>Every part of the routes and the same part of the manifest agree.\<close>

abbreviation (input) routes_of :: "('svc, 'store, 'bus, 'w) app_bundle \<Rightarrow> bundle_row list \<Rightarrow> (string \<times> string) set" where
  "routes_of b rows \<equiv> (\<lambda>r. (mr_Pattern r, row_posture b r)) ` set rows"

abbreviation (input) postures_of :: "posture_entry list \<Rightarrow> (string \<times> string) set" where
  "postures_of ps \<equiv> (\<lambda>p. (rp_Pattern p, rp_Posture p)) ` set ps"

lemma feeds_agree:
  assumes "full_bundle b \<or> shell_bundle b"
  shows "routes_of b (mountEventFeeds b) = postures_of (feedPostures b)"
proof -
  have "bd_DataStarBroadcaster b \<Longrightarrow> su_DataStarPath (bd_config b) \<noteq> []"
    using assms by (auto simp: full_bundle_def shell_bundle_def)
  then show ?thesis
    by (auto simp: mountEventFeeds_def feedPostures_def set_when_row image_Un handle_row_def posture_row_def row_posture_def Let_def)
qed

lemma machine_agree: "routes_of b (mountMachineEndpoints b) = postures_of (machineEndpointPostures b)"
  by (simp add: mountMachineEndpoints_def machineEndpointPostures_def set_when_row image_Un image_if handle_row_def
    posture_row_def machine_posture_def row_posture_def Let_def del: image_insert image_is_empty)

lemma probes_agree: "routes_of b (probe_rows b) = postures_of (probePostures b)"
  by (simp add: probe_rows_def probePostures_def set_when_row image_Un image_if handle_row_def posture_row_def
    row_posture_def Let_def)

lemma parts_not_ungated:
  "filter (\<lambda>p. rp_Posture p \<noteq> PostureUngated_text) (feedPostures b) = feedPostures b"
  "filter (\<lambda>p. rp_Posture p \<noteq> PostureUngated_text) (machineEndpointPostures b) = machineEndpointPostures b"
  "filter (\<lambda>p. rp_Posture p \<noteq> PostureUngated_text) (probePostures b) = probePostures b"
  by (simp_all add: feedPostures_def machineEndpointPostures_def probePostures_def Let_def filter_when_row posture_row_def
    machine_posture_def posture_texts)

lemma manifest_agrees:
  assumes "full_bundle b \<or> shell_bundle b" and "\<And>admin. bd_Admin b = Some admin \<Longrightarrow> authorizerPosture admin = PostureRoleGated_text"
  shows "routes_of b (own_rows b) = postures_of (own_postures b)"
proof -
  have "own_postures b =
      when_row (bd_Login b \<noteq> None) (posture_row GET ''/'' PosturePublic_text ''the login page is the anonymous entry point'')
      @ when_row (bd_Admin b \<noteq> None) (posture_row ''*'' (su_AdminPath (bd_config b)) PostureRoleGated_text
          (''session + CSRF + the admin authorizer (role-based by default: super_admin/admin globally, ''
           @ ''admin/owner per tenant)''))
      @ when_row (bd_Dashboard b \<noteq> None)
          (if su_DashboardAuthorizer (bd_config b) \<noteq> None
           then posture_row ''*'' (su_DashboardPath (bd_config b)) PostureRoleGated_text
             ''RequireSession + the configured DashboardAuthorizer (403 for callers it refuses)''
           else posture_row ''*'' (su_DashboardPath (bd_config b)) PostureAuthenticated_text
             ''RequireSession: the dashboard renders event payloads and stream IDs, so it must never be public'')
      @ feedPostures b @ machineEndpointPostures b @ probePostures b"
    unfolding own_postures_def RoutePostures_def Let_def filter_append parts_not_ungated filter_when_row
    by (simp add: posture_row_def posture_texts when_row_def)
  then show ?thesis
    unfolding own_rows_def set_append image_Un feeds_agree [OF assms(1)] machine_agree probes_agree
    using assms(2)
    by (cases "bd_Admin b") (simp_all add: panel_rows_def set_when_row image_Un handle_row_def posture_row_def row_posture_def Let_def Un_assoc)
qed

definition data_targets :: "bundle_target set" where
  "data_targets = {DashboardTarget, SSETarget, DataStarTarget, CatalogTarget, StatusTarget, DebugTarget, DocsTarget}"

lemma all_postures:
  "postures_of (RoutePostures b)
    = (if bd_Auth b \<noteq> None then {(''/auth/*'', PostureUngated_text)} else {}) \<union> postures_of (own_postures b)"
proof -
  let ?why = "''usermgmt enforces per-route postures itself (public ceremonies, self-wrapped 401 session routes ''
    @ em_dash @ '' ADR-0055); this layer adds no gate''"
  have "RoutePostures b = when_row (bd_Auth b \<noteq> None) (posture_row ''*'' ''/auth/*'' PostureUngated_text ?why) @ own_postures b"
    unfolding own_postures_def RoutePostures_def Let_def filter_append parts_not_ungated filter_when_row
    by (simp add: posture_row_def posture_texts when_row_def)
  then have "postures_of (RoutePostures b) = postures_of (when_row (bd_Auth b \<noteq> None)
      (posture_row ''*'' ''/auth/*'' PostureUngated_text ?why)) \<union> postures_of (own_postures b)"
    by (simp only: set_append image_Un)
  then show ?thesis by (simp add: set_when_row posture_row_def)
qed

lemma own_manifest: "r \<in> set (own_rows b) \<Longrightarrow> manifest_pattern r = mr_Pattern r"
  by (auto simp: own_rows_def panel_rows_def mountEventFeeds_def mountMachineEndpoints_def probe_rows_def handle_row_def
    manifest_pattern_def Let_def)

lemma auth_row:
  assumes "r \<in> set auth_rows"
  shows "manifest_pattern r = ''/auth/*''" and "row_posture b r = PostureUngated_text" and "fst (mr_Handler r) = NoGate"
    and "snd (mr_Handler r) \<notin> data_targets" and "snd (mr_Handler r) \<noteq> AdminTarget"
  using assms by (auto simp: auth_rows_def manifest_pattern_def row_posture_def data_targets_def)

lemma full_manifest:
  assumes "full_bundle b \<or> shell_bundle b" and "\<And>admin. bd_Admin b = Some admin \<Longrightarrow> authorizerPosture admin = PostureRoleGated_text"
  shows "(\<lambda>r. (manifest_pattern r, row_posture b r)) ` set (Mount b) = postures_of (RoutePostures b)"
proof -
  have "(\<lambda>r. (manifest_pattern r, row_posture b r)) ` set auth_rows = {(''/auth/*'', PostureUngated_text)}"
  proof -
    have "(\<lambda>r. (manifest_pattern r, row_posture b r)) ` set auth_rows = (\<lambda>r. (''/auth/*'', PostureUngated_text)) ` set auth_rows"
      by (rule image_cong) (simp_all add: auth_row(1,2))
    moreover have "auth_rows \<noteq> []" by code_simp
    ultimately show ?thesis by (simp only: image_constant_conv set_empty) simp
  qed
  moreover have "(\<lambda>r. (manifest_pattern r, row_posture b r)) ` set (own_rows b) = routes_of b (own_rows b)"
    by (rule image_cong) (simp_all add: own_manifest)
  ultimately show ?thesis
    using manifest_agrees [OF assms] unfolding Mount_rows set_append image_Un all_postures by simp
qed

text \<open>The gates: what carries events is behind \<open>RequireSession\<close>, and a gate is only mounted where there is a service it can
  ask.\<close>

lemma own_gates:
  assumes "r \<in> set (own_rows b)"
  shows "snd (mr_Handler r) \<in> data_targets \<Longrightarrow> fst (mr_Handler r) = SessionRequired"
    and "snd (mr_Handler r) = AdminTarget \<Longrightarrow> fst (mr_Handler r) = SessionCSRF"
  using assms by (auto simp: own_rows_def panel_rows_def mountEventFeeds_def mountMachineEndpoints_def probe_rows_def
    handle_row_def data_targets_def Let_def)

lemma shell_ungated:
  assumes "validateDisableService c = None" and "su_DisableService c"
  shows "su_EventCatalogPath c = []" and "su_ProjectionStatusPath c = []" and "su_DebugPath c = []" and "su_DocsPath c = []"
proof -
  from assms have "disableServiceGatedSurfaces c = []"
    by (auto simp: validateDisableService_def Let_def split: if_splits)
  then show "su_EventCatalogPath c = []" "su_ProjectionStatusPath c = []" "su_DebugPath c = []" "su_DocsPath c = []"
    by (auto simp: disableServiceGatedSurfaces_def split: if_splits)
qed

lemma gate_has_service:
  assumes "su_DisableService (bd_config b) \<and> shell_bundle b \<or> \<not> su_DisableService (bd_config b) \<and> full_bundle b"
    and "validateDisableService (bd_config b) = None" and "r \<in> set (own_rows b)" and "fst (mr_Handler r) \<noteq> NoGate"
  shows "bd_Service b \<noteq> None"
proof (cases "su_DisableService (bd_config b)")
  case True
  note off = shell_ungated [OF assms(2) True]
  from True assms(1) have "shell_bundle b" by simp
  with assms(3,4) off have False
    by (auto simp: own_rows_def panel_rows_def mountEventFeeds_def mountMachineEndpoints_def probe_rows_def handle_row_def
      shell_bundle_def Let_def)
  then show ?thesis ..
next
  case False
  with assms(1) show ?thesis by (simp add: full_bundle_def)
qed

lemma same_cookie:
  assumes "full_bundle b \<or> shell_bundle b" and "validateAuthHandlerConfig q (bd_config b) = None"
    and "su_CookieName (bd_config b) \<noteq> []" and "bd_Auth b = Some h"
  shows "hc_CookieName (applyConfigDefaults h) = su_CookieName (bd_config b)"
proof -
  from assms(1,4) have "h = resolveAuthHandlerConfig (bd_config b) HandlerConfig_zero"
    by (auto simp: full_bundle_def shell_bundle_def split: if_splits)
  with assms(2,3) show ?thesis
    by (auto simp: resolveAuthHandlerConfig_def validateAuthHandlerConfig_def applyConfigDefaults_def Let_def
      split: option.splits if_splits)
qed

text \<open>C39. A bundle whose paths are plain and outside \<open>/auth\<close> can be mounted: no two of its routes conflict, so the
  router takes them all. What carries events is behind the session gate and the admin panel behind the session and CSRF
  gate; a gate is only mounted with a service to ask; the manifest of the postures names every mounted route (the auth
  routes as one entry, ungated here), each with the posture of the gate it is mounted behind, the admin panel with the
  one its own manifest states - the methods the manifest names are not compared; and the auth handler writes the cookie
  the session gate reads.\<close>

theorem bundle_routes_sound:
  assumes "newBundle E c = (Inr b, closed)" and "mountable (bd_config b)"
  shows "mux_register [] (Mount b) = Some (Mount b)
    \<and> (\<forall>r\<in>set (Mount b).
          (snd (mr_Handler r) \<in> data_targets \<longrightarrow> fst (mr_Handler r) = SessionRequired)
          \<and> (snd (mr_Handler r) = AdminTarget \<longrightarrow> fst (mr_Handler r) = SessionCSRF)
          \<and> (fst (mr_Handler r) \<noteq> NoGate \<longrightarrow> bd_Service b \<noteq> None))
    \<and> (\<lambda>r. (manifest_pattern r, row_posture b r)) ` set (Mount b)
        = (\<lambda>p. (rp_Pattern p, rp_Posture p)) ` set (RoutePostures b)
    \<and> (\<forall>h. bd_Auth b = Some h \<longrightarrow> hc_CookieName (applyConfigDefaults h) = su_CookieName (bd_config b))"
proof -
  note n = newBundle_cases [OF assms(1)]
  note v = setup_valid [OF n(2)]
  from n(3) have kind: "full_bundle b \<or> shell_bundle b" by blast
  have "sorted_wrt (\<lambda>r r'. \<not> conflictsWith r' r) (Mount b)"
    using own_auth_apart [OF n(2) kind assms(2)] own_rows_apart [OF n(2) kind assms(2)] auth_rows_apart
    unfolding Mount_rows rows_apart_sorted by (simp add: sorted_wrt_append)
  from mux_register_Some [OF _ this, of "[]"] have "mux_register [] (Mount b) = Some (Mount b)" by simp
  moreover have "(snd (mr_Handler r) \<in> data_targets \<longrightarrow> fst (mr_Handler r) = SessionRequired)
      \<and> (snd (mr_Handler r) = AdminTarget \<longrightarrow> fst (mr_Handler r) = SessionCSRF)
      \<and> (fst (mr_Handler r) \<noteq> NoGate \<longrightarrow> bd_Service b \<noteq> None)" if "r \<in> set (Mount b)" for r
  proof (cases "r \<in> set (own_rows b)")
    case True
    with own_gates gate_has_service [OF n(3) v(1)] show ?thesis by blast
  next
    case False
    with that have "r \<in> set auth_rows" by (auto simp: Mount_rows split: if_splits)
    with auth_row show ?thesis by blast
  qed
  ultimately show ?thesis
    using full_manifest [OF kind bundle_admin_posture [OF assms(1)]] same_cookie [OF kind v(4) shapes_ok(5) [OF v(6)]]
    by blast
qed

definition demo_setup_env :: "(nat, nat, nat, nat) setup_env" where
  "demo_setup_env =
     \<lparr> se_err = demo_err_env, se_ready = \<lparr> rd_err = demo_err_env, rd_quote = id, rd_duration = (\<lambda>d. []) \<rparr>, se_quote = id,
       se_lower = id, se_NewService = (\<lambda>c. Inr 7), se_CloseService = (\<lambda>svc. None), se_Journal = (\<lambda>svc. 1),
       se_EventBus = (\<lambda>svc. 2), se_isJournal = (\<lambda>st. True), se_NewMemoryStore = 3, se_NewEventBus = 4,
       se_Use = (\<lambda>bus. None), se_SubscribeAll = (\<lambda>bus. None), se_sources = (\<lambda>svc. no_sources),
       se_login = (\<lambda>svc. \<lparr> ls_HasWebAuthn = False, ls_ConfiguredOAuth2Providers = [] \<rparr>), se_marshal = (\<lambda>c. None),
       se_catalog = None, se_statuses = (\<lambda>svc w. []), se_hub = (\<lambda>w. \<lparr> hh_Closed = False, hh_Draining = False, hh_SubscriberCount = 0, hh_BufferSize = 8 \<rparr>), se_HasAdminGrant = (\<lambda>svc t. Inr True) \<rparr>"

definition demo_setup_config :: "(nat, nat, nat, nat) setup_config" where
  "demo_setup_config =
     \<lparr> su_TOTP = False, su_WebAuthn = False, su_OAuth2 = False, su_Service = None, su_ServiceConfig = False,
       su_Observability = False, su_EventStore = None, su_EventBus = None, su_ReadModelDB = None, su_SSEPath = ''/events'',
       su_SSEHeartbeatInterval = 0, su_SSEMaxReplay = 0, su_SSEScriptPath = [], su_DataStarPath = ''/stream'',
       su_DataStarScriptPath = [], su_Title = [], su_AccentColor = [], su_AdminPath = [], su_DashboardPath = [],
       su_LoginRedirect = [], su_HealthPath = [], su_HealthChecks = [], su_LivePath = ''/livez'', su_EventCatalogPath = [],
       su_ProjectionStatusPath = [], su_DebugPath = ''/debug'', su_DocsPath = [], su_DocsHandler = False,
       su_CookieName = [], su_SessionTTL = 0, su_AuthHandlerConfig = None, su_Logger = False, su_AdminMode = 0,
       su_TenantID = NewTenantID [], su_AdminAuthorizer = None, su_AdminExtraNav = [], su_AdminDashboardURL = [],
       su_DashboardAuthorizer = None, su_DashboardExtraNav = [], su_OnProjectionFailed = False, su_NonceFunc = None,
       su_AsyncStartup = False, su_DashboardReadOnly = None, su_DashboardPageSize = 0, su_LoginNoRegistration = False,
       su_LoginAutoRedirect = False, su_LoginCSSPath = [], su_DisableAdmin = False, su_DisableDashboard = True,
       su_DisableLogin = True, su_DisableAuth = False, su_DisableService = False \<rparr>"

text \<open>The answer of \<open>newBundle\<close>, when it is a bundle.\<close>

definition built :: "(err + ('svc, 'store, 'bus, 'w) app_bundle) \<times> 'svc list \<Rightarrow> (('svc, 'store, 'bus, 'w) app_bundle \<Rightarrow> bool) \<Rightarrow> bool" where
  "built x P \<longleftrightarrow> (case fst x of Inl e \<Rightarrow> False | Inr b \<Rightarrow> P b)"

lemma bundle_routes_sound_witness:
  "built (newBundle demo_setup_env demo_setup_config) (\<lambda>b. mountable (bd_config b)
     \<and> map mr_Pattern (own_rows b)
       = [''/admin/'', ''/sse.js'', ''/events'', ''/datastar.js'', ''/stream'', ''/debug'', ''/health'', ''/livez'']
     \<and> mux_register [] (Mount b) = Some (Mount b))"
proof -
  have run: "built (newBundle demo_setup_env demo_setup_config) (\<lambda>b. mountable (bd_config b)
     \<and> map mr_Pattern (own_rows b)
       = [''/admin/'', ''/sse.js'', ''/events'', ''/datastar.js'', ''/stream'', ''/debug'', ''/health'', ''/livez''])"
    by code_simp
  then obtain b closed where new: "newBundle demo_setup_env demo_setup_config = (Inr b, closed)"
    by (cases "newBundle demo_setup_env demo_setup_config") (auto simp: built_def split: sum.splits)
  with run have "mountable (bd_config b)" by (simp add: built_def)
  from bundle_routes_sound [OF new this] run new show ?thesis by (simp add: built_def)
qed

end
