(* ===== verification/Decode.thy ===== *)
theory Decode
  imports Request_Pipeline Url_Query Expiry Dashboard_Journal
begin

text \<open>
  Decoding requests (\<open>decoder.go\<close>) and the options that install decoders, validators and limits
  (\<open>options_decode.go\<close>, \<open>options_validate.go\<close>, \<open>options_json.go\<close>, parts of \<open>options_types.go\<close> and \<open>app.go\<close>). The
  JSON and form decoders, the media types and the query parser of the libraries are arguments, and so are the
  failures of reading from the network.
\<close>

section \<open>Reading the body\<close>

definition DefaultMaxBodySize :: int where "DefaultMaxBodySize = 10 * 2 ^ 20"

text \<open>What the libraries answer: errors of reading and closing the body, the media type of a header, the values and
  the error of \<open>url.ParseQuery\<close> for a body, and the error of the request's own query.\<close>

record decode_env =
  de_lower :: "string \<Rightarrow> string"
  de_read_err :: "http_request \<Rightarrow> err option"
  de_close_err :: "http_request \<Rightarrow> err option"
  de_media_type :: "string \<Rightarrow> err + string"
  de_body_values :: "bytes \<Rightarrow> (string \<times> string list) list \<times> err option"
  de_query_err :: "http_request \<Rightarrow> err option"

definition body_limit :: "int \<Rightarrow> int" where
  "body_limit maxBodySize = (if maxBodySize \<le> 0 then DefaultMaxBodySize else maxBodySize)"

text \<open>The limited reader yields one byte more than the limit at most.\<close>

definition readBody :: "decode_env \<Rightarrow> http_request \<Rightarrow> int \<Rightarrow> err + bytes" where
  "readBody D r maxBodySize =
     (case hr_Body r of
        None \<Rightarrow> Inr []
      | Some sent \<Rightarrow>
          (let limit = body_limit maxBodySize; body = take (nat (limit + 1)) sent in
           case de_read_err D r of
             Some e \<Rightarrow> Inl (wrap_error Rejection e ''cqrshtmx.decode.body.read_failed''
                        (''read body (maxBodySize='' @ show_int limit @ '')''))
           | None \<Rightarrow>
               (case de_close_err D r of
                  Some e \<Rightarrow> Inl (wrap_error Rejection e ''cqrshtmx.decode.body.close_failed''
                             (''close body (maxBodySize='' @ show_int limit @ '')''))
                | None \<Rightarrow>
                    if int (length body) > limit then
                      Inl (Fam Rejection ''cqrshtmx.decode.body.too_large''
                             (''body of '' @ show_nat (length body) @ '' bytes exceeds limit'') 0
                             [(''max_body_size'', show_int limit)] (Some (Sentinel ErrRequestTooLarge)))
                    else Inr body)))"

definition readBodyForDecode :: "decode_env \<Rightarrow> http_request \<Rightarrow> int \<Rightarrow> string \<Rightarrow> err + bytes" where
  "readBodyForDecode D r maxBodySize errCode =
     map_err (\<lambda>e. wrap_error Rejection e errCode (''maxBodySize='' @ show_int maxBodySize)) (readBody D r maxBodySize)"

text \<open>\<open>unmarshal\<close> decodes into the type of the handler, \<open>zero\<close> is its zero value.\<close>

definition decodeJSONBody ::
  "decode_env \<Rightarrow> (bytes \<Rightarrow> err + 't) \<Rightarrow> 't \<Rightarrow> http_request \<Rightarrow> int \<Rightarrow> err + 't" where
  "decodeJSONBody D unmarshal zero r maxBodySize =
     on_ok (readBodyForDecode D r maxBodySize ''cqrshtmx.decode.json.read_failed'') (\<lambda>body.
       if length body = 0 then Inr zero
       else map_err (\<lambda>e. wrap_error Rejection e ''cqrshtmx.decode.json.unmarshal_failed''
                          (''maxBodySize='' @ show_int maxBodySize @ '': decode JSON'')) (unmarshal body))"

section \<open>Forms\<close>

text \<open>\<open>Request.ParseForm\<close>: only three methods have a form in their body, and only of one media type.\<close>

definition form_media_type :: string where "form_media_type = ''application/x-www-form-urlencoded''"

definition parsePostForm :: "decode_env \<Rightarrow> http_request \<Rightarrow> bytes \<Rightarrow> (string \<times> string list) list \<times> err option" where
  "parsePostForm D r body =
     (let ct = Header_Get r ''Content-Type''; ct = (if ct = [] then ''application/octet-stream'' else ct) in
      case de_media_type D ct of
        Inl e \<Rightarrow> ([], Some e)
      | Inr media \<Rightarrow> if media = form_media_type then de_body_values D body else ([], None))"

definition ParseForm :: "decode_env \<Rightarrow> http_request \<Rightarrow> bytes \<Rightarrow> (string \<times> string list) list \<times> err option" where
  "ParseForm D r body =
     (case (if hr_Method r \<in> {''POST'', ''PUT'', ''PATCH''} then parsePostForm D r body else ([], None)) of
        (post, e) \<Rightarrow> (post, case e of Some e' \<Rightarrow> Some e' | None \<Rightarrow> de_query_err D r))"

text \<open>Keys are compared in lower case; a second key of the same name is refused. The order of a map is any order.\<close>

fun normalize_keys ::
  "(string \<Rightarrow> string) \<Rightarrow> (string \<times> string list) list \<Rightarrow> (string \<times> string list) list
   \<Rightarrow> err + (string \<times> string list) list" where
  "normalize_keys U normalized [] = Inr normalized"
| "normalize_keys U normalized ((k, v) # form) =
     (let loweredKey = ToLower U k in
      if map_of normalized loweredKey \<noteq> None then
        Inl (Fam Rejection ''cqrshtmx.decode.form.ambiguous_key''
               (''form contains multiple keys that differ only by case: '' @ loweredKey) 0 [(''form_key'', loweredKey)] None)
      else normalize_keys U (normalized @ [(loweredKey, v)]) form)"

definition decodeFormValues ::
  "(string \<Rightarrow> string) \<Rightarrow> ((string \<times> string list) list \<Rightarrow> err + 't) \<Rightarrow> string \<Rightarrow> (string \<times> string list) list \<Rightarrow> err + 't" where
  "decodeFormValues U form_decode type_name form =
     on_ok (normalize_keys U [] form) (\<lambda>normalized.
       map_err (\<lambda>e. wrap_error Rejection e ''cqrshtmx.decode.form.decode_failed''
                      (''decode form values for target='' @ type_name)) (form_decode normalized))"

definition decodeFormBody ::
  "decode_env \<Rightarrow> ((string \<times> string list) list \<Rightarrow> err + 't) \<Rightarrow> string \<Rightarrow> http_request \<Rightarrow> int \<Rightarrow> err + 't" where
  "decodeFormBody D form_decode type_name r maxBodySize =
     on_ok (readBodyForDecode D r maxBodySize ''cqrshtmx.decode.form.read_failed'') (\<lambda>body.
       (case ParseForm D r body of
          (post, Some e) \<Rightarrow> Inl (wrap_error Rejection e ''cqrshtmx.decode.form.parse_failed''
                              (''maxBodySize='' @ show_int maxBodySize @ '': parse form''))
        | (post, None) \<Rightarrow>
            map_err (\<lambda>e. wrap_error Rejection e ''cqrshtmx.decode.form.values_failed''
                           (''maxBodySize='' @ show_int maxBodySize @ '': decode form values''))
              (decodeFormValues (de_lower D) form_decode type_name post)))"

section \<open>Options\<close>

text \<open>A body decoder: the request and the limit. The options read the limit of the finished configuration when a request
  comes, so a list of options is a function of that limit.\<close>

type_synonym 't body_decoder = "http_request \<Rightarrow> int \<Rightarrow> err + 't"

definition decodeRequest :: "(http_request \<Rightarrow> err + 't) \<Rightarrow> ('t \<Rightarrow> err + 'v option) \<Rightarrow> http_request \<Rightarrow> err + 'v option" where
  "decodeRequest decode mapper r = on_ok (decode r) mapper"

definition setCommandDecoder :: "(http_request \<Rightarrow> err + 'v option) \<Rightarrow> ('v, 'r) HandlerOption" where
  "setCommandDecoder dec config = config \<lparr> hc_commandDecoder := Some dec \<rparr>"

definition setQueryDecoder :: "(http_request \<Rightarrow> err + 'v option) \<Rightarrow> ('v, 'r) HandlerOption" where
  "setQueryDecoder dec config = config \<lparr> hc_queryDecoder := Some dec \<rparr>"

definition decodeAndSet ::
  "'t body_decoder \<Rightarrow> ('t \<Rightarrow> err + 'v option) \<Rightarrow> ((http_request \<Rightarrow> err + 'v option) \<Rightarrow> ('v, 'r) HandlerOption)
   \<Rightarrow> int \<Rightarrow> ('v, 'r) HandlerOption" where
  "decodeAndSet bodyDec mapper setter maxBodySize = setter (decodeRequest (\<lambda>r. bodyDec r maxBodySize) mapper)"

definition decodeAndSetWithRequest ::
  "'t body_decoder \<Rightarrow> (http_request \<Rightarrow> 't \<Rightarrow> err + 'v option) \<Rightarrow> ((http_request \<Rightarrow> err + 'v option) \<Rightarrow> ('v, 'r) HandlerOption)
   \<Rightarrow> int \<Rightarrow> ('v, 'r) HandlerOption" where
  "decodeAndSetWithRequest bodyDec mapper setter maxBodySize =
     setter (\<lambda>r. on_ok (bodyDec r maxBodySize) (mapper r))"

definition AcceptQuery :: "string list \<Rightarrow> ('v, 'r) HandlerOption" where
  "AcceptQuery mediaTypes config =
     fold (\<lambda>mt c. if mt \<in> set (hc_acceptQuery c) then c else c \<lparr> hc_acceptQuery := hc_acceptQuery c @ [mt] \<rparr>)
       mediaTypes config"

text \<open>The eight decoding options are these two, with the JSON or the form decoder, and for a command or a query; the
  typed ones map a value to itself.\<close>

definition DecodeCommand :: "'t body_decoder \<Rightarrow> ('t \<Rightarrow> err + 'v option) \<Rightarrow> int \<Rightarrow> ('v, 'r) HandlerOption" where
  "DecodeCommand dec mapper = decodeAndSet dec mapper setCommandDecoder"

definition DecodeJSONQuery :: "'t body_decoder \<Rightarrow> ('t \<Rightarrow> err + 'v option) \<Rightarrow> int \<Rightarrow> ('v, 'r) HandlerOption" where
  "DecodeJSONQuery dec mapper limit config =
     (let config = decodeAndSet dec mapper setQueryDecoder limit config in
      if ''application/json'' \<in> set (hc_acceptQuery config) then config
      else config \<lparr> hc_acceptQuery := hc_acceptQuery config @ [''application/json''] \<rparr>)"

definition DecodeFormQuery :: "'t body_decoder \<Rightarrow> ('t \<Rightarrow> err + 'v option) \<Rightarrow> int \<Rightarrow> ('v, 'r) HandlerOption" where
  "DecodeFormQuery dec mapper = decodeAndSet dec mapper setQueryDecoder"

definition typed_mapper :: "'v \<Rightarrow> err + 'v option" where
  "typed_mapper q = Inr (Some q)"

definition validated_mapper :: "('t \<Rightarrow> err option) \<Rightarrow> ('t \<Rightarrow> err + 'v option) \<Rightarrow> 't \<Rightarrow> err + 'v option" where
  "validated_mapper validate mapper t =
     (case validate t of
        Some e \<Rightarrow> Inl (wrap_error Rejection e ''cqrshtmx.decode.validation_failed'' ''validation failed'')
      | None \<Rightarrow> mapper t)"

definition WithMaxBodySize :: "int \<Rightarrow> ('v, 'r) HandlerOption" where
  "WithMaxBodySize n config = config \<lparr> hc_maxBodySize := n \<rparr>"

definition WithTimeout :: "duration \<Rightarrow> ('v, 'r) HandlerOption" where
  "WithTimeout d config = config \<lparr> hc_timeout := d \<rparr>"

definition WithSuccessStatus :: "int \<Rightarrow> ('v, 'r) HandlerOption" where
  "WithSuccessStatus code config = config \<lparr> hc_successStatus := code \<rparr>"

definition RequireMethod_option :: "string \<Rightarrow> ('v, 'r) HandlerOption" where
  "RequireMethod_option method config = config \<lparr> hc_requireMethod := method \<rparr>"

definition RequireAnyMethod :: "string list \<Rightarrow> ('v, 'r) HandlerOption" where
  "RequireAnyMethod methods config = config \<lparr> hc_requireMethods := methods \<rparr>"

definition RequireContentType :: "string \<Rightarrow> ('v, 'r) HandlerOption" where
  "RequireContentType mediaType config = config \<lparr> hc_requiredContentType := mediaType \<rparr>"

text \<open>A validator wraps the decoder that is there; without one the registration panics, which is no configuration.\<close>

definition validate_decoded ::
  "('v option \<Rightarrow> err option) \<Rightarrow> (http_request \<Rightarrow> err + 'v option) \<Rightarrow> http_request \<Rightarrow> err + 'v option" where
  "validate_decoded validator original r =
     on_ok (original r) (\<lambda>val.
       (case validator val of
          Some e \<Rightarrow> Inl (wrap_error Rejection e ''cqrshtmx.validate.failed'' ''request validation failed'')
        | None \<Rightarrow> Inr val))"

definition ValidateCommand :: "('v option \<Rightarrow> err option) \<Rightarrow> ('v, 'r) handlerConfig \<Rightarrow> ('v, 'r) handlerConfig option" where
  "ValidateCommand validator config =
     map_option (\<lambda>original. setCommandDecoder (validate_decoded validator original) config) (hc_commandDecoder config)"

definition ValidateQuery :: "('v option \<Rightarrow> err option) \<Rightarrow> ('v, 'r) handlerConfig \<Rightarrow> ('v, 'r) handlerConfig option" where
  "ValidateQuery validator config =
     map_option (\<lambda>original. setQueryDecoder (validate_decoded validator original) config) (hc_queryDecoder config)"

text \<open>\<open>buildHandlerConfigChecked\<close>: no value for an empty type, which panics. The decoders see the limit the
  configuration ends with.\<close>

definition final_limit :: "('v, 'r, 'w) App \<Rightarrow> (int \<Rightarrow> ('v, 'r) HandlerOption list) \<Rightarrow> int" where
  "final_limit a opts =
     (let n = hc_maxBodySize (buildHandlerConfig (opts 0)) in if n = 0 then ap_maxBodySize a else n)"

definition buildHandlerConfigChecked ::
  "('v, 'r, 'w) App \<Rightarrow> string \<Rightarrow> (int \<Rightarrow> ('v, 'r) HandlerOption list) \<Rightarrow> ('v, 'r) handlerConfig option" where
  "buildHandlerConfigChecked a typeName opts =
     (if typeName = [] then None
      else
        (let config = buildHandlerConfig (opts (final_limit a opts)) in
         Some (if hc_maxBodySize config = 0 then config \<lparr> hc_maxBodySize := ap_maxBodySize a \<rparr> else config)))"

section \<open>Pagination\<close>

record pagination =
  pg_Page :: nat
  pg_PageSize :: nat

text \<open>\<open>norm\<close> is \<open>NewPagination\<close> and \<open>validate\<close> the check of the query library; \<open>ParseUint\<close> with 32 bits.\<close>

definition parse_page_field :: "string \<Rightarrow> string \<Rightarrow> string \<Rightarrow> (err + nat) option" where
  "parse_page_field code what raw =
     (if raw = [] then None
      else (case read_digits raw of
              Some n \<Rightarrow>
                if n < 2 ^ 32 then Some (Inr n)
                else Some (Inl (new_error Rejection code (what @ '' must be a non-negative integer, got '' @ raw)))
            | None \<Rightarrow> Some (Inl (new_error Rejection code (what @ '' must be a non-negative integer, got '' @ raw)))))"

definition DecodePaginationStrict ::
  "(nat \<Rightarrow> nat \<Rightarrow> pagination) \<Rightarrow> (pagination \<Rightarrow> err option) \<Rightarrow> string \<Rightarrow> err + pagination" where
  "DecodePaginationStrict norm validate rawQuery =
     (let q = ParseQuery rawQuery; start = norm 0 0 in
      case parse_page_field ''cqrshtmx.pagination.page_malformed'' ''page'' (Query_Get q ''page'') of
        Some (Inl e) \<Rightarrow> Inl e
      | page \<Rightarrow>
          (let p1 = (case page of Some (Inr n) \<Rightarrow> start \<lparr> pg_Page := n \<rparr> | _ \<Rightarrow> start) in
           case parse_page_field ''cqrshtmx.pagination.page_size_malformed'' ''page_size'' (Query_Get q ''page_size'') of
             Some (Inl e) \<Rightarrow> Inl e
           | psize \<Rightarrow>
               (let p2 = (case psize of Some (Inr n) \<Rightarrow> p1 \<lparr> pg_PageSize := n \<rparr> | _ \<Rightarrow> p1) in
                case validate p2 of
                  Some e \<Rightarrow> Inl (wrap_error Rejection e ''cqrshtmx.pagination.invalid'' ''invalid pagination parameters'')
                | None \<Rightarrow> Inr p2)))"

definition DecodePagination :: "(nat \<Rightarrow> nat \<Rightarrow> pagination) \<Rightarrow> (string \<Rightarrow> nat) \<Rightarrow> string \<Rightarrow> pagination" where
  "DecodePagination norm parse_uint rawQuery =
     (let q = ParseQuery rawQuery in
      norm (parse_uint (Query_Get q ''page'')) (parse_uint (Query_Get q ''page_size'')))"

section \<open>What decoding keeps\<close>

lemma on_ok_cases: "on_ok x f = Inr y \<longleftrightarrow> (\<exists>v. x = Inr v \<and> f v = Inr y)"
  by (cases x) (simp_all add: on_ok_def)

text \<open>A body is read whole or not at all, and never one above the limit in force.\<close>

lemma readBody_whole:
  assumes "readBody D r n = Inr body"
  shows "int (length body) \<le> body_limit n" and "body = (case hr_Body r of None \<Rightarrow> [] | Some sent \<Rightarrow> sent)"
proof -
  have pos: "0 < body_limit n" by (simp add: body_limit_def DefaultMaxBodySize_def)
  have "int (length body) \<le> body_limit n \<and> body = (case hr_Body r of None \<Rightarrow> [] | Some sent \<Rightarrow> sent)"
  proof (cases "hr_Body r")
    case None
    with assms pos show ?thesis by (simp add: readBody_def)
  next
    case (Some sent)
    let ?b = "take (nat (body_limit n + 1)) sent"
    from assms Some have b: "body = ?b" "\<not> int (length ?b) > body_limit n"
      by (auto simp: readBody_def Let_def split: option.splits if_splits)
    from b(2) pos have "length sent < nat (body_limit n + 1)" by (simp add: min_def split: if_splits)
    with b Some show ?thesis by simp
  qed
  then show "int (length body) \<le> body_limit n" "body = (case hr_Body r of None \<Rightarrow> [] | Some sent \<Rightarrow> sent)" by blast+
qed

lemma readBody_refused:
  assumes "hr_Body r = Some sent" and "int (length sent) > body_limit n" and "de_read_err D r = None" and "de_close_err D r = None"
  shows "\<exists>e. readBody D r n = Inl e \<and> errors_is e (Sentinel ErrRequestTooLarge)"
proof -
  have pos: "0 < body_limit n" by (simp add: body_limit_def DefaultMaxBodySize_def)
  with assms have "int (length (take (nat (body_limit n + 1)) sent)) > body_limit n" by (simp add: min_def)
  with assms show ?thesis by (simp add: readBody_def Let_def errors_is_def)
qed

text \<open>The names of an accepted form are different in lower case, and no value is lost.\<close>

lemma normalize_keys_ok:
  "normalize_keys U acc form = Inr out \<Longrightarrow>
   out = acc @ map (\<lambda>(k, v). (ToLower U k, v)) form
   \<and> (distinct (map fst acc) \<longrightarrow> distinct (map fst acc @ map (ToLower U \<circ> fst) form))"
proof (induction U acc form rule: normalize_keys.induct)
  case (2 U acc k v form)
  then have new: "map_of acc (ToLower U k) = None" and rest: "normalize_keys U (acc @ [(ToLower U k, v)]) form = Inr out"
    by (auto simp: Let_def split: if_splits)
  with "2.IH" [OF refl] show ?case by (auto simp: map_of_eq_None_iff)
qed simp

lemma form_keys_distinct:
  assumes "decodeFormValues U form_decode ty form = Inr t"
  shows "distinct (map (ToLower U \<circ> fst) form)" and "form_decode (map (\<lambda>(k, v). (ToLower U k, v)) form) = Inr t"
proof -
  from assms obtain out where "normalize_keys U [] form = Inr out" "form_decode out = Inr t"
    by (cases "normalize_keys U [] form"; cases "form_decode (projr (normalize_keys U [] form))")
      (simp_all add: decodeFormValues_def on_ok_def map_err_def)
  with normalize_keys_ok [OF this(1)] show "distinct (map (ToLower U \<circ> fst) form)"
    "form_decode (map (\<lambda>(k, v). (ToLower U k, v)) form) = Inr t" by simp_all
qed

text \<open>A form that comes with another method, as a query that is sent with \<open>QUERY\<close> or \<open>GET\<close>, is not looked at: the
  handler is given the value of the empty form.\<close>

lemma form_of_query_ignored:
  assumes "hr_Method r \<notin> {''POST'', ''PUT'', ''PATCH''}" and "readBody D r n = Inr body" and "de_query_err D r = None"
    and "form_decode [] = Inr zero"
  shows "decodeFormBody D form_decode ty r n = Inr zero"
  using assms by (simp add: decodeFormBody_def readBodyForDecode_def ParseForm_def decodeFormValues_def on_ok_def map_err_def)

text \<open>The order of a limit and a decoder among the options does not matter: the limit in force is the one of the finished
  configuration, the \<open>App\<close>'s when none was set.\<close>

lemma limit_order_free:
  assumes "typeName \<noteq> []"
  shows "buildHandlerConfigChecked a typeName (\<lambda>limit. [WithMaxBodySize n, DecodeCommand dec mapper limit])
    = buildHandlerConfigChecked a typeName (\<lambda>limit. [DecodeCommand dec mapper limit, WithMaxBodySize n])"
  using assms by (simp add: buildHandlerConfigChecked_def final_limit_def buildHandlerConfig_def DecodeCommand_def
    decodeAndSet_def setCommandDecoder_def WithMaxBodySize_def handlerConfig_zero_def Let_def)

text \<open>A negative limit of the handler is documented to fall back to the one of the \<open>App\<close>, but goes to ten megabytes; and
  so does the \<open>App\<close>'s own, which is documented as no limit.\<close>

lemma negative_limit_skips_app:
  assumes "typeName \<noteq> []" and "n < 0"
  shows "\<exists>c. buildHandlerConfigChecked a typeName (\<lambda>limit. [WithMaxBodySize n, DecodeCommand dec mapper limit]) = Some c
    \<and> hc_maxBodySize c = n" and "body_limit n = DefaultMaxBodySize"
  using assms by (auto simp: buildHandlerConfigChecked_def final_limit_def buildHandlerConfig_def DecodeCommand_def
    decodeAndSet_def setCommandDecoder_def WithMaxBodySize_def handlerConfig_zero_def Let_def body_limit_def)

text \<open>Whatever a decoded and validated value is, the handler was given it by the mapper for a body within the limit, and
  no validator refused it.\<close>

lemma decoded_command:
  assumes "decodeRequest (\<lambda>r. decodeJSONBody D unmarshal zero r n) (validated_mapper validate mapper) r = Inr v"
  obtains body t where "readBody D r n = Inr body" and "int (length body) \<le> body_limit n"
    and "(if body = [] then Inr zero else unmarshal body) = Inr t" and "validate t = None" and "mapper t = Inr v"
proof -
  from assms obtain t where t: "decodeJSONBody D unmarshal zero r n = Inr t" "validated_mapper validate mapper t = Inr v"
    by (auto simp: decodeRequest_def on_ok_cases)
  from t(2) have m: "validate t = None" "mapper t = Inr v" by (auto simp: validated_mapper_def split: option.splits)
  from t(1) obtain body where b: "readBody D r n = Inr body" "(if body = [] then Inr zero else unmarshal body) = Inr t"
    by (auto simp: decodeJSONBody_def readBodyForDecode_def on_ok_cases map_err_def split: sum.splits if_splits)
  from that [OF b(1) readBody_whole(1) [OF b(1)] b(2) m] show thesis .
qed

lemma validated_decoder:
  assumes "ValidateCommand validator c = Some c'" and "hc_commandDecoder c' = Some dec" and "dec r = Inr v"
  shows "validator v = None" and "\<exists>original. hc_commandDecoder c = Some original \<and> original r = Inr v"
  using assms by (auto simp: ValidateCommand_def setCommandDecoder_def validate_decoded_def on_ok_cases split: option.splits)

end
