(* ===== verification/Response.thy ===== *)
theory Response
  imports Request_Pipeline
begin

text \<open>
  The response builder (\<open>response.go\<close>, with \<open>notify.go\<close> and the header names of \<open>htmx/htmx.go\<close>): the headers the
  steps of a chain set, the redirect that is deferred for requests that are not htmx's, and what is written. A
  response writer sends its status and a copy of its headers once; \<open>http.Redirect\<close> is written out. Statuses are
  final ones, from 200 to 999.
\<close>

section \<open>The writer of the standard library\<close>

record writer =
  wr_Header :: "(string, string) gomap"
  wr_sent :: "(int \<times> (string, string) gomap) option"
  wr_body :: bytes

definition fresh_writer :: writer where
  "fresh_writer = \<lparr> wr_Header = [], wr_sent = None, wr_body = [] \<rparr>"

definition set_header :: "string \<Rightarrow> string \<Rightarrow> writer \<Rightarrow> writer" where
  "set_header k v w = w \<lparr> wr_Header := map_put k v (wr_Header w) \<rparr>"

definition get_header :: "writer \<Rightarrow> string \<Rightarrow> string" where
  "get_header w k = (case map_get (wr_Header w) k of None \<Rightarrow> [] | Some v \<Rightarrow> v)"

text \<open>\<open>CanonicalHeaderKey\<close>: capitals at the start and after each hyphen, the name as it is when it is not a token.\<close>

definition token_char :: "char \<Rightarrow> bool" where
  "token_char c \<longleftrightarrow> (let n = of_char c :: nat in
     48 \<le> n \<and> n \<le> 57 \<or> 65 \<le> n \<and> n \<le> 90 \<or> 97 \<le> n \<and> n \<le> 122
     \<or> n \<in> {33, 35, 36, 37, 38, 39, 42, 43, 45, 46, 94, 95, 96, 124, 126})"

definition in_case :: "bool \<Rightarrow> char \<Rightarrow> char" where
  "in_case upper c = (let n = of_char c :: nat in
     if upper \<and> 97 \<le> n \<and> n \<le> 122 then char_of (n - 32)
     else if \<not> upper \<and> 65 \<le> n \<and> n \<le> 90 then char_of (n + 32) else c)"

fun canonical_from :: "bool \<Rightarrow> string \<Rightarrow> string" where
  "canonical_from upper [] = []"
| "canonical_from upper (c # k) = in_case upper c # canonical_from (c = CHR ''-'') k"

definition CanonicalHeaderKey :: "string \<Rightarrow> string" where
  "CanonicalHeaderKey k = (if list_all token_char k then canonical_from True k else k)"

definition WriteHeader :: "int \<Rightarrow> writer \<Rightarrow> writer" where
  "WriteHeader code w = (if wr_sent w = None then w \<lparr> wr_sent := Some (code, wr_Header w) \<rparr> else w)"

definition write_bytes :: "bytes \<Rightarrow> writer \<Rightarrow> writer" where
  "write_bytes data w = (let w = WriteHeader 200 w in w \<lparr> wr_body := wr_body w @ data \<rparr>)"

section \<open>Headers\<close>

definition HeaderLocation :: string where "HeaderLocation = ''Hx-Location''"
definition HeaderPushURL :: string where "HeaderPushURL = ''Hx-Push-Url''"
definition HeaderRedirect :: string where "HeaderRedirect = ''Hx-Redirect''"
definition HeaderRefresh :: string where "HeaderRefresh = ''Hx-Refresh''"
definition HeaderReplaceURL :: string where "HeaderReplaceURL = ''Hx-Replace-Url''"
definition HeaderReswap :: string where "HeaderReswap = ''Hx-Reswap''"
definition HeaderRetarget :: string where "HeaderRetarget = ''Hx-Retarget''"
definition HeaderReselect :: string where "HeaderReselect = ''Hx-Reselect''"
definition HeaderTrigger :: string where "HeaderTrigger = ''Hx-Trigger''"
definition HeaderTriggerAfterSettle :: string where "HeaderTriggerAfterSettle = ''Hx-Trigger-After-Settle''"
definition HeaderTriggerAfterSwap :: string where "HeaderTriggerAfterSwap = ''Hx-Trigger-After-Swap''"

definition ContentTypeHTML :: string where "ContentTypeHTML = ''text/html; charset=utf-8''"
definition ContentTypeJSON :: string where "ContentTypeJSON = ''application/json; charset=utf-8''"
definition DefaultCSRFHeaderName :: string where "DefaultCSRFHeaderName = ''X-Csrf-Token''"

lemmas header_names = HeaderLocation_def HeaderPushURL_def HeaderRedirect_def HeaderRefresh_def HeaderReplaceURL_def
  HeaderReswap_def HeaderRetarget_def HeaderReselect_def HeaderTrigger_def HeaderTriggerAfterSettle_def
  HeaderTriggerAfterSwap_def DefaultCSRFHeaderName_def

text \<open>\<open>SwapStrategy.Valid\<close>.\<close>

definition swap_strategies :: "string list" where
  "swap_strategies = [''innerHTML'', ''outerHTML'', ''beforebegin'', ''afterbegin'', ''beforeend'', ''afterend'',
     ''delete'', ''none'']"

definition SwapStrategy_Valid :: "string \<Rightarrow> bool" where
  "SwapStrategy_Valid s \<longleftrightarrow> s \<in> set swap_strategies"

section \<open>The builder\<close>

text \<open>What libraries answer: URLs, the JSON of a detail, an object with one more entry when the text is an object, the
  escaped location and the text below a redirect.\<close>

record 'd response_env =
  ve_url_Parse :: "string \<Rightarrow> parsed_url option"
  ve_marshal :: "'d \<Rightarrow> string option"
  ve_merge :: "string \<Rightarrow> string \<Rightarrow> 'd \<Rightarrow> string option"
  ve_notification :: "string \<Rightarrow> string \<Rightarrow> 'd"
  ve_hexEscape :: "string \<Rightarrow> string"
  ve_redirect_text :: "string \<Rightarrow> bytes"

record response =
  rb_w :: writer
  rb_redirectURL :: string
  rb_statusCode :: int

definition NewResponse :: "writer \<Rightarrow> response" where
  "NewResponse w = \<lparr> rb_w = w, rb_redirectURL = [], rb_statusCode = 0 \<rparr>"

definition on_writer :: "(writer \<Rightarrow> writer) \<Rightarrow> response \<Rightarrow> response" where
  "on_writer f resp = resp \<lparr> rb_w := f (rb_w resp) \<rparr>"

definition header_step :: "string \<Rightarrow> string \<Rightarrow> response \<Rightarrow> response" where
  "header_step k v = on_writer (set_header k v)"

definition Response_Redirect :: "'d response_env \<Rightarrow> http_request \<Rightarrow> string \<Rightarrow> response \<Rightarrow> response" where
  "Response_Redirect V r url resp =
     (if IsHTMX r then
        (case sanitizeRedirectURL (ve_url_Parse V) url of
           (sanitized, safe) \<Rightarrow> if safe then header_step HeaderRedirect sanitized resp else resp)
      else resp \<lparr> rb_redirectURL := url \<rparr>)"

definition trigger_step :: "string \<Rightarrow> string \<Rightarrow> response \<Rightarrow> response" where
  "trigger_step header event = on_writer (\<lambda>w. set_header header (setTriggerHeader (get_header w header) event) w)"

definition setTriggerWithDetail :: "'d response_env \<Rightarrow> string \<Rightarrow> string \<Rightarrow> 'd \<Rightarrow> writer \<Rightarrow> writer" where
  "setTriggerWithDetail V header name detail w =
     (let existing = get_header w header in
      if existing = [] then
        (case ve_marshal V detail of
           None \<Rightarrow> set_header header name w
         | Some json \<Rightarrow> set_header header ([CHR 0x7B, CHR 0x22] @ name @ [CHR 0x22, CHR 0x3A] @ json @ [CHR 0x7D]) w)
      else (case ve_merge V existing name detail of
              Some merged \<Rightarrow> set_header header merged w
            | None \<Rightarrow> set_header header (existing @ '','' @ name) w))"

definition Response_TriggerWithDetail :: "'d response_env \<Rightarrow> string \<Rightarrow> 'd \<Rightarrow> response \<Rightarrow> response" where
  "Response_TriggerWithDetail V name detail = on_writer (setTriggerWithDetail V HeaderTrigger name detail)"

definition defaultNotificationEvent :: string where "defaultNotificationEvent = ''showMessage''"

definition triggerNotification :: "'d response_env \<Rightarrow> string \<Rightarrow> string \<Rightarrow> response \<Rightarrow> response" where
  "triggerNotification V level message =
     Response_TriggerWithDetail V defaultNotificationEvent (ve_notification V level message)"

text \<open>\<open>http.Redirect\<close>: a target without a scheme that is not rooted is taken relative to the path of the request.\<close>

definition path_dir :: "string \<Rightarrow> string" where
  "path_dir p = rev (dropWhile (\<lambda>c. c \<noteq> slash) (rev p))"

definition absolute_target :: "'d response_env \<Rightarrow> string \<Rightarrow> string \<Rightarrow> string" where
  "absolute_target V request_path url =
     (case ve_url_Parse V url of
        None \<Rightarrow> url
      | Some u \<Rightarrow>
          if pu_Scheme u \<noteq> [] then url
          else
            (let oldpath = (if request_path = [] then ''/'' else request_path);
                 url = (if rooted url then url else path_dir oldpath @ url);
                 target = takeWhile (\<lambda>c. c \<noteq> CHR ''?'') url; query = dropWhile (\<lambda>c. c \<noteq> CHR ''?'') url;
                 cleaned = path_Clean target;
                 cleaned = (if target \<noteq> [] \<and> last target = slash \<and> \<not> (cleaned \<noteq> [] \<and> last cleaned = slash)
                            then cleaned @ ''/'' else cleaned)
             in cleaned @ query))"

definition http_Redirect :: "'d response_env \<Rightarrow> http_request \<Rightarrow> string \<Rightarrow> int \<Rightarrow> writer \<Rightarrow> writer" where
  "http_Redirect V r url code w =
     (let url = absolute_target V (hr_Path r) url;
          hadCT = (map_get (wr_Header w) ''Content-Type'' \<noteq> None);
          w = set_header ''Location'' (ve_hexEscape V url) w;
          w = (if \<not> hadCT \<and> hr_Method r \<in> {''GET'', ''HEAD''} then set_header ''Content-Type'' ContentTypeHTML w else w);
          w = WriteHeader code w
      in if \<not> hadCT \<and> hr_Method r = ''GET'' then write_bytes (ve_redirect_text V url) w else w)"

text \<open>\<open>Apply\<close> answers whether the response is finished.\<close>

definition Response_Apply :: "'d response_env \<Rightarrow> http_request \<Rightarrow> response \<Rightarrow> response \<times> bool" where
  "Response_Apply V r resp =
     (if rb_redirectURL resp \<noteq> [] then
        (case sanitizeRedirectURL (ve_url_Parse V) (rb_redirectURL resp) of
           (redirectURL, safe) \<Rightarrow>
             if safe then (on_writer (http_Redirect V r redirectURL 303) resp, True)
             else (on_writer (WriteHeader 400) resp, True))
      else
        (let resp = (if IsHTMX r then header_step ''Content-Type'' ContentTypeHTML resp else resp);
             resp = (if rb_statusCode resp \<noteq> 0 then on_writer (WriteHeader (rb_statusCode resp)) resp else resp)
         in (resp, False)))"

definition Response_Body :: "'d response_env \<Rightarrow> http_request \<Rightarrow> bytes \<Rightarrow> response \<Rightarrow> response" where
  "Response_Body V r data resp =
     (case Response_Apply V r resp of (resp', finished) \<Rightarrow> if finished then resp' else on_writer (write_bytes data) resp')"

text \<open>\<open>http.Error\<close> replaces the content type and writes the text with a newline.\<close>

definition http_Error :: "string \<Rightarrow> int \<Rightarrow> writer \<Rightarrow> writer" where
  "http_Error msg code w =
     write_bytes (msg @ [CHR 0x0A]) (WriteHeader code (set_header ''X-Content-Type-Options'' ''nosniff''
       (set_header ''Content-Type'' ''text/plain; charset=utf-8''
         (w \<lparr> wr_Header := map_del ''Content-Length'' (wr_Header w) \<rparr>))))"

definition Response_JSON :: "'d response_env \<Rightarrow> http_request \<Rightarrow> 'd \<Rightarrow> response \<Rightarrow> response" where
  "Response_JSON V r v resp =
     (case Response_Apply V r (header_step ''Content-Type'' ContentTypeJSON resp) of
        (resp', finished) \<Rightarrow>
          if finished then resp'
          else (case ve_marshal V v of
                  None \<Rightarrow> on_writer (http_Error ''json marshal error'' 500) resp'
                | Some json \<Rightarrow> on_writer (write_bytes json) resp'))"

section \<open>Chains\<close>

text \<open>The steps of a chain; the notifications are triggers with a detail, \<open>WriteString\<close> is \<open>Body\<close>.\<close>

datatype 'd step =
    PushURL string | ReplaceURL string | Redirect string | Refresh | Location string | Reswap string | Retarget string
  | Reselect string | Trigger string | TriggerAfterSwap string | TriggerAfterSettle string | TriggerWithDetail string 'd
  | Notify string string | CSRFToken string | Status int | Header string string | ContentType string
  | Body bytes | JSON 'd | Apply

fun run_step :: "'d response_env \<Rightarrow> http_request \<Rightarrow> 'd step \<Rightarrow> response \<Rightarrow> response" where
  "run_step V r (PushURL url) = header_step HeaderPushURL url"
| "run_step V r (ReplaceURL url) = header_step HeaderReplaceURL url"
| "run_step V r (Redirect url) = Response_Redirect V r url"
| "run_step V r Refresh = header_step HeaderRefresh ''true''"
| "run_step V r (Location url) = header_step HeaderLocation url"
| "run_step V r (Reswap s) = header_step HeaderReswap s"
| "run_step V r (Retarget s) = header_step HeaderRetarget s"
| "run_step V r (Reselect s) = header_step HeaderReselect s"
| "run_step V r (Trigger e) = trigger_step HeaderTrigger e"
| "run_step V r (TriggerAfterSwap e) = trigger_step HeaderTriggerAfterSwap e"
| "run_step V r (TriggerAfterSettle e) = trigger_step HeaderTriggerAfterSettle e"
| "run_step V r (TriggerWithDetail n d) = Response_TriggerWithDetail V n d"
| "run_step V r (Notify level msg) = triggerNotification V level msg"
| "run_step V r (CSRFToken t) = header_step DefaultCSRFHeaderName t"
| "run_step V r (Status code) = (\<lambda>resp. resp \<lparr> rb_statusCode := code \<rparr>)"
| "run_step V r (Header k v) = header_step (CanonicalHeaderKey k) v"
| "run_step V r (ContentType ct) = header_step ''Content-Type'' ct"
| "run_step V r (Body data) = Response_Body V r data"
| "run_step V r (JSON d) = Response_JSON V r d"
| "run_step V r Apply = (\<lambda>resp. fst (Response_Apply V r resp))"

definition run_steps :: "'d response_env \<Rightarrow> http_request \<Rightarrow> 'd step list \<Rightarrow> writer \<Rightarrow> response" where
  "run_steps V r steps w = fold (run_step V r) steps (NewResponse w)"

section \<open>Redirects of a chain\<close>

text \<open>A target that a \<open>Redirect\<close> of the chain was given and that was found safe.\<close>

definition checked :: "'d response_env \<Rightarrow> string set \<Rightarrow> string \<Rightarrow> bool" where
  "checked V urls target \<longleftrightarrow> (\<exists>url\<in>urls. sanitizeRedirectURL (ve_url_Parse V) url = (target, True))"

definition located :: "'d response_env \<Rightarrow> http_request \<Rightarrow> string set \<Rightarrow> (string, string) gomap \<Rightarrow> bool" where
  "located V r urls hs \<longleftrightarrow>
     (\<forall>t. map_get hs HeaderRedirect = Some t \<longrightarrow> checked V urls t)
     \<and> (\<forall>t. map_get hs ''Location'' = Some t \<longrightarrow>
          (\<exists>s. checked V urls s \<and> t = ve_hexEscape V (absolute_target V (hr_Path r) s)))"

definition writer_ok :: "'d response_env \<Rightarrow> http_request \<Rightarrow> string set \<Rightarrow> writer \<Rightarrow> bool" where
  "writer_ok V r urls w \<longleftrightarrow> located V r urls (wr_Header w) \<and> (\<forall>code hs. wr_sent w = Some (code, hs) \<longrightarrow> located V r urls hs)"

definition chain_ok :: "'d response_env \<Rightarrow> http_request \<Rightarrow> string set \<Rightarrow> response \<Rightarrow> bool" where
  "chain_ok V r urls resp \<longleftrightarrow> writer_ok V r urls (rb_w resp) \<and> (rb_redirectURL resp = [] \<or> rb_redirectURL resp \<in> urls)"

fun redirect_urls :: "'d step \<Rightarrow> string set" where
  "redirect_urls (Redirect url) = {url}"
| "redirect_urls _ = {}"

fun sets_freely :: "'d step \<Rightarrow> bool" where
  "sets_freely (Header k v) \<longleftrightarrow> CanonicalHeaderKey k \<in> {HeaderRedirect, ''Location''}"
| "sets_freely _ \<longleftrightarrow> False"

lemma located_put:
  "located V r urls hs \<Longrightarrow> k \<notin> {HeaderRedirect, ''Location''} \<Longrightarrow> located V r urls (map_put k v hs)"
  "located V r urls hs \<Longrightarrow> checked V urls t \<Longrightarrow> located V r urls (map_put HeaderRedirect t hs)"
  "located V r urls hs \<Longrightarrow> checked V urls s
     \<Longrightarrow> located V r urls (map_put ''Location'' (ve_hexEscape V (absolute_target V (hr_Path r) s)) hs)"
  by (auto simp: located_def HeaderRedirect_def update_conv split: if_splits)

lemma located_del: "located V r urls hs \<Longrightarrow> k \<notin> {HeaderRedirect, ''Location''} \<Longrightarrow> located V r urls (map_del k hs)"
  by (auto simp: located_def delete_conv split: if_splits)

lemma writer_ok_steps:
  "writer_ok V r urls w \<Longrightarrow> k \<notin> {HeaderRedirect, ''Location''} \<Longrightarrow> writer_ok V r urls (set_header k v w)"
  "writer_ok V r urls w \<Longrightarrow> checked V urls t \<Longrightarrow> writer_ok V r urls (set_header HeaderRedirect t w)"
  "writer_ok V r urls w \<Longrightarrow> checked V urls s
     \<Longrightarrow> writer_ok V r urls (set_header ''Location'' (ve_hexEscape V (absolute_target V (hr_Path r) s)) w)"
  "writer_ok V r urls w \<Longrightarrow> writer_ok V r urls (WriteHeader code w)"
  "writer_ok V r urls w \<Longrightarrow> writer_ok V r urls (write_bytes data w)"
  by (auto simp: writer_ok_def set_header_def WriteHeader_def write_bytes_def Let_def intro: located_put)

lemma other_headers:
  "HeaderLocation \<notin> {HeaderRedirect, ''Location''}" "HeaderPushURL \<notin> {HeaderRedirect, ''Location''}"
  "HeaderRefresh \<notin> {HeaderRedirect, ''Location''}" "HeaderReplaceURL \<notin> {HeaderRedirect, ''Location''}"
  "HeaderReswap \<notin> {HeaderRedirect, ''Location''}" "HeaderRetarget \<notin> {HeaderRedirect, ''Location''}"
  "HeaderReselect \<notin> {HeaderRedirect, ''Location''}" "HeaderTrigger \<notin> {HeaderRedirect, ''Location''}"
  "HeaderTriggerAfterSettle \<notin> {HeaderRedirect, ''Location''}" "HeaderTriggerAfterSwap \<notin> {HeaderRedirect, ''Location''}"
  "DefaultCSRFHeaderName \<notin> {HeaderRedirect, ''Location''}" "''Content-Type'' \<notin> {HeaderRedirect, ''Location''}"
  "''X-Content-Type-Options'' \<notin> {HeaderRedirect, ''Location''}" "''Content-Length'' \<notin> {HeaderRedirect, ''Location''}"
  by (simp_all add: header_names)

lemmas plain_writer_ok = other_headers [THEN writer_ok_steps(1) [rotated]]

lemma redirect_ok:
  "writer_ok V r urls w \<Longrightarrow> checked V urls s \<Longrightarrow> writer_ok V r urls (http_Redirect V r s code w)"
  unfolding http_Redirect_def Let_def
  by (simp add: writer_ok_steps plain_writer_ok)

lemma error_ok: "writer_ok V r urls w \<Longrightarrow> writer_ok V r urls (http_Error msg code w)"
proof -
  assume w: "writer_ok V r urls w"
  then have "writer_ok V r urls (w \<lparr> wr_Header := map_del ''Content-Length'' (wr_Header w) \<rparr>)"
    by (auto simp: writer_ok_def intro!: located_del [OF _ other_headers(14)])
  then show ?thesis unfolding http_Error_def by (intro writer_ok_steps other_headers)
qed

lemma chain_ok_writer:
  "chain_ok V r urls resp \<Longrightarrow> (\<And>w. writer_ok V r urls w \<Longrightarrow> writer_ok V r urls (f w)) \<Longrightarrow> chain_ok V r urls (on_writer f resp)"
  by (simp add: chain_ok_def on_writer_def)

lemma chain_ok_header:
  "chain_ok V r urls resp \<Longrightarrow> k \<notin> {HeaderRedirect, ''Location''} \<Longrightarrow> chain_ok V r urls (header_step k v resp)"
  unfolding header_step_def by (rule chain_ok_writer) (simp_all add: writer_ok_steps)

lemmas plain_header_ok = other_headers [THEN chain_ok_header [rotated]]

lemma content_type_ok:
  "chain_ok V r urls resp \<Longrightarrow> chain_ok V r urls (if b then header_step ''Content-Type'' ct resp else resp)"
  by (cases b) (simp_all only: if_True if_False chain_ok_header [OF _ other_headers(12)])

lemma apply_ok:
  assumes "chain_ok V r urls resp"
  shows "chain_ok V r urls (fst (Response_Apply V r resp))"
proof (cases "rb_redirectURL resp = []")
  case True
  define resp' where "resp' = (if IsHTMX r then header_step ''Content-Type'' ContentTypeHTML resp else resp)"
  have "chain_ok V r urls resp'" unfolding resp'_def by (rule content_type_ok [OF assms])
  then have "chain_ok V r urls (if rb_statusCode resp' \<noteq> 0 then on_writer (WriteHeader (rb_statusCode resp')) resp' else resp')"
    by (simp add: chain_ok_writer writer_ok_steps)
  with True show ?thesis unfolding Response_Apply_def Let_def resp'_def by (simp only: if_False if_True fst_conv simp_thms)
next
  case False
  with assms have u: "rb_redirectURL resp \<in> urls" by (simp add: chain_ok_def)
  obtain t safe where t: "sanitizeRedirectURL (ve_url_Parse V) (rb_redirectURL resp) = (t, safe)" by force
  show ?thesis
  proof (cases safe)
    case True
    with t u have "checked V urls t" by (auto simp: checked_def)
    with False t True assms show ?thesis by (simp add: Response_Apply_def chain_ok_writer redirect_ok)
  next
    case safe: False
    with False t assms show ?thesis by (simp add: Response_Apply_def chain_ok_writer writer_ok_steps)
  qed
qed

lemma redirect_step_ok:
  assumes "chain_ok V r urls resp" and "url \<in> urls"
  shows "chain_ok V r urls (Response_Redirect V r url resp)"
proof -
  obtain t safe where t: "sanitizeRedirectURL (ve_url_Parse V) url = (t, safe)" by force
  have "chain_ok V r urls (header_step HeaderRedirect t resp)" if safe
  proof -
    from t that assms(2) have "checked V urls t" by (auto simp: checked_def)
    with assms(1) show ?thesis unfolding header_step_def by (intro chain_ok_writer writer_ok_steps(2))
  qed
  with t assms show ?thesis by (auto simp: Response_Redirect_def chain_ok_def)
qed

lemma trigger_ok: "writer_ok V r urls w \<Longrightarrow> writer_ok V r urls (set_header HeaderTrigger v w)"
  by (rule writer_ok_steps(1) [OF _ other_headers(8)])

lemma detail_ok: "writer_ok V r urls w \<Longrightarrow> writer_ok V r urls (setTriggerWithDetail V HeaderTrigger name d w)"
  by (simp add: setTriggerWithDetail_def Let_def trigger_ok split: option.splits)

lemma finish_ok:
  assumes "chain_ok V r urls resp" and "\<And>w. writer_ok V r urls w \<Longrightarrow> writer_ok V r urls (f w)"
  shows "chain_ok V r urls (case Response_Apply V r resp of (resp', finished) \<Rightarrow> if finished then resp' else on_writer f resp')"
  using apply_ok [OF assms(1)] assms(2) by (cases "Response_Apply V r resp") (simp add: chain_ok_writer)

lemma body_ok: "chain_ok V r urls resp \<Longrightarrow> chain_ok V r urls (Response_Body V r data resp)"
  unfolding Response_Body_def by (rule finish_ok) (simp_all add: writer_ok_steps)

lemma json_ok:
  assumes "chain_ok V r urls resp"
  shows "chain_ok V r urls (Response_JSON V r d resp)"
proof -
  have "chain_ok V r urls (header_step ''Content-Type'' ContentTypeJSON resp)"
    using assms by (rule chain_ok_header [OF _ other_headers(12)])
  from finish_ok [OF this,
    of "case ve_marshal V d of None \<Rightarrow> http_Error ''json marshal error'' 500 | Some json \<Rightarrow> write_bytes json"]
  show ?thesis
    by (cases "ve_marshal V d"; cases "Response_Apply V r (header_step ''Content-Type'' ContentTypeJSON resp)")
      (simp_all add: Response_JSON_def error_ok writer_ok_steps split: if_splits)
qed

lemma step_ok:
  assumes "chain_ok V r urls resp" and "redirect_urls st \<subseteq> urls" and "\<not> sets_freely st"
  shows "chain_ok V r urls (run_step V r st resp)"
proof (cases st)
  case (Header k v)
  with assms show ?thesis by (simp add: chain_ok_header)
next
  case (Status code)
  with assms show ?thesis by (simp add: chain_ok_def)
qed (use assms in \<open>simp_all add: plain_header_ok redirect_step_ok trigger_step_def chain_ok_writer plain_writer_ok
  Response_TriggerWithDetail_def triggerNotification_def detail_ok body_ok json_ok apply_ok\<close>)

lemma steps_ok:
  "chain_ok V r urls resp \<Longrightarrow> (\<Union>st\<in>set steps. redirect_urls st) \<subseteq> urls \<Longrightarrow> list_all (\<lambda>st. \<not> sets_freely st) steps
   \<Longrightarrow> chain_ok V r urls (fold (run_step V r) steps resp)"
  by (induction steps arbitrary: resp) (auto intro: step_ok)

text \<open>C40. Whatever chain of steps builds a response, as long as no \<open>Header\<close> step sets \<open>HX-Redirect\<close> or \<open>Location\<close> by
  hand: the \<open>HX-Redirect\<close> that is sent is the cleaned form of a target that some \<open>Redirect\<close> step of the chain was
  given and that was found safe; it has no empty segment and none of dots, and does not start with two slashes. The
  \<open>Location\<close> of a redirect of the server is such a cleaned target too, made absolute. (The \<open>Location\<close> step of the
  builder sets \<open>HX-Location\<close>, which is not checked: \<open>location_unchecked\<close>.)\<close>

theorem response_redirects_checked:
  assumes "list_all (\<lambda>st. \<not> sets_freely st) steps"
    and "wr_sent (rb_w (run_steps V r steps fresh_writer)) = Some (code, hs)"
  shows "(\<forall>t. map_get hs HeaderRedirect = Some t \<longrightarrow>
      checked V (\<Union>st\<in>set steps. redirect_urls st) t \<and> \<not> has_prefix t ''//''
      \<and> (t \<in> {''/'', ''.''} \<or> (\<forall>x\<in>set (segments (if rooted t then tl t else t)). x \<noteq> [] \<and> x \<noteq> ''.'' \<and> x \<noteq> ''..'')))
    \<and> (\<forall>t. map_get hs ''Location'' = Some t \<longrightarrow>
      (\<exists>s. checked V (\<Union>st\<in>set steps. redirect_urls st) s
         \<and> t = ve_hexEscape V (absolute_target V (hr_Path r) s)))"
proof -
  let ?urls = "\<Union>st\<in>set steps. redirect_urls st"
  have "chain_ok V r ?urls (NewResponse fresh_writer)"
    by (simp add: chain_ok_def NewResponse_def fresh_writer_def writer_ok_def located_def)
  from steps_ok [OF this order_refl assms(1)] have "located V r ?urls hs"
    using assms(2) by (simp add: run_steps_def chain_ok_def writer_ok_def)
  moreover have "\<not> has_prefix t ''//'' \<and> (t \<in> {''/'', ''.''} \<or> (\<forall>x\<in>set (segments (if rooted t then tl t else t)).
      x \<noteq> [] \<and> x \<noteq> ''.'' \<and> x \<noteq> ''..''))" if "checked V ?urls t" for t
    using that redirect_target_clean unfolding checked_def by blast
  ultimately show ?thesis unfolding located_def by blast
qed

definition demo_response :: "string response_env" where
  "demo_response =
     \<lparr> ve_url_Parse = demo_parse, ve_marshal = Some, ve_merge = (\<lambda>e n d. None), ve_notification = (\<lambda>l m. m),
       ve_hexEscape = id, ve_redirect_text = (\<lambda>u. []) \<rparr>"

definition demo_plain_request :: http_request where
  "demo_plain_request =
     \<lparr> hr_Method = ''POST'', hr_Path = ''/users'', hr_Header = [], hr_Body = None, hr_ContentLength = 0,
       hr_UserID = None, hr_ActorID = None \<rparr>"

lemma response_redirects_checked_witness:
  "wr_sent (rb_w (run_steps demo_response demo_plain_request [Redirect ''/a/../b'', Status 200, Body ''x''] fresh_writer))
     = Some (303, [(''Location'', ''/b'')])
   \<and> (\<exists>s. checked demo_response {''/a/../b''} s \<and> ''/b'' = absolute_target demo_response ''/users'' s)"
proof -
  let ?steps = "[Redirect ''/a/../b'', Status 200, Body ''x'']"
  have run: "wr_sent (rb_w (run_steps demo_response demo_plain_request ?steps fresh_writer))
      = Some (303, [(''Location'', ''/b'')])"
    by code_simp
  from response_redirects_checked [OF _ run] have "\<exists>s. checked demo_response {''/a/../b''} s
      \<and> ''/b'' = ve_hexEscape demo_response (absolute_target demo_response (hr_Path demo_plain_request) s)"
    by simp
  with run show ?thesis by (simp add: demo_response_def demo_plain_request_def)
qed

section \<open>Where the builder differs from what it says\<close>

text \<open>The \<open>Location\<close> step, a redirect on the client like \<open>Redirect\<close>, sends any target as it is.\<close>

lemma location_unchecked:
  "get_header (rb_w (run_steps V r [Location url] fresh_writer)) HeaderLocation = url"
  by (simp add: run_steps_def NewResponse_def fresh_writer_def header_step_def on_writer_def set_header_def
      get_header_def Let_def)

text \<open>JSON that answers an htmx request is sent as HTML: \<open>Apply\<close> replaces the content type the step has just set.\<close>

lemma htmx_json_sent_as_html:
  assumes "IsHTMX r" and "ve_marshal V d = Some json"
  shows "\<exists>hs. wr_sent (rb_w (run_steps V r [JSON d] fresh_writer)) = Some (200, hs)
    \<and> map_get hs ''Content-Type'' = Some ContentTypeHTML
    \<and> wr_body (rb_w (run_steps V r [JSON d] fresh_writer)) = json"
  using assms by (simp add: run_steps_def Response_JSON_def Response_Apply_def NewResponse_def fresh_writer_def
    header_step_def on_writer_def set_header_def write_bytes_def WriteHeader_def Let_def)

text \<open>A target whose first segment is a dot hides a scheme: cleaning drops the dot, and the browser is sent to the scheme.\<close>

lemma dot_hides_scheme:
  assumes "ve_url_Parse V (''./'' @ x) = Some \<lparr> pu_Scheme = [], pu_Host = [], pu_Opaque = [], pu_Path = ''./'' @ x \<rparr>"
    and "slash \<notin> set x" and "named x" and "x \<noteq> ''..''" and "IsHTMX r"
  shows "get_header (rb_w (run_steps V r [Redirect (''./'' @ x)] fresh_writer)) HeaderRedirect = x"
proof -
  have segs: "segments (''./'' @ x) = [''.'', x]"
    using segments_last [OF assms(2)] by (simp add: slash_def)
  have x: "x \<noteq> []" using assms(3) by (simp add: named_def)
  have clean: "path_Clean (''./'' @ x) = x"
    using segs assms(3,4) x by (simp add: path_Clean_def rooted_def clean_step_def named_def slash_def Let_def)
  have "\<not> pathEscapesRoot (''./'' @ x)"
    unfolding pathEscapesRoot_def escapes_climbs [OF order_refl] segs using assms(3,4) by (simp add: depth_after_def named_def)
  with clean assms(1,5) show ?thesis
    by (simp add: run_steps_def Response_Redirect_def sanitizeRedirectURL_def NewResponse_def fresh_writer_def
      header_step_def on_writer_def set_header_def get_header_def Let_def)
qed

text \<open>A detail after a plain trigger is lost: the header is the two names, the detail is nowhere.\<close>

lemma detail_after_trigger_lost:
  assumes "ve_merge V a b d = None" and "a \<noteq> []"
  shows "get_header (rb_w (run_steps V r [Trigger a, TriggerWithDetail b d] fresh_writer)) HeaderTrigger = a @ '','' @ b"
  using assms by (simp add: run_steps_def trigger_step_def Response_TriggerWithDetail_def setTriggerWithDetail_def
    NewResponse_def fresh_writer_def on_writer_def set_header_def get_header_def setTriggerHeader_def Let_def)

end
