(* ===== verification/Spec2Isabelle.thy ===== *)
theory Spec2Isabelle
  imports Error_Mapping User_Readmodel Tenant_Readmodel Bot_Readmodel Membership_Readmodel
    Lockout Token_Stores Casbin_Projection Dispatch_Gate Sync_Push Sync_Pull
    Service_OAuth_Login Service_WebAuthn_Login Service_Http Dashboard_Access Sse_Replay Admin_Panel Setup Decode Response
begin

text \<open>
  A verification development for \<open>cqrs-htmx\<close>, a Go library for web applications with command and query separation
  and event sourcing. Paths are relative to \<open>src/\<close>.

  \<^bold>\<open>The program.\<close> Users, tenants, memberships and bots are event-sourced aggregates: a decider accepts or refuses a
  command against the state folded from a stream of events, projections keep read models and the access rows of an
  authorization engine. The user service runs the operations of accounts over them: sessions, second factors, OAuth2
  and WebAuthn logins, grants, import and export. The root package turns HTTP requests into commands and queries,
  checks who may dispatch what, maps errors to answers and syncs clients. The dashboard shows journals, the admin
  panel runs operations, the transport feeds events to browsers, and \<open>setup\<close> composes all of them into one bundle
  of routes.

  \<^bold>\<open>Conventions\<close> (\<open>Prelude\<close>). A string and a byte slice of Go are lists of bytes, a map is an association list, where
  its order can be seen, or a function; a duration and a point in time are integers of nanoseconds; a fallible function
  answers \<open>err + 'a\<close>; a panic is an answer of its own or no value. Structs are records and enums datatypes with the
  names of the source; a name that clashes has a prefix. What is not in the repository (the event library, codecs, the
  random source, the clock, databases, identity providers) is a parameter, collected in records whose names end in
  \<open>env\<close>; predicates such as \<open>env_ok\<close>, \<open>errorfamily_ok\<close> and \<open>ids_ok\<close> state the documented facts that are relied on.
  Every property whose statement has a hypothesis is applied at concrete values in the theorem \<open>_witness\<close> after it.

  \<^bold>\<open>Foundations.\<close>
  \<^item> \<open>Errors\<close>, \<open>Error_Mapping\<close>: \<open>httperr\<close>, the tree of wrapped errors with \<open>Is\<close> and \<open>As\<close>, statuses, codes and bodies;
    what a public reader of a server fault sees depends on its family alone.
  \<^item> \<open>Identity\<close>, \<open>Upcaster\<close>, \<open>Fold\<close>: \<open>identity-model\<close>, its identifiers, payloads, schema versions and folds.
  \<^item> \<open>Base64\<close>, \<open>Url_Query\<close>, \<open>Redirects\<close>, \<open>Serve_Mux\<close>, \<open>Mux_Conflicts\<close>: the parts of the Go standard library the
    claims depend on, written out: encodings, query strings, path cleaning, the router and its registration.

  \<^bold>\<open>Aggregates and projections.\<close>
  \<^item> \<open>Aggregate\<close> holds the contract of an aggregate as the locale \<open>specified\<close>: a decider, its events and the fold
    implement an abstract contract of commands. \<open>User_Decider\<close>, \<open>Tenant_Decider\<close>, \<open>Bot_Decider\<close> and
    \<open>Membership_Decider\<close> (\<open>usermgmt/es_*decide*.go\<close>) interpret it, and conclude that every stream any sequence of
    commands can write folds to a consistent state.
  \<^item> \<open>Projection\<close> holds the contract of a projection under delivery at least once (the locales \<open>projection\<close> and
    \<open>readmodel\<close>); \<open>User_Readmodel\<close>, \<open>Tenant_Readmodel\<close>, \<open>Bot_Readmodel\<close> and \<open>Membership_Readmodel\<close> interpret it:
    the projections show the folded states, and lookups by a key only answer who holds it.
  \<^item> \<open>Authz\<close>, \<open>Casbin_Projection\<close>: the authorization engine and the rows derived from events, which the
    events change as they change an access matrix.
  \<^item> \<open>Expiry\<close>, \<open>Lockout\<close>, \<open>Token_Stores\<close>: sweeps, the account lockout as an automaton, and tokens that are answered
    once (the locales \<open>expiring\<close> and \<open>one_time\<close>).

  \<^bold>\<open>The user service.\<close> \<open>Service\<close> is its state and dispatch; \<open>Service_Factors\<close>, \<open>Service_OAuth\<close>, \<open>Service_WebAuthn\<close>,
  \<open>Service_Admin\<close> and \<open>Service_Import\<close> are its operations, \<open>Service_Run\<close> all of them as one type with what each may do
  (\<open>op_guard\<close>). \<open>Service_Dispatch\<close> states what dispatching promises as a locale and interprets it on the deciders and
  projections above. On it rest the claims about second factors, the limit of users, sessions (\<open>Service_Sessions\<close>) and
  the two kinds of login (\<open>Service_OAuth_Login\<close>, \<open>Service_WebAuthn_Login\<close>). \<open>Service_Http\<close> is its endpoints: whatever
  request reaches them runs operations on the caller's own account only. \<open>Audit_Log\<close> is its bounded log.

  \<^bold>\<open>Requests.\<close> \<open>Permission\<close> and \<open>Dispatch_Gate\<close> decide who may dispatch; \<open>Request_Pipeline\<close> is the path of a request
  to the dispatch as a sequence of effects; \<open>Decode\<close> reads bodies within their limits and \<open>Response\<close> builds answers
  whose redirects were checked; \<open>Sync_Push\<close> and \<open>Sync_Pull\<close> are the two halves of the sync protocol.

  \<^bold>\<open>Surfaces.\<close>
  \<^item> The dashboard: \<open>Dashboard_Scan\<close> (the locale \<open>seekable\<close>, a journal read page by page), \<open>Dashboard_Journal\<close>,
    \<open>Dashboard_Paging\<close>, \<open>Dashboard_Audit\<close>, \<open>Dashboard_Panels\<close>, \<open>Dashboard_Config\<close> and \<open>Dashboard_Access\<close>: every page
    ends, shows the slices of its journal, and changes nothing but for an admitted request of a page that may write.
  \<^item> \<open>Sse_Replay\<close>: replay and live delivery as interleaved steps; a connection that lost nothing is written every
    matching event after its cursor once.
  \<^item> \<open>Admin_Panel\<close> and \<open>Login_Page\<close>: what they show and do, and to whom.
  \<^item> \<open>Readiness\<close>, \<open>Setup_Config\<close>, \<open>Setup\<close>: health, the configuration of a bundle and its routes; an accepted bundle
    of plain paths outside \<open>/auth\<close> mounts without a conflict, behind the gates its manifest states.

  \<^bold>\<open>Loops and fuel.\<close> Scans that may not end are \<open>partial_function (option)\<close>, so that no answer is \<open>None\<close>; the claims
  about them show that there is an answer when the journal keeps its contract. The client of \<open>Sync_Pull\<close> has fuel, and
  a number above the number of events is shown to be enough. The loop of the upcaster and the pages of \<open>Dashboard_Paging\<close>
  have a measure. Integers are unbounded where the code's values cannot reach their bounds, words where identifiers
  and counters wrap (\<open>Identity\<close>, \<open>Sync_Pull\<close>), and written out with their wrap-around where a request can reach it
  (paging in \<open>Service_Http\<close>).

  \<^bold>\<open>Concurrency.\<close> Operations under a mutex are steps; the feed is an \<open>inductive\<close> relation of interleaved steps (in which
  events are published in the order of the journal, with a bounded number of them in flight), concurrent readiness
  checks are lists in the order in which they finish, and the claims hold for every order.

  \<^bold>\<open>Not modelled.\<close> HTML and the generated templates; SQL stores and the dialects of databases; the construction of the
  service (\<open>service_factory.go\<close>, \<open>es_setup.go\<close>, \<open>es_projection_setup.go\<close>), whose result is a parameter of \<open>Setup\<close>; the
  adapters of identity providers, Huma, DataStar and the third-party runtime (\<open>systemadapter\<close>), which call what is
  not in the repository; OpenAPI documents; logging, tracing and the middleware a consumer composes; examples, test
  kits and the upgrade tool.
\<close>

end
